(* ===== verification/Prelude.thy ===== *)
theory Prelude
  imports Main "HOL-Library.AList" "HOL-Library.Multiset" "HOL-Library.List_Lexorder"
    "HOL-Library.Char_ord"
begin

text \<open>
  Shared vocabulary of the development: error values, the callback discipline of the
  repository's listing methods, the parts of Go's \<^verbatim>\<open>strings\<close>, \<^verbatim>\<open>strconv\<close> and
  \<^verbatim>\<open>fmt\<close> packages that the sources use, and lemmas on association lists.

  A Go map is an association list: the list is the map together with the order in which the
  next \<^verbatim>\<open>range\<close> loop visits it. Go leaves that order open, so a theorem about a
  function that ranges over a map holds for every order: the association list is universally
  quantified.

  Strings are byte lists, as in Go.
\<close>

named_theorems go_simps \<open>evaluation of the modelled standard library\<close>
named_theorems table_simps \<open>lookup laws of association-list tables\<close>

section \<open>Errors\<close>

text \<open>
  An error value is its text, or one of the structured errors of
  \<^verbatim>\<open>application/validation/errors.go\<close>; \<open>Wrap\<close> is \<^verbatim>\<open>errors.Wrap\<close> and
  \<^verbatim>\<open>fmt.Errorf\<close> with a trailing \<^verbatim>\<open>: %w\<close>; a nil error is \<open>None\<close>.
\<close>

datatype error =
    ErrNotFound
  | Errorf string
  | Wrap string error
  | EntityNotFoundError string string
  | DependencyExistsError string string string
  | EntityAlreadyExistsError string string string string

fun error_text :: "error \<Rightarrow> string" where
  "error_text ErrNotFound = ''entity not found''"
| "error_text (Errorf m) = m"
| "error_text (Wrap m e) = m @ '': '' @ error_text e"
| "error_text (EntityNotFoundError ty ident) = ty @ '' with id '' @ ident @ '' not found''"
| "error_text (DependencyExistsError ty ident dep) =
     ''cannot delete '' @ ty @ '' with id '' @ ident @ '': it is referenced by '' @ dep"
| "error_text (EntityAlreadyExistsError ty ident details action) =
     (if action \<noteq> [] then
        ty @ '' with id '' @ ident @ '' already exists. '' @ details
          @ ''. Suggested action: '' @ action
      else ty @ '' with id '' @ ident @ '' already exists. '' @ details)"

text \<open>\<^verbatim>\<open>errors.Is(err, ports.ErrNotFound)\<close> looks through wrapped errors.\<close>

fun is_not_found :: "error \<Rightarrow> bool" where
  "is_not_found ErrNotFound = True"
| "is_not_found (Wrap m e) = is_not_found e"
| "is_not_found _ = False"

text \<open>\<^verbatim>\<open>if err := a; err != nil { return err }; b\<close>\<close>

definition and_then :: "error option \<Rightarrow> error option \<Rightarrow> error option" where
  "and_then a b = (case a of Some e \<Rightarrow> Some e | None \<Rightarrow> b)"

lemma and_then_simps [simp]:
  "and_then None b = b"
  "and_then (Some e) b = Some e"
  by (simp_all add: and_then_def)

lemma and_then_None_iff [simp]: "and_then a b = None \<longleftrightarrow> a = None \<and> b = None"
  by (simp add: and_then_def split: option.splits)

definition wrap_err :: "string \<Rightarrow> error option \<Rightarrow> error option" where
  "wrap_err m a = map_option (Wrap m) a"

lemma wrap_err_None_iff [simp]: "wrap_err m a = None \<longleftrightarrow> a = None"
  by (simp add: wrap_err_def)

text \<open>A loop that returns the first error its body yields.\<close>

fun first_error :: "('a \<Rightarrow> error option) \<Rightarrow> 'a list \<Rightarrow> error option" where
  "first_error f [] = None"
| "first_error f (x # xs) = and_then (f x) (first_error f xs)"

lemma first_error_None_iff [simp]:
  "first_error f xs = None \<longleftrightarrow> (\<forall>x\<in>set xs. f x = None)"
  by (induction xs) auto

section \<open>Listings and their callbacks\<close>

text \<open>
  A listing method of \<^verbatim>\<open>ports.Reader\<close> hands its items one by one to a callback and
  stops at the callback's first error; otherwise it ends with its own error. The items and
  that final error are the listing; the callback is state passing over what its closure
  captures.
\<close>

type_synonym 'a listing = "'a list \<times> error option"

fun run_consume ::
  "('a \<Rightarrow> 's \<Rightarrow> error option \<times> 's) \<Rightarrow> 'a list \<Rightarrow> error option \<Rightarrow> 's \<Rightarrow> error option \<times> 's"
where
  "run_consume f [] e s = (e, s)"
| "run_consume f (x # xs) e s =
     (case f x s of (Some err, s') \<Rightarrow> (Some err, s') | (None, s') \<Rightarrow> run_consume f xs e s')"

definition consume_listing ::
  "('a \<Rightarrow> 's \<Rightarrow> error option \<times> 's) \<Rightarrow> 'a listing \<Rightarrow> 's \<Rightarrow> error option \<times> 's"
where
  "consume_listing f l s = run_consume f (fst l) (snd l) s"

text \<open>A callback that never fails folds its update over the items.\<close>

lemma run_consume_pure: "run_consume (\<lambda>x s. (None, g x s)) xs e s = (e, fold g xs s)"
  by (induction xs arbitrary: s) simp_all

lemma consume_pure [simp]:
  "consume_listing (\<lambda>x s. (None, g x s)) l s = (snd l, fold g (fst l) s)"
  by (simp add: consume_listing_def run_consume_pure)

text \<open>The flag idiom: \<^verbatim>\<open>if cond(x) { flag = true }\<close>.\<close>

lemma fold_flag [simp]: "fold (\<lambda>x b. if P x then True else b) xs b \<longleftrightarrow> b \<or> (\<exists>x\<in>set xs. P x)"
  by (induction xs arbitrary: b) auto

text \<open>
  The break idiom: the callback sets the flag and returns a sentinel error to stop the
  listing, possibly after skipping some items. The flag tells whether an item matched; the
  returned error is the sentinel exactly then.
\<close>

lemma run_consume_skip_break:
  "run_consume (\<lambda>x b. if S x then (None, b) else if P x then (Some s, True) else (None, b)) xs e b =
    (if \<exists>x\<in>set xs. \<not> S x \<and> P x then (Some s, True) else (e, b))"
  by (induction xs arbitrary: b) auto

lemma consume_skip_break [simp]:
  "consume_listing (\<lambda>x b. if S x then (None, b) else if P x then (Some s, True) else (None, b)) l b =
    (if \<exists>x\<in>set (fst l). \<not> S x \<and> P x then (Some s, True) else (snd l, b))"
  by (simp add: consume_listing_def run_consume_skip_break)

lemma consume_break [simp]:
  "consume_listing (\<lambda>x b. if P x then (Some s, True) else (None, b)) l b =
    (if \<exists>x\<in>set (fst l). P x then (Some s, True) else (snd l, b))"
  using consume_skip_break [of "\<lambda>_. False" P s l b] by simp

section \<open>Strings\<close>

text \<open>\<^verbatim>\<open>strings.Split\<close> with a one-byte separator: always at least one part.\<close>

fun split_on :: "char \<Rightarrow> string \<Rightarrow> string list" where
  "split_on c [] = [[]]"
| "split_on c (x # xs) =
     (if x = c then [] # split_on c xs
      else (case split_on c xs of [] \<Rightarrow> [[x]] | w # ws \<Rightarrow> (x # w) # ws))"

text \<open>\<^verbatim>\<open>strings.Join\<close>\<close>

fun join :: "string \<Rightarrow> string list \<Rightarrow> string" where
  "join sep [] = []"
| "join sep [x] = x"
| "join sep (x # y # ys) = x @ sep @ join sep (y # ys)"

text \<open>\<^verbatim>\<open>fmt\<close>'s \<^verbatim>\<open>'%s'\<close>\<close>

definition quoted :: "string \<Rightarrow> string" where
  "quoted s = CHR 0x27 # s @ [CHR 0x27]"

text \<open>
  \<^verbatim>\<open>strings.TrimSpace\<close> on ASCII text; the white space that Unicode has beyond ASCII is not trimmed.
\<close>

definition is_space :: "char \<Rightarrow> bool" where
  "is_space c \<longleftrightarrow> c \<in> set [CHR '' '', CHR 0x09, CHR 0x0A, CHR 0x0B, CHR 0x0C, CHR 0x0D]"

definition trim_space :: "string \<Rightarrow> string" where
  "trim_space s = rev (dropWhile is_space (rev (dropWhile is_space s)))"

lemma split_on_ne [simp]: "split_on c s \<noteq> []"
  by (induction s) (auto split: list.splits)

lemma split_on_no_sep: "c \<notin> set s \<Longrightarrow> split_on c s = [s]"
  by (induction s) auto

lemma split_on_append:
  "c \<notin> set s \<Longrightarrow> split_on c (s @ c # t) = s # split_on c t"
  by (induction s) (auto split: list.splits)

lemma split_on_join:
  assumes "ws \<noteq> []" and "\<forall>w\<in>set ws. c \<notin> set w"
  shows "split_on c (join [c] ws) = ws"
  using assms
proof (induction "[c]" ws rule: join.induct)
  case 1
  then show ?case by simp
next
  case (2 x)
  then show ?case by (simp add: split_on_no_sep)
next
  case (3 x y ys)
  then show ?case by (simp add: split_on_append)
qed

lemma trim_space_id:
  assumes "\<forall>c\<in>set s. \<not> is_space c"
  shows "trim_space s = s"
proof -
  have "dropWhile is_space s = s" and "dropWhile is_space (rev s) = rev s"
    using assms by (auto simp: dropWhile_eq_self_iff hd_rev)
  then show ?thesis by (simp add: trim_space_def)
qed

section \<open>Decimal numbers\<close>

definition digit_val :: "char \<Rightarrow> nat option" where
  "digit_val c = (let n = of_char c in if 48 \<le> n \<and> n \<le> (57::nat) then Some (n - 48) else None)"

fun digits_val :: "nat \<Rightarrow> string \<Rightarrow> nat option" where
  "digits_val acc [] = Some acc"
| "digits_val acc (c # cs) =
     (case digit_val c of None \<Rightarrow> None | Some d \<Rightarrow> digits_val (10 * acc + d) cs)"

definition in_int64 :: "int \<Rightarrow> bool" where
  "in_int64 i \<longleftrightarrow> - (2 ^ 63) \<le> i \<and> i < 2 ^ 63"

text \<open>
  \<^verbatim>\<open>strconv.Atoi\<close>: an optional sign and at least one decimal digit; a syntax error or
  a value outside the 64-bit range is \<open>None\<close>.
\<close>

definition atoi :: "string \<Rightarrow> int option" where
  "atoi s =
     (let (neg, ds) =
        (case s of
           [] \<Rightarrow> (False, [])
         | c # cs \<Rightarrow> if c = CHR ''-'' then (True, cs)
                     else if c = CHR ''+'' then (False, cs) else (False, s))
      in if ds = [] then None
         else (case digits_val 0 ds of
                 None \<Rightarrow> None
               | Some n \<Rightarrow>
                   (let i = (if neg then - int n else int n)
                    in if in_int64 i then Some i else None)))"

fun nat_str :: "nat \<Rightarrow> string" where
  "nat_str n = (if n < 10 then [char_of (48 + n)]
                else nat_str (n div 10) @ [char_of (48 + n mod 10)])"

declare nat_str.simps [simp del]

text \<open>\<^verbatim>\<open>fmt\<close>'s \<^verbatim>\<open>%d\<close>\<close>

definition itoa :: "int \<Rightarrow> string" where
  "itoa i = (if i < 0 then CHR ''-'' # nat_str (nat (- i)) else nat_str (nat i))"

lemma digit_val_char_of: "d < 10 \<Longrightarrow> digit_val (char_of (48 + d)) = Some d"
  by (simp add: digit_val_def of_char_of)

lemma digits_val_append:
  "digits_val acc (xs @ ys) =
     (case digits_val acc xs of None \<Rightarrow> None | Some n \<Rightarrow> digits_val n ys)"
  by (induction xs arbitrary: acc) (auto split: option.splits)

lemma digits_val_nat_str: "digits_val 0 (nat_str n) = Some n"
proof (induction n rule: nat_str.induct)
  case (1 n)
  show ?case
  proof (cases "n < 10")
    case True
    then show ?thesis by (simp add: nat_str.simps [of n] digit_val_char_of)
  next
    case False
    with 1 show ?thesis
      by (simp add: nat_str.simps [of n] digits_val_append digit_val_char_of)
  qed
qed

lemma nat_str_ne [simp]: "nat_str n \<noteq> []"
  by (simp add: nat_str.simps [of n])

lemma digit_val_Some_char:
  assumes "digit_val c = Some d"
  shows "\<not> is_space c" and "c \<noteq> CHR '',''" and "c \<noteq> CHR ''-''" and "c \<noteq> CHR ''+''"
  using assms by (auto simp: digit_val_def is_space_def Let_def split: if_splits)

lemma digits_val_Some_digits:
  "digits_val acc s = Some n \<Longrightarrow> \<forall>c\<in>set s. \<exists>d. digit_val c = Some d"
  by (induction s arbitrary: acc) (auto split: option.splits)

lemma nat_str_digits: "c \<in> set (nat_str n) \<Longrightarrow> \<exists>d. digit_val c = Some d"
  using digits_val_Some_digits [OF digits_val_nat_str [of n]] by blast

lemma nat_str_clean:
  assumes "c \<in> set (nat_str n)"
  shows "\<not> is_space c" "c \<noteq> CHR '',''" "c \<noteq> CHR ''-''" "c \<noteq> CHR ''+''"
  using nat_str_digits [OF assms] digit_val_Some_char by blast+

lemma atoi_nat_str:
  assumes "in_int64 (int n)"
  shows "atoi (nat_str n) = Some (int n)"
proof -
  obtain c cs where s: "nat_str n = c # cs" by (cases "nat_str n") simp_all
  then have "c \<noteq> CHR ''-''" "c \<noteq> CHR ''+''"
    using nat_str_clean [of c n] by simp_all
  with s have "atoi (nat_str n) =
      (case digits_val 0 (nat_str n) of None \<Rightarrow> None
       | Some m \<Rightarrow> if in_int64 (int m) then Some (int m) else None)"
    by (simp add: atoi_def Let_def split: option.splits)
  with assms show ?thesis by (simp add: digits_val_nat_str)
qed

lemma atoi_itoa_nonneg:
  assumes "0 \<le> i" and "in_int64 i"
  shows "atoi (itoa i) = Some i"
  using assms atoi_nat_str [of "nat i"] by (simp add: itoa_def)

section \<open>Tables\<close>

type_synonym 'a table = "(string \<times> 'a) list"

lemma map_of_filter_key:
  "map_of (filter (\<lambda>(k, v). P k) t) k = (if P k then map_of t k else None)"
  by (induction t) auto

lemma map_of_update_table [table_simps]:
  "map_of (AList.update k v t) k' = (if k' = k then Some v else map_of t k')"
  by (simp add: AList.update_conv)

lemma map_of_delete_table [table_simps]:
  "map_of (AList.delete k t) k' = (if k' = k then None else map_of t k')"
  by (simp add: AList.delete_conv')

lemma set_update_table: "set (AList.update k v t) \<subseteq> insert (k, v) (set t)"
  by (induction t) auto

lemma set_delete_table: "set (AList.delete k t) \<subseteq> set t"
  by (auto simp: AList.delete_eq)

lemma update_fresh: "k \<notin> fst ` set t \<Longrightarrow> AList.update k v t = t @ [(k, v)]"
  by (induction t) auto

end
