(* ===== verification/Models.thy ===== *)
theory Models
  imports Prelude
begin

text \<open>
  The domain models of \<^verbatim>\<open>internal/domain/models\<close>: references and identifiers, the
  Kubernetes metadata every resource carries (\<^verbatim>\<open>kube_meta.go\<close>,
  \<^verbatim>\<open>condition_types.go\<close>, \<^verbatim>\<open>condition_proto.go\<close>), and the twelve resource
  kinds. Go embeds \<^verbatim>\<open>SelfRef\<close> in every kind; here every kind extends the record
  \<open>resource\<close>, so \<open>Key\<close> and the metadata operations are defined once.

  Pointer receivers are values: the metadata is embedded by value, so a nil receiver does
  not occur. Slices that are nil or empty are both \<open>[]\<close>: the only code that can tell them
  apart is \<^verbatim>\<open>reflect.DeepEqual\<close> in the service's update check, where it makes no
  difference to the outcome. The one map whose being nil matters, the port mapping's
  \<^verbatim>\<open>AccessPorts\<close>, is an option. Wall-clock time and fresh UUIDs come from an \<open>env\<close>, one reading
  per call.
\<close>

section \<open>Identifiers and references\<close>

datatype resource_identifier =
  ResourceIdentifier (rid_Name: string) (rid_Namespace: string)

definition namespaced_key :: "string \<Rightarrow> string \<Rightarrow> string" where
  "namespaced_key ns n = (if ns = [] then n else ns @ ''/'' @ n)"

definition rid_Key :: "resource_identifier \<Rightarrow> string" where
  "rid_Key r = (if rid_Namespace r = [] then rid_Name r
                else rid_Namespace r @ ''/'' @ rid_Name r)"

lemma rid_Key_namespaced: "rid_Key (ResourceIdentifier n ns) = namespaced_key ns n"
  by (simp add: rid_Key_def namespaced_key_def)

text \<open>Options of \<^verbatim>\<open>NewResourceIdentifier\<close>: only \<^verbatim>\<open>WithNamespace\<close> exists.\<close>

datatype resource_identifier_option = WithNamespace string

definition apply_rid_option ::
  "resource_identifier_option \<Rightarrow> resource_identifier \<Rightarrow> resource_identifier"
where
  "apply_rid_option opt r =
     (case opt of WithNamespace ns \<Rightarrow> ResourceIdentifier (rid_Name r) ns)"

definition NewResourceIdentifier ::
  "string \<Rightarrow> resource_identifier_option list \<Rightarrow> resource_identifier"
where
  "NewResourceIdentifier name opts = fold apply_rid_option opts (ResourceIdentifier name [])"

lemma NewResourceIdentifier_ns [simp]:
  "NewResourceIdentifier n [WithNamespace ns] = ResourceIdentifier n ns"
  by (simp add: NewResourceIdentifier_def apply_rid_option_def)

text \<open>
  Identifiers are ordered by namespace, then by name, with Go's byte order on strings.
\<close>

instantiation resource_identifier :: linorder
begin

definition less_eq_resource_identifier ::
  "resource_identifier \<Rightarrow> resource_identifier \<Rightarrow> bool"
where
  "less_eq_resource_identifier a b \<longleftrightarrow>
     rid_Namespace a < rid_Namespace b \<or>
     (rid_Namespace a = rid_Namespace b \<and> rid_Name a \<le> rid_Name b)"

definition less_resource_identifier ::
  "resource_identifier \<Rightarrow> resource_identifier \<Rightarrow> bool"
where
  "less_resource_identifier a b \<longleftrightarrow> a \<le> b \<and> \<not> b \<le> (a::resource_identifier)"

instance
  by standard
    (auto simp: less_eq_resource_identifier_def less_resource_identifier_def
      resource_identifier.expand)

end

text \<open>
  \<^verbatim>\<open>SortByNamespaceName\<close>'s comparison is the strict order of this instance.
\<close>

definition less_namespace_name ::
  "resource_identifier \<Rightarrow> resource_identifier \<Rightarrow> bool"
where
  "less_namespace_name a b =
     (if rid_Namespace a \<noteq> rid_Namespace b then rid_Namespace a < rid_Namespace b
      else rid_Name a < rid_Name b)"

lemma less_namespace_name_eq: "less_namespace_name a b \<longleftrightarrow> a < b"
  by (auto simp: less_namespace_name_def less_resource_identifier_def
      less_eq_resource_identifier_def)

record object_reference =
  ref_APIVersion :: string
  ref_Kind :: string
  ref_Name :: string

record nref = object_reference +
  ref_Namespace :: string

definition ref_id :: "nref \<Rightarrow> resource_identifier" where
  "ref_id r = NewResourceIdentifier (ref_Name r) [WithNamespace (ref_Namespace r)]"

text \<open>
  Two key functions exist for references. The methods \<^verbatim>\<open>x.ServiceRefKey()\<close> and
  \<^verbatim>\<open>x.AddressGroupRefKey()\<close> drop the separator for an empty namespace, as
  \<^verbatim>\<open>ResourceIdentifier.Key\<close> does; the package functions of the same names do not.
\<close>

definition method_RefKey :: "nref \<Rightarrow> string" where
  "method_RefKey r = (if ref_Namespace r = [] then ref_Name r
                      else ref_Namespace r @ ''/'' @ ref_Name r)"

definition ServiceRefKey :: "nref \<Rightarrow> string" where
  "ServiceRefKey r = ref_Namespace r @ ''/'' @ ref_Name r"

definition AddressGroupRefKey :: "nref \<Rightarrow> string" where
  "AddressGroupRefKey r = ref_Namespace r @ ''/'' @ ref_Name r"

definition NewServiceRef :: "string \<Rightarrow> resource_identifier_option list \<Rightarrow> nref" where
  "NewServiceRef name opts =
     (let i = NewResourceIdentifier name opts
      in \<lparr> ref_APIVersion = ''netguard.sgroups.io/v1beta1'', ref_Kind = ''Service'',
           ref_Name = rid_Name i, ref_Namespace = rid_Namespace i \<rparr>)"

definition NewAddressGroupRef :: "string \<Rightarrow> resource_identifier_option list \<Rightarrow> nref" where
  "NewAddressGroupRef name opts =
     (let i = NewResourceIdentifier name opts
      in \<lparr> ref_APIVersion = ''netguard.sgroups.io/v1beta1'', ref_Kind = ''AddressGroup'',
           ref_Name = rid_Name i, ref_Namespace = rid_Namespace i \<rparr>)"

lemma method_RefKey_eq: "method_RefKey r = rid_Key (ref_id r)"
  by (simp add: method_RefKey_def ref_id_def rid_Key_def)

lemma ServiceRefKey_eq_rid_Key:
  "ref_Namespace r \<noteq> [] \<Longrightarrow> ServiceRefKey r = rid_Key (ref_id r)"
  by (simp add: ServiceRefKey_def ref_id_def rid_Key_def)

section \<open>Environment: clock and UUIDs\<close>

datatype gotime = ZeroTime | At int

record env =
  env_uuid :: "nat \<Rightarrow> string"
  env_clock :: "nat \<Rightarrow> int"
  env_reads :: nat

definition NewString :: "env \<Rightarrow> string \<times> env" where
  "NewString e = (env_uuid e (env_reads e), e\<lparr>env_reads := Suc (env_reads e)\<rparr>)"

definition Now :: "env \<Rightarrow> int \<times> env" where
  "Now e = (env_clock e (env_reads e), e\<lparr>env_reads := Suc (env_reads e)\<rparr>)"

text \<open>\<^verbatim>\<open>uuid.NewString\<close> never returns the empty string.\<close>

definition uuids_nonempty :: "env \<Rightarrow> bool" where
  "uuids_nonempty e \<longleftrightarrow> (\<forall>n. env_uuid e n \<noteq> [])"

lemma NewString_fields [simp]:
  "env_uuid (snd (NewString e)) = env_uuid e"
  "env_clock (snd (NewString e)) = env_clock e"
  by (simp_all add: NewString_def)

lemma Now_fields [simp]:
  "env_uuid (snd (Now e)) = env_uuid e"
  "env_clock (snd (Now e)) = env_clock e"
  by (simp_all add: Now_def)

section \<open>Metadata\<close>

record condition =
  cond_Type :: string
  cond_Status :: string
  cond_ObservedGeneration :: int
  cond_LastTransitionTime :: gotime
  cond_Reason :: string
  cond_Message :: string

record managed_field =
  mf_Manager :: string
  mf_Operation :: string
  mf_APIVersion :: string
  mf_Time :: "gotime option"
  mf_FieldsType :: string
  mf_FieldsV1 :: "string option"
  mf_Subresource :: string

record meta =
  UID :: string
  ResourceVersion :: string
  Generation :: int
  CreationTS :: gotime
  Labels :: "(string \<times> string) list"
  Annotations :: "(string \<times> string) list"
  GeneratedName :: string
  ManagedFields :: "managed_field list"
  Finalizers :: "string list"
  Conditions :: "condition list"
  ObservedGeneration :: int

definition empty_meta :: meta where
  "empty_meta = \<lparr> UID = [], ResourceVersion = [], Generation = 0, CreationTS = ZeroTime,
     Labels = [], Annotations = [], GeneratedName = [], ManagedFields = [], Finalizers = [],
     Conditions = [], ObservedGeneration = 0 \<rparr>"

definition TouchOnCreate :: "env \<Rightarrow> meta \<Rightarrow> meta \<times> env" where
  "TouchOnCreate e m0 =
     (let (m1, e1) = (if CreationTS m0 = ZeroTime
                      then (m0\<lparr>CreationTS := At (fst (Now e))\<rparr>, snd (Now e)) else (m0, e));
          m2 = (if Generation m1 = 0 then m1\<lparr>Generation := 1\<rparr> else m1);
          (m3, e3) = (if UID m2 = []
                      then (m2\<lparr>UID := fst (NewString e1)\<rparr>, snd (NewString e1)) else (m2, e1));
          m4 = (if ObservedGeneration m3 = 0
                then m3\<lparr>ObservedGeneration := Generation m3\<rparr> else m3)
      in (m4, e3))"

definition TouchOnWrite :: "string \<Rightarrow> meta \<Rightarrow> meta" where
  "TouchOnWrite newRV m =
     (let m1 = m\<lparr>ResourceVersion := newRV\<rparr>
      in m1\<lparr>ObservedGeneration := Generation m1\<rparr>)"

lemma TouchOnCreate_fields:
  "Conditions (fst (TouchOnCreate e m)) = Conditions m"
  "ResourceVersion (fst (TouchOnCreate e m)) = ResourceVersion m"
  "Labels (fst (TouchOnCreate e m)) = Labels m"
  "Annotations (fst (TouchOnCreate e m)) = Annotations m"
  "Finalizers (fst (TouchOnCreate e m)) = Finalizers m"
  "ManagedFields (fst (TouchOnCreate e m)) = ManagedFields m"
  "Generation (fst (TouchOnCreate e m)) = (if Generation m = 0 then 1 else Generation m)"
  "CreationTS m \<noteq> ZeroTime \<Longrightarrow> CreationTS (fst (TouchOnCreate e m)) = CreationTS m"
  "CreationTS (fst (TouchOnCreate e m)) \<noteq> ZeroTime"
  "UID m \<noteq> [] \<Longrightarrow> UID (fst (TouchOnCreate e m)) = UID m"
  "uuids_nonempty e \<Longrightarrow> UID (fst (TouchOnCreate e m)) \<noteq> []"
  "env_uuid (snd (TouchOnCreate e m)) = env_uuid e"
  by (auto simp: TouchOnCreate_def Let_def uuids_nonempty_def NewString_def Now_def)

subsection \<open>Conditions\<close>

text \<open>\<^verbatim>\<open>SetCondition\<close> replaces the first condition of the type or appends.\<close>

fun set_condition_list :: "condition \<Rightarrow> condition list \<Rightarrow> condition list" where
  "set_condition_list c [] = [c]"
| "set_condition_list c (x # xs) =
     (if cond_Type x = cond_Type c then c # xs else x # set_condition_list c xs)"

definition SetCondition :: "condition \<Rightarrow> meta \<Rightarrow> meta" where
  "SetCondition c m = m\<lparr>Conditions := set_condition_list c (Conditions m)\<rparr>"

definition GetCondition :: "string \<Rightarrow> meta \<Rightarrow> condition option" where
  "GetCondition ty m = find (\<lambda>c. cond_Type c = ty) (Conditions m)"

definition IsConditionTrue :: "string \<Rightarrow> meta \<Rightarrow> bool" where
  "IsConditionTrue ty m =
     (case GetCondition ty m of None \<Rightarrow> False | Some c \<Rightarrow> cond_Status c = ''True'')"

definition ConditionReady :: string where "ConditionReady = ''Ready''"

definition ConditionSynced :: string where "ConditionSynced = ''Synced''"

definition ConditionValidated :: string where "ConditionValidated = ''Validated''"

definition ConditionError :: string where "ConditionError = ''Error''"

definition new_condition ::
  "string \<Rightarrow> env \<Rightarrow> string \<Rightarrow> string \<Rightarrow> string \<Rightarrow> condition \<times> env"
where
  "new_condition ty e status reason message =
     (\<lparr> cond_Type = ty, cond_Status = status, cond_ObservedGeneration = 0,
        cond_LastTransitionTime = At (fst (Now e)), cond_Reason = reason,
        cond_Message = message \<rparr>, snd (Now e))"

definition NewReadyCondition :: "env \<Rightarrow> string \<Rightarrow> string \<Rightarrow> string \<Rightarrow> condition \<times> env" where
  "NewReadyCondition = new_condition ConditionReady"

definition NewSyncedCondition :: "env \<Rightarrow> string \<Rightarrow> string \<Rightarrow> string \<Rightarrow> condition \<times> env" where
  "NewSyncedCondition = new_condition ConditionSynced"

definition NewValidatedCondition :: "env \<Rightarrow> string \<Rightarrow> string \<Rightarrow> string \<Rightarrow> condition \<times> env" where
  "NewValidatedCondition = new_condition ConditionValidated"

definition NewErrorCondition :: "env \<Rightarrow> string \<Rightarrow> string \<Rightarrow> condition \<times> env" where
  "NewErrorCondition e = new_condition ConditionError e ''True''"

definition SetReadyCondition ::
  "env \<Rightarrow> string \<Rightarrow> string \<Rightarrow> string \<Rightarrow> meta \<Rightarrow> meta \<times> env"
where
  "SetReadyCondition e status reason message m =
     (let (c, e') = NewReadyCondition e status reason message in (SetCondition c m, e'))"

definition SetSyncedCondition ::
  "env \<Rightarrow> string \<Rightarrow> string \<Rightarrow> string \<Rightarrow> meta \<Rightarrow> meta \<times> env"
where
  "SetSyncedCondition e status reason message m =
     (let (c, e') = NewSyncedCondition e status reason message in (SetCondition c m, e'))"

definition SetValidatedCondition ::
  "env \<Rightarrow> string \<Rightarrow> string \<Rightarrow> string \<Rightarrow> meta \<Rightarrow> meta \<times> env"
where
  "SetValidatedCondition e status reason message m =
     (let (c, e') = NewValidatedCondition e status reason message in (SetCondition c m, e'))"

definition SetErrorCondition :: "env \<Rightarrow> string \<Rightarrow> string \<Rightarrow> meta \<Rightarrow> meta \<times> env" where
  "SetErrorCondition e reason message m =
     (let (c, e') = NewErrorCondition e reason message in (SetCondition c m, e'))"

text \<open>\<^verbatim>\<open>ClearErrorCondition\<close> removes the first Error condition.\<close>

fun remove_first :: "('a \<Rightarrow> bool) \<Rightarrow> 'a list \<Rightarrow> 'a list" where
  "remove_first P [] = []"
| "remove_first P (x # xs) = (if P x then xs else x # remove_first P xs)"

definition ClearErrorCondition :: "meta \<Rightarrow> meta" where
  "ClearErrorCondition m =
     m\<lparr>Conditions := remove_first (\<lambda>c. cond_Type c = ConditionError) (Conditions m)\<rparr>"

definition IsReady :: "meta \<Rightarrow> bool" where
  "IsReady m = IsConditionTrue ConditionReady m"

definition IsSynced :: "meta \<Rightarrow> bool" where
  "IsSynced m = IsConditionTrue ConditionSynced m"

definition IsValidated :: "meta \<Rightarrow> bool" where
  "IsValidated m = IsConditionTrue ConditionValidated m"

definition HasError :: "meta \<Rightarrow> bool" where
  "HasError m = IsConditionTrue ConditionError m"

text \<open>The invariant the writers keep: at most one condition per type.\<close>

definition conditions_ok :: "meta \<Rightarrow> bool" where
  "conditions_ok m \<longleftrightarrow> distinct (map cond_Type (Conditions m))"

lemma find_set_condition:
  "find (\<lambda>c. cond_Type c = ty) (set_condition_list c cs) =
     (if ty = cond_Type c then Some c else find (\<lambda>c. cond_Type c = ty) cs)"
  by (induction cs) auto

lemma types_set_condition:
  "cond_Type ` set (set_condition_list c cs) = insert (cond_Type c) (cond_Type ` set cs)"
  by (induction cs) auto

lemma distinct_set_condition:
  "distinct (map cond_Type cs) \<Longrightarrow> distinct (map cond_Type (set_condition_list c cs))"
  by (induction cs) (auto simp: types_set_condition image_iff)

lemma GetCondition_SetCondition:
  "GetCondition ty (SetCondition c m) =
     (if ty = cond_Type c then Some c else GetCondition ty m)"
  by (simp add: GetCondition_def SetCondition_def find_set_condition)

lemma find_remove_first:
  assumes "distinct (map cond_Type cs)"
  shows "find (\<lambda>c. cond_Type c = ty) (remove_first (\<lambda>c. cond_Type c = t) cs) =
           (if ty = t then None else find (\<lambda>c. cond_Type c = ty) cs)"
  using assms by (induction cs) (auto simp: find_None_iff image_iff)

lemma set_remove_first: "set (remove_first P xs) \<subseteq> set xs"
  by (induction xs) auto

lemma distinct_remove_first:
  "distinct (map f xs) \<Longrightarrow> distinct (map f (remove_first P xs))"
  by (induction xs) (use set_remove_first in fastforce)+

subsection \<open>Managed fields\<close>

definition same_field_owner :: "managed_field \<Rightarrow> managed_field \<Rightarrow> bool" where
  "same_field_owner a b \<longleftrightarrow> mf_Manager a = mf_Manager b \<and> mf_Operation a = mf_Operation b \<and>
     mf_Subresource a = mf_Subresource b"

fun add_managed_field_list :: "managed_field \<Rightarrow> managed_field list \<Rightarrow> managed_field list" where
  "add_managed_field_list f [] = [f]"
| "add_managed_field_list f (x # xs) =
     (if same_field_owner x f then f # xs else x # add_managed_field_list f xs)"

definition AddManagedField :: "managed_field \<Rightarrow> meta \<Rightarrow> meta" where
  "AddManagedField f m = m\<lparr>ManagedFields := add_managed_field_list f (ManagedFields m)\<rparr>"

definition RemoveManagedFieldsByManager :: "string \<Rightarrow> meta \<Rightarrow> meta" where
  "RemoveManagedFieldsByManager mgr m =
     m\<lparr>ManagedFields := filter (\<lambda>f. mf_Manager f \<noteq> mgr) (ManagedFields m)\<rparr>"

end
