(* ===== verification/Resources.thy ===== *)
theory Resources
  imports Models
begin

text \<open>
  The twelve resource kinds of \<^verbatim>\<open>internal/domain/models\<close>, their operations, and the
  scopes and options of \<^verbatim>\<open>internal/domain/ports\<close> that the repository methods take.
\<close>

section \<open>Ports, protocols, traffic\<close>

type_synonym transport_protocol = string

definition TCP :: transport_protocol where "TCP = ''TCP''"

definition UDP :: transport_protocol where "UDP = ''UDP''"

type_synonym traffic = string

definition INGRESS :: traffic where "INGRESS = ''INGRESS''"

definition EGRESS :: traffic where "EGRESS = ''EGRESS''"

type_synonym rule_action = string

definition ActionAccept :: rule_action where "ActionAccept = ''ACCEPT''"

definition ActionDrop :: rule_action where "ActionDrop = ''DROP''"

record port_range =
  pr_Start :: int
  pr_End :: int

type_synonym protocol_ports = "(transport_protocol \<times> port_range list) list"

text \<open>Reading a missing key of a Go map of slices gives the nil slice.\<close>

definition ports_of :: "protocol_ports \<Rightarrow> transport_protocol \<Rightarrow> port_range list" where
  "ports_of m p = (case map_of m p of None \<Rightarrow> [] | Some rs \<Rightarrow> rs)"

text \<open>\<^verbatim>\<open>m[p] = append(m[p], rs...)\<close>\<close>

definition append_ports ::
  "transport_protocol \<Rightarrow> port_range list \<Rightarrow> protocol_ports \<Rightarrow> protocol_ports"
where
  "append_ports p rs m = AList.update p (ports_of m p @ rs) m"

lemma ports_of_append [simp]:
  "ports_of (append_ports p rs m) q = (if q = p then ports_of m p @ rs else ports_of m q)"
  by (simp add: ports_of_def append_ports_def AList.update_conv)

lemma ports_of_Nil [simp]: "ports_of [] p = []"
  by (simp add: ports_of_def)

record ingress_port =
  ip_Protocol :: transport_protocol
  ip_Port :: string
  ip_Description :: string

record port_spec =
  ps_Source :: string
  ps_Destination :: string

record service_ports =
  sp_Ports :: protocol_ports

section \<open>The resource kinds\<close>

record resource =
  Name :: string
  Namespace :: string
  Meta :: meta

definition Key :: "'a resource_scheme \<Rightarrow> string" where
  "Key r = (if Namespace r = [] then Name r else Namespace r @ ''/'' @ Name r)"

definition self_id :: "'a resource_scheme \<Rightarrow> resource_identifier" where
  "self_id r = ResourceIdentifier (Name r) (Namespace r)"

lemma Key_self_id: "Key r = rid_Key (self_id r)"
  by (simp add: Key_def rid_Key_def self_id_def)

lemma Key_Meta_update [simp]: "Key (Meta_update f r) = Key r"
  by (simp add: Key_def)

record address_group_reference =
  agr_Ref :: nref
  agr_Source :: string

record service = resource +
  svc_Description :: string
  svc_IngressPorts :: "ingress_port list"
  svc_AddressGroups :: "nref list"
  svc_AggregatedAddressGroups :: "address_group_reference list"

record service_alias = resource +
  sa_ServiceRef :: nref

record network_item =
  ni_Name :: string
  ni_CIDR :: string
  ni_ApiVersion :: string
  ni_Kind :: string
  ni_Namespace :: string

record host_reference =
  hr_ObjectReference :: object_reference
  hr_UUID :: string
  hr_Source :: string

record address_group = resource +
  ag_DefaultAction :: rule_action
  ag_Logs :: bool
  ag_Trace :: bool
  ag_Networks :: "network_item list"
  ag_AddressGroupName :: string
  ag_Hosts :: "object_reference list"
  ag_AggregatedHosts :: "host_reference list"

record address_group_binding = resource +
  agb_ServiceRef :: nref
  agb_AddressGroupRef :: nref

record address_group_binding_policy = resource +
  agbp_AddressGroupRef :: nref
  agbp_ServiceRef :: nref

record service_ports_item =
  spi_ServiceRef :: nref
  spi_Ports :: protocol_ports

record address_group_port_mapping = resource +
  agpm_AccessPorts :: "(nref \<times> service_ports) list option"
  agpm_AccessPortsWithRefs :: "service_ports_item list"

record rule_s2s = resource +
  rs_Traffic :: traffic
  rs_ServiceLocalRef :: nref
  rs_ServiceRef :: nref
  rs_IEAgAgRuleRefs :: "nref list"
  rs_Trace :: bool

record ieagag_rule = resource +
  ie_Transport :: transport_protocol
  ie_Traffic :: traffic
  ie_AddressGroupLocal :: nref
  ie_AddressGroup :: nref
  ie_Ports :: "port_spec list"
  ie_Action :: rule_action
  ie_Logs :: bool
  ie_Trace :: bool
  ie_Priority :: int

record network = resource +
  nw_CIDR :: string
  nw_NetworkName :: string
  nw_IsBound :: bool
  nw_BindingRef :: "object_reference option"
  nw_AddressGroupRef :: "object_reference option"

record network_binding = resource +
  nb_NetworkRef :: object_reference
  nb_AddressGroupRef :: object_reference
  nb_NetworkItem :: network_item

record host = resource +
  h_UUID :: string
  h_HostName :: string
  h_AddressGroupName :: string
  h_IsBound :: bool
  h_BindingRef :: "object_reference option"
  h_AddressGroupRef :: "object_reference option"
  h_IpList :: "string list"

record host_binding = resource +
  hb_HostRef :: nref
  hb_AddressGroupRef :: nref

subsection \<open>Reference keys of the kinds\<close>

definition sa_ServiceRefKey :: "service_alias \<Rightarrow> string" where
  "sa_ServiceRefKey a = method_RefKey (sa_ServiceRef a)"

definition agb_ServiceRefKey :: "address_group_binding \<Rightarrow> string" where
  "agb_ServiceRefKey b = method_RefKey (agb_ServiceRef b)"

definition agb_AddressGroupRefKey :: "address_group_binding \<Rightarrow> string" where
  "agb_AddressGroupRefKey b = method_RefKey (agb_AddressGroupRef b)"

definition agbp_ServiceRefKey :: "address_group_binding_policy \<Rightarrow> string" where
  "agbp_ServiceRefKey p = method_RefKey (agbp_ServiceRef p)"

definition agbp_AddressGroupRefKey :: "address_group_binding_policy \<Rightarrow> string" where
  "agbp_AddressGroupRefKey p = method_RefKey (agbp_AddressGroupRef p)"

definition rs_ServiceLocalRefKey :: "rule_s2s \<Rightarrow> string" where
  "rs_ServiceLocalRefKey r = method_RefKey (rs_ServiceLocalRef r)"

definition rs_ServiceRefKey :: "rule_s2s \<Rightarrow> string" where
  "rs_ServiceRefKey r = method_RefKey (rs_ServiceRef r)"

definition ie_AddressGroupLocalKey :: "ieagag_rule \<Rightarrow> string" where
  "ie_AddressGroupLocalKey r = method_RefKey (ie_AddressGroupLocal r)"

definition ie_AddressGroupKey :: "ieagag_rule \<Rightarrow> string" where
  "ie_AddressGroupKey r = method_RefKey (ie_AddressGroup r)"

lemmas ref_key_defs =
  sa_ServiceRefKey_def agb_ServiceRefKey_def agb_AddressGroupRefKey_def
  agbp_ServiceRefKey_def agbp_AddressGroupRefKey_def rs_ServiceLocalRefKey_def
  rs_ServiceRefKey_def ie_AddressGroupLocalKey_def ie_AddressGroupKey_def

subsection \<open>Constructors and setters\<close>

definition NewHost :: "string \<Rightarrow> string \<Rightarrow> string \<Rightarrow> host" where
  "NewHost name ns uuid = \<lparr> Name = name, Namespace = ns, Meta = empty_meta, h_UUID = uuid,
     h_HostName = [], h_AddressGroupName = [], h_IsBound = False, h_BindingRef = None,
     h_AddressGroupRef = None, h_IpList = [] \<rparr>"

definition NewNetwork :: "string \<Rightarrow> string \<Rightarrow> string \<Rightarrow> network" where
  "NewNetwork name ns cidr = \<lparr> Name = name, Namespace = ns, Meta = empty_meta, nw_CIDR = cidr,
     nw_NetworkName = [], nw_IsBound = False, nw_BindingRef = None,
     nw_AddressGroupRef = None \<rparr>"

definition empty_network_item :: network_item where
  "empty_network_item =
     \<lparr> ni_Name = [], ni_CIDR = [], ni_ApiVersion = [], ni_Kind = [], ni_Namespace = [] \<rparr>"

definition NewNetworkBinding ::
  "string \<Rightarrow> string \<Rightarrow> object_reference \<Rightarrow> object_reference \<Rightarrow> network_binding"
where
  "NewNetworkBinding name ns nwref agref = \<lparr> Name = name, Namespace = ns, Meta = empty_meta,
     nb_NetworkRef = nwref, nb_AddressGroupRef = agref, nb_NetworkItem = empty_network_item \<rparr>"

definition NewHostBinding :: "string \<Rightarrow> string \<Rightarrow> nref \<Rightarrow> nref \<Rightarrow> host_binding" where
  "NewHostBinding name ns href agref = \<lparr> Name = name, Namespace = ns, Meta = empty_meta,
     hb_HostRef = href, hb_AddressGroupRef = agref \<rparr>"

definition NewHostReferenceFromHost :: "host \<Rightarrow> string \<Rightarrow> host_reference" where
  "NewHostReferenceFromHost h source =
     \<lparr> hr_ObjectReference = \<lparr> ref_APIVersion = ''netguard.sgroups.io/v1beta1'',
          ref_Kind = ''Host'', ref_Name = Name h \<rparr>,
       hr_UUID = h_UUID h, hr_Source = source \<rparr>"

text \<open>
  A host's \<^verbatim>\<open>IpList\<close> is a list of one-field structs; the model keeps the field.
\<close>

definition SetIpList :: "string list \<Rightarrow> host \<Rightarrow> host" where
  "SetIpList ips h = h\<lparr>h_IpList := ips\<rparr>"

definition GetIpList :: "host \<Rightarrow> string list" where
  "GetIpList h = h_IpList h"

definition HasIpList :: "host \<Rightarrow> bool" where
  "HasIpList h \<longleftrightarrow> 0 < length (h_IpList h)"

definition AddIP :: "string \<Rightarrow> host \<Rightarrow> host" where
  "AddIP ip h = h\<lparr>h_IpList := h_IpList h @ [ip]\<rparr>"

definition ClearIpList :: "host \<Rightarrow> host" where
  "ClearIpList h = h\<lparr>h_IpList := []\<rparr>"

definition host_ClearBinding :: "host \<Rightarrow> host" where
  "host_ClearBinding h = h\<lparr>h_IsBound := False, h_BindingRef := None, h_AddressGroupRef := None\<rparr>"

definition network_ClearBinding :: "network \<Rightarrow> network" where
  "network_ClearBinding n =
     n\<lparr>nw_IsBound := False, nw_BindingRef := None, nw_AddressGroupRef := None\<rparr>"

subsection \<open>Finalizers of network bindings\<close>

definition AddressGroupSyncFinalizer :: string where
  "AddressGroupSyncFinalizer = ''netguard.sgroups.io/addressgroup-sync''"

definition HasFinalizer :: "string \<Rightarrow> network_binding \<Rightarrow> bool" where
  "HasFinalizer f nb \<longleftrightarrow> f \<in> set (Finalizers (Meta nb))"

definition AddFinalizer :: "string \<Rightarrow> network_binding \<Rightarrow> network_binding" where
  "AddFinalizer f nb =
     (if HasFinalizer f nb then nb
      else nb\<lparr>Meta := (Meta nb)\<lparr>Finalizers := Finalizers (Meta nb) @ [f]\<rparr>\<rparr>)"

definition RemoveFinalizer :: "string \<Rightarrow> network_binding \<Rightarrow> network_binding" where
  "RemoveFinalizer f nb =
     nb\<lparr>Meta := (Meta nb)\<lparr>Finalizers := filter (\<lambda>g. g \<noteq> f) (Finalizers (Meta nb))\<rparr>\<rparr>"

lemma HasFinalizer_Add: "HasFinalizer g (AddFinalizer f nb) \<longleftrightarrow> g = f \<or> HasFinalizer g nb"
  by (auto simp: HasFinalizer_def AddFinalizer_def)

lemma HasFinalizer_Remove:
  "HasFinalizer g (RemoveFinalizer f nb) \<longleftrightarrow> g \<noteq> f \<and> HasFinalizer g nb"
  by (auto simp: HasFinalizer_def RemoveFinalizer_def)

lemma RemoveFinalizer_Add:
  "\<not> HasFinalizer f nb \<Longrightarrow> RemoveFinalizer f (AddFinalizer f nb) = nb"
proof -
  assume "\<not> HasFinalizer f nb"
  then have "filter (\<lambda>g. g \<noteq> f) (Finalizers (Meta nb)) = Finalizers (Meta nb)"
    by (auto simp: HasFinalizer_def intro: filter_True)
  with \<open>\<not> HasFinalizer f nb\<close> show ?thesis
    by (simp add: AddFinalizer_def RemoveFinalizer_def)
qed

section \<open>Synchronisation operations, options and scopes\<close>

type_synonym sync_op = int

definition SyncOpNoOp :: sync_op where "SyncOpNoOp = 0"

definition SyncOpFullSync :: sync_op where "SyncOpFullSync = 1"

definition SyncOpUpsert :: sync_op where "SyncOpUpsert = 2"

definition SyncOpDelete :: sync_op where "SyncOpDelete = 3"

lemmas sync_op_defs = SyncOpNoOp_def SyncOpFullSync_def SyncOpUpsert_def SyncOpDelete_def

definition SyncOp_String :: "sync_op \<Rightarrow> string" where
  "SyncOp_String s =
     (if s = SyncOpNoOp then ''NoOp''
      else if s = SyncOpFullSync then ''FullSync''
      else if s = SyncOpUpsert then ''Upsert''
      else if s = SyncOpDelete then ''Delete''
      else ''Unknown'')"

definition ProtoToSyncOp :: "int \<Rightarrow> sync_op" where
  "ProtoToSyncOp p =
     (if p = 0 then SyncOpNoOp
      else if p = 1 then SyncOpFullSync
      else if p = 2 then SyncOpUpsert
      else if p = 3 then SyncOpDelete
      else SyncOpFullSync)"

definition SyncOpToProto :: "sync_op \<Rightarrow> int" where
  "SyncOpToProto s =
     (if s = SyncOpNoOp then 0
      else if s = SyncOpFullSync then 1
      else if s = SyncOpUpsert then 2
      else if s = SyncOpDelete then 3
      else 1)"

definition IsValidSyncOp :: "sync_op \<Rightarrow> bool" where
  "IsValidSyncOp s \<longleftrightarrow> SyncOpNoOp \<le> s \<and> s \<le> SyncOpDelete"

text \<open>The options of the repository methods, and the operation they select.\<close>

datatype sync_option = SyncOption sync_op | ConditionOnlyOperation

definition select_sync_op :: "sync_option list \<Rightarrow> sync_op" where
  "select_sync_op opts =
     fold (\<lambda>opt op. case opt of SyncOption o' \<Rightarrow> o' | ConditionOnlyOperation \<Rightarrow> op)
       opts SyncOpFullSync"

text \<open>
  The two implementations of \<^verbatim>\<open>ports.Scope\<close>; a nil scope is \<open>None\<close>.
\<close>

datatype scope = EmptyScope | ResourceIdentifierScope "resource_identifier list"

fun scope_IsEmpty :: "scope \<Rightarrow> bool" where
  "scope_IsEmpty EmptyScope = True"
| "scope_IsEmpty (ResourceIdentifierScope ids) = (length ids = 0)"

fun scope_String :: "scope \<Rightarrow> string" where
  "scope_String EmptyScope = ''empty''"
| "scope_String (ResourceIdentifierScope ids) =
     (if scope_IsEmpty (ResourceIdentifierScope ids) then ''empty''
      else ''identifiers('' @ join '','' (map rid_Key ids) @ '')'')"

section \<open>Conditions on the wire\<close>

text \<open>
  The protobuf condition: the timestamp is a pointer, nil for the zero time. A non-nil
  timestamp carries any time value: \<^verbatim>\<open>timestamppb.New\<close> and \<^verbatim>\<open>AsTime\<close>
  are inverse to each other.
\<close>

record proto_condition =
  pc_Type :: string
  pc_Status :: string
  pc_ObservedGeneration :: int
  pc_LastTransitionTime :: "gotime option"
  pc_Reason :: string
  pc_Message :: string

definition empty_condition :: condition where
  "empty_condition = \<lparr> cond_Type = [], cond_Status = [], cond_ObservedGeneration = 0,
     cond_LastTransitionTime = ZeroTime, cond_Reason = [], cond_Message = [] \<rparr>"

definition ProtoConditionToK8s :: "proto_condition option \<Rightarrow> condition" where
  "ProtoConditionToK8s p =
     (case p of
        None \<Rightarrow> empty_condition
      | Some c \<Rightarrow>
          \<lparr> cond_Type = pc_Type c, cond_Status = pc_Status c,
            cond_ObservedGeneration = pc_ObservedGeneration c,
            cond_LastTransitionTime =
              (case pc_LastTransitionTime c of None \<Rightarrow> ZeroTime | Some t \<Rightarrow> t),
            cond_Reason = pc_Reason c, cond_Message = pc_Message c \<rparr>)"

definition K8sConditionToProto :: "condition \<Rightarrow> proto_condition" where
  "K8sConditionToProto c =
     \<lparr> pc_Type = cond_Type c, pc_Status = cond_Status c,
       pc_ObservedGeneration = cond_ObservedGeneration c,
       pc_LastTransitionTime =
         (if cond_LastTransitionTime c = ZeroTime then None else Some (cond_LastTransitionTime c)),
       pc_Reason = cond_Reason c, pc_Message = cond_Message c \<rparr>"

definition ProtoConditionsToK8s :: "proto_condition option list \<Rightarrow> condition list" where
  "ProtoConditionsToK8s ps =
     (if length ps = 0 then []
      else map ProtoConditionToK8s (filter (\<lambda>p. p \<noteq> None) ps))"

definition K8sConditionsToProto :: "condition list \<Rightarrow> proto_condition option list" where
  "K8sConditionsToProto cs =
     (if length cs = 0 then [] else map (\<lambda>c. Some (K8sConditionToProto c)) cs)"

lemma ProtoConditionToK8s_inverse: "ProtoConditionToK8s (Some (K8sConditionToProto c)) = c"
  by (cases c) (auto simp: ProtoConditionToK8s_def K8sConditionToProto_def split: gotime.splits)

lemma ProtoConditionsToK8s_inverse: "ProtoConditionsToK8s (K8sConditionsToProto cs) = cs"
  by (auto simp: ProtoConditionsToK8s_def K8sConditionsToProto_def comp_def
      ProtoConditionToK8s_inverse)

section \<open>Keys identify resources\<close>

text \<open>
  Kubernetes names and namespaces contain no slash; on such identifiers the key is
  injective.
\<close>

definition slash_free :: "resource_identifier \<Rightarrow> bool" where
  "slash_free r \<longleftrightarrow> CHR ''/'' \<notin> set (rid_Name r) \<and> CHR ''/'' \<notin> set (rid_Namespace r)"

lemma split_rid_Key:
  assumes "slash_free r"
  shows "split_on CHR ''/'' (rid_Key r) =
    (if rid_Namespace r = [] then [rid_Name r] else [rid_Namespace r, rid_Name r])"
  using assms by (simp add: slash_free_def rid_Key_def split_on_no_sep split_on_append)

lemma rid_Key_inject:
  assumes "slash_free a" and "slash_free b" and "rid_Key a = rid_Key b"
  shows "a = b"
proof -
  have "(if rid_Namespace a = [] then [rid_Name a] else [rid_Namespace a, rid_Name a]) =
        (if rid_Namespace b = [] then [rid_Name b] else [rid_Namespace b, rid_Name b])"
    using split_rid_Key [OF assms(1)] split_rid_Key [OF assms(2)] assms(3) by simp
  then show ?thesis
    by (intro resource_identifier.expand) (auto split: if_splits)
qed

section \<open>Properties\<close>

text \<open>
  On identifiers whose name and namespace contain no slash, which Kubernetes guarantees,
  the key determines the identifier.
\<close>
theorem key_identifies_resource:
  assumes "slash_free a" and "slash_free b"
  shows "rid_Key a = rid_Key b \<longleftrightarrow> a = b"
  using rid_Key_inject [OF assms] by blast

theorem key_identifies_resource_witness:
  "rid_Key (ResourceIdentifier ''web'' ''prod'') \<noteq> rid_Key (ResourceIdentifier ''web'' ''test'')"
  using key_identifies_resource [of "ResourceIdentifier ''web'' ''prod''" "ResourceIdentifier ''web'' ''test''"]
  by (simp add: slash_free_def)

text \<open>
  Metadata keeps at most one condition per type: setting a condition and clearing the
  error condition preserve this, a set condition is the one read back, other conditions are
  untouched, and after clearing no error is reported.
\<close>
theorem conditions_unique_per_type:
  assumes "conditions_ok m"
  shows "conditions_ok (SetCondition c m) \<and> conditions_ok (ClearErrorCondition m) \<and>
    GetCondition ty (SetCondition c m) = (if ty = cond_Type c then Some c else GetCondition ty m) \<and>
    GetCondition ty (ClearErrorCondition m) = (if ty = ConditionError then None else GetCondition ty m) \<and>
    \<not> HasError (ClearErrorCondition m)"
proof -
  have clear: "GetCondition ty (ClearErrorCondition m) =
      (if ty = ConditionError then None else GetCondition ty m)" for ty
    using assms by (simp add: GetCondition_def ClearErrorCondition_def conditions_ok_def find_remove_first)
  then have "\<not> HasError (ClearErrorCondition m)" by (simp add: HasError_def IsConditionTrue_def)
  moreover have "conditions_ok (SetCondition c m)" "conditions_ok (ClearErrorCondition m)"
    using assms by (simp_all add: conditions_ok_def SetCondition_def ClearErrorCondition_def
        distinct_set_condition distinct_remove_first)
  ultimately show ?thesis using clear GetCondition_SetCondition by simp
qed

theorem conditions_unique_per_type_witness:
  "\<not> HasError (ClearErrorCondition (SetCondition (fst (NewErrorCondition
      \<lparr> env_uuid = \<lambda>_. ''u'', env_clock = int, env_reads = 0 \<rparr> ''Failed'' ''m'')) empty_meta))"
  using conditions_unique_per_type [of "SetCondition (fst (NewErrorCondition
      \<lparr> env_uuid = \<lambda>_. ''u'', env_clock = int, env_reads = 0 \<rparr> ''Failed'' ''m'')) empty_meta"]
  by (simp add: conditions_ok_def SetCondition_def empty_meta_def)

end
