(* ===== verification/MemStore.thy ===== *)
theory MemStore
  imports Resources
begin

text \<open>
  The in-memory repository's write side (\<^verbatim>\<open>internal/infrastructure/repositories/mem\<close>):
  the database \<^verbatim>\<open>MemDB\<close>, the registry that opens writers, and the writer with one
  \<^verbatim>\<open>Sync...\<close> and one \<^verbatim>\<open>Delete...ByIDs\<close> method per resource kind,
  \<^verbatim>\<open>Commit\<close> and \<^verbatim>\<open>Abort\<close>.

  A writer's table is \<open>None\<close> while its Go map is nil; the first method that touches a kind
  copies the database's map. None of the methods fails. A writer is followed from its
  creation to its \<^verbatim>\<open>Commit\<close>, which hands its maps to the database; using the same
  writer for another transaction after that is outside the model.

  The locale \<open>table_sync\<close> states what a table's sync function promises, and
  \<open>table_sync_meta\<close> adds that metadata is filled and survives an upsert, which the policy
  table does not promise. The locale \<open>store_kind\<close> states what the writer's methods of one
  kind promise, and is interpreted for all twelve kinds.
\<close>

section \<open>The database and the writer\<close>

record mem_db =
  db_services :: "service table"
  db_serviceAliases :: "service_alias table"
  db_addressGroups :: "address_group table"
  db_addressGroupBindings :: "address_group_binding table"
  db_addressGroupPortMappings :: "address_group_port_mapping table"
  db_addressGroupBindingPolicies :: "address_group_binding_policy table"
  db_ruleS2S :: "rule_s2s table"
  db_ieAgAgRules :: "ieagag_rule table"
  db_networks :: "network table"
  db_networkBindings :: "network_binding table"
  db_hosts :: "host table"
  db_hostBindings :: "host_binding table"
  db_syncStatus :: gotime

definition NewMemDB :: mem_db where
  "NewMemDB = \<lparr> db_services = [],
     db_serviceAliases = [],
     db_addressGroups = [],
     db_addressGroupBindings = [],
     db_addressGroupPortMappings = [],
     db_addressGroupBindingPolicies = [],
     db_ruleS2S = [],
     db_ieAgAgRules = [],
     db_networks = [],
     db_networkBindings = [],
     db_hosts = [],
     db_hostBindings = [],
     db_syncStatus = ZeroTime \<rparr>"

record writer =
  w_services :: "service table option"
  w_serviceAliases :: "service_alias table option"
  w_addressGroups :: "address_group table option"
  w_addressGroupBindings :: "address_group_binding table option"
  w_addressGroupPortMappings :: "address_group_port_mapping table option"
  w_addressGroupBindingPolicies :: "address_group_binding_policy table option"
  w_ruleS2S :: "rule_s2s table option"
  w_ieAgAgRules :: "ieagag_rule table option"
  w_networks :: "network table option"
  w_networkBindings :: "network_binding table option"
  w_hosts :: "host table option"
  w_hostBindings :: "host_binding table option"

definition empty_writer :: writer where
  "empty_writer = \<lparr> w_services = None,
     w_serviceAliases = None,
     w_addressGroups = None,
     w_addressGroupBindings = None,
     w_addressGroupPortMappings = None,
     w_addressGroupBindingPolicies = None,
     w_ruleS2S = None,
     w_ieAgAgRules = None,
     w_networks = None,
     w_networkBindings = None,
     w_hosts = None,
     w_hostBindings = None \<rparr>"

text \<open>
  The getters copy the map under the read lock, the setters replace it under the write lock.
\<close>

definition GetServices :: "mem_db \<Rightarrow> service table" where
  "GetServices db = db_services db"

definition SetServices :: "service table \<Rightarrow> mem_db \<Rightarrow> mem_db" where
  "SetServices t db = db\<lparr>db_services := t\<rparr>"

definition GetServiceAliases :: "mem_db \<Rightarrow> service_alias table" where
  "GetServiceAliases db = db_serviceAliases db"

definition SetServiceAliases :: "service_alias table \<Rightarrow> mem_db \<Rightarrow> mem_db" where
  "SetServiceAliases t db = db\<lparr>db_serviceAliases := t\<rparr>"

definition GetAddressGroups :: "mem_db \<Rightarrow> address_group table" where
  "GetAddressGroups db = db_addressGroups db"

definition SetAddressGroups :: "address_group table \<Rightarrow> mem_db \<Rightarrow> mem_db" where
  "SetAddressGroups t db = db\<lparr>db_addressGroups := t\<rparr>"

definition GetAddressGroupBindings :: "mem_db \<Rightarrow> address_group_binding table" where
  "GetAddressGroupBindings db = db_addressGroupBindings db"

definition SetAddressGroupBindings :: "address_group_binding table \<Rightarrow> mem_db \<Rightarrow> mem_db" where
  "SetAddressGroupBindings t db = db\<lparr>db_addressGroupBindings := t\<rparr>"

definition GetAddressGroupPortMappings :: "mem_db \<Rightarrow> address_group_port_mapping table" where
  "GetAddressGroupPortMappings db = db_addressGroupPortMappings db"

definition SetAddressGroupPortMappings :: "address_group_port_mapping table \<Rightarrow> mem_db \<Rightarrow> mem_db" where
  "SetAddressGroupPortMappings t db = db\<lparr>db_addressGroupPortMappings := t\<rparr>"

definition GetAddressGroupBindingPolicies :: "mem_db \<Rightarrow> address_group_binding_policy table" where
  "GetAddressGroupBindingPolicies db = db_addressGroupBindingPolicies db"

definition SetAddressGroupBindingPolicies :: "address_group_binding_policy table \<Rightarrow> mem_db \<Rightarrow> mem_db" where
  "SetAddressGroupBindingPolicies t db = db\<lparr>db_addressGroupBindingPolicies := t\<rparr>"

definition GetRuleS2S :: "mem_db \<Rightarrow> rule_s2s table" where
  "GetRuleS2S db = db_ruleS2S db"

definition SetRuleS2S :: "rule_s2s table \<Rightarrow> mem_db \<Rightarrow> mem_db" where
  "SetRuleS2S t db = db\<lparr>db_ruleS2S := t\<rparr>"

definition GetIEAgAgRules :: "mem_db \<Rightarrow> ieagag_rule table" where
  "GetIEAgAgRules db = db_ieAgAgRules db"

definition SetIEAgAgRules :: "ieagag_rule table \<Rightarrow> mem_db \<Rightarrow> mem_db" where
  "SetIEAgAgRules t db = db\<lparr>db_ieAgAgRules := t\<rparr>"

definition GetNetworks :: "mem_db \<Rightarrow> network table" where
  "GetNetworks db = db_networks db"

definition SetNetworks :: "network table \<Rightarrow> mem_db \<Rightarrow> mem_db" where
  "SetNetworks t db = db\<lparr>db_networks := t\<rparr>"

definition GetNetworkBindings :: "mem_db \<Rightarrow> network_binding table" where
  "GetNetworkBindings db = db_networkBindings db"

definition SetNetworkBindings :: "network_binding table \<Rightarrow> mem_db \<Rightarrow> mem_db" where
  "SetNetworkBindings t db = db\<lparr>db_networkBindings := t\<rparr>"

definition GetHosts :: "mem_db \<Rightarrow> host table" where
  "GetHosts db = db_hosts db"

definition SetHosts :: "host table \<Rightarrow> mem_db \<Rightarrow> mem_db" where
  "SetHosts t db = db\<lparr>db_hosts := t\<rparr>"

definition GetHostBindings :: "mem_db \<Rightarrow> host_binding table" where
  "GetHostBindings db = db_hostBindings db"

definition SetHostBindings :: "host_binding table \<Rightarrow> mem_db \<Rightarrow> mem_db" where
  "SetHostBindings t db = db\<lparr>db_hostBindings := t\<rparr>"

definition GetSyncStatus :: "mem_db \<Rightarrow> gotime" where
  "GetSyncStatus db = db_syncStatus db"

definition SetSyncStatus :: "gotime \<Rightarrow> mem_db \<Rightarrow> mem_db" where
  "SetSyncStatus s db = db\<lparr>db_syncStatus := s\<rparr>"

lemmas db_access_defs =
  GetServices_def SetServices_def
  GetServiceAliases_def SetServiceAliases_def
  GetAddressGroups_def SetAddressGroups_def
  GetAddressGroupBindings_def SetAddressGroupBindings_def
  GetAddressGroupPortMappings_def SetAddressGroupPortMappings_def
  GetAddressGroupBindingPolicies_def SetAddressGroupBindingPolicies_def
  GetRuleS2S_def SetRuleS2S_def
  GetIEAgAgRules_def SetIEAgAgRules_def
  GetNetworks_def SetNetworks_def
  GetNetworkBindings_def SetNetworkBindings_def
  GetHosts_def SetHosts_def
  GetHostBindings_def SetHostBindings_def
  GetSyncStatus_def SetSyncStatus_def

section \<open>One table\<close>

text \<open>
  Both branches that store objects take creation time and UID from the stored object of the
  same key when the incoming object lacks them, then fill what is still missing.
\<close>

definition inherit_meta :: "meta \<Rightarrow> meta \<Rightarrow> meta" where
  "inherit_meta existing m0 =
     (let m1 = (if CreationTS m0 = ZeroTime then m0\<lparr>CreationTS := CreationTS existing\<rparr> else m0)
      in if UID m1 = [] then m1\<lparr>UID := UID existing\<rparr> else m1)"

definition ensureMetaFill :: "env \<Rightarrow> meta \<Rightarrow> meta \<times> env" where
  "ensureMetaFill e m =
     (let (m1, e1) = (if UID m = [] then TouchOnCreate e m else (m, e));
          (m2, e2) = (if ResourceVersion m1 = []
                      then (m1\<lparr>ResourceVersion := itoa (fst (Now e1))\<rparr>, snd (Now e1))
                      else (m1, e1));
          m3 = (if Generation m2 = 0 then m2\<lparr>Generation := 1\<rparr> else m2)
      in (m3, e2))"

fun upsert_items ::
  "env \<Rightarrow> 'a resource_scheme list \<Rightarrow> 'a resource_scheme table \<Rightarrow> 'a resource_scheme table \<times> env"
where
  "upsert_items e [] t = (t, e)"
| "upsert_items e (x # xs) t =
     (let m = (case map_of t (Key x) of
                 None \<Rightarrow> Meta x
               | Some existing \<Rightarrow> inherit_meta (Meta existing) (Meta x));
          (m', e') = ensureMetaFill e m
      in upsert_items e' xs (AList.update (Key x) (x\<lparr>Meta := m'\<rparr>) t))"

definition delete_keys :: "string list \<Rightarrow> 'v table \<Rightarrow> 'v table" where
  "delete_keys ks t = fold AList.delete ks t"

text \<open>
  A full sync first drops the objects in scope. Some kinds look the stored map key up in the
  scope, the others the object's own key.
\<close>

definition drop_by_key ::
  "resource_identifier list \<Rightarrow> 'a resource_scheme table \<Rightarrow> 'a resource_scheme table"
where
  "drop_by_key ids t = filter (\<lambda>(k, v). k \<notin> set (map rid_Key ids)) t"

definition drop_by_value ::
  "resource_identifier list \<Rightarrow> 'a resource_scheme table \<Rightarrow> 'a resource_scheme table"
where
  "drop_by_value ids t = filter (\<lambda>(k, v). Key v \<notin> set (map rid_Key ids)) t"

definition clear_scope ::
  "(resource_identifier list \<Rightarrow> 'v table \<Rightarrow> 'v table) \<Rightarrow> scope option \<Rightarrow> 'v table \<Rightarrow> 'v table"
where
  "clear_scope drp sc t =
     (case sc of
        None \<Rightarrow> []
      | Some s \<Rightarrow>
          if \<not> scope_IsEmpty s then
            (case s of ResourceIdentifierScope ids \<Rightarrow> drp ids t | EmptyScope \<Rightarrow> t)
          else [])"

definition sync_table ::
  "(resource_identifier list \<Rightarrow> 'a resource_scheme table \<Rightarrow> 'a resource_scheme table) \<Rightarrow>
   env \<Rightarrow> 'a resource_scheme list \<Rightarrow> scope option \<Rightarrow> sync_option list \<Rightarrow>
   'a resource_scheme table \<Rightarrow> 'a resource_scheme table \<times> env"
where
  "sync_table drp e xs sc opts t =
     (let syncOp = select_sync_op opts
      in if syncOp = SyncOpFullSync then upsert_items e xs (clear_scope drp sc t)
         else if syncOp = SyncOpUpsert then upsert_items e xs t
         else if syncOp = SyncOpDelete then (delete_keys (map Key xs) t, e)
         else (t, e))"

text \<open>
  Binding policies differ: a full sync fills metadata without consulting the stored object,
  and an upsert stores the object as it comes.
\<close>

fun fill_items ::
  "env \<Rightarrow> 'a resource_scheme list \<Rightarrow> 'a resource_scheme table \<Rightarrow> 'a resource_scheme table \<times> env"
where
  "fill_items e [] t = (t, e)"
| "fill_items e (x # xs) t =
     (let (m', e') = ensureMetaFill e (Meta x)
      in fill_items e' xs (AList.update (Key x) (x\<lparr>Meta := m'\<rparr>) t))"

definition put_items :: "'a resource_scheme list \<Rightarrow> 'a resource_scheme table \<Rightarrow> 'a resource_scheme table" where
  "put_items xs t = fold (\<lambda>x. AList.update (Key x) x) xs t"

definition sync_policy_table ::
  "env \<Rightarrow> 'a resource_scheme list \<Rightarrow> scope option \<Rightarrow> sync_option list \<Rightarrow>
   'a resource_scheme table \<Rightarrow> 'a resource_scheme table \<times> env"
where
  "sync_policy_table e xs sc opts t =
     (let syncOp = select_sync_op opts
      in if syncOp = SyncOpFullSync then fill_items e xs (clear_scope drop_by_key sc t)
         else if syncOp = SyncOpUpsert then (put_items xs t, e)
         else if syncOp = SyncOpDelete then (delete_keys (map Key xs) t, e)
         else (t, e))"

text \<open>The map a method works on: the writer's own, or a copy of the database's.\<close>

definition working :: "'v table \<Rightarrow> 'v table option \<Rightarrow> 'v table" where
  "working db_t w_t = (case w_t of None \<Rightarrow> db_t | Some t \<Rightarrow> t)"


section \<open>The writer's methods\<close>

definition SyncServices ::
  "env \<Rightarrow> mem_db \<Rightarrow> service list \<Rightarrow> scope option \<Rightarrow> sync_option list \<Rightarrow> writer \<Rightarrow> writer \<times> env"
where
  "SyncServices e db xs sc opts w =
     (let (t, e') = sync_table drop_by_value e xs sc opts (working (GetServices db) (w_services w))
      in (w\<lparr>w_services := Some t\<rparr>, e'))"

definition DeleteServicesByIDs ::
  "mem_db \<Rightarrow> resource_identifier list \<Rightarrow> writer \<Rightarrow> writer"
where
  "DeleteServicesByIDs db ids w =
     w\<lparr>w_services := Some (delete_keys (map rid_Key ids) (working (GetServices db) (w_services w)))\<rparr>"

definition SyncServiceAliases ::
  "env \<Rightarrow> mem_db \<Rightarrow> service_alias list \<Rightarrow> scope option \<Rightarrow> sync_option list \<Rightarrow> writer \<Rightarrow> writer \<times> env"
where
  "SyncServiceAliases e db xs sc opts w =
     (let (t, e') = sync_table drop_by_key e xs sc opts (working (GetServiceAliases db) (w_serviceAliases w))
      in (w\<lparr>w_serviceAliases := Some t\<rparr>, e'))"

definition DeleteServiceAliasesByIDs ::
  "mem_db \<Rightarrow> resource_identifier list \<Rightarrow> writer \<Rightarrow> writer"
where
  "DeleteServiceAliasesByIDs db ids w =
     w\<lparr>w_serviceAliases := Some (delete_keys (map rid_Key ids) (working (GetServiceAliases db) (w_serviceAliases w)))\<rparr>"

definition SyncAddressGroups ::
  "env \<Rightarrow> mem_db \<Rightarrow> address_group list \<Rightarrow> scope option \<Rightarrow> sync_option list \<Rightarrow> writer \<Rightarrow> writer \<times> env"
where
  "SyncAddressGroups e db xs sc opts w =
     (let (t, e') = sync_table drop_by_key e xs sc opts (working (GetAddressGroups db) (w_addressGroups w))
      in (w\<lparr>w_addressGroups := Some t\<rparr>, e'))"

definition DeleteAddressGroupsByIDs ::
  "mem_db \<Rightarrow> resource_identifier list \<Rightarrow> writer \<Rightarrow> writer"
where
  "DeleteAddressGroupsByIDs db ids w =
     w\<lparr>w_addressGroups := Some (delete_keys (map rid_Key ids) (working (GetAddressGroups db) (w_addressGroups w)))\<rparr>"

definition SyncAddressGroupBindings ::
  "env \<Rightarrow> mem_db \<Rightarrow> address_group_binding list \<Rightarrow> scope option \<Rightarrow> sync_option list \<Rightarrow> writer \<Rightarrow> writer \<times> env"
where
  "SyncAddressGroupBindings e db xs sc opts w =
     (let (t, e') = sync_table drop_by_key e xs sc opts (working (GetAddressGroupBindings db) (w_addressGroupBindings w))
      in (w\<lparr>w_addressGroupBindings := Some t\<rparr>, e'))"

definition DeleteAddressGroupBindingsByIDs ::
  "mem_db \<Rightarrow> resource_identifier list \<Rightarrow> writer \<Rightarrow> writer"
where
  "DeleteAddressGroupBindingsByIDs db ids w =
     w\<lparr>w_addressGroupBindings := Some (delete_keys (map rid_Key ids) (working (GetAddressGroupBindings db) (w_addressGroupBindings w)))\<rparr>"

definition SyncAddressGroupPortMappings ::
  "env \<Rightarrow> mem_db \<Rightarrow> address_group_port_mapping list \<Rightarrow> scope option \<Rightarrow> sync_option list \<Rightarrow> writer \<Rightarrow> writer \<times> env"
where
  "SyncAddressGroupPortMappings e db xs sc opts w =
     (let (t, e') = sync_table drop_by_key e xs sc opts (working (GetAddressGroupPortMappings db) (w_addressGroupPortMappings w))
      in (w\<lparr>w_addressGroupPortMappings := Some t\<rparr>, e'))"

definition DeleteAddressGroupPortMappingsByIDs ::
  "mem_db \<Rightarrow> resource_identifier list \<Rightarrow> writer \<Rightarrow> writer"
where
  "DeleteAddressGroupPortMappingsByIDs db ids w =
     w\<lparr>w_addressGroupPortMappings := Some (delete_keys (map rid_Key ids) (working (GetAddressGroupPortMappings db) (w_addressGroupPortMappings w)))\<rparr>"

definition SyncAddressGroupBindingPolicies ::
  "env \<Rightarrow> mem_db \<Rightarrow> address_group_binding_policy list \<Rightarrow> scope option \<Rightarrow> sync_option list \<Rightarrow> writer \<Rightarrow> writer \<times> env"
where
  "SyncAddressGroupBindingPolicies e db xs sc opts w =
     (let (t, e') = sync_policy_table e xs sc opts (working (GetAddressGroupBindingPolicies db) (w_addressGroupBindingPolicies w))
      in (w\<lparr>w_addressGroupBindingPolicies := Some t\<rparr>, e'))"

definition DeleteAddressGroupBindingPoliciesByIDs ::
  "mem_db \<Rightarrow> resource_identifier list \<Rightarrow> writer \<Rightarrow> writer"
where
  "DeleteAddressGroupBindingPoliciesByIDs db ids w =
     w\<lparr>w_addressGroupBindingPolicies := Some (delete_keys (map rid_Key ids) (working (GetAddressGroupBindingPolicies db) (w_addressGroupBindingPolicies w)))\<rparr>"

definition SyncRuleS2S ::
  "env \<Rightarrow> mem_db \<Rightarrow> rule_s2s list \<Rightarrow> scope option \<Rightarrow> sync_option list \<Rightarrow> writer \<Rightarrow> writer \<times> env"
where
  "SyncRuleS2S e db xs sc opts w =
     (let (t, e') = sync_table drop_by_key e xs sc opts (working (GetRuleS2S db) (w_ruleS2S w))
      in (w\<lparr>w_ruleS2S := Some t\<rparr>, e'))"

definition DeleteRuleS2SByIDs ::
  "mem_db \<Rightarrow> resource_identifier list \<Rightarrow> writer \<Rightarrow> writer"
where
  "DeleteRuleS2SByIDs db ids w =
     w\<lparr>w_ruleS2S := Some (delete_keys (map rid_Key ids) (working (GetRuleS2S db) (w_ruleS2S w)))\<rparr>"

definition SyncIEAgAgRules ::
  "env \<Rightarrow> mem_db \<Rightarrow> ieagag_rule list \<Rightarrow> scope option \<Rightarrow> sync_option list \<Rightarrow> writer \<Rightarrow> writer \<times> env"
where
  "SyncIEAgAgRules e db xs sc opts w =
     (let (t, e') = sync_table drop_by_key e xs sc opts (working (GetIEAgAgRules db) (w_ieAgAgRules w))
      in (w\<lparr>w_ieAgAgRules := Some t\<rparr>, e'))"

definition DeleteIEAgAgRulesByIDs ::
  "mem_db \<Rightarrow> resource_identifier list \<Rightarrow> writer \<Rightarrow> writer"
where
  "DeleteIEAgAgRulesByIDs db ids w =
     w\<lparr>w_ieAgAgRules := Some (delete_keys (map rid_Key ids) (working (GetIEAgAgRules db) (w_ieAgAgRules w)))\<rparr>"

definition SyncNetworks ::
  "env \<Rightarrow> mem_db \<Rightarrow> network list \<Rightarrow> scope option \<Rightarrow> sync_option list \<Rightarrow> writer \<Rightarrow> writer \<times> env"
where
  "SyncNetworks e db xs sc opts w =
     (let (t, e') = sync_table drop_by_value e xs sc opts (working (GetNetworks db) (w_networks w))
      in (w\<lparr>w_networks := Some t\<rparr>, e'))"

definition DeleteNetworksByIDs ::
  "mem_db \<Rightarrow> resource_identifier list \<Rightarrow> writer \<Rightarrow> writer"
where
  "DeleteNetworksByIDs db ids w =
     w\<lparr>w_networks := Some (delete_keys (map rid_Key ids) (working (GetNetworks db) (w_networks w)))\<rparr>"

definition SyncNetworkBindings ::
  "env \<Rightarrow> mem_db \<Rightarrow> network_binding list \<Rightarrow> scope option \<Rightarrow> sync_option list \<Rightarrow> writer \<Rightarrow> writer \<times> env"
where
  "SyncNetworkBindings e db xs sc opts w =
     (let (t, e') = sync_table drop_by_value e xs sc opts (working (GetNetworkBindings db) (w_networkBindings w))
      in (w\<lparr>w_networkBindings := Some t\<rparr>, e'))"

definition DeleteNetworkBindingsByIDs ::
  "mem_db \<Rightarrow> resource_identifier list \<Rightarrow> writer \<Rightarrow> writer"
where
  "DeleteNetworkBindingsByIDs db ids w =
     w\<lparr>w_networkBindings := Some (delete_keys (map rid_Key ids) (working (GetNetworkBindings db) (w_networkBindings w)))\<rparr>"

definition SyncHosts ::
  "env \<Rightarrow> mem_db \<Rightarrow> host list \<Rightarrow> scope option \<Rightarrow> sync_option list \<Rightarrow> writer \<Rightarrow> writer \<times> env"
where
  "SyncHosts e db xs sc opts w =
     (let (t, e') = sync_table drop_by_value e xs sc opts (working (GetHosts db) (w_hosts w))
      in (w\<lparr>w_hosts := Some t\<rparr>, e'))"

definition DeleteHostsByIDs ::
  "mem_db \<Rightarrow> resource_identifier list \<Rightarrow> writer \<Rightarrow> writer"
where
  "DeleteHostsByIDs db ids w =
     w\<lparr>w_hosts := Some (delete_keys (map rid_Key ids) (working (GetHosts db) (w_hosts w)))\<rparr>"

definition SyncHostBindings ::
  "env \<Rightarrow> mem_db \<Rightarrow> host_binding list \<Rightarrow> scope option \<Rightarrow> sync_option list \<Rightarrow> writer \<Rightarrow> writer \<times> env"
where
  "SyncHostBindings e db xs sc opts w =
     (let (t, e') = sync_table drop_by_value e xs sc opts (working (GetHostBindings db) (w_hostBindings w))
      in (w\<lparr>w_hostBindings := Some t\<rparr>, e'))"

definition DeleteHostBindingsByIDs ::
  "mem_db \<Rightarrow> resource_identifier list \<Rightarrow> writer \<Rightarrow> writer"
where
  "DeleteHostBindingsByIDs db ids w =
     w\<lparr>w_hostBindings := Some (delete_keys (map rid_Key ids) (working (GetHostBindings db) (w_hostBindings w)))\<rparr>"

definition set_if :: "('t \<Rightarrow> mem_db \<Rightarrow> mem_db) \<Rightarrow> 't option \<Rightarrow> mem_db \<Rightarrow> mem_db" where
  "set_if setter t db = (case t of None \<Rightarrow> db | Some m \<Rightarrow> setter m db)"

definition Commit :: "env \<Rightarrow> mem_db \<Rightarrow> writer \<Rightarrow> mem_db \<times> env" where
  "Commit e db0 w =
     (let db1 = set_if SetServices (w_services w) db0;
          db2 = set_if SetServiceAliases (w_serviceAliases w) db1;
          db3 = set_if SetAddressGroups (w_addressGroups w) db2;
          db4 = set_if SetAddressGroupBindings (w_addressGroupBindings w) db3;
          db5 = set_if SetAddressGroupPortMappings (w_addressGroupPortMappings w) db4;
          db6 = set_if SetAddressGroupBindingPolicies (w_addressGroupBindingPolicies w) db5;
          db7 = set_if SetRuleS2S (w_ruleS2S w) db6;
          db8 = set_if SetIEAgAgRules (w_ieAgAgRules w) db7;
          db9 = set_if SetNetworks (w_networks w) db8;
          db10 = set_if SetNetworkBindings (w_networkBindings w) db9;
          db11 = set_if SetHosts (w_hosts w) db10;
          db12 = set_if SetHostBindings (w_hostBindings w) db11
      in (SetSyncStatus (At (fst (Now e))) db12, snd (Now e)))"

definition Abort :: "writer \<Rightarrow> writer" where
  "Abort w = w\<lparr>w_services := None, w_addressGroups := None, w_addressGroupBindings := None, w_addressGroupPortMappings := None,
     w_addressGroupBindingPolicies := None, w_ruleS2S := None, w_serviceAliases := None, w_ieAgAgRules := None,
     w_networks := None, w_networkBindings := None, w_hosts := None, w_hostBindings := None\<rparr>"

section \<open>What a table promises\<close>

text \<open>
  Abstractly a table is a finite map from keys to payloads, the payload being the object
  without its metadata, and a sync is an operation on such maps.
\<close>

definition payload :: "'a resource_scheme \<Rightarrow> 'a resource_scheme" where
  "payload x = x\<lparr>Meta := empty_meta\<rparr>"

definition abs_table :: "'a resource_scheme table \<Rightarrow> string \<Rightarrow> 'a resource_scheme option" where
  "abs_table t k = map_option payload (map_of t k)"

text \<open>Of several items with one key the last one wins.\<close>

definition abs_batch :: "'a resource_scheme list \<Rightarrow> string \<Rightarrow> 'a resource_scheme option" where
  "abs_batch xs = map_of (rev (map (\<lambda>x. (Key x, payload x)) xs))"

text \<open>\<open>None\<close> stands for everything: a nil or empty scope.\<close>

definition scope_keys :: "scope option \<Rightarrow> string set option" where
  "scope_keys sc =
     (case sc of
        Some (ResourceIdentifierScope ids) \<Rightarrow> if ids = [] then None else Some (rid_Key ` set ids)
      | _ \<Rightarrow> None)"

definition spec_sync ::
  "sync_op \<Rightarrow> (string \<Rightarrow> 'v option) \<Rightarrow> string set option \<Rightarrow> (string \<Rightarrow> 'v option) \<Rightarrow>
   (string \<Rightarrow> 'v option)"
where
  "spec_sync syncOp new sc m =
     (if syncOp = SyncOpFullSync then
        (case sc of None \<Rightarrow> new | Some ks \<Rightarrow> m |` (- ks) ++ new)
      else if syncOp = SyncOpUpsert then m ++ new
      else if syncOp = SyncOpDelete then m |` (- dom new)
      else m)"

text \<open>A table is well formed when no key occurs twice and every object is under its own key.\<close>

definition table_ok :: "'a resource_scheme table \<Rightarrow> bool" where
  "table_ok t \<longleftrightarrow> distinct (map fst t) \<and> (\<forall>(k, v)\<in>set t. k = Key v)"

definition meta_filled :: "meta \<Rightarrow> bool" where
  "meta_filled m \<longleftrightarrow> UID m \<noteq> [] \<and> ResourceVersion m \<noteq> [] \<and> Generation m \<noteq> 0"

definition table_filled :: "'a resource_scheme table \<Rightarrow> bool" where
  "table_filled t \<longleftrightarrow> (\<forall>(k, v)\<in>set t. meta_filled (Meta v))"

subsection \<open>Lemmas on tables\<close>

lemma payload_simps [simp]:
  "payload (Meta_update f x) = payload x"
  "Key (payload x) = Key x"
  by (simp_all add: payload_def)

lemma abs_table_update [simp]:
  "abs_table (AList.update k v t) = (abs_table t)(k \<mapsto> payload v)"
  by (auto simp: abs_table_def AList.update_conv')

lemma abs_table_Nil [simp]: "abs_table [] = Map.empty"
  by (auto simp: abs_table_def)

lemma dom_abs_table: "dom (abs_table t) = fst ` set t"
  by (auto simp: abs_table_def dom_map_of_conv_image_fst [symmetric])

lemma abs_batch_Nil [simp]: "abs_batch [] = Map.empty"
  by (simp add: abs_batch_def)

lemma abs_batch_Cons [simp]: "abs_batch (x # xs) = [Key x \<mapsto> payload x] ++ abs_batch xs"
  by (simp add: abs_batch_def)

lemma dom_abs_batch [simp]: "dom (abs_batch xs) = Key ` set xs"
  by (induction xs) auto

lemma abs_batch_lookup:
  assumes "x \<in> set xs" and "\<And>y. y \<in> set xs \<Longrightarrow> Key y = Key x \<Longrightarrow> y = x"
  shows "abs_batch xs (Key x) = Some (payload x)"
proof -
  have "Key x \<in> dom (abs_batch xs)" using assms(1) by simp
  then obtain y where y: "abs_batch xs (Key x) = Some y" by blast
  then have "(Key x, y) \<in> set (map (\<lambda>x. (Key x, payload x)) xs)"
    unfolding abs_batch_def using map_of_SomeD by fastforce
  then obtain z where "z \<in> set xs" "Key z = Key x" "y = payload z" by auto
  moreover from this(1,2) have "z = x" by (rule assms(2))
  ultimately show ?thesis using y by simp
qed

lemma table_ok_Nil [simp]: "table_ok []"
  by (simp add: table_ok_def)

lemma table_ok_update: "table_ok t \<Longrightarrow> k = Key v \<Longrightarrow> table_ok (AList.update k v t)"
  using set_update_table [of k v t] by (fastforce simp: table_ok_def distinct_update)

lemma table_ok_filter: "table_ok t \<Longrightarrow> table_ok (filter P t)"
  by (auto simp: table_ok_def distinct_map_filter)

lemma table_ok_delete: "table_ok t \<Longrightarrow> table_ok (AList.delete k t)"
  by (simp add: AList.delete_eq table_ok_filter)

lemma table_ok_lookup: "table_ok t \<Longrightarrow> map_of t k = Some v \<Longrightarrow> Key v = k"
  by (auto simp: table_ok_def dest: map_of_SomeD)

lemma abs_table_delete [simp]: "abs_table (AList.delete k t) = (abs_table t)(k := None)"
  by (auto simp: abs_table_def AList.delete_conv')

lemma abs_delete_keys: "abs_table (delete_keys ks t) = abs_table t |` (- set ks)"
  unfolding delete_keys_def
  by (induction ks arbitrary: t) (auto simp: restrict_map_def fun_eq_iff)

lemma lookup_delete_keys:
  "map_of (delete_keys ks t) k = (if k \<in> set ks then None else map_of t k)"
  unfolding delete_keys_def by (induction ks arbitrary: t) (auto simp: table_simps)

lemma table_ok_delete_keys: "table_ok t \<Longrightarrow> table_ok (delete_keys ks t)"
  unfolding delete_keys_def by (induction ks arbitrary: t) (auto simp: table_ok_delete)

lemma set_delete_keys: "set (delete_keys ks t) \<subseteq> set t"
  unfolding delete_keys_def
  by (induction ks arbitrary: t) (use set_delete_table in fastforce)+

lemma drop_by_value_key: "table_ok t \<Longrightarrow> drop_by_value ids t = drop_by_key ids t"
  unfolding drop_by_value_def drop_by_key_def
proof (rule filter_cong [OF refl], clarify)
  fix k v
  assume "table_ok t" and "(k, v) \<in> set t"
  then have "Key v = k" by (metis (mono_tags, lifting) case_prodD table_ok_def)
  then show "(Key v \<notin> set (map rid_Key ids)) = (k \<notin> set (map rid_Key ids))" by simp
qed

lemma abs_drop_by_key: "abs_table (drop_by_key ids t) = abs_table t |` (- rid_Key ` set ids)"
  by (auto simp: abs_table_def drop_by_key_def map_of_filter_key restrict_map_def fun_eq_iff)

text \<open>Both ways of dropping remove the same objects from a well-formed table.\<close>

definition scope_drop ::
  "(resource_identifier list \<Rightarrow> 'a resource_scheme table \<Rightarrow> 'a resource_scheme table) \<Rightarrow> bool"
where
  "scope_drop drp \<longleftrightarrow> (\<forall>ids t. table_ok t \<longrightarrow> drp ids t = drop_by_key ids t) \<and>
     (\<forall>ids t. set (drp ids t) \<subseteq> set t)"

lemma scope_drop_key: "scope_drop drop_by_key"
  by (auto simp: scope_drop_def drop_by_key_def)

lemma scope_drop_value: "scope_drop drop_by_value"
  by (auto simp: scope_drop_def drop_by_value_key) (auto simp: drop_by_value_def)

lemma abs_clear_scope:
  assumes "scope_drop drp" and "table_ok t"
  shows "abs_table (clear_scope drp sc t) =
    (case scope_keys sc of None \<Rightarrow> Map.empty | Some ks \<Rightarrow> abs_table t |` (- ks))"
  using assms
  by (auto simp: clear_scope_def scope_keys_def scope_drop_def abs_drop_by_key
      split: option.splits scope.splits)

lemma table_ok_clear_scope:
  assumes "scope_drop drp" and "table_ok t"
  shows "table_ok (clear_scope drp sc t)"
  using assms
  by (auto simp: clear_scope_def scope_drop_def drop_by_key_def table_ok_filter
      split: option.splits scope.splits)

lemma set_clear_scope:
  assumes "scope_drop drp"
  shows "set (clear_scope drp sc t) \<subseteq> set t"
proof -
  have "set (drp ids t) \<subseteq> set t" for ids using assms by (simp add: scope_drop_def)
  then show ?thesis
    by (cases sc; cases "the sc") (auto simp: clear_scope_def)
qed

subsection \<open>Lemmas on the storing loops\<close>

lemma abs_upsert_items: "abs_table (fst (upsert_items e xs t)) = abs_table t ++ abs_batch xs"
  by (induction xs arbitrary: e t) (simp_all add: Let_def split_beta map_add_upd_left)

lemma abs_fill_items: "abs_table (fst (fill_items e xs t)) = abs_table t ++ abs_batch xs"
  by (induction xs arbitrary: e t) (simp_all add: Let_def split_beta map_add_upd_left)

lemma abs_put_items: "abs_table (put_items xs t) = abs_table t ++ abs_batch xs"
  unfolding put_items_def by (induction xs arbitrary: t) (simp_all add: map_add_upd_left)

lemma table_ok_upsert_items: "table_ok t \<Longrightarrow> table_ok (fst (upsert_items e xs t))"
  by (induction xs arbitrary: e t) (simp_all add: Let_def split_beta table_ok_update)

lemma table_ok_fill_items: "table_ok t \<Longrightarrow> table_ok (fst (fill_items e xs t))"
  by (induction xs arbitrary: e t) (simp_all add: Let_def split_beta table_ok_update)

lemma table_ok_put_items: "table_ok t \<Longrightarrow> table_ok (put_items xs t)"
  unfolding put_items_def by (induction xs arbitrary: t) (auto intro!: table_ok_update)

lemma upsert_items_frame:
  "k \<notin> Key ` set xs \<Longrightarrow> map_of (fst (upsert_items e xs t)) k = map_of t k"
  by (induction xs arbitrary: e t) (simp_all add: Let_def split_beta table_simps)

lemma put_items_frame: "k \<notin> Key ` set xs \<Longrightarrow> map_of (put_items xs t) k = map_of t k"
  unfolding put_items_def by (induction xs arbitrary: t) (auto simp: table_simps)

lemma itoa_ne [simp]: "itoa i \<noteq> []"
  by (simp add: itoa_def)

lemma ensureMetaFill_filled: "uuids_nonempty e \<Longrightarrow> meta_filled (fst (ensureMetaFill e m))"
  by (auto simp: ensureMetaFill_def meta_filled_def Let_def split_beta TouchOnCreate_fields)

lemma ensureMetaFill_env: "env_uuid (snd (ensureMetaFill e m)) = env_uuid e"
  by (auto simp: ensureMetaFill_def Let_def split_beta TouchOnCreate_fields)

lemma ensureMetaFill_keeps:
  "UID m \<noteq> [] \<Longrightarrow> UID (fst (ensureMetaFill e m)) = UID m"
  "UID m \<noteq> [] \<Longrightarrow> CreationTS (fst (ensureMetaFill e m)) = CreationTS m"
  by (auto simp: ensureMetaFill_def Let_def split_beta)

lemma table_filled_update:
  "table_filled t \<Longrightarrow> meta_filled (Meta v) \<Longrightarrow> table_filled (AList.update k v t)"
  using set_update_table [of k v t] by (fastforce simp: table_filled_def)

lemma table_filled_subset: "table_filled t \<Longrightarrow> set t' \<subseteq> set t \<Longrightarrow> table_filled t'"
  by (auto simp: table_filled_def)

lemma uuids_nonempty_cong: "env_uuid e = env_uuid e' \<Longrightarrow> uuids_nonempty e = uuids_nonempty e'"
  by (simp add: uuids_nonempty_def)

lemma table_filled_upsert_items:
  "uuids_nonempty e \<Longrightarrow> table_filled t \<Longrightarrow> table_filled (fst (upsert_items e xs t))"
proof (induction xs arbitrary: e t)
  case Nil
  then show ?case by simp
next
  case (Cons x xs)
  let ?m = "case map_of t (Key x) of None \<Rightarrow> Meta x
            | Some existing \<Rightarrow> inherit_meta (Meta existing) (Meta x)"
  have "uuids_nonempty (snd (ensureMetaFill e ?m))"
    using Cons.prems uuids_nonempty_cong [OF ensureMetaFill_env] by blast
  moreover have "table_filled (AList.update (Key x) (x\<lparr>Meta := fst (ensureMetaFill e ?m)\<rparr>) t)"
    using Cons.prems by (intro table_filled_update) (simp_all add: ensureMetaFill_filled)
  ultimately show ?case by (simp add: Let_def split_beta Cons.IH)
qed

lemma env_upsert_items: "env_uuid (snd (upsert_items e xs t)) = env_uuid e"
  by (induction xs arbitrary: e t) (simp_all add: Let_def split_beta ensureMetaFill_env)

lemma env_fill_items: "env_uuid (snd (fill_items e xs t)) = env_uuid e"
  by (induction xs arbitrary: e t) (simp_all add: Let_def split_beta ensureMetaFill_env)

lemma upsert_one_keeps_identity:
  assumes "map_of t (Key x) = Some old" and "UID (Meta x) = []" and "UID (Meta old) \<noteq> []"
  obtains new where "map_of (fst (upsert_items e [x] t)) (Key x) = Some new"
    and "UID (Meta new) = UID (Meta old)"
    and "CreationTS (Meta new) =
      (if CreationTS (Meta x) = ZeroTime then CreationTS (Meta old) else CreationTS (Meta x))"
  using assms that
  by (auto simp: Let_def split_beta table_simps ensureMetaFill_keeps inherit_meta_def)

section \<open>Interfaces\<close>

text \<open>A table's sync function refines the abstract one and keeps tables well formed.\<close>

locale table_sync =
  fixes tsync :: "env \<Rightarrow> 'a resource_scheme list \<Rightarrow> scope option \<Rightarrow> sync_option list \<Rightarrow>
    'a resource_scheme table \<Rightarrow> 'a resource_scheme table \<times> env"
  assumes refines: "table_ok t \<Longrightarrow> abs_table (fst (tsync e xs sc opts t)) =
      spec_sync (select_sync_op opts) (abs_batch xs) (scope_keys sc) (abs_table t)"
    and keeps_ok: "table_ok t \<Longrightarrow> table_ok (fst (tsync e xs sc opts t))"
    and upsert_frame: "select_sync_op opts = SyncOpUpsert \<Longrightarrow> k \<notin> Key ` set xs \<Longrightarrow>
      map_of (fst (tsync e xs sc opts t)) k = map_of t k"
    and env_uuid_kept: "env_uuid (snd (tsync e xs sc opts t)) = env_uuid e"
begin

lemma full_sync_keys:
  assumes "table_ok t" and "select_sync_op opts = SyncOpFullSync"
  shows "dom (abs_table (fst (tsync e xs sc opts t))) =
    (case scope_keys sc of None \<Rightarrow> {} | Some ks \<Rightarrow> dom (abs_table t) - ks) \<union> Key ` set xs"
  using assms by (auto simp: refines spec_sync_def split: option.splits)

lemma upsert_lookup:
  assumes "table_ok t" and "select_sync_op opts = SyncOpUpsert" and "x \<in> set xs"
    and "\<And>y. y \<in> set xs \<Longrightarrow> Key y = Key x \<Longrightarrow> y = x"
  shows "abs_table (fst (tsync e xs sc opts t)) (Key x) = Some (payload x)"
proof -
  have "abs_batch xs (Key x) = Some (payload x)"
    using assms(3,4) by (rule abs_batch_lookup)
  with assms show ?thesis by (simp add: refines spec_sync_def sync_op_defs)
qed

end

locale table_sync_meta = table_sync +
  assumes keeps_filled: "uuids_nonempty e \<Longrightarrow> table_filled t \<Longrightarrow>
      table_filled (fst (tsync e xs sc opts t))"
    and keeps_identity: "select_sync_op opts = SyncOpUpsert \<Longrightarrow> map_of t (Key x) = Some old \<Longrightarrow>
      UID (Meta x) = [] \<Longrightarrow> UID (Meta old) \<noteq> [] \<Longrightarrow>
      \<exists>new. map_of (fst (tsync e [x] sc opts t)) (Key x) = Some new \<and>
        UID (Meta new) = UID (Meta old) \<and>
        CreationTS (Meta new) =
          (if CreationTS (Meta x) = ZeroTime then CreationTS (Meta old) else CreationTS (Meta x))"

lemma sync_table_refines:
  assumes "scope_drop drp" and "table_ok t"
  shows "abs_table (fst (sync_table drp e xs sc opts t)) =
    spec_sync (select_sync_op opts) (abs_batch xs) (scope_keys sc) (abs_table t)"
  using assms
  by (auto simp: sync_table_def spec_sync_def Let_def abs_upsert_items abs_clear_scope
      abs_delete_keys split: option.splits)

lemma sync_policy_table_refines:
  assumes "table_ok t"
  shows "abs_table (fst (sync_policy_table e xs sc opts t)) =
    spec_sync (select_sync_op opts) (abs_batch xs) (scope_keys sc) (abs_table t)"
  using assms
  by (auto simp: sync_policy_table_def spec_sync_def Let_def abs_fill_items abs_put_items
      abs_clear_scope [OF scope_drop_key] abs_delete_keys split: option.splits)

lemma sync_table_keeps_ok:
  "scope_drop drp \<Longrightarrow> table_ok t \<Longrightarrow> table_ok (fst (sync_table drp e xs sc opts t))"
  by (simp add: sync_table_def Let_def table_ok_upsert_items table_ok_clear_scope
      table_ok_delete_keys)

lemma sync_policy_table_keeps_ok:
  "table_ok t \<Longrightarrow> table_ok (fst (sync_policy_table e xs sc opts t))"
  by (simp add: sync_policy_table_def Let_def table_ok_fill_items table_ok_put_items
      table_ok_clear_scope [OF scope_drop_key] table_ok_delete_keys)

lemma sync_upsert:
  assumes "select_sync_op opts = SyncOpUpsert"
  shows "sync_table drp e xs sc opts t = upsert_items e xs t"
    and "sync_policy_table e xs sc opts t = (put_items xs t, e)"
  using assms by (simp_all add: sync_table_def sync_policy_table_def sync_op_defs)

lemma sync_env_uuid:
  "env_uuid (snd (sync_table drp e xs sc opts t)) = env_uuid e"
  "env_uuid (snd (sync_policy_table e xs sc opts t)) = env_uuid e"
  by (simp_all add: sync_table_def sync_policy_table_def Let_def env_upsert_items env_fill_items)

lemma sync_table_keeps_filled:
  assumes "scope_drop drp" and "uuids_nonempty e" and "table_filled t"
  shows "table_filled (fst (sync_table drp e xs sc opts t))"
proof -
  have "table_filled (clear_scope drp sc t)" and "table_filled (delete_keys (map Key xs) t)"
    using assms set_clear_scope set_delete_keys by (blast intro: table_filled_subset)+
  with assms show ?thesis by (simp add: sync_table_def Let_def table_filled_upsert_items)
qed

lemma sync_table_keeps_identity:
  assumes "select_sync_op opts = SyncOpUpsert" and "map_of t (Key x) = Some old"
    and "UID (Meta x) = []" and "UID (Meta old) \<noteq> []"
  shows "\<exists>new. map_of (fst (sync_table drp e [x] sc opts t)) (Key x) = Some new \<and>
    UID (Meta new) = UID (Meta old) \<and>
    CreationTS (Meta new) =
      (if CreationTS (Meta x) = ZeroTime then CreationTS (Meta old) else CreationTS (Meta x))"
  unfolding sync_upsert [OF assms(1)]
  by (rule upsert_one_keeps_identity [OF assms(2-4), of e]) blast

lemma table_sync_metaI: "scope_drop drp \<Longrightarrow> table_sync_meta (sync_table drp)"
  by unfold_locales
    ((rule sync_table_keeps_identity; assumption) |
     simp add: sync_table_refines sync_table_keeps_ok sync_upsert upsert_items_frame
      sync_env_uuid sync_table_keeps_filled)+

interpretation by_key: table_sync_meta "sync_table drop_by_key"
  by (rule table_sync_metaI [OF scope_drop_key])

interpretation by_value: table_sync_meta "sync_table drop_by_value"
  by (rule table_sync_metaI [OF scope_drop_value])

interpretation policy: table_sync sync_policy_table
  by unfold_locales
    (simp_all add: sync_policy_table_refines sync_policy_table_keeps_ok sync_upsert
      put_items_frame sync_env_uuid)

text \<open>
  One kind of the repository: its table in the database and in the writer, and the writer's
  two methods for it.
\<close>

locale store_kind = table_sync tsync
  for tsync :: "env \<Rightarrow> 'a resource_scheme list \<Rightarrow> scope option \<Rightarrow> sync_option list \<Rightarrow>
    'a resource_scheme table \<Rightarrow> 'a resource_scheme table \<times> env" +
  fixes db_get :: "mem_db \<Rightarrow> 'a resource_scheme table"
    and w_get :: "writer \<Rightarrow> 'a resource_scheme table option"
    and sync :: "env \<Rightarrow> mem_db \<Rightarrow> 'a resource_scheme list \<Rightarrow> scope option \<Rightarrow>
      sync_option list \<Rightarrow> writer \<Rightarrow> writer \<times> env"
    and del :: "mem_db \<Rightarrow> resource_identifier list \<Rightarrow> writer \<Rightarrow> writer"
  assumes sync_table_of: "w_get (fst (sync e db xs sc opts w)) =
      Some (fst (tsync e xs sc opts (working (db_get db) (w_get w))))"
    and sync_env: "snd (sync e db xs sc opts w) =
      snd (tsync e xs sc opts (working (db_get db) (w_get w)))"
    and del_table_of: "w_get (del db ids w) =
      Some (delete_keys (map rid_Key ids) (working (db_get db) (w_get w)))"
    and commit_table: "db_get (fst (Commit e db w)) = working (db_get db) (w_get w)"
    and abort_table: "w_get (Abort w) = None"
    and new_writer_table: "w_get empty_writer = None"
    and new_db_table: "db_get NewMemDB = []"
begin

text \<open>What a transaction on this kind sees.\<close>

definition view :: "mem_db \<Rightarrow> writer \<Rightarrow> 'a resource_scheme table" where
  "view db w = working (db_get db) (w_get w)"

lemma view_sync:
  "view db (fst (sync e db xs sc opts w)) = fst (tsync e xs sc opts (view db w))"
  by (simp add: view_def sync_table_of working_def)

lemma view_del: "view db (del db ids w) = delete_keys (map rid_Key ids) (view db w)"
  by (simp add: view_def del_table_of working_def)

lemma view_abort: "view db (Abort w) = db_get db"
  by (simp add: view_def abort_table working_def)

lemma view_new: "view db empty_writer = db_get db"
  by (simp add: view_def new_writer_table working_def)

lemma db_commit: "db_get (fst (Commit e db w)) = view db w"
  by (simp add: view_def commit_table)

lemma commit_sync:
  assumes "table_ok (db_get db)"
  shows "abs_table (db_get (fst (Commit e' db (fst (sync e db xs sc opts empty_writer))))) =
    spec_sync (select_sync_op opts) (abs_batch xs) (scope_keys sc) (abs_table (db_get db))"
  using assms by (simp add: db_commit view_sync view_new refines)

lemma commit_overwrites:
  assumes "w_get w2 \<noteq> None"
  shows "db_get (fst (Commit e2 (fst (Commit e1 db w1)) w2)) = db_get (fst (Commit e2 db w2))"
  using assms by (auto simp: commit_table working_def)

lemma delete_after_sync:
  assumes "table_ok (view db w)"
  shows "abs_table (view db (del db ids (fst (sync e db xs sc opts w)))) =
    spec_sync (select_sync_op opts) (abs_batch xs) (scope_keys sc) (abs_table (view db w))
      |` (- rid_Key ` set ids)"
  using assms by (simp add: view_del view_sync refines abs_delete_keys)

end


section \<open>Every kind keeps the contract\<close>

lemma set_if_setter:
  "set_if SetServices t_services db = db\<lparr>db_services := working (db_services db) t_services\<rparr>"
  "set_if SetServiceAliases t_serviceAliases db = db\<lparr>db_serviceAliases := working (db_serviceAliases db) t_serviceAliases\<rparr>"
  "set_if SetAddressGroups t_addressGroups db = db\<lparr>db_addressGroups := working (db_addressGroups db) t_addressGroups\<rparr>"
  "set_if SetAddressGroupBindings t_addressGroupBindings db = db\<lparr>db_addressGroupBindings := working (db_addressGroupBindings db) t_addressGroupBindings\<rparr>"
  "set_if SetAddressGroupPortMappings t_addressGroupPortMappings db = db\<lparr>db_addressGroupPortMappings := working (db_addressGroupPortMappings db) t_addressGroupPortMappings\<rparr>"
  "set_if SetAddressGroupBindingPolicies t_addressGroupBindingPolicies db = db\<lparr>db_addressGroupBindingPolicies := working (db_addressGroupBindingPolicies db) t_addressGroupBindingPolicies\<rparr>"
  "set_if SetRuleS2S t_ruleS2S db = db\<lparr>db_ruleS2S := working (db_ruleS2S db) t_ruleS2S\<rparr>"
  "set_if SetIEAgAgRules t_ieAgAgRules db = db\<lparr>db_ieAgAgRules := working (db_ieAgAgRules db) t_ieAgAgRules\<rparr>"
  "set_if SetNetworks t_networks db = db\<lparr>db_networks := working (db_networks db) t_networks\<rparr>"
  "set_if SetNetworkBindings t_networkBindings db = db\<lparr>db_networkBindings := working (db_networkBindings db) t_networkBindings\<rparr>"
  "set_if SetHosts t_hosts db = db\<lparr>db_hosts := working (db_hosts db) t_hosts\<rparr>"
  "set_if SetHostBindings t_hostBindings db = db\<lparr>db_hostBindings := working (db_hostBindings db) t_hostBindings\<rparr>"
  by (simp_all add: set_if_def working_def db_access_defs split: option.splits)

lemmas store_simps =
  set_if_setter db_access_defs Commit_def Abort_def empty_writer_def NewMemDB_def Let_def split_beta

lemmas writer_method_defs =
  SyncServices_def DeleteServicesByIDs_def
  SyncServiceAliases_def DeleteServiceAliasesByIDs_def
  SyncAddressGroups_def DeleteAddressGroupsByIDs_def
  SyncAddressGroupBindings_def DeleteAddressGroupBindingsByIDs_def
  SyncAddressGroupPortMappings_def DeleteAddressGroupPortMappingsByIDs_def
  SyncAddressGroupBindingPolicies_def DeleteAddressGroupBindingPoliciesByIDs_def
  SyncRuleS2S_def DeleteRuleS2SByIDs_def
  SyncIEAgAgRules_def DeleteIEAgAgRulesByIDs_def
  SyncNetworks_def DeleteNetworksByIDs_def
  SyncNetworkBindings_def DeleteNetworkBindingsByIDs_def
  SyncHosts_def DeleteHostsByIDs_def
  SyncHostBindings_def DeleteHostBindingsByIDs_def

interpretation svc: store_kind "sync_table drop_by_value" GetServices w_services SyncServices DeleteServicesByIDs
  by unfold_locales
    (simp_all add: SyncServices_def DeleteServicesByIDs_def store_simps)

interpretation sal: store_kind "sync_table drop_by_key" GetServiceAliases w_serviceAliases SyncServiceAliases DeleteServiceAliasesByIDs
  by unfold_locales
    (simp_all add: SyncServiceAliases_def DeleteServiceAliasesByIDs_def store_simps)

interpretation ag: store_kind "sync_table drop_by_key" GetAddressGroups w_addressGroups SyncAddressGroups DeleteAddressGroupsByIDs
  by unfold_locales
    (simp_all add: SyncAddressGroups_def DeleteAddressGroupsByIDs_def store_simps)

interpretation agb: store_kind "sync_table drop_by_key" GetAddressGroupBindings w_addressGroupBindings SyncAddressGroupBindings DeleteAddressGroupBindingsByIDs
  by unfold_locales
    (simp_all add: SyncAddressGroupBindings_def DeleteAddressGroupBindingsByIDs_def store_simps)

interpretation agpm: store_kind "sync_table drop_by_key" GetAddressGroupPortMappings w_addressGroupPortMappings SyncAddressGroupPortMappings DeleteAddressGroupPortMappingsByIDs
  by unfold_locales
    (simp_all add: SyncAddressGroupPortMappings_def DeleteAddressGroupPortMappingsByIDs_def store_simps)

interpretation agbp: store_kind sync_policy_table GetAddressGroupBindingPolicies w_addressGroupBindingPolicies SyncAddressGroupBindingPolicies DeleteAddressGroupBindingPoliciesByIDs
  by unfold_locales
    (simp_all add: SyncAddressGroupBindingPolicies_def DeleteAddressGroupBindingPoliciesByIDs_def store_simps)

interpretation rs: store_kind "sync_table drop_by_key" GetRuleS2S w_ruleS2S SyncRuleS2S DeleteRuleS2SByIDs
  by unfold_locales
    (simp_all add: SyncRuleS2S_def DeleteRuleS2SByIDs_def store_simps)

interpretation ie: store_kind "sync_table drop_by_key" GetIEAgAgRules w_ieAgAgRules SyncIEAgAgRules DeleteIEAgAgRulesByIDs
  by unfold_locales
    (simp_all add: SyncIEAgAgRules_def DeleteIEAgAgRulesByIDs_def store_simps)

interpretation nw: store_kind "sync_table drop_by_value" GetNetworks w_networks SyncNetworks DeleteNetworksByIDs
  by unfold_locales
    (simp_all add: SyncNetworks_def DeleteNetworksByIDs_def store_simps)

interpretation nb: store_kind "sync_table drop_by_value" GetNetworkBindings w_networkBindings SyncNetworkBindings DeleteNetworkBindingsByIDs
  by unfold_locales
    (simp_all add: SyncNetworkBindings_def DeleteNetworkBindingsByIDs_def store_simps)

interpretation ho: store_kind "sync_table drop_by_value" GetHosts w_hosts SyncHosts DeleteHostsByIDs
  by unfold_locales
    (simp_all add: SyncHosts_def DeleteHostsByIDs_def store_simps)

interpretation hb: store_kind "sync_table drop_by_value" GetHostBindings w_hostBindings SyncHostBindings DeleteHostBindingsByIDs
  by unfold_locales
    (simp_all add: SyncHostBindings_def DeleteHostBindingsByIDs_def store_simps)

end
