(* ===== verification/MemSystem.thy ===== *)
theory MemSystem
  imports MemStore
begin

text \<open>
  The registry of the in-memory repository (\<^verbatim>\<open>mem-registry.go\<close>) and any number of
  concurrent transactions on it, as a step relation: a writer is opened, its methods are
  called, it is aborted or committed, and the steps of different writers interleave freely.
  Every method runs under the mutexes of the database, so one call is one step.
\<close>

section \<open>The registry\<close>

record registry =
  reg_db :: mem_db
  reg_closed :: bool

definition NewRegistry :: registry where
  "NewRegistry = \<lparr> reg_db = NewMemDB, reg_closed = False \<rparr>"

definition Writer :: "registry \<Rightarrow> error + writer" where
  "Writer r = (if reg_closed r then Inl (Errorf ''registry is closed'') else Inr empty_writer)"

definition Close :: "registry \<Rightarrow> registry" where
  "Close r = (if reg_closed r then r else r\<lparr>reg_closed := True\<rparr>)"

text \<open>The registry's subject keeps a list of observers.\<close>

definition Subscribe :: "'o \<Rightarrow> 'o list \<Rightarrow> error option \<times> 'o list" where
  "Subscribe ob obs = (None, obs @ [ob])"

definition Unsubscribe :: "'o \<Rightarrow> 'o list \<Rightarrow> error option \<times> 'o list" where
  "Unsubscribe ob obs =
     (if ob \<in> set obs then (None, remove_first (\<lambda>x. x = ob) obs)
      else (Some (Errorf ''observer not found''), obs))"

section \<open>Calls on a writer\<close>

datatype writer_call =
    CallSyncServices "service list" "scope option" "sync_option list"
  | CallDeleteServicesByIDs "resource_identifier list"
  | CallSyncServiceAliases "service_alias list" "scope option" "sync_option list"
  | CallDeleteServiceAliasesByIDs "resource_identifier list"
  | CallSyncAddressGroups "address_group list" "scope option" "sync_option list"
  | CallDeleteAddressGroupsByIDs "resource_identifier list"
  | CallSyncAddressGroupBindings "address_group_binding list" "scope option" "sync_option list"
  | CallDeleteAddressGroupBindingsByIDs "resource_identifier list"
  | CallSyncAddressGroupPortMappings "address_group_port_mapping list" "scope option" "sync_option list"
  | CallDeleteAddressGroupPortMappingsByIDs "resource_identifier list"
  | CallSyncAddressGroupBindingPolicies "address_group_binding_policy list" "scope option" "sync_option list"
  | CallDeleteAddressGroupBindingPoliciesByIDs "resource_identifier list"
  | CallSyncRuleS2S "rule_s2s list" "scope option" "sync_option list"
  | CallDeleteRuleS2SByIDs "resource_identifier list"
  | CallSyncIEAgAgRules "ieagag_rule list" "scope option" "sync_option list"
  | CallDeleteIEAgAgRulesByIDs "resource_identifier list"
  | CallSyncNetworks "network list" "scope option" "sync_option list"
  | CallDeleteNetworksByIDs "resource_identifier list"
  | CallSyncNetworkBindings "network_binding list" "scope option" "sync_option list"
  | CallDeleteNetworkBindingsByIDs "resource_identifier list"
  | CallSyncHosts "host list" "scope option" "sync_option list"
  | CallDeleteHostsByIDs "resource_identifier list"
  | CallSyncHostBindings "host_binding list" "scope option" "sync_option list"
  | CallDeleteHostBindingsByIDs "resource_identifier list"

fun apply_call :: "env \<Rightarrow> mem_db \<Rightarrow> writer_call \<Rightarrow> writer \<Rightarrow> writer \<times> env" where
  "apply_call e db (CallSyncServices xs sc opts) w = SyncServices e db xs sc opts w"
| "apply_call e db (CallDeleteServicesByIDs ids) w = (DeleteServicesByIDs db ids w, e)"
| "apply_call e db (CallSyncServiceAliases xs sc opts) w = SyncServiceAliases e db xs sc opts w"
| "apply_call e db (CallDeleteServiceAliasesByIDs ids) w = (DeleteServiceAliasesByIDs db ids w, e)"
| "apply_call e db (CallSyncAddressGroups xs sc opts) w = SyncAddressGroups e db xs sc opts w"
| "apply_call e db (CallDeleteAddressGroupsByIDs ids) w = (DeleteAddressGroupsByIDs db ids w, e)"
| "apply_call e db (CallSyncAddressGroupBindings xs sc opts) w = SyncAddressGroupBindings e db xs sc opts w"
| "apply_call e db (CallDeleteAddressGroupBindingsByIDs ids) w = (DeleteAddressGroupBindingsByIDs db ids w, e)"
| "apply_call e db (CallSyncAddressGroupPortMappings xs sc opts) w = SyncAddressGroupPortMappings e db xs sc opts w"
| "apply_call e db (CallDeleteAddressGroupPortMappingsByIDs ids) w = (DeleteAddressGroupPortMappingsByIDs db ids w, e)"
| "apply_call e db (CallSyncAddressGroupBindingPolicies xs sc opts) w = SyncAddressGroupBindingPolicies e db xs sc opts w"
| "apply_call e db (CallDeleteAddressGroupBindingPoliciesByIDs ids) w = (DeleteAddressGroupBindingPoliciesByIDs db ids w, e)"
| "apply_call e db (CallSyncRuleS2S xs sc opts) w = SyncRuleS2S e db xs sc opts w"
| "apply_call e db (CallDeleteRuleS2SByIDs ids) w = (DeleteRuleS2SByIDs db ids w, e)"
| "apply_call e db (CallSyncIEAgAgRules xs sc opts) w = SyncIEAgAgRules e db xs sc opts w"
| "apply_call e db (CallDeleteIEAgAgRulesByIDs ids) w = (DeleteIEAgAgRulesByIDs db ids w, e)"
| "apply_call e db (CallSyncNetworks xs sc opts) w = SyncNetworks e db xs sc opts w"
| "apply_call e db (CallDeleteNetworksByIDs ids) w = (DeleteNetworksByIDs db ids w, e)"
| "apply_call e db (CallSyncNetworkBindings xs sc opts) w = SyncNetworkBindings e db xs sc opts w"
| "apply_call e db (CallDeleteNetworkBindingsByIDs ids) w = (DeleteNetworkBindingsByIDs db ids w, e)"
| "apply_call e db (CallSyncHosts xs sc opts) w = SyncHosts e db xs sc opts w"
| "apply_call e db (CallDeleteHostsByIDs ids) w = (DeleteHostsByIDs db ids w, e)"
| "apply_call e db (CallSyncHostBindings xs sc opts) w = SyncHostBindings e db xs sc opts w"
| "apply_call e db (CallDeleteHostBindingsByIDs ids) w = (DeleteHostBindingsByIDs db ids w, e)"

section \<open>Invariants\<close>

text \<open>
  In every table keys are unique and each object is stored under its own key; outside the
  policy table every object also has a UID, a resource version and a generation.
\<close>

definition table_good :: "'a resource_scheme table \<Rightarrow> bool" where
  "table_good t \<longleftrightarrow> table_ok t \<and> table_filled t"

definition opt_table :: "('t \<Rightarrow> bool) \<Rightarrow> 't option \<Rightarrow> bool" where
  "opt_table P t = (case t of None \<Rightarrow> True | Some x \<Rightarrow> P x)"

definition db_good :: "mem_db \<Rightarrow> bool" where
  "db_good db \<longleftrightarrow>
     table_good (db_services db) \<and>
     table_good (db_serviceAliases db) \<and>
     table_good (db_addressGroups db) \<and>
     table_good (db_addressGroupBindings db) \<and>
     table_good (db_addressGroupPortMappings db) \<and>
     table_ok (db_addressGroupBindingPolicies db) \<and>
     table_good (db_ruleS2S db) \<and>
     table_good (db_ieAgAgRules db) \<and>
     table_good (db_networks db) \<and>
     table_good (db_networkBindings db) \<and>
     table_good (db_hosts db) \<and>
     table_good (db_hostBindings db)"

definition writer_good :: "writer \<Rightarrow> bool" where
  "writer_good w \<longleftrightarrow>
     opt_table table_good (w_services w) \<and>
     opt_table table_good (w_serviceAliases w) \<and>
     opt_table table_good (w_addressGroups w) \<and>
     opt_table table_good (w_addressGroupBindings w) \<and>
     opt_table table_good (w_addressGroupPortMappings w) \<and>
     opt_table table_ok (w_addressGroupBindingPolicies w) \<and>
     opt_table table_good (w_ruleS2S w) \<and>
     opt_table table_good (w_ieAgAgRules w) \<and>
     opt_table table_good (w_networks w) \<and>
     opt_table table_good (w_networkBindings w) \<and>
     opt_table table_good (w_hosts w) \<and>
     opt_table table_good (w_hostBindings w)"

lemma opt_table_simps [simp]: "opt_table P None" "opt_table P (Some t) = P t"
  by (simp_all add: opt_table_def)

lemma working_good: "P t \<Longrightarrow> opt_table P o' \<Longrightarrow> P (working t o')"
  by (simp add: opt_table_def working_def split: option.splits)

lemma table_good_Nil [simp]: "table_good []"
  by (simp add: table_good_def table_filled_def)

lemma table_good_sync:
  "uuids_nonempty e \<Longrightarrow> table_good t \<Longrightarrow> table_good (fst (sync_table drop_by_key e xs sc opts t))"
  "uuids_nonempty e \<Longrightarrow> table_good t \<Longrightarrow> table_good (fst (sync_table drop_by_value e xs sc opts t))"
  by (simp_all add: table_good_def by_key.keeps_ok by_key.keeps_filled
      by_value.keeps_ok by_value.keeps_filled)

lemma table_good_delete: "table_good t \<Longrightarrow> table_good (delete_keys ks t)"
  using set_delete_keys [of ks t] table_filled_subset [of t "delete_keys ks t"]
  by (simp add: table_good_def table_ok_delete_keys)

lemma apply_call_uuid: "env_uuid (snd (apply_call e db c w)) = env_uuid e"
  by (cases c) (simp_all add: writer_method_defs Let_def split_beta sync_env_uuid)

lemma apply_call_good:
  assumes "uuids_nonempty e" and "db_good db" and "writer_good w"
  shows "writer_good (fst (apply_call e db c w))"
  using assms
  by (cases c)
    (simp_all add: writer_method_defs db_access_defs Let_def split_beta db_good_def writer_good_def
      working_good table_good_sync table_good_delete table_ok_delete_keys policy.keeps_ok)

lemma commit_good:
  assumes "db_good db" and "writer_good w"
  shows "db_good (fst (Commit e db w))"
  using assms by (simp add: store_simps db_good_def writer_good_def working_good)

section \<open>Concurrent transactions\<close>

record sys =
  sys_reg :: registry
  sys_writers :: "(nat \<times> writer) list"
  sys_env :: env

abbreviation sys_db :: "sys \<Rightarrow> mem_db" where
  "sys_db s \<equiv> reg_db (sys_reg s)"

definition init_sys :: "env \<Rightarrow> sys" where
  "init_sys e = \<lparr> sys_reg = NewRegistry, sys_writers = [], sys_env = e \<rparr>"

text \<open>
  A commit is one step. The code locks the database table by table during a commit; a reader that
  comes in between sees some tables before and some after it, which no step here shows.
\<close>

inductive mem_step :: "sys \<Rightarrow> sys \<Rightarrow> bool" where
  step_open: "Writer (sys_reg s) = Inr w \<Longrightarrow> i \<notin> fst ` set (sys_writers s) \<Longrightarrow>
     mem_step s (s\<lparr>sys_writers := (i, w) # sys_writers s\<rparr>)"
| step_call: "map_of (sys_writers s) i = Some w \<Longrightarrow>
     apply_call (sys_env s) (sys_db s) c w = (w', e') \<Longrightarrow>
     mem_step s (s\<lparr>sys_writers := AList.update i w' (sys_writers s), sys_env := e'\<rparr>)"
| step_commit: "map_of (sys_writers s) i = Some w \<Longrightarrow>
     Commit (sys_env s) (sys_db s) w = (db', e') \<Longrightarrow>
     mem_step s (s\<lparr>sys_reg := (sys_reg s)\<lparr>reg_db := db'\<rparr>,
       sys_writers := AList.delete i (sys_writers s), sys_env := e'\<rparr>)"
| step_abort: "map_of (sys_writers s) i = Some w \<Longrightarrow>
     mem_step s (s\<lparr>sys_writers := AList.update i (Abort w) (sys_writers s)\<rparr>)"
| step_close: "mem_step s (s\<lparr>sys_reg := Close (sys_reg s)\<rparr>)"

inductive reachable :: "env \<Rightarrow> sys \<Rightarrow> bool" for e where
  reach_init: "reachable e (init_sys e)"
| reach_step: "reachable e s \<Longrightarrow> mem_step s s' \<Longrightarrow> reachable e s'"

definition sys_good :: "sys \<Rightarrow> bool" where
  "sys_good s \<longleftrightarrow> db_good (sys_db s) \<and> (\<forall>(i, w)\<in>set (sys_writers s). writer_good w) \<and>
     uuids_nonempty (sys_env s)"

lemma sys_good_writer:
  "sys_good s \<Longrightarrow> map_of (sys_writers s) i = Some w \<Longrightarrow> writer_good w"
  by (auto simp: sys_good_def dest: map_of_SomeD)

lemma sys_good_update:
  assumes "sys_good s" and "writer_good w" and "uuids_nonempty e"
  shows "sys_good (s\<lparr>sys_writers := AList.update i w (sys_writers s), sys_env := e\<rparr>)"
  using assms set_update_table [of i w "sys_writers s"] by (fastforce simp: sys_good_def)

lemma writer_good_abort: "writer_good (Abort w)"
  by (simp add: Abort_def writer_good_def)

lemma writer_good_new: "Writer r = Inr w \<Longrightarrow> writer_good w"
  by (auto simp: Writer_def writer_good_def empty_writer_def split: if_splits)

lemma Close_db [simp]: "reg_db (Close r) = reg_db r"
  by (simp add: Close_def)

lemma mem_step_good:
  assumes "mem_step s s'" and good: "sys_good s"
  shows "sys_good s'"
  using assms(1)
proof (cases rule: mem_step.cases)
  case (step_open w i)
  then show ?thesis using good writer_good_new by (auto simp: sys_good_def)
next
  case (step_call i w c w' e')
  have uu: "uuids_nonempty (sys_env s)" and db: "db_good (sys_db s)"
    using good by (simp_all add: sys_good_def)
  from uu have "uuids_nonempty e'"
    using apply_call_uuid [of "sys_env s" "sys_db s" c w] step_call(3)
    by (simp add: uuids_nonempty_def)
  moreover have "writer_good w'"
    using apply_call_good [OF uu db sys_good_writer [OF good step_call(2)], of c] step_call(3)
    by simp
  ultimately show ?thesis using good step_call(1) sys_good_update by simp
next
  case (step_commit i w db' e')
  have "db_good db'"
    using commit_good [OF _ sys_good_writer [OF good step_commit(2)], of "sys_db s" "sys_env s"]
      step_commit(3) good by (simp add: sys_good_def)
  moreover have "uuids_nonempty e'"
    using step_commit(3) good by (auto simp: Commit_def Let_def sys_good_def uuids_nonempty_def)
  ultimately show ?thesis
    using good step_commit(1) set_delete_table [of i "sys_writers s"] by (auto simp: sys_good_def)
next
  case (step_abort i w)
  then show ?thesis
    using sys_good_update [OF good writer_good_abort, of "sys_env s" i w] good
    by (simp add: sys_good_def)
next
  case step_close
  then show ?thesis using good by (simp add: sys_good_def)
qed

lemma db_good_new: "db_good NewMemDB"
  by (simp add: db_good_def NewMemDB_def)

lemma reachable_good: "reachable e s \<Longrightarrow> uuids_nonempty e \<Longrightarrow> sys_good s"
proof (induction rule: reachable.induct)
  case reach_init
  then show ?case by (simp add: sys_good_def init_sys_def NewRegistry_def db_good_new)
next
  case (reach_step s s')
  then show ?case using mem_step_good by blast
qed

section \<open>Transactions on different kinds commute\<close>

definition touch_disjoint :: "writer \<Rightarrow> writer \<Rightarrow> bool" where
  "touch_disjoint a b \<longleftrightarrow>
     (w_services a = None \<or> w_services b = None) \<and>
     (w_serviceAliases a = None \<or> w_serviceAliases b = None) \<and>
     (w_addressGroups a = None \<or> w_addressGroups b = None) \<and>
     (w_addressGroupBindings a = None \<or> w_addressGroupBindings b = None) \<and>
     (w_addressGroupPortMappings a = None \<or> w_addressGroupPortMappings b = None) \<and>
     (w_addressGroupBindingPolicies a = None \<or> w_addressGroupBindingPolicies b = None) \<and>
     (w_ruleS2S a = None \<or> w_ruleS2S b = None) \<and>
     (w_ieAgAgRules a = None \<or> w_ieAgAgRules b = None) \<and>
     (w_networks a = None \<or> w_networks b = None) \<and>
     (w_networkBindings a = None \<or> w_networkBindings b = None) \<and>
     (w_hosts a = None \<or> w_hosts b = None) \<and>
     (w_hostBindings a = None \<or> w_hostBindings b = None)"

lemma working_working: "a = None \<or> b = None \<Longrightarrow> working (working t a) b = working (working t b) a"
  by (cases a; cases b) (simp_all add: working_def)

lemma commit_commute:
  assumes "touch_disjoint a b"
  shows "(fst (Commit e2 (fst (Commit e1 db a)) b))\<lparr>db_syncStatus := s\<rparr> =
         (fst (Commit e4 (fst (Commit e3 db b)) a))\<lparr>db_syncStatus := s\<rparr>"
  using assms
  by (cases db)
    (simp add: store_simps touch_disjoint_def, intro conjI working_working; elim conjE; assumption)

end
