(* ===== verification/MemReader.thy ===== *)
theory MemReader
  imports MemSystem
begin

text \<open>
  Readers: the interface \<^verbatim>\<open>ports.Reader\<close> that the validators use, as a record of its
  methods, and the in-memory reader (\<^verbatim>\<open>mem-reader.go\<close>) that provides it. A reader
  made from a writer sees that writer's tables where it has them and the database otherwise.
  The locale \<open>reader_kind\<close> states what the reading methods of one kind promise on a
  well-formed store; it is interpreted for all twelve kinds.
\<close>

section \<open>The interface\<close>

record reader_ops =
  ListServices :: "scope option \<Rightarrow> service listing"
  ListServiceAliases :: "scope option \<Rightarrow> service_alias listing"
  ListAddressGroups :: "scope option \<Rightarrow> address_group listing"
  ListAddressGroupBindings :: "scope option \<Rightarrow> address_group_binding listing"
  ListAddressGroupPortMappings :: "scope option \<Rightarrow> address_group_port_mapping listing"
  ListAddressGroupBindingPolicies :: "scope option \<Rightarrow> address_group_binding_policy listing"
  ListRuleS2S :: "scope option \<Rightarrow> rule_s2s listing"
  ListIEAgAgRules :: "scope option \<Rightarrow> ieagag_rule listing"
  ListNetworks :: "scope option \<Rightarrow> network listing"
  ListNetworkBindings :: "scope option \<Rightarrow> network_binding listing"
  ListHosts :: "scope option \<Rightarrow> host listing"
  ListHostBindings :: "scope option \<Rightarrow> host_binding listing"
  GetServiceByID :: "resource_identifier \<Rightarrow> error + service"
  GetServiceAliasByID :: "resource_identifier \<Rightarrow> error + service_alias"
  GetAddressGroupByID :: "resource_identifier \<Rightarrow> error + address_group"
  GetAddressGroupBindingByID :: "resource_identifier \<Rightarrow> error + address_group_binding"
  GetAddressGroupPortMappingByID :: "resource_identifier \<Rightarrow> error + address_group_port_mapping"
  GetAddressGroupBindingPolicyByID :: "resource_identifier \<Rightarrow> error + address_group_binding_policy"
  GetRuleS2SByID :: "resource_identifier \<Rightarrow> error + rule_s2s"
  GetIEAgAgRuleByID :: "resource_identifier \<Rightarrow> error + ieagag_rule"
  GetNetworkByID :: "resource_identifier \<Rightarrow> error + network"
  GetNetworkBindingByID :: "resource_identifier \<Rightarrow> error + network_binding"
  GetHostByID :: "resource_identifier \<Rightarrow> error + host"
  GetHostBindingByID :: "resource_identifier \<Rightarrow> error + host_binding"
  GetNetworkByCIDR :: "string \<Rightarrow> error + network"

section \<open>The in-memory reader\<close>

record reader =
  rd_db :: mem_db
  rd_writer :: "writer option"

definition Reader :: "registry \<Rightarrow> error + reader" where
  "Reader r = (if reg_closed r then Inl (Errorf ''registry is closed'')
               else Inr \<lparr> rd_db = reg_db r, rd_writer = None \<rparr>)"

definition ReaderFromWriter :: "registry \<Rightarrow> writer \<Rightarrow> error + reader" where
  "ReaderFromWriter r w = (if reg_closed r then Inl (Errorf ''registry is closed'')
               else Inr \<lparr> rd_db = reg_db r, rd_writer = Some w \<rparr>)"

definition ReaderWithReadCommitted :: "registry \<Rightarrow> error + reader" where
  "ReaderWithReadCommitted r = Reader r"

definition reader_table ::
  "(mem_db \<Rightarrow> 'v table) \<Rightarrow> (writer \<Rightarrow> 'v table option) \<Rightarrow> reader \<Rightarrow> 'v table"
where
  "reader_table db_get w_get r =
     (case rd_writer r of
        None \<Rightarrow> db_get (rd_db r)
      | Some w \<Rightarrow> (case w_get w of None \<Rightarrow> db_get (rd_db r) | Some t \<Rightarrow> t))"

text \<open>
  Listing by scope. An identifier with a namespace and no name lists the namespace and ends
  the listing; any other identifier is looked up by key.
\<close>

fun list_ids :: "resource_identifier list \<Rightarrow> 'a resource_scheme table \<Rightarrow> 'a resource_scheme list"
where
  "list_ids [] t = []"
| "list_ids (i # is) t =
     (if rid_Name i = [] \<and> rid_Namespace i \<noteq> []
      then filter (\<lambda>v. Namespace v = rid_Namespace i) (map snd t)
      else (case map_of t (rid_Key i) of None \<Rightarrow> [] | Some v \<Rightarrow> [v]) @ list_ids is t)"

definition list_table ::
  "scope option \<Rightarrow> 'a resource_scheme table \<Rightarrow> 'a resource_scheme list"
where
  "list_table sc t =
     (case sc of
        None \<Rightarrow> map snd t
      | Some s \<Rightarrow>
          if \<not> scope_IsEmpty s then
            (case s of ResourceIdentifierScope ids \<Rightarrow> list_ids ids t | EmptyScope \<Rightarrow> map snd t)
          else map snd t)"

definition get_by_id :: "resource_identifier \<Rightarrow> 'v table \<Rightarrow> error + 'v" where
  "get_by_id i t = (case map_of t (rid_Key i) of None \<Rightarrow> Inl ErrNotFound | Some v \<Rightarrow> Inr v)"

text \<open>
  A service is returned with its address groups replaced by those its bindings name.
\<close>

definition bound_groups :: "address_group_binding table \<Rightarrow> string \<Rightarrow> nref list" where
  "bound_groups bindings k =
     map (\<lambda>(_, b). NewAddressGroupRef (ref_Name (agb_AddressGroupRef b))
                     [WithNamespace (ref_Namespace (agb_AddressGroupRef b))])
       (filter (\<lambda>(_, b). agb_ServiceRefKey b = k) bindings)"

definition with_bound_groups :: "address_group_binding table \<Rightarrow> service \<Rightarrow> service" where
  "with_bound_groups bindings s = s\<lparr>svc_AddressGroups := bound_groups bindings (Key s)\<rparr>"

definition mem_ListServices :: "reader \<Rightarrow> scope option \<Rightarrow> service listing" where
  "mem_ListServices r sc =
     (map (with_bound_groups (reader_table GetAddressGroupBindings w_addressGroupBindings r))
        (list_table sc (reader_table GetServices w_services r)), None)"

definition mem_GetServiceByID :: "reader \<Rightarrow> resource_identifier \<Rightarrow> error + service" where
  "mem_GetServiceByID r i =
     (case map_of (reader_table GetServices w_services r) (rid_Key i) of
        None \<Rightarrow> Inl ErrNotFound
      | Some s \<Rightarrow> Inr (s\<lparr>svc_AddressGroups :=
          bound_groups (reader_table GetAddressGroupBindings w_addressGroupBindings r)
            (rid_Key i)\<rparr>))"

definition mem_ListServiceAliases :: "reader \<Rightarrow> scope option \<Rightarrow> service_alias listing" where
  "mem_ListServiceAliases r sc = (list_table sc (reader_table GetServiceAliases w_serviceAliases r), None)"

definition mem_GetServiceAliasByID :: "reader \<Rightarrow> resource_identifier \<Rightarrow> error + service_alias" where
  "mem_GetServiceAliasByID r i = get_by_id i (reader_table GetServiceAliases w_serviceAliases r)"

definition mem_ListAddressGroups :: "reader \<Rightarrow> scope option \<Rightarrow> address_group listing" where
  "mem_ListAddressGroups r sc = (list_table sc (reader_table GetAddressGroups w_addressGroups r), None)"

definition mem_GetAddressGroupByID :: "reader \<Rightarrow> resource_identifier \<Rightarrow> error + address_group" where
  "mem_GetAddressGroupByID r i = get_by_id i (reader_table GetAddressGroups w_addressGroups r)"

definition mem_ListAddressGroupBindings :: "reader \<Rightarrow> scope option \<Rightarrow> address_group_binding listing" where
  "mem_ListAddressGroupBindings r sc = (list_table sc (reader_table GetAddressGroupBindings w_addressGroupBindings r), None)"

definition mem_GetAddressGroupBindingByID :: "reader \<Rightarrow> resource_identifier \<Rightarrow> error + address_group_binding" where
  "mem_GetAddressGroupBindingByID r i = get_by_id i (reader_table GetAddressGroupBindings w_addressGroupBindings r)"

definition mem_ListAddressGroupPortMappings :: "reader \<Rightarrow> scope option \<Rightarrow> address_group_port_mapping listing" where
  "mem_ListAddressGroupPortMappings r sc = (list_table sc (reader_table GetAddressGroupPortMappings w_addressGroupPortMappings r), None)"

definition mem_GetAddressGroupPortMappingByID :: "reader \<Rightarrow> resource_identifier \<Rightarrow> error + address_group_port_mapping" where
  "mem_GetAddressGroupPortMappingByID r i = get_by_id i (reader_table GetAddressGroupPortMappings w_addressGroupPortMappings r)"

definition mem_ListAddressGroupBindingPolicies :: "reader \<Rightarrow> scope option \<Rightarrow> address_group_binding_policy listing" where
  "mem_ListAddressGroupBindingPolicies r sc = (list_table sc (reader_table GetAddressGroupBindingPolicies w_addressGroupBindingPolicies r), None)"

definition mem_GetAddressGroupBindingPolicyByID :: "reader \<Rightarrow> resource_identifier \<Rightarrow> error + address_group_binding_policy" where
  "mem_GetAddressGroupBindingPolicyByID r i = get_by_id i (reader_table GetAddressGroupBindingPolicies w_addressGroupBindingPolicies r)"

definition mem_ListRuleS2S :: "reader \<Rightarrow> scope option \<Rightarrow> rule_s2s listing" where
  "mem_ListRuleS2S r sc = (list_table sc (reader_table GetRuleS2S w_ruleS2S r), None)"

definition mem_GetRuleS2SByID :: "reader \<Rightarrow> resource_identifier \<Rightarrow> error + rule_s2s" where
  "mem_GetRuleS2SByID r i = get_by_id i (reader_table GetRuleS2S w_ruleS2S r)"

definition mem_ListIEAgAgRules :: "reader \<Rightarrow> scope option \<Rightarrow> ieagag_rule listing" where
  "mem_ListIEAgAgRules r sc = (list_table sc (reader_table GetIEAgAgRules w_ieAgAgRules r), None)"

definition mem_GetIEAgAgRuleByID :: "reader \<Rightarrow> resource_identifier \<Rightarrow> error + ieagag_rule" where
  "mem_GetIEAgAgRuleByID r i = get_by_id i (reader_table GetIEAgAgRules w_ieAgAgRules r)"

definition mem_ListNetworks :: "reader \<Rightarrow> scope option \<Rightarrow> network listing" where
  "mem_ListNetworks r sc = (list_table sc (reader_table GetNetworks w_networks r), None)"

definition mem_GetNetworkByID :: "reader \<Rightarrow> resource_identifier \<Rightarrow> error + network" where
  "mem_GetNetworkByID r i = get_by_id i (reader_table GetNetworks w_networks r)"

definition mem_ListNetworkBindings :: "reader \<Rightarrow> scope option \<Rightarrow> network_binding listing" where
  "mem_ListNetworkBindings r sc = (list_table sc (reader_table GetNetworkBindings w_networkBindings r), None)"

definition mem_GetNetworkBindingByID :: "reader \<Rightarrow> resource_identifier \<Rightarrow> error + network_binding" where
  "mem_GetNetworkBindingByID r i = get_by_id i (reader_table GetNetworkBindings w_networkBindings r)"

definition mem_ListHosts :: "reader \<Rightarrow> scope option \<Rightarrow> host listing" where
  "mem_ListHosts r sc = (list_table sc (reader_table GetHosts w_hosts r), None)"

definition mem_GetHostByID :: "reader \<Rightarrow> resource_identifier \<Rightarrow> error + host" where
  "mem_GetHostByID r i = get_by_id i (reader_table GetHosts w_hosts r)"

definition mem_ListHostBindings :: "reader \<Rightarrow> scope option \<Rightarrow> host_binding listing" where
  "mem_ListHostBindings r sc = (list_table sc (reader_table GetHostBindings w_hostBindings r), None)"

definition mem_GetHostBindingByID :: "reader \<Rightarrow> resource_identifier \<Rightarrow> error + host_binding" where
  "mem_GetHostBindingByID r i = get_by_id i (reader_table GetHostBindings w_hostBindings r)"

definition mem_GetNetworkByCIDR :: "reader \<Rightarrow> string \<Rightarrow> error + network" where
  "mem_GetNetworkByCIDR r cidr =
     (case find (\<lambda>(_, n). nw_CIDR n = cidr) (reader_table GetNetworks w_networks r) of
        None \<Rightarrow> Inl ErrNotFound
      | Some (_, n) \<Rightarrow> Inr n)"

definition mem_GetSyncStatus :: "reader \<Rightarrow> gotime" where
  "mem_GetSyncStatus r = GetSyncStatus (rd_db r)"

definition mem_reader :: "reader \<Rightarrow> reader_ops" where
  "mem_reader r = \<lparr>
     ListServices = mem_ListServices r,
     ListServiceAliases = mem_ListServiceAliases r,
     ListAddressGroups = mem_ListAddressGroups r,
     ListAddressGroupBindings = mem_ListAddressGroupBindings r,
     ListAddressGroupPortMappings = mem_ListAddressGroupPortMappings r,
     ListAddressGroupBindingPolicies = mem_ListAddressGroupBindingPolicies r,
     ListRuleS2S = mem_ListRuleS2S r,
     ListIEAgAgRules = mem_ListIEAgAgRules r,
     ListNetworks = mem_ListNetworks r,
     ListNetworkBindings = mem_ListNetworkBindings r,
     ListHosts = mem_ListHosts r,
     ListHostBindings = mem_ListHostBindings r,
     GetServiceByID = mem_GetServiceByID r,
     GetServiceAliasByID = mem_GetServiceAliasByID r,
     GetAddressGroupByID = mem_GetAddressGroupByID r,
     GetAddressGroupBindingByID = mem_GetAddressGroupBindingByID r,
     GetAddressGroupPortMappingByID = mem_GetAddressGroupPortMappingByID r,
     GetAddressGroupBindingPolicyByID = mem_GetAddressGroupBindingPolicyByID r,
     GetRuleS2SByID = mem_GetRuleS2SByID r,
     GetIEAgAgRuleByID = mem_GetIEAgAgRuleByID r,
     GetNetworkByID = mem_GetNetworkByID r,
     GetNetworkBindingByID = mem_GetNetworkBindingByID r,
     GetHostByID = mem_GetHostByID r,
     GetHostBindingByID = mem_GetHostBindingByID r,
     GetNetworkByCIDR = mem_GetNetworkByCIDR r \<rparr>"

lemma mem_reader_simps [simp]:
  "ListServices (mem_reader r) = mem_ListServices r"
  "ListServiceAliases (mem_reader r) = mem_ListServiceAliases r"
  "ListAddressGroups (mem_reader r) = mem_ListAddressGroups r"
  "ListAddressGroupBindings (mem_reader r) = mem_ListAddressGroupBindings r"
  "ListAddressGroupPortMappings (mem_reader r) = mem_ListAddressGroupPortMappings r"
  "ListAddressGroupBindingPolicies (mem_reader r) = mem_ListAddressGroupBindingPolicies r"
  "ListRuleS2S (mem_reader r) = mem_ListRuleS2S r"
  "ListIEAgAgRules (mem_reader r) = mem_ListIEAgAgRules r"
  "ListNetworks (mem_reader r) = mem_ListNetworks r"
  "ListNetworkBindings (mem_reader r) = mem_ListNetworkBindings r"
  "ListHosts (mem_reader r) = mem_ListHosts r"
  "ListHostBindings (mem_reader r) = mem_ListHostBindings r"
  "GetServiceByID (mem_reader r) = mem_GetServiceByID r"
  "GetServiceAliasByID (mem_reader r) = mem_GetServiceAliasByID r"
  "GetAddressGroupByID (mem_reader r) = mem_GetAddressGroupByID r"
  "GetAddressGroupBindingByID (mem_reader r) = mem_GetAddressGroupBindingByID r"
  "GetAddressGroupPortMappingByID (mem_reader r) = mem_GetAddressGroupPortMappingByID r"
  "GetAddressGroupBindingPolicyByID (mem_reader r) = mem_GetAddressGroupBindingPolicyByID r"
  "GetRuleS2SByID (mem_reader r) = mem_GetRuleS2SByID r"
  "GetIEAgAgRuleByID (mem_reader r) = mem_GetIEAgAgRuleByID r"
  "GetNetworkByID (mem_reader r) = mem_GetNetworkByID r"
  "GetNetworkBindingByID (mem_reader r) = mem_GetNetworkBindingByID r"
  "GetHostByID (mem_reader r) = mem_GetHostByID r"
  "GetHostBindingByID (mem_reader r) = mem_GetHostBindingByID r"
  "GetNetworkByCIDR (mem_reader r) = mem_GetNetworkByCIDR r"
  by (simp_all add: mem_reader_def)

section \<open>What a reader promises\<close>

definition reader_good :: "reader \<Rightarrow> bool" where
  "reader_good r \<longleftrightarrow> db_good (rd_db r) \<and>
     (case rd_writer r of None \<Rightarrow> True | Some w \<Rightarrow> writer_good w)"

definition map_values :: "('v \<Rightarrow> 'w) \<Rightarrow> 'v table \<Rightarrow> 'w table" where
  "map_values f t = map (\<lambda>(k, v). (k, f v)) t"

lemma map_of_map_values: "map_of (map_values f t) k = map_option f (map_of t k)"
  by (induction t) (auto simp: map_values_def)

lemma map_values_parts:
  "map fst (map_values f t) = map fst t"
  "map snd (map_values f t) = map f (map snd t)"
  by (auto simp: map_values_def)

text \<open>Services are read from the stored table with their groups filled in.\<close>

definition service_table :: "reader \<Rightarrow> service table" where
  "service_table r =
     map_values
       (with_bound_groups (reader_table GetAddressGroupBindings w_addressGroupBindings r))
       (reader_table GetServices w_services r)"

lemma list_ids_exact:
  assumes "\<forall>i\<in>set is. rid_Name i \<noteq> []"
  shows "set (list_ids is t) = {v. \<exists>i\<in>set is. map_of t (rid_Key i) = Some v}"
  using assms by (induction "is") (auto split: option.splits)

lemma list_table_all: "list_table None t = map snd t" "list_table (Some EmptyScope) t = map snd t"
  by (simp_all add: list_table_def)

lemma list_table_exact:
  assumes "is \<noteq> []" and "\<forall>i\<in>set is. rid_Name i \<noteq> []"
  shows "set (list_table (Some (ResourceIdentifierScope is)) t) =
    {v. \<exists>i\<in>set is. map_of t (rid_Key i) = Some v}"
  using assms by (simp add: list_table_def list_ids_exact)

lemma list_table_namespace:
  assumes "ns \<noteq> []"
  shows "list_table (Some (ResourceIdentifierScope (ResourceIdentifier [] ns # is))) t =
    filter (\<lambda>v. Namespace v = ns) (map snd t)"
  using assms by (simp add: list_table_def)

lemma get_by_id_iff: "get_by_id i t = Inr v \<longleftrightarrow> map_of t (rid_Key i) = Some v"
  by (simp add: get_by_id_def split: option.splits)

lemma get_by_id_missing: "get_by_id i t = Inl e \<longleftrightarrow> e = ErrNotFound \<and> map_of t (rid_Key i) = None"
  by (auto simp: get_by_id_def split: option.splits)

lemma table_ok_values:
  assumes "table_ok t"
  shows "v \<in> snd ` set t \<longleftrightarrow> map_of t (Key v) = Some v"
proof -
  have "(k, v) \<in> set t \<Longrightarrow> k = Key v" for k using assms by (auto simp: table_ok_def)
  moreover have "(Key v, v) \<in> set t \<longleftrightarrow> map_of t (Key v) = Some v"
    using assms by (intro map_of_eq_Some_iff [symmetric]) (simp add: table_ok_def)
  moreover have "v \<in> snd ` set t \<longleftrightarrow> (\<exists>k. (k, v) \<in> set t)" by (auto intro: rev_image_eqI)
  ultimately show ?thesis by blast
qed

locale reader_kind =
  fixes list :: "reader \<Rightarrow> scope option \<Rightarrow> 'a resource_scheme listing"
    and get :: "reader \<Rightarrow> resource_identifier \<Rightarrow> error + 'a resource_scheme"
    and tbl :: "reader \<Rightarrow> 'a resource_scheme table"
  assumes list_eq: "list r sc = (list_table sc (tbl r), None)"
    and get_eq: "reader_good r \<Longrightarrow> get r i = get_by_id i (tbl r)"
    and tbl_ok: "reader_good r \<Longrightarrow> table_ok (tbl r)"
begin

lemma list_get:
  assumes "reader_good r"
  shows "v \<in> set (fst (list r None)) \<longleftrightarrow> get r (self_id v) = Inr v"
  using assms table_ok_values [OF tbl_ok [OF assms]]
  by (simp add: list_eq get_eq get_by_id_iff list_table_all Key_self_id [symmetric])

lemma list_scope_get:
  assumes "reader_good r" and "is \<noteq> []" and "\<forall>i\<in>set is. rid_Name i \<noteq> []"
  shows "set (fst (list r (Some (ResourceIdentifierScope is)))) = {v. \<exists>i\<in>set is. get r i = Inr v}"
  using assms by (simp add: list_eq get_eq get_by_id_iff list_table_exact)

lemma get_key:
  assumes "reader_good r" and "get r i = Inr v"
  shows "Key v = rid_Key i"
  using assms table_ok_lookup [OF tbl_ok] by (simp add: get_eq get_by_id_iff)

lemma get_error: "reader_good r \<Longrightarrow> get r i = Inl e \<Longrightarrow> e = ErrNotFound"
  by (simp add: get_eq get_by_id_missing)

lemma list_distinct: "reader_good r \<Longrightarrow> distinct (map Key (fst (list r None)))"
proof -
  assume "reader_good r"
  then have ok: "table_ok (tbl r)" by (rule tbl_ok)
  then have "map Key (map snd (tbl r)) = map fst (tbl r)" by (auto simp: table_ok_def)
  with ok show ?thesis by (simp add: list_eq list_table_all table_ok_def del: map_map)
qed

end

lemma reader_table_good:
  assumes "reader_good r"
  shows "P (db_get (rd_db r)) \<Longrightarrow> (\<And>w. writer_good w \<Longrightarrow> opt_table P (w_get w)) \<Longrightarrow>
    P (reader_table db_get w_get r)"
  using assms
  by (cases "rd_writer r")
    (simp_all add: reader_good_def reader_table_def working_def [symmetric] working_good)

lemma table_good_ok: "opt_table table_good t \<Longrightarrow> opt_table table_ok t"
  by (simp add: opt_table_def table_good_def split: option.splits)

lemma reader_tables_ok:
  assumes "reader_good r"
  shows "table_ok (reader_table GetServices w_services r)"
    and "table_ok (reader_table GetServiceAliases w_serviceAliases r)"
    and "table_ok (reader_table GetAddressGroups w_addressGroups r)"
    and "table_ok (reader_table GetAddressGroupBindings w_addressGroupBindings r)"
    and "table_ok (reader_table GetAddressGroupPortMappings w_addressGroupPortMappings r)"
    and "table_ok (reader_table GetAddressGroupBindingPolicies w_addressGroupBindingPolicies r)"
    and "table_ok (reader_table GetRuleS2S w_ruleS2S r)"
    and "table_ok (reader_table GetIEAgAgRules w_ieAgAgRules r)"
    and "table_ok (reader_table GetNetworks w_networks r)"
    and "table_ok (reader_table GetNetworkBindings w_networkBindings r)"
    and "table_ok (reader_table GetHosts w_hosts r)"
    and "table_ok (reader_table GetHostBindings w_hostBindings r)"
proof -
  have db: "db_good (rd_db r)" using assms by (simp add: reader_good_def)
  note tables = reader_table_good [of r table_ok, OF assms]
  show "table_ok (reader_table GetServices w_services r)"
    "table_ok (reader_table GetServiceAliases w_serviceAliases r)"
    "table_ok (reader_table GetAddressGroups w_addressGroups r)"
    "table_ok (reader_table GetAddressGroupBindings w_addressGroupBindings r)"
    "table_ok (reader_table GetAddressGroupPortMappings w_addressGroupPortMappings r)"
    "table_ok (reader_table GetAddressGroupBindingPolicies w_addressGroupBindingPolicies r)"
    "table_ok (reader_table GetRuleS2S w_ruleS2S r)"
    "table_ok (reader_table GetIEAgAgRules w_ieAgAgRules r)"
    "table_ok (reader_table GetNetworks w_networks r)"
    "table_ok (reader_table GetNetworkBindings w_networkBindings r)"
    "table_ok (reader_table GetHosts w_hosts r)"
    "table_ok (reader_table GetHostBindings w_hostBindings r)"
    by (rule tables; use db in \<open>simp add: db_good_def writer_good_def db_access_defs table_good_def
      table_good_ok\<close>)+
qed

lemma service_table_map_of:
  "map_of (service_table r) k =
    map_option (with_bound_groups (reader_table GetAddressGroupBindings w_addressGroupBindings r))
      (map_of (reader_table GetServices w_services r) k)"
  by (simp add: service_table_def map_of_map_values)

lemma list_table_map:
  assumes "\<And>v. Namespace (f v) = Namespace v"
  shows "list_table sc (map_values f t) = map f (list_table sc t)"
proof -
  have ids: "list_ids is (map_values f t) = map f (list_ids is t)" for "is"
    by (induction "is")
      (simp_all add: map_of_map_values map_values_parts filter_map comp_def assms
        split: option.splits)
  show ?thesis
    by (simp add: list_table_def ids map_values_parts split: option.splits scope.splits)
qed

lemma Key_with_bound_groups [simp]: "Key (with_bound_groups bs s) = Key s"
  by (simp add: with_bound_groups_def Key_def)

interpretation rd_svc: reader_kind mem_ListServices mem_GetServiceByID service_table
proof
  fix r sc
  show "mem_ListServices r sc = (list_table sc (service_table r), None)"
    by (simp add: mem_ListServices_def service_table_def list_table_map with_bound_groups_def)
next
  fix r i
  assume "reader_good r"
  then show "mem_GetServiceByID r i = get_by_id i (service_table r)"
    using table_ok_lookup [OF reader_tables_ok(1)]
    by (auto simp: mem_GetServiceByID_def get_by_id_def service_table_map_of with_bound_groups_def
        split: option.splits)
next
  fix r
  assume "reader_good r"
  then show "table_ok (service_table r)"
    using reader_tables_ok(1) [of r]
    by (auto simp: table_ok_def service_table_def map_values_parts) (auto simp: map_values_def)
qed

interpretation rd_sal: reader_kind mem_ListServiceAliases mem_GetServiceAliasByID "reader_table GetServiceAliases w_serviceAliases"
  by unfold_locales (simp_all add: mem_ListServiceAliases_def mem_GetServiceAliasByID_def reader_tables_ok)

interpretation rd_ag: reader_kind mem_ListAddressGroups mem_GetAddressGroupByID "reader_table GetAddressGroups w_addressGroups"
  by unfold_locales (simp_all add: mem_ListAddressGroups_def mem_GetAddressGroupByID_def reader_tables_ok)

interpretation rd_agb: reader_kind mem_ListAddressGroupBindings mem_GetAddressGroupBindingByID "reader_table GetAddressGroupBindings w_addressGroupBindings"
  by unfold_locales (simp_all add: mem_ListAddressGroupBindings_def mem_GetAddressGroupBindingByID_def reader_tables_ok)

interpretation rd_agpm: reader_kind mem_ListAddressGroupPortMappings mem_GetAddressGroupPortMappingByID "reader_table GetAddressGroupPortMappings w_addressGroupPortMappings"
  by unfold_locales (simp_all add: mem_ListAddressGroupPortMappings_def mem_GetAddressGroupPortMappingByID_def reader_tables_ok)

interpretation rd_agbp: reader_kind mem_ListAddressGroupBindingPolicies mem_GetAddressGroupBindingPolicyByID "reader_table GetAddressGroupBindingPolicies w_addressGroupBindingPolicies"
  by unfold_locales (simp_all add: mem_ListAddressGroupBindingPolicies_def mem_GetAddressGroupBindingPolicyByID_def reader_tables_ok)

interpretation rd_rs: reader_kind mem_ListRuleS2S mem_GetRuleS2SByID "reader_table GetRuleS2S w_ruleS2S"
  by unfold_locales (simp_all add: mem_ListRuleS2S_def mem_GetRuleS2SByID_def reader_tables_ok)

interpretation rd_ie: reader_kind mem_ListIEAgAgRules mem_GetIEAgAgRuleByID "reader_table GetIEAgAgRules w_ieAgAgRules"
  by unfold_locales (simp_all add: mem_ListIEAgAgRules_def mem_GetIEAgAgRuleByID_def reader_tables_ok)

interpretation rd_nw: reader_kind mem_ListNetworks mem_GetNetworkByID "reader_table GetNetworks w_networks"
  by unfold_locales (simp_all add: mem_ListNetworks_def mem_GetNetworkByID_def reader_tables_ok)

interpretation rd_nb: reader_kind mem_ListNetworkBindings mem_GetNetworkBindingByID "reader_table GetNetworkBindings w_networkBindings"
  by unfold_locales (simp_all add: mem_ListNetworkBindings_def mem_GetNetworkBindingByID_def reader_tables_ok)

interpretation rd_ho: reader_kind mem_ListHosts mem_GetHostByID "reader_table GetHosts w_hosts"
  by unfold_locales (simp_all add: mem_ListHosts_def mem_GetHostByID_def reader_tables_ok)

interpretation rd_hb: reader_kind mem_ListHostBindings mem_GetHostBindingByID "reader_table GetHostBindings w_hostBindings"
  by unfold_locales (simp_all add: mem_ListHostBindings_def mem_GetHostBindingByID_def reader_tables_ok)

end
