(* ===== verification/Sha256.thy ===== *)
theory Sha256
  imports Main "HOL-Library.Word"
begin

text \<open>
  SHA-256 (FIPS 180-4), which \<^verbatim>\<open>generateRuleName\<close> takes from Go's
  \<^verbatim>\<open>crypto/sha256\<close>, on byte lists, and hexadecimal printing (\<^verbatim>\<open>%x\<close>).
\<close>

unbundle bit_operations_syntax

type_synonym w32 = "32 word"

definition rotr :: "nat \<Rightarrow> w32 \<Rightarrow> w32" where
  "rotr n w = word_rotr n w"

definition small_sigma0 :: "w32 \<Rightarrow> w32" where
  "small_sigma0 x = rotr 7 x XOR rotr 18 x XOR drop_bit 3 x"

definition small_sigma1 :: "w32 \<Rightarrow> w32" where
  "small_sigma1 x = rotr 17 x XOR rotr 19 x XOR drop_bit 10 x"

definition big_sigma0 :: "w32 \<Rightarrow> w32" where
  "big_sigma0 x = rotr 2 x XOR rotr 13 x XOR rotr 22 x"

definition big_sigma1 :: "w32 \<Rightarrow> w32" where
  "big_sigma1 x = rotr 6 x XOR rotr 11 x XOR rotr 25 x"

definition ch :: "w32 \<Rightarrow> w32 \<Rightarrow> w32 \<Rightarrow> w32" where
  "ch x y z = (x AND y) XOR (NOT x AND z)"

definition maj :: "w32 \<Rightarrow> w32 \<Rightarrow> w32 \<Rightarrow> w32" where
  "maj x y z = (x AND y) XOR (x AND z) XOR (y AND z)"

text \<open>
  The standard defines its constants: the first 32 bits of the fractional parts of the cube roots
  of the first 64 primes for the rounds, and of the square roots of the first eight for the initial
  hash. \<^verbatim>\<open>root_bits e n k r\<close> refines the integer \<^verbatim>\<open>e\<close>-th root of \<^verbatim>\<open>n\<close> by its last
  \<^verbatim>\<open>k\<close> bits; 36 bits are enough, the roots being below 8 (so below \<^verbatim>\<open>2 ^ 35\<close> once shifted).
\<close>

definition primes_below :: "nat \<Rightarrow> nat list" where
  "primes_below m = filter (\<lambda>p. list_all (\<lambda>d. p mod d \<noteq> 0) [2..<p]) [2..<m]"

fun root_bits :: "nat \<Rightarrow> nat \<Rightarrow> nat \<Rightarrow> nat \<Rightarrow> nat" where
  "root_bits e n 0 r = r"
| "root_bits e n (Suc k) r =
     root_bits e n k (let r' = r + 2 ^ k in if r' ^ e \<le> n then r' else r)"

definition root_fraction :: "nat \<Rightarrow> nat \<Rightarrow> w32" where
  "root_fraction e p = of_nat (root_bits e (p * 2 ^ (32 * e)) 36 0)"

definition round_constants :: "w32 list" where
  "round_constants = map (root_fraction 3) (primes_below 312)"

definition initial_hash :: "w32 list" where
  "initial_hash = map (root_fraction 2) (primes_below 20)"

text \<open>Padding to whole 64-byte blocks and the big-endian words of a block.\<close>

definition be_bytes :: "nat \<Rightarrow> nat \<Rightarrow> nat list" where
  "be_bytes n v = map (\<lambda>i. v div 256 ^ (n - 1 - i) mod 256) [0..<n]"

definition pad :: "nat list \<Rightarrow> nat list" where
  "pad msg =
     (let l = length msg; z = (119 - l mod 64) mod 64
      in msg @ [128] @ replicate z 0 @ be_bytes 8 (8 * l))"

fun words_of :: "nat list \<Rightarrow> w32 list" where
  "words_of (a # b # c # d # rest) =
     of_nat (a * 16777216 + b * 65536 + c * 256 + d) # words_of rest"
| "words_of _ = []"

fun blocks_of :: "nat list \<Rightarrow> w32 list list" where
  "blocks_of bs = (if length bs < 64 then [] else words_of (take 64 bs) # blocks_of (drop 64 bs))"

text \<open>The message schedule, newest word first.\<close>

fun extend_schedule :: "nat \<Rightarrow> w32 list \<Rightarrow> w32 list" where
  "extend_schedule 0 ws = ws"
| "extend_schedule (Suc n) ws =
     extend_schedule n
       ((small_sigma1 (ws ! 1) + ws ! 6 + small_sigma0 (ws ! 14) + ws ! 15) # ws)"

definition schedule :: "w32 list \<Rightarrow> w32 list" where
  "schedule block = rev (extend_schedule 48 (rev block))"

fun sha_round :: "w32 \<times> w32 \<Rightarrow> w32 list \<Rightarrow> w32 list" where
  "sha_round (k, w) [a, b, c, d, e, f, g, h] =
     (let t1 = h + big_sigma1 e + ch e f g + k + w; t2 = big_sigma0 a + maj a b c
      in [t1 + t2, a, b, c, d + t1, e, f, g])"
| "sha_round _ st = st"

definition compress :: "w32 list \<Rightarrow> w32 list \<Rightarrow> w32 list" where
  "compress block hs = map2 (+) hs (fold sha_round (zip round_constants (schedule block)) hs)"

definition sha256 :: "nat list \<Rightarrow> nat list" where
  "sha256 msg =
     concat (map (\<lambda>w. be_bytes 4 (unat w)) (fold compress (blocks_of (pad msg)) initial_hash))"

definition hex_digit :: "nat \<Rightarrow> char" where
  "hex_digit d = (if d < 10 then char_of (48 + d) else char_of (87 + d))"

definition hex :: "nat list \<Rightarrow> string" where
  "hex bs = concat (map (\<lambda>b. [hex_digit (b div 16), hex_digit (b mod 16)]) bs)"

lemma length_be_bytes [simp]: "length (be_bytes n v) = n"
  by (simp add: be_bytes_def)

lemma length_sha_round [simp]: "length (sha_round kw st) = length st"
  by (induction kw st rule: sha_round.induct) (simp_all add: Let_def)

lemma length_fold_sha_round [simp]: "length (fold sha_round kws st) = length st"
  by (induction kws arbitrary: st) simp_all

lemma length_compress [simp]: "length (compress b st) = length st"
  by (simp add: compress_def)

lemma length_fold_compress [simp]: "length (fold compress bs st) = length st"
  by (induction bs arbitrary: st) simp_all

lemma length_initial_hash: "length initial_hash = 8"
  by (simp add: initial_hash_def primes_below_def upt_conv_Cons)

lemma length_sha256: "length (sha256 msg) = 32"
  by (simp add: sha256_def length_concat o_def length_initial_hash sum_list_triv)

lemma length_hex [simp]: "length (hex bs) = 2 * length bs"
  by (simp add: hex_def length_concat o_def sum_list_triv)

lemma sha256_bytes: "b \<in> set (sha256 msg) \<Longrightarrow> b < 256"
  by (auto simp: sha256_def be_bytes_def)

end
