(* ===== verification/RuleAggregation.thy ===== *)
theory RuleAggregation
  imports MemReader Sha256
begin

text \<open>
  The aggregation of service-to-service rules into rules between address groups
  (\<^verbatim>\<open>internal/application/services/resources/rules2s_resource_service.go\<close> and
  \<^verbatim>\<open>rules2s_addressgroup_helpers.go\<close>): which rules contribute to an address group
  pair, how their ports and trace flags are merged, how the generated rules are named.

  Two readers occur. The caller passes one, and the search for contributing rules opens its
  own on the registry; opening may fail, so the registry's two readers are values of a sum.
  Where the code ranges over the set of a service's protocols, the model visits them in the
  order in which they first occur; Go leaves that order open, and no result below depends
  on it. Logging is not modelled.
\<close>

section \<open>Services and address groups of a rule\<close>

text \<open>The callback that appends every item to a slice.\<close>

definition collect_all :: "'a listing \<Rightarrow> error option \<times> 'a list" where
  "collect_all l = consume_listing (\<lambda>x xs. (None, xs @ [x])) l []"

lemma fold_snoc: "fold (\<lambda>x xs. if P x then xs @ [x] else xs) ys zs = zs @ filter P ys"
  by (induction ys arbitrary: zs) auto

lemma collect_all_eq [simp]: "collect_all l = (snd l, fst l)"
  using fold_snoc [of "\<lambda>_. True" "fst l" "[]"] by (simp add: collect_all_def)

definition extractAddressGroupRefs :: "address_group_reference list \<Rightarrow> nref list" where
  "extractAddressGroupRefs aggregated =
     (if length aggregated = 0 then []
      else map (\<lambda>a. \<lparr> ref_APIVersion = ref_APIVersion (agr_Ref a), ref_Kind = ref_Kind (agr_Ref a),
                      ref_Name = ref_Name (agr_Ref a), ref_Namespace = ref_Namespace (agr_Ref a) \<rparr>)
             aggregated)"

lemma extractAddressGroupRefs_eq [simp]: "extractAddressGroupRefs as = map agr_Ref as"
  by (auto simp: extractAddressGroupRefs_def)

definition populateServiceAddressGroups :: "reader_ops \<Rightarrow> service \<Rightarrow> error + service" where
  "populateServiceAddressGroups rd s =
     (let (err, ags) =
        consume_listing
          (\<lambda>b ags. (None,
             if ref_Name (agb_ServiceRef b) = Name s \<and> ref_Namespace (agb_ServiceRef b) = Namespace s
             then ags @ [agb_AddressGroupRef b] else ags))
          (ListAddressGroupBindings rd (Some EmptyScope)) []
      in case err of
           Some e \<Rightarrow> Inl (Wrap (''failed to list AddressGroupBindings for service '' @ Key s) e)
         | None \<Rightarrow> Inr (s\<lparr>svc_AddressGroups := ags\<rparr>))"

definition local_id :: "rule_s2s \<Rightarrow> resource_identifier" where
  "local_id r = ResourceIdentifier (ref_Name (rs_ServiceLocalRef r)) (ref_Namespace (rs_ServiceLocalRef r))"

definition target_id :: "rule_s2s \<Rightarrow> resource_identifier" where
  "target_id r = ResourceIdentifier (ref_Name (rs_ServiceRef r)) (ref_Namespace (rs_ServiceRef r))"

definition getServicesForRuleWithReader ::
  "reader_ops \<Rightarrow> rule_s2s \<Rightarrow> error + service \<times> service"
where
  "getServicesForRuleWithReader rd r =
     (case GetServiceByID rd (local_id r) of
        Inl e \<Rightarrow> Inl (Wrap (''local service '' @ rid_Key (local_id r) @ '' not found'') e)
      | Inr l \<Rightarrow>
     (case GetServiceByID rd (target_id r) of
        Inl e \<Rightarrow> Inl (Wrap (''target service '' @ rid_Key (target_id r) @ '' not found'') e)
      | Inr t \<Rightarrow>
     (case populateServiceAddressGroups rd l of
        Inl e \<Rightarrow> Inl (Wrap (''failed to populate AddressGroups for local service '' @
                   rid_Key (local_id r)) e)
      | Inr l' \<Rightarrow>
     (case populateServiceAddressGroups rd t of
        Inl e \<Rightarrow> Inl (Wrap (''failed to populate AddressGroups for target service '' @
                   rid_Key (target_id r)) e)
      | Inr t' \<Rightarrow> Inr (l', t')))))"

text \<open>The readers the registry hands out.\<close>

record registry_readers =
  rr_Reader :: "error + reader_ops"
  rr_ReadCommitted :: "error + reader_ops"

definition mem_readers :: "registry \<Rightarrow> registry_readers" where
  "mem_readers reg =
     \<lparr> rr_Reader = map_sum id mem_reader (Reader reg),
       rr_ReadCommitted = map_sum id mem_reader (ReaderWithReadCommitted reg) \<rparr>"

definition getServicesForRule :: "registry_readers \<Rightarrow> rule_s2s \<Rightarrow> error + service \<times> service" where
  "getServicesForRule rr r =
     (case rr_ReadCommitted rr of
        Inl e \<Rightarrow> Inl (Wrap ''failed to get ReadCommitted registry reader'' e)
      | Inr rd \<Rightarrow> getServicesForRuleWithReader rd r)"

text \<open>The service whose ports a rule opens: the receiver of the traffic.\<close>

definition ports_source :: "traffic \<Rightarrow> service \<Rightarrow> service \<Rightarrow> service" where
  "ports_source traffic localService targetService =
     (if traffic = INGRESS then localService else targetService)"

definition protocols_of :: "service \<Rightarrow> transport_protocol list" where
  "protocols_of s = remdups (map ip_Protocol (svc_IngressPorts s))"

definition extractPortsFromService :: "service \<Rightarrow> ingress_port list" where
  "extractPortsFromService s = svc_IngressPorts s"

definition extractPortStringsFromService :: "service \<Rightarrow> transport_protocol \<Rightarrow> string list" where
  "extractPortStringsFromService s protocol =
     map ip_Port (filter (\<lambda>p. ip_Protocol p = protocol) (svc_IngressPorts s))"

definition convertIngressPortsToPortSpecs :: "ingress_port list \<Rightarrow> port_spec list" where
  "convertIngressPortsToPortSpecs ps =
     (if length ps = 0 then []
      else [\<lparr> ps_Source = [], ps_Destination = join '','' (sort (map ip_Port ps)) \<rparr>])"

definition servicesHaveSameAddressGroups :: "service \<Rightarrow> service \<Rightarrow> bool" where
  "servicesHaveSameAddressGroups s1 s2 \<longleftrightarrow>
     length (svc_AddressGroups s1) = length (svc_AddressGroups s2) \<and>
     list_all (\<lambda>ag. AddressGroupRefKey ag \<in> set (map AddressGroupRefKey (svc_AddressGroups s1)))
       (svc_AddressGroups s2)"

section \<open>Names of generated rules\<close>

definition to_lower :: "string \<Rightarrow> string" where
  "to_lower s = map (\<lambda>c. let n = of_char c in if 65 \<le> n \<and> n \<le> (90::nat) then char_of (n + 32) else c) s"

text \<open>
  The first sixteen bytes of the hash, printed like a UUID, after the first three letters of
  the traffic direction. The slice expression panics on a shorter direction, which
  \<open>generateRuleName_panics\<close> tells; on every other direction \<open>generateRuleName\<close> is the value of the
  code. INGRESS and EGRESS are long enough.
\<close>

definition uuid_text :: "nat list \<Rightarrow> string" where
  "uuid_text hash =
     hex (take 4 hash) @ ''-'' @ hex (take 2 (drop 4 hash)) @ ''-'' @ hex (take 2 (drop 6 hash)) @
     ''-'' @ hex (take 2 (drop 8 hash)) @ ''-'' @ hex (take 6 (drop 10 hash))"

definition generateRuleName :: "string \<Rightarrow> string \<Rightarrow> string \<Rightarrow> string \<Rightarrow> string" where
  "generateRuleName trafficDirection localAGName targetAGName protocol =
     (let input = to_lower trafficDirection @ ''-'' @ localAGName @ ''-'' @ targetAGName @ ''-'' @
            to_lower protocol;
          hash = sha256 (map of_char input)
      in take 3 (to_lower trafficDirection) @ ''-'' @ uuid_text hash)"

definition generateRuleName_panics :: "string \<Rightarrow> bool" where
  "generateRuleName_panics trafficDirection \<longleftrightarrow> length (to_lower trafficDirection) < 3"

definition generateAggregatedRuleName ::
  "traffic \<Rightarrow> nref \<Rightarrow> nref \<Rightarrow> transport_protocol \<Rightarrow> string"
where
  "generateAggregatedRuleName traffic localAG targetAG protocol =
     generateRuleName traffic (ref_Name localAG) (ref_Name targetAG) protocol"

definition generateRuleNameForRuleS2S ::
  "rule_s2s \<Rightarrow> nref \<Rightarrow> nref \<Rightarrow> transport_protocol \<Rightarrow> string"
where
  "generateRuleNameForRuleS2S r localAG targetAG protocol =
     generateRuleName (rs_Traffic r) (ref_Name localAG) (ref_Name targetAG) protocol"

definition addressGroupRefKey :: "nref \<Rightarrow> string" where
  "addressGroupRefKey r = ref_Namespace r @ ''/'' @ ref_Name r"

section \<open>Contributing rules\<close>

definition address_group_pairs :: "service \<Rightarrow> service \<Rightarrow> (nref \<times> nref) list" where
  "address_group_pairs l t =
     List.product (extractAddressGroupRefs (svc_AggregatedAddressGroups l))
       (extractAddressGroupRefs (svc_AggregatedAddressGroups t))"

text \<open>Address group pairs and protocols in the order of the three nested loops.\<close>

definition combinations :: "traffic \<Rightarrow> service \<Rightarrow> service \<Rightarrow> ((nref \<times> nref) \<times> transport_protocol) list"
where
  "combinations traffic l t =
     List.product (address_group_pairs l t) (protocols_of (ports_source traffic l t))"

definition generateAGCombinations :: "service \<Rightarrow> service \<Rightarrow> traffic \<Rightarrow> string list" where
  "generateAGCombinations l t traffic =
     map (\<lambda>((lag, tag), protocol).
            traffic @ ''-'' @ ref_Namespace lag @ ''/'' @ ref_Name lag @ ''-'' @
            ref_Namespace tag @ ''/'' @ ref_Name tag @ ''-'' @ protocol)
       (combinations traffic l t)"

definition checkIfRuleContributes ::
  "registry_readers \<Rightarrow> rule_s2s \<Rightarrow> rule_s2s \<Rightarrow> service \<Rightarrow> service \<Rightarrow> transport_protocol \<Rightarrow>
   error + bool \<times> string list"
where
  "checkIfRuleContributes rr candidate current localService targetService protocol =
     (if rs_Traffic candidate \<noteq> rs_Traffic current then Inr (False, [])
      else (case getServicesForRule rr candidate of
        Inl e \<Rightarrow> Inl e
      | Inr (cl, ct) \<Rightarrow>
          (let currentCombinations = generateAGCombinations localService targetService (rs_Traffic current);
               candidateCombinations = generateAGCombinations cl ct (rs_Traffic candidate)
           in if \<not> list_ex (\<lambda>a. list_ex (\<lambda>b. a = b) candidateCombinations) currentCombinations
              then Inr (False, [])
              else if to_lower (rs_Traffic candidate) = ''ingress''
              then Inr (True, extractPortStringsFromService cl protocol)
              else Inr (True, extractPortStringsFromService ct protocol))))"

record contributing_rule =
  cr_RuleS2S :: rule_s2s
  cr_Ports :: "string list"

fun contributing_loop ::
  "registry_readers \<Rightarrow> rule_s2s \<Rightarrow> service \<Rightarrow> service \<Rightarrow> string list \<Rightarrow> transport_protocol \<Rightarrow>
   rule_s2s list \<Rightarrow> contributing_rule list"
where
  "contributing_loop rr current l t excluded protocol [] = []"
| "contributing_loop rr current l t excluded protocol (r # rs) =
     (if Key r \<in> set excluded then contributing_loop rr current l t excluded protocol rs
      else if \<not> IsReady (Meta r) then contributing_loop rr current l t excluded protocol rs
      else (case checkIfRuleContributes rr r current l t protocol of
              Inl _ \<Rightarrow> contributing_loop rr current l t excluded protocol rs
            | Inr (contributes, ps) \<Rightarrow>
                if contributes \<and> length ps > 0
                then \<lparr> cr_RuleS2S = r, cr_Ports = ps \<rparr> #
                       contributing_loop rr current l t excluded protocol rs
                else contributing_loop rr current l t excluded protocol rs))"

definition findContributingRuleS2S ::
  "registry_readers \<Rightarrow> rule_s2s \<Rightarrow> service \<Rightarrow> service \<Rightarrow> string list \<Rightarrow> transport_protocol \<Rightarrow>
   error + contributing_rule list"
where
  "findContributingRuleS2S rr current l t excluded protocol =
     (case rr_Reader rr of
        Inl e \<Rightarrow> Inl (Wrap ''failed to get registry reader'' e)
      | Inr rd \<Rightarrow>
          (let (err, allRules) = collect_all (ListRuleS2S rd (Some EmptyScope))
           in case err of
                Some e \<Rightarrow> Inl (Wrap ''failed to list all RuleS2S'' e)
              | None \<Rightarrow> Inr (contributing_loop rr current l t excluded protocol allRules)))"

text \<open>The port set is a map that is then sorted; the reader and the protocol are not used.\<close>

definition aggregatePortsWithProtocol :: "contributing_rule list \<Rightarrow> string list" where
  "aggregatePortsWithProtocol crs = sort (remdups (concat (map cr_Ports crs)))"

definition aggregateTraceValue :: "rule_s2s list \<Rightarrow> bool" where
  "aggregateTraceValue rs = (if length rs = 0 then False else list_all rs_Trace rs)"

section \<open>Rules of a single service-to-service rule\<close>

definition protocol_rule ::
  "rule_s2s \<Rightarrow> ingress_port list \<Rightarrow> nref \<Rightarrow> nref \<Rightarrow> transport_protocol \<Rightarrow> ieagag_rule"
where
  "protocol_rule r protocolPorts localAG targetAG protocol =
     \<lparr> Name = generateRuleNameForRuleS2S r localAG targetAG protocol, Namespace = Namespace r,
       Meta = empty_meta, ie_Transport = protocol, ie_Traffic = rs_Traffic r,
       ie_AddressGroupLocal = localAG, ie_AddressGroup = targetAG,
       ie_Ports = convertIngressPortsToPortSpecs protocolPorts, ie_Action = ActionAccept,
       ie_Logs = False, ie_Trace = rs_Trace r, ie_Priority = 100 \<rparr>"

definition GenerateIEAgAgRulesFromRuleS2SWithReader ::
  "reader_ops \<Rightarrow> rule_s2s \<Rightarrow> error + ieagag_rule list"
where
  "GenerateIEAgAgRulesFromRuleS2SWithReader rd r =
     (case GetServiceByID rd (local_id r) of
        Inl e \<Rightarrow> Inl (Wrap (''failed to get local service '' @ ref_Name (rs_ServiceLocalRef r)) e)
      | Inr l \<Rightarrow>
     (case GetServiceByID rd (target_id r) of
        Inl e \<Rightarrow> Inl (Wrap (''failed to get target service '' @ ref_Name (rs_ServiceRef r)) e)
      | Inr t \<Rightarrow>
          (let allPorts = extractPortsFromService (ports_source (rs_Traffic r) l t)
           in Inr (concat (map (\<lambda>(localAG, targetAG).
                concat (map (\<lambda>protocol.
                  let protocolPorts = filter (\<lambda>p. ip_Protocol p = protocol) allPorts
                  in if length protocolPorts = 0 then []
                     else [protocol_rule r protocolPorts localAG targetAG protocol]) [TCP, UDP]))
                (address_group_pairs l t))))))"

section \<open>Aggregation groups\<close>

record aggregation_group =
  grp_Traffic :: traffic
  grp_LocalAG :: nref
  grp_TargetAG :: nref
  grp_Protocol :: transport_protocol
  grp_Namespace :: string

definition AggregationGroup_Key :: "aggregation_group \<Rightarrow> string" where
  "AggregationGroup_Key g =
     grp_Traffic g @ ''|'' @ ref_Namespace (grp_LocalAG g) @ ''/'' @ ref_Name (grp_LocalAG g) @ ''|'' @
     ref_Namespace (grp_TargetAG g) @ ''/'' @ ref_Name (grp_TargetAG g) @ ''|'' @ grp_Protocol g"

definition extractAggregationGroupsFromRuleS2S ::
  "reader_ops \<Rightarrow> rule_s2s \<Rightarrow> error + aggregation_group list"
where
  "extractAggregationGroupsFromRuleS2S rd r =
     (case GetServiceByID rd (local_id r) of
        Inl e \<Rightarrow> Inl (Wrap (''failed to get local service '' @ rid_Key (local_id r)) e)
      | Inr l \<Rightarrow>
     (case GetServiceByID rd (target_id r) of
        Inl e \<Rightarrow> Inl (Wrap (''failed to get target service '' @ rid_Key (target_id r)) e)
      | Inr t \<Rightarrow>
          Inr (map (\<lambda>((localAG, targetAG), protocol).
                 \<lparr> grp_Traffic = rs_Traffic r, grp_LocalAG = localAG, grp_TargetAG = targetAG,
                   grp_Protocol = protocol, grp_Namespace = Namespace r \<rparr>)
               (combinations (rs_Traffic r) l t))))"

definition addressGroupRefMatches :: "nref \<Rightarrow> nref \<Rightarrow> bool" where
  "addressGroupRefMatches a b \<longleftrightarrow> ref_Name a = ref_Name b \<and> ref_Namespace a = ref_Namespace b"

definition ruleContributesToAggregationGroup ::
  "reader_ops \<Rightarrow> rule_s2s \<Rightarrow> aggregation_group \<Rightarrow> error + bool"
where
  "ruleContributesToAggregationGroup rd r g =
     (case GetServiceByID rd (local_id r) of
        Inl _ \<Rightarrow> Inr False
      | Inr l \<Rightarrow>
     (case GetServiceByID rd (target_id r) of
        Inl _ \<Rightarrow> Inr False
      | Inr t \<Rightarrow>
          Inr (list_ex (\<lambda>(localAG, targetAG).
                 addressGroupRefMatches localAG (grp_LocalAG g) \<and>
                 addressGroupRefMatches targetAG (grp_TargetAG g) \<and>
                 list_ex (\<lambda>p. ip_Protocol p = grp_Protocol g)
                   (svc_IngressPorts (ports_source (rs_Traffic r) l t)))
               (address_group_pairs l t))))"

definition FindAllRuleS2SForAggregationGroup ::
  "reader_ops \<Rightarrow> aggregation_group \<Rightarrow> error + rule_s2s list"
where
  "FindAllRuleS2SForAggregationGroup rd g =
     (let (err, matching) =
        consume_listing
          (\<lambda>r rs. (None,
             if Namespace r \<noteq> grp_Namespace g then rs
             else if rs_Traffic r \<noteq> grp_Traffic g then rs
             else (case ruleContributesToAggregationGroup rd r g of
                     Inl _ \<Rightarrow> rs
                   | Inr contributes \<Rightarrow> if contributes then rs @ [r] else rs)))
          (ListRuleS2S rd (Some EmptyScope)) []
      in case err of
           Some e \<Rightarrow> Inl (Wrap ''failed to search RuleS2S for aggregation group'' e)
         | None \<Rightarrow> Inr matching)"

definition group_involves :: "nref \<Rightarrow> aggregation_group \<Rightarrow> bool" where
  "group_involves ag g \<longleftrightarrow>
     ref_Name (grp_LocalAG g) = ref_Name ag \<and> ref_Namespace (grp_LocalAG g) = ref_Namespace ag \<or>
     ref_Name (grp_TargetAG g) = ref_Name ag \<and> ref_Namespace (grp_TargetAG g) = ref_Namespace ag"

text \<open>The result and the error are returned together; the callers drop the rules on error.\<close>

definition findRuleS2SByAddressGroupInteraction ::
  "reader_ops \<Rightarrow> nref \<Rightarrow> error option \<times> rule_s2s list"
where
  "findRuleS2SByAddressGroupInteraction rd ag =
     consume_listing
       (\<lambda>r rs. (None,
          case extractAggregationGroupsFromRuleS2S rd r of
            Inl _ \<Rightarrow> rs
          | Inr groups \<Rightarrow> if list_ex (group_involves ag) groups then rs @ [r] else rs))
       (ListRuleS2S rd (Some EmptyScope)) []"

section \<open>Rules that reference a service\<close>

definition findServiceAliasesForService ::
  "reader_ops \<Rightarrow> resource_identifier \<Rightarrow> error option \<times> service_alias list"
where
  "findServiceAliasesForService rd i =
     consume_listing
       (\<lambda>a as. (None,
          if ref_Name (sa_ServiceRef a) = rid_Name i \<and> ref_Namespace (sa_ServiceRef a) = rid_Namespace i
          then as @ [a] else as))
       (ListServiceAliases rd (Some EmptyScope)) []"

definition refers_to :: "nref \<Rightarrow> string \<Rightarrow> string \<Rightarrow> bool" where
  "refers_to r n ns \<longleftrightarrow> ref_Name r = n \<and> ref_Namespace r = ns"

definition findRuleS2SReferencingServiceAlias ::
  "reader_ops \<Rightarrow> resource_identifier \<Rightarrow> error option \<times> rule_s2s list"
where
  "findRuleS2SReferencingServiceAlias rd i =
     consume_listing
       (\<lambda>r rs. (None,
          if refers_to (rs_ServiceLocalRef r) (rid_Name i) (rid_Namespace i) then rs @ [r]
          else if refers_to (rs_ServiceRef r) (rid_Name i) (rid_Namespace i) then rs @ [r] else rs))
       (ListRuleS2S rd (Some EmptyScope)) []"

definition findAllRelatedRuleS2S ::
  "reader_ops \<Rightarrow> resource_identifier \<Rightarrow> error + rule_s2s list"
where
  "findAllRelatedRuleS2S rd i =
     (let (err, aliases) =
        consume_listing
          (\<lambda>a as. (None,
             if ref_Name (sa_ServiceRef a) = rid_Name i \<and> ref_Namespace (sa_ServiceRef a) = rid_Namespace i
             then as @ [a] else as))
          (ListServiceAliases rd (Some EmptyScope)) []
      in case err of
           Some e \<Rightarrow> Inl (Wrap ''failed to find service aliases for service'' e)
         | None \<Rightarrow>
             (let (err', related) =
                consume_listing
                  (\<lambda>r rs. (None,
                     if list_ex (\<lambda>a. refers_to (rs_ServiceRef r) (Name a) (Namespace a) \<or>
                                     refers_to (rs_ServiceLocalRef r) (Name a) (Namespace a)) aliases
                     then rs @ [r] else rs))
                  (ListRuleS2S rd (Some EmptyScope)) []
              in case err' of
                   Some e \<Rightarrow> Inl (Wrap ''failed to find RuleS2S for service aliases'' e)
                 | None \<Rightarrow> Inr related))"

fun related_rules ::
  "reader_ops \<Rightarrow> resource_identifier list \<Rightarrow> rule_s2s list \<Rightarrow> error + rule_s2s list"
where
  "related_rules rd [] acc = Inr acc"
| "related_rules rd (i # is) acc =
     (case findAllRelatedRuleS2S rd i of
        Inl e \<Rightarrow> Inl (Wrap (''failed to find rules for service '' @ rid_Key i) e)
      | Inr rs \<Rightarrow> related_rules rd is (acc @ rs))"

definition FindRuleS2SForServicesWithReader ::
  "reader_ops \<Rightarrow> resource_identifier list \<Rightarrow> error + rule_s2s list"
where
  "FindRuleS2SForServicesWithReader rd ids =
     (case related_rules rd ids [] of
        Inl e \<Rightarrow> Inl e
      | Inr related \<Rightarrow> Inr (map snd (put_items related [])))"

definition FindAggregationGroupsForServices ::
  "reader_ops \<Rightarrow> resource_identifier list \<Rightarrow> error + aggregation_group list"
where
  "FindAggregationGroupsForServices rd ids =
     (case FindRuleS2SForServicesWithReader rd ids of
        Inl e \<Rightarrow> Inl (Wrap ''failed to find RuleS2S for services'' e)
      | Inr affected \<Rightarrow>
          Inr (map snd (fold
            (\<lambda>r m. case extractAggregationGroupsFromRuleS2S rd r of
                     Inl _ \<Rightarrow> m
                   | Inr groups \<Rightarrow> fold (\<lambda>g. AList.update (AggregationGroup_Key g) g) groups m)
            affected [])))"

end
