(* ===== verification/RuleEngine.thy ===== *)
theory RuleEngine
  imports RuleAggregation
begin

text \<open>
  The stateful part of the rule service on the in-memory registry: generation of the
  aggregated rules with the removal of orphaned ones, the comparison of stored and fresh
  rules, and the recalculations that write the difference
  (\<^verbatim>\<open>internal/application/services/resources/rules2s_resource_service.go\<close>).

  The state is the registry, the source of time and UUIDs, and the calls made to the external
  synchronisation manager. That manager is an interface whose errors the code only logs, so
  the calls are recorded and their outcome is not a parameter. A reader is live: each
  operation reads the registry as it is when the operation runs, through the writer the
  reader was made from, if any.
\<close>

section \<open>State\<close>

datatype sync_operation = SyncOperationUpsert | SyncOperationDelete

record engine =
  eng_reg :: registry
  eng_env :: env
  eng_synced :: "(sync_operation \<times> ieagag_rule) list"
  eng_syncManager :: bool
  eng_conditionManager :: bool

text \<open>The two flags tell whether the manager is not nil.\<close>

definition eng_reader :: "writer option \<Rightarrow> engine \<Rightarrow> reader_ops" where
  "eng_reader w s = mem_reader \<lparr> rd_db = reg_db (eng_reg s), rd_writer = w \<rparr>"

definition SyncEntity :: "ieagag_rule \<Rightarrow> sync_operation \<Rightarrow> engine \<Rightarrow> engine" where
  "SyncEntity r syncOp s =
     (if eng_syncManager s then s\<lparr>eng_synced := eng_synced s @ [(syncOp, r)]\<rparr> else s)"

definition commit_writer :: "writer \<Rightarrow> engine \<Rightarrow> engine" where
  "commit_writer w s =
     (let (db, e) = Commit (eng_env s) (reg_db (eng_reg s)) w
      in s\<lparr>eng_reg := (eng_reg s)\<lparr>reg_db := db\<rparr>, eng_env := e\<rparr>)"

section \<open>Generation with cross-rule aggregation\<close>

definition cleanupOrphanedIEAgAgRule ::
  "writer option \<Rightarrow> string \<Rightarrow> string \<Rightarrow> engine \<Rightarrow> error option \<times> engine"
where
  "cleanupOrphanedIEAgAgRule w ruleName ns s =
     (let ruleID = ResourceIdentifier ruleName ns
      in case GetIEAgAgRuleByID (eng_reader w s) ruleID of
           Inl e \<Rightarrow>
             if is_not_found e then (None, s)
             else (Some (Wrap (''failed to check if rule '' @ ns @ ''/'' @ ruleName @ '' exists'') e), s)
         | Inr existingRule \<Rightarrow>
             (case Writer (eng_reg s) of
                Inl e \<Rightarrow> (Some (Wrap ''failed to get writer for cleanup'' e), s)
              | Inr wr \<Rightarrow>
                  (let wr' = DeleteIEAgAgRulesByIDs (reg_db (eng_reg s)) [ruleID] wr
                   in (None, SyncEntity existingRule SyncOperationDelete (commit_writer wr' s)))))"

record aggregation =
  agn_engine :: engine
  agn_processed :: "string list"
  agn_expected :: "string list"
  agn_new :: "ieagag_rule list"

definition combination_key :: "traffic \<Rightarrow> nref \<Rightarrow> nref \<Rightarrow> transport_protocol \<Rightarrow> string" where
  "combination_key traffic localAG targetAG protocol =
     traffic @ ''|'' @ addressGroupRefKey localAG @ ''|'' @ addressGroupRefKey targetAG @ ''|'' @ protocol"

definition aggregated_rule ::
  "rule_s2s \<Rightarrow> nref \<Rightarrow> nref \<Rightarrow> transport_protocol \<Rightarrow> string list \<Rightarrow> bool \<Rightarrow> ieagag_rule"
where
  "aggregated_rule current localAG targetAG protocol aggregatedPorts aggregatedTrace =
     \<lparr> Name = generateRuleName (rs_Traffic current) (ref_Name localAG) (ref_Name targetAG) protocol,
       Namespace = (if rs_Traffic current = INGRESS then ref_Namespace localAG
                    else ref_Namespace targetAG),
       Meta = empty_meta, ie_Transport = protocol, ie_Traffic = rs_Traffic current,
       ie_AddressGroupLocal = localAG, ie_AddressGroup = targetAG,
       ie_Ports = [\<lparr> ps_Source = [], ps_Destination = join '','' aggregatedPorts \<rparr>],
       ie_Action = ActionAccept, ie_Logs = True, ie_Trace = aggregatedTrace, ie_Priority = 100 \<rparr>"

text \<open>One turn of the innermost loop; an error of the cleanup is logged only.\<close>

definition aggregate_combination ::
  "writer option \<Rightarrow> string list \<Rightarrow> rule_s2s \<Rightarrow> service \<Rightarrow> service \<Rightarrow>
   (nref \<times> nref) \<times> transport_protocol \<Rightarrow> aggregation \<Rightarrow> aggregation"
where
  "aggregate_combination w excluded current l t = (\<lambda>((localAG, targetAG), protocol) a.
     let combinationKey = combination_key (rs_Traffic current) localAG targetAG protocol
     in if combinationKey \<in> set (agn_processed a) then a
        else
          (let a' = a\<lparr>agn_processed := combinationKey # agn_processed a\<rparr>
           in case findContributingRuleS2S (mem_readers (eng_reg (agn_engine a))) current l t
                     excluded protocol of
                Inl _ \<Rightarrow> a'
              | Inr contributing \<Rightarrow>
                  (let aggregatedPorts = aggregatePortsWithProtocol contributing;
                       aggregatedTrace = aggregateTraceValue (map cr_RuleS2S contributing)
                   in if length aggregatedPorts = 0 then
                        a'\<lparr>agn_engine := snd (cleanupOrphanedIEAgAgRule w
                             (generateRuleName (rs_Traffic current) (ref_Name localAG)
                                (ref_Name targetAG) protocol)
                             (Namespace current) (agn_engine a))\<rparr>
                      else
                        (let ieRule = aggregated_rule current localAG targetAG protocol
                                        aggregatedPorts aggregatedTrace
                         in a'\<lparr>agn_expected := Key ieRule # agn_expected a,
                               agn_new := agn_new a @ [ieRule]\<rparr>))))"

definition aggregate_rule ::
  "writer option \<Rightarrow> string list \<Rightarrow> rule_s2s \<Rightarrow> aggregation \<Rightarrow> aggregation"
where
  "aggregate_rule w excluded current a =
     (if Key current \<in> set excluded then a
      else if \<not> IsReady (Meta current) then a
      else (case getServicesForRuleWithReader (eng_reader w (agn_engine a)) current of
              Inl _ \<Rightarrow> a
            | Inr (l, t) \<Rightarrow>
                fold (aggregate_combination w excluded current l t)
                  (combinations (rs_Traffic current) l t) a))"

text \<open>The function returns the expected keys and the new rules; it never returns an error.\<close>

definition generateAggregatedIEAgAgRules ::
  "writer option \<Rightarrow> rule_s2s list \<Rightarrow> resource_identifier list \<Rightarrow> engine \<Rightarrow> aggregation"
where
  "generateAggregatedIEAgAgRules w rules excludeRuleIDs s =
     fold (aggregate_rule w (map rid_Key excludeRuleIDs)) rules
       \<lparr> agn_engine = s, agn_processed = [], agn_expected = [], agn_new = [] \<rparr>"

section \<open>Stored and fresh rules\<close>

record rule_operations =
  toCreate :: "ieagag_rule list"
  toUpdate :: "ieagag_rule list"
  toDelete :: "ieagag_rule list"

definition needsUpdate :: "ieagag_rule \<Rightarrow> ieagag_rule \<Rightarrow> bool" where
  "needsUpdate existing fresh \<longleftrightarrow>
     length (ie_Ports existing) \<noteq> length (ie_Ports fresh) \<or>
     list_ex (\<lambda>(a, b). ps_Destination a \<noteq> ps_Destination b) (zip (ie_Ports existing) (ie_Ports fresh))"

definition calculateRuleOperations ::
  "ieagag_rule list \<Rightarrow> ieagag_rule list \<Rightarrow> rule_operations"
where
  "calculateRuleOperations existing fresh =
     (let existingMap = put_items existing []; freshMap = put_items fresh []
      in \<lparr> toCreate = map snd (filter (\<lambda>(k, r). map_of existingMap k = None) freshMap),
           toUpdate = map snd (filter (\<lambda>(k, r). case map_of existingMap k of
                                 None \<Rightarrow> False | Some old \<Rightarrow> needsUpdate old r) freshMap),
           toDelete = map snd (filter (\<lambda>(k, r). map_of freshMap k = None) existingMap) \<rparr>)"

definition findDeletedIEAgAgRules ::
  "ieagag_rule list \<Rightarrow> ieagag_rule list \<Rightarrow> ieagag_rule list"
where
  "findDeletedIEAgAgRules before after = filter (\<lambda>r. Key r \<notin> set (map Key after)) before"

text \<open>Conditions are set in memory before the rules are written.\<close>

definition processIEAgAgRuleConditionsInMemory :: "env \<Rightarrow> ieagag_rule \<Rightarrow> ieagag_rule \<times> env" where
  "processIEAgAgRuleConditionsInMemory e r =
     (let (m1, e1) = SetValidatedCondition e ''True'' ''Validated'' ''IEAgAgRule passed validation'' (Meta r);
          portCount = length (ie_Ports r);
          message = (if portCount > 0
                     then ''IEAgAgRule is ready, '' @ nat_str portCount @ '' ports configured''
                     else ''IEAgAgRule is ready'');
          (m2, e2) = SetReadyCondition e1 ''True'' ''Ready'' message m1
      in (r\<lparr>Meta := m2\<rparr>, e2))"

fun process_all :: "env \<Rightarrow> ieagag_rule list \<Rightarrow> ieagag_rule list \<times> env" where
  "process_all e [] = ([], e)"
| "process_all e (r # rs) =
     (let (r', e') = processIEAgAgRuleConditionsInMemory e r; (rs', e'') = process_all e' rs
      in (r' # rs', e''))"

definition applyTimingFixConditionsOnly ::
  "bool \<Rightarrow> env \<Rightarrow> ieagag_rule list \<Rightarrow> ieagag_rule list \<times> env"
where
  "applyTimingFixConditionsOnly conditionManager e rules =
     (if length rules = 0 then (rules, e)
      else if \<not> conditionManager then (rules, e)
      else process_all e rules)"

definition sync_each :: "sync_operation \<Rightarrow> ieagag_rule list \<Rightarrow> engine \<Rightarrow> engine" where
  "sync_each syncOp rules s = fold (\<lambda>r. SyncEntity r syncOp) rules s"

definition executeRuleOperations :: "rule_operations \<Rightarrow> engine \<Rightarrow> error option \<times> engine" where
  "executeRuleOperations ops s =
     (if length (toCreate ops) = 0 \<and> length (toUpdate ops) = 0 \<and> length (toDelete ops) = 0
      then (None, s)
      else (case Writer (eng_reg s) of
        Inl e \<Rightarrow> (Some (Wrap ''failed to get writer for operations'' e), s)
      | Inr wr \<Rightarrow>
          (let db = reg_db (eng_reg s);
               (wr1, s1) = (if length (toDelete ops) > 0
                            then (DeleteIEAgAgRulesByIDs db (map self_id (toDelete ops)) wr,
                                  sync_each SyncOperationDelete (toDelete ops) s)
                            else (wr, s));
               allChanges = toCreate ops @ toUpdate ops;
               (wr2, s2) = (if length allChanges > 0
                 then (let (changes, e1) = (if eng_conditionManager s1
                              then process_all (eng_env s1) allChanges else (allChanges, eng_env s1));
                           (wr', e2) = SyncIEAgAgRules e1 db changes (Some EmptyScope) [] wr1
                       in (wr', sync_each SyncOperationUpsert changes (s1\<lparr>eng_env := e2\<rparr>)))
                 else (wr1, s1))
           in (None, commit_writer wr2 s2))))"

section \<open>Recalculation\<close>

definition RecalculateAllAffectedIEAgAgRules :: "string \<Rightarrow> engine \<Rightarrow> error option \<times> engine" where
  "RecalculateAllAffectedIEAgAgRules reason s =
     (case Reader (eng_reg s) of
        Inl e \<Rightarrow> (Some (Wrap ''failed to get reader for universal recalculation'' e), s)
      | Inr r \<Rightarrow>
          (let (err, existingRules) = collect_all (ListIEAgAgRules (mem_reader r) (Some EmptyScope))
           in case err of
                Some e \<Rightarrow> (Some (Wrap ''failed to list existing IEAgAg rules'' e), s)
              | None \<Rightarrow>
                  (let (err', allRuleS2S) = collect_all (ListRuleS2S (mem_reader r) (Some EmptyScope))
                   in case err' of
                        Some e \<Rightarrow> (Some (Wrap ''failed to list all RuleS2S'' e), s)
                      | None \<Rightarrow>
                          (let a = generateAggregatedIEAgAgRules None allRuleS2S [] s;
                               ops = calculateRuleOperations existingRules (agn_new a);
                               (err'', s') = executeRuleOperations ops (agn_engine a)
                           in (wrap_err (''failed to execute rule operations for reason: '' @ reason)
                                 err'', s')))))"

text \<open>
  The scoped variant keeps only the stored rules whose address groups lie in the namespace
  of an affected service.
\<close>

definition affected_services :: "reader_ops \<Rightarrow> rule_s2s list \<Rightarrow> string list" where
  "affected_services rd affectedRules =
     concat (map (\<lambda>r. case getServicesForRuleWithReader rd r of
                        Inl _ \<Rightarrow> []
                      | Inr (l, t) \<Rightarrow> [Key l, Key t]) affectedRules)"

definition in_affected_namespace :: "string list \<Rightarrow> ieagag_rule \<Rightarrow> bool" where
  "in_affected_namespace serviceKeys r \<longleftrightarrow>
     list_ex (\<lambda>k. let ns = hd (split_on CHR ''/'' k)
                  in ref_Namespace (ie_AddressGroupLocal r) = ns \<or>
                     ref_Namespace (ie_AddressGroup r) = ns) serviceKeys"

definition RecalculateIEAgAgRulesForAffectedRuleS2S ::
  "rule_s2s list \<Rightarrow> string \<Rightarrow> engine \<Rightarrow> error option \<times> engine"
where
  "RecalculateIEAgAgRulesForAffectedRuleS2S affectedRules reason s =
     (if length affectedRules = 0 then (None, s)
      else (case Reader (eng_reg s) of
        Inl e \<Rightarrow> (Some (Wrap ''failed to get reader for scoped recalculation'' e), s)
      | Inr r \<Rightarrow>
          (let rd = mem_reader r;
               serviceKeys = affected_services rd affectedRules;
               (err, existingRules) =
                 consume_listing
                   (\<lambda>x xs. (None, if in_affected_namespace serviceKeys x then xs @ [x] else xs))
                   (ListIEAgAgRules rd (Some EmptyScope)) []
           in case err of
                Some e \<Rightarrow> (Some (Wrap ''failed to list existing IEAgAg rules for affected services'' e), s)
              | None \<Rightarrow>
                  (let (err', allRuleS2S) = collect_all (ListRuleS2S rd (Some EmptyScope))
                   in case err' of
                        Some e \<Rightarrow> (Some (Wrap ''failed to list all RuleS2S for cross-aggregation'' e), s)
                      | None \<Rightarrow>
                          (let a = generateAggregatedIEAgAgRules None allRuleS2S [] s;
                               ops = calculateRuleOperations existingRules (agn_new a);
                               (err'', s') = executeRuleOperations ops (agn_engine a)
                           in (wrap_err (''failed to execute scoped rule operations for reason: '' @
                                 reason) err'', s'))))))"

text \<open>The targeted variant looks at given rules and at the fresh rules of the same pattern.\<close>

fun targeted_rules ::
  "reader_ops \<Rightarrow> resource_identifier list \<Rightarrow> ieagag_rule list \<Rightarrow> error + ieagag_rule list"
where
  "targeted_rules rd [] acc = Inr acc"
| "targeted_rules rd (i # is) acc =
     (case GetIEAgAgRuleByID rd i of
        Inl e \<Rightarrow> if is_not_found e then targeted_rules rd is acc
                 else Inl (Wrap (''failed to get existing IEAgAgRule '' @ rid_Key i) e)
      | Inr r \<Rightarrow> targeted_rules rd is (acc @ [r]))"

definition rule_pattern :: "ieagag_rule \<Rightarrow> string" where
  "rule_pattern r = ie_Traffic r @ '':'' @ ref_Name (ie_AddressGroupLocal r) @ '':'' @
     ref_Name (ie_AddressGroup r) @ '':'' @ ie_Transport r"

definition RecalculateTargetedIEAgAgRules ::
  "resource_identifier list \<Rightarrow> string \<Rightarrow> engine \<Rightarrow> error option \<times> engine"
where
  "RecalculateTargetedIEAgAgRules ids reason s =
     (if length ids = 0 then (None, s)
      else (case Reader (eng_reg s) of
        Inl e \<Rightarrow> (Some (Wrap ''failed to get reader for targeted recalculation'' e), s)
      | Inr r \<Rightarrow>
          (case targeted_rules (mem_reader r) ids [] of
             Inl e \<Rightarrow> (Some e, s)
           | Inr existingTargeted \<Rightarrow>
               (let (err, remaining) = collect_all (ListRuleS2S (mem_reader r) (Some EmptyScope))
                in case err of
                     Some e \<Rightarrow> (Some (Wrap ''failed to list remaining RuleS2S'' e), s)
                   | None \<Rightarrow>
                       (let a = generateAggregatedIEAgAgRules None remaining [] s;
                            freshTargeted = filter (\<lambda>x. rule_pattern x \<in> set (map rule_pattern existingTargeted))
                              (agn_new a);
                            ops = calculateRuleOperations existingTargeted freshTargeted;
                            (err', s') = executeRuleOperations ops (agn_engine a)
                        in (wrap_err (''failed to execute targeted rule operations for reason: '' @
                              reason) err', s'))))))"

section \<open>Reaction to a changed service\<close>

definition add_missing :: "rule_s2s \<Rightarrow> rule_s2s table \<Rightarrow> rule_s2s table" where
  "add_missing r m = (case map_of m (Key r) of Some _ \<Rightarrow> m | None \<Rightarrow> AList.update (Key r) r m)"

definition references_service :: "resource_identifier \<Rightarrow> rule_s2s \<Rightarrow> bool" where
  "references_service i r \<longleftrightarrow> refers_to (rs_ServiceRef r) (rid_Name i) (rid_Namespace i) \<or>
     refers_to (rs_ServiceLocalRef r) (rid_Name i) (rid_Namespace i)"

definition RegenerateIEAgAgRulesForService ::
  "resource_identifier \<Rightarrow> engine \<Rightarrow> error option \<times> engine"
where
  "RegenerateIEAgAgRulesForService i s =
     (case Reader (eng_reg s) of
        Inl e \<Rightarrow> (Some (Wrap ''failed to get reader'' e), s)
      | Inr r \<Rightarrow>
          (let rd = mem_reader r
           in case GetServiceByID rd i of
                Inl e \<Rightarrow>
                  if is_not_found e
                  then RecalculateAllAffectedIEAgAgRules (''service '' @ rid_Key i @ '' deleted'') s
                  else (Some (Wrap ''failed to get changed service'' e), s)
              | Inr changedService \<Rightarrow>
                  (let (err, direct) =
                     consume_listing
                       (\<lambda>x m. (None, if references_service i x then add_missing x m else m))
                       (ListRuleS2S rd (Some EmptyScope)) []
                   in case err of
                        Some e \<Rightarrow> (Some (Wrap ''failed to find rules referencing service'' e), s)
                      | None \<Rightarrow>
                          (let affected = fold
                             (\<lambda>ag m. case findRuleS2SByAddressGroupInteraction rd ag of
                                       (Some _, _) \<Rightarrow> m
                                     | (None, rules) \<Rightarrow> fold add_missing rules m)
                             (svc_AddressGroups changedService) direct
                           in if length affected = 0 then (None, s)
                              else RecalculateIEAgAgRulesForAffectedRuleS2S (map snd affected)
                                (''service '' @ rid_Key i @ '' changed (AddressGroups: '' @
                                 nat_str (length (svc_AddressGroups changedService)) @ '')'') s))))"

end
