(* ===== verification/AggregationFacts.thy ===== *)
theory AggregationFacts
  imports RuleEngine
begin

text \<open>
  What the aggregation of rules computes. The stateful generation is shown to equal a
  function of the stored services, bindings and rules (\<open>spec_aggregate\<close>); from it follow
  that every generated rule is justified by contributing rules, that every Ready rule is
  covered, and that no address group pair is generated twice. The last sections relate
  stored and fresh rules to the operations that are executed, and those to the table they
  leave behind.
\<close>

section \<open>Facts about contributions\<close>

lemma combination_string:
  "generateAGCombinations l t traffic =
     map (\<lambda>((lag, tag), protocol). traffic @ ''-'' @ addressGroupRefKey lag @ ''-'' @
            addressGroupRefKey tag @ ''-'' @ protocol) (combinations traffic l t)"
  by (simp add: generateAGCombinations_def addressGroupRefKey_def)

lemma contributing_loop_iff:
  "c \<in> set (contributing_loop rr current l t excluded protocol rs) \<longleftrightarrow>
     cr_RuleS2S c \<in> set rs \<and> Key (cr_RuleS2S c) \<notin> set excluded \<and> IsReady (Meta (cr_RuleS2S c)) \<and>
     checkIfRuleContributes rr (cr_RuleS2S c) current l t protocol = Inr (True, cr_Ports c) \<and>
     cr_Ports c \<noteq> []"
  by (induction rs) (cases c; auto split: sum.splits)+

definition shares_combination :: "traffic \<Rightarrow> service \<Rightarrow> service \<Rightarrow> service \<Rightarrow> service \<Rightarrow> bool" where
  "shares_combination traffic l t l' t' \<longleftrightarrow>
     set (generateAGCombinations l t traffic) \<inter> set (generateAGCombinations l' t' traffic) \<noteq> {}"

lemma checkIfRuleContributes_iff:
  "checkIfRuleContributes rr c current l t protocol = Inr (True, ps) \<longleftrightarrow>
     rs_Traffic c = rs_Traffic current \<and>
     (\<exists>cl ct. getServicesForRule rr c = Inr (cl, ct) \<and>
        shares_combination (rs_Traffic c) l t cl ct \<and>
        ps = extractPortStringsFromService
          (if to_lower (rs_Traffic c) = ''ingress'' then cl else ct) protocol)"
  by (auto simp: checkIfRuleContributes_def shares_combination_def list_ex_iff Let_def
      split: sum.splits)

lemma to_lower_traffic [simp]:
  "to_lower INGRESS = ''ingress''" "to_lower EGRESS = ''egress''"
  by code_simp+

lemma aggregatePorts_props:
  "sorted (aggregatePortsWithProtocol crs)" "distinct (aggregatePortsWithProtocol crs)"
  "set (aggregatePortsWithProtocol crs) = (\<Union>c\<in>set crs. set (cr_Ports c))"
  by (auto simp: aggregatePortsWithProtocol_def)

section \<open>The generation as a function of the stored objects\<close>

text \<open>
  The generation reads services, bindings and rules; the only thing it writes are deletions
  of generated rules.
\<close>

definition agg_inputs ::
  "engine \<Rightarrow> bool \<times> service table \<times> address_group_binding table \<times> rule_s2s table"
where
  "agg_inputs s = (reg_closed (eng_reg s), GetServices (reg_db (eng_reg s)),
     GetAddressGroupBindings (reg_db (eng_reg s)), GetRuleS2S (reg_db (eng_reg s)))"

lemma reader_inputs:
  assumes "agg_inputs s = agg_inputs s'"
  shows "GetServiceByID (eng_reader w s) = GetServiceByID (eng_reader w s')"
    and "ListAddressGroupBindings (eng_reader w s) = ListAddressGroupBindings (eng_reader w s')"
    and "ListRuleS2S (eng_reader w s) = ListRuleS2S (eng_reader w s')"
  using assms
  by (simp_all add: agg_inputs_def eng_reader_def mem_reader_def mem_GetServiceByID_def
      mem_ListAddressGroupBindings_def mem_ListRuleS2S_def reader_table_def fun_eq_iff
      split: option.splits)

lemma services_inputs:
  "agg_inputs s = agg_inputs s' \<Longrightarrow>
   getServicesForRuleWithReader (eng_reader w s) r = getServicesForRuleWithReader (eng_reader w s') r"
  unfolding getServicesForRuleWithReader_def populateServiceAddressGroups_def
  by (simp only: reader_inputs [of s s' w])

lemma mem_readers_eq:
  "rr_Reader (mem_readers (eng_reg s)) =
     (if reg_closed (eng_reg s) then Inl (Errorf ''registry is closed'') else Inr (eng_reader None s))"
  "rr_ReadCommitted (mem_readers (eng_reg s)) =
     (if reg_closed (eng_reg s) then Inl (Errorf ''registry is closed'') else Inr (eng_reader None s))"
  by (simp_all add: mem_readers_def Reader_def ReaderWithReadCommitted_def eng_reader_def)

lemma contributing_inputs:
  assumes "agg_inputs s = agg_inputs s'"
  shows "findContributingRuleS2S (mem_readers (eng_reg s)) r l t ex p =
    findContributingRuleS2S (mem_readers (eng_reg s')) r l t ex p"
proof -
  have closed: "reg_closed (eng_reg s) = reg_closed (eng_reg s')"
    using assms by (simp add: agg_inputs_def)
  have "checkIfRuleContributes (mem_readers (eng_reg s)) c r l t p =
        checkIfRuleContributes (mem_readers (eng_reg s')) c r l t p" for c
    by (simp add: checkIfRuleContributes_def getServicesForRule_def mem_readers_eq closed
        services_inputs [OF assms])
  then have "contributing_loop (mem_readers (eng_reg s)) r l t ex p rs =
        contributing_loop (mem_readers (eng_reg s')) r l t ex p rs" for rs
    by (induction rs) (simp_all split: sum.split)
  then show ?thesis
    by (simp add: findContributingRuleS2S_def mem_readers_eq closed reader_inputs [OF assms]
        split: option.split)
qed

lemma SyncEntity_inputs: "agg_inputs (SyncEntity r f s) = agg_inputs s"
  by (simp add: SyncEntity_def agg_inputs_def)

lemma commit_inputs:
  assumes "w_services w = None" "w_addressGroupBindings w = None" "w_ruleS2S w = None"
  shows "agg_inputs (commit_writer w s) = agg_inputs s"
  using assms
  by (simp add: agg_inputs_def commit_writer_def split_beta svc.commit_table agb.commit_table
      rs.commit_table working_def)

lemma delete_rules_writer:
  assumes "wr = DeleteIEAgAgRulesByIDs db ids empty_writer"
  shows "w_services wr = None" "w_addressGroupBindings wr = None" "w_ruleS2S wr = None"
  using assms by (simp_all add: DeleteIEAgAgRulesByIDs_def empty_writer_def)

lemma cleanup_inputs: "agg_inputs (snd (cleanupOrphanedIEAgAgRule w n ns s)) = agg_inputs s"
  by (simp add: cleanupOrphanedIEAgAgRule_def Let_def Writer_def SyncEntity_inputs
      commit_inputs delete_rules_writer [OF refl] split: sum.split)

text \<open>The combinations in the order the loops visit them, and what each one yields.\<close>

type_synonym work_item = "rule_s2s \<times> service \<times> service \<times> nref \<times> nref \<times> transport_protocol"

definition work_items :: "writer option \<Rightarrow> string list \<Rightarrow> engine \<Rightarrow> rule_s2s list \<Rightarrow> work_item list" where
  "work_items w excluded s rules =
     concat (map (\<lambda>r. if Key r \<in> set excluded \<or> \<not> IsReady (Meta r) then []
        else (case getServicesForRuleWithReader (eng_reader w s) r of
                Inl _ \<Rightarrow> []
              | Inr (l, t) \<Rightarrow> map (\<lambda>((lag, tag), p). (r, l, t, lag, tag, p))
                  (combinations (rs_Traffic r) l t))) rules)"

definition item_key :: "work_item \<Rightarrow> string" where
  "item_key = (\<lambda>(r, l, t, lag, tag, p). combination_key (rs_Traffic r) lag tag p)"

definition item_rule :: "string list \<Rightarrow> engine \<Rightarrow> work_item \<Rightarrow> ieagag_rule option" where
  "item_rule excluded s = (\<lambda>(r, l, t, lag, tag, p).
     case findContributingRuleS2S (mem_readers (eng_reg s)) r l t excluded p of
       Inl _ \<Rightarrow> None
     | Inr crs \<Rightarrow>
         if aggregatePortsWithProtocol crs = [] then None
         else Some (aggregated_rule r lag tag p (aggregatePortsWithProtocol crs)
                (aggregateTraceValue (map cr_RuleS2S crs))))"

fun first_by :: "('a \<Rightarrow> 'k) \<Rightarrow> 'a list \<Rightarrow> 'k list \<Rightarrow> 'a list" where
  "first_by f [] seen = []"
| "first_by f (x # xs) seen =
     (if f x \<in> set seen then first_by f xs seen else x # first_by f xs (f x # seen))"

definition spec_aggregate ::
  "writer option \<Rightarrow> rule_s2s list \<Rightarrow> string list \<Rightarrow> engine \<Rightarrow> ieagag_rule list"
where
  "spec_aggregate w rules excluded s =
     List.map_filter (item_rule excluded s) (first_by item_key (work_items w excluded s rules) [])"

lemma map_filter_append: "List.map_filter f (xs @ ys) = List.map_filter f xs @ List.map_filter f ys"
  by (simp add: List.map_filter_def)

lemma work_items_Cons:
  "work_items w ex s (r # rs) = work_items w ex s [r] @ work_items w ex s rs"
  by (simp add: work_items_def)

lemma first_by_append:
  "first_by f (xs @ ys) seen = first_by f xs seen @ first_by f ys (rev (map f (first_by f xs seen)) @ seen)"
  by (induction xs arbitrary: seen) auto

text \<open>The state of the loops after the items \<open>xs\<close>.\<close>

definition aggregated :: "string list \<Rightarrow> engine \<Rightarrow> work_item list \<Rightarrow> aggregation \<Rightarrow> bool" where
  "aggregated ex s xs a \<longleftrightarrow>
     agg_inputs (agn_engine a) = agg_inputs s \<and>
     agn_processed a = rev (map item_key (first_by item_key xs [])) \<and>
     agn_new a = List.map_filter (item_rule ex s) (first_by item_key xs []) \<and>
     set (agn_expected a) = Key ` set (agn_new a)"

lemma aggregated_skip:
  assumes "aggregated ex s xs a" and "item_key x \<in> set (agn_processed a)"
  shows "aggregated ex s (xs @ [x]) a"
  using assms by (simp add: aggregated_def first_by_append)

lemma aggregated_step:
  assumes "aggregated ex s xs a" and "item_key x \<notin> set (agn_processed a)"
    and "agg_inputs (agn_engine a') = agg_inputs s"
    and "agn_processed a' = item_key x # agn_processed a"
    and "agn_new a' = agn_new a @ (case item_rule ex s x of None \<Rightarrow> [] | Some g \<Rightarrow> [g])"
    and "set (agn_expected a') = set (agn_expected a) \<union>
      (case item_rule ex s x of None \<Rightarrow> {} | Some g \<Rightarrow> {Key g})"
  shows "aggregated ex s (xs @ [x]) a'"
  using assms
  by (auto simp: aggregated_def first_by_append map_filter_append map_filter_simps split: option.splits)

lemma aggregate_combination_agrees:
  assumes "aggregated ex s xs a"
  shows "aggregated ex s (xs @ [(r, l, t, lag, tag, p)])
    (aggregate_combination w ex r l t ((lag, tag), p) a)"
proof -
  let ?x = "(r, l, t, lag, tag, p)"
  let ?a' = "aggregate_combination w ex r l t ((lag, tag), p) a"
  have eng: "agg_inputs (agn_engine a) = agg_inputs s" using assms by (simp add: aggregated_def)
  note contrib = contributing_inputs [OF eng, of r l t ex p]
  show ?thesis
  proof (cases "item_key ?x \<in> set (agn_processed a)")
    case True
    with aggregated_skip [OF assms True] show ?thesis
      by (simp add: aggregate_combination_def item_key_def)
  next
    case False
    then have "combination_key (rs_Traffic r) lag tag p \<notin> set (agn_processed a)"
      by (simp add: item_key_def)
    note unfold = aggregate_combination_def Let_def this
    show ?thesis
    proof (rule aggregated_step [OF assms False])
      show "agg_inputs (agn_engine ?a') = agg_inputs s"
        using eng by (simp add: unfold cleanup_inputs split: sum.splits)
      show "agn_processed ?a' = item_key ?x # agn_processed a"
        by (simp add: unfold item_key_def split: sum.splits)
      show "agn_new ?a' = agn_new a @ (case item_rule ex s ?x of None \<Rightarrow> [] | Some g \<Rightarrow> [g])"
        by (simp add: contrib unfold item_rule_def split: sum.splits)
      show "set (agn_expected ?a') = set (agn_expected a) \<union>
          (case item_rule ex s ?x of None \<Rightarrow> {} | Some g \<Rightarrow> {Key g})"
        by (simp add: contrib unfold item_rule_def split: sum.splits)
    qed
  qed
qed

lemma aggregate_combinations_agree:
  "aggregated ex s xs a \<Longrightarrow>
   aggregated ex s (xs @ map (\<lambda>((lag, tag), p). (r, l, t, lag, tag, p)) cs)
     (fold (aggregate_combination w ex r l t) cs a)"
proof (induction cs arbitrary: xs a)
  case Nil
  then show ?case by simp
next
  case (Cons c cs)
  obtain lag tag p where c: "c = ((lag, tag), p)" by (metis prod.exhaust)
  from Cons.IH [OF aggregate_combination_agrees [OF Cons.prems, of r l t lag tag p w]]
  show ?case by (simp add: c)
qed

lemma aggregate_rule_agrees:
  assumes "aggregated ex s xs a"
  shows "aggregated ex s (xs @ work_items w ex s [r]) (aggregate_rule w ex r a)"
proof -
  have "agg_inputs (agn_engine a) = agg_inputs s" using assms by (simp add: aggregated_def)
  note services = services_inputs [OF this, of w r]
  show ?thesis
  proof (cases "Key r \<in> set ex \<or> \<not> IsReady (Meta r)")
    case True
    with assms show ?thesis by (auto simp: aggregate_rule_def work_items_def)
  next
    case False
    with aggregate_combinations_agree [OF assms] assms show ?thesis
      by (auto simp: aggregate_rule_def work_items_def services split: sum.splits)
  qed
qed

lemma generate_agrees:
  "aggregated (map rid_Key ids) s (work_items w (map rid_Key ids) s rules)
     (generateAggregatedIEAgAgRules w rules ids s)"
proof -
  let ?ex = "map rid_Key ids"
  have "aggregated ?ex s (xs @ work_items w ?ex s rs) (fold (aggregate_rule w ?ex) rs a)"
    if "aggregated ?ex s xs a" for xs rs a
    using that
  proof (induction rs arbitrary: xs a)
    case Nil
    then show ?case by (simp add: work_items_def)
  next
    case (Cons r rs)
    from Cons.IH [OF aggregate_rule_agrees [OF Cons.prems, of w r]]
    show ?case by (simp add: work_items_Cons [of w ?ex s r rs])
  qed
  from this [of "[]" "\<lparr> agn_engine = s, agn_processed = [], agn_expected = [], agn_new = [] \<rparr>" rules]
  show ?thesis
    by (simp add: generateAggregatedIEAgAgRules_def aggregated_def map_filter_simps)
qed

lemma generate_eq_spec:
  "agn_new (generateAggregatedIEAgAgRules w rules ids s) = spec_aggregate w rules (map rid_Key ids) s"
  "set (agn_expected (generateAggregatedIEAgAgRules w rules ids s)) =
     Key ` set (spec_aggregate w rules (map rid_Key ids) s)"
  "agg_inputs (agn_engine (generateAggregatedIEAgAgRules w rules ids s)) = agg_inputs s"
  using generate_agrees [of ids s w rules] by (simp_all add: aggregated_def spec_aggregate_def)

section \<open>Consequences\<close>

lemma work_items_iff:
  "(r, l, t, lag, tag, p) \<in> set (work_items w ex s rules) \<longleftrightarrow>
     r \<in> set rules \<and> Key r \<notin> set ex \<and> IsReady (Meta r) \<and>
     getServicesForRuleWithReader (eng_reader w s) r = Inr (l, t) \<and>
     ((lag, tag), p) \<in> set (combinations (rs_Traffic r) l t)"
  by (force simp: work_items_def split: sum.splits)

lemma combinations_iff:
  "((lag, tag), p) \<in> set (combinations traffic l t) \<longleftrightarrow>
     lag \<in> agr_Ref ` set (svc_AggregatedAddressGroups l) \<and>
     tag \<in> agr_Ref ` set (svc_AggregatedAddressGroups t) \<and>
     p \<in> ip_Protocol ` set (svc_IngressPorts (ports_source traffic l t))"
  by (auto simp: combinations_def address_group_pairs_def protocols_of_def)

lemma set_first_by: "set (first_by f xs seen) \<subseteq> set xs"
  by (induction xs arbitrary: seen) auto

lemma first_by_distinct:
  "distinct (map f (first_by f xs seen)) \<and> f ` set (first_by f xs seen) \<inter> set seen = {}"
proof (induction xs arbitrary: seen)
  case (Cons x xs)
  then show ?case using Cons.IH [of "f x # seen"] by auto
qed simp

lemma first_by_covers: "x \<in> set xs \<Longrightarrow> f x \<in> set seen \<or> (\<exists>y\<in>set (first_by f xs seen). f y = f x)"
proof (induction xs arbitrary: seen)
  case (Cons z zs)
  then show ?case using Cons.IH [of seen] Cons.IH [of "f z # seen"] by (cases "x = z") auto
qed simp

definition rule_combination :: "ieagag_rule \<Rightarrow> string" where
  "rule_combination g =
     combination_key (ie_Traffic g) (ie_AddressGroupLocal g) (ie_AddressGroup g) (ie_Transport g)"

lemma item_rule_combination: "item_rule ex s x = Some g \<Longrightarrow> rule_combination g = item_key x"
  by (cases x)
    (auto simp: item_rule_def item_key_def rule_combination_def aggregated_rule_def
      split: sum.splits if_splits)

lemma map_filter_keys:
  assumes "\<And>x y. f x = Some y \<Longrightarrow> g y = k x" and "distinct (map k xs)"
  shows "distinct (map g (List.map_filter f xs)) \<and> g ` set (List.map_filter f xs) \<subseteq> k ` set xs"
  using assms(2)
proof (induction xs)
  case (Cons x xs)
  then show ?case using assms(1) by (auto simp: map_filter_simps split: option.splits)
qed (simp add: map_filter_simps)

lemma spec_aggregate_distinct: "distinct (map rule_combination (spec_aggregate w rules ex s))"
proof -
  let ?xs = "first_by item_key (work_items w ex s rules) []"
  have "distinct (map item_key ?xs)" using first_by_distinct by blast
  from map_filter_keys [where f = "item_rule ex s", OF item_rule_combination this] show ?thesis
    by (simp add: spec_aggregate_def)
qed

lemma spec_aggregate_iff:
  "g \<in> set (spec_aggregate w rules ex s) \<longleftrightarrow>
     (\<exists>x\<in>set (first_by item_key (work_items w ex s rules) []). item_rule ex s x = Some g)"
  by (force simp: spec_aggregate_def List.map_filter_def image_iff)

subsection \<open>Soundness\<close>

text \<open>The stored rules that contribute to what rule \<open>r\<close> generates for a protocol.\<close>

definition contributes_to ::
  "engine \<Rightarrow> string list \<Rightarrow> rule_s2s \<Rightarrow> service \<Rightarrow> service \<Rightarrow> transport_protocol \<Rightarrow> rule_s2s \<Rightarrow> string list \<Rightarrow> bool"
where
  "contributes_to s ex r l t p c ps \<longleftrightarrow>
     c \<in> set (map snd (GetRuleS2S (reg_db (eng_reg s)))) \<and> Key c \<notin> set ex \<and> IsReady (Meta c) \<and>
     rs_Traffic c = rs_Traffic r \<and>
     (\<exists>cl ct. getServicesForRuleWithReader (eng_reader None s) c = Inr (cl, ct) \<and>
        shares_combination (rs_Traffic c) l t cl ct \<and>
        ps = extractPortStringsFromService
          (if to_lower (rs_Traffic c) = ''ingress'' then cl else ct) p) \<and>
     ps \<noteq> []"

lemma list_rules [simp]:
  "ListRuleS2S (eng_reader None s) (Some EmptyScope) = (map snd (GetRuleS2S (reg_db (eng_reg s))), None)"
  by (simp add: eng_reader_def mem_reader_def mem_ListRuleS2S_def reader_table_def list_table_all)

lemma findContributing_open:
  assumes "\<not> reg_closed (eng_reg s)"
  shows "\<exists>crs. findContributingRuleS2S (mem_readers (eng_reg s)) r l t ex p = Inr crs \<and>
    (\<forall>c. c \<in> set crs \<longleftrightarrow> contributes_to s ex r l t p (cr_RuleS2S c) (cr_Ports c))"
  using assms
  by (auto simp: findContributingRuleS2S_def mem_readers_eq contributing_loop_iff
      checkIfRuleContributes_iff getServicesForRule_def contributes_to_def)

lemma findContributing_closed:
  "reg_closed (eng_reg (s :: engine)) \<Longrightarrow>
   findContributingRuleS2S (mem_readers (eng_reg s)) r l t ex p =
     Inl (Wrap ''failed to get registry reader'' (Errorf ''registry is closed''))"
  by (simp add: findContributingRuleS2S_def mem_readers_eq)


lemma item_rule_Some:
  assumes "item_rule ex s (r, l, t, lag, tag, p) = Some g"
  shows "\<exists>crs. (\<forall>c. c \<in> set crs \<longleftrightarrow> contributes_to s ex r l t p (cr_RuleS2S c) (cr_Ports c)) \<and>
    aggregatePortsWithProtocol crs \<noteq> [] \<and>
    g = aggregated_rule r lag tag p (aggregatePortsWithProtocol crs)
          (aggregateTraceValue (map cr_RuleS2S crs))"
proof -
  have "\<not> reg_closed (eng_reg s)"
    using assms findContributing_closed [of s r l t ex p] by (auto simp: item_rule_def)
  from findContributing_open [OF this, of r l t ex p] obtain crs
    where "findContributingRuleS2S (mem_readers (eng_reg s)) r l t ex p = Inr crs"
      and "\<forall>c. c \<in> set crs \<longleftrightarrow> contributes_to s ex r l t p (cr_RuleS2S c) (cr_Ports c)" by blast
  with assms show ?thesis
    by (intro exI [of _ crs]) (simp add: item_rule_def split: if_splits)
qed

text \<open>
  What a generated rule says: it belongs to a rule that was asked for, is Ready and is not
  excluded; its address groups are that rule's; its ports are exactly those of the
  contributing rules, in order and without repetition; it is traced when all of them are.
\<close>

definition justified ::
  "writer option \<Rightarrow> rule_s2s list \<Rightarrow> string list \<Rightarrow> engine \<Rightarrow> ieagag_rule \<Rightarrow> bool"
where
  "justified w rules ex s g \<longleftrightarrow>
     (\<exists>r l t ports.
        r \<in> set rules \<and> Key r \<notin> set ex \<and> IsReady (Meta r) \<and>
        getServicesForRuleWithReader (eng_reader w s) r = Inr (l, t) \<and>
        ie_Traffic g = rs_Traffic r \<and>
        ie_AddressGroupLocal g \<in> agr_Ref ` set (svc_AggregatedAddressGroups l) \<and>
        ie_AddressGroup g \<in> agr_Ref ` set (svc_AggregatedAddressGroups t) \<and>
        ie_Ports g = [\<lparr> ps_Source = [], ps_Destination = join '','' ports \<rparr>] \<and>
        ports \<noteq> [] \<and> sorted ports \<and> distinct ports \<and>
        set ports = {port. \<exists>c ps. contributes_to s ex r l t (ie_Transport g) c ps \<and> port \<in> set ps} \<and>
        (ie_Trace g \<longleftrightarrow> (\<forall>c ps. contributes_to s ex r l t (ie_Transport g) c ps \<longrightarrow> rs_Trace c)))"

lemma spec_aggregate_justified:
  assumes "g \<in> set (spec_aggregate w rules ex s)"
  shows "justified w rules ex s g"
proof -
  from assms obtain x where x: "x \<in> set (work_items w ex s rules)" "item_rule ex s x = Some g"
    using set_first_by by (fastforce simp: spec_aggregate_iff)
  obtain r l t lag tag p where items: "x = (r, l, t, lag, tag, p)" by (metis prod.exhaust)
  from item_rule_Some [OF x(2) [unfolded items]] obtain crs
    where crs: "\<And>c. c \<in> set crs \<longleftrightarrow> contributes_to s ex r l t p (cr_RuleS2S c) (cr_Ports c)"
      and ne: "aggregatePortsWithProtocol crs \<noteq> []"
      and g: "g = aggregated_rule r lag tag p (aggregatePortsWithProtocol crs)
          (aggregateTraceValue (map cr_RuleS2S crs))" by blast
  have contr: "contributes_to s ex r l t p c ps \<longleftrightarrow> \<lparr> cr_RuleS2S = c, cr_Ports = ps \<rparr> \<in> set crs" for c ps
    by (simp add: crs)
  have "set (aggregatePortsWithProtocol crs) = {port. \<exists>c ps. contributes_to s ex r l t p c ps \<and> port \<in> set ps}"
    using crs unfolding aggregatePorts_props contr by auto
  moreover have "aggregateTraceValue (map cr_RuleS2S crs) \<longleftrightarrow>
      (\<forall>c ps. contributes_to s ex r l t p c ps \<longrightarrow> rs_Trace c)"
  proof -
    have "crs \<noteq> []" using ne by (auto simp: aggregatePortsWithProtocol_def)
    then show ?thesis
      unfolding aggregateTraceValue_def contr list_all_iff
      by (auto, metis contributing_rule.surjective old.unit.exhaust)
  qed
  ultimately show ?thesis
    using x(1) ne
    unfolding justified_def
    by (intro exI [of _ r] exI [of _ l] exI [of _ t] exI [of _ "aggregatePortsWithProtocol crs"])
      (simp add: items work_items_iff combinations_iff g aggregated_rule_def aggregatePorts_props(1,2))
qed


subsection \<open>Completeness\<close>

text \<open>
  The bar separates the parts of a combination's key; Kubernetes names and the protocol and
  traffic constants do not contain it.
\<close>

definition bar_free :: "service \<Rightarrow> bool" where
  "bar_free s \<longleftrightarrow>
     (\<forall>a\<in>set (svc_AggregatedAddressGroups s). CHR ''|'' \<notin> set (addressGroupRefKey (agr_Ref a))) \<and>
     (\<forall>p\<in>set (svc_IngressPorts s). CHR ''|'' \<notin> set (ip_Protocol p))"

lemma combination_key_inject:
  assumes "combination_key tr l t p = combination_key tr' l' t' p'"
    and "CHR ''|'' \<notin> set tr" "CHR ''|'' \<notin> set tr'"
    and "CHR ''|'' \<notin> set (addressGroupRefKey l)" "CHR ''|'' \<notin> set (addressGroupRefKey l')"
    and "CHR ''|'' \<notin> set (addressGroupRefKey t)" "CHR ''|'' \<notin> set (addressGroupRefKey t')"
    and "CHR ''|'' \<notin> set p" "CHR ''|'' \<notin> set p'"
  shows "tr = tr' \<and> addressGroupRefKey l = addressGroupRefKey l' \<and>
    addressGroupRefKey t = addressGroupRefKey t' \<and> p = p'"
proof -
  have "split_on CHR ''|'' (combination_key a b c d) =
      [a, addressGroupRefKey b, addressGroupRefKey c, d]"
    if "CHR ''|'' \<notin> set a" "CHR ''|'' \<notin> set (addressGroupRefKey b)"
      "CHR ''|'' \<notin> set (addressGroupRefKey c)" "CHR ''|'' \<notin> set d" for a b c d
    using that by (simp add: combination_key_def split_on_append split_on_no_sep)
  from this [of tr l t p] this [of tr' l' t' p'] assms show ?thesis by simp
qed

lemma services_of_rule:
  assumes "getServicesForRuleWithReader (eng_reader None s) r = Inr (l, t)"
  shows "\<exists>l' t'. l' \<in> snd ` set (GetServices (reg_db (eng_reg s))) \<and>
    t' \<in> snd ` set (GetServices (reg_db (eng_reg s))) \<and>
    svc_AggregatedAddressGroups l = svc_AggregatedAddressGroups l' \<and> svc_IngressPorts l = svc_IngressPorts l' \<and>
    svc_AggregatedAddressGroups t = svc_AggregatedAddressGroups t' \<and> svc_IngressPorts t = svc_IngressPorts t'"
proof -
  have get: "\<exists>v\<in>snd ` set (GetServices (reg_db (eng_reg s))).
      svc_AggregatedAddressGroups x = svc_AggregatedAddressGroups v \<and> svc_IngressPorts x = svc_IngressPorts v"
    if "GetServiceByID (eng_reader None s) i = Inr x" for i x
    using that
    by (force simp: eng_reader_def mem_reader_def mem_GetServiceByID_def reader_table_def
        dest: map_of_SomeD split: option.splits)
  have pop: "svc_AggregatedAddressGroups y = svc_AggregatedAddressGroups x \<and> svc_IngressPorts y = svc_IngressPorts x"
    if "populateServiceAddressGroups (eng_reader None s) x = Inr y" for x y
    using that by (auto simp: populateServiceAddressGroups_def split: option.splits)
  show ?thesis
    using assms get pop unfolding getServicesForRuleWithReader_def
    by (clarsimp split: sum.splits)
qed

lemma bar_free_services:
  assumes "getServicesForRuleWithReader (eng_reader None s) r = Inr (l, t)"
    and "\<forall>v\<in>snd ` set (GetServices (reg_db (eng_reg s))). bar_free v"
  shows "bar_free l" and "bar_free t"
  using services_of_rule [OF assms(1)] assms(2) by (auto simp: bar_free_def)

lemma traffic_bar_free: "tr \<in> {INGRESS, EGRESS} \<Longrightarrow> CHR ''|'' \<notin> set tr"
  by (auto simp: INGRESS_def EGRESS_def)

lemma same_key_shares:
  assumes "((lag, tag), p) \<in> set (combinations traffic l t)"
    and "((lag', tag'), p) \<in> set (combinations traffic l' t')"
    and "addressGroupRefKey lag = addressGroupRefKey lag'"
    and "addressGroupRefKey tag = addressGroupRefKey tag'"
  shows "shares_combination traffic l t l' t'"
  using assms unfolding shares_combination_def combination_string by force

lemma combination_bar_free:
  assumes "bar_free l" "bar_free t" "((lag, tag), p) \<in> set (combinations traffic l t)"
  shows "CHR ''|'' \<notin> set (addressGroupRefKey lag)" "CHR ''|'' \<notin> set (addressGroupRefKey tag)"
    "CHR ''|'' \<notin> set p"
  using assms by (auto simp: combinations_iff bar_free_def ports_source_def split: if_splits)

lemma spec_aggregate_covers:
  assumes opn: "\<not> reg_closed (eng_reg s)"
    and bars: "\<forall>v\<in>snd ` set (GetServices (reg_db (eng_reg s))). bar_free v"
    and traffics: "\<forall>x\<in>set rules. rs_Traffic x \<in> {INGRESS, EGRESS}"
    and r: "r \<in> set rules" "r \<in> snd ` set (GetRuleS2S (reg_db (eng_reg s)))"
      "Key r \<notin> set ex" "IsReady (Meta r)"
    and serv: "getServicesForRuleWithReader (eng_reader None s) r = Inr (l, t)"
    and comb: "((lag, tag), p) \<in> set (combinations (rs_Traffic r) l t)"
    and port: "port \<in> set (svc_IngressPorts (ports_source (rs_Traffic r) l t))" "ip_Protocol port = p"
  shows "\<exists>g\<in>set (spec_aggregate None rules ex s). \<exists>ports.
    ie_Traffic g = rs_Traffic r \<and> ie_Transport g = p \<and>
    addressGroupRefKey (ie_AddressGroupLocal g) = addressGroupRefKey lag \<and>
    addressGroupRefKey (ie_AddressGroup g) = addressGroupRefKey tag \<and>
    ie_Ports g = [\<lparr> ps_Source = [], ps_Destination = join '','' ports \<rparr>] \<and> ip_Port port \<in> set ports"
proof -
  let ?x = "(r, l, t, lag, tag, p)"
  have "?x \<in> set (work_items None ex s rules)"
    using r serv comb by (simp add: work_items_iff)
  from first_by_covers [OF this, of item_key "[]"] obtain y
    where y: "y \<in> set (first_by item_key (work_items None ex s rules) [])" "item_key y = item_key ?x"
    by auto
  obtain r0 l0 t0 lag0 tag0 p0 where y_eq: "y = (r0, l0, t0, lag0, tag0, p0)" by (metis prod.exhaust)
  have "y \<in> set (work_items None ex s rules)" using y(1) by (rule subsetD [OF set_first_by])
  then have y_item: "r0 \<in> set rules" "getServicesForRuleWithReader (eng_reader None s) r0 = Inr (l0, t0)"
      "((lag0, tag0), p0) \<in> set (combinations (rs_Traffic r0) l0 t0)"
    by (simp_all add: y_eq work_items_iff)
  have eq: "rs_Traffic r0 = rs_Traffic r \<and> addressGroupRefKey lag0 = addressGroupRefKey lag \<and>
      addressGroupRefKey tag0 = addressGroupRefKey tag \<and> p0 = p"
  proof (rule combination_key_inject)
    show "combination_key (rs_Traffic r0) lag0 tag0 p0 = combination_key (rs_Traffic r) lag tag p"
      using y(2) by (simp add: y_eq item_key_def)
    show "CHR ''|'' \<notin> set (rs_Traffic r0)" "CHR ''|'' \<notin> set (rs_Traffic r)"
      using traffics y_item(1) r(1) traffic_bar_free by blast+
  qed (use combination_bar_free [OF bar_free_services [OF y_item(2) bars] y_item(3)]
        combination_bar_free [OF bar_free_services [OF serv bars] comb] in blast)+
  from findContributing_open [OF opn, of r0 l0 t0 ex p] obtain crs
    where crs: "findContributingRuleS2S (mem_readers (eng_reg s)) r0 l0 t0 ex p = Inr crs"
      and mem: "\<And>c. c \<in> set crs \<longleftrightarrow> contributes_to s ex r0 l0 t0 p (cr_RuleS2S c) (cr_Ports c)" by blast
  let ?ps = "extractPortStringsFromService (ports_source (rs_Traffic r) l t) p"
  have src: "(if to_lower (rs_Traffic r) = ''ingress'' then l else t) = ports_source (rs_Traffic r) l t"
    using traffics r(1) by (fastforce simp: ports_source_def INGRESS_def [symmetric])
  have in_ps: "ip_Port port \<in> set ?ps"
    using port by (auto simp: extractPortStringsFromService_def)
  have "shares_combination (rs_Traffic r) l0 t0 l t"
    using same_key_shares y_item(3) comb eq by metis
  then have "contributes_to s ex r0 l0 t0 p r ?ps"
    unfolding contributes_to_def src [symmetric]
    using r serv eq in_ps src by auto
  then have "\<lparr> cr_RuleS2S = r, cr_Ports = ?ps \<rparr> \<in> set crs" by (simp add: mem)
  with in_ps have agg: "ip_Port port \<in> set (aggregatePortsWithProtocol crs)"
    unfolding aggregatePorts_props by force
  then have "item_rule ex s y = Some (aggregated_rule r0 lag0 tag0 p (aggregatePortsWithProtocol crs)
      (aggregateTraceValue (map cr_RuleS2S crs)))"
    using crs eq by (auto simp: y_eq item_rule_def)
  with y(1) have "aggregated_rule r0 lag0 tag0 p (aggregatePortsWithProtocol crs)
      (aggregateTraceValue (map cr_RuleS2S crs)) \<in> set (spec_aggregate None rules ex s)"
    by (auto simp: spec_aggregate_iff)
  with agg eq show ?thesis
    by (intro bexI exI [of _ "aggregatePortsWithProtocol crs"]) (simp_all add: aggregated_rule_def)
qed

section \<open>Comparing stored and fresh rules\<close>

lemma map_of_put_items:
  "map_of (put_items xs t) = map_of t ++ map_of (rev (map (\<lambda>x. (Key x, x)) xs))"
  unfolding put_items_def
  by (induction xs arbitrary: t) (simp_all add: update_conv' map_add_upd_left)

lemma put_items_keys: "fst ` set (put_items xs []) = Key ` set xs"
proof -
  have "dom (map_of (put_items xs [])) = Key ` set xs"
    by (simp add: map_of_put_items dom_map_of_conv_image_fst image_image)
  then show ?thesis by (simp add: dom_map_of_conv_image_fst)
qed

lemma put_items_lookup_key: "map_of (put_items xs []) k = Some v \<Longrightarrow> k \<in> Key ` set xs"
  unfolding put_items_keys [symmetric] by (force dest: map_of_SomeD)

lemma put_items_ok: "table_ok (put_items xs [])"
  by (simp add: table_ok_put_items)

lemma put_items_append:
  "distinct (map Key xs) \<Longrightarrow> \<forall>x\<in>set xs. Key x \<notin> fst ` set t \<Longrightarrow>
   put_items xs t = t @ map (\<lambda>x. (Key x, x)) xs"
proof (induction xs arbitrary: t)
  case (Cons x xs)
  have "AList.update (Key x) x t = t @ [(Key x, x)]"
    using Cons.prems(2) by (simp add: update_fresh)
  moreover have "\<forall>y\<in>set xs. Key y \<notin> fst ` set (t @ [(Key x, x)])"
    using Cons.prems by (auto simp: image_iff)
  ultimately show ?case
    using Cons.IH [of "t @ [(Key x, x)]"] Cons.prems(1) by (simp add: put_items_def)
qed (simp add: put_items_def)

lemma put_items_distinct: "distinct (map Key xs) \<Longrightarrow> put_items xs [] = map (\<lambda>x. (Key x, x)) xs"
  by (simp add: put_items_append)

lemma put_items_values:
  assumes "table_ok t"
  shows "put_items (map snd t) [] = t"
proof -
  have "map (\<lambda>x. (Key x, x)) (map snd t) = t" and "map Key (map snd t) = map fst t"
    using assms by (induction t) (auto simp: table_ok_def)
  with assms show ?thesis using put_items_distinct [of "map snd t"]
    by (simp add: table_ok_def del: map_map)
qed

lemma table_entries:
  assumes "table_ok t"
  shows "x \<in> snd ` set (filter (\<lambda>(k, v). P k v) t) \<longleftrightarrow> x \<in> snd ` set t \<and> P (Key x) x"
  using assms by (force simp: table_ok_def)

lemma operations_iff:
  shows "x \<in> set (toCreate (calculateRuleOperations existing fresh)) \<longleftrightarrow>
      x \<in> snd ` set (put_items fresh []) \<and> Key x \<notin> Key ` set existing"
    and "x \<in> set (toUpdate (calculateRuleOperations existing fresh)) \<longleftrightarrow>
      x \<in> snd ` set (put_items fresh []) \<and>
      (\<exists>old. map_of (put_items existing []) (Key x) = Some old \<and> needsUpdate old x)"
    and "x \<in> set (toDelete (calculateRuleOperations existing fresh)) \<longleftrightarrow>
      x \<in> snd ` set (put_items existing []) \<and> Key x \<notin> Key ` set fresh"
  unfolding calculateRuleOperations_def Let_def rule_operations.simps set_map table_entries [OF put_items_ok]
  by (auto simp: map_of_eq_None_iff put_items_keys dest: put_items_lookup_key split: option.splits)

lemma needsUpdate_iff:
  "needsUpdate old new \<longleftrightarrow> map ps_Destination (ie_Ports old) \<noteq> map ps_Destination (ie_Ports new)"
proof -
  have "length xs = length ys \<Longrightarrow>
      list_ex (\<lambda>(a, b). ps_Destination a \<noteq> ps_Destination b) (zip xs ys) \<longleftrightarrow>
      map ps_Destination xs \<noteq> map ps_Destination ys" for xs ys :: "port_spec list"
    by (induction xs ys rule: list_induct2) auto
  then show ?thesis
    unfolding needsUpdate_def using map_eq_imp_length_eq by blast
qed

section \<open>Executing the operations\<close>

lemma process_all_payload: "map payload (fst (process_all e rs)) = map payload rs"
  by (induction rs arbitrary: e)
    (simp_all add: Let_def split_beta processIEAgAgRuleConditionsInMemory_def)

lemma abs_batch_payload: "map payload xs = map payload ys \<Longrightarrow> abs_batch xs = abs_batch ys"
proof -
  assume eq: "map payload xs = map payload ys"
  have split: "map (\<lambda>x. (Key x, payload x)) zs = map (\<lambda>x. (Key x, x)) (map payload zs)" for zs :: "'a resource_scheme list"
    by simp
  show ?thesis by (simp only: abs_batch_def split eq)
qed

lemma sync_each_eq:
  "sync_each f rs s = (if eng_syncManager s then s\<lparr>eng_synced := eng_synced s @ map (Pair f) rs\<rparr> else s)"
  unfolding sync_each_def by (induction rs arbitrary: s) (simp_all add: SyncEntity_def)

lemma commit_writer_reg:
  "eng_reg (commit_writer w s) = (eng_reg s)\<lparr>reg_db := fst (Commit (eng_env s) (reg_db (eng_reg s)) w)\<rparr>"
  by (simp add: commit_writer_def split_beta)

definition stored_rules :: "engine \<Rightarrow> ieagag_rule table" where
  "stored_rules s = GetIEAgAgRules (reg_db (eng_reg s))"

lemma full_sync_all:
  assumes "table_ok (ie.view db wr)"
  shows "abs_table (ie.view db (fst (SyncIEAgAgRules e db xs (Some EmptyScope) [] wr))) = abs_batch xs"
  using assms
  by (simp add: ie.view_sync by_key.refines spec_sync_def select_sync_op_def scope_keys_def)

lemma execute_changes:
  assumes opn: "\<not> reg_closed (eng_reg s)" and ch: "toCreate ops @ toUpdate ops \<noteq> []"
    and ok: "table_ok (stored_rules s)"
  shows "fst (executeRuleOperations ops s) = None"
    and "abs_table (stored_rules (snd (executeRuleOperations ops s))) =
      abs_batch (toCreate ops @ toUpdate ops)"
proof -
  let ?db = "reg_db (eng_reg s)"
  let ?ch = "toCreate ops @ toUpdate ops"
  let ?wr = "if toDelete ops \<noteq> [] then DeleteIEAgAgRulesByIDs ?db (map self_id (toDelete ops)) empty_writer
             else empty_writer"
  let ?p = "if eng_conditionManager s then process_all (eng_env s) ?ch else (?ch, eng_env s)"
  have pay: "abs_batch (fst ?p) = abs_batch ?ch"
    by (simp add: abs_batch_payload [OF process_all_payload])
  have view: "table_ok (ie.view ?db ?wr)"
    using ok by (simp add: ie.view_new ie.view_del table_ok_delete_keys stored_rules_def)
  show "fst (executeRuleOperations ops s) = None"
    using opn by (simp add: executeRuleOperations_def Writer_def Let_def split_beta)
  have "stored_rules (snd (executeRuleOperations ops s)) =
      ie.view ?db (fst (SyncIEAgAgRules (snd ?p) ?db (fst ?p) (Some EmptyScope) [] ?wr))"
    using opn ch
    by (auto simp: executeRuleOperations_def Writer_def Let_def split_beta stored_rules_def
        commit_writer_reg sync_each_eq ie.db_commit)
  with full_sync_all [OF view] pay show "abs_table (stored_rules (snd (executeRuleOperations ops s))) = abs_batch ?ch"
    by simp
qed

lemma execute_deletes:
  assumes "\<not> reg_closed (eng_reg s)" and "toCreate ops = []" "toUpdate ops = []"
  shows "fst (executeRuleOperations ops s) = None"
    and "abs_table (stored_rules (snd (executeRuleOperations ops s))) =
      abs_table (stored_rules s) |` (- Key ` set (toDelete ops))"
proof -
  show "fst (executeRuleOperations ops s) = None"
    using assms by (simp add: executeRuleOperations_def Writer_def Let_def split_beta)
  show "abs_table (stored_rules (snd (executeRuleOperations ops s))) =
      abs_table (stored_rules s) |` (- Key ` set (toDelete ops))"
    using assms
    by (auto simp: executeRuleOperations_def Writer_def Let_def split_beta stored_rules_def
        commit_writer_reg sync_each_eq ie.db_commit ie.view_del ie.view_new abs_delete_keys
        Key_self_id [symmetric] restrict_map_def fun_eq_iff)
qed

end
