(* ===== verification/PortUtils.thy ===== *)
theory PortUtils
  imports Resources
begin

text \<open>
  Port strings and port ranges: \<^verbatim>\<open>internal/application/validation/port_utils.go\<close>, and
  the printers and the one-range parser of the port-mapping converters
  (\<^verbatim>\<open>internal/k8s/registry\<close>). Port numbers are Go \<^verbatim>\<open>int\<close>s that the parsers
  keep within 0..65535; no arithmetic is done on them, so they are \<open>int\<close>.
\<close>

section \<open>Parsing\<close>

definition range_text :: "port_range \<Rightarrow> string" where
  "range_text r = itoa (pr_Start r) @ ''-'' @ itoa (pr_End r)"

text \<open>\<^verbatim>\<open>strings.Contains(item, "-") && !strings.HasPrefix(item, "-")\<close>\<close>

definition is_range_item :: "string \<Rightarrow> bool" where
  "is_range_item item \<longleftrightarrow> CHR ''-'' \<in> set item \<and> take 1 item \<noteq> ''-''"

text \<open>The loop body of \<^verbatim>\<open>ParsePortRanges\<close> for one trimmed, non-empty item.\<close>

definition parse_port_item :: "string \<Rightarrow> error + port_range" where
  "parse_port_item item =
     (if is_range_item item then
        (case split_on CHR ''-'' item of
           [p0, p1] \<Rightarrow>
             (case atoi p0 of
                None \<Rightarrow> Inl (Errorf (''invalid start port '' @ quoted p0 @
                          '': must be a number between 0 and 65535''))
              | Some start \<Rightarrow>
             (case atoi p1 of
                None \<Rightarrow> Inl (Errorf (''invalid end port '' @ quoted p1 @
                          '': must be a number between 0 and 65535''))
              | Some end \<Rightarrow>
                if start < 0 \<or> start > 65535 then
                  Inl (Errorf (''start port '' @ itoa start @ '' is out of valid range (0-65535)''))
                else if end < 0 \<or> end > 65535 then
                  Inl (Errorf (''end port '' @ itoa end @ '' is out of valid range (0-65535)''))
                else if start > end then
                  Inl (Errorf (''start port '' @ itoa start @
                         '' cannot be greater than end port '' @ itoa end))
                else Inr \<lparr> pr_Start = start, pr_End = end \<rparr>))
         | _ \<Rightarrow> Inl (Errorf (''invalid port range format '' @ quoted item @
                  '', expected format is '' @ quoted ''start-end'')))
      else
        (case atoi item of
           None \<Rightarrow> Inl (Errorf (''invalid port '' @ quoted item @
                     '': must be a number between 0 and 65535''))
         | Some p \<Rightarrow>
             if p < 0 \<or> p > 65535 then
               Inl (Errorf (''port '' @ itoa p @ '' is out of valid range (0-65535)''))
             else Inr \<lparr> pr_Start = p, pr_End = p \<rparr>))"

fun parse_port_items :: "string list \<Rightarrow> port_range list \<Rightarrow> error + port_range list" where
  "parse_port_items [] result = Inr result"
| "parse_port_items (i # is) result =
     (let item = trim_space i
      in if item = [] then parse_port_items is result
         else (case parse_port_item item of
                 Inl e \<Rightarrow> Inl e
               | Inr r \<Rightarrow> parse_port_items is (result @ [r])))"

definition ParsePortRanges :: "string \<Rightarrow> error + port_range list" where
  "ParsePortRanges port =
     (if port = [] then Inl (Errorf ''port cannot be empty'')
      else (case parse_port_items (split_on CHR '','' port) [] of
              Inl e \<Rightarrow> Inl e
            | Inr result \<Rightarrow>
                if length result = 0
                then Inl (Errorf (''no valid ports found in list '' @ quoted port))
                else Inr result))"

definition ParsePortRange :: "string \<Rightarrow> error + port_range" where
  "ParsePortRange port =
     (case ParsePortRanges port of
        Inl e \<Rightarrow> Inl e
      | Inr [] \<Rightarrow> Inl (Errorf ''index out of range'')
      | Inr (r # _) \<Rightarrow> Inr r)"

text \<open>\<^verbatim>\<open>validatePort\<close> repeats the checks, but does not skip empty items.\<close>

definition validate_port_item :: "string \<Rightarrow> error option" where
  "validate_port_item item =
     (if is_range_item item then
        (case split_on CHR ''-'' item of
           [p0, p1] \<Rightarrow>
             (case atoi p0 of
                None \<Rightarrow> Some (Errorf ''invalid start port'')
              | Some start \<Rightarrow>
             (case atoi p1 of
                None \<Rightarrow> Some (Errorf ''invalid end port'')
              | Some end \<Rightarrow>
                if start < 0 \<or> start > 65535 then
                  Some (Errorf ''start port must be between 0 and 65535'')
                else if end < 0 \<or> end > 65535 then
                  Some (Errorf ''end port must be between 0 and 65535'')
                else if start > end then
                  Some (Errorf ''start port must be less than or equal to end port'')
                else None))
         | _ \<Rightarrow> Some (Errorf ''invalid port range format''))
      else
        (case atoi item of
           None \<Rightarrow> Some (Errorf ''invalid port'')
         | Some p \<Rightarrow>
             if p < 0 \<or> p > 65535 then Some (Errorf ''port must be between 0 and 65535'')
             else None))"

definition validatePort :: "string \<Rightarrow> error option" where
  "validatePort port =
     (if port = [] then None
      else first_error (\<lambda>i. validate_port_item (trim_space i)) (split_on CHR '','' port))"

section \<open>Overlap checks\<close>

definition DoPortRangesOverlap :: "port_range \<Rightarrow> port_range \<Rightarrow> bool" where
  "DoPortRangesOverlap a b \<longleftrightarrow> pr_Start a \<le> pr_End b \<and> pr_End a \<ge> pr_Start b"

text \<open>The loop over neighbours of the sorted ranges.\<close>

fun check_adjacent :: "string \<Rightarrow> port_range list \<Rightarrow> error option" where
  "check_adjacent protocol (a # b # rs) =
     (if pr_End a \<ge> pr_Start b then
        Some (Errorf (''port conflict detected: '' @ protocol @ '' port ranges '' @ range_text a @
          '' and '' @ range_text b @
          '' overlap. Services in the same address group cannot have overlapping port ranges''))
      else check_adjacent protocol (b # rs))"
| "check_adjacent protocol rs = None"

text \<open>
  \<^verbatim>\<open>sort.Slice\<close> by start port is not stable; the model takes the stable order, and
  the results below hold for every ordering by start port.
\<close>

definition sort_by_start :: "port_range list \<Rightarrow> port_range list" where
  "sort_by_start rs = sort_key pr_Start rs"

definition CheckPortRangeOverlapsOptimized :: "port_range list \<Rightarrow> string \<Rightarrow> error option" where
  "CheckPortRangeOverlapsOptimized ranges protocol =
     (if length ranges \<le> 1 then None else check_adjacent protocol (sort_by_start ranges))"

section \<open>Printing\<close>

definition formatPortRange :: "port_range \<Rightarrow> string" where
  "formatPortRange r =
     (if pr_Start r = pr_End r then itoa (pr_Start r)
      else itoa (pr_Start r) @ ''-'' @ itoa (pr_End r))"

definition formatPortRangesToString :: "port_range list \<Rightarrow> string" where
  "formatPortRangesToString rs = join '','' (map formatPortRange (sort_by_start rs))"

definition parsePortConfig :: "string \<Rightarrow> error + port_range list" where
  "parsePortConfig s =
     (if CHR ''-'' \<in> set s then
        (case split_on CHR ''-'' s of
           [p0, p1] \<Rightarrow>
             (case atoi (trim_space p0) of
                None \<Rightarrow> Inl (Errorf (''invalid start port: '' @ p0))
              | Some start \<Rightarrow>
             (case atoi (trim_space p1) of
                None \<Rightarrow> Inl (Errorf (''invalid end port: '' @ p1))
              | Some end \<Rightarrow> Inr [\<lparr> pr_Start = start, pr_End = end \<rparr>]))
         | _ \<Rightarrow> Inl (Errorf (''invalid port range format: '' @ s)))
      else
        (case atoi (trim_space s) of
           None \<Rightarrow> Inl (Errorf (''invalid port: '' @ s))
         | Some p \<Rightarrow> Inr [\<lparr> pr_Start = p, pr_End = p \<rparr>]))"

section \<open>Facts about parsing\<close>

definition valid_range :: "port_range \<Rightarrow> bool" where
  "valid_range r \<longleftrightarrow> 0 \<le> pr_Start r \<and> pr_Start r \<le> pr_End r \<and> pr_End r \<le> 65535"

lemma parse_port_item_valid: "parse_port_item item = Inr r \<Longrightarrow> valid_range r"
  by (auto simp: parse_port_item_def valid_range_def
      split: if_splits list.splits option.splits)

lemma parse_port_items_valid:
  assumes "parse_port_items is acc = Inr rs" and "\<forall>r\<in>set acc. valid_range r"
  shows "\<forall>r\<in>set rs. valid_range r"
  using assms
  by (induction "is" acc rule: parse_port_items.induct)
    (auto simp: Let_def dest: parse_port_item_valid split: if_splits sum.splits)

lemma parse_port_items_acc:
  "parse_port_items is acc =
     (case parse_port_items is [] of Inl e \<Rightarrow> Inl e | Inr rs \<Rightarrow> Inr (acc @ rs))"
proof (induction "is" arbitrary: acc)
  case Nil
  then show ?case by simp
next
  case (Cons i "is")
  show ?case
    by (subst (1 2) parse_port_items.simps)
      (auto simp: Let_def Cons.IH [of acc] Cons.IH [of "acc @ _"] Cons.IH [of "[_]"]
        split: sum.splits)
qed

lemma ParsePortRanges_ne: "ParsePortRanges p \<noteq> Inr []"
  by (auto simp: ParsePortRanges_def split: if_splits sum.splits)

lemma ParsePortRanges_valid: "ParsePortRanges p = Inr rs \<Longrightarrow> \<forall>r\<in>set rs. valid_range r"
  by (auto simp: ParsePortRanges_def dest!: parse_port_items_valid split: if_splits sum.splits)

lemma ParsePortRange_eq:
  "ParsePortRange p = (case ParsePortRanges p of Inl e \<Rightarrow> Inl e | Inr rs \<Rightarrow> Inr (hd rs))"
  using ParsePortRanges_ne [of p] by (auto simp: ParsePortRange_def split: sum.splits list.splits)

text \<open>The two checkers agree on one item.\<close>

lemma validate_port_item_iff: "validate_port_item i = None \<longleftrightarrow> (\<exists>r. parse_port_item i = Inr r)"
  by (auto simp: validate_port_item_def parse_port_item_def
      split: if_splits list.splits option.splits)

lemma validate_port_item_Nil [simp]: "validate_port_item [] \<noteq> None"
  by (simp add: validate_port_item_def is_range_item_def atoi_def)

lemma parse_port_items_of_validated:
  assumes "\<forall>i\<in>set is. validate_port_item (trim_space i) = None"
  shows "\<exists>rs. parse_port_items is acc = Inr (acc @ rs) \<and> length rs = length is"
  using assms
proof (induction "is" arbitrary: acc)
  case Nil
  then show ?case by simp
next
  case (Cons i "is")
  then obtain r where r: "parse_port_item (trim_space i) = Inr r"
    by (auto simp: validate_port_item_iff)
  have "trim_space i \<noteq> []" using Cons.prems by auto
  with r Cons.IH [of "acc @ [r]"] Cons.prems show ?case
    by (auto simp: Let_def)
qed

section \<open>Facts about printing\<close>

lemma itoa_nonneg [simp]: "0 \<le> i \<Longrightarrow> itoa i = nat_str (nat i)"
  by (simp add: itoa_def)

lemma in_int64_port: "0 \<le> i \<Longrightarrow> i \<le> 65535 \<Longrightarrow> in_int64 i"
  by (simp add: in_int64_def)

lemma nat_str_no_dash [simp]: "CHR ''-'' \<notin> set (nat_str n)"
  using nat_str_clean(3) by blast

lemma nat_str_no_comma [simp]: "CHR '','' \<notin> set (nat_str n)"
  using nat_str_clean(2) by blast

lemma nat_str_no_space: "\<forall>c\<in>set (nat_str n). \<not> is_space c"
  using nat_str_clean(1) by blast

lemma not_is_space_dash [simp]: "\<not> is_space CHR ''-''"
  by (simp add: is_space_def)

lemma trim_nat_str [simp]: "trim_space (nat_str n) = nat_str n"
  by (simp add: trim_space_id nat_str_no_space)

lemma is_range_item_nat_str [simp]:
  "is_range_item (nat_str n @ s) \<longleftrightarrow> CHR ''-'' \<in> set s"
  using nat_str_no_dash [of n] nat_str_ne [of n]
  by (cases "nat_str n") (auto simp: is_range_item_def)

lemma not_is_range_item_nat_str [simp]: "\<not> is_range_item (nat_str n)"
  using is_range_item_nat_str [of n "[]"] by simp

lemma parse_port_item_single:
  "0 \<le> p \<Longrightarrow> p \<le> 65535 \<Longrightarrow> parse_port_item (nat_str (nat p)) = Inr \<lparr>pr_Start = p, pr_End = p\<rparr>"
  by (simp add: parse_port_item_def atoi_nat_str in_int64_port)

lemma parse_port_item_range:
  "0 \<le> a \<Longrightarrow> a \<le> b \<Longrightarrow> b \<le> 65535 \<Longrightarrow>
   parse_port_item (nat_str (nat a) @ CHR ''-'' # nat_str (nat b)) =
     Inr \<lparr>pr_Start = a, pr_End = b\<rparr>"
  by (simp add: parse_port_item_def split_on_append split_on_no_sep
      atoi_nat_str in_int64_port)

lemma formatPortRange_clean:
  assumes "valid_range r"
  shows "CHR '','' \<notin> set (formatPortRange r)" and "\<forall>c\<in>set (formatPortRange r). \<not> is_space c"
    and "formatPortRange r \<noteq> []"
  using assms nat_str_no_space by (auto simp: formatPortRange_def valid_range_def)

lemma parse_port_item_format: "valid_range r \<Longrightarrow> parse_port_item (formatPortRange r) = Inr r"
  by (cases r) (auto simp: formatPortRange_def valid_range_def parse_port_item_single
      parse_port_item_range)

lemma parse_port_items_format:
  "\<forall>r\<in>set rs. valid_range r \<Longrightarrow>
   parse_port_items (map formatPortRange rs) acc = Inr (acc @ rs)"
  by (induction rs arbitrary: acc)
    (auto simp: Let_def formatPortRange_clean trim_space_id parse_port_item_format)

lemma ParsePortRanges_format:
  assumes ne: "rs \<noteq> []" and valid: "\<forall>r\<in>set rs. valid_range r"
  shows "ParsePortRanges (join '','' (map formatPortRange rs)) = Inr rs"
proof -
  have split: "split_on CHR '','' (join '','' (map formatPortRange rs)) = map formatPortRange rs"
    using ne valid by (intro split_on_join) (auto simp: formatPortRange_clean)
  have "join '','' (map formatPortRange rs) \<noteq> []"
  proof
    assume "join '','' (map formatPortRange rs) = []"
    with split have "map formatPortRange rs = [[]]" by simp
    with valid show False by (auto simp: formatPortRange_clean)
  qed
  with split ne parse_port_items_format [OF valid, of "[]"] show ?thesis
    by (simp add: ParsePortRanges_def)
qed

section \<open>Facts about overlaps\<close>

lemma overlap_sym: "DoPortRangesOverlap a b \<longleftrightarrow> DoPortRangesOverlap b a"
  by (auto simp: DoPortRangesOverlap_def)

text \<open>Overlap is sharing a port.\<close>

definition covers :: "port_range \<Rightarrow> int \<Rightarrow> bool" where
  "covers r p \<longleftrightarrow> pr_Start r \<le> p \<and> p \<le> pr_End r"

lemma overlap_iff_common_port:
  "pr_Start a \<le> pr_End a \<Longrightarrow> pr_Start b \<le> pr_End b \<Longrightarrow>
   DoPortRangesOverlap a b \<longleftrightarrow> (\<exists>p. covers a p \<and> covers b p)"
proof -
  assume "pr_Start a \<le> pr_End a" "pr_Start b \<le> pr_End b"
  then have "DoPortRangesOverlap a b \<Longrightarrow> covers a (max (pr_Start a) (pr_Start b)) \<and>
      covers b (max (pr_Start a) (pr_Start b))"
    by (auto simp: DoPortRangesOverlap_def covers_def)
  then have "DoPortRangesOverlap a b \<Longrightarrow> \<exists>p. covers a p \<and> covers b p" by blast
  moreover have "\<exists>p. covers a p \<and> covers b p \<Longrightarrow> DoPortRangesOverlap a b"
    by (auto simp: DoPortRangesOverlap_def covers_def)
  ultimately show ?thesis by blast
qed

text \<open>No two entries at different positions overlap.\<close>

abbreviation pairwise_disjoint :: "port_range list \<Rightarrow> bool" where
  "pairwise_disjoint rs \<equiv> sorted_wrt (\<lambda>a b. \<not> DoPortRangesOverlap a b) rs"

lemma sorted_wrt_insert_mid:
  assumes sym: "\<And>a b. R a b \<Longrightarrow> R b a"
  shows "sorted_wrt R (as @ x # bs) \<longleftrightarrow>
    sorted_wrt R (as @ bs) \<and> (\<forall>y\<in>set as \<union> set bs. R x y)"
proof -
  have "R x y = R y x" for y using sym by blast
  then show ?thesis by (auto simp: sorted_wrt_append)
qed

lemma sorted_wrt_sym_perm:
  assumes sym: "\<And>a b. R a b \<Longrightarrow> R b a" and perm: "mset xs = mset ys"
  shows "sorted_wrt R xs \<longleftrightarrow> sorted_wrt R ys"
  using perm
proof (induction xs arbitrary: ys)
  case Nil
  then show ?case by simp
next
  case (Cons x xs)
  then have "x \<in> set ys" by (metis list.set_intros(1) mset_eq_setD)
  then obtain as bs where ys: "ys = as @ x # bs" by (meson split_list)
  with Cons.prems have m: "mset xs = mset (as @ bs)" by simp
  then have "set xs = set (as @ bs)" by (rule mset_eq_setD)
  then have "sorted_wrt R (x # xs) \<longleftrightarrow>
      sorted_wrt R (as @ bs) \<and> (\<forall>y\<in>set as \<union> set bs. R x y)"
    using Cons.IH [OF m] by auto
  also have "\<dots> \<longleftrightarrow> sorted_wrt R ys"
    unfolding ys by (rule sorted_wrt_insert_mid [symmetric]) (rule sym)
  finally show ?case .
qed

lemma check_adjacent_iff:
  assumes "sorted_wrt (\<lambda>a b. pr_Start a \<le> pr_Start b) rs"
    and "\<forall>r\<in>set rs. pr_Start r \<le> pr_End r"
  shows "check_adjacent p rs = None \<longleftrightarrow> pairwise_disjoint rs"
  using assms
proof (induction p rs rule: check_adjacent.induct)
  case (1 p a b rs)
  have far: "\<forall>r\<in>set rs. pr_Start b \<le> pr_Start r" using "1.prems"(1) by simp
  show ?case
  proof (cases "pr_End a \<ge> pr_Start b")
    case True
    with "1.prems" show ?thesis by (auto simp: DoPortRangesOverlap_def)
  next
    case False
    with far "1.prems" have "\<forall>r\<in>set (b # rs). \<not> DoPortRangesOverlap a r"
      by (fastforce simp: DoPortRangesOverlap_def)
    with False "1.IH" "1.prems" show ?thesis by simp
  qed
qed simp_all

lemma mset_sort_by_start [simp]: "mset (sort_by_start rs) = mset rs"
  by (simp add: sort_by_start_def)

lemma set_sort_by_start [simp]: "set (sort_by_start rs) = set rs"
  by (simp add: sort_by_start_def)

lemma sort_by_start_sorted: "sorted_wrt (\<lambda>a b. pr_Start a \<le> pr_Start b) (sort_by_start rs)"
  using sorted_sort_key [of pr_Start rs] by (simp add: sort_by_start_def sorted_map)

lemma pairwise_disjoint_perm:
  "mset xs = mset ys \<Longrightarrow> pairwise_disjoint xs \<longleftrightarrow> pairwise_disjoint ys"
  using overlap_sym by (intro sorted_wrt_sym_perm) auto

lemma optimized_iff_pairwise_disjoint:
  assumes "\<forall>r\<in>set rs. pr_Start r \<le> pr_End r"
  shows "CheckPortRangeOverlapsOptimized rs p = None \<longleftrightarrow> pairwise_disjoint rs"
proof (cases "length rs \<le> 1")
  case True
  then show ?thesis
    by (cases rs) (auto simp: CheckPortRangeOverlapsOptimized_def)
next
  case False
  have "check_adjacent p (sort_by_start rs) = None \<longleftrightarrow> pairwise_disjoint (sort_by_start rs)"
    using assms by (intro check_adjacent_iff sort_by_start_sorted) simp
  with False show ?thesis
    by (simp add: CheckPortRangeOverlapsOptimized_def pairwise_disjoint_perm [of "sort_by_start rs" rs])
qed

lemma pairwise_disjoint_append:
  "pairwise_disjoint (xs @ ys) \<longleftrightarrow> pairwise_disjoint xs \<and> pairwise_disjoint ys \<and>
     (\<forall>a\<in>set xs. \<forall>b\<in>set ys. \<not> DoPortRangesOverlap a b)"
  by (simp add: sorted_wrt_append)

section \<open>Properties\<close>

text \<open>
  The parsed ranges of a port string are non-empty and every range lies within 0..65535
  with its start not after its end.
\<close>
theorem parsed_ranges_valid:
  assumes "ParsePortRanges p = Inr rs"
  shows "rs \<noteq> [] \<and> list_all valid_range rs \<and> ParsePortRange p = Inr (hd rs)"
  using assms ParsePortRanges_valid [OF assms] ParsePortRanges_ne [of p]
  by (auto simp: list_all_iff ParsePortRange_eq)

theorem parsed_ranges_valid_witness:
  "list_all valid_range [\<lparr> pr_Start = 80, pr_End = 80 \<rparr>, \<lparr> pr_Start = 8000, pr_End = 9000 \<rparr>]"
proof -
  have "ParsePortRanges ''80, 8000-9000'' =
      Inr [\<lparr> pr_Start = 80, pr_End = 80 \<rparr>, \<lparr> pr_Start = 8000, pr_End = 9000 \<rparr>]"
    by code_simp
  from parsed_ranges_valid [OF this] show ?thesis by blast
qed

text \<open>
  C35: Printing port ranges and parsing the result gives the ranges back, ordered by start
  port as the printer orders them.
\<close>
theorem print_parse_roundtrip:
  assumes "rs \<noteq> []" and "list_all valid_range rs"
  shows "ParsePortRanges (formatPortRangesToString rs) = Inr (sort_by_start rs)"
  using ParsePortRanges_format [of "sort_by_start rs"] assms
  by (auto simp: formatPortRangesToString_def list_all_iff simp flip: set_empty)

theorem print_parse_roundtrip_witness:
  "ParsePortRanges (formatPortRangesToString
     [\<lparr> pr_Start = 8000, pr_End = 9000 \<rparr>, \<lparr> pr_Start = 80, pr_End = 80 \<rparr>]) =
   Inr [\<lparr> pr_Start = 80, pr_End = 80 \<rparr>, \<lparr> pr_Start = 8000, pr_End = 9000 \<rparr>]"
  using print_parse_roundtrip [of "[\<lparr> pr_Start = 8000, pr_End = 9000 \<rparr>, \<lparr> pr_Start = 80, pr_End = 80 \<rparr>]"]
  by (simp add: valid_range_def sort_by_start_def)

text \<open>
  A non-empty port string that the rule validator accepts is parsed by the port parser,
  into one range per comma-separated item.
\<close>
theorem validated_port_parses:
  assumes "p \<noteq> []" and "validatePort p = None"
  shows "\<exists>rs. ParsePortRanges p = Inr rs \<and> length rs = length (split_on CHR '','' p)"
proof -
  have "\<forall>i\<in>set (split_on CHR '','' p). validate_port_item (trim_space i) = None"
    using assms by (simp add: validatePort_def)
  from parse_port_items_of_validated [OF this, of "[]"] assms(1) show ?thesis
    by (auto simp: ParsePortRanges_def)
qed

theorem validated_port_parses_witness:
  "\<exists>rs. ParsePortRanges ''80,443'' = Inr rs \<and> length rs = Suc (Suc 0)"
proof -
  have "validatePort ''80,443'' = None" by code_simp
  from validated_port_parses [OF _ this] show ?thesis by simp
qed

text \<open>
  C22: The sort-based overlap check accepts exactly the lists in which no two entries share a
  port, and the comparison of neighbours gives the same answer for every ordering by start
  port, so the unstable sort of the original does not matter.
\<close>
theorem overlap_check_correct:
  assumes "list_all (\<lambda>r. pr_Start r \<le> pr_End r) rs"
  shows "(CheckPortRangeOverlapsOptimized rs protocol = None \<longleftrightarrow>
      (\<forall>i j. i < j \<and> j < length rs \<longrightarrow> \<not> (\<exists>port. covers (rs ! i) port \<and> covers (rs ! j) port))) \<and>
    (mset ss = mset rs \<and> sorted (map pr_Start ss) \<longrightarrow>
      (check_adjacent protocol ss = None \<longleftrightarrow> check_adjacent protocol (sort_by_start rs) = None))"
proof -
  have ord: "\<forall>r\<in>set rs. pr_Start r \<le> pr_End r" using assms by (simp add: list_all_iff)
  have common: "DoPortRangesOverlap (rs ! i) (rs ! j) \<longleftrightarrow> (\<exists>port. covers (rs ! i) port \<and> covers (rs ! j) port)"
    if "i < j" "j < length rs" for i j
    using that ord by (intro overlap_iff_common_port) simp_all
  have "pairwise_disjoint rs \<longleftrightarrow>
      (\<forall>i j. i < j \<and> j < length rs \<longrightarrow> \<not> (\<exists>port. covers (rs ! i) port \<and> covers (rs ! j) port))"
    unfolding sorted_wrt_iff_nth_less using common by meson
  moreover have "check_adjacent protocol xs = None \<longleftrightarrow> pairwise_disjoint rs"
    if "mset xs = mset rs" "sorted (map pr_Start xs)" for xs
  proof -
    have "set xs = set rs" using that(1) by (rule mset_eq_setD)
    then have "check_adjacent protocol xs = None \<longleftrightarrow> pairwise_disjoint xs"
      using that(2) ord by (intro check_adjacent_iff) (simp_all add: sorted_map)
    with pairwise_disjoint_perm [OF that(1)] show ?thesis by simp
  qed
  ultimately show ?thesis
    using optimized_iff_pairwise_disjoint [OF ord] sort_by_start_sorted [of rs] by (simp add: sorted_map)
qed

theorem overlap_check_correct_witness:
  "CheckPortRangeOverlapsOptimized [\<lparr> pr_Start = 80, pr_End = 90 \<rparr>, \<lparr> pr_Start = 85, pr_End = 85 \<rparr>] TCP \<noteq> None"
proof -
  let ?rs = "[\<lparr> pr_Start = 80, pr_End = 90 \<rparr>, \<lparr> pr_Start = 85, pr_End = 85 \<rparr>]"
  have "covers (?rs ! 0) 85 \<and> covers (?rs ! 1) 85" by (simp add: covers_def)
  then have "\<not> (\<forall>i j. i < j \<and> j < length ?rs \<longrightarrow> \<not> (\<exists>port. covers (?rs ! i) port \<and> covers (?rs ! j) port))"
    by force
  with overlap_check_correct [of ?rs TCP ?rs] show ?thesis by simp
qed

end
