(* ===== verification/BaseValidation.thy ===== *)
theory BaseValidation
  imports MemReader PortUtils
begin

text \<open>
  The common base of the validators
  (\<^verbatim>\<open>internal/application/validation/base_validator.go\<close>, \<^verbatim>\<open>validator.go\<close>):
  existence checks over a listing function, and the checks that freeze parts of an object
  once its Ready condition is true.

  The listing function may fail and be retried, so the base validator's listing takes the
  number of the attempt; a reader whose answers do not vary ignores it.
\<close>

section \<open>Existence checks\<close>

record 'a base_validator =
  bv_entityType :: string
  bv_list :: "nat \<Rightarrow> scope option \<Rightarrow> 'a listing"

definition NewBaseValidator ::
  "string \<Rightarrow> (nat \<Rightarrow> scope option \<Rightarrow> 'a listing) \<Rightarrow> 'a base_validator"
where
  "NewBaseValidator ty l = \<lparr> bv_entityType = ty, bv_list = l \<rparr>"

definition NewResourceIdentifierScope :: "resource_identifier list \<Rightarrow> scope" where
  "NewResourceIdentifierScope ids = ResourceIdentifierScope ids"

text \<open>\<^verbatim>\<open>strings.Contains\<close>\<close>

fun contains_str :: "string \<Rightarrow> string \<Rightarrow> bool" where
  "contains_str sub s =
     (if take (length sub) s = sub then True
      else (case s of [] \<Rightarrow> False | _ # t \<Rightarrow> contains_str sub t))"

definition maxRetries :: nat where "maxRetries = 3"

text \<open>
  The retry loop, counting the attempts that are left. The flag is set by the callback and
  survives a failed attempt; the pause between attempts is not modelled.
\<close>

fun exists_loop ::
  "'a base_validator \<Rightarrow> resource_identifier \<Rightarrow> ('a \<Rightarrow> string) \<Rightarrow> nat \<Rightarrow> nat \<Rightarrow> bool \<Rightarrow>
   error option"
where
  "exists_loop v i kx attempt 0 ex =
     (if \<not> ex then Some (EntityNotFoundError (bv_entityType v) (rid_Key i)) else None)"
| "exists_loop v i kx attempt (Suc left) ex =
     (let (err, ex') =
        consume_listing (\<lambda>x b. (None, if kx x = rid_Key i then True else b))
          (bv_list v attempt (Some (NewResourceIdentifierScope [i]))) ex
      in case err of
           None \<Rightarrow>
             (if \<not> ex' then Some (EntityNotFoundError (bv_entityType v) (rid_Key i)) else None)
         | Some e \<Rightarrow>
             (if contains_str ''conn busy'' (error_text e) \<and> attempt < maxRetries - 1
              then exists_loop v i kx (Suc attempt) left ex'
              else Some (Wrap (''failed to check '' @ bv_entityType v @ '' existence'') e)))"

definition ValidateExists ::
  "'a base_validator \<Rightarrow> resource_identifier \<Rightarrow> ('a \<Rightarrow> string) \<Rightarrow> error option"
where
  "ValidateExists v i kx = exists_loop v i kx 0 maxRetries False"

definition CheckEntityExists ::
  "'a base_validator \<Rightarrow> resource_identifier \<Rightarrow> ('a \<Rightarrow> string) \<Rightarrow> error + bool \<times> 'a option"
where
  "CheckEntityExists v i kx =
     (let (err, st) =
        consume_listing
          (\<lambda>x st. (None, if kx x = rid_Key i then (True, Some x) else st))
          (bv_list v 0 (Some (NewResourceIdentifierScope [i]))) (False, None)
      in case err of
           Some e \<Rightarrow> Inl (Wrap (''failed to check '' @ bv_entityType v @ '' existence'') e)
         | None \<Rightarrow> Inr st)"

definition ValidateEntityDoesNotExistForCreation ::
  "'a base_validator \<Rightarrow> resource_identifier \<Rightarrow> ('a \<Rightarrow> string) \<Rightarrow> error option"
where
  "ValidateEntityDoesNotExistForCreation v i kx =
     (case CheckEntityExists v i kx of
        Inl e \<Rightarrow> Some e
      | Inr (exists, found) \<Rightarrow>
          if exists then
            Some (EntityAlreadyExistsError (bv_entityType v) (rid_Key i)
              (''Entity was found in namespace '' @ quoted (rid_Namespace i) @
                 '' with name '' @ quoted (rid_Name i))
              (''Use a different name or update the existing '' @ bv_entityType v @ '' instead''))
          else None)"

section \<open>Checks that depend on the Ready condition\<close>

text \<open>
  The type switch of the original covers every kind the validators pass in and reads the
  object's metadata in each case.
\<close>

definition IsReadyConditionTrue :: "'a resource_scheme \<Rightarrow> bool" where
  "IsReadyConditionTrue obj = IsReady (Meta obj)"

definition ValidateSpecNotChangedWhenReady ::
  "'a resource_scheme \<Rightarrow> 's \<Rightarrow> 's \<Rightarrow> error option"
where
  "ValidateSpecNotChangedWhenReady oldObj oldSpec newSpec =
     (if oldSpec \<noteq> newSpec \<and> IsReadyConditionTrue oldObj
      then Some (Errorf ''spec cannot be changed when Ready condition is true'') else None)"

definition ValidateFieldNotChangedWhenReady ::
  "string \<Rightarrow> 'a resource_scheme \<Rightarrow> 's \<Rightarrow> 's \<Rightarrow> error option"
where
  "ValidateFieldNotChangedWhenReady fieldName oldObj oldValue newValue =
     (if oldValue \<noteq> newValue \<and> IsReadyConditionTrue oldObj
      then Some (Errorf (''cannot change '' @ fieldName @ '' when Ready condition is true''))
      else None)"

record object_reference_comparison =
  cmp_OldRef :: nref
  cmp_NewRef :: nref
  cmp_FieldName :: string

definition ValidateObjectReferenceNotChangedWhenReady ::
  "'a resource_scheme \<Rightarrow> nref \<Rightarrow> nref \<Rightarrow> string \<Rightarrow> error option"
where
  "ValidateObjectReferenceNotChangedWhenReady oldObj oldRef newRef fieldName =
     (if (ref_Name oldRef \<noteq> ref_Name newRef \<or> ref_Kind oldRef \<noteq> ref_Kind newRef \<or>
          ref_APIVersion oldRef \<noteq> ref_APIVersion newRef \<or>
          ref_Namespace oldRef \<noteq> ref_Namespace newRef) \<and> IsReadyConditionTrue oldObj
      then Some (Errorf (''cannot change '' @ fieldName @ '' when Ready condition is true''))
      else None)"

definition ValidateObjectReferencesNotChangedWhenReady ::
  "'a resource_scheme \<Rightarrow> object_reference_comparison list \<Rightarrow> error option"
where
  "ValidateObjectReferencesNotChangedWhenReady oldObj cmps =
     (if \<not> IsReadyConditionTrue oldObj then None
      else first_error
        (\<lambda>c. ValidateObjectReferenceNotChangedWhenReady oldObj (cmp_OldRef c) (cmp_NewRef c)
               (cmp_FieldName c)) cmps)"

lemma nref_eq_iff:
  "(a :: nref) = b \<longleftrightarrow> ref_Name a = ref_Name b \<and> ref_Kind a = ref_Kind b \<and>
     ref_APIVersion a = ref_APIVersion b \<and> ref_Namespace a = ref_Namespace b"
  by (cases a; cases b) auto

lemma ready_checks_None_iff:
  "ValidateSpecNotChangedWhenReady old s s' = None \<longleftrightarrow> (IsReadyConditionTrue old \<longrightarrow> s = s')"
  "ValidateFieldNotChangedWhenReady f old s s' = None \<longleftrightarrow> (IsReadyConditionTrue old \<longrightarrow> s = s')"
  "ValidateObjectReferenceNotChangedWhenReady old a b f = None \<longleftrightarrow>
     (IsReadyConditionTrue old \<longrightarrow> a = b)"
  "ValidateObjectReferencesNotChangedWhenReady old cmps = None \<longleftrightarrow>
     (IsReadyConditionTrue old \<longrightarrow> (\<forall>c\<in>set cmps. cmp_OldRef c = cmp_NewRef c))"
  by (auto simp: ValidateSpecNotChangedWhenReady_def ValidateFieldNotChangedWhenReady_def
      ValidateObjectReferenceNotChangedWhenReady_def
      ValidateObjectReferencesNotChangedWhenReady_def nref_eq_iff)

section \<open>The validators of the kinds\<close>

text \<open>Each validator is the base validator of its kind over the reader it was made from.\<close>

definition NewServiceValidator :: "reader_ops \<Rightarrow> service base_validator" where
  "NewServiceValidator rd = NewBaseValidator ''service'' (\<lambda>_. ListServices rd)"

definition NewAddressGroupValidator :: "reader_ops \<Rightarrow> address_group base_validator" where
  "NewAddressGroupValidator rd = NewBaseValidator ''address_group'' (\<lambda>_. ListAddressGroups rd)"

definition NewAddressGroupBindingValidator ::
  "reader_ops \<Rightarrow> address_group_binding base_validator"
where
  "NewAddressGroupBindingValidator rd =
     NewBaseValidator ''address_group_binding'' (\<lambda>_. ListAddressGroupBindings rd)"

definition NewServiceAliasValidator :: "reader_ops \<Rightarrow> service_alias base_validator" where
  "NewServiceAliasValidator rd = NewBaseValidator ''service_alias'' (\<lambda>_. ListServiceAliases rd)"

definition NewRuleS2SValidator :: "reader_ops \<Rightarrow> rule_s2s base_validator" where
  "NewRuleS2SValidator rd = NewBaseValidator ''rule_s2s'' (\<lambda>_. ListRuleS2S rd)"

definition NewAddressGroupPortMappingValidator ::
  "reader_ops \<Rightarrow> address_group_port_mapping base_validator"
where
  "NewAddressGroupPortMappingValidator rd =
     NewBaseValidator ''address_group_port_mapping'' (\<lambda>_. ListAddressGroupPortMappings rd)"

definition NewAddressGroupBindingPolicyValidator ::
  "reader_ops \<Rightarrow> address_group_binding_policy base_validator"
where
  "NewAddressGroupBindingPolicyValidator rd =
     NewBaseValidator ''address_group_binding_policy'' (\<lambda>_. ListAddressGroupBindingPolicies rd)"

definition NewIEAgAgRuleValidator :: "reader_ops \<Rightarrow> ieagag_rule base_validator" where
  "NewIEAgAgRuleValidator rd = NewBaseValidator ''IEAgAgRule'' (\<lambda>_. ListIEAgAgRules rd)"

definition NewNetworkValidator :: "reader_ops \<Rightarrow> network base_validator" where
  "NewNetworkValidator rd = NewBaseValidator ''Network'' (\<lambda>_. ListNetworks rd)"

definition NewNetworkBindingValidator :: "reader_ops \<Rightarrow> network_binding base_validator" where
  "NewNetworkBindingValidator rd = NewBaseValidator ''NetworkBinding'' (\<lambda>_. ListNetworkBindings rd)"

lemmas validator_defs =
  NewServiceValidator_def NewAddressGroupValidator_def NewAddressGroupBindingValidator_def
  NewServiceAliasValidator_def NewRuleS2SValidator_def NewAddressGroupPortMappingValidator_def
  NewAddressGroupBindingPolicyValidator_def NewIEAgAgRuleValidator_def NewNetworkValidator_def
  NewNetworkBindingValidator_def

section \<open>Existence checks against the repository\<close>

lemma fold_flag_state:
  "fold (\<lambda>x st. if P x then (True, Some x) else st) xs (b, y) =
     (b \<or> (\<exists>x\<in>set xs. P x), if \<exists>x\<in>set xs. P x then Some (last (filter P xs)) else y)"
  by (induction xs arbitrary: b y) (auto simp: filter_empty_conv)

lemma exists_loop_ok:
  assumes "snd (bv_list v attempt (Some (ResourceIdentifierScope [i]))) = None"
  shows "exists_loop v i kx attempt (Suc left) ex =
    (if ex \<or> (\<exists>x\<in>set (fst (bv_list v attempt (Some (ResourceIdentifierScope [i])))).
              kx x = rid_Key i)
     then None else Some (EntityNotFoundError (bv_entityType v) (rid_Key i)))"
  using assms
  by (simp add: Let_def NewResourceIdentifierScope_def)

lemma ValidateExists_ok:
  assumes "snd (bv_list v 0 (Some (ResourceIdentifierScope [i]))) = None"
  shows "ValidateExists v i kx =
    (if \<exists>x\<in>set (fst (bv_list v 0 (Some (ResourceIdentifierScope [i])))). kx x = rid_Key i
     then None else Some (EntityNotFoundError (bv_entityType v) (rid_Key i)))"
  using exists_loop_ok [OF assms, of kx 2 False]
  by (simp add: ValidateExists_def maxRetries_def numeral_3_eq_3 numeral_2_eq_2)

lemma NotExist_None_iff:
  "ValidateEntityDoesNotExistForCreation v i kx = None \<longleftrightarrow>
     snd (bv_list v 0 (Some (ResourceIdentifierScope [i]))) = None \<and>
     (\<forall>x\<in>set (fst (bv_list v 0 (Some (ResourceIdentifierScope [i])))). kx x \<noteq> rid_Key i)"
  by (auto simp: ValidateEntityDoesNotExistForCreation_def CheckEntityExists_def Let_def
      NewResourceIdentifierScope_def fold_flag_state split: option.splits)

context reader_kind
begin

lemma list_ok: "snd (list r sc) = None"
  by (simp add: list_eq)

lemma list_one:
  assumes "rid_Name i \<noteq> []"
  shows "fst (list r (Some (ResourceIdentifierScope [i]))) =
    (case map_of (tbl r) (rid_Key i) of None \<Rightarrow> [] | Some v \<Rightarrow> [v])"
  using assms by (simp add: list_eq list_table_def split: option.splits)

lemma validate_exists_iff:
  assumes "reader_good r" and "rid_Name i \<noteq> []" and "bv_list v 0 = list r"
  shows "ValidateExists v i Key = None \<longleftrightarrow> (\<exists>x. get r i = Inr x)"
  using assms table_ok_lookup [OF tbl_ok [OF assms(1)]]
  by (cases "map_of (tbl r) (rid_Key i)")
    (simp_all add: ValidateExists_ok list_one list_ok get_eq get_by_id_iff)

lemma not_exists_iff:
  assumes "reader_good r" and "rid_Name i \<noteq> []" and "bv_list v 0 = list r"
  shows "ValidateEntityDoesNotExistForCreation v i Key = None \<longleftrightarrow>
    rid_Key i \<notin> fst ` set (tbl r)"
  using assms table_ok_lookup [OF tbl_ok [OF assms(1)]]
  by (cases "map_of (tbl r) (rid_Key i)")
    (simp_all add: NotExist_None_iff list_one list_ok map_of_eq_None_iff [symmetric])

lemma not_exists_get:
  assumes "reader_good r" and "rid_Name i \<noteq> []" and "bv_list v 0 = list r"
  shows "ValidateEntityDoesNotExistForCreation v i Key = None \<longleftrightarrow> get r i = Inl ErrNotFound"
  using not_exists_iff [OF assms] by (simp add: get_eq assms(1) get_by_id_missing map_of_eq_None_iff)

end

lemma validator_lists [simp]:
  "bv_list (NewServiceValidator (mem_reader r)) n = mem_ListServices r"
  "bv_list (NewAddressGroupValidator (mem_reader r)) n = mem_ListAddressGroups r"
  "bv_list (NewAddressGroupBindingValidator (mem_reader r)) n = mem_ListAddressGroupBindings r"
  "bv_list (NewServiceAliasValidator (mem_reader r)) n = mem_ListServiceAliases r"
  "bv_list (NewRuleS2SValidator (mem_reader r)) n = mem_ListRuleS2S r"
  "bv_list (NewAddressGroupPortMappingValidator (mem_reader r)) n = mem_ListAddressGroupPortMappings r"
  "bv_list (NewAddressGroupBindingPolicyValidator (mem_reader r)) n = mem_ListAddressGroupBindingPolicies r"
  "bv_list (NewIEAgAgRuleValidator (mem_reader r)) n = mem_ListIEAgAgRules r"
  "bv_list (NewNetworkValidator (mem_reader r)) n = mem_ListNetworks r"
  "bv_list (NewNetworkBindingValidator (mem_reader r)) n = mem_ListNetworkBindings r"
  by (simp_all add: validator_defs NewBaseValidator_def mem_reader_def)

end
