(* ===== verification/ServiceValidation.thy ===== *)
theory ServiceValidation
  imports BaseValidation
begin

text \<open>
  Validation of services and of the port mappings that record which service opens which
  ports in an address group: \<^verbatim>\<open>service_validator.go\<close>,
  \<^verbatim>\<open>address_group_port_mapping_validator.go\<close>, and the port-mapping functions of
  \<^verbatim>\<open>address_group_binding_validator.go\<close>
  (\<^verbatim>\<open>internal/application/validation\<close>).
\<close>

section \<open>Loops that look for an overlap\<close>

text \<open>Two nested loops over ranges that return at the first overlap.\<close>

definition find_overlap ::
  "(port_range \<Rightarrow> port_range \<Rightarrow> error) \<Rightarrow> port_range list \<Rightarrow> port_range list \<Rightarrow> error option"
where
  "find_overlap msg xs ys =
     first_error (\<lambda>a. first_error
       (\<lambda>b. if DoPortRangesOverlap a b then Some (msg a b) else None) ys) xs"

lemma find_overlap_None_iff:
  "find_overlap msg xs ys = None \<longleftrightarrow>
     (\<forall>a\<in>set xs. \<forall>b\<in>set ys. \<not> DoPortRangesOverlap a b)"
  by (auto simp: find_overlap_def)

section \<open>Port mappings of an address group\<close>

text \<open>The conversion loop that both mapping functions share; unparsable ports are skipped.\<close>

fun collect_ports :: "ingress_port list \<Rightarrow> protocol_ports \<Rightarrow> protocol_ports" where
  "collect_ports [] m = m"
| "collect_ports (p # ps) m =
     (case ParsePortRanges (ip_Port p) of
        Inl _ \<Rightarrow> collect_ports ps m
      | Inr rs \<Rightarrow> collect_ports ps (fold (\<lambda>r. append_ports (ip_Protocol p) [r]) rs m))"

definition service_ref :: "service \<Rightarrow> nref" where
  "service_ref s = NewServiceRef (Name s) [WithNamespace (Namespace s)]"

definition CreateNewPortMapping ::
  "resource_identifier \<Rightarrow> service \<Rightarrow> address_group_port_mapping"
where
  "CreateNewPortMapping agID s =
     \<lparr> Name = rid_Name agID, Namespace = rid_Namespace agID, Meta = empty_meta,
       agpm_AccessPorts =
         Some [(service_ref s, \<lparr> sp_Ports = collect_ports (svc_IngressPorts s) [] \<rparr>)],
       agpm_AccessPortsWithRefs = [] \<rparr>"

definition access_ports :: "address_group_port_mapping \<Rightarrow> (nref \<times> service_ports) list" where
  "access_ports m = (case agpm_AccessPorts m of None \<Rightarrow> [] | Some ap \<Rightarrow> ap)"

definition UpdatePortMapping ::
  "address_group_port_mapping \<Rightarrow> service \<Rightarrow> address_group_port_mapping"
where
  "UpdatePortMapping m s =
     m\<lparr>agpm_AccessPorts :=
        Some (AList.update (service_ref s)
               \<lparr> sp_Ports = collect_ports (svc_IngressPorts s) [] \<rparr> (access_ports m))\<rparr>"

text \<open>
  The first loop of the package function \<^verbatim>\<open>CheckPortOverlaps\<close>: parse every port
  string, check its own ranges, and gather the ranges by protocol.
\<close>

fun gather_checked ::
  "service \<Rightarrow> ingress_port list \<Rightarrow> protocol_ports \<Rightarrow> error + protocol_ports"
where
  "gather_checked s [] m = Inr m"
| "gather_checked s (p # ps) m =
     (case ParsePortRanges (ip_Port p) of
        Inl e \<Rightarrow> Inl (Wrap (''invalid port in service '' @ Key s) e)
      | Inr rs \<Rightarrow>
          (case CheckPortRangeOverlapsOptimized rs (ip_Protocol p) of
             Some e \<Rightarrow> Inl (Errorf (''port conflict detected within port specification: '' @
                        ip_Protocol p @ '' port '' @ ip_Port p @ '' - '' @ error_text e))
           | None \<Rightarrow> gather_checked s ps (append_ports (ip_Protocol p) rs m)))"

definition mapping_overlap_error :: "service \<Rightarrow> nref \<Rightarrow> string \<Rightarrow> port_range \<Rightarrow> port_range \<Rightarrow> error"
where
  "mapping_overlap_error s other proto a b =
     Errorf (proto @ '' port range '' @ range_text a @ '' in service '' @ Key s @
       '' overlaps with existing port range '' @ range_text b @ '' in service '' @
       ServiceRefKey other)"

definition check_protocol ::
  "service \<Rightarrow> nref \<Rightarrow> service_ports \<Rightarrow> transport_protocol \<times> port_range list \<Rightarrow> error option"
where
  "check_protocol s other ports =
     (\<lambda>(proto, serviceRanges).
        let existingRanges = ports_of (sp_Ports ports) proto
        in if length existingRanges = 0 then None
           else (case CheckPortRangeOverlapsOptimized (serviceRanges @ existingRanges) proto of
                   None \<Rightarrow> None
                 | Some _ \<Rightarrow>
                     (case find_overlap (mapping_overlap_error s other proto)
                             serviceRanges existingRanges of
                        Some e \<Rightarrow> Some e
                      | None \<Rightarrow> Some (Errorf (proto @ '' port conflict between service '' @
                          Key s @ '' and existing service '' @ ServiceRefKey other)))))"

definition check_against_service ::
  "service \<Rightarrow> protocol_ports \<Rightarrow> nref \<times> service_ports \<Rightarrow> error option"
where
  "check_against_service s servicePorts =
     (\<lambda>(other, ports).
        if ServiceRefKey other = Key s then None
        else first_error (check_protocol s other ports) servicePorts)"

definition CheckPortOverlaps :: "service \<Rightarrow> address_group_port_mapping \<Rightarrow> error option" where
  "CheckPortOverlaps s m =
     (case gather_checked s (svc_IngressPorts s) [] of
        Inl e \<Rightarrow> Some e
      | Inr servicePorts \<Rightarrow>
          and_then
            (first_error
               (\<lambda>(proto, ranges).
                  case CheckPortRangeOverlapsOptimized ranges proto of
                    None \<Rightarrow> None
                  | Some e \<Rightarrow> Some (Errorf (''port conflict detected within service '' @ Key s @
                      '': '' @ error_text e)))
               servicePorts)
            (first_error (check_against_service s servicePorts) (access_ports m)))"

section \<open>The service validator\<close>

definition ServiceValidator_ValidateExists ::
  "reader_ops \<Rightarrow> resource_identifier \<Rightarrow> error option"
where
  "ServiceValidator_ValidateExists rd i = ValidateExists (NewServiceValidator rd) i Key"

definition AddressGroupValidator_ValidateExists ::
  "reader_ops \<Rightarrow> resource_identifier \<Rightarrow> error option"
where
  "AddressGroupValidator_ValidateExists rd i = ValidateExists (NewAddressGroupValidator rd) i Key"

definition ServiceValidator_ValidateReferences :: "reader_ops \<Rightarrow> service \<Rightarrow> error option" where
  "ServiceValidator_ValidateReferences rd s =
     first_error
       (\<lambda>ag. wrap_err (''invalid address group reference in service '' @ Key s)
          (AddressGroupValidator_ValidateExists rd
             (ResourceIdentifier (ref_Name ag) (ref_Namespace ag))))
       (svc_AddressGroups s)"

fun no_duplicate_groups :: "nref list \<Rightarrow> string list \<Rightarrow> error option" where
  "no_duplicate_groups [] seen = None"
| "no_duplicate_groups (ag # ags) seen =
     (let k = ref_Namespace ag @ ''/'' @ ref_Name ag
      in if k \<in> set seen
         then Some (Errorf (''duplicate AddressGroup in spec.addressGroups: '' @ k))
         else no_duplicate_groups ags (k # seen))"

definition ValidateNoDuplicateAddressGroups :: "nref list \<Rightarrow> error option" where
  "ValidateNoDuplicateAddressGroups ags = no_duplicate_groups ags []"

text \<open>Overlaps of a port string with itself: the double loop over distinct positions.\<close>

definition find_self_overlap ::
  "(port_range \<Rightarrow> port_range \<Rightarrow> error) \<Rightarrow> port_range list \<Rightarrow> error option"
where
  "find_self_overlap msg rs =
     first_error (\<lambda>(i, a). first_error
       (\<lambda>(j, b). if i \<noteq> j \<and> DoPortRangesOverlap a b then Some (msg a b) else None)
       (enumerate 0 rs)) (enumerate 0 rs)"

fun no_duplicate_ports ::
  "ingress_port list \<Rightarrow> port_range list \<Rightarrow> port_range list \<Rightarrow> error option"
where
  "no_duplicate_ports [] tcpRanges udpRanges = None"
| "no_duplicate_ports (p # ps) tcpRanges udpRanges =
     (case ParsePortRanges (ip_Port p) of
        Inl e \<Rightarrow> Some (Wrap (''invalid port '' @ ip_Port p) e)
      | Inr portRanges \<Rightarrow>
          let existingRanges =
                (if ip_Protocol p = TCP then tcpRanges
                 else if ip_Protocol p = UDP then udpRanges else [])
          in and_then
               (find_self_overlap
                  (\<lambda>a b. Errorf (''port conflict detected within port specification: '' @
                     ip_Protocol p @ '' port '' @ ip_Port p @ '' has overlapping ranges '' @
                     range_text a @ '' and '' @ range_text b)) portRanges)
            (and_then
               (find_overlap
                  (\<lambda>a b. Errorf (''port conflict detected: '' @ ip_Protocol p @ '' port range '' @
                     range_text a @ '' overlaps with existing port range '' @ range_text b))
                  portRanges existingRanges)
               (if ip_Protocol p = TCP then no_duplicate_ports ps (tcpRanges @ portRanges) udpRanges
                else if ip_Protocol p = UDP
                then no_duplicate_ports ps tcpRanges (udpRanges @ portRanges)
                else no_duplicate_ports ps tcpRanges udpRanges)))"

definition ValidateNoDuplicatePorts :: "ingress_port list \<Rightarrow> error option" where
  "ValidateNoDuplicatePorts ps = no_duplicate_ports ps [] []"

text \<open>The method \<^verbatim>\<open>CheckPortOverlaps\<close> looks at the first range of each port only.\<close>

fun gather_first ::
  "service \<Rightarrow> ingress_port list \<Rightarrow> protocol_ports \<Rightarrow> error + protocol_ports"
where
  "gather_first s [] m = Inr m"
| "gather_first s (p # ps) m =
     (case ParsePortRange (ip_Port p) of
        Inl e \<Rightarrow> Inl (Wrap (''invalid port in service '' @ Key s) e)
      | Inr r \<Rightarrow> gather_first s ps (append_ports (ip_Protocol p) [r] m))"

definition group_overlaps :: "service \<Rightarrow> (nref \<times> service_ports) list \<Rightarrow> error option" where
  "group_overlaps s accessPorts =
     (case gather_first s (svc_IngressPorts s) [] of
        Inl e \<Rightarrow> Some e
      | Inr servicePorts \<Rightarrow>
          first_error
            (\<lambda>(other, ports).
               if ServiceRefKey other = Key s then None
               else and_then
                 (find_overlap (mapping_overlap_error s other ''TCP'')
                    (ports_of servicePorts TCP) (ports_of (sp_Ports ports) TCP))
                 (find_overlap (mapping_overlap_error s other ''UDP'')
                    (ports_of servicePorts UDP) (ports_of (sp_Ports ports) UDP)))
            accessPorts)"

definition ServiceValidator_CheckPortOverlaps :: "reader_ops \<Rightarrow> service \<Rightarrow> error option" where
  "ServiceValidator_CheckPortOverlaps rd s =
     first_error
       (\<lambda>ag. case GetAddressGroupPortMappingByID rd
                    (ResourceIdentifier (ref_Name ag) (ref_Namespace ag)) of
               Inl _ \<Rightarrow> None
             | Inr m \<Rightarrow>
                 (case agpm_AccessPorts m of
                    None \<Rightarrow> None
                  | Some accessPorts \<Rightarrow> group_overlaps s accessPorts))
       (svc_AddressGroups s)"

definition ServiceValidator_ValidateWithoutDuplicateCheck ::
  "reader_ops \<Rightarrow> service \<Rightarrow> error option"
where
  "ServiceValidator_ValidateWithoutDuplicateCheck rd s =
     and_then (ServiceValidator_ValidateReferences rd s)
    (and_then (ValidateNoDuplicatePorts (svc_IngressPorts s))
              (ServiceValidator_CheckPortOverlaps rd s))"

definition ServiceValidator_ValidateForPostCommit :: "reader_ops \<Rightarrow> service \<Rightarrow> error option" where
  "ServiceValidator_ValidateForPostCommit rd s = ServiceValidator_ValidateWithoutDuplicateCheck rd s"

definition ServiceValidator_ValidateForCreation :: "reader_ops \<Rightarrow> service \<Rightarrow> error option" where
  "ServiceValidator_ValidateForCreation rd s =
     and_then (ValidateEntityDoesNotExistForCreation (NewServiceValidator rd) (self_id s) Key)
    (and_then (ValidateNoDuplicateAddressGroups (svc_AddressGroups s))
    (and_then (ServiceValidator_ValidateReferences rd s)
    (and_then (ValidateNoDuplicatePorts (svc_IngressPorts s))
              (ServiceValidator_CheckPortOverlaps rd s))))"

definition CheckBindingsPortOverlaps :: "reader_ops \<Rightarrow> service \<Rightarrow> error option" where
  "CheckBindingsPortOverlaps rd s =
     (let (err, agIDs) =
        consume_listing
          (\<lambda>b ids. (None, if agb_ServiceRefKey b = Key s
                          then ids @ [ref_id (agb_AddressGroupRef b)] else ids))
          (ListAddressGroupBindings rd None) []
      in case err of
           Some e \<Rightarrow> Some (Wrap ''failed to list address group bindings'' e)
         | None \<Rightarrow>
             first_error
               (\<lambda>agID. case GetAddressGroupPortMappingByID rd agID of
                         Inl _ \<Rightarrow> None
                       | Inr m \<Rightarrow> CheckPortOverlaps s m)
               agIDs)"

text \<open>
  \<^verbatim>\<open>reflect.DeepEqual\<close> also distinguishes a nil from an empty slice; the checks it
  then adds accept a service without ports and a service without groups.
\<close>

definition ServiceValidator_ValidateForUpdate ::
  "reader_ops \<Rightarrow> service \<Rightarrow> service \<Rightarrow> error option"
where
  "ServiceValidator_ValidateForUpdate rd oldService newService =
     (let portsChanged = svc_IngressPorts oldService \<noteq> svc_IngressPorts newService;
          addressGroupsChanged = svc_AddressGroups oldService \<noteq> svc_AddressGroups newService
      in and_then (ValidateNoDuplicateAddressGroups (svc_AddressGroups newService))
        (and_then (ServiceValidator_ValidateReferences rd newService)
        (and_then (ValidateNoDuplicatePorts (svc_IngressPorts newService))
          (if portsChanged \<or> addressGroupsChanged then
             and_then (ServiceValidator_CheckPortOverlaps rd newService)
               (if portsChanged then CheckBindingsPortOverlaps rd newService else None)
           else None))))"

definition ServiceValidator_CheckDependencies ::
  "reader_ops \<Rightarrow> resource_identifier \<Rightarrow> error option"
where
  "ServiceValidator_CheckDependencies rd i =
     (let (err, hasAliases) =
        consume_listing (\<lambda>a b. (None, if sa_ServiceRefKey a = rid_Key i then True else b))
          (ListServiceAliases rd None) False
      in case err of
           Some e \<Rightarrow> Some (Wrap ''failed to check service aliases'' e)
         | None \<Rightarrow>
             if hasAliases then Some (DependencyExistsError ''service'' (rid_Key i) ''service_alias'')
             else (case GetServiceByID rd i of
                     Inl e \<Rightarrow> if is_not_found e then None
                               else Some (Wrap ''failed to get service for dependency check'' e)
                   | Inr s \<Rightarrow>
                       if length (svc_AggregatedAddressGroups s) > 0
                       then Some (DependencyExistsError ''service'' (rid_Key i) ''address_groups'')
                       else None))"

section \<open>The port mapping validator\<close>

definition PortMappingValidator_ValidateReferences ::
  "reader_ops \<Rightarrow> address_group_port_mapping \<Rightarrow> error option"
where
  "PortMappingValidator_ValidateReferences rd m =
     first_error
       (\<lambda>(ref, _). wrap_err (''invalid service reference in address group port mapping '' @ Key m)
          (ServiceValidator_ValidateExists rd
             (ResourceIdentifier (ref_Name ref) (ref_Namespace ref))))
       (access_ports m)"

text \<open>
  One protocol of one service in \<^verbatim>\<open>CheckInternalPortOverlaps\<close>: each range is checked
  against what the other services have recorded, then recorded itself.
\<close>

definition internal_overlap_error :: "string \<Rightarrow> string \<Rightarrow> string \<Rightarrow> port_range \<Rightarrow> port_range \<Rightarrow> error"
where
  "internal_overlap_error proto me other a b =
     Errorf (proto @ '' port range '' @ range_text a @ '' for service '' @ me @
       '' overlaps with existing port range '' @ range_text b @ '' for service '' @ other)"

fun record_ranges ::
  "string \<Rightarrow> string \<Rightarrow> port_range list \<Rightarrow> protocol_ports \<Rightarrow> error + protocol_ports"
where
  "record_ranges proto me [] recorded = Inr recorded"
| "record_ranges proto me (r # rs) recorded =
     (case first_error
             (\<lambda>(other, ranges).
                if other = me then None
                else find_overlap (internal_overlap_error proto me other) [r] ranges)
             recorded of
        Some e \<Rightarrow> Inl e
      | None \<Rightarrow> record_ranges proto me rs (append_ports me [r] recorded))"

fun internal_overlaps ::
  "(nref \<times> service_ports) list \<Rightarrow> protocol_ports \<Rightarrow> protocol_ports \<Rightarrow> error option"
where
  "internal_overlaps [] tcpRanges udpRanges = None"
| "internal_overlaps ((ref, ports) # entries) tcpRanges udpRanges =
     (case record_ranges ''TCP'' (ServiceRefKey ref) (ports_of (sp_Ports ports) TCP) tcpRanges of
        Inl e \<Rightarrow> Some e
      | Inr tcp' \<Rightarrow>
          (case record_ranges ''UDP'' (ServiceRefKey ref) (ports_of (sp_Ports ports) UDP) udpRanges of
             Inl e \<Rightarrow> Some e
           | Inr udp' \<Rightarrow> internal_overlaps entries tcp' udp'))"

definition CheckInternalPortOverlaps :: "address_group_port_mapping \<Rightarrow> error option" where
  "CheckInternalPortOverlaps m = internal_overlaps (access_ports m) [] []"

definition PortMappingValidator_ValidateForCreation ::
  "reader_ops \<Rightarrow> address_group_port_mapping \<Rightarrow> error option"
where
  "PortMappingValidator_ValidateForCreation rd m =
     and_then (ValidateEntityDoesNotExistForCreation
                 (NewAddressGroupPortMappingValidator rd) (self_id m) Key)
    (and_then (PortMappingValidator_ValidateReferences rd m) (CheckInternalPortOverlaps m))"

definition PortMappingValidator_ValidateForPostCommit ::
  "reader_ops \<Rightarrow> address_group_port_mapping \<Rightarrow> error option"
where
  "PortMappingValidator_ValidateForPostCommit rd m =
     and_then (PortMappingValidator_ValidateReferences rd m) (CheckInternalPortOverlaps m)"

definition PortMappingValidator_ValidateForUpdate ::
  "reader_ops \<Rightarrow> address_group_port_mapping \<Rightarrow> address_group_port_mapping \<Rightarrow> error option"
where
  "PortMappingValidator_ValidateForUpdate rd oldMapping newMapping =
     and_then (PortMappingValidator_ValidateReferences rd newMapping)
       (CheckInternalPortOverlaps newMapping)"

end
