(* ===== verification/BindingValidation.thy ===== *)
theory BindingValidation
  imports ServiceValidation
begin

text \<open>
  Validation of address group bindings and of the policies that allow them across
  namespaces: \<^verbatim>\<open>address_group_binding_validator.go\<close> and
  \<^verbatim>\<open>address_group_binding_policy_validator.go\<close>
  (\<^verbatim>\<open>internal/application/validation\<close>). Pointers returned without an error are not nil.
\<close>

section \<open>Address group bindings\<close>

definition AddressGroupBindingValidator_ValidateExists ::
  "reader_ops \<Rightarrow> resource_identifier \<Rightarrow> error option"
where
  "AddressGroupBindingValidator_ValidateExists rd i =
     ValidateExists (NewAddressGroupBindingValidator rd) i Key"

definition AddressGroupBindingValidator_ValidateReferences ::
  "reader_ops \<Rightarrow> address_group_binding \<Rightarrow> error option"
where
  "AddressGroupBindingValidator_ValidateReferences rd b =
     and_then
       (wrap_err (''invalid service reference in address group binding '' @ Key b)
          (ServiceValidator_ValidateExists rd (ref_id (agb_ServiceRef b))))
       (wrap_err (''invalid address group reference in address group binding '' @ Key b)
          (AddressGroupValidator_ValidateExists rd (ref_id (agb_AddressGroupRef b))))"

text \<open>Returning an error from the callback ends the listing early.\<close>

definition same_binding_refs :: "address_group_binding \<Rightarrow> address_group_binding \<Rightarrow> bool" where
  "same_binding_refs a b \<longleftrightarrow> agb_ServiceRefKey a = agb_ServiceRefKey b \<and>
     agb_AddressGroupRefKey a = agb_AddressGroupRefKey b"

definition ValidateNoDuplicateBindings ::
  "reader_ops \<Rightarrow> address_group_binding \<Rightarrow> error option"
where
  "ValidateNoDuplicateBindings rd b =
     (let (err, duplicateFound) =
        consume_listing
          (\<lambda>x d. if Key x = Key b then (None, d)
                 else if same_binding_refs x b then (Some (Errorf ''duplicate found''), True)
                 else (None, d))
          (ListAddressGroupBindings rd None) False
      in case err of
           Some e \<Rightarrow>
             if error_text e \<noteq> ''duplicate found''
             then Some (Wrap ''failed to check for duplicate bindings'' e)
             else if duplicateFound
             then Some (Errorf (''duplicate binding found: a binding between service '' @
                    quoted (agb_ServiceRefKey b) @ '' and address group '' @
                    quoted (agb_AddressGroupRefKey b) @ '' already exists''))
             else None
         | None \<Rightarrow>
             if duplicateFound
             then Some (Errorf (''duplicate binding found: a binding between service '' @
                    quoted (agb_ServiceRefKey b) @ '' and address group '' @
                    quoted (agb_AddressGroupRefKey b) @ '' already exists''))
             else None)"

text \<open>
  The search for a policy that allows the binding, in the namespace of the address group;
  three methods contain it.
\<close>

definition policy_allows :: "address_group_binding \<Rightarrow> address_group_binding_policy \<Rightarrow> bool" where
  "policy_allows b p \<longleftrightarrow> agbp_AddressGroupRefKey p = agb_AddressGroupRefKey b \<and>
     agbp_ServiceRefKey p = agb_ServiceRefKey b"

definition find_policy ::
  "reader_ops \<Rightarrow> string \<Rightarrow> address_group_binding \<Rightarrow> error option \<times> bool"
where
  "find_policy rd ns b =
     consume_listing
       (\<lambda>p found. if policy_allows b p then (Some (Errorf ''policy found''), True)
                  else (None, found))
       (ListAddressGroupBindingPolicies rd
          (Some (ResourceIdentifierScope [ResourceIdentifier [] ns]))) False"

definition no_policy_error :: "address_group \<Rightarrow> address_group_binding \<Rightarrow> error" where
  "no_policy_error ag b =
     Errorf (''cross-namespace binding not allowed: no AddressGroupBindingPolicy found in namespace ''
       @ Namespace ag @ '' that references both AddressGroup '' @ ref_Name (agb_AddressGroupRef b)
       @ '' and Service '' @ ref_Name (agb_ServiceRef b))"

definition check_policy ::
  "(error \<Rightarrow> error) \<Rightarrow> error \<Rightarrow> reader_ops \<Rightarrow> string \<Rightarrow> address_group_binding \<Rightarrow> error option"
where
  "check_policy on_error missing rd ns b =
     (let (err, policyFound) = find_policy rd ns b
      in case err of
           Some e \<Rightarrow> if error_text e \<noteq> ''policy found'' then Some (on_error e)
                      else if \<not> policyFound then Some missing else None
         | None \<Rightarrow> if \<not> policyFound then Some missing else None)"

definition AddressGroupBindingValidator_ValidateForCreation ::
  "reader_ops \<Rightarrow> address_group_binding \<Rightarrow> error option"
where
  "AddressGroupBindingValidator_ValidateForCreation rd b =
     and_then (ValidateEntityDoesNotExistForCreation
                 (NewAddressGroupBindingValidator rd) (self_id b) Key)
    (if ref_Name (agb_ServiceRef b) = []
     then Some (Errorf (''serviceRef.name is required in binding '' @ Key b))
     else if ref_Name (agb_AddressGroupRef b) = []
     then Some (Errorf (''addressGroupRef.name is required in binding '' @ Key b))
     else if Namespace b = []
     then Some (Errorf (''namespace is required in binding '' @ Key b))
     else
       and_then (ValidateNoDuplicateBindings rd b)
      (and_then (AddressGroupBindingValidator_ValidateReferences rd b)
         (case GetServiceByID rd (ref_id (agb_ServiceRef b)) of
            Inl e \<Rightarrow> Some (Errorf (''failed to get service for port conflict validation: '' @
                      error_text e))
          | Inr svc \<Rightarrow>
         (case GetAddressGroupByID rd (ref_id (agb_AddressGroupRef b)) of
            Inl e \<Rightarrow> Some (Errorf (''failed to get address group for namespace validation: '' @
                      error_text e))
          | Inr ag \<Rightarrow>
              and_then
                (if Namespace ag \<noteq> Namespace b
                 then check_policy
                        (\<lambda>e. Errorf (''failed to check for binding policies: '' @ error_text e))
                        (no_policy_error ag b) rd (Namespace ag) b
                 else None)
                (case GetAddressGroupPortMappingByID rd (ref_id (agb_AddressGroupRef b)) of
                   Inl _ \<Rightarrow> None
                 | Inr m \<Rightarrow>
                     (case CheckPortOverlaps svc m of
                        None \<Rightarrow> None
                      | Some e \<Rightarrow> Some (Errorf (''port conflict detected: '' @ error_text e))))))))"

definition AddressGroupBindingValidator_ValidateForPostCommit ::
  "reader_ops \<Rightarrow> address_group_binding \<Rightarrow> error option"
where
  "AddressGroupBindingValidator_ValidateForPostCommit rd b =
     and_then (AddressGroupBindingValidator_ValidateReferences rd b)
       (case GetAddressGroupByID rd (ResourceIdentifier (ref_Name (agb_AddressGroupRef b))
               (ref_Namespace (agb_AddressGroupRef b))) of
          Inl e \<Rightarrow> Some (Wrap ''failed to get address group for cross-namespace validation'' e)
        | Inr ag \<Rightarrow>
            and_then
              (if Namespace ag \<noteq> ref_Namespace (agb_ServiceRef b)
               then check_policy
                      (\<lambda>e. Errorf (''failed to check for binding policies: '' @ error_text e))
                      (Errorf ''cross-namespace binding not allowed: no AddressGroupBindingPolicy found'')
                      rd (Namespace ag) b
               else None)
              (ValidateNoDuplicateBindings rd b))"

definition AddressGroupBindingValidator_ValidateForUpdate ::
  "reader_ops \<Rightarrow> address_group_binding \<Rightarrow> address_group_binding \<Rightarrow> error option"
where
  "AddressGroupBindingValidator_ValidateForUpdate rd old new =
     and_then
       (ValidateObjectReferencesNotChangedWhenReady old
          [ \<lparr> cmp_OldRef = agb_ServiceRef old, cmp_NewRef = agb_ServiceRef new,
              cmp_FieldName = ''serviceRef'' \<rparr>,
            \<lparr> cmp_OldRef = agb_AddressGroupRef old, cmp_NewRef = agb_AddressGroupRef new,
              cmp_FieldName = ''addressGroupRef'' \<rparr> ])
    (and_then
       (ValidateFieldNotChangedWhenReady ''serviceRef'' old
          (agb_ServiceRefKey old) (agb_ServiceRefKey new))
    (and_then
       (ValidateFieldNotChangedWhenReady ''addressGroupRef'' old
          (agb_AddressGroupRefKey old) (agb_AddressGroupRefKey new))
    (and_then
       (ValidateSpecNotChangedWhenReady old
          (agb_ServiceRef old, agb_AddressGroupRef old)
          (agb_ServiceRef new, agb_AddressGroupRef new))
    (and_then (AddressGroupBindingValidator_ValidateReferences rd new)
       (if agb_ServiceRefKey old \<noteq> agb_ServiceRefKey new
        then Some (Errorf ''cannot change service reference after creation'')
        else if agb_AddressGroupRefKey old \<noteq> agb_AddressGroupRefKey new
        then Some (Errorf ''cannot change address group reference after creation'')
        else
          (case GetAddressGroupByID rd (ref_id (agb_AddressGroupRef new)) of
             Inl e \<Rightarrow> Some (Wrap (''failed to get address group for namespace validation in binding ''
                        @ Key new) e)
           | Inr ag \<Rightarrow>
               and_then
                 (if Namespace ag \<noteq> Namespace new
                  then check_policy (Wrap ''failed to check for binding policies'')
                         (no_policy_error ag new) rd (Namespace ag) new
                  else None)
                 (case GetServiceByID rd
                         (NewResourceIdentifier (ref_Name (agb_ServiceRef new))
                            [WithNamespace (Namespace new)]) of
                    Inl e \<Rightarrow> Some (Wrap (''failed to get service for port mapping in binding '' @ Key new) e)
                  | Inr svc \<Rightarrow>
                      (case GetAddressGroupPortMappingByID rd (ref_id (agb_AddressGroupRef new)) of
                         Inl _ \<Rightarrow> None
                       | Inr m \<Rightarrow> CheckPortOverlaps svc (UpdatePortMapping m svc)))))))))"

text \<open>Nothing depends on a binding.\<close>

definition AddressGroupBindingValidator_CheckDependencies ::
  "reader_ops \<Rightarrow> resource_identifier \<Rightarrow> error option"
where
  "AddressGroupBindingValidator_CheckDependencies rd i = None"

section \<open>Address group binding policies\<close>

definition PolicyValidator_ValidateReferences ::
  "reader_ops \<Rightarrow> address_group_binding_policy \<Rightarrow> error option"
where
  "PolicyValidator_ValidateReferences rd p =
     and_then
       (wrap_err (''invalid service reference in policy '' @ Key p)
          (ServiceValidator_ValidateExists rd (ref_id (agbp_ServiceRef p))))
    (and_then
       (wrap_err (''invalid address group reference in policy '' @ Key p)
          (AddressGroupValidator_ValidateExists rd (ref_id (agbp_AddressGroupRef p))))
       (if Namespace p \<noteq> ref_Namespace (agbp_AddressGroupRef p)
        then Some (Errorf (''policy namespace '' @ quoted (Namespace p) @
               '' must match address group namespace '' @
               quoted (ref_Namespace (agbp_AddressGroupRef p))))
        else None))"

definition same_policy_refs ::
  "address_group_binding_policy \<Rightarrow> address_group_binding_policy \<Rightarrow> bool"
where
  "same_policy_refs a b \<longleftrightarrow>
     ref_Namespace (agbp_ServiceRef a) = ref_Namespace (agbp_ServiceRef b) \<and>
     ref_Name (agbp_ServiceRef a) = ref_Name (agbp_ServiceRef b) \<and>
     ref_Namespace (agbp_AddressGroupRef a) = ref_Namespace (agbp_AddressGroupRef b) \<and>
     ref_Name (agbp_AddressGroupRef a) = ref_Name (agbp_AddressGroupRef b)"

text \<open>The duplicate search that creation and post-commit validation share.\<close>

definition no_duplicate_policy :: "reader_ops \<Rightarrow> address_group_binding_policy \<Rightarrow> error option" where
  "no_duplicate_policy rd p =
     (let (err, duplicateFound) =
        consume_listing
          (\<lambda>x d. if Name x = Name p \<and> Namespace x = Namespace p then (None, d)
                 else if same_policy_refs x p
                 then (Some (Errorf ''duplicate policy found''), True) else (None, d))
          (ListAddressGroupBindingPolicies rd None) False
      in case (err, duplicateFound) of
           (Some e, False) \<Rightarrow> Some (Wrap ''failed to check for duplicate policies'' e)
         | (_, True) \<Rightarrow> Some (Errorf (''duplicate policy found: a policy with the same service '' @
                          ''and address group already exists''))
         | (None, False) \<Rightarrow> None)"

definition PolicyValidator_ValidateForCreation ::
  "reader_ops \<Rightarrow> address_group_binding_policy \<Rightarrow> error option"
where
  "PolicyValidator_ValidateForCreation rd p =
     and_then (ValidateEntityDoesNotExistForCreation
                 (NewAddressGroupBindingPolicyValidator rd) (self_id p) Key)
    (and_then (PolicyValidator_ValidateReferences rd p) (no_duplicate_policy rd p))"

definition PolicyValidator_ValidateForPostCommit ::
  "reader_ops \<Rightarrow> address_group_binding_policy \<Rightarrow> error option"
where
  "PolicyValidator_ValidateForPostCommit rd p =
     and_then (PolicyValidator_ValidateReferences rd p) (no_duplicate_policy rd p)"

definition PolicyValidator_ValidateForUpdate ::
  "reader_ops \<Rightarrow> address_group_binding_policy \<Rightarrow> address_group_binding_policy \<Rightarrow> error option"
where
  "PolicyValidator_ValidateForUpdate rd old new =
     and_then (PolicyValidator_ValidateReferences rd new)
       (if ref_Namespace (agbp_ServiceRef old) \<noteq> ref_Namespace (agbp_ServiceRef new) \<or>
           ref_Name (agbp_ServiceRef old) \<noteq> ref_Name (agbp_ServiceRef new)
        then Some (Errorf ''cannot change service reference after creation'')
        else if ref_Namespace (agbp_AddressGroupRef old) \<noteq> ref_Namespace (agbp_AddressGroupRef new) \<or>
           ref_Name (agbp_AddressGroupRef old) \<noteq> ref_Name (agbp_AddressGroupRef new)
        then Some (Errorf ''cannot change address group reference after creation'')
        else None)"

definition PolicyValidator_CheckDependencies ::
  "reader_ops \<Rightarrow> resource_identifier \<Rightarrow> error option"
where
  "PolicyValidator_CheckDependencies rd i =
     (case GetAddressGroupBindingPolicyByID rd i of
        Inl e \<Rightarrow> Some (Wrap ''failed to get policy'' e)
      | Inr p \<Rightarrow>
          (let (err, hasBindings) =
             consume_listing
               (\<lambda>b h. if policy_allows b p then (Some (Errorf ''binding found''), True)
                      else (None, h))
               (ListAddressGroupBindings rd None) False
           in case (err, hasBindings) of
                (Some e, False) \<Rightarrow> Some (Wrap ''failed to check address group bindings'' e)
              | (_, True) \<Rightarrow> Some (DependencyExistsError ''address_group_binding_policy''
                               (rid_Key i) ''address_group_binding'')
              | (None, False) \<Rightarrow> None))"

section \<open>What the duplicate and policy searches decide\<close>

lemma NoDuplicateBindings_None_iff:
  assumes "snd (ListAddressGroupBindings rd None) = None"
  shows "ValidateNoDuplicateBindings rd b = None \<longleftrightarrow>
    (\<forall>x\<in>set (fst (ListAddressGroupBindings rd None)). same_binding_refs x b \<longrightarrow> Key x = Key b)"
  using assms
  by (auto simp: ValidateNoDuplicateBindings_def Let_def)

lemma check_policy_None_iff:
  assumes "snd (ListAddressGroupBindingPolicies rd
      (Some (ResourceIdentifierScope [ResourceIdentifier [] ns]))) = None"
  shows "check_policy f m rd ns b = None \<longleftrightarrow>
    (\<exists>p\<in>set (fst (ListAddressGroupBindingPolicies rd
       (Some (ResourceIdentifierScope [ResourceIdentifier [] ns])))). policy_allows b p)"
  using assms
  by (auto simp: check_policy_def find_policy_def Let_def)

lemma no_duplicate_policy_None_iff:
  assumes "snd (ListAddressGroupBindingPolicies rd None) = None"
  shows "no_duplicate_policy rd p = None \<longleftrightarrow>
    (\<forall>x\<in>set (fst (ListAddressGroupBindingPolicies rd None)).
       same_policy_refs x p \<longrightarrow> self_id x = self_id p)"
  using assms
  by (auto simp: no_duplicate_policy_def Let_def self_id_def)

end
