(* ===== verification/RuleValidation.thy ===== *)
theory RuleValidation
  imports ServiceValidation
begin

text \<open>
  Validation of service aliases, service-to-service rules and the rules between address
  groups generated from them: \<^verbatim>\<open>service_alias_validator.go\<close>,
  \<^verbatim>\<open>rule_s2s_validator.go\<close>, \<^verbatim>\<open>ieagag_rule_validator.go\<close>
  (\<^verbatim>\<open>internal/application/validation\<close>).
\<close>

section \<open>Service aliases\<close>

definition ServiceAliasValidator_ValidateReferences ::
  "reader_ops \<Rightarrow> service_alias \<Rightarrow> error option"
where
  "ServiceAliasValidator_ValidateReferences rd a =
     and_then
       (wrap_err (''invalid service reference in service alias '' @ Key a)
          (ServiceValidator_ValidateExists rd (ref_id (sa_ServiceRef a))))
       (case GetServiceByID rd (ref_id (sa_ServiceRef a)) of
          Inl e \<Rightarrow> Some (Wrap (''failed to get service for namespace validation in service alias ''
                     @ Key a) e)
        | Inr s \<Rightarrow>
            if Namespace a \<noteq> ref_Namespace (sa_ServiceRef a)
            then Some (Errorf (''service alias namespace '' @ quoted (Namespace a) @
                   '' must match service reference namespace '' @
                   quoted (ref_Namespace (sa_ServiceRef a))))
            else if ref_Namespace (sa_ServiceRef a) \<noteq> Namespace s
            then Some (Errorf (''service reference namespace '' @
                   quoted (ref_Namespace (sa_ServiceRef a)) @
                   '' must match actual service namespace '' @ quoted (Namespace s)))
            else None)"

definition ServiceAliasValidator_ValidateForCreation ::
  "reader_ops \<Rightarrow> service_alias \<Rightarrow> error option"
where
  "ServiceAliasValidator_ValidateForCreation rd a =
     and_then (ValidateEntityDoesNotExistForCreation (NewServiceAliasValidator rd) (self_id a) Key)
       (ServiceAliasValidator_ValidateReferences rd a)"

definition ServiceAliasValidator_ValidateForPostCommit ::
  "reader_ops \<Rightarrow> service_alias \<Rightarrow> error option"
where
  "ServiceAliasValidator_ValidateForPostCommit rd a = ServiceAliasValidator_ValidateReferences rd a"

definition ServiceAliasValidator_ValidateForUpdate ::
  "reader_ops \<Rightarrow> service_alias \<Rightarrow> service_alias \<Rightarrow> error option"
where
  "ServiceAliasValidator_ValidateForUpdate rd old new =
     and_then (ValidateSpecNotChangedWhenReady old (sa_ServiceRef old) (sa_ServiceRef new))
    (and_then
       (ValidateObjectReferencesNotChangedWhenReady old
          [ \<lparr> cmp_OldRef = sa_ServiceRef old, cmp_NewRef = sa_ServiceRef new,
              cmp_FieldName = ''serviceRef'' \<rparr> ])
    (and_then
       (ValidateFieldNotChangedWhenReady ''serviceRef'' old
          (sa_ServiceRefKey old) (sa_ServiceRefKey new))
    (and_then (ServiceAliasValidator_ValidateReferences rd new)
       (if sa_ServiceRefKey old \<noteq> sa_ServiceRefKey new
        then Some (Errorf ''cannot change service reference after creation'')
        else None))))"

definition ServiceAliasValidator_CheckDependencies ::
  "reader_ops \<Rightarrow> resource_identifier \<Rightarrow> error option"
where
  "ServiceAliasValidator_CheckDependencies rd i =
     (let (err, hasRules) =
        consume_listing
          (\<lambda>r b. (None, if rs_ServiceLocalRefKey r = rid_Key i \<or> rs_ServiceRefKey r = rid_Key i
                        then True else b))
          (ListRuleS2S rd None) False
      in case err of
           Some e \<Rightarrow> Some (Wrap ''failed to check rules s2s'' e)
         | None \<Rightarrow> if hasRules
                    then Some (DependencyExistsError ''service_alias'' (rid_Key i) ''rule_s2s'')
                    else None)"

section \<open>Service-to-service rules\<close>

definition RuleS2SValidator_ValidateReferences :: "reader_ops \<Rightarrow> rule_s2s \<Rightarrow> error option" where
  "RuleS2SValidator_ValidateReferences rd r =
     and_then
       (wrap_err (''invalid service local reference in rule s2s '' @ Key r)
          (ServiceValidator_ValidateExists rd (ref_id (rs_ServiceLocalRef r))))
       (wrap_err (''invalid service reference in rule s2s '' @ Key r)
          (ServiceValidator_ValidateExists rd (ref_id (rs_ServiceRef r))))"

definition same_rule_spec :: "rule_s2s \<Rightarrow> rule_s2s \<Rightarrow> bool" where
  "same_rule_spec a b \<longleftrightarrow> rs_Traffic a = rs_Traffic b \<and>
     rs_ServiceLocalRefKey a = rs_ServiceLocalRefKey b \<and> rs_ServiceRefKey a = rs_ServiceRefKey b"

text \<open>The state is the flag together with the key of the last duplicate seen.\<close>

definition RuleS2SValidator_ValidateNoDuplicates :: "reader_ops \<Rightarrow> rule_s2s \<Rightarrow> error option" where
  "RuleS2SValidator_ValidateNoDuplicates rd r =
     (let (err, st) =
        consume_listing
          (\<lambda>x st. (None, if Key x = Key r then st
                         else if same_rule_spec x r then (True, Key x) else st))
          (ListRuleS2S rd None) (False, [])
      in case err of
           Some e \<Rightarrow> Some (Wrap ''failed to check for duplicate rules'' e)
         | None \<Rightarrow> if fst st
                    then Some (Errorf (''duplicate RuleS2S detected: a rule with the same '' @
                           ''specification already exists: '' @ snd st))
                    else None)"

definition RuleS2SValidator_ValidateNamespaceRules :: "reader_ops \<Rightarrow> rule_s2s \<Rightarrow> error option" where
  "RuleS2SValidator_ValidateNamespaceRules rd r =
     (if Namespace r \<noteq> [] \<and> ref_Namespace (rs_ServiceLocalRef r) \<noteq> [] \<and>
         Namespace r \<noteq> ref_Namespace (rs_ServiceLocalRef r)
      then Some (Errorf (''serviceLocalRef must be in the same namespace as the rule: '' @
             ''rule namespace='' @ Namespace r @ '', serviceLocalRef namespace='' @
             ref_Namespace (rs_ServiceLocalRef r)))
      else if ref_Namespace (rs_ServiceRef r) = [] \<and> Namespace r \<noteq> []
      then wrap_err (''invalid service reference in rule s2s '' @ Key r @
             '': service must exist in rule'' @ [CHR 0x27] @ ''s namespace'')
             (ServiceValidator_ValidateExists rd
                (ResourceIdentifier (ref_Name (rs_ServiceRef r)) (Namespace r)))
      else None)"

definition RuleS2SValidator_ValidateForCreation :: "reader_ops \<Rightarrow> rule_s2s \<Rightarrow> error option" where
  "RuleS2SValidator_ValidateForCreation rd r =
     and_then (ValidateEntityDoesNotExistForCreation (NewRuleS2SValidator rd) (self_id r) Key)
    (and_then (RuleS2SValidator_ValidateNamespaceRules rd r)
    (and_then (RuleS2SValidator_ValidateReferences rd r)
              (RuleS2SValidator_ValidateNoDuplicates rd r)))"

definition RuleS2SValidator_ValidateForPostCommit :: "reader_ops \<Rightarrow> rule_s2s \<Rightarrow> error option" where
  "RuleS2SValidator_ValidateForPostCommit rd r =
     and_then (RuleS2SValidator_ValidateNamespaceRules rd r)
              (RuleS2SValidator_ValidateNoDuplicates rd r)"

definition RuleS2SValidator_ValidateForUpdate ::
  "reader_ops \<Rightarrow> rule_s2s \<Rightarrow> rule_s2s \<Rightarrow> error option"
where
  "RuleS2SValidator_ValidateForUpdate rd old new =
     and_then
       (ValidateSpecNotChangedWhenReady old
          (rs_Traffic old, rs_ServiceLocalRef old, rs_ServiceRef old)
          (rs_Traffic new, rs_ServiceLocalRef new, rs_ServiceRef new))
    (and_then
       (ValidateObjectReferencesNotChangedWhenReady old
          [ \<lparr> cmp_OldRef = rs_ServiceLocalRef old, cmp_NewRef = rs_ServiceLocalRef new,
              cmp_FieldName = ''serviceLocalRef'' \<rparr>,
            \<lparr> cmp_OldRef = rs_ServiceRef old, cmp_NewRef = rs_ServiceRef new,
              cmp_FieldName = ''serviceRef'' \<rparr> ])
    (and_then (RuleS2SValidator_ValidateNamespaceRules rd new)
    (and_then (RuleS2SValidator_ValidateReferences rd new)
       (if rs_Traffic old \<noteq> rs_Traffic new
        then Some (Errorf ''cannot change traffic direction after creation'')
        else if rs_ServiceLocalRefKey old \<noteq> rs_ServiceLocalRefKey new
        then Some (Errorf ''cannot change local service reference after creation'')
        else if rs_ServiceRefKey old \<noteq> rs_ServiceRefKey new
        then Some (Errorf ''cannot change target service reference after creation'')
        else if rs_Traffic old \<noteq> rs_Traffic new \<or>
          rs_ServiceLocalRefKey old \<noteq> rs_ServiceLocalRefKey new \<or>
          rs_ServiceRefKey old \<noteq> rs_ServiceRefKey new
        then RuleS2SValidator_ValidateNoDuplicates rd new
        else None))))"

definition RuleS2SValidator_CheckDependencies ::
  "reader_ops \<Rightarrow> resource_identifier \<Rightarrow> error option"
where
  "RuleS2SValidator_CheckDependencies rd i =
     (let (err, hasIEAgAgRules) =
        consume_listing (\<lambda>x b. (None, True)) (ListIEAgAgRules rd None) False
      in wrap_err ''failed to check IEAgAg rules'' err)"

section \<open>Rules between address groups\<close>

definition IEAgAgRuleValidator_ValidateReferences ::
  "reader_ops \<Rightarrow> ieagag_rule \<Rightarrow> error option"
where
  "IEAgAgRuleValidator_ValidateReferences rd r =
     and_then
       (wrap_err (''invalid local address group reference in rule '' @ Key r)
          (AddressGroupValidator_ValidateExists rd (ref_id (ie_AddressGroupLocal r))))
       (wrap_err (''invalid address group reference in rule '' @ Key r)
          (AddressGroupValidator_ValidateExists rd (ref_id (ie_AddressGroup r))))"

definition ValidatePortSpec :: "port_spec \<Rightarrow> error option" where
  "ValidatePortSpec p =
     and_then (wrap_err ''invalid destination port'' (validatePort (ps_Destination p)))
       (if ps_Source p \<noteq> [] then wrap_err ''invalid source port'' (validatePort (ps_Source p))
        else None)"

definition validate_port_specs :: "ieagag_rule \<Rightarrow> error option" where
  "validate_port_specs r =
     first_error
       (\<lambda>p. wrap_err (''invalid port specification in rule '' @ Key r) (ValidatePortSpec p))
       (ie_Ports r)"

definition IEAgAgRuleValidator_ValidateForCreation ::
  "reader_ops \<Rightarrow> ieagag_rule \<Rightarrow> error option"
where
  "IEAgAgRuleValidator_ValidateForCreation rd r =
     and_then (ValidateEntityDoesNotExistForCreation (NewIEAgAgRuleValidator rd) (self_id r) Key)
    (and_then (IEAgAgRuleValidator_ValidateReferences rd r) (validate_port_specs r))"

definition IEAgAgRuleValidator_ValidateForPostCommit ::
  "reader_ops \<Rightarrow> ieagag_rule \<Rightarrow> error option"
where
  "IEAgAgRuleValidator_ValidateForPostCommit rd r =
     and_then (IEAgAgRuleValidator_ValidateReferences rd r) (validate_port_specs r)"

definition isRuleReady :: "ieagag_rule \<Rightarrow> bool" where
  "isRuleReady r \<longleftrightarrow>
     list_ex (\<lambda>c. cond_Type c = ''Ready'' \<and> cond_Status c = ''True'') (Conditions (Meta r))"

definition IEAgAgRuleValidator_ValidateForUpdate ::
  "reader_ops \<Rightarrow> ieagag_rule \<Rightarrow> ieagag_rule \<Rightarrow> error option"
where
  "IEAgAgRuleValidator_ValidateForUpdate rd old new =
     and_then
       (if isRuleReady old then
          (if ie_Transport old \<noteq> ie_Transport new
           then Some (Errorf ''Transport field is immutable when rule is in Ready state'')
           else if ie_Traffic old \<noteq> ie_Traffic new
           then Some (Errorf ''Traffic field is immutable when rule is in Ready state'')
           else if ie_AddressGroupLocalKey old \<noteq> ie_AddressGroupLocalKey new
           then Some (Errorf ''AddressGroupLocal field is immutable when rule is in Ready state'')
           else if ie_AddressGroupKey old \<noteq> ie_AddressGroupKey new
           then Some (Errorf ''AddressGroup field is immutable when rule is in Ready state'')
           else if ie_Action old \<noteq> ie_Action new
           then Some (Errorf ''Action field is immutable when rule is in Ready state'')
           else None)
        else None)
    (and_then (IEAgAgRuleValidator_ValidateReferences rd new) (validate_port_specs new))"

section \<open>What the checks decide\<close>

lemma fold_duplicates:
  "fst (fold (\<lambda>x st. if S x then st else if P x then (True, f x) else st) xs st) \<longleftrightarrow>
     fst st \<or> (\<exists>x\<in>set xs. \<not> S x \<and> P x)"
  by (induction xs arbitrary: st) auto

lemma NoDuplicates_None_iff:
  assumes "snd (ListRuleS2S rd None) = None"
  shows "RuleS2SValidator_ValidateNoDuplicates rd r = None \<longleftrightarrow>
    (\<forall>x\<in>set (fst (ListRuleS2S rd None)). same_rule_spec x r \<longrightarrow> Key x = Key r)"
  using assms by (auto simp: RuleS2SValidator_ValidateNoDuplicates_def Let_def fold_duplicates)

text \<open>With one condition per type, the Ready test of the rule validator is the usual one.\<close>

lemma isRuleReady_iff:
  assumes "conditions_ok (Meta r)"
  shows "isRuleReady r \<longleftrightarrow> IsReady (Meta r)"
proof -
  have "list_ex (\<lambda>c. cond_Type c = ty \<and> cond_Status c = st) cs \<longleftrightarrow>
      (case find (\<lambda>c. cond_Type c = ty) cs of None \<Rightarrow> False | Some c \<Rightarrow> cond_Status c = st)"
    if "distinct (map cond_Type cs)" for ty st cs
    using that by (induction cs) (auto simp: list_ex_iff image_iff)
  with assms show ?thesis
    by (simp add: isRuleReady_def IsReady_def IsConditionTrue_def GetCondition_def
        ConditionReady_def conditions_ok_def)
qed

end
