(* ===== verification/Cidr.thy ===== *)
theory Cidr
  imports Prelude
begin

text \<open>
  Which strings Go's \<^verbatim>\<open>net.ParseCIDR\<close> accepts, with the error it returns otherwise.
  The validators and the network model use the function for its error only.
\<close>

definition octet_ok :: "string \<Rightarrow> bool" where
  "octet_ok w \<longleftrightarrow> w \<noteq> [] \<and> (length w = 1 \<or> hd w \<noteq> CHR ''0'') \<and>
     (case digits_val 0 w of None \<Rightarrow> False | Some n \<Rightarrow> n \<le> 255)"

definition ipv4_ok :: "string \<Rightarrow> bool" where
  "ipv4_ok s \<longleftrightarrow> length (split_on CHR ''.'' s) = 4 \<and> list_all octet_ok (split_on CHR ''.'' s)"

definition is_hex :: "char \<Rightarrow> bool" where
  "is_hex c \<longleftrightarrow> (let n = of_char c :: nat
     in (48 \<le> n \<and> n \<le> 57) \<or> (65 \<le> n \<and> n \<le> 70) \<or> (97 \<le> n \<and> n \<le> 102))"

text \<open>
  The loop over 16-bit groups: \<open>i\<close> counts the bytes filled, \<open>ell\<close> tells whether
  \<^verbatim>\<open>::\<close> was seen, \<open>left\<close> is the number of groups that still fit.
\<close>

fun ipv6_groups :: "nat \<Rightarrow> nat \<Rightarrow> bool \<Rightarrow> string \<Rightarrow> bool" where
  "ipv6_groups 0 i ell s = (s = [] \<and> \<not> ell)"
| "ipv6_groups (Suc left) i ell s =
     (let ds = takeWhile is_hex s; rest = dropWhile is_hex s
      in if ds = [] \<or> length ds > 4 then False
         else if rest = [] then (if Suc left = 1 then \<not> ell else ell)
         else if hd rest = CHR ''.'' then
           (if (\<not> ell \<and> i \<noteq> 12) \<or> i + 4 > 16 \<or> \<not> ipv4_ok s then False
            else (if i + 4 < 16 then ell else \<not> ell))
         else if hd rest \<noteq> CHR '':'' \<or> tl rest = [] then False
         else if hd (tl rest) = CHR '':'' then
           (if ell then False
            else if tl (tl rest) = [] then left \<noteq> 0
            else ipv6_groups left (i + 2) True (tl (tl rest)))
         else ipv6_groups left (i + 2) ell (tl rest))"

text \<open>A zone (\<^verbatim>\<open>%eth0\<close>) makes \<^verbatim>\<open>ParseCIDR\<close> fail, so it is not accepted here.\<close>

definition ipv6_ok :: "string \<Rightarrow> bool" where
  "ipv6_ok s \<longleftrightarrow>
     (if CHR ''%'' \<in> set s then False
      else if take 2 s = ''::'' then
        (if drop 2 s = [] then True else ipv6_groups 8 0 True (drop 2 s))
      else ipv6_groups 8 0 False s)"

text \<open>\<^verbatim>\<open>netip.ParseAddr\<close> picks the family by the first dot, colon or percent sign.\<close>

definition addr_bits :: "string \<Rightarrow> nat option" where
  "addr_bits s =
     (case dropWhile (\<lambda>c. c \<notin> {CHR ''.'', CHR '':'', CHR ''%''}) s of
        [] \<Rightarrow> None
      | c # _ \<Rightarrow>
          if c = CHR ''.'' then (if ipv4_ok s then Some 32 else None)
          else if c = CHR '':'' then (if ipv6_ok s then Some 128 else None)
          else None)"

definition ParseCIDR :: "string \<Rightarrow> error option" where
  "ParseCIDR s =
     (let bad = Some (Errorf (''invalid CIDR address: '' @ s));
          addr = takeWhile (\<lambda>c. c \<noteq> CHR ''/'') s; rest = dropWhile (\<lambda>c. c \<noteq> CHR ''/'') s
      in if rest = [] then bad
         else (case addr_bits addr of
                 None \<Rightarrow> bad
               | Some bits \<Rightarrow>
                   (let mask = tl rest
                    in if mask = [] then bad
                       else (case digits_val 0 mask of
                               None \<Rightarrow> bad
                             | Some n \<Rightarrow> if n > bits then bad else None))))"

end
