(* ===== verification/NetworkValidation.thy ===== *)
theory NetworkValidation
  imports ServiceValidation Cidr
begin

text \<open>
  Validation of address groups with their hosts and networks, of networks and of network
  bindings: \<^verbatim>\<open>address_group_validator.go\<close>, \<^verbatim>\<open>network_validator.go\<close>,
  \<^verbatim>\<open>network_binding_validator.go\<close> (\<^verbatim>\<open>internal/application/validation\<close>).
\<close>

section \<open>Address groups\<close>

definition AddressGroupValidator_ValidateReferences ::
  "reader_ops \<Rightarrow> address_group \<Rightarrow> error option"
where
  "AddressGroupValidator_ValidateReferences rd g = None"

definition validate_network_item :: "nat \<times> network_item \<Rightarrow> error option" where
  "validate_network_item =
     (\<lambda>(i, n).
        let item = ''network item '' @ nat_str i
        in if ni_Name n = [] then Some (Errorf (item @ '': name is required''))
           else if ni_CIDR n = []
           then Some (Errorf (item @ '' ('' @ ni_Name n @ ''): CIDR is required''))
           else (case ParseCIDR (ni_CIDR n) of
                   Some e \<Rightarrow> Some (Errorf (item @ '' ('' @ ni_Name n @ ''): invalid CIDR format '' @
                               quoted (ni_CIDR n) @ '': '' @ error_text e))
                 | None \<Rightarrow>
                     if ni_Kind n = []
                     then Some (Errorf (item @ '' ('' @ ni_Name n @ ''): kind is required''))
                     else None))"

definition validateNetworks :: "network_item list \<Rightarrow> error option" where
  "validateNetworks ns = first_error validate_network_item (enumerate 0 ns)"

definition expectedAPIVersion :: string where
  "expectedAPIVersion = ''netguard.sgroups.io/v1beta1''"

definition validate_host_reference ::
  "reader_ops \<Rightarrow> string \<Rightarrow> nat \<times> object_reference \<Rightarrow> error option"
where
  "validate_host_reference rd ns =
     (\<lambda>(i, h).
        let item = ''host reference '' @ nat_str i
        in if ref_Name h = [] then Some (Errorf (item @ '': name is required''))
           else if ref_Kind h \<noteq> ''Host''
           then Some (Errorf (item @ '' ('' @ ref_Name h @ ''): invalid kind '' @
                  quoted (ref_Kind h) @ '' - must be '' @ quoted ''Host'' @ '' (not '' @
                  quoted ''Hosts'' @ '')''))
           else if ref_APIVersion h \<noteq> expectedAPIVersion
           then Some (Errorf (item @ '' ('' @ ref_Name h @ ''): invalid apiVersion '' @
                  quoted (ref_APIVersion h) @ '' - must be '' @ quoted expectedAPIVersion))
           else (case GetHostByID rd (ResourceIdentifier (ref_Name h) ns) of
                   Inr _ \<Rightarrow> None
                 | Inl e \<Rightarrow>
                     if is_not_found e
                     then Some (Errorf (item @ '': host '' @ quoted (ref_Name h) @
                            '' does not exist in namespace '' @ quoted ns))
                     else Some (Errorf (item @ '': failed to validate host '' @
                            quoted (ref_Name h) @ '' existence: '' @ error_text e))))"

definition validateHostReferences ::
  "reader_ops \<Rightarrow> object_reference list \<Rightarrow> resource_identifier \<Rightarrow> error option"
where
  "validateHostReferences rd hosts currentAG =
     (if length hosts = 0 then None
      else first_error (validate_host_reference rd (rid_Namespace currentAG)) (enumerate 0 hosts))"

text \<open>
  The listing callback of the exclusivity check has no state of its own: the first conflict
  ends the listing.
\<close>

definition host_conflict ::
  "resource_identifier \<Rightarrow> object_reference \<Rightarrow> address_group \<Rightarrow> error option"
where
  "host_conflict currentAG h ag =
     (if Key ag = rid_Key currentAG then None
      else first_error
        (\<lambda>x. if ref_Name h = ref_Name x \<and> rid_Namespace currentAG = Namespace ag
             then Some (Errorf (''host '' @ rid_Namespace currentAG @ ''/'' @ ref_Name h @
                    '' already belongs to AddressGroup '' @ Key ag @
                    '' - each host can belong to only one AddressGroup''))
             else None)
        (ag_Hosts ag))"

definition validateHostExclusivity ::
  "reader_ops \<Rightarrow> object_reference list \<Rightarrow> resource_identifier \<Rightarrow> error option"
where
  "validateHostExclusivity rd hosts currentAG =
     (if length hosts = 0 then None
      else first_error
        (\<lambda>h. fst (consume_listing (\<lambda>ag u. (host_conflict currentAG h ag, u))
                   (ListAddressGroups rd (Some EmptyScope)) ()))
        hosts)"

definition AddressGroupValidator_ValidateForCreation ::
  "reader_ops \<Rightarrow> address_group \<Rightarrow> error option"
where
  "AddressGroupValidator_ValidateForCreation rd g =
     and_then (ValidateEntityDoesNotExistForCreation (NewAddressGroupValidator rd) (self_id g) Key)
    (if length (ag_Networks g) > 0
     then Some (Errorf (''networks can'' @ [CHR 0x27] @ ''t be modified or added during creation''))
     else and_then (validateHostReferences rd (ag_Hosts g) (self_id g))
         (and_then (validateHostExclusivity rd (ag_Hosts g) (self_id g))
                   (AddressGroupValidator_ValidateReferences rd g)))"

definition AddressGroupValidator_ValidateForPostCommit ::
  "reader_ops \<Rightarrow> address_group \<Rightarrow> error option"
where
  "AddressGroupValidator_ValidateForPostCommit rd g = AddressGroupValidator_ValidateReferences rd g"

definition AddressGroupValidator_ValidateForUpdate ::
  "reader_ops \<Rightarrow> address_group \<Rightarrow> address_group \<Rightarrow> error option"
where
  "AddressGroupValidator_ValidateForUpdate rd old new =
     and_then (validateNetworks (ag_Networks new))
    (and_then (validateHostReferences rd (ag_Hosts new) (self_id new))
    (and_then (validateHostExclusivity rd (ag_Hosts new) (self_id new))
              (AddressGroupValidator_ValidateReferences rd new)))"

text \<open>
  The synchronisation manager is an interface; \<open>sync i h\<close> is the outcome of its call for
  the i-th host, and a nil manager is \<open>None\<close>.
\<close>

definition ValidateSgroupSyncForHosts ::
  "reader_ops \<Rightarrow> object_reference list \<Rightarrow> resource_identifier \<Rightarrow>
   (nat \<Rightarrow> host \<Rightarrow> error option) option \<Rightarrow> error option"
where
  "ValidateSgroupSyncForHosts rd hosts currentAG syncManager =
     (if length hosts = 0 then None
      else (case syncManager of
        None \<Rightarrow> None
      | Some sync \<Rightarrow>
          first_error
            (\<lambda>(i, h).
               let item = ''host reference '' @ nat_str i; ns = rid_Namespace currentAG
               in case GetHostByID rd (ResourceIdentifier (ref_Name h) ns) of
                    Inl e \<Rightarrow>
                      if is_not_found e
                      then Some (Errorf (item @ '': host '' @ quoted (ref_Name h) @
                             '' does not exist in namespace '' @ quoted ns))
                      else Some (Errorf (item @ '': failed to load host '' @ quoted (ref_Name h) @
                             '' for SGROUP validation: '' @ error_text e))
                  | Inr host \<Rightarrow>
                      (case sync i host of
                         None \<Rightarrow> None
                       | Some e \<Rightarrow> Some (Errorf (''SGROUP synchronization failed for host '' @
                           quoted (ref_Name h) @ '' in namespace '' @ quoted ns @ '': '' @
                           error_text e @ '' - the host cannot be added to this AddressGroup '' @
                           ''due to SGROUP constraints''))))
            (enumerate 0 hosts)))"

definition AddressGroupValidator_CheckDependencies ::
  "reader_ops \<Rightarrow> resource_identifier \<Rightarrow> error option"
where
  "AddressGroupValidator_CheckDependencies rd i =
     (let (err, hasServices) =
        consume_listing
          (\<lambda>s b. (None, if list_ex (\<lambda>ag. AddressGroupRefKey ag = rid_Key i) (svc_AddressGroups s)
                        then True else b))
          (ListServices rd (Some EmptyScope)) False
      in case err of
           Some e \<Rightarrow> Some (Wrap ''failed to check services'' e)
         | None \<Rightarrow>
             if hasServices
             then Some (DependencyExistsError ''address_group'' (rid_Key i) ''service'')
             else
               (let (err', hasBindings) =
                  consume_listing
                    (\<lambda>b f. (None, if agb_AddressGroupRefKey b = rid_Key i then True else f))
                    (ListAddressGroupBindings rd (Some EmptyScope)) False
                in case err' of
                     Some e \<Rightarrow> Some (Wrap ''failed to check address group bindings'' e)
                   | None \<Rightarrow>
                       if hasBindings
                       then Some (DependencyExistsError ''address_group'' (rid_Key i)
                                    ''address_group_binding'')
                       else None))"

section \<open>Networks\<close>

definition NetworkValidator_ValidateExists ::
  "reader_ops \<Rightarrow> resource_identifier \<Rightarrow> error option"
where
  "NetworkValidator_ValidateExists rd i = ValidateExists (NewNetworkValidator rd) i Key"

definition ValidateCIDR :: "string \<Rightarrow> error option" where
  "ValidateCIDR cidr =
     (if cidr = [] then Some (Errorf ''CIDR cannot be empty'')
      else wrap_err (''invalid CIDR format: '' @ cidr) (ParseCIDR cidr))"

definition ValidateCIDRUniqueness ::
  "reader_ops \<Rightarrow> string \<Rightarrow> resource_identifier option \<Rightarrow> error option"
where
  "ValidateCIDRUniqueness rd cidr excludeNetwork =
     (case GetNetworkByCIDR rd cidr of
        Inl e \<Rightarrow> if is_not_found e then None
                 else Some (Wrap (''failed to check CIDR uniqueness for '' @ cidr) e)
      | Inr n \<Rightarrow>
          if (case excludeNetwork of None \<Rightarrow> False | Some x \<Rightarrow> Key n = rid_Key x) then None
          else Some (Errorf (''CIDR '' @ quoted cidr @ '' is already in use by network '' @ Key n)))"

definition NetworkValidator_ValidateForCreation :: "reader_ops \<Rightarrow> network \<Rightarrow> error option" where
  "NetworkValidator_ValidateForCreation rd n =
     and_then (ValidateEntityDoesNotExistForCreation (NewNetworkValidator rd) (self_id n) Key)
    (and_then (ValidateCIDR (nw_CIDR n)) (ValidateCIDRUniqueness rd (nw_CIDR n) None))"

definition NetworkValidator_ValidateForUpdate ::
  "reader_ops \<Rightarrow> network \<Rightarrow> network \<Rightarrow> error option"
where
  "NetworkValidator_ValidateForUpdate rd old new =
     and_then (ValidateCIDR (nw_CIDR new))
    (and_then (ValidateCIDRUniqueness rd (nw_CIDR new)
                 (Some (ResourceIdentifier (Name new) (Namespace new))))
    (and_then (NetworkValidator_ValidateExists rd (ResourceIdentifier (Name old) (Namespace old)))
       (if Name old \<noteq> Name new \<or> Namespace old \<noteq> Namespace new
        then Some (Errorf ''network name and namespace cannot be changed'') else None)))"

definition NetworkValidator_CheckDependencies ::
  "reader_ops \<Rightarrow> resource_identifier \<Rightarrow> error option"
where
  "NetworkValidator_CheckDependencies rd i =
     (let (err, hasBindings) =
        consume_listing
          (\<lambda>b f. (None, if ref_Name (nb_NetworkRef b) = rid_Name i \<and> Namespace b = rid_Namespace i
                        then True else f))
          (ListNetworkBindings rd (Some EmptyScope)) False
      in case err of
           Some e \<Rightarrow> Some (Wrap ''failed to check network bindings'' e)
         | None \<Rightarrow> if hasBindings
                    then Some (Errorf (''cannot delete network '' @ rid_Key i @
                           '': it is referenced by network bindings''))
                    else None)"

section \<open>Network bindings\<close>

definition NetworkBindingValidator_ValidateExists ::
  "reader_ops \<Rightarrow> resource_identifier \<Rightarrow> error option"
where
  "NetworkBindingValidator_ValidateExists rd i = ValidateExists (NewNetworkBindingValidator rd) i Key"

definition NetworkBindingValidator_ValidateReferences ::
  "reader_ops \<Rightarrow> network_binding \<Rightarrow> error option"
where
  "NetworkBindingValidator_ValidateReferences rd b =
     (case GetNetworkByID rd (ResourceIdentifier (ref_Name (nb_NetworkRef b)) (Namespace b)) of
        Inl e \<Rightarrow> Some (Wrap (''invalid network reference in binding '' @ Key b) e)
      | Inr _ \<Rightarrow>
          (case GetAddressGroupByID rd
                  (ResourceIdentifier (ref_Name (nb_AddressGroupRef b)) (Namespace b)) of
             Inl e \<Rightarrow> Some (Wrap (''invalid address group reference in binding '' @ Key b) e)
           | Inr _ \<Rightarrow> None))"

definition NetworkBindingValidator_ValidateForCreation ::
  "reader_ops \<Rightarrow> network_binding \<Rightarrow> error option"
where
  "NetworkBindingValidator_ValidateForCreation rd b =
     and_then (ValidateEntityDoesNotExistForCreation (NewNetworkBindingValidator rd) (self_id b) Key)
       (NetworkBindingValidator_ValidateReferences rd b)"

definition NetworkBindingValidator_ValidateForPostCommit ::
  "reader_ops \<Rightarrow> network_binding \<Rightarrow> error option"
where
  "NetworkBindingValidator_ValidateForPostCommit rd b =
     NetworkBindingValidator_ValidateReferences rd b"

definition NetworkBindingValidator_ValidateForUpdate ::
  "reader_ops \<Rightarrow> network_binding \<Rightarrow> network_binding \<Rightarrow> error option"
where
  "NetworkBindingValidator_ValidateForUpdate rd old new =
     and_then (NetworkBindingValidator_ValidateReferences rd new)
    (and_then (NetworkBindingValidator_ValidateExists rd
                 (ResourceIdentifier (Name old) (Namespace old)))
       (if Name old \<noteq> Name new \<or> Namespace old \<noteq> Namespace new
        then Some (Errorf ''network binding name and namespace cannot be changed'')
        else if ref_Name (nb_NetworkRef old) \<noteq> ref_Name (nb_NetworkRef new)
        then (let networkID = ResourceIdentifier (ref_Name (nb_NetworkRef new)) (Namespace new)
              in case GetNetworkByID rd networkID of
                   Inl e \<Rightarrow> Some (Wrap ''failed to get network'' e)
                 | Inr n \<Rightarrow>
                     if nw_IsBound n
                     then Some (Errorf (''network '' @ rid_Key networkID @
                            '' is already bound to another address group''))
                     else None)
        else None))"

section \<open>What the checks decide\<close>

text \<open>A callback without state of its own: the first error of an item, or the listing's.\<close>

lemma consume_stateless:
  "fst (consume_listing (\<lambda>x u. (f x, u)) l u) = and_then (first_error f (fst l)) (snd l)"
proof -
  have "fst (run_consume (\<lambda>x u. (f x, u)) xs e u) = and_then (first_error f xs) e" for xs e
  proof (induction xs)
    case (Cons x xs)
    then show ?case by (cases "f x") simp_all
  qed simp
  then show ?thesis by (simp add: consume_listing_def)
qed

lemma host_conflict_None_iff:
  "host_conflict i h ag = None \<longleftrightarrow>
     Key ag = rid_Key i \<or> rid_Namespace i \<noteq> Namespace ag \<or> ref_Name h \<notin> ref_Name ` set (ag_Hosts ag)"
  by (auto simp: host_conflict_def)

lemma HostExclusivity_None_iff:
  assumes "snd (ListAddressGroups rd (Some EmptyScope)) = None"
  shows "validateHostExclusivity rd hosts i = None \<longleftrightarrow>
    (\<forall>h\<in>set hosts. \<forall>ag\<in>set (fst (ListAddressGroups rd (Some EmptyScope))).
       Key ag = rid_Key i \<or> rid_Namespace i \<noteq> Namespace ag \<or>
       ref_Name h \<notin> ref_Name ` set (ag_Hosts ag))"
  using assms
  by (auto simp: validateHostExclusivity_def consume_stateless host_conflict_None_iff)

end
