(* ===== verification/PortConflicts.thy ===== *)
theory PortConflicts
  imports ServiceValidation
begin

text \<open>
  What the port checks decide. Each checker is characterised by a condition on the parsed
  ranges: a service's own ranges are pairwise disjoint per protocol, a service is clear of
  the other services of a port mapping, and the entries of a port mapping do not overlap.
\<close>

section \<open>Facts about the port checks\<close>

text \<open>The ranges a port string stands for, and those of all ports of one protocol.\<close>

definition ranges_of :: "string \<Rightarrow> port_range list" where
  "ranges_of p = (case ParsePortRanges p of Inl _ \<Rightarrow> [] | Inr rs \<Rightarrow> rs)"

definition port_ranges :: "ingress_port list \<Rightarrow> transport_protocol \<Rightarrow> port_range list" where
  "port_ranges ps proto =
     concat (map (\<lambda>p. ranges_of (ip_Port p)) (filter (\<lambda>p. ip_Protocol p = proto) ps))"

definition parses :: "string \<Rightarrow> bool" where
  "parses p \<longleftrightarrow> (\<exists>rs. ParsePortRanges p = Inr rs)"

lemma ranges_of_valid: "\<forall>r\<in>set (ranges_of p). valid_range r"
  using ParsePortRanges_valid [of p] by (cases "ParsePortRanges p") (simp_all add: ranges_of_def)

lemma port_ranges_valid: "\<forall>r\<in>set (port_ranges ps proto). valid_range r"
  using ranges_of_valid by (auto simp: port_ranges_def)

lemma valid_range_order: "valid_range r \<Longrightarrow> pr_Start r \<le> pr_End r"
  by (simp add: valid_range_def)

lemma port_ranges_simps [simp]:
  "port_ranges [] proto = []"
  "port_ranges (p # ps) proto =
     (if ip_Protocol p = proto then ranges_of (ip_Port p) else []) @ port_ranges ps proto"
  by (simp_all add: port_ranges_def)

lemma ports_of_fold_append:
  "ports_of (fold (\<lambda>r. append_ports q [r]) rs m) p =
     (if p = q then ports_of m p @ rs else ports_of m p)"
  by (induction rs arbitrary: m) auto

lemma ports_of_collect: "ports_of (collect_ports ps m) proto = ports_of m proto @ port_ranges ps proto"
  by (induction ps m rule: collect_ports.induct)
    (auto simp: ports_of_fold_append ranges_of_def split: sum.splits)

lemma no_duplicate_groups_iff:
  "no_duplicate_groups ags seen = None \<longleftrightarrow>
     distinct (map AddressGroupRefKey ags) \<and> set (map AddressGroupRefKey ags) \<inter> set seen = {}"
  by (induction ags arbitrary: seen) (auto simp: Let_def AddressGroupRefKey_def)

lemma find_self_overlap_iff: "find_self_overlap msg rs = None \<longleftrightarrow> pairwise_disjoint rs"
proof -
  have positions: "set (enumerate 0 rs) = (\<lambda>i. (i, rs ! i)) ` {..<length rs}"
    by (auto simp: in_set_enumerate_eq image_iff)
  have "find_self_overlap msg rs = None \<longleftrightarrow>
    (\<forall>i<length rs. \<forall>j<length rs. i \<noteq> j \<longrightarrow> \<not> DoPortRangesOverlap (rs ! i) (rs ! j))"
    by (auto simp: find_self_overlap_def positions)
  also have "\<dots> \<longleftrightarrow> pairwise_disjoint rs"
  proof
    assume "pairwise_disjoint rs"
    then have less: "i < j \<Longrightarrow> j < length rs \<Longrightarrow> \<not> DoPortRangesOverlap (rs ! i) (rs ! j)" for i j
      by (simp add: sorted_wrt_iff_nth_less)
    show "\<forall>i<length rs. \<forall>j<length rs. i \<noteq> j \<longrightarrow> \<not> DoPortRangesOverlap (rs ! i) (rs ! j)"
    proof (intro allI impI)
      fix i j
      assume "i < length rs" "j < length rs" "i \<noteq> j"
      then show "\<not> DoPortRangesOverlap (rs ! i) (rs ! j)"
        using less [of i j] less [of j i] overlap_sym by (cases "i < j") auto
    qed
  qed (simp add: sorted_wrt_iff_nth_less)
  finally show ?thesis .
qed

text \<open>
  \<^verbatim>\<open>ValidateNoDuplicatePorts\<close> tracks TCP and UDP; a port of another protocol is only
  checked against itself.
\<close>

lemma TCP_neq_UDP [simp]: "TCP \<noteq> UDP" "UDP \<noteq> TCP"
  by (simp_all add: TCP_def UDP_def)

lemma no_duplicate_ports_iff:
  assumes "pairwise_disjoint t" and "pairwise_disjoint u"
  shows "no_duplicate_ports ps t u = None \<longleftrightarrow>
     (\<forall>p\<in>set ps. parses (ip_Port p) \<and> pairwise_disjoint (ranges_of (ip_Port p))) \<and>
     pairwise_disjoint (t @ port_ranges ps TCP) \<and> pairwise_disjoint (u @ port_ranges ps UDP)"
  using assms
proof (induction ps arbitrary: t u)
  case Nil
  then show ?case by simp
next
  case (Cons p ps)
  show ?case
  proof (cases "ParsePortRanges (ip_Port p)")
    case (Inl e)
    then show ?thesis by (simp add: parses_def)
  next
    case (Inr rs)
    then have rs: "parses (ip_Port p)" "ranges_of (ip_Port p) = rs"
      by (simp_all add: parses_def ranges_of_def)
    have old_new: "find_overlap msg rs xs = None \<longleftrightarrow>
        (\<forall>b\<in>set xs. \<forall>a\<in>set rs. \<not> DoPortRangesOverlap b a)" for msg xs
      unfolding find_overlap_None_iff using overlap_sym by blast
    show ?thesis
      using Cons.prems
      by (cases "pairwise_disjoint rs")
        (auto simp: Inr rs Let_def find_self_overlap_iff old_new Cons.IH
          pairwise_disjoint_append)
  qed
qed


text \<open>The gathering loop accepts exactly when every port parses and is free of self overlaps.\<close>

lemma gather_checked_iff:
  "gather_checked s ps m = Inr m' \<longleftrightarrow>
     (\<forall>p\<in>set ps. parses (ip_Port p) \<and> pairwise_disjoint (ranges_of (ip_Port p))) \<and>
     m' = fold (\<lambda>p. append_ports (ip_Protocol p) (ranges_of (ip_Port p))) ps m"
proof (induction ps arbitrary: m)
  case Nil
  then show ?case by auto
next
  case (Cons p ps)
  show ?case
  proof (cases "ParsePortRanges (ip_Port p)")
    case (Inl e)
    then show ?thesis by (simp add: parses_def)
  next
    case (Inr rs)
    then have rs: "parses (ip_Port p)" "ranges_of (ip_Port p) = rs"
      by (simp_all add: parses_def ranges_of_def)
    have "\<forall>r\<in>set rs. pr_Start r \<le> pr_End r"
      using ParsePortRanges_valid [OF Inr] by (simp add: valid_range_def)
    from optimized_iff_pairwise_disjoint [OF this, of "ip_Protocol p"] show ?thesis
      by (auto simp: Inr rs Cons.IH split: option.splits)
  qed
qed

lemma ports_of_gathered:
  "ports_of (fold (\<lambda>p. append_ports (ip_Protocol p) (ranges_of (ip_Port p))) ps m) proto =
     ports_of m proto @ port_ranges ps proto"
  by (induction ps arbitrary: m) auto

abbreviation gathered :: "ingress_port list \<Rightarrow> protocol_ports" where
  "gathered ps \<equiv> fold (\<lambda>p. append_ports (ip_Protocol p) (ranges_of (ip_Port p))) ps []"

lemma gathered_keys:
  "distinct (map fst m) \<Longrightarrow>
   distinct (map fst (fold (\<lambda>p. append_ports (ip_Protocol p) (ranges_of (ip_Port p))) ps m)) \<and>
   fst ` set (fold (\<lambda>p. append_ports (ip_Protocol p) (ranges_of (ip_Port p))) ps m) =
     fst ` set m \<union> ip_Protocol ` set ps"
  by (induction ps arbitrary: m) (auto simp: append_ports_def distinct_update dom_update)

lemma gathered_entries:
  "set (gathered ps) = (\<lambda>proto. (proto, port_ranges ps proto)) ` ip_Protocol ` set ps"
proof -
  have dist: "distinct (map fst (gathered ps))" and keys: "fst ` set (gathered ps) = ip_Protocol ` set ps"
    using gathered_keys [of "[]" ps] by simp_all
  have val: "rs = port_ranges ps proto" if "(proto, rs) \<in> set (gathered ps)" for proto rs
    using ports_of_gathered [of ps "[]" proto] map_of_is_SomeI [OF dist that]
    by (simp add: ports_of_def)
  show ?thesis
  proof (rule set_eqI, clarify, rule iffI)
    fix proto rs
    assume e: "(proto, rs) \<in> set (gathered ps)"
    have "proto \<in> fst ` set (gathered ps)" using imageI [OF e, of fst] by simp
    then have "proto \<in> ip_Protocol ` set ps" by (simp only: keys)
    with val [OF e] show "(proto, rs) \<in> (\<lambda>proto. (proto, port_ranges ps proto)) ` ip_Protocol ` set ps"
      by blast
  next
    fix proto rs
    assume "(proto, rs) \<in> (\<lambda>proto. (proto, port_ranges ps proto)) ` ip_Protocol ` set ps"
    then have rs: "rs = port_ranges ps proto" and "proto \<in> fst ` set (gathered ps)"
      using keys by auto
    then obtain rs' where "(proto, rs') \<in> set (gathered ps)" by auto
    with val rs show "(proto, rs) \<in> set (gathered ps)" by metis
  qed
qed

lemma port_ranges_part:
  "p \<in> set ps \<Longrightarrow> pairwise_disjoint (port_ranges ps (ip_Protocol p)) \<Longrightarrow>
   pairwise_disjoint (ranges_of (ip_Port p))"
  by (induction ps) (auto simp: pairwise_disjoint_append split: if_splits)

text \<open>No range of the service meets a range of the same protocol in the other entry.\<close>

definition clear_of :: "service \<Rightarrow> service_ports \<Rightarrow> bool" where
  "clear_of s ports \<longleftrightarrow>
     (\<forall>proto\<in>ip_Protocol ` set (svc_IngressPorts s).
        pairwise_disjoint (port_ranges (svc_IngressPorts s) proto @ ports_of (sp_Ports ports) proto))"

definition ordered_ports :: "service_ports \<Rightarrow> bool" where
  "ordered_ports ports \<longleftrightarrow> (\<forall>(proto, rs)\<in>set (sp_Ports ports). \<forall>r\<in>set rs. pr_Start r \<le> pr_End r)"

lemma ordered_ports_of: "ordered_ports ports \<Longrightarrow> \<forall>r\<in>set (ports_of (sp_Ports ports) proto). pr_Start r \<le> pr_End r"
  by (cases "map_of (sp_Ports ports) proto") (auto simp: ordered_ports_def ports_of_def dest: map_of_SomeD)

lemma check_protocol_iff:
  assumes "\<forall>r\<in>set rs. pr_Start r \<le> pr_End r" and "pairwise_disjoint rs" and "ordered_ports ports"
  shows "check_protocol s other ports (proto, rs) = None \<longleftrightarrow>
    pairwise_disjoint (rs @ ports_of (sp_Ports ports) proto)"
proof -
  have "CheckPortRangeOverlapsOptimized (rs @ ports_of (sp_Ports ports) proto) proto = None \<longleftrightarrow>
      pairwise_disjoint (rs @ ports_of (sp_Ports ports) proto)"
    using assms(1) ordered_ports_of [OF assms(3), of proto]
    by (intro optimized_iff_pairwise_disjoint) auto
  with assms(2) show ?thesis
    by (cases "ports_of (sp_Ports ports) proto = []")
      (auto simp: check_protocol_def Let_def split: option.splits)
qed

lemma check_against_service_iff:
  assumes "ordered_ports ports" and "\<forall>proto. pairwise_disjoint (port_ranges (svc_IngressPorts s) proto)"
  shows "check_against_service s (gathered (svc_IngressPorts s)) (other, ports) = None \<longleftrightarrow>
     (ServiceRefKey other \<noteq> Key s \<longrightarrow> clear_of s ports)"
proof -
  have "check_protocol s other ports (proto, port_ranges (svc_IngressPorts s) proto) = None \<longleftrightarrow>
    pairwise_disjoint (port_ranges (svc_IngressPorts s) proto @ ports_of (sp_Ports ports) proto)"
    for proto
    using assms port_ranges_valid valid_range_order by (intro check_protocol_iff) blast+
  then show ?thesis
    by (auto simp: check_against_service_def clear_of_def gathered_entries)
qed

lemma CheckPortOverlaps_iff:
  assumes ord: "\<forall>(other, ports)\<in>set (access_ports m). ordered_ports ports"
  shows "CheckPortOverlaps s m = None \<longleftrightarrow>
     (\<forall>p\<in>set (svc_IngressPorts s). parses (ip_Port p)) \<and>
     (\<forall>proto. pairwise_disjoint (port_ranges (svc_IngressPorts s) proto)) \<and>
     (\<forall>(other, ports)\<in>set (access_ports m). ServiceRefKey other \<noteq> Key s \<longrightarrow> clear_of s ports)"
  (is "_ \<longleftrightarrow> ?parse \<and> ?self \<and> ?others")
proof -
  let ?ps = "svc_IngressPorts s"
  let ?own = "\<forall>p\<in>set ?ps. parses (ip_Port p) \<and> pairwise_disjoint (ranges_of (ip_Port p))"
  have empty: "port_ranges ?ps proto = []" if "proto \<notin> ip_Protocol ` set ?ps" for proto
    using that by (auto simp: port_ranges_def filter_empty_conv)
  have opt: "CheckPortRangeOverlapsOptimized (port_ranges ?ps proto) proto = None \<longleftrightarrow>
      pairwise_disjoint (port_ranges ?ps proto)" for proto
    using port_ranges_valid valid_range_order by (intro optimized_iff_pairwise_disjoint) blast
  have self: "(\<forall>proto\<in>ip_Protocol ` set ?ps. pairwise_disjoint (port_ranges ?ps proto)) \<longleftrightarrow> ?self"
    using empty by (metis sorted_wrt.simps(1))
  have part: "?self \<Longrightarrow> ?parse \<Longrightarrow> ?own" using port_ranges_part by blast
  have others: "?self \<Longrightarrow> (\<forall>x\<in>set (access_ports m). check_against_service s (gathered ?ps) x = None) \<longleftrightarrow> ?others"
    using ord check_against_service_iff by fastforce
  show ?thesis
  proof (cases "?own")
    case False
    then have "\<exists>e. gather_checked s ?ps [] = Inl e"
      using gather_checked_iff [of s ?ps "[]"] by (metis sum.exhaust)
    with False part show ?thesis by (auto simp: CheckPortOverlaps_def)
  next
    case True
    then have "gather_checked s ?ps [] = Inr (gathered ?ps)"
      using gather_checked_iff [of s ?ps "[]"] by blast
    moreover have "(first_error (\<lambda>(proto, ranges). case CheckPortRangeOverlapsOptimized ranges proto of
          None \<Rightarrow> None | Some e \<Rightarrow> Some (Errorf (''port conflict detected within service '' @ Key s @
            '': '' @ error_text e))) (gathered ?ps) = None) \<longleftrightarrow> ?self"
      unfolding self [symmetric] by (auto simp: gathered_entries opt [symmetric] split: option.splits)
    ultimately show ?thesis using True others by (auto simp: CheckPortOverlaps_def)
  qed
qed

subsection \<open>Overlaps inside a port mapping\<close>

definition overlap_free :: "port_range list \<Rightarrow> port_range list \<Rightarrow> bool" where
  "overlap_free xs ys \<longleftrightarrow> (\<forall>a\<in>set xs. \<forall>b\<in>set ys. \<not> DoPortRangesOverlap a b)"

lemma overlap_free_sym: "overlap_free xs ys \<longleftrightarrow> overlap_free ys xs"
  using overlap_sym by (auto simp: overlap_free_def)

lemma overlap_free_simps [simp]:
  "overlap_free [] ys" "overlap_free xs []"
  "overlap_free xs (ys @ zs) \<longleftrightarrow> overlap_free xs ys \<and> overlap_free xs zs"
  by (auto simp: overlap_free_def)

lemma distinct_append_ports: "distinct (map fst m) \<Longrightarrow> distinct (map fst (append_ports k rs m))"
  by (simp add: append_ports_def distinct_update)

lemma others_free_iff:
  assumes "distinct (map fst recorded)"
  shows "(\<forall>(other, ranges)\<in>set recorded. other = me \<or> overlap_free rs ranges) \<longleftrightarrow>
    (\<forall>k. k \<noteq> me \<longrightarrow> overlap_free rs (ports_of recorded k))"
proof
  assume *: "\<forall>(other, ranges)\<in>set recorded. other = me \<or> overlap_free rs ranges"
  show "\<forall>k. k \<noteq> me \<longrightarrow> overlap_free rs (ports_of recorded k)"
  proof (intro allI impI)
    fix k assume "k \<noteq> me"
    with * show "overlap_free rs (ports_of recorded k)"
      by (cases "map_of recorded k") (auto simp: ports_of_def dest: map_of_SomeD)
  qed
next
  assume *: "\<forall>k. k \<noteq> me \<longrightarrow> overlap_free rs (ports_of recorded k)"
  show "\<forall>(other, ranges)\<in>set recorded. other = me \<or> overlap_free rs ranges"
  proof clarify
    fix other ranges
    assume "(other, ranges) \<in> set recorded" "\<not> overlap_free rs ranges"
    with * show "other = me"
      using map_of_is_SomeI [OF assms, of other ranges] by (auto simp: ports_of_def)
  qed
qed

lemma record_ranges_iff:
  assumes "distinct (map fst recorded)"
  shows "record_ranges proto me rs recorded = Inr recorded' \<longleftrightarrow>
    (\<forall>k. k \<noteq> me \<longrightarrow> overlap_free rs (ports_of recorded k)) \<and>
    recorded' = fold (\<lambda>r. append_ports me [r]) rs recorded"
  using assms
proof (induction rs arbitrary: recorded)
  case Nil
  then show ?case by auto
next
  case (Cons r rs)
  let ?new = "append_ports me [r] recorded"
  have step: "(first_error (\<lambda>(other, ranges). if other = me then None
        else find_overlap (internal_overlap_error proto me other) [r] ranges) recorded = None) \<longleftrightarrow>
      (\<forall>k. k \<noteq> me \<longrightarrow> overlap_free [r] (ports_of recorded k))"
    unfolding others_free_iff [OF Cons.prems, symmetric]
    by (auto simp: find_overlap_None_iff overlap_free_def)
  have dist: "distinct (map fst ?new)" using Cons.prems by (rule distinct_append_ports)
  have split: "overlap_free (r # rs) ys \<longleftrightarrow> overlap_free [r] ys \<and> overlap_free rs ys" for ys
    by (auto simp: overlap_free_def)
  have new: "(\<forall>k. k \<noteq> me \<longrightarrow> overlap_free rs (ports_of ?new k)) \<longleftrightarrow>
      (\<forall>k. k \<noteq> me \<longrightarrow> overlap_free rs (ports_of recorded k))"
    by simp
  show ?case
  proof (cases "\<forall>k. k \<noteq> me \<longrightarrow> overlap_free [r] (ports_of recorded k)")
    case True
    with step Cons.IH [OF dist] new show ?thesis
      unfolding split by (simp del: first_error_None_iff)
  next
    case False
    with step show ?thesis unfolding split by (auto split: option.splits)
  qed
qed

lemma distinct_recorded:
  "distinct (map fst m) \<Longrightarrow> distinct (map fst (fold (\<lambda>r. append_ports me [r]) rs m))"
  by (induction rs arbitrary: m) (auto simp: distinct_append_ports)

text \<open>Entries of different services have no overlapping ranges of the protocol.\<close>

definition entries_free :: "transport_protocol \<Rightarrow> nref \<times> service_ports \<Rightarrow> nref \<times> service_ports \<Rightarrow> bool"
where
  "entries_free proto x y \<longleftrightarrow> ServiceRefKey (fst x) = ServiceRefKey (fst y) \<or>
     overlap_free (ports_of (sp_Ports (snd x)) proto) (ports_of (sp_Ports (snd y)) proto)"

definition recorded_free ::
  "transport_protocol \<Rightarrow> protocol_ports \<Rightarrow> nref \<times> service_ports \<Rightarrow> bool"
where
  "recorded_free proto recorded x \<longleftrightarrow>
     (\<forall>k. k \<noteq> ServiceRefKey (fst x) \<longrightarrow>
        overlap_free (ports_of (sp_Ports (snd x)) proto) (ports_of recorded k))"

lemma recorded_free_fold:
  "recorded_free proto (fold (\<lambda>r. append_ports (ServiceRefKey (fst e)) [r])
      (ports_of (sp_Ports (snd e)) proto) m) x \<longleftrightarrow>
   recorded_free proto m x \<and> entries_free proto x e"
  by (auto simp: recorded_free_def entries_free_def ports_of_fold_append)

lemma internal_overlaps_iff:
  assumes "distinct (map fst t)" and "distinct (map fst u)"
  shows "internal_overlaps es t u = None \<longleftrightarrow>
    (\<forall>x\<in>set es. recorded_free TCP t x \<and> recorded_free UDP u x) \<and>
    sorted_wrt (\<lambda>x y. entries_free TCP y x \<and> entries_free UDP y x) es"
  using assms
proof (induction es arbitrary: t u)
  case Nil
  then show ?case by simp
next
  case (Cons e es)
  obtain ref ports where e: "e = (ref, ports)" by force
  let ?t = "fold (\<lambda>r. append_ports (ServiceRefKey ref) [r]) (ports_of (sp_Ports ports) TCP) t"
  let ?u = "fold (\<lambda>r. append_ports (ServiceRefKey ref) [r]) (ports_of (sp_Ports ports) UDP) u"
  have T: "record_ranges ''TCP'' (ServiceRefKey ref) (ports_of (sp_Ports ports) TCP) t = Inr t' \<longleftrightarrow>
      recorded_free TCP t e \<and> t' = ?t" for t'
    using record_ranges_iff [OF Cons.prems(1)] by (simp add: recorded_free_def e)
  have U: "record_ranges ''UDP'' (ServiceRefKey ref) (ports_of (sp_Ports ports) UDP) u = Inr u' \<longleftrightarrow>
      recorded_free UDP u e \<and> u' = ?u" for u'
    using record_ranges_iff [OF Cons.prems(2)] by (simp add: recorded_free_def e)
  have IH: "internal_overlaps es ?t ?u = None \<longleftrightarrow>
    (\<forall>x\<in>set es. (recorded_free TCP t x \<and> entries_free TCP x e) \<and>
       (recorded_free UDP u x \<and> entries_free UDP x e)) \<and>
    sorted_wrt (\<lambda>x y. entries_free TCP y x \<and> entries_free UDP y x) es"
    using Cons.IH [OF distinct_recorded [OF Cons.prems(1)] distinct_recorded [OF Cons.prems(2)]]
      recorded_free_fold [where e = e] by (simp add: e)
  show ?case
  proof (cases "recorded_free TCP t e \<and> recorded_free UDP u e")
    case True
    then show ?thesis using T [of ?t] U [of ?u] IH by (auto simp: e)
  next
    case False
    then show ?thesis using T U by (auto simp: e split: sum.splits)
  qed
qed

lemma entries_free_sym: "entries_free proto x y \<longleftrightarrow> entries_free proto y x"
  using overlap_free_sym by (auto simp: entries_free_def)

lemma entries_free_self [simp]: "entries_free proto x x"
  by (simp add: entries_free_def)

lemma sorted_wrt_all_pairs:
  assumes "\<And>x y. R x y \<Longrightarrow> R y x" and "\<And>x. R x x"
  shows "sorted_wrt R xs \<longleftrightarrow> (\<forall>x\<in>set xs. \<forall>y\<in>set xs. R x y)"
  by (induction xs) (auto intro: assms)

lemma CheckInternalPortOverlaps_iff:
  "CheckInternalPortOverlaps m = None \<longleftrightarrow>
     (\<forall>x\<in>set (access_ports m). \<forall>y\<in>set (access_ports m).
        entries_free TCP x y \<and> entries_free UDP x y)"
proof -
  have "CheckInternalPortOverlaps m = None \<longleftrightarrow>
      sorted_wrt (\<lambda>x y. entries_free TCP y x \<and> entries_free UDP y x) (access_ports m)"
    by (simp add: CheckInternalPortOverlaps_def internal_overlaps_iff recorded_free_def)
  also have "\<dots> \<longleftrightarrow> (\<forall>x\<in>set (access_ports m). \<forall>y\<in>set (access_ports m).
        entries_free TCP y x \<and> entries_free UDP y x)"
    using entries_free_sym by (intro sorted_wrt_all_pairs) auto
  finally show ?thesis by blast
qed

subsection \<open>Building port mappings\<close>

lemma CreateNewPortMapping_ports:
  "access_ports (CreateNewPortMapping i s) = [(service_ref s, ports)] \<Longrightarrow>
   ports_of (sp_Ports ports) proto = port_ranges (svc_IngressPorts s) proto"
  by (auto simp: access_ports_def CreateNewPortMapping_def ports_of_collect)

lemma UpdatePortMapping_lookup:
  "map_of (access_ports (UpdatePortMapping m s)) ref =
     (if ref = service_ref s then Some \<lparr> sp_Ports = collect_ports (svc_IngressPorts s) [] \<rparr>
      else map_of (access_ports m) ref)"
  by (simp add: access_ports_def UpdatePortMapping_def update_conv)

lemma ordered_collect: "ordered_ports \<lparr> sp_Ports = collect_ports ps [] \<rparr>"
proof -
  have keys: "distinct (map fst (collect_ports ps m))" if "distinct (map fst m)" for m
    using that by (induction ps m rule: collect_ports.induct)
      (auto simp: distinct_recorded split: sum.splits)
  have "pr_Start r \<le> pr_End r" if "(proto, rs) \<in> set (collect_ports ps [])" "r \<in> set rs" for proto rs r
  proof -
    have "ports_of (collect_ports ps []) proto = rs"
      using map_of_is_SomeI [OF keys [of "[]"] that(1)] by (simp add: ports_of_def)
    then have "rs = port_ranges ps proto" by (simp add: ports_of_collect)
    with that(2) show ?thesis using port_ranges_valid valid_range_order by blast
  qed
  then show ?thesis by (auto simp: ordered_ports_def)
qed

end
