(* ===== verification/Integrity.thy ===== *)
theory Integrity
  imports BindingValidation RuleValidation NetworkValidation PortConflicts
begin

text \<open>
  Validation and storage together: what an accepted object does to a well-formed database
  when it is upserted and committed, and what an accepted deletion leaves behind.
\<close>

section \<open>Committed reads and single upserts\<close>

abbreviation committed :: "mem_db \<Rightarrow> reader" where
  "committed db \<equiv> \<lparr> rd_db = db, rd_writer = None \<rparr>"

lemma reader_good_committed [simp]: "reader_good (committed db) = db_good db"
  by (simp add: reader_good_def)

lemma committed_table [simp]: "reader_table db_get w_get (committed db) = db_get db"
  by (simp add: reader_table_def)

text \<open>A reader made from a writer that has written nothing reads the committed state.\<close>

lemma fresh_writer_table:
  "w_get empty_writer = None \<Longrightarrow>
   reader_table db_get w_get \<lparr> rd_db = db, rd_writer = Some empty_writer \<rparr> = reader_table db_get w_get (committed db)"
  by (simp add: reader_table_def)

lemma fresh_writer_reader: "mem_reader \<lparr> rd_db = db, rd_writer = Some empty_writer \<rparr> = mem_reader (committed db)"
  by (simp add: mem_reader_def fun_eq_iff fresh_writer_table svc.new_writer_table sal.new_writer_table
      ag.new_writer_table agb.new_writer_table agpm.new_writer_table agbp.new_writer_table rs.new_writer_table
      ie.new_writer_table nw.new_writer_table nb.new_writer_table ho.new_writer_table hb.new_writer_table
      mem_ListServices_def mem_ListServiceAliases_def mem_ListAddressGroups_def mem_ListAddressGroupBindings_def
      mem_ListAddressGroupPortMappings_def mem_ListAddressGroupBindingPolicies_def mem_ListRuleS2S_def
      mem_ListIEAgAgRules_def mem_ListNetworks_def mem_ListNetworkBindings_def mem_ListHosts_def
      mem_ListHostBindings_def mem_GetServiceByID_def mem_GetServiceAliasByID_def mem_GetAddressGroupByID_def
      mem_GetAddressGroupBindingByID_def mem_GetAddressGroupPortMappingByID_def
      mem_GetAddressGroupBindingPolicyByID_def mem_GetRuleS2SByID_def mem_GetIEAgAgRuleByID_def
      mem_GetNetworkByID_def mem_GetNetworkBindingByID_def mem_GetHostByID_def mem_GetHostBindingByID_def
      mem_GetNetworkByCIDR_def cong: option.case_cong)

abbreviation upsert_opts :: "sync_option list" where
  "upsert_opts \<equiv> [SyncOption SyncOpUpsert]"

lemma select_upsert [simp]: "select_sync_op upsert_opts = SyncOpUpsert"
  by (simp add: select_sync_op_def)

lemma upsert_one_values:
  assumes "table_ok t" and "v \<in> snd ` set (fst (upsert_items e [x] t))"
  shows "payload v = payload x \<or> v \<in> snd ` set t \<and> Key v \<noteq> Key x"
proof -
  let ?t = "fst (upsert_items e [x] t)"
  have "table_ok ?t" using assms(1) by (rule table_ok_upsert_items)
  then have look: "map_of ?t (Key v) = Some v" using assms(2) table_ok_values by blast
  show ?thesis
  proof (cases "Key v = Key x")
    case True
    then have "payload v = payload x"
      using look abs_upsert_items [of e "[x]" t] by (auto simp: abs_table_def dest: fun_cong [of _ _ "Key x"])
    then show ?thesis by blast
  next
    case False
    then have "map_of t (Key v) = Some v" using look upsert_items_frame [of "Key v" "[x]" e t] by simp
    with False show ?thesis using table_ok_values [OF assms(1)] by blast
  qed
qed

text \<open>
  A relation that must not hold between two different objects of a table survives the upsert
  of an object that is unrelated to every other.
\<close>

definition unique_by :: "('a resource_scheme \<Rightarrow> 'a resource_scheme \<Rightarrow> bool) \<Rightarrow> 'a resource_scheme table \<Rightarrow> bool"
where
  "unique_by R t \<longleftrightarrow> (\<forall>a\<in>snd ` set t. \<forall>b\<in>snd ` set t. R a b \<longrightarrow> Key a = Key b)"

lemma payload_Key: "payload v = payload x \<Longrightarrow> Key v = Key x"
  by (metis payload_simps(2))

lemma unique_by_upsert:
  assumes ok: "table_ok t" and uniq: "unique_by R t"
    and fresh: "\<And>a. a \<in> snd ` set t \<Longrightarrow> R a x \<Longrightarrow> Key a = Key x"
    and sym: "\<And>a b. R a b \<Longrightarrow> R b a"
    and pay: "\<And>a b. R a b \<longleftrightarrow> R (payload a) (payload b)"
  shows "unique_by R (fst (upsert_items e [x] t))"
  unfolding unique_by_def
proof (intro ballI impI)
  fix a b
  assume a: "a \<in> snd ` set (fst (upsert_items e [x] t))"
    and b: "b \<in> snd ` set (fst (upsert_items e [x] t))" and R: "R a b"
  consider (new) "payload a = payload x" "payload b = payload x"
    | (left) "payload a = payload x" "b \<in> snd ` set t"
    | (right) "a \<in> snd ` set t" "payload b = payload x"
    | (old) "a \<in> snd ` set t" "b \<in> snd ` set t"
    using upsert_one_values [OF ok a] upsert_one_values [OF ok b] by blast
  then show "Key a = Key b"
  proof cases
    case new
    then show ?thesis using payload_Key [of a x] payload_Key [of b x] by simp
  next
    case left
    then have "R x b" using R pay [of a b] pay [of x b] by simp
    then have "R b x" by (rule sym)
    with left(2) have "Key b = Key x" by (rule fresh)
    with payload_Key [OF left(1)] show ?thesis by simp
  next
    case right
    then have "R a x" using R pay [of a b] pay [of a x] by simp
    with right(1) have "Key a = Key x" by (rule fresh)
    with payload_Key [OF right(2)] show ?thesis by simp
  next
    case old
    with uniq R show ?thesis unfolding unique_by_def by blast
  qed
qed

lemma policy_put_one: "put_items [x] t = AList.update (Key x) x t"
  by (simp add: put_items_def)

lemma db_good_ok:
  assumes "db_good db"
  shows "table_ok (GetRuleS2S db)" "table_ok (GetAddressGroupBindings db)" "table_ok (GetNetworks db)"
    "table_ok (GetAddressGroups db)" "table_ok (GetServices db)" "table_ok (GetServiceAliases db)"
    "table_ok (GetNetworkBindings db)"
  using assms by (simp_all add: db_good_def table_good_def db_access_defs)

section \<open>Uniqueness across a create\<close>

lemma committed_lists:
  "mem_ListRuleS2S (committed db) None = (map snd (GetRuleS2S db), None)"
  "mem_ListAddressGroupBindings (committed db) None = (map snd (GetAddressGroupBindings db), None)"
  "mem_ListAddressGroupBindings (committed db) (Some EmptyScope) =
     (map snd (GetAddressGroupBindings db), None)"
  "mem_ListAddressGroups (committed db) (Some EmptyScope) = (map snd (GetAddressGroups db), None)"
  "mem_ListServiceAliases (committed db) None = (map snd (GetServiceAliases db), None)"
  "mem_ListNetworkBindings (committed db) (Some EmptyScope) = (map snd (GetNetworkBindings db), None)"
  by (simp_all add: mem_ListRuleS2S_def mem_ListAddressGroupBindings_def
      mem_ListAddressGroups_def mem_ListServiceAliases_def mem_ListNetworkBindings_def list_table_all)

lemma same_rule_spec_payload: "same_rule_spec a b \<longleftrightarrow> same_rule_spec (payload a) (payload b)"
  by (simp add: same_rule_spec_def payload_def ref_key_defs)

lemma same_binding_refs_payload: "same_binding_refs a b \<longleftrightarrow> same_binding_refs (payload a) (payload b)"
  by (simp add: same_binding_refs_def payload_def ref_key_defs)

lemma rule_creation_unique:
  assumes "db_good db" and "unique_by same_rule_spec (GetRuleS2S db)"
    and "RuleS2SValidator_ValidateForCreation (mem_reader (committed db)) r = None"
  shows "unique_by same_rule_spec
    (GetRuleS2S (fst (Commit e' db (fst (SyncRuleS2S e db [r] sc upsert_opts empty_writer)))))"
proof -
  have "RuleS2SValidator_ValidateNoDuplicates (mem_reader (committed db)) r = None"
    using assms(3) by (simp add: RuleS2SValidator_ValidateForCreation_def)
  then have "\<And>a. a \<in> snd ` set (GetRuleS2S db) \<Longrightarrow> same_rule_spec a r \<Longrightarrow> Key a = Key r"
    by (auto simp: NoDuplicates_None_iff committed_lists)
  then have "unique_by same_rule_spec (fst (upsert_items e [r] (GetRuleS2S db)))"
    using db_good_ok [OF assms(1)] assms(2) same_rule_spec_payload
    by (intro unique_by_upsert) (auto simp: same_rule_spec_def)
  then show ?thesis by (simp add: rs.db_commit rs.view_sync rs.view_new sync_upsert)
qed

lemma binding_creation_unique:
  assumes "db_good db" and "unique_by same_binding_refs (GetAddressGroupBindings db)"
    and "AddressGroupBindingValidator_ValidateForCreation (mem_reader (committed db)) b = None"
  shows "unique_by same_binding_refs
    (GetAddressGroupBindings
      (fst (Commit e' db (fst (SyncAddressGroupBindings e db [b] sc upsert_opts empty_writer)))))"
proof -
  have "ValidateNoDuplicateBindings (mem_reader (committed db)) b = None"
    using assms(3) by (simp add: AddressGroupBindingValidator_ValidateForCreation_def split: if_splits)
  then have "\<And>a. a \<in> snd ` set (GetAddressGroupBindings db) \<Longrightarrow> same_binding_refs a b \<Longrightarrow> Key a = Key b"
    by (auto simp: NoDuplicateBindings_None_iff committed_lists)
  then have "unique_by same_binding_refs (fst (upsert_items e [b] (GetAddressGroupBindings db)))"
    using db_good_ok [OF assms(1)] assms(2) same_binding_refs_payload
    by (intro unique_by_upsert) (auto simp: same_binding_refs_def)
  then show ?thesis by (simp add: agb.db_commit agb.view_sync agb.view_new sync_upsert)
qed


lemma network_creation_unique:
  assumes "db_good db" and "unique_by (\<lambda>a b. nw_CIDR a = nw_CIDR b) (GetNetworks db)"
    and "NetworkValidator_ValidateForCreation (mem_reader (committed db)) n = None"
  shows "unique_by (\<lambda>a b. nw_CIDR a = nw_CIDR b)
    (GetNetworks (fst (Commit e' db (fst (SyncNetworks e db [n] sc upsert_opts empty_writer)))))"
proof -
  have "ValidateCIDRUniqueness (mem_reader (committed db)) (nw_CIDR n) None = None"
    using assms(3) by (simp add: NetworkValidator_ValidateForCreation_def)
  then have "find (\<lambda>(_, m). nw_CIDR m = nw_CIDR n) (GetNetworks db) = None"
    by (auto simp: ValidateCIDRUniqueness_def mem_GetNetworkByCIDR_def split: option.splits)
  then have "\<And>a. a \<in> snd ` set (GetNetworks db) \<Longrightarrow> nw_CIDR a = nw_CIDR n \<Longrightarrow> Key a = Key n"
    by (auto simp: find_None_iff)
  then have "unique_by (\<lambda>a b. nw_CIDR a = nw_CIDR b) (fst (upsert_items e [n] (GetNetworks db)))"
    using db_good_ok [OF assms(1)] assms(2)
    by (intro unique_by_upsert) (auto simp: payload_def)
  then show ?thesis by (simp add: nw.db_commit nw.view_sync nw.view_new sync_upsert)
qed

definition share_host :: "address_group \<Rightarrow> address_group \<Rightarrow> bool" where
  "share_host a b \<longleftrightarrow> Namespace a = Namespace b \<and>
     ref_Name ` set (ag_Hosts a) \<inter> ref_Name ` set (ag_Hosts b) \<noteq> {}"

lemma group_upsert_unique:
  assumes "db_good db" and "unique_by share_host (GetAddressGroups db)"
    and "validateHostExclusivity (mem_reader (committed db)) (ag_Hosts g) (self_id g) = None"
  shows "unique_by share_host
    (GetAddressGroups (fst (Commit e' db (fst (SyncAddressGroups e db [g] sc upsert_opts empty_writer)))))"
proof -
  have "\<And>a. a \<in> snd ` set (GetAddressGroups db) \<Longrightarrow> share_host a g \<Longrightarrow> Key a = Key g"
  proof -
    fix a
    assume a: "a \<in> snd ` set (GetAddressGroups db)" and sh: "share_host a g"
    from sh obtain n where "n \<in> ref_Name ` set (ag_Hosts a)" "n \<in> ref_Name ` set (ag_Hosts g)"
      by (auto simp only: share_host_def Int_iff ex_in_conv [symmetric])
    then obtain h where h: "h \<in> set (ag_Hosts g)" "ref_Name h \<in> ref_Name ` set (ag_Hosts a)"
      by (metis imageE)
    from assms(3) have "\<forall>h\<in>set (ag_Hosts g). \<forall>ag\<in>set (map snd (GetAddressGroups db)).
        Key ag = rid_Key (self_id g) \<or> rid_Namespace (self_id g) \<noteq> Namespace ag \<or>
        ref_Name h \<notin> ref_Name ` set (ag_Hosts ag)"
      by (simp only: HostExclusivity_None_iff mem_reader_simps committed_lists fst_conv snd_conv)
    with a h have "Key a = rid_Key (self_id g) \<or> rid_Namespace (self_id g) \<noteq> Namespace a" by auto
    with sh show "Key a = Key g"
      unfolding Key_self_id [of g] by (simp add: share_host_def self_id_def)
  qed
  then have "unique_by share_host (fst (upsert_items e [g] (GetAddressGroups db)))"
    using db_good_ok [OF assms(1)] assms(2)
    by (intro unique_by_upsert) (simp_all add: share_host_def payload_def Int_commute)
  then show ?thesis by (simp add: ag.db_commit ag.view_sync ag.view_new sync_upsert)
qed

section \<open>References across a delete\<close>

definition aliases_resolved :: "mem_db \<Rightarrow> bool" where
  "aliases_resolved db \<longleftrightarrow>
     (\<forall>a\<in>snd ` set (GetServiceAliases db). sa_ServiceRefKey a \<in> fst ` set (GetServices db))"

definition bindings_resolved :: "mem_db \<Rightarrow> bool" where
  "bindings_resolved db \<longleftrightarrow>
     (\<forall>b\<in>snd ` set (GetAddressGroupBindings db). agb_AddressGroupRefKey b \<in> fst ` set (GetAddressGroups db))"

definition networks_resolved :: "mem_db \<Rightarrow> bool" where
  "networks_resolved db \<longleftrightarrow>
     (\<forall>b\<in>snd ` set (GetNetworkBindings db).
        namespaced_key (Namespace b) (ref_Name (nb_NetworkRef b)) \<in> fst ` set (GetNetworks db))"

lemma delete_one_keys: "fst ` set (delete_keys [k] t) = fst ` set t - {k}"
  by (auto simp: delete_keys_def AList.delete_eq)

lemma service_delete_resolved:
  assumes "aliases_resolved db"
    and "ServiceValidator_CheckDependencies (mem_reader (committed db)) i = None"
  shows "aliases_resolved (fst (Commit e db (DeleteServicesByIDs db [i] empty_writer)))"
proof -
  have "\<forall>a\<in>snd ` set (GetServiceAliases db). sa_ServiceRefKey a \<noteq> rid_Key i"
    using assms(2) by (auto simp: ServiceValidator_CheckDependencies_def committed_lists split: if_splits)
  with assms(1) show ?thesis
    by (simp add: aliases_resolved_def svc.commit_table delete_one_keys
        sal.commit_table DeleteServicesByIDs_def empty_writer_def working_def)
qed

lemma group_delete_resolved:
  assumes "bindings_resolved db"
    and "AddressGroupValidator_CheckDependencies (mem_reader (committed db)) i = None"
  shows "bindings_resolved (fst (Commit e db (DeleteAddressGroupsByIDs db [i] empty_writer)))"
proof -
  have "\<forall>a\<in>snd ` set (GetAddressGroupBindings db). agb_AddressGroupRefKey a \<noteq> rid_Key i"
    using assms(2)
    by (auto simp: AddressGroupValidator_CheckDependencies_def committed_lists
        split: if_splits option.splits)
  with assms(1) show ?thesis
    by (simp add: bindings_resolved_def ag.commit_table delete_one_keys
        agb.commit_table DeleteAddressGroupsByIDs_def empty_writer_def working_def)
qed

lemma network_delete_resolved:
  assumes "networks_resolved db" and "slash_free i"
    and "\<forall>b\<in>snd ` set (GetNetworkBindings db). slash_free (ResourceIdentifier (ref_Name (nb_NetworkRef b)) (Namespace b))"
    and "NetworkValidator_CheckDependencies (mem_reader (committed db)) i = None"
  shows "networks_resolved (fst (Commit e db (DeleteNetworksByIDs db [i] empty_writer)))"
proof -
  have "\<forall>b\<in>snd ` set (GetNetworkBindings db). ResourceIdentifier (ref_Name (nb_NetworkRef b)) (Namespace b) \<noteq> i"
    using assms(4) by (auto simp: NetworkValidator_CheckDependencies_def committed_lists split: if_splits)
  then have "\<forall>b\<in>snd ` set (GetNetworkBindings db). namespaced_key (Namespace b) (ref_Name (nb_NetworkRef b)) \<noteq> rid_Key i"
    using rid_Key_inject assms(2,3) rid_Key_namespaced by metis
  with assms(1) show ?thesis
    by (simp add: networks_resolved_def nw.commit_table delete_one_keys
        nb.commit_table DeleteNetworksByIDs_def empty_writer_def working_def)
qed


section \<open>What an accepted binding guarantees\<close>

lemma exists_service_iff:
  "db_good db \<Longrightarrow> rid_Name i \<noteq> [] \<Longrightarrow>
   ServiceValidator_ValidateExists (mem_reader (committed db)) i = None \<longleftrightarrow>
     (\<exists>s. GetServiceByID (mem_reader (committed db)) i = Inr s)"
  using rd_svc.validate_exists_iff [of "committed db" i "NewServiceValidator (mem_reader (committed db))"]
  by (simp add: ServiceValidator_ValidateExists_def)

lemma exists_group_iff:
  "db_good db \<Longrightarrow> rid_Name i \<noteq> [] \<Longrightarrow>
   AddressGroupValidator_ValidateExists (mem_reader (committed db)) i = None \<longleftrightarrow>
     (\<exists>s. GetAddressGroupByID (mem_reader (committed db)) i = Inr s)"
  using rd_ag.validate_exists_iff [of "committed db" i "NewAddressGroupValidator (mem_reader (committed db))"]
  by (simp add: AddressGroupValidator_ValidateExists_def)

lemma committed_policies:
  "ns \<noteq> [] \<Longrightarrow> mem_ListAddressGroupBindingPolicies (committed db)
     (Some (ResourceIdentifierScope [ResourceIdentifier [] ns])) =
   (filter (\<lambda>p. Namespace p = ns) (map snd (GetAddressGroupBindingPolicies db)), None)"
  by (simp add: mem_ListAddressGroupBindingPolicies_def list_table_namespace)

lemma binding_creation_parts:
  assumes "AddressGroupBindingValidator_ValidateForCreation rd b = None"
  obtains svc ag where "GetServiceByID rd (ref_id (agb_ServiceRef b)) = Inr svc"
    and "GetAddressGroupByID rd (ref_id (agb_AddressGroupRef b)) = Inr ag"
    and "Namespace ag \<noteq> Namespace b \<longrightarrow>
      check_policy (\<lambda>e. Errorf (''failed to check for binding policies: '' @ error_text e))
        (no_policy_error ag b) rd (Namespace ag) b = None"
    and "\<forall>m. GetAddressGroupPortMappingByID rd (ref_id (agb_AddressGroupRef b)) = Inr m \<longrightarrow>
      CheckPortOverlaps svc m = None"
    and "Namespace b \<noteq> []" and "ref_Name (agb_ServiceRef b) \<noteq> []" and "ref_Name (agb_AddressGroupRef b) \<noteq> []"
proof -
  from assms have ne: "Namespace b \<noteq> []" "ref_Name (agb_ServiceRef b) \<noteq> []" "ref_Name (agb_AddressGroupRef b) \<noteq> []"
    by (auto simp: AddressGroupBindingValidator_ValidateForCreation_def split: if_splits)
  with assms have rest: "(case GetServiceByID rd (ref_id (agb_ServiceRef b)) of Inl e \<Rightarrow> Some (Errorf (''failed to get service for port conflict validation: '' @ error_text e))
     | Inr svc \<Rightarrow> (case GetAddressGroupByID rd (ref_id (agb_AddressGroupRef b)) of
            Inl e \<Rightarrow> Some (Errorf (''failed to get address group for namespace validation: '' @ error_text e))
          | Inr ag \<Rightarrow> and_then
                (if Namespace ag \<noteq> Namespace b
                 then check_policy (\<lambda>e. Errorf (''failed to check for binding policies: '' @ error_text e))
                        (no_policy_error ag b) rd (Namespace ag) b else None)
                (case GetAddressGroupPortMappingByID rd (ref_id (agb_AddressGroupRef b)) of
                   Inl _ \<Rightarrow> None
                 | Inr m \<Rightarrow> (case CheckPortOverlaps svc m of None \<Rightarrow> None
                      | Some e \<Rightarrow> Some (Errorf (''port conflict detected: '' @ error_text e)))))) = None"
    by (simp add: AddressGroupBindingValidator_ValidateForCreation_def)
  then obtain svc ag where "GetServiceByID rd (ref_id (agb_ServiceRef b)) = Inr svc"
      "GetAddressGroupByID rd (ref_id (agb_AddressGroupRef b)) = Inr ag"
    by (auto split: sum.splits)
  with rest ne that [of svc ag] show thesis
    by (auto split: sum.splits option.splits if_splits)
qed

end
