(* ===== verification/Samples.thy ===== *)
theory Samples
  imports MemReader
begin

text \<open>
  Small concrete objects, at which the theorems with hypotheses are applied: a namespace
  \<^verbatim>\<open>app\<close> with services, address groups, rules and networks, and a database that holds one
  service, one address group and one rule.
\<close>

definition ex_meta :: meta where
  "ex_meta = empty_meta\<lparr>UID := ''uid'', ResourceVersion := ''1'', Generation := 1,
     Conditions := [\<lparr> cond_Type = ConditionReady, cond_Status = ''True'', cond_ObservedGeneration = 1,
       cond_LastTransitionTime = At 0, cond_Reason = ''Ready'', cond_Message = [] \<rparr>]\<rparr>"

definition ex_ref :: "string \<Rightarrow> nref" where
  "ex_ref n = \<lparr> ref_APIVersion = ''netguard.sgroups.io/v1beta1'', ref_Kind = ''Object'', ref_Name = n,
     ref_Namespace = ''app'' \<rparr>"

definition ex_port :: "string \<Rightarrow> ingress_port" where
  "ex_port p = \<lparr> ip_Protocol = ''TCP'', ip_Port = p, ip_Description = [] \<rparr>"

definition ex_service :: "string \<Rightarrow> string list \<Rightarrow> string list \<Rightarrow> service" where
  "ex_service n groups ports =
     \<lparr> Name = n, Namespace = ''app'', Meta = ex_meta, svc_Description = [],
       svc_IngressPorts = map ex_port ports, svc_AddressGroups = [],
       svc_AggregatedAddressGroups =
         map (\<lambda>g. \<lparr> agr_Ref = ex_ref g, agr_Source = ''binding'' \<rparr>) groups \<rparr>"

definition ex_group :: "string \<Rightarrow> address_group" where
  "ex_group n =
     \<lparr> Name = n, Namespace = ''app'', Meta = ex_meta, ag_DefaultAction = ''ACCEPT'', ag_Logs = False,
       ag_Trace = False, ag_Networks = [], ag_AddressGroupName = [], ag_Hosts = [],
       ag_AggregatedHosts = [] \<rparr>"

definition ex_binding :: "string \<Rightarrow> string \<Rightarrow> string \<Rightarrow> address_group_binding" where
  "ex_binding n s g =
     \<lparr> Name = n, Namespace = ''app'', Meta = ex_meta, agb_ServiceRef = ex_ref s,
       agb_AddressGroupRef = ex_ref g \<rparr>"

definition ex_rule :: "string \<Rightarrow> string \<Rightarrow> string \<Rightarrow> rule_s2s" where
  "ex_rule n l t =
     \<lparr> Name = n, Namespace = ''app'', Meta = ex_meta, rs_Traffic = ''INGRESS'',
       rs_ServiceLocalRef = ex_ref l, rs_ServiceRef = ex_ref t, rs_IEAgAgRuleRefs = [],
       rs_Trace = False \<rparr>"

definition ex_ie_rule :: "string \<Rightarrow> string \<Rightarrow> ieagag_rule" where
  "ex_ie_rule n ports =
     \<lparr> Name = n, Namespace = ''app'', Meta = ex_meta, ie_Transport = ''TCP'', ie_Traffic = ''INGRESS'',
       ie_AddressGroupLocal = ex_ref ''front'', ie_AddressGroup = ex_ref ''back'',
       ie_Ports = [\<lparr> ps_Source = [], ps_Destination = ports \<rparr>], ie_Action = ''ACCEPT'',
       ie_Logs = True, ie_Trace = False, ie_Priority = 100 \<rparr>"

definition ex_network :: "string \<Rightarrow> string \<Rightarrow> network" where
  "ex_network n cidr =
     \<lparr> Name = n, Namespace = ''app'', Meta = ex_meta, nw_CIDR = cidr, nw_NetworkName = n,
       nw_IsBound = False, nw_BindingRef = None, nw_AddressGroupRef = None \<rparr>"

definition ex_env :: env where
  "ex_env = \<lparr> env_uuid = (\<lambda>_. ''uuid''), env_clock = int, env_reads = 0 \<rparr>"

definition ex_db :: mem_db where
  "ex_db = NewMemDB\<lparr>
     db_services := [(''app/web'', ex_service ''web'' [''front''] [''80''])],
     db_addressGroups := [(''app/front'', ex_group ''front'')],
     db_ruleS2S := [(''app/r1'', ex_rule ''r1'' ''web'' ''web'')],
     db_ieAgAgRules := [(''app/kept'', ex_ie_rule ''kept'' ''80'')],
     db_networks := [(''app/n1'', ex_network ''n1'' ''10.0.0.0/24'')]\<rparr>"

lemmas ex_defs = ex_meta_def ex_ref_def ex_port_def ex_service_def ex_group_def ex_binding_def
  ex_rule_def ex_ie_rule_def ex_network_def ex_env_def empty_meta_def

lemma ex_Key [simp]:
  "Key (ex_service n gs ps) = ''app/'' @ n" "Key (ex_group n) = ''app/'' @ n"
  "Key (ex_binding n s g) = ''app/'' @ n" "Key (ex_rule n l t) = ''app/'' @ n"
  "Key (ex_ie_rule n p) = ''app/'' @ n" "Key (ex_network n c) = ''app/'' @ n"
  by (simp_all add: Key_def ex_defs)

lemma ex_fields [simp]:
  "ref_Name (ex_ref n) = n" "ref_Namespace (ex_ref n) = ''app''"
  "ip_Protocol (ex_port p) = ''TCP''" "ip_Port (ex_port p) = p"
  "Name (ex_service n gs ps) = n" "Namespace (ex_service n gs ps) = ''app''"
  "svc_IngressPorts (ex_service n gs ps) = map ex_port ps"
  "svc_AddressGroups (ex_service n gs ps) = []"
  "map agr_Ref (svc_AggregatedAddressGroups (ex_service n gs ps)) = map ex_ref gs"
  "rs_Traffic (ex_rule n l t) = ''INGRESS''" "rs_ServiceLocalRef (ex_rule n l t) = ex_ref l"
  "rs_ServiceRef (ex_rule n l t) = ex_ref t" "Namespace (ex_rule n l t) = ''app''"
  "rs_Trace (ex_rule n l t) = False"
  by (simp_all add: ex_defs)

lemma ex_service_groups [simp]: "(ex_service n gs ps)\<lparr>svc_AddressGroups := []\<rparr> = ex_service n gs ps"
  by (simp add: ex_service_def)

lemma ex_ready [simp]: "IsReady (Meta (ex_rule n l t))"
  by (simp add: ex_defs IsReady_def IsConditionTrue_def GetCondition_def)

lemma ex_db_good [simp]: "db_good ex_db"
  by (simp add: db_good_def table_good_def table_ok_def table_filled_def meta_filled_def
      ex_db_def NewMemDB_def) (simp add: ex_defs)

lemma ex_uuids_nonempty [simp]: "uuids_nonempty ex_env"
  by (simp add: uuids_nonempty_def ex_env_def)

lemma ex_tables:
  "GetServices ex_db = [(''app/web'', ex_service ''web'' [''front''] [''80''])]"
  "GetServiceAliases ex_db = []"
  "GetAddressGroups ex_db = [(''app/front'', ex_group ''front'')]"
  "GetAddressGroupBindings ex_db = []"
  "GetAddressGroupPortMappings ex_db = []"
  "GetAddressGroupBindingPolicies ex_db = []"
  "GetRuleS2S ex_db = [(''app/r1'', ex_rule ''r1'' ''web'' ''web'')]"
  "GetIEAgAgRules ex_db = [(''app/kept'', ex_ie_rule ''kept'' ''80'')]"
  "GetNetworks ex_db = [(''app/n1'', ex_network ''n1'' ''10.0.0.0/24'')]"
  "GetNetworkBindings ex_db = []" "GetHosts ex_db = []" "GetHostBindings ex_db = []"
  by (simp_all add: db_access_defs ex_db_def NewMemDB_def)

end
