(* ===== verification/AggregationProperties.thy ===== *)
theory AggregationProperties
  imports AggregationFacts Integrity Samples
begin

text \<open>
  The properties of rule aggregation and of the recalculation, with concrete engines at which
  they are applied, and the lemmas only they need: the shape of generated names, the table
  reached by a set of operations, the rules found for a service.
\<close>

section \<open>A concrete engine\<close>

definition ex_engine :: "mem_db \<Rightarrow> engine" where
  "ex_engine db = \<lparr> eng_reg = \<lparr> reg_db = db, reg_closed = False \<rparr>, eng_env = ex_env, eng_synced = [],
     eng_syncManager = False, eng_conditionManager = True \<rparr>"

lemma ex_engine_fields [simp]:
  "reg_closed (eng_reg (ex_engine db)) = False" "reg_db (eng_reg (ex_engine db)) = db"
  by (simp_all add: ex_engine_def)

lemmas services_eval = getServicesForRuleWithReader_def eng_reader_def ex_engine_def mem_GetServiceByID_def
  populateServiceAddressGroups_def mem_ListAddressGroupBindings_def reader_table_def list_table_all
  local_id_def target_id_def rid_Key_def with_bound_groups_def bound_groups_def

lemmas contributing_eval = findContributingRuleS2S_def mem_readers_eq checkIfRuleContributes_def
  getServicesForRule_def combination_string Let_def extractPortStringsFromService_def
  to_lower_traffic [unfolded INGRESS_def]

lemma ex_services_of_rule:
  "getServicesForRuleWithReader (eng_reader None (ex_engine ex_db)) (ex_rule ''r1'' ''web'' ''web'') =
     Inr (ex_service ''web'' [''front''] [''80''], ex_service ''web'' [''front''] [''80''])"
  by (simp add: services_eval ex_tables)

lemma ex_combinations:
  "combinations ''INGRESS'' (ex_service ''web'' [''front''] [''80'']) (ex_service ''web'' [''front''] [''80'']) =
     [((ex_ref ''front'', ex_ref ''front''), ''TCP'')]"
  by (simp add: combinations_def address_group_pairs_def protocols_of_def ports_source_def INGRESS_def ex_service_def)

lemma ex_contributing:
  "findContributingRuleS2S (mem_readers (eng_reg (ex_engine ex_db))) (ex_rule ''r1'' ''web'' ''web'')
      (ex_service ''web'' [''front''] [''80'']) (ex_service ''web'' [''front''] [''80'']) [] ''TCP'' =
    Inr [\<lparr> cr_RuleS2S = ex_rule ''r1'' ''web'' ''web'', cr_Ports = [''80''] \<rparr>]"
  by (simp add: contributing_eval ex_tables ex_services_of_rule ex_combinations)

lemma ex_stored: "stored_rules (ex_engine ex_db) = [(''app/kept'', ex_ie_rule ''kept'' ''80'')]"
  by (simp add: stored_rules_def ex_tables)

section \<open>Generation\<close>

text \<open>
  C1: The generation of aggregated rules, which walks over the rules, the pairs of address groups
  and the protocols with a set of processed combinations and deletes orphans on the way,
  computes the function \<open>spec_aggregate\<close> of the stored objects; the expected keys are the keys
  of the new rules; services, bindings and rules are as before.\<close>
theorem aggregation_refines_spec:
  "agn_new (generateAggregatedIEAgAgRules w rules ids s) = spec_aggregate w rules (map rid_Key ids) s \<and>
   set (agn_expected (generateAggregatedIEAgAgRules w rules ids s)) =
     Key ` set (agn_new (generateAggregatedIEAgAgRules w rules ids s)) \<and>
   agg_inputs (agn_engine (generateAggregatedIEAgAgRules w rules ids s)) = agg_inputs s"
  by (simp add: generate_eq_spec)

text \<open>
  C2: Every generated rule is justified: it belongs to a Ready rule that was asked for and not
  excluded, connects address groups of that rule's services, lists exactly the ports of the
  contributing rules, sorted and without repetition, and is traced when all of them are. At most one rule is
  generated for a direction, pair of address groups and protocol.\<close>
theorem aggregation_sound:
  "list_all (justified w rules (map rid_Key ids) s) (agn_new (generateAggregatedIEAgAgRules w rules ids s)) \<and>
   distinct (map rule_combination (agn_new (generateAggregatedIEAgAgRules w rules ids s)))"
  by (simp add: list_all_iff generate_eq_spec spec_aggregate_justified spec_aggregate_distinct)

text \<open>
  C3: Every Ready rule that is stored and asked for is covered: for each pair of address groups of
  its services and each port of the receiving service there is a generated rule for the pair
  and the port's protocol that opens the port.\<close>
theorem aggregation_complete:
  assumes "\<not> reg_closed (eng_reg s)"
    and "\<forall>v\<in>snd ` set (GetServices (reg_db (eng_reg s))). bar_free v"
    and "\<forall>x\<in>set rules. rs_Traffic x \<in> {INGRESS, EGRESS}"
    and "r \<in> set rules" and "r \<in> snd ` set (GetRuleS2S (reg_db (eng_reg s)))"
    and "Key r \<notin> set (map rid_Key ids)" and "IsReady (Meta r)"
    and "getServicesForRuleWithReader (eng_reader None s) r = Inr (l, t)"
    and "lag \<in> agr_Ref ` set (svc_AggregatedAddressGroups l)"
    and "tag \<in> agr_Ref ` set (svc_AggregatedAddressGroups t)"
    and "port \<in> set (svc_IngressPorts (ports_source (rs_Traffic r) l t))"
  shows "\<exists>g\<in>set (agn_new (generateAggregatedIEAgAgRules None rules ids s)). \<exists>ports.
    ie_Traffic g = rs_Traffic r \<and> ie_Transport g = ip_Protocol port \<and>
    addressGroupRefKey (ie_AddressGroupLocal g) = addressGroupRefKey lag \<and>
    addressGroupRefKey (ie_AddressGroup g) = addressGroupRefKey tag \<and>
    ie_Ports g = [\<lparr> ps_Source = [], ps_Destination = join '','' ports \<rparr>] \<and> ip_Port port \<in> set ports"
  unfolding generate_eq_spec
  by (rule spec_aggregate_covers [OF assms(1-8) _ assms(11) refl])
    (use assms(9-11) in \<open>auto simp: combinations_iff\<close>)

theorem aggregation_complete_witness:
  "\<exists>g\<in>set (agn_new (generateAggregatedIEAgAgRules None [ex_rule ''r1'' ''web'' ''web''] [] (ex_engine ex_db))).
    \<exists>ports. ie_Traffic g = ''INGRESS'' \<and> ie_Transport g = ''TCP'' \<and>
    addressGroupRefKey (ie_AddressGroupLocal g) = ''app/front'' \<and>
    addressGroupRefKey (ie_AddressGroup g) = ''app/front'' \<and>
    ie_Ports g = [\<lparr> ps_Source = [], ps_Destination = join '','' ports \<rparr>] \<and> ''80'' \<in> set ports"
  using aggregation_complete [of "ex_engine ex_db" "[ex_rule ''r1'' ''web'' ''web'']" "ex_rule ''r1'' ''web'' ''web''" "[]",
      OF _ _ _ _ _ _ _ ex_services_of_rule, of "ex_ref ''front''" "ex_ref ''front''" "ex_port ''80''"]
  by (simp add: ex_engine_def ex_tables bar_free_def addressGroupRefKey_def INGRESS_def ports_source_def)
    (simp add: ex_service_def)

subsection \<open>Where the generation deviates from its intent\<close>

text \<open>
  Names are built from the address groups' names only. Two ingress rules of a local group
  for target groups of the same name in different namespaces get the same key although they
  are different combinations, so one overwrites the other in the store.\<close>
theorem generated_keys_collide:
  assumes "rs_Traffic r = INGRESS" and "ref_Name t1 = ref_Name t2" and "ref_Namespace t1 \<noteq> ref_Namespace t2"
  shows "Key (aggregated_rule r l t1 p ports1 tr1) = Key (aggregated_rule r l t2 p ports2 tr2) \<and>
    rule_combination (aggregated_rule r l t1 p ports1 tr1) \<noteq> rule_combination (aggregated_rule r l t2 p ports2 tr2)"
  using assms
  by (simp add: aggregated_rule_def Key_def rule_combination_def combination_key_def addressGroupRefKey_def)

theorem generated_keys_collide_witness:
  "Key (aggregated_rule (ex_rule ''r1'' ''web'' ''web'') (ex_ref ''front'') (ex_ref ''db'') ''TCP'' [''80''] True) =
   Key (aggregated_rule (ex_rule ''r1'' ''web'' ''web'') (ex_ref ''front'') ((ex_ref ''db'')\<lparr>ref_Namespace := ''ops''\<rparr>) ''TCP'' [''443''] True)"
  using generated_keys_collide [of "ex_rule ''r1'' ''web'' ''web''" "ex_ref ''db''" "(ex_ref ''db'')\<lparr>ref_Namespace := ''ops''\<rparr>"
      "ex_ref ''front''" "''TCP''" "[''80'']" True "[''443'']" True]
  by (simp add: ex_rule_def ex_ref_def INGRESS_def)

text \<open>
  Rule r1 connects service a (groups x1 and x2, port 80) with t, rule r2 connects service b
  (group x1, port 443) with t.
\<close>

definition leak_db :: mem_db where
  "leak_db = NewMemDB\<lparr>
     db_services := [(''app/a'', ex_service ''a'' [''x1'', ''x2''] [''80'']),
                     (''app/b'', ex_service ''b'' [''x1''] [''443'']),
                     (''app/t'', ex_service ''t'' [''y''] [])],
     db_ruleS2S := [(''app/r1'', ex_rule ''r1'' ''a'' ''t''), (''app/r2'', ex_rule ''r2'' ''b'' ''t'')]\<rparr>"

lemma leak_tables:
  "GetServices leak_db = [(''app/a'', ex_service ''a'' [''x1'', ''x2''] [''80'']),
     (''app/b'', ex_service ''b'' [''x1''] [''443'']), (''app/t'', ex_service ''t'' [''y''] [])]"
  "GetAddressGroupBindings leak_db = []"
  "GetRuleS2S leak_db = [(''app/r1'', ex_rule ''r1'' ''a'' ''t''), (''app/r2'', ex_rule ''r2'' ''b'' ''t'')]"
  by (simp_all add: db_access_defs leak_db_def NewMemDB_def)

lemma leak_services:
  "getServicesForRuleWithReader (eng_reader None (ex_engine leak_db)) (ex_rule ''r1'' ''a'' ''t'') =
     Inr (ex_service ''a'' [''x1'', ''x2''] [''80''], ex_service ''t'' [''y''] [])"
  "getServicesForRuleWithReader (eng_reader None (ex_engine leak_db)) (ex_rule ''r2'' ''b'' ''t'') =
     Inr (ex_service ''b'' [''x1''] [''443''], ex_service ''t'' [''y''] [])"
  by (simp_all add: services_eval leak_tables)

lemma leak_combinations:
  "combinations ''INGRESS'' (ex_service ''a'' [''x1'', ''x2''] [''80'']) (ex_service ''t'' [''y''] []) =
     [((ex_ref ''x1'', ex_ref ''y''), ''TCP''), ((ex_ref ''x2'', ex_ref ''y''), ''TCP'')]"
  "combinations ''INGRESS'' (ex_service ''b'' [''x1''] [''443'']) (ex_service ''t'' [''y''] []) =
     [((ex_ref ''x1'', ex_ref ''y''), ''TCP'')]"
  by (simp_all add: combinations_def address_group_pairs_def protocols_of_def ports_source_def INGRESS_def ex_service_def ex_port_def)

lemma leak_contributing:
  "findContributingRuleS2S (mem_readers (eng_reg (ex_engine leak_db))) (ex_rule ''r1'' ''a'' ''t'')
      (ex_service ''a'' [''x1'', ''x2''] [''80'']) (ex_service ''t'' [''y''] []) [] ''TCP'' =
    Inr [\<lparr> cr_RuleS2S = ex_rule ''r1'' ''a'' ''t'', cr_Ports = [''80''] \<rparr>,
         \<lparr> cr_RuleS2S = ex_rule ''r2'' ''b'' ''t'', cr_Ports = [''443''] \<rparr>]"
  by (simp add: contributing_eval leak_tables leak_services leak_combinations)

lemma leak_items:
  "work_items None [] (ex_engine leak_db) [ex_rule ''r1'' ''a'' ''t'', ex_rule ''r2'' ''b'' ''t''] =
     [(ex_rule ''r1'' ''a'' ''t'', ex_service ''a'' [''x1'', ''x2''] [''80''], ex_service ''t'' [''y''] [],
         ex_ref ''x1'', ex_ref ''y'', ''TCP''),
      (ex_rule ''r1'' ''a'' ''t'', ex_service ''a'' [''x1'', ''x2''] [''80''], ex_service ''t'' [''y''] [],
         ex_ref ''x2'', ex_ref ''y'', ''TCP''),
      (ex_rule ''r2'' ''b'' ''t'', ex_service ''b'' [''x1''] [''443''], ex_service ''t'' [''y''] [],
         ex_ref ''x1'', ex_ref ''y'', ''TCP'')]"
  by (simp add: work_items_def leak_services leak_combinations)

text \<open>
  A rule contributes its ports to every pair of another rule as soon as the two share one
  combination. Here the service of rule r2 has port 443 and only the group x1, and yet the
  rule generated for x2 opens port 443 beside the port 80 of rule r1.\<close>
theorem ports_reach_foreign_groups:
  "\<exists>g\<in>set (agn_new (generateAggregatedIEAgAgRules None
       [ex_rule ''r1'' ''a'' ''t'', ex_rule ''r2'' ''b'' ''t''] [] (ex_engine leak_db))).
     ie_AddressGroupLocal g = ex_ref ''x2'' \<and> map ps_Destination (ie_Ports g) = [''443,80'']"
proof -
  have "sort [''80'', ''443''] = [''443'', ''80'']" by code_simp
  then show ?thesis
    by (simp add: generate_eq_spec spec_aggregate_def map_filter_simps leak_items item_key_def
        combination_key_def addressGroupRefKey_def item_rule_def leak_contributing
        aggregatePortsWithProtocol_def aggregated_rule_def del: sort_key_simps)
qed

section \<open>Names of generated rules\<close>

definition lower_hex :: string where "lower_hex = ''0123456789abcdef''"

lemma hex_digit_lower: "d < 16 \<Longrightarrow> hex_digit d \<in> set lower_hex"
proof -
  have "list_all (\<lambda>d. hex_digit d \<in> set lower_hex) [0..<16]" by code_simp
  then show "d < 16 \<Longrightarrow> hex_digit d \<in> set lower_hex" by (simp add: list_all_iff)
qed

lemma hex_chars: "\<forall>b\<in>set bs. b < 256 \<Longrightarrow> set (hex bs) \<subseteq> set lower_hex"
  by (auto simp: hex_def intro!: hex_digit_lower)

lemma hash_part_chars: "set (hex (take n (drop m (sha256 msg)))) \<subseteq> set lower_hex"
  by (rule hex_chars) (meson in_set_dropD in_set_takeD sha256_bytes)

text \<open>The names Kubernetes accepts as labels of a domain name.\<close>

definition label_chars :: string where "label_chars = ''abcdefghijklmnopqrstuvwxyz0123456789-''"

definition dns_label :: "string \<Rightarrow> bool" where
  "dns_label s \<longleftrightarrow> s \<noteq> [] \<and> length s \<le> 63 \<and>
     list_all (\<lambda>c. c \<in> set label_chars) s \<and>
     hd s \<noteq> CHR ''-'' \<and> last s \<noteq> CHR ''-''"

lemma uuid_text_shape:
  "length (uuid_text (sha256 msg)) = 36"
  "set (uuid_text (sha256 msg)) \<subseteq> insert (CHR ''-'') (set lower_hex)"
  "last (uuid_text (sha256 msg)) \<in> set lower_hex"
proof -
  show "length (uuid_text (sha256 msg)) = 36" by (simp add: uuid_text_def length_sha256)
  show "set (uuid_text (sha256 msg)) \<subseteq> insert (CHR ''-'') (set lower_hex)"
    using hash_part_chars [of 4 0 msg] hash_part_chars [of 2 _ msg] hash_part_chars [of 6 10 msg]
    unfolding uuid_text_def by (auto simp del: drop_drop take_drop)
  have "hex (take 6 (drop 10 (sha256 msg))) \<noteq> []"
    using length_hex [of "take 6 (drop 10 (sha256 msg))"] length_sha256 [of msg] by fastforce
  then show "last (uuid_text (sha256 msg)) \<in> set lower_hex"
    using hash_part_chars [of 6 10 msg] by (auto simp: uuid_text_def)
qed

lemma label_chars_dash: "CHR ''-'' \<in> set label_chars"
  by (simp add: label_chars_def)

lemma lower_hex_chars: "set lower_hex \<subseteq> set label_chars - {CHR ''-''}"
  by (simp add: lower_hex_def label_chars_def)

lemma named_by_hash:
  assumes "length pre = 3" and "set pre \<subseteq> set label_chars" and "hd pre \<noteq> CHR ''-''"
  shows "dns_label (pre @ ''-'' @ uuid_text (sha256 msg)) \<and> length (pre @ ''-'' @ uuid_text (sha256 msg)) = 40"
proof -
  have "pre \<noteq> []" "uuid_text (sha256 msg) \<noteq> []"
    using assms(1) uuid_text_shape(1) [of msg] by auto
  moreover have "last (uuid_text (sha256 msg)) \<noteq> CHR ''-''"
    using uuid_text_shape(3) [of msg] lower_hex_chars by blast
  moreover have "set (uuid_text (sha256 msg)) \<subseteq> set label_chars"
    using uuid_text_shape(2) [of msg] lower_hex_chars label_chars_dash by blast
  ultimately show ?thesis
    using assms uuid_text_shape(1) [of msg] label_chars_dash by (auto simp: dns_label_def list_all_iff)
qed

text \<open>
  C36: The name of a generated rule is a valid DNS label of 40 characters, whatever the names of
  the address groups: three letters of the direction, a dash and the first sixteen bytes of
  the hash printed like a UUID.\<close>
theorem generated_names_valid:
  "dns_label (generateRuleName INGRESS l t p) \<and> dns_label (generateRuleName EGRESS l t p) \<and>
   length (generateRuleName INGRESS l t p) = 40 \<and> length (generateRuleName EGRESS l t p) = 40"
  using named_by_hash [of "''ing''"] named_by_hash [of "''egr''"]
  by (simp add: generateRuleName_def Let_def label_chars_def)

section \<open>Operations and recalculation\<close>

definition ports_of_rule :: "ieagag_rule \<Rightarrow> string list" where
  "ports_of_rule r = map ps_Destination (ie_Ports r)"

lemma put_items_entry:
  assumes "x \<in> set xs" and "\<And>y. y \<in> set xs \<Longrightarrow> Key y = Key x \<Longrightarrow> y = x"
  shows "map_of (put_items xs t) (Key x) = Some x"
proof -
  have "map_of (rev (map (\<lambda>x. (Key x, x)) xs)) (Key x) \<noteq> None"
    using assms(1) by (auto simp: map_of_eq_None_iff image_image)
  then obtain y where y: "map_of (rev (map (\<lambda>x. (Key x, x)) xs)) (Key x) = Some y" by blast
  then have "y \<in> set xs" "Key y = Key x" by (auto dest!: map_of_SomeD)
  with assms(2) y show ?thesis by (simp add: map_of_put_items)
qed

text \<open>The operations, by the rules of a well-formed table and fresh rules with different keys.\<close>

lemma operations_of_table:
  assumes "table_ok t" and "distinct (map Key fresh)"
  defines "ops \<equiv> calculateRuleOperations (map snd t) fresh"
  shows "x \<in> set (toCreate ops) \<longleftrightarrow> x \<in> set fresh \<and> Key x \<notin> fst ` set t"
    and "x \<in> set (toUpdate ops) \<longleftrightarrow> x \<in> set fresh \<and> (\<exists>old. map_of t (Key x) = Some old \<and> needsUpdate old x)"
    and "x \<in> set (toDelete ops) \<longleftrightarrow> x \<in> snd ` set t \<and> Key x \<notin> Key ` set fresh"
proof -
  have "snd ` set (put_items fresh []) = set fresh" by (simp add: put_items_distinct [OF assms(2)] image_image)
  moreover have "Key ` set (map snd t) = fst ` set t" using assms(1) by (force simp: table_ok_def image_image)
  ultimately show "x \<in> set (toCreate ops) \<longleftrightarrow> x \<in> set fresh \<and> Key x \<notin> fst ` set t"
    "x \<in> set (toUpdate ops) \<longleftrightarrow> x \<in> set fresh \<and> (\<exists>old. map_of t (Key x) = Some old \<and> needsUpdate old x)"
    "x \<in> set (toDelete ops) \<longleftrightarrow> x \<in> snd ` set t \<and> Key x \<notin> Key ` set fresh"
    by (simp_all add: ops_def operations_iff put_items_values [OF assms(1)])
qed

lemma operations_at_key:
  assumes ok: "table_ok t" and dist: "distinct (map Key fresh)" and x: "x \<in> set fresh"
  defines "ops \<equiv> calculateRuleOperations (map snd t) fresh"
  defines "t' \<equiv> put_items (toCreate ops @ toUpdate ops) (delete_keys (map Key (toDelete ops)) t)"
  shows "map_option ports_of_rule (map_of t' (Key x)) = map_option ports_of_rule (map_of (put_items fresh []) (Key x))"
proof -
  note ops_iff = operations_of_table [OF ok dist, folded ops_def]
  have same: "y = x" if "y \<in> set fresh" "Key y = Key x" for y
    using that dist x by (auto simp: distinct_map dest: inj_onD)
  have fresh: "map_of (put_items fresh []) (Key x) = Some x" by (rule put_items_entry [OF x same])
  show ?thesis
  proof (cases "x \<in> set (toCreate ops @ toUpdate ops)")
    case True
    then have "map_of t' (Key x) = Some x" unfolding t'_def by (rule put_items_entry) (use same in \<open>auto simp: ops_iff\<close>)
    with fresh show ?thesis by simp
  next
    case False
    then have "Key x \<in> fst ` set t" using x by (auto simp: ops_iff)
    then obtain v where v: "map_of t (Key x) = Some v" by (metis map_of_eq_None_iff not_None_eq)
    have gone: "Key y \<notin> Key ` set fresh" if "y \<in> set (toDelete ops)" for y using that by (simp add: ops_iff(3))
    have sub: "y \<in> set fresh" if "y \<in> set (toCreate ops @ toUpdate ops)" for y using that by (auto simp: ops_iff)
    have "Key x \<notin> Key ` set (toCreate ops @ toUpdate ops)" using False same sub by (metis imageE)
    moreover have "\<not> needsUpdate v x" using v False x by (simp add: ops_iff)
    moreover have "Key x \<notin> Key ` set (toDelete ops)" using x gone by (metis imageE imageI)
    ultimately show ?thesis
      using v fresh by (simp add: t'_def put_items_frame lookup_delete_keys needsUpdate_iff ports_of_rule_def)
  qed
qed

lemma operations_elsewhere:
  assumes ok: "table_ok t" and dist: "distinct (map Key fresh)" and k: "k \<notin> Key ` set fresh"
  defines "ops \<equiv> calculateRuleOperations (map snd t) fresh"
  shows "map_of (put_items (toCreate ops @ toUpdate ops) (delete_keys (map Key (toDelete ops)) t)) k = None"
    and "map_of (put_items fresh []) k = None"
proof -
  note ops_iff = operations_of_table [OF ok dist, folded ops_def]
  have "k \<notin> Key ` set (toCreate ops @ toUpdate ops)" using k by (auto simp: ops_iff)
  moreover have "k \<in> Key ` set (toDelete ops)" if "map_of t k = Some v" for v
    using table_ok_lookup [OF ok that] that k by (auto simp: ops_iff table_ok_values [OF ok])
  ultimately show "map_of (put_items (toCreate ops @ toUpdate ops) (delete_keys (map Key (toDelete ops)) t)) k = None"
    by (cases "map_of t k") (simp_all add: put_items_frame lookup_delete_keys)
  show "map_of (put_items fresh []) k = None" using k by (simp add: map_of_eq_None_iff put_items_keys)
qed

text \<open>
  C20: The computed operations are the right ones: deleting, creating and updating as they say
  turns a well-formed table of rules into one that has the fresh rules' keys and, for each
  key, the fresh destination ports.\<close>
theorem operations_reach_fresh:
  assumes ok: "table_ok t" and dist: "distinct (map Key fresh)"
  shows "let ops = calculateRuleOperations (map snd t) fresh;
      t' = put_items (toCreate ops @ toUpdate ops) (delete_keys (map Key (toDelete ops)) t)
    in (\<lambda>k. map_option ports_of_rule (map_of t' k)) =
       (\<lambda>k. map_option ports_of_rule (map_of (put_items fresh []) k))"
proof -
  let ?ops = "calculateRuleOperations (map snd t) fresh"
  have "map_option ports_of_rule (map_of (put_items (toCreate ?ops @ toUpdate ?ops) (delete_keys (map Key (toDelete ?ops)) t)) k) =
      map_option ports_of_rule (map_of (put_items fresh []) k)" for k
    by (cases "k \<in> Key ` set fresh") (auto simp: operations_at_key [OF ok dist] operations_elsewhere [OF ok dist])
  then show ?thesis by (auto simp: Let_def)
qed

theorem operations_reach_fresh_witness:
  "let ops = calculateRuleOperations (map snd [(''app/kept'', ex_ie_rule ''kept'' ''80'')])
         [ex_ie_rule ''kept'' ''443'', ex_ie_rule ''new'' ''80''];
      t' = put_items (toCreate ops @ toUpdate ops)
        (delete_keys (map Key (toDelete ops)) [(''app/kept'', ex_ie_rule ''kept'' ''80'')])
    in (\<lambda>k. map_option ports_of_rule (map_of t' k)) =
       (\<lambda>k. map_option ports_of_rule (map_of (put_items [ex_ie_rule ''kept'' ''443'', ex_ie_rule ''new'' ''80''] []) k))"
  by (rule operations_reach_fresh) (simp_all add: table_ok_def)

text \<open>
  A stored rule with one of the two directions contributes its own ports to each of its
  combinations, so that the generation of the rules has nothing to clean up.
\<close>

lemma own_ports:
  assumes "\<not> reg_closed (eng_reg s)" and "r \<in> snd ` set (GetRuleS2S (reg_db (eng_reg s)))" "IsReady (Meta r)"
    and "Key r \<notin> set ex" "rs_Traffic r \<in> {INGRESS, EGRESS}" "getServicesForRuleWithReader (eng_reader None s) r = Inr (l, t)"
    and "((lag, tag), p) \<in> set (combinations (rs_Traffic r) l t)"
    and "findContributingRuleS2S (mem_readers (eng_reg s)) r l t ex p = Inr crs"
  shows "aggregatePortsWithProtocol crs \<noteq> []"
proof -
  let ?ps = "extractPortStringsFromService (ports_source (rs_Traffic r) l t) p"
  have src: "(if to_lower (rs_Traffic r) = ''ingress'' then l else t) = ports_source (rs_Traffic r) l t"
    using assms(5) by (auto simp: ports_source_def to_lower_traffic INGRESS_def [symmetric])
  obtain port where port: "port \<in> set (svc_IngressPorts (ports_source (rs_Traffic r) l t))" "ip_Protocol port = p"
    using assms(7) by (auto simp: combinations_iff)
  then have in_ps: "ip_Port port \<in> set ?ps" by (auto simp: extractPortStringsFromService_def)
  have "shares_combination (rs_Traffic r) l t l t" using same_key_shares [OF assms(7,7)] by blast
  then have "contributes_to s ex r l t p r ?ps"
    unfolding contributes_to_def src [symmetric] using assms(2-4,6) in_ps src by auto
  then have "\<lparr> cr_RuleS2S = r, cr_Ports = ?ps \<rparr> \<in> set crs"
    using findContributing_open [OF assms(1), of r l t ex p] assms(8) by auto
  with in_ps have "ip_Port port \<in> set (aggregatePortsWithProtocol crs)"
    unfolding aggregatePorts_props by force
  then show ?thesis by auto
qed

lemma fold_keeps: "(\<And>x a. x \<in> set xs \<Longrightarrow> P a \<Longrightarrow> P (f x a)) \<Longrightarrow> P a \<Longrightarrow> P (fold f xs a)"
  by (induction xs arbitrary: a) auto

lemma generate_cleans_nothing:
  assumes opn: "\<not> reg_closed (eng_reg s)" and stored: "set rules \<subseteq> snd ` set (GetRuleS2S (reg_db (eng_reg s)))"
    and traffics: "\<forall>r\<in>set rules. rs_Traffic r \<in> {INGRESS, EGRESS}"
  shows "agn_engine (generateAggregatedIEAgAgRules None rules ids s) = s"
proof -
  let ?ex = "map rid_Key ids"
  have combination: "agn_engine (aggregate_combination None ?ex r l t c a) = s"
    if "r \<in> set rules" "IsReady (Meta r)" "Key r \<notin> set ?ex" "getServicesForRuleWithReader (eng_reader None s) r = Inr (l, t)"
      "c \<in> set (combinations (rs_Traffic r) l t)" "agn_engine a = s" for r l t c a
  proof -
    obtain lag tag p where c: "c = ((lag, tag), p)" by (metis prod.exhaust)
    have "aggregatePortsWithProtocol crs \<noteq> []"
      if "findContributingRuleS2S (mem_readers (eng_reg s)) r l t ?ex p = Inr crs" for crs
      by (rule own_ports [OF opn _ _ _ _ _ _ that, of lag tag])
        (use \<open>r \<in> set rules\<close> stored traffics \<open>IsReady (Meta r)\<close> \<open>Key r \<notin> set ?ex\<close>
          \<open>getServicesForRuleWithReader (eng_reader None s) r = Inr (l, t)\<close> \<open>c \<in> _\<close> c in auto)
    with \<open>agn_engine a = s\<close> show ?thesis by (auto simp: aggregate_combination_def c Let_def split: sum.splits)
  qed
  have "agn_engine (aggregate_rule None ?ex r a) = s" if "r \<in> set rules" "agn_engine a = s" for r a
  proof (cases "getServicesForRuleWithReader (eng_reader None s) r")
    case (Inr lt)
    obtain l t where "lt = (l, t)" by (cases lt)
    with Inr have "agn_engine (fold (aggregate_combination None ?ex r l t) (combinations (rs_Traffic r) l t) a) = s"
      if "IsReady (Meta r)" "Key r \<notin> set ?ex"
      using combination [OF \<open>r \<in> set rules\<close> that, of l t] \<open>agn_engine a = s\<close>
      by (intro fold_keeps [where P = "\<lambda>a. agn_engine a = s"]) simp_all
    with that Inr \<open>lt = (l, t)\<close> show ?thesis by (simp add: aggregate_rule_def)
  qed (use that in \<open>simp add: aggregate_rule_def\<close>)
  then show ?thesis
    unfolding generateAggregatedIEAgAgRules_def
    by (intro fold_keeps [where P = "\<lambda>a. agn_engine a = s"]) auto
qed

text \<open>The operations a recalculation arrives at.\<close>

definition recalculation :: "engine \<Rightarrow> rule_operations" where
  "recalculation s = calculateRuleOperations (map snd (stored_rules s))
     (spec_aggregate None (map snd (GetRuleS2S (reg_db (eng_reg s)))) [] s)"

text \<open>
  C21: A recalculation on an open registry whose rules between services are all INGRESS or EGRESS
  succeeds. When it has anything to create or to update, the stored rules afterwards are the
  created and the updated ones only: the write replaces the whole table, and the rules that needed
  no change are gone. When it has nothing to create or to update, they are the rules that were
  stored before, without those to be deleted.\<close>
theorem recalculation_result:
  assumes opn: "\<not> reg_closed (eng_reg s)" and ok: "table_ok (stored_rules s)"
    and traffics: "\<forall>r\<in>snd ` set (GetRuleS2S (reg_db (eng_reg s))). rs_Traffic r \<in> {INGRESS, EGRESS}"
  shows "fst (RecalculateAllAffectedIEAgAgRules reason s) = None \<and>
    abs_table (stored_rules (snd (RecalculateAllAffectedIEAgAgRules reason s))) =
      (if toCreate (recalculation s) @ toUpdate (recalculation s) \<noteq> []
       then abs_batch (toCreate (recalculation s) @ toUpdate (recalculation s))
       else abs_table (stored_rules s) |` (- Key ` set (toDelete (recalculation s))))"
proof -
  let ?rules = "map snd (GetRuleS2S (reg_db (eng_reg s)))"
  have clean: "agn_engine (generateAggregatedIEAgAgRules None ?rules [] s) = s"
    using traffics by (intro generate_cleans_nothing [OF opn]) auto
  have "RecalculateAllAffectedIEAgAgRules reason s =
      (wrap_err (''failed to execute rule operations for reason: '' @ reason) (fst (executeRuleOperations (recalculation s) s)),
       snd (executeRuleOperations (recalculation s) s))"
    using opn clean
    by (simp add: RecalculateAllAffectedIEAgAgRules_def Reader_def mem_ListIEAgAgRules_def mem_ListRuleS2S_def
        reader_table_def list_table_all generate_eq_spec recalculation_def stored_rules_def split_beta Let_def)
  with execute_changes [OF opn _ ok] execute_deletes [OF opn] show ?thesis by (simp add: wrap_err_def)
qed

lemma ex_fresh_key:
  "Key (aggregated_rule (ex_rule ''r1'' ''web'' ''web'') (ex_ref ''front'') (ex_ref ''front'') ''TCP'' ps tr) \<noteq> ''app/kept''"
  by (simp add: aggregated_rule_def Key_def INGRESS_def generateRuleName_def Let_def
      to_lower_traffic [unfolded INGRESS_def])

lemma ex_recalculation:
  "recalculation (ex_engine ex_db) =
     \<lparr> toCreate = [aggregated_rule (ex_rule ''r1'' ''web'' ''web'') (ex_ref ''front'') (ex_ref ''front'') ''TCP'' [''80''] False],
       toUpdate = [], toDelete = [ex_ie_rule ''kept'' ''80''] \<rparr>"
proof -
  have spec: "spec_aggregate None [ex_rule ''r1'' ''web'' ''web''] [] (ex_engine ex_db) =
      [aggregated_rule (ex_rule ''r1'' ''web'' ''web'') (ex_ref ''front'') (ex_ref ''front'') ''TCP'' [''80''] False]"
    by (simp add: spec_aggregate_def map_filter_simps work_items_def ex_services_of_rule item_rule_def
        ex_contributing aggregatePortsWithProtocol_def aggregateTraceValue_def ex_combinations)
  then show ?thesis
    by (simp add: recalculation_def ex_tables spec calculateRuleOperations_def ex_stored put_items_def
        ex_fresh_key ex_fresh_key [symmetric])
qed

text \<open>With no rule between services left, there is only something to delete.\<close>

definition ex_bare_db :: mem_db where "ex_bare_db = ex_db\<lparr>db_ruleS2S := []\<rparr>"

lemma ex_bare_tables:
  "GetRuleS2S ex_bare_db = []" "stored_rules (ex_engine ex_bare_db) = [(''app/kept'', ex_ie_rule ''kept'' ''80'')]"
  by (simp_all add: ex_bare_db_def GetRuleS2S_def stored_rules_def GetIEAgAgRules_def ex_db_def NewMemDB_def)

lemma ex_recalculation_deletes:
  "recalculation (ex_engine ex_bare_db) = \<lparr> toCreate = [], toUpdate = [], toDelete = [ex_ie_rule ''kept'' ''80''] \<rparr>"
  by (simp add: recalculation_def ex_bare_tables spec_aggregate_def work_items_def map_filter_simps
      calculateRuleOperations_def put_items_def)

theorem recalculation_result_witness:
  "abs_table (stored_rules (snd (RecalculateAllAffectedIEAgAgRules ''test'' (ex_engine ex_db)))) ''app/kept'' = None \<and>
   abs_table (stored_rules (snd (RecalculateAllAffectedIEAgAgRules ''test'' (ex_engine ex_bare_db)))) ''app/kept'' = None"
proof
  show "abs_table (stored_rules (snd (RecalculateAllAffectedIEAgAgRules ''test'' (ex_engine ex_db)))) ''app/kept'' = None"
    using recalculation_result [of "ex_engine ex_db" "''test''"]
    by (simp add: ex_recalculation ex_stored table_ok_def abs_batch_def ex_fresh_key ex_fresh_key [symmetric] ex_tables
        INGRESS_def [symmetric])
  show "abs_table (stored_rules (snd (RecalculateAllAffectedIEAgAgRules ''test'' (ex_engine ex_bare_db)))) ''app/kept'' = None"
    using recalculation_result [of "ex_engine ex_bare_db" "''test''"]
    by (simp add: ex_recalculation_deletes ex_bare_tables table_ok_def)
qed

section \<open>Rules that belong to a service\<close>

lemma put_items_set:
  assumes "\<And>x y. x \<in> set xs \<Longrightarrow> y \<in> set xs \<Longrightarrow> Key x = Key y \<Longrightarrow> x = y"
  shows "snd ` set (put_items xs []) = set xs"
proof -
  have entry: "map_of (put_items xs []) (Key v) = Some v" if "v \<in> set xs" for v
    using that assms by (intro put_items_entry) auto
  have "map_of (put_items xs []) (Key v) = Some v \<longleftrightarrow> v \<in> set xs" for v
    using entry put_items_lookup_key [of xs "Key v" v] by force
  then show ?thesis using table_ok_values [OF put_items_ok, of _ xs] by blast
qed

lemma findAllRelated_committed:
  "findAllRelatedRuleS2S (mem_reader (committed db)) i =
     Inr (filter (\<lambda>r. \<exists>a\<in>snd ` set (GetServiceAliases db).
        refers_to (sa_ServiceRef a) (rid_Name i) (rid_Namespace i) \<and>
        (refers_to (rs_ServiceRef r) (Name a) (Namespace a) \<or>
         refers_to (rs_ServiceLocalRef r) (Name a) (Namespace a))) (map snd (GetRuleS2S db)))"
  by (simp add: findAllRelatedRuleS2S_def mem_ListServiceAliases_def mem_ListRuleS2S_def list_table_all
      fold_snoc list_ex_iff refers_to_def)

lemma related_rules_committed:
  "related_rules (mem_reader (committed db)) ids acc =
     Inr (acc @ concat (map (\<lambda>i. projr (findAllRelatedRuleS2S (mem_reader (committed db)) i)) ids))"
  by (induction ids arbitrary: acc) (simp_all add: findAllRelated_committed)

text \<open>
  The rules found for a set of services are, without repetition, the stored rules whose
  service references name an alias of one of the services. A rule that references the
  service itself, as the data model says it does, is not found when there is no alias.\<close>
theorem related_rules_by_alias:
  assumes "db_good db"
  shows "\<exists>found. FindRuleS2SForServicesWithReader (mem_reader (committed db)) ids = Inr found \<and>
    set found = {r \<in> snd ` set (GetRuleS2S db). \<exists>i\<in>set ids. \<exists>a\<in>snd ` set (GetServiceAliases db).
       refers_to (sa_ServiceRef a) (rid_Name i) (rid_Namespace i) \<and>
       (refers_to (rs_ServiceRef r) (Name a) (Namespace a) \<or>
        refers_to (rs_ServiceLocalRef r) (Name a) (Namespace a))}"
proof -
  have eq: "x = y" if "x \<in> snd ` set (GetRuleS2S db)" "y \<in> snd ` set (GetRuleS2S db)" "Key x = Key y" for x y
    using that table_ok_values [OF db_good_ok(1) [OF assms]] by (metis option.inject)
  show ?thesis
    unfolding FindRuleS2SForServicesWithReader_def related_rules_committed findAllRelated_committed
    by (simp, subst put_items_set) (use eq in auto)
qed

theorem related_rules_by_alias_witness:
  "FindRuleS2SForServicesWithReader (mem_reader (committed ex_db)) [ResourceIdentifier ''web'' ''app''] = Inr [] \<and>
   refers_to (rs_ServiceRef (ex_rule ''r1'' ''web'' ''web'')) ''web'' ''app''"
  using related_rules_by_alias [OF ex_db_good, of "[ResourceIdentifier ''web'' ''app'']"]
  by (simp add: ex_tables refers_to_def ex_rule_def ex_ref_def)

end
