(* ===== verification/StoreProperties.thy ===== *)
theory StoreProperties
  imports Samples
begin

text \<open>
  The properties of the in-memory repository: what a committed write leaves behind, what
  concurrent writers do to each other, what every reachable state satisfies, and what readers
  return.
\<close>

section \<open>Writes\<close>

lemma db_good_tables:
  assumes "db_good db"
  shows "table_ok (GetServices db)"
    "table_ok (GetServiceAliases db)"
    "table_ok (GetAddressGroups db)"
    "table_ok (GetAddressGroupBindings db)"
    "table_ok (GetAddressGroupPortMappings db)"
    "table_ok (GetAddressGroupBindingPolicies db)"
    "table_ok (GetRuleS2S db)"
    "table_ok (GetIEAgAgRules db)"
    "table_ok (GetNetworks db)"
    "table_ok (GetNetworkBindings db)"
    "table_ok (GetHosts db)"
    "table_ok (GetHostBindings db)"
  using assms by (simp_all add: db_good_def table_good_def db_access_defs)

text \<open>
  C5: For each of the twelve kinds, synchronising a batch and committing refines the abstract
  operation on the key-to-payload map: a full synchronisation replaces what the scope covers,
  an upsert overrides by key, a delete removes the batch's keys, anything else changes nothing.\<close>
theorem sync_commit_refines_spec:
  assumes "db_good db"
  shows "abs_table (GetServices (fst (Commit e' db (fst (SyncServices e db xs1 sc opts empty_writer))))) =
      spec_sync (select_sync_op opts) (abs_batch xs1) (scope_keys sc) (abs_table (GetServices db)) \<and>
    abs_table (GetServiceAliases (fst (Commit e' db (fst (SyncServiceAliases e db xs2 sc opts empty_writer))))) =
      spec_sync (select_sync_op opts) (abs_batch xs2) (scope_keys sc) (abs_table (GetServiceAliases db)) \<and>
    abs_table (GetAddressGroups (fst (Commit e' db (fst (SyncAddressGroups e db xs3 sc opts empty_writer))))) =
      spec_sync (select_sync_op opts) (abs_batch xs3) (scope_keys sc) (abs_table (GetAddressGroups db)) \<and>
    abs_table (GetAddressGroupBindings (fst (Commit e' db (fst (SyncAddressGroupBindings e db xs4 sc opts empty_writer))))) =
      spec_sync (select_sync_op opts) (abs_batch xs4) (scope_keys sc) (abs_table (GetAddressGroupBindings db)) \<and>
    abs_table (GetAddressGroupPortMappings (fst (Commit e' db (fst (SyncAddressGroupPortMappings e db xs5 sc opts empty_writer))))) =
      spec_sync (select_sync_op opts) (abs_batch xs5) (scope_keys sc) (abs_table (GetAddressGroupPortMappings db)) \<and>
    abs_table (GetAddressGroupBindingPolicies (fst (Commit e' db (fst (SyncAddressGroupBindingPolicies e db xs6 sc opts empty_writer))))) =
      spec_sync (select_sync_op opts) (abs_batch xs6) (scope_keys sc) (abs_table (GetAddressGroupBindingPolicies db)) \<and>
    abs_table (GetRuleS2S (fst (Commit e' db (fst (SyncRuleS2S e db xs7 sc opts empty_writer))))) =
      spec_sync (select_sync_op opts) (abs_batch xs7) (scope_keys sc) (abs_table (GetRuleS2S db)) \<and>
    abs_table (GetIEAgAgRules (fst (Commit e' db (fst (SyncIEAgAgRules e db xs8 sc opts empty_writer))))) =
      spec_sync (select_sync_op opts) (abs_batch xs8) (scope_keys sc) (abs_table (GetIEAgAgRules db)) \<and>
    abs_table (GetNetworks (fst (Commit e' db (fst (SyncNetworks e db xs9 sc opts empty_writer))))) =
      spec_sync (select_sync_op opts) (abs_batch xs9) (scope_keys sc) (abs_table (GetNetworks db)) \<and>
    abs_table (GetNetworkBindings (fst (Commit e' db (fst (SyncNetworkBindings e db xs10 sc opts empty_writer))))) =
      spec_sync (select_sync_op opts) (abs_batch xs10) (scope_keys sc) (abs_table (GetNetworkBindings db)) \<and>
    abs_table (GetHosts (fst (Commit e' db (fst (SyncHosts e db xs11 sc opts empty_writer))))) =
      spec_sync (select_sync_op opts) (abs_batch xs11) (scope_keys sc) (abs_table (GetHosts db)) \<and>
    abs_table (GetHostBindings (fst (Commit e' db (fst (SyncHostBindings e db xs12 sc opts empty_writer))))) =
      spec_sync (select_sync_op opts) (abs_batch xs12) (scope_keys sc) (abs_table (GetHostBindings db))"
  by (intro conjI)
    (rule svc.commit_sync, rule db_good_tables, rule assms, rule sal.commit_sync, rule db_good_tables, rule assms, rule ag.commit_sync, rule db_good_tables, rule assms, rule agb.commit_sync, rule db_good_tables, rule assms, rule agpm.commit_sync, rule db_good_tables, rule assms, rule agbp.commit_sync, rule db_good_tables, rule assms, rule rs.commit_sync, rule db_good_tables, rule assms, rule ie.commit_sync, rule db_good_tables, rule assms, rule nw.commit_sync, rule db_good_tables, rule assms, rule nb.commit_sync, rule db_good_tables, rule assms, rule ho.commit_sync, rule db_good_tables, rule assms, rule hb.commit_sync, rule db_good_tables, rule assms)

theorem sync_commit_refines_spec_witness:
  "abs_table (GetRuleS2S (fst (Commit ex_env ex_db (fst (SyncRuleS2S ex_env ex_db
       [ex_rule ''r2'' ''web'' ''web''] None [] empty_writer))))) =
     [''app/r2'' \<mapsto> payload (ex_rule ''r2'' ''web'' ''web'')]"
  using sync_commit_refines_spec [OF ex_db_good, of ex_env ex_env "[]" None "[]" "[]" "[]" "[]" "[]" "[]"
      "[ex_rule ''r2'' ''web'' ''web'']" "[]" "[]" "[]" "[]" "[]"]
  by (simp add: spec_sync_def select_sync_op_def scope_keys_def abs_batch_def)

lemma upsert_one_payload: "map_option payload (map_of (fst (upsert_items e [x] t)) (Key x)) = Some (payload x)"
  using abs_upsert_items [of e "[x]" t] by (simp add: abs_table_def abs_batch_def fun_eq_iff)

text \<open>
  For each of the twelve kinds, deleting by identifiers and committing removes exactly the
  entries with these keys; an aborted writer that is committed after all changes nothing but
  the time stamp of the last synchronisation.\<close>
theorem delete_and_abort_exact:
  "(fst (Commit e db (Abort w)))\<lparr>db_syncStatus := db_syncStatus db\<rparr> = db \<and>
   abs_table (GetServices (fst (Commit e db (DeleteServicesByIDs db ids empty_writer)))) =
     abs_table (GetServices db) |` (- rid_Key ` set ids) \<and>
   abs_table (GetServiceAliases (fst (Commit e db (DeleteServiceAliasesByIDs db ids empty_writer)))) =
     abs_table (GetServiceAliases db) |` (- rid_Key ` set ids) \<and>
   abs_table (GetAddressGroups (fst (Commit e db (DeleteAddressGroupsByIDs db ids empty_writer)))) =
     abs_table (GetAddressGroups db) |` (- rid_Key ` set ids) \<and>
   abs_table (GetAddressGroupBindings (fst (Commit e db (DeleteAddressGroupBindingsByIDs db ids empty_writer)))) =
     abs_table (GetAddressGroupBindings db) |` (- rid_Key ` set ids) \<and>
   abs_table (GetAddressGroupPortMappings (fst (Commit e db (DeleteAddressGroupPortMappingsByIDs db ids empty_writer)))) =
     abs_table (GetAddressGroupPortMappings db) |` (- rid_Key ` set ids) \<and>
   abs_table (GetAddressGroupBindingPolicies (fst (Commit e db (DeleteAddressGroupBindingPoliciesByIDs db ids empty_writer)))) =
     abs_table (GetAddressGroupBindingPolicies db) |` (- rid_Key ` set ids) \<and>
   abs_table (GetRuleS2S (fst (Commit e db (DeleteRuleS2SByIDs db ids empty_writer)))) =
     abs_table (GetRuleS2S db) |` (- rid_Key ` set ids) \<and>
   abs_table (GetIEAgAgRules (fst (Commit e db (DeleteIEAgAgRulesByIDs db ids empty_writer)))) =
     abs_table (GetIEAgAgRules db) |` (- rid_Key ` set ids) \<and>
   abs_table (GetNetworks (fst (Commit e db (DeleteNetworksByIDs db ids empty_writer)))) =
     abs_table (GetNetworks db) |` (- rid_Key ` set ids) \<and>
   abs_table (GetNetworkBindings (fst (Commit e db (DeleteNetworkBindingsByIDs db ids empty_writer)))) =
     abs_table (GetNetworkBindings db) |` (- rid_Key ` set ids) \<and>
   abs_table (GetHosts (fst (Commit e db (DeleteHostsByIDs db ids empty_writer)))) =
     abs_table (GetHosts db) |` (- rid_Key ` set ids) \<and>
   abs_table (GetHostBindings (fst (Commit e db (DeleteHostBindingsByIDs db ids empty_writer)))) =
     abs_table (GetHostBindings db) |` (- rid_Key ` set ids)"
  by (intro conjI, cases db, simp add: store_simps working_def)
    (simp_all add: abs_delete_keys svc.db_commit svc.view_del svc.view_new sal.db_commit sal.view_del sal.view_new ag.db_commit ag.view_del ag.view_new agb.db_commit agb.view_del agb.view_new agpm.db_commit agpm.view_del agpm.view_new agbp.db_commit agbp.view_del agbp.view_new rs.db_commit rs.view_del rs.view_new ie.db_commit ie.view_del ie.view_new nw.db_commit nw.view_del nw.view_new nb.db_commit nb.view_del nb.view_new ho.db_commit ho.view_del ho.view_new hb.db_commit hb.view_del hb.view_new)

text \<open>
  An upserted object without a UID takes over the UID of the stored object with its key and,
  unless it has one, the creation time; this holds for every kind but the binding policies,
  all of which are written by this function.\<close>
theorem upsert_keeps_identity:
  assumes "drp \<in> {drop_by_key, drop_by_value}" and "select_sync_op opts = SyncOpUpsert"
    and "map_of t (Key x) = Some old" and "UID (Meta x) = []" and "UID (Meta old) \<noteq> []"
  shows "\<exists>new. map_of (fst (sync_table drp e [x] sc opts t)) (Key x) = Some new \<and>
    payload new = payload x \<and> UID (Meta new) = UID (Meta old) \<and>
    CreationTS (Meta new) =
      (if CreationTS (Meta x) = ZeroTime then CreationTS (Meta old) else CreationTS (Meta x))"
proof -
  from sync_table_keeps_identity [OF assms(2-5), of drp e sc] obtain new
    where new: "map_of (fst (sync_table drp e [x] sc opts t)) (Key x) = Some new"
      "UID (Meta new) = UID (Meta old)"
      "CreationTS (Meta new) =
        (if CreationTS (Meta x) = ZeroTime then CreationTS (Meta old) else CreationTS (Meta x))" by blast
  from new(1) have "payload new = payload x"
    unfolding sync_upsert [OF assms(2)] using upsert_one_payload [of e x t] by simp
  with new show ?thesis by blast
qed

theorem upsert_keeps_identity_witness:
  "\<exists>new. map_of (fst (sync_table drop_by_key ex_env [(ex_rule ''r1'' ''api'' ''web'')\<lparr>Meta := empty_meta\<rparr>]
       None [SyncOption SyncOpUpsert] (GetRuleS2S ex_db))) ''app/r1'' = Some new \<and> UID (Meta new) = ''uid''"
  using upsert_keeps_identity [of drop_by_key "[SyncOption SyncOpUpsert]" "GetRuleS2S ex_db"
      "(ex_rule ''r1'' ''api'' ''web'')\<lparr>Meta := empty_meta\<rparr>" "ex_rule ''r1'' ''web'' ''web''" ex_env None]
  by (auto simp: ex_tables select_sync_op_def empty_meta_def ex_rule_def ex_meta_def Key_def)

section \<open>Writers against each other\<close>

text \<open>
  Of two writers on the same database that both changed the services, the one that commits
  last wins the whole table: what the first one committed there is lost.\<close>
theorem last_commit_wins:
  assumes "w_services w2 \<noteq> None"
  shows "GetServices (fst (Commit e2 (fst (Commit e1 db w1)) w2)) = GetServices (fst (Commit e2 db w2))"
  using assms by (rule svc.commit_overwrites)

theorem last_commit_wins_witness:
  "\<exists>w1 w2. w1 = fst (SyncServices ex_env ex_db [ex_service ''a'' [] []] None [SyncOption SyncOpUpsert] empty_writer) \<and>
     w2 = fst (SyncServices ex_env ex_db [ex_service ''b'' [] []] None [SyncOption SyncOpUpsert] empty_writer) \<and>
     GetServices (fst (Commit ex_env (fst (Commit ex_env ex_db w1)) w2)) = GetServices (fst (Commit ex_env ex_db w2))"
  by (intro exI conjI, rule refl, rule refl, rule last_commit_wins) (simp add: svc.sync_table_of)

text \<open>
  Writers that changed different kinds can commit in either order with the same result,
  except for the time stamp.\<close>
theorem disjoint_commits_commute:
  assumes "touch_disjoint a b"
  shows "(fst (Commit e2 (fst (Commit e1 db a)) b))\<lparr>db_syncStatus := s\<rparr> =
         (fst (Commit e4 (fst (Commit e3 db b)) a))\<lparr>db_syncStatus := s\<rparr>"
  using assms by (rule commit_commute)

theorem disjoint_commits_commute_witness:
  "(fst (Commit ex_env (fst (Commit ex_env ex_db (DeleteServicesByIDs ex_db [ResourceIdentifier ''web'' ''app''] empty_writer)))
        (DeleteNetworksByIDs ex_db [ResourceIdentifier ''n1'' ''app''] empty_writer)))\<lparr>db_syncStatus := ZeroTime\<rparr> =
   (fst (Commit ex_env (fst (Commit ex_env ex_db (DeleteNetworksByIDs ex_db [ResourceIdentifier ''n1'' ''app''] empty_writer)))
        (DeleteServicesByIDs ex_db [ResourceIdentifier ''web'' ''app''] empty_writer)))\<lparr>db_syncStatus := ZeroTime\<rparr>"
  by (rule disjoint_commits_commute)
    (simp add: touch_disjoint_def DeleteServicesByIDs_def DeleteNetworksByIDs_def empty_writer_def)



text \<open>
  An upserted binding policy is stored as it came, without the metadata that every other
  kind is given on the way in.\<close>
theorem policy_upsert_raw:
  "map_of (GetAddressGroupBindingPolicies (fst (Commit e' db (fst (SyncAddressGroupBindingPolicies e db [p] sc
       [SyncOption SyncOpUpsert] empty_writer))))) (Key p) = Some p"
  by (simp add: agbp.db_commit agbp.view_sync agbp.view_new sync_upsert select_sync_op_def put_items_def table_simps)

section \<open>Reads\<close>

text \<open>
  For each of the twelve kinds, listing and looking up agree: an object is in the full
  listing exactly when looking up its identifier returns it.\<close>
theorem list_and_get_agree:
  assumes "reader_good r"
  shows "(v1 \<in> set (fst (mem_ListServices r None)) \<longleftrightarrow> mem_GetServiceByID r (self_id v1) = Inr v1) \<and>
    (v2 \<in> set (fst (mem_ListServiceAliases r None)) \<longleftrightarrow> mem_GetServiceAliasByID r (self_id v2) = Inr v2) \<and>
    (v3 \<in> set (fst (mem_ListAddressGroups r None)) \<longleftrightarrow> mem_GetAddressGroupByID r (self_id v3) = Inr v3) \<and>
    (v4 \<in> set (fst (mem_ListAddressGroupBindings r None)) \<longleftrightarrow> mem_GetAddressGroupBindingByID r (self_id v4) = Inr v4) \<and>
    (v5 \<in> set (fst (mem_ListAddressGroupPortMappings r None)) \<longleftrightarrow> mem_GetAddressGroupPortMappingByID r (self_id v5) = Inr v5) \<and>
    (v6 \<in> set (fst (mem_ListAddressGroupBindingPolicies r None)) \<longleftrightarrow> mem_GetAddressGroupBindingPolicyByID r (self_id v6) = Inr v6) \<and>
    (v7 \<in> set (fst (mem_ListRuleS2S r None)) \<longleftrightarrow> mem_GetRuleS2SByID r (self_id v7) = Inr v7) \<and>
    (v8 \<in> set (fst (mem_ListIEAgAgRules r None)) \<longleftrightarrow> mem_GetIEAgAgRuleByID r (self_id v8) = Inr v8) \<and>
    (v9 \<in> set (fst (mem_ListNetworks r None)) \<longleftrightarrow> mem_GetNetworkByID r (self_id v9) = Inr v9) \<and>
    (v10 \<in> set (fst (mem_ListNetworkBindings r None)) \<longleftrightarrow> mem_GetNetworkBindingByID r (self_id v10) = Inr v10) \<and>
    (v11 \<in> set (fst (mem_ListHosts r None)) \<longleftrightarrow> mem_GetHostByID r (self_id v11) = Inr v11) \<and>
    (v12 \<in> set (fst (mem_ListHostBindings r None)) \<longleftrightarrow> mem_GetHostBindingByID r (self_id v12) = Inr v12)"
  by (intro conjI) (rule rd_svc.list_get [OF assms], rule rd_sal.list_get [OF assms], rule rd_ag.list_get [OF assms], rule rd_agb.list_get [OF assms], rule rd_agpm.list_get [OF assms], rule rd_agbp.list_get [OF assms], rule rd_rs.list_get [OF assms], rule rd_ie.list_get [OF assms], rule rd_nw.list_get [OF assms], rule rd_nb.list_get [OF assms], rule rd_ho.list_get [OF assms], rule rd_hb.list_get [OF assms])

theorem list_and_get_agree_witness:
  "mem_GetNetworkByID \<lparr> rd_db = ex_db, rd_writer = None \<rparr> (ResourceIdentifier ''n1'' ''app'') =
     Inr (ex_network ''n1'' ''10.0.0.0/24'')"
proof -
  have "reader_good \<lparr> rd_db = ex_db, rd_writer = None \<rparr>" by (simp add: reader_good_def)
  from list_and_get_agree [OF this, of _ _ _ _ _ _ _ _ "ex_network ''n1'' ''10.0.0.0/24''"]
  show ?thesis
    by (simp add: mem_ListNetworks_def reader_table_def list_table_all ex_tables self_id_def ex_network_def)
qed

text \<open>
  A reader made from a writer sees the writer's uncommitted upsert; a reader of the registry
  returns what it returned before.\<close>
theorem own_writes_visible:
  "let w = fst (SyncRuleS2S e db [x] sc [SyncOption SyncOpUpsert] empty_writer) in
    \<exists>v. payload v = payload x \<and>
      mem_GetRuleS2SByID \<lparr> rd_db = db, rd_writer = Some w \<rparr> =
        (\<lambda>i. if rid_Key i = Key x then Inr v
             else mem_GetRuleS2SByID \<lparr> rd_db = db, rd_writer = None \<rparr> i)"
proof -
  have sel: "select_sync_op [SyncOption SyncOpUpsert] = SyncOpUpsert" by (simp add: select_sync_op_def)
  define t where "t = fst (upsert_items e [x] (GetRuleS2S db))"
  obtain v where v: "map_of t (Key x) = Some v" "payload v = payload x"
    using upsert_one_payload [of e x "GetRuleS2S db"] by (auto simp: t_def)
  have other: "k \<noteq> Key x \<Longrightarrow> map_of t k = map_of (GetRuleS2S db) k" for k
    using upsert_items_frame [of k "[x]" e "GetRuleS2S db"] by (simp add: t_def)
  have "w_ruleS2S (fst (SyncRuleS2S e db [x] sc [SyncOption SyncOpUpsert] empty_writer)) = Some t"
    by (simp only: rs.sync_table_of sync_upsert [OF sel] t_def) (simp add: working_def empty_writer_def)
  with v other show ?thesis
    by (auto simp: Let_def mem_GetRuleS2SByID_def reader_table_def get_by_id_def fun_eq_iff intro!: exI [of _ v])
qed

end
