(* ===== verification/ValidationProperties.thy ===== *)
theory ValidationProperties
  imports Integrity Samples
begin

text \<open>
  The properties of the validators: what the existence checks, the port checks and the creation
  and update checks decide.
\<close>

section \<open>Existence\<close>

text \<open>
  For each of the ten validated kinds, on a well-formed reader, the existence check accepts
  an identifier exactly when the look-up finds an object, and the creation check accepts it
  exactly when the look-up reports that there is none.\<close>
theorem existence_checks_exact:
  assumes "reader_good r" and "rid_Name i \<noteq> []"
  shows "(ValidateExists (NewServiceValidator (mem_reader r)) i Key = None \<longleftrightarrow> (\<exists>x. mem_GetServiceByID r i = Inr x)) \<and>
    (ValidateEntityDoesNotExistForCreation (NewServiceValidator (mem_reader r)) i Key = None \<longleftrightarrow> mem_GetServiceByID r i = Inl ErrNotFound) \<and>
    (ValidateExists (NewAddressGroupValidator (mem_reader r)) i Key = None \<longleftrightarrow> (\<exists>x. mem_GetAddressGroupByID r i = Inr x)) \<and>
    (ValidateEntityDoesNotExistForCreation (NewAddressGroupValidator (mem_reader r)) i Key = None \<longleftrightarrow> mem_GetAddressGroupByID r i = Inl ErrNotFound) \<and>
    (ValidateExists (NewAddressGroupBindingValidator (mem_reader r)) i Key = None \<longleftrightarrow> (\<exists>x. mem_GetAddressGroupBindingByID r i = Inr x)) \<and>
    (ValidateEntityDoesNotExistForCreation (NewAddressGroupBindingValidator (mem_reader r)) i Key = None \<longleftrightarrow> mem_GetAddressGroupBindingByID r i = Inl ErrNotFound) \<and>
    (ValidateExists (NewServiceAliasValidator (mem_reader r)) i Key = None \<longleftrightarrow> (\<exists>x. mem_GetServiceAliasByID r i = Inr x)) \<and>
    (ValidateEntityDoesNotExistForCreation (NewServiceAliasValidator (mem_reader r)) i Key = None \<longleftrightarrow> mem_GetServiceAliasByID r i = Inl ErrNotFound) \<and>
    (ValidateExists (NewRuleS2SValidator (mem_reader r)) i Key = None \<longleftrightarrow> (\<exists>x. mem_GetRuleS2SByID r i = Inr x)) \<and>
    (ValidateEntityDoesNotExistForCreation (NewRuleS2SValidator (mem_reader r)) i Key = None \<longleftrightarrow> mem_GetRuleS2SByID r i = Inl ErrNotFound) \<and>
    (ValidateExists (NewAddressGroupPortMappingValidator (mem_reader r)) i Key = None \<longleftrightarrow> (\<exists>x. mem_GetAddressGroupPortMappingByID r i = Inr x)) \<and>
    (ValidateEntityDoesNotExistForCreation (NewAddressGroupPortMappingValidator (mem_reader r)) i Key = None \<longleftrightarrow> mem_GetAddressGroupPortMappingByID r i = Inl ErrNotFound) \<and>
    (ValidateExists (NewAddressGroupBindingPolicyValidator (mem_reader r)) i Key = None \<longleftrightarrow> (\<exists>x. mem_GetAddressGroupBindingPolicyByID r i = Inr x)) \<and>
    (ValidateEntityDoesNotExistForCreation (NewAddressGroupBindingPolicyValidator (mem_reader r)) i Key = None \<longleftrightarrow> mem_GetAddressGroupBindingPolicyByID r i = Inl ErrNotFound) \<and>
    (ValidateExists (NewIEAgAgRuleValidator (mem_reader r)) i Key = None \<longleftrightarrow> (\<exists>x. mem_GetIEAgAgRuleByID r i = Inr x)) \<and>
    (ValidateEntityDoesNotExistForCreation (NewIEAgAgRuleValidator (mem_reader r)) i Key = None \<longleftrightarrow> mem_GetIEAgAgRuleByID r i = Inl ErrNotFound) \<and>
    (ValidateExists (NewNetworkValidator (mem_reader r)) i Key = None \<longleftrightarrow> (\<exists>x. mem_GetNetworkByID r i = Inr x)) \<and>
    (ValidateEntityDoesNotExistForCreation (NewNetworkValidator (mem_reader r)) i Key = None \<longleftrightarrow> mem_GetNetworkByID r i = Inl ErrNotFound) \<and>
    (ValidateExists (NewNetworkBindingValidator (mem_reader r)) i Key = None \<longleftrightarrow> (\<exists>x. mem_GetNetworkBindingByID r i = Inr x)) \<and>
    (ValidateEntityDoesNotExistForCreation (NewNetworkBindingValidator (mem_reader r)) i Key = None \<longleftrightarrow> mem_GetNetworkBindingByID r i = Inl ErrNotFound)"
  by (intro conjI)
    (rule rd_svc.validate_exists_iff [OF assms], simp, rule rd_svc.not_exists_get [OF assms], simp,
     rule rd_ag.validate_exists_iff [OF assms], simp, rule rd_ag.not_exists_get [OF assms], simp,
     rule rd_agb.validate_exists_iff [OF assms], simp, rule rd_agb.not_exists_get [OF assms], simp,
     rule rd_sal.validate_exists_iff [OF assms], simp, rule rd_sal.not_exists_get [OF assms], simp,
     rule rd_rs.validate_exists_iff [OF assms], simp, rule rd_rs.not_exists_get [OF assms], simp,
     rule rd_agpm.validate_exists_iff [OF assms], simp, rule rd_agpm.not_exists_get [OF assms], simp,
     rule rd_agbp.validate_exists_iff [OF assms], simp, rule rd_agbp.not_exists_get [OF assms], simp,
     rule rd_ie.validate_exists_iff [OF assms], simp, rule rd_ie.not_exists_get [OF assms], simp,
     rule rd_nw.validate_exists_iff [OF assms], simp, rule rd_nw.not_exists_get [OF assms], simp,
     rule rd_nb.validate_exists_iff [OF assms], simp, rule rd_nb.not_exists_get [OF assms], simp)

theorem existence_checks_exact_witness:
  "ValidateExists (NewServiceValidator (mem_reader (committed ex_db))) (ResourceIdentifier ''web'' ''app'') Key = None \<and>
   ValidateEntityDoesNotExistForCreation (NewNetworkValidator (mem_reader (committed ex_db)))
     (ResourceIdentifier ''web'' ''app'') Key = None"
  using existence_checks_exact [of "committed ex_db" "ResourceIdentifier ''web'' ''app''"]
  by (simp add: mem_GetServiceByID_def mem_GetNetworkByID_def get_by_id_def ex_tables rid_Key_def)

text \<open>
  The existence check tries three times when the connection is busy: after two busy attempts
  the third decides, over everything the three listings delivered, and a third failure is
  reported.\<close>
theorem exists_check_retries:
  assumes "bv_list v 0 (Some (ResourceIdentifierScope [i])) = (xs, Some e0)"
    and "bv_list v 1 (Some (ResourceIdentifierScope [i])) = (ys, Some e1)"
    and "contains_str ''conn busy'' (error_text e0)" and "contains_str ''conn busy'' (error_text e1)"
  shows "ValidateExists v i kx =
    (case bv_list v 2 (Some (ResourceIdentifierScope [i])) of
       (zs, None) \<Rightarrow> if \<exists>x\<in>set (xs @ ys @ zs). kx x = rid_Key i then None
                     else Some (EntityNotFoundError (bv_entityType v) (rid_Key i))
     | (zs, Some e) \<Rightarrow> Some (Wrap (''failed to check '' @ bv_entityType v @ '' existence'') e))"
  using assms(1,2) assms(3,4)
  by (auto simp: ValidateExists_def maxRetries_def NewResourceIdentifierScope_def numeral_3_eq_3 numeral_2_eq_2
      simp del: contains_str.simps split: option.splits prod.splits)

theorem exists_check_retries_witness:
  "ValidateExists \<lparr> bv_entityType = ''service'',
      bv_list = (\<lambda>n sc. if n < 2 then ([], Some (Errorf ''conn busy'')) else ([''app/web''], None)) \<rparr>
     (ResourceIdentifier ''web'' ''app'') id = None"
  using exists_check_retries [of "\<lparr> bv_entityType = ''service'',
      bv_list = (\<lambda>n sc. if n < 2 then ([], Some (Errorf ''conn busy'')) else ([''app/web''], None)) \<rparr>"
      "ResourceIdentifier ''web'' ''app''" "[]" "Errorf ''conn busy''" "[]" "Errorf ''conn busy''" id]
  by (simp add: rid_Key_def)

section \<open>Ports\<close>

text \<open>
  The duplicate check of a service accepts its ports exactly when each parses into pairwise
  disjoint ranges and, per protocol, all ranges together are pairwise disjoint; the check
  inside a port mapping accepts it exactly when the entries of different services have no
  overlapping ranges of a protocol.\<close>
theorem port_duplicate_checks_exact:
  "(ValidateNoDuplicatePorts ps = None \<longleftrightarrow>
     list_all (\<lambda>p. parses (ip_Port p) \<and> pairwise_disjoint (ranges_of (ip_Port p))) ps \<and>
     pairwise_disjoint (port_ranges ps TCP) \<and> pairwise_disjoint (port_ranges ps UDP)) \<and>
   (CheckInternalPortOverlaps m = None \<longleftrightarrow>
     list_all (\<lambda>x. list_all (\<lambda>y. entries_free TCP x y \<and> entries_free UDP x y) (access_ports m))
       (access_ports m))"
  by (simp add: ValidateNoDuplicatePorts_def no_duplicate_ports_iff CheckInternalPortOverlaps_iff list_all_iff)

definition ex_mapping :: address_group_port_mapping where
  "ex_mapping = \<lparr> Name = ''front'', Namespace = ''app'', Meta = ex_meta,
     agpm_AccessPorts = Some [(ex_ref ''db'', \<lparr> sp_Ports = [(''TCP'', [\<lparr> pr_Start = 443, pr_End = 443 \<rparr>])] \<rparr>)],
     agpm_AccessPortsWithRefs = [] \<rparr>"

text \<open>
  C34: The conflict check of a service against a port mapping accepts exactly when every port of
  the service parses, its ranges are pairwise disjoint per protocol, and they are disjoint
  from the ranges of every other service of the mapping.\<close>
theorem port_conflict_check_iff:
  assumes "list_all (\<lambda>(other, ports). ordered_ports ports) (access_ports m)"
  shows "CheckPortOverlaps s m = None \<longleftrightarrow>
    list_all (\<lambda>p. parses (ip_Port p)) (svc_IngressPorts s) \<and>
    (\<forall>proto. pairwise_disjoint (port_ranges (svc_IngressPorts s) proto)) \<and>
    list_all (\<lambda>(other, ports). ServiceRefKey other = Key s \<or> clear_of s ports) (access_ports m)"
  using assms CheckPortOverlaps_iff [of m s] by (fastforce simp: list_all_iff)

theorem port_conflict_check_iff_witness:
  "CheckPortOverlaps (ex_service ''web'' [] [''80'']) ex_mapping = None \<longleftrightarrow>
    list_all (\<lambda>p. parses (ip_Port p)) [ex_port ''80''] \<and>
    (\<forall>proto. pairwise_disjoint (port_ranges [ex_port ''80''] proto)) \<and>
    clear_of (ex_service ''web'' [] [''80'']) \<lparr> sp_Ports = [(''TCP'', [\<lparr> pr_Start = 443, pr_End = 443 \<rparr>])] \<rparr>"
  using port_conflict_check_iff [of ex_mapping "ex_service ''web'' [] [''80'']"]
  by (simp add: ex_mapping_def access_ports_def ordered_ports_def ServiceRefKey_def)

text \<open>
  The service validator's own conflict check looks at the first range of a port only: it
  accepts a service on ports 80,443 beside one on 443, which the conflict check of the
  bindings rejects.\<close>
theorem service_check_misses_later_ranges:
  "group_overlaps (ex_service ''web'' [] [''80,443'']) (access_ports ex_mapping) = None \<and>
   CheckPortOverlaps (ex_service ''web'' [] [''80,443'']) ex_mapping \<noteq> None"
  by code_simp

section \<open>Bindings and rules\<close>

lemma ex_binding_accepted:
  "AddressGroupBindingValidator_ValidateForCreation (mem_reader (committed ex_db)) (ex_binding ''b1'' ''web'' ''front'') = None"
  by code_simp

lemma ex_update_accepted:
  "RuleS2SValidator_ValidateForUpdate (mem_reader (committed ex_db)) (ex_rule ''r1'' ''web'' ''web'')
     ((ex_rule ''r1'' ''web'' ''web'')\<lparr>rs_Trace := True\<rparr>) = None"
  by code_simp

lemma ex_binding_update_accepted:
  "AddressGroupBindingValidator_ValidateForUpdate (mem_reader (committed ex_db)) (ex_binding ''b1'' ''web'' ''front'') (ex_binding ''b1'' ''web'' ''front'') = None"
  by code_simp

text \<open>
  C33: An accepted new binding refers to a stored service and a stored address group; when the
  group is in another namespace a policy of that namespace allows the binding; and when the
  group has a port mapping the service has no port conflict with it.\<close>
theorem accepted_binding_guarantees:
  assumes "AddressGroupBindingValidator_ValidateForCreation (mem_reader (committed db)) b = None"
  shows "\<exists>svc ag. mem_GetServiceByID (committed db) (ref_id (agb_ServiceRef b)) = Inr svc \<and>
    mem_GetAddressGroupByID (committed db) (ref_id (agb_AddressGroupRef b)) = Inr ag \<and>
    (Namespace ag = Namespace b \<or>
       list_ex (policy_allows b) (fst (mem_ListAddressGroupBindingPolicies (committed db)
          (Some (ResourceIdentifierScope [ResourceIdentifier [] (Namespace ag)]))))) \<and>
    (case mem_GetAddressGroupPortMappingByID (committed db) (ref_id (agb_AddressGroupRef b)) of
       Inl _ \<Rightarrow> True | Inr m \<Rightarrow> CheckPortOverlaps svc m = None)"
  using assms
proof (rule binding_creation_parts)
  fix svc ag
  assume parts: "GetServiceByID (mem_reader (committed db)) (ref_id (agb_ServiceRef b)) = Inr svc"
    "GetAddressGroupByID (mem_reader (committed db)) (ref_id (agb_AddressGroupRef b)) = Inr ag"
    "Namespace ag \<noteq> Namespace b \<longrightarrow>
      check_policy (\<lambda>e. Errorf (''failed to check for binding policies: '' @ error_text e))
        (no_policy_error ag b) (mem_reader (committed db)) (Namespace ag) b = None"
    "\<forall>m. GetAddressGroupPortMappingByID (mem_reader (committed db)) (ref_id (agb_AddressGroupRef b)) = Inr m \<longrightarrow>
      CheckPortOverlaps svc m = None"
  have "Namespace ag = Namespace b \<or>
       list_ex (policy_allows b) (fst (mem_ListAddressGroupBindingPolicies (committed db)
          (Some (ResourceIdentifierScope [ResourceIdentifier [] (Namespace ag)]))))"
    using parts(3) by (subst (asm) check_policy_None_iff) (auto simp: rd_agbp.list_ok list_ex_iff)
  with parts show ?thesis by (auto split: sum.split)
qed

theorem accepted_binding_guarantees_witness:
  "\<exists>svc ag. mem_GetServiceByID (committed ex_db) (ResourceIdentifier ''web'' ''app'') = Inr svc \<and>
    mem_GetAddressGroupByID (committed ex_db) (ResourceIdentifier ''front'' ''app'') = Inr ag"
  using accepted_binding_guarantees [OF ex_binding_accepted] by (auto simp: ref_id_def ex_binding_def)

text \<open>
  An accepted update of a rule keeps its direction and the services it names, an accepted
  update of a binding keeps its service and address group; once an object is Ready its
  references are unchanged in every field.\<close>
theorem accepted_updates_keep_references:
  assumes "RuleS2SValidator_ValidateForUpdate rd r r' = None"
    and "AddressGroupBindingValidator_ValidateForUpdate rd b b' = None"
  shows "same_rule_spec r r' \<and> same_binding_refs b b' \<and>
    (\<not> IsReady (Meta r) \<or> rs_ServiceLocalRef r = rs_ServiceLocalRef r' \<and> rs_ServiceRef r = rs_ServiceRef r') \<and>
    (\<not> IsReady (Meta b) \<or> agb_ServiceRef b = agb_ServiceRef b' \<and> agb_AddressGroupRef b = agb_AddressGroupRef b')"
  using assms
  by (auto simp: RuleS2SValidator_ValidateForUpdate_def AddressGroupBindingValidator_ValidateForUpdate_def
      same_rule_spec_def same_binding_refs_def ready_checks_None_iff IsReadyConditionTrue_def split: if_splits)

theorem accepted_updates_keep_references_witness:
  "same_rule_spec (ex_rule ''r1'' ''web'' ''web'') ((ex_rule ''r1'' ''web'' ''web'')\<lparr>rs_Trace := True\<rparr>)"
  using accepted_updates_keep_references [OF ex_update_accepted ex_binding_update_accepted] by blast

end
