(* ===== verification/ProtoMessages.thy ===== *)
theory ProtoMessages
  imports Resources
begin

text \<open>
  The messages of \<^verbatim>\<open>protos/api/netguard/api.proto\<close> that the gRPC service and its
  client exchange. A message field is a pointer in Go, so it is an option here; the elements of
  a repeated field are values, since decoding never yields a nil element. Enumerations are
  open in protobuf: a field holds any 32-bit number.

  Reading a field of a nil message panics. A conversion that can panic returns an option, and
  \<open>None\<close> is the panic; the generated getters, which the code uses in other places, return the
  zero value instead.
\<close>

section \<open>Enumerations\<close>

type_synonym pb_enum = int

definition Networks_NetIP_TCP :: pb_enum where "Networks_NetIP_TCP = 0"

definition Networks_NetIP_UDP :: pb_enum where "Networks_NetIP_UDP = 1"

definition Traffic_Ingress :: pb_enum where "Traffic_Ingress = 0"

definition Traffic_Egress :: pb_enum where "Traffic_Egress = 1"

definition RuleAction_UNDEFINED :: pb_enum where "RuleAction_UNDEFINED = 0"

definition RuleAction_DROP :: pb_enum where "RuleAction_DROP = 1"

definition RuleAction_ACCEPT :: pb_enum where "RuleAction_ACCEPT = 2"

definition HOST_SOURCE_SPEC :: pb_enum where "HOST_SOURCE_SPEC = 0"

definition HOST_SOURCE_BINDING :: pb_enum where "HOST_SOURCE_BINDING = 1"

definition AG_SOURCE_SPEC :: pb_enum where "AG_SOURCE_SPEC = 0"

definition AG_SOURCE_BINDING :: pb_enum where "AG_SOURCE_BINDING = 1"

lemmas pb_enum_defs =
  Networks_NetIP_TCP_def Networks_NetIP_UDP_def Traffic_Ingress_def Traffic_Egress_def
  RuleAction_UNDEFINED_def RuleAction_DROP_def RuleAction_ACCEPT_def HOST_SOURCE_SPEC_def
  HOST_SOURCE_BINDING_def AG_SOURCE_SPEC_def AG_SOURCE_BINDING_def

text \<open>The generated \<^verbatim>\<open>String\<close> prints an unknown number in decimal.\<close>

definition Transport_String :: "pb_enum \<Rightarrow> string" where
  "Transport_String n =
     (if n = Networks_NetIP_TCP then ''TCP'' else if n = Networks_NetIP_UDP then ''UDP'' else itoa n)"

definition RuleAction_String :: "pb_enum \<Rightarrow> string" where
  "RuleAction_String n =
     (if n = RuleAction_UNDEFINED then ''UNDEFINED'' else if n = RuleAction_DROP then ''DROP''
      else if n = RuleAction_ACCEPT then ''ACCEPT'' else itoa n)"

text \<open>The generated map \<^verbatim>\<open>RuleAction_value\<close>; a missing key reads as zero.\<close>

definition RuleAction_value :: "string \<Rightarrow> pb_enum" where
  "RuleAction_value s =
     (if s = ''UNDEFINED'' then RuleAction_UNDEFINED else if s = ''DROP'' then RuleAction_DROP
      else if s = ''ACCEPT'' then RuleAction_ACCEPT else 0)"

text \<open>Go's conversion of an \<^verbatim>\<open>int\<close> to \<^verbatim>\<open>int32\<close> keeps the low 32 bits.\<close>

definition to_int32 :: "int \<Rightarrow> int" where
  "to_int32 i = (i + 2 ^ 31) mod 2 ^ 32 - 2 ^ 31"

lemma to_int32_id: "- (2 ^ 31) \<le> i \<Longrightarrow> i < 2 ^ 31 \<Longrightarrow> to_int32 i = i"
  by (simp add: to_int32_def)

lemma to_int32_range: "- (2 ^ 31) \<le> to_int32 i \<and> to_int32 i < 2 ^ 31"
  by (simp add: to_int32_def)

section \<open>Shared messages\<close>

record pb_identifier =
  pbi_Name :: string
  pbi_Namespace :: string

record pb_object_reference =
  pbr_ApiVersion :: string
  pbr_Kind :: string
  pbr_Name :: string

record pb_nref = pb_object_reference +
  pbr_Namespace :: string

text \<open>\<^verbatim>\<open>ServiceRef\<close> and \<^verbatim>\<open>AddressGroupRef\<close> have the same fields.\<close>

record pb_target =
  pbt_Identifier :: "pb_identifier option"
  pbt_ObjectRef :: "pb_nref option"

record pb_managed_field =
  pbf_Manager :: string
  pbf_Operation :: string
  pbf_ApiVersion :: string
  pbf_Time :: "gotime option"
  pbf_FieldsType :: string
  pbf_FieldsV1 :: string
  pbf_Subresource :: string

record pb_meta =
  pbm_Uid :: string
  pbm_ResourceVersion :: string
  pbm_Generation :: int
  pbm_CreationTs :: "gotime option"
  pbm_Labels :: "(string \<times> string) list"
  pbm_Annotations :: "(string \<times> string) list"
  pbm_Conditions :: "proto_condition option list"
  pbm_ObservedGeneration :: int
  pbm_GeneratedName :: string
  pbm_ManagedFields :: "pb_managed_field list"

text \<open>The generated getters: zero values for a nil message.\<close>

definition GetName :: "pb_identifier option \<Rightarrow> string" where
  "GetName i = (case i of None \<Rightarrow> [] | Some x \<Rightarrow> pbi_Name x)"

definition GetNamespace :: "pb_identifier option \<Rightarrow> string" where
  "GetNamespace i = (case i of None \<Rightarrow> [] | Some x \<Rightarrow> pbi_Namespace x)"

definition GetIdentifier :: "pb_target option \<Rightarrow> pb_identifier option" where
  "GetIdentifier t = (case t of None \<Rightarrow> None | Some x \<Rightarrow> pbt_Identifier x)"

definition GetObjectRef :: "pb_target option \<Rightarrow> pb_nref option" where
  "GetObjectRef t = (case t of None \<Rightarrow> None | Some x \<Rightarrow> pbt_ObjectRef x)"

lemma getter_simps [simp]:
  "GetName None = []" "GetName (Some i) = pbi_Name i"
  "GetNamespace None = []" "GetNamespace (Some i) = pbi_Namespace i"
  "GetIdentifier None = None" "GetIdentifier (Some t) = pbt_Identifier t"
  "GetObjectRef None = None" "GetObjectRef (Some t) = pbt_ObjectRef t"
  by (simp_all add: GetName_def GetNamespace_def GetIdentifier_def GetObjectRef_def)

section \<open>Resource messages\<close>

record pb_resource =
  pb_SelfRef :: "pb_identifier option"
  pb_Meta :: "pb_meta option"

record pb_ingress_port =
  pbp_Protocol :: pb_enum
  pbp_Port :: string
  pbp_Description :: string

record pb_address_group_reference =
  pba_Ref :: "pb_nref option"
  pba_Source :: pb_enum

record pb_service = pb_resource +
  pbs_Description :: string
  pbs_IngressPorts :: "pb_ingress_port list"
  pbs_AddressGroups :: "pb_target list"
  pbs_AggregatedAddressGroups :: "pb_address_group_reference list"

record pb_network_item =
  pbn_Name :: string
  pbn_Cidr :: string
  pbn_ApiVersion :: string
  pbn_Kind :: string
  pbn_Namespace :: string

record pb_host_reference =
  pbh_Ref :: "pb_object_reference option"
  pbh_Uuid :: string
  pbh_Source :: pb_enum

record pb_address_group = pb_resource +
  pbg_DefaultAction :: pb_enum
  pbg_Logs :: bool
  pbg_Trace :: bool
  pbg_Networks :: "pb_network_item list"
  pbg_Hosts :: "pb_object_reference list"
  pbg_AddressGroupName :: string
  pbg_AggregatedHosts :: "pb_host_reference list"

text \<open>Bindings and policies have the same fields; so have aliases, without the group.\<close>

record pb_service_alias = pb_resource +
  pbb_ServiceRef :: "pb_target option"

record pb_binding = pb_service_alias +
  pbb_AddressGroupRef :: "pb_target option"

record pb_port_range =
  pbpr_Start :: int
  pbpr_End :: int

type_synonym pb_protocol_ports = "(string \<times> pb_port_range list) list"

record pb_service_ports_ref =
  pbsp_Identifier :: "pb_identifier option"
  pbsp_Ports :: "pb_protocol_ports option"

record pb_port_mapping = pb_resource +
  pbpm_AccessPorts :: "pb_service_ports_ref list"

record pb_rule_s2s = pb_resource +
  pbrs_Traffic :: pb_enum
  pbrs_ServiceLocalRef :: "pb_target option"
  pbrs_ServiceRef :: "pb_target option"
  pbrs_IeagAgRuleRefs :: "pb_identifier list"
  pbrs_IeagAgRuleObjectRefs :: "pb_nref list"
  pbrs_Trace :: bool

record pb_port_spec =
  pbps_Source :: string
  pbps_Destination :: string

record pb_ieagag_rule = pb_resource +
  pbie_Transport :: pb_enum
  pbie_Traffic :: pb_enum
  pbie_AddressGroupLocal :: "pb_target option"
  pbie_AddressGroup :: "pb_target option"
  pbie_Ports :: "pb_port_spec list"
  pbie_Action :: pb_enum
  pbie_Logs :: bool
  pbie_Priority :: int
  pbie_Trace :: bool

record pb_network = pb_resource +
  pbnw_Cidr :: string
  pbnw_IsBound :: bool
  pbnw_BindingRef :: "pb_object_reference option"
  pbnw_AddressGroupRef :: "pb_nref option"

record pb_network_binding = pb_resource +
  pbnb_NetworkRef :: "pb_object_reference option"
  pbnb_AddressGroupRef :: "pb_object_reference option"
  pbnb_NetworkItem :: "pb_network_item option"

text \<open>The elements of \<^verbatim>\<open>ip_list\<close> are one-field messages; the model keeps the field.\<close>

record pb_host = pb_resource +
  pbho_Uuid :: string
  pbho_HostNameSync :: string
  pbho_AddressGroupName :: string
  pbho_IsBound :: bool
  pbho_BindingRef :: "pb_object_reference option"
  pbho_AddressGroupRef :: "pb_object_reference option"
  pbho_IpList :: "string list"

record pb_host_binding = pb_resource +
  pbhb_HostRef :: "pb_nref option"
  pbhb_AddressGroupRef :: "pb_nref option"

section \<open>References\<close>

definition pb_ref_of :: "object_reference \<Rightarrow> pb_object_reference" where
  "pb_ref_of r = \<lparr> pbr_ApiVersion = ref_APIVersion r, pbr_Kind = ref_Kind r, pbr_Name = ref_Name r \<rparr>"

definition ref_of_pb :: "pb_object_reference \<Rightarrow> object_reference" where
  "ref_of_pb r = \<lparr> ref_APIVersion = pbr_ApiVersion r, ref_Kind = pbr_Kind r, ref_Name = pbr_Name r \<rparr>"

definition pb_nref_of :: "nref \<Rightarrow> pb_nref" where
  "pb_nref_of r = \<lparr> pbr_ApiVersion = ref_APIVersion r, pbr_Kind = ref_Kind r,
     pbr_Name = ref_Name r, pbr_Namespace = ref_Namespace r \<rparr>"

definition nref_of_pb :: "pb_nref \<Rightarrow> nref" where
  "nref_of_pb r = \<lparr> ref_APIVersion = pbr_ApiVersion r, ref_Kind = pbr_Kind r,
     ref_Name = pbr_Name r, ref_Namespace = pbr_Namespace r \<rparr>"

definition pb_id_of :: "string \<Rightarrow> string \<Rightarrow> pb_identifier" where
  "pb_id_of n ns = \<lparr> pbi_Name = n, pbi_Namespace = ns \<rparr>"

lemma pb_id_of_simps [simp]: "pbi_Name (pb_id_of n ns) = n" "pbi_Namespace (pb_id_of n ns) = ns"
  by (simp_all add: pb_id_of_def)

lemma ref_roundtrip [simp]: "ref_of_pb (pb_ref_of r) = r"
  by (cases r) (simp add: ref_of_pb_def pb_ref_of_def)

lemma nref_roundtrip [simp]: "nref_of_pb (pb_nref_of r) = r"
  by (cases r) (simp add: nref_of_pb_def pb_nref_of_def)

definition empty_ref :: object_reference where
  "empty_ref = \<lparr> ref_APIVersion = [], ref_Kind = [], ref_Name = [] \<rparr>"

definition empty_nref :: nref where
  "empty_nref = \<lparr> ref_APIVersion = [], ref_Kind = [], ref_Name = [], ref_Namespace = [] \<rparr>"

text \<open>References the code rebuilds from a name and a namespace carry these fixed fields.\<close>

definition api_nref :: "string \<Rightarrow> string \<Rightarrow> string \<Rightarrow> nref" where
  "api_nref kind n ns = \<lparr> ref_APIVersion = ''netguard.sgroups.io/v1beta1'', ref_Kind = kind,
     ref_Name = n, ref_Namespace = ns \<rparr>"

definition standard_ref :: "string \<Rightarrow> 'a object_reference_scheme \<Rightarrow> bool" where
  "standard_ref kind r \<longleftrightarrow>
     ref_APIVersion r = ''netguard.sgroups.io/v1beta1'' \<and> ref_Kind r = kind"

lemma api_nref_simps [simp]:
  "ref_Name (api_nref k n ns) = n" "ref_Namespace (api_nref k n ns) = ns"
  "standard_ref k (api_nref k n ns)"
  by (simp_all add: api_nref_def standard_ref_def)

lemma api_nref_standard: "standard_ref k r \<Longrightarrow> api_nref k (ref_Name r) (ref_Namespace r) = r"
  by (cases r) (simp add: api_nref_def standard_ref_def)

lemma New_refs:
  "NewServiceRef n [WithNamespace ns] = api_nref ''Service'' n ns"
  "NewAddressGroupRef n [WithNamespace ns] = api_nref ''AddressGroup'' n ns"
  by (simp_all add: NewServiceRef_def NewAddressGroupRef_def api_nref_def)

end
