(* ===== verification/ApiConversions.thy ===== *)
theory ApiConversions
  imports ProtoMessages
begin

text \<open>
  The conversions of the gRPC service, \<^verbatim>\<open>internal/api/netguard/service.go\<close>: from the
  messages of a request to domain models and from domain models to the messages of a response.
  \<open>None\<close> is a panic on a nil message.
\<close>

section \<open>Metadata and enumerations\<close>

text \<open>
  Every conversion from a message copies the same part of the metadata; networks and their
  bindings also copy the conditions, hosts and their bindings the observed generation too.
\<close>

definition created_at :: "gotime option \<Rightarrow> gotime" where
  "created_at t = (case t of None \<Rightarrow> ZeroTime | Some x \<Rightarrow> x)"

definition base_meta :: "pb_meta option \<Rightarrow> meta" where
  "base_meta m =
     (case m of
        None \<Rightarrow> empty_meta
      | Some p \<Rightarrow> empty_meta\<lparr> UID := pbm_Uid p, ResourceVersion := pbm_ResourceVersion p,
          Generation := pbm_Generation p, Labels := pbm_Labels p,
          Annotations := pbm_Annotations p, CreationTS := created_at (pbm_CreationTs p) \<rparr>)"

definition meta_with_conditions :: "pb_meta option \<Rightarrow> meta" where
  "meta_with_conditions m =
     (case m of
        None \<Rightarrow> empty_meta
      | Some p \<Rightarrow> (base_meta m)\<lparr> Conditions := ProtoConditionsToK8s (pbm_Conditions p) \<rparr>)"

definition meta_with_status :: "pb_meta option \<Rightarrow> meta" where
  "meta_with_status m =
     (case m of
        None \<Rightarrow> empty_meta
      | Some p \<Rightarrow> (meta_with_conditions m)\<lparr> ObservedGeneration := pbm_ObservedGeneration p \<rparr>)"

text \<open>Responses carry the conditions, but neither managed fields nor the generated name.\<close>

definition timestamp_of :: "gotime \<Rightarrow> gotime option" where
  "timestamp_of t = (if t = ZeroTime then None else Some t)"

definition meta_to_pb :: "meta \<Rightarrow> pb_meta" where
  "meta_to_pb m = \<lparr> pbm_Uid = UID m, pbm_ResourceVersion = ResourceVersion m,
     pbm_Generation = Generation m, pbm_CreationTs = timestamp_of (CreationTS m),
     pbm_Labels = Labels m, pbm_Annotations = Annotations m,
     pbm_Conditions = K8sConditionsToProto (Conditions m),
     pbm_ObservedGeneration = ObservedGeneration m, pbm_GeneratedName = [],
     pbm_ManagedFields = [] \<rparr>"

text \<open>The part of the metadata that survives the service's conversions.\<close>

definition kept_meta :: "meta \<Rightarrow> meta" where
  "kept_meta m = empty_meta\<lparr> UID := UID m, ResourceVersion := ResourceVersion m,
     Generation := Generation m, Labels := Labels m, Annotations := Annotations m,
     CreationTS := CreationTS m \<rparr>"

text \<open>The part a reader sees: the status too, but not the managed fields.\<close>

definition seen_meta :: "meta \<Rightarrow> meta" where
  "seen_meta m = (kept_meta m)\<lparr>Conditions := Conditions m, ObservedGeneration := ObservedGeneration m\<rparr>"

definition seen_network_meta :: "meta \<Rightarrow> meta" where
  "seen_network_meta m = (kept_meta m)\<lparr>Conditions := Conditions m\<rparr>"

lemma created_at_timestamp [simp]: "created_at (timestamp_of t) = t"
  by (simp add: created_at_def timestamp_of_def)

lemma base_meta_to_pb [simp]: "base_meta (Some (meta_to_pb m)) = kept_meta m"
  by (simp add: base_meta_def meta_to_pb_def kept_meta_def)

lemma conditions_meta_to_pb [simp]:
  "meta_with_conditions (Some (meta_to_pb m)) = seen_network_meta m"
  by (simp add: meta_with_conditions_def seen_network_meta_def)
    (simp add: meta_to_pb_def ProtoConditionsToK8s_inverse)

lemma status_meta_to_pb [simp]:
  "meta_with_status (Some (meta_to_pb m)) = seen_meta m"
  by (simp add: meta_with_status_def seen_meta_def seen_network_meta_def) (simp add: meta_to_pb_def)

definition AddressGroupSourceSpec :: string where "AddressGroupSourceSpec = ''spec''"

definition AddressGroupSourceBinding :: string where "AddressGroupSourceBinding = ''binding''"

definition HostSourceSpec :: string where "HostSourceSpec = ''spec''"

definition HostSourceBinding :: string where "HostSourceBinding = ''binding''"

lemmas source_defs = AddressGroupSourceSpec_def AddressGroupSourceBinding_def
  HostSourceSpec_def HostSourceBinding_def

definition convertHostRegistrationSourceToPB :: "string \<Rightarrow> pb_enum" where
  "convertHostRegistrationSourceToPB s =
     (if s = HostSourceSpec then HOST_SOURCE_SPEC
      else if s = HostSourceBinding then HOST_SOURCE_BINDING else HOST_SOURCE_SPEC)"

definition convertHostRegistrationSourceFromPB :: "pb_enum \<Rightarrow> string" where
  "convertHostRegistrationSourceFromPB n =
     (if n = HOST_SOURCE_SPEC then HostSourceSpec
      else if n = HOST_SOURCE_BINDING then HostSourceBinding else HostSourceSpec)"

definition convertAGRegistrationSourceFromPB :: "pb_enum \<Rightarrow> string" where
  "convertAGRegistrationSourceFromPB n =
     (if n = AG_SOURCE_SPEC then AddressGroupSourceSpec
      else if n = AG_SOURCE_BINDING then AddressGroupSourceBinding else AddressGroupSourceSpec)"

definition convertAGRegistrationSourceToPB :: "string \<Rightarrow> pb_enum" where
  "convertAGRegistrationSourceToPB s =
     (if s = AddressGroupSourceSpec then AG_SOURCE_SPEC
      else if s = AddressGroupSourceBinding then AG_SOURCE_BINDING else AG_SOURCE_SPEC)"

lemma source_roundtrips:
  "s \<in> {AddressGroupSourceSpec, AddressGroupSourceBinding} \<Longrightarrow>
     convertAGRegistrationSourceFromPB (convertAGRegistrationSourceToPB s) = s"
  "s \<in> {HostSourceSpec, HostSourceBinding} \<Longrightarrow>
     convertHostRegistrationSourceFromPB (convertHostRegistrationSourceToPB s) = s"
  by (auto simp: convertAGRegistrationSourceFromPB_def convertAGRegistrationSourceToPB_def
      convertHostRegistrationSourceFromPB_def convertHostRegistrationSourceToPB_def
      pb_enum_defs source_defs)

definition convertActionToPB :: "rule_action \<Rightarrow> pb_enum" where
  "convertActionToPB a =
     (if a = ActionAccept then RuleAction_ACCEPT
      else if a = ActionDrop then RuleAction_DROP else RuleAction_ACCEPT)"

definition getSelfRef :: "pb_identifier option \<Rightarrow> resource_identifier" where
  "getSelfRef i = NewResourceIdentifier (GetName i) [WithNamespace (GetNamespace i)]"

definition convertSyncOp :: "pb_enum \<Rightarrow> sync_op" where
  "convertSyncOp n = ProtoToSyncOp n"

lemma getSelfRef_eq [simp]: "getSelfRef i = ResourceIdentifier (GetName i) (GetNamespace i)"
  by (simp add: getSelfRef_def)

text \<open>Lists of conversions that can panic.\<close>

lemma those_map_Some [simp]: "those (map (\<lambda>x. Some (f x)) xs) = Some (map f xs)"
  by (induction xs) simp_all

lemma those_eq_Some_iff:
  "those xs = Some ys \<longleftrightarrow> xs = map Some ys"
proof (induction xs arbitrary: ys)
  case Nil
  then show ?case by auto
next
  case (Cons x xs)
  then show ?case by (cases x) (auto simp: Cons_eq_map_conv)
qed

lemma those_None_iff: "those xs = None \<longleftrightarrow> None \<in> set xs"
proof (induction xs)
  case (Cons x xs)
  then show ?case by (cases x) auto
qed simp

section \<open>Requests\<close>

definition convert_ingress_port :: "pb_ingress_port \<Rightarrow> ingress_port" where
  "convert_ingress_port p = \<lparr> ip_Protocol = Transport_String (pbp_Protocol p),
     ip_Port = pbp_Port p, ip_Description = pbp_Description p \<rparr>"

text \<open>Address groups without a name are skipped.\<close>

definition convert_group_refs :: "pb_target list \<Rightarrow> nref list" where
  "convert_group_refs ts =
     map (\<lambda>t. NewAddressGroupRef (GetName (pbt_Identifier t)) [WithNamespace (GetNamespace (pbt_Identifier t))])
       (filter (\<lambda>t. GetName (pbt_Identifier t) \<noteq> []) ts)"

definition convert_group_reference :: "pb_address_group_reference \<Rightarrow> address_group_reference option" where
  "convert_group_reference g =
     (case pba_Ref g of
        None \<Rightarrow> None
      | Some r \<Rightarrow> Some \<lparr> agr_Ref = nref_of_pb r,
          agr_Source = convertAGRegistrationSourceFromPB (pba_Source g) \<rparr>)"

definition convertService :: "pb_service \<Rightarrow> service option" where
  "convertService svc =
     (case those (map convert_group_reference (pbs_AggregatedAddressGroups svc)) of
        None \<Rightarrow> None
      | Some aggregated \<Rightarrow>
          Some \<lparr> Name = rid_Name (getSelfRef (pb_SelfRef svc)),
            Namespace = rid_Namespace (getSelfRef (pb_SelfRef svc)), Meta = base_meta (pb_Meta svc),
            svc_Description = pbs_Description svc,
            svc_IngressPorts = map convert_ingress_port (pbs_IngressPorts svc),
            svc_AddressGroups = convert_group_refs (pbs_AddressGroups svc),
            svc_AggregatedAddressGroups = aggregated \<rparr>)"

definition convert_host_reference :: "pb_host_reference \<Rightarrow> host_reference option" where
  "convert_host_reference h =
     (case pbh_Ref h of
        None \<Rightarrow> None
      | Some r \<Rightarrow> Some \<lparr> hr_ObjectReference = ref_of_pb r, hr_UUID = pbh_Uuid h,
          hr_Source = convertHostRegistrationSourceFromPB (pbh_Source h) \<rparr>)"

definition convertAddressGroup :: "pb_address_group \<Rightarrow> address_group option" where
  "convertAddressGroup ag =
     (case those (map convert_host_reference (pbg_AggregatedHosts ag)) of
        None \<Rightarrow> None
      | Some aggregated \<Rightarrow>
          Some \<lparr> Name = rid_Name (getSelfRef (pb_SelfRef ag)),
            Namespace = rid_Namespace (getSelfRef (pb_SelfRef ag)), Meta = base_meta (pb_Meta ag),
            ag_DefaultAction = RuleAction_String (pbg_DefaultAction ag), ag_Logs = pbg_Logs ag,
            ag_Trace = pbg_Trace ag, ag_Networks = [], ag_AddressGroupName = [],
            ag_Hosts = map ref_of_pb (pbg_Hosts ag), ag_AggregatedHosts = aggregated \<rparr>)"

text \<open>A binding or a policy with a missing name is returned as far as it was converted.\<close>

definition convertAddressGroupBinding :: "pb_binding \<Rightarrow> address_group_binding" where
  "convertAddressGroupBinding b =
     (let svc = GetIdentifier (pbb_ServiceRef b);
          ag = GetIdentifier (pbb_AddressGroupRef b);
          result = \<lparr> Name = rid_Name (getSelfRef (pb_SelfRef b)),
            Namespace = rid_Namespace (getSelfRef (pb_SelfRef b)), Meta = empty_meta,
            agb_ServiceRef = empty_nref, agb_AddressGroupRef = empty_nref \<rparr>
      in if GetName svc = [] then result
         else let result = result\<lparr>agb_ServiceRef :=
                NewServiceRef (GetName svc) [WithNamespace (GetNamespace svc)]\<rparr>
              in if GetName ag = [] then result
                 else result\<lparr>agb_AddressGroupRef :=
                        NewAddressGroupRef (GetName ag) [WithNamespace (GetNamespace ag)],
                      Meta := base_meta (pb_Meta b)\<rparr>)"

definition convertAddressGroupBindingPolicy :: "pb_binding \<Rightarrow> address_group_binding_policy" where
  "convertAddressGroupBindingPolicy p =
     (let svc = GetIdentifier (pbb_ServiceRef p);
          ag = GetIdentifier (pbb_AddressGroupRef p);
          result = \<lparr> Name = rid_Name (getSelfRef (pb_SelfRef p)),
            Namespace = rid_Namespace (getSelfRef (pb_SelfRef p)), Meta = empty_meta,
            agbp_AddressGroupRef = empty_nref, agbp_ServiceRef = empty_nref \<rparr>
      in if GetName svc = [] then result
         else let result = result\<lparr>agbp_ServiceRef :=
                NewServiceRef (GetName svc) [WithNamespace (GetNamespace svc)]\<rparr>
              in if GetName ag = [] then result
                 else result\<lparr>agbp_AddressGroupRef :=
                        NewAddressGroupRef (GetName ag) [WithNamespace (GetNamespace ag)],
                      Meta := base_meta (pb_Meta p)\<rparr>)"

definition convertServiceAlias :: "pb_service_alias \<Rightarrow> service_alias" where
  "convertServiceAlias a =
     (let svc = GetIdentifier (pbb_ServiceRef a)
      in if GetName svc = []
         then \<lparr> Name = rid_Name (getSelfRef (pb_SelfRef a)),
                Namespace = rid_Namespace (getSelfRef (pb_SelfRef a)), Meta = empty_meta,
                sa_ServiceRef = empty_nref \<rparr>
         else \<lparr> Name = rid_Name (getSelfRef (pb_SelfRef a)),
                Namespace = rid_Namespace (getSelfRef (pb_SelfRef a)),
                Meta = base_meta (pb_Meta a),
                sa_ServiceRef = NewServiceRef (GetName svc) [WithNamespace (GetNamespace svc)] \<rparr>)"

text \<open>\<^verbatim>\<open>m[k] = v\<close> for the entries of a list: a later entry replaces an earlier one.\<close>

definition convert_ranges :: "pb_port_range list \<Rightarrow> port_range list" where
  "convert_ranges rs = map (\<lambda>r. \<lparr> pr_Start = pbpr_Start r, pr_End = pbpr_End r \<rparr>) rs"

definition convert_protocol_ports :: "pb_protocol_ports \<Rightarrow> protocol_ports" where
  "convert_protocol_ports ps =
     fold (\<lambda>(proto, ranges) m. AList.update proto (convert_ranges ranges) m) ps []"

fun convert_access_ports ::
  "pb_service_ports_ref list \<Rightarrow> (nref \<times> service_ports) list \<Rightarrow> (nref \<times> service_ports) list option"
where
  "convert_access_ports [] m = Some m"
| "convert_access_ports (ap # aps) m =
     (case (pbsp_Identifier ap, pbsp_Ports ap) of
        (Some i, Some ports) \<Rightarrow>
          convert_access_ports aps
            (AList.update (NewServiceRef (pbi_Name i) [WithNamespace (pbi_Namespace i)])
               \<lparr> sp_Ports = convert_protocol_ports ports \<rparr> m)
      | _ \<Rightarrow> None)"

definition convertAddressGroupPortMapping :: "pb_port_mapping \<Rightarrow> address_group_port_mapping option" where
  "convertAddressGroupPortMapping m =
     (case convert_access_ports (pbpm_AccessPorts m) [] of
        None \<Rightarrow> None
      | Some ports \<Rightarrow>
          Some \<lparr> Name = rid_Name (getSelfRef (pb_SelfRef m)),
            Namespace = rid_Namespace (getSelfRef (pb_SelfRef m)), Meta = base_meta (pb_Meta m),
            agpm_AccessPorts = Some ports, agpm_AccessPortsWithRefs = [] \<rparr>)"

text \<open>
  A service of a rule is named by its object reference, or by the older identifier when there
  is none.
\<close>

definition target_name :: "pb_target option \<Rightarrow> string \<times> string" where
  "target_name t =
     (case GetObjectRef t of
        Some r \<Rightarrow> (pbr_Name r, pbr_Namespace r)
      | None \<Rightarrow> (GetName (GetIdentifier t), GetNamespace (GetIdentifier t)))"

definition convertRuleS2S :: "pb_rule_s2s \<Rightarrow> rule_s2s" where
  "convertRuleS2S r =
     (let (localName, localNamespace) = target_name (pbrs_ServiceLocalRef r);
          (serviceName, serviceNamespace) = target_name (pbrs_ServiceRef r);
          result = \<lparr> Name = rid_Name (getSelfRef (pb_SelfRef r)),
            Namespace = rid_Namespace (getSelfRef (pb_SelfRef r)), Meta = empty_meta,
            rs_Traffic = (if pbrs_Traffic r = Traffic_Ingress then INGRESS
                          else if pbrs_Traffic r = Traffic_Egress then EGRESS else []),
            rs_ServiceLocalRef = empty_nref, rs_ServiceRef = empty_nref,
            rs_IEAgAgRuleRefs = [], rs_Trace = pbrs_Trace r \<rparr>
      in if localName = [] then result
         else let result = result\<lparr>rs_ServiceLocalRef := api_nref ''Service'' localName localNamespace\<rparr>
              in if serviceName = [] then result
                 else result\<lparr>rs_ServiceRef := api_nref ''Service'' serviceName serviceNamespace,
                   rs_IEAgAgRuleRefs :=
                     (if 0 < length (pbrs_IeagAgRuleObjectRefs r)
                      then map nref_of_pb (pbrs_IeagAgRuleObjectRefs r)
                      else map (\<lambda>i. api_nref ''IEAgAgRule'' (pbi_Name i) (pbi_Namespace i))
                             (pbrs_IeagAgRuleRefs r)),
                   Meta := base_meta (pb_Meta r)\<rparr>)"

definition convertNetwork :: "pb_network \<Rightarrow> network" where
  "convertNetwork n = \<lparr> Name = GetName (pb_SelfRef n), Namespace = GetNamespace (pb_SelfRef n),
     Meta = meta_with_conditions (pb_Meta n), nw_CIDR = pbnw_Cidr n, nw_NetworkName = [],
     nw_IsBound = False, nw_BindingRef = None, nw_AddressGroupRef = None \<rparr>"

definition pbr_GetName :: "pb_object_reference option \<Rightarrow> string" where
  "pbr_GetName r = (case r of None \<Rightarrow> [] | Some x \<Rightarrow> pbr_Name x)"

definition convertNetworkBinding :: "pb_network_binding \<Rightarrow> network_binding" where
  "convertNetworkBinding b =
     (let result = \<lparr> Name = GetName (pb_SelfRef b), Namespace = GetNamespace (pb_SelfRef b),
            Meta = empty_meta, nb_NetworkRef = empty_ref, nb_AddressGroupRef = empty_ref,
            nb_NetworkItem = empty_network_item \<rparr>;
          networkName = pbr_GetName (pbnb_NetworkRef b);
          agName = pbr_GetName (pbnb_AddressGroupRef b)
      in if networkName = [] then result
         else let result = result\<lparr>nb_NetworkRef := \<lparr> ref_APIVersion = ''netguard.sgroups.io/v1beta1'',
                    ref_Kind = ''Network'', ref_Name = networkName \<rparr>\<rparr>
              in if agName = [] then result
                 else result\<lparr>nb_AddressGroupRef := \<lparr> ref_APIVersion = ''netguard.sgroups.io/v1beta1'',
                        ref_Kind = ''AddressGroup'', ref_Name = agName \<rparr>,
                      nb_NetworkItem :=
                        (case pbnb_NetworkItem b of
                           None \<Rightarrow> empty_network_item
                         | Some i \<Rightarrow> empty_network_item\<lparr>ni_Name := pbn_Name i, ni_CIDR := pbn_Cidr i\<rparr>),
                      Meta := meta_with_conditions (pb_Meta b)\<rparr>)"

definition convertHost :: "pb_host \<Rightarrow> host option" where
  "convertHost h =
     (case pb_SelfRef h of
        None \<Rightarrow> None
      | Some i \<Rightarrow>
          Some \<lparr> Name = pbi_Name i, Namespace = pbi_Namespace i, Meta = meta_with_status (pb_Meta h),
            h_UUID = pbho_Uuid h, h_HostName = pbho_HostNameSync h,
            h_AddressGroupName = pbho_AddressGroupName h, h_IsBound = pbho_IsBound h,
            h_BindingRef = map_option ref_of_pb (pbho_BindingRef h),
            h_AddressGroupRef = map_option ref_of_pb (pbho_AddressGroupRef h),
            h_IpList = pbho_IpList h \<rparr>)"

definition nref_or_empty :: "pb_nref option \<Rightarrow> nref" where
  "nref_or_empty r = (case r of None \<Rightarrow> empty_nref | Some x \<Rightarrow> nref_of_pb x)"

definition convertHostBinding :: "pb_host_binding \<Rightarrow> host_binding option" where
  "convertHostBinding b =
     (case pb_SelfRef b of
        None \<Rightarrow> None
      | Some i \<Rightarrow>
          Some \<lparr> Name = pbi_Name i, Namespace = pbi_Namespace i, Meta = meta_with_status (pb_Meta b),
            hb_HostRef = nref_or_empty (pbhb_HostRef b),
            hb_AddressGroupRef = nref_or_empty (pbhb_AddressGroupRef b) \<rparr>)"

section \<open>Responses\<close>

definition id_target :: "string \<Rightarrow> string \<Rightarrow> pb_target" where
  "id_target n ns = \<lparr> pbt_Identifier = Some (pb_id_of n ns), pbt_ObjectRef = None \<rparr>"

definition full_target :: "nref \<Rightarrow> pb_target" where
  "full_target r = \<lparr> pbt_Identifier = Some (pb_id_of (ref_Name r) (ref_Namespace r)),
     pbt_ObjectRef = Some (pb_nref_of r) \<rparr>"

lemma target_simps [simp]:
  "pbt_Identifier (id_target n ns) = Some (pb_id_of n ns)"
  "pbt_ObjectRef (id_target n ns) = None"
  "pbt_Identifier (full_target r) = Some (pb_id_of (ref_Name r) (ref_Namespace r))"
  "pbt_ObjectRef (full_target r) = Some (pb_nref_of r)"
  by (simp_all add: id_target_def full_target_def)

text \<open>A protocol other than TCP and UDP leaves the enumeration at its zero value, TCP.\<close>

definition transport_to_pb :: "transport_protocol \<Rightarrow> pb_enum" where
  "transport_to_pb p =
     (if p = TCP then Networks_NetIP_TCP else if p = UDP then Networks_NetIP_UDP else 0)"

definition ingress_port_to_pb :: "ingress_port \<Rightarrow> pb_ingress_port" where
  "ingress_port_to_pb p = \<lparr> pbp_Protocol = transport_to_pb (ip_Protocol p), pbp_Port = ip_Port p,
     pbp_Description = ip_Description p \<rparr>"

definition group_reference_to_pb :: "address_group_reference \<Rightarrow> pb_address_group_reference" where
  "group_reference_to_pb g = \<lparr> pba_Ref = Some (pb_nref_of (agr_Ref g)),
     pba_Source = convertAGRegistrationSourceToPB (agr_Source g) \<rparr>"

definition convertServiceToPB :: "service \<Rightarrow> pb_service" where
  "convertServiceToPB svc =
     \<lparr> pb_SelfRef = Some (pb_id_of (Name svc) (Namespace svc)), pb_Meta = Some (meta_to_pb (Meta svc)),
       pbs_Description = svc_Description svc,
       pbs_IngressPorts = map ingress_port_to_pb (svc_IngressPorts svc),
       pbs_AddressGroups = map (\<lambda>ag. id_target (ref_Name ag) (ref_Namespace ag)) (svc_AddressGroups svc),
       pbs_AggregatedAddressGroups = map group_reference_to_pb (svc_AggregatedAddressGroups svc) \<rparr>"

definition network_item_to_pb :: "network_item \<Rightarrow> pb_network_item" where
  "network_item_to_pb i = \<lparr> pbn_Name = ni_Name i, pbn_Cidr = ni_CIDR i, pbn_ApiVersion = ni_ApiVersion i,
     pbn_Kind = ni_Kind i, pbn_Namespace = ni_Namespace i \<rparr>"

definition host_reference_to_pb :: "host_reference \<Rightarrow> pb_host_reference" where
  "host_reference_to_pb h = \<lparr> pbh_Ref = Some (pb_ref_of (hr_ObjectReference h)), pbh_Uuid = hr_UUID h,
     pbh_Source = convertHostRegistrationSourceToPB (hr_Source h) \<rparr>"

definition convertAddressGroupToPB :: "address_group \<Rightarrow> pb_address_group" where
  "convertAddressGroupToPB ag =
     \<lparr> pb_SelfRef = Some (pb_id_of (Name ag) (Namespace ag)), pb_Meta = Some (meta_to_pb (Meta ag)),
       pbg_DefaultAction =
         (if ag_DefaultAction ag = ActionAccept then RuleAction_ACCEPT
          else if ag_DefaultAction ag = ActionDrop then RuleAction_DROP else RuleAction_ACCEPT),
       pbg_Logs = ag_Logs ag, pbg_Trace = ag_Trace ag,
       pbg_Networks = map network_item_to_pb (ag_Networks ag),
       pbg_Hosts = map pb_ref_of (ag_Hosts ag), pbg_AddressGroupName = ag_AddressGroupName ag,
       pbg_AggregatedHosts = map host_reference_to_pb (ag_AggregatedHosts ag) \<rparr>"

definition convertAddressGroupBindingToPB :: "address_group_binding \<Rightarrow> pb_binding" where
  "convertAddressGroupBindingToPB b =
     \<lparr> pb_SelfRef = Some (pb_id_of (Name b) (Namespace b)), pb_Meta = Some (meta_to_pb (Meta b)),
       pbb_ServiceRef = Some (id_target (ref_Name (agb_ServiceRef b)) (ref_Namespace (agb_ServiceRef b))),
       pbb_AddressGroupRef =
         Some (id_target (ref_Name (agb_AddressGroupRef b)) (ref_Namespace (agb_AddressGroupRef b))) \<rparr>"

definition convertAddressGroupBindingPolicyToPB :: "address_group_binding_policy \<Rightarrow> pb_binding" where
  "convertAddressGroupBindingPolicyToPB p =
     \<lparr> pb_SelfRef = Some (pb_id_of (Name p) (Namespace p)), pb_Meta = Some (meta_to_pb (Meta p)),
       pbb_ServiceRef = Some (id_target (ref_Name (agbp_ServiceRef p)) (ref_Namespace (agbp_ServiceRef p))),
       pbb_AddressGroupRef =
         Some (id_target (ref_Name (agbp_AddressGroupRef p)) (ref_Namespace (agbp_AddressGroupRef p))) \<rparr>"

definition convertServiceAliasToPB :: "service_alias \<Rightarrow> pb_service_alias" where
  "convertServiceAliasToPB a =
     \<lparr> pb_SelfRef = Some (pb_id_of (Name a) (Namespace a)), pb_Meta = Some (meta_to_pb (Meta a)),
       pbb_ServiceRef = Some (id_target (ref_Name (sa_ServiceRef a)) (ref_Namespace (sa_ServiceRef a))) \<rparr>"

definition ranges_to_pb :: "port_range list \<Rightarrow> pb_port_range list" where
  "ranges_to_pb rs = map (\<lambda>r. \<lparr> pbpr_Start = to_int32 (pr_Start r), pbpr_End = to_int32 (pr_End r) \<rparr>) rs"

definition service_ports_to_pb :: "nref \<times> service_ports \<Rightarrow> pb_service_ports_ref" where
  "service_ports_to_pb e =
     (case e of (srv, ap) \<Rightarrow>
       \<lparr> pbsp_Identifier = Some (pb_id_of (ref_Name srv) (ref_Namespace srv)),
         pbsp_Ports = Some (fold (\<lambda>(proto, ranges) m. AList.update proto (ranges_to_pb ranges) m)
                              (sp_Ports ap) []) \<rparr>)"

text \<open>Ranging over a nil map visits nothing.\<close>

definition access_ports_list :: "address_group_port_mapping \<Rightarrow> (nref \<times> service_ports) list" where
  "access_ports_list m = (case agpm_AccessPorts m of None \<Rightarrow> [] | Some ps \<Rightarrow> ps)"

definition convertAddressGroupPortMappingToPB :: "address_group_port_mapping \<Rightarrow> pb_port_mapping" where
  "convertAddressGroupPortMappingToPB m =
     \<lparr> pb_SelfRef = Some (pb_id_of (Name m) (Namespace m)), pb_Meta = Some (meta_to_pb (Meta m)),
       pbpm_AccessPorts = map service_ports_to_pb (access_ports_list m) \<rparr>"

definition convertRuleS2SToPB :: "rule_s2s \<Rightarrow> pb_rule_s2s" where
  "convertRuleS2SToPB r =
     \<lparr> pb_SelfRef = Some (pb_id_of (Name r) (Namespace r)), pb_Meta = Some (meta_to_pb (Meta r)),
       pbrs_Traffic = (if rs_Traffic r = EGRESS then Traffic_Egress else Traffic_Ingress),
       pbrs_ServiceLocalRef = Some (full_target (rs_ServiceLocalRef r)),
       pbrs_ServiceRef = Some (full_target (rs_ServiceRef r)),
       pbrs_IeagAgRuleRefs =
         map (\<lambda>ref. pb_id_of (ref_Name ref) (ref_Namespace ref)) (rs_IEAgAgRuleRefs r),
       pbrs_IeagAgRuleObjectRefs = map pb_nref_of (rs_IEAgAgRuleRefs r),
       pbrs_Trace = rs_Trace r \<rparr>"

definition convertIEAgAgRuleToPB :: "ieagag_rule \<Rightarrow> pb_ieagag_rule" where
  "convertIEAgAgRuleToPB r =
     \<lparr> pb_SelfRef = Some (pb_id_of (Name r) (Namespace r)), pb_Meta = Some (meta_to_pb (Meta r)),
       pbie_Transport =
         (if ie_Transport r = TCP then Networks_NetIP_TCP
          else if ie_Transport r = UDP then Networks_NetIP_UDP else Networks_NetIP_TCP),
       pbie_Traffic =
         (if ie_Traffic r = INGRESS then Traffic_Ingress
          else if ie_Traffic r = EGRESS then Traffic_Egress else Traffic_Ingress),
       pbie_AddressGroupLocal =
         Some (id_target (ref_Name (ie_AddressGroupLocal r)) (ref_Namespace (ie_AddressGroupLocal r))),
       pbie_AddressGroup =
         Some (id_target (ref_Name (ie_AddressGroup r)) (ref_Namespace (ie_AddressGroup r))),
       pbie_Ports = map (\<lambda>p. \<lparr> pbps_Source = ps_Source p, pbps_Destination = ps_Destination p \<rparr>) (ie_Ports r),
       pbie_Action = convertActionToPB (ie_Action r), pbie_Logs = ie_Logs r,
       pbie_Priority = ie_Priority r, pbie_Trace = ie_Trace r \<rparr>"

definition convertNetworkToPB :: "network \<Rightarrow> pb_network" where
  "convertNetworkToPB n =
     \<lparr> pb_SelfRef = Some (pb_id_of (Name n) (Namespace n)), pb_Meta = Some (meta_to_pb (Meta n)),
       pbnw_Cidr = nw_CIDR n, pbnw_IsBound = nw_IsBound n,
       pbnw_BindingRef = map_option pb_ref_of (nw_BindingRef n),
       pbnw_AddressGroupRef =
         map_option (\<lambda>r. \<lparr> pbr_ApiVersion = ref_APIVersion r, pbr_Kind = ref_Kind r,
            pbr_Name = ref_Name r, pbr_Namespace = Namespace n \<rparr>) (nw_AddressGroupRef n) \<rparr>"

definition convertNetworkBindingToPB :: "network_binding \<Rightarrow> pb_network_binding" where
  "convertNetworkBindingToPB b =
     \<lparr> pb_SelfRef = Some (pb_id_of (Name b) (Namespace b)), pb_Meta = Some (meta_to_pb (Meta b)),
       pbnb_NetworkRef = Some (pb_ref_of (nb_NetworkRef b)),
       pbnb_AddressGroupRef = Some (pb_ref_of (nb_AddressGroupRef b)),
       pbnb_NetworkItem =
         Some \<lparr> pbn_Name = ni_Name (nb_NetworkItem b), pbn_Cidr = ni_CIDR (nb_NetworkItem b),
                pbn_ApiVersion = [], pbn_Kind = [], pbn_Namespace = [] \<rparr> \<rparr>"

definition convertHostToPB :: "host \<Rightarrow> pb_host" where
  "convertHostToPB h =
     \<lparr> pb_SelfRef = Some (pb_id_of (Name h) (Namespace h)), pb_Meta = Some (meta_to_pb (Meta h)),
       pbho_Uuid = h_UUID h, pbho_HostNameSync = h_HostName h,
       pbho_AddressGroupName = h_AddressGroupName h, pbho_IsBound = h_IsBound h,
       pbho_BindingRef = map_option pb_ref_of (h_BindingRef h),
       pbho_AddressGroupRef = map_option pb_ref_of (h_AddressGroupRef h),
       pbho_IpList = h_IpList h \<rparr>"

definition convertHostBindingToPB :: "host_binding \<Rightarrow> pb_host_binding" where
  "convertHostBindingToPB b =
     \<lparr> pb_SelfRef = Some (pb_id_of (Name b) (Namespace b)), pb_Meta = Some (meta_to_pb (Meta b)),
       pbhb_HostRef = Some (pb_nref_of (hb_HostRef b)),
       pbhb_AddressGroupRef = Some (pb_nref_of (hb_AddressGroupRef b)) \<rparr>"

lemmas to_pb_defs =
  convertServiceToPB_def convertAddressGroupToPB_def convertAddressGroupBindingToPB_def
  convertAddressGroupBindingPolicyToPB_def convertServiceAliasToPB_def
  convertAddressGroupPortMappingToPB_def convertRuleS2SToPB_def convertIEAgAgRuleToPB_def
  convertNetworkToPB_def convertNetworkBindingToPB_def convertHostToPB_def
  convertHostBindingToPB_def

lemmas from_pb_defs =
  convertService_def convertAddressGroup_def convertAddressGroupBinding_def
  convertAddressGroupBindingPolicy_def convertServiceAlias_def
  convertAddressGroupPortMapping_def convertRuleS2S_def
  convertNetwork_def convertNetworkBinding_def convertHost_def convertHostBinding_def

end
