(* ===== verification/ClientConversions.thy ===== *)
theory ClientConversions
  imports ApiConversions
begin

text \<open>
  The conversions of the API server's gRPC client, \<^verbatim>\<open>internal/k8s/client/converters.go\<close>
  and the end of \<^verbatim>\<open>grpc.go\<close>: domain models to the messages of a request and the
  messages of a response to domain models. \<open>None\<close> is a panic on a nil message. Where the package
  repeats a function of the gRPC service, with the same body, the service's is used; where it
  reuses the name for a different body, the name carries the prefix \<open>client\<close>.
\<close>

section \<open>Metadata\<close>

definition managed_field_from_proto :: "pb_managed_field \<Rightarrow> managed_field" where
  "managed_field_from_proto f =
     \<lparr> mf_Manager = pbf_Manager f, mf_Operation = pbf_Operation f, mf_APIVersion = pbf_ApiVersion f,
       mf_Time = pbf_Time f, mf_FieldsType = pbf_FieldsType f,
       mf_FieldsV1 = (if 0 < length (pbf_FieldsV1 f) then Some (pbf_FieldsV1 f) else None),
       mf_Subresource = pbf_Subresource f \<rparr>"

definition convertManagedFieldsFromProto :: "pb_managed_field list \<Rightarrow> managed_field list" where
  "convertManagedFieldsFromProto fs = (if length fs = 0 then [] else map managed_field_from_proto fs)"

definition managed_field_to_proto :: "managed_field \<Rightarrow> pb_managed_field" where
  "managed_field_to_proto f =
     \<lparr> pbf_Manager = mf_Manager f, pbf_Operation = mf_Operation f, pbf_ApiVersion = mf_APIVersion f,
       pbf_Time = mf_Time f, pbf_FieldsType = mf_FieldsType f,
       pbf_FieldsV1 = (case mf_FieldsV1 f of None \<Rightarrow> [] | Some raw \<Rightarrow> raw),
       pbf_Subresource = mf_Subresource f \<rparr>"

definition convertManagedFieldsToProto :: "managed_field list \<Rightarrow> pb_managed_field list" where
  "convertManagedFieldsToProto fs = (if length fs = 0 then [] else map managed_field_to_proto fs)"

lemma managed_fields_roundtrip:
  assumes "\<forall>f\<in>set fs. mf_FieldsV1 f \<noteq> Some []"
  shows "convertManagedFieldsFromProto (convertManagedFieldsToProto fs) = fs"
proof -
  have "managed_field_from_proto (managed_field_to_proto f) = f" if "f \<in> set fs" for f
    using assms that
    by (cases f) (auto simp: managed_field_from_proto_def managed_field_to_proto_def split: option.splits)
  then have "map (managed_field_from_proto \<circ> managed_field_to_proto) fs = fs"
    by (intro map_idI) simp
  then show ?thesis
    by (auto simp: convertManagedFieldsFromProto_def convertManagedFieldsToProto_def)
qed

text \<open>Requests carry the generated name and the managed fields, but no status.\<close>

definition request_meta :: "meta \<Rightarrow> pb_meta" where
  "request_meta m = \<lparr> pbm_Uid = UID m, pbm_ResourceVersion = ResourceVersion m,
     pbm_Generation = Generation m, pbm_CreationTs = timestamp_of (CreationTS m),
     pbm_Labels = Labels m, pbm_Annotations = Annotations m, pbm_Conditions = [],
     pbm_ObservedGeneration = 0, pbm_GeneratedName = GeneratedName m,
     pbm_ManagedFields = convertManagedFieldsToProto (ManagedFields m) \<rparr>"

text \<open>Bindings, port mappings and rules send their metadata only with a creation time.\<close>

definition request_meta_if_created :: "meta \<Rightarrow> pb_meta option" where
  "request_meta_if_created m = (if CreationTS m = ZeroTime then None else Some (request_meta m))"

definition response_meta :: "pb_meta option \<Rightarrow> meta" where
  "response_meta m =
     (case m of
        None \<Rightarrow> empty_meta
      | Some p \<Rightarrow> empty_meta\<lparr> UID := pbm_Uid p, ResourceVersion := pbm_ResourceVersion p,
          Generation := pbm_Generation p, Labels := pbm_Labels p, Annotations := pbm_Annotations p,
          GeneratedName := pbm_GeneratedName p, Conditions := ProtoConditionsToK8s (pbm_Conditions p),
          ObservedGeneration := pbm_ObservedGeneration p,
          ManagedFields := convertManagedFieldsFromProto (pbm_ManagedFields p),
          CreationTS := created_at (pbm_CreationTs p) \<rparr>)"

text \<open>The host conversions always send a timestamp, for the zero time too.\<close>

definition host_request_meta :: "meta \<Rightarrow> pb_meta" where
  "host_request_meta m = (meta_to_pb m)\<lparr>pbm_CreationTs := Some (CreationTS m)\<rparr>"

lemma base_meta_request [simp]: "base_meta (Some (request_meta m)) = kept_meta m"
  by (simp add: base_meta_def request_meta_def kept_meta_def)

lemma base_meta_if_created [simp]:
  "base_meta (request_meta_if_created m) = (if CreationTS m = ZeroTime then empty_meta else kept_meta m)"
  by (simp add: request_meta_if_created_def) (simp add: base_meta_def)

lemma status_host_request [simp]:
  "meta_with_status (Some (host_request_meta m)) = seen_meta m"
  by (simp add: seen_meta_def meta_with_status_def meta_with_conditions_def base_meta_def host_request_meta_def
      meta_to_pb_def kept_meta_def created_at_def ProtoConditionsToK8s_inverse)

lemma response_meta_to_pb [simp]:
  "response_meta (Some (meta_to_pb m)) = seen_meta m"
  by (simp add: seen_meta_def response_meta_def meta_to_pb_def kept_meta_def empty_meta_def
      convertManagedFieldsFromProto_def ProtoConditionsToK8s_inverse)

section \<open>Services and address groups\<close>

definition transport_from_pb :: "pb_enum \<Rightarrow> transport_protocol" where
  "transport_from_pb n = (if n = Networks_NetIP_TCP then TCP else if n = Networks_NetIP_UDP then UDP else TCP)"

definition client_transport_to_pb :: "transport_protocol \<Rightarrow> pb_enum" where
  "client_transport_to_pb p =
     (if p = TCP then Networks_NetIP_TCP else if p = UDP then Networks_NetIP_UDP else Networks_NetIP_TCP)"

definition traffic_from_pb :: "pb_enum \<Rightarrow> traffic" where
  "traffic_from_pb n = (if n = Traffic_Ingress then INGRESS else if n = Traffic_Egress then EGRESS else INGRESS)"

definition client_traffic_to_pb :: "traffic \<Rightarrow> pb_enum" where
  "client_traffic_to_pb t = (if t = INGRESS then Traffic_Ingress else if t = EGRESS then Traffic_Egress else Traffic_Ingress)"

definition target_ref :: "string \<Rightarrow> pb_target option \<Rightarrow> nref option" where
  "target_ref kind t =
     (case t of
        None \<Rightarrow> None
      | Some x \<Rightarrow> map_option (\<lambda>i. api_nref kind (pbi_Name i) (pbi_Namespace i)) (pbt_Identifier x))"

lemma target_ref_simps [simp]:
  "target_ref k (Some (id_target n ns)) = Some (api_nref k n ns)"
  "target_ref k (Some (full_target r)) = Some (api_nref k (ref_Name r) (ref_Namespace r))"
  by (simp_all add: target_ref_def)

definition convertAGSourceFromPB :: "pb_enum \<Rightarrow> string" where
  "convertAGSourceFromPB n =
     (if n = AG_SOURCE_SPEC then AddressGroupSourceSpec
      else if n = AG_SOURCE_BINDING then AddressGroupSourceBinding else AddressGroupSourceSpec)"

definition convertAGSourceToPB :: "string \<Rightarrow> pb_enum" where
  "convertAGSourceToPB s =
     (if s = AddressGroupSourceSpec then AG_SOURCE_SPEC
      else if s = AddressGroupSourceBinding then AG_SOURCE_BINDING else AG_SOURCE_SPEC)"

definition client_ingress_port_from_pb :: "pb_ingress_port \<Rightarrow> ingress_port" where
  "client_ingress_port_from_pb p = \<lparr> ip_Protocol = transport_from_pb (pbp_Protocol p),
     ip_Port = pbp_Port p, ip_Description = pbp_Description p \<rparr>"

definition client_ingress_port_to_pb :: "ingress_port \<Rightarrow> pb_ingress_port" where
  "client_ingress_port_to_pb p = \<lparr> pbp_Protocol = client_transport_to_pb (ip_Protocol p),
     pbp_Port = ip_Port p, pbp_Description = ip_Description p \<rparr>"

definition client_group_reference :: "pb_address_group_reference \<Rightarrow> address_group_reference option" where
  "client_group_reference g =
     (case pba_Ref g of
        None \<Rightarrow> None
      | Some r \<Rightarrow> Some \<lparr> agr_Ref = nref_of_pb r, agr_Source = convertAGSourceFromPB (pba_Source g) \<rparr>)"

definition convertServiceFromProto :: "pb_service \<Rightarrow> service option" where
  "convertServiceFromProto p =
     (case (pb_SelfRef p,
            those (map (\<lambda>t. target_ref ''AddressGroup'' (Some t)) (pbs_AddressGroups p)),
            those (map client_group_reference (pbs_AggregatedAddressGroups p))) of
        (Some i, Some groups, Some aggregated) \<Rightarrow>
          Some \<lparr> Name = pbi_Name i, Namespace = pbi_Namespace i, Meta = response_meta (pb_Meta p),
            svc_Description = pbs_Description p,
            svc_IngressPorts = map client_ingress_port_from_pb (pbs_IngressPorts p),
            svc_AddressGroups = groups, svc_AggregatedAddressGroups = aggregated \<rparr>
      | _ \<Rightarrow> None)"

definition convertServiceToProto :: "service \<Rightarrow> pb_service" where
  "convertServiceToProto s =
     \<lparr> pb_SelfRef = Some (pb_id_of (Name s) (Namespace s)), pb_Meta = Some (request_meta (Meta s)),
       pbs_Description = svc_Description s,
       pbs_IngressPorts = map client_ingress_port_to_pb (svc_IngressPorts s),
       pbs_AddressGroups = map (\<lambda>ag. id_target (ref_Name ag) (ref_Namespace ag)) (svc_AddressGroups s),
       pbs_AggregatedAddressGroups =
         map (\<lambda>g. \<lparr> pba_Ref = Some (pb_nref_of (agr_Ref g)), pba_Source = convertAGSourceToPB (agr_Source g) \<rparr>)
           (svc_AggregatedAddressGroups s) \<rparr>"

definition network_item_from_pb :: "pb_network_item \<Rightarrow> network_item" where
  "network_item_from_pb i = \<lparr> ni_Name = pbn_Name i, ni_CIDR = pbn_Cidr i, ni_ApiVersion = pbn_ApiVersion i,
     ni_Kind = pbn_Kind i, ni_Namespace = pbn_Namespace i \<rparr>"

lemma network_item_roundtrip [simp]: "network_item_from_pb (network_item_to_pb i) = i"
  by (cases i) (simp add: network_item_from_pb_def network_item_to_pb_def)

definition convertAddressGroupFromProto :: "pb_address_group \<Rightarrow> address_group option" where
  "convertAddressGroupFromProto p =
     (case (pb_SelfRef p, those (map convert_host_reference (pbg_AggregatedHosts p))) of
        (Some i, Some aggregated) \<Rightarrow>
          Some \<lparr> Name = pbi_Name i, Namespace = pbi_Namespace i, Meta = response_meta (pb_Meta p),
            ag_DefaultAction =
              (if pbg_DefaultAction p = RuleAction_ACCEPT then ActionAccept
               else if pbg_DefaultAction p = RuleAction_DROP then ActionDrop else ActionDrop),
            ag_Logs = pbg_Logs p, ag_Trace = pbg_Trace p,
            ag_Networks = map network_item_from_pb (pbg_Networks p),
            ag_AddressGroupName = pbg_AddressGroupName p,
            ag_Hosts = map ref_of_pb (pbg_Hosts p), ag_AggregatedHosts = aggregated \<rparr>
      | _ \<Rightarrow> None)"

definition convertAddressGroupToProto :: "address_group \<Rightarrow> pb_address_group" where
  "convertAddressGroupToProto ag =
     \<lparr> pb_SelfRef = Some (pb_id_of (Name ag) (Namespace ag)), pb_Meta = Some (request_meta (Meta ag)),
       pbg_DefaultAction =
         (if ag_DefaultAction ag = ActionAccept then RuleAction_ACCEPT
          else if ag_DefaultAction ag = ActionDrop then RuleAction_DROP else RuleAction_DROP),
       pbg_Logs = ag_Logs ag, pbg_Trace = ag_Trace ag, pbg_Networks = [],
       pbg_Hosts = map pb_ref_of (ag_Hosts ag), pbg_AddressGroupName = [],
       pbg_AggregatedHosts = [] \<rparr>"

section \<open>Bindings, policies, aliases\<close>

text \<open>
  A binding's service is sent with the namespace of the binding, an alias's with the namespace
  of the alias.
\<close>

definition target_in :: "nref \<Rightarrow> string \<Rightarrow> pb_target" where
  "target_in r ns = full_target (r\<lparr>ref_Namespace := ns\<rparr>)"

definition convertAddressGroupBindingFromProto :: "pb_binding \<Rightarrow> address_group_binding option" where
  "convertAddressGroupBindingFromProto p =
     (case (pb_SelfRef p, target_ref ''Service'' (pbb_ServiceRef p),
            target_ref ''AddressGroup'' (pbb_AddressGroupRef p)) of
        (Some i, Some svc, Some ag) \<Rightarrow>
          Some \<lparr> Name = pbi_Name i, Namespace = pbi_Namespace i, Meta = response_meta (pb_Meta p),
            agb_ServiceRef = svc, agb_AddressGroupRef = ag \<rparr>
      | _ \<Rightarrow> None)"

definition convertAddressGroupBindingToProto :: "address_group_binding \<Rightarrow> pb_binding" where
  "convertAddressGroupBindingToProto b =
     \<lparr> pb_SelfRef = Some (pb_id_of (Name b) (Namespace b)),
       pb_Meta = request_meta_if_created (Meta b),
       pbb_ServiceRef = Some (target_in (agb_ServiceRef b) (Namespace b)),
       pbb_AddressGroupRef = Some (full_target (agb_AddressGroupRef b)) \<rparr>"

definition convertAddressGroupBindingPolicyFromProto :: "pb_binding \<Rightarrow> address_group_binding_policy option" where
  "convertAddressGroupBindingPolicyFromProto p =
     (case (pb_SelfRef p, target_ref ''Service'' (pbb_ServiceRef p),
            target_ref ''AddressGroup'' (pbb_AddressGroupRef p)) of
        (Some i, Some svc, Some ag) \<Rightarrow>
          Some \<lparr> Name = pbi_Name i, Namespace = pbi_Namespace i, Meta = response_meta (pb_Meta p),
            agbp_AddressGroupRef = ag, agbp_ServiceRef = svc \<rparr>
      | _ \<Rightarrow> None)"

definition convertAddressGroupBindingPolicyToProto :: "address_group_binding_policy \<Rightarrow> pb_binding" where
  "convertAddressGroupBindingPolicyToProto p =
     \<lparr> pb_SelfRef = Some (pb_id_of (Name p) (Namespace p)), pb_Meta = Some (request_meta (Meta p)),
       pbb_ServiceRef = Some (full_target (agbp_ServiceRef p)),
       pbb_AddressGroupRef = Some (full_target (agbp_AddressGroupRef p)) \<rparr>"

definition convertServiceAliasFromProto :: "pb_service_alias \<Rightarrow> service_alias option" where
  "convertServiceAliasFromProto p =
     (case (pb_SelfRef p, target_ref ''Service'' (pbb_ServiceRef p)) of
        (Some i, Some svc) \<Rightarrow>
          Some \<lparr> Name = pbi_Name i, Namespace = pbi_Namespace i, Meta = response_meta (pb_Meta p),
            sa_ServiceRef = svc \<rparr>
      | _ \<Rightarrow> None)"

definition convertServiceAliasToProto :: "service_alias \<Rightarrow> pb_service_alias" where
  "convertServiceAliasToProto a =
     \<lparr> pb_SelfRef = Some (pb_id_of (Name a) (Namespace a)), pb_Meta = Some (request_meta (Meta a)),
       pbb_ServiceRef = Some (target_in (sa_ServiceRef a) (Namespace a)) \<rparr>"

section \<open>Port mappings\<close>

definition convertAddressGroupPortMappingFromProto ::
  "pb_port_mapping \<Rightarrow> address_group_port_mapping option"
where
  "convertAddressGroupPortMappingFromProto p =
     (case (pb_SelfRef p, convert_access_ports (pbpm_AccessPorts p) []) of
        (Some i, Some ports) \<Rightarrow>
          Some \<lparr> Name = pbi_Name i, Namespace = pbi_Namespace i,
            Meta = (response_meta (pb_Meta p))\<lparr>ManagedFields := []\<rparr>,
            agpm_AccessPorts = Some ports, agpm_AccessPortsWithRefs = [] \<rparr>
      | _ \<Rightarrow> None)"

definition convertAddressGroupPortMappingToProto :: "address_group_port_mapping \<Rightarrow> pb_port_mapping" where
  "convertAddressGroupPortMappingToProto m =
     \<lparr> pb_SelfRef = Some (pb_id_of (Name m) (Namespace m)),
       pb_Meta = request_meta_if_created (Meta m),
       pbpm_AccessPorts = map service_ports_to_pb (access_ports_list m) \<rparr>"

section \<open>Rules\<close>

definition convertRuleS2SFromProto :: "pb_rule_s2s \<Rightarrow> rule_s2s option" where
  "convertRuleS2SFromProto p =
     (case (pb_SelfRef p, target_ref ''Service'' (pbrs_ServiceLocalRef p),
            target_ref ''Service'' (pbrs_ServiceRef p)) of
        (Some i, Some l, Some t) \<Rightarrow>
          Some \<lparr> Name = pbi_Name i, Namespace = pbi_Namespace i, Meta = response_meta (pb_Meta p),
            rs_Traffic = traffic_from_pb (pbrs_Traffic p), rs_ServiceLocalRef = l, rs_ServiceRef = t,
            rs_IEAgAgRuleRefs = map (\<lambda>r. api_nref ''IEAgAgRule'' (pbi_Name r) (pbi_Namespace r))
              (pbrs_IeagAgRuleRefs p),
            rs_Trace = pbrs_Trace p \<rparr>
      | _ \<Rightarrow> None)"

definition convertRuleS2SToProto :: "rule_s2s \<Rightarrow> pb_rule_s2s" where
  "convertRuleS2SToProto r =
     \<lparr> pb_SelfRef = Some (pb_id_of (Name r) (Namespace r)),
       pb_Meta = request_meta_if_created (Meta r),
       pbrs_Traffic = client_traffic_to_pb (rs_Traffic r),
       pbrs_ServiceLocalRef = Some (full_target (rs_ServiceLocalRef r)),
       pbrs_ServiceRef = Some (full_target (rs_ServiceRef r)),
       pbrs_IeagAgRuleRefs = map (\<lambda>ref. pb_id_of (ref_Name ref) (ref_Namespace ref)) (rs_IEAgAgRuleRefs r),
       pbrs_IeagAgRuleObjectRefs = [], pbrs_Trace = rs_Trace r \<rparr>"

text \<open>
  Two conversions of a rule between address groups exist: the exported one, which the gRPC
  service uses for requests, panics on a missing reference; the client's own does not.
\<close>

definition action_from_pb :: "pb_enum \<Rightarrow> rule_action" where
  "action_from_pb n =
     (if n = RuleAction_ACCEPT then ActionAccept
      else if n = RuleAction_DROP then ActionDrop else ActionAccept)"

definition port_spec_from_pb :: "pb_port_spec \<Rightarrow> port_spec" where
  "port_spec_from_pb p = \<lparr> ps_Source = pbps_Source p, ps_Destination = pbps_Destination p \<rparr>"

definition ConvertIEAgAgRuleFromProto :: "pb_ieagag_rule \<Rightarrow> ieagag_rule option" where
  "ConvertIEAgAgRuleFromProto p =
     (case (pb_SelfRef p, target_ref ''AddressGroup'' (pbie_AddressGroupLocal p),
            target_ref ''AddressGroup'' (pbie_AddressGroup p)) of
        (Some i, Some l, Some t) \<Rightarrow>
          Some \<lparr> Name = pbi_Name i, Namespace = pbi_Namespace i, Meta = response_meta (pb_Meta p),
            ie_Transport = transport_from_pb (pbie_Transport p), ie_Traffic = traffic_from_pb (pbie_Traffic p),
            ie_AddressGroupLocal = l, ie_AddressGroup = t, ie_Ports = map port_spec_from_pb (pbie_Ports p),
            ie_Action = action_from_pb (pbie_Action p), ie_Logs = pbie_Logs p, ie_Trace = pbie_Trace p,
            ie_Priority = pbie_Priority p \<rparr>
      | _ \<Rightarrow> None)"

definition convertIEAgAgRuleFromProto :: "pb_ieagag_rule \<Rightarrow> ieagag_rule" where
  "convertIEAgAgRuleFromProto p =
     \<lparr> Name = GetName (pb_SelfRef p), Namespace = GetNamespace (pb_SelfRef p),
       Meta = meta_with_status (pb_Meta p),
       ie_Transport = transport_from_pb (pbie_Transport p), ie_Traffic = traffic_from_pb (pbie_Traffic p),
       ie_AddressGroupLocal =
         (case target_ref ''AddressGroup'' (pbie_AddressGroupLocal p) of None \<Rightarrow> empty_nref | Some r \<Rightarrow> r),
       ie_AddressGroup =
         (case target_ref ''AddressGroup'' (pbie_AddressGroup p) of None \<Rightarrow> empty_nref | Some r \<Rightarrow> r),
       ie_Ports = map port_spec_from_pb (pbie_Ports p), ie_Action = action_from_pb (pbie_Action p),
       ie_Logs = pbie_Logs p, ie_Trace = pbie_Trace p, ie_Priority = pbie_Priority p \<rparr>"

definition convertIEAgAgRuleToProto :: "ieagag_rule \<Rightarrow> pb_ieagag_rule" where
  "convertIEAgAgRuleToProto r =
     \<lparr> pb_SelfRef = Some (pb_id_of (Name r) (Namespace r)),
       pb_Meta = request_meta_if_created (Meta r),
       pbie_Transport = client_transport_to_pb (ie_Transport r),
       pbie_Traffic = client_traffic_to_pb (ie_Traffic r),
       pbie_AddressGroupLocal = Some (full_target (ie_AddressGroupLocal r)),
       pbie_AddressGroup = Some (full_target (ie_AddressGroup r)),
       pbie_Ports = map (\<lambda>p. \<lparr> pbps_Source = ps_Source p, pbps_Destination = ps_Destination p \<rparr>) (ie_Ports r),
       pbie_Action = RuleAction_value (ie_Action r), pbie_Logs = ie_Logs r,
       pbie_Priority = ie_Priority r, pbie_Trace = ie_Trace r \<rparr>"

section \<open>Networks and hosts\<close>

definition convertNetworkFromProto :: "pb_network \<Rightarrow> network" where
  "convertNetworkFromProto p =
     \<lparr> Name = GetName (pb_SelfRef p), Namespace = GetNamespace (pb_SelfRef p),
       Meta = meta_with_conditions (pb_Meta p), nw_CIDR = pbnw_Cidr p, nw_NetworkName = [],
       nw_IsBound = pbnw_IsBound p, nw_BindingRef = map_option ref_of_pb (pbnw_BindingRef p),
       nw_AddressGroupRef =
         map_option (\<lambda>r. \<lparr> ref_APIVersion = pbr_ApiVersion r, ref_Kind = pbr_Kind r, ref_Name = pbr_Name r \<rparr>)
           (pbnw_AddressGroupRef p) \<rparr>"

text \<open>The client's request for a network has no status.\<close>

definition client_convertNetworkToPB :: "network \<Rightarrow> pb_network" where
  "client_convertNetworkToPB n =
     \<lparr> pb_SelfRef = Some (pb_id_of (Name n) (Namespace n)), pb_Meta = Some (meta_to_pb (Meta n)),
       pbnw_Cidr = nw_CIDR n, pbnw_IsBound = False, pbnw_BindingRef = None,
       pbnw_AddressGroupRef = None \<rparr>"

definition ref_or_empty :: "pb_object_reference option \<Rightarrow> object_reference" where
  "ref_or_empty r = (case r of None \<Rightarrow> empty_ref | Some x \<Rightarrow> ref_of_pb x)"

definition convertNetworkBindingFromProto :: "pb_network_binding \<Rightarrow> network_binding" where
  "convertNetworkBindingFromProto p =
     \<lparr> Name = GetName (pb_SelfRef p), Namespace = GetNamespace (pb_SelfRef p),
       Meta = meta_with_conditions (pb_Meta p),
       nb_NetworkRef = ref_or_empty (pbnb_NetworkRef p),
       nb_AddressGroupRef = ref_or_empty (pbnb_AddressGroupRef p),
       nb_NetworkItem =
         (case pbnb_NetworkItem p of
            None \<Rightarrow> empty_network_item
          | Some i \<Rightarrow> empty_network_item\<lparr>ni_Name := pbn_Name i, ni_CIDR := pbn_Cidr i\<rparr>) \<rparr>"

definition client_convertNetworkBindingToPB :: "network_binding \<Rightarrow> pb_network_binding" where
  "client_convertNetworkBindingToPB b =
     \<lparr> pb_SelfRef = Some (pb_id_of (Name b) (Namespace b)), pb_Meta = Some (meta_to_pb (Meta b)),
       pbnb_NetworkRef = Some (pb_ref_of (nb_NetworkRef b)),
       pbnb_AddressGroupRef = Some (pb_ref_of (nb_AddressGroupRef b)),
       pbnb_NetworkItem =
         Some \<lparr> pbn_Name = ni_Name (nb_NetworkItem b), pbn_Cidr = ni_CIDR (nb_NetworkItem b),
                pbn_ApiVersion = [], pbn_Kind = [], pbn_Namespace = [] \<rparr> \<rparr>"

lemma client_network_binding_same [simp]: "client_convertNetworkBindingToPB = convertNetworkBindingToPB"
  by (simp add: fun_eq_iff client_convertNetworkBindingToPB_def convertNetworkBindingToPB_def)

definition convertHostFromProto :: "pb_host \<Rightarrow> host" where
  "convertHostFromProto p =
     \<lparr> Name = GetName (pb_SelfRef p), Namespace = GetNamespace (pb_SelfRef p),
       Meta = meta_with_status (pb_Meta p),
       h_UUID = pbho_Uuid p, h_HostName = pbho_HostNameSync p,
       h_AddressGroupName = pbho_AddressGroupName p, h_IsBound = pbho_IsBound p,
       h_BindingRef = map_option ref_of_pb (pbho_BindingRef p),
       h_AddressGroupRef = map_option ref_of_pb (pbho_AddressGroupRef p),
       h_IpList = pbho_IpList p \<rparr>"

text \<open>The client's request for a host has no IP list.\<close>

definition client_convertHostToPB :: "host \<Rightarrow> pb_host" where
  "client_convertHostToPB h =
     \<lparr> pb_SelfRef = Some (pb_id_of (Name h) (Namespace h)), pb_Meta = Some (host_request_meta (Meta h)),
       pbho_Uuid = h_UUID h, pbho_HostNameSync = h_HostName h,
       pbho_AddressGroupName = h_AddressGroupName h, pbho_IsBound = h_IsBound h,
       pbho_BindingRef = map_option pb_ref_of (h_BindingRef h),
       pbho_AddressGroupRef = map_option pb_ref_of (h_AddressGroupRef h),
       pbho_IpList = [] \<rparr>"

definition convertHostBindingFromProto :: "pb_host_binding \<Rightarrow> host_binding" where
  "convertHostBindingFromProto p =
     \<lparr> Name = GetName (pb_SelfRef p), Namespace = GetNamespace (pb_SelfRef p),
       Meta = meta_with_status (pb_Meta p), hb_HostRef = nref_or_empty (pbhb_HostRef p),
       hb_AddressGroupRef = nref_or_empty (pbhb_AddressGroupRef p) \<rparr>"

definition client_convertHostBindingToPB :: "host_binding \<Rightarrow> pb_host_binding" where
  "client_convertHostBindingToPB b =
     \<lparr> pb_SelfRef = Some (pb_id_of (Name b) (Namespace b)), pb_Meta = Some (host_request_meta (Meta b)),
       pbhb_HostRef = Some (pb_nref_of (hb_HostRef b)),
       pbhb_AddressGroupRef = Some (pb_nref_of (hb_AddressGroupRef b)) \<rparr>"

definition convertSyncOpToPB :: "sync_op \<Rightarrow> pb_enum" where
  "convertSyncOpToPB op = SyncOpToProto op"

lemmas client_to_pb_defs =
  convertServiceToProto_def convertAddressGroupToProto_def convertAddressGroupBindingToProto_def
  convertAddressGroupBindingPolicyToProto_def convertServiceAliasToProto_def
  convertAddressGroupPortMappingToProto_def convertRuleS2SToProto_def convertIEAgAgRuleToProto_def
  client_convertNetworkToPB_def client_convertHostToPB_def client_convertHostBindingToPB_def

lemmas client_from_pb_defs =
  convertServiceFromProto_def convertAddressGroupFromProto_def
  convertAddressGroupBindingFromProto_def convertAddressGroupBindingPolicyFromProto_def
  convertServiceAliasFromProto_def convertAddressGroupPortMappingFromProto_def
  convertRuleS2SFromProto_def ConvertIEAgAgRuleFromProto_def convertIEAgAgRuleFromProto_def
  convertNetworkFromProto_def convertNetworkBindingFromProto_def convertHostFromProto_def
  convertHostBindingFromProto_def

end
