(* ===== verification/K8sObjects.thy ===== *)
theory K8sObjects
  imports PortUtils
begin

text \<open>
  The API objects of \<^verbatim>\<open>internal/k8s/apis/netguard/v1beta1/types.go\<close>. Every kind extends
  the record \<open>k8s_object\<close>: its type and object metadata and the conditions of its status; the
  kinds whose status has an observed generation extend \<open>k8s_generation_object\<close>. The fields of a
  kind's spec, status and root follow, named after the kind and the Go field. References, network
  items and source-tracked references are the same Go types, or have the same fields, as in the
  domain models, and share their records.

  Of the object metadata the record has the fields the converters copy, the finalizers and the
  deletion time; the others (owner references, self link, grace period) are never read or
  written by the modelled code.
\<close>

record type_meta =
  tm_APIVersion :: string
  tm_Kind :: string

record object_meta =
  om_Name :: string
  om_GenerateName :: string
  om_Namespace :: string
  om_UID :: string
  om_ResourceVersion :: string
  om_Generation :: int
  om_CreationTimestamp :: gotime
  om_DeletionTimestamp :: "gotime option"
  om_Labels :: "(string \<times> string) list"
  om_Annotations :: "(string \<times> string) list"
  om_Finalizers :: "string list"
  om_ManagedFields :: "managed_field list"

record k8s_object =
  k_TypeMeta :: type_meta
  k_ObjectMeta :: object_meta
  k_Conditions :: "condition list"

record k8s_generation_object = k8s_object +
  k_ObservedGeneration :: int

record k8s_service = k8s_generation_object +
  ksv_Description :: string
  ksv_IngressPorts :: "ingress_port list"
  ksv_AddressGroups :: "nref list"
  ksv_AggregatedAddressGroups :: "address_group_reference list"

record k8s_address_group = k8s_generation_object +
  kag_DefaultAction :: rule_action
  kag_Logs :: bool
  kag_Trace :: bool
  kag_Hosts :: "object_reference list"
  kag_AddressGroupName :: string
  kag_Networks :: "network_item list"
  kag_AggregatedHosts :: "host_reference list"

record k8s_address_group_binding = k8s_generation_object +
  kagb_ServiceRef :: nref
  kagb_AddressGroupRef :: nref

record k8s_address_group_binding_policy = k8s_generation_object +
  kagbp_AddressGroupRef :: nref
  kagbp_ServiceRef :: nref

record port_config =
  pc_Port :: string
  pc_Description :: string

record k8s_protocol_ports =
  kpp_TCP :: "port_config list"
  kpp_UDP :: "port_config list"

record k8s_service_ports_ref =
  kspr_Ref :: nref
  kspr_Ports :: k8s_protocol_ports

record access_ports_spec =
  aps_TypeMeta :: type_meta
  aps_Items :: "k8s_service_ports_ref list"

record k8s_address_group_port_mapping = k8s_generation_object +
  kagpm_AccessPorts :: access_ports_spec

record k8s_rule_s2s = k8s_generation_object +
  krs_Traffic :: traffic
  krs_ServiceLocalRef :: nref
  krs_ServiceRef :: nref
  krs_Trace :: bool
  krs_IEAgAgRuleRefs :: "nref list"

record k8s_service_alias = k8s_generation_object +
  ksa_ServiceRef :: nref

record k8s_port_range =
  kpr_From :: int
  kpr_To :: int

record k8s_port_spec =
  kps_Port :: int
  kps_PortRange :: "k8s_port_range option"

record k8s_ieagag_rule = k8s_generation_object +
  kie_Description :: string
  kie_Transport :: transport_protocol
  kie_Traffic :: traffic
  kie_AddressGroupLocal :: nref
  kie_AddressGroup :: nref
  kie_Ports :: "k8s_port_spec list"
  kie_Action :: rule_action
  kie_Priority :: int
  kie_Trace :: bool

record k8s_network = k8s_object +
  knw_CIDR :: string
  knw_NetworkName :: string
  knw_IsBound :: bool
  knw_BindingRef :: "object_reference option"
  knw_AddressGroupRef :: "object_reference option"

record k8s_network_binding = k8s_object +
  knb_NetworkRef :: object_reference
  knb_AddressGroupRef :: object_reference
  knb_NetworkItem :: network_item

record k8s_host = k8s_generation_object +
  kh_UUID :: string
  kh_HostName :: string
  kh_AddressGroupName :: string
  kh_IsBound :: bool
  kh_BindingRef :: "object_reference option"
  kh_AddressGroupRef :: "object_reference option"
  kh_IPList :: "string list"

record k8s_host_binding = k8s_generation_object +
  khb_HostRef :: nref
  khb_AddressGroupRef :: nref

text \<open>A list object; its list metadata is empty in all of them.\<close>

record 'a k8s_list =
  kl_TypeMeta :: type_meta
  kl_Items :: "'a list"

abbreviation k_Name :: "'a k8s_object_scheme \<Rightarrow> string" where
  "k_Name o' \<equiv> om_Name (k_ObjectMeta o')"

abbreviation k_Namespace :: "'a k8s_object_scheme \<Rightarrow> string" where
  "k_Namespace o' \<equiv> om_Namespace (k_ObjectMeta o')"

end
