(* ===== verification/K8sConversions.thy ===== *)
theory K8sConversions
  imports K8sObjects
begin

text \<open>
  The converters of \<^verbatim>\<open>internal/k8s/registry/convert\<close> between API objects and domain
  models. A converter's argument is a pointer, so it is an option, and a nil pointer is an error
  of the converter.
\<close>

section \<open>Shared helpers\<close>

definition APIVersionV1Beta1 :: string where
  "APIVersionV1Beta1 = ''netguard.sgroups.io/v1beta1''"

definition ConvertMetadataToDomain :: "object_meta \<Rightarrow> condition list \<Rightarrow> int \<Rightarrow> meta" where
  "ConvertMetadataToDomain om conds gen =
     empty_meta\<lparr> UID := om_UID om, ResourceVersion := om_ResourceVersion om,
       Generation := om_Generation om, CreationTS := om_CreationTimestamp om,
       GeneratedName := om_GenerateName om, ObservedGeneration := gen, Conditions := conds,
       Labels := om_Labels om, Annotations := om_Annotations om,
       ManagedFields := om_ManagedFields om \<rparr>"

definition ConvertMetadataFromDomain :: "meta \<Rightarrow> string \<Rightarrow> string \<Rightarrow> object_meta" where
  "ConvertMetadataFromDomain m name ns =
     \<lparr> om_Name = name, om_GenerateName = GeneratedName m, om_Namespace = ns, om_UID = UID m,
       om_ResourceVersion = ResourceVersion m, om_Generation = Generation m,
       om_CreationTimestamp = CreationTS m, om_DeletionTimestamp = None, om_Labels = Labels m,
       om_Annotations = Annotations m, om_Finalizers = [], om_ManagedFields = ManagedFields m \<rparr>"

definition ConvertStatusFromDomain :: "meta \<Rightarrow> condition list \<times> int" where
  "ConvertStatusFromDomain m = (Conditions m, ObservedGeneration m)"

definition CreateStandardTypeMetaForResource :: "string \<Rightarrow> type_meta" where
  "CreateStandardTypeMetaForResource kind = \<lparr> tm_APIVersion = APIVersionV1Beta1, tm_Kind = kind \<rparr>"

definition CreateStandardTypeMetaForList :: "string \<Rightarrow> type_meta" where
  "CreateStandardTypeMetaForList kind = \<lparr> tm_APIVersion = APIVersionV1Beta1, tm_Kind = kind \<rparr>"

definition ValidateNilObject :: "'a option \<Rightarrow> string \<Rightarrow> error option" where
  "ValidateNilObject obj ty =
     (case obj of None \<Rightarrow> Some (Errorf (ty @ '' object is nil'')) | Some _ \<Rightarrow> None)"

definition ConvertNetworkItemsToDomain :: "network_item list \<Rightarrow> network_item list" where
  "ConvertNetworkItemsToDomain items =
     (if length items = 0 then []
      else map (\<lambda>i. \<lparr> ni_Name = ni_Name i, ni_CIDR = ni_CIDR i, ni_ApiVersion = ni_ApiVersion i,
                      ni_Kind = ni_Kind i, ni_Namespace = ni_Namespace i \<rparr>) items)"

definition ConvertNetworkItemsFromDomain :: "network_item list \<Rightarrow> network_item list" where
  "ConvertNetworkItemsFromDomain items =
     (if length items = 0 then []
      else map (\<lambda>i. \<lparr> ni_Name = ni_Name i, ni_CIDR = ni_CIDR i, ni_ApiVersion = ni_ApiVersion i,
                      ni_Kind = ni_Kind i, ni_Namespace = ni_Namespace i \<rparr>) items)"

text \<open>Both reference types fill empty fields the same way.\<close>

definition EnsureObjectReferenceFields ::
  "'a object_reference_scheme \<Rightarrow> string \<Rightarrow> 'a object_reference_scheme"
where
  "EnsureObjectReferenceFields r kind =
     (let r1 = (if ref_APIVersion r = [] then r\<lparr>ref_APIVersion := APIVersionV1Beta1\<rparr> else r)
      in if ref_Kind r1 = [] then r1\<lparr>ref_Kind := kind\<rparr> else r1)"

definition EnsureNamespacedObjectReferenceFields :: "nref \<Rightarrow> string \<Rightarrow> nref" where
  "EnsureNamespacedObjectReferenceFields r kind = EnsureObjectReferenceFields r kind"

text \<open>
  The body of a converter after the nil check, and the loop of the list conversions: the index
  of the failing object is part of the error.
\<close>

definition converted :: "'a option \<Rightarrow> string \<Rightarrow> ('a \<Rightarrow> error + 'b) \<Rightarrow> error + 'b" where
  "converted obj ty f =
     (case ValidateNilObject obj ty of
        Some e \<Rightarrow> Inl e
      | None \<Rightarrow> (case obj of Some x \<Rightarrow> f x | None \<Rightarrow> Inl ErrNotFound))"

fun convert_items ::
  "string \<Rightarrow> ('a option \<Rightarrow> error + 'b) \<Rightarrow> nat \<Rightarrow> 'a option list \<Rightarrow> error + 'b list"
where
  "convert_items what f i [] = Inr []"
| "convert_items what f i (x # xs) =
     (case f x of
        Inl e \<Rightarrow> Inl (Wrap (''failed to convert domain '' @ what @ '' '' @ itoa (int i) @ '' to k8s'') e)
      | Inr y \<Rightarrow>
          (case convert_items what f (Suc i) xs of Inl e \<Rightarrow> Inl e | Inr ys \<Rightarrow> Inr (y # ys)))"

definition convert_list ::
  "string \<Rightarrow> string \<Rightarrow> ('a option \<Rightarrow> error + 'b) \<Rightarrow> 'a option list \<Rightarrow> error + 'b k8s_list"
where
  "convert_list listKind what f objs =
     (case convert_items what f 0 objs of
        Inl e \<Rightarrow> Inl e
      | Inr items \<Rightarrow> Inr \<lparr> kl_TypeMeta = CreateStandardTypeMetaForList listKind, kl_Items = items \<rparr>)"

lemma converted_simps [simp]:
  "converted (Some x) ty f = f x"
  "converted None ty f = Inl (Errorf (ty @ '' object is nil''))"
  by (simp_all add: converted_def ValidateNilObject_def)

lemma network_items_id [simp]:
  "ConvertNetworkItemsToDomain items = items" "ConvertNetworkItemsFromDomain items = items"
  by (auto simp: ConvertNetworkItemsToDomain_def ConvertNetworkItemsFromDomain_def intro!: map_idI)

section \<open>Services and address groups\<close>

definition convertAddressGroupReferencesToDomain ::
  "address_group_reference list \<Rightarrow> address_group_reference list"
where
  "convertAddressGroupReferencesToDomain rs =
     map (\<lambda>r. \<lparr> agr_Ref = agr_Ref r, agr_Source = agr_Source r \<rparr>) rs"

definition convertAddressGroupReferencesToK8s ::
  "address_group_reference list \<Rightarrow> address_group_reference list"
where
  "convertAddressGroupReferencesToK8s rs =
     map (\<lambda>r. \<lparr> agr_Ref = agr_Ref r, agr_Source = agr_Source r \<rparr>) rs"

definition convertHostReferencesToDomain :: "host_reference list \<Rightarrow> host_reference list" where
  "convertHostReferencesToDomain rs =
     map (\<lambda>r. \<lparr> hr_ObjectReference = hr_ObjectReference r, hr_UUID = hr_UUID r, hr_Source = hr_Source r \<rparr>) rs"

definition convertHostReferencesToK8s :: "host_reference list \<Rightarrow> host_reference list" where
  "convertHostReferencesToK8s rs =
     map (\<lambda>r. \<lparr> hr_ObjectReference = hr_ObjectReference r, hr_UUID = hr_UUID r, hr_Source = hr_Source r \<rparr>) rs"

lemma reference_lists_id [simp]:
  "convertAddressGroupReferencesToDomain gs = gs" "convertAddressGroupReferencesToK8s gs = gs"
  "convertHostReferencesToDomain hs = hs" "convertHostReferencesToK8s hs = hs"
  by (auto simp: convertAddressGroupReferencesToDomain_def convertAddressGroupReferencesToK8s_def
      convertHostReferencesToDomain_def convertHostReferencesToK8s_def intro!: map_idI)

definition ServiceConverter_ToDomain :: "k8s_service option \<Rightarrow> error + service" where
  "ServiceConverter_ToDomain obj = converted obj ''k8s Service'' (\<lambda>k.
     Inr \<lparr> Name = k_Name k, Namespace = k_Namespace k,
       Meta = ConvertMetadataToDomain (k_ObjectMeta k) (k_Conditions k) (k_ObservedGeneration k),
       svc_Description = ksv_Description k, svc_IngressPorts = ksv_IngressPorts k,
       svc_AddressGroups = map (\<lambda>r. NewAddressGroupRef (ref_Name r) [WithNamespace (ref_Namespace r)])
         (ksv_AddressGroups k),
       svc_AggregatedAddressGroups =
         convertAddressGroupReferencesToDomain (ksv_AggregatedAddressGroups k) \<rparr>)"

text \<open>Without aggregated groups, the groups of the spec stand in for them.\<close>

definition ServiceConverter_FromDomain :: "service option \<Rightarrow> error + k8s_service" where
  "ServiceConverter_FromDomain obj = converted obj ''domain Service'' (\<lambda>d.
     let groups = map (\<lambda>r. \<lparr> ref_APIVersion = ''netguard.sgroups.io/v1beta1'', ref_Kind = ''AddressGroup'',
                             ref_Name = ref_Name r, ref_Namespace = ref_Namespace r \<rparr>) (svc_AddressGroups d);
         aggregated = convertAddressGroupReferencesToK8s (svc_AggregatedAddressGroups d);
         aggregated' = (if length aggregated = 0 \<and> 0 < length groups
                        then map (\<lambda>g. \<lparr> agr_Ref = g, agr_Source = ''spec'' \<rparr>) groups else aggregated);
         (conds, gen) = ConvertStatusFromDomain (Meta d)
     in Inr \<lparr> k_TypeMeta = CreateStandardTypeMetaForResource ''Service'',
          k_ObjectMeta = ConvertMetadataFromDomain (Meta d) (Name d) (Namespace d),
          k_Conditions = conds, k_ObservedGeneration = gen, ksv_Description = svc_Description d,
          ksv_IngressPorts = svc_IngressPorts d, ksv_AddressGroups = groups,
          ksv_AggregatedAddressGroups = aggregated' \<rparr>)"

definition ServiceConverter_ToList :: "service option list \<Rightarrow> error + k8s_service k8s_list" where
  "ServiceConverter_ToList = convert_list ''ServiceList'' ''service'' ServiceConverter_FromDomain"

definition AddressGroupConverter_ToDomain :: "k8s_address_group option \<Rightarrow> error + address_group" where
  "AddressGroupConverter_ToDomain obj = converted obj ''k8s AddressGroup'' (\<lambda>k.
     let computed = (if k_Namespace k \<noteq> [] then k_Namespace k @ ''/'' @ k_Name k else k_Name k);
         final = (if kag_AddressGroupName k = [] then computed else kag_AddressGroupName k)
     in Inr \<lparr> Name = k_Name k, Namespace = k_Namespace k,
          Meta = ConvertMetadataToDomain (k_ObjectMeta k) (k_Conditions k) (k_ObservedGeneration k),
          ag_DefaultAction = kag_DefaultAction k, ag_Logs = kag_Logs k, ag_Trace = kag_Trace k,
          ag_Networks = ConvertNetworkItemsToDomain (kag_Networks k), ag_AddressGroupName = final,
          ag_Hosts = kag_Hosts k,
          ag_AggregatedHosts = convertHostReferencesToDomain (kag_AggregatedHosts k) \<rparr>)"

definition AddressGroupConverter_FromDomain :: "address_group option \<Rightarrow> error + k8s_address_group" where
  "AddressGroupConverter_FromDomain obj = converted obj ''domain AddressGroup'' (\<lambda>d.
     let (conds, gen) = ConvertStatusFromDomain (Meta d)
     in Inr \<lparr> k_TypeMeta = CreateStandardTypeMetaForResource ''AddressGroup'',
          k_ObjectMeta = ConvertMetadataFromDomain (Meta d) (Name d) (Namespace d),
          k_Conditions = conds, k_ObservedGeneration = gen, kag_DefaultAction = ag_DefaultAction d,
          kag_Logs = ag_Logs d, kag_Trace = ag_Trace d, kag_Hosts = ag_Hosts d,
          kag_AddressGroupName = ag_AddressGroupName d,
          kag_Networks = ConvertNetworkItemsFromDomain (ag_Networks d),
          kag_AggregatedHosts = convertHostReferencesToK8s (ag_AggregatedHosts d) \<rparr>)"

definition AddressGroupConverter_ToList :: "address_group option list \<Rightarrow> error + k8s_address_group k8s_list" where
  "AddressGroupConverter_ToList =
     convert_list ''AddressGroupList'' ''address group'' AddressGroupConverter_FromDomain"

section \<open>Bindings, policies, aliases\<close>

definition AddressGroupBindingConverter_ToDomain ::
  "k8s_address_group_binding option \<Rightarrow> error + address_group_binding"
where
  "AddressGroupBindingConverter_ToDomain obj = converted obj ''k8s AddressGroupBinding'' (\<lambda>k.
     if ref_Name (kagb_ServiceRef k) = [] then
       Inl (Errorf (''AddressGroupBinding '' @ k_Namespace k @ ''/'' @ k_Name k @ '' has empty ServiceRef.Name''))
     else if ref_Name (kagb_AddressGroupRef k) = [] then
       Inl (Errorf (''AddressGroupBinding '' @ k_Namespace k @ ''/'' @ k_Name k @ '' has empty AddressGroupRef.Name''))
     else Inr \<lparr> Name = k_Name k, Namespace = k_Namespace k,
       Meta = ConvertMetadataToDomain (k_ObjectMeta k) (k_Conditions k) (k_ObservedGeneration k),
       agb_ServiceRef = kagb_ServiceRef k, agb_AddressGroupRef = kagb_AddressGroupRef k \<rparr>)"

definition AddressGroupBindingConverter_FromDomain ::
  "address_group_binding option \<Rightarrow> error + k8s_address_group_binding"
where
  "AddressGroupBindingConverter_FromDomain obj = converted obj ''domain AddressGroupBinding'' (\<lambda>d.
     let (conds, gen) = ConvertStatusFromDomain (Meta d)
     in Inr \<lparr> k_TypeMeta = CreateStandardTypeMetaForResource ''AddressGroupBinding'',
          k_ObjectMeta = ConvertMetadataFromDomain (Meta d) (Name d) (Namespace d),
          k_Conditions = conds, k_ObservedGeneration = gen,
          kagb_ServiceRef = EnsureNamespacedObjectReferenceFields (agb_ServiceRef d) ''Service'',
          kagb_AddressGroupRef =
            EnsureNamespacedObjectReferenceFields (agb_AddressGroupRef d) ''AddressGroup'' \<rparr>)"

definition AddressGroupBindingConverter_ToList ::
  "address_group_binding option list \<Rightarrow> error + k8s_address_group_binding k8s_list"
where
  "AddressGroupBindingConverter_ToList =
     convert_list ''AddressGroupBindingList'' ''address group binding''
       AddressGroupBindingConverter_FromDomain"

definition AddressGroupBindingPolicyConverter_ToDomain ::
  "k8s_address_group_binding_policy option \<Rightarrow> error + address_group_binding_policy"
where
  "AddressGroupBindingPolicyConverter_ToDomain obj = converted obj ''k8s AddressGroupBindingPolicy'' (\<lambda>k.
     Inr \<lparr> Name = k_Name k, Namespace = k_Namespace k,
       Meta = ConvertMetadataToDomain (k_ObjectMeta k) (k_Conditions k) (k_ObservedGeneration k),
       agbp_AddressGroupRef = kagbp_AddressGroupRef k, agbp_ServiceRef = kagbp_ServiceRef k \<rparr>)"

definition AddressGroupBindingPolicyConverter_FromDomain ::
  "address_group_binding_policy option \<Rightarrow> error + k8s_address_group_binding_policy"
where
  "AddressGroupBindingPolicyConverter_FromDomain obj = converted obj ''domain AddressGroupBindingPolicy'' (\<lambda>d.
     let (conds, gen) = ConvertStatusFromDomain (Meta d)
     in Inr \<lparr> k_TypeMeta = CreateStandardTypeMetaForResource ''AddressGroupBindingPolicy'',
          k_ObjectMeta = ConvertMetadataFromDomain (Meta d) (Name d) (Namespace d),
          k_Conditions = conds, k_ObservedGeneration = gen,
          kagbp_AddressGroupRef =
            EnsureNamespacedObjectReferenceFields (agbp_AddressGroupRef d) ''AddressGroup'',
          kagbp_ServiceRef = EnsureNamespacedObjectReferenceFields (agbp_ServiceRef d) ''Service'' \<rparr>)"

definition AddressGroupBindingPolicyConverter_ToList ::
  "address_group_binding_policy option list \<Rightarrow> error + k8s_address_group_binding_policy k8s_list"
where
  "AddressGroupBindingPolicyConverter_ToList =
     convert_list ''AddressGroupBindingPolicyList'' ''address group binding policy''
       AddressGroupBindingPolicyConverter_FromDomain"

definition ServiceAliasConverter_ToDomain :: "k8s_service_alias option \<Rightarrow> error + service_alias" where
  "ServiceAliasConverter_ToDomain obj = converted obj ''k8s ServiceAlias'' (\<lambda>k.
     Inr \<lparr> Name = k_Name k, Namespace = k_Namespace k,
       Meta = ConvertMetadataToDomain (k_ObjectMeta k) (k_Conditions k) (k_ObservedGeneration k),
       sa_ServiceRef = ksa_ServiceRef k \<rparr>)"

definition ServiceAliasConverter_FromDomain :: "service_alias option \<Rightarrow> error + k8s_service_alias" where
  "ServiceAliasConverter_FromDomain obj = converted obj ''domain ServiceAlias'' (\<lambda>d.
     let (conds, gen) = ConvertStatusFromDomain (Meta d)
     in Inr \<lparr> k_TypeMeta = CreateStandardTypeMetaForResource ''ServiceAlias'',
          k_ObjectMeta = ConvertMetadataFromDomain (Meta d) (Name d) (Namespace d),
          k_Conditions = conds, k_ObservedGeneration = gen,
          ksa_ServiceRef = EnsureNamespacedObjectReferenceFields (sa_ServiceRef d) ''Service'' \<rparr>)"

definition ServiceAliasConverter_ToList :: "service_alias option list \<Rightarrow> error + k8s_service_alias k8s_list" where
  "ServiceAliasConverter_ToList =
     convert_list ''ServiceAliasList'' ''service alias'' ServiceAliasConverter_FromDomain"

section \<open>Port mappings\<close>

fun parse_port_configs :: "string \<Rightarrow> port_config list \<Rightarrow> port_range list \<Rightarrow> error + port_range list" where
  "parse_port_configs proto [] acc = Inr acc"
| "parse_port_configs proto (c # cs) acc =
     (case parsePortConfig (pc_Port c) of
        Inl e \<Rightarrow> Inl (Wrap (''failed to parse '' @ proto @ '' port config '' @ pc_Port c) e)
      | Inr rs \<Rightarrow> parse_port_configs proto cs (acc @ rs))"

definition parse_protocol ::
  "transport_protocol \<Rightarrow> port_config list \<Rightarrow> protocol_ports \<Rightarrow> error + protocol_ports"
where
  "parse_protocol proto cs ports =
     (if 0 < length cs then
        (case parse_port_configs proto cs [] of
           Inl e \<Rightarrow> Inl e
         | Inr rs \<Rightarrow> Inr (AList.update proto rs ports))
      else Inr ports)"

fun access_ports_to_domain ::
  "k8s_service_ports_ref list \<Rightarrow> (nref \<times> service_ports) list \<Rightarrow> error + (nref \<times> service_ports) list"
where
  "access_ports_to_domain [] m = Inr m"
| "access_ports_to_domain (r # rs) m =
     (case parse_protocol TCP (kpp_TCP (kspr_Ports r)) [] of
        Inl e \<Rightarrow> Inl e
      | Inr ports \<Rightarrow>
     (case parse_protocol UDP (kpp_UDP (kspr_Ports r)) ports of
        Inl e \<Rightarrow> Inl e
      | Inr ports' \<Rightarrow>
          access_ports_to_domain rs (AList.update (kspr_Ref r) \<lparr> sp_Ports = ports' \<rparr> m)))"

definition AddressGroupPortMappingConverter_ToDomain ::
  "k8s_address_group_port_mapping option \<Rightarrow> error + address_group_port_mapping"
where
  "AddressGroupPortMappingConverter_ToDomain obj = converted obj ''k8s AddressGroupPortMapping'' (\<lambda>k.
     case access_ports_to_domain (aps_Items (kagpm_AccessPorts k)) [] of
       Inl e \<Rightarrow> Inl e
     | Inr ports \<Rightarrow>
         Inr \<lparr> Name = k_Name k, Namespace = k_Namespace k,
           Meta = ConvertMetadataToDomain (k_ObjectMeta k) (k_Conditions k) (k_ObservedGeneration k),
           agpm_AccessPorts = Some ports, agpm_AccessPortsWithRefs = [] \<rparr>)"

definition port_configs_of :: "transport_protocol \<Rightarrow> protocol_ports \<Rightarrow> port_config list" where
  "port_configs_of proto ports =
     (case map_of ports proto of
        None \<Rightarrow> []
      | Some rs \<Rightarrow> map (\<lambda>r. \<lparr> pc_Port = formatPortRange r, pc_Description = [] \<rparr>) rs)"

definition service_ports_to_k8s :: "nref \<times> service_ports \<Rightarrow> k8s_service_ports_ref" where
  "service_ports_to_k8s e =
     \<lparr> kspr_Ref = fst e,
       kspr_Ports = \<lparr> kpp_TCP = port_configs_of TCP (sp_Ports (snd e)),
                      kpp_UDP = port_configs_of UDP (sp_Ports (snd e)) \<rparr> \<rparr>"

definition AddressGroupPortMappingConverter_FromDomain ::
  "address_group_port_mapping option \<Rightarrow> error + k8s_address_group_port_mapping"
where
  "AddressGroupPortMappingConverter_FromDomain obj = converted obj ''domain AddressGroupPortMapping'' (\<lambda>d.
     let (conds, gen) = ConvertStatusFromDomain (Meta d);
         ports = (case agpm_AccessPorts d of None \<Rightarrow> [] | Some ps \<Rightarrow> ps)
     in Inr \<lparr> k_TypeMeta = CreateStandardTypeMetaForResource ''AddressGroupPortMapping'',
          k_ObjectMeta = ConvertMetadataFromDomain (Meta d) (Name d) (Namespace d),
          k_Conditions = conds, k_ObservedGeneration = gen,
          kagpm_AccessPorts =
            \<lparr> aps_TypeMeta = \<lparr> tm_APIVersion = APIVersionV1Beta1, tm_Kind = ''AccessPortsSpec'' \<rparr>,
              aps_Items = map service_ports_to_k8s ports \<rparr> \<rparr>)"

definition AddressGroupPortMappingConverter_ToList ::
  "address_group_port_mapping option list \<Rightarrow> error + k8s_address_group_port_mapping k8s_list"
where
  "AddressGroupPortMappingConverter_ToList =
     convert_list ''AddressGroupPortMappingList'' ''address group port mapping''
       AddressGroupPortMappingConverter_FromDomain"

section \<open>Service rules\<close>

definition RuleS2SConverter_convertTrafficToDomain :: "traffic \<Rightarrow> error + traffic" where
  "RuleS2SConverter_convertTrafficToDomain t =
     (if t = ''INGRESS'' then Inr INGRESS else if t = ''EGRESS'' then Inr EGRESS
      else Inl (Errorf (''unknown traffic type: '' @ t)))"

definition RuleS2SConverter_convertTrafficFromDomain :: "traffic \<Rightarrow> error + traffic" where
  "RuleS2SConverter_convertTrafficFromDomain t =
     (if t = INGRESS then Inr ''INGRESS'' else if t = EGRESS then Inr ''EGRESS''
      else Inl (Errorf (''unknown traffic type: '' @ t)))"

definition RuleS2SConverter_ToDomain :: "k8s_rule_s2s option \<Rightarrow> error + rule_s2s" where
  "RuleS2SConverter_ToDomain obj = converted obj ''k8s RuleS2S'' (\<lambda>k.
     case RuleS2SConverter_convertTrafficToDomain (krs_Traffic k) of
       Inl e \<Rightarrow> Inl (Wrap ''failed to convert traffic'' e)
     | Inr t \<Rightarrow>
         Inr \<lparr> Name = k_Name k, Namespace = k_Namespace k,
           Meta = ConvertMetadataToDomain (k_ObjectMeta k) (k_Conditions k) (k_ObservedGeneration k),
           rs_Traffic = t, rs_ServiceLocalRef = krs_ServiceLocalRef k, rs_ServiceRef = krs_ServiceRef k,
           rs_IEAgAgRuleRefs = krs_IEAgAgRuleRefs k, rs_Trace = krs_Trace k \<rparr>)"

definition RuleS2SConverter_FromDomain :: "rule_s2s option \<Rightarrow> error + k8s_rule_s2s" where
  "RuleS2SConverter_FromDomain obj = converted obj ''domain RuleS2S'' (\<lambda>d.
     case RuleS2SConverter_convertTrafficFromDomain (rs_Traffic d) of
       Inl e \<Rightarrow> Inl (Wrap ''failed to convert traffic'' e)
     | Inr t \<Rightarrow>
         (let (conds, gen) = ConvertStatusFromDomain (Meta d)
          in Inr \<lparr> k_TypeMeta = CreateStandardTypeMetaForResource ''RuleS2S'',
               k_ObjectMeta = ConvertMetadataFromDomain (Meta d) (Name d) (Namespace d),
               k_Conditions = conds, k_ObservedGeneration = gen, krs_Traffic = t,
               krs_ServiceLocalRef = EnsureNamespacedObjectReferenceFields (rs_ServiceLocalRef d) ''Service'',
               krs_ServiceRef = EnsureNamespacedObjectReferenceFields (rs_ServiceRef d) ''Service'',
               krs_Trace = rs_Trace d,
               krs_IEAgAgRuleRefs =
                 map (\<lambda>r. EnsureNamespacedObjectReferenceFields r ''IEAgAgRule'') (rs_IEAgAgRuleRefs d) \<rparr>))"

definition RuleS2SConverter_ToList :: "rule_s2s option list \<Rightarrow> error + k8s_rule_s2s k8s_list" where
  "RuleS2SConverter_ToList = convert_list ''RuleS2SList'' ''rule s2s'' RuleS2SConverter_FromDomain"

section \<open>Rules between address groups\<close>

text \<open>\<^verbatim>\<open>strings.ToUpper\<close> on ASCII text.\<close>

definition to_upper :: "string \<Rightarrow> string" where
  "to_upper s = map (\<lambda>c. let n = of_char c in if 97 \<le> n \<and> n \<le> (122::nat) then char_of (n - 32) else c) s"

definition convertTransportToDomain :: "transport_protocol \<Rightarrow> error + transport_protocol" where
  "convertTransportToDomain t =
     (if t = ''TCP'' then Inr TCP else if t = ''UDP'' then Inr UDP
      else Inl (Errorf (''unknown transport protocol: '' @ t)))"

definition convertTransportFromDomain :: "transport_protocol \<Rightarrow> error + transport_protocol" where
  "convertTransportFromDomain t =
     (if t = TCP then Inr ''TCP'' else if t = UDP then Inr ''UDP''
      else if t = [] then Inr ''TCP''
      else if t = ''Networks_NetIP_TCP'' then Inr ''TCP''
      else if t = ''Networks_NetIP_UDP'' then Inr ''UDP''
      else Inl (Errorf (''unknown transport protocol: '' @ t)))"

definition convertTrafficToDomain :: "traffic \<Rightarrow> error + traffic" where
  "convertTrafficToDomain t =
     (if t = ''INGRESS'' then Inr INGRESS else if t = ''EGRESS'' then Inr EGRESS
      else Inl (Errorf (''unknown traffic direction: '' @ t)))"

definition convertTrafficFromDomain :: "traffic \<Rightarrow> error + traffic" where
  "convertTrafficFromDomain t =
     (if t = INGRESS then Inr ''INGRESS'' else if t = EGRESS then Inr ''EGRESS''
      else if t = [] then Inr ''INGRESS''
      else if t = ''Traffic_Ingress'' then Inr ''INGRESS''
      else if t = ''Traffic_Egress'' then Inr ''EGRESS''
      else Inl (Errorf (''unknown traffic direction: '' @ t)))"

definition convertActionToDomain :: "string \<Rightarrow> error + rule_action" where
  "convertActionToDomain a =
     (if to_upper a = ''ACCEPT'' then Inr ActionAccept
      else if to_upper a = ''DROP'' then Inr ActionDrop
      else Inl (Errorf (''unknown action: '' @ a)))"

definition convertActionFromDomain :: "rule_action \<Rightarrow> error + rule_action" where
  "convertActionFromDomain a =
     (if a = ActionAccept then Inr ''ACCEPT'' else if a = ActionDrop then Inr ''DROP''
      else if a = [] then Inr ''ACCEPT''
      else if a = ''RuleAction_ACCEPT'' then Inr ''ACCEPT''
      else if a = ''RuleAction_DROP'' then Inr ''DROP''
      else Inl (Errorf (''unknown action: '' @ a)))"

definition port_spec_to_domain :: "k8s_port_spec \<Rightarrow> port_spec" where
  "port_spec_to_domain p =
     \<lparr> ps_Source = [],
       ps_Destination =
         (case kps_PortRange p of
            None \<Rightarrow> itoa (kps_Port p)
          | Some r \<Rightarrow> itoa (kpr_From r) @ ''-'' @ itoa (kpr_To r)) \<rparr>"

definition IEAgAgRuleConverter_ToDomain :: "k8s_ieagag_rule option \<Rightarrow> error + ieagag_rule" where
  "IEAgAgRuleConverter_ToDomain obj = converted obj ''k8s IEAgAgRule'' (\<lambda>k.
     case convertTransportToDomain (kie_Transport k) of
       Inl e \<Rightarrow> Inl (Wrap ''failed to convert transport'' e)
     | Inr transport \<Rightarrow>
     (case convertTrafficToDomain (kie_Traffic k) of
       Inl e \<Rightarrow> Inl (Wrap ''failed to convert traffic'' e)
     | Inr t \<Rightarrow>
     (case convertActionToDomain (kie_Action k) of
       Inl e \<Rightarrow> Inl (Wrap ''failed to convert action'' e)
     | Inr a \<Rightarrow>
         Inr \<lparr> Name = k_Name k, Namespace = k_Namespace k,
           Meta = ConvertMetadataToDomain (k_ObjectMeta k) (k_Conditions k) (k_ObservedGeneration k),
           ie_Transport = transport, ie_Traffic = t, ie_AddressGroupLocal = kie_AddressGroupLocal k,
           ie_AddressGroup = kie_AddressGroup k, ie_Ports = map port_spec_to_domain (kie_Ports k),
           ie_Action = a, ie_Logs = False, ie_Trace = kie_Trace k, ie_Priority = kie_Priority k \<rparr>)))"

text \<open>
  \<^verbatim>\<open>fmt.Sscanf\<close> with \<^verbatim>\<open>%d\<close> into an \<^verbatim>\<open>int32\<close>, on ASCII text: blanks are
  skipped, but a newline is an error; a sign and decimal digits follow; a value outside the
  32-bit range is an error. What is left of the input is ignored.
\<close>

fun scan_spaces :: "string \<Rightarrow> string option" where
  "scan_spaces [] = Some []"
| "scan_spaces (c # cs) =
     (if c = CHR 0x0A then None else if is_space c then scan_spaces cs else Some (c # cs))"

definition is_digit :: "char \<Rightarrow> bool" where
  "is_digit c \<longleftrightarrow> digit_val c \<noteq> None"

definition scan_sign :: "string \<Rightarrow> bool \<times> string" where
  "scan_sign s =
     (case s of
        [] \<Rightarrow> (False, [])
      | c # cs \<Rightarrow> if c = CHR ''-'' then (True, cs) else if c = CHR ''+'' then (False, cs) else (False, s))"

definition scan_int32 :: "string \<Rightarrow> (int \<times> string) option" where
  "scan_int32 s =
     (case scan_spaces s of
        None \<Rightarrow> None
      | Some t \<Rightarrow>
          (let (neg, u) = scan_sign t;
               ds = takeWhile is_digit u
           in if ds = [] then None
              else (case digits_val 0 ds of
                      None \<Rightarrow> None
                    | Some n \<Rightarrow>
                        (let i = (if neg then - int n else int n)
                         in if - (2 ^ 31) \<le> i \<and> i < 2 ^ 31 then Some (i, dropWhile is_digit u) else None))))"

definition Sscanf_d :: "string \<Rightarrow> int option" where
  "Sscanf_d s = map_option fst (scan_int32 s)"

definition Sscanf_d_d :: "string \<Rightarrow> (int \<times> int) option" where
  "Sscanf_d_d s =
     (case scan_int32 s of
        Some (i, c # rest) \<Rightarrow>
          if c = CHR ''-'' then map_option (\<lambda>(j, _). (i, j)) (scan_int32 rest) else None
      | _ \<Rightarrow> None)"

text \<open>Ports that do not parse are left out.\<close>

definition port_to_k8s :: "string \<Rightarrow> k8s_port_spec list" where
  "port_to_k8s part =
     (let s = trim_space part
      in if s = [] then []
         else if CHR ''-'' \<in> set s then
           (case Sscanf_d_d s of
              None \<Rightarrow> []
            | Some (from, to) \<Rightarrow> [\<lparr> kps_Port = 0, kps_PortRange = Some \<lparr> kpr_From = from, kpr_To = to \<rparr> \<rparr>])
         else
           (case Sscanf_d s of
              None \<Rightarrow> []
            | Some p \<Rightarrow> [\<lparr> kps_Port = p, kps_PortRange = None \<rparr>]))"

definition port_spec_to_k8s :: "port_spec \<Rightarrow> k8s_port_spec list" where
  "port_spec_to_k8s p =
     (if ps_Destination p \<noteq> [] then concat (map port_to_k8s (split_on CHR '','' (ps_Destination p))) else [])"

definition IEAgAgRuleConverter_FromDomain :: "ieagag_rule option \<Rightarrow> error + k8s_ieagag_rule" where
  "IEAgAgRuleConverter_FromDomain obj = converted obj ''domain IEAgAgRule'' (\<lambda>d.
     case convertTransportFromDomain (ie_Transport d) of
       Inl e \<Rightarrow> Inl (Wrap ''failed to convert transport'' e)
     | Inr transport \<Rightarrow>
     (case convertTrafficFromDomain (ie_Traffic d) of
       Inl e \<Rightarrow> Inl (Wrap ''failed to convert traffic'' e)
     | Inr t \<Rightarrow>
     (case convertActionFromDomain (ie_Action d) of
       Inl e \<Rightarrow> Inl (Wrap ''failed to convert action'' e)
     | Inr a \<Rightarrow>
         (let (conds, gen) = ConvertStatusFromDomain (Meta d)
          in Inr \<lparr> k_TypeMeta = CreateStandardTypeMetaForResource ''IEAgAgRule'',
               k_ObjectMeta = ConvertMetadataFromDomain (Meta d) (Name d) (Namespace d),
               k_Conditions = conds, k_ObservedGeneration = gen,
               kie_Description = ''IEAgAgRule: '' @ ie_Traffic d @ '' traffic from '' @
                 ref_Name (ie_AddressGroupLocal d) @ '' to '' @ ref_Name (ie_AddressGroup d),
               kie_Transport = transport, kie_Traffic = t,
               kie_AddressGroupLocal =
                 EnsureNamespacedObjectReferenceFields (ie_AddressGroupLocal d) ''AddressGroup'',
               kie_AddressGroup = EnsureNamespacedObjectReferenceFields (ie_AddressGroup d) ''AddressGroup'',
               kie_Ports = concat (map port_spec_to_k8s (ie_Ports d)), kie_Action = a,
               kie_Priority = ie_Priority d, kie_Trace = ie_Trace d \<rparr>))))"

definition IEAgAgRuleConverter_ToList :: "ieagag_rule option list \<Rightarrow> error + k8s_ieagag_rule k8s_list" where
  "IEAgAgRuleConverter_ToList =
     convert_list ''IEAgAgRuleList'' ''IEAgAgRule'' IEAgAgRuleConverter_FromDomain"

section \<open>Networks and hosts\<close>

definition NetworkConverter_ToDomain :: "k8s_network option \<Rightarrow> error + network" where
  "NetworkConverter_ToDomain obj = converted obj ''k8s Network'' (\<lambda>k.
     Inr \<lparr> Name = k_Name k, Namespace = k_Namespace k,
       Meta = ConvertMetadataToDomain (k_ObjectMeta k) (k_Conditions k) 0,
       nw_CIDR = knw_CIDR k, nw_NetworkName = knw_NetworkName k, nw_IsBound = knw_IsBound k,
       nw_BindingRef = knw_BindingRef k, nw_AddressGroupRef = knw_AddressGroupRef k \<rparr>)"

definition NetworkConverter_FromDomain :: "network option \<Rightarrow> error + k8s_network" where
  "NetworkConverter_FromDomain obj = converted obj ''domain Network'' (\<lambda>d.
     Inr \<lparr> k_TypeMeta = CreateStandardTypeMetaForResource ''Network'',
       k_ObjectMeta = ConvertMetadataFromDomain (Meta d) (Name d) (Namespace d),
       k_Conditions = Conditions (Meta d), knw_CIDR = nw_CIDR d, knw_NetworkName = nw_NetworkName d,
       knw_IsBound = nw_IsBound d,
       knw_BindingRef = map_option (\<lambda>r. EnsureObjectReferenceFields r ''NetworkBinding'') (nw_BindingRef d),
       knw_AddressGroupRef =
         map_option (\<lambda>r. EnsureObjectReferenceFields r ''AddressGroup'') (nw_AddressGroupRef d) \<rparr>)"

definition NetworkConverter_ToList :: "network option list \<Rightarrow> error + k8s_network k8s_list" where
  "NetworkConverter_ToList = convert_list ''NetworkList'' ''network'' NetworkConverter_FromDomain"

definition NetworkBindingConverter_ToDomain :: "k8s_network_binding option \<Rightarrow> error + network_binding" where
  "NetworkBindingConverter_ToDomain obj = converted obj ''k8s NetworkBinding'' (\<lambda>k.
     Inr \<lparr> Name = k_Name k, Namespace = k_Namespace k,
       Meta = ConvertMetadataToDomain (k_ObjectMeta k) (k_Conditions k) 0,
       nb_NetworkRef = knb_NetworkRef k, nb_AddressGroupRef = knb_AddressGroupRef k,
       nb_NetworkItem = empty_network_item \<rparr>)"

definition NetworkBindingConverter_FromDomain :: "network_binding option \<Rightarrow> error + k8s_network_binding" where
  "NetworkBindingConverter_FromDomain obj = converted obj ''domain NetworkBinding'' (\<lambda>d.
     Inr \<lparr> k_TypeMeta = CreateStandardTypeMetaForResource ''NetworkBinding'',
       k_ObjectMeta = ConvertMetadataFromDomain (Meta d) (Name d) (Namespace d),
       k_Conditions = Conditions (Meta d),
       knb_NetworkRef = EnsureObjectReferenceFields (nb_NetworkRef d) ''Network'',
       knb_AddressGroupRef = EnsureObjectReferenceFields (nb_AddressGroupRef d) ''AddressGroup'',
       knb_NetworkItem = empty_network_item \<rparr>)"

definition NetworkBindingConverter_ToList ::
  "network_binding option list \<Rightarrow> error + k8s_network_binding k8s_list"
where
  "NetworkBindingConverter_ToList =
     convert_list ''NetworkBindingList'' ''network binding'' NetworkBindingConverter_FromDomain"

definition HostConverter_ToDomain :: "k8s_host option \<Rightarrow> error + host" where
  "HostConverter_ToDomain obj = converted obj ''k8s Host'' (\<lambda>k.
     Inr \<lparr> Name = k_Name k, Namespace = k_Namespace k,
       Meta = ConvertMetadataToDomain (k_ObjectMeta k) (k_Conditions k) (k_ObservedGeneration k),
       h_UUID = kh_UUID k, h_HostName = kh_HostName k, h_AddressGroupName = [],
       h_IsBound = kh_IsBound k, h_BindingRef = kh_BindingRef k,
       h_AddressGroupRef = kh_AddressGroupRef k, h_IpList = kh_IPList k \<rparr>)"

definition HostConverter_FromDomain :: "host option \<Rightarrow> error + k8s_host" where
  "HostConverter_FromDomain obj = converted obj ''domain Host'' (\<lambda>d.
     let (conds, gen) = ConvertStatusFromDomain (Meta d)
     in Inr \<lparr> k_TypeMeta = CreateStandardTypeMetaForResource ''Host'',
          k_ObjectMeta = ConvertMetadataFromDomain (Meta d) (Name d) (Namespace d),
          k_Conditions = conds, k_ObservedGeneration = gen, kh_UUID = h_UUID d,
          kh_HostName = h_HostName d, kh_AddressGroupName = [], kh_IsBound = h_IsBound d,
          kh_BindingRef = h_BindingRef d, kh_AddressGroupRef = h_AddressGroupRef d,
          kh_IPList = h_IpList d \<rparr>)"

definition HostConverter_ToList :: "host option list \<Rightarrow> error + k8s_host k8s_list" where
  "HostConverter_ToList = convert_list ''HostList'' ''host'' HostConverter_FromDomain"

definition HostBindingConverter_ToDomain :: "k8s_host_binding option \<Rightarrow> error + host_binding" where
  "HostBindingConverter_ToDomain obj = converted obj ''k8s HostBinding'' (\<lambda>k.
     Inr \<lparr> Name = k_Name k, Namespace = k_Namespace k,
       Meta = ConvertMetadataToDomain (k_ObjectMeta k) (k_Conditions k) (k_ObservedGeneration k),
       hb_HostRef = khb_HostRef k, hb_AddressGroupRef = khb_AddressGroupRef k \<rparr>)"

definition HostBindingConverter_FromDomain :: "host_binding option \<Rightarrow> error + k8s_host_binding" where
  "HostBindingConverter_FromDomain obj = converted obj ''domain HostBinding'' (\<lambda>d.
     let (conds, gen) = ConvertStatusFromDomain (Meta d)
     in Inr \<lparr> k_TypeMeta = CreateStandardTypeMetaForResource ''HostBinding'',
          k_ObjectMeta = ConvertMetadataFromDomain (Meta d) (Name d) (Namespace d),
          k_Conditions = conds, k_ObservedGeneration = gen, khb_HostRef = hb_HostRef d,
          khb_AddressGroupRef = hb_AddressGroupRef d \<rparr>)"

definition HostBindingConverter_ToList :: "host_binding option list \<Rightarrow> error + k8s_host_binding k8s_list" where
  "HostBindingConverter_ToList = convert_list ''HostBindingList'' ''host binding'' HostBindingConverter_FromDomain"

end
