(* ===== verification/ApiPipeline.thy ===== *)
theory ApiPipeline
  imports ClientConversions K8sConversions
begin

text \<open>
  An object read through the API server passes four conversions: the gRPC service's response
  conversion, the client's, and the registry converter's \<^verbatim>\<open>FromDomain\<close>. An object written
  passes \<^verbatim>\<open>ToDomain\<close>, the client's request conversion and the service's. This theory
  composes them for every kind and shows what an unmodified write of a read object stores. It is
  about the conversions only: the field validation of an update, which \<^verbatim>\<open>BaseStorage.Update\<close> runs
  before them and which may reject the object, is in \<^verbatim>\<open>FieldValidation\<close>.
\<close>

section \<open>Reading and writing through the API server\<close>

definition api_get ::
  "('d \<Rightarrow> 'p) \<Rightarrow> ('p \<Rightarrow> 'd option) \<Rightarrow> ('d option \<Rightarrow> error + 'k) \<Rightarrow> 'd \<Rightarrow> (error + 'k) option"
where
  "api_get reply accept fromD d = map_option (\<lambda>d'. fromD (Some d')) (accept (reply d))"

definition api_put ::
  "('k option \<Rightarrow> error + 'd) \<Rightarrow> ('d \<Rightarrow> 'p) \<Rightarrow> ('p \<Rightarrow> 'd option) \<Rightarrow> 'k \<Rightarrow> (error + 'd) option"
where
  "api_put toD send recv k =
     (case toD (Some k) of Inl e \<Rightarrow> Some (Inl e) | Inr d \<Rightarrow> map_option Inr (recv (send d)))"

text \<open>
  The contract of the conversions of one kind. On well-formed objects none of them fails; each
  keeps what its normal form says; and the objects that reach the backend are well formed.
\<close>

locale api_conversions =
  fixes toD :: "'k option \<Rightarrow> error + 'd" and fromD :: "'d option \<Rightarrow> error + 'k"
    and send :: "'d \<Rightarrow> 'p" and recv :: "'p \<Rightarrow> 'd option"
    and reply :: "'d \<Rightarrow> 'p" and accept :: "'p \<Rightarrow> 'd option"
    and ok :: "'d \<Rightarrow> bool" and seen :: "'d \<Rightarrow> 'd" and kept :: "'d \<Rightarrow> 'd" and stored :: "'d \<Rightarrow> 'd"
  assumes reply_accept: "ok d \<Longrightarrow> accept (reply d) = Some (seen d)"
    and k8s_roundtrip: "ok d \<Longrightarrow> \<exists>k. fromD (Some d) = Inr k \<and> toD (Some k) = Inr (kept d)"
    and send_recv: "ok d \<Longrightarrow> recv (send d) = Some (stored d)"
    and ok_seen: "ok d \<Longrightarrow> ok (seen d)"
    and ok_kept: "ok d \<Longrightarrow> ok (kept d)"
    and ok_stored: "ok d \<Longrightarrow> ok (stored d)"
    and stable: "ok d \<Longrightarrow>
      stored (kept (seen (stored (kept (seen d))))) = stored (kept (seen d))"
begin

lemma get_put:
  assumes "ok d"
  shows "\<exists>k. api_get reply accept fromD d = Some (Inr k) \<and>
    api_put toD send recv k = Some (Inr (stored (kept (seen d))))"
proof -
  obtain k where "fromD (Some (seen d)) = Inr k" "toD (Some k) = Inr (kept (seen d))"
    using k8s_roundtrip ok_seen assms by blast
  then show ?thesis
    using assms by (simp add: api_get_def api_put_def reply_accept send_recv ok_seen ok_kept)
qed

lemma get_put_get_put:
  assumes "ok d" and "e = stored (kept (seen d))"
  shows "\<exists>k. api_get reply accept fromD e = Some (Inr k) \<and> api_put toD send recv k = Some (Inr e)"
  using get_put [of e] assms by (simp add: stable ok_seen ok_kept ok_stored)

lemma get_ok: "ok d \<Longrightarrow> \<exists>k. api_get reply accept fromD d = Some (Inr k)"
  using get_put by blast

end

section \<open>What is kept\<close>

text \<open>Metadata after a read, after the registry converter, and after a write.\<close>

definition k8s_meta :: "meta \<Rightarrow> meta" where
  "k8s_meta m = m\<lparr>Finalizers := []\<rparr>"

lemma metadata_roundtrip [simp]:
  "ConvertMetadataToDomain (ConvertMetadataFromDomain m n ns) (Conditions m) (ObservedGeneration m) = k8s_meta m"
  "ConvertMetadataToDomain (ConvertMetadataFromDomain m n ns) (Conditions m) 0 =
     (k8s_meta m)\<lparr>ObservedGeneration := 0\<rparr>"
  by (simp_all add: ConvertMetadataToDomain_def ConvertMetadataFromDomain_def k8s_meta_def empty_meta_def)

lemma metadata_names [simp]:
  "om_Name (ConvertMetadataFromDomain m n ns) = n"
  "om_Namespace (ConvertMetadataFromDomain m n ns) = ns"
  by (simp_all add: ConvertMetadataFromDomain_def)

lemma kept_meta_simps [simp]:
  "kept_meta (kept_meta m) = kept_meta m" "kept_meta (seen_meta m) = kept_meta m"
  "kept_meta (k8s_meta m) = kept_meta m" "seen_meta (kept_meta m) = kept_meta m"
  "k8s_meta (kept_meta m) = kept_meta m" "k8s_meta (seen_meta m) = seen_meta m"
  "seen_meta (seen_meta m) = seen_meta m"
  "CreationTS (kept_meta m) = CreationTS m" "CreationTS (seen_meta m) = CreationTS m"
  "CreationTS (k8s_meta m) = CreationTS m" "kept_meta empty_meta = empty_meta"
  "kept_meta (m\<lparr>Conditions := cs\<rparr>) = kept_meta m"
  "kept_meta (m\<lparr>ObservedGeneration := g\<rparr>) = kept_meta m"
  "Conditions (seen_meta m) = Conditions m" "ObservedGeneration (seen_meta m) = ObservedGeneration m"
  "Conditions (k8s_meta m) = Conditions m" "ObservedGeneration (k8s_meta m) = ObservedGeneration m"
  by (simp_all add: kept_meta_def seen_meta_def k8s_meta_def empty_meta_def)

lemma Ensure_standard [simp]:
  "standard_ref k r \<Longrightarrow> k \<noteq> [] \<Longrightarrow> EnsureObjectReferenceFields r k = r"
  by (simp add: standard_ref_def EnsureObjectReferenceFields_def)

lemma EnsureN_standard [simp]:
  "standard_ref k r \<Longrightarrow> k \<noteq> [] \<Longrightarrow> EnsureNamespacedObjectReferenceFields r k = r"
  by (simp add: EnsureNamespacedObjectReferenceFields_def)

section \<open>Services\<close>

definition ok_service :: "service \<Rightarrow> bool" where
  "ok_service s \<longleftrightarrow>
     (\<forall>p\<in>set (svc_IngressPorts s). ip_Protocol p \<in> {TCP, UDP}) \<and>
     (\<forall>r\<in>set (svc_AddressGroups s). standard_ref ''AddressGroup'' r \<and> ref_Name r \<noteq> []) \<and>
     (\<forall>g\<in>set (svc_AggregatedAddressGroups s). agr_Source g \<in> {''spec'', ''binding''})"

definition aggregated_or_spec :: "service \<Rightarrow> address_group_reference list" where
  "aggregated_or_spec s =
     (if svc_AggregatedAddressGroups s = []
      then map (\<lambda>r. \<lparr> agr_Ref = r, agr_Source = ''spec'' \<rparr>) (svc_AddressGroups s)
      else svc_AggregatedAddressGroups s)"

definition kept_service :: "service \<Rightarrow> service" where
  "kept_service s = s\<lparr>Meta := k8s_meta (Meta s), svc_AggregatedAddressGroups := aggregated_or_spec s\<rparr>"

lemma transport_roundtrips:
  "p \<in> {TCP, UDP} \<Longrightarrow> transport_from_pb (transport_to_pb p) = p"
  "p \<in> {TCP, UDP} \<Longrightarrow> Transport_String (client_transport_to_pb p) = p"
  "p \<in> {TCP, UDP} \<Longrightarrow> transport_from_pb (client_transport_to_pb p) = p"
  by (auto simp: transport_from_pb_def transport_to_pb_def client_transport_to_pb_def
      Transport_String_def pb_enum_defs TCP_def UDP_def)

lemma ports_reply:
  assumes "\<forall>p\<in>set ps. ip_Protocol p \<in> {TCP, UDP}"
  shows "map (client_ingress_port_from_pb \<circ> ingress_port_to_pb) ps = ps"
    and "map (convert_ingress_port \<circ> client_ingress_port_to_pb) ps = ps"
  using assms transport_roundtrips
  by (auto intro!: map_idI simp: client_ingress_port_from_pb_def ingress_port_to_pb_def
      convert_ingress_port_def client_ingress_port_to_pb_def)

lemma those_map_cong:
  "\<forall>x\<in>set xs. f x = Some (g x) \<Longrightarrow> those (map f xs) = Some (map g xs)"
  by (induction xs) simp_all

lemma groups_reply:
  assumes "\<forall>r\<in>set rs. standard_ref ''AddressGroup'' r \<and> ref_Name r \<noteq> []"
  shows "those (map (\<lambda>t. target_ref ''AddressGroup'' (Some t))
           (map (\<lambda>ag. id_target (ref_Name ag) (ref_Namespace ag)) rs)) = Some rs"
    and "convert_group_refs (map (\<lambda>ag. id_target (ref_Name ag) (ref_Namespace ag)) rs) = rs"
    and "map (\<lambda>r. NewAddressGroupRef (ref_Name r) [WithNamespace (ref_Namespace r)]) rs = rs"
    and "map (\<lambda>r. \<lparr> ref_APIVersion = ''netguard.sgroups.io/v1beta1'', ref_Kind = ''AddressGroup'',
           ref_Name = ref_Name r, ref_Namespace = ref_Namespace r \<rparr>) rs = rs"
proof -
  have std: "api_nref ''AddressGroup'' (ref_Name r) (ref_Namespace r) = r" if "r \<in> set rs" for r
    using that assms by (simp add: api_nref_standard)
  then show "those (map (\<lambda>t. target_ref ''AddressGroup'' (Some t))
      (map (\<lambda>ag. id_target (ref_Name ag) (ref_Namespace ag)) rs)) = Some rs"
    by (simp add: comp_def map_idI)
  have "filter (\<lambda>t. GetName (pbt_Identifier t) \<noteq> []) (map (\<lambda>ag. id_target (ref_Name ag) (ref_Namespace ag)) rs) =
      map (\<lambda>ag. id_target (ref_Name ag) (ref_Namespace ag)) rs"
    using assms by (intro filter_True) auto
  then show "convert_group_refs (map (\<lambda>ag. id_target (ref_Name ag) (ref_Namespace ag)) rs) = rs"
    using std by (auto simp: convert_group_refs_def New_refs comp_def intro!: map_idI)
  show "map (\<lambda>r. NewAddressGroupRef (ref_Name r) [WithNamespace (ref_Namespace r)]) rs = rs"
    using std by (auto simp: New_refs intro!: map_idI)
  show "map (\<lambda>r. \<lparr> ref_APIVersion = ''netguard.sgroups.io/v1beta1'', ref_Kind = ''AddressGroup'',
      ref_Name = ref_Name r, ref_Namespace = ref_Namespace r \<rparr>) rs = rs"
    using std by (intro map_idI) (simp add: api_nref_def)
qed

lemma aggregated_reply:
  assumes "\<forall>g\<in>set gs. agr_Source g \<in> {''spec'', ''binding''}"
  shows "those (map client_group_reference (map group_reference_to_pb gs)) = Some gs"
    and "those (map convert_group_reference (map (\<lambda>g. \<lparr> pba_Ref = Some (pb_nref_of (agr_Ref g)),
           pba_Source = convertAGSourceToPB (agr_Source g) \<rparr>) gs)) = Some gs"
proof -
  have src: "convertAGSourceFromPB = convertAGRegistrationSourceFromPB"
    "convertAGSourceToPB = convertAGRegistrationSourceToPB"
    by (simp_all add: fun_eq_iff convertAGSourceFromPB_def convertAGRegistrationSourceFromPB_def
        convertAGSourceToPB_def convertAGRegistrationSourceToPB_def)
  have "convertAGRegistrationSourceFromPB (convertAGRegistrationSourceToPB (agr_Source g)) = agr_Source g"
    if "g \<in> set gs" for g
    using that assms by (intro source_roundtrips) (auto simp: source_defs)
  then have "\<forall>g\<in>set gs. client_group_reference (group_reference_to_pb g) = Some (id g)"
    and "\<forall>g\<in>set gs. convert_group_reference \<lparr> pba_Ref = Some (pb_nref_of (agr_Ref g)),
           pba_Source = convertAGSourceToPB (agr_Source g) \<rparr> = Some (id g)"
    by (simp_all add: client_group_reference_def group_reference_to_pb_def convert_group_reference_def src)
  then show "those (map client_group_reference (map group_reference_to_pb gs)) = Some gs"
    and "those (map convert_group_reference (map (\<lambda>g. \<lparr> pba_Ref = Some (pb_nref_of (agr_Ref g)),
           pba_Source = convertAGSourceToPB (agr_Source g) \<rparr>) gs)) = Some gs"
    by (simp_all add: comp_def those_map_cong [of gs _ id])
qed

interpretation service_api: api_conversions
  ServiceConverter_ToDomain ServiceConverter_FromDomain convertServiceToProto convertService
  convertServiceToPB convertServiceFromProto ok_service
  "\<lambda>s. s\<lparr>Meta := seen_meta (Meta s)\<rparr>" kept_service "\<lambda>s. s\<lparr>Meta := kept_meta (Meta s)\<rparr>"
proof
  fix d :: service
  assume ok: "ok_service d"
  note facts = ok [unfolded ok_service_def, THEN conjunct1]
    ok [unfolded ok_service_def, THEN conjunct2, THEN conjunct1]
    ok [unfolded ok_service_def, THEN conjunct2, THEN conjunct2]
  show "convertServiceFromProto (convertServiceToPB d) = Some (d\<lparr>Meta := seen_meta (Meta d)\<rparr>)"
    using ports_reply(1) [OF facts(1)] groups_reply(1) [OF facts(2)] aggregated_reply(1) [OF facts(3)]
    by (simp add: convertServiceFromProto_def convertServiceToPB_def del: map_map) (simp add: comp_def)
  show "convertService (convertServiceToProto d) = Some (d\<lparr>Meta := kept_meta (Meta d)\<rparr>)"
    using ports_reply(2) [OF facts(1)] groups_reply(2) [OF facts(2)] aggregated_reply(2) [OF facts(3)]
    by (simp add: convertService_def convertServiceToProto_def del: map_map) (simp add: comp_def)
  show "\<exists>k. ServiceConverter_FromDomain (Some d) = Inr k \<and>
      ServiceConverter_ToDomain (Some k) = Inr (kept_service d)"
    using groups_reply(3,4) [OF facts(2)]
    by (auto simp: ServiceConverter_FromDomain_def ServiceConverter_ToDomain_def Let_def
        ConvertStatusFromDomain_def kept_service_def aggregated_or_spec_def)
  show "ok_service (kept_service d)"
    using ok by (auto simp: ok_service_def kept_service_def aggregated_or_spec_def)
qed (auto simp: ok_service_def kept_service_def aggregated_or_spec_def)

section \<open>Address groups\<close>

definition ok_address_group :: "address_group \<Rightarrow> bool" where
  "ok_address_group g \<longleftrightarrow> ag_DefaultAction g \<in> {ActionAccept, ActionDrop} \<and>
     (\<forall>h\<in>set (ag_AggregatedHosts g). hr_Source h \<in> {''spec'', ''binding''})"

definition kept_address_group :: "address_group \<Rightarrow> address_group" where
  "kept_address_group g = g\<lparr>Meta := k8s_meta (Meta g),
     ag_AddressGroupName := (if ag_AddressGroupName g = [] then Key g else ag_AddressGroupName g)\<rparr>"

definition stored_address_group :: "address_group \<Rightarrow> address_group" where
  "stored_address_group g = g\<lparr>Meta := kept_meta (Meta g), ag_Networks := [],
     ag_AddressGroupName := [], ag_AggregatedHosts := []\<rparr>"

lemma aggregated_hosts_reply:
  assumes "\<forall>h\<in>set hs. hr_Source h \<in> {''spec'', ''binding''}"
  shows "those (map (convert_host_reference \<circ> host_reference_to_pb) hs) = Some hs"
proof -
  have "convertHostRegistrationSourceFromPB (convertHostRegistrationSourceToPB (hr_Source h)) = hr_Source h"
    if "h \<in> set hs" for h
    using that assms by (intro source_roundtrips) (auto simp: source_defs)
  then have "\<forall>h\<in>set hs. (convert_host_reference \<circ> host_reference_to_pb) h = Some (id h)"
    by (simp add: convert_host_reference_def host_reference_to_pb_def)
  from those_map_cong [OF this] show ?thesis by (simp add: comp_def)
qed

interpretation address_group_api: api_conversions
  AddressGroupConverter_ToDomain AddressGroupConverter_FromDomain
  convertAddressGroupToProto convertAddressGroup
  convertAddressGroupToPB convertAddressGroupFromProto ok_address_group
  "\<lambda>g. g\<lparr>Meta := seen_meta (Meta g)\<rparr>" kept_address_group stored_address_group
proof
  fix d :: address_group
  assume ok: "ok_address_group d"
  then have action: "ag_DefaultAction d \<in> {ActionAccept, ActionDrop}"
    and hosts: "\<forall>h\<in>set (ag_AggregatedHosts d). hr_Source h \<in> {''spec'', ''binding''}"
    by (simp_all add: ok_address_group_def)
  show "convertAddressGroupFromProto (convertAddressGroupToPB d) = Some (d\<lparr>Meta := seen_meta (Meta d)\<rparr>)"
    using action aggregated_hosts_reply [OF hosts]
    by (auto simp: convertAddressGroupFromProto_def convertAddressGroupToPB_def comp_def
        pb_enum_defs ActionAccept_def ActionDrop_def)
  show "convertAddressGroup (convertAddressGroupToProto d) = Some (stored_address_group d)"
    using action
    by (auto simp: convertAddressGroup_def convertAddressGroupToProto_def stored_address_group_def comp_def
        RuleAction_String_def pb_enum_defs ActionAccept_def ActionDrop_def)
  show "\<exists>k. AddressGroupConverter_FromDomain (Some d) = Inr k \<and>
      AddressGroupConverter_ToDomain (Some k) = Inr (kept_address_group d)"
    by (auto simp: AddressGroupConverter_FromDomain_def AddressGroupConverter_ToDomain_def Let_def
        ConvertStatusFromDomain_def kept_address_group_def Key_def)
qed (auto simp: ok_address_group_def kept_address_group_def stored_address_group_def)

section \<open>Bindings, policies and aliases\<close>

text \<open>
  The client sends a binding's and an alias's service with their own namespace, so that is the
  namespace the reference must have; a stored object has a creation time.
\<close>

definition ok_ref :: "string \<Rightarrow> nref \<Rightarrow> bool" where
  "ok_ref kind r \<longleftrightarrow> standard_ref kind r \<and> ref_Name r \<noteq> []"

definition ok_binding :: "address_group_binding \<Rightarrow> bool" where
  "ok_binding b \<longleftrightarrow> ok_ref ''Service'' (agb_ServiceRef b) \<and>
     ok_ref ''AddressGroup'' (agb_AddressGroupRef b) \<and>
     ref_Namespace (agb_ServiceRef b) = Namespace b \<and> CreationTS (Meta b) \<noteq> ZeroTime"

definition ok_policy :: "address_group_binding_policy \<Rightarrow> bool" where
  "ok_policy p \<longleftrightarrow> ok_ref ''Service'' (agbp_ServiceRef p) \<and>
     ok_ref ''AddressGroup'' (agbp_AddressGroupRef p)"

definition ok_alias :: "service_alias \<Rightarrow> bool" where
  "ok_alias a \<longleftrightarrow> ok_ref ''Service'' (sa_ServiceRef a) \<and>
     ref_Namespace (sa_ServiceRef a) = Namespace a"

lemma ok_ref_simps:
  assumes "ok_ref kind r"
  shows "api_nref kind (ref_Name r) (ref_Namespace r) = r"
    and "kind \<noteq> [] \<Longrightarrow> EnsureNamespacedObjectReferenceFields r kind = r"
    and "ref_Name r \<noteq> []"
  using assms by (simp_all add: ok_ref_def api_nref_standard)

lemma target_in_simps [simp]:
  "target_ref k (Some (target_in r ns)) = Some (api_nref k (ref_Name r) ns)"
  "pbt_Identifier (target_in r ns) = Some (pb_id_of (ref_Name r) ns)"
  by (simp_all add: target_in_def)

interpretation binding_api: api_conversions
  AddressGroupBindingConverter_ToDomain AddressGroupBindingConverter_FromDomain
  convertAddressGroupBindingToProto "\<lambda>p. Some (convertAddressGroupBinding p)"
  convertAddressGroupBindingToPB convertAddressGroupBindingFromProto ok_binding
  "\<lambda>b. b\<lparr>Meta := seen_meta (Meta b)\<rparr>" "\<lambda>b. b\<lparr>Meta := k8s_meta (Meta b)\<rparr>"
  "\<lambda>b. b\<lparr>Meta := kept_meta (Meta b)\<rparr>"
proof
  fix d :: address_group_binding
  assume "ok_binding d"
  then have refs: "ok_ref ''Service'' (agb_ServiceRef d)" "ok_ref ''AddressGroup'' (agb_AddressGroupRef d)"
    and ns: "ref_Namespace (agb_ServiceRef d) = Namespace d" and created: "CreationTS (Meta d) \<noteq> ZeroTime"
    by (simp_all add: ok_binding_def)
  note r = ok_ref_simps [OF refs(1), simplified] ok_ref_simps [OF refs(2), simplified]
  show "convertAddressGroupBindingFromProto (convertAddressGroupBindingToPB d) =
      Some (d\<lparr>Meta := seen_meta (Meta d)\<rparr>)"
    using r by (simp add: convertAddressGroupBindingFromProto_def convertAddressGroupBindingToPB_def)
  show "Some (convertAddressGroupBinding (convertAddressGroupBindingToProto d)) =
      Some (d\<lparr>Meta := kept_meta (Meta d)\<rparr>)"
    using r ns created
    by (simp add: convertAddressGroupBinding_def convertAddressGroupBindingToProto_def New_refs Let_def)
  show "\<exists>k. AddressGroupBindingConverter_FromDomain (Some d) = Inr k \<and>
      AddressGroupBindingConverter_ToDomain (Some k) = Inr (d\<lparr>Meta := k8s_meta (Meta d)\<rparr>)"
    using r
    by (auto simp: AddressGroupBindingConverter_FromDomain_def AddressGroupBindingConverter_ToDomain_def
        Let_def ConvertStatusFromDomain_def)
qed (auto simp: ok_binding_def)

interpretation policy_api: api_conversions
  AddressGroupBindingPolicyConverter_ToDomain AddressGroupBindingPolicyConverter_FromDomain
  convertAddressGroupBindingPolicyToProto "\<lambda>p. Some (convertAddressGroupBindingPolicy p)"
  convertAddressGroupBindingPolicyToPB convertAddressGroupBindingPolicyFromProto ok_policy
  "\<lambda>b. b\<lparr>Meta := seen_meta (Meta b)\<rparr>" "\<lambda>b. b\<lparr>Meta := k8s_meta (Meta b)\<rparr>"
  "\<lambda>b. b\<lparr>Meta := kept_meta (Meta b)\<rparr>"
proof
  fix d :: address_group_binding_policy
  assume "ok_policy d"
  then have refs: "ok_ref ''Service'' (agbp_ServiceRef d)" "ok_ref ''AddressGroup'' (agbp_AddressGroupRef d)"
    by (simp_all add: ok_policy_def)
  note r = ok_ref_simps [OF refs(1), simplified] ok_ref_simps [OF refs(2), simplified]
  show "convertAddressGroupBindingPolicyFromProto (convertAddressGroupBindingPolicyToPB d) =
      Some (d\<lparr>Meta := seen_meta (Meta d)\<rparr>)"
    using r
    by (simp add: convertAddressGroupBindingPolicyFromProto_def convertAddressGroupBindingPolicyToPB_def)
  show "Some (convertAddressGroupBindingPolicy (convertAddressGroupBindingPolicyToProto d)) =
      Some (d\<lparr>Meta := kept_meta (Meta d)\<rparr>)"
    using r
    by (simp add: convertAddressGroupBindingPolicy_def convertAddressGroupBindingPolicyToProto_def
        New_refs Let_def)
  show "\<exists>k. AddressGroupBindingPolicyConverter_FromDomain (Some d) = Inr k \<and>
      AddressGroupBindingPolicyConverter_ToDomain (Some k) = Inr (d\<lparr>Meta := k8s_meta (Meta d)\<rparr>)"
    using r
    by (auto simp: AddressGroupBindingPolicyConverter_FromDomain_def
        AddressGroupBindingPolicyConverter_ToDomain_def Let_def ConvertStatusFromDomain_def)
qed (auto simp: ok_policy_def)

interpretation alias_api: api_conversions
  ServiceAliasConverter_ToDomain ServiceAliasConverter_FromDomain
  convertServiceAliasToProto "\<lambda>p. Some (convertServiceAlias p)"
  convertServiceAliasToPB convertServiceAliasFromProto ok_alias
  "\<lambda>b. b\<lparr>Meta := seen_meta (Meta b)\<rparr>" "\<lambda>b. b\<lparr>Meta := k8s_meta (Meta b)\<rparr>"
  "\<lambda>b. b\<lparr>Meta := kept_meta (Meta b)\<rparr>"
proof
  fix d :: service_alias
  assume "ok_alias d"
  then have refs: "ok_ref ''Service'' (sa_ServiceRef d)" and ns: "ref_Namespace (sa_ServiceRef d) = Namespace d"
    by (simp_all add: ok_alias_def)
  note r = ok_ref_simps [OF refs, simplified]
  show "convertServiceAliasFromProto (convertServiceAliasToPB d) = Some (d\<lparr>Meta := seen_meta (Meta d)\<rparr>)"
    using r by (simp add: convertServiceAliasFromProto_def convertServiceAliasToPB_def)
  show "Some (convertServiceAlias (convertServiceAliasToProto d)) = Some (d\<lparr>Meta := kept_meta (Meta d)\<rparr>)"
    using r ns by (simp add: convertServiceAlias_def convertServiceAliasToProto_def New_refs Let_def)
  show "\<exists>k. ServiceAliasConverter_FromDomain (Some d) = Inr k \<and>
      ServiceAliasConverter_ToDomain (Some k) = Inr (d\<lparr>Meta := k8s_meta (Meta d)\<rparr>)"
    using r
    by (auto simp: ServiceAliasConverter_FromDomain_def ServiceAliasConverter_ToDomain_def Let_def
        ConvertStatusFromDomain_def)
qed (auto simp: ok_alias_def)

section \<open>Service rules\<close>

definition ok_rule_s2s :: "rule_s2s \<Rightarrow> bool" where
  "ok_rule_s2s r \<longleftrightarrow> rs_Traffic r \<in> {INGRESS, EGRESS} \<and>
     ok_ref ''Service'' (rs_ServiceLocalRef r) \<and> ok_ref ''Service'' (rs_ServiceRef r) \<and>
     (\<forall>x\<in>set (rs_IEAgAgRuleRefs r). standard_ref ''IEAgAgRule'' x) \<and> CreationTS (Meta r) \<noteq> ZeroTime"

lemma rule_refs_reply:
  assumes "\<forall>x\<in>set xs. standard_ref ''IEAgAgRule'' x"
  shows "map (\<lambda>r. api_nref ''IEAgAgRule'' (ref_Name r) (ref_Namespace r)) xs = xs"
    and "map (\<lambda>r. EnsureNamespacedObjectReferenceFields r ''IEAgAgRule'') xs = xs"
  using assms by (auto simp: api_nref_standard intro!: map_idI)

interpretation rule_s2s_api: api_conversions
  RuleS2SConverter_ToDomain RuleS2SConverter_FromDomain
  convertRuleS2SToProto "\<lambda>p. Some (convertRuleS2S p)"
  convertRuleS2SToPB convertRuleS2SFromProto ok_rule_s2s
  "\<lambda>b. b\<lparr>Meta := seen_meta (Meta b)\<rparr>" "\<lambda>b. b\<lparr>Meta := k8s_meta (Meta b)\<rparr>"
  "\<lambda>b. b\<lparr>Meta := kept_meta (Meta b)\<rparr>"
proof
  fix d :: rule_s2s
  assume "ok_rule_s2s d"
  then have refs: "ok_ref ''Service'' (rs_ServiceLocalRef d)" "ok_ref ''Service'' (rs_ServiceRef d)"
    and traffic: "rs_Traffic d \<in> {INGRESS, EGRESS}" and created: "CreationTS (Meta d) \<noteq> ZeroTime"
    and std: "\<forall>x\<in>set (rs_IEAgAgRuleRefs d). standard_ref ''IEAgAgRule'' x"
    by (simp_all add: ok_rule_s2s_def)
  note r = ok_ref_simps [OF refs(1), simplified] ok_ref_simps [OF refs(2), simplified]
    rule_refs_reply [OF std]
  show "convertRuleS2SFromProto (convertRuleS2SToPB d) = Some (d\<lparr>Meta := seen_meta (Meta d)\<rparr>)"
    using r traffic
    by (auto simp: convertRuleS2SFromProto_def convertRuleS2SToPB_def comp_def traffic_from_pb_def
        pb_enum_defs INGRESS_def EGRESS_def)
  show "Some (convertRuleS2S (convertRuleS2SToProto d)) = Some (d\<lparr>Meta := kept_meta (Meta d)\<rparr>)"
    using r traffic created
    by (auto simp: convertRuleS2S_def convertRuleS2SToProto_def Let_def comp_def target_name_def
        client_traffic_to_pb_def pb_enum_defs INGRESS_def EGRESS_def pb_nref_of_def)
  show "\<exists>k. RuleS2SConverter_FromDomain (Some d) = Inr k \<and>
      RuleS2SConverter_ToDomain (Some k) = Inr (d\<lparr>Meta := k8s_meta (Meta d)\<rparr>)"
    using r traffic
    by (auto simp: RuleS2SConverter_FromDomain_def RuleS2SConverter_ToDomain_def Let_def
        ConvertStatusFromDomain_def RuleS2SConverter_convertTrafficFromDomain_def
        RuleS2SConverter_convertTrafficToDomain_def INGRESS_def EGRESS_def)
qed (auto simp: ok_rule_s2s_def)

section \<open>Networks and hosts\<close>

definition ok_network :: "network \<Rightarrow> bool" where
  "ok_network n \<longleftrightarrow>
     (\<forall>r. nw_BindingRef n = Some r \<longrightarrow> standard_ref ''NetworkBinding'' r) \<and>
     (\<forall>r. nw_AddressGroupRef n = Some r \<longrightarrow> standard_ref ''AddressGroup'' r)"

definition stored_network :: "network \<Rightarrow> network" where
  "stored_network n = n\<lparr>Meta := seen_network_meta (Meta n), nw_NetworkName := [], nw_IsBound := False,
     nw_BindingRef := None, nw_AddressGroupRef := None\<rparr>"

lemma network_meta_simps [simp]:
  "k8s_meta (seen_network_meta m) = seen_network_meta m"
  "seen_network_meta (seen_network_meta m) = seen_network_meta m"
  "(seen_network_meta m)\<lparr>ObservedGeneration := 0\<rparr> = seen_network_meta m"
  "seen_network_meta (m\<lparr>ObservedGeneration := g\<rparr>) = seen_network_meta m"
  "seen_network_meta (k8s_meta m) = seen_network_meta m"
  by (simp_all add: seen_network_meta_def kept_meta_def k8s_meta_def empty_meta_def)

lemma rebuilt_option [simp]:
  "map_option (\<lambda>x. \<lparr> ref_APIVersion = ref_APIVersion x, ref_Kind = ref_Kind x, ref_Name = ref_Name x \<rparr>) r = r"
  by (cases r) simp_all

interpretation network_api: api_conversions
  NetworkConverter_ToDomain NetworkConverter_FromDomain
  client_convertNetworkToPB "\<lambda>p. Some (convertNetwork p)"
  convertNetworkToPB "\<lambda>p. Some (convertNetworkFromProto p)" ok_network
  "\<lambda>n. n\<lparr>Meta := seen_network_meta (Meta n), nw_NetworkName := []\<rparr>"
  "\<lambda>n. n\<lparr>Meta := (k8s_meta (Meta n))\<lparr>ObservedGeneration := 0\<rparr>\<rparr>" stored_network
proof
  fix d :: network
  assume ok: "ok_network d"
  show "Some (convertNetworkFromProto (convertNetworkToPB d)) =
      Some (d\<lparr>Meta := seen_network_meta (Meta d), nw_NetworkName := []\<rparr>)"
    by (simp add: convertNetworkFromProto_def convertNetworkToPB_def option.map_comp comp_def option.map_ident)
  show "Some (convertNetwork (client_convertNetworkToPB d)) = Some (stored_network d)"
    by (simp add: convertNetwork_def client_convertNetworkToPB_def stored_network_def)
  have "map_option (\<lambda>r. EnsureObjectReferenceFields r ''NetworkBinding'') (nw_BindingRef d) = nw_BindingRef d"
    "map_option (\<lambda>r. EnsureObjectReferenceFields r ''AddressGroup'') (nw_AddressGroupRef d) = nw_AddressGroupRef d"
    using ok by (auto simp: ok_network_def intro!: option.map_ident_strong)
  then show "\<exists>k. NetworkConverter_FromDomain (Some d) = Inr k \<and>
      NetworkConverter_ToDomain (Some k) = Inr (d\<lparr>Meta := (k8s_meta (Meta d))\<lparr>ObservedGeneration := 0\<rparr>\<rparr>)"
    by (simp add: NetworkConverter_FromDomain_def NetworkConverter_ToDomain_def)
qed (auto simp: ok_network_def stored_network_def)

definition ok_network_binding :: "network_binding \<Rightarrow> bool" where
  "ok_network_binding b \<longleftrightarrow> standard_ref ''Network'' (nb_NetworkRef b) \<and> ref_Name (nb_NetworkRef b) \<noteq> [] \<and>
     standard_ref ''AddressGroup'' (nb_AddressGroupRef b) \<and> ref_Name (nb_AddressGroupRef b) \<noteq> []"

definition shown_item :: "network_item \<Rightarrow> network_item" where
  "shown_item i = empty_network_item\<lparr>ni_Name := ni_Name i, ni_CIDR := ni_CIDR i\<rparr>"

lemma shown_item_simps [simp]:
  "shown_item (shown_item i) = shown_item i" "shown_item empty_network_item = empty_network_item"
  by (simp_all add: shown_item_def empty_network_item_def)

lemma rebuilt_ref:
  "standard_ref k (r :: object_reference) \<Longrightarrow>
     \<lparr> ref_APIVersion = ''netguard.sgroups.io/v1beta1'', ref_Kind = k, ref_Name = ref_Name r \<rparr> = r"
  by (cases r) (simp add: standard_ref_def)

interpretation network_binding_api: api_conversions
  NetworkBindingConverter_ToDomain NetworkBindingConverter_FromDomain
  client_convertNetworkBindingToPB "\<lambda>p. Some (convertNetworkBinding p)"
  convertNetworkBindingToPB "\<lambda>p. Some (convertNetworkBindingFromProto p)" ok_network_binding
  "\<lambda>b. b\<lparr>Meta := seen_network_meta (Meta b), nb_NetworkItem := shown_item (nb_NetworkItem b)\<rparr>"
  "\<lambda>b. b\<lparr>Meta := (k8s_meta (Meta b))\<lparr>ObservedGeneration := 0\<rparr>, nb_NetworkItem := empty_network_item\<rparr>"
  "\<lambda>b. b\<lparr>Meta := seen_network_meta (Meta b), nb_NetworkItem := shown_item (nb_NetworkItem b)\<rparr>"
proof
  fix d :: network_binding
  assume ok: "ok_network_binding d"
  show "Some (convertNetworkBindingFromProto (convertNetworkBindingToPB d)) =
      Some (d\<lparr>Meta := seen_network_meta (Meta d), nb_NetworkItem := shown_item (nb_NetworkItem d)\<rparr>)"
    by (simp add: convertNetworkBindingFromProto_def convertNetworkBindingToPB_def ref_or_empty_def shown_item_def)
  show "Some (convertNetworkBinding (client_convertNetworkBindingToPB d)) =
      Some (d\<lparr>Meta := seen_network_meta (Meta d), nb_NetworkItem := shown_item (nb_NetworkItem d)\<rparr>)"
    using ok
    by (simp add: convertNetworkBinding_def convertNetworkBindingToPB_def ok_network_binding_def Let_def
        pbr_GetName_def shown_item_def rebuilt_ref pb_ref_of_def)
  show "\<exists>k. NetworkBindingConverter_FromDomain (Some d) = Inr k \<and>
      NetworkBindingConverter_ToDomain (Some k) =
        Inr (d\<lparr>Meta := (k8s_meta (Meta d))\<lparr>ObservedGeneration := 0\<rparr>, nb_NetworkItem := empty_network_item\<rparr>)"
    using ok
    by (simp add: NetworkBindingConverter_FromDomain_def NetworkBindingConverter_ToDomain_def
        ok_network_binding_def)
qed (auto simp: ok_network_binding_def)

interpretation host_api: api_conversions
  HostConverter_ToDomain HostConverter_FromDomain
  client_convertHostToPB convertHost
  convertHostToPB "\<lambda>p. Some (convertHostFromProto p)" "\<lambda>_. True"
  "\<lambda>h. h\<lparr>Meta := seen_meta (Meta h)\<rparr>"
  "\<lambda>h. h\<lparr>Meta := k8s_meta (Meta h), h_AddressGroupName := []\<rparr>"
  "\<lambda>h. h\<lparr>Meta := seen_meta (Meta h), h_IpList := []\<rparr>"
proof
  fix d :: host
  show "Some (convertHostFromProto (convertHostToPB d)) = Some (d\<lparr>Meta := seen_meta (Meta d)\<rparr>)"
    by (simp add: convertHostFromProto_def convertHostToPB_def option.map_comp comp_def option.map_ident)
  show "convertHost (client_convertHostToPB d) = Some (d\<lparr>Meta := seen_meta (Meta d), h_IpList := []\<rparr>)"
    by (simp add: convertHost_def client_convertHostToPB_def option.map_comp comp_def option.map_ident)
  show "\<exists>k. HostConverter_FromDomain (Some d) = Inr k \<and>
      HostConverter_ToDomain (Some k) = Inr (d\<lparr>Meta := k8s_meta (Meta d), h_AddressGroupName := []\<rparr>)"
    by (simp add: HostConverter_FromDomain_def HostConverter_ToDomain_def ConvertStatusFromDomain_def Let_def)
qed simp_all

interpretation host_binding_api: api_conversions
  HostBindingConverter_ToDomain HostBindingConverter_FromDomain
  client_convertHostBindingToPB convertHostBinding
  convertHostBindingToPB "\<lambda>p. Some (convertHostBindingFromProto p)" "\<lambda>_. True"
  "\<lambda>h. h\<lparr>Meta := seen_meta (Meta h)\<rparr>" "\<lambda>h. h\<lparr>Meta := k8s_meta (Meta h)\<rparr>"
  "\<lambda>h. h\<lparr>Meta := seen_meta (Meta h)\<rparr>"
proof
  fix d :: host_binding
  show "Some (convertHostBindingFromProto (convertHostBindingToPB d)) = Some (d\<lparr>Meta := seen_meta (Meta d)\<rparr>)"
    by (simp add: convertHostBindingFromProto_def convertHostBindingToPB_def nref_or_empty_def)
  show "convertHostBinding (client_convertHostBindingToPB d) = Some (d\<lparr>Meta := seen_meta (Meta d)\<rparr>)"
    by (simp add: convertHostBinding_def client_convertHostBindingToPB_def nref_or_empty_def)
  show "\<exists>k. HostBindingConverter_FromDomain (Some d) = Inr k \<and>
      HostBindingConverter_ToDomain (Some k) = Inr (d\<lparr>Meta := k8s_meta (Meta d)\<rparr>)"
    by (simp add: HostBindingConverter_FromDomain_def HostBindingConverter_ToDomain_def
        ConvertStatusFromDomain_def Let_def)
qed simp_all

end
