(* ===== verification/PipelinePorts.thy ===== *)
theory PipelinePorts
  imports ApiPipeline
begin

text \<open>
  The kinds whose ports change their form on the way through the API server: rules between
  address groups, whose comma-separated ports become a list of numbers and ranges, and port
  mappings, whose ranges become text.
\<close>

section \<open>Scanning printed numbers\<close>

lemma is_digit_nat_str: "c \<in> set (nat_str n) \<Longrightarrow> is_digit c"
  using nat_str_digits by (fastforce simp: is_digit_def)

lemma digit_not_space: "is_digit c \<Longrightarrow> \<not> is_space c \<and> c \<noteq> CHR ''-'' \<and> c \<noteq> CHR ''+'' \<and> c \<noteq> CHR 0x0A"
  using digit_val_Some_char [of c] by (auto simp: is_digit_def is_space_def)

lemma scan_int32_nat_str:
  assumes "n < 2 ^ 31" and "rest = [] \<or> \<not> is_digit (hd rest)"
  shows "scan_int32 (nat_str n @ rest) = Some (int n, rest)"
proof -
  obtain c cs where s: "nat_str n = c # cs" by (cases "nat_str n") simp_all
  then have c: "is_digit c" using is_digit_nat_str [of c n] by simp
  have "scan_spaces (nat_str n @ rest) = Some (nat_str n @ rest)"
    and sign: "scan_sign (nat_str n @ rest) = (False, nat_str n @ rest)"
    using digit_not_space [OF c] s by (simp_all add: scan_sign_def)
  moreover have take: "takeWhile is_digit (nat_str n @ rest) = nat_str n"
    and drop: "dropWhile is_digit (nat_str n @ rest) = rest"
    using is_digit_nat_str [of _ n] assms(2)
    by (simp_all add: takeWhile_append dropWhile_append; cases rest; simp)+
  moreover have "int n < 2 ^ 31" using assms(1) by (metis of_nat_less_iff of_nat_numeral of_nat_power)
  ultimately show ?thesis by (simp add: scan_int32_def Let_def digits_val_nat_str)
qed

lemma scan_int32_itoa:
  assumes "0 \<le> i" and "i \<le> 65535" and "rest = [] \<or> \<not> is_digit (hd rest)"
  shows "scan_int32 (itoa i @ rest) = Some (i, rest)"
  using scan_int32_nat_str [of "nat i" rest] assms by (simp add: itoa_def)

section \<open>Ports of a rule\<close>

definition k8s_port_of :: "port_range \<Rightarrow> k8s_port_spec" where
  "k8s_port_of r =
     (if pr_Start r = pr_End r then \<lparr> kps_Port = pr_Start r, kps_PortRange = None \<rparr>
      else \<lparr> kps_Port = 0, kps_PortRange = Some \<lparr> kpr_From = pr_Start r, kpr_To = pr_End r \<rparr> \<rparr>)"

lemma minus_not_digit: "\<not> is_digit CHR ''-''"
  using digit_not_space by blast

lemma port_to_k8s_format:
  assumes "valid_range r"
  shows "port_to_k8s (formatPortRange r) = [k8s_port_of r]"
proof -
  have v: "0 \<le> pr_Start r" "pr_Start r \<le> 65535" "0 \<le> pr_End r" "pr_End r \<le> 65535"
    using assms by (auto simp: valid_range_def)
  have scan: "scan_int32 (itoa (pr_Start r) @ CHR ''-'' # itoa (pr_End r)) =
      Some (pr_Start r, CHR ''-'' # itoa (pr_End r))"
    "scan_int32 (itoa (pr_Start r)) = Some (pr_Start r, [])"
    "scan_int32 (itoa (pr_End r)) = Some (pr_End r, [])"
    using scan_int32_itoa [OF v(1,2), of "CHR ''-'' # itoa (pr_End r)"] scan_int32_itoa [OF v(1,2), of "[]"]
      scan_int32_itoa [OF v(3,4), of "[]"] minus_not_digit by simp_all
  have "CHR ''-'' \<notin> set (itoa (pr_Start r))"
    using v nat_str_clean(3) by (auto simp: itoa_def)
  moreover have "trim_space (formatPortRange r) = formatPortRange r" "formatPortRange r \<noteq> []"
    using assms by (simp_all add: formatPortRange_clean trim_space_id)
  ultimately show ?thesis
    using scan by (auto simp: port_to_k8s_def Let_def k8s_port_of_def formatPortRange_def
        Sscanf_d_def Sscanf_d_d_def)
qed

lemma port_spec_to_domain_format:
  "port_spec_to_domain (k8s_port_of r) = \<lparr> ps_Source = [], ps_Destination = formatPortRange r \<rparr>"
  by (simp add: port_spec_to_domain_def k8s_port_of_def formatPortRange_def)

text \<open>A destination is well formed when it prints a list of valid ranges.\<close>

definition port_list :: "string \<Rightarrow> port_range list \<Rightarrow> bool" where
  "port_list s rs \<longleftrightarrow> rs \<noteq> [] \<and> (\<forall>r\<in>set rs. valid_range r) \<and> s = join '','' (map formatPortRange rs)"

definition split_ports :: "port_spec \<Rightarrow> port_spec list" where
  "split_ports p =
     map (\<lambda>s. \<lparr> ps_Source = [], ps_Destination = s \<rparr>) (split_on CHR '','' (ps_Destination p))"

lemma port_list_split:
  assumes "port_list s rs"
  shows "split_on CHR '','' s = map formatPortRange rs" and "s \<noteq> []"
proof -
  have "split_on CHR '','' (join '','' (map formatPortRange rs)) = map formatPortRange rs"
    using assms by (intro split_on_join) (auto simp: port_list_def formatPortRange_clean)
  then show split: "split_on CHR '','' s = map formatPortRange rs" using assms by (simp add: port_list_def)
  have "formatPortRange (hd rs) \<noteq> []"
    using assms by (auto simp: port_list_def formatPortRange_clean)
  moreover have "map formatPortRange rs \<noteq> [[]]" if "s = []"
    using calculation assms by (cases rs) (auto simp: port_list_def)
  ultimately show "s \<noteq> []" using split by (metis split_on.simps(1))
qed

lemma port_spec_to_k8s_split:
  assumes "\<exists>rs. port_list (ps_Destination p) rs"
  shows "map port_spec_to_domain (port_spec_to_k8s p) = split_ports p"
proof -
  from assms obtain rs where rs: "port_list (ps_Destination p) rs" ..
  then have "\<forall>r\<in>set rs. valid_range r" by (simp add: port_list_def)
  then have "concat (map port_to_k8s (map formatPortRange rs)) = map k8s_port_of rs"
    by (induction rs) (simp_all add: port_to_k8s_format)
  then show ?thesis
    using port_list_split [OF rs]
    by (simp add: port_spec_to_k8s_def split_ports_def port_spec_to_domain_format comp_def)
qed

lemma split_ports_ok:
  assumes "\<exists>rs. port_list (ps_Destination p) rs" and "q \<in> set (split_ports p)"
  shows "\<exists>rs. port_list (ps_Destination q) rs" and "split_ports q = [q]"
proof -
  from assms(1) obtain rs where rs: "port_list (ps_Destination p) rs" ..
  then obtain r where r: "r \<in> set rs" "q = \<lparr> ps_Source = [], ps_Destination = formatPortRange r \<rparr>"
    using assms(2) port_list_split(1) [OF rs] by (auto simp: split_ports_def)
  then have "port_list (ps_Destination q) [r]"
    using rs by (auto simp: port_list_def)
  then show "\<exists>rs. port_list (ps_Destination q) rs" and "split_ports q = [q]"
    using r(2) port_list_split(1) [of "ps_Destination q" "[r]"] by (auto simp: split_ports_def)
qed

section \<open>Rules between address groups\<close>

definition ok_ieagag_rule :: "ieagag_rule \<Rightarrow> bool" where
  "ok_ieagag_rule r \<longleftrightarrow> ie_Transport r \<in> {TCP, UDP} \<and> ie_Traffic r \<in> {INGRESS, EGRESS} \<and>
     ie_Action r \<in> {ActionAccept, ActionDrop} \<and>
     ok_ref ''AddressGroup'' (ie_AddressGroupLocal r) \<and> ok_ref ''AddressGroup'' (ie_AddressGroup r) \<and>
     (\<forall>p\<in>set (ie_Ports r). \<exists>rs. port_list (ps_Destination p) rs) \<and> CreationTS (Meta r) \<noteq> ZeroTime"

definition kept_ieagag_rule :: "ieagag_rule \<Rightarrow> ieagag_rule" where
  "kept_ieagag_rule r = r\<lparr>Meta := k8s_meta (Meta r), ie_Logs := False,
     ie_Ports := concat (map split_ports (ie_Ports r))\<rparr>"

text \<open>This request conversion is the only one that keeps the managed fields.\<close>

definition stored_rule_meta :: "meta \<Rightarrow> meta" where
  "stored_rule_meta m = (kept_meta m)\<lparr>GeneratedName := GeneratedName m,
     ManagedFields := convertManagedFieldsFromProto (convertManagedFieldsToProto (ManagedFields m))\<rparr>"

lemma stored_rule_meta_simps [simp]:
  "CreationTS m \<noteq> ZeroTime \<Longrightarrow> response_meta (request_meta_if_created m) = stored_rule_meta m"
  "CreationTS (stored_rule_meta m) = CreationTS m"
  "seen_meta (stored_rule_meta m) = kept_meta m"
  "stored_rule_meta (k8s_meta m) = stored_rule_meta m"
  "stored_rule_meta (seen_meta m) = kept_meta m"
  "stored_rule_meta (kept_meta m) = kept_meta m"
  by (simp_all add: response_meta_def request_meta_if_created_def request_meta_def stored_rule_meta_def
      kept_meta_def k8s_meta_def seen_meta_def empty_meta_def convertManagedFieldsFromProto_def
      convertManagedFieldsToProto_def ProtoConditionsToK8s_def)

lemma concat_split_ports:
  assumes "\<forall>p\<in>set ps. \<exists>rs. port_list (ps_Destination p) rs"
  shows "map port_spec_to_domain (concat (map port_spec_to_k8s ps)) = concat (map split_ports ps)"
    and "concat (map split_ports (concat (map split_ports ps))) = concat (map split_ports ps)"
proof -
  show "map port_spec_to_domain (concat (map port_spec_to_k8s ps)) = concat (map split_ports ps)"
    using assms by (induction ps) (simp_all add: port_spec_to_k8s_split)
  have "concat (map split_ports qs) = qs" if "\<forall>q\<in>set qs. split_ports q = [q]" for qs
    using that by (induction qs) simp_all
  moreover have "\<forall>q\<in>set (concat (map split_ports ps)). split_ports q = [q]"
    using assms split_ports_ok(2) by auto
  ultimately show "concat (map split_ports (concat (map split_ports ps))) = concat (map split_ports ps)"
    by blast
qed

text \<open>The enumerations survive each conversion.\<close>

lemma enum_replies:
  "t \<in> {TCP, UDP} \<Longrightarrow> transport_from_pb (if t = TCP then Networks_NetIP_TCP
     else if t = UDP then Networks_NetIP_UDP else Networks_NetIP_TCP) = t"
  "d \<in> {INGRESS, EGRESS} \<Longrightarrow> traffic_from_pb (if d = INGRESS then Traffic_Ingress
     else if d = EGRESS then Traffic_Egress else Traffic_Ingress) = d"
  "a \<in> {ActionAccept, ActionDrop} \<Longrightarrow> action_from_pb (convertActionToPB a) = a"
  "a \<in> {ActionAccept, ActionDrop} \<Longrightarrow> action_from_pb (RuleAction_value a) = a"
  "d \<in> {INGRESS, EGRESS} \<Longrightarrow> traffic_from_pb (client_traffic_to_pb d) = d"
  by (auto simp: transport_from_pb_def traffic_from_pb_def action_from_pb_def convertActionToPB_def
      RuleAction_value_def client_traffic_to_pb_def pb_enum_defs TCP_def UDP_def INGRESS_def EGRESS_def
      ActionAccept_def ActionDrop_def)

lemma enum_converters:
  "t \<in> {TCP, UDP} \<Longrightarrow> convertTransportFromDomain t = Inr t"
  "t \<in> {TCP, UDP} \<Longrightarrow> convertTransportToDomain t = Inr t"
  "d \<in> {INGRESS, EGRESS} \<Longrightarrow> convertTrafficFromDomain d = Inr d"
  "d \<in> {INGRESS, EGRESS} \<Longrightarrow> convertTrafficToDomain d = Inr d"
  "a \<in> {ActionAccept, ActionDrop} \<Longrightarrow> convertActionFromDomain a = Inr a"
  "a \<in> {ActionAccept, ActionDrop} \<Longrightarrow> convertActionToDomain a = Inr a"
  by (auto simp: convertTransportFromDomain_def convertTransportToDomain_def convertTrafficFromDomain_def
      convertTrafficToDomain_def convertActionFromDomain_def convertActionToDomain_def to_upper_def
      TCP_def UDP_def INGRESS_def EGRESS_def ActionAccept_def ActionDrop_def)

interpretation ieagag_rule_api: api_conversions
  IEAgAgRuleConverter_ToDomain IEAgAgRuleConverter_FromDomain
  convertIEAgAgRuleToProto ConvertIEAgAgRuleFromProto
  convertIEAgAgRuleToPB "\<lambda>p. Some (convertIEAgAgRuleFromProto p)" ok_ieagag_rule
  "\<lambda>r. r\<lparr>Meta := seen_meta (Meta r)\<rparr>" kept_ieagag_rule
  "\<lambda>r. r\<lparr>Meta := stored_rule_meta (Meta r)\<rparr>"
proof
  fix d :: ieagag_rule
  assume ok: "ok_ieagag_rule d"
  then have refs: "ok_ref ''AddressGroup'' (ie_AddressGroupLocal d)" "ok_ref ''AddressGroup'' (ie_AddressGroup d)"
    and enums: "ie_Transport d \<in> {TCP, UDP}" "ie_Traffic d \<in> {INGRESS, EGRESS}"
      "ie_Action d \<in> {ActionAccept, ActionDrop}"
    and ports: "\<forall>p\<in>set (ie_Ports d). \<exists>rs. port_list (ps_Destination p) rs"
    and created: "CreationTS (Meta d) \<noteq> ZeroTime"
    by (simp_all add: ok_ieagag_rule_def)
  note r = ok_ref_simps [OF refs(1), simplified] ok_ref_simps [OF refs(2), simplified]
  note e = enum_replies(1) [OF enums(1)] enum_replies(2) [OF enums(2)] enum_replies(3,4) [OF enums(3)]
    enum_replies(5) [OF enums(2)] transport_roundtrips(3) [OF enums(1)]
    enum_converters(1,2) [OF enums(1)] enum_converters(3,4) [OF enums(2)] enum_converters(5,6) [OF enums(3)]
  have specs: "map (\<lambda>p. port_spec_from_pb \<lparr> pbps_Source = ps_Source p, pbps_Destination = ps_Destination p \<rparr>) ps = ps"
    for ps by (auto simp: port_spec_from_pb_def intro!: map_idI)
  show "Some (convertIEAgAgRuleFromProto (convertIEAgAgRuleToPB d)) = Some (d\<lparr>Meta := seen_meta (Meta d)\<rparr>)"
    by (simp add: convertIEAgAgRuleFromProto_def convertIEAgAgRuleToPB_def r e specs comp_def)
  show "ConvertIEAgAgRuleFromProto (convertIEAgAgRuleToProto d) = Some (d\<lparr>Meta := stored_rule_meta (Meta d)\<rparr>)"
    by (simp add: ConvertIEAgAgRuleFromProto_def convertIEAgAgRuleToProto_def r e specs created comp_def)
  show "\<exists>k. IEAgAgRuleConverter_FromDomain (Some d) = Inr k \<and>
      IEAgAgRuleConverter_ToDomain (Some k) = Inr (kept_ieagag_rule d)"
    by (simp add: IEAgAgRuleConverter_FromDomain_def IEAgAgRuleConverter_ToDomain_def kept_ieagag_rule_def
        Let_def ConvertStatusFromDomain_def r e concat_split_ports(1) [OF ports])
  have "\<forall>q\<in>set (concat (map split_ports (ie_Ports d))). \<exists>rs. port_list (ps_Destination q) rs"
    using ports split_ports_ok(1) by fastforce
  with ok show "ok_ieagag_rule (kept_ieagag_rule d)"
    by (simp add: ok_ieagag_rule_def kept_ieagag_rule_def)
qed (simp_all add: ok_ieagag_rule_def kept_ieagag_rule_def concat_split_ports(2))

section \<open>Port mappings\<close>

lemma parsePortConfig_format:
  assumes "valid_range r"
  shows "parsePortConfig (formatPortRange r) = Inr [r]"
proof -
  have v: "0 \<le> pr_Start r" "0 \<le> pr_End r" "in_int64 (pr_Start r)" "in_int64 (pr_End r)"
    using assms by (auto simp: valid_range_def in_int64_def)
  have num: "atoi (itoa i) = Some i \<and> CHR ''-'' \<notin> set (itoa i) \<and> trim_space (itoa i) = itoa i"
    if "0 \<le> i" "in_int64 i" for i
    using that atoi_itoa_nonneg [OF that] by (simp add: itoa_def trim_space_id nat_str_no_space)
  note s = num [OF v(1,3)] and e = num [OF v(2,4)]
  show ?thesis
  proof (cases "pr_Start r = pr_End r")
    case True
    then show ?thesis using s by (cases r) (simp add: formatPortRange_def parsePortConfig_def)
  next
    case False
    have "split_on CHR ''-'' (itoa (pr_Start r) @ CHR ''-'' # itoa (pr_End r)) =
        [itoa (pr_Start r), itoa (pr_End r)]"
      using s e by (simp add: split_on_append split_on_no_sep)
    with False s e show ?thesis by (cases r) (simp add: formatPortRange_def parsePortConfig_def)
  qed
qed

lemma parse_port_configs_format:
  "\<forall>r\<in>set rs. valid_range r \<Longrightarrow>
   parse_port_configs proto (map (\<lambda>r. \<lparr> pc_Port = formatPortRange r, pc_Description = [] \<rparr>) rs) acc =
     Inr (acc @ rs)"
  by (induction rs arbitrary: acc) (simp_all add: parsePortConfig_format)

lemma update_new: "k \<notin> fst ` set m \<Longrightarrow> AList.update k v m = m @ [(k, v)]"
  by (induction m) auto

lemma fold_update_distinct_from:
  "distinct (map fst (m @ map (\<lambda>(k, v). (k, f v)) ps)) \<Longrightarrow>
   fold (\<lambda>(k, v) m. AList.update k (f v) m) ps m = m @ map (\<lambda>(k, v). (k, f v)) ps"
proof (induction ps arbitrary: m)
  case (Cons p ps)
  obtain k v where p: "p = (k, v)" by (cases p)
  then have "k \<notin> fst ` set m" using Cons.prems by auto
  with Cons p show ?case by (simp add: update_new)
qed simp

lemma fold_update_distinct:
  assumes "distinct (map fst ps)"
  shows "fold (\<lambda>(k, v) m. AList.update k (f v) m) ps [] = map (\<lambda>(k, v). (k, f v)) ps"
  using fold_update_distinct_from [of "[]" f ps] assms by (simp add: comp_def case_prod_unfold)

text \<open>A service's ports are well formed when they are non-empty lists of valid TCP and UDP ranges.\<close>

definition ok_service_ports :: "service_ports \<Rightarrow> bool" where
  "ok_service_ports sp \<longleftrightarrow> distinct (map fst (sp_Ports sp)) \<and>
     (\<forall>(p, rs)\<in>set (sp_Ports sp). p \<in> {TCP, UDP} \<and> rs \<noteq> [] \<and> (\<forall>r\<in>set rs. valid_range r))"

definition ok_port_mapping :: "address_group_port_mapping \<Rightarrow> bool" where
  "ok_port_mapping m \<longleftrightarrow> distinct (map fst (access_ports_list m)) \<and>
     (\<forall>(r, sp)\<in>set (access_ports_list m). standard_ref ''Service'' r \<and> ok_service_ports sp) \<and>
     CreationTS (Meta m) \<noteq> ZeroTime"

text \<open>The registry converter lists the TCP ports before the UDP ports.\<close>

definition tcp_udp :: "service_ports \<Rightarrow> service_ports" where
  "tcp_udp sp = \<lparr> sp_Ports =
     (case map_of (sp_Ports sp) TCP of None \<Rightarrow> [] | Some rs \<Rightarrow> [(TCP, rs)]) @
     (case map_of (sp_Ports sp) UDP of None \<Rightarrow> [] | Some rs \<Rightarrow> [(UDP, rs)]) \<rparr>"

definition with_access_ports ::
  "(meta \<Rightarrow> meta) \<Rightarrow> (service_ports \<Rightarrow> service_ports) \<Rightarrow> address_group_port_mapping \<Rightarrow> address_group_port_mapping"
where
  "with_access_ports mt f m = m\<lparr>Meta := mt (Meta m),
     agpm_AccessPorts := Some (map (\<lambda>(r, sp). (r, f sp)) (access_ports_list m)),
     agpm_AccessPortsWithRefs := []\<rparr>"

lemma TCP_UDP [simp]: "TCP \<noteq> UDP" "UDP \<noteq> TCP"
  by (simp_all add: TCP_def UDP_def)

lemma tcp_udp_ports: "p \<in> {TCP, UDP} \<Longrightarrow> map_of (sp_Ports (tcp_udp sp)) p = map_of (sp_Ports sp) p"
  by (auto simp: tcp_udp_def split: option.splits)

lemma tcp_udp_idem [simp]: "tcp_udp (tcp_udp sp) = tcp_udp sp"
  unfolding tcp_udp_def [of "tcp_udp sp"] by (simp add: tcp_udp_ports) (simp add: tcp_udp_def)

lemma ok_tcp_udp: "ok_service_ports sp \<Longrightarrow> ok_service_ports (tcp_udp sp)"
  by (auto simp: ok_service_ports_def tcp_udp_def split: option.splits dest!: map_of_SomeD)

lemma sp_Ports_rebuilt [simp]: "\<lparr> sp_Ports = sp_Ports sp \<rparr> = sp"
  by simp

lemma ranges_reply:
  assumes "\<forall>r\<in>set rs. valid_range r"
  shows "convert_ranges (ranges_to_pb rs) = rs"
  using assms
  by (auto simp: convert_ranges_def ranges_to_pb_def valid_range_def to_int32_id intro!: map_idI)

lemma protocol_ports_reply:
  assumes "ok_service_ports sp"
  shows "convert_protocol_ports (fold (\<lambda>(proto, ranges) m. AList.update proto (ranges_to_pb ranges) m)
    (sp_Ports sp) []) = sp_Ports sp"
proof -
  have d: "distinct (map fst (sp_Ports sp))" using assms by (simp add: ok_service_ports_def)
  have "convert_protocol_ports (map (\<lambda>(k, v). (k, ranges_to_pb v)) (sp_Ports sp)) =
      map (\<lambda>(k, v). (k, convert_ranges v)) (map (\<lambda>(k, v). (k, ranges_to_pb v)) (sp_Ports sp))"
    unfolding convert_protocol_ports_def
    using d by (intro fold_update_distinct) (simp add: comp_def case_prod_unfold)
  also have "\<dots> = sp_Ports sp"
    using assms by (auto simp: ok_service_ports_def ranges_reply intro!: map_idI)
  finally show ?thesis by (simp only: fold_update_distinct [OF d])
qed

lemma access_ports_reply:
  assumes "distinct (map fst (acc @ ps))"
    and "\<forall>(r, sp)\<in>set ps. standard_ref ''Service'' r \<and> ok_service_ports sp"
  shows "convert_access_ports (map service_ports_to_pb ps) acc = Some (acc @ ps)"
  using assms
proof (induction ps arbitrary: acc)
  case (Cons p ps)
  obtain r sp where p: "p = (r, sp)" by (cases p)
  then have r: "standard_ref ''Service'' r" "ok_service_ports sp" and new: "r \<notin> fst ` set acc"
    using Cons.prems by auto
  then have "convert_access_ports (map service_ports_to_pb (p # ps)) acc =
      convert_access_ports (map service_ports_to_pb ps) (acc @ [(r, sp)])"
    by (simp add: p service_ports_to_pb_def New_refs api_nref_standard protocol_ports_reply update_new)
  also have "\<dots> = Some ((acc @ [(r, sp)]) @ ps)"
    using Cons.prems p by (intro Cons.IH) auto
  finally show ?case using p by simp
qed simp

lemma parse_protocol_of:
  assumes "ok_service_ports sp" and "p \<notin> fst ` set m" and "p \<in> {TCP, UDP}"
  shows "parse_protocol p (port_configs_of p (sp_Ports sp)) m =
    Inr (m @ (case map_of (sp_Ports sp) p of None \<Rightarrow> [] | Some rs \<Rightarrow> [(p, rs)]))"
proof (cases "map_of (sp_Ports sp) p")
  case None
  then show ?thesis by (simp add: parse_protocol_def port_configs_of_def)
next
  case (Some rs)
  then have "(p, rs) \<in> set (sp_Ports sp)" by (rule map_of_SomeD)
  then have "rs \<noteq> []" "\<forall>r\<in>set rs. valid_range r" using assms(1) by (auto simp: ok_service_ports_def)
  with Some assms(2) show ?thesis
    by (simp add: parse_protocol_def port_configs_of_def parse_port_configs_format update_new)
qed

lemma access_ports_k8s:
  assumes "distinct (map fst (acc @ ps))" and "\<forall>(r, sp)\<in>set ps. ok_service_ports sp"
  shows "access_ports_to_domain (map service_ports_to_k8s ps) acc =
    Inr (acc @ map (\<lambda>(r, sp). (r, tcp_udp sp)) ps)"
  using assms
proof (induction ps arbitrary: acc)
  case (Cons p ps)
  obtain r sp where p: "p = (r, sp)" by (cases p)
  then have ok: "ok_service_ports sp" and new: "r \<notin> fst ` set acc"
    using Cons.prems by auto
  have "UDP \<notin> fst ` set (case map_of (sp_Ports sp) TCP of None \<Rightarrow> [] | Some rs \<Rightarrow> [(TCP, rs)])"
    by (cases "map_of (sp_Ports sp) TCP") simp_all
  with ok new have "access_ports_to_domain (map service_ports_to_k8s (p # ps)) acc =
      access_ports_to_domain (map service_ports_to_k8s ps) (acc @ [(r, tcp_udp sp)])"
    by (simp add: p service_ports_to_k8s_def parse_protocol_of update_new tcp_udp_def)
  also have "\<dots> = Inr ((acc @ [(r, tcp_udp sp)]) @ map (\<lambda>(r, sp). (r, tcp_udp sp)) ps)"
    using Cons.prems p by (intro Cons.IH) auto
  finally show ?case using p by simp
qed simp

lemma with_access_ports_simps [simp]:
  "access_ports_list (with_access_ports mt f m) = map (\<lambda>(r, sp). (r, f sp)) (access_ports_list m)"
  "Meta (with_access_ports mt f m) = mt (Meta m)"
  "with_access_ports mt f (with_access_ports mt' g m) = with_access_ports (mt \<circ> mt') (f \<circ> g) m"
  by (simp_all add: with_access_ports_def access_ports_list_def comp_def case_prod_unfold)

lemma ok_with_access_ports:
  assumes "ok_port_mapping m" and "\<And>sp. ok_service_ports sp \<Longrightarrow> ok_service_ports (f sp)"
    and "\<And>x. CreationTS (mt x) = CreationTS x"
  shows "ok_port_mapping (with_access_ports mt f m)"
  using assms by (auto simp: ok_port_mapping_def comp_def case_prod_unfold)

lemma mapping_meta_simps [simp]:
  "(seen_meta m)\<lparr>ManagedFields := []\<rparr> = seen_meta m"
  by (simp add: seen_meta_def kept_meta_def empty_meta_def)

interpretation port_mapping_api: api_conversions
  AddressGroupPortMappingConverter_ToDomain AddressGroupPortMappingConverter_FromDomain
  convertAddressGroupPortMappingToProto convertAddressGroupPortMapping
  convertAddressGroupPortMappingToPB convertAddressGroupPortMappingFromProto ok_port_mapping
  "with_access_ports seen_meta id" "with_access_ports k8s_meta tcp_udp" "with_access_ports kept_meta id"
proof
  fix d :: address_group_port_mapping
  assume ok: "ok_port_mapping d"
  then have d: "distinct (map fst (access_ports_list d))"
    and sp: "\<forall>(r, sp)\<in>set (access_ports_list d). standard_ref ''Service'' r \<and> ok_service_ports sp"
    and created: "CreationTS (Meta d) \<noteq> ZeroTime"
    by (auto simp: ok_port_mapping_def)
  note reply = access_ports_reply [of "[]", simplified, OF d sp]
  show "convertAddressGroupPortMappingFromProto (convertAddressGroupPortMappingToPB d) =
      Some (with_access_ports seen_meta id d)"
    using reply
    by (simp add: convertAddressGroupPortMappingFromProto_def convertAddressGroupPortMappingToPB_def
        with_access_ports_def)
  show "convertAddressGroupPortMapping (convertAddressGroupPortMappingToProto d) =
      Some (with_access_ports kept_meta id d)"
    using reply created
    by (simp add: convertAddressGroupPortMapping_def convertAddressGroupPortMappingToProto_def
        with_access_ports_def)
  have "access_ports_to_domain (map service_ports_to_k8s (access_ports_list d)) [] =
      Inr (map (\<lambda>(r, sp). (r, tcp_udp sp)) (access_ports_list d))"
    using access_ports_k8s [of "[]", simplified, OF d] sp by auto
  then show "\<exists>k. AddressGroupPortMappingConverter_FromDomain (Some d) = Inr k \<and>
      AddressGroupPortMappingConverter_ToDomain (Some k) = Inr (with_access_ports k8s_meta tcp_udp d)"
    by (simp add: AddressGroupPortMappingConverter_FromDomain_def
        AddressGroupPortMappingConverter_ToDomain_def Let_def ConvertStatusFromDomain_def
        access_ports_list_def [symmetric] with_access_ports_def)
qed (simp_all add: ok_with_access_ports ok_tcp_udp comp_def)

end
