(* ===== verification/PipelineProperties.thy ===== *)
theory PipelineProperties
  imports PipelinePorts Samples
begin

text \<open>
  What the conversions between API objects, protobuf messages and domain models keep and lose.
\<close>

section \<open>Reading and writing back\<close>

text \<open>
  Reading an object through the API server and writing it back unmodified: both requests
  succeed, the backend receives \<open>e\<close>, and reading and writing \<open>e\<close> again gives \<open>e\<close>.
\<close>

definition writes_back ::
  "('d \<Rightarrow> (error + 'k) option) \<Rightarrow> ('k \<Rightarrow> (error + 'd) option) \<Rightarrow> 'd \<Rightarrow> 'd \<Rightarrow> bool"
where
  "writes_back get put d e \<longleftrightarrow>
     (\<exists>k. get d = Some (Inr k) \<and> put k = Some (Inr e)) \<and>
     (\<exists>k. get e = Some (Inr k) \<and> put k = Some (Inr e))"

context api_conversions
begin

lemma writes_back_normal:
  "ok d \<Longrightarrow> e = stored (kept (seen d)) \<Longrightarrow>
     writes_back (api_get reply accept fromD) (api_put toD send recv) d e"
  using get_put get_put_get_put by (simp add: writes_back_def)

end

text \<open>The two paths of every kind.\<close>

definition get_service :: "service \<Rightarrow> (error + k8s_service) option" where
  "get_service = api_get convertServiceToPB convertServiceFromProto ServiceConverter_FromDomain"

definition put_service :: "k8s_service \<Rightarrow> (error + service) option" where
  "put_service = api_put ServiceConverter_ToDomain convertServiceToProto convertService"

definition get_alias :: "service_alias \<Rightarrow> (error + k8s_service_alias) option" where
  "get_alias = api_get convertServiceAliasToPB convertServiceAliasFromProto ServiceAliasConverter_FromDomain"

definition put_alias :: "k8s_service_alias \<Rightarrow> (error + service_alias) option" where
  "put_alias = api_put ServiceAliasConverter_ToDomain convertServiceAliasToProto
     (\<lambda>p. Some (convertServiceAlias p))"

definition get_binding :: "address_group_binding \<Rightarrow> (error + k8s_address_group_binding) option" where
  "get_binding = api_get convertAddressGroupBindingToPB convertAddressGroupBindingFromProto
     AddressGroupBindingConverter_FromDomain"

definition put_binding :: "k8s_address_group_binding \<Rightarrow> (error + address_group_binding) option" where
  "put_binding = api_put AddressGroupBindingConverter_ToDomain convertAddressGroupBindingToProto
     (\<lambda>p. Some (convertAddressGroupBinding p))"

definition get_policy :: "address_group_binding_policy \<Rightarrow> (error + k8s_address_group_binding_policy) option" where
  "get_policy = api_get convertAddressGroupBindingPolicyToPB convertAddressGroupBindingPolicyFromProto
     AddressGroupBindingPolicyConverter_FromDomain"

definition put_policy :: "k8s_address_group_binding_policy \<Rightarrow> (error + address_group_binding_policy) option" where
  "put_policy = api_put AddressGroupBindingPolicyConverter_ToDomain convertAddressGroupBindingPolicyToProto
     (\<lambda>p. Some (convertAddressGroupBindingPolicy p))"

definition get_rule_s2s :: "rule_s2s \<Rightarrow> (error + k8s_rule_s2s) option" where
  "get_rule_s2s = api_get convertRuleS2SToPB convertRuleS2SFromProto RuleS2SConverter_FromDomain"

definition put_rule_s2s :: "k8s_rule_s2s \<Rightarrow> (error + rule_s2s) option" where
  "put_rule_s2s = api_put RuleS2SConverter_ToDomain convertRuleS2SToProto (\<lambda>p. Some (convertRuleS2S p))"

definition get_port_mapping :: "address_group_port_mapping \<Rightarrow> (error + k8s_address_group_port_mapping) option" where
  "get_port_mapping = api_get convertAddressGroupPortMappingToPB convertAddressGroupPortMappingFromProto
     AddressGroupPortMappingConverter_FromDomain"

definition put_port_mapping :: "k8s_address_group_port_mapping \<Rightarrow> (error + address_group_port_mapping) option" where
  "put_port_mapping = api_put AddressGroupPortMappingConverter_ToDomain convertAddressGroupPortMappingToProto
     convertAddressGroupPortMapping"

definition get_host_binding :: "host_binding \<Rightarrow> (error + k8s_host_binding) option" where
  "get_host_binding = api_get convertHostBindingToPB (\<lambda>p. Some (convertHostBindingFromProto p))
     HostBindingConverter_FromDomain"

definition put_host_binding :: "k8s_host_binding \<Rightarrow> (error + host_binding) option" where
  "put_host_binding = api_put HostBindingConverter_ToDomain client_convertHostBindingToPB convertHostBinding"

definition get_address_group :: "address_group \<Rightarrow> (error + k8s_address_group) option" where
  "get_address_group = api_get convertAddressGroupToPB convertAddressGroupFromProto
     AddressGroupConverter_FromDomain"

definition put_address_group :: "k8s_address_group \<Rightarrow> (error + address_group) option" where
  "put_address_group = api_put AddressGroupConverter_ToDomain convertAddressGroupToProto convertAddressGroup"

definition get_ieagag_rule :: "ieagag_rule \<Rightarrow> (error + k8s_ieagag_rule) option" where
  "get_ieagag_rule = api_get convertIEAgAgRuleToPB (\<lambda>p. Some (convertIEAgAgRuleFromProto p))
     IEAgAgRuleConverter_FromDomain"

definition put_ieagag_rule :: "k8s_ieagag_rule \<Rightarrow> (error + ieagag_rule) option" where
  "put_ieagag_rule = api_put IEAgAgRuleConverter_ToDomain convertIEAgAgRuleToProto ConvertIEAgAgRuleFromProto"

definition get_network :: "network \<Rightarrow> (error + k8s_network) option" where
  "get_network = api_get convertNetworkToPB (\<lambda>p. Some (convertNetworkFromProto p)) NetworkConverter_FromDomain"

definition put_network :: "k8s_network \<Rightarrow> (error + network) option" where
  "put_network = api_put NetworkConverter_ToDomain client_convertNetworkToPB (\<lambda>p. Some (convertNetwork p))"

definition get_network_binding :: "network_binding \<Rightarrow> (error + k8s_network_binding) option" where
  "get_network_binding = api_get convertNetworkBindingToPB (\<lambda>p. Some (convertNetworkBindingFromProto p))
     NetworkBindingConverter_FromDomain"

definition put_network_binding :: "k8s_network_binding \<Rightarrow> (error + network_binding) option" where
  "put_network_binding = api_put NetworkBindingConverter_ToDomain client_convertNetworkBindingToPB
     (\<lambda>p. Some (convertNetworkBinding p))"

definition get_host :: "host \<Rightarrow> (error + k8s_host) option" where
  "get_host = api_get convertHostToPB (\<lambda>p. Some (convertHostFromProto p)) HostConverter_FromDomain"

definition put_host :: "k8s_host \<Rightarrow> (error + host) option" where
  "put_host = api_put HostConverter_ToDomain client_convertHostToPB convertHost"

lemmas path_defs =
  get_service_def put_service_def get_alias_def put_alias_def get_binding_def put_binding_def
  get_policy_def put_policy_def get_rule_s2s_def put_rule_s2s_def get_port_mapping_def
  put_port_mapping_def get_host_binding_def put_host_binding_def get_address_group_def
  put_address_group_def get_ieagag_rule_def put_ieagag_rule_def get_network_def put_network_def
  get_network_binding_def put_network_binding_def get_host_def put_host_def

text \<open>
  C37: The conversions of the API server, its client and the gRPC service, from a stored object to
  the API object and back, applied to an alias, a binding, a policy, a service rule or a host
  binding give the object that was stored, without the metadata the service does not accept:
  the managed fields, the generated name, the finalizers and, except for host bindings, the
  status. A service in addition has its aggregated address groups filled from its own list when
  there are none, and a port mapping has its ports listed TCP first. Going round again changes
  nothing more. The objects are well formed: references have the API version of the group, the kind of
  their target and a name, those of aliases and bindings to services are in their own namespace,
  protocols, directions and sources are the known ones, and bindings, rules and mappings have a
  creation time. The field validation of an update is not part of this path.
\<close>
theorem unmodified_write_keeps_object:
  assumes "ok_service s" and "ok_alias a" and "ok_binding b" and "ok_policy p" and "ok_rule_s2s r"
    and "ok_port_mapping m"
  shows "writes_back get_service put_service s
      (s\<lparr>Meta := kept_meta (Meta s), svc_AggregatedAddressGroups := aggregated_or_spec s\<rparr>) \<and>
    writes_back get_alias put_alias a (a\<lparr>Meta := kept_meta (Meta a)\<rparr>) \<and>
    writes_back get_binding put_binding b (b\<lparr>Meta := kept_meta (Meta b)\<rparr>) \<and>
    writes_back get_policy put_policy p (p\<lparr>Meta := kept_meta (Meta p)\<rparr>) \<and>
    writes_back get_rule_s2s put_rule_s2s r (r\<lparr>Meta := kept_meta (Meta r)\<rparr>) \<and>
    writes_back get_port_mapping put_port_mapping m (with_access_ports kept_meta tcp_udp m) \<and>
    writes_back get_host_binding put_host_binding h (h\<lparr>Meta := seen_meta (Meta h)\<rparr>)"
  unfolding path_defs
  by (intro conjI service_api.writes_back_normal alias_api.writes_back_normal
      binding_api.writes_back_normal policy_api.writes_back_normal rule_s2s_api.writes_back_normal
      port_mapping_api.writes_back_normal host_binding_api.writes_back_normal assms)
    (simp_all add: kept_service_def aggregated_or_spec_def comp_def)

definition ex_created :: meta where
  "ex_created = ex_meta\<lparr>CreationTS := At 7, Labels := [(''team'', ''net'')]\<rparr>"

definition ex_web :: service where
  "ex_web = (ex_service ''web'' [''front''] [''80''])\<lparr>Meta := ex_created,
     svc_AddressGroups := [api_nref ''AddressGroup'' ''front'' ''app'']\<rparr>"

definition ex_alias :: service_alias where
  "ex_alias = \<lparr> Name = ''w'', Namespace = ''app'', Meta = ex_created,
     sa_ServiceRef = api_nref ''Service'' ''web'' ''app'' \<rparr>"

definition ex_web_binding :: address_group_binding where
  "ex_web_binding = \<lparr> Name = ''b'', Namespace = ''app'', Meta = ex_created,
     agb_ServiceRef = api_nref ''Service'' ''web'' ''app'',
     agb_AddressGroupRef = api_nref ''AddressGroup'' ''front'' ''app'' \<rparr>"

definition ex_policy :: address_group_binding_policy where
  "ex_policy = \<lparr> Name = ''p'', Namespace = ''app'', Meta = ex_created,
     agbp_AddressGroupRef = api_nref ''AddressGroup'' ''front'' ''app'',
     agbp_ServiceRef = api_nref ''Service'' ''web'' ''app'' \<rparr>"

definition ex_web_rule :: rule_s2s where
  "ex_web_rule = (ex_rule ''r'' ''web'' ''web'')\<lparr>Meta := ex_created,
     rs_ServiceLocalRef := api_nref ''Service'' ''web'' ''app'',
     rs_ServiceRef := api_nref ''Service'' ''api'' ''app''\<rparr>"

definition ex_mapping :: address_group_port_mapping where
  "ex_mapping = \<lparr> Name = ''front'', Namespace = ''app'', Meta = ex_created,
     agpm_AccessPorts = Some [(api_nref ''Service'' ''web'' ''app'',
       \<lparr> sp_Ports = [(''UDP'', [\<lparr> pr_Start = 53, pr_End = 53 \<rparr>]), (''TCP'', [\<lparr> pr_Start = 80, pr_End = 90 \<rparr>])] \<rparr>)],
     agpm_AccessPortsWithRefs = [] \<rparr>"

definition ex_host_binding :: host_binding where
  "ex_host_binding = NewHostBinding ''hb'' ''app'' (api_nref ''Host'' ''h'' ''app'')
     (api_nref ''AddressGroup'' ''front'' ''app'')"

lemma ex_pipeline_ok:
  "ok_service ex_web" "ok_alias ex_alias" "ok_binding ex_web_binding" "ok_policy ex_policy"
  "ok_rule_s2s ex_web_rule" "ok_port_mapping ex_mapping"
  by (simp_all add: ok_service_def ok_alias_def ok_binding_def ok_policy_def ok_rule_s2s_def
      ok_port_mapping_def ok_service_ports_def ok_ref_def ex_web_def ex_alias_def ex_web_binding_def
      ex_policy_def ex_web_rule_def ex_mapping_def access_ports_list_def valid_range_def ex_created_def
      TCP_def UDP_def INGRESS_def ex_service_def ex_rule_def ex_port_def)

theorem unmodified_write_keeps_object_witness:
  "writes_back get_service put_service ex_web (ex_web\<lparr>Meta := kept_meta ex_created\<rparr>) \<and>
   writes_back get_binding put_binding ex_web_binding (ex_web_binding\<lparr>Meta := kept_meta ex_created\<rparr>)"
  using unmodified_write_keeps_object [OF ex_pipeline_ok, of ex_host_binding]
  by (simp add: ex_web_def ex_web_binding_def aggregated_or_spec_def ex_service_def)

text \<open>
  C38: For the other kinds an unmodified write loses data on its way to the backend: an address
  group arrives without its networks, name and aggregated hosts, a rule between address groups
  without logging and with its comma-separated ports split, a network without its binding, a
  network binding without its network item, and a host without its IP list and group name.
\<close>
theorem unmodified_write_loses:
  assumes "ok_address_group g" and "ok_ieagag_rule r" and "ok_network n" and "ok_network_binding b"
  shows "writes_back get_address_group put_address_group g (g\<lparr>Meta := kept_meta (Meta g),
      ag_Networks := [], ag_AddressGroupName := [], ag_AggregatedHosts := []\<rparr>) \<and>
    writes_back get_ieagag_rule put_ieagag_rule r (r\<lparr>Meta := kept_meta (Meta r), ie_Logs := False,
      ie_Ports := concat (map split_ports (ie_Ports r))\<rparr>) \<and>
    writes_back get_network put_network n (n\<lparr>Meta := seen_network_meta (Meta n), nw_NetworkName := [],
      nw_IsBound := False, nw_BindingRef := None, nw_AddressGroupRef := None\<rparr>) \<and>
    writes_back get_network_binding put_network_binding b
      (b\<lparr>Meta := seen_network_meta (Meta b), nb_NetworkItem := empty_network_item\<rparr>) \<and>
    writes_back get_host put_host h (h\<lparr>Meta := seen_meta (Meta h), h_AddressGroupName := [], h_IpList := []\<rparr>)"
  unfolding path_defs
  by (intro conjI address_group_api.writes_back_normal ieagag_rule_api.writes_back_normal
      network_api.writes_back_normal network_binding_api.writes_back_normal host_api.writes_back_normal
      assms TrueI)
    (simp_all add: kept_address_group_def stored_address_group_def kept_ieagag_rule_def stored_network_def)

definition ex_generated :: ieagag_rule where
  "ex_generated = (ex_ie_rule ''g'' ''80,443'')\<lparr>Meta := ex_created,
     ie_AddressGroupLocal := api_nref ''AddressGroup'' ''front'' ''app'',
     ie_AddressGroup := api_nref ''AddressGroup'' ''back'' ''app''\<rparr>"

definition ex_network_binding :: network_binding where
  "ex_network_binding = NewNetworkBinding ''nb'' ''app''
     \<lparr> ref_APIVersion = ''netguard.sgroups.io/v1beta1'', ref_Kind = ''Network'', ref_Name = ''n1'' \<rparr>
     \<lparr> ref_APIVersion = ''netguard.sgroups.io/v1beta1'', ref_Kind = ''AddressGroup'', ref_Name = ''front'' \<rparr>"

lemma ex_port_list: "port_list ''80,443'' [\<lparr> pr_Start = 80, pr_End = 80 \<rparr>, \<lparr> pr_Start = 443, pr_End = 443 \<rparr>]"
proof -
  have "join '','' (map formatPortRange [\<lparr> pr_Start = 80, pr_End = 80 \<rparr>, \<lparr> pr_Start = 443, pr_End = 443 \<rparr>]) = ''80,443''"
    by code_simp
  then show ?thesis by (simp add: port_list_def valid_range_def)
qed

lemma ex_lossy_ok:
  "ok_address_group (ex_group ''front'')" "ok_ieagag_rule ex_generated"
  "ok_network (ex_network ''n1'' ''10.0.0.0/24'')" "ok_network_binding ex_network_binding"
  using ex_port_list
  by (auto simp: ok_address_group_def ok_ieagag_rule_def ok_network_def ok_network_binding_def
      ex_group_def ex_generated_def ex_ie_rule_def ex_network_def ex_network_binding_def
      NewNetworkBinding_def ActionAccept_def ok_ref_def ex_created_def TCP_def INGRESS_def standard_ref_def
      api_nref_def)

theorem unmodified_write_loses_witness:
  "writes_back get_ieagag_rule put_ieagag_rule ex_generated (ex_generated\<lparr>Meta := kept_meta ex_created,
     ie_Logs := False, ie_Ports := [\<lparr> ps_Source = [], ps_Destination = ''80'' \<rparr>,
       \<lparr> ps_Source = [], ps_Destination = ''443'' \<rparr>]\<rparr>)"
  using unmodified_write_loses [OF ex_lossy_ok, of "NewHost ''h'' ''app'' ''uuid''"]
  by (simp add: ex_generated_def ex_ie_rule_def split_ports_def)

section \<open>Objects being created\<close>

text \<open>
  An object that has no creation time yet, as in a create request, reaches the backend
  without any metadata when it is a binding, a service rule, a port mapping or a rule between
  address groups: its labels and annotations are lost. A binding's service is always looked up
  in the binding's own namespace, whatever namespace the reference has.
\<close>
theorem creation_loses_metadata:
  assumes "CreationTS (Meta b) = ZeroTime" and "CreationTS (Meta r) = ZeroTime"
    and "CreationTS (Meta m) = ZeroTime" and "CreationTS (Meta g) = ZeroTime"
    and "ref_Name (agb_ServiceRef b) \<noteq> []" and "ref_Name (agb_AddressGroupRef b) \<noteq> []"
  shows "Meta (convertAddressGroupBinding (convertAddressGroupBindingToProto b)) = empty_meta \<and>
    agb_ServiceRef (convertAddressGroupBinding (convertAddressGroupBindingToProto b)) =
      api_nref ''Service'' (ref_Name (agb_ServiceRef b)) (Namespace b) \<and>
    Meta (convertRuleS2S (convertRuleS2SToProto r)) = empty_meta \<and>
    (\<forall>x. convertAddressGroupPortMapping (convertAddressGroupPortMappingToProto m) = Some x \<longrightarrow>
       Meta x = empty_meta) \<and>
    (\<forall>x. ConvertIEAgAgRuleFromProto (convertIEAgAgRuleToProto g) = Some x \<longrightarrow> Meta x = empty_meta) \<and>
    Labels (Meta (convertServiceAlias (convertServiceAliasToProto a))) =
      (if ref_Name (sa_ServiceRef a) = [] then [] else Labels (Meta a))"
proof (intro conjI)
  show "Meta (convertAddressGroupBinding (convertAddressGroupBindingToProto b)) = empty_meta"
    and "agb_ServiceRef (convertAddressGroupBinding (convertAddressGroupBindingToProto b)) =
      api_nref ''Service'' (ref_Name (agb_ServiceRef b)) (Namespace b)"
    using assms(1,5,6)
    by (simp_all add: convertAddressGroupBinding_def convertAddressGroupBindingToProto_def New_refs Let_def)
  show "Meta (convertRuleS2S (convertRuleS2SToProto r)) = empty_meta"
    using assms(2) by (simp add: convertRuleS2S_def convertRuleS2SToProto_def Let_def case_prod_unfold)
  show "\<forall>x. convertAddressGroupPortMapping (convertAddressGroupPortMappingToProto m) = Some x \<longrightarrow>
      Meta x = empty_meta"
    using assms(3)
    by (auto simp: convertAddressGroupPortMapping_def convertAddressGroupPortMappingToProto_def
        split: option.splits)
  show "\<forall>x. ConvertIEAgAgRuleFromProto (convertIEAgAgRuleToProto g) = Some x \<longrightarrow> Meta x = empty_meta"
    using assms(4)
    by (auto simp: ConvertIEAgAgRuleFromProto_def convertIEAgAgRuleToProto_def request_meta_if_created_def
        response_meta_def)
  show "Labels (Meta (convertServiceAlias (convertServiceAliasToProto a))) =
      (if ref_Name (sa_ServiceRef a) = [] then [] else Labels (Meta a))"
    by (simp add: convertServiceAlias_def convertServiceAliasToProto_def Let_def kept_meta_def empty_meta_def)
qed

theorem creation_loses_metadata_witness:
  "Meta (convertAddressGroupBinding (convertAddressGroupBindingToProto
     (ex_web_binding\<lparr>Meta := ex_created\<lparr>CreationTS := ZeroTime\<rparr>\<rparr>))) = empty_meta"
  using creation_loses_metadata [of "ex_web_binding\<lparr>Meta := ex_created\<lparr>CreationTS := ZeroTime\<rparr>\<rparr>"
      "ex_web_rule\<lparr>Meta := empty_meta\<rparr>" "ex_mapping\<lparr>Meta := empty_meta\<rparr>" "ex_generated\<lparr>Meta := empty_meta\<rparr>"
      ex_alias]
  by (simp add: ex_web_binding_def empty_meta_def)

section \<open>Malformed requests\<close>

lemma those_map_None: "those (map f xs) = None \<longleftrightarrow> (\<exists>x\<in>set xs. f x = None)"
  by (induction xs) (auto split: option.splits)

lemma convert_access_ports_None:
  "convert_access_ports aps acc = None \<longleftrightarrow>
     (\<exists>x\<in>set aps. pbsp_Identifier x = None \<or> pbsp_Ports x = None)"
  by (induction aps acc rule: convert_access_ports.induct) (auto split: option.splits)

text \<open>
  C39: A request makes the gRPC service panic on a nil message exactly when a service or address
  group has an aggregated entry without a reference, a port mapping an entry without an
  identifier or ports, a host or host binding no identifier, or a rule between address groups
  no identifier or an address group without one.
\<close>
theorem request_panics_iff:
  "(convertService s = None \<longleftrightarrow> (\<exists>x\<in>set (pbs_AggregatedAddressGroups s). pba_Ref x = None)) \<and>
   (convertAddressGroup g = None \<longleftrightarrow> (\<exists>x\<in>set (pbg_AggregatedHosts g). pbh_Ref x = None)) \<and>
   (convertAddressGroupPortMapping m = None \<longleftrightarrow>
      (\<exists>x\<in>set (pbpm_AccessPorts m). pbsp_Identifier x = None \<or> pbsp_Ports x = None)) \<and>
   (convertHost h = None \<longleftrightarrow> pb_SelfRef h = None) \<and>
   (convertHostBinding hb = None \<longleftrightarrow> pb_SelfRef hb = None) \<and>
   (ConvertIEAgAgRuleFromProto r = None \<longleftrightarrow> pb_SelfRef r = None \<or>
      GetIdentifier (pbie_AddressGroupLocal r) = None \<or> GetIdentifier (pbie_AddressGroup r) = None)"
proof (intro conjI)
  have group: "convert_group_reference x = None \<longleftrightarrow> pba_Ref x = None"
    and host: "convert_host_reference y = None \<longleftrightarrow> pbh_Ref y = None" for x y
    by (simp_all add: convert_group_reference_def convert_host_reference_def split: option.splits)
  have "convertService s = None \<longleftrightarrow> those (map convert_group_reference (pbs_AggregatedAddressGroups s)) = None"
    by (simp add: convertService_def split: option.split)
  then show "convertService s = None \<longleftrightarrow> (\<exists>x\<in>set (pbs_AggregatedAddressGroups s). pba_Ref x = None)"
    by (simp add: those_map_None group)
  have "convertAddressGroup g = None \<longleftrightarrow> those (map convert_host_reference (pbg_AggregatedHosts g)) = None"
    by (simp add: convertAddressGroup_def split: option.split)
  then show "convertAddressGroup g = None \<longleftrightarrow> (\<exists>x\<in>set (pbg_AggregatedHosts g). pbh_Ref x = None)"
    by (simp add: those_map_None host)
  have "convertAddressGroupPortMapping m = None \<longleftrightarrow> convert_access_ports (pbpm_AccessPorts m) [] = None"
    by (simp add: convertAddressGroupPortMapping_def split: option.split)
  then show "convertAddressGroupPortMapping m = None \<longleftrightarrow>
      (\<exists>x\<in>set (pbpm_AccessPorts m). pbsp_Identifier x = None \<or> pbsp_Ports x = None)"
    by (simp add: convert_access_ports_None)
  show "convertHost h = None \<longleftrightarrow> pb_SelfRef h = None"
    by (simp add: convertHost_def split: option.split)
  show "convertHostBinding hb = None \<longleftrightarrow> pb_SelfRef hb = None"
    by (simp add: convertHostBinding_def split: option.split)
  have named: "GetIdentifier t = None \<longleftrightarrow> target_ref ''AddressGroup'' t = None" for t
    by (simp add: target_ref_def GetIdentifier_def split: option.split)
  show "ConvertIEAgAgRuleFromProto r = None \<longleftrightarrow> pb_SelfRef r = None \<or>
      GetIdentifier (pbie_AddressGroupLocal r) = None \<or> GetIdentifier (pbie_AddressGroup r) = None"
    unfolding named by (simp add: ConvertIEAgAgRuleFromProto_def split: option.split)
qed

end
