(* ===== verification/ConditionManager.thy ===== *)
theory ConditionManager
  imports RuleEngine NetworkValidation BindingValidation RuleValidation
begin

text \<open>
  The condition manager (\<^verbatim>\<open>internal/application/services/condition_manager.go\<close>): after a
  commit it checks the stored state again and sets the conditions Synced, Validated, Ready and
  Error of an object, and writes them back, at once or in batches.

  It runs here on the in-memory registry, which has no separate writer for conditions, so that
  the branches for such a registry are the ones taken. A batch is flushed by a timer, by a
  goroutine once it is full, or by a call; a flush is an operation of its own, which may run
  after any other. An object waits in the batch as the value it had when it was queued: no
  modelled function changes an object it has queued.

  A flush takes the mutex that the facade holds while it works on rules. Go's mutex is not
  reentrant, so a flush inside such a call never returns: \<open>None\<close>.
\<close>

section \<open>State\<close>

datatype pending_resource =
    PendingService service
  | PendingAddressGroup address_group
  | PendingRuleS2S rule_s2s
  | PendingIEAgAgRule ieagag_rule

text \<open>
  The answer of the external system to an address group depends on the groups it has been sent
  before. \<open>be_mutexHeld\<close> tells that the caller holds the mutex of the facade.
\<close>

record backend =
  be_engine :: engine
  be_pending :: "pending_resource table"
  be_groupSync :: "address_group list \<Rightarrow> address_group \<Rightarrow> error option"
  be_groupsSynced :: "address_group list"
  be_mutexHeld :: bool

abbreviation be_reg :: "backend \<Rightarrow> registry" where
  "be_reg s \<equiv> eng_reg (be_engine s)"

abbreviation be_db :: "backend \<Rightarrow> mem_db" where
  "be_db s \<equiv> reg_db (be_reg s)"

abbreviation be_env :: "backend \<Rightarrow> env" where
  "be_env s \<equiv> eng_env (be_engine s)"

definition set_env :: "env \<Rightarrow> backend \<Rightarrow> backend" where
  "set_env e s = s\<lparr>be_engine := (be_engine s)\<lparr>eng_env := e\<rparr>\<rparr>"

definition set_engine :: "engine \<Rightarrow> backend \<Rightarrow> backend" where
  "set_engine g s = s\<lparr>be_engine := g\<rparr>"

definition be_commit :: "writer \<Rightarrow> backend \<Rightarrow> backend" where
  "be_commit w s = s\<lparr>be_engine := commit_writer w (be_engine s)\<rparr>"

abbreviation be_reader :: "backend \<Rightarrow> reader_ops" where
  "be_reader s \<equiv> eng_reader None (be_engine s)"

lemma set_env_simps [simp]:
  "be_env (set_env e s) = e" "be_reg (set_env e s) = be_reg s" "be_pending (set_env e s) = be_pending s"
  "be_mutexHeld (set_env e s) = be_mutexHeld s" "be_reader (set_env e s) = be_reader s"
  by (simp_all add: set_env_def eng_reader_def)

section \<open>Setting conditions\<close>

text \<open>The metadata of the object at hand, together with the clock the setters read.\<close>

type_synonym marks = "meta \<times> env"

abbreviation ReasonReady :: string where "ReasonReady \<equiv> ''Ready''"
abbreviation ReasonNotReady :: string where "ReasonNotReady \<equiv> ''NotReady''"
abbreviation ReasonPending :: string where "ReasonPending \<equiv> ''Pending''"
abbreviation ReasonSynced :: string where "ReasonSynced \<equiv> ''Synced''"
abbreviation ReasonSyncFailed :: string where "ReasonSyncFailed \<equiv> ''SyncFailed''"
abbreviation ReasonValidated :: string where "ReasonValidated \<equiv> ''Validated''"
abbreviation ReasonValidationFailed :: string where "ReasonValidationFailed \<equiv> ''ValidationFailed''"
abbreviation ReasonValidating :: string where "ReasonValidating \<equiv> ''Validating''"
abbreviation ReasonBackendError :: string where "ReasonBackendError \<equiv> ''BackendError''"
abbreviation ReasonDependencyError :: string where "ReasonDependencyError \<equiv> ''DependencyError''"
abbreviation ReasonCleanupError :: string where "ReasonCleanupError \<equiv> ''CleanupError''"

definition set_ready :: "string \<Rightarrow> string \<Rightarrow> string \<Rightarrow> marks \<Rightarrow> marks" where
  "set_ready st reason msg p = SetReadyCondition (snd p) st reason msg (fst p)"

definition set_synced :: "string \<Rightarrow> string \<Rightarrow> string \<Rightarrow> marks \<Rightarrow> marks" where
  "set_synced st reason msg p = SetSyncedCondition (snd p) st reason msg (fst p)"

definition set_validated :: "string \<Rightarrow> string \<Rightarrow> string \<Rightarrow> marks \<Rightarrow> marks" where
  "set_validated st reason msg p = SetValidatedCondition (snd p) st reason msg (fst p)"

definition set_error :: "string \<Rightarrow> string \<Rightarrow> marks \<Rightarrow> marks" where
  "set_error reason msg p = SetErrorCondition (snd p) reason msg (fst p)"

definition not_ready :: "string \<Rightarrow> string \<Rightarrow> string \<Rightarrow> marks \<Rightarrow> marks" where
  "not_ready reason msg readyMsg p = set_ready ''False'' ReasonNotReady readyMsg (set_error reason msg p)"

definition invalid :: "string \<Rightarrow> error \<Rightarrow> marks \<Rightarrow> marks" where
  "invalid kind e p =
     set_validated ''False'' ReasonValidationFailed (''Validation failed: '' @ error_text e)
       (not_ready ReasonValidationFailed (kind @ '' validation failed: '' @ error_text e)
          (kind @ '' has validation errors'') p)"

definition committed_and_validated :: "string \<Rightarrow> marks \<Rightarrow> marks" where
  "committed_and_validated kind p = set_validated ''True'' ReasonValidated (kind @ '' passed validation'') p"

definition set_committed :: "string \<Rightarrow> marks \<Rightarrow> marks" where
  "set_committed kind p =
     set_synced ''True'' ReasonSynced (kind @ '' committed to backend successfully'') p"

text \<open>A reference that could not be read: missing, or another error.\<close>

definition lookup_failed :: "error \<Rightarrow> string \<Rightarrow> string \<Rightarrow> string \<Rightarrow> string \<Rightarrow> marks \<Rightarrow> marks" where
  "lookup_failed e missing missingReady failed failedReady p =
     (if e = ErrNotFound then not_ready ReasonDependencyError missing missingReady p
      else not_ready ReasonDependencyError (failed @ '': '' @ error_text e) failedReady p)"

definition no_reader :: "string \<Rightarrow> string \<Rightarrow> error \<Rightarrow> marks \<Rightarrow> marks" where
  "no_reader msg readyMsg e p = not_ready ReasonBackendError (msg @ '': '' @ error_text e) readyMsg p"

text \<open>What every function does first.\<close>

definition start_marks :: "'a resource_scheme \<Rightarrow> env \<Rightarrow> marks" where
  "start_marks x e = (TouchOnWrite ''v1'' (ClearErrorCondition (Meta x)), e)"

text \<open>Go prints a list of strings in brackets.\<close>

definition show_strings :: "string list \<Rightarrow> string" where
  "show_strings xs = ''['' @ join '' '' xs @ '']''"

fun missing_refs ::
  "(resource_identifier \<Rightarrow> error + 'b) \<Rightarrow> (nref \<Rightarrow> string) \<Rightarrow> nref list \<Rightarrow> (nref \<times> error) + string list"
where
  "missing_refs get key [] = Inr []"
| "missing_refs get key (r # rs) =
     (case get (ResourceIdentifier (ref_Name r) (ref_Namespace r)) of
        Inl e \<Rightarrow>
          if e = ErrNotFound
          then (case missing_refs get key rs of Inl x \<Rightarrow> Inl x | Inr ks \<Rightarrow> Inr (key r # ks))
          else Inl (r, e)
      | Inr _ \<Rightarrow> missing_refs get key rs)"

section \<open>What the checks find\<close>

text \<open>
  The part of each \<^verbatim>\<open>Process...Conditions\<close> function that runs with a reader. The flag
  tells whether it reaches the end of the function, where the conditions are saved.
\<close>

definition service_conditions :: "reader_ops \<Rightarrow> service \<Rightarrow> marks \<Rightarrow> marks \<times> bool" where
  "service_conditions rd s p =
     (let p1 = set_committed ''Service'' p
      in case ServiceValidator_ValidateForPostCommit rd (s\<lparr>Meta := fst p1\<rparr>) of
           Some e \<Rightarrow> (invalid ''Service'' e p1, False)
         | None \<Rightarrow>
             (let p2 = committed_and_validated ''Service'' p1
              in case missing_refs (GetAddressGroupByID rd) AddressGroupRefKey (svc_AddressGroups s) of
                   Inl (r, e) \<Rightarrow>
                     (not_ready ReasonDependencyError
                        (''Failed to check AddressGroup '' @ AddressGroupRefKey r @ '': '' @ error_text e)
                        ''AddressGroup validation failed'' p2, False)
                 | Inr missing \<Rightarrow>
                     if length missing > 0
                     then (not_ready ReasonDependencyError (''Missing AddressGroups: '' @ show_strings missing)
                             ''Required AddressGroups not found'' p2, False)
                     else (set_ready ''True'' ReasonReady ''Service is ready for use'' p2, True)))"

definition ieagag_rule_conditions :: "reader_ops \<Rightarrow> ieagag_rule \<Rightarrow> marks \<Rightarrow> marks \<times> bool" where
  "ieagag_rule_conditions rd r p =
     (let p1 = set_committed ''IEAgAgRule'' p
      in case IEAgAgRuleValidator_ValidateForPostCommit rd (r\<lparr>Meta := fst p1\<rparr>) of
           Some e \<Rightarrow> (invalid ''IEAgAgRule'' e p1, False)
         | None \<Rightarrow>
             (let p2 = committed_and_validated ''IEAgAgRule'' p1;
                  localAGExists = (case GetAddressGroupByID rd (ResourceIdentifier
                      (ref_Name (ie_AddressGroupLocal r)) (ref_Namespace (ie_AddressGroupLocal r))) of
                    Inl _ \<Rightarrow> False | Inr _ \<Rightarrow> True);
                  targetAGExists = (case GetAddressGroupByID rd (ResourceIdentifier
                      (ref_Name (ie_AddressGroup r)) (ref_Namespace (ie_AddressGroup r))) of
                    Inl _ \<Rightarrow> False | Inr _ \<Rightarrow> True)
              in (if \<not> localAGExists \<or> \<not> targetAGExists
                  then not_ready ReasonDependencyError ''Referenced AddressGroups not found''
                         ''Missing AddressGroup dependencies'' p2
                  else set_ready ''True'' ReasonReady ''IEAgAgRule is ready and operational'' p2, True)))"

definition empty_port_mapping :: address_group_port_mapping where
  "empty_port_mapping = \<lparr> Name = [], Namespace = [], Meta = empty_meta, agpm_AccessPorts = None,
     agpm_AccessPortsWithRefs = [] \<rparr>"

definition access_ports_count :: "address_group_port_mapping \<Rightarrow> nat" where
  "access_ports_count m = (case agpm_AccessPorts m of None \<Rightarrow> 0 | Some ps \<Rightarrow> length ps)"

definition binding_conditions :: "reader_ops \<Rightarrow> address_group_binding \<Rightarrow> marks \<Rightarrow> marks \<times> bool" where
  "binding_conditions rd b p =
     (let p1 = set_committed ''AddressGroupBinding'' p
      in case AddressGroupBindingValidator_ValidateForPostCommit rd (b\<lparr>Meta := fst p1\<rparr>) of
           Some e \<Rightarrow> (invalid ''AddressGroupBinding'' e p1, False)
         | None \<Rightarrow>
             (let p2 = committed_and_validated ''AddressGroupBinding'' p1;
                  serviceID = NewResourceIdentifier (ref_Name (agb_ServiceRef b)) [WithNamespace (Namespace b)]
              in case GetServiceByID rd serviceID of
                   Inl e \<Rightarrow>
                     (lookup_failed e (''Service '' @ agb_ServiceRefKey b @ '' not found'') ''Required Service not found''
                        (''Failed to get Service '' @ agb_ServiceRefKey b) ''Service validation failed'' p2, False)
                 | Inr service \<Rightarrow>
             (let agID = NewResourceIdentifier (ref_Name (agb_AddressGroupRef b))
                    [WithNamespace (ref_Namespace (agb_AddressGroupRef b))]
              in case GetAddressGroupByID rd agID of
                   Inl e \<Rightarrow>
                     (lookup_failed e (''AddressGroup '' @ agb_AddressGroupRefKey b @ '' not found'')
                        ''Required AddressGroup not found''
                        (''Failed to get AddressGroup '' @ agb_AddressGroupRefKey b)
                        ''AddressGroup validation failed'' p2, False)
                 | Inr _ \<Rightarrow>
             (case CheckPortOverlaps service empty_port_mapping of
                Some e \<Rightarrow>
                  (not_ready ReasonValidationFailed (''Port overlap detected: '' @ error_text e)
                     ''Port conflicts detected'' p2, False)
              | None \<Rightarrow>
             (case GetAddressGroupPortMappingByID rd agID of
                Inl e \<Rightarrow>
                  (lookup_failed e ''AddressGroupPortMapping not created'' ''Port mapping was not created''
                     ''Failed to verify port mapping'' ''Port mapping verification failed'' p2, False)
              | Inr portMapping \<Rightarrow>
                  (set_ready ''True'' ReasonReady
                     (''AddressGroupBinding is ready, '' @ nat_str (access_ports_count portMapping) @
                      '' access ports configured'') p2, True))))))"

definition alias_conditions :: "reader_ops \<Rightarrow> service_alias \<Rightarrow> marks \<Rightarrow> marks \<times> bool" where
  "alias_conditions rd a p =
     (let p1 = set_committed ''ServiceAlias'' p
      in case ServiceAliasValidator_ValidateForPostCommit rd (a\<lparr>Meta := fst p1\<rparr>) of
           Some e \<Rightarrow> (invalid ''ServiceAlias'' e p1, False)
         | None \<Rightarrow>
             (let p2 = committed_and_validated ''ServiceAlias'' p1;
                  serviceID = NewResourceIdentifier (ref_Name (sa_ServiceRef a)) [WithNamespace (Namespace a)]
              in case GetServiceByID rd serviceID of
                   Inl e \<Rightarrow>
                     (lookup_failed e (''Referenced Service '' @ sa_ServiceRefKey a @ '' not found'')
                        ''Referenced Service not found''
                        (''Failed to get referenced Service '' @ sa_ServiceRefKey a)
                        ''Service validation failed'' p2, False)
                 | Inr _ \<Rightarrow>
                     (set_ready ''True'' ReasonReady ''ServiceAlias is ready and operational'' p2, True)))"

definition port_mapping_conditions ::
  "reader_ops \<Rightarrow> address_group_port_mapping \<Rightarrow> marks \<Rightarrow> marks \<times> bool"
where
  "port_mapping_conditions rd m p =
     (let p1 = set_committed ''AddressGroupPortMapping'' p
      in case PortMappingValidator_ValidateForPostCommit rd (m\<lparr>Meta := fst p1\<rparr>) of
           Some e \<Rightarrow> (invalid ''AddressGroupPortMapping'' e p1, False)
         | None \<Rightarrow>
             (let p2 = committed_and_validated ''AddressGroupPortMapping'' p1
              in if access_ports_count m = 0
                 then (set_ready ''False'' ReasonPending ''No access ports configured'' p2, False)
                 else (case missing_refs (GetServiceByID rd) ServiceRefKey
                             (case agpm_AccessPorts m of None \<Rightarrow> [] | Some ps \<Rightarrow> map fst ps) of
                   Inl (r, e) \<Rightarrow>
                     (not_ready ReasonDependencyError
                        (''Failed to check Service '' @ ServiceRefKey r @ '': '' @ error_text e)
                        ''Service validation failed'' p2, False)
                 | Inr missing \<Rightarrow>
                     if length missing > 0
                     then (not_ready ReasonDependencyError (''Missing Services: '' @ show_strings missing)
                             ''Referenced Services not found'' p2, False)
                     else (set_ready ''True'' ReasonReady
                             (''AddressGroupPortMapping is ready, '' @ nat_str (access_ports_count m) @
                              '' access ports configured'') p2, True))))"

definition policy_conditions ::
  "reader_ops \<Rightarrow> address_group_binding_policy \<Rightarrow> marks \<Rightarrow> marks \<times> bool"
where
  "policy_conditions rd q p =
     (let p1 = set_committed ''AddressGroupBindingPolicy'' p
      in case PolicyValidator_ValidateForPostCommit rd (q\<lparr>Meta := fst p1\<rparr>) of
           Some e \<Rightarrow> (invalid ''AddressGroupBindingPolicy'' e p1, False)
         | None \<Rightarrow>
             (let p2 = committed_and_validated ''AddressGroupBindingPolicy'' p1;
                  agID = NewResourceIdentifier (ref_Name (agbp_AddressGroupRef q))
                    [WithNamespace (ref_Namespace (agbp_AddressGroupRef q))]
              in case GetAddressGroupByID rd agID of
                   Inl e \<Rightarrow>
                     (lookup_failed e (''AddressGroup '' @ agbp_AddressGroupRefKey q @ '' not found'')
                        ''Required AddressGroup not found''
                        (''Failed to get AddressGroup '' @ agbp_AddressGroupRefKey q)
                        ''AddressGroup validation failed'' p2, False)
                 | Inr _ \<Rightarrow>
             (let serviceID = NewResourceIdentifier (ref_Name (agbp_ServiceRef q))
                    [WithNamespace (ref_Namespace (agbp_ServiceRef q))]
              in case GetServiceByID rd serviceID of
                   Inl e \<Rightarrow>
                     (lookup_failed e (''Service '' @ agbp_ServiceRefKey q @ '' not found'')
                        ''Required Service not found'' (''Failed to get Service '' @ agbp_ServiceRefKey q)
                        ''Service validation failed'' p2, False)
                 | Inr _ \<Rightarrow>
                     (set_ready ''True'' ReasonReady
                        ''AddressGroupBindingPolicy is ready and operational'' p2, True))))"

definition network_conditions :: "network \<Rightarrow> error option \<Rightarrow> marks \<Rightarrow> marks \<times> bool" where
  "network_conditions n syncResult p =
     (case syncResult of
        Some e \<Rightarrow>
          (set_validated ''False'' ReasonValidating ''Validation skipped due to sync failure''
            (set_ready ''False'' ReasonNotReady ''Network sync with external source failed''
              (set_synced ''False'' ReasonSyncFailed (''Failed to sync with sgroups: '' @ error_text e) p)), False)
      | None \<Rightarrow>
          (let p1 = set_synced ''True'' ReasonSynced
                 ''Network committed to backend and synced with sgroups successfully'' p
           in case ValidateCIDR (nw_CIDR n) of
                Some e \<Rightarrow>
                  (set_validated ''False'' ReasonValidationFailed (''CIDR validation failed: '' @ error_text e)
                    (not_ready ReasonValidationFailed (''Network CIDR validation failed: '' @ error_text e)
                      ''Network has validation errors'' p1), False)
              | None \<Rightarrow>
                  (set_ready ''True'' ReasonReady ''Network is ready for use''
                    (committed_and_validated ''Network'' p1), True)))"

text \<open>The conditions of a network binding are never saved here.\<close>

definition network_binding_conditions :: "reader_ops \<Rightarrow> network_binding \<Rightarrow> marks \<Rightarrow> marks" where
  "network_binding_conditions rd b p =
     (let p1 = set_committed ''NetworkBinding'' p
      in case NetworkBindingValidator_ValidateForPostCommit rd (b\<lparr>Meta := fst p1\<rparr>) of
           Some e \<Rightarrow> invalid ''NetworkBinding'' e p1
         | None \<Rightarrow>
             (let p2 = committed_and_validated ''NetworkBinding'' p1;
                  networkID = ResourceIdentifier (ref_Name (nb_NetworkRef b)) (Namespace b);
                  addressGroupID = ResourceIdentifier (ref_Name (nb_AddressGroupRef b)) (Namespace b)
              in case GetNetworkByID rd networkID of
                   Inl e \<Rightarrow>
                     lookup_failed e (''Network '' @ rid_Key networkID @ '' not found'')
                       ''Referenced Network not found'' (''Failed to check Network '' @ rid_Key networkID)
                       ''Network validation failed'' p2
                 | Inr _ \<Rightarrow>
             (case GetAddressGroupByID rd addressGroupID of
                Inl e \<Rightarrow>
                  lookup_failed e (''AddressGroup '' @ rid_Key addressGroupID @ '' not found'')
                    ''Referenced AddressGroup not found''
                    (''Failed to check AddressGroup '' @ rid_Key addressGroupID)
                    ''AddressGroup validation failed'' p2
              | Inr _ \<Rightarrow> set_ready ''True'' ReasonReady ''NetworkBinding is ready for use'' p2)))"

section \<open>Saving conditions\<close>

text \<open>
  The methods of the in-memory writer return no error; only opening a writer fails, when the
  registry is closed.
\<close>

definition save_with ::
  "(env \<Rightarrow> mem_db \<Rightarrow> 'a resource_scheme list \<Rightarrow> scope option \<Rightarrow> sync_option list \<Rightarrow> writer \<Rightarrow> writer \<times> env) \<Rightarrow>
   'a resource_scheme \<Rightarrow> writer \<Rightarrow> backend \<Rightarrow> backend"
where
  "save_with sync x w s =
     (let (w', e) = sync (be_env s) (be_db s) [x] (Some (NewResourceIdentifierScope [self_id x]))
            [ConditionOnlyOperation] w
      in be_commit w' (set_env e s))"

definition save_conditions ::
  "string \<Rightarrow> (env \<Rightarrow> mem_db \<Rightarrow> 'a resource_scheme list \<Rightarrow> scope option \<Rightarrow> sync_option list \<Rightarrow> writer \<Rightarrow> writer \<times> env) \<Rightarrow>
   'a resource_scheme \<Rightarrow> backend \<Rightarrow> error option \<times> backend"
where
  "save_conditions what sync x s =
     (case Writer (be_reg s) of
        Inl e \<Rightarrow> (Some (Wrap what e), s)
      | Inr w \<Rightarrow> (None, save_with sync x w s))"

definition saveNetworkConditions :: "network \<Rightarrow> backend \<Rightarrow> error option \<times> backend" where
  "saveNetworkConditions = save_conditions ''failed to get writer for saving network conditions'' SyncNetworks"

definition saveServiceConditions :: "service \<Rightarrow> backend \<Rightarrow> error option \<times> backend" where
  "saveServiceConditions = save_conditions ''failed to get writer for saving service conditions'' SyncServices"

definition saveAddressGroupConditions :: "address_group \<Rightarrow> backend \<Rightarrow> error option \<times> backend" where
  "saveAddressGroupConditions =
     save_conditions ''failed to get writer for saving address group conditions'' SyncAddressGroups"

definition saveServiceAliasConditions :: "service_alias \<Rightarrow> backend \<Rightarrow> error option \<times> backend" where
  "saveServiceAliasConditions =
     save_conditions ''failed to get writer for service alias conditions'' SyncServiceAliases"

definition saveAddressGroupBindingConditions :: "address_group_binding \<Rightarrow> backend \<Rightarrow> error option \<times> backend" where
  "saveAddressGroupBindingConditions =
     save_conditions ''failed to get writer for address group binding conditions'' SyncAddressGroupBindings"

definition saveAddressGroupPortMappingConditions ::
  "address_group_port_mapping \<Rightarrow> backend \<Rightarrow> error option \<times> backend"
where
  "saveAddressGroupPortMappingConditions =
     save_conditions ''failed to get writer for AddressGroupPortMapping conditions'' SyncAddressGroupPortMappings"

definition saveAddressGroupBindingPolicyConditions ::
  "address_group_binding_policy \<Rightarrow> backend \<Rightarrow> error option \<times> backend"
where
  "saveAddressGroupBindingPolicyConditions =
     save_conditions ''failed to get writer for AddressGroupBindingPolicy conditions'' SyncAddressGroupBindingPolicies"

definition saveNetworkBindingConditions :: "network_binding \<Rightarrow> backend \<Rightarrow> error option \<times> backend" where
  "saveNetworkBindingConditions =
     save_conditions ''failed to get writer for NetworkBinding conditions'' SyncNetworkBindings"

text \<open>Rules are saved in at most two attempts; \<open>n\<close> counts the attempts that are left.\<close>

fun save_attempts ::
  "string \<Rightarrow> (env \<Rightarrow> mem_db \<Rightarrow> 'a resource_scheme list \<Rightarrow> scope option \<Rightarrow> sync_option list \<Rightarrow> writer \<Rightarrow> writer \<times> env) \<Rightarrow>
   'a resource_scheme \<Rightarrow> nat \<Rightarrow> backend \<Rightarrow> error option \<times> backend"
where
  "save_attempts kind sync x 0 s =
     (Some (Errorf (''failed to save '' @ kind @ '' conditions after 2 attempts'')), s)"
| "save_attempts kind sync x (Suc n) s =
     (case Writer (be_reg s) of
        Inl e \<Rightarrow>
          if n = 0 then (Some (Wrap (''failed to get writer for '' @ kind @ '' conditions after 2 attempts'') e), s)
          else save_attempts kind sync x n s
      | Inr w \<Rightarrow> (None, save_with sync x w s))"

definition saveIEAgAgRuleConditions :: "ieagag_rule \<Rightarrow> backend \<Rightarrow> error option \<times> backend" where
  "saveIEAgAgRuleConditions r = save_attempts ''IEAgAgRule'' SyncIEAgAgRules r 2"

definition saveRuleS2SConditions :: "rule_s2s \<Rightarrow> backend \<Rightarrow> error option \<times> backend" where
  "saveRuleS2SConditions r = save_attempts ''RuleS2S'' SyncRuleS2S r 2"

section \<open>Batches\<close>

definition batchConditionUpdate :: "string \<Rightarrow> pending_resource \<Rightarrow> backend \<Rightarrow> backend" where
  "batchConditionUpdate resourceType res s =
     (let slashed = (\<lambda>ns n. ns @ ''/'' @ n);
          resourceKey = (case res of
              PendingService x \<Rightarrow> slashed (Namespace x) (Name x)
            | PendingAddressGroup x \<Rightarrow> slashed (Namespace x) (Name x)
            | PendingRuleS2S x \<Rightarrow> slashed (Namespace x) (Name x)
            | PendingIEAgAgRule x \<Rightarrow> slashed (Namespace x) (Name x));
          batchKey = resourceType @ '':'' @ resourceKey
      in s\<lparr>be_pending := AList.update batchKey res (be_pending s)\<rparr>)"

definition flush_entry :: "string \<times> pending_resource \<Rightarrow> backend \<Rightarrow> backend" where
  "flush_entry entry s =
     (let resourceType = hd (split_on CHR '':'' (fst entry))
      in case snd entry of
           PendingService x \<Rightarrow>
             if resourceType = ''Service'' then snd (saveServiceConditions x s) else s
         | PendingAddressGroup x \<Rightarrow>
             if resourceType = ''AddressGroup'' then snd (saveAddressGroupConditions x s) else s
         | PendingRuleS2S x \<Rightarrow>
             if resourceType = ''RuleS2S'' then snd (saveRuleS2SConditions x s) else s
         | PendingIEAgAgRule x \<Rightarrow>
             if resourceType = ''IEAgAgRule'' then snd (saveIEAgAgRuleConditions x s) else s)"

definition flushConditionBatch :: "backend \<Rightarrow> backend option" where
  "flushConditionBatch s =
     (if be_mutexHeld s then None
      else if length (be_pending s) = 0 then Some s
      else Some (fold flush_entry (be_pending s) (s\<lparr>be_pending := []\<rparr>)))"

section \<open>Processing after a commit\<close>

definition process_object ::
  "string \<Rightarrow> string \<Rightarrow> (reader_ops \<Rightarrow> 'a resource_scheme \<Rightarrow> marks \<Rightarrow> marks \<times> bool) \<Rightarrow>
   ('a resource_scheme \<Rightarrow> backend \<Rightarrow> backend) \<Rightarrow>
   'a resource_scheme \<Rightarrow> backend \<Rightarrow> (error option \<times> 'a resource_scheme) \<times> backend"
where
  "process_object msg readyMsg check save x s =
     (let p0 = start_marks x (be_env s)
      in case Reader (be_reg s) of
           Inl e \<Rightarrow> (let p = no_reader msg readyMsg e p0 in ((None, x\<lparr>Meta := fst p\<rparr>), set_env (snd p) s))
         | Inr r \<Rightarrow>
             (let (p, done) = check (mem_reader r) x p0;
                  x' = x\<lparr>Meta := fst p\<rparr>;
                  s' = set_env (snd p) s
              in ((None, x'), if done then save x' s' else s')))"

definition ProcessServiceConditions :: "service \<Rightarrow> backend \<Rightarrow> (error option \<times> service) \<times> backend" where
  "ProcessServiceConditions =
     process_object ''Failed to get reader for validation'' ''Backend validation unavailable''
       service_conditions (\<lambda>x. batchConditionUpdate ''Service'' (PendingService x))"

definition ProcessIEAgAgRuleConditions :: "ieagag_rule \<Rightarrow> backend \<Rightarrow> (error option \<times> ieagag_rule) \<times> backend" where
  "ProcessIEAgAgRuleConditions =
     process_object ''Failed to get reader for validation'' ''Backend validation unavailable''
       ieagag_rule_conditions (\<lambda>x. batchConditionUpdate ''IEAgAgRule'' (PendingIEAgAgRule x))"

definition ProcessAddressGroupBindingConditions ::
  "address_group_binding \<Rightarrow> backend \<Rightarrow> (error option \<times> address_group_binding) \<times> backend"
where
  "ProcessAddressGroupBindingConditions =
     process_object ''Failed to get reader for validation'' ''Backend validation unavailable''
       binding_conditions (\<lambda>x s. snd (saveAddressGroupBindingConditions x s))"

definition ProcessServiceAliasConditions ::
  "service_alias \<Rightarrow> backend \<Rightarrow> (error option \<times> service_alias) \<times> backend"
where
  "ProcessServiceAliasConditions =
     process_object ''Failed to get reader for validation'' ''Backend validation unavailable''
       alias_conditions (\<lambda>x s. snd (saveServiceAliasConditions x s))"

definition ProcessAddressGroupPortMappingConditions ::
  "address_group_port_mapping \<Rightarrow> backend \<Rightarrow> (error option \<times> address_group_port_mapping) \<times> backend"
where
  "ProcessAddressGroupPortMappingConditions =
     process_object ''Failed to get reader for validation'' ''Backend validation unavailable''
       port_mapping_conditions (\<lambda>x s. snd (saveAddressGroupPortMappingConditions x s))"

definition ProcessAddressGroupBindingPolicyConditions ::
  "address_group_binding_policy \<Rightarrow> backend \<Rightarrow> (error option \<times> address_group_binding_policy) \<times> backend"
where
  "ProcessAddressGroupBindingPolicyConditions =
     process_object ''Failed to get reader for validation'' ''Backend validation unavailable''
       policy_conditions (\<lambda>x s. snd (saveAddressGroupBindingPolicyConditions x s))"

definition ProcessNetworkConditions ::
  "network \<Rightarrow> error option \<Rightarrow> backend \<Rightarrow> (error option \<times> network) \<times> backend"
where
  "ProcessNetworkConditions n syncResult =
     process_object ''Failed to get reader for validation'' ''Backend validation unavailable''
       (\<lambda>rd x. network_conditions x syncResult) (\<lambda>x s. snd (saveNetworkConditions x s)) n"

definition ProcessNetworkBindingConditions ::
  "network_binding \<Rightarrow> backend \<Rightarrow> (error option \<times> network_binding) \<times> backend"
where
  "ProcessNetworkBindingConditions =
     process_object ''Failed to get reader for validation'' ''Backend validation unavailable''
       (\<lambda>rd x p. (network_binding_conditions rd x p, False)) (\<lambda>x s. s)"

text \<open>
  An address group is sent to the external system before it becomes Ready. Failures are
  returned; only the failure of that call is saved.
\<close>

definition sync_group :: "address_group \<Rightarrow> backend \<Rightarrow> error option \<times> backend" where
  "sync_group g s =
     (if eng_syncManager (be_engine s)
      then (be_groupSync s (be_groupsSynced s) g, s\<lparr>be_groupsSynced := be_groupsSynced s @ [g]\<rparr>)
      else (None, s))"

definition ProcessAddressGroupConditions ::
  "address_group \<Rightarrow> backend \<Rightarrow> (error option \<times> address_group) \<times> backend"
where
  "ProcessAddressGroupConditions g s =
     (let p0 = start_marks g (be_env s)
      in case Reader (be_reg s) of
           Inl e \<Rightarrow>
             (let p = no_reader ''Failed to get reader'' ''Backend reader unavailable'' e p0
              in ((Some e, g\<lparr>Meta := fst p\<rparr>), set_env (snd p) s))
         | Inr r \<Rightarrow>
             (case AddressGroupValidator_ValidateForPostCommit (mem_reader r) (g\<lparr>Meta := fst p0\<rparr>) of
                Some e \<Rightarrow>
                  (let p = not_ready ReasonValidationFailed (''Post-commit validation failed: '' @ error_text e)
                         ''Address group validation failed'' p0
                   in ((Some e, g\<lparr>Meta := fst p\<rparr>), set_env (snd p) s))
              | None \<Rightarrow>
                  (let validated = set_validated ''True'' ReasonValidated ''Address group passed all validations'';
                       (err, s1) = sync_group (g\<lparr>Meta := fst p0\<rparr>) s
                   in case err of
                        Some e \<Rightarrow>
                          (let p = validated (set_ready ''False'' ReasonNotReady ''External sync failed''
                                     (set_synced ''False'' ReasonSyncFailed
                                       (''Failed to sync with external SGROUP: '' @ error_text e) p0));
                               g' = g\<lparr>Meta := fst p\<rparr>
                           in ((Some (Wrap (''external sync failed for AddressGroup '' @ Namespace g @ ''/'' @ Name g) e), g'),
                               batchConditionUpdate ''AddressGroup'' (PendingAddressGroup g') (set_env (snd p) s1)))
                      | None \<Rightarrow>
                          (let p = validated (set_synced ''True'' ReasonSynced
                                     ''Address group successfully synced to backend and SGROUP''
                                     (set_ready ''True'' ReasonReady ''Address group is ready and operational'' p0));
                               g' = g\<lparr>Meta := fst p\<rparr>
                           in ((None, g'),
                               batchConditionUpdate ''AddressGroup'' (PendingAddressGroup g') (set_env (snd p) s1))))))"

section \<open>Initial conditions\<close>

definition default_conditions :: "string \<Rightarrow> env \<Rightarrow> meta \<Rightarrow> marks" where
  "default_conditions kind e m =
     set_ready ''False'' ReasonPending (kind @ '' is being processed'')
       (set_synced ''Unknown'' ReasonPending ''Synchronization pending''
         (set_validated ''Unknown'' ReasonPending ''Validation pending'' (TouchOnCreate e m)))"

datatype any_resource =
    AnyService service
  | AnyAddressGroup address_group
  | AnyRuleS2S rule_s2s
  | AnyAddressGroupBinding address_group_binding
  | AnyAddressGroupPortMapping address_group_port_mapping
  | AnyServiceAlias service_alias
  | AnyAddressGroupBindingPolicy address_group_binding_policy
  | AnyIEAgAgRule ieagag_rule
  | AnyNetwork network
  | AnyNetworkBinding network_binding
  | AnyOther

definition with_default :: "string \<Rightarrow> env \<Rightarrow> 'a resource_scheme \<Rightarrow> 'a resource_scheme \<times> env" where
  "with_default kind e x = (let (m, e') = default_conditions kind e (Meta x) in (x\<lparr>Meta := m\<rparr>, e'))"

fun SetDefaultConditions :: "env \<Rightarrow> any_resource \<Rightarrow> any_resource \<times> env" where
  "SetDefaultConditions e (AnyService x) = apfst AnyService (with_default ''Service'' e x)"
| "SetDefaultConditions e (AnyAddressGroup x) = apfst AnyAddressGroup (with_default ''AddressGroup'' e x)"
| "SetDefaultConditions e (AnyRuleS2S x) = apfst AnyRuleS2S (with_default ''RuleS2S'' e x)"
| "SetDefaultConditions e (AnyAddressGroupBinding x) =
     apfst AnyAddressGroupBinding (with_default ''AddressGroupBinding'' e x)"
| "SetDefaultConditions e (AnyAddressGroupPortMapping x) =
     apfst AnyAddressGroupPortMapping (with_default ''AddressGroupPortMapping'' e x)"
| "SetDefaultConditions e (AnyServiceAlias x) = apfst AnyServiceAlias (with_default ''ServiceAlias'' e x)"
| "SetDefaultConditions e (AnyAddressGroupBindingPolicy x) =
     apfst AnyAddressGroupBindingPolicy (with_default ''AddressGroupBindingPolicy'' e x)"
| "SetDefaultConditions e (AnyIEAgAgRule x) = apfst AnyIEAgAgRule (with_default ''IEAgAgRule'' e x)"
| "SetDefaultConditions e (AnyNetwork x) = apfst AnyNetwork (with_default ''Network'' e x)"
| "SetDefaultConditions e (AnyNetworkBinding x) = apfst AnyNetworkBinding (with_default ''NetworkBinding'' e x)"
| "SetDefaultConditions e AnyOther = (AnyOther, e)"

fun save_any :: "any_resource \<Rightarrow> writer \<Rightarrow> backend \<Rightarrow> error option \<times> backend" where
  "save_any (AnyService x) w s = (None, save_with SyncServices x w s)"
| "save_any (AnyAddressGroup x) w s = (None, save_with SyncAddressGroups x w s)"
| "save_any (AnyRuleS2S x) w s = (None, save_with SyncRuleS2S x w s)"
| "save_any (AnyAddressGroupBinding x) w s = (None, save_with SyncAddressGroupBindings x w s)"
| "save_any (AnyAddressGroupPortMapping x) w s = (None, save_with SyncAddressGroupPortMappings x w s)"
| "save_any (AnyServiceAlias x) w s = (None, save_with SyncServiceAliases x w s)"
| "save_any (AnyAddressGroupBindingPolicy x) w s = (None, save_with SyncAddressGroupBindingPolicies x w s)"
| "save_any (AnyIEAgAgRule x) w s = (None, save_with SyncIEAgAgRules x w s)"
| "save_any (AnyNetwork x) w s = (None, save_with SyncNetworks x w s)"
| "save_any (AnyNetworkBinding x) w s = (None, save_with SyncNetworkBindings x w s)"
| "save_any AnyOther w s = (Some (Errorf ''unsupported resource type for saving conditions''), s)"

definition saveResourceConditions :: "any_resource \<Rightarrow> backend \<Rightarrow> error option \<times> backend" where
  "saveResourceConditions x s =
     (case Writer (be_reg s) of Inl e \<Rightarrow> (Some e, s) | Inr w \<Rightarrow> save_any x w s)"

end
