(* ===== verification/RuleHandlers.thy ===== *)
theory RuleHandlers
  imports ConditionManager "HOL-Library.Monad_Syntax"
begin

text \<open>
  The request handlers of the rule service
  (\<^verbatim>\<open>services/resources/rules2s_resource_service.go\<close>), the condition processing of
  rules between services, which calls back into that service, and the methods of the facade
  (\<^verbatim>\<open>services/netguard_facade.go\<close>) that take the mutex around them.

  The managers are wired as \<^verbatim>\<open>NewNetguardFacade\<close> wires them. A handler that flushes the
  batch may never return, so its result is an option. A handler's open writer is a value that
  is passed along; a reader made from it sees its current tables.
\<close>

section \<open>Checks of a rule\<close>

definition validateServicesHaveAddressGroups ::
  "reader_ops \<Rightarrow> resource_identifier \<Rightarrow> resource_identifier \<Rightarrow> error option"
where
  "validateServicesHaveAddressGroups rd localServiceID targetServiceID =
     (case GetServiceByID rd localServiceID of
        Inl e \<Rightarrow> Some (Errorf (''failed to get local service '' @ [CHR 0x27] @ rid_Key localServiceID @ [CHR 0x27] @
                   '': '' @ error_text e))
      | Inr localService \<Rightarrow>
     (case GetServiceByID rd targetServiceID of
        Inl e \<Rightarrow> Some (Errorf (''failed to get target service '' @ [CHR 0x27] @ rid_Key targetServiceID @ [CHR 0x27] @
                   '': '' @ error_text e))
      | Inr targetService \<Rightarrow>
          (let noLocal = (length (svc_AddressGroups localService) = 0);
               noTarget = (length (svc_AddressGroups targetService) = 0);
               q = (\<lambda>n. [CHR 0x27] @ n @ [CHR 0x27]);
               inactive =
                 (if noLocal \<and> noTarget
                  then [''Both services have no address groups: localService '' @ q (Name localService) @
                        '', targetService '' @ q (Name targetService)]
                  else if noLocal then [''LocalService '' @ q (Name localService) @ '' has no address groups'']
                  else if noTarget then [''TargetService '' @ q (Name targetService) @ '' has no address groups'']
                  else [])
           in if length inactive > 0
              then Some (Errorf (''rule is invalid due to missing address groups: '' @ join ''; '' inactive))
              else None)))"

definition service_missing :: "string \<Rightarrow> resource_identifier \<Rightarrow> error \<Rightarrow> error" where
  "service_missing which i e =
     (if e = ErrNotFound
      then Errorf (which @ '' service '' @ [CHR 0x27] @ rid_Key i @ [CHR 0x27] @ '' not found'')
      else Errorf (''failed to get '' @ which @ '' service '' @ [CHR 0x27] @ rid_Key i @ [CHR 0x27] @ '': '' @
             error_text e))"

definition validateServiceReferences :: "reader_ops \<Rightarrow> rule_s2s \<Rightarrow> error option" where
  "validateServiceReferences rd r =
     (case GetServiceByID rd (local_id r) of
        Inl e \<Rightarrow> Some (service_missing ''local'' (local_id r) e)
      | Inr _ \<Rightarrow>
     (case GetServiceByID rd (target_id r) of
        Inl e \<Rightarrow> Some (service_missing ''target'' (target_id r) e)
      | Inr _ \<Rightarrow>
     (case validateServicesHaveAddressGroups rd (local_id r) (target_id r) of
        Some e \<Rightarrow> Some (Errorf (''service AddressGroups validation failed: '' @ error_text e))
      | None \<Rightarrow> None)))"

text \<open>An older check, by aliases; nothing calls it any more.\<close>

definition checkRuleS2SCanGenerateIEAgAg :: "reader_ops \<Rightarrow> rule_s2s \<Rightarrow> bool" where
  "checkRuleS2SCanGenerateIEAgAg rd r =
     (case GetServiceAliasByID rd (local_id r) of
        Inl _ \<Rightarrow> False
      | Inr localAlias \<Rightarrow>
     (case GetServiceByID rd (ref_id (sa_ServiceRef localAlias)) of
        Inl _ \<Rightarrow> False
      | Inr localService \<Rightarrow>
     (case GetServiceAliasByID rd (target_id r) of
        Inl _ \<Rightarrow> False
      | Inr targetAlias \<Rightarrow>
     (case GetServiceByID rd (ref_id (sa_ServiceRef targetAlias)) of
        Inl _ \<Rightarrow> False
      | Inr targetService \<Rightarrow>
          length (svc_AddressGroups localService) \<noteq> 0 \<and> length (svc_AddressGroups targetService) \<noteq> 0 \<and>
          length (svc_IngressPorts (if rs_Traffic r = INGRESS then localService else targetService)) \<noteq> 0))))"

section \<open>Writing generated rules\<close>

fun process_rule_conditions :: "ieagag_rule list \<Rightarrow> backend \<Rightarrow> ieagag_rule list \<times> backend" where
  "process_rule_conditions [] s = ([], s)"
| "process_rule_conditions (r # rs) s =
     (let ((_, r'), s1) = ProcessIEAgAgRuleConditions r s; (rs', s2) = process_rule_conditions rs s1
      in (r' # rs', s2))"

definition process_if_managed :: "ieagag_rule list \<Rightarrow> backend \<Rightarrow> ieagag_rule list \<times> backend" where
  "process_if_managed rules s =
     (if eng_conditionManager (be_engine s) then process_rule_conditions rules s else (rules, s))"

text \<open>The batch call of the synchronisation manager is recorded rule by rule; its error is logged only.\<close>

definition SyncBatch :: "sync_op \<Rightarrow> ieagag_rule list \<Rightarrow> backend \<Rightarrow> backend" where
  "SyncBatch syncOp rules s =
     s\<lparr>be_engine := sync_each (if syncOp = SyncOpDelete then SyncOperationDelete else SyncOperationUpsert)
         rules (be_engine s)\<rparr>"

definition syncIEAgAgRulesWithReader ::
  "bool \<Rightarrow> writer \<Rightarrow> ieagag_rule list \<Rightarrow> sync_op \<Rightarrow> backend \<Rightarrow>
   (error + ieagag_rule list \<times> writer) \<times> backend"
where
  "syncIEAgAgRulesWithReader readerGiven w rules syncOp s =
     (case (if readerGiven then None
            else (case ReaderFromWriter (be_reg s) w of Inl e \<Rightarrow> Some e | Inr _ \<Rightarrow> None)) of
        Some e \<Rightarrow> (Inl (Wrap ''failed to get reader from writer'' e), s)
      | None \<Rightarrow>
          (let s1 = SyncBatch syncOp rules s;
               (rules1, e1) = applyTimingFixConditionsOnly (eng_conditionManager (be_engine s1)) (be_env s1) rules;
               (w', e2) = SyncIEAgAgRules e1 (be_db s1) rules1 (Some EmptyScope) [SyncOption syncOp] w;
               (rules2, s2) = process_if_managed rules1 (set_env e2 s1)
           in (Inr (rules2, w'), s2)))"

definition syncIEAgAgRules ::
  "writer \<Rightarrow> ieagag_rule list \<Rightarrow> sync_op \<Rightarrow> backend \<Rightarrow> (error + ieagag_rule list \<times> writer) \<times> backend"
where
  "syncIEAgAgRules = syncIEAgAgRulesWithReader False"

definition RuleS2SService_SyncIEAgAgRules ::
  "ieagag_rule list \<Rightarrow> backend \<Rightarrow> error option \<times> backend"
where
  "RuleS2SService_SyncIEAgAgRules rules s =
     (case Writer (be_reg s) of
        Inl e \<Rightarrow> (Some (Wrap ''failed to get writer'' e), s)
      | Inr w \<Rightarrow>
          (case syncIEAgAgRules w rules SyncOpUpsert s of
             (Inl e, s1) \<Rightarrow> (Some (Wrap ''failed to sync IEAgAgRules'' e), s1)
           | (Inr (rules', w'), s1) \<Rightarrow> (None, snd (process_if_managed rules' (be_commit w' s1)))))"

text \<open>A rule that is not ready any more: the rules of its services are regenerated without it.\<close>

definition namespace_rules :: "reader_ops \<Rightarrow> resource_identifier list \<Rightarrow> ieagag_rule list" where
  "namespace_rules rd services =
     concat (map (\<lambda>i. case consume_listing
                        (\<lambda>r rs. (None, if ref_Namespace (ie_AddressGroupLocal r) = rid_Namespace i \<or>
                                          ref_Namespace (ie_AddressGroup r) = rid_Namespace i
                                       then rs @ [r] else rs))
                        (ListIEAgAgRules rd (Some EmptyScope)) [] of
                     (Some _, _) \<Rightarrow> [] | (None, rs) \<Rightarrow> rs) services)"

definition CleanupIEAgAgRulesForRuleS2S :: "rule_s2s \<Rightarrow> engine \<Rightarrow> error option \<times> engine" where
  "CleanupIEAgAgRulesForRuleS2S r s =
     (case Reader (eng_reg s) of
        Inl e \<Rightarrow> (Some (Wrap ''failed to get reader for cleanup'' e), s)
      | Inr rd \<Rightarrow>
          (let affected = (if rid_Key (local_id r) \<noteq> rid_Key (target_id r)
                           then [local_id r, target_id r] else [local_id r]);
               existing = namespace_rules (mem_reader rd) affected;
               s1 = fold (\<lambda>i s. snd (RegenerateIEAgAgRulesForService i s)) affected s;
               s2 = (if length existing > 0 \<and> eng_syncManager s1
                     then (case Reader (eng_reg s1) of
                             Inl _ \<Rightarrow> s1
                           | Inr rd' \<Rightarrow>
                               sync_each SyncOperationDelete
                                 (findDeletedIEAgAgRules existing (namespace_rules (mem_reader rd') affected)) s1)
                     else s1)
           in (None, s2)))"

section \<open>Conditions of a rule between services\<close>

definition ProcessRuleS2SConditions :: "rule_s2s \<Rightarrow> backend \<Rightarrow> ((error option \<times> rule_s2s) \<times> backend) option" where
  "ProcessRuleS2SConditions r s =
     (let p0 = start_marks r (be_env s)
      in case ReaderWithReadCommitted (be_reg s) of
           Inl e \<Rightarrow>
             (let p = no_reader ''Failed to get ReadCommitted reader for validation''
                    ''Backend validation unavailable'' e p0
              in Some ((None, r\<lparr>Meta := fst p\<rparr>), set_env (snd p) s))
         | Inr rd \<Rightarrow>
             (let p1 = set_committed ''RuleS2S'' p0
              in case RuleS2SValidator_ValidateForPostCommit (mem_reader rd) (r\<lparr>Meta := fst p1\<rparr>) of
                   Some e \<Rightarrow>
                     (let p = invalid ''RuleS2S'' e p1; r' = r\<lparr>Meta := fst p\<rparr>
                      in Some ((None, r'), batchConditionUpdate ''RuleS2S'' (PendingRuleS2S r') (set_env (snd p) s)))
                 | None \<Rightarrow>
             (let p2 = committed_and_validated ''RuleS2S'' p1
              in case validateServiceReferences (mem_reader rd) r of
                   Some e \<Rightarrow>
                     (let p3 = not_ready ReasonDependencyError (''Service dependency error: '' @ error_text e)
                            ''Traffic direction binding validation failed'' p2;
                          s1 = set_env (snd p3) s;
                          (err, g) = CleanupIEAgAgRulesForRuleS2S (r\<lparr>Meta := fst p3\<rparr>) (be_engine s1);
                          s2 = set_engine g s1;
                          p4 = (case err of
                                  None \<Rightarrow> (fst p3, be_env s2)
                                | Some c \<Rightarrow> set_error ReasonCleanupError
                                    (''Failed to cleanup IEAgAgRules: '' @ error_text c) (fst p3, be_env s2));
                          r' = r\<lparr>Meta := fst p4\<rparr>
                      in Some ((None, r'), batchConditionUpdate ''RuleS2S'' (PendingRuleS2S r') (set_env (snd p4) s2)))
                 | None \<Rightarrow>
                     (let p3 = set_ready ''True'' ReasonReady ''RuleS2S is ready, all dependencies validated'' p2;
                          r' = r\<lparr>Meta := fst p3\<rparr>
                      in do {
                        s1 \<leftarrow> flushConditionBatch
                                (batchConditionUpdate ''RuleS2S'' (PendingRuleS2S r') (set_env (snd p3) s));
                        (case GenerateIEAgAgRulesFromRuleS2SWithReader (be_reader s1) r' of
                           Inl e \<Rightarrow>
                             (let p4 = set_error ReasonDependencyError
                                    (''Failed to generate IEAgAgRules: '' @ error_text e) (Meta r', be_env s1)
                              in Some ((None, r\<lparr>Meta := fst p4\<rparr>), set_env (snd p4) s1))
                         | Inr rules \<Rightarrow>
                             if length rules > 0
                             then (let (err, s2) = RuleS2SService_SyncIEAgAgRules rules s1
                                   in case err of
                                        None \<Rightarrow> Some ((None, r'), s2)
                                      | Some e \<Rightarrow>
                                          (let p4 = set_error ReasonDependencyError
                                                 (''Failed to process IEAgAgRules: '' @ error_text e) (Meta r', be_env s2)
                                           in Some ((None, r\<lparr>Meta := fst p4\<rparr>), set_env (snd p4) s2)))
                             else Some ((None, r'), s1))
                      }))))"

section \<open>Regeneration for services and bindings\<close>

fun process_rules2s :: "rule_s2s list \<Rightarrow> backend \<Rightarrow> backend option" where
  "process_rules2s [] s = Some s"
| "process_rules2s (r # rs) s =
     do { (_, s1) \<leftarrow> ProcessRuleS2SConditions r s; process_rules2s rs s1 }"

definition process_rules2s_if_managed :: "rule_s2s list \<Rightarrow> backend \<Rightarrow> backend option" where
  "process_rules2s_if_managed rules s =
     (if eng_conditionManager (be_engine s) then process_rules2s rules s else Some s)"

definition NotifyServiceAddressGroupsChanged ::
  "resource_identifier \<Rightarrow> backend \<Rightarrow> (error option \<times> backend) option"
where
  "NotifyServiceAddressGroupsChanged i s =
     (case Reader (be_reg s) of
        Inl e \<Rightarrow> Some (Some (Wrap ''failed to get reader'' e), s)
      | Inr rd \<Rightarrow>
          (let (err, affected) = findRuleS2SReferencingServiceAlias (mem_reader rd) i
           in case err of
                Some e \<Rightarrow> Some (Some (Wrap ''failed to list RuleS2S'' e), s)
              | None \<Rightarrow>
                  if length affected = 0 then Some (None, s)
                  else (let (err', g) = RegenerateIEAgAgRulesForService i (be_engine s); s1 = set_engine g s
                        in case err' of
                             Some e \<Rightarrow> Some (Some (Wrap (''failed to regenerate IEAgAgRules for service '' @ rid_Key i) e), s1)
                           | None \<Rightarrow> do { s2 \<leftarrow> process_rules2s_if_managed affected s1; Some (None, s2) })))"

definition triggerPostCreationIEAgAgRuleGeneration ::
  "rule_s2s \<Rightarrow> backend \<Rightarrow> (error option \<times> backend) option"
where
  "triggerPostCreationIEAgAgRuleGeneration r s =
     (case Reader (be_reg s) of
        Inl e \<Rightarrow> Some (Some (Wrap ''failed to get reader'' e), s)
      | Inr rd \<Rightarrow>
     (case GetServiceByID (mem_reader rd) (local_id r) of
        Inl _ \<Rightarrow> Some (None, s)
      | Inr localService \<Rightarrow>
     (case GetServiceByID (mem_reader rd) (target_id r) of
        Inl _ \<Rightarrow> Some (None, s)
      | Inr targetService \<Rightarrow>
          if length (svc_AddressGroups localService) > 0 \<and> length (svc_AddressGroups targetService) > 0
          then do {
            (_, s1) \<leftarrow> NotifyServiceAddressGroupsChanged (local_id r) s;
            (_, s2) \<leftarrow> NotifyServiceAddressGroupsChanged (target_id r) s1;
            Some (None, s2) }
          else Some (None, s))))"

text \<open>
  The mutexes of the aggregation groups are taken in sorted order and released at the end; no
  function called in between takes one. The text of the safety check leaves out the percentage.
\<close>

definition affected_groups :: "reader_ops \<Rightarrow> rule_s2s list \<Rightarrow> aggregation_group table" where
  "affected_groups rd rules =
     fold (\<lambda>g. AList.update (AggregationGroup_Key g) g)
       (concat (map (\<lambda>r. case extractAggregationGroupsFromRuleS2S rd r of Inl _ \<Rightarrow> [] | Inr gs \<Rightarrow> gs) rules)) []"

definition existing_group_rules :: "reader_ops \<Rightarrow> aggregation_group table \<Rightarrow> error option \<times> ieagag_rule table" where
  "existing_group_rules rd groups =
     (let agKey = (\<lambda>ref. ref_Namespace ref @ ''/'' @ ref_Name ref);
          locals = map (\<lambda>(_, g). AddressGroupRefKey (grp_LocalAG g)) groups;
          targets = map (\<lambda>(_, g). AddressGroupRefKey (grp_TargetAG g)) groups
      in consume_listing
           (\<lambda>x m. (None, if agKey (ie_AddressGroupLocal x) \<in> set locals \<or> agKey (ie_AddressGroup x) \<in> set targets
                         then AList.update (Key x) x m else m))
           (ListIEAgAgRules rd (Some EmptyScope)) [])"

definition all_contributing :: "reader_ops \<Rightarrow> aggregation_group table \<Rightarrow> rule_s2s list" where
  "all_contributing rd groups =
     fold (\<lambda>r acc. if Key r \<in> set (map Key acc) then acc else acc @ [r])
       (concat (map (\<lambda>(_, g). case FindAllRuleS2SForAggregationGroup rd g of Inl _ \<Rightarrow> [] | Inr rs \<Rightarrow> rs) groups)) []"

definition too_many_deletions :: "nat \<Rightarrow> nat \<Rightarrow> bool" where
  "too_many_deletions obsolete totalRules \<longleftrightarrow> 5 * obsolete > 4 * totalRules \<and> totalRules > 10"

definition applyTimingFixToIEAgAgRules :: "writer \<Rightarrow> ieagag_rule list \<Rightarrow> backend \<Rightarrow> writer \<times> backend" where
  "applyTimingFixToIEAgAgRules w rules s =
     (if length rules = 0 then (w, s)
      else if \<not> eng_conditionManager (be_engine s) then (w, s)
      else (let (rules', e1) = process_all (be_env s) rules;
                (w', e2) = SyncIEAgAgRules e1 (be_db s) rules' (Some EmptyScope) [SyncOption SyncOpUpsert] w
            in (w', set_env e2 s)))"

definition updateIEAgAgRulesForRuleS2SWithReader ::
  "writer \<Rightarrow> rule_s2s list \<Rightarrow> backend \<Rightarrow> (error option \<times> backend) option"
where
  "updateIEAgAgRulesForRuleS2SWithReader w rules s =
     (if length rules = 0 then Some (None, s)
      else
        (let rd = eng_reader (Some w) (be_engine s);
             groups = affected_groups rd rules;
             (err, existing) = existing_group_rules rd groups
         in case err of
              Some e \<Rightarrow> Some (Some (Wrap ''failed to list existing IEAgAg rules'' e), s)
            | None \<Rightarrow>
                (let contributing = all_contributing rd groups;
                     a = generateAggregatedIEAgAgRules (Some w) contributing [] (be_engine s);
                     s1 = set_engine (agn_engine a) s
                 in case (if length (agn_new a) > 0
                          then syncIEAgAgRulesWithReader True w (agn_new a) SyncOpUpsert s1
                          else (Inr (agn_new a, w), s1)) of
                      (Inl e, s2) \<Rightarrow> Some (Some (Wrap ''failed to sync new IEAgAg rules'' e), s2)
                    | (Inr (new, w1), s2) \<Rightarrow>
                        (let obsolete = map snd (filter (\<lambda>(k, _). k \<notin> set (agn_expected a)) existing);
                             totalRules = length (fst (ListIEAgAgRules (eng_reader (Some w1) (be_engine s2)) (Some EmptyScope)))
                         in if length obsolete > 0 \<and> too_many_deletions (length obsolete) totalRules
                            then Some (Some (Errorf (''safety check: refusing to delete '' @
                                   nat_str (length obsolete) @ '' IEAgAg rules'')), s2)
                            else
                              (let w2 = (if length obsolete > 0
                                         then DeleteIEAgAgRulesByIDs (be_db s2) (map self_id obsolete) w1 else w1);
                                   (w3, s3) = applyTimingFixToIEAgAgRules w2 new s2
                               in do {
                                 s4 \<leftarrow> process_rules2s_if_managed contributing (be_commit w3 s3);
                                 Some (None, s4) })))))"

definition regenerateIEAgAgRulesForRuleS2SList ::
  "rule_s2s list \<Rightarrow> backend \<Rightarrow> (error option \<times> backend) option"
where
  "regenerateIEAgAgRulesForRuleS2SList rules s =
     (if length rules = 0 then Some (None, s)
      else (case Writer (be_reg s) of
        Inl e \<Rightarrow> Some (Some (Wrap ''failed to get writer'' e), s)
      | Inr w \<Rightarrow>
     (case ReaderFromWriter (be_reg s) w of
        Inl e \<Rightarrow> Some (Some (Wrap ''failed to get reader from writer'' e), s)
      | Inr _ \<Rightarrow> updateIEAgAgRulesForRuleS2SWithReader w rules s)))"

definition RegenerateIEAgAgRulesForServiceAlias ::
  "resource_identifier \<Rightarrow> backend \<Rightarrow> (error option \<times> backend) option"
where
  "RegenerateIEAgAgRulesForServiceAlias i s =
     (case Reader (be_reg s) of
        Inl e \<Rightarrow> Some (Some (Wrap ''failed to get reader'' e), s)
      | Inr rd \<Rightarrow>
          (case findRuleS2SReferencingServiceAlias (mem_reader rd) i of
             (Some e, _) \<Rightarrow> Some (Some (Wrap ''failed to list RuleS2S'' e), s)
           | (None, affected) \<Rightarrow>
               if length affected = 0 then Some (None, s)
               else regenerateIEAgAgRulesForRuleS2SList affected s))"

definition RegenerateIEAgAgRulesForAddressGroupBinding ::
  "resource_identifier \<Rightarrow> backend \<Rightarrow> (error option \<times> backend) option"
where
  "RegenerateIEAgAgRulesForAddressGroupBinding i s =
     (case Reader (be_reg s) of
        Inl e \<Rightarrow> Some (Some (Wrap ''failed to get reader'' e), s)
      | Inr rd \<Rightarrow>
          (let regenerate = (\<lambda>affected. if length affected = 0 then Some (None, s)
                               else regenerateIEAgAgRulesForRuleS2SList affected s)
           in case GetAddressGroupBindingByID (mem_reader rd) i of
                Inr b \<Rightarrow>
                  (case findRuleS2SReferencingServiceAlias (mem_reader rd) (ref_id (agb_ServiceRef b)) of
                     (Some e, _) \<Rightarrow> Some (Some (Wrap ''failed to list RuleS2S'' e), s)
                   | (None, affected) \<Rightarrow> regenerate affected)
              | Inl e \<Rightarrow>
                  if is_not_found e
                  then (case collect_all (ListRuleS2S (mem_reader rd) (Some EmptyScope)) of
                          (Some e', _) \<Rightarrow> Some (Some (Wrap ''failed to list all RuleS2S'' e'), s)
                        | (None, affected) \<Rightarrow> regenerate affected)
                  else Some (Some (Wrap ''failed to get AddressGroupBinding'' e), s)))"

definition regenerateAllIEAgAgRules :: "reader_ops \<Rightarrow> backend \<Rightarrow> (error option \<times> backend) option" where
  "regenerateAllIEAgAgRules rd s =
     (case collect_all (ListRuleS2S rd (Some EmptyScope)) of
        (Some e, _) \<Rightarrow> Some (Some (Wrap ''failed to list all RuleS2S for full regeneration'' e), s)
      | (None, rules) \<Rightarrow> regenerateIEAgAgRulesForRuleS2SList rules s)"

section \<open>Synchronisation of rules between services\<close>

definition affected_service_ids :: "reader_ops \<Rightarrow> rule_s2s list \<Rightarrow> resource_identifier table" where
  "affected_service_ids rd rules =
     fold (\<lambda>r m. case GetServiceByID rd (local_id r) of
                   Inl _ \<Rightarrow> m
                 | Inr _ \<Rightarrow>
                     (case GetServiceByID rd (target_id r) of
                        Inl _ \<Rightarrow> m
                      | Inr _ \<Rightarrow> AList.update (rid_Key (target_id r)) (target_id r)
                                  (AList.update (rid_Key (local_id r)) (local_id r) m))) rules []"

definition UpdateIEAgAgRulesForAffectedServicesWithExclusions ::
  "writer \<Rightarrow> resource_identifier table \<Rightarrow> sync_op \<Rightarrow> resource_identifier list \<Rightarrow> backend \<Rightarrow>
   (error + writer) \<times> backend"
where
  "UpdateIEAgAgRulesForAffectedServicesWithExclusions w affectedServices syncOp excludeRuleIDs s =
     (let rd = eng_reader (Some w) (be_engine s);
          affectedRules = concat (map (\<lambda>(_, i). case findAllRelatedRuleS2S rd i of Inl _ \<Rightarrow> [] | Inr rs \<Rightarrow> rs)
                                    affectedServices);
          a = generateAggregatedIEAgAgRules (Some w) (map snd (put_items affectedRules [])) excludeRuleIDs (be_engine s);
          s1 = set_engine (agn_engine a) s
      in if length (agn_new a) > 0
         then (case syncIEAgAgRulesWithReader True w (agn_new a) syncOp s1 of
                 (Inl e, s2) \<Rightarrow> (Inl (Wrap ''failed to sync generated IEAgAgRules'' e), s2)
               | (Inr (_, w'), s2) \<Rightarrow> (Inr w', s2))
         else (Inr w, s1))"

definition UpdateIEAgAgRulesForAffectedServices ::
  "writer \<Rightarrow> resource_identifier table \<Rightarrow> sync_op \<Rightarrow> backend \<Rightarrow> (error + writer) \<times> backend"
where
  "UpdateIEAgAgRulesForAffectedServices w affectedServices syncOp =
     UpdateIEAgAgRulesForAffectedServicesWithExclusions w affectedServices syncOp []"

definition UpdateIEAgAgRulesForRuleS2SWithReaderAndExclusions ::
  "writer \<Rightarrow> rule_s2s list \<Rightarrow> sync_op \<Rightarrow> resource_identifier list \<Rightarrow> backend \<Rightarrow> (error + writer) \<times> backend"
where
  "UpdateIEAgAgRulesForRuleS2SWithReaderAndExclusions w rules syncOp excludeRuleIDs s =
     UpdateIEAgAgRulesForAffectedServicesWithExclusions w
       (affected_service_ids (eng_reader (Some w) (be_engine s)) rules) syncOp excludeRuleIDs s"

definition UpdateIEAgAgRulesForRuleS2SWithReader ::
  "writer \<Rightarrow> rule_s2s list \<Rightarrow> sync_op \<Rightarrow> backend \<Rightarrow> (error + writer) \<times> backend"
where
  "UpdateIEAgAgRulesForRuleS2SWithReader w rules syncOp s =
     UpdateIEAgAgRulesForAffectedServicesWithExclusions w
       (affected_service_ids (eng_reader (Some w) (be_engine s)) rules) syncOp [] s"

definition UpdateIEAgAgRulesForRuleS2S ::
  "writer \<Rightarrow> rule_s2s list \<Rightarrow> sync_op \<Rightarrow> backend \<Rightarrow> (error + writer) \<times> backend"
where
  "UpdateIEAgAgRulesForRuleS2S w rules syncOp s =
     (case ReaderFromWriter (be_reg s) w of
        Inl e \<Rightarrow> (Inl (Wrap ''failed to get reader from writer'' e), s)
      | Inr _ \<Rightarrow> UpdateIEAgAgRulesForRuleS2SWithReaderAndExclusions w rules syncOp [] s)"

definition validate_synced_rule :: "reader_ops \<Rightarrow> rule_s2s \<Rightarrow> error option" where
  "validate_synced_rule rd r =
     (case GetRuleS2SByID rd (self_id r) of
        Inr existingRule \<Rightarrow> RuleS2SValidator_ValidateForUpdate rd existingRule r
      | Inl e \<Rightarrow>
          if is_not_found e then RuleS2SValidator_ValidateForCreation rd r
          else Some (Wrap ''failed to get RuleS2S'' e))"

definition syncRuleS2S ::
  "writer \<Rightarrow> rule_s2s list \<Rightarrow> sync_op \<Rightarrow> backend \<Rightarrow> (error + writer) \<times> backend"
where
  "syncRuleS2S w rules syncOp s =
     (case ReaderFromWriter (be_reg s) w of
        Inl e \<Rightarrow> (Inl (Wrap ''failed to get reader from writer'' e), s)
      | Inr rd \<Rightarrow>
          (case (if syncOp \<noteq> SyncOpDelete then first_error (validate_synced_rule (mem_reader rd)) rules else None) of
             Some e \<Rightarrow> (Inl e, s)
           | None \<Rightarrow>
               (let (w1, e1) = SyncRuleS2S (be_env s) (be_db s) rules (Some EmptyScope) [SyncOption syncOp] w;
                    excludeRuleIDs = (if syncOp = SyncOpDelete then map self_id rules else [])
                in case UpdateIEAgAgRulesForRuleS2SWithReaderAndExclusions w1 rules syncOp excludeRuleIDs (set_env e1 s) of
                     (Inl e, s2) \<Rightarrow> (Inl (Wrap ''failed to update IEAgAgRules for RuleS2S'' e), s2)
                   | (Inr w2, s2) \<Rightarrow> (Inr w2, s2))))"

section \<open>Request handlers\<close>

definition RuleS2SService_CreateRuleS2S :: "rule_s2s \<Rightarrow> backend \<Rightarrow> (error option \<times> backend) option" where
  "RuleS2SService_CreateRuleS2S r s =
     (case Reader (be_reg s) of
        Inl e \<Rightarrow> Some (Some (Wrap ''failed to get reader'' e), s)
      | Inr rd \<Rightarrow>
     (case RuleS2SValidator_ValidateForCreation (mem_reader rd) r of
        Some e \<Rightarrow> Some (Some e, s)
      | None \<Rightarrow>
     (case Writer (be_reg s) of
        Inl e \<Rightarrow> Some (Some (Wrap ''failed to get writer'' e), s)
      | Inr w \<Rightarrow>
     (case syncRuleS2S w [r] SyncOpUpsert s of
        (Inl e, s1) \<Rightarrow> Some (Some (Wrap ''failed to create rule s2s'' e), s1)
      | (Inr w', s1) \<Rightarrow>
          do {
            (_, s2) \<leftarrow> triggerPostCreationIEAgAgRuleGeneration r (be_commit w' s1);
            (if eng_conditionManager (be_engine s2)
             then do { ((err, _), s3) \<leftarrow> ProcessRuleS2SConditions r s2;
                       Some (wrap_err ''failed to process rule s2s conditions'' err, s3) }
             else Some (None, s2)) }))))"

text \<open>An update keeps the conditions of the stored rule.\<close>

definition keep_conditions :: "rule_s2s \<Rightarrow> rule_s2s \<Rightarrow> rule_s2s" where
  "keep_conditions existing r =
     (if length (Conditions (Meta existing)) > 0
      then r\<lparr>Meta := (Meta r)\<lparr>Conditions := Conditions (Meta existing), Generation := Generation (Meta existing)\<rparr>\<rparr>
      else r)"

definition RuleS2SService_UpdateRuleS2S :: "rule_s2s \<Rightarrow> backend \<Rightarrow> (error option \<times> backend) option" where
  "RuleS2SService_UpdateRuleS2S r s =
     (case Reader (be_reg s) of
        Inl e \<Rightarrow> Some (Some (Wrap ''failed to get reader'' e), s)
      | Inr rd \<Rightarrow>
     (case GetRuleS2SByID (mem_reader rd) (self_id r) of
        Inl e \<Rightarrow> Some (Some (Wrap ''failed to get existing RuleS2S'' e), s)
      | Inr existing \<Rightarrow>
          (let r' = keep_conditions existing r
           in case RuleS2SValidator_ValidateForUpdate (mem_reader rd) existing r' of
                Some e \<Rightarrow> Some (Some e, s)
              | None \<Rightarrow>
     (case Writer (be_reg s) of
        Inl e \<Rightarrow> Some (Some (Wrap ''failed to get writer'' e), s)
      | Inr w \<Rightarrow>
     (case syncRuleS2S w [r'] SyncOpUpsert s of
        (Inl e, s1) \<Rightarrow> Some (Some (Wrap ''failed to update rule s2s'' e), s1)
      | (Inr w', s1) \<Rightarrow>
          (let s2 = be_commit w' s1
           in if eng_conditionManager (be_engine s2)
              then do { ((err, _), s3) \<leftarrow> ProcessRuleS2SConditions r' s2;
                        Some (wrap_err ''failed to process rule s2s conditions'' err, s3) }
              else Some (None, s2)))))))"

fun referenced_rules ::
  "reader_ops \<Rightarrow> resource_identifier list \<Rightarrow> error + resource_identifier list"
where
  "referenced_rules rd [] = Inr []"
| "referenced_rules rd (i # is) =
     (case GetRuleS2SByID rd i of
        Inl e \<Rightarrow> if is_not_found e then referenced_rules rd is
                 else Inl (Wrap (''failed to get RuleS2S '' @ rid_Key i @ '' for cleanup'') e)
      | Inr r \<Rightarrow>
          (let here = (if length (rs_IEAgAgRuleRefs r) > 0
                       then map (\<lambda>ref. ResourceIdentifier (ref_Name ref) (ref_Namespace ref)) (rs_IEAgAgRuleRefs r)
                       else (case GenerateIEAgAgRulesFromRuleS2SWithReader rd r of
                               Inl _ \<Rightarrow> []
                             | Inr expected \<Rightarrow>
                                 map self_id (filter (\<lambda>x. case GetIEAgAgRuleByID rd (self_id x) of
                                                            Inl _ \<Rightarrow> False | Inr _ \<Rightarrow> True) expected)))
           in case referenced_rules rd is of Inl e \<Rightarrow> Inl e | Inr rest \<Rightarrow> Inr (here @ rest)))"

definition RuleS2SService_DeleteRuleS2SByIDs ::
  "resource_identifier list \<Rightarrow> backend \<Rightarrow> error option \<times> backend"
where
  "RuleS2SService_DeleteRuleS2SByIDs ids s =
     (case Reader (be_reg s) of
        Inl e \<Rightarrow> (Some (Wrap ''failed to get reader for validation'' e), s)
      | Inr rd \<Rightarrow>
     (case first_error (\<lambda>i. wrap_err (''cannot delete RuleS2S '' @ rid_Key i)
             (RuleS2SValidator_CheckDependencies (mem_reader rd) i)) ids of
        Some e \<Rightarrow> (Some e, s)
      | None \<Rightarrow>
     (case referenced_rules (mem_reader rd) ids of
        Inl e \<Rightarrow> (Some e, s)
      | Inr referenced \<Rightarrow>
     (case Writer (be_reg s) of
        Inl e \<Rightarrow> (Some (Wrap ''failed to get writer'' e), s)
      | Inr w \<Rightarrow>
          (let s1 = be_commit (DeleteRuleS2SByIDs (be_db s) ids w) s
           in if length referenced > 0
              then (None, set_engine (snd (RecalculateTargetedIEAgAgRules referenced
                     (''rules2s-deletion-cleanup-'' @ nat_str (length ids) @ ''-rules'') (be_engine s1))) s1)
              else (None, s1))))))"

fun trigger_all :: "rule_s2s list \<Rightarrow> backend \<Rightarrow> backend option" where
  "trigger_all [] s = Some s"
| "trigger_all (r # rs) s =
     do { (_, s1) \<leftarrow> triggerPostCreationIEAgAgRuleGeneration r s; trigger_all rs s1 }"

definition RuleS2SService_SyncRuleS2S ::
  "rule_s2s list \<Rightarrow> sync_op \<Rightarrow> backend \<Rightarrow> (error option \<times> backend) option"
where
  "RuleS2SService_SyncRuleS2S rules syncOp s =
     (if syncOp = SyncOpDelete then Some (RuleS2SService_DeleteRuleS2SByIDs (map self_id rules) s)
      else (case Writer (be_reg s) of
        Inl e \<Rightarrow> Some (Some (Wrap ''failed to get writer'' e), s)
      | Inr w \<Rightarrow>
     (case syncRuleS2S w rules syncOp s of
        (Inl e, s1) \<Rightarrow> Some (Some (Wrap ''failed to sync RuleS2S'' e), s1)
      | (Inr w', s1) \<Rightarrow>
          do {
            s2 \<leftarrow> trigger_all rules (be_commit w' s1);
            s3 \<leftarrow> process_rules2s_if_managed rules s2;
            Some (None, s3) })))"

definition RuleS2SService_DeleteIEAgAgRulesByIDs ::
  "resource_identifier list \<Rightarrow> backend \<Rightarrow> error option \<times> backend"
where
  "RuleS2SService_DeleteIEAgAgRulesByIDs ids s =
     (case Reader (be_reg s) of
        Inl e \<Rightarrow> (Some (Wrap ''failed to get reader for external sync preparation'' e), s)
      | Inr rd \<Rightarrow>
     (case Writer (be_reg s) of
        Inl e \<Rightarrow> (Some (Wrap ''failed to get writer'' e), s)
      | Inr w \<Rightarrow>
          (let rulesToDelete = concat (map (\<lambda>i. case GetIEAgAgRuleByID (mem_reader rd) i of
                                                Inl _ \<Rightarrow> [] | Inr r \<Rightarrow> [r]) ids);
               s1 = be_commit (DeleteIEAgAgRulesByIDs (be_db s) ids w) s
           in (None, s1\<lparr>be_engine := sync_each SyncOperationDelete rulesToDelete (be_engine s1)\<rparr>))))"

definition GenerateIEAgAgRulesFromRuleS2S :: "rule_s2s \<Rightarrow> backend \<Rightarrow> error + ieagag_rule list" where
  "GenerateIEAgAgRulesFromRuleS2S r s =
     (case Reader (be_reg s) of
        Inl e \<Rightarrow> Inl (Wrap ''failed to get reader'' e)
      | Inr rd \<Rightarrow> GenerateIEAgAgRulesFromRuleS2SWithReader (mem_reader rd) r)"

definition FindRuleS2SForServices :: "resource_identifier list \<Rightarrow> backend \<Rightarrow> error + rule_s2s list" where
  "FindRuleS2SForServices ids s =
     (case Reader (be_reg s) of
        Inl e \<Rightarrow> Inl (Wrap ''failed to get reader'' e)
      | Inr rd \<Rightarrow> FindRuleS2SForServicesWithReader (mem_reader rd) ids)"

section \<open>The facade\<close>

text \<open>
  \<^verbatim>\<open>Lock\<close> on the mutex and \<^verbatim>\<open>Unlock\<close> at the end. A call that finds the mutex held by its
  own caller waits for ever.
\<close>

definition with_mutex :: "(backend \<Rightarrow> ('a \<times> backend) option) \<Rightarrow> backend \<Rightarrow> ('a \<times> backend) option" where
  "with_mutex f s =
     (if be_mutexHeld s then None
      else do { (x, s') \<leftarrow> f (s\<lparr>be_mutexHeld := True\<rparr>); Some (x, s'\<lparr>be_mutexHeld := False\<rparr>) })"

definition NetguardFacade_CreateRuleS2S :: "rule_s2s \<Rightarrow> backend \<Rightarrow> (error option \<times> backend) option" where
  "NetguardFacade_CreateRuleS2S r = with_mutex (RuleS2SService_CreateRuleS2S r)"

definition NetguardFacade_UpdateRuleS2S :: "rule_s2s \<Rightarrow> backend \<Rightarrow> (error option \<times> backend) option" where
  "NetguardFacade_UpdateRuleS2S r = with_mutex (RuleS2SService_UpdateRuleS2S r)"

definition NetguardFacade_SyncRuleS2S :: "rule_s2s list \<Rightarrow> backend \<Rightarrow> (error option \<times> backend) option" where
  "NetguardFacade_SyncRuleS2S rules = with_mutex (RuleS2SService_SyncRuleS2S rules SyncOpUpsert)"

definition NetguardFacade_DeleteRuleS2SByIDs ::
  "resource_identifier list \<Rightarrow> backend \<Rightarrow> (error option \<times> backend) option"
where
  "NetguardFacade_DeleteRuleS2SByIDs ids = with_mutex (\<lambda>s. Some (RuleS2SService_DeleteRuleS2SByIDs ids s))"

definition NetguardFacade_DeleteIEAgAgRulesByIDs ::
  "resource_identifier list \<Rightarrow> backend \<Rightarrow> (error option \<times> backend) option"
where
  "NetguardFacade_DeleteIEAgAgRulesByIDs ids = with_mutex (\<lambda>s. Some (RuleS2SService_DeleteIEAgAgRulesByIDs ids s))"

text \<open>The synchronisation of the gRPC service does not take the mutex.\<close>

definition NetguardFacade_Sync_RuleS2S ::
  "sync_op \<Rightarrow> rule_s2s list \<Rightarrow> backend \<Rightarrow> (error option \<times> backend) option"
where
  "NetguardFacade_Sync_RuleS2S syncOp rules = RuleS2SService_SyncRuleS2S rules syncOp"

definition NetguardFacade_Sync_IEAgAgRules :: "sync_op \<Rightarrow> ieagag_rule list \<Rightarrow> backend \<Rightarrow> error option \<times> backend" where
  "NetguardFacade_Sync_IEAgAgRules syncOp rules = RuleS2SService_SyncIEAgAgRules rules"

end
