(* ===== verification/ConditionFacts.thy ===== *)
theory ConditionFacts
  imports RuleHandlers AggregationFacts
begin

text \<open>
  What the condition manager establishes. The locale \<open>condition_check\<close> is the contract of the
  part of a \<^verbatim>\<open>Process...Conditions\<close> function that runs with a reader: which of the four
  conditions it leaves true, in terms of the validation of the kind and of a check of its
  dependencies. It is interpreted for every kind that the function \<open>process_object\<close> handles,
  and what the processing does to an object and to the store is proved once inside it.

  The last sections treat the rules between services: when their processing returns, and what
  the processing of other requests keeps of the mutex and of the inputs of the aggregation.
\<close>

section \<open>Marks\<close>

lemma condition_true_SetCondition:
  "IsConditionTrue ty (SetCondition c m) =
     (if ty = cond_Type c then cond_Status c = ''True'' else IsConditionTrue ty m)"
  by (simp add: IsConditionTrue_def GetCondition_SetCondition)

lemma condition_types [simp]:
  "ConditionReady \<noteq> ConditionSynced" "ConditionReady \<noteq> ConditionValidated" "ConditionReady \<noteq> ConditionError"
  "ConditionSynced \<noteq> ConditionReady" "ConditionSynced \<noteq> ConditionValidated" "ConditionSynced \<noteq> ConditionError"
  "ConditionValidated \<noteq> ConditionReady" "ConditionValidated \<noteq> ConditionSynced" "ConditionValidated \<noteq> ConditionError"
  "ConditionError \<noteq> ConditionReady" "ConditionError \<noteq> ConditionSynced" "ConditionError \<noteq> ConditionValidated"
  by (simp_all add: ConditionReady_def ConditionSynced_def ConditionValidated_def ConditionError_def)

lemmas setter_defs =
  set_ready_def set_synced_def set_validated_def set_error_def
  SetReadyCondition_def SetSyncedCondition_def SetValidatedCondition_def SetErrorCondition_def
  NewReadyCondition_def NewSyncedCondition_def NewValidatedCondition_def NewErrorCondition_def
  new_condition_def

lemma setters_true [simp]:
  "IsConditionTrue ty (fst (set_ready st r msg p)) =
     (if ty = ConditionReady then st = ''True'' else IsConditionTrue ty (fst p))"
  "IsConditionTrue ty (fst (set_synced st r msg p)) =
     (if ty = ConditionSynced then st = ''True'' else IsConditionTrue ty (fst p))"
  "IsConditionTrue ty (fst (set_validated st r msg p)) =
     (if ty = ConditionValidated then st = ''True'' else IsConditionTrue ty (fst p))"
  "IsConditionTrue ty (fst (set_error r msg p)) \<longleftrightarrow> ty = ConditionError \<or> IsConditionTrue ty (fst p)"
  by (simp_all add: setter_defs Let_def split_beta condition_true_SetCondition)

lemmas composed_marks =
  not_ready_def invalid_def committed_and_validated_def set_committed_def no_reader_def

lemma composed_marks_true [simp]:
  "IsConditionTrue ty (fst (not_ready r msg rm p)) \<longleftrightarrow>
     ty \<noteq> ConditionReady \<and> (ty = ConditionError \<or> IsConditionTrue ty (fst p))"
  "IsConditionTrue ty (fst (invalid k e p)) \<longleftrightarrow>
     ty \<noteq> ConditionReady \<and> ty \<noteq> ConditionValidated \<and> (ty = ConditionError \<or> IsConditionTrue ty (fst p))"
  "IsConditionTrue ty (fst (committed_and_validated k p)) \<longleftrightarrow>
     ty = ConditionValidated \<or> IsConditionTrue ty (fst p)"
  "IsConditionTrue ty (fst (set_committed k p)) \<longleftrightarrow> ty = ConditionSynced \<or> IsConditionTrue ty (fst p)"
  "IsConditionTrue ty (fst (no_reader msg rm e p)) \<longleftrightarrow>
     ty \<noteq> ConditionReady \<and> (ty = ConditionError \<or> IsConditionTrue ty (fst p))"
  "IsConditionTrue ty (fst (lookup_failed e a b c d p)) \<longleftrightarrow>
     ty \<noteq> ConditionReady \<and> (ty = ConditionError \<or> IsConditionTrue ty (fst p))"
  by (auto simp: composed_marks lookup_failed_def)

lemmas condition_predicates = IsReady_def IsSynced_def IsValidated_def HasError_def

lemma start_marks_true [simp]:
  "conditions_ok (Meta x) \<Longrightarrow> IsConditionTrue ty (fst (start_marks x e)) \<longleftrightarrow>
     ty \<noteq> ConditionError \<and> IsConditionTrue ty (Meta x)"
  by (simp add: start_marks_def TouchOnWrite_def IsConditionTrue_def GetCondition_def
      ClearErrorCondition_def conditions_ok_def find_remove_first)

section \<open>The contract of a check\<close>

text \<open>
  The post-commit validations do not look at metadata, which the functions change before they
  call them.
\<close>

lemmas post_commit_defs =
  ServiceValidator_ValidateForPostCommit_def ServiceValidator_ValidateWithoutDuplicateCheck_def
  ServiceValidator_ValidateReferences_def ServiceValidator_CheckPortOverlaps_def
  IEAgAgRuleValidator_ValidateForPostCommit_def IEAgAgRuleValidator_ValidateReferences_def
  validate_port_specs_def AddressGroupBindingValidator_ValidateForPostCommit_def
  AddressGroupBindingValidator_ValidateReferences_def ValidateNoDuplicateBindings_def
  check_policy_def find_policy_def policy_allows_def same_binding_refs_def
  ServiceAliasValidator_ValidateForPostCommit_def ServiceAliasValidator_ValidateReferences_def
  PortMappingValidator_ValidateForPostCommit_def PortMappingValidator_ValidateReferences_def
  CheckInternalPortOverlaps_def PolicyValidator_ValidateForPostCommit_def
  PolicyValidator_ValidateReferences_def no_duplicate_policy_def same_policy_refs_def
  NetworkBindingValidator_ValidateForPostCommit_def NetworkBindingValidator_ValidateReferences_def
  AddressGroupValidator_ValidateForPostCommit_def AddressGroupValidator_ValidateReferences_def
  RuleS2SValidator_ValidateForPostCommit_def RuleS2SValidator_ValidateNamespaceRules_def
  RuleS2SValidator_ValidateNoDuplicates_def same_rule_spec_def

lemma group_overlaps_meta [simp]: "group_overlaps (Meta_update f sv) ps = group_overlaps sv ps"
proof -
  have "gather_first (Meta_update f sv) qs m = gather_first sv qs m" for qs m
    by (induction qs arbitrary: m) (simp_all split: sum.split)
  moreover have "mapping_overlap_error (Meta_update f sv) = mapping_overlap_error sv"
    by (simp add: mapping_overlap_error_def fun_eq_iff)
  ultimately show ?thesis by (simp add: group_overlaps_def cong: if_cong sum.case_cong)
qed

lemma post_commit_ignores_meta [simp]:
  "ServiceValidator_ValidateForPostCommit rd (Meta_update f sv) = ServiceValidator_ValidateForPostCommit rd sv"
  "IEAgAgRuleValidator_ValidateForPostCommit rd (Meta_update f ie) = IEAgAgRuleValidator_ValidateForPostCommit rd ie"
  "AddressGroupBindingValidator_ValidateForPostCommit rd (Meta_update f b) =
     AddressGroupBindingValidator_ValidateForPostCommit rd b"
  "ServiceAliasValidator_ValidateForPostCommit rd (Meta_update f a) = ServiceAliasValidator_ValidateForPostCommit rd a"
  "PortMappingValidator_ValidateForPostCommit rd (Meta_update f m) = PortMappingValidator_ValidateForPostCommit rd m"
  "PolicyValidator_ValidateForPostCommit rd (Meta_update f q) = PolicyValidator_ValidateForPostCommit rd q"
  "NetworkBindingValidator_ValidateForPostCommit rd (Meta_update f nb) =
     NetworkBindingValidator_ValidateForPostCommit rd nb"
  "AddressGroupValidator_ValidateForPostCommit rd (Meta_update f g) = AddressGroupValidator_ValidateForPostCommit rd g"
  "RuleS2SValidator_ValidateForPostCommit rd (Meta_update f r) = RuleS2SValidator_ValidateForPostCommit rd r"
  by (simp_all add: post_commit_defs ref_key_defs access_ports_def
      cong: if_cong sum.case_cong option.case_cong)

text \<open>
  \<open>valid\<close>, \<open>ready\<close> and \<open>failed\<close> say what the conditions Validated, Ready and Error report of an
  object. Every check reports that the object is synced.
\<close>

locale condition_check =
  fixes check :: "reader_ops \<Rightarrow> 'a resource_scheme \<Rightarrow> marks \<Rightarrow> marks \<times> bool"
    and valid ready failed :: "reader_ops \<Rightarrow> 'a resource_scheme \<Rightarrow> bool"
  assumes check_true: "IsConditionTrue ty (fst (fst (check rd x p))) \<longleftrightarrow>
      (if ty = ConditionSynced then True
       else if ty = ConditionValidated then valid rd x
       else if ty = ConditionReady then ready rd x
       else ty = ConditionError \<and> failed rd x \<or> IsConditionTrue ty (fst p))"

definition reports :: "bool \<Rightarrow> bool \<Rightarrow> bool \<Rightarrow> meta \<Rightarrow> bool" where
  "reports valid ready failed m \<longleftrightarrow>
     IsSynced m \<and> (IsValidated m \<longleftrightarrow> valid) \<and> (IsReady m \<longleftrightarrow> ready) \<and> (HasError m \<longleftrightarrow> failed)"

lemma Reader_open: "\<not> reg_closed (be_reg s) \<Longrightarrow> \<exists>r. Reader (be_reg s) = Inr r \<and> mem_reader r = be_reader s"
  by (simp add: Reader_def eng_reader_def)

context condition_check
begin

lemma processed:
  assumes "\<not> reg_closed (be_reg s)" and "conditions_ok (Meta x)"
  shows "reports (valid (be_reader s) x) (ready (be_reader s) x) (failed (be_reader s) x)
    (Meta (snd (fst (process_object msg readyMsg check save x s))))"
proof -
  obtain r where "Reader (be_reg s) = Inr r" "mem_reader r = be_reader s"
    using Reader_open [OF assms(1)] by blast
  then have "Meta (snd (fst (process_object msg readyMsg check save x s))) =
      fst (fst (check (be_reader s) x (start_marks x (be_env s))))"
    by (simp add: process_object_def Let_def split_beta)
  then show ?thesis by (simp add: reports_def condition_predicates check_true assms(2))
qed

lemma object_kept: "\<exists>m. snd (fst (process_object msg readyMsg check save x s)) = x\<lparr>Meta := m\<rparr>"
  by (auto simp: process_object_def Let_def split_beta split: sum.split)

end

text \<open>Neither the store nor the batch of conditions to save changes.\<close>

definition nothing_saved :: "backend \<Rightarrow> backend \<Rightarrow> bool" where
  "nothing_saved s s' \<longleftrightarrow> be_reg s' = be_reg s \<and> be_pending s' = be_pending s"

lemma nothing_saved_env [simp]: "nothing_saved s (set_env e s)"
  by (simp add: nothing_saved_def)

text \<open>Most checks reach the place where the conditions are saved only when the object is Ready.\<close>

locale saving_check = condition_check +
  assumes saves_iff: "snd (check rd x p) \<longleftrightarrow> ready rd x"
begin

lemma process_state:
  assumes "\<not> reg_closed (be_reg s)"
  shows "\<exists>e. snd (process_object msg readyMsg check save x s) =
    (if ready (be_reader s) x
     then save (snd (fst (process_object msg readyMsg check save x s))) (set_env e s)
     else set_env e s)"
proof -
  obtain r where "Reader (be_reg s) = Inr r" "mem_reader r = be_reader s"
    using Reader_open [OF assms] by blast
  then show ?thesis by (auto simp: process_object_def Let_def split_beta saves_iff)
qed

lemma process_unsaved:
  assumes "\<not> reg_closed (be_reg s)" and "\<not> ready (be_reader s) x"
  shows "nothing_saved s (snd (process_object msg readyMsg check save x s))"
  using process_state [OF assms(1), of msg readyMsg save x] assms(2) by auto

end

section \<open>The checks of each kind\<close>

definition found :: "error + 'b \<Rightarrow> bool" where
  "found x = (case x of Inl _ \<Rightarrow> False | Inr _ \<Rightarrow> True)"

lemma found_simps [simp]: "\<not> found (Inl e)" "found (Inr y)"
  by (simp_all add: found_def)

definition all_found :: "(resource_identifier \<Rightarrow> error + 'b) \<Rightarrow> nref list \<Rightarrow> bool" where
  "all_found get rs \<longleftrightarrow> (\<forall>r\<in>set rs. found (get (ResourceIdentifier (ref_Name r) (ref_Namespace r))))"

lemma missing_refs_found:
  "missing_refs get key rs = Inl x \<Longrightarrow> \<not> all_found get rs"
  "missing_refs get key rs = Inr ks \<Longrightarrow> ks = [] \<longleftrightarrow> all_found get rs"
  by (induction rs arbitrary: ks) (auto simp: all_found_def split: sum.splits if_splits)

definition service_ready :: "reader_ops \<Rightarrow> service \<Rightarrow> bool" where
  "service_ready rd x \<longleftrightarrow> ServiceValidator_ValidateForPostCommit rd x = None \<and>
     all_found (GetAddressGroupByID rd) (svc_AddressGroups x)"

definition ieagag_rule_ready :: "reader_ops \<Rightarrow> ieagag_rule \<Rightarrow> bool" where
  "ieagag_rule_ready rd x \<longleftrightarrow> IEAgAgRuleValidator_ValidateForPostCommit rd x = None \<and>
     all_found (GetAddressGroupByID rd) [ie_AddressGroupLocal x, ie_AddressGroup x]"

definition binding_ready :: "reader_ops \<Rightarrow> address_group_binding \<Rightarrow> bool" where
  "binding_ready rd x \<longleftrightarrow> AddressGroupBindingValidator_ValidateForPostCommit rd x = None \<and>
     (case GetServiceByID rd (ResourceIdentifier (ref_Name (agb_ServiceRef x)) (Namespace x)) of
        Inl _ \<Rightarrow> False
      | Inr service \<Rightarrow> CheckPortOverlaps service empty_port_mapping = None) \<and>
     found (GetAddressGroupByID rd (ref_id (agb_AddressGroupRef x))) \<and>
     found (GetAddressGroupPortMappingByID rd (ref_id (agb_AddressGroupRef x)))"

definition alias_ready :: "reader_ops \<Rightarrow> service_alias \<Rightarrow> bool" where
  "alias_ready rd x \<longleftrightarrow> ServiceAliasValidator_ValidateForPostCommit rd x = None \<and>
     found (GetServiceByID rd (ResourceIdentifier (ref_Name (sa_ServiceRef x)) (Namespace x)))"

definition port_mapping_ready :: "reader_ops \<Rightarrow> address_group_port_mapping \<Rightarrow> bool" where
  "port_mapping_ready rd x \<longleftrightarrow> PortMappingValidator_ValidateForPostCommit rd x = None \<and>
     access_ports x \<noteq> [] \<and> all_found (GetServiceByID rd) (map fst (access_ports x))"

definition port_mapping_failed :: "reader_ops \<Rightarrow> address_group_port_mapping \<Rightarrow> bool" where
  "port_mapping_failed rd x \<longleftrightarrow> \<not> port_mapping_ready rd x \<and>
     (PortMappingValidator_ValidateForPostCommit rd x = None \<longrightarrow> access_ports x \<noteq> [])"

definition policy_ready :: "reader_ops \<Rightarrow> address_group_binding_policy \<Rightarrow> bool" where
  "policy_ready rd x \<longleftrightarrow> PolicyValidator_ValidateForPostCommit rd x = None \<and>
     found (GetAddressGroupByID rd (ref_id (agbp_AddressGroupRef x))) \<and>
     found (GetServiceByID rd (ref_id (agbp_ServiceRef x)))"

definition network_binding_ready :: "reader_ops \<Rightarrow> network_binding \<Rightarrow> bool" where
  "network_binding_ready rd x \<longleftrightarrow> NetworkBindingValidator_ValidateForPostCommit rd x = None \<and>
     found (GetNetworkByID rd (ResourceIdentifier (ref_Name (nb_NetworkRef x)) (Namespace x))) \<and>
     found (GetAddressGroupByID rd (ResourceIdentifier (ref_Name (nb_AddressGroupRef x)) (Namespace x)))"

interpretation svc_check: saving_check service_conditions
  "\<lambda>rd x. ServiceValidator_ValidateForPostCommit rd x = None" service_ready "\<lambda>rd x. \<not> service_ready rd x"
  by unfold_locales
    (auto simp: service_conditions_def service_ready_def Let_def dest: missing_refs_found
      split: option.splits sum.splits)

interpretation ie_check: condition_check ieagag_rule_conditions
  "\<lambda>rd x. IEAgAgRuleValidator_ValidateForPostCommit rd x = None" ieagag_rule_ready
  "\<lambda>rd x. \<not> ieagag_rule_ready rd x"
  by unfold_locales
    (auto simp: ieagag_rule_conditions_def ieagag_rule_ready_def Let_def all_found_def
      split: option.splits sum.splits)

interpretation agb_check: saving_check binding_conditions
  "\<lambda>rd x. AddressGroupBindingValidator_ValidateForPostCommit rd x = None" binding_ready
  "\<lambda>rd x. \<not> binding_ready rd x"
  by unfold_locales
    (auto simp: binding_conditions_def binding_ready_def Let_def ref_id_def
      split: option.splits sum.splits)

interpretation sal_check: saving_check alias_conditions
  "\<lambda>rd x. ServiceAliasValidator_ValidateForPostCommit rd x = None" alias_ready "\<lambda>rd x. \<not> alias_ready rd x"
  by unfold_locales
    (auto simp: alias_conditions_def alias_ready_def Let_def split: option.splits sum.splits)

interpretation agpm_check: saving_check port_mapping_conditions
  "\<lambda>rd x. PortMappingValidator_ValidateForPostCommit rd x = None" port_mapping_ready port_mapping_failed
  by unfold_locales
    (auto simp: port_mapping_conditions_def port_mapping_ready_def port_mapping_failed_def Let_def
      access_ports_def access_ports_count_def dest: missing_refs_found
      split: option.splits sum.splits)

interpretation agbp_check: saving_check policy_conditions
  "\<lambda>rd x. PolicyValidator_ValidateForPostCommit rd x = None" policy_ready "\<lambda>rd x. \<not> policy_ready rd x"
  by unfold_locales
    (auto simp: policy_conditions_def policy_ready_def Let_def ref_id_def
      split: option.splits sum.splits)

interpretation nb_check: condition_check "\<lambda>rd x p. (network_binding_conditions rd x p, False)"
  "\<lambda>rd x. NetworkBindingValidator_ValidateForPostCommit rd x = None" network_binding_ready
  "\<lambda>rd x. \<not> network_binding_ready rd x"
  by unfold_locales
    (auto simp: network_binding_conditions_def network_binding_ready_def Let_def
      split: option.splits sum.splits)

text \<open>Networks and address groups, whose conditions depend on the external system.\<close>

interpretation nw_check: saving_check "\<lambda>rd x. network_conditions x None"
  "\<lambda>rd x. ValidateCIDR (nw_CIDR x) = None" "\<lambda>rd x. ValidateCIDR (nw_CIDR x) = None"
  "\<lambda>rd x. ValidateCIDR (nw_CIDR x) \<noteq> None"
  by unfold_locales (auto simp: network_conditions_def Let_def split: option.splits)

lemma network_reported:
  assumes "\<not> reg_closed (be_reg s)" and "conditions_ok (Meta n)"
  shows "let m = Meta (snd (fst (ProcessNetworkConditions n syncResult s))); valid = (ValidateCIDR (nw_CIDR n) = None)
     in (IsSynced m \<longleftrightarrow> syncResult = None) \<and> (IsValidated m \<longleftrightarrow> syncResult = None \<and> valid) \<and>
        (IsReady m \<longleftrightarrow> syncResult = None \<and> valid) \<and> (HasError m \<longleftrightarrow> syncResult = None \<and> \<not> valid)"
proof (cases syncResult)
  case None
  then show ?thesis
    using nw_check.processed [OF assms, of "''Failed to get reader for validation''" "''Backend validation unavailable''"
        "\<lambda>x s. snd (saveNetworkConditions x s)"]
    by (simp add: reports_def ProcessNetworkConditions_def Let_def)
next
  case (Some e)
  with Reader_open [OF assms(1)] assms(2) show ?thesis
    by (auto simp: ProcessNetworkConditions_def process_object_def network_conditions_def Let_def condition_predicates)
qed

lemma group_reported:
  assumes "\<not> reg_closed (be_reg s)" and "conditions_ok (Meta g)"
  shows "let (err, g') = fst (ProcessAddressGroupConditions g s)
     in IsValidated (Meta g') \<and> \<not> HasError (Meta g') \<and>
        (IsSynced (Meta g') \<longleftrightarrow> err = None) \<and> (IsReady (Meta g') \<longleftrightarrow> err = None) \<and>
        (err = None \<longleftrightarrow> fst (sync_group (g\<lparr>Meta := fst (start_marks g (be_env s))\<rparr>) s) = None)"
proof -
  have "AddressGroupValidator_ValidateForPostCommit rd x = None" for rd x
    by (simp add: AddressGroupValidator_ValidateForPostCommit_def AddressGroupValidator_ValidateReferences_def)
  with Reader_open [OF assms(1)] assms(2) show ?thesis
    by (cases "fst (sync_group (g\<lparr>Meta := fst (start_marks g (be_env s))\<rparr>) s)")
      (auto simp: ProcessAddressGroupConditions_def Let_def split_beta condition_predicates)
qed

section \<open>What is written\<close>

text \<open>
  The in-memory writer ignores that only conditions are to be written: the object as a whole
  replaces what is stored under its key.
\<close>

definition stores_if :: "bool \<Rightarrow> 'a resource_scheme \<Rightarrow> 'a resource_scheme table \<Rightarrow> 'a resource_scheme table \<Rightarrow> bool" where
  "stores_if saved y t t' \<longleftrightarrow>
     (\<exists>e. map_of t' = (if saved then (map_of t)(Key y \<mapsto> y\<lparr>Meta := fst (ensureMetaFill e (Meta y))\<rparr>) else map_of t))"

lemma condition_only_op [simp]: "select_sync_op [ConditionOnlyOperation] = SyncOpFullSync"
  by (simp add: select_sync_op_def)

lemma map_of_drop_one:
  "map_of (drop_by_key [i] t) = (map_of t)(rid_Key i := None)"
  by (induction t) (auto simp: drop_by_key_def)

lemma scope_one: "scope_IsEmpty (NewResourceIdentifierScope [i]) \<longleftrightarrow> False"
  by (simp add: NewResourceIdentifierScope_def)

lemma sync_one_stores:
  "stores_if True x t (fst (sync_table drop_by_key e [x] (Some (NewResourceIdentifierScope [self_id x]))
     [ConditionOnlyOperation] t))"
  "stores_if True x t (fst (sync_policy_table e [x] (Some (NewResourceIdentifierScope [self_id x]))
     [ConditionOnlyOperation] t))"
  "table_ok t \<Longrightarrow> stores_if True x t (fst (sync_table drop_by_value e [x]
     (Some (NewResourceIdentifierScope [self_id x])) [ConditionOnlyOperation] t))"
  by (auto simp: stores_if_def sync_table_def sync_policy_table_def clear_scope_def map_of_drop_one
      drop_by_value_key NewResourceIdentifierScope_def Key_self_id [symmetric] split_beta Let_def update_conv
      intro!: exI [of _ e])

lemma be_commit_db: "be_db (be_commit w s) = fst (Commit (be_env s) (be_db s) w)"
  by (simp add: be_commit_def commit_writer_def split_beta)

context store_kind
begin

lemma saved_table:
  assumes "\<not> reg_closed (be_reg s)"
  shows "db_get (be_db (snd (save_conditions what sync x s))) =
    fst (tsync (be_env s) [x] (Some (NewResourceIdentifierScope [self_id x])) [ConditionOnlyOperation]
      (db_get (be_db s)))"
  using assms
  by (simp add: save_conditions_def save_with_def Writer_def split_beta be_commit_db db_commit view_sync view_new)

end

lemma stores_if_False: "stores_if False y t t"
  by (simp add: stores_if_def)

lemma stores_if_ready:
  assumes "\<exists>e. s' = (if ready then save y (set_env e s) else set_env e s)"
    and "\<And>e. stores_if True y (tbl (be_db s)) (tbl (be_db (save y (set_env e s))))"
  shows "stores_if ready y (tbl (be_db s)) (tbl (be_db s'))"
  using assms by (auto simp: stores_if_False)

lemma save_stores:
  assumes "\<not> reg_closed (be_reg s)"
  shows "stores_if True a (GetServiceAliases (be_db s))
      (GetServiceAliases (be_db (snd (saveServiceAliasConditions a (set_env e s)))))"
    and "stores_if True b (GetAddressGroupBindings (be_db s))
      (GetAddressGroupBindings (be_db (snd (saveAddressGroupBindingConditions b (set_env e s)))))"
    and "stores_if True pm (GetAddressGroupPortMappings (be_db s))
      (GetAddressGroupPortMappings (be_db (snd (saveAddressGroupPortMappingConditions pm (set_env e s)))))"
    and "stores_if True q (GetAddressGroupBindingPolicies (be_db s))
      (GetAddressGroupBindingPolicies (be_db (snd (saveAddressGroupBindingPolicyConditions q (set_env e s)))))"
    and "table_ok (GetNetworks (be_db s)) \<Longrightarrow> stores_if True n (GetNetworks (be_db s))
      (GetNetworks (be_db (snd (saveNetworkConditions n (set_env e s)))))"
    and "table_ok (GetServices (be_db s)) \<Longrightarrow> stores_if True sv (GetServices (be_db s))
      (GetServices (be_db (snd (saveServiceConditions sv (set_env e s)))))"
  using assms sync_one_stores
  by (simp_all add: saveServiceAliasConditions_def saveAddressGroupBindingConditions_def
      saveAddressGroupPortMappingConditions_def saveAddressGroupBindingPolicyConditions_def
      saveNetworkConditions_def saveServiceConditions_def sal.saved_table agb.saved_table agpm.saved_table
      agbp.saved_table nw.saved_table svc.saved_table)

lemma network_stored:
  assumes "\<not> reg_closed (be_reg s)" and "table_ok (GetNetworks (be_db s))"
  shows "stores_if (syncResult = None \<and> ValidateCIDR (nw_CIDR n) = None) (snd (fst (ProcessNetworkConditions n syncResult s)))
      (GetNetworks (be_db s)) (GetNetworks (be_db (snd (ProcessNetworkConditions n syncResult s))))"
proof (cases syncResult)
  case None
  have "stores_if (ValidateCIDR (nw_CIDR n) = None) (snd (fst (ProcessNetworkConditions n None s)))
      (GetNetworks (be_db s)) (GetNetworks (be_db (snd (ProcessNetworkConditions n None s))))"
    unfolding ProcessNetworkConditions_def
    by (rule stores_if_ready [OF nw_check.process_state [OF assms(1)]]) (rule save_stores(5) [OF assms])
  with None show ?thesis by simp
next
  case (Some e)
  with Reader_open [OF assms(1)] show ?thesis
    by (auto simp: ProcessNetworkConditions_def process_object_def network_conditions_def Let_def stores_if_False)
qed

lemma network_unsaved:
  assumes "\<not> reg_closed (be_reg s)" and "\<not> (syncResult = None \<and> ValidateCIDR (nw_CIDR n) = None)"
  shows "nothing_saved s (snd (ProcessNetworkConditions n syncResult s))"
proof (cases syncResult)
  case None
  with assms(2) show ?thesis
    unfolding ProcessNetworkConditions_def None by (intro nw_check.process_unsaved [OF assms(1)]) simp
next
  case (Some e)
  with Reader_open [OF assms(1)] show ?thesis
    by (auto simp: ProcessNetworkConditions_def process_object_def network_conditions_def Let_def)
qed

lemma network_binding_unsaved: "nothing_saved s (snd (ProcessNetworkBindingConditions nb s))"
  by (simp add: ProcessNetworkBindingConditions_def process_object_def Let_def split_beta split: sum.split)

text \<open>A valid rule between address groups is queued in both outcomes, an address group always.\<close>

lemma ieagag_rule_queued:
  assumes "\<not> reg_closed (be_reg s)"
  shows "be_reg (snd (ProcessIEAgAgRuleConditions ie s)) = be_reg s \<and>
    be_pending (snd (ProcessIEAgAgRuleConditions ie s)) =
      (if IEAgAgRuleValidator_ValidateForPostCommit (be_reader s) ie = None
       then AList.update (''IEAgAgRule:'' @ Namespace ie @ ''/'' @ Name ie)
              (PendingIEAgAgRule (snd (fst (ProcessIEAgAgRuleConditions ie s)))) (be_pending s)
       else be_pending s)"
proof -
  have "snd (ieagag_rule_conditions rd ie p) \<longleftrightarrow> IEAgAgRuleValidator_ValidateForPostCommit rd ie = None" for rd p
    by (simp add: ieagag_rule_conditions_def Let_def split: option.split)
  from this [of "be_reader s" "start_marks ie (be_env s)"] Reader_open [OF assms] show ?thesis
    by (auto simp: ProcessIEAgAgRuleConditions_def process_object_def Let_def split_beta batchConditionUpdate_def)
qed

lemma group_queued:
  assumes "\<not> reg_closed (be_reg s)"
  shows "be_reg (snd (ProcessAddressGroupConditions g s)) = be_reg s \<and>
    be_pending (snd (ProcessAddressGroupConditions g s)) =
      AList.update (''AddressGroup:'' @ Namespace g @ ''/'' @ Name g)
        (PendingAddressGroup (snd (fst (ProcessAddressGroupConditions g s)))) (be_pending s)"
proof -
  have "AddressGroupValidator_ValidateForPostCommit rd x = None" for rd x
    by (simp add: AddressGroupValidator_ValidateForPostCommit_def AddressGroupValidator_ValidateReferences_def)
  moreover have "be_reg (snd (sync_group x s)) = be_reg s" "be_pending (snd (sync_group x s)) = be_pending s" for x
    by (simp_all add: sync_group_def Let_def split_beta)
  ultimately show ?thesis using Reader_open [OF assms]
    by (cases "fst (sync_group (g\<lparr>Meta := fst (start_marks g (be_env s))\<rparr>) s)")
      (auto simp: ProcessAddressGroupConditions_def Let_def split_beta batchConditionUpdate_def)
qed

lemma service_queued:
  assumes "\<not> reg_closed (be_reg s)"
  shows "be_reg (snd (ProcessServiceConditions sv s)) = be_reg s \<and>
    be_pending (snd (ProcessServiceConditions sv s)) =
      (if service_ready (be_reader s) sv
       then AList.update (''Service:'' @ Namespace sv @ ''/'' @ Name sv)
              (PendingService (snd (fst (ProcessServiceConditions sv s)))) (be_pending s)
       else be_pending s)"
proof -
  have *: "\<exists>m. snd (fst (ProcessServiceConditions sv s)) = sv\<lparr>Meta := m\<rparr>"
    unfolding ProcessServiceConditions_def by (rule svc_check.object_kept)
  from svc_check.process_state [OF assms, of "''Failed to get reader for validation''" "''Backend validation unavailable''"
      "\<lambda>x. batchConditionUpdate ''Service'' (PendingService x)" sv]
  have "\<exists>e. snd (ProcessServiceConditions sv s) =
    (if service_ready (be_reader s) sv
     then batchConditionUpdate ''Service'' (PendingService (snd (fst (ProcessServiceConditions sv s)))) (set_env e s)
     else set_env e s)"
    by (simp only: ProcessServiceConditions_def)
  with * show ?thesis by (auto simp: batchConditionUpdate_def Let_def)
qed

lemma flush_one_stores:
  assumes "\<not> reg_closed (be_reg s)" and "table_ok (GetServices (be_db s))" and "\<not> be_mutexHeld s"
  shows "\<exists>s'. flushConditionBatch (s\<lparr>be_pending := [(''Service:'' @ k, PendingService sv)]\<rparr>) = Some s' \<and>
    stores_if True sv (GetServices (be_db s)) (GetServices (be_db s'))"
proof -
  have "hd (split_on CHR '':'' (''Service:'' @ k)) = ''Service''"
    by simp
  with save_stores(6) [of "s\<lparr>be_pending := []\<rparr>" sv "be_env s"] assms show ?thesis
    by (simp add: flushConditionBatch_def flush_entry_def set_env_def)
qed

end
