(* ===== verification/RuleLiveness.thy ===== *)
theory RuleLiveness
  imports ConditionFacts Integrity
begin

text \<open>
  When a request on rules between services returns. Processing the conditions of a rule flushes
  the batch, and a flush waits for the mutex that the facade holds around its methods: the
  request never returns. The lemmas before say what the handlers leave alone: the mutex, the
  flags of the engine and, while the mutex is held, the services, bindings and rules.
\<close>

section \<open>What the engine leaves alone\<close>

text \<open>
  The inputs of the generation, together with the flag of the condition manager. Whatever only
  writes generated rules keeps them.
\<close>

definition eng_inputs ::
  "engine \<Rightarrow> (bool \<times> service table \<times> address_group_binding table \<times> rule_s2s table) \<times> bool"
where
  "eng_inputs g = (agg_inputs g, eng_conditionManager g)"

named_theorems kept

lemma fold_same: "(\<And>x a. h (f x a) = h a) \<Longrightarrow> h (fold f xs a) = h a"
  by (induction xs arbitrary: a) simp_all

lemma eng_inputs_env [kept]: "eng_inputs (g\<lparr>eng_env := e\<rparr>) = eng_inputs g"
  by (simp add: eng_inputs_def agg_inputs_def)

lemma sync_each_inputs [kept]: "eng_inputs (sync_each op rules g) = eng_inputs g"
  by (simp add: sync_each_eq eng_inputs_def agg_inputs_def)

lemma commit_writer_flag [kept]: "eng_conditionManager (commit_writer w g) = eng_conditionManager g"
  by (simp add: commit_writer_def split_beta)

lemma cleanup_flag: "eng_conditionManager (snd (cleanupOrphanedIEAgAgRule w n ns g)) = eng_conditionManager g"
  by (simp add: cleanupOrphanedIEAgAgRule_def Let_def SyncEntity_def commit_writer_flag split: sum.split)

lemma aggregate_combination_flag:
  "eng_conditionManager (agn_engine (aggregate_combination w ex r l t x a)) = eng_conditionManager (agn_engine a)"
  by (cases x) (simp add: aggregate_combination_def Let_def cleanup_flag split_beta split: sum.split)

lemma aggregate_rule_flag:
  "eng_conditionManager (agn_engine (aggregate_rule w ex r a)) = eng_conditionManager (agn_engine a)"
  by (simp add: aggregate_rule_def aggregate_combination_flag
      fold_same [where h = "\<lambda>a. eng_conditionManager (agn_engine a)"] split: sum.split)

lemma generate_inputs [kept]: "eng_inputs (agn_engine (generateAggregatedIEAgAgRules w rules ids g)) = eng_inputs g"
proof -
  have "eng_conditionManager (agn_engine (generateAggregatedIEAgAgRules w rules ids g)) = eng_conditionManager g"
    unfolding generateAggregatedIEAgAgRules_def
    by (subst fold_same [where h = "\<lambda>a. eng_conditionManager (agn_engine a)"]) (simp_all add: aggregate_rule_flag)
  then show ?thesis by (simp add: eng_inputs_def generate_eq_spec(3))
qed

lemma ie_writer_inputs:
  "w_services (fst (SyncIEAgAgRules e db rules sc opts w)) = w_services w"
  "w_addressGroupBindings (fst (SyncIEAgAgRules e db rules sc opts w)) = w_addressGroupBindings w"
  "w_ruleS2S (fst (SyncIEAgAgRules e db rules sc opts w)) = w_ruleS2S w"
  "w_services (DeleteIEAgAgRulesByIDs db ids w) = w_services w"
  "w_addressGroupBindings (DeleteIEAgAgRulesByIDs db ids w) = w_addressGroupBindings w"
  "w_ruleS2S (DeleteIEAgAgRulesByIDs db ids w) = w_ruleS2S w"
  "w_services empty_writer = None" "w_addressGroupBindings empty_writer = None" "w_ruleS2S empty_writer = None"
  by (simp_all add: SyncIEAgAgRules_def DeleteIEAgAgRulesByIDs_def empty_writer_def split_beta)

lemma commit_ie_inputs [kept]:
  "w_services w = None \<Longrightarrow> w_addressGroupBindings w = None \<Longrightarrow> w_ruleS2S w = None \<Longrightarrow>
   eng_inputs (commit_writer w g) = eng_inputs g"
  by (simp add: eng_inputs_def commit_inputs commit_writer_flag)

lemma execute_inputs [kept]: "eng_inputs (snd (executeRuleOperations ops g)) = eng_inputs g"
  by (simp add: executeRuleOperations_def Writer_def Let_def split_beta kept ie_writer_inputs split: sum.split)

lemma recalculate_inputs [kept]:
  "eng_inputs (snd (RecalculateAllAffectedIEAgAgRules reason g)) = eng_inputs g"
  "eng_inputs (snd (RecalculateIEAgAgRulesForAffectedRuleS2S rules reason g)) = eng_inputs g"
  "eng_inputs (snd (RecalculateTargetedIEAgAgRules ids reason g)) = eng_inputs g"
  by (simp_all add: RecalculateAllAffectedIEAgAgRules_def RecalculateIEAgAgRulesForAffectedRuleS2S_def
      RecalculateTargetedIEAgAgRules_def Let_def split_beta kept split: sum.split option.split)

lemma regenerate_inputs [kept]: "eng_inputs (snd (RegenerateIEAgAgRulesForService i g)) = eng_inputs g"
  by (simp add: RegenerateIEAgAgRulesForService_def Let_def split_beta kept split: sum.split option.split)

lemma cleanup_rule_inputs [kept]: "eng_inputs (snd (CleanupIEAgAgRulesForRuleS2S r g)) = eng_inputs g"
proof -
  have "eng_inputs (fold (\<lambda>i g. snd (RegenerateIEAgAgRulesForService i g)) is g) = eng_inputs g" for "is"
    by (rule fold_same) (rule regenerate_inputs)
  then show ?thesis
    by (simp add: CleanupIEAgAgRulesForRuleS2S_def Let_def kept split: sum.split)
qed

section \<open>What the handlers leave alone\<close>

definition inputs :: "backend \<Rightarrow>
  ((bool \<times> service table \<times> address_group_binding table \<times> rule_s2s table) \<times> bool) \<times> bool"
where
  "inputs s = (eng_inputs (be_engine s), be_mutexHeld s)"

lemma inputs_simple [kept]:
  "inputs (set_env e s) = inputs s" "inputs (batchConditionUpdate ty res s) = inputs s"
  "inputs (SyncBatch op rules s) = inputs s" "inputs (s\<lparr>be_pending := ps\<rparr>) = inputs s"
  "eng_inputs g = eng_inputs (be_engine s) \<Longrightarrow> inputs (set_engine g s) = inputs s"
  "eng_inputs (be_engine (set_env e s)) = eng_inputs (be_engine s)"
  "w_services w = None \<Longrightarrow> w_addressGroupBindings w = None \<Longrightarrow> w_ruleS2S w = None \<Longrightarrow>
   inputs (be_commit w s) = inputs s"
  by (simp_all add: inputs_def set_env_def batchConditionUpdate_def SyncBatch_def set_engine_def be_commit_def
      Let_def kept)

lemma ieagag_conditions_inputs [kept]: "inputs (snd (ProcessIEAgAgRuleConditions r s)) = inputs s"
  by (simp add: ProcessIEAgAgRuleConditions_def process_object_def Let_def split_beta kept split: sum.split)

lemma process_rule_conditions_inputs [kept]: "inputs (snd (process_rule_conditions rules s)) = inputs s"
  by (induction rules arbitrary: s) (simp_all add: Let_def split_beta kept)

lemma process_if_managed_inputs [kept]: "inputs (snd (process_if_managed rules s)) = inputs s"
  by (simp add: process_if_managed_def kept)

lemma sync_rules_inputs [kept]: "inputs (snd (syncIEAgAgRulesWithReader given w rules op s)) = inputs s"
  by (simp add: syncIEAgAgRulesWithReader_def Let_def split_beta kept split: option.split)

lemma sync_rules_writer:
  assumes "fst (syncIEAgAgRulesWithReader given w rules op s) = Inr (rules', w')"
  shows "w_services w' = w_services w" "w_addressGroupBindings w' = w_addressGroupBindings w" "w_ruleS2S w' = w_ruleS2S w"
  using assms
  by (auto simp: syncIEAgAgRulesWithReader_def Let_def split_beta ie_writer_inputs split: option.splits)

lemma service_sync_rules_inputs [kept]: "inputs (snd (RuleS2SService_SyncIEAgAgRules rules s)) = inputs s"
proof -
  have "inputs (snd (process_if_managed rules' (be_commit w' s'))) = inputs s"
    if "syncIEAgAgRules empty_writer rules SyncOpUpsert s = (Inr (rules', w'), s')" for rules' w' s'
    using that sync_rules_writer [of False empty_writer rules SyncOpUpsert s rules' w']
      sync_rules_inputs [of False empty_writer rules SyncOpUpsert s]
    by (simp add: kept syncIEAgAgRules_def ie_writer_inputs)
  moreover have "inputs s' = inputs s"
    if "syncIEAgAgRules empty_writer rules SyncOpUpsert s = (Inl e, s')" for e s'
    using that sync_rules_inputs [of False empty_writer rules SyncOpUpsert s] by (simp add: syncIEAgAgRules_def)
  ultimately show ?thesis
    by (auto simp: RuleS2SService_SyncIEAgAgRules_def Writer_def split: prod.split sum.split)
qed

section \<open>Checks depend on the inputs only\<close>

lemma reader_services:
  assumes "agg_inputs g = agg_inputs g'"
  shows "ListServices (eng_reader w g) = ListServices (eng_reader w g')"
  using assms
  by (simp add: agg_inputs_def eng_reader_def mem_reader_def mem_ListServices_def service_table_def reader_table_def
      fun_eq_iff split: option.splits)

lemma rule_checks_inputs:
  assumes "agg_inputs g = agg_inputs g'"
  shows "RuleS2SValidator_ValidateForPostCommit (eng_reader w g) r = RuleS2SValidator_ValidateForPostCommit (eng_reader w g') r"
    and "validateServiceReferences (eng_reader w g) r = validateServiceReferences (eng_reader w g') r"
  using reader_services [OF assms, of w] reader_inputs [OF assms, of w]
  by (simp_all add: RuleS2SValidator_ValidateForPostCommit_def RuleS2SValidator_ValidateNamespaceRules_def
      RuleS2SValidator_ValidateNoDuplicates_def ServiceValidator_ValidateExists_def NewServiceValidator_def
      validateServiceReferences_def validateServicesHaveAddressGroups_def
      cong: if_cong sum.case_cong option.case_cong)

section \<open>Processing a rule\<close>

text \<open>The rule passes the checks that make it Ready.\<close>

definition rule_passes :: "rule_s2s \<Rightarrow> backend \<Rightarrow> bool" where
  "rule_passes r s \<longleftrightarrow> \<not> reg_closed (be_reg s) \<and>
     RuleS2SValidator_ValidateForPostCommit (be_reader s) r = None \<and> validateServiceReferences (be_reader s) r = None"

lemma rule_passes_inputs:
  assumes "inputs s = inputs s'"
  shows "rule_passes r s = rule_passes r s'"
proof -
  have "agg_inputs (be_engine s) = agg_inputs (be_engine s')" using assms by (simp add: inputs_def eng_inputs_def)
  with rule_checks_inputs [OF this, of None r] show ?thesis
    by (simp add: rule_passes_def agg_inputs_def)
qed

lemma read_committed_reader:
  "\<not> reg_closed (be_reg s) \<Longrightarrow> \<exists>rd. ReaderWithReadCommitted (be_reg s) = Inr rd \<and> mem_reader rd = be_reader s"
  "reg_closed (be_reg s) \<Longrightarrow> \<exists>e. ReaderWithReadCommitted (be_reg s) = Inl e"
  by (simp_all add: ReaderWithReadCommitted_def Reader_def eng_reader_def)

lemma flush_returns: "flushConditionBatch s = None \<longleftrightarrow> be_mutexHeld s"
  by (simp add: flushConditionBatch_def)

lemma flush_unheld: "flushConditionBatch s = Some s' \<Longrightarrow> \<not> be_mutexHeld s"
  by (simp add: flushConditionBatch_def split: if_splits)

lemma mutex_simple [simp]:
  "be_mutexHeld (batchConditionUpdate ty res s) = be_mutexHeld s" "be_mutexHeld (be_commit w s) = be_mutexHeld s"
  "be_mutexHeld (set_engine g s) = be_mutexHeld s"
  by (simp_all add: batchConditionUpdate_def be_commit_def set_engine_def Let_def)

lemma rule_conditions_stuck_iff: "ProcessRuleS2SConditions r s = None \<longleftrightarrow> be_mutexHeld s \<and> rule_passes r s"
proof (cases "reg_closed (be_reg s)")
  case True
  with read_committed_reader(2) [OF True] show ?thesis
    by (auto simp: ProcessRuleS2SConditions_def rule_passes_def Let_def)
next
  case False
  with read_committed_reader(1) [OF False] show ?thesis
    by (auto simp: ProcessRuleS2SConditions_def rule_passes_def Let_def split_beta flush_returns
        dest: flush_unheld split: option.split sum.split bind_splits)
qed

lemma rule_conditions_inputs:
  assumes "ProcessRuleS2SConditions r s = Some (x, s')" and "be_mutexHeld s"
  shows "inputs s' = inputs s"
  using assms
  by (auto simp: ProcessRuleS2SConditions_def Let_def split_beta flushConditionBatch_def kept
      split: option.splits sum.splits bind_splits)


lemma mutex_inputs: "inputs s = inputs s' \<Longrightarrow> be_mutexHeld s = be_mutexHeld s'"
  by (simp add: inputs_def)

lemma save_mutex [simp]:
  "be_mutexHeld (save_with sync x w s) = be_mutexHeld s"
  "be_mutexHeld (snd (save_conditions what sync x s)) = be_mutexHeld s"
  by (simp_all add: save_with_def save_conditions_def split_beta split: sum.split)

lemma save_attempts_mutex [simp]: "be_mutexHeld (snd (save_attempts k sync x n s)) = be_mutexHeld s"
  by (induction n) (simp_all split: sum.split)

lemma flush_mutex: "flushConditionBatch s = Some s' \<Longrightarrow> \<not> be_mutexHeld s'"
proof -
  have "be_mutexHeld (flush_entry x s) = be_mutexHeld s" for x s
    by (simp add: flush_entry_def saveServiceConditions_def saveAddressGroupConditions_def saveRuleS2SConditions_def
        saveIEAgAgRuleConditions_def Let_def split: pending_resource.split)
  then have "be_mutexHeld (fold flush_entry xs s) = be_mutexHeld s" for xs s
    by (rule fold_same)
  then show "flushConditionBatch s = Some s' \<Longrightarrow> \<not> be_mutexHeld s'"
    by (auto simp: flushConditionBatch_def split: if_splits)
qed

lemma rule_conditions_mutex:
  assumes "ProcessRuleS2SConditions r s = Some (x, s')"
  shows "be_mutexHeld s' = be_mutexHeld s"
proof (cases "be_mutexHeld s")
  case True
  then show ?thesis using rule_conditions_inputs [OF assms True] by (simp add: inputs_def)
next
  case False
  with assms show ?thesis
    by (auto simp: ProcessRuleS2SConditions_def Let_def split_beta mutex_inputs [OF service_sync_rules_inputs]
        dest: flush_mutex split: option.splits sum.splits bind_splits if_splits)
qed

section \<open>Requests that do not hold the mutex return\<close>

lemma process_rules_returns: "\<not> be_mutexHeld s \<Longrightarrow> \<exists>s'. process_rules2s rules s = Some s' \<and> \<not> be_mutexHeld s'"
proof (induction rules arbitrary: s)
  case (Cons r rs)
  then obtain x s1 where "ProcessRuleS2SConditions r s = Some (x, s1)"
    using rule_conditions_stuck_iff [of r s] by fastforce
  with Cons rule_conditions_mutex [OF this] show ?case by simp
qed simp

lemma process_if_managed_returns:
  "\<not> be_mutexHeld s \<Longrightarrow> \<exists>s'. process_rules2s_if_managed rules s = Some s' \<and> \<not> be_mutexHeld s'"
  by (simp add: process_rules2s_if_managed_def process_rules_returns)

lemma notify_returns:
  assumes "\<not> be_mutexHeld s"
  shows "\<exists>err s'. NotifyServiceAddressGroupsChanged i s = Some (err, s') \<and> \<not> be_mutexHeld s'"
proof -
  let ?regen = "RegenerateIEAgAgRulesForService i (be_engine s)"
  obtain f where "\<And>rules. process_rules2s_if_managed rules (set_engine (snd ?regen) s) = Some (f rules)"
    "\<And>rules. \<not> be_mutexHeld (f rules)"
    using process_if_managed_returns [of "set_engine (snd ?regen) s"] assms by (metis mutex_simple(3))
  with assms show ?thesis
    by (simp add: NotifyServiceAddressGroupsChanged_def Let_def split_beta split: sum.split option.split)
qed

lemma trigger_returns:
  assumes "\<not> be_mutexHeld s"
  shows "\<exists>err s'. triggerPostCreationIEAgAgRuleGeneration r s = Some (err, s') \<and> \<not> be_mutexHeld s'"
proof -
  obtain e1 s1 where "NotifyServiceAddressGroupsChanged (local_id r) s = Some (e1, s1)" "\<not> be_mutexHeld s1"
    using notify_returns [OF assms] by blast
  moreover obtain e2 s2 where "NotifyServiceAddressGroupsChanged (target_id r) s1 = Some (e2, s2)" "\<not> be_mutexHeld s2"
    using notify_returns [OF calculation(2)] by blast
  ultimately show ?thesis using assms
    by (simp add: triggerPostCreationIEAgAgRuleGeneration_def split: sum.split)
qed

lemma trigger_all_returns: "\<not> be_mutexHeld s \<Longrightarrow> \<exists>s'. trigger_all rules s = Some s' \<and> \<not> be_mutexHeld s'"
proof (induction rules arbitrary: s)
  case (Cons r rs)
  obtain e s1 where "triggerPostCreationIEAgAgRuleGeneration r s = Some (e, s1)" "\<not> be_mutexHeld s1"
    using trigger_returns [OF Cons.prems] by blast
  with Cons.IH show ?case by simp
qed simp

lemma update_rules_inputs [kept]:
  "inputs (snd (UpdateIEAgAgRulesForAffectedServicesWithExclusions w svcs op ex s)) = inputs s"
proof -
  have "inputs (set_engine (agn_engine (generateAggregatedIEAgAgRules (Some w) rules ex (be_engine s))) s) = inputs s"
    for rules by (simp add: kept)
  with sync_rules_inputs show ?thesis
    by (simp add: UpdateIEAgAgRulesForAffectedServicesWithExclusions_def Let_def split: prod.split sum.split)
      (metis snd_conv)
qed

lemma sync_rule_mutex: "be_mutexHeld (snd (syncRuleS2S w rules op s)) = be_mutexHeld s"
proof -
  note mutex_inputs [OF update_rules_inputs]
  then show ?thesis
    by (simp add: syncRuleS2S_def UpdateIEAgAgRulesForRuleS2SWithReaderAndExclusions_def Let_def split_beta
        split: prod.split sum.split option.split)
qed

lemma sync_returns:
  assumes "\<not> be_mutexHeld s"
  shows "\<exists>err s'. RuleS2SService_SyncRuleS2S rules op s = Some (err, s')"
proof -
  have "\<exists>s'. trigger_all rules (be_commit w s1) \<bind> process_rules2s_if_managed rules = Some s'"
    if unheld: "\<not> be_mutexHeld s1" for w s1
  proof -
    obtain s2 where "trigger_all rules (be_commit w s1) = Some s2" "\<not> be_mutexHeld s2"
      using trigger_all_returns [of "be_commit w s1" rules] unheld by auto
    with process_if_managed_returns [of s2 rules] show ?thesis by auto
  qed
  moreover have "\<not> be_mutexHeld (snd (syncRuleS2S w rules op s))" for w
    using assms by (simp add: sync_rule_mutex)
  ultimately have "\<exists>s'. trigger_all rules (be_commit w' s1) \<bind> process_rules2s_if_managed rules = Some s'"
    if "syncRuleS2S w rules op s = (Inr w', s1)" for w w' s1
    using that by (metis snd_conv)
  then show ?thesis
    by (cases "Writer (be_reg s)")
      (fastforce simp: RuleS2SService_SyncRuleS2S_def bind_eq_Some_conv split: prod.split sum.split)+
qed

section \<open>A request that holds the mutex\<close>

lemma process_rules_held:
  "be_mutexHeld s \<Longrightarrow> process_rules2s rules s = Some s' \<Longrightarrow> inputs s' = inputs s"
proof (induction rules arbitrary: s)
  case (Cons r rs)
  then obtain x s1 where "ProcessRuleS2SConditions r s = Some (x, s1)" "process_rules2s rs s1 = Some s'"
    by (auto split: bind_splits)
  with Cons rule_conditions_inputs [OF this(1)] show ?case by (metis mutex_inputs)
qed simp

lemma notify_held:
  assumes "be_mutexHeld s" and "NotifyServiceAddressGroupsChanged i s = Some (err, s')"
  shows "inputs s' = inputs s"
proof -
  have regen: "inputs (set_engine (snd (RegenerateIEAgAgRulesForService i (be_engine s))) s) = inputs s"
    by (simp add: kept)
  have "inputs s1 = inputs s"
    if "process_rules2s_if_managed rules (set_engine (snd (RegenerateIEAgAgRulesForService i (be_engine s))) s) = Some s1"
    for rules s1
    using that assms(1) regen
    by (auto simp: process_rules2s_if_managed_def split: if_splits dest!: process_rules_held [rotated])
  with assms(2) regen show ?thesis
    by (auto simp: NotifyServiceAddressGroupsChanged_def Let_def split_beta
        split: sum.splits option.splits if_splits bind_splits)
qed

lemma trigger_held:
  assumes "be_mutexHeld s" and "triggerPostCreationIEAgAgRuleGeneration r s = Some (err, s')"
  shows "inputs s' = inputs s"
  using assms
  by (auto simp: triggerPostCreationIEAgAgRuleGeneration_def split: sum.splits if_splits bind_splits)
    (metis mutex_inputs notify_held)

text \<open>A reader made from a writer that has written nothing sees the registry.\<close>

text \<open>The synchronisation of one acceptable rule fills the rule table of the writer.\<close>

definition with_rule :: "env \<Rightarrow> rule_s2s \<Rightarrow> rule_s2s table \<Rightarrow> rule_s2s table" where
  "with_rule e r t = fst (upsert_items e [r] t)"

lemma update_rules_writer:
  "\<exists>w'. fst (UpdateIEAgAgRulesForAffectedServicesWithExclusions w svcs op ex s) = Inr w' \<and>
     w_services w' = w_services w \<and> w_addressGroupBindings w' = w_addressGroupBindings w \<and> w_ruleS2S w' = w_ruleS2S w"
  by (auto simp: UpdateIEAgAgRulesForAffectedServicesWithExclusions_def syncIEAgAgRulesWithReader_def Let_def split_beta
      ie_writer_inputs)

lemma sync_one_rule:
  assumes "\<not> reg_closed (be_reg s)" and "db_good (be_db s)" and "Name r \<noteq> []"
    and ok: "RuleS2SValidator_ValidateForCreation (be_reader s) r = None"
  shows "\<exists>w' s1. syncRuleS2S empty_writer [r] SyncOpUpsert s = (Inr w', s1) \<and> inputs s1 = inputs s \<and>
    w_services w' = None \<and> w_addressGroupBindings w' = None \<and>
    w_ruleS2S w' = Some (with_rule (be_env s) r (GetRuleS2S (be_db s)))"
proof -
  let ?rd = "\<lparr> rd_db = be_db s, rd_writer = Some empty_writer \<rparr>"
  have rd: "mem_reader ?rd = be_reader s" by (simp add: fresh_writer_reader eng_reader_def)
  have "GetRuleS2SByID (be_reader s) (self_id r) = Inl ErrNotFound"
    using ok assms(2,3) rd_rs.not_exists_get [of "committed (be_db s)" "self_id r"]
    by (simp add: RuleS2SValidator_ValidateForCreation_def eng_reader_def reader_good_def self_id_def)
  then have valid: "validate_synced_rule (mem_reader ?rd) r = None"
    by (simp add: rd validate_synced_rule_def ok)
  let ?W = "SyncRuleS2S (be_env s) (be_db s) [r] (Some EmptyScope) [SyncOption SyncOpUpsert] empty_writer"
  let ?s1 = "set_env (snd ?W) s"
  have W: "w_services (fst ?W) = None" "w_addressGroupBindings (fst ?W) = None"
    "w_ruleS2S (fst ?W) = Some (with_rule (be_env s) r (GetRuleS2S (be_db s)))"
    by (simp_all add: SyncRuleS2S_def empty_writer_def split_beta sync_upsert working_def with_rule_def)
  let ?U = "UpdateIEAgAgRulesForRuleS2SWithReaderAndExclusions (fst ?W) [r] SyncOpUpsert [] ?s1"
  obtain w' where U: "fst ?U = Inr w'" "w_services w' = None" "w_addressGroupBindings w' = None"
    "w_ruleS2S w' = Some (with_rule (be_env s) r (GetRuleS2S (be_db s)))"
    using update_rules_writer [of "fst ?W" _ SyncOpUpsert "[]" ?s1] W
    unfolding UpdateIEAgAgRulesForRuleS2SWithReaderAndExclusions_def by metis
  have "inputs (snd ?U) = inputs s"
    by (simp add: UpdateIEAgAgRulesForRuleS2SWithReaderAndExclusions_def kept)
  moreover have "syncRuleS2S empty_writer [r] SyncOpUpsert s = (Inr w', snd ?U)"
    using U(1) valid assms(1)
    by (cases ?U) (simp add: syncRuleS2S_def ReaderFromWriter_def Let_def split_beta sync_op_defs)
  ultimately show ?thesis using U by blast
qed

lemma service_readers:
  assumes "GetServices (reg_db (eng_reg g)) = GetServices (reg_db (eng_reg g'))"
    and "GetAddressGroupBindings (reg_db (eng_reg g)) = GetAddressGroupBindings (reg_db (eng_reg g'))"
  shows "GetServiceByID (eng_reader None g) = GetServiceByID (eng_reader None g')"
    and "ListServices (eng_reader None g) = ListServices (eng_reader None g')"
  using assms
  by (simp_all add: eng_reader_def mem_GetServiceByID_def mem_ListServices_def reader_table_def fun_eq_iff
      cong: option.case_cong)

lemma update_values: "snd ` set (AList.update k v t) \<subseteq> insert v (snd ` set t)"
  by (induction t) auto

lemma with_rule_entries: "x \<in> snd ` set (with_rule e r t) \<Longrightarrow> Key x = Key r \<or> x \<in> snd ` set t"
  using update_values [of "Key r" _ t]
  by (fastforce simp: with_rule_def Let_def split_beta)

text \<open>After the commit the rule still passes, now with itself in the table.\<close>

lemma committed_rule_passes:
  assumes opn: "\<not> reg_closed (be_reg s)" and inp: "inputs s1 = inputs s"
    and w: "w_services w = None" "w_addressGroupBindings w = None" "w_ruleS2S w = Some (with_rule e r (GetRuleS2S (be_db s)))"
    and ok: "RuleS2SValidator_ValidateForCreation (be_reader s) r = None" "validateServiceReferences (be_reader s) r = None"
  shows "rule_passes r (be_commit w s1)"
proof -
  let ?s2 = "be_commit w s1"
  have ai: "agg_inputs (be_engine s1) = agg_inputs (be_engine s)" using inp by (simp add: inputs_def eng_inputs_def)
  have tables: "GetServices (be_db ?s2) = GetServices (be_db s)"
    "GetAddressGroupBindings (be_db ?s2) = GetAddressGroupBindings (be_db s)"
    "GetRuleS2S (be_db ?s2) = with_rule e r (GetRuleS2S (be_db s))" "reg_closed (be_reg ?s2) = reg_closed (be_reg s)"
    using ai w
    by (simp_all add: be_commit_db svc.commit_table agb.commit_table rs.commit_table working_def agg_inputs_def)
      (simp add: be_commit_def commit_writer_reg agg_inputs_def)
  note readers = service_readers [OF tables(1,2)]
  have "\<forall>x\<in>snd ` set (GetRuleS2S (be_db s)). Key x = Key r \<or> \<not> same_rule_spec x r"
    using ok(1) by (auto simp: RuleS2SValidator_ValidateForCreation_def NoDuplicates_None_iff
        eng_reader_def mem_ListRuleS2S_def reader_table_def list_table_def)
  then have "\<forall>x\<in>snd ` set (GetRuleS2S (be_db ?s2)). Key x = Key r \<or> \<not> same_rule_spec x r"
    unfolding tables(3) by (metis with_rule_entries)
  then have "RuleS2SValidator_ValidateNoDuplicates (be_reader ?s2) r = None"
    by (auto simp: NoDuplicates_None_iff eng_reader_def mem_ListRuleS2S_def reader_table_def list_table_def)
  moreover have "RuleS2SValidator_ValidateNamespaceRules (be_reader ?s2) r =
      RuleS2SValidator_ValidateNamespaceRules (be_reader s) r"
    using readers by (simp add: RuleS2SValidator_ValidateNamespaceRules_def ServiceValidator_ValidateExists_def
        NewServiceValidator_def cong: if_cong)
  then have "RuleS2SValidator_ValidateNamespaceRules (be_reader ?s2) r = None"
    using ok(1) by (simp add: RuleS2SValidator_ValidateForCreation_def)
  moreover have "validateServiceReferences (be_reader ?s2) r = None"
    using ok(2) readers
    by (simp add: validateServiceReferences_def validateServicesHaveAddressGroups_def
        cong: sum.case_cong option.case_cong)
  ultimately show ?thesis
    using opn tables(4) by (simp add: rule_passes_def RuleS2SValidator_ValidateForPostCommit_def)
qed

end
