(* ===== verification/ConditionProperties.thy ===== *)
theory ConditionProperties
  imports ConditionFacts AggregationProperties
begin

text \<open>
  The properties of the condition manager: what the conditions of an object say after it has
  been processed, and which of them reach the store.
\<close>

section \<open>A concrete backend\<close>

definition ex_backend :: "mem_db \<Rightarrow> backend" where
  "ex_backend db = \<lparr> be_engine = ex_engine db, be_pending = [], be_groupSync = (\<lambda>_ _. None), be_groupsSynced = [],
     be_mutexHeld = False \<rparr>"

lemma ex_backend_fields [simp]:
  "be_engine (ex_backend db) = ex_engine db" "be_pending (ex_backend db) = []" "\<not> be_mutexHeld (ex_backend db)"
  by (simp_all add: ex_backend_def)

definition ex_alias :: "string \<Rightarrow> string \<Rightarrow> service_alias" where
  "ex_alias n s = \<lparr> Name = n, Namespace = ''app'', Meta = ex_meta, sa_ServiceRef = ex_ref s \<rparr>"

definition ex_policy :: address_group_binding_policy where
  "ex_policy = \<lparr> Name = ''p'', Namespace = ''app'', Meta = ex_meta, agbp_AddressGroupRef = ex_ref ''front'',
     agbp_ServiceRef = ex_ref ''web'' \<rparr>"

definition ex_network_binding :: network_binding where
  "ex_network_binding = \<lparr> Name = ''nb'', Namespace = ''app'', Meta = ex_meta,
     nb_NetworkRef = \<lparr> ref_APIVersion = [], ref_Kind = ''Network'', ref_Name = ''n1'' \<rparr>,
     nb_AddressGroupRef = \<lparr> ref_APIVersion = [], ref_Kind = ''AddressGroup'', ref_Name = ''front'' \<rparr>,
     nb_NetworkItem = \<lparr> ni_Name = [], ni_CIDR = [], ni_ApiVersion = [], ni_Kind = [], ni_Namespace = [] \<rparr> \<rparr>"

lemma ex_conditions_ok:
  "conditions_ok (Meta (ex_service n gs ps))" "conditions_ok (Meta (ex_ie_rule n p))"
  "conditions_ok (Meta (ex_binding n x y))" "conditions_ok (Meta (ex_alias n x))"
  "conditions_ok (Meta empty_port_mapping)" "conditions_ok (Meta ex_policy)" "conditions_ok (Meta ex_network_binding)"
  "conditions_ok (Meta (ex_network n c))" "conditions_ok (Meta (ex_group n))"
  by (simp_all add: conditions_ok_def ex_defs ex_alias_def ex_policy_def ex_network_binding_def empty_port_mapping_def)

lemma ex_alias_ready: "alias_ready (be_reader (ex_backend ex_db)) (ex_alias ''a'' ''web'')"
  by code_simp

lemma ex_alias_not_ready: "\<not> alias_ready (be_reader (ex_backend ex_db)) (ex_alias ''a'' ''gone'')"
  by (simp add: alias_ready_def ex_alias_def eng_reader_def mem_GetServiceByID_def reader_table_def ex_tables rid_Key_def
     get_by_id_def)

section \<open>Reported conditions\<close>

text \<open>
  C12: After an object has been processed on an open registry it is Synced, it is Validated exactly
  when the post-commit validation of its kind accepts it, and it is Ready exactly when in
  addition what it refers to is found. An object that is not Ready has the condition Error,
  except a port mapping that is valid but has no access ports; a Ready object has none. An
  address group is Synced and Ready exactly when the external system accepts it, and a failure
  is returned; a network needs a successful synchronisation and a valid CIDR.\<close>
theorem conditions_report_checks:
  assumes "\<not> reg_closed (be_reg s)"
    and "conditions_ok (Meta sv)" "conditions_ok (Meta ie)" "conditions_ok (Meta b)" "conditions_ok (Meta a)"
      "conditions_ok (Meta pm)" "conditions_ok (Meta q)" "conditions_ok (Meta nb)" "conditions_ok (Meta n)"
      "conditions_ok (Meta g)"
  shows "reports (ServiceValidator_ValidateForPostCommit (be_reader s) sv = None) (service_ready (be_reader s) sv)
      (\<not> service_ready (be_reader s) sv) (Meta (snd (fst (ProcessServiceConditions sv s)))) \<and>
    reports (IEAgAgRuleValidator_ValidateForPostCommit (be_reader s) ie = None) (ieagag_rule_ready (be_reader s) ie)
      (\<not> ieagag_rule_ready (be_reader s) ie) (Meta (snd (fst (ProcessIEAgAgRuleConditions ie s)))) \<and>
    reports (AddressGroupBindingValidator_ValidateForPostCommit (be_reader s) b = None) (binding_ready (be_reader s) b)
      (\<not> binding_ready (be_reader s) b) (Meta (snd (fst (ProcessAddressGroupBindingConditions b s)))) \<and>
    reports (ServiceAliasValidator_ValidateForPostCommit (be_reader s) a = None) (alias_ready (be_reader s) a)
      (\<not> alias_ready (be_reader s) a) (Meta (snd (fst (ProcessServiceAliasConditions a s)))) \<and>
    reports (PortMappingValidator_ValidateForPostCommit (be_reader s) pm = None) (port_mapping_ready (be_reader s) pm)
      (port_mapping_failed (be_reader s) pm) (Meta (snd (fst (ProcessAddressGroupPortMappingConditions pm s)))) \<and>
    reports (PolicyValidator_ValidateForPostCommit (be_reader s) q = None) (policy_ready (be_reader s) q)
      (\<not> policy_ready (be_reader s) q) (Meta (snd (fst (ProcessAddressGroupBindingPolicyConditions q s)))) \<and>
    reports (NetworkBindingValidator_ValidateForPostCommit (be_reader s) nb = None)
      (network_binding_ready (be_reader s) nb) (\<not> network_binding_ready (be_reader s) nb)
      (Meta (snd (fst (ProcessNetworkBindingConditions nb s)))) \<and>
    (let m = Meta (snd (fst (ProcessNetworkConditions n syncResult s))); valid = (ValidateCIDR (nw_CIDR n) = None)
     in (IsSynced m \<longleftrightarrow> syncResult = None) \<and> (IsValidated m \<longleftrightarrow> syncResult = None \<and> valid) \<and>
        (IsReady m \<longleftrightarrow> syncResult = None \<and> valid) \<and> (HasError m \<longleftrightarrow> syncResult = None \<and> \<not> valid)) \<and>
    (let (err, g') = fst (ProcessAddressGroupConditions g s)
     in IsValidated (Meta g') \<and> \<not> HasError (Meta g') \<and>
        (IsSynced (Meta g') \<longleftrightarrow> err = None) \<and> (IsReady (Meta g') \<longleftrightarrow> err = None) \<and>
        (err = None \<longleftrightarrow> fst (sync_group (g\<lparr>Meta := fst (start_marks g (be_env s))\<rparr>) s) = None))"
proof (intro conjI)
  show "reports (ServiceValidator_ValidateForPostCommit (be_reader s) sv = None) (service_ready (be_reader s) sv)
      (\<not> service_ready (be_reader s) sv) (Meta (snd (fst (ProcessServiceConditions sv s))))"
    unfolding ProcessServiceConditions_def by (rule svc_check.processed [OF assms(1,2)])
  show "reports (IEAgAgRuleValidator_ValidateForPostCommit (be_reader s) ie = None) (ieagag_rule_ready (be_reader s) ie)
      (\<not> ieagag_rule_ready (be_reader s) ie) (Meta (snd (fst (ProcessIEAgAgRuleConditions ie s))))"
    unfolding ProcessIEAgAgRuleConditions_def by (rule ie_check.processed [OF assms(1,3)])
  show "reports (AddressGroupBindingValidator_ValidateForPostCommit (be_reader s) b = None) (binding_ready (be_reader s) b)
      (\<not> binding_ready (be_reader s) b) (Meta (snd (fst (ProcessAddressGroupBindingConditions b s))))"
    unfolding ProcessAddressGroupBindingConditions_def by (rule agb_check.processed [OF assms(1,4)])
  show "reports (ServiceAliasValidator_ValidateForPostCommit (be_reader s) a = None) (alias_ready (be_reader s) a)
      (\<not> alias_ready (be_reader s) a) (Meta (snd (fst (ProcessServiceAliasConditions a s))))"
    unfolding ProcessServiceAliasConditions_def by (rule sal_check.processed [OF assms(1,5)])
  show "reports (PortMappingValidator_ValidateForPostCommit (be_reader s) pm = None) (port_mapping_ready (be_reader s) pm)
      (port_mapping_failed (be_reader s) pm) (Meta (snd (fst (ProcessAddressGroupPortMappingConditions pm s))))"
    unfolding ProcessAddressGroupPortMappingConditions_def by (rule agpm_check.processed [OF assms(1,6)])
  show "reports (PolicyValidator_ValidateForPostCommit (be_reader s) q = None) (policy_ready (be_reader s) q)
      (\<not> policy_ready (be_reader s) q) (Meta (snd (fst (ProcessAddressGroupBindingPolicyConditions q s))))"
    unfolding ProcessAddressGroupBindingPolicyConditions_def by (rule agbp_check.processed [OF assms(1,7)])
  show "reports (NetworkBindingValidator_ValidateForPostCommit (be_reader s) nb = None)
      (network_binding_ready (be_reader s) nb) (\<not> network_binding_ready (be_reader s) nb)
      (Meta (snd (fst (ProcessNetworkBindingConditions nb s))))"
    unfolding ProcessNetworkBindingConditions_def by (rule nb_check.processed [OF assms(1,8)])
qed (rule network_reported [OF assms(1,9)], rule group_reported [OF assms(1,10)])

theorem conditions_report_checks_witness:
  "IsReady (Meta (snd (fst (ProcessServiceAliasConditions (ex_alias ''a'' ''web'') (ex_backend ex_db))))) \<and>
   HasError (Meta (snd (fst (ProcessServiceAliasConditions (ex_alias ''a'' ''gone'') (ex_backend ex_db)))))"
  using conditions_report_checks [of "ex_backend ex_db" _ _ _ "ex_alias ''a'' ''web''", OF _ ex_conditions_ok,
      THEN conjunct2, THEN conjunct2, THEN conjunct2, THEN conjunct1]
    conditions_report_checks [of "ex_backend ex_db" _ _ _ "ex_alias ''a'' ''gone''", OF _ ex_conditions_ok,
      THEN conjunct2, THEN conjunct2, THEN conjunct2, THEN conjunct1]
  by (simp add: reports_def ex_alias_ready [simplified] ex_alias_not_ready [simplified])

section \<open>Saved conditions\<close>

text \<open>
  C13: The conditions of an alias, a binding, a port mapping, a policy or a network are saved exactly
  when the object is Ready, and those of a service are queued exactly then: otherwise store and
  batch stay as they are, so that an object that was Ready is stored as Ready still. The other
  kinds differ. A rule between address groups is queued exactly when its validation accepts it,
  Ready or not; an address group is always queued, also when the external system refuses it; the
  conditions of a network binding are never saved. Saving replaces whatever the store holds under
  the key by the whole object; the same happens when a queued service is flushed, so one deleted
  in the meantime is stored again.\<close>
theorem conditions_saved_when_ready:
  assumes "\<not> reg_closed (be_reg s)" and "table_ok (GetNetworks (be_db s))" and "table_ok (GetServices (be_db s))"
    and "\<not> be_mutexHeld s"
  shows "stores_if (alias_ready (be_reader s) a) (snd (fst (ProcessServiceAliasConditions a s)))
      (GetServiceAliases (be_db s)) (GetServiceAliases (be_db (snd (ProcessServiceAliasConditions a s)))) \<and>
    stores_if (binding_ready (be_reader s) b) (snd (fst (ProcessAddressGroupBindingConditions b s)))
      (GetAddressGroupBindings (be_db s))
      (GetAddressGroupBindings (be_db (snd (ProcessAddressGroupBindingConditions b s)))) \<and>
    stores_if (port_mapping_ready (be_reader s) pm) (snd (fst (ProcessAddressGroupPortMappingConditions pm s)))
      (GetAddressGroupPortMappings (be_db s))
      (GetAddressGroupPortMappings (be_db (snd (ProcessAddressGroupPortMappingConditions pm s)))) \<and>
    stores_if (policy_ready (be_reader s) q) (snd (fst (ProcessAddressGroupBindingPolicyConditions q s)))
      (GetAddressGroupBindingPolicies (be_db s))
      (GetAddressGroupBindingPolicies (be_db (snd (ProcessAddressGroupBindingPolicyConditions q s)))) \<and>
    stores_if (syncResult = None \<and> ValidateCIDR (nw_CIDR n) = None) (snd (fst (ProcessNetworkConditions n syncResult s)))
      (GetNetworks (be_db s)) (GetNetworks (be_db (snd (ProcessNetworkConditions n syncResult s)))) \<and>
    (\<not> alias_ready (be_reader s) a \<longrightarrow> nothing_saved s (snd (ProcessServiceAliasConditions a s))) \<and>
    (\<not> binding_ready (be_reader s) b \<longrightarrow> nothing_saved s (snd (ProcessAddressGroupBindingConditions b s))) \<and>
    (\<not> port_mapping_ready (be_reader s) pm \<longrightarrow> nothing_saved s (snd (ProcessAddressGroupPortMappingConditions pm s))) \<and>
    (\<not> policy_ready (be_reader s) q \<longrightarrow> nothing_saved s (snd (ProcessAddressGroupBindingPolicyConditions q s))) \<and>
    (\<not> (syncResult = None \<and> ValidateCIDR (nw_CIDR n) = None) \<longrightarrow>
       nothing_saved s (snd (ProcessNetworkConditions n syncResult s))) \<and>
    be_reg (snd (ProcessServiceConditions sv s)) = be_reg s \<and>
    be_pending (snd (ProcessServiceConditions sv s)) =
      (if service_ready (be_reader s) sv
       then AList.update (''Service:'' @ Namespace sv @ ''/'' @ Name sv)
              (PendingService (snd (fst (ProcessServiceConditions sv s)))) (be_pending s)
       else be_pending s) \<and>
    be_reg (snd (ProcessIEAgAgRuleConditions ie s)) = be_reg s \<and>
    be_pending (snd (ProcessIEAgAgRuleConditions ie s)) =
      (if IEAgAgRuleValidator_ValidateForPostCommit (be_reader s) ie = None
       then AList.update (''IEAgAgRule:'' @ Namespace ie @ ''/'' @ Name ie)
              (PendingIEAgAgRule (snd (fst (ProcessIEAgAgRuleConditions ie s)))) (be_pending s)
       else be_pending s) \<and>
    be_reg (snd (ProcessAddressGroupConditions g s)) = be_reg s \<and>
    be_pending (snd (ProcessAddressGroupConditions g s)) =
      AList.update (''AddressGroup:'' @ Namespace g @ ''/'' @ Name g)
        (PendingAddressGroup (snd (fst (ProcessAddressGroupConditions g s)))) (be_pending s) \<and>
    nothing_saved s (snd (ProcessNetworkBindingConditions nb s)) \<and>
    (case flushConditionBatch (s\<lparr>be_pending := [(''Service:'' @ k, PendingService sv)]\<rparr>) of
       None \<Rightarrow> False
     | Some s' \<Rightarrow> stores_if True sv (GetServices (be_db s)) (GetServices (be_db s')))"
proof (intro conjI impI)
  note open_s = assms(1)
  show "stores_if (alias_ready (be_reader s) a) (snd (fst (ProcessServiceAliasConditions a s)))
      (GetServiceAliases (be_db s)) (GetServiceAliases (be_db (snd (ProcessServiceAliasConditions a s))))"
    unfolding ProcessServiceAliasConditions_def
    by (rule stores_if_ready [OF sal_check.process_state [OF open_s]]) (rule save_stores(1) [OF open_s])
  show "stores_if (binding_ready (be_reader s) b) (snd (fst (ProcessAddressGroupBindingConditions b s)))
      (GetAddressGroupBindings (be_db s))
      (GetAddressGroupBindings (be_db (snd (ProcessAddressGroupBindingConditions b s))))"
    unfolding ProcessAddressGroupBindingConditions_def
    by (rule stores_if_ready [OF agb_check.process_state [OF open_s]]) (rule save_stores(2) [OF open_s])
  show "stores_if (port_mapping_ready (be_reader s) pm) (snd (fst (ProcessAddressGroupPortMappingConditions pm s)))
      (GetAddressGroupPortMappings (be_db s))
      (GetAddressGroupPortMappings (be_db (snd (ProcessAddressGroupPortMappingConditions pm s))))"
    unfolding ProcessAddressGroupPortMappingConditions_def
    by (rule stores_if_ready [OF agpm_check.process_state [OF open_s]]) (rule save_stores(3) [OF open_s])
  show "stores_if (policy_ready (be_reader s) q) (snd (fst (ProcessAddressGroupBindingPolicyConditions q s)))
      (GetAddressGroupBindingPolicies (be_db s))
      (GetAddressGroupBindingPolicies (be_db (snd (ProcessAddressGroupBindingPolicyConditions q s))))"
    unfolding ProcessAddressGroupBindingPolicyConditions_def
    by (rule stores_if_ready [OF agbp_check.process_state [OF open_s]]) (rule save_stores(4) [OF open_s])
  show "stores_if (syncResult = None \<and> ValidateCIDR (nw_CIDR n) = None) (snd (fst (ProcessNetworkConditions n syncResult s)))
      (GetNetworks (be_db s)) (GetNetworks (be_db (snd (ProcessNetworkConditions n syncResult s))))"
    by (rule network_stored [OF open_s assms(2)])
  show "nothing_saved s (snd (ProcessServiceAliasConditions a s))" if "\<not> alias_ready (be_reader s) a"
    unfolding ProcessServiceAliasConditions_def by (rule sal_check.process_unsaved [OF open_s that])
  show "nothing_saved s (snd (ProcessAddressGroupBindingConditions b s))" if "\<not> binding_ready (be_reader s) b"
    unfolding ProcessAddressGroupBindingConditions_def by (rule agb_check.process_unsaved [OF open_s that])
  show "nothing_saved s (snd (ProcessAddressGroupPortMappingConditions pm s))" if "\<not> port_mapping_ready (be_reader s) pm"
    unfolding ProcessAddressGroupPortMappingConditions_def by (rule agpm_check.process_unsaved [OF open_s that])
  show "nothing_saved s (snd (ProcessAddressGroupBindingPolicyConditions q s))" if "\<not> policy_ready (be_reader s) q"
    unfolding ProcessAddressGroupBindingPolicyConditions_def by (rule agbp_check.process_unsaved [OF open_s that])
  show "nothing_saved s (snd (ProcessNetworkConditions n syncResult s))"
    if "\<not> (syncResult = None \<and> ValidateCIDR (nw_CIDR n) = None)"
    by (rule network_unsaved [OF open_s that])
  show "be_reg (snd (ProcessServiceConditions sv s)) = be_reg s"
    "be_pending (snd (ProcessServiceConditions sv s)) =
      (if service_ready (be_reader s) sv
       then AList.update (''Service:'' @ Namespace sv @ ''/'' @ Name sv)
              (PendingService (snd (fst (ProcessServiceConditions sv s)))) (be_pending s)
       else be_pending s)"
    using service_queued [OF open_s] by blast+
  show "be_reg (snd (ProcessIEAgAgRuleConditions ie s)) = be_reg s"
    "be_pending (snd (ProcessIEAgAgRuleConditions ie s)) =
      (if IEAgAgRuleValidator_ValidateForPostCommit (be_reader s) ie = None
       then AList.update (''IEAgAgRule:'' @ Namespace ie @ ''/'' @ Name ie)
              (PendingIEAgAgRule (snd (fst (ProcessIEAgAgRuleConditions ie s)))) (be_pending s)
       else be_pending s)"
    using ieagag_rule_queued [OF open_s] by blast+
  show "be_reg (snd (ProcessAddressGroupConditions g s)) = be_reg s"
    "be_pending (snd (ProcessAddressGroupConditions g s)) =
      AList.update (''AddressGroup:'' @ Namespace g @ ''/'' @ Name g)
        (PendingAddressGroup (snd (fst (ProcessAddressGroupConditions g s)))) (be_pending s)"
    using group_queued [OF open_s] by blast+
  show "nothing_saved s (snd (ProcessNetworkBindingConditions nb s))" by (rule network_binding_unsaved)
  show "case flushConditionBatch (s\<lparr>be_pending := [(''Service:'' @ k, PendingService sv)]\<rparr>) of
       None \<Rightarrow> False
     | Some s' \<Rightarrow> stores_if True sv (GetServices (be_db s)) (GetServices (be_db s'))"
    using flush_one_stores [OF open_s assms(3,4), of k sv] by auto
qed

lemma ex_alias_processed: "Key (snd (fst (ProcessServiceAliasConditions (ex_alias n x) s))) = ''app/'' @ n"
proof -
  obtain m where "snd (fst (ProcessServiceAliasConditions (ex_alias n x) s)) = (ex_alias n x)\<lparr>Meta := m\<rparr>"
    unfolding ProcessServiceAliasConditions_def using sal_check.object_kept by blast
  then show ?thesis by (simp add: Key_def ex_alias_def)
qed

theorem conditions_saved_when_ready_witness:
  "map_of (GetServiceAliases (be_db (snd (ProcessServiceAliasConditions (ex_alias ''a'' ''web'') (ex_backend ex_db)))))
     ''app/a'' \<noteq> None \<and>
   nothing_saved (ex_backend ex_db) (snd (ProcessServiceAliasConditions (ex_alias ''a'' ''gone'') (ex_backend ex_db)))"
  using conditions_saved_when_ready [of "ex_backend ex_db" "ex_alias ''a'' ''web''", THEN conjunct1]
    conditions_saved_when_ready [of "ex_backend ex_db" "ex_alias ''a'' ''gone''", THEN conjunct2, THEN conjunct2,
      THEN conjunct2, THEN conjunct2, THEN conjunct2, THEN conjunct1]
  by (auto simp: stores_if_def ex_alias_ready [simplified] ex_alias_not_ready [simplified] ex_tables table_ok_def
      ex_alias_processed)

end
