(* ===== verification/RuleProperties.thy ===== *)
theory RuleProperties
  imports RuleLiveness ConditionProperties ApiConversions
begin

text \<open>
  Whether the requests on rules between services return.
\<close>

section \<open>A database in which a rule can become Ready\<close>

definition ex_bound_db :: mem_db where
  "ex_bound_db = ex_db\<lparr>db_ruleS2S := [], db_addressGroupBindings := [(''app/b'', ex_binding ''b'' ''web'' ''front'')]\<rparr>"

lemma ex_bound_db_good [simp]: "db_good ex_bound_db"
  by (simp add: db_good_def table_good_def table_ok_def table_filled_def meta_filled_def
      ex_bound_db_def ex_db_def NewMemDB_def) (simp add: ex_defs)

lemma ex_bound_rule_accepted:
  "RuleS2SValidator_ValidateForCreation (be_reader (ex_backend ex_bound_db)) (ex_rule ''r1'' ''web'' ''web'') = None"
  by code_simp

lemma ex_rule_references:
  "validateServiceReferences (be_reader (ex_backend ex_bound_db)) (ex_rule ''r1'' ''web'' ''web'') = None"
  by code_simp

lemma ex_bound_rule_post_commit:
  "RuleS2SValidator_ValidateForPostCommit (be_reader (ex_backend ex_bound_db)) (ex_rule ''r1'' ''web'' ''web'') = None"
  by code_simp

section \<open>Requests that return and requests that do not\<close>

lemma converted_direction:
  "generateRuleName_panics (rs_Traffic (convertRuleS2S msg)) \<longleftrightarrow>
     pbrs_Traffic msg \<noteq> Traffic_Ingress \<and> pbrs_Traffic msg \<noteq> Traffic_Egress"
  by (simp add: generateRuleName_panics_def convertRuleS2S_def to_lower_def INGRESS_def EGRESS_def Let_def split_beta)

text \<open>
  The rules between services that a request can come to name: the stored ones, those waiting in
  the batch and those of the request. Naming one whose direction is too short panics.
\<close>

definition nameable :: "backend \<Rightarrow> rule_s2s list \<Rightarrow> bool" where
  "nameable s rules \<longleftrightarrow> list_all (\<lambda>r. \<not> generateRuleName_panics (rs_Traffic r))
     (rules @ map snd (GetRuleS2S (be_db s)) @ concat (map (\<lambda>(k, p). case p of PendingRuleS2S r \<Rightarrow> [r] | _ \<Rightarrow> []) (be_pending s)))"

text \<open>
  C14: As long as every rule between services that is stored, waits in the batch or is in the
  request has a direction of at least three characters: processing the conditions of a rule fails
  to return exactly when the caller holds the mutex of the facade and the rule passes its checks,
  so that the batch is flushed; and a synchronisation through the gRPC service, which does not
  take the mutex, returns. A shorter direction would make the naming of the generated rules panic.
  A message of the gRPC service converts to such a rule exactly when its traffic value is none of
  the two known ones.\<close>
theorem rule_processing_returns_iff:
  assumes "nameable s (r # rules)"
  shows "(ProcessRuleS2SConditions r s = None \<longleftrightarrow>
      be_mutexHeld s \<and> \<not> reg_closed (be_reg s) \<and>
      RuleS2SValidator_ValidateForPostCommit (be_reader s) r = None \<and> validateServiceReferences (be_reader s) r = None) \<and>
   (be_mutexHeld s \<or> (\<exists>err s'. NetguardFacade_Sync_RuleS2S syncOp rules s = Some (err, s'))) \<and>
   (generateRuleName_panics (rs_Traffic (convertRuleS2S msg)) \<longleftrightarrow>
      pbrs_Traffic msg \<noteq> Traffic_Ingress \<and> pbrs_Traffic msg \<noteq> Traffic_Egress)"
  using rule_conditions_stuck_iff [of r s] sync_returns [of s rules syncOp] converted_direction [of msg]
  by (auto simp: rule_passes_def NetguardFacade_Sync_RuleS2S_def)

theorem rule_processing_returns_iff_witness:
  "ProcessRuleS2SConditions (ex_rule ''r1'' ''web'' ''web'') ((ex_backend ex_bound_db)\<lparr>be_mutexHeld := True\<rparr>) = None \<and>
   (\<exists>err s'. NetguardFacade_Sync_RuleS2S SyncOpUpsert [ex_rule ''r1'' ''web'' ''web''] (ex_backend ex_bound_db) = Some (err, s'))"
proof
  have n: "nameable ((ex_backend ex_bound_db)\<lparr>be_mutexHeld := True\<rparr>) [ex_rule ''r1'' ''web'' ''web'']"
    "nameable (ex_backend ex_bound_db) [ex_rule ''r1'' ''web'' ''web'', ex_rule ''r1'' ''web'' ''web'']"
    by (simp_all add: nameable_def ex_bound_db_def GetRuleS2S_def generateRuleName_panics_def)
      (simp_all add: ex_rule_def to_lower_def)
  show "ProcessRuleS2SConditions (ex_rule ''r1'' ''web'' ''web'') ((ex_backend ex_bound_db)\<lparr>be_mutexHeld := True\<rparr>) = None"
    using rule_processing_returns_iff [OF n(1)] ex_rule_references ex_bound_rule_post_commit
    by simp
  show "\<exists>err s'. NetguardFacade_Sync_RuleS2S SyncOpUpsert [ex_rule ''r1'' ''web'' ''web''] (ex_backend ex_bound_db) = Some (err, s')"
    using rule_processing_returns_iff [OF n(2), of SyncOpUpsert] by simp
qed

text \<open>
  C6: Creating a rule through the facade never returns when the rule is accepted and its two
  services exist and have address groups: the facade holds the mutex which the flush of the
  batch waits for.\<close>
theorem accepted_rule_creation_never_returns:
  assumes "\<not> be_mutexHeld s" and "\<not> reg_closed (be_reg s)" and "db_good (be_db s)"
    and "eng_conditionManager (be_engine s)" and "Name r \<noteq> []"
    and "RuleS2SValidator_ValidateForCreation (be_reader s) r = None" and "validateServiceReferences (be_reader s) r = None"
  shows "NetguardFacade_CreateRuleS2S r s = None"
proof -
  let ?s = "s\<lparr>be_mutexHeld := True\<rparr>"
  obtain w' s1 where sync: "syncRuleS2S empty_writer [r] SyncOpUpsert ?s = (Inr w', s1)" "inputs s1 = inputs ?s"
    "w_services w' = None" "w_addressGroupBindings w' = None"
    "w_ruleS2S w' = Some (with_rule (be_env ?s) r (GetRuleS2S (be_db ?s)))"
    using sync_one_rule [of ?s r] assms by auto
  let ?s2 = "be_commit w' s1"
  have passes: "rule_passes r ?s2"
    using committed_rule_passes [OF _ sync(2-5)] assms by simp
  have held: "be_mutexHeld ?s2" and flag: "eng_conditionManager (be_engine ?s2)"
    using sync(2) assms(4) by (simp_all add: inputs_def eng_inputs_def be_commit_def commit_writer_flag)
  have "ProcessRuleS2SConditions r s3 = None \<and> eng_conditionManager (be_engine s3)"
    if "triggerPostCreationIEAgAgRuleGeneration r ?s2 = Some (err, s3)" for err s3
    using trigger_held [OF held that] passes held flag
    by (metis mutex_inputs rule_conditions_stuck_iff rule_passes_inputs inputs_def eng_inputs_def prod.inject)
  then have "RuleS2SService_CreateRuleS2S r ?s = None"
    using assms sync(1)
    by (auto simp: RuleS2SService_CreateRuleS2S_def Reader_def Writer_def eng_reader_def split: bind_splits)
  with assms(1) show ?thesis by (simp add: NetguardFacade_CreateRuleS2S_def with_mutex_def)
qed

theorem accepted_rule_creation_never_returns_witness:
  "NetguardFacade_CreateRuleS2S (ex_rule ''r1'' ''web'' ''web'') (ex_backend ex_bound_db) = None"
  by (rule accepted_rule_creation_never_returns [OF _ _ _ _ _ ex_bound_rule_accepted ex_rule_references])
    (simp_all add: ex_engine_def ex_rule_def)

end
