(* ===== verification/FieldValidation.thy ===== *)
theory FieldValidation
  imports K8sConversions Cidr
begin

text \<open>
  The field validation of the API objects (\<^verbatim>\<open>internal/k8s/registry/validation\<close>): the
  shared checks of \<^verbatim>\<open>standard.go\<close> and the validator of every kind.

  An error of \<^verbatim>\<open>field.ErrorList\<close> is recorded by the constructor of the \<^verbatim>\<open>field\<close> package
  that makes it, with its path, value and detail; a path is the sequence of its elements. Objects
  are pointers, so arguments are options; the result of a method that may dereference a nil
  pointer is an option, and \<open>None\<close> is the panic.

  Strings are byte sequences, as in Go, and a map is traversed in the order of its entries.
  The three string checks of \<^verbatim>\<open>k8s.io/apimachinery\<close> are parameters; each returns the
  messages of the rules its argument breaks.
\<close>

section \<open>Paths and errors\<close>

datatype path_element = PathName string | PathIndex nat | PathKey string

type_synonym field_path = "path_element list"

definition NewPath :: "string list \<Rightarrow> field_path" where
  "NewPath names = map PathName names"

definition Child :: "field_path \<Rightarrow> string \<Rightarrow> field_path" where
  "Child p name = p @ [PathName name]"

definition Index :: "field_path \<Rightarrow> nat \<Rightarrow> field_path" where
  "Index p i = p @ [PathIndex i]"

definition PathKeyOf :: "field_path \<Rightarrow> string \<Rightarrow> field_path" where
  "PathKeyOf p k = p @ [PathKey k]"

datatype bad_value =
    StringValue string
  | IntValue int
  | RefValue nref
  | PortSpecValue k8s_port_spec
  | PortRangeValue k8s_port_range

datatype field_error =
    FieldRequired field_path string
  | FieldInvalid field_path bad_value string
  | FieldNotSupported field_path string "string list"
  | FieldTooLong field_path string nat
  | FieldForbidden field_path string
  | FieldDuplicate field_path string

record name_rules =
  IsDNS1123Subdomain :: "string \<Rightarrow> string list"
  IsQualifiedName :: "string \<Rightarrow> string list"
  IsValidLabelValue :: "string \<Rightarrow> string list"

text \<open>A loop over a slice, with the position of the element.\<close>

fun index_errors :: "nat \<Rightarrow> (nat \<Rightarrow> 'a \<Rightarrow> field_error list) \<Rightarrow> 'a list \<Rightarrow> field_error list" where
  "index_errors i f [] = []"
| "index_errors i f (x # xs) = f i x @ index_errors (Suc i) f xs"

lemma index_errors_Nil [simp]:
  "index_errors i f xs = [] \<longleftrightarrow> (\<forall>j < length xs. f (i + j) (xs ! j) = [])"
proof (induction xs arbitrary: i)
  case (Cons x xs)
  show ?case
    by (simp add: Cons less_Suc_eq_0_disj) (metis add_Suc_right add_0_right nth_Cons_0 nth_Cons_Suc)
qed simp

section \<open>Object metadata\<close>

text \<open>
  \<^verbatim>\<open>%c\<close> of the first rune of a string: the bytes of a well-formed UTF-8 sequence, or
  those of the replacement character.
\<close>

definition continuation :: "nat \<Rightarrow> bool" where
  "continuation b \<longleftrightarrow> 128 \<le> b \<and> b \<le> 191"

definition rune_length :: "nat list \<Rightarrow> nat" where
  "rune_length bs =
     (case bs of
        [] \<Rightarrow> 0
      | a # bs' \<Rightarrow>
          if a < 128 then 1
          else if 194 \<le> a \<and> a \<le> 223 then
            (case bs' of b # _ \<Rightarrow> if continuation b then 2 else 0 | _ \<Rightarrow> 0)
          else if 224 \<le> a \<and> a \<le> 239 then
            (case bs' of
               b # c # _ \<Rightarrow>
                 if (if a = 224 then 160 else 128) \<le> b \<and> b \<le> (if a = 237 then 159 else 191) \<and> continuation c
                 then 3 else 0
             | _ \<Rightarrow> 0)
          else if 240 \<le> a \<and> a \<le> 244 then
            (case bs' of
               b # c # d # _ \<Rightarrow>
                 if (if a = 240 then 144 else 128) \<le> b \<and> b \<le> (if a = 244 then 143 else 191) \<and>
                    continuation c \<and> continuation d
                 then 4 else 0
             | _ \<Rightarrow> 0)
          else 0)"

definition first_rune :: "string \<Rightarrow> string" where
  "first_rune s =
     (let n = rune_length (map of_char s)
      in if n = 0 then [char_of (239 :: nat), char_of (191 :: nat), char_of (189 :: nat)] else take n s)"

definition dns_char :: "char \<Rightarrow> bool" where
  "dns_char c \<longleftrightarrow>
     (let n = of_char c :: nat in (97 \<le> n \<and> n \<le> 122) \<or> (48 \<le> n \<and> n \<le> 57) \<or> c = CHR ''-'' \<or> c = CHR ''.'')"

definition validateGenerateName :: "string \<Rightarrow> string list" where
  "validateGenerateName s =
     (if length s = 0 then [''cannot be empty'']
      else
        (if length s > 253 then [''must be no more than 253 characters''] else []) @
        (if hd s = CHR ''-'' \<or> hd s = CHR ''.'' then [''must start with an alphanumeric character''] else []) @
        (case dropWhile dns_char s of
           [] \<Rightarrow> []
         | c # cs \<Rightarrow>
             [''invalid character '' @ quoted (first_rune (c # cs)) @ '' at position '' @
              itoa (int (length (takeWhile dns_char s))) @
              '': must contain only lowercase alphanumeric characters, '' @ quoted ''-'' @ '' or '' @ quoted ''.'']))"

definition maxAnnotationValueLen :: nat where "maxAnnotationValueLen = 262144"

definition label_errors :: "name_rules \<Rightarrow> field_path \<Rightarrow> string \<times> string \<Rightarrow> field_error list" where
  "label_errors nr fldPath = (\<lambda>(key, value).
     map (FieldInvalid (PathKeyOf (Child fldPath ''labels'') key) (StringValue key)) (IsQualifiedName nr key) @
     map (FieldInvalid (PathKeyOf (Child fldPath ''labels'') key) (StringValue value)) (IsValidLabelValue nr value))"

definition annotation_errors :: "name_rules \<Rightarrow> field_path \<Rightarrow> string \<times> string \<Rightarrow> field_error list" where
  "annotation_errors nr fldPath = (\<lambda>(key, value).
     map (FieldInvalid (PathKeyOf (Child fldPath ''annotations'') key) (StringValue key)) (IsQualifiedName nr key) @
     (if length value > maxAnnotationValueLen \<and>
         take (length ''kubectl.kubernetes.io/'') key \<noteq> ''kubectl.kubernetes.io/''
      then [FieldTooLong (PathKeyOf (Child fldPath ''annotations'') key) value maxAnnotationValueLen] else []))"

definition ValidateStandardObjectMeta ::
  "name_rules \<Rightarrow> object_meta option \<Rightarrow> field_path \<Rightarrow> field_error list"
where
  "ValidateStandardObjectMeta nr meta fldPath =
     (case meta of
        None \<Rightarrow> [FieldRequired fldPath ''metadata cannot be nil'']
      | Some om \<Rightarrow>
          (if om_Name om = [] \<and> om_GenerateName om = []
           then [FieldRequired (Child fldPath ''name'') ''name or generateName is required''] else []) @
          (if om_Name om \<noteq> []
           then map (FieldInvalid (Child fldPath ''name'') (StringValue (om_Name om)))
             (IsDNS1123Subdomain nr (om_Name om)) else []) @
          (if om_GenerateName om \<noteq> []
           then map (FieldInvalid (Child fldPath ''generateName'') (StringValue (om_GenerateName om)))
             (validateGenerateName (om_GenerateName om)) else []) @
          (if om_Namespace om \<noteq> []
           then map (FieldInvalid (Child fldPath ''namespace'') (StringValue (om_Namespace om)))
             (IsDNS1123Subdomain nr (om_Namespace om)) else []) @
          concat (map (label_errors nr fldPath) (om_Labels om)) @
          concat (map (annotation_errors nr fldPath) (om_Annotations om)))"

section \<open>Shared field checks\<close>

definition ValidateEnum :: "string \<Rightarrow> string \<Rightarrow> string list \<Rightarrow> field_path \<Rightarrow> field_error list" where
  "ValidateEnum value fieldName validValues fldPath =
     (if value = [] then []
      else if value \<in> set validValues then []
      else [FieldNotSupported fldPath value validValues])"

definition ValidateRequiredEnum :: "string \<Rightarrow> string \<Rightarrow> string list \<Rightarrow> field_path \<Rightarrow> field_error list" where
  "ValidateRequiredEnum value fieldName validValues fldPath =
     (if value = [] then [FieldRequired fldPath (fieldName @ '' is required'')]
      else if value \<in> set validValues then []
      else [FieldNotSupported fldPath value validValues])"

definition field_ValidatePort :: "int \<Rightarrow> field_path \<Rightarrow> field_error list" where
  "field_ValidatePort port fldPath =
     (if port < 1 \<or> port > 65535
      then [FieldInvalid fldPath (IntValue port) ''port must be between 1 and 65535''] else [])"

definition field_ValidatePortRange :: "k8s_port_range option \<Rightarrow> field_path \<Rightarrow> field_error list" where
  "field_ValidatePortRange portRange fldPath =
     (case portRange of
        None \<Rightarrow> [FieldRequired fldPath ''portRange cannot be nil'']
      | Some r \<Rightarrow>
          field_ValidatePort (kpr_From r) (Child fldPath ''from'') @
          field_ValidatePort (kpr_To r) (Child fldPath ''to'') @
          (if kpr_From r > kpr_To r
           then [FieldInvalid (Child fldPath ''from'') (IntValue (kpr_From r))
                   ''from port must be less than or equal to to port''] else []))"

definition field_ValidateCIDR :: "string \<Rightarrow> field_path \<Rightarrow> field_error list" where
  "field_ValidateCIDR cidr fldPath =
     (if cidr = [] then [FieldRequired fldPath ''CIDR cannot be empty'']
      else (case ParseCIDR cidr of
              None \<Rightarrow> []
            | Some _ \<Rightarrow> [FieldInvalid fldPath (StringValue cidr) ''must be a valid CIDR notation'']))"

definition ValidateObjectReference ::
  "name_rules \<Rightarrow> 'a object_reference_scheme option \<Rightarrow> field_path \<Rightarrow> field_error list"
where
  "ValidateObjectReference nr ref fldPath =
     (case ref of
        None \<Rightarrow> [FieldRequired fldPath ''objectReference cannot be nil'']
      | Some r \<Rightarrow>
          (if ref_APIVersion r = []
           then [FieldRequired (Child fldPath ''apiVersion'') ''apiVersion is required''] else []) @
          (if ref_Kind r = [] then [FieldRequired (Child fldPath ''kind'') ''kind is required''] else []) @
          (if ref_Name r = [] then [FieldRequired (Child fldPath ''name'') ''name is required'']
           else map (FieldInvalid (Child fldPath ''name'') (StringValue (ref_Name r)))
             (IsDNS1123Subdomain nr (ref_Name r))))"

definition ValidateNamespacedObjectReference ::
  "name_rules \<Rightarrow> nref option \<Rightarrow> field_path \<Rightarrow> field_error list"
where
  "ValidateNamespacedObjectReference nr ref fldPath =
     (case ref of
        None \<Rightarrow> [FieldRequired fldPath ''namespacedObjectReference cannot be nil'']
      | Some r \<Rightarrow>
          (if ref_APIVersion r = []
           then [FieldRequired (Child fldPath ''apiVersion'') ''apiVersion is required''] else []) @
          (if ref_Kind r = [] then [FieldRequired (Child fldPath ''kind'') ''kind is required''] else []) @
          (if ref_Name r = [] then [FieldRequired (Child fldPath ''name'') ''name is required'']
           else map (FieldInvalid (Child fldPath ''name'') (StringValue (ref_Name r)))
             (IsDNS1123Subdomain nr (ref_Name r))) @
          (if ref_Namespace r = []
           then [FieldRequired (Child fldPath ''namespace'') ''namespace is required'']
           else map (FieldInvalid (Child fldPath ''namespace'') (StringValue (ref_Namespace r)))
             (IsDNS1123Subdomain nr (ref_Namespace r))))"

definition ValidateTransportProtocol :: "transport_protocol \<Rightarrow> field_path \<Rightarrow> field_error list" where
  "ValidateTransportProtocol protocol fldPath = ValidateEnum protocol ''protocol'' [''TCP'', ''UDP''] fldPath"

definition ValidateTraffic :: "traffic \<Rightarrow> field_path \<Rightarrow> field_error list" where
  "ValidateTraffic tr fldPath = ValidateEnum tr ''traffic'' [''INGRESS'', ''EGRESS''] fldPath"

definition ValidateRuleAction :: "rule_action \<Rightarrow> field_path \<Rightarrow> field_error list" where
  "ValidateRuleAction action fldPath = ValidateEnum action ''action'' [''ACCEPT'', ''DROP''] fldPath"

definition ValidateIngressPorts :: "ingress_port list \<Rightarrow> field_path \<Rightarrow> field_error list" where
  "ValidateIngressPorts ports fldPath =
     index_errors 0 (\<lambda>i port. let portPath = Index fldPath i in
       (if ip_Protocol port \<noteq> []
        then ValidateTransportProtocol (ip_Protocol port) (Child portPath ''protocol'') else []) @
       (if ip_Port port = [] then [FieldRequired (Child portPath ''port'') ''port is required'']
        else if length (ip_Port port) > 32
        then [FieldTooLong (Child portPath ''port'') (ip_Port port) 32] else []) @
       (if length (ip_Description port) > 512
        then [FieldTooLong (Child portPath ''description'') (ip_Description port) 512] else [])) ports"

definition ValidatePortSpecs :: "k8s_port_spec list \<Rightarrow> field_path \<Rightarrow> field_error list" where
  "ValidatePortSpecs ports fldPath =
     index_errors 0 (\<lambda>i port. let portPath = Index fldPath i in
       (if kps_Port port \<noteq> 0 then field_ValidatePort (kps_Port port) (Child portPath ''port'') else []) @
       (if kps_PortRange port \<noteq> None
        then field_ValidatePortRange (kps_PortRange port) (Child portPath ''portRange'') else []) @
       (if kps_Port port = 0 \<and> kps_PortRange port = None
        then [FieldRequired portPath ''either port or portRange must be specified''] else []) @
       (if kps_Port port \<noteq> 0 \<and> kps_PortRange port \<noteq> None
        then [FieldInvalid portPath (PortSpecValue port) ''cannot specify both port and portRange''] else [])) ports"

definition ValidateDescription :: "string \<Rightarrow> field_path \<Rightarrow> nat \<Rightarrow> field_error list" where
  "ValidateDescription description fldPath maxLength =
     (if length description > maxLength then [FieldTooLong fldPath description maxLength] else [])"

definition ValidateRequiredString :: "string \<Rightarrow> field_path \<Rightarrow> string \<Rightarrow> field_error list" where
  "ValidateRequiredString value fldPath fieldName =
     (if value = [] then [FieldRequired fldPath (fieldName @ '' is required'')] else [])"

definition ValidateOptionalString ::
  "string \<Rightarrow> field_path \<Rightarrow> (string \<Rightarrow> field_path \<Rightarrow> field_error list) \<Rightarrow> field_error list"
where
  "ValidateOptionalString value fldPath validator = (if value = [] then [] else validator value fldPath)"

text \<open>\<^verbatim>\<open>utils.go\<close>: a DNS-1123 subdomain, its labels separated by dots.\<close>

definition alnum_char :: "char \<Rightarrow> bool" where
  "alnum_char c \<longleftrightarrow> (let n = of_char c :: nat in (97 \<le> n \<and> n \<le> 122) \<or> (48 \<le> n \<and> n \<le> 57))"

definition dns1123_label :: "string \<Rightarrow> bool" where
  "dns1123_label l \<longleftrightarrow> l \<noteq> [] \<and> alnum_char (hd l) \<and> alnum_char (last l) \<and>
     list_all (\<lambda>c. alnum_char c \<or> c = CHR ''-'') l"

definition isDNS1123Subdomain :: "string \<Rightarrow> bool" where
  "isDNS1123Subdomain value =
     (if length value > 253 then False
      else if length value = 0 then False
      else list_all dns1123_label (split_on CHR ''.'' value))"

section \<open>Services, address groups and aliases\<close>

definition nil_object :: "string \<Rightarrow> field_error list" where
  "nil_object what = [FieldRequired (NewPath ['''']) (what @ '' object cannot be nil'')]"

definition validateMetadata :: "name_rules \<Rightarrow> 'a k8s_object_scheme \<Rightarrow> field_error list" where
  "validateMetadata nr obj = ValidateStandardObjectMeta nr (Some (k_ObjectMeta obj)) (NewPath [''metadata''])"

definition ingress_port_key :: "ingress_port \<Rightarrow> string" where
  "ingress_port_key port = ip_Protocol port @ ''-'' @ ip_Port port"

fun ports_duplicates :: "field_path \<Rightarrow> nat \<Rightarrow> string list \<Rightarrow> ingress_port list \<Rightarrow> field_error list" where
  "ports_duplicates fldPath i seen [] = []"
| "ports_duplicates fldPath i seen (port # ports) =
     (let key = ingress_port_key port
      in (if key \<in> set seen
          then [FieldDuplicate (Index fldPath i)
                  (''duplicate port configuration: protocol='' @ ip_Protocol port @ '' port='' @ ip_Port port)]
          else []) @ ports_duplicates fldPath (Suc i) (key # seen) ports)"

definition validateIngressPortsDuplicates :: "ingress_port list \<Rightarrow> field_path \<Rightarrow> field_error list" where
  "validateIngressPortsDuplicates ports fldPath =
     (if length ports = 0 then [] else ports_duplicates fldPath 0 [] ports)"

definition service_validateSpec :: "k8s_service \<Rightarrow> field_path \<Rightarrow> field_error list" where
  "service_validateSpec obj fldPath =
     ValidateDescription (ksv_Description obj) (Child fldPath ''description'') 512 @
     ValidateIngressPorts (ksv_IngressPorts obj) (Child fldPath ''ingressPorts'') @
     validateIngressPortsDuplicates (ksv_IngressPorts obj) (Child fldPath ''ingressPorts'')"

definition service_validate :: "name_rules \<Rightarrow> k8s_service option \<Rightarrow> field_error list" where
  "service_validate nr obj =
     (case obj of
        None \<Rightarrow> nil_object ''service''
      | Some o' \<Rightarrow> validateMetadata nr o' @ service_validateSpec o' (NewPath [''spec'']))"

definition K8sService_ValidateCreate :: "name_rules \<Rightarrow> k8s_service option \<Rightarrow> field_error list" where
  "K8sService_ValidateCreate nr obj = service_validate nr obj"

definition K8sService_ValidateUpdate ::
  "name_rules \<Rightarrow> k8s_service option \<Rightarrow> k8s_service option \<Rightarrow> field_error list option"
where
  "K8sService_ValidateUpdate nr obj old = Some (service_validate nr obj)"

definition validateDefaultAction :: "rule_action \<Rightarrow> field_path \<Rightarrow> field_error list" where
  "validateDefaultAction action fldPath =
     (if action = [] then [FieldRequired fldPath ''defaultAction is required'']
      else ValidateRuleAction action fldPath)"

definition address_group_validate :: "name_rules \<Rightarrow> k8s_address_group option \<Rightarrow> field_error list" where
  "address_group_validate nr obj =
     (case obj of
        None \<Rightarrow> nil_object ''addressgroup''
      | Some o' \<Rightarrow>
          validateMetadata nr o' @
          validateDefaultAction (kag_DefaultAction o') (Child (NewPath [''spec'']) ''defaultAction''))"

definition K8sAddressGroup_ValidateCreate :: "name_rules \<Rightarrow> k8s_address_group option \<Rightarrow> field_error list" where
  "K8sAddressGroup_ValidateCreate nr obj = address_group_validate nr obj"

definition K8sAddressGroup_ValidateUpdate ::
  "name_rules \<Rightarrow> k8s_address_group option \<Rightarrow> k8s_address_group option \<Rightarrow> field_error list option"
where
  "K8sAddressGroup_ValidateUpdate nr obj old = Some (address_group_validate nr obj)"

text \<open>A reference must have the API version of the group and the kind of its target.\<close>

definition api_version_error :: "nref \<Rightarrow> field_path \<Rightarrow> field_error" where
  "api_version_error ref fldPath =
     FieldInvalid (Child fldPath ''apiVersion'') (StringValue (ref_APIVersion ref))
       (''apiVersion must be '' @ quoted APIVersionV1Beta1)"

definition kind_error :: "'a object_reference_scheme \<Rightarrow> string \<Rightarrow> field_path \<Rightarrow> field_error" where
  "kind_error ref kind fldPath =
     FieldInvalid (Child fldPath ''kind'') (StringValue (ref_Kind ref)) (''kind must be '' @ quoted kind)"

definition set_ref_domain :: "nref \<Rightarrow> string \<Rightarrow> field_path \<Rightarrow> field_error list" where
  "set_ref_domain ref kind fldPath =
     (if ref_APIVersion ref \<noteq> [] \<and> ref_APIVersion ref \<noteq> APIVersionV1Beta1
      then [api_version_error ref fldPath] else []) @
     (if ref_Kind ref \<noteq> [] \<and> ref_Kind ref \<noteq> kind then [kind_error ref kind fldPath] else [])"

definition full_ref_domain :: "nref \<Rightarrow> string \<Rightarrow> field_path \<Rightarrow> field_error list" where
  "full_ref_domain ref kind fldPath =
     (if ref_APIVersion ref \<noteq> APIVersionV1Beta1 then [api_version_error ref fldPath] else []) @
     (if ref_Kind ref \<noteq> kind then [kind_error ref kind fldPath] else [])"

definition immutable :: "nref \<Rightarrow> nref \<Rightarrow> string \<Rightarrow> field_error list" where
  "immutable new old name =
     (if new \<noteq> old
      then [FieldInvalid (NewPath [''spec'', name]) (RefValue new) (name @ '' is immutable and cannot be changed'')]
      else [])"

definition alias_validateServiceRef ::
  "name_rules \<Rightarrow> nref \<Rightarrow> field_path \<Rightarrow> string \<Rightarrow> field_error list"
where
  "alias_validateServiceRef nr ref fldPath ns =
     (let ref' = (if ref_Namespace ref = [] then ref\<lparr>ref_Namespace := ns\<rparr> else ref)
      in (if ref_Namespace ref \<noteq> [] \<and> ref_Namespace ref \<noteq> ns
          then [FieldInvalid (Child fldPath ''namespace'') (StringValue (ref_Namespace ref))
                  (''namespace must match ServiceAlias namespace '' @ quoted ns)] else []) @
         ValidateNamespacedObjectReference nr (Some ref') fldPath @
         set_ref_domain ref' ''Service'' fldPath)"

definition alias_validate :: "name_rules \<Rightarrow> k8s_service_alias option \<Rightarrow> field_error list" where
  "alias_validate nr obj =
     (case obj of
        None \<Rightarrow> nil_object ''servicealias''
      | Some o' \<Rightarrow>
          validateMetadata nr o' @
          alias_validateServiceRef nr (ksa_ServiceRef o') (Child (NewPath [''spec'']) ''serviceRef'')
            (k_Namespace o'))"

definition K8sServiceAlias_ValidateCreate :: "name_rules \<Rightarrow> k8s_service_alias option \<Rightarrow> field_error list" where
  "K8sServiceAlias_ValidateCreate nr obj = alias_validate nr obj"

text \<open>
  The update checks of the kinds with immutable fields: with an old object they read both, so
  they panic without a new one.
\<close>

definition with_old ::
  "'k option \<Rightarrow> 'k option \<Rightarrow> field_error list \<Rightarrow> ('k \<Rightarrow> 'k \<Rightarrow> field_error list) \<Rightarrow> field_error list option"
where
  "with_old obj old errs changed =
     (case old of
        None \<Rightarrow> Some errs
      | Some w \<Rightarrow> (case obj of None \<Rightarrow> None | Some n \<Rightarrow> Some (errs @ changed n w)))"

definition K8sServiceAlias_ValidateUpdate ::
  "name_rules \<Rightarrow> k8s_service_alias option \<Rightarrow> k8s_service_alias option \<Rightarrow> field_error list option"
where
  "K8sServiceAlias_ValidateUpdate nr obj old =
     with_old obj old (alias_validate nr obj)
       (\<lambda>n w. immutable (ksa_ServiceRef n) (ksa_ServiceRef w) ''serviceRef'')"

section \<open>Bindings, policies and port mappings\<close>

definition binding_validateSpec ::
  "name_rules \<Rightarrow> k8s_address_group_binding \<Rightarrow> field_path \<Rightarrow> field_error list"
where
  "binding_validateSpec nr obj fldPath =
     ValidateNamespacedObjectReference nr (Some (kagb_ServiceRef obj)) (Child fldPath ''serviceRef'') @
     full_ref_domain (kagb_ServiceRef obj) ''Service'' (Child fldPath ''serviceRef'') @
     ValidateNamespacedObjectReference nr (Some (kagb_AddressGroupRef obj)) (Child fldPath ''addressGroupRef'') @
     full_ref_domain (kagb_AddressGroupRef obj) ''AddressGroup'' (Child fldPath ''addressGroupRef'')"

definition binding_validate :: "name_rules \<Rightarrow> k8s_address_group_binding option \<Rightarrow> field_error list" where
  "binding_validate nr obj =
     (case obj of
        None \<Rightarrow> nil_object ''addressgroupbinding''
      | Some o' \<Rightarrow> validateMetadata nr o' @ binding_validateSpec nr o' (NewPath [''spec'']))"

definition K8sAddressGroupBinding_ValidateCreate ::
  "name_rules \<Rightarrow> k8s_address_group_binding option \<Rightarrow> field_error list"
where
  "K8sAddressGroupBinding_ValidateCreate nr obj = binding_validate nr obj"

definition K8sAddressGroupBinding_ValidateUpdate ::
  "name_rules \<Rightarrow> k8s_address_group_binding option \<Rightarrow> k8s_address_group_binding option \<Rightarrow>
   field_error list option"
where
  "K8sAddressGroupBinding_ValidateUpdate nr obj old =
     with_old obj old (binding_validate nr obj)
       (\<lambda>n w. immutable (kagb_ServiceRef n) (kagb_ServiceRef w) ''serviceRef'' @
               immutable (kagb_AddressGroupRef n) (kagb_AddressGroupRef w) ''addressGroupRef'')"

definition policy_validateRef :: "name_rules \<Rightarrow> nref \<Rightarrow> string \<Rightarrow> field_path \<Rightarrow> field_error list" where
  "policy_validateRef nr ref kind fldPath =
     ValidateNamespacedObjectReference nr (Some ref) fldPath @ set_ref_domain ref kind fldPath"

definition policy_validate :: "name_rules \<Rightarrow> k8s_address_group_binding_policy option \<Rightarrow> field_error list" where
  "policy_validate nr obj =
     (case obj of
        None \<Rightarrow> nil_object ''addressgroupbindingpolicy''
      | Some o' \<Rightarrow>
          validateMetadata nr o' @
          policy_validateRef nr (kagbp_AddressGroupRef o') ''AddressGroup''
            (Child (NewPath [''spec'']) ''addressGroupRef'') @
          policy_validateRef nr (kagbp_ServiceRef o') ''Service'' (Child (NewPath [''spec'']) ''serviceRef''))"

definition K8sPolicy_ValidateCreate ::
  "name_rules \<Rightarrow> k8s_address_group_binding_policy option \<Rightarrow> field_error list"
where
  "K8sPolicy_ValidateCreate nr obj = policy_validate nr obj"

definition K8sPolicy_ValidateUpdate ::
  "name_rules \<Rightarrow> k8s_address_group_binding_policy option \<Rightarrow> k8s_address_group_binding_policy option \<Rightarrow>
   field_error list option"
where
  "K8sPolicy_ValidateUpdate nr obj old =
     with_old obj old (policy_validate nr obj)
       (\<lambda>n w. immutable (kagbp_AddressGroupRef n) (kagbp_AddressGroupRef w) ''addressGroupRef'' @
               immutable (kagbp_ServiceRef n) (kagbp_ServiceRef w) ''serviceRef'')"

definition validatePortConfig :: "port_config \<Rightarrow> field_path \<Rightarrow> field_error list" where
  "validatePortConfig config fldPath =
     ValidateRequiredString (pc_Port config) (Child fldPath ''port'') ''port'' @
     (if pc_Port config \<noteq> [] \<and> length (pc_Port config) > 32
      then [FieldTooLong (Child fldPath ''port'') (pc_Port config) 32] else []) @
     ValidateDescription (pc_Description config) (Child fldPath ''description'') 256"

definition validateProtocolPorts :: "k8s_protocol_ports \<Rightarrow> field_path \<Rightarrow> field_error list" where
  "validateProtocolPorts ports fldPath =
     index_errors 0 (\<lambda>i c. validatePortConfig c (Index (Child fldPath ''TCP'') i)) (kpp_TCP ports) @
     index_errors 0 (\<lambda>i c. validatePortConfig c (Index (Child fldPath ''UDP'') i)) (kpp_UDP ports)"

definition validateServicePortsRef ::
  "name_rules \<Rightarrow> k8s_service_ports_ref \<Rightarrow> field_path \<Rightarrow> field_error list"
where
  "validateServicePortsRef nr ref fldPath =
     ValidateNamespacedObjectReference nr (Some (kspr_Ref ref)) fldPath @
     full_ref_domain (kspr_Ref ref) ''Service'' fldPath @
     validateProtocolPorts (kspr_Ports ref) (Child fldPath ''ports'')"

definition validateAccessPorts :: "name_rules \<Rightarrow> access_ports_spec \<Rightarrow> field_path \<Rightarrow> field_error list" where
  "validateAccessPorts nr accessPorts fldPath =
     index_errors 0 (\<lambda>i r. validateServicePortsRef nr r (Index (Child fldPath ''items'') i))
       (aps_Items accessPorts)"

definition port_mapping_validate ::
  "name_rules \<Rightarrow> k8s_address_group_port_mapping option \<Rightarrow> field_error list"
where
  "port_mapping_validate nr obj =
     (case obj of
        None \<Rightarrow> nil_object ''addressgroupportmapping''
      | Some o' \<Rightarrow>
          validateMetadata nr o' @ validateAccessPorts nr (kagpm_AccessPorts o') (NewPath [''accessPorts'']))"

definition K8sPortMapping_ValidateCreate ::
  "name_rules \<Rightarrow> k8s_address_group_port_mapping option \<Rightarrow> field_error list"
where
  "K8sPortMapping_ValidateCreate nr obj = port_mapping_validate nr obj"

definition K8sPortMapping_ValidateUpdate ::
  "name_rules \<Rightarrow> k8s_address_group_port_mapping option \<Rightarrow> k8s_address_group_port_mapping option \<Rightarrow>
   field_error list option"
where
  "K8sPortMapping_ValidateUpdate nr obj old = Some (port_mapping_validate nr obj)"

section \<open>Rules\<close>

definition validateTrafficRequired :: "traffic \<Rightarrow> field_path \<Rightarrow> field_error list" where
  "validateTrafficRequired tr fldPath =
     (if tr = [] then [FieldRequired fldPath ''traffic is required''] else ValidateTraffic tr fldPath)"

definition rule_ref_domain :: "nref \<Rightarrow> field_path \<Rightarrow> field_error list" where
  "rule_ref_domain ref fldPath =
     (if ref_Kind ref \<noteq> ''Service'' then [kind_error ref ''Service'' fldPath] else [])"

definition rule_s2s_validateSpec :: "name_rules \<Rightarrow> k8s_rule_s2s \<Rightarrow> field_path \<Rightarrow> field_error list" where
  "rule_s2s_validateSpec nr obj fldPath =
     validateTrafficRequired (krs_Traffic obj) (Child fldPath ''traffic'') @
     ValidateNamespacedObjectReference nr (Some (krs_ServiceLocalRef obj)) (Child fldPath ''serviceLocalRef'') @
     rule_ref_domain (krs_ServiceLocalRef obj) (Child fldPath ''serviceLocalRef'') @
     ValidateNamespacedObjectReference nr (Some (krs_ServiceRef obj)) (Child fldPath ''serviceRef'') @
     rule_ref_domain (krs_ServiceRef obj) (Child fldPath ''serviceRef'')"

definition rule_s2s_validate :: "name_rules \<Rightarrow> k8s_rule_s2s option \<Rightarrow> field_error list" where
  "rule_s2s_validate nr obj =
     (case obj of
        None \<Rightarrow> nil_object ''rules2s''
      | Some o' \<Rightarrow> validateMetadata nr o' @ rule_s2s_validateSpec nr o' (NewPath [''spec'']))"

definition K8sRuleS2S_ValidateCreate :: "name_rules \<Rightarrow> k8s_rule_s2s option \<Rightarrow> field_error list" where
  "K8sRuleS2S_ValidateCreate nr obj = rule_s2s_validate nr obj"

definition immutable_string :: "string \<Rightarrow> string \<Rightarrow> string \<Rightarrow> field_error list" where
  "immutable_string new old name =
     (if new \<noteq> old
      then [FieldInvalid (NewPath [''spec'', name]) (StringValue new) (name @ '' is immutable and cannot be changed'')]
      else [])"

definition K8sRuleS2S_ValidateUpdate ::
  "name_rules \<Rightarrow> k8s_rule_s2s option \<Rightarrow> k8s_rule_s2s option \<Rightarrow> field_error list option"
where
  "K8sRuleS2S_ValidateUpdate nr obj old =
     with_old obj old (rule_s2s_validate nr obj)
       (\<lambda>n w. immutable_string (krs_Traffic n) (krs_Traffic w) ''traffic'' @
               immutable (krs_ServiceLocalRef n) (krs_ServiceLocalRef w) ''serviceLocalRef'' @
               immutable (krs_ServiceRef n) (krs_ServiceRef w) ''serviceRef'')"

definition validateTransport :: "transport_protocol \<Rightarrow> field_path \<Rightarrow> field_error list" where
  "validateTransport transport fldPath =
     (if transport = [] then [FieldRequired fldPath ''transport is required'']
      else if transport = TCP \<or> transport = UDP then []
      else [FieldNotSupported fldPath transport [''TCP'', ''UDP'']])"

definition validateAction :: "string \<Rightarrow> field_path \<Rightarrow> field_error list" where
  "validateAction action fldPath =
     (if action = ''ACCEPT'' \<or> action = ''DROP'' then []
      else [FieldNotSupported fldPath action [''ACCEPT'', ''DROP'']])"

definition ie_validatePortRange :: "k8s_port_range \<Rightarrow> field_path \<Rightarrow> field_error list" where
  "ie_validatePortRange r fldPath =
     (if kpr_From r < 1 \<or> kpr_From r > 65535
      then [FieldInvalid (Child fldPath ''from'') (IntValue (kpr_From r)) ''from port must be between 1 and 65535'']
      else []) @
     (if kpr_To r < 1 \<or> kpr_To r > 65535
      then [FieldInvalid (Child fldPath ''to'') (IntValue (kpr_To r)) ''to port must be between 1 and 65535'']
      else []) @
     (if kpr_From r > kpr_To r
      then [FieldInvalid fldPath (PortRangeValue r) ''from port must be less than or equal to to port'']
      else [])"

definition ie_validatePortSpec :: "k8s_port_spec \<Rightarrow> field_path \<Rightarrow> field_error list" where
  "ie_validatePortSpec spec fldPath =
     (let hasPort = kps_Port spec \<noteq> 0; hasPortRange = kps_PortRange spec \<noteq> None
      in if \<not> hasPort \<and> \<not> hasPortRange
         then [FieldRequired fldPath ''either port or portRange must be specified'']
         else if hasPort \<and> hasPortRange
         then [FieldInvalid fldPath (PortSpecValue spec) ''cannot specify both port and portRange'']
         else
           (if hasPort \<and> (kps_Port spec < 1 \<or> kps_Port spec > 65535)
            then [FieldInvalid (Child fldPath ''port'') (IntValue (kps_Port spec))
                    ''port must be between 1 and 65535''] else []) @
           (case kps_PortRange spec of
              None \<Rightarrow> []
            | Some r \<Rightarrow> ie_validatePortRange r (Child fldPath ''portRange'')))"

definition ie_validatePorts :: "k8s_port_spec list \<Rightarrow> field_path \<Rightarrow> field_error list" where
  "ie_validatePorts ports fldPath = index_errors 0 (\<lambda>i p. ie_validatePortSpec p (Index fldPath i)) ports"

definition ie_validateGroup :: "name_rules \<Rightarrow> nref \<Rightarrow> field_path \<Rightarrow> field_error list" where
  "ie_validateGroup nr ref fldPath =
     ValidateNamespacedObjectReference nr (Some ref) fldPath @ set_ref_domain ref ''AddressGroup'' fldPath"

definition ie_validateSpec :: "name_rules \<Rightarrow> k8s_ieagag_rule \<Rightarrow> field_path \<Rightarrow> field_error list" where
  "ie_validateSpec nr obj fldPath =
     (if length (kie_Description obj) > 512
      then [FieldTooLong (Child fldPath ''description'') (kie_Description obj) 512] else []) @
     validateTransport (kie_Transport obj) (Child fldPath ''transport'') @
     ValidateRequiredEnum (kie_Traffic obj) ''traffic'' [''INGRESS'', ''EGRESS''] (Child fldPath ''traffic'') @
     ie_validateGroup nr (kie_AddressGroupLocal obj) (Child fldPath ''addressGroupLocal'') @
     ie_validateGroup nr (kie_AddressGroup obj) (Child fldPath ''addressGroup'') @
     (if length (kie_Ports obj) > 0 then ie_validatePorts (kie_Ports obj) (Child fldPath ''ports'') else []) @
     (if kie_Action obj \<noteq> [] then validateAction (kie_Action obj) (Child fldPath ''action'') else []) @
     (if kie_Priority obj < 0
      then [FieldInvalid (Child fldPath ''priority'') (IntValue (kie_Priority obj)) ''priority must be non-negative'']
      else [])"

definition ie_validate :: "name_rules \<Rightarrow> k8s_ieagag_rule option \<Rightarrow> field_error list" where
  "ie_validate nr obj =
     (case obj of
        None \<Rightarrow> nil_object ''ieagagrule''
      | Some o' \<Rightarrow> validateMetadata nr o' @ ie_validateSpec nr o' (NewPath [''spec'']))"

definition K8sIEAgAgRule_ValidateCreate :: "name_rules \<Rightarrow> k8s_ieagag_rule option \<Rightarrow> field_error list" where
  "K8sIEAgAgRule_ValidateCreate nr obj = ie_validate nr obj"

definition K8sIEAgAgRule_ValidateUpdate ::
  "name_rules \<Rightarrow> k8s_ieagag_rule option \<Rightarrow> k8s_ieagag_rule option \<Rightarrow> field_error list option"
where
  "K8sIEAgAgRule_ValidateUpdate nr obj old =
     with_old obj old (ie_validate nr obj)
       (\<lambda>n w. immutable_string (kie_Transport n) (kie_Transport w) ''transport'' @
               immutable_string (kie_Traffic n) (kie_Traffic w) ''traffic'' @
               immutable (kie_AddressGroupLocal n) (kie_AddressGroupLocal w) ''addressGroupLocal'' @
               immutable (kie_AddressGroup n) (kie_AddressGroup w) ''addressGroup'')"

section \<open>Networks and network bindings\<close>

definition isReadyConditionTrue :: "'a k8s_object_scheme \<Rightarrow> bool" where
  "isReadyConditionTrue obj \<longleftrightarrow>
     list_ex (\<lambda>c. cond_Type c = ''Ready'' \<and> cond_Status c = ''True'') (k_Conditions obj)"

definition network_validate :: "name_rules \<Rightarrow> k8s_network \<Rightarrow> field_error list" where
  "network_validate nr obj =
     validateMetadata nr obj @ field_ValidateCIDR (knw_CIDR obj) (Child (NewPath [''spec'']) ''cidr'')"

definition K8sNetwork_ValidateCreate :: "name_rules \<Rightarrow> k8s_network option \<Rightarrow> field_error list" where
  "K8sNetwork_ValidateCreate nr obj =
     (case obj of None \<Rightarrow> nil_object ''network'' | Some o' \<Rightarrow> network_validate nr o')"

text \<open>The update reads the conditions of the old object without a nil check.\<close>

definition K8sNetwork_ValidateUpdate ::
  "name_rules \<Rightarrow> k8s_network option \<Rightarrow> k8s_network option \<Rightarrow> field_error list option"
where
  "K8sNetwork_ValidateUpdate nr obj old =
     (case obj of
        None \<Rightarrow> Some (nil_object ''network'')
      | Some n \<Rightarrow>
          (case old of
             None \<Rightarrow> None
           | Some w \<Rightarrow>
               Some (network_validate nr n @
                 (if isReadyConditionTrue w \<and> knw_CIDR n \<noteq> knw_CIDR w
                  then [FieldForbidden (NewPath [''spec.cidr''])
                          ''cannot change CIDR when Ready condition is true''] else []))))"

definition nb_validateObjectReference ::
  "name_rules \<Rightarrow> object_reference \<Rightarrow> field_path \<Rightarrow> string \<Rightarrow> field_error list"
where
  "nb_validateObjectReference nr ref fldPath expectedKind =
     ValidateObjectReference nr (Some ref) fldPath @
     (if ref_Kind ref \<noteq> [] \<and> ref_Kind ref \<noteq> expectedKind then [kind_error ref expectedKind fldPath] else []) @
     (if ref_APIVersion ref \<noteq> [] \<and> ref_APIVersion ref \<noteq> APIVersionV1Beta1
      then [FieldInvalid (Child fldPath ''apiVersion'') (StringValue (ref_APIVersion ref))
              (''apiVersion must be '' @ quoted APIVersionV1Beta1)] else [])"

definition network_binding_validate :: "name_rules \<Rightarrow> k8s_network_binding \<Rightarrow> field_error list" where
  "network_binding_validate nr obj =
     validateMetadata nr obj @
     nb_validateObjectReference nr (knb_NetworkRef obj) (Child (NewPath [''spec'']) ''networkRef'') ''Network'' @
     nb_validateObjectReference nr (knb_AddressGroupRef obj) (Child (NewPath [''spec'']) ''addressGroupRef'')
       ''AddressGroup''"

definition K8sNetworkBinding_ValidateCreate ::
  "name_rules \<Rightarrow> k8s_network_binding option \<Rightarrow> field_error list"
where
  "K8sNetworkBinding_ValidateCreate nr obj =
     (case obj of None \<Rightarrow> nil_object ''networkbinding'' | Some o' \<Rightarrow> network_binding_validate nr o')"

definition nb_objectReferencesEqual :: "object_reference \<Rightarrow> object_reference \<Rightarrow> bool" where
  "nb_objectReferencesEqual a b \<longleftrightarrow>
     ref_APIVersion a = ref_APIVersion b \<and> ref_Kind a = ref_Kind b \<and> ref_Name a = ref_Name b"

definition K8sNetworkBinding_ValidateUpdate ::
  "name_rules \<Rightarrow> k8s_network_binding option \<Rightarrow> k8s_network_binding option \<Rightarrow> field_error list option"
where
  "K8sNetworkBinding_ValidateUpdate nr obj old =
     (case obj of
        None \<Rightarrow> Some (nil_object ''networkbinding'')
      | Some n \<Rightarrow>
          (case old of
             None \<Rightarrow> None
           | Some w \<Rightarrow>
               Some (network_binding_validate nr n @
                 (if isReadyConditionTrue w \<and> \<not> nb_objectReferencesEqual (knb_NetworkRef n) (knb_NetworkRef w)
                  then [FieldForbidden (NewPath [''spec.networkRef''])
                          ''cannot change networkRef when Ready condition is true''] else []) @
                 (if isReadyConditionTrue w \<and>
                     \<not> nb_objectReferencesEqual (knb_AddressGroupRef n) (knb_AddressGroupRef w)
                  then [FieldForbidden (NewPath [''spec.addressGroupRef''])
                          ''cannot change addressGroupRef when Ready condition is true''] else []))))"

section \<open>Hosts and host bindings\<close>

definition hex_group :: "nat \<Rightarrow> string \<Rightarrow> bool" where
  "hex_group n s \<longleftrightarrow> length s = n \<and> list_all is_hex s"

text \<open>\<^verbatim>\<open>uuidRegex\<close>: five groups of hexadecimal digits separated by hyphens.\<close>

definition uuid_matches :: "string \<Rightarrow> bool" where
  "uuid_matches s \<longleftrightarrow> list_all2 hex_group [8, 4, 4, 4, 12] (split_on CHR ''-'' s)"

definition host_validateSpec :: "k8s_host \<Rightarrow> field_path \<Rightarrow> field_error list" where
  "host_validateSpec obj fldPath =
     (if kh_UUID obj = [] then [FieldRequired (Child fldPath ''uuid'') ''UUID is required'']
      else if \<not> uuid_matches (kh_UUID obj)
      then [FieldInvalid (Child fldPath ''uuid'') (StringValue (kh_UUID obj)) ''UUID must be in valid UUID format'']
      else [])"

definition K8sHost_ValidateCreate :: "name_rules \<Rightarrow> k8s_host option \<Rightarrow> field_error list" where
  "K8sHost_ValidateCreate nr obj =
     (case obj of
        None \<Rightarrow> nil_object ''host''
      | Some o' \<Rightarrow> validateMetadata nr o' @ host_validateSpec o' (NewPath [''spec'']))"

definition host_validateImmutableFields :: "k8s_host \<Rightarrow> k8s_host \<Rightarrow> field_error list" where
  "host_validateImmutableFields obj old =
     (if kh_UUID obj \<noteq> kh_UUID old
      then [FieldForbidden (Child (NewPath [''spec'']) ''uuid'') ''UUID is immutable''] else [])"

definition nil_for_update :: "string \<Rightarrow> field_error list" where
  "nil_for_update what = [FieldRequired (NewPath ['''']) (what @ '' object cannot be nil for update'')]"

definition K8sHost_ValidateUpdate ::
  "name_rules \<Rightarrow> k8s_host option \<Rightarrow> k8s_host option \<Rightarrow> field_error list option"
where
  "K8sHost_ValidateUpdate nr obj old =
     Some (K8sHost_ValidateCreate nr obj @
       (case (obj, old) of
          (Some n, Some w) \<Rightarrow> host_validateImmutableFields n w
        | _ \<Rightarrow> nil_for_update ''host''))"

definition host_validateStatus :: "k8s_host \<Rightarrow> field_path \<Rightarrow> field_error list" where
  "host_validateStatus obj fldPath =
     (if kh_HostName obj \<noteq> [] \<and> length (kh_HostName obj) > 255
      then [FieldInvalid (Child fldPath ''hostName'') (StringValue (kh_HostName obj))
              ''hostName cannot exceed 255 characters''] else []) @
     (if kh_IsBound obj then
        (if kh_BindingRef obj = None
         then [FieldRequired (Child fldPath ''bindingRef'') ''bindingRef is required when isBound is true'']
         else []) @
        (if kh_AddressGroupRef obj = None
         then [FieldRequired (Child fldPath ''addressGroupRef'') ''addressGroupRef is required when isBound is true'']
         else [])
      else
        (if kh_BindingRef obj \<noteq> None
         then [FieldForbidden (Child fldPath ''bindingRef'') ''bindingRef must be nil when isBound is false'']
         else []) @
        (if kh_AddressGroupRef obj \<noteq> None
         then [FieldForbidden (Child fldPath ''addressGroupRef'') ''addressGroupRef must be nil when isBound is false'']
         else []))"

definition K8sHost_ValidateStatusUpdate :: "k8s_host option \<Rightarrow> k8s_host option \<Rightarrow> field_error list" where
  "K8sHost_ValidateStatusUpdate obj old =
     (case obj of None \<Rightarrow> nil_object ''host'' | Some o' \<Rightarrow> host_validateStatus o' (NewPath [''status'']))"

definition K8sHost_ValidateDelete :: "k8s_host option \<Rightarrow> field_error list" where
  "K8sHost_ValidateDelete obj = (case obj of None \<Rightarrow> nil_object ''host'' | Some _ \<Rightarrow> [])"

definition hb_validateObjectReference :: "nref \<Rightarrow> field_path \<Rightarrow> string \<Rightarrow> field_error list" where
  "hb_validateObjectReference ref fldPath expectedKind =
     (if ref_Name ref = [] then [FieldRequired (Child fldPath ''name'') ''name is required''] else []) @
     (if ref_Namespace ref = []
      then [FieldRequired (Child fldPath ''namespace'') ''namespace is required''] else []) @
     (if ref_Kind ref \<noteq> [] \<and> ref_Kind ref \<noteq> expectedKind
      then [FieldInvalid (Child fldPath ''kind'') (StringValue (ref_Kind ref)) (''kind should be '' @ expectedKind)]
      else []) @
     (if ref_APIVersion ref \<noteq> [] \<and> ref_APIVersion ref \<noteq> APIVersionV1Beta1
      then [FieldInvalid (Child fldPath ''apiVersion'') (StringValue (ref_APIVersion ref))
              (''apiVersion should be '' @ APIVersionV1Beta1)] else []) @
     (if ref_Name ref \<noteq> [] \<and> length (ref_Name ref) > 253
      then [FieldTooLong (Child fldPath ''name'') (ref_Name ref) 253] else [])"

definition host_binding_validateSpec :: "k8s_host_binding \<Rightarrow> field_path \<Rightarrow> field_error list" where
  "host_binding_validateSpec obj fldPath =
     hb_validateObjectReference (khb_HostRef obj) (Child fldPath ''hostRef'') ''Host'' @
     hb_validateObjectReference (khb_AddressGroupRef obj) (Child fldPath ''addressGroupRef'') ''AddressGroup'' @
     (if ref_Name (khb_HostRef obj) = ref_Name (khb_AddressGroupRef obj)
      then [FieldInvalid (Child fldPath ''addressGroupRef'') (RefValue (khb_AddressGroupRef obj))
              ''addressGroupRef cannot reference the same resource as hostRef''] else [])"

definition K8sHostBinding_ValidateCreate :: "name_rules \<Rightarrow> k8s_host_binding option \<Rightarrow> field_error list" where
  "K8sHostBinding_ValidateCreate nr obj =
     (case obj of
        None \<Rightarrow> nil_object ''hostBinding''
      | Some o' \<Rightarrow> validateMetadata nr o' @ host_binding_validateSpec o' (NewPath [''spec'']))"

definition hb_objectReferencesEqual :: "nref \<Rightarrow> nref \<Rightarrow> bool" where
  "hb_objectReferencesEqual a b \<longleftrightarrow>
     ref_Name a = ref_Name b \<and> ref_Namespace a = ref_Namespace b \<and> ref_Kind a = ref_Kind b \<and>
     ref_APIVersion a = ref_APIVersion b"

definition host_binding_validateImmutableFields ::
  "k8s_host_binding \<Rightarrow> k8s_host_binding \<Rightarrow> field_error list"
where
  "host_binding_validateImmutableFields obj old =
     (if \<not> hb_objectReferencesEqual (khb_HostRef obj) (khb_HostRef old)
      then [FieldForbidden (Child (NewPath [''spec'']) ''hostRef'') ''hostRef is immutable''] else []) @
     (if \<not> hb_objectReferencesEqual (khb_AddressGroupRef obj) (khb_AddressGroupRef old)
      then [FieldForbidden (Child (NewPath [''spec'']) ''addressGroupRef'') ''addressGroupRef is immutable'']
      else [])"

definition K8sHostBinding_ValidateUpdate ::
  "name_rules \<Rightarrow> k8s_host_binding option \<Rightarrow> k8s_host_binding option \<Rightarrow> field_error list option"
where
  "K8sHostBinding_ValidateUpdate nr obj old =
     Some (K8sHostBinding_ValidateCreate nr obj @
       (case (obj, old) of
          (Some n, Some w) \<Rightarrow> host_binding_validateImmutableFields n w
        | _ \<Rightarrow> nil_for_update ''hostBinding''))"

definition host_binding_validateStatus :: "k8s_host_binding \<Rightarrow> field_path \<Rightarrow> field_error list" where
  "host_binding_validateStatus obj fldPath =
     (if k_ObservedGeneration obj < 0
      then [FieldInvalid (Child fldPath ''observedGeneration'') (IntValue (k_ObservedGeneration obj))
              ''observedGeneration cannot be negative''] else [])"

definition K8sHostBinding_ValidateStatusUpdate ::
  "k8s_host_binding option \<Rightarrow> k8s_host_binding option \<Rightarrow> field_error list"
where
  "K8sHostBinding_ValidateStatusUpdate obj old =
     (case obj of
        None \<Rightarrow> nil_object ''hostBinding''
      | Some o' \<Rightarrow> host_binding_validateStatus o' (NewPath [''status'']))"

definition K8sHostBinding_ValidateDelete :: "k8s_host_binding option \<Rightarrow> field_error list" where
  "K8sHostBinding_ValidateDelete obj = (case obj of None \<Rightarrow> nil_object ''hostBinding'' | Some _ \<Rightarrow> [])"

end
