(* ===== verification/Admission.thy ===== *)
theory Admission
  imports FieldValidation ProtoMessages ServiceValidation BindingValidation RuleValidation NetworkValidation
begin

text \<open>
  The validating admission webhook (\<^verbatim>\<open>internal/k8s/admission/validation.go\<close>) and the HTTP
  handler that serves it (\<^verbatim>\<open>server.go\<close>). A request is decoded, checked by the field
  validation and by the backend's validators over the client's reader, and answered.

  The decoding of raw JSON, the text of an aggregated error list and the backend client are
  parameters, the fields of the record \<open>webhook\<close>: its reader is the one the client's dependency
  validator reads from, and \<open>wh_GetReader\<close> is the error of \<^verbatim>\<open>GetReader\<close>. In the deployed system the
  reader is that of the gRPC client (\<^verbatim>\<open>client/grpc_reader.go\<close>, not modelled), with its own
  conversions, rate limit and transport errors; statements that name the in-memory reader are about
  a client that answers as the in-memory registry does.
\<close>

section \<open>Requests and responses\<close>

record admission_request =
  ar_UID :: string
  ar_Kind :: string
  ar_Operation :: string
  ar_Name :: string
  ar_Namespace :: string
  ar_Object :: string
  ar_OldObject :: string

datatype patch_value = PatchString string | PatchEmptyMap | PatchEmptyList

record json_patch =
  jp_op :: string
  jp_path :: string
  jp_value :: patch_value

record status_result =
  sr_Code :: int
  sr_Message :: string

record admission_response =
  resp_UID :: string
  resp_Allowed :: bool
  resp_Result :: "status_result option"
  resp_Patch :: "json_patch list option"

record webhook =
  wh_GetReader :: "error option"
  wh_reader :: reader_ops
  wh_names :: name_rules
  wh_aggregate :: "field_error list \<Rightarrow> string"
  unmarshal_Service :: "string \<Rightarrow> error + k8s_service"
  unmarshal_AddressGroup :: "string \<Rightarrow> error + k8s_address_group"
  unmarshal_AddressGroupBinding :: "string \<Rightarrow> error + k8s_address_group_binding"
  unmarshal_AddressGroupPortMapping :: "string \<Rightarrow> error + k8s_address_group_port_mapping"
  unmarshal_RuleS2S :: "string \<Rightarrow> error + k8s_rule_s2s"
  unmarshal_ServiceAlias :: "string \<Rightarrow> error + k8s_service_alias"
  unmarshal_AddressGroupBindingPolicy :: "string \<Rightarrow> error + k8s_address_group_binding_policy"
  unmarshal_IEAgAgRule :: "string \<Rightarrow> error + k8s_ieagag_rule"
  unmarshal_Network :: "string \<Rightarrow> error + k8s_network"
  unmarshal_NetworkBinding :: "string \<Rightarrow> error + k8s_network_binding"

definition Create :: string where "Create = ''CREATE''"

definition Update :: string where "Update = ''UPDATE''"

definition Delete :: string where "Delete = ''DELETE''"

lemma operations_distinct [simp]:
  "Create \<noteq> Update" "Create \<noteq> Delete" "Update \<noteq> Delete" "Update \<noteq> Create" "Delete \<noteq> Create" "Delete \<noteq> Update"
  by (simp_all add: Create_def Update_def Delete_def)

definition allowResponse :: "string \<Rightarrow> string \<Rightarrow> admission_response" where
  "allowResponse uid message =
     \<lparr> resp_UID = uid, resp_Allowed = True,
       resp_Result = Some \<lparr> sr_Code = 200, sr_Message = message \<rparr>, resp_Patch = None \<rparr>"

definition errorResponse :: "string \<Rightarrow> string \<Rightarrow> admission_response" where
  "errorResponse uid message =
     \<lparr> resp_UID = uid, resp_Allowed = False,
       resp_Result = Some \<lparr> sr_Code = 400, sr_Message = message \<rparr>, resp_Patch = None \<rparr>"

lemma response_simps [simp]:
  "resp_Allowed (allowResponse u m)" "\<not> resp_Allowed (errorResponse u m)"
  "resp_UID (allowResponse u m) = u" "resp_UID (errorResponse u m) = u"
  by (simp_all add: allowResponse_def errorResponse_def)

section \<open>Conversion of API objects to domain models\<close>

text \<open>A reference with a name and a namespace and no other field.\<close>

definition bare_ref :: "string \<Rightarrow> string \<Rightarrow> nref" where
  "bare_ref name ns = empty_nref\<lparr> ref_Name := name, ref_Namespace := ns \<rparr>"

definition port_parses :: "string \<Rightarrow> bool" where
  "port_parses s = (case ParsePortRanges s of Inl _ \<Rightarrow> False | Inr _ \<Rightarrow> True)"

definition convertServiceToDomain :: "k8s_service \<Rightarrow> service" where
  "convertServiceToDomain k =
     \<lparr> Name = k_Name k, Namespace = k_Namespace k, Meta = empty_meta,
       svc_Description = ksv_Description k,
       svc_IngressPorts = map (\<lambda>p. \<lparr> ip_Protocol = ip_Protocol p, ip_Port = ip_Port p,
           ip_Description = ip_Description p \<rparr>) (filter (\<lambda>p. port_parses (ip_Port p)) (ksv_IngressPorts k)),
       svc_AddressGroups = [], svc_AggregatedAddressGroups = [] \<rparr>"

definition convertAddressGroupToDomain :: "k8s_address_group \<Rightarrow> address_group" where
  "convertAddressGroupToDomain k =
     (let computed = (if k_Namespace k \<noteq> [] then k_Namespace k @ ''/'' @ k_Name k else k_Name k);
          groupName = (if kag_AddressGroupName k \<noteq> [] then kag_AddressGroupName k else computed)
      in \<lparr> Name = k_Name k, Namespace = k_Namespace k, Meta = empty_meta,
           ag_DefaultAction = kag_DefaultAction k, ag_Logs = kag_Logs k, ag_Trace = kag_Trace k,
           ag_Networks = map (\<lambda>i. \<lparr> ni_Name = ni_Name i, ni_CIDR = ni_CIDR i,
             ni_ApiVersion = ni_ApiVersion i, ni_Kind = ni_Kind i, ni_Namespace = ni_Namespace i \<rparr>)
             (kag_Networks k),
           ag_AddressGroupName = groupName, ag_Hosts = [], ag_AggregatedHosts = [] \<rparr>)"

definition convertAddressGroupBindingToDomain :: "k8s_address_group_binding \<Rightarrow> address_group_binding" where
  "convertAddressGroupBindingToDomain k =
     \<lparr> Name = k_Name k, Namespace = k_Namespace k, Meta = empty_meta,
       agb_ServiceRef = kagb_ServiceRef k, agb_AddressGroupRef = kagb_AddressGroupRef k \<rparr>"

text \<open>Ports that do not parse are skipped; a protocol without ranges gets no entry.\<close>

definition config_ranges :: "port_config list \<Rightarrow> port_range list" where
  "config_ranges cs =
     concat (map (\<lambda>c. case ParsePortRanges (pc_Port c) of Inl _ \<Rightarrow> [] | Inr rs \<Rightarrow> rs) cs)"

definition admission_ports :: "k8s_protocol_ports \<Rightarrow> protocol_ports" where
  "admission_ports ps =
     (if config_ranges (kpp_TCP ps) \<noteq> [] then [(TCP, config_ranges (kpp_TCP ps))] else []) @
     (if config_ranges (kpp_UDP ps) \<noteq> [] then [(UDP, config_ranges (kpp_UDP ps))] else [])"

definition convertAddressGroupPortMappingToDomain ::
  "k8s_address_group_port_mapping \<Rightarrow> address_group_port_mapping"
where
  "convertAddressGroupPortMappingToDomain k =
     \<lparr> Name = k_Name k, Namespace = k_Namespace k, Meta = empty_meta,
       agpm_AccessPorts = Some (fold
         (\<lambda>r m. AList.update (bare_ref (ref_Name (kspr_Ref r)) (ref_Namespace (kspr_Ref r)))
                  \<lparr> sp_Ports = admission_ports (kspr_Ports r) \<rparr> m)
         (aps_Items (kagpm_AccessPorts k)) []),
       agpm_AccessPortsWithRefs = [] \<rparr>"

definition convertRuleS2SToDomain :: "k8s_rule_s2s \<Rightarrow> rule_s2s" where
  "convertRuleS2SToDomain k =
     \<lparr> Name = k_Name k, Namespace = k_Namespace k, Meta = empty_meta,
       rs_Traffic = krs_Traffic k,
       rs_ServiceLocalRef = bare_ref (ref_Name (krs_ServiceLocalRef k)) (ref_Namespace (krs_ServiceLocalRef k)),
       rs_ServiceRef = bare_ref (ref_Name (krs_ServiceRef k)) (ref_Namespace (krs_ServiceRef k)),
       rs_IEAgAgRuleRefs = map (\<lambda>r. bare_ref (ref_Name r) (ref_Namespace r)) (krs_IEAgAgRuleRefs k),
       rs_Trace = krs_Trace k \<rparr>"

definition convertServiceAliasToDomain :: "k8s_service_alias \<Rightarrow> service_alias" where
  "convertServiceAliasToDomain k =
     \<lparr> Name = k_Name k, Namespace = k_Namespace k, Meta = empty_meta,
       sa_ServiceRef = bare_ref (ref_Name (ksa_ServiceRef k)) (ref_Namespace (ksa_ServiceRef k)) \<rparr>"

definition convertAddressGroupBindingPolicyToDomain ::
  "k8s_address_group_binding_policy \<Rightarrow> address_group_binding_policy"
where
  "convertAddressGroupBindingPolicyToDomain k =
     \<lparr> Name = k_Name k, Namespace = k_Namespace k, Meta = empty_meta,
       agbp_AddressGroupRef = bare_ref (ref_Name (kagbp_AddressGroupRef k)) (ref_Namespace (kagbp_AddressGroupRef k)),
       agbp_ServiceRef = bare_ref (ref_Name (kagbp_ServiceRef k)) (ref_Namespace (kagbp_ServiceRef k)) \<rparr>"

text \<open>Both groups get the namespace of the rule, whatever namespace the reference names.\<close>

definition port_destination :: "k8s_port_spec \<Rightarrow> string" where
  "port_destination p =
     (case kps_PortRange p of
        Some r \<Rightarrow> itoa (kpr_From r) @ ''-'' @ itoa (kpr_To r)
      | None \<Rightarrow> if kps_Port p > 0 then itoa (kps_Port p) else [])"

definition convertIEAgAgRuleToDomain :: "k8s_ieagag_rule \<Rightarrow> ieagag_rule" where
  "convertIEAgAgRuleToDomain k =
     \<lparr> Name = k_Name k, Namespace = k_Namespace k, Meta = empty_meta,
       ie_Transport = kie_Transport k, ie_Traffic = kie_Traffic k,
       ie_AddressGroupLocal = bare_ref (ref_Name (kie_AddressGroupLocal k)) (k_Namespace k),
       ie_AddressGroup = bare_ref (ref_Name (kie_AddressGroup k)) (k_Namespace k),
       ie_Ports = map (\<lambda>d. \<lparr> ps_Source = [], ps_Destination = d \<rparr>)
         (filter (\<lambda>d. d \<noteq> [] \<and> port_parses d) (map port_destination (kie_Ports k))),
       ie_Action = kie_Action k, ie_Logs = False, ie_Trace = kie_Trace k, ie_Priority = 0 \<rparr>"

definition convertNetworkToDomain :: "k8s_network \<Rightarrow> network" where
  "convertNetworkToDomain k =
     \<lparr> Name = k_Name k, Namespace = k_Namespace k,
       Meta = empty_meta\<lparr> Generation := om_Generation (k_ObjectMeta k),
         Labels := om_Labels (k_ObjectMeta k), Annotations := om_Annotations (k_ObjectMeta k) \<rparr>,
       nw_CIDR = knw_CIDR k, nw_NetworkName = [], nw_IsBound = False, nw_BindingRef = None,
       nw_AddressGroupRef = None \<rparr>"

definition convertNetworkBindingToDomain :: "k8s_network_binding \<Rightarrow> network_binding" where
  "convertNetworkBindingToDomain k =
     \<lparr> Name = k_Name k, Namespace = k_Namespace k,
       Meta = empty_meta\<lparr> Generation := om_Generation (k_ObjectMeta k),
         Labels := om_Labels (k_ObjectMeta k), Annotations := om_Annotations (k_ObjectMeta k) \<rparr>,
       nb_NetworkRef = knb_NetworkRef k, nb_AddressGroupRef = knb_AddressGroupRef k,
       nb_NetworkItem = empty_network_item \<rparr>"

section \<open>Handlers\<close>

text \<open>
  The steps the handlers share: the check before a deletion; the \<^verbatim>\<open>switch\<close> on the operation
  once the object is decoded; decoding and obtaining the reader before it. An operation other
  than creation and update passes the \<^verbatim>\<open>switch\<close>.
\<close>

definition review_deletion ::
  "webhook \<Rightarrow> admission_request \<Rightarrow> string \<Rightarrow> (reader_ops \<Rightarrow> resource_identifier \<Rightarrow> error option) \<Rightarrow>
   admission_response"
where
  "review_deletion w req kind check =
     (case check (wh_reader w) (NewResourceIdentifier (ar_Name req) [WithNamespace (ar_Namespace req)]) of
        Some e \<Rightarrow> errorResponse (ar_UID req) (''Cannot delete '' @ kind @ '': '' @ error_text e)
      | None \<Rightarrow> allowResponse (ar_UID req) (kind @ '' deletion validation passed''))"

definition review_creation ::
  "webhook \<Rightarrow> admission_request \<Rightarrow> string \<Rightarrow> (name_rules \<Rightarrow> 'k option \<Rightarrow> field_error list) \<Rightarrow>
   (reader_ops \<Rightarrow> 'd \<Rightarrow> error option) \<Rightarrow> ('k \<Rightarrow> 'd) \<Rightarrow> 'k \<Rightarrow> admission_response"
where
  "review_creation w req kind fieldCheck create convert k =
     (let errs = fieldCheck (wh_names w) (Some k)
      in if length errs > 0
         then errorResponse (ar_UID req) (kind @ '' K8s validation failed: '' @ wh_aggregate w errs)
         else (case create (wh_reader w) (convert k) of
                 Some e \<Rightarrow> errorResponse (ar_UID req) (kind @ '' validation failed: '' @ error_text e)
               | None \<Rightarrow> allowResponse (ar_UID req) (kind @ '' validation passed'')))"

definition review_update ::
  "webhook \<Rightarrow> admission_request \<Rightarrow> string \<Rightarrow> (string \<Rightarrow> error + 'k) \<Rightarrow>
   (reader_ops \<Rightarrow> 'd \<Rightarrow> 'd \<Rightarrow> error option) \<Rightarrow> ('k \<Rightarrow> 'd) \<Rightarrow> 'k \<Rightarrow> admission_response"
where
  "review_update w req kind decode update convert k =
     (case decode (ar_OldObject req) of
        Inl e \<Rightarrow> errorResponse (ar_UID req) (''Failed to unmarshal old '' @ kind @ '': '' @ error_text e)
      | Inr old \<Rightarrow>
          (case update (wh_reader w) (convert old) (convert k) of
             Some e \<Rightarrow> errorResponse (ar_UID req) (kind @ '' update validation failed: '' @ error_text e)
           | None \<Rightarrow> allowResponse (ar_UID req) (kind @ '' validation passed'')))"

definition with_reader ::
  "webhook \<Rightarrow> admission_request \<Rightarrow> admission_response \<Rightarrow> admission_response"
where
  "with_reader w req r =
     (case wh_GetReader w of
        Some e \<Rightarrow> errorResponse (ar_UID req) (''Failed to get reader: '' @ error_text e)
      | None \<Rightarrow> r)"

definition with_object ::
  "admission_request \<Rightarrow> string \<Rightarrow> (string \<Rightarrow> error + 'k) \<Rightarrow> ('k \<Rightarrow> admission_response) \<Rightarrow> admission_response"
where
  "with_object req kind decode f =
     (case decode (ar_Object req) of
        Inl e \<Rightarrow> errorResponse (ar_UID req) (''Failed to unmarshal '' @ kind @ '': '' @ error_text e)
      | Inr k \<Rightarrow> f k)"

definition review_object ::
  "webhook \<Rightarrow> admission_request \<Rightarrow> string \<Rightarrow> (string \<Rightarrow> error + 'k) \<Rightarrow>
   (name_rules \<Rightarrow> 'k option \<Rightarrow> field_error list) \<Rightarrow> (reader_ops \<Rightarrow> 'd \<Rightarrow> error option) \<Rightarrow>
   (reader_ops \<Rightarrow> 'd \<Rightarrow> 'd \<Rightarrow> error option) \<Rightarrow> ('k \<Rightarrow> 'd) \<Rightarrow> admission_response"
where
  "review_object w req kind decode fieldCheck create update convert =
     with_object req kind decode (\<lambda>k. with_reader w req
       (if ar_Operation req = Create then review_creation w req kind fieldCheck create convert k
        else if ar_Operation req = Update then review_update w req kind decode update convert k
        else allowResponse (ar_UID req) (kind @ '' validation passed'')))"

definition validateService :: "webhook \<Rightarrow> admission_request \<Rightarrow> admission_response" where
  "validateService w req =
     (if ar_Kind req \<noteq> ''Service''
      then errorResponse (ar_UID req) (''Service webhook incorrectly called for '' @ ar_Kind req @ '' resource'')
      else if ar_Operation req = Delete
      then review_deletion w req ''Service'' ServiceValidator_CheckDependencies
      else review_object w req ''Service'' (unmarshal_Service w) K8sService_ValidateCreate
             ServiceValidator_ValidateForCreation ServiceValidator_ValidateForUpdate convertServiceToDomain)"

definition validateAddressGroup :: "webhook \<Rightarrow> admission_request \<Rightarrow> admission_response" where
  "validateAddressGroup w req =
     (if ar_Operation req = Delete
      then review_deletion w req ''AddressGroup'' AddressGroupValidator_CheckDependencies
      else review_object w req ''AddressGroup'' (unmarshal_AddressGroup w) K8sAddressGroup_ValidateCreate
             AddressGroupValidator_ValidateForCreation AddressGroupValidator_ValidateForUpdate
             convertAddressGroupToDomain)"

text \<open>The binding handler obtains the reader only for a creation or an update, after the field checks.\<close>

definition validateAddressGroupBinding :: "webhook \<Rightarrow> admission_request \<Rightarrow> admission_response" where
  "validateAddressGroupBinding w req =
     (if ar_Kind req \<noteq> ''AddressGroupBinding''
      then errorResponse (ar_UID req)
             (''AddressGroupBinding webhook incorrectly called for '' @ ar_Kind req @ '' resource'')
      else if ar_Operation req = Delete
      then review_deletion w req ''AddressGroupBinding'' AddressGroupBindingValidator_CheckDependencies
      else with_object req ''AddressGroupBinding'' (unmarshal_AddressGroupBinding w) (\<lambda>k.
        if ar_Operation req = Create then
          (let errs = K8sAddressGroupBinding_ValidateCreate (wh_names w) (Some k)
           in if length errs > 0
              then errorResponse (ar_UID req)
                     (''AddressGroupBinding K8s validation failed: '' @ wh_aggregate w errs)
              else with_reader w req
                (case AddressGroupBindingValidator_ValidateForCreation (wh_reader w)
                        (convertAddressGroupBindingToDomain k) of
                   Some e \<Rightarrow> errorResponse (ar_UID req)
                               (''AddressGroupBinding validation failed: '' @ error_text e)
                 | None \<Rightarrow> allowResponse (ar_UID req) ''AddressGroupBinding validation passed''))
        else if ar_Operation req = Update then
          with_reader w req
            (review_update w req ''AddressGroupBinding'' (unmarshal_AddressGroupBinding w)
               AddressGroupBindingValidator_ValidateForUpdate convertAddressGroupBindingToDomain k)
        else allowResponse (ar_UID req) ''AddressGroupBinding validation passed''))"

definition validateAddressGroupPortMapping :: "webhook \<Rightarrow> admission_request \<Rightarrow> admission_response" where
  "validateAddressGroupPortMapping w req =
     review_object w req ''AddressGroupPortMapping'' (unmarshal_AddressGroupPortMapping w)
       K8sPortMapping_ValidateCreate PortMappingValidator_ValidateForCreation
       PortMappingValidator_ValidateForUpdate convertAddressGroupPortMappingToDomain"

definition validateRuleS2S :: "webhook \<Rightarrow> admission_request \<Rightarrow> admission_response" where
  "validateRuleS2S w req =
     (if ar_Operation req = Delete
      then review_deletion w req ''RuleS2S'' RuleS2SValidator_CheckDependencies
      else review_object w req ''RuleS2S'' (unmarshal_RuleS2S w) K8sRuleS2S_ValidateCreate
             RuleS2SValidator_ValidateForCreation RuleS2SValidator_ValidateForUpdate convertRuleS2SToDomain)"

text \<open>The case for deletions in the \<^verbatim>\<open>switch\<close> of the alias handler is never reached.\<close>

definition validateServiceAlias :: "webhook \<Rightarrow> admission_request \<Rightarrow> admission_response" where
  "validateServiceAlias w req =
     (if ar_Operation req = Delete
      then review_deletion w req ''ServiceAlias'' ServiceAliasValidator_CheckDependencies
      else review_object w req ''ServiceAlias'' (unmarshal_ServiceAlias w) K8sServiceAlias_ValidateCreate
             ServiceAliasValidator_ValidateForCreation ServiceAliasValidator_ValidateForUpdate
             convertServiceAliasToDomain)"

definition validateAddressGroupBindingPolicy :: "webhook \<Rightarrow> admission_request \<Rightarrow> admission_response" where
  "validateAddressGroupBindingPolicy w req =
     review_object w req ''AddressGroupBindingPolicy'' (unmarshal_AddressGroupBindingPolicy w)
       K8sPolicy_ValidateCreate PolicyValidator_ValidateForCreation PolicyValidator_ValidateForUpdate
       convertAddressGroupBindingPolicyToDomain"

definition validateIEAgAgRule :: "webhook \<Rightarrow> admission_request \<Rightarrow> admission_response" where
  "validateIEAgAgRule w req =
     review_object w req ''IEAgAgRule'' (unmarshal_IEAgAgRule w) K8sIEAgAgRule_ValidateCreate
       IEAgAgRuleValidator_ValidateForCreation IEAgAgRuleValidator_ValidateForUpdate convertIEAgAgRuleToDomain"

definition validateNetwork :: "webhook \<Rightarrow> admission_request \<Rightarrow> admission_response" where
  "validateNetwork w req =
     review_object w req ''Network'' (unmarshal_Network w) K8sNetwork_ValidateCreate
       NetworkValidator_ValidateForCreation NetworkValidator_ValidateForUpdate convertNetworkToDomain"

definition validateNetworkBinding :: "webhook \<Rightarrow> admission_request \<Rightarrow> admission_response" where
  "validateNetworkBinding w req =
     review_object w req ''NetworkBinding'' (unmarshal_NetworkBinding w) K8sNetworkBinding_ValidateCreate
       NetworkBindingValidator_ValidateForCreation NetworkBindingValidator_ValidateForUpdate
       convertNetworkBindingToDomain"

definition ValidateAdmissionReview :: "webhook \<Rightarrow> admission_request \<Rightarrow> admission_response" where
  "ValidateAdmissionReview w req =
     (if ar_Kind req = ''Service'' then validateService w req
      else if ar_Kind req = ''AddressGroup'' then validateAddressGroup w req
      else if ar_Kind req = ''AddressGroupBinding'' then validateAddressGroupBinding w req
      else if ar_Kind req = ''AddressGroupPortMapping'' then validateAddressGroupPortMapping w req
      else if ar_Kind req = ''RuleS2S'' then validateRuleS2S w req
      else if ar_Kind req = ''ServiceAlias'' then validateServiceAlias w req
      else if ar_Kind req = ''AddressGroupBindingPolicy'' then validateAddressGroupBindingPolicy w req
      else if ar_Kind req = ''IEAgAgRule'' then validateIEAgAgRule w req
      else if ar_Kind req = ''Network'' then validateNetwork w req
      else if ar_Kind req = ''NetworkBinding'' then validateNetworkBinding w req
      else errorResponse (ar_UID req) (''Unknown resource kind: '' @ ar_Kind req))"

end
