(* ===== verification/Mutation.thy ===== *)
theory Mutation
  imports Admission
begin

text \<open>
  The mutating admission webhook (\<^verbatim>\<open>internal/k8s/admission/mutation.go\<close>) and the HTTP handler
  of both webhooks (\<^verbatim>\<open>server.go\<close>). A mutation is a list of JSON patches; their encoding is not
  modelled, so a response carries the list. The decoder of the webhook takes the place of
  \<^verbatim>\<open>runtime.DecodeInto\<close>. The API server leaves empty labels, annotations and finalizers
  out of an object, so an empty list in the model is the nil value of the code.
\<close>

section \<open>Patches\<close>

definition patch :: "string \<Rightarrow> string \<Rightarrow> patch_value \<Rightarrow> json_patch" where
  "patch operation path value = \<lparr> jp_op = operation, jp_path = path, jp_value = value \<rparr>"

definition addManagedByLabel :: "'a k8s_object_scheme \<Rightarrow> json_patch list" where
  "addManagedByLabel obj =
     (let labels = om_Labels (k_ObjectMeta obj)
      in (if labels = [] then [patch ''add'' ''/metadata/labels'' PatchEmptyMap] else []) @
         (if map_of labels ''app.kubernetes.io/managed-by'' = None
          then [patch ''add'' ''/metadata/labels/app.kubernetes.io~1managed-by'' (PatchString ''netguard-apiserver'')]
          else []))"

definition addCreatedByAnnotation :: "'a k8s_object_scheme \<Rightarrow> json_patch list" where
  "addCreatedByAnnotation obj =
     (let annotations = om_Annotations (k_ObjectMeta obj)
      in (if annotations = [] then [patch ''add'' ''/metadata/annotations'' PatchEmptyMap] else []) @
         (if map_of annotations ''netguard.sgroups.io/created-by'' = None
          then [patch ''add'' ''/metadata/annotations/netguard.sgroups.io~1created-by'' (PatchString ''aggregated-api'')]
          else []))"

definition addFinalizer :: "'a k8s_object_scheme \<Rightarrow> string \<Rightarrow> json_patch list" where
  "addFinalizer obj finalizer =
     (let finalizers = om_Finalizers (k_ObjectMeta obj)
      in (if finalizers = [] then [patch ''add'' ''/metadata/finalizers'' PatchEmptyList] else []) @
         (if finalizer \<in> set finalizers then []
          else [patch ''add'' ''/metadata/finalizers/-'' (PatchString finalizer)]))"

definition common_patches :: "'a k8s_object_scheme \<Rightarrow> json_patch list" where
  "common_patches obj =
     addManagedByLabel obj @ addCreatedByAnnotation obj @ addFinalizer obj ''netguard.sgroups.io/backend-sync''"

definition default_namespace :: "nref \<Rightarrow> string \<Rightarrow> string \<Rightarrow> json_patch list" where
  "default_namespace ref path ns =
     (if ref_Namespace ref = [] then [patch ''replace'' path (PatchString ns)] else [])"

definition createPatchResponse :: "string \<Rightarrow> json_patch list \<Rightarrow> admission_response" where
  "createPatchResponse uid patches =
     (if length patches = 0
      then \<lparr> resp_UID = uid, resp_Allowed = True, resp_Result = None, resp_Patch = None \<rparr>
      else \<lparr> resp_UID = uid, resp_Allowed = True, resp_Result = None, resp_Patch = Some patches \<rparr>)"

definition mutation_errorResponse :: "string \<Rightarrow> string \<Rightarrow> admission_response" where
  "mutation_errorResponse uid message =
     \<lparr> resp_UID = uid, resp_Allowed = False,
       resp_Result = Some \<lparr> sr_Code = 422, sr_Message = message \<rparr>, resp_Patch = None \<rparr>"

definition decoded ::
  "admission_request \<Rightarrow> string \<Rightarrow> (string \<Rightarrow> error + 'k) \<Rightarrow> ('k \<Rightarrow> json_patch list) \<Rightarrow> admission_response"
where
  "decoded req kind decode patches =
     (case decode (ar_Object req) of
        Inl e \<Rightarrow> mutation_errorResponse (ar_UID req) (''Failed to decode '' @ kind @ '': '' @ error_text e)
      | Inr k \<Rightarrow> createPatchResponse (ar_UID req) (patches k))"

section \<open>Handlers\<close>

definition service_patches :: "k8s_service \<Rightarrow> json_patch list" where
  "service_patches k =
     common_patches k @
     (if ksv_Description k = []
      then [patch ''replace'' ''/spec/description''
              (PatchString (''Service '' @ k_Name k @ '' managed by netguard-apiserver''))] else [])"

definition address_group_patches :: "k8s_address_group \<Rightarrow> json_patch list" where
  "address_group_patches k =
     common_patches k @
     (if kag_DefaultAction k = []
      then [patch ''replace'' ''/spec/defaultAction'' (PatchString ''ACCEPT'')] else [])"

definition binding_patches :: "k8s_address_group_binding \<Rightarrow> json_patch list" where
  "binding_patches k =
     common_patches k @
     default_namespace (kagb_AddressGroupRef k) ''/spec/addressGroupRef/namespace'' (k_Namespace k) @
     default_namespace (kagb_ServiceRef k) ''/spec/serviceRef/namespace'' (k_Namespace k)"

definition rule_s2s_patches :: "k8s_rule_s2s \<Rightarrow> json_patch list" where
  "rule_s2s_patches k =
     common_patches k @
     default_namespace (krs_ServiceLocalRef k) ''/spec/serviceLocalRef/namespace'' (k_Namespace k) @
     default_namespace (krs_ServiceRef k) ''/spec/serviceRef/namespace'' (k_Namespace k)"

definition alias_patches :: "k8s_service_alias \<Rightarrow> json_patch list" where
  "alias_patches k =
     common_patches k @ default_namespace (ksa_ServiceRef k) ''/spec/serviceRef/namespace'' (k_Namespace k)"

definition policy_patches :: "k8s_address_group_binding_policy \<Rightarrow> json_patch list" where
  "policy_patches k =
     common_patches k @
     default_namespace (kagbp_AddressGroupRef k) ''/spec/addressGroupRef/namespace'' (k_Namespace k) @
     default_namespace (kagbp_ServiceRef k) ''/spec/serviceRef/namespace'' (k_Namespace k)"

definition mutateService :: "webhook \<Rightarrow> admission_request \<Rightarrow> admission_response" where
  "mutateService w req = decoded req ''Service'' (unmarshal_Service w) service_patches"

definition mutateAddressGroup :: "webhook \<Rightarrow> admission_request \<Rightarrow> admission_response" where
  "mutateAddressGroup w req = decoded req ''AddressGroup'' (unmarshal_AddressGroup w) address_group_patches"

definition mutateAddressGroupBinding :: "webhook \<Rightarrow> admission_request \<Rightarrow> admission_response" where
  "mutateAddressGroupBinding w req =
     decoded req ''AddressGroupBinding'' (unmarshal_AddressGroupBinding w) binding_patches"

definition mutateAddressGroupPortMapping :: "webhook \<Rightarrow> admission_request \<Rightarrow> admission_response" where
  "mutateAddressGroupPortMapping w req =
     decoded req ''AddressGroupPortMapping'' (unmarshal_AddressGroupPortMapping w) common_patches"

definition mutateRuleS2S :: "webhook \<Rightarrow> admission_request \<Rightarrow> admission_response" where
  "mutateRuleS2S w req = decoded req ''RuleS2S'' (unmarshal_RuleS2S w) rule_s2s_patches"

definition mutateServiceAlias :: "webhook \<Rightarrow> admission_request \<Rightarrow> admission_response" where
  "mutateServiceAlias w req = decoded req ''ServiceAlias'' (unmarshal_ServiceAlias w) alias_patches"

definition mutateAddressGroupBindingPolicy :: "webhook \<Rightarrow> admission_request \<Rightarrow> admission_response" where
  "mutateAddressGroupBindingPolicy w req =
     decoded req ''AddressGroupBindingPolicy'' (unmarshal_AddressGroupBindingPolicy w) policy_patches"

definition mutateIEAgAgRule :: "webhook \<Rightarrow> admission_request \<Rightarrow> admission_response" where
  "mutateIEAgAgRule w req = decoded req ''IEAgAgRule'' (unmarshal_IEAgAgRule w) common_patches"

definition MutationWebhook_Handle :: "webhook \<Rightarrow> admission_request \<Rightarrow> admission_response" where
  "MutationWebhook_Handle w req =
     (if ar_Kind req = ''Service'' then mutateService w req
      else if ar_Kind req = ''AddressGroup'' then mutateAddressGroup w req
      else if ar_Kind req = ''AddressGroupBinding'' then mutateAddressGroupBinding w req
      else if ar_Kind req = ''AddressGroupPortMapping'' then mutateAddressGroupPortMapping w req
      else if ar_Kind req = ''RuleS2S'' then mutateRuleS2S w req
      else if ar_Kind req = ''ServiceAlias'' then mutateServiceAlias w req
      else if ar_Kind req = ''AddressGroupBindingPolicy'' then mutateAddressGroupBindingPolicy w req
      else if ar_Kind req = ''IEAgAgRule'' then mutateIEAgAgRule w req
      else \<lparr> resp_UID = ar_UID req, resp_Allowed = True, resp_Result = None, resp_Patch = None \<rparr>)"

section \<open>The HTTP handler\<close>

text \<open>
  A request body that can be read is a string; decoding it gives an admission review, whose
  request may be missing. A handler that panics returns the text of the panic. The reply is an
  HTTP error or an admission review with a response.
\<close>

record http_request =
  http_Method :: string
  http_ContentType :: string
  http_Body :: "error + string"

datatype http_reply = HttpError int string | HttpReview admission_response

definition handleAdmission ::
  "(string \<Rightarrow> error + admission_request option) \<Rightarrow> (admission_request \<Rightarrow> string + admission_response) \<Rightarrow>
   http_request \<Rightarrow> http_reply"
where
  "handleAdmission decodeReview handler r =
     (if http_Method r \<noteq> ''POST'' then HttpError 405 ''Method not allowed''
      else if http_ContentType r \<noteq> ''application/json''
      then HttpError 415 ''Content-Type must be application/json''
      else (case http_Body r of
        Inl _ \<Rightarrow> HttpError 400 ''Failed to read request body''
      | Inr body \<Rightarrow>
          (case decodeReview body of
             Inl _ \<Rightarrow> HttpError 400 ''Failed to decode admission review''
           | Inr None \<Rightarrow> HttpError 400 ''Admission review request is nil''
           | Inr (Some req) \<Rightarrow>
               (case handler req of
                  Inl panic \<Rightarrow>
                    HttpReview \<lparr> resp_UID = ar_UID req, resp_Allowed = False,
                      resp_Result = Some \<lparr> sr_Code = 500,
                        sr_Message = ''Internal webhook error: '' @ panic \<rparr>,
                      resp_Patch = None \<rparr>
                | Inr resp \<Rightarrow>
                    HttpReview (if resp_UID resp = [] then resp\<lparr>resp_UID := ar_UID req\<rparr> else resp)))))"

definition handleValidation ::
  "webhook \<Rightarrow> (string \<Rightarrow> error + admission_request option) \<Rightarrow> http_request \<Rightarrow> http_reply"
where
  "handleValidation w decodeReview r =
     handleAdmission decodeReview (\<lambda>req. Inr (ValidateAdmissionReview w req)) r"

definition handleMutation ::
  "webhook \<Rightarrow> (string \<Rightarrow> error + admission_request option) \<Rightarrow> http_request \<Rightarrow> http_reply"
where
  "handleMutation w decodeReview r =
     handleAdmission decodeReview (\<lambda>req. Inr (MutationWebhook_Handle w req)) r"

text \<open>The configuration check; durations are in nanoseconds.\<close>

record webhook_server_config =
  wsc_Port :: int
  wsc_CertFile :: string
  wsc_KeyFile :: string
  wsc_TLSEnabled :: bool
  wsc_ReadTimeout :: int
  wsc_WriteTimeout :: int
  wsc_IdleTimeout :: int

definition WebhookServerConfig_Validate :: "webhook_server_config \<Rightarrow> error option" where
  "WebhookServerConfig_Validate c =
     (if wsc_Port c \<le> 0 \<or> wsc_Port c > 65535 then Some (Errorf ''port must be between 1 and 65535'')
      else if wsc_TLSEnabled c \<and> wsc_CertFile c = []
      then Some (Errorf ''cert_file is required when TLS is enabled'')
      else if wsc_TLSEnabled c \<and> wsc_KeyFile c = []
      then Some (Errorf ''key_file is required when TLS is enabled'')
      else if wsc_ReadTimeout c \<le> 0 then Some (Errorf ''read_timeout must be positive'')
      else if wsc_WriteTimeout c \<le> 0 then Some (Errorf ''write_timeout must be positive'')
      else if wsc_IdleTimeout c \<le> 0 then Some (Errorf ''idle_timeout must be positive'')
      else None)"

end
