(* ===== verification/AdmissionFacts.thy ===== *)
theory AdmissionFacts
  imports Mutation PortConflicts Integrity Samples
begin

text \<open>
  Facts about the field validation and the webhooks: the reference predicates that the field
  checks decide, the objects on which the validating webhook cannot decide differently, and the
  parts of its answers to creations, updates and deletions.
\<close>

section \<open>Accepted metadata and references\<close>

definition meta_accepted :: "name_rules \<Rightarrow> object_meta \<Rightarrow> bool" where
  "meta_accepted nr om \<longleftrightarrow>
     (om_Name om \<noteq> [] \<or> om_GenerateName om \<noteq> []) \<and>
     (om_Name om = [] \<or> IsDNS1123Subdomain nr (om_Name om) = []) \<and>
     (om_GenerateName om = [] \<or> length (om_GenerateName om) \<le> 253 \<and>
        alnum_char (hd (om_GenerateName om)) \<and> list_all dns_char (om_GenerateName om)) \<and>
     (om_Namespace om = [] \<or> IsDNS1123Subdomain nr (om_Namespace om) = []) \<and>
     list_all (\<lambda>(k, v). IsQualifiedName nr k = [] \<and> IsValidLabelValue nr v = []) (om_Labels om) \<and>
     list_all (\<lambda>(k, v). IsQualifiedName nr k = [] \<and>
        (length v \<le> maxAnnotationValueLen \<or>
         take (length ''kubectl.kubernetes.io/'') k = ''kubectl.kubernetes.io/'')) (om_Annotations om)"

lemma dns_char_alnum: "dns_char c \<Longrightarrow> c \<noteq> CHR ''-'' \<Longrightarrow> c \<noteq> CHR ''.'' \<Longrightarrow> alnum_char c"
  by (auto simp: dns_char_def alnum_char_def Let_def)

lemma alnum_not_sign [simp]: "\<not> alnum_char CHR ''-''" "\<not> alnum_char CHR ''.''"
  by (simp_all add: alnum_char_def)

lemma generate_name_accepted:
  assumes "s \<noteq> []"
  shows "validateGenerateName s = [] \<longleftrightarrow> length s \<le> 253 \<and> alnum_char (hd s) \<and> list_all dns_char s"
proof (cases "list_all dns_char s")
  case True
  then have "dropWhile dns_char s = []" and "dns_char (hd s)"
    using assms by (simp_all add: list_all_iff)
  moreover from this(2) have "alnum_char (hd s) \<longleftrightarrow> hd s \<noteq> CHR ''-'' \<and> hd s \<noteq> CHR ''.''"
    using dns_char_alnum [of "hd s"] by auto
  ultimately show ?thesis
    using assms True by (simp add: validateGenerateName_def not_less del: dropWhile_eq_Nil_conv)
next
  case False
  then obtain c cs where "dropWhile dns_char s = c # cs"
    by (metis dropWhile_eq_Nil_conv list_all_iff neq_Nil_conv)
  with assms False show ?thesis by (simp add: validateGenerateName_def)
qed

lemma label_accepted:
  "label_errors nr p kv = [] \<longleftrightarrow> (case kv of (k, v) \<Rightarrow> IsQualifiedName nr k = [] \<and> IsValidLabelValue nr v = [])"
  by (simp add: label_errors_def split: prod.split)

lemma annotation_accepted:
  "annotation_errors nr p kv = [] \<longleftrightarrow> (case kv of (k, v) \<Rightarrow> IsQualifiedName nr k = [] \<and>
     (length v \<le> maxAnnotationValueLen \<or> take (length ''kubectl.kubernetes.io/'') k = ''kubectl.kubernetes.io/''))"
  by (auto simp: annotation_errors_def not_less split: prod.split)

lemma metadata_accepted: "validateMetadata nr k = [] \<longleftrightarrow> meta_accepted nr (k_ObjectMeta k)"
proof -
  have "concat (map f xs) = [] \<longleftrightarrow> list_all (\<lambda>x. f x = []) xs" for f :: "string \<times> string \<Rightarrow> field_error list" and xs
    by (simp add: list_all_iff)
  then show ?thesis
    by (auto simp: validateMetadata_def ValidateStandardObjectMeta_def meta_accepted_def label_accepted
        annotation_accepted generate_name_accepted simp del: concat_eq_Nil_conv length_Cons)
qed

definition ref_named :: "name_rules \<Rightarrow> 'a object_reference_scheme \<Rightarrow> bool" where
  "ref_named nr r \<longleftrightarrow> ref_Name r \<noteq> [] \<and> IsDNS1123Subdomain nr (ref_Name r) = []"

definition ref_to :: "name_rules \<Rightarrow> string \<Rightarrow> nref \<Rightarrow> bool" where
  "ref_to nr kind r \<longleftrightarrow> ref_APIVersion r = APIVersionV1Beta1 \<and> ref_Kind r = kind \<and> ref_named nr r \<and>
     ref_Namespace r \<noteq> [] \<and> IsDNS1123Subdomain nr (ref_Namespace r) = []"

lemma namespaced_ref_accepted:
  "ValidateNamespacedObjectReference nr (Some r) p = [] \<longleftrightarrow>
     ref_APIVersion r \<noteq> [] \<and> ref_Kind r \<noteq> [] \<and> ref_named nr r \<and>
     ref_Namespace r \<noteq> [] \<and> IsDNS1123Subdomain nr (ref_Namespace r) = []"
  by (auto simp: ValidateNamespacedObjectReference_def ref_named_def)

lemma version_nonempty [simp]: "APIVersionV1Beta1 \<noteq> []" "[] \<noteq> APIVersionV1Beta1"
  by (simp_all add: APIVersionV1Beta1_def)

lemma set_ref_accepted:
  assumes "kind \<noteq> []"
  shows "ValidateNamespacedObjectReference nr (Some r) p = [] \<and> set_ref_domain r kind p = [] \<longleftrightarrow> ref_to nr kind r"
    and "ValidateNamespacedObjectReference nr (Some r) p = [] \<and> set_ref_domain r kind p = [] \<and> b \<longleftrightarrow>
      ref_to nr kind r \<and> b"
  using assms by (auto simp: set_ref_domain_def namespaced_ref_accepted ref_to_def)

lemma full_ref_accepted:
  assumes "kind \<noteq> []"
  shows "ValidateNamespacedObjectReference nr (Some r) p = [] \<and> full_ref_domain r kind p = [] \<longleftrightarrow> ref_to nr kind r"
    and "ValidateNamespacedObjectReference nr (Some r) p = [] \<and> full_ref_domain r kind p = [] \<and> b \<longleftrightarrow>
      ref_to nr kind r \<and> b"
  using assms by (auto simp: full_ref_domain_def namespaced_ref_accepted ref_to_def)

section \<open>Accepted objects\<close>

definition tcp_or_udp :: "string \<Rightarrow> bool" where
  "tcp_or_udp p \<longleftrightarrow> p = ''TCP'' \<or> p = ''UDP''"

definition ingress_or_egress :: "string \<Rightarrow> bool" where
  "ingress_or_egress t \<longleftrightarrow> t = ''INGRESS'' \<or> t = ''EGRESS''"

definition accept_or_drop :: "string \<Rightarrow> bool" where
  "accept_or_drop a \<longleftrightarrow> a = ''ACCEPT'' \<or> a = ''DROP''"

definition ingress_port_typed :: "ingress_port \<Rightarrow> bool" where
  "ingress_port_typed p \<longleftrightarrow> (ip_Protocol p = [] \<or> tcp_or_udp (ip_Protocol p)) \<and> ip_Port p \<noteq> [] \<and>
     length (ip_Port p) \<le> 32 \<and> length (ip_Description p) \<le> 512"

definition service_typed :: "k8s_service \<Rightarrow> bool" where
  "service_typed k \<longleftrightarrow> length (ksv_Description k) \<le> 512 \<and>
     list_all ingress_port_typed (ksv_IngressPorts k) \<and>
     distinct (map ingress_port_key (ksv_IngressPorts k))"

definition port_spec_typed :: "k8s_port_spec \<Rightarrow> bool" where
  "port_spec_typed p \<longleftrightarrow>
     (case kps_PortRange p of
        None \<Rightarrow> 1 \<le> kps_Port p \<and> kps_Port p \<le> 65535
      | Some r \<Rightarrow> kps_Port p = 0 \<and> 1 \<le> kpr_From r \<and> kpr_From r \<le> kpr_To r \<and> kpr_To r \<le> 65535)"

definition ie_typed :: "name_rules \<Rightarrow> k8s_ieagag_rule \<Rightarrow> bool" where
  "ie_typed nr k \<longleftrightarrow> length (kie_Description k) \<le> 512 \<and> tcp_or_udp (kie_Transport k) \<and>
     ingress_or_egress (kie_Traffic k) \<and> ref_to nr ''AddressGroup'' (kie_AddressGroupLocal k) \<and>
     ref_to nr ''AddressGroup'' (kie_AddressGroup k) \<and> list_all port_spec_typed (kie_Ports k) \<and>
     (kie_Action k = [] \<or> accept_or_drop (kie_Action k)) \<and> 0 \<le> kie_Priority k"

definition rule_typed :: "name_rules \<Rightarrow> k8s_rule_s2s \<Rightarrow> bool" where
  "rule_typed nr k \<longleftrightarrow> ingress_or_egress (krs_Traffic k) \<and>
     list_all (\<lambda>r. ref_APIVersion r \<noteq> [] \<and> ref_Kind r = ''Service'' \<and> ref_named nr r \<and>
       ref_Namespace r \<noteq> [] \<and> IsDNS1123Subdomain nr (ref_Namespace r) = [])
       [krs_ServiceLocalRef k, krs_ServiceRef k]"

definition alias_typed :: "name_rules \<Rightarrow> k8s_service_alias \<Rightarrow> bool" where
  "alias_typed nr k \<longleftrightarrow>
     (ref_Namespace (ksa_ServiceRef k) = [] \<or> ref_Namespace (ksa_ServiceRef k) = k_Namespace k) \<and>
     ref_to nr ''Service'' ((ksa_ServiceRef k)\<lparr>ref_Namespace := k_Namespace k\<rparr>)"

definition config_typed :: "port_config \<Rightarrow> bool" where
  "config_typed c \<longleftrightarrow> pc_Port c \<noteq> [] \<and> length (pc_Port c) \<le> 32 \<and> length (pc_Description c) \<le> 256"

definition service_ports_typed :: "name_rules \<Rightarrow> k8s_service_ports_ref \<Rightarrow> bool" where
  "service_ports_typed nr r \<longleftrightarrow> ref_to nr ''Service'' (kspr_Ref r) \<and>
     list_all config_typed (kpp_TCP (kspr_Ports r)) \<and> list_all config_typed (kpp_UDP (kspr_Ports r))"

definition mapping_typed :: "name_rules \<Rightarrow> k8s_address_group_port_mapping \<Rightarrow> bool" where
  "mapping_typed nr k \<longleftrightarrow> list_all (service_ports_typed nr) (aps_Items (kagpm_AccessPorts k))"

definition object_ref_to :: "name_rules \<Rightarrow> string \<Rightarrow> object_reference \<Rightarrow> bool" where
  "object_ref_to nr kind r \<longleftrightarrow> ref_APIVersion r = APIVersionV1Beta1 \<and> ref_Kind r = kind \<and> ref_named nr r"

definition host_binding_typed :: "k8s_host_binding \<Rightarrow> bool" where
  "host_binding_typed k \<longleftrightarrow>
     list_all (\<lambda>(r, kind). ref_Name r \<noteq> [] \<and> ref_Namespace r \<noteq> [] \<and> length (ref_Name r) \<le> 253 \<and>
       (ref_Kind r = [] \<or> ref_Kind r = kind) \<and> (ref_APIVersion r = [] \<or> ref_APIVersion r = APIVersionV1Beta1))
       [(khb_HostRef k, ''Host''), (khb_AddressGroupRef k, ''AddressGroup'')] \<and>
     ref_Name (khb_HostRef k) \<noteq> ref_Name (khb_AddressGroupRef k)"

lemma ports_duplicates_Nil:
  "ports_duplicates p i seen ports = [] \<longleftrightarrow>
     distinct (map ingress_port_key ports) \<and>
     ingress_port_key ` set ports \<inter> set seen = {}"
proof (induction ports arbitrary: i seen)
  case (Cons a ports)
  show ?case by (auto simp: Let_def Cons)
qed simp

lemma index_errors_all:
  "(\<And>j x. f j x = [] \<longleftrightarrow> P x) \<Longrightarrow> index_errors i f xs = [] \<longleftrightarrow> list_all P xs"
  by (simp add: list_all_length)

lemma transport_accepted: "ValidateTransportProtocol t p = [] \<longleftrightarrow> t = [] \<or> tcp_or_udp t"
  by (simp add: ValidateTransportProtocol_def ValidateEnum_def tcp_or_udp_def)

lemma ingress_ports_accepted: "ValidateIngressPorts ports p = [] \<longleftrightarrow> list_all ingress_port_typed ports"
  unfolding ValidateIngressPorts_def
  by (rule index_errors_all) (auto simp: Let_def transport_accepted ingress_port_typed_def not_less)

lemma service_accepted:
  "K8sService_ValidateCreate nr (Some k) = [] \<longleftrightarrow> meta_accepted nr (k_ObjectMeta k) \<and> service_typed k"
  by (auto simp: K8sService_ValidateCreate_def service_validate_def service_validateSpec_def metadata_accepted
      service_typed_def ValidateDescription_def ingress_ports_accepted validateIngressPortsDuplicates_def
      ports_duplicates_Nil not_less)

lemma group_accepted:
  "K8sAddressGroup_ValidateCreate nr (Some k) = [] \<longleftrightarrow>
     meta_accepted nr (k_ObjectMeta k) \<and> accept_or_drop (kag_DefaultAction k)"
  by (auto simp: K8sAddressGroup_ValidateCreate_def address_group_validate_def metadata_accepted
      validateDefaultAction_def ValidateRuleAction_def ValidateEnum_def accept_or_drop_def)

lemma binding_accepted:
  "K8sAddressGroupBinding_ValidateCreate nr (Some k) = [] \<longleftrightarrow> meta_accepted nr (k_ObjectMeta k) \<and>
     ref_to nr ''Service'' (kagb_ServiceRef k) \<and> ref_to nr ''AddressGroup'' (kagb_AddressGroupRef k)"
  by (simp add: K8sAddressGroupBinding_ValidateCreate_def binding_validate_def binding_validateSpec_def
      metadata_accepted full_ref_accepted)

lemma policy_accepted:
  "K8sPolicy_ValidateCreate nr (Some k) = [] \<longleftrightarrow> meta_accepted nr (k_ObjectMeta k) \<and>
     ref_to nr ''Service'' (kagbp_ServiceRef k) \<and> ref_to nr ''AddressGroup'' (kagbp_AddressGroupRef k)"
  by (auto simp: K8sPolicy_ValidateCreate_def policy_validate_def policy_validateRef_def metadata_accepted
      set_ref_accepted)

lemma alias_accepted:
  "K8sServiceAlias_ValidateCreate nr (Some k) = [] \<longleftrightarrow> meta_accepted nr (k_ObjectMeta k) \<and> alias_typed nr k"
  by (cases "ref_Namespace (ksa_ServiceRef k) = []"; cases "ref_Namespace (ksa_ServiceRef k) = k_Namespace k")
    (simp_all add: K8sServiceAlias_ValidateCreate_def alias_validate_def alias_validateServiceRef_def
      metadata_accepted set_ref_accepted alias_typed_def Let_def ref_to_def ref_named_def)

lemma rule_accepted:
  "K8sRuleS2S_ValidateCreate nr (Some k) = [] \<longleftrightarrow> meta_accepted nr (k_ObjectMeta k) \<and> rule_typed nr k"
  by (auto simp: K8sRuleS2S_ValidateCreate_def rule_s2s_validate_def rule_s2s_validateSpec_def
      metadata_accepted namespaced_ref_accepted rule_typed_def validateTrafficRequired_def ValidateTraffic_def ValidateEnum_def
      ingress_or_egress_def rule_ref_domain_def)

lemma port_config_accepted: "validatePortConfig c p = [] \<longleftrightarrow> config_typed c"
  by (auto simp: validatePortConfig_def ValidateRequiredString_def ValidateDescription_def config_typed_def not_less)

lemma service_ports_accepted: "validateServicePortsRef nr r p = [] \<longleftrightarrow> service_ports_typed nr r"
  by (simp add: validateServicePortsRef_def full_ref_accepted service_ports_typed_def validateProtocolPorts_def
      index_errors_all [OF port_config_accepted] del: index_errors_Nil)

lemma mapping_accepted:
  "K8sPortMapping_ValidateCreate nr (Some k) = [] \<longleftrightarrow> meta_accepted nr (k_ObjectMeta k) \<and> mapping_typed nr k"
  by (simp add: K8sPortMapping_ValidateCreate_def port_mapping_validate_def validateAccessPorts_def
      mapping_typed_def metadata_accepted index_errors_all [OF service_ports_accepted] del: index_errors_Nil)

lemma port_spec_accepted: "ie_validatePortSpec p path = [] \<longleftrightarrow> port_spec_typed p"
  by (auto simp: ie_validatePortSpec_def ie_validatePortRange_def port_spec_typed_def Let_def not_less
      split: option.splits)

lemma ie_group_accepted: "ie_validateGroup nr r p = [] \<longleftrightarrow> ref_to nr ''AddressGroup'' r"
  using set_ref_accepted [of "''AddressGroup''"] by (simp add: ie_validateGroup_def)

lemma ie_enums_accepted:
  "validateTransport t p = [] \<longleftrightarrow> tcp_or_udp t"
  "ValidateRequiredEnum d n [''INGRESS'', ''EGRESS''] p = [] \<longleftrightarrow> ingress_or_egress d"
  "validateAction a p = [] \<longleftrightarrow> accept_or_drop a"
  by (auto simp: validateTransport_def TCP_def UDP_def tcp_or_udp_def ValidateRequiredEnum_def
      ingress_or_egress_def validateAction_def accept_or_drop_def)

lemma ie_ports_accepted: "ie_validatePorts ps p = [] \<longleftrightarrow> list_all port_spec_typed ps"
  by (simp add: ie_validatePorts_def port_spec_accepted list_all_length)

lemma ie_accepted:
  "K8sIEAgAgRule_ValidateCreate nr (Some k) = [] \<longleftrightarrow> meta_accepted nr (k_ObjectMeta k) \<and> ie_typed nr k"
  by (auto simp: K8sIEAgAgRule_ValidateCreate_def ie_validate_def ie_validateSpec_def metadata_accepted
      ie_typed_def ie_group_accepted ie_enums_accepted ie_ports_accepted not_less)

lemma network_accepted:
  "K8sNetwork_ValidateCreate nr (Some k) = [] \<longleftrightarrow>
     meta_accepted nr (k_ObjectMeta k) \<and> knw_CIDR k \<noteq> [] \<and> ParseCIDR (knw_CIDR k) = None"
  by (auto simp: K8sNetwork_ValidateCreate_def network_validate_def metadata_accepted field_ValidateCIDR_def
      split: option.splits)

lemma network_binding_accepted:
  "K8sNetworkBinding_ValidateCreate nr (Some k) = [] \<longleftrightarrow> meta_accepted nr (k_ObjectMeta k) \<and>
     object_ref_to nr ''Network'' (knb_NetworkRef k) \<and> object_ref_to nr ''AddressGroup'' (knb_AddressGroupRef k)"
  by (auto simp: K8sNetworkBinding_ValidateCreate_def network_binding_validate_def metadata_accepted
      nb_validateObjectReference_def ValidateObjectReference_def object_ref_to_def ref_named_def)

lemma host_accepted:
  "K8sHost_ValidateCreate nr (Some k) = [] \<longleftrightarrow> meta_accepted nr (k_ObjectMeta k) \<and> uuid_matches (kh_UUID k)"
  by (auto simp: K8sHost_ValidateCreate_def host_validateSpec_def metadata_accepted uuid_matches_def hex_group_def)

lemma host_binding_accepted:
  "K8sHostBinding_ValidateCreate nr (Some k) = [] \<longleftrightarrow> meta_accepted nr (k_ObjectMeta k) \<and> host_binding_typed k"
  by (auto simp: K8sHostBinding_ValidateCreate_def host_binding_validateSpec_def metadata_accepted
      host_binding_typed_def hb_validateObjectReference_def not_less)

lemmas field_checks_accepted = service_accepted group_accepted binding_accepted policy_accepted alias_accepted
  rule_accepted mapping_accepted ie_accepted network_accepted network_binding_accepted host_accepted
  host_binding_accepted

section \<open>Update checks\<close>

lemma immutable_Nil [simp]: "immutable a b n = [] \<longleftrightarrow> a = b" "immutable_string x y n = [] \<longleftrightarrow> x = y"
  by (simp_all add: immutable_def immutable_string_def)

lemma with_old_simps [simp]:
  "with_old (Some n) (Some w) errs changed = Some (errs @ changed n w)"
  "with_old x y errs changed = None \<longleftrightarrow> x = None \<and> y \<noteq> None"
  by (auto simp: with_old_def split: option.split)

lemma references_equal [simp]:
  "nb_objectReferencesEqual r r' \<longleftrightarrow> r = r'" "hb_objectReferencesEqual x x' \<longleftrightarrow> x = x'"
  by (cases r; cases r'; auto simp: nb_objectReferencesEqual_def)
    (cases x; cases x'; auto simp: hb_objectReferencesEqual_def)

lemma update_checks_decided:
  "K8sServiceAlias_ValidateUpdate nr (Some a) (Some a') = Some [] \<longleftrightarrow>
      K8sServiceAlias_ValidateCreate nr (Some a) = [] \<and> ksa_ServiceRef a = ksa_ServiceRef a'"
  "K8sAddressGroupBinding_ValidateUpdate nr (Some b) (Some b') = Some [] \<longleftrightarrow>
      K8sAddressGroupBinding_ValidateCreate nr (Some b) = [] \<and> kagb_ServiceRef b = kagb_ServiceRef b' \<and>
      kagb_AddressGroupRef b = kagb_AddressGroupRef b'"
  "K8sPolicy_ValidateUpdate nr (Some p) (Some p') = Some [] \<longleftrightarrow>
      K8sPolicy_ValidateCreate nr (Some p) = [] \<and> kagbp_ServiceRef p = kagbp_ServiceRef p' \<and>
      kagbp_AddressGroupRef p = kagbp_AddressGroupRef p'"
  "K8sRuleS2S_ValidateUpdate nr (Some r) (Some r') = Some [] \<longleftrightarrow>
      K8sRuleS2S_ValidateCreate nr (Some r) = [] \<and> krs_Traffic r = krs_Traffic r' \<and>
      krs_ServiceLocalRef r = krs_ServiceLocalRef r' \<and> krs_ServiceRef r = krs_ServiceRef r'"
  "K8sIEAgAgRule_ValidateUpdate nr (Some ie) (Some ie') = Some [] \<longleftrightarrow>
      K8sIEAgAgRule_ValidateCreate nr (Some ie) = [] \<and> kie_Transport ie = kie_Transport ie' \<and>
      kie_Traffic ie = kie_Traffic ie' \<and> kie_AddressGroupLocal ie = kie_AddressGroupLocal ie' \<and>
      kie_AddressGroup ie = kie_AddressGroup ie'"
  "K8sNetwork_ValidateUpdate nr (Some n) (Some n') = Some [] \<longleftrightarrow>
      K8sNetwork_ValidateCreate nr (Some n) = [] \<and> \<not> (isReadyConditionTrue n' \<and> knw_CIDR n \<noteq> knw_CIDR n')"
  "K8sNetworkBinding_ValidateUpdate nr (Some nb) (Some nb') = Some [] \<longleftrightarrow>
      K8sNetworkBinding_ValidateCreate nr (Some nb) = [] \<and>
      \<not> (isReadyConditionTrue nb' \<and> (knb_NetworkRef nb, knb_AddressGroupRef nb) \<noteq> (knb_NetworkRef nb', knb_AddressGroupRef nb'))"
  "K8sHost_ValidateUpdate nr (Some h) (Some h') = Some [] \<longleftrightarrow>
      K8sHost_ValidateCreate nr (Some h) = [] \<and> kh_UUID h = kh_UUID h'"
  "K8sHostBinding_ValidateUpdate nr (Some hb) (Some hb') = Some [] \<longleftrightarrow>
      K8sHostBinding_ValidateCreate nr (Some hb) = [] \<and> khb_HostRef hb = khb_HostRef hb' \<and>
      khb_AddressGroupRef hb = khb_AddressGroupRef hb'"
  by (auto simp: K8sServiceAlias_ValidateUpdate_def K8sServiceAlias_ValidateCreate_def
      K8sAddressGroupBinding_ValidateUpdate_def K8sAddressGroupBinding_ValidateCreate_def
      K8sPolicy_ValidateUpdate_def K8sPolicy_ValidateCreate_def K8sRuleS2S_ValidateUpdate_def
      K8sRuleS2S_ValidateCreate_def K8sIEAgAgRule_ValidateUpdate_def K8sIEAgAgRule_ValidateCreate_def
      K8sNetwork_ValidateUpdate_def K8sNetwork_ValidateCreate_def K8sNetworkBinding_ValidateUpdate_def
      K8sNetworkBinding_ValidateCreate_def K8sHost_ValidateUpdate_def host_validateImmutableFields_def
      K8sHostBinding_ValidateUpdate_def host_binding_validateImmutableFields_def)

text \<open>Services, address groups and port mappings have no immutable fields.\<close>

lemma update_checks_as_creation:
  "K8sService_ValidateUpdate nr xs xs' = Some (K8sService_ValidateCreate nr xs)"
  "K8sAddressGroup_ValidateUpdate nr xg xg' = Some (K8sAddressGroup_ValidateCreate nr xg)"
  "K8sPortMapping_ValidateUpdate nr xm xm' = Some (K8sPortMapping_ValidateCreate nr xm)"
  by (simp_all add: K8sService_ValidateUpdate_def K8sService_ValidateCreate_def K8sAddressGroup_ValidateUpdate_def
      K8sAddressGroup_ValidateCreate_def K8sPortMapping_ValidateUpdate_def K8sPortMapping_ValidateCreate_def)

lemma update_checks_panic:
  "K8sServiceAlias_ValidateUpdate nr xa xa' = None \<longleftrightarrow> xa = None \<and> xa' \<noteq> None"
  "K8sAddressGroupBinding_ValidateUpdate nr xb xb' = None \<longleftrightarrow> xb = None \<and> xb' \<noteq> None"
  "K8sPolicy_ValidateUpdate nr xp xp' = None \<longleftrightarrow> xp = None \<and> xp' \<noteq> None"
  "K8sRuleS2S_ValidateUpdate nr xr xr' = None \<longleftrightarrow> xr = None \<and> xr' \<noteq> None"
  "K8sIEAgAgRule_ValidateUpdate nr xi xi' = None \<longleftrightarrow> xi = None \<and> xi' \<noteq> None"
  "K8sNetwork_ValidateUpdate nr xn xn' = None \<longleftrightarrow> xn \<noteq> None \<and> xn' = None"
  "K8sNetworkBinding_ValidateUpdate nr xnb xnb' = None \<longleftrightarrow> xnb \<noteq> None \<and> xnb' = None"
  "K8sService_ValidateUpdate nr xs xs' \<noteq> None"
  "K8sAddressGroup_ValidateUpdate nr xg xg' \<noteq> None"
  "K8sPortMapping_ValidateUpdate nr xm xm' \<noteq> None"
  "K8sHost_ValidateUpdate nr xh xh' \<noteq> None"
  "K8sHostBinding_ValidateUpdate nr xhb xhb' \<noteq> None"
  by (auto simp: K8sServiceAlias_ValidateUpdate_def K8sAddressGroupBinding_ValidateUpdate_def
      K8sPolicy_ValidateUpdate_def K8sRuleS2S_ValidateUpdate_def K8sIEAgAgRule_ValidateUpdate_def
      K8sNetwork_ValidateUpdate_def K8sNetworkBinding_ValidateUpdate_def K8sService_ValidateUpdate_def
      K8sAddressGroup_ValidateUpdate_def K8sPortMapping_ValidateUpdate_def K8sHost_ValidateUpdate_def
      K8sHostBinding_ValidateUpdate_def split: option.split)

section \<open>What the webhook does not look at\<close>

text \<open>
  A part of the objects that neither the field checks nor the conversion read: forgetting it does
  not change an answer.
\<close>

locale blind_review =
  fixes fieldCheck :: "name_rules \<Rightarrow> 'k option \<Rightarrow> field_error list"
    and convert :: "'k \<Rightarrow> 'd" and forget :: "'k \<Rightarrow> 'k"
  assumes field_forget: "fieldCheck nr (Some (forget k)) = fieldCheck nr (Some k)"
    and convert_forget: "convert (forget k) = convert k"
begin

lemma review_update_forget:
  "review_update w req kind (map_sum id forget \<circ> decode) update convert (forget k) =
     review_update w req kind decode update convert k"
  by (auto simp: review_update_def convert_forget split: sum.split)

lemma review_object_forget:
  "review_object w req kind (map_sum id forget \<circ> decode) fieldCheck create update convert =
     review_object w req kind decode fieldCheck create update convert"
  by (auto simp: review_object_def with_object_def with_reader_def review_creation_def field_forget
      convert_forget review_update_forget split: sum.split option.split)

end

definition forget_service :: "k8s_service \<Rightarrow> k8s_service" where
  "forget_service k = k\<lparr> k_Conditions := [], k_ObservedGeneration := 0, ksv_AddressGroups := [],
     ksv_AggregatedAddressGroups := [] \<rparr>"

definition forget_group :: "k8s_address_group \<Rightarrow> k8s_address_group" where
  "forget_group k = k\<lparr> k_Conditions := [], k_ObservedGeneration := 0, kag_Hosts := [], kag_AggregatedHosts := [] \<rparr>"

definition forget_status :: "'a k8s_generation_object_scheme \<Rightarrow> 'a k8s_generation_object_scheme" where
  "forget_status k = k\<lparr> k_Conditions := [], k_ObservedGeneration := 0 \<rparr>"

definition forget_network :: "k8s_network \<Rightarrow> k8s_network" where
  "forget_network k = k\<lparr> k_Conditions := [], knw_NetworkName := [], knw_IsBound := False, knw_BindingRef := None,
     knw_AddressGroupRef := None \<rparr>"

definition forget_network_binding :: "k8s_network_binding \<Rightarrow> k8s_network_binding" where
  "forget_network_binding k = k\<lparr> k_Conditions := [], knb_NetworkItem := empty_network_item \<rparr>"

lemmas forget_defs = forget_service_def forget_group_def forget_status_def forget_network_def
  forget_network_binding_def

interpretation svc_blind: blind_review K8sService_ValidateCreate convertServiceToDomain forget_service
  by unfold_locales (simp_all add: K8sService_ValidateCreate_def service_validate_def validateMetadata_def
      service_validateSpec_def convertServiceToDomain_def forget_service_def)

interpretation ag_blind: blind_review K8sAddressGroup_ValidateCreate convertAddressGroupToDomain forget_group
  by unfold_locales (simp_all add: K8sAddressGroup_ValidateCreate_def address_group_validate_def
      validateMetadata_def convertAddressGroupToDomain_def forget_group_def)

interpretation agb_blind: blind_review K8sAddressGroupBinding_ValidateCreate convertAddressGroupBindingToDomain
    forget_status
  by unfold_locales (simp_all add: K8sAddressGroupBinding_ValidateCreate_def binding_validate_def
      binding_validateSpec_def validateMetadata_def convertAddressGroupBindingToDomain_def forget_status_def)

interpretation agpm_blind: blind_review K8sPortMapping_ValidateCreate convertAddressGroupPortMappingToDomain
    forget_status
  by unfold_locales (simp_all add: K8sPortMapping_ValidateCreate_def port_mapping_validate_def
      validateMetadata_def convertAddressGroupPortMappingToDomain_def forget_status_def)

interpretation rs_blind: blind_review K8sRuleS2S_ValidateCreate convertRuleS2SToDomain forget_status
  by unfold_locales (simp_all add: K8sRuleS2S_ValidateCreate_def rule_s2s_validate_def
      rule_s2s_validateSpec_def validateMetadata_def convertRuleS2SToDomain_def forget_status_def)

interpretation sal_blind: blind_review K8sServiceAlias_ValidateCreate convertServiceAliasToDomain forget_status
  by unfold_locales (simp_all add: K8sServiceAlias_ValidateCreate_def alias_validate_def
      validateMetadata_def convertServiceAliasToDomain_def forget_status_def)

interpretation agbp_blind: blind_review K8sPolicy_ValidateCreate convertAddressGroupBindingPolicyToDomain
    forget_status
  by unfold_locales (simp_all add: K8sPolicy_ValidateCreate_def policy_validate_def
      validateMetadata_def convertAddressGroupBindingPolicyToDomain_def forget_status_def)

interpretation ie_blind: blind_review K8sIEAgAgRule_ValidateCreate convertIEAgAgRuleToDomain forget_status
  by unfold_locales (simp_all add: K8sIEAgAgRule_ValidateCreate_def ie_validate_def ie_validateSpec_def
      validateMetadata_def convertIEAgAgRuleToDomain_def forget_status_def)

interpretation nw_blind: blind_review K8sNetwork_ValidateCreate convertNetworkToDomain forget_network
  by unfold_locales (simp_all add: K8sNetwork_ValidateCreate_def network_validate_def
      validateMetadata_def convertNetworkToDomain_def forget_network_def)

interpretation nb_blind: blind_review K8sNetworkBinding_ValidateCreate convertNetworkBindingToDomain
    forget_network_binding
  by unfold_locales (simp_all add: K8sNetworkBinding_ValidateCreate_def network_binding_validate_def
      validateMetadata_def convertNetworkBindingToDomain_def forget_network_binding_def)

lemmas handler_defs = validateService_def validateAddressGroup_def validateAddressGroupPortMapping_def
  validateRuleS2S_def validateServiceAlias_def validateAddressGroupBindingPolicy_def validateIEAgAgRule_def
  validateNetwork_def validateNetworkBinding_def

text \<open>The webhook whose decoders forget these parts.\<close>

definition blind :: "webhook \<Rightarrow> webhook" where
  "blind w = w\<lparr>
     unmarshal_Service := map_sum id forget_service \<circ> unmarshal_Service w,
     unmarshal_AddressGroup := map_sum id forget_group \<circ> unmarshal_AddressGroup w,
     unmarshal_AddressGroupBinding := map_sum id forget_status \<circ> unmarshal_AddressGroupBinding w,
     unmarshal_AddressGroupPortMapping := map_sum id forget_status \<circ> unmarshal_AddressGroupPortMapping w,
     unmarshal_RuleS2S := map_sum id forget_status \<circ> unmarshal_RuleS2S w,
     unmarshal_ServiceAlias := map_sum id forget_status \<circ> unmarshal_ServiceAlias w,
     unmarshal_AddressGroupBindingPolicy := map_sum id forget_status \<circ> unmarshal_AddressGroupBindingPolicy w,
     unmarshal_IEAgAgRule := map_sum id forget_status \<circ> unmarshal_IEAgAgRule w,
     unmarshal_Network := map_sum id forget_network \<circ> unmarshal_Network w,
     unmarshal_NetworkBinding := map_sum id forget_network_binding \<circ> unmarshal_NetworkBinding w \<rparr>"

lemma blind_backend [simp]:
  "wh_GetReader (blind w) = wh_GetReader w" "wh_reader (blind w) = wh_reader w"
  "wh_names (blind w) = wh_names w" "wh_aggregate (blind w) = wh_aggregate w"
  by (simp_all add: blind_def)

lemma review_blind [simp]:
  "review_object (blind w) req kind decode fieldCheck create update convert =
     review_object w req kind decode fieldCheck create update convert"
  "review_deletion (blind w) req kind check = review_deletion w req kind check"
  "review_update (blind w) req kind decode update convert k = review_update w req kind decode update convert k"
  "with_reader (blind w) req r = with_reader w req r"
  by (simp_all add: review_object_def review_deletion_def review_creation_def review_update_def with_reader_def
      Let_def cong: if_cong sum.case_cong option.case_cong)

lemma binding_handler_blind: "validateAddressGroupBinding (blind w) req = validateAddressGroupBinding w req"
proof -
  have "unmarshal_AddressGroupBinding (blind w) = map_sum id forget_status \<circ> unmarshal_AddressGroupBinding w"
    by (simp add: blind_def)
  then show ?thesis
    by (auto simp: validateAddressGroupBinding_def with_object_def agb_blind.field_forget Let_def
        agb_blind.convert_forget agb_blind.review_update_forget split: sum.split cong: if_cong)
qed

lemma blind_decoders:
  "unmarshal_Service (blind w) = map_sum id forget_service \<circ> unmarshal_Service w"
  "unmarshal_AddressGroup (blind w) = map_sum id forget_group \<circ> unmarshal_AddressGroup w"
  "unmarshal_AddressGroupPortMapping (blind w) = map_sum id forget_status \<circ> unmarshal_AddressGroupPortMapping w"
  "unmarshal_RuleS2S (blind w) = map_sum id forget_status \<circ> unmarshal_RuleS2S w"
  "unmarshal_ServiceAlias (blind w) = map_sum id forget_status \<circ> unmarshal_ServiceAlias w"
  "unmarshal_AddressGroupBindingPolicy (blind w) = map_sum id forget_status \<circ> unmarshal_AddressGroupBindingPolicy w"
  "unmarshal_IEAgAgRule (blind w) = map_sum id forget_status \<circ> unmarshal_IEAgAgRule w"
  "unmarshal_Network (blind w) = map_sum id forget_network \<circ> unmarshal_Network w"
  "unmarshal_NetworkBinding (blind w) = map_sum id forget_network_binding \<circ> unmarshal_NetworkBinding w"
  by (simp_all add: blind_def)

lemmas reviews_forget = svc_blind.review_object_forget ag_blind.review_object_forget
  agpm_blind.review_object_forget rs_blind.review_object_forget sal_blind.review_object_forget
  agbp_blind.review_object_forget ie_blind.review_object_forget nw_blind.review_object_forget
  nb_blind.review_object_forget

lemma review_of_blind: "ValidateAdmissionReview (blind w) req = ValidateAdmissionReview w req"
  by (simp only: ValidateAdmissionReview_def handler_defs blind_decoders reviews_forget review_blind
      binding_handler_blind)

section \<open>The parts of an answer\<close>

lemma review_dispatch:
  "ar_Kind req = ''Service'' \<Longrightarrow> ValidateAdmissionReview w req = validateService w req"
  "ar_Kind req = ''AddressGroupBinding'' \<Longrightarrow> ValidateAdmissionReview w req = validateAddressGroupBinding w req"
  "ar_Kind req = ''RuleS2S'' \<Longrightarrow> ValidateAdmissionReview w req = validateRuleS2S w req"
  "ar_Kind req = ''IEAgAgRule'' \<Longrightarrow> ValidateAdmissionReview w req = validateIEAgAgRule w req"
  "ar_Kind req = ''Network'' \<Longrightarrow> ValidateAdmissionReview w req = validateNetwork w req"
  by (simp_all add: ValidateAdmissionReview_def)


lemma review_deletion_allowed:
  "resp_Allowed (review_deletion w req kind check) \<longleftrightarrow>
     check (wh_reader w) (NewResourceIdentifier (ar_Name req) [WithNamespace (ar_Namespace req)]) = None"
  by (simp add: review_deletion_def split: option.split)

lemma undecodable_denied:
  "decode (ar_Object req) = Inl e \<Longrightarrow>
     \<not> resp_Allowed (review_object w req kind decode fieldCheck create update convert)"
  by (simp add: review_object_def with_object_def)

lemma creation_allowed:
  assumes "ar_Operation req = Create" and "decode (ar_Object req) = Inr k"
  shows "resp_Allowed (review_object w req kind decode fieldCheck create update convert) \<longleftrightarrow>
    wh_GetReader w = None \<and> fieldCheck (wh_names w) (Some k) = [] \<and> create (wh_reader w) (convert k) = None"
  using assms by (auto simp: review_object_def with_object_def with_reader_def review_creation_def Let_def
      split: option.split)

lemma admitted_creation:
  assumes "resp_Allowed (review_object w req kind decode fieldCheck create update convert)"
    and "ar_Operation req = Create"
  obtains k where "decode (ar_Object req) = Inr k" and "fieldCheck (wh_names w) (Some k) = []"
    and "create (wh_reader w) (convert k) = None"
proof (cases "decode (ar_Object req)")
  case (Inl e)
  then show ?thesis using undecodable_denied [of decode req e] assms(1) by blast
next
  case (Inr k)
  then show ?thesis using creation_allowed [of req decode k] assms that by blast
qed

lemma binding_creation_allowed:
  assumes "ar_Kind req = ''AddressGroupBinding''" and "ar_Operation req = Create"
    and "unmarshal_AddressGroupBinding w (ar_Object req) = Inr k"
  shows "resp_Allowed (validateAddressGroupBinding w req) \<longleftrightarrow>
    wh_GetReader w = None \<and> K8sAddressGroupBinding_ValidateCreate (wh_names w) (Some k) = [] \<and>
    AddressGroupBindingValidator_ValidateForCreation (wh_reader w) (convertAddressGroupBindingToDomain k) = None"
  using assms by (auto simp: validateAddressGroupBinding_def with_object_def with_reader_def Let_def
      split: option.split)

lemma admitted_binding_creation:
  assumes "resp_Allowed (validateAddressGroupBinding w req)" and "ar_Kind req = ''AddressGroupBinding''"
    and "ar_Operation req = Create"
  obtains k where "unmarshal_AddressGroupBinding w (ar_Object req) = Inr k"
    and "K8sAddressGroupBinding_ValidateCreate (wh_names w) (Some k) = []"
    and "AddressGroupBindingValidator_ValidateForCreation (wh_reader w) (convertAddressGroupBindingToDomain k) = None"
proof (cases "unmarshal_AddressGroupBinding w (ar_Object req)")
  case (Inl e)
  then show ?thesis using assms by (simp add: validateAddressGroupBinding_def with_object_def)
next
  case (Inr k)
  then show ?thesis using binding_creation_allowed [OF assms(2,3) Inr] assms(1) that by blast
qed

lemma converted_port_ranges:
  "port_ranges (svc_IngressPorts (convertServiceToDomain k)) proto = port_ranges (ksv_IngressPorts k) proto"
proof -
  have "port_ranges (filter (\<lambda>p. port_parses (ip_Port p)) ps) proto = port_ranges ps proto" for ps
    by (induction ps) (auto simp: port_parses_def ranges_of_def split: sum.splits)
  moreover have "map (\<lambda>p. \<lparr> ip_Protocol = ip_Protocol p, ip_Port = ip_Port p, ip_Description = ip_Description p \<rparr>) ps = ps"
    for ps by (simp add: map_idI)
  ultimately show ?thesis by (simp add: convertServiceToDomain_def)
qed

lemma bare_ref_simps [simp]:
  "ref_Name (bare_ref n ns) = n" "ref_Namespace (bare_ref n ns) = ns"
  by (simp_all add: bare_ref_def)

lemma bare_ref_id: "ref_id (bare_ref (ref_Name r) (ref_Namespace r)) = ref_id r"
  by (simp add: ref_id_def)

section \<open>Ports of accepted rules\<close>

definition spec_range :: "k8s_port_spec \<Rightarrow> port_range" where
  "spec_range p =
     (case kps_PortRange p of
        None \<Rightarrow> \<lparr> pr_Start = kps_Port p, pr_End = kps_Port p \<rparr>
      | Some r \<Rightarrow> \<lparr> pr_Start = kpr_From r, pr_End = kpr_To r \<rparr>)"

lemma clean_item_parses:
  assumes "parse_port_item s = Inr r" and "s \<noteq> []" and "CHR '','' \<notin> set s" and "\<forall>c\<in>set s. \<not> is_space c"
  shows "ParsePortRanges s = Inr [r]"
  using assms by (simp add: ParsePortRanges_def split_on_no_sep trim_space_id)

lemma typed_spec_parses:
  assumes "port_spec_typed p"
  shows "ParsePortRanges (port_destination p) = Inr [spec_range p]"
proof (cases "kps_PortRange p")
  case None
  with assms show ?thesis
    using nat_str_no_space [of "nat (kps_Port p)"]
    by (auto simp: port_spec_typed_def port_destination_def spec_range_def parse_port_item_single
        intro!: clean_item_parses)
next
  case (Some r)
  with assms show ?thesis
    using nat_str_no_space [of "nat (kpr_From r)"] nat_str_no_space [of "nat (kpr_To r)"]
    by (auto simp: port_spec_typed_def port_destination_def spec_range_def parse_port_item_range
        intro!: clean_item_parses)
qed

lemma upper_enums:
  "to_upper ''ACCEPT'' = ''ACCEPT''" "to_upper ''DROP'' = ''DROP''" "to_upper [] = []"
  "to_upper ''TCP'' = ''TCP''" "to_upper ''UDP'' = ''UDP''" "to_upper ''INGRESS'' = ''INGRESS''"
  "to_upper ''EGRESS'' = ''EGRESS''"
  by code_simp+

lemma typed_rule_converts:
  assumes "ie_typed nr k"
  shows "map (\<lambda>p. ParsePortRanges (ps_Destination p)) (ie_Ports (convertIEAgAgRuleToDomain k)) =
      map (\<lambda>p. Inr [spec_range p]) (kie_Ports k)"
    and "map (\<lambda>p. ParsePortRanges (ps_Destination (port_spec_to_domain p))) (kie_Ports k) =
      map (\<lambda>p. Inr [spec_range p]) (kie_Ports k)"
    and "case IEAgAgRuleConverter_ToDomain (Some k) of
       Inl _ \<Rightarrow> kie_Action k = []
     | Inr d \<Rightarrow> kie_Action k \<noteq> [] \<and> ie_Ports d = map port_spec_to_domain (kie_Ports k)"
proof -
  from assms have typed: "\<forall>p\<in>set (kie_Ports k). ParsePortRanges (port_destination p) = Inr [spec_range p]"
    by (auto simp: ie_typed_def list_all_iff typed_spec_parses)
  then have "filter (\<lambda>d. d \<noteq> [] \<and> port_parses d) (map port_destination (kie_Ports k)) = map port_destination (kie_Ports k)"
    by (force simp: filter_id_conv port_parses_def ParsePortRanges_def split: if_splits)
  with typed show "map (\<lambda>p. ParsePortRanges (ps_Destination p)) (ie_Ports (convertIEAgAgRuleToDomain k)) =
      map (\<lambda>p. Inr [spec_range p]) (kie_Ports k)"
    by (simp add: convertIEAgAgRuleToDomain_def)
  from assms have "\<forall>p\<in>set (kie_Ports k). ps_Destination (port_spec_to_domain p) = port_destination p"
    by (auto simp: ie_typed_def list_all_iff port_spec_typed_def port_spec_to_domain_def port_destination_def
        split: option.split)
  with typed show "map (\<lambda>p. ParsePortRanges (ps_Destination (port_spec_to_domain p))) (kie_Ports k) =
      map (\<lambda>p. Inr [spec_range p]) (kie_Ports k)"
    by simp
  from assms show "case IEAgAgRuleConverter_ToDomain (Some k) of
       Inl _ \<Rightarrow> kie_Action k = []
     | Inr d \<Rightarrow> kie_Action k \<noteq> [] \<and> ie_Ports d = map port_spec_to_domain (kie_Ports k)"
    by (auto simp: ie_typed_def IEAgAgRuleConverter_ToDomain_def convertTransportToDomain_def
        convertTrafficToDomain_def convertActionToDomain_def tcp_or_udp_def ingress_or_egress_def accept_or_drop_def
        upper_enums)
qed

lemma port_parses_iff: "port_parses p \<longleftrightarrow> parses p"
  by (auto simp: port_parses_def parses_def split: sum.split)

section \<open>Patches of the mutating webhook\<close>

text \<open>
  When a JSON patch applies (RFC 6902): an addition needs its parent path, a replacement its path
  in the encoded object. The encoding leaves out the empty fields marked \<^verbatim>\<open>omitempty\<close>: labels,
  annotations and finalizers, the description of a service and the namespace of a reference.
\<close>

definition parent_path :: "string \<Rightarrow> string" where
  "parent_path p = rev (tl (dropWhile (\<lambda>c. c \<noteq> CHR ''/'') (rev p)))"

fun patches_apply :: "string list \<Rightarrow> json_patch list \<Rightarrow> bool" where
  "patches_apply present [] \<longleftrightarrow> True"
| "patches_apply present (p # ps) \<longleftrightarrow>
     (if jp_op p = ''add'' then parent_path (jp_path p) \<in> set present \<and> patches_apply (jp_path p # present) ps
      else jp_op p = ''replace'' \<and> jp_path p \<in> set present \<and> patches_apply present ps)"

definition unless_empty :: "'a list \<Rightarrow> string \<Rightarrow> string list" where
  "unless_empty xs path = (if xs = [] then [] else [path])"

definition metadata_paths :: "'a k8s_object_scheme \<Rightarrow> string list" where
  "metadata_paths k =
     [''/metadata''] @ unless_empty (om_Labels (k_ObjectMeta k)) ''/metadata/labels'' @
     unless_empty (om_Annotations (k_ObjectMeta k)) ''/metadata/annotations'' @
     unless_empty (om_Finalizers (k_ObjectMeta k)) ''/metadata/finalizers''"

definition ref_paths :: "nref \<Rightarrow> string \<Rightarrow> string list" where
  "ref_paths ref path = path # unless_empty (ref_Namespace ref) (path @ ''/namespace'')"

definition service_paths :: "k8s_service \<Rightarrow> string list" where
  "service_paths k = metadata_paths k @ [''/spec''] @ unless_empty (ksv_Description k) ''/spec/description'' @
     unless_empty (ksv_IngressPorts k) ''/spec/ingressPorts'' @ unless_empty (ksv_AddressGroups k) ''/spec/addressGroups''"

fun added :: "json_patch list \<Rightarrow> string list" where
  "added [] = []"
| "added (p # ps) = added ps @ (if jp_op p = ''add'' then [jp_path p] else [])"

lemma patches_apply_append:
  "patches_apply present (ps @ qs) \<longleftrightarrow> patches_apply present ps \<and> patches_apply (added ps @ present) qs"
  by (induction ps arbitrary: present) auto

lemma parent_paths:
  "parent_path ''/metadata/labels'' = ''/metadata''" "parent_path ''/metadata/annotations'' = ''/metadata''"
  "parent_path ''/metadata/finalizers'' = ''/metadata''" "parent_path ''/metadata/finalizers/-'' = ''/metadata/finalizers''"
  "parent_path ''/metadata/labels/app.kubernetes.io~1managed-by'' = ''/metadata/labels''"
  "parent_path ''/metadata/annotations/netguard.sgroups.io~1created-by'' = ''/metadata/annotations''"
  by (simp_all add: parent_path_def)

lemma common_patches_apply [simp]: "patches_apply (metadata_paths k @ rest) (common_patches k)"
  by (simp add: common_patches_def patches_apply_append addManagedByLabel_def addCreatedByAnnotation_def
      addFinalizer_def Let_def patch_def parent_paths metadata_paths_def unless_empty_def)

lemma spec_path_not_added:
  "take 5 path = ''/spec'' \<Longrightarrow> path \<notin> set (added (common_patches k)) \<and> path \<notin> set (metadata_paths k)"
  by (auto simp: common_patches_def addManagedByLabel_def addCreatedByAnnotation_def addFinalizer_def Let_def
      patch_def metadata_paths_def unless_empty_def split: if_splits)

lemma common_then:
  "patches_apply (metadata_paths k @ rest) (common_patches k @ qs) \<longleftrightarrow>
     patches_apply (added (common_patches k) @ metadata_paths k @ rest) qs"
  by (simp add: patches_apply_append)

lemma default_namespace_applies:
  assumes "take 5 path = ''/spec''"
  shows "patches_apply (added (common_patches k) @ metadata_paths k @ rest) (default_namespace ref path ns @ qs) \<longleftrightarrow>
    (ref_Namespace ref \<noteq> [] \<or> path \<in> set rest) \<and>
    patches_apply (added (common_patches k) @ metadata_paths k @ rest) qs"
  using spec_path_not_added [OF assms, of k] by (simp add: default_namespace_def patch_def)

end
