(* ===== verification/AdmissionProperties.thy ===== *)
theory AdmissionProperties
  imports AdmissionFacts
begin

text \<open>
  What the field validation and the webhooks accept, and what the composition of the field checks,
  the conversions and the backend's validators lets through.
\<close>

section \<open>Field validation\<close>

text \<open>
  C30: The field validation of each kind accepts exactly the well-typed objects: metadata with a
  usable name and qualified labels, enumerations among their constants, ports between 1 and
  65535 in order, complete references to the right kind, texts within their limits.\<close>
theorem accepted_fields_well_typed:
  "(K8sService_ValidateCreate nr (Some svc) = [] \<longleftrightarrow> meta_accepted nr (k_ObjectMeta svc) \<and> service_typed svc) \<and>
   (K8sAddressGroup_ValidateCreate nr (Some ag) = [] \<longleftrightarrow>
      meta_accepted nr (k_ObjectMeta ag) \<and> accept_or_drop (kag_DefaultAction ag)) \<and>
   (K8sAddressGroupBinding_ValidateCreate nr (Some b) = [] \<longleftrightarrow> meta_accepted nr (k_ObjectMeta b) \<and>
      ref_to nr ''Service'' (kagb_ServiceRef b) \<and> ref_to nr ''AddressGroup'' (kagb_AddressGroupRef b)) \<and>
   (K8sPolicy_ValidateCreate nr (Some p) = [] \<longleftrightarrow> meta_accepted nr (k_ObjectMeta p) \<and>
      ref_to nr ''Service'' (kagbp_ServiceRef p) \<and> ref_to nr ''AddressGroup'' (kagbp_AddressGroupRef p)) \<and>
   (K8sServiceAlias_ValidateCreate nr (Some a) = [] \<longleftrightarrow> meta_accepted nr (k_ObjectMeta a) \<and> alias_typed nr a) \<and>
   (K8sRuleS2S_ValidateCreate nr (Some r) = [] \<longleftrightarrow> meta_accepted nr (k_ObjectMeta r) \<and> rule_typed nr r) \<and>
   (K8sPortMapping_ValidateCreate nr (Some m) = [] \<longleftrightarrow> meta_accepted nr (k_ObjectMeta m) \<and> mapping_typed nr m) \<and>
   (K8sIEAgAgRule_ValidateCreate nr (Some ie) = [] \<longleftrightarrow> meta_accepted nr (k_ObjectMeta ie) \<and> ie_typed nr ie) \<and>
   (K8sNetwork_ValidateCreate nr (Some n) = [] \<longleftrightarrow>
      meta_accepted nr (k_ObjectMeta n) \<and> knw_CIDR n \<noteq> [] \<and> ParseCIDR (knw_CIDR n) = None) \<and>
   (K8sNetworkBinding_ValidateCreate nr (Some nb) = [] \<longleftrightarrow> meta_accepted nr (k_ObjectMeta nb) \<and>
      object_ref_to nr ''Network'' (knb_NetworkRef nb) \<and> object_ref_to nr ''AddressGroup'' (knb_AddressGroupRef nb)) \<and>
   (K8sHost_ValidateCreate nr (Some h) = [] \<longleftrightarrow> meta_accepted nr (k_ObjectMeta h) \<and> uuid_matches (kh_UUID h)) \<and>
   (K8sHostBinding_ValidateCreate nr (Some hb) = [] \<longleftrightarrow> meta_accepted nr (k_ObjectMeta hb) \<and> host_binding_typed hb)"
  by (simp only: field_checks_accepted simp_thms)

text \<open>
  C31: An update passes the field validation exactly when the new object is well typed and keeps
  the immutable fields of the old one: the references of aliases, bindings, policies and rules,
  the direction and transport of rules, the identifier of a host, and the address range and
  references of networks and their bindings once the old object is Ready. Services, address groups
  and port mappings have no immutable fields: the update check reports what the check of a creation
  reports of the new object. Without a new object the update checks of aliases, bindings, policies
  and rules panic, and without an old object those of networks and network bindings; the others
  never do.\<close>
theorem field_updates_decided:
  "K8sService_ValidateUpdate nr xs xs' = Some (K8sService_ValidateCreate nr xs) \<and>
   K8sAddressGroup_ValidateUpdate nr xg xg' = Some (K8sAddressGroup_ValidateCreate nr xg) \<and>
   K8sPortMapping_ValidateUpdate nr xm xm' = Some (K8sPortMapping_ValidateCreate nr xm) \<and>
   (K8sServiceAlias_ValidateUpdate nr (Some a) (Some a') = Some [] \<longleftrightarrow>
      K8sServiceAlias_ValidateCreate nr (Some a) = [] \<and> ksa_ServiceRef a = ksa_ServiceRef a') \<and>
   (K8sAddressGroupBinding_ValidateUpdate nr (Some b) (Some b') = Some [] \<longleftrightarrow>
      K8sAddressGroupBinding_ValidateCreate nr (Some b) = [] \<and> kagb_ServiceRef b = kagb_ServiceRef b' \<and>
      kagb_AddressGroupRef b = kagb_AddressGroupRef b') \<and>
   (K8sPolicy_ValidateUpdate nr (Some p) (Some p') = Some [] \<longleftrightarrow>
      K8sPolicy_ValidateCreate nr (Some p) = [] \<and> kagbp_ServiceRef p = kagbp_ServiceRef p' \<and>
      kagbp_AddressGroupRef p = kagbp_AddressGroupRef p') \<and>
   (K8sRuleS2S_ValidateUpdate nr (Some r) (Some r') = Some [] \<longleftrightarrow>
      K8sRuleS2S_ValidateCreate nr (Some r) = [] \<and> krs_Traffic r = krs_Traffic r' \<and>
      krs_ServiceLocalRef r = krs_ServiceLocalRef r' \<and> krs_ServiceRef r = krs_ServiceRef r') \<and>
   (K8sIEAgAgRule_ValidateUpdate nr (Some ie) (Some ie') = Some [] \<longleftrightarrow>
      K8sIEAgAgRule_ValidateCreate nr (Some ie) = [] \<and> kie_Transport ie = kie_Transport ie' \<and>
      kie_Traffic ie = kie_Traffic ie' \<and> kie_AddressGroupLocal ie = kie_AddressGroupLocal ie' \<and>
      kie_AddressGroup ie = kie_AddressGroup ie') \<and>
   (K8sNetwork_ValidateUpdate nr (Some n) (Some n') = Some [] \<longleftrightarrow>
      K8sNetwork_ValidateCreate nr (Some n) = [] \<and> \<not> (isReadyConditionTrue n' \<and> knw_CIDR n \<noteq> knw_CIDR n')) \<and>
   (K8sNetworkBinding_ValidateUpdate nr (Some nb) (Some nb') = Some [] \<longleftrightarrow>
      K8sNetworkBinding_ValidateCreate nr (Some nb) = [] \<and>
      \<not> (isReadyConditionTrue nb' \<and> (knb_NetworkRef nb, knb_AddressGroupRef nb) \<noteq> (knb_NetworkRef nb', knb_AddressGroupRef nb'))) \<and>
   (K8sHost_ValidateUpdate nr (Some h) (Some h') = Some [] \<longleftrightarrow>
      K8sHost_ValidateCreate nr (Some h) = [] \<and> kh_UUID h = kh_UUID h') \<and>
   (K8sHostBinding_ValidateUpdate nr (Some hb) (Some hb') = Some [] \<longleftrightarrow>
      K8sHostBinding_ValidateCreate nr (Some hb) = [] \<and> khb_HostRef hb = khb_HostRef hb' \<and>
      khb_AddressGroupRef hb = khb_AddressGroupRef hb') \<and>
   (K8sServiceAlias_ValidateUpdate nr xa xa' = None \<longleftrightarrow> xa = None \<and> xa' \<noteq> None) \<and>
   (K8sAddressGroupBinding_ValidateUpdate nr xb xb' = None \<longleftrightarrow> xb = None \<and> xb' \<noteq> None) \<and>
   (K8sPolicy_ValidateUpdate nr xp xp' = None \<longleftrightarrow> xp = None \<and> xp' \<noteq> None) \<and>
   (K8sRuleS2S_ValidateUpdate nr xr xr' = None \<longleftrightarrow> xr = None \<and> xr' \<noteq> None) \<and>
   (K8sIEAgAgRule_ValidateUpdate nr xi xi' = None \<longleftrightarrow> xi = None \<and> xi' \<noteq> None) \<and>
   (K8sNetwork_ValidateUpdate nr xn xn' = None \<longleftrightarrow> xn \<noteq> None \<and> xn' = None) \<and>
   (K8sNetworkBinding_ValidateUpdate nr xnb xnb' = None \<longleftrightarrow> xnb \<noteq> None \<and> xnb' = None) \<and>
   K8sHost_ValidateUpdate nr xh xh' \<noteq> None \<and> K8sHostBinding_ValidateUpdate nr xhb xhb' \<noteq> None"
  by (simp only: update_checks_as_creation update_checks_decided update_checks_panic simp_thms)

section \<open>The validating webhook\<close>

text \<open>
  The answer of the validating webhook does not depend on the status of the objects (so no
  check that freezes a Ready object ever applies), on the address groups of a service or on the
  hosts of an address group: it is that of a webhook whose decoders drop them.\<close>
theorem admission_blind_spots: "ValidateAdmissionReview (blind w) req = ValidateAdmissionReview w req"
  by (rule review_of_blind)

text \<open>A webhook over the sample database; only bindings and generated rules decode.\<close>

definition ex_names :: name_rules where
  "ex_names = \<lparr> IsDNS1123Subdomain = (\<lambda>s. if isDNS1123Subdomain s then [] else [''invalid'']),
     IsQualifiedName = (\<lambda>_. []), IsValidLabelValue = (\<lambda>_. []) \<rparr>"

definition ex_object_meta :: "string \<Rightarrow> object_meta" where
  "ex_object_meta n = ConvertMetadataFromDomain empty_meta n ''app''"

definition ex_k8s_binding :: k8s_address_group_binding where
  "ex_k8s_binding = \<lparr> k_TypeMeta = CreateStandardTypeMetaForResource ''AddressGroupBinding'',
     k_ObjectMeta = ex_object_meta ''b1'', k_Conditions = [], k_ObservedGeneration = 0,
     kagb_ServiceRef = (ex_ref ''web'')\<lparr>ref_Kind := ''Service''\<rparr>,
     kagb_AddressGroupRef = (ex_ref ''front'')\<lparr>ref_Kind := ''AddressGroup''\<rparr> \<rparr>"

definition ex_k8s_ie_rule :: k8s_ieagag_rule where
  "ex_k8s_ie_rule = \<lparr> k_TypeMeta = CreateStandardTypeMetaForResource ''IEAgAgRule'',
     k_ObjectMeta = ex_object_meta ''g1'', k_Conditions = [], k_ObservedGeneration = 0,
     kie_Description = [], kie_Transport = ''TCP'', kie_Traffic = ''INGRESS'',
     kie_AddressGroupLocal = (ex_ref ''front'')\<lparr>ref_Kind := ''AddressGroup''\<rparr>,
     kie_AddressGroup = (ex_ref ''front'')\<lparr>ref_Kind := ''AddressGroup''\<rparr>,
     kie_Ports = [\<lparr> kps_Port = 0, kps_PortRange = Some \<lparr> kpr_From = 80, kpr_To = 90 \<rparr> \<rparr>],
     kie_Action = ''ACCEPT'', kie_Priority = 0, kie_Trace = False \<rparr>"

definition ex_k8s_service :: k8s_service where
  "ex_k8s_service = \<lparr> k_TypeMeta = CreateStandardTypeMetaForResource ''Service'',
     k_ObjectMeta = ex_object_meta ''api'', k_Conditions = [], k_ObservedGeneration = 0,
     ksv_Description = [], ksv_IngressPorts = [ex_port ''80''], ksv_AddressGroups = [],
     ksv_AggregatedAddressGroups = [] \<rparr>"

definition ex_decode :: "'k \<Rightarrow> string \<Rightarrow> error + 'k" where
  "ex_decode k s = (if s = [] then Inl (Errorf ''unexpected end of JSON input'') else Inr k)"

definition no_decode :: "string \<Rightarrow> error + 'k" where
  "no_decode s = Inl (Errorf ''unexpected end of JSON input'')"

definition ex_webhook :: webhook where
  "ex_webhook = \<lparr> wh_GetReader = None, wh_reader = mem_reader (committed ex_db), wh_names = ex_names,
     wh_aggregate = (\<lambda>_. ''invalid''), unmarshal_Service = ex_decode ex_k8s_service, unmarshal_AddressGroup = no_decode,
     unmarshal_AddressGroupBinding = ex_decode ex_k8s_binding, unmarshal_AddressGroupPortMapping = no_decode,
     unmarshal_RuleS2S = no_decode, unmarshal_ServiceAlias = no_decode,
     unmarshal_AddressGroupBindingPolicy = no_decode, unmarshal_IEAgAgRule = ex_decode ex_k8s_ie_rule,
     unmarshal_Network = no_decode, unmarshal_NetworkBinding = no_decode \<rparr>"

definition ex_request :: "string \<Rightarrow> string \<Rightarrow> string \<Rightarrow> string \<Rightarrow> admission_request" where
  "ex_request kind operation name raw = \<lparr> ar_UID = ''u1'', ar_Kind = kind, ar_Operation = operation, ar_Name = name,
     ar_Namespace = ''app'', ar_Object = raw, ar_OldObject = [] \<rparr>"

text \<open>
  C32: A deletion, whose request carries no object, is admitted exactly for a service, an address
  group, a service rule or an alias that passes its dependency check, and for every binding.
  The handlers of the five other kinds decode the missing object first and reject every
  deletion.\<close>
theorem deletion_review_exact:
  assumes "ar_Operation req = Delete" and "ar_Object req = []"
    and "unmarshal_AddressGroupPortMapping w [] = Inl e1" and "unmarshal_AddressGroupBindingPolicy w [] = Inl e2"
    and "unmarshal_IEAgAgRule w [] = Inl e3" and "unmarshal_Network w [] = Inl e4"
    and "unmarshal_NetworkBinding w [] = Inl e5"
    and "i = NewResourceIdentifier (ar_Name req) [WithNamespace (ar_Namespace req)]"
  shows "resp_Allowed (ValidateAdmissionReview w req) \<longleftrightarrow>
    ar_Kind req = ''Service'' \<and> ServiceValidator_CheckDependencies (wh_reader w) i = None \<or>
    ar_Kind req = ''AddressGroup'' \<and> AddressGroupValidator_CheckDependencies (wh_reader w) i = None \<or>
    ar_Kind req = ''RuleS2S'' \<and> RuleS2SValidator_CheckDependencies (wh_reader w) i = None \<or>
    ar_Kind req = ''ServiceAlias'' \<and> ServiceAliasValidator_CheckDependencies (wh_reader w) i = None \<or>
    ar_Kind req = ''AddressGroupBinding''"
  using assms
  by (auto simp: ValidateAdmissionReview_def handler_defs validateAddressGroupBinding_def review_deletion_allowed
      undecodable_denied AddressGroupBindingValidator_CheckDependencies_def)

theorem deletion_review_exact_witness:
  "\<not> resp_Allowed (ValidateAdmissionReview ex_webhook (ex_request ''Network'' Delete ''n1'' [])) \<and>
   resp_Allowed (ValidateAdmissionReview ex_webhook (ex_request ''AddressGroupBinding'' Delete ''b1'' []))"
  using deletion_review_exact [of "ex_request ''Network'' Delete ''n1'' []" ex_webhook]
    deletion_review_exact [of "ex_request ''AddressGroupBinding'' Delete ''b1'' []" ex_webhook]
  by (simp add: ex_request_def ex_webhook_def no_decode_def ex_decode_def)

text \<open>What an admitted creation gives on a well-formed database, by kind.\<close>

lemma admitted_service:
  assumes "resp_Allowed (validateService w req)" and "ar_Kind req = ''Service''" and "ar_Operation req = Create"
  shows "\<exists>k. unmarshal_Service w (ar_Object req) = Inr k \<and> service_typed k \<and>
    pairwise_disjoint (port_ranges (ksv_IngressPorts k) TCP) \<and>
    pairwise_disjoint (port_ranges (ksv_IngressPorts k) UDP)"
  using assms
  by (auto simp: validateService_def field_checks_accepted ServiceValidator_ValidateForCreation_def
      ValidateNoDuplicatePorts_def no_duplicate_ports_iff converted_port_ranges elim!: admitted_creation)

lemma admitted_binding:
  assumes "wh_reader w = mem_reader db" and "resp_Allowed (validateAddressGroupBinding w req)"
    and "ar_Kind req = ''AddressGroupBinding''" and "ar_Operation req = Create"
  shows "\<exists>k s g. unmarshal_AddressGroupBinding w (ar_Object req) = Inr k \<and>
    ref_to (wh_names w) ''Service'' (kagb_ServiceRef k) \<and>
    ref_to (wh_names w) ''AddressGroup'' (kagb_AddressGroupRef k) \<and>
    mem_GetServiceByID db (ref_id (kagb_ServiceRef k)) = Inr s \<and>
    mem_GetAddressGroupByID db (ref_id (kagb_AddressGroupRef k)) = Inr g"
  using assms(2-4)
proof (rule admitted_binding_creation)
  fix k
  assume k: "unmarshal_AddressGroupBinding w (ar_Object req) = Inr k"
    "K8sAddressGroupBinding_ValidateCreate (wh_names w) (Some k) = []"
    "AddressGroupBindingValidator_ValidateForCreation (wh_reader w) (convertAddressGroupBindingToDomain k) = None"
  from k(3) show ?thesis
    by (rule binding_creation_parts)
      (use k(1,2) assms(1) in \<open>auto simp: field_checks_accepted convertAddressGroupBindingToDomain_def\<close>)
qed

lemma checked_service:
  assumes "db_good db" and "ServiceValidator_ValidateExists (mem_reader (committed db)) (ref_id r) = None"
    and "ref_Name r \<noteq> []"
  shows "\<exists>s. mem_GetServiceByID (committed db) (ref_id r) = Inr s"
  using assms rd_svc.validate_exists_iff [of "committed db" "ref_id r" "NewServiceValidator (mem_reader (committed db))"]
  by (simp add: ServiceValidator_ValidateExists_def ref_id_def)

lemma checked_group:
  assumes "db_good db" and "AddressGroupValidator_ValidateExists (mem_reader (committed db)) (ref_id r) = None"
    and "ref_Name r \<noteq> []"
  shows "\<exists>s. mem_GetAddressGroupByID (committed db) (ref_id r) = Inr s"
  using assms rd_ag.validate_exists_iff [of "committed db" "ref_id r" "NewAddressGroupValidator (mem_reader (committed db))"]
  by (simp add: AddressGroupValidator_ValidateExists_def ref_id_def)

lemma admitted_rule:
  assumes "db_good db" and "wh_reader w = mem_reader (committed db)" and "resp_Allowed (validateRuleS2S w req)"
    and "ar_Operation req = Create"
  shows "\<exists>k s s'. unmarshal_RuleS2S w (ar_Object req) = Inr k \<and> rule_typed (wh_names w) k \<and>
    mem_GetServiceByID (committed db) (ref_id (krs_ServiceLocalRef k)) = Inr s \<and>
    mem_GetServiceByID (committed db) (ref_id (krs_ServiceRef k)) = Inr s'"
proof -
  from assms(3,4) obtain k where k: "unmarshal_RuleS2S w (ar_Object req) = Inr k" "rule_typed (wh_names w) k"
    "RuleS2SValidator_ValidateReferences (wh_reader w) (convertRuleS2SToDomain k) = None"
    by (auto simp: validateRuleS2S_def field_checks_accepted RuleS2SValidator_ValidateForCreation_def
        elim!: admitted_creation)
  then have "\<exists>s. mem_GetServiceByID (committed db) (ref_id (krs_ServiceLocalRef k)) = Inr s"
    and "\<exists>s. mem_GetServiceByID (committed db) (ref_id (krs_ServiceRef k)) = Inr s"
    using assms(1,2)
    by (auto simp: RuleS2SValidator_ValidateReferences_def convertRuleS2SToDomain_def rule_typed_def ref_named_def
        bare_ref_id intro!: checked_service)
  with k show ?thesis by blast
qed

lemma admitted_ie_rule:
  assumes "db_good db" and "wh_reader w = mem_reader (committed db)" and "resp_Allowed (validateIEAgAgRule w req)"
    and "ar_Operation req = Create"
  shows "\<exists>k g g'. unmarshal_IEAgAgRule w (ar_Object req) = Inr k \<and> ie_typed (wh_names w) k \<and>
    mem_GetAddressGroupByID (committed db)
      (ResourceIdentifier (ref_Name (kie_AddressGroupLocal k)) (k_Namespace k)) = Inr g \<and>
    mem_GetAddressGroupByID (committed db)
      (ResourceIdentifier (ref_Name (kie_AddressGroup k)) (k_Namespace k)) = Inr g'"
proof -
  from assms(3,4) obtain k where k: "unmarshal_IEAgAgRule w (ar_Object req) = Inr k" "ie_typed (wh_names w) k"
    "IEAgAgRuleValidator_ValidateReferences (wh_reader w) (convertIEAgAgRuleToDomain k) = None"
    by (auto simp: validateIEAgAgRule_def field_checks_accepted IEAgAgRuleValidator_ValidateForCreation_def
        elim!: admitted_creation)
  then have "\<exists>g. mem_GetAddressGroupByID (committed db) (ref_id (bare_ref (ref_Name (kie_AddressGroupLocal k)) (k_Namespace k))) = Inr g"
    and "\<exists>g. mem_GetAddressGroupByID (committed db) (ref_id (bare_ref (ref_Name (kie_AddressGroup k)) (k_Namespace k))) = Inr g"
    using assms(1,2)
    by (auto simp: IEAgAgRuleValidator_ValidateReferences_def convertIEAgAgRuleToDomain_def ie_typed_def ref_to_def
        ref_named_def intro!: checked_group)
  with k show ?thesis by (auto simp: bare_ref_def ref_id_def)
qed

lemma admitted_network:
  assumes "wh_reader w = mem_reader db" and "resp_Allowed (validateNetwork w req)" and "ar_Operation req = Create"
  shows "\<exists>k. unmarshal_Network w (ar_Object req) = Inr k \<and> ParseCIDR (knw_CIDR k) = None \<and>
    (\<exists>e. mem_GetNetworkByCIDR db (knw_CIDR k) = Inl e \<and> is_not_found e)"
  using assms
  by (auto simp: validateNetwork_def field_checks_accepted NetworkValidator_ValidateForCreation_def
      ValidateCIDRUniqueness_def convertNetworkToDomain_def elim!: admitted_creation split: sum.splits if_splits)

text \<open>
  C25: What an admitted creation guarantees on a well-formed database. A service is well typed and
  the ranges of its ports that parse are disjoint per protocol. A binding names a stored service
  and a stored address group. A service rule has a direction and names stored services. A
  generated rule is well typed and its address groups, taken in the namespace of the rule, are
  stored. A network has a valid address range that no stored network has.\<close>
theorem admitted_objects_checked:
  assumes "db_good db" and "wh_reader w = mem_reader (committed db)" and "ar_Operation req = Create"
    and "resp_Allowed (ValidateAdmissionReview w req)"
  shows "(ar_Kind req = ''Service'' \<longrightarrow>
      (\<exists>k. unmarshal_Service w (ar_Object req) = Inr k \<and> service_typed k \<and>
         pairwise_disjoint (port_ranges (ksv_IngressPorts k) TCP) \<and>
         pairwise_disjoint (port_ranges (ksv_IngressPorts k) UDP))) \<and>
    (ar_Kind req = ''AddressGroupBinding'' \<longrightarrow>
      (\<exists>k s g. unmarshal_AddressGroupBinding w (ar_Object req) = Inr k \<and>
         ref_to (wh_names w) ''Service'' (kagb_ServiceRef k) \<and>
         ref_to (wh_names w) ''AddressGroup'' (kagb_AddressGroupRef k) \<and>
         mem_GetServiceByID (committed db) (ref_id (kagb_ServiceRef k)) = Inr s \<and>
         mem_GetAddressGroupByID (committed db) (ref_id (kagb_AddressGroupRef k)) = Inr g)) \<and>
    (ar_Kind req = ''RuleS2S'' \<longrightarrow>
      (\<exists>k s s'. unmarshal_RuleS2S w (ar_Object req) = Inr k \<and> rule_typed (wh_names w) k \<and>
         mem_GetServiceByID (committed db) (ref_id (krs_ServiceLocalRef k)) = Inr s \<and>
         mem_GetServiceByID (committed db) (ref_id (krs_ServiceRef k)) = Inr s')) \<and>
    (ar_Kind req = ''IEAgAgRule'' \<longrightarrow>
      (\<exists>k g g'. unmarshal_IEAgAgRule w (ar_Object req) = Inr k \<and> ie_typed (wh_names w) k \<and>
         mem_GetAddressGroupByID (committed db)
           (ResourceIdentifier (ref_Name (kie_AddressGroupLocal k)) (k_Namespace k)) = Inr g \<and>
         mem_GetAddressGroupByID (committed db)
           (ResourceIdentifier (ref_Name (kie_AddressGroup k)) (k_Namespace k)) = Inr g')) \<and>
    (ar_Kind req = ''Network'' \<longrightarrow>
      (\<exists>k. unmarshal_Network w (ar_Object req) = Inr k \<and> ParseCIDR (knw_CIDR k) = None \<and>
         (\<exists>e. mem_GetNetworkByCIDR (committed db) (knw_CIDR k) = Inl e \<and> is_not_found e)))"
proof (intro conjI impI, goal_cases)
  case 1
  with assms show ?case by (intro admitted_service) (simp_all add: review_dispatch)
next
  case 2
  with assms show ?case by (intro admitted_binding) (simp_all add: review_dispatch)
next
  case 3
  with assms show ?case by (intro admitted_rule) (simp_all add: review_dispatch)
next
  case 4
  with assms show ?case by (intro admitted_ie_rule) (simp_all add: review_dispatch)
next
  case 5
  with assms show ?case by (intro admitted_network) (simp_all add: review_dispatch)
qed

lemma ex_names_accept:
  "meta_accepted ex_names (ex_object_meta ''b1'')" "meta_accepted ex_names (ex_object_meta ''g1'')"
  "meta_accepted ex_names (ex_object_meta ''api'')"
  "ref_to ex_names kind ((ex_ref ''web'')\<lparr>ref_Kind := kind\<rparr>)"
  "ref_to ex_names kind ((ex_ref ''front'')\<lparr>ref_Kind := kind\<rparr>)"
  by (simp_all add: meta_accepted_def ex_object_meta_def ConvertMetadataFromDomain_def empty_meta_def ex_names_def
      isDNS1123Subdomain_def dns1123_label_def alnum_char_def ref_to_def ref_named_def ex_ref_def
      APIVersionV1Beta1_def)

lemma ex_binding_admitted:
  "resp_Allowed (ValidateAdmissionReview ex_webhook (ex_request ''AddressGroupBinding'' Create ''b1'' ''{}''))"
proof -
  have "AddressGroupBindingValidator_ValidateForCreation (mem_reader (committed ex_db))
      (convertAddressGroupBindingToDomain ex_k8s_binding) = None"
    by code_simp
  moreover have "K8sAddressGroupBinding_ValidateCreate ex_names (Some ex_k8s_binding) = []"
    by (simp add: field_checks_accepted ex_k8s_binding_def ex_names_accept)
  ultimately show ?thesis
    using binding_creation_allowed [of "ex_request ''AddressGroupBinding'' Create ''b1'' ''{}''" ex_webhook ex_k8s_binding]
    by (simp add: review_dispatch ex_request_def ex_webhook_def ex_decode_def)
qed

theorem admitted_objects_checked_witness:
  "\<exists>k s g. unmarshal_AddressGroupBinding ex_webhook ''{}'' = Inr k \<and>
     mem_GetServiceByID (committed ex_db) (ref_id (kagb_ServiceRef k)) = Inr s \<and>
     mem_GetAddressGroupByID (committed ex_db) (ref_id (kagb_AddressGroupRef k)) = Inr g"
  using admitted_objects_checked [OF _ _ _ ex_binding_admitted, of ex_db]
  by (auto simp: ex_request_def ex_webhook_def)

section \<open>Ports\<close>

text \<open>
  C40: Every port of a generated rule that passes the field validation reaches the validators and
  the backend as a text that parses to the range it stands for; the registry converter accepts
  such a rule exactly when it has an action, which the field validation does not require.\<close>
theorem accepted_rule_ports_kept:
  assumes "K8sIEAgAgRule_ValidateCreate nr (Some k) = []"
  shows "map (\<lambda>p. ParsePortRanges (ps_Destination p)) (ie_Ports (convertIEAgAgRuleToDomain k)) =
      map (\<lambda>p. Inr [spec_range p]) (kie_Ports k) \<and>
    map (\<lambda>p. ParsePortRanges (ps_Destination (port_spec_to_domain p))) (kie_Ports k) =
      map (\<lambda>p. Inr [spec_range p]) (kie_Ports k) \<and>
    (case IEAgAgRuleConverter_ToDomain (Some k) of
       Inl _ \<Rightarrow> kie_Action k = []
     | Inr d \<Rightarrow> kie_Action k \<noteq> [] \<and> ie_Ports d = map port_spec_to_domain (kie_Ports k))"
  using typed_rule_converts [of nr k] assms by (simp add: field_checks_accepted)

theorem accepted_rule_ports_kept_witness:
  "map (\<lambda>p. ParsePortRanges (ps_Destination p)) (ie_Ports (convertIEAgAgRuleToDomain ex_k8s_ie_rule)) =
     [Inr [\<lparr> pr_Start = 80, pr_End = 90 \<rparr>]]"
proof -
  have "K8sIEAgAgRule_ValidateCreate ex_names (Some ex_k8s_ie_rule) = []"
    by (simp add: field_checks_accepted ex_k8s_ie_rule_def ex_names_accept ie_typed_def tcp_or_udp_def
        ingress_or_egress_def accept_or_drop_def port_spec_typed_def)
  from accepted_rule_ports_kept [OF this] show ?thesis
    by (simp add: ex_k8s_ie_rule_def spec_range_def)
qed

text \<open>
  Adding to an admitted new service a port that does not parse, but passes the field
  validation, does not change the answer: the webhook's conversion skips the port. The service
  the registry converter makes of it fails the backend's creation check on every reader.\<close>
theorem unparsable_port_admitted:
  assumes "ar_Kind req = ''Service''" and "ar_Operation req = Create"
    and "unmarshal_Service w (ar_Object req) = Inr k" and "resp_Allowed (ValidateAdmissionReview w req)"
    and "ingress_port_typed q" and "ingress_port_key q \<notin> ingress_port_key ` set (ksv_IngressPorts k)"
    and "\<not> port_parses (ip_Port q)" and "k' = k\<lparr>ksv_IngressPorts := ksv_IngressPorts k @ [q]\<rparr>"
  shows "resp_Allowed (ValidateAdmissionReview
      (w\<lparr>unmarshal_Service := (unmarshal_Service w)(ar_Object req := Inr k')\<rparr>) req) \<and>
    (case ServiceConverter_ToDomain (Some k') of
       Inl _ \<Rightarrow> False | Inr d \<Rightarrow> ServiceValidator_ValidateForCreation rd d \<noteq> None)"
proof
  have "service_typed k \<Longrightarrow> service_typed k'" "convertServiceToDomain k' = convertServiceToDomain k"
    "k_ObjectMeta k' = k_ObjectMeta k"
    using assms(5-8) by (auto simp: service_typed_def convertServiceToDomain_def)
  then show "resp_Allowed (ValidateAdmissionReview
      (w\<lparr>unmarshal_Service := (unmarshal_Service w)(ar_Object req := Inr k')\<rparr>) req)"
    using assms(1-4)
    by (auto simp: review_dispatch validateService_def creation_allowed field_checks_accepted)
  show "case ServiceConverter_ToDomain (Some k') of
       Inl _ \<Rightarrow> False | Inr d \<Rightarrow> ServiceValidator_ValidateForCreation rd d \<noteq> None"
    using assms(7,8)
    by (auto simp: ServiceConverter_ToDomain_def ServiceValidator_ValidateForCreation_def
        ValidateNoDuplicatePorts_def no_duplicate_ports_iff port_parses_iff)
qed

lemma ex_service_admitted:
  "resp_Allowed (ValidateAdmissionReview ex_webhook (ex_request ''Service'' Create ''api'' ''{}''))"
proof -
  have "ServiceValidator_ValidateForCreation (mem_reader (committed ex_db)) (convertServiceToDomain ex_k8s_service) = None"
    by code_simp
  moreover have "K8sService_ValidateCreate ex_names (Some ex_k8s_service) = []"
    by (simp add: field_checks_accepted ex_k8s_service_def ex_names_accept service_typed_def ingress_port_typed_def
        ex_port_def tcp_or_udp_def)
  ultimately show ?thesis
    by (simp add: review_dispatch validateService_def creation_allowed ex_request_def ex_webhook_def ex_decode_def)
qed

theorem unparsable_port_admitted_witness:
  "resp_Allowed (ValidateAdmissionReview
     (ex_webhook\<lparr>unmarshal_Service := (unmarshal_Service ex_webhook)(''{}'' :=
        Inr (ex_k8s_service\<lparr>ksv_IngressPorts := [ex_port ''80'', ex_port ''http'']\<rparr>))\<rparr>)
     (ex_request ''Service'' Create ''api'' ''{}''))"
proof -
  have "\<not> port_parses ''http''" by code_simp
  then show ?thesis
    using unparsable_port_admitted [OF _ _ _ ex_service_admitted, of ex_k8s_service "ex_port ''http''"]
    by (simp add: ex_request_def ex_webhook_def ex_decode_def ingress_port_typed_def tcp_or_udp_def
        ingress_port_key_def ex_k8s_service_def ex_port_def)
qed

section \<open>The mutating webhook\<close>

text \<open>
  When the patches of the mutating webhook apply to the object they are computed from. The
  labels, annotations and finalizer are added to every object. The defaults are not: they
  replace a value that the encoding leaves out when it is empty, so the patches of a service
  apply exactly when it has a description, and those of bindings, policies, service rules and
  aliases exactly when the references have their namespaces already. The default action of an
  address group is always encoded and its patches apply.\<close>
theorem mutation_patches_apply_iff:
  "(patches_apply (service_paths s) (service_patches s) \<longleftrightarrow> ksv_Description s \<noteq> []) \<and>
   patches_apply (metadata_paths g @ [''/spec'', ''/spec/defaultAction'']) (address_group_patches g) \<and>
   (patches_apply (metadata_paths b @ [''/spec''] @ ref_paths (kagb_AddressGroupRef b) ''/spec/addressGroupRef'' @
      ref_paths (kagb_ServiceRef b) ''/spec/serviceRef'') (binding_patches b) \<longleftrightarrow>
      ref_Namespace (kagb_AddressGroupRef b) \<noteq> [] \<and> ref_Namespace (kagb_ServiceRef b) \<noteq> []) \<and>
   (patches_apply (metadata_paths p @ [''/spec''] @ ref_paths (kagbp_AddressGroupRef p) ''/spec/addressGroupRef'' @
      ref_paths (kagbp_ServiceRef p) ''/spec/serviceRef'') (policy_patches p) \<longleftrightarrow>
      ref_Namespace (kagbp_AddressGroupRef p) \<noteq> [] \<and> ref_Namespace (kagbp_ServiceRef p) \<noteq> []) \<and>
   (patches_apply (metadata_paths r @ [''/spec''] @ ref_paths (krs_ServiceLocalRef r) ''/spec/serviceLocalRef'' @
      ref_paths (krs_ServiceRef r) ''/spec/serviceRef'') (rule_s2s_patches r) \<longleftrightarrow>
      ref_Namespace (krs_ServiceLocalRef r) \<noteq> [] \<and> ref_Namespace (krs_ServiceRef r) \<noteq> []) \<and>
   (patches_apply (metadata_paths a @ [''/spec''] @ ref_paths (ksa_ServiceRef a) ''/spec/serviceRef'') (alias_patches a) \<longleftrightarrow>
      ref_Namespace (ksa_ServiceRef a) \<noteq> []) \<and>
   patches_apply (metadata_paths m @ [''/spec'']) (common_patches m) \<and>
   patches_apply (metadata_paths ie @ [''/spec'']) (common_patches ie)"
proof (intro conjI, goal_cases)
  case 1
  show ?case
    by (auto simp: service_paths_def service_patches_def common_then patch_def unless_empty_def spec_path_not_added)
next
  case 2
  show ?case by (simp add: address_group_patches_def common_then patch_def)
qed (auto simp: binding_patches_def policy_patches_def rule_s2s_patches_def alias_patches_def common_then
    default_namespace_applies default_namespace_applies [where qs = "[]", simplified] ref_paths_def unless_empty_def)

end
