(* ===== verification/SyncUtils.thy ===== *)
theory SyncUtils
  imports Resources "HOL-Library.Word"
begin

text \<open>
  The helpers of the resource services (\<^verbatim>\<open>internal/application/utils\<close>): the Ready condition of a
  synchronised object (\<^verbatim>\<open>conditions.go\<close>), the tracker that spaces out synchronisations of one
  object, and the retry loop around a call to the external system (\<^verbatim>\<open>retry.go\<close>).

  Times are nanoseconds. Pauses between attempts and the cancellation of the context are not
  modelled, so the loop ends with its last attempt.
\<close>

section \<open>The Ready condition\<close>

definition utils_SetReadyCondition :: "env \<Rightarrow> string \<Rightarrow> string \<Rightarrow> string \<Rightarrow> meta \<Rightarrow> meta \<times> env" where
  "utils_SetReadyCondition e status reason message m =
     (SetCondition \<lparr> cond_Type = ''Ready'', cond_Status = status, cond_ObservedGeneration = Generation m,
        cond_LastTransitionTime = At (fst (Now e)), cond_Reason = reason, cond_Message = message \<rparr> m,
      snd (Now e))"

definition SetSyncSuccessCondition :: "env \<Rightarrow> meta \<Rightarrow> meta \<times> env" where
  "SetSyncSuccessCondition e m =
     utils_SetReadyCondition e ''True'' ''SyncSucceeded'' ''Successfully synced with external source'' m"

definition SetSyncFailedCondition :: "env \<Rightarrow> error \<Rightarrow> meta \<Rightarrow> meta \<times> env" where
  "SetSyncFailedCondition e err m =
     utils_SetReadyCondition e ''False'' ''SyncFailed''
       (''Failed to sync with external source: '' @ error_text err) m"

section \<open>The tracker\<close>

record sync_stats =
  TotalAttempts :: int
  SuccessfulSyncs :: int
  FailedSyncs :: int
  LastSyncTime :: gotime
  LastError :: "error option"

record sync_tracker =
  lastSyncTimes :: "int table"
  syncStats :: "sync_stats table"
  minSyncInterval :: int

definition NewSyncTracker :: "int \<Rightarrow> sync_tracker" where
  "NewSyncTracker minInterval = \<lparr> lastSyncTimes = [], syncStats = [], minSyncInterval = minInterval \<rparr>"

definition no_stats :: sync_stats where
  "no_stats = \<lparr> TotalAttempts = 0, SuccessfulSyncs = 0, FailedSyncs = 0, LastSyncTime = ZeroTime, LastError = None \<rparr>"

definition ShouldSync :: "env \<Rightarrow> string \<Rightarrow> sync_tracker \<Rightarrow> bool \<times> sync_tracker \<times> env" where
  "ShouldSync e key t =
     (let now = fst (Now e); e' = snd (Now e)
      in if (case map_of (lastSyncTimes t) key of None \<Rightarrow> True | Some lastSync \<Rightarrow> now - lastSync \<ge> minSyncInterval t)
         then (let stats = (case map_of (syncStats t) key of None \<Rightarrow> no_stats | Some st \<Rightarrow> st)
               in (True,
                   t\<lparr>lastSyncTimes := AList.update key now (lastSyncTimes t),
                     syncStats := AList.update key (stats\<lparr>TotalAttempts := TotalAttempts stats + 1\<rparr>) (syncStats t)\<rparr>,
                   e'))
         else (False, t, e'))"

definition RecordSuccess :: "env \<Rightarrow> string \<Rightarrow> sync_tracker \<Rightarrow> sync_tracker \<times> env" where
  "RecordSuccess e key t =
     (case map_of (syncStats t) key of
        None \<Rightarrow> (t, e)
      | Some st \<Rightarrow>
          (t\<lparr>syncStats := AList.update key
             (st\<lparr>SuccessfulSyncs := SuccessfulSyncs st + 1, LastSyncTime := At (fst (Now e)), LastError := None\<rparr>)
             (syncStats t)\<rparr>, snd (Now e)))"

definition RecordFailure :: "string \<Rightarrow> error \<Rightarrow> sync_tracker \<Rightarrow> sync_tracker" where
  "RecordFailure key err t =
     (case map_of (syncStats t) key of
        None \<Rightarrow> t
      | Some st \<Rightarrow>
          t\<lparr>syncStats := AList.update key (st\<lparr>FailedSyncs := FailedSyncs st + 1, LastError := Some err\<rparr>) (syncStats t)\<rparr>)"

definition GetStats :: "string \<Rightarrow> sync_tracker \<Rightarrow> sync_stats option" where
  "GetStats key t = map_of (syncStats t) key"

section \<open>Retries\<close>

record retry_config =
  InitialDelay :: int
  MaxDelay :: int
  MinSyncInterval :: int

definition DefaultRetryConfig :: retry_config where
  "DefaultRetryConfig = \<lparr> InitialDelay = 2000000000, MaxDelay = 30000000000, MinSyncInterval = 1000000000 \<rparr>"

text \<open>A duration is a signed 64-bit integer; the shift and the product wrap around.\<close>

definition CalculateRetryDelay :: "retry_config \<Rightarrow> nat \<Rightarrow> int" where
  "CalculateRetryDelay config attemptCount =
     (let delay = sint (word_of_int (InitialDelay config) * push_bit attemptCount 1 :: 64 word)
      in if delay > MaxDelay config then MaxDelay config else delay)"

lemma retry_delays:
  "CalculateRetryDelay DefaultRetryConfig 0 = 2000000000"
  "CalculateRetryDelay DefaultRetryConfig 1 = 4000000000"
  "CalculateRetryDelay DefaultRetryConfig 2 = 8000000000"
  by (simp_all add: CalculateRetryDelay_def DefaultRetryConfig_def Let_def)

text \<open>
  \<^verbatim>\<open>strings.ToLower\<close>, as far as a search for ASCII text sees it: besides the ASCII capitals,
  only the Kelvin sign and the dotted capital I have an ASCII letter as lower case.
\<close>

fun lower_text :: "string \<Rightarrow> string" where
  "lower_text [] = []"
| "lower_text (c # s) =
     (let n = of_char c :: nat
      in if 65 \<le> n \<and> n \<le> 90 then char_of (n + 32) # lower_text s
         else if n = 226 \<and> take 2 s = [char_of (132 :: nat), char_of (170 :: nat)] then CHR ''k'' # lower_text (drop 2 s)
         else if n = 196 \<and> take 1 s = [char_of (176 :: nat)] then CHR ''i'' # lower_text (drop 1 s)
         else c # lower_text s)"

fun contains :: "string \<Rightarrow> string \<Rightarrow> bool" where
  "contains s p \<longleftrightarrow> take (length p) s = p \<or> (case s of [] \<Rightarrow> False | _ # t \<Rightarrow> contains t p)"

declare contains.simps [simp del]

text \<open>
  The status code and message that the gRPC library finds in an error, if any, are given by a
  function.
\<close>

abbreviation codes_DeadlineExceeded :: int where "codes_DeadlineExceeded \<equiv> 4"
abbreviation codes_ResourceExhausted :: int where "codes_ResourceExhausted \<equiv> 8"
abbreviation codes_Internal :: int where "codes_Internal \<equiv> 13"
abbreviation codes_Unavailable :: int where "codes_Unavailable \<equiv> 14"

definition temporary_text :: "string \<Rightarrow> bool" where
  "temporary_text msg \<longleftrightarrow>
     contains msg ''temporary'' \<or> contains msg ''timeout'' \<or> contains msg ''connection'' \<or> contains msg ''network''"

definition text_retryable :: "string \<Rightarrow> bool" where
  "text_retryable msg \<longleftrightarrow>
     temporary_text msg \<or> contains msg ''unavailable'' \<or> contains msg ''deadline exceeded''"

definition IsRetryableError :: "(error \<Rightarrow> (int \<times> string) option) \<Rightarrow> error option \<Rightarrow> bool" where
  "IsRetryableError fromError err =
     (case err of
        None \<Rightarrow> False
      | Some e \<Rightarrow>
          (case fromError e of
             Some (code, message) \<Rightarrow>
               if code = codes_Unavailable \<or> code = codes_DeadlineExceeded \<or> code = codes_ResourceExhausted then True
               else if code = codes_Internal then temporary_text (lower_text message)
               else text_retryable (lower_text (error_text e))
           | None \<Rightarrow> text_retryable (lower_text (error_text e))))"

text \<open>The call may change the state; \<open>n\<close> is the number of attempts left.\<close>

fun retry_loop ::
  "(error \<Rightarrow> (int \<times> string) option) \<Rightarrow> ('s \<Rightarrow> error option \<times> 's) \<Rightarrow> nat \<Rightarrow> string \<Rightarrow> 's \<Rightarrow> error option \<times> 's"
where
  "retry_loop fromError fn 0 lastErr s =
     (Some (Errorf (''failed after 3 attempts, last error: '' @ lastErr)), s)"
| "retry_loop fromError fn (Suc n) lastErr s =
     (case fn s of
        (None, s') \<Rightarrow> (None, s')
      | (Some e, s') \<Rightarrow>
          if \<not> IsRetryableError fromError (Some e) then (Some e, s')
          else retry_loop fromError fn n (error_text e) s')"

definition ExecuteWithRetry ::
  "(error \<Rightarrow> (int \<times> string) option) \<Rightarrow> ('s \<Rightarrow> error option \<times> 's) \<Rightarrow> 's \<Rightarrow> error option \<times> 's"
where
  "ExecuteWithRetry fromError fn s = retry_loop fromError fn 3 ''<nil>'' s"

lemma retry_keeps:
  assumes "\<And>s. P (snd (fn s)) = P s"
  shows "P (snd (retry_loop fromError fn n l s)) = P s"
proof (induction n arbitrary: l s)
  case (Suc n)
  show ?case using assms [of s] Suc by (auto split: prod.split option.split)
qed simp

lemma ExecuteWithRetry_keeps: "(\<And>s. P (snd (fn s)) = P s) \<Longrightarrow> P (snd (ExecuteWithRetry fromError fn s)) = P s"
  unfolding ExecuteWithRetry_def by (rule retry_keeps)

end
