(* ===== verification/NetworkServices.thy ===== *)
theory NetworkServices
  imports ConditionManager SyncUtils
begin

text \<open>
  The services of networks and network bindings
  (\<^verbatim>\<open>services/resources/network_resource_service.go\<close>, \<^verbatim>\<open>network_binding_resource_service.go\<close>) and
  the methods of the facade that reach them (\<^verbatim>\<open>netguard_facade.go\<close>), on the in-memory registry.

  A binding links three stored objects: the binding itself, the network, which is marked as
  bound and names the binding and the address group, and the address group, which lists the
  network. Each is written by a transaction of its own.

  A function that may panic (the nil reference of a bound network) returns an option, \<open>None\<close>
  being the panic. An object that a function changes through its pointer is part of its result
  when the caller uses it afterwards.
\<close>

section \<open>State\<close>

text \<open>
  \<open>ns_networkSync\<close> is the answer of the external system to a network, given the calls made before;
  \<open>ns_forcedSync\<close> its answer to an address group that is sent past the debouncing. Whether there
  is such a system, and a condition manager, is told by the flags of the engine.
\<close>

record net_state =
  ns_backend :: backend
  ns_networkTracker :: sync_tracker
  ns_bindingTracker :: sync_tracker
  ns_networkSync :: "(sync_operation \<times> network) list \<Rightarrow> sync_operation \<Rightarrow> network \<Rightarrow> error option"
  ns_networksSynced :: "(sync_operation \<times> network) list"
  ns_forcedSync :: "address_group list \<Rightarrow> address_group \<Rightarrow> error option"
  ns_groupsForced :: "address_group list"
  ns_fromError :: "error \<Rightarrow> (int \<times> string) option"

abbreviation ns_reg :: "net_state \<Rightarrow> registry" where "ns_reg s \<equiv> be_reg (ns_backend s)"
abbreviation ns_db :: "net_state \<Rightarrow> mem_db" where "ns_db s \<equiv> be_db (ns_backend s)"
abbreviation ns_env :: "net_state \<Rightarrow> env" where "ns_env s \<equiv> be_env (ns_backend s)"
abbreviation ns_synced :: "net_state \<Rightarrow> bool" where "ns_synced s \<equiv> eng_syncManager (be_engine (ns_backend s))"
abbreviation ns_managed :: "net_state \<Rightarrow> bool" where "ns_managed s \<equiv> eng_conditionManager (be_engine (ns_backend s))"

definition ns_set_env :: "env \<Rightarrow> net_state \<Rightarrow> net_state" where
  "ns_set_env e s = s\<lparr>ns_backend := set_env e (ns_backend s)\<rparr>"

definition ns_commit :: "writer \<Rightarrow> net_state \<Rightarrow> net_state" where
  "ns_commit w s = s\<lparr>ns_backend := be_commit w (ns_backend s)\<rparr>"

text \<open>A transaction that writes one object, and one that deletes: \<open>writer.Sync...; writer.Commit\<close>.\<close>

definition write_one ::
  "(env \<Rightarrow> mem_db \<Rightarrow> 'a resource_scheme list \<Rightarrow> scope option \<Rightarrow> sync_option list \<Rightarrow> writer \<Rightarrow> writer \<times> env) \<Rightarrow>
   'a resource_scheme \<Rightarrow> writer \<Rightarrow> net_state \<Rightarrow> net_state"
where
  "write_one sync x w s =
     (let (w', e) = sync (ns_env s) (ns_db s) [x] (Some EmptyScope) [SyncOption SyncOpUpsert] w
      in ns_commit w' (ns_set_env e s))"

definition touch_now :: "'a resource_scheme \<Rightarrow> net_state \<Rightarrow> 'a resource_scheme \<times> net_state" where
  "touch_now x s =
     (x\<lparr>Meta := TouchOnWrite (itoa (fst (Now (ns_env s)))) (Meta x)\<rparr>, ns_set_env (snd (Now (ns_env s))) s)"

definition mark_synced :: "'a resource_scheme \<Rightarrow> net_state \<Rightarrow> 'a resource_scheme \<times> net_state" where
  "mark_synced x s =
     (let (m, e) = SetSyncSuccessCondition (ns_env s) (Meta x) in (x\<lparr>Meta := m\<rparr>, ns_set_env e s))"

definition mark_failed :: "error \<Rightarrow> 'a resource_scheme \<Rightarrow> net_state \<Rightarrow> 'a resource_scheme \<times> net_state" where
  "mark_failed err x s =
     (let (m, e) = SetSyncFailedCondition (ns_env s) err (Meta x) in (x\<lparr>Meta := m\<rparr>, ns_set_env e s))"

section \<open>Networks\<close>

definition operation_text :: "sync_operation \<Rightarrow> string" where
  "operation_text op = (case op of SyncOperationUpsert \<Rightarrow> ''Upsert'' | SyncOperationDelete \<Rightarrow> ''Delete'')"

definition SyncEntity_network :: "sync_operation \<Rightarrow> network \<Rightarrow> net_state \<Rightarrow> error option \<times> net_state" where
  "SyncEntity_network op n s =
     (if ns_synced s
      then (ns_networkSync s (ns_networksSynced s) op n, s\<lparr>ns_networksSynced := ns_networksSynced s @ [(op, n)]\<rparr>)
      else (None, s))"

definition syncNetworkWithExternal ::
  "network \<Rightarrow> sync_operation \<Rightarrow> net_state \<Rightarrow> (error option \<times> network) \<times> net_state"
where
  "syncNetworkWithExternal n op s =
     (let syncKey = operation_text op @ ''-'' @ Key n;
          (should, t, e) = ShouldSync (ns_env s) syncKey (ns_networkTracker s);
          s1 = ns_set_env e (s\<lparr>ns_networkTracker := t\<rparr>)
      in if \<not> should then ((None, n), s1)
         else (case ExecuteWithRetry (ns_fromError s) (SyncEntity_network op n) s1 of
                 (Some err, s2) \<Rightarrow>
                   (let (n', s3) = mark_failed err n
                          (s2\<lparr>ns_networkTracker := RecordFailure syncKey err (ns_networkTracker s2)\<rparr>)
                    in ((Some (Wrap ''failed to sync with external system'' err), n'), s3))
               | (None, s2) \<Rightarrow>
                   (let (t', e') = RecordSuccess (ns_env s2) syncKey (ns_networkTracker s2);
                        (n', s3) = mark_synced n (ns_set_env e' (s2\<lparr>ns_networkTracker := t'\<rparr>))
                    in ((None, n'), s3))))"

text \<open>The same for an address group; nothing calls it.\<close>

definition SyncEntity_group :: "address_group \<Rightarrow> net_state \<Rightarrow> error option \<times> net_state" where
  "SyncEntity_group g s = (let (err, b) = sync_group g (ns_backend s) in (err, s\<lparr>ns_backend := b\<rparr>))"

definition syncAddressGroupWithExternal ::
  "address_group \<Rightarrow> string \<Rightarrow> net_state \<Rightarrow> (error option \<times> address_group) \<times> net_state"
where
  "syncAddressGroupWithExternal g operation s =
     (let syncKey = operation @ ''-'' @ Key g;
          (should, t, e) = ShouldSync (ns_env s) syncKey (ns_networkTracker s);
          s1 = ns_set_env e (s\<lparr>ns_networkTracker := t\<rparr>)
      in if \<not> should then ((None, g), s1)
         else (case ExecuteWithRetry (ns_fromError s) (SyncEntity_group g) s1 of
                 (Some err, s2) \<Rightarrow>
                   (let (g', s3) = mark_failed err g
                          (s2\<lparr>ns_networkTracker := RecordFailure syncKey err (ns_networkTracker s2)\<rparr>)
                    in ((Some (Wrap ''failed to sync with external system'' err), g'), s3))
               | (None, s2) \<Rightarrow>
                   (let (t', e') = RecordSuccess (ns_env s2) syncKey (ns_networkTracker s2);
                        (g', s3) = mark_synced g (ns_set_env e' (s2\<lparr>ns_networkTracker := t'\<rparr>))
                    in ((None, g'), s3))))"

definition service_validateCIDR :: "string \<Rightarrow> error option" where
  "service_validateCIDR cidr =
     (if cidr = [] then Some (Errorf ''CIDR cannot be empty'')
      else if CHR ''/'' \<notin> set cidr then Some (Errorf (''invalid CIDR format: '' @ cidr))
      else None)"

definition getNetworkByID :: "string \<Rightarrow> net_state \<Rightarrow> error + network" where
  "getNetworkByID i s =
     (case Reader (ns_reg s) of
        Inl e \<Rightarrow> Inl e
      | Inr rd \<Rightarrow>
          GetNetworkByID (mem_reader rd)
            (case split_on CHR ''/'' i of
               [ns, name] \<Rightarrow> ResourceIdentifier name ns
             | _ \<Rightarrow> ResourceIdentifier i []))"

definition process_network :: "network \<Rightarrow> error option \<Rightarrow> net_state \<Rightarrow> net_state" where
  "process_network n syncErr s =
     (if ns_managed s then s\<lparr>ns_backend := snd (ProcessNetworkConditions n syncErr (ns_backend s))\<rparr> else s)"

text \<open>What creation and update do once the object may be written.\<close>

definition store_network :: "network \<Rightarrow> writer \<Rightarrow> net_state \<Rightarrow> error option \<times> net_state" where
  "store_network n w s =
     (case syncNetworkWithExternal n SyncOperationUpsert (write_one SyncNetworks n w s) of
        ((syncErr, n'), s') \<Rightarrow> (syncErr, process_network n' syncErr s'))"

definition CreateNetwork :: "network \<Rightarrow> net_state \<Rightarrow> error option \<times> net_state" where
  "CreateNetwork n s =
     (case service_validateCIDR (nw_CIDR n) of
        Some e \<Rightarrow> (Some (Wrap ''invalid CIDR'' e), s)
      | None \<Rightarrow>
     (case getNetworkByID (Key n) s of
        Inr _ \<Rightarrow> (Some (Errorf (''network already exists: '' @ Key n)), s)
      | Inl e \<Rightarrow>
          if \<not> is_not_found e then (Some (Wrap ''failed to check existing network'' e), s)
          else
            (let (m, env) = TouchOnCreate (ns_env s) (Meta n);
                 n1 = n\<lparr>Meta := m\<rparr>;
                 s1 = ns_set_env env s
             in case Writer (ns_reg s1) of
                  Inl e \<Rightarrow> (Some (Wrap ''failed to get writer'' e), s1)
                | Inr w \<Rightarrow> store_network n1 w s1)))"

definition UpdateNetwork :: "network \<Rightarrow> net_state \<Rightarrow> error option \<times> net_state" where
  "UpdateNetwork n s =
     (case service_validateCIDR (nw_CIDR n) of
        Some e \<Rightarrow> (Some (Wrap ''invalid CIDR'' e), s)
      | None \<Rightarrow>
     (case getNetworkByID (Key n) s of
        Inl e \<Rightarrow> (Some (Wrap ''failed to get existing network'' e), s)
      | Inr existing \<Rightarrow>
          if nw_IsBound existing \<and> nw_CIDR existing \<noteq> nw_CIDR n
          then (Some (Errorf ''cannot change CIDR when network is bound''), s)
          else
            (let (n1, s1) = touch_now n s
             in case Writer (ns_reg s1) of
                  Inl e \<Rightarrow> (Some (Wrap ''failed to get writer'' e), s1)
                | Inr w \<Rightarrow> store_network n1 w s1)))"

definition network_GetNetwork :: "resource_identifier \<Rightarrow> net_state \<Rightarrow> error + network" where
  "network_GetNetwork i s =
     (case Reader (ns_reg s) of
        Inl e \<Rightarrow> Inl (Wrap ''failed to get reader'' e)
      | Inr rd \<Rightarrow>
          (case GetNetworkByID (mem_reader rd) i of Inl e \<Rightarrow> Inl (Wrap ''failed to get network'' e) | Inr n \<Rightarrow> Inr n))"

definition network_GetAddressGroup :: "resource_identifier \<Rightarrow> net_state \<Rightarrow> error + address_group" where
  "network_GetAddressGroup i s =
     (case Reader (ns_reg s) of
        Inl e \<Rightarrow> Inl (Wrap ''failed to get reader'' e)
      | Inr rd \<Rightarrow>
          (case GetAddressGroupByID (mem_reader rd) i of
             Inl e \<Rightarrow> Inl (Wrap ''failed to get address group'' e) | Inr g \<Rightarrow> Inr g))"

definition network_UpdateAddressGroup :: "address_group \<Rightarrow> net_state \<Rightarrow> error option \<times> net_state" where
  "network_UpdateAddressGroup g s =
     (case Writer (ns_reg s) of
        Inl e \<Rightarrow> (Some (Wrap ''failed to get writer'' e), s)
      | Inr w \<Rightarrow> (None, write_one SyncAddressGroups g w s))"

definition network_ListNetworks :: "scope option \<Rightarrow> net_state \<Rightarrow> error + network list" where
  "network_ListNetworks sc s =
     (case Reader (ns_reg s) of
        Inl e \<Rightarrow> Inl (Wrap ''failed to get reader'' e)
      | Inr rd \<Rightarrow>
          (case ListNetworks (mem_reader rd) sc of
             (_, Some e) \<Rightarrow> Inl (Wrap ''failed to list networks'' e)
           | (ns, None) \<Rightarrow> Inr ns))"

text \<open>Whether a binding may bind a network; a bound network without binding reference panics.\<close>

definition binding_allowed :: "network \<Rightarrow> resource_identifier \<Rightarrow> error option option" where
  "binding_allowed n bindingID =
     (if nw_IsBound n
      then (case nw_BindingRef n of
              None \<Rightarrow> None
            | Some r \<Rightarrow>
                if ref_Name r = rid_Name bindingID then Some None
                else Some (Some (Errorf (''network is already bound to another binding (expected: '' @
                       rid_Name bindingID @ '', actual: '' @ ref_Name r @ '')''))))
      else Some None)"

definition ValidateNetworkBinding ::
  "resource_identifier \<Rightarrow> resource_identifier \<Rightarrow> net_state \<Rightarrow> error option option"
where
  "ValidateNetworkBinding networkID bindingID s =
     (case getNetworkByID (rid_Key networkID) s of
        Inl e \<Rightarrow> Some (Some (Wrap ''failed to get network'' e))
      | Inr n \<Rightarrow> binding_allowed n bindingID)"

definition ValidateNetworkBindingWithReader ::
  "reader_ops \<Rightarrow> resource_identifier \<Rightarrow> resource_identifier \<Rightarrow> error option option"
where
  "ValidateNetworkBindingWithReader rd networkID bindingID =
     (case GetNetworkByID rd networkID of
        Inl e \<Rightarrow> Some (Some (Wrap ''failed to get network'' e))
      | Inr n \<Rightarrow> binding_allowed n bindingID)"

text \<open>
  Binding and unbinding a network: read it in the transaction, change the references, write it
  back and tell the external system, whose error is dropped.
\<close>

definition change_network ::
  "(network \<Rightarrow> network) \<Rightarrow> resource_identifier \<Rightarrow> net_state \<Rightarrow> error option \<times> net_state"
where
  "change_network change networkID s =
     (case Writer (ns_reg s) of
        Inl e \<Rightarrow> (Some (Wrap ''failed to get writer'' e), s)
      | Inr w \<Rightarrow>
     (case ReaderFromWriter (ns_reg s) w of
        Inl e \<Rightarrow> (Some (Wrap ''failed to get reader from writer'' e), s)
      | Inr rd \<Rightarrow>
     (case GetNetworkByID (mem_reader rd) networkID of
        Inl e \<Rightarrow> (Some (Wrap ''failed to get network'' e), s)
      | Inr n \<Rightarrow>
          (let (n1, s1) = touch_now (change n) s;
               (n2, s2) = mark_synced n1 s1
           in (None, snd (SyncEntity_network SyncOperationUpsert n2 (write_one SyncNetworks n2 w s2)))))))"

definition bind_network :: "resource_identifier \<Rightarrow> resource_identifier \<Rightarrow> network \<Rightarrow> network" where
  "bind_network bindingID addressGroupID n =
     n\<lparr>nw_BindingRef := Some \<lparr> ref_APIVersion = ''netguard.sgroups.io/v1beta1'', ref_Kind = ''NetworkBinding'',
                              ref_Name = rid_Name bindingID \<rparr>,
       nw_AddressGroupRef := Some \<lparr> ref_APIVersion = ''netguard.sgroups.io/v1beta1'', ref_Kind = ''AddressGroup'',
                                   ref_Name = rid_Name addressGroupID \<rparr>,
       nw_IsBound := True\<rparr>"

definition network_UpdateNetworkBinding ::
  "resource_identifier \<Rightarrow> resource_identifier \<Rightarrow> resource_identifier \<Rightarrow> net_state \<Rightarrow> error option \<times> net_state"
where
  "network_UpdateNetworkBinding networkID bindingID addressGroupID =
     change_network (bind_network bindingID addressGroupID) networkID"

definition unbind_network :: "network \<Rightarrow> network" where
  "unbind_network n = n\<lparr>nw_BindingRef := None, nw_AddressGroupRef := None, nw_IsBound := False\<rparr>"

definition network_RemoveNetworkBinding :: "resource_identifier \<Rightarrow> net_state \<Rightarrow> error option \<times> net_state" where
  "network_RemoveNetworkBinding = change_network unbind_network"

definition network_label :: "string \<Rightarrow> string \<Rightarrow> string" where
  "network_label ns name = ns @ ''/'' @ name"

definition without_network :: "string \<Rightarrow> network_item list \<Rightarrow> network_item list" where
  "without_network label items = filter (\<lambda>i. ni_Name i \<noteq> label) items"

definition removeNetworkFromAddressGroup ::
  "resource_identifier \<Rightarrow> resource_identifier \<Rightarrow> net_state \<Rightarrow> error option \<times> net_state"
where
  "removeNetworkFromAddressGroup addressGroupRef networkRef s =
     (case Reader (ns_reg s) of
        Inl e \<Rightarrow> (Some (Wrap ''failed to get reader'' e), s)
      | Inr rd \<Rightarrow>
     (case GetAddressGroupByID (mem_reader rd) addressGroupRef of
        Inl e \<Rightarrow> (Some (Wrap ''failed to get address group'' e), s)
      | Inr g \<Rightarrow>
          (let label = network_label (rid_Namespace networkRef) (rid_Name networkRef)
           in if label \<in> ni_Name ` set (ag_Networks g)
              then (let (g1, s1) = touch_now (g\<lparr>ag_Networks := without_network label (ag_Networks g)\<rparr>) s;
                        (err, s2) = network_UpdateAddressGroup g1 s1
                    in (wrap_err ''failed to update address group'' err, s2))
              else (None, s))))"

text \<open>
  Deletion of a network: a bound one is removed from its address group and unbound first. The
  binding itself is left alone.
\<close>

definition release_network :: "network \<Rightarrow> net_state \<Rightarrow> (error option \<times> network) \<times> net_state" where
  "release_network n s =
     (if \<not> nw_IsBound n then ((None, n), s)
      else
        (case (case nw_AddressGroupRef n of
                 None \<Rightarrow> (None, s)
               | Some r \<Rightarrow>
                   removeNetworkFromAddressGroup (ResourceIdentifier (ref_Name r) (Namespace n)) (self_id n) s) of
           (Some e, s1) \<Rightarrow> ((Some (Wrap ''failed to remove network from address group'' e), n), s1)
         | (None, s1) \<Rightarrow>
             (let n' = unbind_network n
              in case Writer (ns_reg s1) of
                   Inl e \<Rightarrow> ((Some (Wrap ''failed to get writer'' e), n'), s1)
                 | Inr w \<Rightarrow> ((None, n'), write_one SyncNetworks n' w s1))))"

definition DeleteNetwork :: "resource_identifier \<Rightarrow> net_state \<Rightarrow> error option \<times> net_state" where
  "DeleteNetwork i s =
     (case getNetworkByID (rid_Key i) s of
        Inl e \<Rightarrow> if is_not_found e then (None, s) else (Some (Wrap ''failed to get network'' e), s)
      | Inr existing \<Rightarrow>
     (case release_network existing s of
        ((Some e, _), s1) \<Rightarrow> (Some e, s1)
      | ((None, n), s1) \<Rightarrow>
     (case Writer (ns_reg s1) of
        Inl e \<Rightarrow> (Some (Wrap ''failed to get writer'' e), s1)
      | Inr w \<Rightarrow>
          (case syncNetworkWithExternal n SyncOperationDelete
                  (ns_commit (DeleteNetworksByIDs (ns_db s1) [i] w) s1) of
             ((err, _), s2) \<Rightarrow> (err, s2)))))"

section \<open>Network bindings\<close>

text \<open>The key of a binding is split again; only keys of two parts are looked up.\<close>

definition binding_by_key :: "reader_ops \<Rightarrow> string \<Rightarrow> error + network_binding" where
  "binding_by_key rd i =
     (case split_on CHR ''/'' i of
        [ns, name] \<Rightarrow> GetNetworkBindingByID rd (ResourceIdentifier name ns)
      | _ \<Rightarrow> Inl (Errorf (''invalid resource identifier format: '' @ i @ '' (expected: namespace/name)'')))"

definition getNetworkBindingByID :: "string \<Rightarrow> net_state \<Rightarrow> error + network_binding" where
  "getNetworkBindingByID i s =
     (case Reader (ns_reg s) of Inl e \<Rightarrow> Inl e | Inr rd \<Rightarrow> binding_by_key (mem_reader rd) i)"

definition binding_validateNetwork :: "resource_identifier \<Rightarrow> net_state \<Rightarrow> error option" where
  "binding_validateNetwork i s =
     (case network_GetNetwork i s of Inl e \<Rightarrow> Some (Wrap ''failed to get network'' e) | Inr _ \<Rightarrow> None)"

definition validateAddressGroupWithReader :: "reader_ops \<Rightarrow> resource_identifier \<Rightarrow> error option" where
  "validateAddressGroupWithReader rd i =
     (case GetAddressGroupByID rd i of Inl e \<Rightarrow> Some (Wrap ''failed to get address group'' e) | Inr _ \<Rightarrow> None)"

definition binding_validateAddressGroup :: "resource_identifier \<Rightarrow> net_state \<Rightarrow> error option" where
  "binding_validateAddressGroup i s =
     (case Reader (ns_reg s) of
        Inl e \<Rightarrow> Some (Wrap ''failed to get reader'' e)
      | Inr rd \<Rightarrow> validateAddressGroupWithReader (mem_reader rd) i)"

definition getFreshAddressGroupFromDatabase :: "resource_identifier \<Rightarrow> net_state \<Rightarrow> error + address_group" where
  "getFreshAddressGroupFromDatabase i s =
     (case Reader (ns_reg s) of
        Inl e \<Rightarrow> Inl (Wrap ''failed to get reader'' e)
      | Inr rd \<Rightarrow>
          (case GetAddressGroupByID (mem_reader rd) i of
             Inl e \<Rightarrow> Inl (Wrap ''failed to get fresh address group'' e) | Inr g \<Rightarrow> Inr g))"

definition forceSyncAddressGroupWithSGroups :: "resource_identifier \<Rightarrow> net_state \<Rightarrow> error option \<times> net_state" where
  "forceSyncAddressGroupWithSGroups i s =
     (case getFreshAddressGroupFromDatabase i s of
        Inl e \<Rightarrow> (Some (Wrap (''failed to get fresh AddressGroup '' @ rid_Key i) e), s)
      | Inr g \<Rightarrow>
          if ns_synced s
          then (wrap_err (''failed to force sync AddressGroup '' @ rid_Key i @ '' with sgroups'')
                  (ns_forcedSync s (ns_groupsForced s) g),
                s\<lparr>ns_groupsForced := ns_groupsForced s @ [g]\<rparr>)
          else (None, s))"

definition item_of :: "network \<Rightarrow> network_item" where
  "item_of n = \<lparr> ni_Name = network_label (Namespace n) (Name n), ni_CIDR = nw_CIDR n,
     ni_ApiVersion = ''netguard.sgroups.io/v1beta1'', ni_Kind = ''Network'', ni_Namespace = Namespace n \<rparr>"

definition with_network :: "bool \<Rightarrow> network \<Rightarrow> network_item list \<Rightarrow> network_item list" where
  "with_network add n items =
     (let label = network_label (Namespace n) (Name n)
      in if add then (if label \<in> ni_Name ` set items then items else items @ [item_of n])
         else without_network label items)"

definition updateAddressGroupNetworks ::
  "resource_identifier \<Rightarrow> resource_identifier \<Rightarrow> bool \<Rightarrow> net_state \<Rightarrow> error option \<times> net_state"
where
  "updateAddressGroupNetworks addressGroupRef networkRef add s =
     (case Reader (ns_reg s) of
        Inl e \<Rightarrow> (Some (Wrap ''failed to get reader'' e), s)
      | Inr rd \<Rightarrow>
     (case GetAddressGroupByID (mem_reader rd) addressGroupRef of
        Inl e \<Rightarrow> (Some (Wrap ''failed to get address group'' e), s)
      | Inr g \<Rightarrow>
     (case network_GetNetwork networkRef s of
        Inl e \<Rightarrow> (Some (Wrap ''failed to get network'' e), s)
      | Inr n \<Rightarrow>
          (let (g1, s1) = touch_now (g\<lparr>ag_Networks := with_network add n (ag_Networks g)\<rparr>) s;
               (err, s2) = network_UpdateAddressGroup g1 s1
           in (wrap_err ''failed to update address group'' err, s2)))))"

text \<open>
  The binding itself is not sent to the external system: the retried function always succeeds.
\<close>

definition syncNetworkBindingWithExternal ::
  "network_binding \<Rightarrow> string \<Rightarrow> net_state \<Rightarrow> error option \<times> net_state"
where
  "syncNetworkBindingWithExternal b operation s =
     (let syncKey = operation @ ''-'' @ Key b;
          (should, t, e) = ShouldSync (ns_env s) syncKey (ns_bindingTracker s);
          s1 = ns_set_env e (s\<lparr>ns_bindingTracker := t\<rparr>)
      in if \<not> should then (None, s1)
         else (case ExecuteWithRetry (ns_fromError s) (\<lambda>s. (None, s)) s1 of
                 (Some err, s2) \<Rightarrow>
                   (let s3 = s2\<lparr>ns_bindingTracker := RecordFailure syncKey err (ns_bindingTracker s2)\<rparr>;
                        s4 = (if operation \<noteq> ''delete'' then snd (mark_failed err b s3) else s3)
                    in (Some (Wrap ''failed to sync with external system'' err), s4))
               | (None, s2) \<Rightarrow>
                   (let (t', e') = RecordSuccess (ns_env s2) syncKey (ns_bindingTracker s2);
                        s3 = ns_set_env e' (s2\<lparr>ns_bindingTracker := t'\<rparr>)
                    in (None, if operation \<noteq> ''delete'' then snd (mark_synced b s3) else s3))))"

text \<open>Saving the conditions replaces the binding by a full synchronisation in its own scope.\<close>

definition service_saveNetworkBindingConditions :: "network_binding \<Rightarrow> net_state \<Rightarrow> error option \<times> net_state" where
  "service_saveNetworkBindingConditions b s =
     (case Writer (ns_reg s) of
        Inl e \<Rightarrow> (Some (Wrap ''failed to get writer for NetworkBinding conditions'' e), s)
      | Inr w \<Rightarrow>
          (let (w', e) = SyncNetworkBindings (ns_env s) (ns_db s) [b]
                 (Some (NewResourceIdentifierScope [self_id b])) [] w
           in (None, ns_commit w' (ns_set_env e s))))"

definition process_binding :: "network_binding \<Rightarrow> net_state \<Rightarrow> network_binding \<times> net_state" where
  "process_binding b s =
     (if ns_managed s
      then (case ProcessNetworkBindingConditions b (ns_backend s) of
              ((Some _, b'), be) \<Rightarrow> (b', s\<lparr>ns_backend := be\<rparr>)
            | ((None, b'), be) \<Rightarrow> (b', snd (service_saveNetworkBindingConditions b' (s\<lparr>ns_backend := be\<rparr>))))
      else (b, s))"

text \<open>\<^verbatim>\<open>if err := f(); err != nil { return fmt.Errorf(msg + ": %w", err) }\<close>\<close>

definition step_or_fail ::
  "string \<Rightarrow> error option \<times> net_state \<Rightarrow> (net_state \<Rightarrow> (error option \<times> net_state) option) \<Rightarrow>
   (error option \<times> net_state) option"
where
  "step_or_fail msg r k = (case r of (Some e, s) \<Rightarrow> Some (Some (Wrap msg e), s) | (None, s) \<Rightarrow> k s)"

definition network_of :: "network_binding \<Rightarrow> resource_identifier" where
  "network_of b = ResourceIdentifier (ref_Name (nb_NetworkRef b)) (Namespace b)"

definition group_of :: "network_binding \<Rightarrow> resource_identifier" where
  "group_of b = ResourceIdentifier (ref_Name (nb_AddressGroupRef b)) (Namespace b)"

definition check_new_binding :: "reader_ops \<Rightarrow> network_binding \<Rightarrow> error option option" where
  "check_new_binding rd b =
     (case ValidateNetworkBindingWithReader rd (network_of b) (self_id b) of
        None \<Rightarrow> None
      | Some (Some e) \<Rightarrow> Some (Some (Wrap ''network validation failed'' e))
      | Some None \<Rightarrow>
     (case validateAddressGroupWithReader rd (group_of b) of
        Some e \<Rightarrow> Some (Some (Wrap ''address group validation failed'' e))
      | None \<Rightarrow>
     (case binding_by_key rd (Key b) of
        Inr _ \<Rightarrow> Some (Some (Errorf (''network binding already exists: '' @ Key b)))
      | Inl e \<Rightarrow>
          if \<not> is_not_found e then Some (Some (Wrap ''failed to check existing network binding'' e))
          else Some None)))"

definition CreateNetworkBinding :: "network_binding \<Rightarrow> net_state \<Rightarrow> (error option \<times> net_state) option" where
  "CreateNetworkBinding b s =
     (let (m, env) = TouchOnCreate (ns_env s) (Meta b);
          b1 = b\<lparr>Meta := m\<rparr>;
          s1 = ns_set_env env s
      in case Writer (ns_reg s1) of
           Inl e \<Rightarrow> Some (Some (Wrap ''failed to get writer'' e), s1)
         | Inr w \<Rightarrow>
        (case ReaderFromWriter (ns_reg s1) w of
           Inl e \<Rightarrow> Some (Some (Wrap ''failed to get reader from writer'' e), s1)
         | Inr rd \<Rightarrow>
        (case check_new_binding (mem_reader rd) b1 of
           None \<Rightarrow> None
         | Some (Some e) \<Rightarrow> Some (Some e, s1)
         | Some None \<Rightarrow>
            (let (b2, s2) = process_binding b1 (write_one SyncNetworkBindings b1 w s1)
             in step_or_fail ''failed to update network binding''
                  (network_UpdateNetworkBinding (network_of b) (self_id b) (group_of b) s2) (\<lambda>s3.
                step_or_fail ''failed to update address group networks''
                  (updateAddressGroupNetworks (group_of b) (network_of b) True s3) (\<lambda>s4.
                Some (syncNetworkBindingWithExternal b2 ''create''
                  (snd (forceSyncAddressGroupWithSGroups (group_of b) s4)))))))))"

text \<open>
  An update with other references first releases the old ones, and only then checks whether the
  new network may be bound.
\<close>

definition move_binding ::
  "network_binding \<Rightarrow> network_binding \<Rightarrow> net_state \<Rightarrow> (net_state \<Rightarrow> (error option \<times> net_state) option) \<Rightarrow>
   (error option \<times> net_state) option"
where
  "move_binding existing b s k =
     step_or_fail ''failed to remove old network binding'' (network_RemoveNetworkBinding (network_of existing) s) (\<lambda>s1.
     step_or_fail ''failed to remove network from old address group''
       (updateAddressGroupNetworks (group_of existing) (network_of existing) False s1) (\<lambda>s2.
     case ValidateNetworkBinding (network_of b) (self_id b) s2 of
       None \<Rightarrow> None
     | Some err \<Rightarrow>
     step_or_fail ''new network validation failed'' (err, s2) (\<lambda>s3.
     step_or_fail ''failed to update new network binding''
       (network_UpdateNetworkBinding (network_of b) (self_id b) (group_of b) s3) (\<lambda>s4.
     step_or_fail ''failed to add network to new address group''
       (updateAddressGroupNetworks (group_of b) (network_of b) True s4) (\<lambda>s5.
     k (snd (forceSyncAddressGroupWithSGroups (group_of b) s5)))))))"

definition write_binding :: "network_binding \<Rightarrow> net_state \<Rightarrow> (error option \<times> net_state) option" where
  "write_binding b s =
     (let (b1, s1) = touch_now b s
      in case Writer (ns_reg s1) of
           Inl e \<Rightarrow> Some (Some (Wrap ''failed to get writer'' e), s1)
         | Inr w \<Rightarrow>
             (let (b2, s2) = process_binding b1 (write_one SyncNetworkBindings b1 w s1)
              in Some (syncNetworkBindingWithExternal b2 ''update'' s2)))"

definition binding_UpdateNetworkBinding ::
  "network_binding \<Rightarrow> net_state \<Rightarrow> (error option \<times> net_state) option"
where
  "binding_UpdateNetworkBinding b s =
     (case getNetworkBindingByID (Key b) s of
        Inl e \<Rightarrow> Some (Some (Wrap ''failed to get existing network binding'' e), s)
      | Inr existing \<Rightarrow>
     step_or_fail ''network validation failed'' (binding_validateNetwork (network_of b) s, s) (\<lambda>s.
     step_or_fail ''address group validation failed'' (binding_validateAddressGroup (group_of b) s, s) (\<lambda>s.
     if ref_Name (nb_NetworkRef existing) \<noteq> ref_Name (nb_NetworkRef b) \<or>
        ref_Name (nb_AddressGroupRef existing) \<noteq> ref_Name (nb_AddressGroupRef b)
     then move_binding existing b s (write_binding b)
     else write_binding b s)))"

definition DeleteNetworkBinding :: "resource_identifier \<Rightarrow> net_state \<Rightarrow> (error option \<times> net_state) option" where
  "DeleteNetworkBinding i s =
     (case getNetworkBindingByID (rid_Key i) s of
        Inl e \<Rightarrow>
          if is_not_found e then Some (None, s) else Some (Some (Wrap ''failed to get network binding'' e), s)
      | Inr existing \<Rightarrow>
     step_or_fail ''failed to remove network binding'' (network_RemoveNetworkBinding (network_of existing) s) (\<lambda>s1.
     step_or_fail ''failed to remove network from address group''
       (updateAddressGroupNetworks (group_of existing) (network_of existing) False s1) (\<lambda>s2.
     (let s3 = snd (forceSyncAddressGroupWithSGroups (group_of existing) s2)
      in case Writer (ns_reg s3) of
           Inl e \<Rightarrow> Some (Some (Wrap ''failed to get writer'' e), s3)
         | Inr w \<Rightarrow>
             Some (syncNetworkBindingWithExternal existing ''delete''
               (ns_commit (DeleteNetworkBindingsByIDs (ns_db s3) [i] w) s3))))))"

definition GetNetworkBinding :: "resource_identifier \<Rightarrow> net_state \<Rightarrow> error + network_binding" where
  "GetNetworkBinding i s =
     (case Reader (ns_reg s) of
        Inl e \<Rightarrow> Inl (Wrap ''failed to get reader'' e)
      | Inr rd \<Rightarrow>
          (case GetNetworkBindingByID (mem_reader rd) i of
             Inl e \<Rightarrow> Inl (Wrap ''failed to get network binding'' e) | Inr b \<Rightarrow> Inr b))"

definition service_ListNetworkBindings :: "scope option \<Rightarrow> net_state \<Rightarrow> error + network_binding list" where
  "service_ListNetworkBindings sc s =
     (case Reader (ns_reg s) of
        Inl e \<Rightarrow> Inl (Wrap ''failed to get reader'' e)
      | Inr rd \<Rightarrow>
          (case ListNetworkBindings (mem_reader rd) sc of
             (_, Some e) \<Rightarrow> Inl (Wrap ''failed to list network bindings'' e)
           | (bs, None) \<Rightarrow> Inr bs))"

section \<open>The facade\<close>

text \<open>
  The synchronisation of the gRPC service, object by object; the first error ends it and keeps
  what was done. Upserts and full synchronisations create.
\<close>

fun NetguardFacade_Sync_Networks :: "sync_op \<Rightarrow> network list \<Rightarrow> net_state \<Rightarrow> error option \<times> net_state" where
  "NetguardFacade_Sync_Networks syncOp [] s = (None, s)"
| "NetguardFacade_Sync_Networks syncOp (n # ns) s =
     (if syncOp = SyncOpDelete
      then (case DeleteNetwork (self_id n) s of
              (Some e, s') \<Rightarrow> (Some (Wrap (''failed to delete network '' @ Key n) e), s')
            | (None, s') \<Rightarrow> NetguardFacade_Sync_Networks syncOp ns s')
      else if syncOp = SyncOpUpsert \<or> syncOp = SyncOpFullSync
      then (case CreateNetwork n s of
              (Some e, s') \<Rightarrow> (Some (Wrap (''failed to create network '' @ Key n) e), s')
            | (None, s') \<Rightarrow> NetguardFacade_Sync_Networks syncOp ns s')
      else (Some (Errorf (''unsupported sync operation for Network: '' @ SyncOp_String syncOp)), s))"

fun NetguardFacade_Sync_NetworkBindings ::
  "sync_op \<Rightarrow> network_binding list \<Rightarrow> net_state \<Rightarrow> (error option \<times> net_state) option"
where
  "NetguardFacade_Sync_NetworkBindings syncOp [] s = Some (None, s)"
| "NetguardFacade_Sync_NetworkBindings syncOp (b # bs) s =
     (if syncOp = SyncOpDelete
      then (case DeleteNetworkBinding (self_id b) s of
              None \<Rightarrow> None
            | Some r \<Rightarrow> step_or_fail (''failed to delete network binding '' @ Key b) r
                          (NetguardFacade_Sync_NetworkBindings syncOp bs))
      else if syncOp = SyncOpUpsert \<or> syncOp = SyncOpFullSync
      then (case CreateNetworkBinding b s of
              None \<Rightarrow> None
            | Some r \<Rightarrow> step_or_fail (''failed to create network binding '' @ Key b) r
                          (NetguardFacade_Sync_NetworkBindings syncOp bs))
      else Some (Some (Errorf (''unsupported sync operation for NetworkBinding: '' @ SyncOp_String syncOp)), s))"

end
