(* ===== verification/NetworkFacts.thy ===== *)
theory NetworkFacts
  imports NetworkServices ConditionFacts Integrity
begin

text \<open>
  What the operations on networks and network bindings do to the stored objects: each is a change
  of the maps from keys to objects, and the links between bindings, networks and address groups
  are an invariant of those maps.
\<close>

section \<open>Effects\<close>

text \<open>
  The three maps an operation may change, without metadata, and whether the registry is closed.
\<close>

definition nets :: "net_state \<Rightarrow> string \<Rightarrow> network option" where
  "nets s = abs_table (GetNetworks (ns_db s))"

definition binds :: "net_state \<Rightarrow> string \<Rightarrow> network_binding option" where
  "binds s = abs_table (GetNetworkBindings (ns_db s))"

definition grps :: "net_state \<Rightarrow> string \<Rightarrow> address_group option" where
  "grps s = abs_table (GetAddressGroups (ns_db s))"

abbreviation closed :: "net_state \<Rightarrow> bool" where
  "closed s \<equiv> reg_closed (ns_reg s)"

definition net_ok :: "net_state \<Rightarrow> bool" where
  "net_ok s \<longleftrightarrow> table_ok (GetNetworks (ns_db s)) \<and> table_ok (GetNetworkBindings (ns_db s)) \<and>
     table_ok (GetAddressGroups (ns_db s)) \<and> \<not> closed s"

definition same_store :: "net_state \<Rightarrow> net_state \<Rightarrow> bool" where
  "same_store s s' \<longleftrightarrow> ns_reg s' = ns_reg s"

lemma same_store_refl [simp]: "same_store s s"
  by (simp add: same_store_def)

lemma same_store_trans: "same_store s s' \<Longrightarrow> same_store s' s'' \<Longrightarrow> same_store s s''"
  by (simp add: same_store_def)

lemma same_store_views:
  assumes "same_store s s'"
  shows "nets s' = nets s" "binds s' = binds s" "grps s' = grps s" "net_ok s' = net_ok s" "closed s' = closed s"
  using assms by (simp_all add: same_store_def nets_def binds_def grps_def net_ok_def)

lemma ns_env_reg [simp]: "ns_reg (ns_set_env e s) = ns_reg s"
  by (simp add: ns_set_env_def)

lemma same_store_env [simp]: "same_store s (ns_set_env e s)"
  by (simp add: same_store_def)

lemma touch_now_parts:
  "snd (touch_now x s) = ns_set_env (snd (Now (ns_env s))) s"
  "payload (fst (touch_now x s)) = payload x" "Key (fst (touch_now x s)) = Key x"
  by (simp_all add: touch_now_def)

lemma mark_reg [simp]: "ns_reg (snd (mark_synced x s)) = ns_reg s" "ns_reg (snd (mark_failed err x s)) = ns_reg s"
  by (simp_all add: mark_synced_def mark_failed_def split_beta)

lemma mark_parts:
  "same_store s (snd (mark_synced x s))" "payload (fst (mark_synced x s)) = payload x"
  "Key (fst (mark_synced x s)) = Key x"
  by (simp_all add: same_store_def) (simp_all add: mark_synced_def split_beta)

subsection \<open>Transactions\<close>

lemma ns_commit_db:
  "ns_db (ns_commit w s) = fst (Commit (ns_env s) (ns_db s) w)" "closed (ns_commit w s) = closed s"
  by (simp_all add: ns_commit_def be_commit_db) (simp add: be_commit_def commit_writer_def split_beta)

lemma write_one_parts:
  "ns_db (write_one sync x w s) =
     fst (Commit (snd (sync (ns_env s) (ns_db s) [x] (Some EmptyScope) upsert_opts w)) (ns_db s)
       (fst (sync (ns_env s) (ns_db s) [x] (Some EmptyScope) upsert_opts w)))"
  "closed (write_one sync x w s) = closed s"
  by (simp_all add: write_one_def split_beta ns_commit_db) (simp add: ns_set_env_def)

lemma writers_touch_one:
  "GetNetworks (fst (Commit e db (fst (SyncNetworkBindings e' db' bs sc opts empty_writer)))) = GetNetworks db"
  "GetAddressGroups (fst (Commit e db (fst (SyncNetworkBindings e' db' bs sc opts empty_writer)))) = GetAddressGroups db"
  "GetNetworkBindings (fst (Commit e db (fst (SyncNetworks e' db' ns sc opts empty_writer)))) = GetNetworkBindings db"
  "GetAddressGroups (fst (Commit e db (fst (SyncNetworks e' db' ns sc opts empty_writer)))) = GetAddressGroups db"
  "GetNetworks (fst (Commit e db (fst (SyncAddressGroups e' db' gs sc opts empty_writer)))) = GetNetworks db"
  "GetNetworkBindings (fst (Commit e db (fst (SyncAddressGroups e' db' gs sc opts empty_writer)))) = GetNetworkBindings db"
  "GetNetworks (fst (Commit e db (DeleteNetworkBindingsByIDs db' ids empty_writer))) = GetNetworks db"
  "GetAddressGroups (fst (Commit e db (DeleteNetworkBindingsByIDs db' ids empty_writer))) = GetAddressGroups db"
  "GetNetworkBindings (fst (Commit e db (DeleteNetworksByIDs db' ids empty_writer))) = GetNetworkBindings db"
  "GetAddressGroups (fst (Commit e db (DeleteNetworksByIDs db' ids empty_writer))) = GetAddressGroups db"
  by (simp_all add: store_simps writer_method_defs working_def)

lemma spec_upsert: "spec_sync SyncOpUpsert new sc m = m ++ new"
  by (simp add: spec_sync_def sync_op_defs)

context store_kind
begin

lemma commit_upsert:
  assumes "table_ok (db_get db)"
  shows "abs_table (db_get (fst (Commit e' db (fst (sync e db [x] sc upsert_opts empty_writer))))) =
      (abs_table (db_get db))(Key x \<mapsto> payload x)"
  using assms by (simp add: commit_sync spec_upsert)

lemma commit_keeps_ok:
  assumes "table_ok (db_get db)"
  shows "table_ok (db_get (fst (Commit e' db (fst (sync e db xs sc opts empty_writer)))))"
    and "table_ok (db_get (fst (Commit e' db (del db ids empty_writer))))"
  using assms by (simp_all add: db_commit view_sync view_new view_del keeps_ok table_ok_delete_keys)

lemma commit_delete:
  "abs_table (db_get (fst (Commit e' db (del db [i] empty_writer)))) = (abs_table (db_get db))(rid_Key i := None)"
  by (simp add: db_commit view_del view_new abs_delete_keys restrict_map_def fun_eq_iff)

end

text \<open>Writing one object of each kind.\<close>

lemma write_network:
  assumes "net_ok s"
  shows "nets (write_one SyncNetworks n empty_writer s) = (nets s)(Key n \<mapsto> payload n)"
    and "binds (write_one SyncNetworks n empty_writer s) = binds s"
    and "grps (write_one SyncNetworks n empty_writer s) = grps s"
    and "net_ok (write_one SyncNetworks n empty_writer s)"
  using assms
  by (simp_all add: nets_def binds_def grps_def net_ok_def write_one_parts writers_touch_one nw.commit_upsert
      nw.commit_keeps_ok)

lemma write_group:
  assumes "net_ok s"
  shows "grps (write_one SyncAddressGroups g empty_writer s) = (grps s)(Key g \<mapsto> payload g)"
    and "binds (write_one SyncAddressGroups g empty_writer s) = binds s"
    and "nets (write_one SyncAddressGroups g empty_writer s) = nets s"
    and "net_ok (write_one SyncAddressGroups g empty_writer s)"
  using assms
  by (simp_all add: nets_def binds_def grps_def net_ok_def write_one_parts writers_touch_one ag.commit_upsert
      ag.commit_keeps_ok)

lemma write_binding_one:
  assumes "net_ok s"
  shows "binds (write_one SyncNetworkBindings b empty_writer s) = (binds s)(Key b \<mapsto> payload b)"
    and "nets (write_one SyncNetworkBindings b empty_writer s) = nets s"
    and "grps (write_one SyncNetworkBindings b empty_writer s) = grps s"
    and "net_ok (write_one SyncNetworkBindings b empty_writer s)"
  using assms
  by (simp_all add: nets_def binds_def grps_def net_ok_def write_one_parts writers_touch_one nb.commit_upsert
      nb.commit_keeps_ok)

lemma delete_binding_one:
  assumes "net_ok s"
  shows "binds (ns_commit (DeleteNetworkBindingsByIDs (ns_db s) [i] empty_writer) s) = (binds s)(rid_Key i := None)"
    and "nets (ns_commit (DeleteNetworkBindingsByIDs (ns_db s) [i] empty_writer) s) = nets s"
    and "grps (ns_commit (DeleteNetworkBindingsByIDs (ns_db s) [i] empty_writer) s) = grps s"
    and "net_ok (ns_commit (DeleteNetworkBindingsByIDs (ns_db s) [i] empty_writer) s)"
  using assms
  by (simp_all add: nets_def binds_def grps_def net_ok_def ns_commit_db writers_touch_one nb.commit_delete
      nb.commit_keeps_ok)

lemma delete_network_one:
  assumes "net_ok s"
  shows "nets (ns_commit (DeleteNetworksByIDs (ns_db s) [i] empty_writer) s) = (nets s)(rid_Key i := None)"
    and "binds (ns_commit (DeleteNetworksByIDs (ns_db s) [i] empty_writer) s) = binds s"
    and "grps (ns_commit (DeleteNetworksByIDs (ns_db s) [i] empty_writer) s) = grps s"
    and "net_ok (ns_commit (DeleteNetworksByIDs (ns_db s) [i] empty_writer) s)"
  using assms
  by (simp_all add: nets_def binds_def grps_def net_ok_def ns_commit_db writers_touch_one nw.commit_delete
      nw.commit_keeps_ok)

subsection \<open>Reads\<close>

lemma open_registry:
  assumes "net_ok s"
  shows "Writer (ns_reg s) = Inr empty_writer" "Reader (ns_reg s) = Inr (committed (ns_db s))"
    "\<exists>rd. ReaderFromWriter (ns_reg s) empty_writer = Inr rd \<and> mem_reader rd = mem_reader (committed (ns_db s))"
  using assms by (simp_all add: net_ok_def Writer_def Reader_def ReaderFromWriter_def fresh_writer_reader)

lemma reads:
  assumes "net_ok s"
  shows "mem_GetNetworkByID (committed (ns_db s)) i = Inr n \<Longrightarrow> nets s (rid_Key i) = Some (payload n) \<and> Key n = rid_Key i"
    and "mem_GetNetworkByID (committed (ns_db s)) i = Inl e \<Longrightarrow> nets s (rid_Key i) = None \<and> e = ErrNotFound"
    and "mem_GetAddressGroupByID (committed (ns_db s)) i = Inr g \<Longrightarrow> grps s (rid_Key i) = Some (payload g) \<and> Key g = rid_Key i"
    and "mem_GetAddressGroupByID (committed (ns_db s)) i = Inl e \<Longrightarrow> grps s (rid_Key i) = None \<and> e = ErrNotFound"
    and "mem_GetNetworkBindingByID (committed (ns_db s)) i = Inr b \<Longrightarrow> binds s (rid_Key i) = Some (payload b) \<and> Key b = rid_Key i"
    and "mem_GetNetworkBindingByID (committed (ns_db s)) i = Inl e \<Longrightarrow> binds s (rid_Key i) = None \<and> e = ErrNotFound"
  using assms
  by (auto simp: net_ok_def nets_def grps_def binds_def abs_table_def mem_GetNetworkByID_def mem_GetAddressGroupByID_def
      mem_GetNetworkBindingByID_def get_by_id_iff get_by_id_missing dest: table_ok_lookup)

subsection \<open>Operations\<close>

lemma SyncEntity_store [simp]:
  "ns_reg (snd (SyncEntity_network op n s)) = ns_reg s" "ns_reg (snd (SyncEntity_group g s)) = ns_reg s"
  by (simp_all add: SyncEntity_network_def SyncEntity_group_def sync_group_def split_beta)

lemma retry_store: "ns_reg (snd (ExecuteWithRetry f (SyncEntity_network op n) s)) = ns_reg s"
  by (rule ExecuteWithRetry_keeps) simp

lemma syncNetwork_store: "same_store s (snd (syncNetworkWithExternal n op s))"
proof -
  obtain should t e where S: "ShouldSync (ns_env s) (operation_text op @ ''-'' @ Key n) (ns_networkTracker s) = (should, t, e)"
    by (cases "ShouldSync (ns_env s) (operation_text op @ ''-'' @ Key n) (ns_networkTracker s)")
  define s1 where "s1 = ns_set_env e (s\<lparr>ns_networkTracker := t\<rparr>)"
  obtain r s2 where E: "ExecuteWithRetry (ns_fromError s) (SyncEntity_network op n) s1 = (r, s2)" by fastforce
  have "ns_reg s2 = ns_reg s1" using retry_store [of "ns_fromError s" op n s1] E by simp
  moreover have "ns_reg s1 = ns_reg s" by (simp add: s1_def)
  ultimately show ?thesis
    using S E [unfolded s1_def]
    by (cases r) (auto simp: syncNetworkWithExternal_def same_store_def s1_def Let_def split_beta)
qed

lemma syncBinding_store:
  "\<exists>s'. syncNetworkBindingWithExternal b op s = (None, s') \<and> same_store s s'"
  by (auto simp: syncNetworkBindingWithExternal_def ExecuteWithRetry_def eval_nat_numeral Let_def same_store_def
      mark_synced_def split: prod.split)

lemma force_store: "same_store s (snd (forceSyncAddressGroupWithSGroups i s))"
  by (simp add: forceSyncAddressGroupWithSGroups_def same_store_def split: sum.split)

lemma finish_store:
  "\<exists>s'. syncNetworkBindingWithExternal b op (snd (forceSyncAddressGroupWithSGroups i s)) = (None, s') \<and> same_store s s'"
  using syncBinding_store [of b op "snd (forceSyncAddressGroupWithSGroups i s)"] force_store [of s i]
  by (auto simp: same_store_def)

lemma change_network_missing:
  assumes "net_ok s" and "nets s (rid_Key i) = None"
  shows "change_network f i s = (Some (Wrap ''failed to get network'' ErrNotFound), s)"
proof -
  have "mem_GetNetworkByID (committed (ns_db s)) i = Inl ErrNotFound"
    using reads(1,2) [OF assms(1), of i] assms(2) by (cases "mem_GetNetworkByID (committed (ns_db s)) i") auto
  with open_registry [OF assms(1)] show ?thesis by (auto simp: change_network_def)
qed

lemma change_network_effect:
  assumes ok: "net_ok s" and n: "nets s (rid_Key i) = Some n" and f: "\<And>x. payload (f x) = f (payload x)" "\<And>x. Key (f x) = Key x"
  shows "\<exists>s'. change_network f i s = (None, s') \<and> nets s' = (nets s)(rid_Key i \<mapsto> f n) \<and>
    binds s' = binds s \<and> grps s' = grps s \<and> net_ok s'"
proof -
  from n reads(1,2) [OF ok, of i] obtain x where
    x: "mem_GetNetworkByID (committed (ns_db s)) i = Inr x" "n = payload x" "Key x = rid_Key i"
    by (cases "mem_GetNetworkByID (committed (ns_db s)) i") auto
  define y where "y = fst (mark_synced (fst (touch_now (f x) s)) (snd (touch_now (f x) s)))"
  define t where "t = snd (mark_synced (fst (touch_now (f x) s)) (snd (touch_now (f x) s)))"
  have y: "payload y = f n" "Key y = rid_Key i"
    using x f by (simp_all add: y_def mark_parts touch_now_parts)
  have "same_store s t"
    using same_store_trans [OF same_store_env [of s] mark_parts(1)] by (simp add: t_def touch_now_parts)
  note t = same_store_views [OF this]
  have "change_network f i s = (None, snd (SyncEntity_network SyncOperationUpsert y (write_one SyncNetworks y empty_writer t)))"
    using open_registry [OF ok] x(1) by (auto simp: change_network_def y_def t_def split_beta)
  moreover have "same_store (write_one SyncNetworks y empty_writer t)
      (snd (SyncEntity_network SyncOperationUpsert y (write_one SyncNetworks y empty_writer t)))"
    by (simp add: same_store_def)
  note u = same_store_views [OF this]
  have "net_ok t" using ok t by simp
  note write_network [OF this, of y]
  ultimately show ?thesis using u t y by simp
qed

lemma bind_simps [simp]:
  "payload (bind_network i j x) = bind_network i j (payload x)" "Key (bind_network i j x) = Key x"
  "payload (unbind_network x) = unbind_network (payload x)" "Key (unbind_network x) = Key x"
  by (simp_all add: bind_network_def unbind_network_def payload_def Key_def)

lemma with_network_payload [simp]: "with_network add (payload n) items = with_network add n items"
  by (simp add: with_network_def item_of_def payload_def Let_def)

lemma with_network_bind [simp]:
  "with_network add (bind_network i j n) items = with_network add n items"
  "with_network add (unbind_network n) items = with_network add n items"
  by (simp_all add: with_network_def item_of_def bind_network_def unbind_network_def Let_def)

lemma group_networks_simps [simp]:
  "Key (h\<lparr>ag_Networks := x\<rparr>) = Key h" "payload (h\<lparr>ag_Networks := x\<rparr>) = (payload h)\<lparr>ag_Networks := x\<rparr>"
  "ag_Networks (payload h) = ag_Networks h"
  by (simp_all add: Key_def payload_def)

lemma get_network:
  assumes "net_ok s" and "nets s (rid_Key i) = Some n"
  shows "\<exists>x. network_GetNetwork i s = Inr x \<and> n = payload x \<and> Key x = rid_Key i"
  using assms(2) reads(1,2) [OF assms(1), of i] open_registry [OF assms(1)]
  by (cases "mem_GetNetworkByID (committed (ns_db s)) i") (auto simp: network_GetNetwork_def)

lemma update_group_effect:
  assumes ok: "net_ok s" and n: "nets s (rid_Key ni) = Some n" and g: "grps s (rid_Key gi) = Some g"
  shows "\<exists>s'. updateAddressGroupNetworks gi ni add s = (None, s') \<and>
    grps s' = (grps s)(rid_Key gi \<mapsto> g\<lparr>ag_Networks := with_network add n (ag_Networks g)\<rparr>) \<and>
    nets s' = nets s \<and> binds s' = binds s \<and> net_ok s'"
proof -
  from get_network [OF ok n] obtain x where x: "network_GetNetwork ni s = Inr x" "n = payload x" by blast
  from g reads(3,4) [OF ok, of gi] obtain h where
    h: "mem_GetAddressGroupByID (committed (ns_db s)) gi = Inr h" "g = payload h" "Key h = rid_Key gi"
    by (cases "mem_GetAddressGroupByID (committed (ns_db s)) gi") auto
  let ?h = "h\<lparr>ag_Networks := with_network add x (ag_Networks h)\<rparr>"
  define y t where "y = fst (touch_now ?h s)" and "t = snd (touch_now ?h s)"
  have "same_store s t" by (simp add: t_def touch_now_parts)
  note t = same_store_views [OF this]
  have y: "Key y = rid_Key gi" "payload y = g\<lparr>ag_Networks := with_network add n (ag_Networks g)\<rparr>"
    using h x by (simp_all add: y_def touch_now_parts)
  have "net_ok t" using ok t by simp
  note w = write_group [OF this, of y] open_registry(1) [OF this]
  have "updateAddressGroupNetworks gi ni add s = (None, write_one SyncAddressGroups y empty_writer t)"
    using open_registry [OF ok] x(1) h(1) w(5)
    by (simp add: updateAddressGroupNetworks_def y_def t_def split_beta network_UpdateAddressGroup_def wrap_err_def)
  with w y t show ?thesis by simp
qed

lemma binding_conditions_store:
  "fst (fst (ProcessNetworkBindingConditions b s)) = None"
  "be_reg (snd (ProcessNetworkBindingConditions b s)) = be_reg s"
  "\<exists>m. snd (fst (ProcessNetworkBindingConditions b s)) = b\<lparr>Meta := m\<rparr>"
  by (auto simp: ProcessNetworkBindingConditions_def process_object_def Let_def split_beta nb_check.object_kept
      split: sum.split)

lemma scope_self: "scope_keys (Some (NewResourceIdentifierScope [self_id x])) = Some {Key x}"
  by (simp add: scope_keys_def NewResourceIdentifierScope_def Key_self_id)

lemma save_binding_effect:
  assumes "net_ok s" and "binds s (Key b) = Some (payload b)"
  shows "\<exists>s'. service_saveNetworkBindingConditions b s = (None, s') \<and> binds s' = binds s \<and> nets s' = nets s \<and>
    grps s' = grps s \<and> net_ok s'"
proof -
  let ?w = "fst (SyncNetworkBindings (ns_env s) (ns_db s) [b] (Some (NewResourceIdentifierScope [self_id b])) [] empty_writer)"
  let ?e = "snd (SyncNetworkBindings (ns_env s) (ns_db s) [b] (Some (NewResourceIdentifierScope [self_id b])) [] empty_writer)"
  have "select_sync_op [] = SyncOpFullSync" by (simp add: select_sync_op_def)
  then have "binds (ns_commit ?w (ns_set_env ?e s)) = (binds s)(Key b \<mapsto> payload b)"
    using assms(1)
    by (auto simp: binds_def ns_commit_db net_ok_def nb.commit_sync scope_self spec_sync_def map_add_def fun_eq_iff)
  with assms(2) have "binds (ns_commit ?w (ns_set_env ?e s)) = binds s" by (simp add: fun_upd_idem)
  then show ?thesis
    using assms(1) open_registry [OF assms(1)]
    by (auto simp: service_saveNetworkBindingConditions_def split_beta nets_def grps_def net_ok_def ns_commit_db
        writers_touch_one nb.commit_keeps_ok)
qed

lemma process_binding_effect:
  assumes ok: "net_ok s" and b: "binds s (Key b) = Some (payload b)"
  shows "\<exists>b' s'. process_binding b s = (b', s') \<and> binds s' = binds s \<and> nets s' = nets s \<and> grps s' = grps s \<and>
    net_ok s'"
proof (cases "ns_managed s")
  case True
  obtain b' be where P: "ProcessNetworkBindingConditions b (ns_backend s) = ((None, b'), be)"
    using binding_conditions_store(1) [of b "ns_backend s"]
    by (cases "ProcessNetworkBindingConditions b (ns_backend s)") (metis fst_conv prod.collapse)
  obtain m where m: "b' = b\<lparr>Meta := m\<rparr>" using binding_conditions_store(3) [of b "ns_backend s"] P by auto
  have "same_store s (s\<lparr>ns_backend := be\<rparr>)"
    using binding_conditions_store(2) [of b "ns_backend s"] P by (simp add: same_store_def)
  note v = same_store_views [OF this]
  have "net_ok (s\<lparr>ns_backend := be\<rparr>)" "binds (s\<lparr>ns_backend := be\<rparr>) (Key b') = Some (payload b')"
    using ok b v m by (simp_all add: payload_def)
  from save_binding_effect [OF this] show ?thesis
    using True P v by (auto simp: process_binding_def)
qed (use ok in \<open>simp add: process_binding_def\<close>)

section \<open>Links\<close>

text \<open>
  The links between the three maps: every binding has its network, marked with the binding and
  the address group, and its address group, which lists the network; every bound network and
  every listed network has its binding. Networks and bindings have a namespace.
\<close>

definition namespaced :: "'a resource_scheme \<Rightarrow> bool" where
  "namespaced x \<longleftrightarrow> Namespace x \<noteq> [] \<and> CHR ''/'' \<notin> set (Namespace x)"

definition bound_for :: "network_binding \<Rightarrow> network \<Rightarrow> bool" where
  "bound_for b n \<longleftrightarrow> nw_IsBound n \<and> map_option ref_Name (nw_BindingRef n) = Some (Name b) \<and>
     map_option ref_Name (nw_AddressGroupRef n) = Some (ref_Name (nb_AddressGroupRef b))"

abbreviation net_key :: "network_binding \<Rightarrow> string" where "net_key b \<equiv> rid_Key (network_of b)"
abbreviation grp_key :: "network_binding \<Rightarrow> string" where "grp_key b \<equiv> rid_Key (group_of b)"

definition links ::
  "(string \<Rightarrow> network option) \<Rightarrow> (string \<Rightarrow> network_binding option) \<Rightarrow> (string \<Rightarrow> address_group option) \<Rightarrow> bool"
where
  "links N B G \<longleftrightarrow>
     (\<forall>k n. N k = Some n \<longrightarrow> namespaced n \<and> Key n = k) \<and>
     (\<forall>k b. B k = Some b \<longrightarrow> namespaced b \<and> Key b = k \<and>
        (\<exists>n g. N (net_key b) = Some n \<and> bound_for b n \<and> G (grp_key b) = Some g \<and>
           net_key b \<in> ni_Name ` set (ag_Networks g))) \<and>
     (\<forall>k n. N k = Some n \<and> nw_IsBound n \<longrightarrow> (\<exists>kb b. B kb = Some b \<and> net_key b = k \<and> bound_for b n)) \<and>
     (\<forall>k g i. G k = Some g \<and> i \<in> set (ag_Networks g) \<longrightarrow>
        (\<exists>kb b. B kb = Some b \<and> grp_key b = k \<and> ni_Name i = net_key b))"

definition linked :: "net_state \<Rightarrow> bool" where
  "linked s \<longleftrightarrow> net_ok s \<and> links (nets s) (binds s) (grps s)"

lemma append_sep_cancel: "c \<notin> set xs \<Longrightarrow> c \<notin> set ys \<Longrightarrow> xs @ c # us = ys @ c # vs \<Longrightarrow> xs = ys \<and> us = vs"
  by (induction xs arbitrary: ys) (auto simp: Cons_eq_append_conv)

lemma net_key_namespaced: "namespaced b \<Longrightarrow> net_key b = Namespace b @ CHR ''/'' # ref_Name (nb_NetworkRef b)"
  by (simp add: network_of_def rid_Key_def namespaced_def)

lemma same_network_same_binding:
  assumes "namespaced a" and "namespaced b" and "net_key a = net_key b" and "bound_for a n" and "Name b = Name a \<or> bound_for b n"
  shows "Key a = Key b"
proof -
  have "Namespace a @ CHR ''/'' # ref_Name (nb_NetworkRef a) = Namespace b @ CHR ''/'' # ref_Name (nb_NetworkRef b)"
    using assms(3) unfolding net_key_namespaced [OF assms(1)] net_key_namespaced [OF assms(2)] .
  then have "Namespace a = Namespace b"
    using assms(1,2) append_sep_cancel unfolding namespaced_def by metis
  with assms(4,5) show ?thesis by (auto simp: Key_def bound_for_def)
qed

lemma label_key: "Namespace n \<noteq> [] \<Longrightarrow> network_label (Namespace n) (Name n) = Key n"
  by (simp add: network_label_def Key_def)

lemma links_network:
  assumes "links N B G" and "N k = Some n"
  shows "Namespace n \<noteq> []" "Key n = k" "namespaced n"
  using assms unfolding links_def namespaced_def by blast+

lemma links_binding:
  assumes "links N B G" and "B k = Some b"
  obtains n g where "namespaced b" "Key b = k" "N (net_key b) = Some n" "bound_for b n" "G (grp_key b) = Some g"
    "net_key b \<in> ni_Name ` set (ag_Networks g)"
  using assms unfolding links_def by blast

lemma links_bound:
  assumes "links N B G" and "N k = Some n" and "nw_IsBound n"
  obtains kb b where "B kb = Some b" "net_key b = k" "bound_for b n"
  using assms unfolding links_def by blast

lemma links_item:
  assumes "links N B G" and "G k = Some g" and "i \<in> set (ag_Networks g)"
  obtains kb b where "B kb = Some b" "grp_key b = k" "ni_Name i = net_key b"
  using assms unfolding links_def by blast

lemma bind_network_bound: "bound_for b (bind_network (self_id b) (group_of b) n)"
  by (simp add: bound_for_def bind_network_def self_id_def group_of_def)

lemma bind_network_id [simp]:
  "namespaced (bind_network i j n) = namespaced n" "namespaced (unbind_network n) = namespaced n"
  "Namespace (bind_network i j n) = Namespace n" "Namespace (unbind_network n) = Namespace n"
  "\<not> nw_IsBound (unbind_network n)"
  by (simp_all add: bind_network_def unbind_network_def namespaced_def)

lemma with_network_names:
  assumes "Namespace n \<noteq> []"
  shows "ni_Name ` set (with_network True n items) = insert (Key n) (ni_Name ` set items)"
    and "set (with_network False n items) = {i \<in> set items. ni_Name i \<noteq> Key n}"
    and "i \<in> set (with_network True n items) \<Longrightarrow> i \<in> set items \<or> ni_Name i = Key n"
  using label_key [OF assms]
  by (auto simp: with_network_def item_of_def without_network_def Let_def split: if_splits)

text \<open>A network that a new binding may bind is unbound.\<close>

lemma allowed_unbound:
  assumes L: "links N B G" and b: "namespaced b" "B (Key b) = None"
    and n: "N (net_key b) = Some n" and a: "binding_allowed n (self_id b) = Some None"
  shows "\<not> nw_IsBound n"
proof
  assume bd: "nw_IsBound n"
  from links_bound [OF L n bd] obtain kb b' where b': "B kb = Some b'" "net_key b' = net_key b" "bound_for b' n" .
  from links_binding [OF L b'(1)] have "namespaced b'" "Key b' = kb" by auto
  moreover have "Name b = Name b'"
    using a bd b'(3) by (auto simp: binding_allowed_def bound_for_def self_id_def split: option.splits if_splits)
  ultimately have "Key b' = Key b" using same_network_same_binding [OF _ b(1) b'(2,3)] by blast
  with b' \<open>Key b' = kb\<close> b(2) show False by simp
qed

lemma linksI:
  assumes "\<And>k n. N k = Some n \<Longrightarrow> namespaced n \<and> Key n = k"
    and "\<And>k b. B k = Some b \<Longrightarrow> namespaced b \<and> Key b = k \<and>
        (\<exists>n g. N (net_key b) = Some n \<and> bound_for b n \<and> G (grp_key b) = Some g \<and> net_key b \<in> ni_Name ` set (ag_Networks g))"
    and "\<And>k n. N k = Some n \<Longrightarrow> nw_IsBound n \<Longrightarrow> \<exists>kb b. B kb = Some b \<and> net_key b = k \<and> bound_for b n"
    and "\<And>k g i. G k = Some g \<Longrightarrow> i \<in> set (ag_Networks g) \<Longrightarrow>
        \<exists>kb b. B kb = Some b \<and> grp_key b = k \<and> ni_Name i = net_key b"
  shows "links N B G"
  using assms unfolding links_def by blast

lemma links_create:
  assumes L: "links N B G" and b: "namespaced b" "B (Key b) = None"
    and n: "N (net_key b) = Some n" "\<not> nw_IsBound n" and g: "G (grp_key b) = Some g"
  shows "links (N(net_key b \<mapsto> bind_network (self_id b) (group_of b) n)) (B(Key b \<mapsto> b))
    (G(grp_key b \<mapsto> g\<lparr>ag_Networks := with_network True n (ag_Networks g)\<rparr>))" (is "links ?N ?B ?G")
proof (rule linksI)
  note nn = links_network [OF L n(1)]
  fix k x
  show "?N k = Some x \<Longrightarrow> namespaced x \<and> Key x = k"
    using nn links_network [OF L, of k x] by (auto split: if_splits)
  show "?N k = Some x \<Longrightarrow> nw_IsBound x \<Longrightarrow> \<exists>kb b'. ?B kb = Some b' \<and> net_key b' = k \<and> bound_for b' x"
  proof (cases "k = net_key b")
    case True
    then show "?N k = Some x \<Longrightarrow> ?thesis" using bind_network_bound [of b n] by (intro exI [of _ "Key b"] exI [of _ b]) auto
  next
    case False
    assume "?N k = Some x" "nw_IsBound x"
    with False links_bound [OF L, of k x] b(2) show ?thesis by (metis fun_upd_apply option.distinct(1))
  qed
next
  note names = with_network_names [OF links_network(1) [OF L n(1)]]
  fix k b'
  assume B: "?B k = Some b'"
  show "namespaced b' \<and> Key b' = k \<and> (\<exists>n g. ?N (net_key b') = Some n \<and> bound_for b' n \<and>
      ?G (grp_key b') = Some g \<and> net_key b' \<in> ni_Name ` set (ag_Networks g))"
  proof (cases "k = Key b")
    case True
    then show ?thesis using B b bind_network_bound [of b n] names(1) links_network [OF L n(1)] by auto
  next
    case False
    with B have "B k = Some b'" by simp
    from links_binding [OF L this] obtain n' g' where o: "namespaced b'" "Key b' = k" "N (net_key b') = Some n'"
      "bound_for b' n'" "G (grp_key b') = Some g'" "net_key b' \<in> ni_Name ` set (ag_Networks g')" .
    have "net_key b' \<noteq> net_key b" using o(3,4) n by (auto simp: bound_for_def)
    moreover have "net_key b' \<in> ni_Name ` set (ag_Networks (the (?G (grp_key b'))))"
      using o(5,6) g names(1) by auto
    ultimately show ?thesis using o by (auto split: if_splits)
  qed
next
  note names = with_network_names [OF links_network(1) [OF L n(1)]]
  fix k g' i
  assume G: "?G k = Some g'" and i: "i \<in> set (ag_Networks g')"
  have "(\<exists>g''. G k = Some g'' \<and> i \<in> set (ag_Networks g'')) \<or> k = grp_key b \<and> ni_Name i = net_key b"
    using G i g names(3) [of i "ag_Networks g"] links_network [OF L n(1)] by (auto split: if_splits)
  then show "\<exists>kb b'. ?B kb = Some b' \<and> grp_key b' = k \<and> ni_Name i = net_key b'"
  proof
    assume "\<exists>g''. G k = Some g'' \<and> i \<in> set (ag_Networks g'')"
    then obtain kb b' where "B kb = Some b'" "grp_key b' = k" "ni_Name i = net_key b'" using links_item [OF L] by metis
    with b(2) show ?thesis by (intro exI [of _ kb] exI [of _ b']) auto
  next
    assume "k = grp_key b \<and> ni_Name i = net_key b"
    then show ?thesis by (intro exI [of _ "Key b"] exI [of _ b]) auto
  qed
qed

lemma links_delete:
  assumes L: "links N B G" and b: "B k0 = Some b"
    and n: "N (net_key b) = Some n" and g: "G (grp_key b) = Some g"
  shows "links (N(net_key b \<mapsto> unbind_network n)) (B(k0 := None))
    (G(grp_key b \<mapsto> g\<lparr>ag_Networks := with_network False n (ag_Networks g)\<rparr>))" (is "links ?N ?B ?G")
proof (rule linksI)
  fix k x
  show "?N k = Some x \<Longrightarrow> namespaced x \<and> Key x = k"
    using links_network [OF L] n by (auto split: if_splits)
  assume "?N k = Some x" "nw_IsBound x"
  then have x: "k \<noteq> net_key b" "N k = Some x" by (auto split: if_splits)
  from links_bound [OF L x(2) \<open>nw_IsBound x\<close>] obtain kb b' where "B kb = Some b'" "net_key b' = k" "bound_for b' x" .
  with x(1) b show "\<exists>kb b'. ?B kb = Some b' \<and> net_key b' = k \<and> bound_for b' x"
    by (intro exI [of _ kb] exI [of _ b']) auto
next
  fix k b'
  assume "?B k = Some b'"
  then have k: "k \<noteq> k0" "B k = Some b'" by (auto split: if_splits)
  from links_binding [OF L k(2)] obtain n' g' where o: "namespaced b'" "Key b' = k" "N (net_key b') = Some n'"
    "bound_for b' n'" "G (grp_key b') = Some g'" "net_key b' \<in> ni_Name ` set (ag_Networks g')" .
  from links_binding [OF L b] n have ob: "namespaced b" "Key b = k0" "bound_for b n" by auto
  have ne: "net_key b' \<noteq> net_key b"
    using same_network_same_binding [OF o(1) ob(1) _ o(4)] ob o(2,3) n k(1) by auto
  moreover have "net_key b' \<in> ni_Name ` set (ag_Networks (the (?G (grp_key b'))))"
    using o(5,6) g ne with_network_names(2) [of n "ag_Networks g"] links_network [OF L n] by auto
  ultimately show "namespaced b' \<and> Key b' = k \<and> (\<exists>n g. ?N (net_key b') = Some n \<and> bound_for b' n \<and>
      ?G (grp_key b') = Some g \<and> net_key b' \<in> ni_Name ` set (ag_Networks g))"
    using o by (auto split: if_splits)
next
  fix k g' i
  assume G: "?G k = Some g'" and i: "i \<in> set (ag_Networks g')"
  obtain g'' where g'': "G k = Some g''" "i \<in> set (ag_Networks g'')" "k = grp_key b \<Longrightarrow> ni_Name i \<noteq> net_key b"
    using G i g with_network_names(2) [of n "ag_Networks g"] links_network [OF L n] by (auto split: if_splits)
  from links_item [OF L g''(1,2)] obtain kb b' where b': "B kb = Some b'" "grp_key b' = k" "ni_Name i = net_key b'" .
  with g''(3) b have "kb \<noteq> k0" by auto
  with b' show "\<exists>kb b'. ?B kb = Some b' \<and> grp_key b' = k \<and> ni_Name i = net_key b'"
    by (intro exI [of _ kb] exI [of _ b']) auto
qed

section \<open>Requests\<close>

lemma payload_refs [simp]:
  "network_of (payload b) = network_of b" "group_of (payload b) = group_of b" "self_id (payload x) = self_id x"
  "namespaced (payload x) = namespaced x" "Name (payload x) = Name x" "Namespace (payload x) = Namespace x"
  "binding_allowed (payload n) i = binding_allowed n i" "nw_IsBound (payload n) = nw_IsBound n"
  "nw_BindingRef (payload n) = nw_BindingRef n" "nw_AddressGroupRef (payload n) = nw_AddressGroupRef n"
  "network_of (b\<lparr>Meta := m\<rparr>) = network_of b" "group_of (b\<lparr>Meta := m\<rparr>) = group_of b"
  "self_id (x\<lparr>Meta := m\<rparr>) = self_id x" "namespaced (x\<lparr>Meta := m\<rparr>) = namespaced x"
  by (simp_all add: network_of_def group_of_def self_id_def namespaced_def payload_def binding_allowed_def)

lemma key_splits:
  assumes "Namespace x \<noteq> []" "CHR ''/'' \<notin> set (Namespace x)"
  shows "split_on CHR ''/'' (Key x) = Namespace x # split_on CHR ''/'' (Name x)"
  using assms by (simp add: Key_def split_on_append)

lemma split_single: "split_on c s = [x] \<Longrightarrow> s = x \<and> c \<notin> set s"
  by (induction s arbitrary: x) (auto split: if_splits list.splits)

lemma split_pair: "split_on c s = [x, y] \<Longrightarrow> s = x @ c # y \<and> c \<notin> set x \<and> c \<notin> set y"
  by (induction s arbitrary: x) (auto dest: split_single split: if_splits list.splits)

definition creatable :: "net_state \<Rightarrow> network_binding \<Rightarrow> bool" where
  "creatable s b \<longleftrightarrow> CHR ''/'' \<notin> set (Name b) \<and> binds s (Key b) = None \<and>
     (\<exists>n. nets s (net_key b) = Some n \<and> \<not> nw_IsBound n) \<and> grps s (grp_key b) \<noteq> None"

lemma binding_lookup:
  assumes "net_ok s" and "namespaced b"
  shows "(\<exists>e. binding_by_key (mem_reader (committed (ns_db s))) (Key b) = Inl e \<and> is_not_found e) \<longleftrightarrow>
    CHR ''/'' \<notin> set (Name b) \<and> binds s (Key b) = None"
proof (cases "CHR ''/'' \<in> set (Name b)")
  case True
  then have "length (split_on CHR ''/'' (Name b)) \<noteq> 1" using split_single by (fastforce simp: length_Suc_conv)
  then have "\<And>x y. split_on CHR ''/'' (Key b) \<noteq> [x, y]"
    using assms(2) key_splits [of b] by (auto simp: namespaced_def)
  then have "binding_by_key (mem_reader (committed (ns_db s))) (Key b) =
      Inl (Errorf (''invalid resource identifier format: '' @ Key b @ '' (expected: namespace/name)''))"
    by (auto simp: binding_by_key_def split: list.splits)
  with True show ?thesis by simp
next
  case False
  then have *: "binding_by_key (mem_reader (committed (ns_db s))) (Key b) =
      mem_GetNetworkBindingByID (committed (ns_db s)) (self_id b)"
    using assms(2) key_splits [of b]
    by (simp add: binding_by_key_def namespaced_def split_on_no_sep self_id_def)
  show ?thesis
    unfolding * using False reads(5,6) [OF assms(1), of "self_id b"]
    by (cases "mem_GetNetworkBindingByID (committed (ns_db s)) (self_id b)") (auto simp: Key_self_id)
qed

lemma check_new_binding_exact:
  assumes L: "linked s" and b: "namespaced b"
  shows "\<exists>r. check_new_binding (mem_reader (committed (ns_db s))) b = Some r \<and> (r = None \<longleftrightarrow> creatable s b)"
proof -
  let ?rd = "mem_reader (committed (ns_db s))"
  note ok = L [unfolded linked_def, THEN conjunct1] and lk = L [unfolded linked_def, THEN conjunct2]
  have V: "\<exists>r. ValidateNetworkBindingWithReader ?rd (network_of b) (self_id b) = Some r \<and>
      (r = None \<longrightarrow> (\<exists>n. nets s (net_key b) = Some n \<and> binding_allowed n (self_id b) = Some None)) \<and>
      ((\<exists>n. nets s (net_key b) = Some n \<and> \<not> nw_IsBound n) \<longrightarrow> r = None)"
  proof (cases "mem_GetNetworkByID (committed (ns_db s)) (network_of b)")
    case (Inl e)
    with reads(2) [OF ok Inl] show ?thesis by (auto simp: ValidateNetworkBindingWithReader_def)
  next
    case (Inr x)
    from reads(1) [OF ok Inr] have x: "nets s (net_key b) = Some (payload x)" by blast
    have "binding_allowed x (self_id b) \<noteq> None"
      using links_bound [OF lk x] by (fastforce simp: binding_allowed_def bound_for_def payload_def split: option.splits)
    with x Inr show ?thesis by (auto simp: ValidateNetworkBindingWithReader_def binding_allowed_def)
  qed
  have G: "validateAddressGroupWithReader ?rd (group_of b) = None \<longleftrightarrow> grps s (grp_key b) \<noteq> None"
    using reads(3,4) [OF ok, of "group_of b"]
    by (cases "mem_GetAddressGroupByID (committed (ns_db s)) (group_of b)") (auto simp: validateAddressGroupWithReader_def)
  have U: "binds s (Key b) = None \<Longrightarrow> nets s (net_key b) = Some n \<Longrightarrow> binding_allowed n (self_id b) = Some None \<Longrightarrow> \<not> nw_IsBound n" for n
    using allowed_unbound [OF lk b] by blast
  from V obtain r where r: "ValidateNetworkBindingWithReader ?rd (network_of b) (self_id b) = Some r"
    "r = None \<Longrightarrow> \<exists>n. nets s (net_key b) = Some n \<and> binding_allowed n (self_id b) = Some None"
    "(\<exists>n. nets s (net_key b) = Some n \<and> \<not> nw_IsBound n) \<Longrightarrow> r = None" by blast
  show ?thesis
    using r G U binding_lookup [OF ok b]
    by (auto simp: check_new_binding_def creatable_def split: option.split sum.split)
qed

text \<open>What a creation does once its checks have passed.\<close>

definition create_links :: "network_binding \<Rightarrow> net_state \<Rightarrow> (error option \<times> net_state) option" where
  "create_links b s =
     (let (b2, s2) = process_binding b (write_one SyncNetworkBindings b empty_writer s)
      in step_or_fail ''failed to update network binding''
           (network_UpdateNetworkBinding (network_of b) (self_id b) (group_of b) s2) (\<lambda>s3.
         step_or_fail ''failed to update address group networks''
           (updateAddressGroupNetworks (group_of b) (network_of b) True s3) (\<lambda>s4.
         Some (syncNetworkBindingWithExternal b2 ''create'' (snd (forceSyncAddressGroupWithSGroups (group_of b) s4))))))"

lemma create_links_effect:
  assumes L: "linked s" and b: "namespaced b" and c: "creatable s b"
  shows "\<exists>s'. create_links b s = Some (None, s') \<and> linked s' \<and> binds s' = (binds s)(Key b \<mapsto> payload b)"
proof -
  note ok = L [unfolded linked_def, THEN conjunct1] and lk = L [unfolded linked_def, THEN conjunct2]
  from c obtain n g where n: "nets s (net_key b) = Some n" "\<not> nw_IsBound n" and g: "grps s (grp_key b) = Some g"
    and nb: "binds s (Key b) = None"
    by (auto simp: creatable_def)
  note w = write_binding_one [OF ok, of b]
  from process_binding_effect [OF w(4), of b] obtain b2 s2 where
    P: "process_binding b (write_one SyncNetworkBindings b empty_writer s) = (b2, s2)"
    "binds s2 = (binds s)(Key b \<mapsto> payload b)" "nets s2 = nets s" "grps s2 = grps s" "net_ok s2"
    using w by auto
  from change_network_effect [OF P(5), of "network_of b" n "bind_network (self_id b) (group_of b)"] n P(3)
  obtain s3 where s3: "network_UpdateNetworkBinding (network_of b) (self_id b) (group_of b) s2 = (None, s3)"
    "nets s3 = (nets s)(net_key b \<mapsto> bind_network (self_id b) (group_of b) n)" "binds s3 = binds s2"
    "grps s3 = grps s2" "net_ok s3"
    by (auto simp: network_UpdateNetworkBinding_def)
  have "nets s3 (net_key b) = Some (bind_network (self_id b) (group_of b) n)" "grps s3 (grp_key b) = Some g"
    using s3(2,4) P(4) g by simp_all
  from update_group_effect [OF s3(5) this, of True] s3(4) P(4)
  obtain s4 where s4: "updateAddressGroupNetworks (group_of b) (network_of b) True s3 = (None, s4)"
    "grps s4 = (grps s)(grp_key b \<mapsto> g\<lparr>ag_Networks := with_network True n (ag_Networks g)\<rparr>)"
    "nets s4 = nets s3" "binds s4 = binds s3" "net_ok s4"
    by auto
  from finish_store obtain s5 where s5: "syncNetworkBindingWithExternal b2 ''create''
      (snd (forceSyncAddressGroupWithSGroups (group_of b) s4)) = (None, s5)" "same_store s4 s5" by blast
  note v5 = same_store_views [OF s5(2)]
  have "links (nets s5) (binds s5) (grps s5)"
    using links_create [OF lk, of "payload b" n g] b n g nb v5 s4 s3 P(2) by simp
  then have "linked s5" using s4(5) v5 by (simp add: linked_def)
  then show ?thesis
    using P(1,2) s3(1,3) s4(1,4) s5(1) v5(2) by (simp add: create_links_def step_or_fail_def)
qed

lemma creation_effect:
  assumes L: "linked s" and b: "namespaced b"
  shows "\<exists>err s'. CreateNetworkBinding b s = Some (err, s') \<and> linked s' \<and>
    (if creatable s b then err = None \<and> binds s' = (binds s)(Key b \<mapsto> payload b) else err \<noteq> None \<and> same_store s s')"
proof -
  obtain m env where T: "TouchOnCreate (ns_env s) (Meta b) = (m, env)" by fastforce
  let ?b = "b\<lparr>Meta := m\<rparr>" and ?s = "ns_set_env env s"
  have st: "same_store s ?s" by simp
  note v = same_store_views [OF st]
  have L1: "linked ?s" using L v by (simp add: linked_def)
  note ok = L1 [unfolded linked_def, THEN conjunct1]
  have b1: "namespaced ?b" "Key ?b = Key b" "payload ?b = payload b" using b by (simp_all add: payload_def)
  from check_new_binding_exact [OF L1 b1(1)] obtain r where
    r: "check_new_binding (mem_reader (committed (ns_db ?s))) ?b = Some r" "r = None \<longleftrightarrow> creatable ?s ?b" by blast
  have cr: "creatable ?s ?b \<longleftrightarrow> creatable s b" using v by (simp add: creatable_def)
  have C: "CreateNetworkBinding b s = (case r of Some e \<Rightarrow> Some (Some e, ?s) | None \<Rightarrow> create_links ?b ?s)"
    using r(1) open_registry [OF ok] T
    by (auto simp: CreateNetworkBinding_def create_links_def Let_def split: option.split)
  show ?thesis
  proof (cases r)
    case (Some e)
    with C r(2) cr L1 st show ?thesis by simp
  next
    case None
    with r(2) create_links_effect [OF L1 b1(1)] C cr b1 v show ?thesis by auto
  qed
qed

text \<open>Releasing the network and the address group of a stored binding.\<close>

lemma release_effect:
  assumes L: "linked s" and b: "binds s k = Some b"
  obtains n g s1 s2 where "nets s (net_key b) = Some n" "bound_for b n" "grps s (grp_key b) = Some g"
    "network_RemoveNetworkBinding (network_of b) s = (None, s1)"
    "updateAddressGroupNetworks (group_of b) (network_of b) False s1 = (None, s2)"
    "nets s2 = (nets s)(net_key b \<mapsto> unbind_network n)" "binds s2 = binds s"
    "grps s2 = (grps s)(grp_key b \<mapsto> g\<lparr>ag_Networks := with_network False n (ag_Networks g)\<rparr>)" "net_ok s2"
proof -
  note ok = L [unfolded linked_def, THEN conjunct1] and lk = L [unfolded linked_def, THEN conjunct2]
  from links_binding [OF lk b] obtain n g where n: "nets s (net_key b) = Some n" "bound_for b n"
    and g: "grps s (grp_key b) = Some g" by metis
  from change_network_effect [OF ok n(1), of unbind_network] obtain s1 where
    s1: "network_RemoveNetworkBinding (network_of b) s = (None, s1)" "nets s1 = (nets s)(net_key b \<mapsto> unbind_network n)"
    "binds s1 = binds s" "grps s1 = grps s" "net_ok s1"
    by (auto simp: network_RemoveNetworkBinding_def)
  have "nets s1 (net_key b) = Some (unbind_network n)" "grps s1 (grp_key b) = Some g" using s1 g by simp_all
  from update_group_effect [OF s1(5) this, of False] s1 n g show thesis by (auto intro: that)
qed

lemma stored_binding_lookup:
  assumes L: "linked s" and g: "getNetworkBindingByID k s = Inr b"
  shows "binds s k = Some (payload b)"
proof -
  note ok = L [unfolded linked_def, THEN conjunct1] and lk = L [unfolded linked_def, THEN conjunct2]
  from g open_registry(2) [OF ok] obtain ns name where
    sp: "split_on CHR ''/'' k = [ns, name]" "mem_GetNetworkBindingByID (committed (ns_db s)) (ResourceIdentifier name ns) = Inr b"
    by (auto simp: getNetworkBindingByID_def binding_by_key_def split: list.splits)
  from reads(5) [OF ok sp(2)] have b: "binds s (rid_Key (ResourceIdentifier name ns)) = Some (payload b)"
    "Key b = rid_Key (ResourceIdentifier name ns)" by auto
  have "namespaced b" using links_binding [OF lk b(1)] by simp
  then have "CHR ''/'' \<in> set (Key b)" by (simp add: Key_def namespaced_def)
  with b(2) split_pair [OF sp(1)] have "rid_Key (ResourceIdentifier name ns) = k"
    by (auto simp: rid_Key_def split: if_splits)
  with b(1) show ?thesis by simp
qed

lemma same_key_id:
  assumes "namespaced a" and "namespaced b" and "Key a = Key b"
  shows "Namespace a = Namespace b \<and> Name a = Name b"
  using assms append_sep_cancel [of "CHR ''/''" "Namespace a" "Namespace b" "Name a" "Name b"]
  by (simp add: Key_def namespaced_def)

lemma deletion_effect:
  assumes L: "linked s"
  shows "\<exists>err s'. DeleteNetworkBinding i s = Some (err, s') \<and> linked s' \<and>
    (case getNetworkBindingByID (rid_Key i) s of
       Inl e \<Rightarrow> (err = None \<longleftrightarrow> is_not_found e) \<and> s' = s
     | Inr b \<Rightarrow> err = None \<and> binds s' = (binds s)(rid_Key i := None))"
proof (cases "getNetworkBindingByID (rid_Key i) s")
  case (Inl e)
  with L show ?thesis by (simp add: DeleteNetworkBinding_def)
next
  case (Inr b)
  note lk = L [unfolded linked_def, THEN conjunct2]
  from stored_binding_lookup [OF L Inr] have b: "binds s (rid_Key i) = Some (payload b)" .
  from release_effect [OF L b] obtain n g s1 s2 where r: "nets s (net_key b) = Some n" "grps s (grp_key b) = Some g"
    "network_RemoveNetworkBinding (network_of b) s = (None, s1)"
    "updateAddressGroupNetworks (group_of b) (network_of b) False s1 = (None, s2)"
    "nets s2 = (nets s)(net_key b \<mapsto> unbind_network n)" "binds s2 = binds s"
    "grps s2 = (grps s)(grp_key b \<mapsto> g\<lparr>ag_Networks := with_network False n (ag_Networks g)\<rparr>)" "net_ok s2"
    unfolding payload_refs by metis
  define s3 where "s3 = snd (forceSyncAddressGroupWithSGroups (group_of b) s2)"
  note v3 = same_store_views [OF force_store [of s2 "group_of b", folded s3_def]]
  have ok3: "net_ok s3" using v3 r(8) by simp
  note d = delete_binding_one [OF ok3, of i]
  from syncBinding_store obtain s4 where s4: "syncNetworkBindingWithExternal b ''delete''
      (ns_commit (DeleteNetworkBindingsByIDs (ns_db s3) [i] empty_writer) s3) = (None, s4)"
    "same_store (ns_commit (DeleteNetworkBindingsByIDs (ns_db s3) [i] empty_writer) s3) s4" by blast
  note v4 = same_store_views [OF s4(2)]
  have "links (nets s4) (binds s4) (grps s4)"
    using links_delete [OF lk b] r v3 v4 d by simp
  then have "linked s4" using v4 d by (simp add: linked_def)
  then show ?thesis
    using Inr r v3 v4 d s4(1) open_registry(1) [OF ok3]
    by (simp add: DeleteNetworkBinding_def step_or_fail_def s3_def [symmetric] Let_def)
qed

subsection \<open>Networks\<close>

lemma network_lookup:
  assumes "net_ok s" and "ns \<noteq> []" and "CHR ''/'' \<notin> set ns"
  shows "\<exists>i. rid_Key i = ns @ CHR ''/'' # name \<and>
    getNetworkByID (ns @ CHR ''/'' # name) s = mem_GetNetworkByID (committed (ns_db s)) i"
proof (cases "\<exists>x. split_on CHR ''/'' name = [x]")
  case True
  then have "split_on CHR ''/'' name = [name]" using split_single by blast
  with assms open_registry(2) [OF assms(1)] show ?thesis
    by (intro exI [of _ "ResourceIdentifier name ns"]) (simp add: getNetworkByID_def split_on_append rid_Key_def)
next
  case False
  then have "\<And>x y. ns # split_on CHR ''/'' name \<noteq> [x, y]" by auto
  with assms open_registry(2) [OF assms(1)] show ?thesis
    by (intro exI [of _ "ResourceIdentifier (ns @ CHR ''/'' # name) []"])
      (auto simp: getNetworkByID_def split_on_append rid_Key_def split: list.splits)
qed

lemma network_stored_lookup:
  assumes "net_ok s" and "nets s (ns @ CHR ''/'' # name) = Some n" and "ns \<noteq> []" and "CHR ''/'' \<notin> set ns"
  shows "\<exists>x. getNetworkByID (ns @ CHR ''/'' # name) s = Inr x \<and> n = payload x"
proof -
  from network_lookup [OF assms(1,3,4)] obtain i where i: "rid_Key i = ns @ CHR ''/'' # name"
    "getNetworkByID (ns @ CHR ''/'' # name) s = mem_GetNetworkByID (committed (ns_db s)) i" by blast
  with assms(2) reads(1,2) [OF assms(1), of i] show ?thesis
    by (cases "mem_GetNetworkByID (committed (ns_db s)) i") auto
qed

text \<open>A bound network is taken out of its address group before it is deleted.\<close>

lemma remove_from_group_effect:
  assumes ok: "net_ok s" and g: "grps s (rid_Key gi) = Some g"
    and l: "network_label (rid_Namespace ni) (rid_Name ni) \<in> ni_Name ` set (ag_Networks g)"
  shows "\<exists>s'. removeNetworkFromAddressGroup gi ni s = (None, s') \<and> nets s' = nets s \<and> binds s' = binds s \<and> net_ok s'"
proof -
  from g reads(3,4) [OF ok, of gi] obtain h where h: "mem_GetAddressGroupByID (committed (ns_db s)) gi = Inr h" "g = payload h"
    by (cases "mem_GetAddressGroupByID (committed (ns_db s)) gi") auto
  let ?label = "network_label (rid_Namespace ni) (rid_Name ni)"
  define y t where "y = fst (touch_now (h\<lparr>ag_Networks := without_network ?label (ag_Networks h)\<rparr>) s)"
    and "t = snd (touch_now (h\<lparr>ag_Networks := without_network ?label (ag_Networks h)\<rparr>) s)"
  have "same_store s t" by (simp add: t_def touch_now_parts)
  note t = same_store_views [OF this]
  have "net_ok t" using ok t by simp
  note w = write_group [OF this, of y] open_registry(1) [OF this]
  have "removeNetworkFromAddressGroup gi ni s = (None, write_one SyncAddressGroups y empty_writer t)"
    using open_registry(2) [OF ok] h l w(5)
    by (auto simp: removeNetworkFromAddressGroup_def y_def t_def split_beta network_UpdateAddressGroup_def wrap_err_def
        Let_def)
  with w t show ?thesis by simp
qed

lemma bound_network_id:
  assumes "Namespace n \<noteq> []" and "Key n = net_key b" and "namespaced n" and "namespaced b"
  shows "Namespace n = Namespace b" "Name n = ref_Name (nb_NetworkRef b)"
  using assms append_sep_cancel [of "CHR ''/''" "Namespace n" "Namespace b" "Name n" "ref_Name (nb_NetworkRef b)"]
  by (simp_all add: net_key_namespaced Key_def namespaced_def)

lemma delete_bound_network:
  assumes L: "linked s" and b: "binds s k = Some b"
  shows "\<exists>err s'. DeleteNetwork (network_of b) s = (err, s') \<and> nets s' = (nets s)(net_key b := None) \<and>
    binds s' = binds s \<and> net_ok s'"
proof -
  note ok = L [unfolded linked_def, THEN conjunct1] and lk = L [unfolded linked_def, THEN conjunct2]
  from links_binding [OF lk b] obtain n g where n: "namespaced b" "nets s (net_key b) = Some n" "bound_for b n"
    and g: "grps s (grp_key b) = Some g" "net_key b \<in> ni_Name ` set (ag_Networks g)" by metis
  note nn = links_network [OF lk n(2)]
  from network_stored_lookup [OF ok, of "Namespace b" "ref_Name (nb_NetworkRef b)"] n
  obtain x where x: "getNetworkByID (net_key b) s = Inr x" "n = payload x"
    by (auto simp: net_key_namespaced namespaced_def)
  note id = bound_network_id [OF nn n(1), unfolded x(2) payload_refs]
  from n(3) x(2) obtain r where r: "nw_IsBound x" "nw_AddressGroupRef x = Some r"
    "ResourceIdentifier (ref_Name r) (Namespace x) = group_of b"
    using id by (auto simp: bound_for_def group_of_def)
  have "network_label (rid_Namespace (self_id x)) (rid_Name (self_id x)) = net_key b"
    using nn x(2) label_key [of x] by (simp add: self_id_def)
  with remove_from_group_effect [OF ok g(1), of "self_id x"] g(2) obtain s1 where
    s1: "removeNetworkFromAddressGroup (group_of b) (self_id x) s = (None, s1)" "nets s1 = nets s" "binds s1 = binds s"
    "net_ok s1" by auto
  note w = write_network [OF s1(4), of "unbind_network x"]
  have rel: "release_network x s = ((None, unbind_network x), write_one SyncNetworks (unbind_network x) empty_writer s1)"
    using r s1(1) open_registry(1) [OF s1(4)] by (simp add: release_network_def Let_def)
  let ?s2 = "write_one SyncNetworks (unbind_network x) empty_writer s1"
  note d = delete_network_one [OF w(4), of "network_of b"]
  let ?s3 = "ns_commit (DeleteNetworksByIDs (ns_db ?s2) [network_of b] empty_writer) ?s2"
  note v = same_store_views [OF syncNetwork_store [of ?s3 "unbind_network x" SyncOperationDelete]]
  have "DeleteNetwork (network_of b) s =
      (fst (fst (syncNetworkWithExternal (unbind_network x) SyncOperationDelete ?s3)),
       snd (syncNetworkWithExternal (unbind_network x) SyncOperationDelete ?s3))"
    using x(1) rel open_registry(1) [OF w(4)] by (simp add: DeleteNetwork_def split_beta)
  moreover have "Key x = net_key b" using nn x(2) by simp
  ultimately show ?thesis using v d w s1 by auto
qed

end
