(* ===== verification/NetworkProperties.thy ===== *)
theory NetworkProperties
  imports NetworkFacts ConditionProperties
begin

text \<open>
  What requests on networks and network bindings keep of the links between bindings, networks and
  address groups, and which requests break them.
\<close>

section \<open>A concrete state\<close>

text \<open>Two bound networks and a free one; the external system accepts everything.\<close>

definition ex_net_binding :: "string \<Rightarrow> string \<Rightarrow> network_binding" where
  "ex_net_binding name net = \<lparr> Name = name, Namespace = ''app'', Meta = ex_meta,
     nb_NetworkRef = \<lparr> ref_APIVersion = ''netguard.sgroups.io/v1beta1'', ref_Kind = ''Network'', ref_Name = net \<rparr>,
     nb_AddressGroupRef = \<lparr> ref_APIVersion = ''netguard.sgroups.io/v1beta1'', ref_Kind = ''AddressGroup'', ref_Name = ''front'' \<rparr>,
     nb_NetworkItem = item_of (ex_network net ''10.0.0.0/24'') \<rparr>"

definition ex_bound_network :: "string \<Rightarrow> string \<Rightarrow> network" where
  "ex_bound_network net name =
     bind_network (ResourceIdentifier name ''app'') (ResourceIdentifier ''front'' ''app'') (ex_network net ''10.0.0.0/24'')"

abbreviation ex_front :: address_group where
  "ex_front \<equiv> (ex_group ''front'')\<lparr>ag_Networks :=
     [item_of (ex_network ''n1'' ''10.0.0.0/24''), item_of (ex_network ''n2'' ''10.0.0.0/24'')]\<rparr>"

definition ex_net_db :: mem_db where
  "ex_net_db = NewMemDB\<lparr>
     db_networks := [(''app/n1'', ex_bound_network ''n1'' ''nb1''), (''app/n2'', ex_bound_network ''n2'' ''nb2''),
       (''app/n3'', ex_network ''n3'' ''10.0.0.0/24'')],
     db_networkBindings := [(''app/nb1'', ex_net_binding ''nb1'' ''n1''), (''app/nb2'', ex_net_binding ''nb2'' ''n2'')],
     db_addressGroups := [(''app/front'', ex_front)]\<rparr>"

definition ex_net_state :: net_state where
  "ex_net_state = \<lparr> ns_backend = ex_backend ex_net_db, ns_networkTracker = NewSyncTracker 1000000000,
     ns_bindingTracker = NewSyncTracker 1000000000, ns_networkSync = (\<lambda>_ _ _. None), ns_networksSynced = [],
     ns_forcedSync = (\<lambda>_ _. None), ns_groupsForced = [], ns_fromError = (\<lambda>_. None) \<rparr>"

lemma ex_net_tables:
  "GetNetworks (ns_db ex_net_state) = [(''app/n1'', ex_bound_network ''n1'' ''nb1''),
     (''app/n2'', ex_bound_network ''n2'' ''nb2''), (''app/n3'', ex_network ''n3'' ''10.0.0.0/24'')]"
  "GetNetworkBindings (ns_db ex_net_state) =
     [(''app/nb1'', ex_net_binding ''nb1'' ''n1''), (''app/nb2'', ex_net_binding ''nb2'' ''n2'')]"
  "GetAddressGroups (ns_db ex_net_state) = [(''app/front'', ex_front)]"
  "\<not> closed ex_net_state"
  by (simp_all add: ex_net_state_def ex_net_db_def ex_engine_def NewMemDB_def db_access_defs)

lemma ex_net_objects:
  "Key (ex_net_binding name net) = ''app/'' @ name" "namespaced (ex_net_binding name net)"
  "rid_Key (network_of (ex_net_binding name net)) = ''app/'' @ net"
  "rid_Key (group_of (ex_net_binding name net)) = ''app/front''"
  "Key (ex_bound_network net name) = ''app/'' @ net" "namespaced (ex_bound_network net name)"
  "namespaced (ex_network net c)" "\<not> nw_IsBound (ex_network net c)"
  "ni_Name (item_of (ex_network net c)) = ''app/'' @ net"
  "bound_for (ex_net_binding name net') (ex_bound_network net name)"
  "Name (ex_net_binding name net) = name" "nw_IsBound (ex_bound_network net name)"
  by (simp_all add: ex_net_binding_def ex_bound_network_def bind_network_def Key_def namespaced_def network_of_def
      group_of_def rid_Key_def ex_network_def item_of_def network_label_def bound_for_def)

lemma bound_for_payload [simp]: "bound_for (payload b) (payload n) = bound_for b n"
  by (simp add: bound_for_def payload_def)

lemma ex_net_views:
  "nets ex_net_state = [''app/n1'' \<mapsto> payload (ex_bound_network ''n1'' ''nb1''),
     ''app/n2'' \<mapsto> payload (ex_bound_network ''n2'' ''nb2''), ''app/n3'' \<mapsto> payload (ex_network ''n3'' ''10.0.0.0/24'')]"
  "binds ex_net_state = [''app/nb1'' \<mapsto> payload (ex_net_binding ''nb1'' ''n1''),
     ''app/nb2'' \<mapsto> payload (ex_net_binding ''nb2'' ''n2'')]"
  "grps ex_net_state = [''app/front'' \<mapsto> payload ex_front]"
  unfolding nets_def binds_def grps_def abs_table_def ex_net_tables by (simp_all add: fun_eq_iff)

lemma ex_linked: "linked ex_net_state"
proof -
  have "links (nets ex_net_state) (binds ex_net_state) (grps ex_net_state)"
  proof (rule linksI)
    fix k n
    assume n: "nets ex_net_state k = Some n"
    then show "namespaced n \<and> Key n = k"
      by (auto simp: ex_net_views ex_net_objects split: if_splits)
    assume "nw_IsBound n"
    with n consider "k = ''app/n1''" "n = payload (ex_bound_network ''n1'' ''nb1'')"
      | "k = ''app/n2''" "n = payload (ex_bound_network ''n2'' ''nb2'')"
      by (auto simp: ex_net_views ex_net_objects split: if_splits)
    then show "\<exists>kb b. binds ex_net_state kb = Some b \<and> net_key b = k \<and> bound_for b n"
    proof cases
      case 1
      then show ?thesis by (intro exI [of _ "''app/nb1''"]) (simp add: ex_net_views ex_net_objects)
    next
      case 2
      then show ?thesis by (intro exI [of _ "''app/nb2''"]) (simp add: ex_net_views ex_net_objects)
    qed
  next
    fix k b
    assume "binds ex_net_state k = Some b"
    then show "namespaced b \<and> Key b = k \<and> (\<exists>n g. nets ex_net_state (net_key b) = Some n \<and> bound_for b n \<and>
        grps ex_net_state (grp_key b) = Some g \<and> net_key b \<in> ni_Name ` set (ag_Networks g))"
      by (auto simp: ex_net_views ex_net_objects split: if_splits)
  next
    fix k g i
    assume "grps ex_net_state k = Some g" "i \<in> set (ag_Networks g)"
    then have "k = ''app/front''" "ni_Name i = ''app/n1'' \<or> ni_Name i = ''app/n2''"
      by (auto simp: ex_net_views ex_net_objects split: if_splits)
    then show "\<exists>kb b. binds ex_net_state kb = Some b \<and> grp_key b = k \<and> ni_Name i = net_key b"
      by (auto simp: ex_net_views ex_net_objects intro: exI [of _ "''app/nb1''"] exI [of _ "''app/nb2''"])
  qed
  moreover have "net_ok ex_net_state"
    by (simp add: net_ok_def ex_net_tables table_ok_def ex_net_objects)
  ultimately show ?thesis by (simp add: linked_def)
qed

section \<open>Bindings\<close>

text \<open>
  C10: Requests of the gRPC service on network bindings, with any operation, keep the links: every
  stored binding has its network, which is marked with it, and its address group, which lists
  the network, and there are no other bound or listed networks. They never panic, whatever the
  external system answers.\<close>
theorem binding_requests_keep_links:
  assumes "linked s" and "list_all namespaced bs"
  shows "\<exists>err s'. NetguardFacade_Sync_NetworkBindings op bs s = Some (err, s') \<and> linked s'"
  using assms
proof (induction bs arbitrary: s)
  case (Cons b bs)
  then have "\<exists>err s'. CreateNetworkBinding b s = Some (err, s') \<and> linked s'"
    and "\<exists>err s'. DeleteNetworkBinding (self_id b) s = Some (err, s') \<and> linked s'"
    using creation_effect [of s b] deletion_effect [of s "self_id b"] by auto
  then obtain err s1 err' s2 where "CreateNetworkBinding b s = Some (err, s1)" "linked s1"
    "DeleteNetworkBinding (self_id b) s = Some (err', s2)" "linked s2" by blast
  with Cons show ?case by (auto simp: step_or_fail_def split: option.split)
qed simp

theorem binding_requests_keep_links_witness:
  "\<exists>err s'. NetguardFacade_Sync_NetworkBindings SyncOpUpsert [ex_net_binding ''nb3'' ''n3''] ex_net_state = Some (err, s') \<and>
     linked s'"
  by (rule binding_requests_keep_links [OF ex_linked]) (simp add: ex_net_objects)

text \<open>
  C26: A creation of a network binding on linked objects succeeds exactly when the binding is new,
  its name has no slash, its network is stored and not bound and its address group is stored;
  it then stores the binding, and otherwise changes nothing. A deletion of a stored binding
  always succeeds and removes it.\<close>
theorem binding_requests_exact:
  assumes "linked s" and "namespaced b"
  shows "(\<exists>err s'. CreateNetworkBinding b s = Some (err, s') \<and>
      (if CHR ''/'' \<notin> set (Name b) \<and> binds s (Key b) = None \<and>
          (\<exists>n. nets s (rid_Key (network_of b)) = Some n \<and> \<not> nw_IsBound n) \<and> grps s (rid_Key (group_of b)) \<noteq> None
       then err = None \<and> binds s' = (binds s)(Key b \<mapsto> payload b)
       else err \<noteq> None \<and> ns_reg s' = ns_reg s)) \<and>
    (getNetworkBindingByID (Key b) s = Inr b' \<longrightarrow>
      (\<exists>s'. DeleteNetworkBinding (self_id b) s = Some (None, s') \<and> binds s' = (binds s)(Key b := None)))"
proof (intro conjI impI)
  show "\<exists>err s'. CreateNetworkBinding b s = Some (err, s') \<and>
      (if CHR ''/'' \<notin> set (Name b) \<and> binds s (Key b) = None \<and>
          (\<exists>n. nets s (rid_Key (network_of b)) = Some n \<and> \<not> nw_IsBound n) \<and> grps s (rid_Key (group_of b)) \<noteq> None
       then err = None \<and> binds s' = (binds s)(Key b \<mapsto> payload b)
       else err \<noteq> None \<and> ns_reg s' = ns_reg s)"
    using creation_effect [OF assms, unfolded creatable_def same_store_def] by blast
  assume "getNetworkBindingByID (Key b) s = Inr b'"
  then show "\<exists>s'. DeleteNetworkBinding (self_id b) s = Some (None, s') \<and> binds s' = (binds s)(Key b := None)"
    using deletion_effect [OF assms(1), of "self_id b"] by (auto simp: Key_self_id)
qed

lemma ex_stored_binding: "getNetworkBindingByID ''app/nb1'' ex_net_state = Inr (ex_net_binding ''nb1'' ''n1'')"
  using ex_net_tables(4)
  by (simp add: getNetworkBindingByID_def Reader_def binding_by_key_def mem_GetNetworkBindingByID_def get_by_id_def
      ex_net_tables rid_Key_def)

theorem binding_requests_exact_witness:
  "(\<exists>err s'. CreateNetworkBinding (ex_net_binding ''nb1'' ''n1'') ex_net_state = Some (err, s') \<and> err \<noteq> None) \<and>
   (\<exists>s'. DeleteNetworkBinding (self_id (ex_net_binding ''nb1'' ''n1'')) ex_net_state = Some (None, s') \<and>
      binds s' ''app/nb1'' = None)"
  using binding_requests_exact [OF ex_linked, of "ex_net_binding ''nb1'' ''n1''" "ex_net_binding ''nb1'' ''n1''"]
    ex_stored_binding
  by (auto simp: ex_net_objects ex_net_views)

section \<open>Networks\<close>

text \<open>
  The gRPC service cannot change a stored network: an upsert of a network whose key is stored
  fails and changes nothing, since upserts create.\<close>
theorem stored_network_not_updated:
  assumes "net_ok s" and "namespaced n" and "nets s (Key n) = Some old"
  shows "\<exists>e. NetguardFacade_Sync_Networks SyncOpUpsert (n # ns) s = (Some e, s)"
proof -
  have "Key n = Namespace n @ CHR ''/'' # Name n" using assms(2) by (simp add: Key_def namespaced_def)
  then obtain x where "getNetworkByID (Key n) s = Inr x"
    using network_stored_lookup [OF assms(1), of "Namespace n" "Name n"] assms(2,3) by (auto simp: namespaced_def)
  then show ?thesis by (simp add: CreateNetwork_def sync_op_defs split: option.split)
qed

theorem stored_network_not_updated_witness:
  "\<exists>e. NetguardFacade_Sync_Networks SyncOpUpsert [ex_network ''n3'' ''10.1.0.0/24''] ex_net_state = (Some e, ex_net_state)"
  using ex_linked
  by (intro stored_network_not_updated [where old = "payload (ex_network ''n3'' ''10.0.0.0/24'')"])
    (simp_all add: linked_def ex_net_objects ex_net_views)

text \<open>
  Deleting a network that is bound removes it although a binding refers to it. The binding
  stays, without network, and a request to delete it fails and changes nothing, however often
  it is repeated.\<close>
theorem network_deletion_strands_binding:
  assumes "linked s" and "binds s k = Some b"
  shows "\<exists>err s' e. DeleteNetwork (network_of b) s = (err, s') \<and> nets s' (rid_Key (network_of b)) = None \<and>
    binds s' k = Some b \<and> DeleteNetworkBinding (self_id b) s' = Some (Some e, s')"
proof -
  from delete_bound_network [OF assms] obtain err s' where s': "DeleteNetwork (network_of b) s = (err, s')"
    "nets s' = (nets s)(net_key b := None)" "binds s' = binds s" "net_ok s'" by blast
  from links_binding [OF conjunct2 [OF assms(1) [unfolded linked_def]] assms(2)] have b: "namespaced b" "Key b = k" by metis+
  have key: "rid_Key (self_id b) = Key b" by (simp add: Key_self_id)
  have "\<exists>e. DeleteNetworkBinding (self_id b) s' = Some (Some e, s')"
  proof (cases "getNetworkBindingByID (Key b) s'")
    case (Inl e)
    then have "\<not> is_not_found e"
      using binding_lookup [OF s'(4) b(1)] s'(3) assms(2) b(2) open_registry(2) [OF s'(4)]
      by (auto simp: getNetworkBindingByID_def)
    with Inl key show ?thesis by (simp add: DeleteNetworkBinding_def)
  next
    case (Inr x)
    then have "CHR ''/'' \<notin> set (Name b)"
      using open_registry(2) [OF s'(4)] b(1) key_splits [of b] split_single
      by (fastforce simp: getNetworkBindingByID_def binding_by_key_def namespaced_def split: list.splits)
    then have "payload x = b"
      using Inr open_registry(2) [OF s'(4)] reads(5) [OF s'(4), of "self_id b" x] b key_splits [of b] s'(3) assms(2)
      by (auto simp: getNetworkBindingByID_def binding_by_key_def namespaced_def split_on_no_sep self_id_def Key_self_id)
    then have "network_of x = network_of b" using payload_refs(1) [of x] by simp
    with change_network_missing [OF s'(4), of "network_of b" unbind_network] s'(2) Inr key show ?thesis
      by (simp add: DeleteNetworkBinding_def network_RemoveNetworkBinding_def step_or_fail_def)
  qed
  with s' assms(2) show ?thesis by auto
qed

theorem network_deletion_strands_binding_witness:
  "\<exists>err s' e. DeleteNetwork (ResourceIdentifier ''n1'' ''app'') ex_net_state = (err, s') \<and>
     DeleteNetworkBinding (ResourceIdentifier ''nb1'' ''app'') s' = Some (Some e, s')"
  using network_deletion_strands_binding [OF ex_linked, of "''app/nb1''" "payload (ex_net_binding ''nb1'' ''n1'')"]
  by (auto simp: ex_net_views network_of_def self_id_def ex_net_binding_def payload_def)

text \<open>
  An update that moves a binding to a network bound by another binding fails after it has
  released the old network: the binding is still stored with its old references, its network is
  no longer bound, and the links are broken.\<close>
theorem failed_move_breaks_links:
  assumes L: "linked s" and old: "getNetworkBindingByID (Key b) s = Inr old" and b: "namespaced b"
    and n: "nets s (rid_Key (network_of b)) = Some n" "nw_IsBound n" "map_option ref_Name (nw_BindingRef n) = Some other"
    and o: "other \<noteq> Name b" and g: "grps s (rid_Key (group_of b)) = Some g"
  shows "\<exists>e s'. binding_UpdateNetworkBinding b s = Some (Some e, s') \<and> binds s' = binds s \<and>
    (\<exists>m. nets s' (rid_Key (network_of old)) = Some m \<and> \<not> nw_IsBound m) \<and> \<not> linked s'"
proof -
  note ok = L [unfolded linked_def, THEN conjunct1] and lk = L [unfolded linked_def, THEN conjunct2]
  note st = stored_binding_lookup [OF L old]
  from release_effect [OF L st] obtain m h s1 s2 where r: "nets s (net_key old) = Some m" "bound_for (payload old) m"
    "network_RemoveNetworkBinding (network_of old) s = (None, s1)"
    "updateAddressGroupNetworks (group_of old) (network_of old) False s1 = (None, s2)"
    "nets s2 = (nets s)(net_key old \<mapsto> unbind_network m)" "binds s2 = binds s" "net_ok s2"
    unfolding payload_refs by metis
  note id = same_key_id [OF _ b, of old]
  have oid: "Namespace old = Namespace b" "Name old = Name b" using links_binding [OF lk st] id by auto
  have ne: "net_key old \<noteq> net_key b" using r(1,2) n o oid by (auto simp: bound_for_def)
  then have refs: "ref_Name (nb_NetworkRef old) \<noteq> ref_Name (nb_NetworkRef b)" using oid by (auto simp: network_of_def)
  have n2: "nets s2 (net_key b) = Some n" using n(1) ne r(5) by simp
  from network_stored_lookup [OF r(7), of "Namespace b" "ref_Name (nb_NetworkRef b)"] n2 b obtain x where
    "getNetworkByID (net_key b) s2 = Inr x" "n = payload x" by (auto simp: net_key_namespaced namespaced_def)
  then obtain e where V: "ValidateNetworkBinding (network_of b) (self_id b) s2 = Some (Some e)"
    using n(2,3) o by (auto simp: ValidateNetworkBinding_def binding_allowed_def self_id_def)
  have "binding_validateNetwork (network_of b) s = None" "binding_validateAddressGroup (group_of b) s = None"
    using get_network [OF ok n(1)] open_registry(2) [OF ok] reads(4) [OF ok, of "group_of b"] g
    by (auto simp: binding_validateNetwork_def binding_validateAddressGroup_def validateAddressGroupWithReader_def
        split: sum.split)
  then have "binding_UpdateNetworkBinding b s = Some (Some (Wrap ''new network validation failed'' e), s2)"
    using old r(3,4) refs V by (simp add: binding_UpdateNetworkBinding_def move_binding_def step_or_fail_def)
  moreover have "\<not> linked s2"
  proof
    assume "linked s2"
    then have "links (nets s2) (binds s2) (grps s2)" by (simp add: linked_def)
    then show False using st r(5,6) by (elim links_binding [of _ _ _ "Key b" "payload old"]) (auto simp: bound_for_def unbind_network_def)
  qed
  ultimately show ?thesis using r(5,6) by auto
qed

theorem failed_move_breaks_links_witness:
  "\<exists>e s'. binding_UpdateNetworkBinding (ex_net_binding ''nb1'' ''n2'') ex_net_state = Some (Some e, s') \<and> \<not> linked s'"
  using failed_move_breaks_links [OF ex_linked, of "ex_net_binding ''nb1'' ''n2''" "ex_net_binding ''nb1'' ''n1''"
      "payload (ex_bound_network ''n2'' ''nb2'')" "''nb2''" "payload ex_front"] ex_stored_binding
  by (auto simp: ex_net_objects ex_net_views) (auto simp: ex_bound_network_def bind_network_def)

end
