(* ===== verification/PortMappings.thy ===== *)
theory PortMappings
  imports RuleHandlers
begin

text \<open>
  The part of the address group service that keeps bindings, port mappings and binding policies
  (\<^verbatim>\<open>services/resources/address_group_resource_service.go\<close>, methods on these three kinds and
  the helpers they use), and the methods of the facade that reach it.

  The port mapping of an address group lists, for every service bound to the group, the ranges
  of its ports. It is generated from the stored bindings and services whenever a binding or the
  ports of a service change.

  The service is wired as \<^verbatim>\<open>NewNetguardFacade\<close> wires it: the rule service is its regenerator
  and the validation service is set, so the branches for missing ones are not taken. The
  registry is the in-memory one, which has no separate writers for conditions or deletions.
  Requests that notify the rule service may never return and give an option, like the handlers
  of that service.
\<close>

section \<open>Generating a port mapping\<close>

text \<open>A protocol gets an entry before its port is parsed, and keeps it when parsing fails.\<close>

fun generate_ports :: "ingress_port list \<Rightarrow> protocol_ports \<Rightarrow> protocol_ports" where
  "generate_ports [] m = m"
| "generate_ports (p # ps) m =
     (let m1 = append_ports (ip_Protocol p) [] m
      in case ParsePortRanges (ip_Port p) of
           Inl _ \<Rightarrow> generate_ports ps m1
         | Inr rs \<Rightarrow> generate_ports ps (fold (\<lambda>r. append_ports (ip_Protocol p) [r]) rs m1))"

definition targets_group :: "resource_identifier \<Rightarrow> nref \<Rightarrow> bool" where
  "targets_group i r \<longleftrightarrow> ref_Name r = rid_Name i \<and> ref_Namespace r = rid_Namespace i"

definition bindings_of_group ::
  "reader_ops \<Rightarrow> resource_identifier \<Rightarrow> error option \<times> address_group_binding list"
where
  "bindings_of_group rd i =
     consume_listing (\<lambda>b bs. (None, if targets_group i (agb_AddressGroupRef b) then bs @ [b] else bs))
       (ListAddressGroupBindings rd (Some EmptyScope)) []"

definition add_bound_services ::
  "reader_ops \<Rightarrow> address_group_binding list \<Rightarrow> service table \<Rightarrow> service table"
where
  "add_bound_services rd bs m =
     fold (\<lambda>b m. case GetServiceByID rd (ref_id (agb_ServiceRef b)) of
                   Inl _ \<Rightarrow> m
                 | Inr svc \<Rightarrow> AList.update (Key svc) svc m) bs m"

definition add_spec_services ::
  "reader_ops \<Rightarrow> resource_identifier \<Rightarrow> service table \<Rightarrow> error option \<times> service table"
where
  "add_spec_services rd i m =
     consume_listing
       (\<lambda>svc m. (None, if list_ex (targets_group i) (svc_AddressGroups svc)
                       then AList.update (Key svc) svc m else m))
       (ListServices rd (Some EmptyScope)) m"

definition empty_mapping :: "resource_identifier \<Rightarrow> address_group_port_mapping" where
  "empty_mapping i =
     \<lparr> Name = rid_Name i, Namespace = rid_Namespace i, Meta = empty_meta,
       agpm_AccessPorts = Some [], agpm_AccessPortsWithRefs = [] \<rparr>"

definition generated_entries :: "service table \<Rightarrow> (nref \<times> service_ports) list" where
  "generated_entries services =
     fold (\<lambda>(_, svc). AList.update (service_ref svc) \<lparr> sp_Ports = generate_ports (svc_IngressPorts svc) [] \<rparr>)
       services []"

definition generateCompleteAddressGroupPortMapping ::
  "reader_ops \<Rightarrow> resource_identifier \<Rightarrow> error + address_group_port_mapping"
where
  "generateCompleteAddressGroupPortMapping rd i =
     (case bindings_of_group rd i of
        (Some e, _) \<Rightarrow> Inl (Wrap (''failed to list bindings for AddressGroup '' @ rid_Key i) e)
      | (None, bs) \<Rightarrow>
     (case add_spec_services rd i (add_bound_services rd bs []) of
        (Some e, _) \<Rightarrow> Inl (Wrap (''failed to list services for AddressGroup '' @ rid_Key i) e)
      | (None, services) \<Rightarrow>
          (let m = (empty_mapping i)\<lparr>agpm_AccessPorts := Some (generated_entries services)\<rparr>
           in case CheckInternalPortOverlaps m of
                Some e \<Rightarrow> Inl (Wrap (''port conflict detected for AddressGroup '' @ rid_Key i) e)
              | None \<Rightarrow> Inr m)))"

definition generateAddressGroupPortMapping ::
  "reader_ops \<Rightarrow> address_group_binding \<Rightarrow> address_group_port_mapping option"
where
  "generateAddressGroupPortMapping rd b =
     (case generateCompleteAddressGroupPortMapping rd (ref_id (agb_AddressGroupRef b)) of
        Inl _ \<Rightarrow> None | Inr m \<Rightarrow> Some m)"

section \<open>Writing port mappings\<close>

definition syncAddressGroupPortMappings ::
  "writer \<Rightarrow> address_group_port_mapping list \<Rightarrow> sync_op \<Rightarrow> backend \<Rightarrow> writer \<times> backend"
where
  "syncAddressGroupPortMappings w ms syncOp s =
     (let (w', e) = SyncAddressGroupPortMappings (be_env s) (be_db s) ms (Some EmptyScope) [SyncOption syncOp] w
      in (w', set_env e s))"

definition process_mapping :: "address_group_port_mapping \<Rightarrow> backend \<Rightarrow> backend" where
  "process_mapping m s =
     (if eng_conditionManager (be_engine s)
      then snd (ProcessAddressGroupPortMappingConditions m s) else s)"

text \<open>Writing one generated mapping in a transaction of its own and processing its conditions.\<close>

definition store_mapping :: "address_group_port_mapping \<Rightarrow> writer \<Rightarrow> backend \<Rightarrow> backend" where
  "store_mapping m w s =
     (let (w', s1) = syncAddressGroupPortMappings w [m] SyncOpUpsert s in be_commit w' s1)"

definition SyncAddressGroupPortMappingsWithWriterAndReader ::
  "writer \<Rightarrow> reader_ops \<Rightarrow> address_group_binding \<Rightarrow> sync_op \<Rightarrow> backend \<Rightarrow> writer \<times> backend"
where
  "SyncAddressGroupPortMappingsWithWriterAndReader w rd b syncOp s =
     (case generateAddressGroupPortMapping rd b of
        None \<Rightarrow> (w, s)
      | Some m \<Rightarrow> syncAddressGroupPortMappings w [m] syncOp s)"

definition SyncAddressGroupPortMappingsWithWriter ::
  "writer \<Rightarrow> address_group_binding \<Rightarrow> sync_op \<Rightarrow> backend \<Rightarrow> (error + writer) \<times> backend"
where
  "SyncAddressGroupPortMappingsWithWriter w b syncOp s =
     (case ReaderFromWriter (be_reg s) w of
        Inl e \<Rightarrow> (Inl (Wrap ''failed to get reader from writer'' e), s)
      | Inr rd \<Rightarrow>
          (let (w', s1) = SyncAddressGroupPortMappingsWithWriterAndReader w (mem_reader rd) b syncOp s
           in (Inr w', s1)))"

text \<open>The generation returns a mapping or an error, so the empty mapping for nil is never used.\<close>

definition regenerateCompletePortMappingForAddressGroup ::
  "string \<Rightarrow> string \<Rightarrow> backend \<Rightarrow> error option \<times> backend"
where
  "regenerateCompletePortMappingForAddressGroup name ns s =
     (case Reader (be_reg s) of
        Inl e \<Rightarrow> (Some (Wrap ''failed to get reader'' e), s)
      | Inr rd \<Rightarrow>
          (let i = ResourceIdentifier name ns
           in case generateCompleteAddressGroupPortMapping (mem_reader rd) i of
                Inl e \<Rightarrow>
                  (Some (Wrap (''failed to generate complete port mapping for AddressGroup '' @ rid_Key i) e), s)
              | Inr m \<Rightarrow>
                  (case Writer (be_reg s) of
                     Inl e \<Rightarrow> (Some (Wrap ''failed to get writer'' e), s)
                   | Inr w \<Rightarrow> (None, process_mapping m (store_mapping m w s)))))"

definition SyncAddressGroupPortMappingsWithSyncOp ::
  "address_group_binding \<Rightarrow> sync_op \<Rightarrow> backend \<Rightarrow> error option \<times> backend"
where
  "SyncAddressGroupPortMappingsWithSyncOp b syncOp s =
     (if syncOp = SyncOpDelete
      then regenerateCompletePortMappingForAddressGroup (ref_Name (agb_AddressGroupRef b))
             (ref_Namespace (agb_AddressGroupRef b)) s
      else (case Writer (be_reg s) of
        Inl e \<Rightarrow> (Some (Wrap ''failed to get writer'' e), s)
      | Inr w \<Rightarrow>
     (case SyncAddressGroupPortMappingsWithWriter w b syncOp s of
        (Inl e, s1) \<Rightarrow> (Some (Wrap ''failed to sync address group port mappings'' e), s1)
      | (Inr w', s1) \<Rightarrow>
          (let s2 = be_commit w' s1
           in if \<not> eng_conditionManager (be_engine s2) then (None, s2)
              else (case Reader (be_reg s2) of
                Inl _ \<Rightarrow> (None, s2)
              | Inr rd \<Rightarrow>
                  (let i = ref_id (agb_AddressGroupRef b)
                   in case generateCompleteAddressGroupPortMapping (mem_reader rd) i of
                        Inl e \<Rightarrow> (Some (Wrap (''failed to generate port mapping for AddressGroup '' @ rid_Key i) e), s2)
                      | Inr m \<Rightarrow> (None, snd (ProcessAddressGroupPortMappingConditions m s2))))))))"

definition service_SyncAddressGroupPortMappings :: "address_group_binding \<Rightarrow> backend \<Rightarrow> error option \<times> backend" where
  "service_SyncAddressGroupPortMappings b = SyncAddressGroupPortMappingsWithSyncOp b SyncOpUpsert"

section \<open>Regeneration for services and groups\<close>

definition group_ids :: "nref list \<Rightarrow> resource_identifier table \<Rightarrow> resource_identifier table" where
  "group_ids refs m = fold (\<lambda>r. AList.update (ref_Namespace r @ ''/'' @ ref_Name r) (ref_id r)) refs m"

definition binds_service :: "resource_identifier \<Rightarrow> address_group_binding \<Rightarrow> bool" where
  "binds_service i b \<longleftrightarrow>
     ref_Name (agb_ServiceRef b) = rid_Name i \<and> ref_Namespace (agb_ServiceRef b) = rid_Namespace i"

text \<open>The groups are regenerated on the reader opened first; the first failure ends the loop.\<close>

fun regenerate_groups ::
  "reader_ops \<Rightarrow> (string \<times> resource_identifier) list \<Rightarrow> backend \<Rightarrow> error option \<times> backend"
where
  "regenerate_groups rd [] s = (None, s)"
| "regenerate_groups rd ((agKey, i) # groups) s =
     (case generateCompleteAddressGroupPortMapping rd i of
        Inl e \<Rightarrow> (Some (Wrap (''port conflict detected while regenerating mapping for AddressGroup '' @ agKey) e), s)
      | Inr m \<Rightarrow>
          (case Writer (be_reg s) of
             Inl e \<Rightarrow> (Some (Wrap ''failed to get writer'' e), s)
           | Inr w \<Rightarrow> regenerate_groups rd groups (process_mapping m (store_mapping m w s))))"

definition groups_of_service ::
  "reader_ops \<Rightarrow> resource_identifier \<Rightarrow> error + resource_identifier table"
where
  "groups_of_service rd i =
     (case consume_listing
             (\<lambda>b m. (None, if binds_service i b then group_ids [agb_AddressGroupRef b] m else m))
             (ListAddressGroupBindings rd (Some EmptyScope)) [] of
        (Some e, _) \<Rightarrow> Inl (Wrap ''failed to list address group bindings'' e)
      | (None, groups) \<Rightarrow>
          (case GetServiceByID rd i of
             Inl e \<Rightarrow> if is_not_found e then Inr groups
                      else Inl (Wrap ''failed to get service for spec.addressGroups'' e)
           | Inr svc \<Rightarrow> Inr (group_ids (svc_AddressGroups svc) groups)))"

definition RegeneratePortMappingsForService :: "resource_identifier \<Rightarrow> backend \<Rightarrow> error option \<times> backend" where
  "RegeneratePortMappingsForService i s =
     (case Reader (be_reg s) of
        Inl e \<Rightarrow> (Some (Wrap ''failed to get reader'' e), s)
      | Inr rd \<Rightarrow>
          (case groups_of_service (mem_reader rd) i of
             Inl e \<Rightarrow> (Some e, s)
           | Inr groups \<Rightarrow> regenerate_groups (mem_reader rd) groups s))"

definition RegeneratePortMappingsForAddressGroup :: "resource_identifier \<Rightarrow> backend \<Rightarrow> error option \<times> backend" where
  "RegeneratePortMappingsForAddressGroup i s =
     (case Reader (be_reg s) of
        Inl e \<Rightarrow> (Some (Wrap ''failed to get reader'' e), s)
      | Inr rd \<Rightarrow>
          (case generateCompleteAddressGroupPortMapping (mem_reader rd) i of
             Inl e \<Rightarrow>
               (Some (Wrap (''port conflict detected while regenerating mapping for AddressGroup '' @ rid_Key i) e), s)
           | Inr m \<Rightarrow>
               (case Writer (be_reg s) of
                  Inl e \<Rightarrow> (Some (Wrap ''failed to get writer'' e), s)
                | Inr w \<Rightarrow> (None, process_mapping m (store_mapping m w s)))))"

end
