(* ===== verification/BindingService.thy ===== *)
theory BindingService
  imports PortMappings
begin

text \<open>
  Requests on address group bindings, port mappings and binding policies
  (\<^verbatim>\<open>services/resources/address_group_resource_service.go\<close>) and the methods of the facade for
  these kinds (\<^verbatim>\<open>netguard_facade.go\<close>). \<^verbatim>\<open>PortMappings\<close> has the generation they call.
\<close>

section \<open>Reading\<close>

definition read_list ::
  "string \<Rightarrow> (reader_ops \<Rightarrow> scope option \<Rightarrow> 'a listing) \<Rightarrow> scope option \<Rightarrow> backend \<Rightarrow> error + 'a list"
where
  "read_list what list sc s =
     (case Reader (be_reg s) of
        Inl e \<Rightarrow> Inl (Wrap ''failed to get reader'' e)
      | Inr rd \<Rightarrow>
          (case collect_all (list (mem_reader rd) sc) of
             (Some e, _) \<Rightarrow> Inl (Wrap what e)
           | (None, xs) \<Rightarrow> Inr xs))"

definition read_one ::
  "(reader_ops \<Rightarrow> resource_identifier \<Rightarrow> error + 'a) \<Rightarrow> resource_identifier \<Rightarrow> backend \<Rightarrow> error + 'a"
where
  "read_one get i s =
     (case Reader (be_reg s) of
        Inl e \<Rightarrow> Inl (Wrap ''failed to get reader'' e)
      | Inr rd \<Rightarrow> get (mem_reader rd) i)"

fun get_many ::
  "string \<Rightarrow> (resource_identifier \<Rightarrow> error + 'a) \<Rightarrow> resource_identifier list \<Rightarrow> error + 'a list"
where
  "get_many what get [] = Inr []"
| "get_many what get (i # is) =
     (case get i of
        Inl e \<Rightarrow> if is_not_found e then get_many what get is else Inl (Wrap (what @ rid_Key i) e)
      | Inr x \<Rightarrow> (case get_many what get is of Inl e \<Rightarrow> Inl e | Inr xs \<Rightarrow> Inr (x # xs)))"

definition read_many ::
  "string \<Rightarrow> (reader_ops \<Rightarrow> resource_identifier \<Rightarrow> error + 'a) \<Rightarrow> resource_identifier list \<Rightarrow> backend \<Rightarrow>
   error + 'a list"
where
  "read_many what get ids s =
     (case Reader (be_reg s) of
        Inl e \<Rightarrow> Inl (Wrap ''failed to get reader'' e)
      | Inr rd \<Rightarrow> get_many what (get (mem_reader rd)) ids)"

definition AGService_GetAddressGroupBindings :: "scope option \<Rightarrow> backend \<Rightarrow> error + address_group_binding list" where
  "AGService_GetAddressGroupBindings = read_list ''failed to list address group bindings'' ListAddressGroupBindings"

definition AGService_GetAddressGroupBindingByID ::
  "resource_identifier \<Rightarrow> backend \<Rightarrow> error + address_group_binding"
where
  "AGService_GetAddressGroupBindingByID = read_one GetAddressGroupBindingByID"

definition AGService_GetAddressGroupBindingsByIDs ::
  "resource_identifier list \<Rightarrow> backend \<Rightarrow> error + address_group_binding list"
where
  "AGService_GetAddressGroupBindingsByIDs =
     read_many ''failed to get address group binding '' GetAddressGroupBindingByID"

definition AGService_GetAddressGroupPortMappings ::
  "scope option \<Rightarrow> backend \<Rightarrow> error + address_group_port_mapping list"
where
  "AGService_GetAddressGroupPortMappings =
     read_list ''failed to list address group port mappings'' ListAddressGroupPortMappings"

definition AGService_GetAddressGroupPortMappingByID ::
  "resource_identifier \<Rightarrow> backend \<Rightarrow> error + address_group_port_mapping"
where
  "AGService_GetAddressGroupPortMappingByID = read_one GetAddressGroupPortMappingByID"

definition AGService_GetAddressGroupPortMappingsByIDs ::
  "resource_identifier list \<Rightarrow> backend \<Rightarrow> error + address_group_port_mapping list"
where
  "AGService_GetAddressGroupPortMappingsByIDs =
     read_many ''failed to get address group port mapping '' GetAddressGroupPortMappingByID"

definition AGService_GetAddressGroupBindingPolicies ::
  "scope option \<Rightarrow> backend \<Rightarrow> error + address_group_binding_policy list"
where
  "AGService_GetAddressGroupBindingPolicies =
     read_list ''failed to list address group binding policies'' ListAddressGroupBindingPolicies"

definition AGService_GetAddressGroupBindingPolicyByID ::
  "resource_identifier \<Rightarrow> backend \<Rightarrow> error + address_group_binding_policy"
where
  "AGService_GetAddressGroupBindingPolicyByID = read_one GetAddressGroupBindingPolicyByID"

definition AGService_GetAddressGroupBindingPoliciesByIDs ::
  "resource_identifier list \<Rightarrow> backend \<Rightarrow> error + address_group_binding_policy list"
where
  "AGService_GetAddressGroupBindingPoliciesByIDs =
     read_many ''failed to get address group binding policy '' GetAddressGroupBindingPolicyByID"

text \<open>The services bound to some of the groups; the service of services has the same function.\<close>

definition bound_service_ids ::
  "address_group_binding list \<Rightarrow> resource_identifier table \<Rightarrow> resource_identifier table"
where
  "bound_service_ids bs m =
     fold (\<lambda>b. AList.update (ref_Namespace (agb_ServiceRef b) @ ''/'' @ ref_Name (agb_ServiceRef b))
                 (ref_id (agb_ServiceRef b))) bs m"

fun service_ids_of_groups ::
  "reader_ops \<Rightarrow> resource_identifier list \<Rightarrow> resource_identifier table \<Rightarrow> error + resource_identifier table"
where
  "service_ids_of_groups rd [] m = Inr m"
| "service_ids_of_groups rd (i # is) m =
     (case bindings_of_group rd i of
        (Some e, _) \<Rightarrow> Inl (Wrap (''failed to find bindings for address group '' @ rid_Key i) e)
      | (None, bs) \<Rightarrow> service_ids_of_groups rd is (bound_service_ids bs m))"

definition FindServicesForAddressGroups :: "resource_identifier list \<Rightarrow> backend \<Rightarrow> error + service list" where
  "FindServicesForAddressGroups ids s =
     (case Reader (be_reg s) of
        Inl e \<Rightarrow> Inl (Wrap ''failed to get reader'' e)
      | Inr rd \<Rightarrow>
          (case service_ids_of_groups (mem_reader rd) ids [] of
             Inl e \<Rightarrow> Inl e
           | Inr m \<Rightarrow> get_many ''failed to get service '' (GetServiceByID (mem_reader rd)) (map snd m)))"

section \<open>Checks of a batch of bindings\<close>

fun service_port_ranges :: "ingress_port list \<Rightarrow> protocol_ports \<Rightarrow> protocol_ports" where
  "service_port_ranges [] m = m"
| "service_port_ranges (p # ps) m =
     (let m1 = append_ports (ip_Protocol p) [] m
      in case ParsePortRanges (ip_Port p) of
           Inl _ \<Rightarrow> service_port_ranges ps m1
         | Inr rs \<Rightarrow> service_port_ranges ps (append_ports (ip_Protocol p) rs m1))"

definition service_overlap_error ::
  "transport_protocol \<Rightarrow> service \<Rightarrow> service \<Rightarrow> port_range \<Rightarrow> port_range \<Rightarrow> error"
where
  "service_overlap_error proto s1 s2 a b =
     Errorf (proto @ '' port range '' @ range_text a @ '' for service '' @ Key s1 @
       '' overlaps with existing port range '' @ range_text b @ '' for service '' @ Key s2)"

definition checkPortConflictsBetweenServices :: "service \<Rightarrow> service \<Rightarrow> error option" where
  "checkPortConflictsBetweenServices s1 s2 =
     (let ports2 = service_port_ranges (svc_IngressPorts s2) []
      in first_error
           (\<lambda>(proto, ranges1).
              case map_of ports2 proto of
                None \<Rightarrow> None
              | Some ranges2 \<Rightarrow> find_overlap (service_overlap_error proto s1 s2) ranges1 ranges2)
           (service_port_ranges (svc_IngressPorts s1) []))"

definition other_bindings_of_group ::
  "reader_ops \<Rightarrow> address_group_binding \<Rightarrow> error option \<times> address_group_binding list"
where
  "other_bindings_of_group rd b =
     consume_listing
       (\<lambda>x bs. (None, if targets_group (ref_id (agb_AddressGroupRef b)) (agb_AddressGroupRef x) \<and>
                         \<not> (Name x = Name b \<and> Namespace x = Namespace b)
                      then bs @ [x] else bs))
       (ListAddressGroupBindings rd (Some EmptyScope)) []"

definition check_batch_binding :: "reader_ops \<Rightarrow> address_group_binding \<Rightarrow> error option" where
  "check_batch_binding rd b =
     (let serviceID = ref_id (agb_ServiceRef b)
      in case GetServiceByID rd serviceID of
           Inl e \<Rightarrow> Some (Wrap (''cannot validate binding '' @ Key b @ '': service '' @ rid_Key serviceID @
                      '' not found'') e)
         | Inr service \<Rightarrow>
             (case other_bindings_of_group rd b of
                (Some e, _) \<Rightarrow> Some (Wrap (''failed to list existing bindings for AddressGroup '' @
                                 rid_Key (ref_id (agb_AddressGroupRef b))) e)
              | (None, existing) \<Rightarrow>
                  first_error
                    (\<lambda>x. case GetServiceByID rd (ref_id (agb_ServiceRef x)) of
                           Inl _ \<Rightarrow> None
                         | Inr existingService \<Rightarrow>
                             wrap_err (''cannot create binding '' @ Key b @
                                 '': port conflict with existing binding '' @ Key x)
                               (checkPortConflictsBetweenServices service existingService))
                    existing))"

text \<open>A single binding is not checked here.\<close>

definition syncAddressGroupBindings ::
  "writer \<Rightarrow> address_group_binding list \<Rightarrow> sync_op \<Rightarrow> backend \<Rightarrow> (error + writer) \<times> backend"
where
  "syncAddressGroupBindings w bs syncOp s =
     (case (if (syncOp = SyncOpUpsert \<or> syncOp = SyncOpFullSync) \<and> length bs \<noteq> 1
            then (case ReaderFromWriter (be_reg s) w of
                    Inl e \<Rightarrow> Some (Wrap ''failed to get reader for port conflict validation'' e)
                  | Inr rd \<Rightarrow> first_error (check_batch_binding (mem_reader rd)) bs)
            else None) of
        Some e \<Rightarrow> (Inl e, s)
      | None \<Rightarrow>
          (let (w', e) = SyncAddressGroupBindings (be_env s) (be_db s) bs (Some EmptyScope) [SyncOption syncOp] w
           in (Inr w', set_env e s)))"

section \<open>Requests on bindings\<close>

text \<open>
  Reads a service and writes it back. The write names no operation, for which the in-memory
  writer takes a full synchronisation.
\<close>

definition synchronizeServiceAddressGroups :: "resource_identifier \<Rightarrow> backend \<Rightarrow> error option \<times> backend" where
  "synchronizeServiceAddressGroups i s =
     (case Reader (be_reg s) of
        Inl e \<Rightarrow> (Some (Wrap ''failed to get reader for service sync'' e), s)
      | Inr rd \<Rightarrow>
     (case GetServiceByID (mem_reader rd) i of
        Inl e \<Rightarrow> if is_not_found e then (None, s)
                 else (Some (Wrap (''failed to get service '' @ rid_Key i @ '' for AddressGroups sync'') e), s)
      | Inr svc \<Rightarrow>
     (case Writer (be_reg s) of
        Inl e \<Rightarrow> (Some (Wrap ''failed to get writer for service sync'' e), s)
      | Inr w \<Rightarrow>
          (let (w', e) = SyncServices (be_env s) (be_db s) [svc] (Some EmptyScope) [] w
           in (None, be_commit w' (set_env e s))))))"

definition process_group_binding :: "address_group_binding \<Rightarrow> backend \<Rightarrow> backend" where
  "process_group_binding b s =
     (if eng_conditionManager (be_engine s)
      then snd (ProcessAddressGroupBindingConditions b s) else s)"

definition notify_binding :: "address_group_binding \<Rightarrow> backend \<Rightarrow> (error option \<times> backend) option" where
  "notify_binding b s =
     do {
       (_, s1) \<leftarrow> NotifyServiceAddressGroupsChanged (ref_id (agb_ServiceRef b)) s;
       (_, s2) \<leftarrow> RegenerateIEAgAgRulesForAddressGroupBinding (self_id b) s1;
       Some (None, s2) }"

definition CreateAddressGroupBinding ::
  "address_group_binding \<Rightarrow> backend \<Rightarrow> (error option \<times> backend) option"
where
  "CreateAddressGroupBinding b s =
     (case Writer (be_reg s) of
        Inl e \<Rightarrow> Some (Some (Wrap ''failed to get writer'' e), s)
      | Inr w \<Rightarrow>
     (case ReaderFromWriter (be_reg s) w of
        Inl e \<Rightarrow> Some (Some (Wrap ''failed to get reader from writer'' e), s)
      | Inr rd \<Rightarrow>
     (case AddressGroupBindingValidator_ValidateForCreation (mem_reader rd) b of
        Some e \<Rightarrow> Some (Some e, s)
      | None \<Rightarrow>
     (case syncAddressGroupBindings w [b] SyncOpUpsert s of
        (Inl e, s1) \<Rightarrow> Some (Some (Wrap ''failed to create address group binding'' e), s1)
      | (Inr w', s1) \<Rightarrow>
          (let s2 = snd (service_SyncAddressGroupPortMappings b (be_commit w' s1));
               s3 = snd (synchronizeServiceAddressGroups (ref_id (agb_ServiceRef b)) (process_group_binding b s2))
           in notify_binding b s3)))))"

text \<open>An update does not generate the port mapping again.\<close>

definition UpdateAddressGroupBinding ::
  "address_group_binding \<Rightarrow> backend \<Rightarrow> (error option \<times> backend) option"
where
  "UpdateAddressGroupBinding b s =
     (case Reader (be_reg s) of
        Inl e \<Rightarrow> Some (Some (Wrap ''failed to get reader'' e), s)
      | Inr rd \<Rightarrow>
     (case GetAddressGroupBindingByID (mem_reader rd) (self_id b) of
        Inl e \<Rightarrow> Some (Some (Wrap ''failed to get existing address group binding'' e), s)
      | Inr existing \<Rightarrow>
     (case AddressGroupBindingValidator_ValidateForUpdate (mem_reader rd) existing b of
        Some e \<Rightarrow> Some (Some e, s)
      | None \<Rightarrow>
     (case Writer (be_reg s) of
        Inl e \<Rightarrow> Some (Some (Wrap ''failed to get writer'' e), s)
      | Inr w \<Rightarrow>
     (case syncAddressGroupBindings w [b] SyncOpUpsert s of
        (Inl e, s1) \<Rightarrow> Some (Some (Wrap ''failed to update address group binding'' e), s1)
      | (Inr w', s1) \<Rightarrow> notify_binding b (process_group_binding b (be_commit w' s1)))))))"

fun notify_all :: "resource_identifier table \<Rightarrow> backend \<Rightarrow> backend option" where
  "notify_all [] s = Some s"
| "notify_all ((_, i) # is) s =
     do { (_, s1) \<leftarrow> NotifyServiceAddressGroupsChanged i s; notify_all is s1 }"

definition synchronize_all :: "resource_identifier table \<Rightarrow> backend \<Rightarrow> backend" where
  "synchronize_all is s = fold (\<lambda>(_, i) s. snd (synchronizeServiceAddressGroups i s)) is s"

definition AGService_SyncAddressGroupBindings ::
  "address_group_binding list \<Rightarrow> sync_op \<Rightarrow> backend \<Rightarrow> (error option \<times> backend) option"
where
  "AGService_SyncAddressGroupBindings bs syncOp s =
     (case Writer (be_reg s) of
        Inl e \<Rightarrow> Some (Some (Wrap ''failed to get writer'' e), s)
      | Inr w \<Rightarrow>
     (case syncAddressGroupBindings w bs syncOp s of
        (Inl e, s1) \<Rightarrow> Some (Some (Wrap ''failed to sync address group bindings'' e), s1)
      | (Inr w', s1) \<Rightarrow>
          (let s2 = fold (\<lambda>b s. snd (SyncAddressGroupPortMappingsWithSyncOp b syncOp s)) bs (be_commit w' s1);
               s3 = (if syncOp \<noteq> SyncOpDelete then fold process_group_binding bs s2 else s2);
               serviceIDs = bound_service_ids bs []
           in do { s4 \<leftarrow> notify_all serviceIDs (synchronize_all serviceIDs s3); Some (None, s4) })))"

fun bindings_to_remove ::
  "reader_ops \<Rightarrow> resource_identifier list \<Rightarrow> error + address_group_binding list"
where
  "bindings_to_remove rd [] = Inr []"
| "bindings_to_remove rd (i # is) =
     (case GetAddressGroupBindingByID rd i of
        Inl e \<Rightarrow> if is_not_found e then bindings_to_remove rd is
                 else Inl (Wrap (''failed to get binding '' @ rid_Key i @ '' for port mapping regeneration'') e)
      | Inr b \<Rightarrow> (case bindings_to_remove rd is of Inl e \<Rightarrow> Inl e | Inr bs \<Rightarrow> Inr (b # bs)))"

text \<open>Each group on a fresh reader; a failure skips the group, and conditions are not processed.\<close>

definition regenerate_after_delete :: "resource_identifier \<Rightarrow> backend \<Rightarrow> backend" where
  "regenerate_after_delete i s =
     (case Reader (be_reg s) of
        Inl _ \<Rightarrow> s
      | Inr rd \<Rightarrow>
          (case generateCompleteAddressGroupPortMapping (mem_reader rd) i of
             Inl _ \<Rightarrow> s
           | Inr m \<Rightarrow> (case Writer (be_reg s) of Inl _ \<Rightarrow> s | Inr w \<Rightarrow> store_mapping m w s)))"

definition AGService_DeleteAddressGroupBindingsByIDs ::
  "resource_identifier list \<Rightarrow> backend \<Rightarrow> (error option \<times> backend) option"
where
  "AGService_DeleteAddressGroupBindingsByIDs ids s =
     (case Reader (be_reg s) of
        Inl e \<Rightarrow> Some (Some (Wrap ''failed to get reader'' e), s)
      | Inr rd \<Rightarrow>
     (case bindings_to_remove (mem_reader rd) ids of
        Inl e \<Rightarrow> Some (Some e, s)
      | Inr bs \<Rightarrow>
     (case Writer (be_reg s) of
        Inl e \<Rightarrow> Some (Some (Wrap ''failed to get writer'' e), s)
      | Inr w \<Rightarrow>
          (let s1 = be_commit (DeleteAddressGroupBindingsByIDs (be_db s) ids w) s;
               serviceIDs = bound_service_ids bs [];
               groups = group_ids (map agb_AddressGroupRef bs) []
           in do {
             s2 \<leftarrow> notify_all serviceIDs (synchronize_all serviceIDs s1);
             Some (None, fold (\<lambda>(_, i). regenerate_after_delete i) groups s2) }))))"

section \<open>Requests on port mappings\<close>

definition CreateAddressGroupPortMapping :: "address_group_port_mapping \<Rightarrow> backend \<Rightarrow> error option \<times> backend" where
  "CreateAddressGroupPortMapping m s =
     (case Reader (be_reg s) of
        Inl e \<Rightarrow> (Some (Wrap ''failed to get reader'' e), s)
      | Inr rd \<Rightarrow>
     (case PortMappingValidator_ValidateForCreation (mem_reader rd) m of
        Some e \<Rightarrow> (Some e, s)
      | None \<Rightarrow>
     (case Writer (be_reg s) of
        Inl e \<Rightarrow> (Some (Wrap ''failed to get writer'' e), s)
      | Inr w \<Rightarrow> (None, process_mapping m (store_mapping m w s)))))"

definition UpdateAddressGroupPortMapping :: "address_group_port_mapping \<Rightarrow> backend \<Rightarrow> error option \<times> backend" where
  "UpdateAddressGroupPortMapping m s =
     (case Reader (be_reg s) of
        Inl e \<Rightarrow> (Some (Wrap ''failed to get reader'' e), s)
      | Inr rd \<Rightarrow>
     (case GetAddressGroupPortMappingByID (mem_reader rd) (self_id m) of
        Inl e \<Rightarrow> (Some (Wrap ''failed to get existing address group port mapping'' e), s)
      | Inr existing \<Rightarrow>
     (case PortMappingValidator_ValidateForUpdate (mem_reader rd) existing m of
        Some e \<Rightarrow> (Some e, s)
      | None \<Rightarrow>
     (case Writer (be_reg s) of
        Inl e \<Rightarrow> (Some (Wrap ''failed to get writer'' e), s)
      | Inr w \<Rightarrow> (None, process_mapping m (store_mapping m w s))))))"

text \<open>
  The operation asked for is not passed on: every synchronisation is an upsert. A mapping whose
  conditions were processed is saved once more.
\<close>

definition process_and_save_mapping :: "address_group_port_mapping \<Rightarrow> backend \<Rightarrow> backend" where
  "process_and_save_mapping m s =
     (case ProcessAddressGroupPortMappingConditions m s of
        ((Some _, _), s1) \<Rightarrow> s1
      | ((None, m'), s1) \<Rightarrow> snd (saveAddressGroupPortMappingConditions m' s1))"

definition SyncMultipleAddressGroupPortMappings ::
  "address_group_port_mapping list \<Rightarrow> sync_op \<Rightarrow> backend \<Rightarrow> error option \<times> backend"
where
  "SyncMultipleAddressGroupPortMappings ms syncOp s =
     (case Writer (be_reg s) of
        Inl e \<Rightarrow> (Some (Wrap ''failed to get writer'' e), s)
      | Inr w \<Rightarrow>
          (let (w', s1) = syncAddressGroupPortMappings w ms SyncOpUpsert s;
               s2 = be_commit w' s1
           in (None, if eng_conditionManager (be_engine s2) then fold process_and_save_mapping ms s2 else s2)))"

definition AGService_DeleteAddressGroupPortMappingsByIDs ::
  "resource_identifier list \<Rightarrow> backend \<Rightarrow> error option \<times> backend"
where
  "AGService_DeleteAddressGroupPortMappingsByIDs ids s =
     (case Writer (be_reg s) of
        Inl e \<Rightarrow> (Some (Wrap ''failed to get writer'' e), s)
      | Inr w \<Rightarrow> (None, be_commit (DeleteAddressGroupPortMappingsByIDs (be_db s) ids w) s))"

section \<open>Requests on policies\<close>

definition syncAddressGroupBindingPolicies ::
  "writer \<Rightarrow> address_group_binding_policy list \<Rightarrow> sync_op \<Rightarrow> backend \<Rightarrow> writer \<times> backend"
where
  "syncAddressGroupBindingPolicies w ps syncOp s =
     (let (w', e) = SyncAddressGroupBindingPolicies (be_env s) (be_db s) ps (Some EmptyScope) [SyncOption syncOp] w
      in (w', set_env e s))"

definition process_policy :: "address_group_binding_policy \<Rightarrow> backend \<Rightarrow> backend" where
  "process_policy p s =
     (if eng_conditionManager (be_engine s)
      then snd (ProcessAddressGroupBindingPolicyConditions p s) else s)"

definition store_policies :: "address_group_binding_policy list \<Rightarrow> writer \<Rightarrow> backend \<Rightarrow> backend" where
  "store_policies ps w s =
     (let (w', s1) = syncAddressGroupBindingPolicies w ps SyncOpUpsert s
      in fold process_policy ps (be_commit w' s1))"

definition CreateAddressGroupBindingPolicy :: "address_group_binding_policy \<Rightarrow> backend \<Rightarrow> error option \<times> backend" where
  "CreateAddressGroupBindingPolicy p s =
     (case Writer (be_reg s) of
        Inl e \<Rightarrow> (Some (Wrap ''failed to get writer'' e), s)
      | Inr w \<Rightarrow>
     (case ReaderFromWriter (be_reg s) w of
        Inl e \<Rightarrow> (Some (Wrap ''failed to get reader from writer'' e), s)
      | Inr rd \<Rightarrow>
     (case PolicyValidator_ValidateForCreation (mem_reader rd) p of
        Some e \<Rightarrow> (Some e, s)
      | None \<Rightarrow> (None, store_policies [p] w s))))"

definition UpdateAddressGroupBindingPolicy :: "address_group_binding_policy \<Rightarrow> backend \<Rightarrow> error option \<times> backend" where
  "UpdateAddressGroupBindingPolicy p s =
     (case Reader (be_reg s) of
        Inl e \<Rightarrow> (Some (Wrap ''failed to get reader'' e), s)
      | Inr rd \<Rightarrow>
     (case GetAddressGroupBindingPolicyByID (mem_reader rd) (self_id p) of
        Inl e \<Rightarrow> (Some (Wrap ''failed to get existing address group binding policy'' e), s)
      | Inr existing \<Rightarrow>
     (case PolicyValidator_ValidateForUpdate (mem_reader rd) existing p of
        Some e \<Rightarrow> (Some e, s)
      | None \<Rightarrow>
     (case Writer (be_reg s) of
        Inl e \<Rightarrow> (Some (Wrap ''failed to get writer'' e), s)
      | Inr w \<Rightarrow> (None, store_policies [p] w s)))))"

text \<open>As for mappings, the operation asked for is not passed on.\<close>

definition AGService_SyncAddressGroupBindingPolicies ::
  "address_group_binding_policy list \<Rightarrow> sync_op \<Rightarrow> backend \<Rightarrow> error option \<times> backend"
where
  "AGService_SyncAddressGroupBindingPolicies ps syncOp s =
     (case Writer (be_reg s) of
        Inl e \<Rightarrow> (Some (Wrap ''failed to get writer'' e), s)
      | Inr w \<Rightarrow> (None, store_policies ps w s))"

definition AGService_DeleteAddressGroupBindingPoliciesByIDs ::
  "resource_identifier list \<Rightarrow> backend \<Rightarrow> error option \<times> backend"
where
  "AGService_DeleteAddressGroupBindingPoliciesByIDs ids s =
     (case Writer (be_reg s) of
        Inl e \<Rightarrow> (Some (Wrap ''failed to get writer'' e), s)
      | Inr w \<Rightarrow> (None, be_commit (DeleteAddressGroupBindingPoliciesByIDs (be_db s) ids w) s))"

section \<open>The facade\<close>

definition processAddressGroupPortMappingConditionsAfterBinding :: "address_group_binding \<Rightarrow> backend \<Rightarrow> backend" where
  "processAddressGroupPortMappingConditionsAfterBinding b s =
     (case AGService_GetAddressGroupPortMappingByID (ref_id (agb_AddressGroupRef b)) s of
        Inl _ \<Rightarrow> s
      | Inr m \<Rightarrow> process_mapping m s)"

definition then_process_mappings ::
  "address_group_binding list \<Rightarrow> (error option \<times> backend) option \<Rightarrow> (error option \<times> backend) option"
where
  "then_process_mappings bs r =
     do { (err, s) \<leftarrow> r;
          Some (case err of
                  Some e \<Rightarrow> (Some e, s)
                | None \<Rightarrow> (None, fold processAddressGroupPortMappingConditionsAfterBinding bs s)) }"

definition NetguardFacade_CreateAddressGroupBinding ::
  "address_group_binding \<Rightarrow> backend \<Rightarrow> (error option \<times> backend) option"
where
  "NetguardFacade_CreateAddressGroupBinding b s = then_process_mappings [b] (CreateAddressGroupBinding b s)"

definition NetguardFacade_UpdateAddressGroupBinding ::
  "address_group_binding \<Rightarrow> backend \<Rightarrow> (error option \<times> backend) option"
where
  "NetguardFacade_UpdateAddressGroupBinding b s = then_process_mappings [b] (UpdateAddressGroupBinding b s)"

definition NetguardFacade_SyncAddressGroupBindings ::
  "address_group_binding list \<Rightarrow> backend \<Rightarrow> (error option \<times> backend) option"
where
  "NetguardFacade_SyncAddressGroupBindings bs s =
     then_process_mappings bs (AGService_SyncAddressGroupBindings bs SyncOpUpsert s)"

definition NetguardFacade_DeleteAddressGroupBindingsByIDs ::
  "resource_identifier list \<Rightarrow> backend \<Rightarrow> (error option \<times> backend) option"
where
  "NetguardFacade_DeleteAddressGroupBindingsByIDs ids = with_mutex (AGService_DeleteAddressGroupBindingsByIDs ids)"

text \<open>The synchronisation of the gRPC service calls the services directly.\<close>

definition NetguardFacade_Sync_AddressGroupBindings ::
  "sync_op \<Rightarrow> address_group_binding list \<Rightarrow> backend \<Rightarrow> (error option \<times> backend) option"
where
  "NetguardFacade_Sync_AddressGroupBindings syncOp bs = AGService_SyncAddressGroupBindings bs syncOp"

definition NetguardFacade_Sync_AddressGroupPortMappings ::
  "sync_op \<Rightarrow> address_group_port_mapping list \<Rightarrow> backend \<Rightarrow> error option \<times> backend"
where
  "NetguardFacade_Sync_AddressGroupPortMappings syncOp ms = SyncMultipleAddressGroupPortMappings ms syncOp"

definition NetguardFacade_Sync_AddressGroupBindingPolicies ::
  "sync_op \<Rightarrow> address_group_binding_policy list \<Rightarrow> backend \<Rightarrow> error option \<times> backend"
where
  "NetguardFacade_Sync_AddressGroupBindingPolicies syncOp ps = AGService_SyncAddressGroupBindingPolicies ps syncOp"

end
