(* ===== verification/HostServices.thy ===== *)
theory HostServices
  imports NetworkServices
begin

text \<open>
  The services of hosts and host bindings (\<^verbatim>\<open>services/resources/host_resource_service.go\<close>,
  \<^verbatim>\<open>host_binding_resource_service.go\<close>) and the methods of the facade that reach them
  (\<^verbatim>\<open>netguard_facade.go\<close>), on the in-memory registry.

  A host belongs to an address group either because a host binding says so, and then it names
  the binding and the group, or because the group lists it, and then it names the group only.

  The condition managers of both services are adapters that \<^verbatim>\<open>NewNetguardFacade\<close> always sets:
  the one of hosts sets the Ready condition, the one of bindings does nothing. \<open>None\<close> is a panic:
  the deletion of a binding calls the manager of the external system without looking whether
  there is one.
\<close>

section \<open>State\<close>

text \<open>
  What has been sent to the external system, in order. Only its answers to hosts that are not
  forced are looked at; they may depend on all calls before.
\<close>

datatype external_call =
    SentHost sync_operation host
  | ForcedHost sync_operation host
  | SentGroup sync_operation address_group
  | ForcedGroup sync_operation address_group
  | SentGroups sync_operation "address_group list"

record host_state =
  hs_net :: net_state
  hs_hostTracker :: sync_tracker
  hs_hostSync :: "external_call list \<Rightarrow> sync_operation \<Rightarrow> host \<Rightarrow> error option"
  hs_calls :: "external_call list"

abbreviation hs_backend :: "host_state \<Rightarrow> backend" where "hs_backend s \<equiv> ns_backend (hs_net s)"
abbreviation hs_reg :: "host_state \<Rightarrow> registry" where "hs_reg s \<equiv> ns_reg (hs_net s)"
abbreviation hs_db :: "host_state \<Rightarrow> mem_db" where "hs_db s \<equiv> ns_db (hs_net s)"
abbreviation hs_env :: "host_state \<Rightarrow> env" where "hs_env s \<equiv> ns_env (hs_net s)"
abbreviation hs_synced :: "host_state \<Rightarrow> bool" where "hs_synced s \<equiv> ns_synced (hs_net s)"

definition hs_set_env :: "env \<Rightarrow> host_state \<Rightarrow> host_state" where
  "hs_set_env e s = s\<lparr>hs_net := ns_set_env e (hs_net s)\<rparr>"

definition hs_commit :: "writer \<Rightarrow> host_state \<Rightarrow> host_state" where
  "hs_commit w s = s\<lparr>hs_net := ns_commit w (hs_net s)\<rparr>"

definition hs_touch :: "'a resource_scheme \<Rightarrow> host_state \<Rightarrow> 'a resource_scheme \<times> host_state" where
  "hs_touch x s = (let (x', n) = touch_now x (hs_net s) in (x', s\<lparr>hs_net := n\<rparr>))"

definition hs_mark :: "error option \<Rightarrow> host \<Rightarrow> host_state \<Rightarrow> host \<times> host_state" where
  "hs_mark syncResult h s =
     (let (h', n) = (case syncResult of None \<Rightarrow> mark_synced h (hs_net s) | Some e \<Rightarrow> mark_failed e h (hs_net s))
      in (h', s\<lparr>hs_net := n\<rparr>))"

definition write_host :: "host \<Rightarrow> writer \<Rightarrow> host_state \<Rightarrow> host_state" where
  "write_host h w s = s\<lparr>hs_net := write_one SyncHosts h w (hs_net s)\<rparr>"

definition external :: "external_call \<Rightarrow> host_state \<Rightarrow> host_state" where
  "external c s = (if hs_synced s then s\<lparr>hs_calls := hs_calls s @ [c]\<rparr> else s)"

definition SyncEntity_host :: "sync_operation \<Rightarrow> host \<Rightarrow> host_state \<Rightarrow> error option \<times> host_state" where
  "SyncEntity_host op h s =
     (if hs_synced s then (hs_hostSync s (hs_calls s) op h, external (SentHost op h) s) else (None, s))"

section \<open>Hosts\<close>

definition validate_identifier :: "string \<Rightarrow> string \<Rightarrow> error option" where
  "validate_identifier name ns =
     (if name = [] then Some (Errorf ''resource name cannot be empty'')
      else if ns = [] then Some (Errorf ''resource namespace cannot be empty'')
      else None)"

definition validateHost :: "host \<Rightarrow> error option" where
  "validateHost h = wrap_err ''invalid resource identifier'' (validate_identifier (Name h) (Namespace h))"

definition parse_key :: "string \<Rightarrow> resource_identifier" where
  "parse_key i = (case split_on CHR ''/'' i of [ns, name] \<Rightarrow> ResourceIdentifier name ns | _ \<Rightarrow> ResourceIdentifier i [])"

definition getHostByID :: "string \<Rightarrow> host_state \<Rightarrow> error + host" where
  "getHostByID i s =
     (case Reader (hs_reg s) of
        Inl e \<Rightarrow> Inl e
      | Inr rd \<Rightarrow> GetHostByID (mem_reader rd) (parse_key i))"

definition syncHostWithExternal ::
  "host \<Rightarrow> sync_operation \<Rightarrow> host_state \<Rightarrow> (error option \<times> host) \<times> host_state"
where
  "syncHostWithExternal h op s =
     (let syncKey = operation_text op @ ''-'' @ Key h;
          (should, t, e) = ShouldSync (hs_env s) syncKey (hs_hostTracker s);
          s1 = hs_set_env e (s\<lparr>hs_hostTracker := t\<rparr>)
      in if \<not> should then ((None, h), s1)
         else (case ExecuteWithRetry (ns_fromError (hs_net s)) (SyncEntity_host op h) s1 of
                 (Some err, s2) \<Rightarrow>
                   (let (h', s3) = hs_mark (Some err) h
                          (s2\<lparr>hs_hostTracker := RecordFailure syncKey err (hs_hostTracker s2)\<rparr>)
                    in ((Some (Wrap ''failed to sync with external system'' err), h'), s3))
               | (None, s2) \<Rightarrow>
                   (let (t', e') = RecordSuccess (hs_env s2) syncKey (hs_hostTracker s2);
                        (h', s3) = hs_mark None h (hs_set_env e' (s2\<lparr>hs_hostTracker := t'\<rparr>))
                    in ((None, h'), s3))))"

definition updateHostStatus :: "host \<Rightarrow> host_state \<Rightarrow> (error option \<times> host) \<times> host_state" where
  "updateHostStatus h s =
     (let (h', s1) = hs_touch h s
      in case Writer (hs_reg s1) of
           Inl e \<Rightarrow> ((Some (Wrap ''failed to get writer'' e), h'), s1)
         | Inr w \<Rightarrow> ((None, h'), write_host h' w s1))"

text \<open>
  What creation and update do once the object may be written: write it, send it, set its Ready
  condition by the outcome, write it again.
\<close>

definition store_host :: "host \<Rightarrow> writer \<Rightarrow> host_state \<Rightarrow> (error option \<times> host) \<times> host_state" where
  "store_host h w s =
     (case syncHostWithExternal h SyncOperationUpsert (write_host h w s) of
        ((syncErr, h1), s1) \<Rightarrow>
          (let (h2, s2) = hs_mark syncErr h1 s1;
               ((_, h3), s3) = updateHostStatus h2 s2
           in ((syncErr, h3), s3)))"

definition CreateHost :: "host \<Rightarrow> host_state \<Rightarrow> error option \<times> host_state" where
  "CreateHost h s =
     (case validateHost h of
        Some e \<Rightarrow> (Some (Wrap ''invalid host'' e), s)
      | None \<Rightarrow>
     (case getHostByID (Key h) s of
        Inr _ \<Rightarrow> (Some (Errorf (''host already exists: '' @ Key h)), s)
      | Inl e \<Rightarrow>
          if \<not> is_not_found e then (Some (Wrap ''failed to check existing host'' e), s)
          else
            (let (m, env) = TouchOnCreate (hs_env s) (Meta h);
                 h1 = h\<lparr>Meta := m\<rparr>;
                 s1 = hs_set_env env s
             in case Writer (hs_reg s1) of
                  Inl e \<Rightarrow> (Some (Wrap ''failed to get writer'' e), s1)
                | Inr w \<Rightarrow>
                    (case store_host h1 w s1 of
                       ((syncErr, _), s2) \<Rightarrow> (wrap_err ''host created but SGROUP sync failed'' syncErr, s2)))))"

text \<open>An update does not look whether the host exists; the outcome of its sending is dropped.\<close>

definition UpdateHost :: "host \<Rightarrow> host_state \<Rightarrow> (error option \<times> host) \<times> host_state" where
  "UpdateHost h s =
     (case validateHost h of
        Some e \<Rightarrow> ((Some (Wrap ''invalid host'' e), h), s)
      | None \<Rightarrow>
          (let (h1, s1) = hs_touch h s
           in case Writer (hs_reg s1) of
                Inl e \<Rightarrow> ((Some (Wrap ''failed to get writer'' e), h1), s1)
              | Inr w \<Rightarrow> (case store_host h1 w s1 of ((_, h2), s2) \<Rightarrow> ((None, h2), s2))))"

text \<open>The last binding of the host in the listing.\<close>

definition binding_of_host :: "resource_identifier \<Rightarrow> host_binding listing \<Rightarrow> error option \<times> host_binding option" where
  "binding_of_host i bs =
     consume_listing
       (\<lambda>b acc. (None, if ref_Namespace (hb_HostRef b) = rid_Namespace i \<and> ref_Name (hb_HostRef b) = rid_Name i
                       then Some b else acc)) bs None"

definition findHostBindingByHostID :: "resource_identifier \<Rightarrow> host_state \<Rightarrow> error + host_binding" where
  "findHostBindingByHostID i s =
     (case Reader (hs_reg s) of
        Inl e \<Rightarrow> Inl (Wrap ''failed to get reader'' e)
      | Inr rd \<Rightarrow>
          (case binding_of_host i (ListHostBindings (mem_reader rd) (Some EmptyScope)) of
             (Some e, _) \<Rightarrow> Inl (Wrap ''failed to list host bindings'' e)
           | (None, None) \<Rightarrow> Inl ErrNotFound
           | (None, Some b) \<Rightarrow> Inr b))"

text \<open>A host that only its group lists is removed from the group before it is deleted.\<close>

definition write_group_hosts :: "address_group \<Rightarrow> object_reference list \<Rightarrow> writer \<Rightarrow> host_state \<Rightarrow> host_state" where
  "write_group_hosts g hosts w s = s\<lparr>hs_net := write_one SyncAddressGroups (g\<lparr>ag_Hosts := hosts\<rparr>) w (hs_net s)\<rparr>"

definition unlist_host :: "host \<Rightarrow> host_state \<Rightarrow> error option \<times> host_state" where
  "unlist_host h s =
     (case h_AddressGroupRef h of
        None \<Rightarrow> (None, s)
      | Some r \<Rightarrow>
     (case Reader (hs_reg s) of
        Inl e \<Rightarrow> (Some (Wrap ''failed to get reader'' e), s)
      | Inr rd \<Rightarrow>
          (let agID = ResourceIdentifier (ref_Name r) (Namespace h)
           in case GetAddressGroupByID (mem_reader rd) agID of
                Inl e \<Rightarrow> if is_not_found e then (None, s)
                         else (Some (Wrap (''failed to get address group '' @ rid_Key agID) e), s)
              | Inr g \<Rightarrow>
                  (let updated = filter (\<lambda>x. ref_Name x \<noteq> Name h) (ag_Hosts g)
                   in if length updated = length (ag_Hosts g) then (None, s)
                      else (case Writer (hs_reg s) of
                              Inl e \<Rightarrow> (Some (Wrap ''failed to get writer for AddressGroup update'' e), s)
                            | Inr w \<Rightarrow> (None, write_group_hosts g updated w s))))))"

definition listed_only :: "host \<Rightarrow> bool" where
  "listed_only h \<longleftrightarrow> h_IsBound h \<and> h_AddressGroupRef h \<noteq> None \<and> h_BindingRef h = None"

definition prepare_deletion :: "resource_identifier \<Rightarrow> host \<Rightarrow> host_state \<Rightarrow> (error + host) \<times> host_state" where
  "prepare_deletion i existing s =
     (if \<not> listed_only existing then (Inr existing, s)
      else (case unlist_host existing s of
              (Some e, s1) \<Rightarrow> (Inl e, s1)
            | (None, s1) \<Rightarrow>
                (case getHostByID (rid_Key i) s1 of
                   Inl e \<Rightarrow> (Inl (Wrap ''failed to refresh host after unbinding'' e), s1)
                 | Inr h \<Rightarrow> (Inr h, s1))))"

definition force_group :: "address_group \<Rightarrow> host_state \<Rightarrow> host_state" where
  "force_group g s =
     (if \<not> hs_synced s then s
      else (case Reader (hs_reg s) of
              Inl _ \<Rightarrow> s
            | Inr rd \<Rightarrow>
                (case GetAddressGroupByID (mem_reader rd) (self_id g) of
                   Inl _ \<Rightarrow> s
                 | Inr g' \<Rightarrow> external (ForcedGroup SyncOperationUpsert g') s)))"

text \<open>Binding and host are deleted in one transaction.\<close>

definition delete_host_and_binding ::
  "resource_identifier \<Rightarrow> host_binding option \<Rightarrow> host_state \<Rightarrow> (error + address_group option) \<times> host_state"
where
  "delete_host_and_binding i binding s =
     (case Writer (hs_reg s) of
        Inl e \<Rightarrow> (Inl (Wrap ''failed to get writer'' e), s)
      | Inr w \<Rightarrow>
          (case binding of
             None \<Rightarrow> (Inr None, hs_commit (DeleteHostsByIDs (hs_db s) [i] w) s)
           | Some b \<Rightarrow>
               (case ReaderFromWriter (hs_reg s) w of
                  Inl e \<Rightarrow> (Inl (Wrap ''failed to get reader from writer'' e), s)
                | Inr rd \<Rightarrow>
                    (Inr (case GetAddressGroupByID (mem_reader rd)
                                (ResourceIdentifier (ref_Name (hb_AddressGroupRef b)) (Namespace b)) of
                            Inl _ \<Rightarrow> None | Inr g \<Rightarrow> Some g),
                     hs_commit (DeleteHostsByIDs (hs_db s) [i] (DeleteHostBindingsByIDs (hs_db s) [self_id b] w)) s))))"

definition DeleteHost :: "resource_identifier \<Rightarrow> host_state \<Rightarrow> error option \<times> host_state" where
  "DeleteHost i s =
     (case getHostByID (rid_Key i) s of
        Inl e \<Rightarrow> if is_not_found e then (None, s) else (Some (Wrap ''failed to get host'' e), s)
      | Inr existing0 \<Rightarrow>
     (case prepare_deletion i existing0 s of
        (Inl e, s1) \<Rightarrow> (Some e, s1)
      | (Inr existing, s1) \<Rightarrow>
          (case (case findHostBindingByHostID i s1 of
                   Inr b \<Rightarrow> Inr (Some b)
                 | Inl e \<Rightarrow> if is_not_found e then Inr None else Inl (Wrap ''failed to search for host binding'' e)) of
             Inl e \<Rightarrow> (Some e, s1)
           | Inr binding \<Rightarrow>
               (case delete_host_and_binding i binding s1 of
                  (Inl e, s2) \<Rightarrow> (Some e, s2)
                | (Inr toSync, s2) \<Rightarrow>
                    (let s3 = (case toSync of None \<Rightarrow> s2 | Some g \<Rightarrow> force_group g s2)
                     in (None, snd (syncHostWithExternal existing SyncOperationDelete s3)))))))"

definition service_ListHosts :: "scope option \<Rightarrow> host_state \<Rightarrow> error + host list" where
  "service_ListHosts sc s =
     (case Reader (hs_reg s) of
        Inl e \<Rightarrow> Inl (Wrap ''failed to get reader'' e)
      | Inr rd \<Rightarrow>
          (case collect_all (ListHosts (mem_reader rd) sc) of
             (Some e, _) \<Rightarrow> Inl (Wrap ''failed to list hosts'' e)
           | (None, hs) \<Rightarrow> Inr hs))"

text \<open>Each loop ends with the first failure and keeps what was done before.\<close>

fun each_host ::
  "(host \<Rightarrow> host_state \<Rightarrow> error option \<times> host_state) \<Rightarrow> host list \<Rightarrow> host_state \<Rightarrow> error option \<times> host_state"
where
  "each_host f [] s = (None, s)"
| "each_host f (h # hs) s =
     (case f h s of (Some e, s1) \<Rightarrow> (Some e, s1) | (None, s1) \<Rightarrow> each_host f hs s1)"

definition update_or_create :: "bool \<Rightarrow> host \<Rightarrow> host_state \<Rightarrow> error option \<times> host_state" where
  "update_or_create exists h s =
     (if exists
      then (case UpdateHost h s of ((err, _), s1) \<Rightarrow> (wrap_err (''failed to update host '' @ Key h) err, s1))
      else (case CreateHost h s of (err, s1) \<Rightarrow> (wrap_err (''failed to create host '' @ Key h) err, s1)))"

definition delete_one_host :: "host \<Rightarrow> host_state \<Rightarrow> error option \<times> host_state" where
  "delete_one_host h s =
     (case DeleteHost (self_id h) s of (err, s1) \<Rightarrow> (wrap_err (''failed to delete host '' @ Key h) err, s1))"

definition fullSyncHosts :: "host list \<Rightarrow> scope option \<Rightarrow> host_state \<Rightarrow> error option \<times> host_state" where
  "fullSyncHosts hosts sc s =
     (case service_ListHosts sc s of
        Inl e \<Rightarrow> (Some (Wrap ''failed to get existing hosts'' e), s)
      | Inr existing \<Rightarrow>
          (case each_host (\<lambda>h. update_or_create (Key h \<in> set (map Key existing)) h) hosts s of
             (Some e, s1) \<Rightarrow> (Some e, s1)
           | (None, s1) \<Rightarrow> each_host delete_one_host (filter (\<lambda>h. Key h \<notin> set (map Key hosts)) existing) s1))"

definition upsertHosts :: "host list \<Rightarrow> host_state \<Rightarrow> error option \<times> host_state" where
  "upsertHosts =
     each_host (\<lambda>h s. case getHostByID (Key h) s of
                        Inr _ \<Rightarrow> update_or_create True h s
                      | Inl e \<Rightarrow> if is_not_found e then update_or_create False h s
                                 else (Some (Wrap (''failed to check existing host '' @ Key h) e), s))"

definition deleteHosts :: "host list \<Rightarrow> host_state \<Rightarrow> error option \<times> host_state" where
  "deleteHosts = each_host delete_one_host"

definition service_SyncHosts ::
  "host list \<Rightarrow> scope option \<Rightarrow> sync_op \<Rightarrow> host_state \<Rightarrow> error option \<times> host_state"
where
  "service_SyncHosts hosts sc syncOp s =
     (if syncOp = SyncOpFullSync then fullSyncHosts hosts sc s
      else if syncOp = SyncOpUpsert then upsertHosts hosts s
      else if syncOp = SyncOpDelete then deleteHosts hosts s
      else (Some (Errorf (''unsupported sync operation: '' @ SyncOp_String syncOp)), s))"

section \<open>Membership of a host\<close>

definition utils_IsReadyConditionTrue :: "'a resource_scheme \<Rightarrow> bool" where
  "utils_IsReadyConditionTrue x =
     (case find (\<lambda>c. cond_Type c = ''Ready'') (Conditions (Meta x)) of
        None \<Rightarrow> False | Some c \<Rightarrow> cond_Status c = ''True'')"

definition host_reference_to :: "string \<Rightarrow> string \<Rightarrow> object_reference" where
  "host_reference_to kind name =
     \<lparr> ref_APIVersion = ''netguard.sgroups.io/v1beta1'', ref_Kind = kind, ref_Name = name \<rparr>"

definition bind_host :: "resource_identifier \<Rightarrow> resource_identifier \<Rightarrow> host \<Rightarrow> host" where
  "bind_host bindingID addressGroupID h =
     h\<lparr>h_BindingRef := Some (host_reference_to ''HostBinding'' (rid_Name bindingID)),
       h_AddressGroupRef := Some (host_reference_to ''AddressGroup'' (rid_Name addressGroupID)),
       h_IsBound := True,
       h_AddressGroupName := rid_Name addressGroupID\<rparr>"

definition unbind_host :: "host \<Rightarrow> host" where
  "unbind_host h = h\<lparr>h_BindingRef := None, h_AddressGroupRef := None, h_IsBound := False, h_AddressGroupName := []\<rparr>"

definition host_UpdateHostBinding ::
  "resource_identifier \<Rightarrow> resource_identifier \<Rightarrow> resource_identifier \<Rightarrow> host_state \<Rightarrow> error option \<times> host_state"
where
  "host_UpdateHostBinding hostID bindingID addressGroupID s =
     (case Writer (hs_reg s) of
        Inl e \<Rightarrow> (Some (Wrap ''failed to get writer'' e), s)
      | Inr w \<Rightarrow>
     (case ReaderFromWriter (hs_reg s) w of
        Inl e \<Rightarrow> (Some (Wrap ''failed to get reader from writer'' e), s)
      | Inr rd \<Rightarrow>
     (case GetHostByID (mem_reader rd) hostID of
        Inl e \<Rightarrow> (Some (Wrap ''failed to get host'' e), s)
      | Inr h \<Rightarrow>
          if rid_Name bindingID \<noteq> [] \<and> rid_Name addressGroupID \<noteq> [] \<and> \<not> utils_IsReadyConditionTrue h
          then (Some (Errorf (''host '' @ rid_Key hostID @ '' is not ready for binding - must be synchronized '' @
                  ''with SGROUP first (Ready condition must be True)'')), s)
          else
            (let h0 = (if rid_Name bindingID = [] \<and> rid_Name addressGroupID = [] then unbind_host h
                       else bind_host bindingID addressGroupID h);
                 (h1, s1) = hs_touch h0 s;
                 (h2, s2) = hs_mark None h1 s1
             in (None, snd (SyncEntity_host SyncOperationUpsert h2 (write_host h2 w s2)))))))"

text \<open>A host that becomes or ceases to be a member of the group that lists it.\<close>

definition list_host :: "string \<Rightarrow> host \<Rightarrow> host" where
  "list_host agName h =
     h\<lparr>h_IsBound := True, h_AddressGroupName := agName,
       h_AddressGroupRef := Some (host_reference_to ''AddressGroup'' agName)\<rparr>"

definition updateHostBindingStatusForHost ::
  "string \<Rightarrow> string \<Rightarrow> bool \<Rightarrow> string \<Rightarrow> host_state \<Rightarrow> error option \<times> host_state"
where
  "updateHostBindingStatusForHost hostName ns isBound agName s =
     (case getHostByID (rid_Key (ResourceIdentifier hostName ns)) s of
        Inl e \<Rightarrow> (Some (Wrap (''failed to get host '' @ ns @ ''/'' @ hostName) e), s)
      | Inr h \<Rightarrow>
          if isBound \<and> \<not> utils_IsReadyConditionTrue h
          then (Some (Errorf (''host '' @ ns @ ''/'' @ hostName @ '' is not ready for binding via AddressGroup.spec '' @
                  ''- must be synchronized with SGROUP first (Ready condition must be True)'')), s)
          else (case UpdateHost (if isBound then list_host agName h else unbind_host h) s of
                  ((Some e, _), s1) \<Rightarrow> (Some (Wrap ''failed to update host status'' e), s1)
                | ((None, h'), s1) \<Rightarrow> (None, external (ForcedHost SyncOperationUpsert h') s1)))"

definition host_names :: "address_group option \<Rightarrow> string list" where
  "host_names g = (case g of None \<Rightarrow> [] | Some g \<Rightarrow> remdups (map ref_Name (ag_Hosts g)))"

definition UpdateHostBindingStatus ::
  "address_group option \<Rightarrow> address_group option \<Rightarrow> host_state \<Rightarrow> host_state"
where
  "UpdateHostBindingStatus oldAG newAG s =
     (let oldHosts = host_names oldAG; newHosts = host_names newAG;
          ns = (case newAG of Some g \<Rightarrow> Namespace g | None \<Rightarrow> (case oldAG of Some g \<Rightarrow> Namespace g | None \<Rightarrow> []));
          agName = (case newAG of Some g \<Rightarrow> Name g | None \<Rightarrow> []);
          s1 = fold (\<lambda>n s. snd (updateHostBindingStatusForHost n ns False [] s))
                 (filter (\<lambda>n. n \<notin> set newHosts) oldHosts) s
      in fold (\<lambda>n s. snd (updateHostBindingStatusForHost n ns True agName s))
           (filter (\<lambda>n. n \<notin> set oldHosts) newHosts) s1)"

section \<open>Host bindings\<close>

definition validateHostBindingWithReader ::
  "reader_ops \<Rightarrow> resource_identifier \<Rightarrow> resource_identifier \<Rightarrow> error option"
where
  "validateHostBindingWithReader rd hostID bindingID =
     (case GetHostByID rd hostID of
        Inl e \<Rightarrow> Some (Wrap ''failed to get host'' e)
      | Inr h \<Rightarrow>
          if \<not> h_IsBound h then None
          else (case h_BindingRef h of
                  None \<Rightarrow> Some (Errorf ''host is already bound to AddressGroup via spec.hosts - cannot create HostBinding'')
                | Some r \<Rightarrow>
                    if ref_Name r = rid_Name bindingID then None
                    else Some (Errorf (''host is already bound to another binding (expected: '' @ rid_Name bindingID @
                           '', actual: '' @ ref_Name r @ '')''))))"

definition host_validateAddressGroupWithReader :: "reader_ops \<Rightarrow> resource_identifier \<Rightarrow> error option" where
  "host_validateAddressGroupWithReader rd i =
     (case GetAddressGroupByID rd i of
        Inl e \<Rightarrow> Some (Wrap ''failed to get address group'' e) | Inr _ \<Rightarrow> None)"

definition getHostBindingByIDWithReader :: "reader_ops \<Rightarrow> string \<Rightarrow> error + host_binding" where
  "getHostBindingByIDWithReader rd i = GetHostBindingByID rd (parse_key i)"

definition write_host_binding :: "host_binding \<Rightarrow> writer \<Rightarrow> host_state \<Rightarrow> host_state" where
  "write_host_binding b w s = s\<lparr>hs_net := write_one SyncHostBindings b w (hs_net s)\<rparr>"

definition CreateHostBinding :: "host_binding \<Rightarrow> host_state \<Rightarrow> error option \<times> host_state" where
  "CreateHostBinding b s =
     (let (m, env) = TouchOnCreate (hs_env s) (Meta b);
          b1 = b\<lparr>Meta := m\<rparr>;
          s1 = hs_set_env env s
      in case Writer (hs_reg s1) of
           Inl e \<Rightarrow> (Some (Wrap ''failed to get writer'' e), s1)
         | Inr w \<Rightarrow>
     (case ReaderFromWriter (hs_reg s1) w of
        Inl e \<Rightarrow> (Some (Wrap ''failed to get reader from writer'' e), s1)
      | Inr rd \<Rightarrow>
     (case validateHostBindingWithReader (mem_reader rd) (ref_id (hb_HostRef b)) (self_id b) of
        Some e \<Rightarrow> (Some (Wrap ''host validation failed'' e), s1)
      | None \<Rightarrow>
     (case host_validateAddressGroupWithReader (mem_reader rd) (ref_id (hb_AddressGroupRef b)) of
        Some e \<Rightarrow> (Some (Wrap ''address group validation failed'' e), s1)
      | None \<Rightarrow>
     (case getHostBindingByIDWithReader (mem_reader rd) (Key b) of
        Inr _ \<Rightarrow> (Some (Errorf (''host binding already exists: '' @ Key b)), s1)
      | Inl e \<Rightarrow>
          if \<not> is_not_found e then (Some (Wrap ''failed to check existing host binding'' e), s1)
          else (None, snd (host_UpdateHostBinding (ref_id (hb_HostRef b)) (self_id b) (ref_id (hb_AddressGroupRef b))
                             (write_host_binding b1 w s1))))))))"

definition validateNamespacedObjectReference :: "nref \<Rightarrow> string \<Rightarrow> error option" where
  "validateNamespacedObjectReference r kind =
     (if ref_Name r = [] then Some (Errorf (kind @ '' reference name cannot be empty''))
      else if ref_Namespace r = [] then Some (Errorf (kind @ '' reference namespace cannot be empty''))
      else if ref_Kind r \<noteq> kind
      then Some (Errorf (''expected '' @ kind @ '' reference kind to be '' @ kind @ '', got '' @ ref_Kind r))
      else None)"

definition validateHostBinding :: "host_binding \<Rightarrow> error option" where
  "validateHostBinding b =
     and_then (wrap_err ''invalid resource identifier'' (validate_identifier (Name b) (Namespace b)))
    (and_then (wrap_err ''invalid host reference'' (validateNamespacedObjectReference (hb_HostRef b) ''Host''))
       (wrap_err ''invalid address group reference''
          (validateNamespacedObjectReference (hb_AddressGroupRef b) ''AddressGroup'')))"

text \<open>An update of a binding leaves the host as it is.\<close>

definition UpdateHostBinding :: "host_binding \<Rightarrow> host_state \<Rightarrow> error option \<times> host_state" where
  "UpdateHostBinding b s =
     (case validateHostBinding b of
        Some e \<Rightarrow> (Some (Wrap ''host binding validation failed'' e), s)
      | None \<Rightarrow>
     (case Reader (hs_reg s) of
        Inl e \<Rightarrow> (Some (Wrap ''failed to get reader'' e), s)
      | Inr rd \<Rightarrow>
     (case getHostBindingByIDWithReader (mem_reader rd) (Key b) of
        Inl e \<Rightarrow> if is_not_found e then (Some (Errorf (''host binding not found: '' @ Key b)), s)
                 else (Some (Wrap ''failed to get existing host binding'' e), s)
      | Inr _ \<Rightarrow>
     (case validateHostBindingWithReader (mem_reader rd) (ref_id (hb_HostRef b)) (self_id b) of
        Some e \<Rightarrow> (Some (Wrap ''host validation failed'' e), s)
      | None \<Rightarrow>
     (case host_validateAddressGroupWithReader (mem_reader rd) (ref_id (hb_AddressGroupRef b)) of
        Some e \<Rightarrow> (Some (Wrap ''address group validation failed'' e), s)
      | None \<Rightarrow>
          (let (b1, s1) = hs_touch b s
           in case Writer (hs_reg s1) of
                Inl e \<Rightarrow> (Some (Wrap ''failed to get writer'' e), s1)
              | Inr w \<Rightarrow> (None, write_host_binding b1 w s1)))))))"

text \<open>The two steps after a deletion; each needs the manager of the external system.\<close>

definition release_host :: "resource_identifier \<Rightarrow> host_state \<Rightarrow> host_state option" where
  "release_host hostID s =
     (case Reader (hs_reg s) of
        Inl _ \<Rightarrow> Some s
      | Inr rd \<Rightarrow>
     (case GetHostByID (mem_reader rd) hostID of
        Inl _ \<Rightarrow> Some s
      | Inr h \<Rightarrow>
     (case Writer (hs_reg s) of
        Inl _ \<Rightarrow> Some s
      | Inr w \<Rightarrow>
          (let h' = unbind_host h; s1 = write_host h' w s
           in if hs_synced s1 then Some (snd (SyncEntity_host SyncOperationUpsert h' s1)) else None))))"

definition resend_group :: "resource_identifier \<Rightarrow> host_state \<Rightarrow> host_state option" where
  "resend_group i s =
     (case Reader (hs_reg s) of
        Inl _ \<Rightarrow> Some s
      | Inr rd \<Rightarrow>
          (case GetAddressGroupByID (mem_reader rd) i of
             Inl _ \<Rightarrow> Some s
           | Inr g \<Rightarrow> if hs_synced s then Some (external (SentGroup SyncOperationUpsert g) s) else None))"

definition DeleteHostBinding :: "resource_identifier \<Rightarrow> host_state \<Rightarrow> (error option \<times> host_state) option" where
  "DeleteHostBinding i s =
     (case Writer (hs_reg s) of
        Inl e \<Rightarrow> Some (Some (Wrap ''failed to get writer'' e), s)
      | Inr w \<Rightarrow>
     (case Reader (hs_reg s) of
        Inl e \<Rightarrow> Some (Some (Wrap ''failed to get reader'' e), s)
      | Inr rd \<Rightarrow>
     (case getHostBindingByIDWithReader (mem_reader rd) (rid_Key i) of
        Inl e \<Rightarrow> if is_not_found e then Some (Some (Errorf (''host binding not found: '' @ rid_Key i)), s)
                 else Some (Some (Wrap ''failed to get existing host binding'' e), s)
      | Inr b \<Rightarrow>
          (let (w', e) = SyncHostBindings (hs_env s) (hs_db s) [b] (Some EmptyScope) [SyncOption SyncOpDelete] w;
               s1 = hs_commit w' (hs_set_env e s)
           in case release_host (ref_id (hb_HostRef b)) s1 of
                None \<Rightarrow> None
              | Some s2 \<Rightarrow>
                  (case resend_group (ref_id (hb_AddressGroupRef b)) s2 of
                     None \<Rightarrow> None
                   | Some s3 \<Rightarrow> Some (None, s3))))))"

definition GetHostBinding :: "resource_identifier \<Rightarrow> host_state \<Rightarrow> error + host_binding" where
  "GetHostBinding i s =
     (case Reader (hs_reg s) of
        Inl e \<Rightarrow> Inl (Wrap ''failed to get reader'' e)
      | Inr rd \<Rightarrow> getHostBindingByIDWithReader (mem_reader rd) (rid_Key i))"

definition service_ListHostBindings :: "scope option \<Rightarrow> host_state \<Rightarrow> error + host_binding list" where
  "service_ListHostBindings sc s =
     (case Reader (hs_reg s) of
        Inl e \<Rightarrow> Inl (Wrap ''failed to get reader'' e)
      | Inr rd \<Rightarrow>
          (case collect_all (ListHostBindings (mem_reader rd) sc) of
             (Some e, _) \<Rightarrow> Inl (Wrap ''failed to list host bindings'' e)
           | (None, bs) \<Rightarrow> Inr bs))"

text \<open>A full synchronisation of bindings is an upsert, and an upsert only creates.\<close>

fun upsertHostBindings :: "host_binding list \<Rightarrow> host_state \<Rightarrow> error option \<times> host_state" where
  "upsertHostBindings [] s = (None, s)"
| "upsertHostBindings (b # bs) s =
     (case CreateHostBinding b s of
        (Some e, s1) \<Rightarrow> (Some (Wrap (''failed to create host binding '' @ Key b) e), s1)
      | (None, s1) \<Rightarrow> upsertHostBindings bs s1)"

fun deleteHostBindings :: "host_binding list \<Rightarrow> host_state \<Rightarrow> (error option \<times> host_state) option" where
  "deleteHostBindings [] s = Some (None, s)"
| "deleteHostBindings (b # bs) s =
     (case DeleteHostBinding (self_id b) s of
        None \<Rightarrow> None
      | Some (Some e, s1) \<Rightarrow> Some (Some (Wrap (''failed to delete host binding '' @ Key b) e), s1)
      | Some (None, s1) \<Rightarrow> deleteHostBindings bs s1)"

definition service_SyncHostBindings ::
  "host_binding list \<Rightarrow> sync_op \<Rightarrow> host_state \<Rightarrow> (error option \<times> host_state) option"
where
  "service_SyncHostBindings bs syncOp s =
     (if syncOp = SyncOpFullSync \<or> syncOp = SyncOpUpsert then Some (upsertHostBindings bs s)
      else if syncOp = SyncOpDelete then deleteHostBindings bs s
      else Some (Some (Errorf (''unsupported sync operation: '' @ SyncOp_String syncOp)), s))"

section \<open>The facade\<close>

text \<open>Upserts and full synchronisations create, object by object, up to the first failure.\<close>

fun NetguardFacade_Sync_Hosts :: "sync_op \<Rightarrow> host list \<Rightarrow> host_state \<Rightarrow> error option \<times> host_state" where
  "NetguardFacade_Sync_Hosts syncOp [] s = (None, s)"
| "NetguardFacade_Sync_Hosts syncOp (h # hs) s =
     (if syncOp = SyncOpDelete
      then (case DeleteHost (self_id h) s of
              (Some e, s') \<Rightarrow> (Some (Wrap (''failed to delete host '' @ Key h) e), s')
            | (None, s') \<Rightarrow> NetguardFacade_Sync_Hosts syncOp hs s')
      else if syncOp = SyncOpUpsert \<or> syncOp = SyncOpFullSync
      then (case CreateHost h s of
              (Some e, s') \<Rightarrow> (Some (Wrap (''failed to create host '' @ Key h) e), s')
            | (None, s') \<Rightarrow> NetguardFacade_Sync_Hosts syncOp hs s')
      else (Some (Errorf (''unsupported sync operation for Host: '' @ SyncOp_String syncOp)), s))"

fun NetguardFacade_Sync_HostBindings ::
  "sync_op \<Rightarrow> host_binding list \<Rightarrow> host_state \<Rightarrow> (error option \<times> host_state) option"
where
  "NetguardFacade_Sync_HostBindings syncOp [] s = Some (None, s)"
| "NetguardFacade_Sync_HostBindings syncOp (b # bs) s =
     (if syncOp = SyncOpDelete
      then (case DeleteHostBinding (self_id b) s of
              None \<Rightarrow> None
            | Some (Some e, s') \<Rightarrow> Some (Some (Wrap (''failed to delete host binding '' @ Key b) e), s')
            | Some (None, s') \<Rightarrow> NetguardFacade_Sync_HostBindings syncOp bs s')
      else if syncOp = SyncOpUpsert \<or> syncOp = SyncOpFullSync
      then (case CreateHostBinding b s of
              (Some e, s') \<Rightarrow> Some (Some (Wrap (''failed to create host binding '' @ Key b) e), s')
            | (None, s') \<Rightarrow> NetguardFacade_Sync_HostBindings syncOp bs s')
      else Some (Some (Errorf (''unsupported sync operation for HostBinding: '' @ SyncOp_String syncOp)), s))"

definition NetguardFacade_GetHosts :: "scope option \<Rightarrow> host_state \<Rightarrow> error + host list" where
  "NetguardFacade_GetHosts sc s =
     (case Reader (hs_reg s) of
        Inl e \<Rightarrow> Inl (Wrap ''failed to create registry reader'' e)
      | Inr rd \<Rightarrow>
          (case collect_all (ListHosts (mem_reader rd) sc) of
             (Some e, _) \<Rightarrow> Inl (Wrap ''failed to list hosts from registry'' e)
           | (None, hs) \<Rightarrow> Inr hs))"

definition NetguardFacade_GetHostByID :: "resource_identifier \<Rightarrow> host_state \<Rightarrow> error + host" where
  "NetguardFacade_GetHostByID i s =
     (case Reader (hs_reg s) of
        Inl e \<Rightarrow> Inl (Wrap ''failed to create registry reader'' e)
      | Inr rd \<Rightarrow>
          (case GetHostByID (mem_reader rd) i of
             Inl e \<Rightarrow> Inl (Wrap ''failed to get host from registry'' e) | Inr h \<Rightarrow> Inr h))"

definition NetguardFacade_CreateHost :: "host \<Rightarrow> host_state \<Rightarrow> error option \<times> host_state" where
  "NetguardFacade_CreateHost h = NetguardFacade_Sync_Hosts SyncOpUpsert [h]"

definition NetguardFacade_UpdateHost :: "host \<Rightarrow> host_state \<Rightarrow> error option \<times> host_state" where
  "NetguardFacade_UpdateHost h = NetguardFacade_Sync_Hosts SyncOpUpsert [h]"

definition NetguardFacade_DeleteHost :: "resource_identifier \<Rightarrow> host_state \<Rightarrow> error option \<times> host_state" where
  "NetguardFacade_DeleteHost i s =
     (case NetguardFacade_GetHostByID i s of
        Inl e \<Rightarrow> (Some (Wrap ''failed to get host for deletion'' e), s)
      | Inr h \<Rightarrow> NetguardFacade_Sync_Hosts SyncOpDelete [h] s)"

definition NetguardFacade_GetHostBindings :: "scope option \<Rightarrow> host_state \<Rightarrow> error + host_binding list" where
  "NetguardFacade_GetHostBindings sc s =
     (case Reader (hs_reg s) of
        Inl e \<Rightarrow> Inl (Wrap ''failed to create registry reader'' e)
      | Inr rd \<Rightarrow>
          (case collect_all (ListHostBindings (mem_reader rd) sc) of
             (Some e, _) \<Rightarrow> Inl (Wrap ''failed to list host bindings from registry'' e)
           | (None, bs) \<Rightarrow> Inr bs))"

definition NetguardFacade_GetHostBindingByID :: "resource_identifier \<Rightarrow> host_state \<Rightarrow> error + host_binding" where
  "NetguardFacade_GetHostBindingByID i s =
     (case Reader (hs_reg s) of
        Inl e \<Rightarrow> Inl (Wrap ''failed to create registry reader'' e)
      | Inr rd \<Rightarrow>
          (case GetHostBindingByID (mem_reader rd) i of
             Inl e \<Rightarrow> Inl (Wrap ''failed to get host binding from registry'' e) | Inr b \<Rightarrow> Inr b))"

definition NetguardFacade_CreateHostBinding ::
  "host_binding \<Rightarrow> host_state \<Rightarrow> (error option \<times> host_state) option"
where
  "NetguardFacade_CreateHostBinding b = NetguardFacade_Sync_HostBindings SyncOpUpsert [b]"

definition NetguardFacade_UpdateHostBinding ::
  "host_binding \<Rightarrow> host_state \<Rightarrow> (error option \<times> host_state) option"
where
  "NetguardFacade_UpdateHostBinding b = NetguardFacade_Sync_HostBindings SyncOpUpsert [b]"

definition NetguardFacade_DeleteHostBinding ::
  "resource_identifier \<Rightarrow> host_state \<Rightarrow> (error option \<times> host_state) option"
where
  "NetguardFacade_DeleteHostBinding i s =
     (case NetguardFacade_GetHostBindingByID i s of
        Inl e \<Rightarrow> Some (Some (Wrap ''failed to get host binding for deletion'' e), s)
      | Inr b \<Rightarrow> NetguardFacade_Sync_HostBindings SyncOpDelete [b] s)"

end
