(* ===== verification/AddressGroupService.thy ===== *)
theory AddressGroupService
  imports BindingService HostServices
begin

text \<open>
  Requests on address groups (\<^verbatim>\<open>services/resources/address_group_resource_service.go\<close>) and the
  methods of the facade that reach them. They work on the state of the host services, because
  the hosts that a group lists are updated along with it.

  The service of hosts is set, as \<^verbatim>\<open>NewNetguardFacade\<close> does. Deleting groups goes through the
  deletion of their bindings, which may never return: \<open>None\<close>.
\<close>

section \<open>Reading\<close>

definition AGService_GetAddressGroups :: "scope option \<Rightarrow> backend \<Rightarrow> error + address_group list" where
  "AGService_GetAddressGroups = read_list ''failed to list address groups'' ListAddressGroups"

definition AGService_GetAddressGroupByID :: "resource_identifier \<Rightarrow> backend \<Rightarrow> error + address_group" where
  "AGService_GetAddressGroupByID = read_one GetAddressGroupByID"

definition AGService_GetAddressGroupsByIDs :: "resource_identifier list \<Rightarrow> backend \<Rightarrow> error + address_group list" where
  "AGService_GetAddressGroupsByIDs = read_many ''failed to get address group '' GetAddressGroupByID"

section \<open>Hosts of a group and the external system\<close>

definition set_group_name :: "address_group \<Rightarrow> address_group" where
  "set_group_name g =
     g\<lparr>ag_AddressGroupName := (if Namespace g \<noteq> [] then Namespace g @ ''/'' @ Name g else Name g)\<rparr>"

definition host_table :: "object_reference list \<Rightarrow> object_reference table" where
  "host_table hosts = fold (\<lambda>h. AList.update (ref_Name h) h) hosts []"

definition getHostChanges ::
  "address_group \<Rightarrow> address_group option \<Rightarrow> object_reference list \<times> object_reference list"
where
  "getHostChanges newAG oldAG =
     (let newHosts = host_table (ag_Hosts newAG);
          oldHosts = (case oldAG of None \<Rightarrow> [] | Some g \<Rightarrow> host_table (ag_Hosts g));
          missing = (\<lambda>xs ys. map snd (filter (\<lambda>(n, _). map_of ys n = None) xs))
      in (missing newHosts oldHosts, missing oldHosts newHosts))"

text \<open>Sends each of the hosts that exists; answers are dropped.\<close>

definition force_hosts :: "object_reference list \<Rightarrow> string \<Rightarrow> host_state \<Rightarrow> host_state" where
  "force_hosts hosts ns s =
     (case Reader (hs_reg s) of
        Inl _ \<Rightarrow> s
      | Inr rd \<Rightarrow>
          fold (\<lambda>r s. case GetHostByID (mem_reader rd) (ResourceIdentifier (ref_Name r) ns) of
                        Inl _ \<Rightarrow> s
                      | Inr h \<Rightarrow> external (ForcedHost SyncOperationUpsert h) s) hosts s)"

definition forceSyncRemovedHostsWithSGroup ::
  "object_reference list \<Rightarrow> resource_identifier \<Rightarrow> host_state \<Rightarrow> host_state"
where
  "forceSyncRemovedHostsWithSGroup removed agID s =
     (if \<not> hs_synced s \<or> length removed = 0 then s else force_hosts removed (rid_Namespace agID) s)"

definition syncSpecHostsWithSGroups ::
  "object_reference list \<Rightarrow> resource_identifier \<Rightarrow> host_state \<Rightarrow> host_state"
where
  "syncSpecHostsWithSGroups hosts agID s =
     (if \<not> hs_synced s \<or> length hosts = 0 then s else force_hosts hosts (rid_Namespace agID) s)"

definition syncHostChangesWithSGroup :: "address_group \<Rightarrow> address_group \<Rightarrow> host_state \<Rightarrow> host_state" where
  "syncHostChangesWithSGroup oldAG newAG s =
     (if \<not> hs_synced s then s
      else (let (added, removed) = getHostChanges newAG (Some oldAG)
            in if length added = 0 \<and> length removed = 0 then s
               else force_hosts removed (Namespace newAG) (force_hosts added (Namespace newAG) s)))"

text \<open>
  Sends hosts and looks at the answers: the first refusal ends the loop. There is a manager when
  this is called.
\<close>

fun validate_hosts ::
  "reader_ops \<Rightarrow> object_reference list \<Rightarrow> resource_identifier \<Rightarrow> host_state \<Rightarrow> error option \<times> host_state"
where
  "validate_hosts rd [] agID s = (None, s)"
| "validate_hosts rd (r # rs) agID s =
     (case GetHostByID rd (ResourceIdentifier (ref_Name r) (rid_Namespace agID)) of
        Inl e \<Rightarrow>
          (Some (if is_not_found e
                 then Errorf (''host '' @ quoted (ref_Name r) @ '' does not exist in namespace '' @
                        quoted (rid_Namespace agID))
                 else Wrap (''failed to load host '' @ quoted (ref_Name r) @ '' for SGROUP validation'') e), s)
      | Inr h \<Rightarrow>
          (case SyncEntity_host SyncOperationUpsert h s of
             (Some e, s1) \<Rightarrow>
               (Some (Errorf (''SGROUP synchronization failed for host '' @ quoted (ref_Name r) @ '' in namespace '' @
                  quoted (rid_Namespace agID) @ '': '' @ error_text e @ '' - the host cannot be added to AddressGroup '' @
                  rid_Key agID @ '' due to SGROUP constraints'')), s1)
           | (None, s1) \<Rightarrow> validate_hosts rd rs agID s1))"

definition validateHostsSGroupSync ::
  "object_reference list \<Rightarrow> resource_identifier \<Rightarrow> host_state \<Rightarrow> error option \<times> host_state"
where
  "validateHostsSGroupSync hosts agID s =
     (case Reader (hs_reg s) of
        Inl e \<Rightarrow> (Some (Wrap ''failed to get reader for host validation'' e), s)
      | Inr rd \<Rightarrow> validate_hosts (mem_reader rd) hosts agID s)"

text \<open>The check of changed hosts; nothing calls it any more.\<close>

fun validateSGroupSyncForChangedHosts ::
  "address_group list \<Rightarrow> address_group table \<Rightarrow> host_state \<Rightarrow> error option \<times> host_state"
where
  "validateSGroupSyncForChangedHosts [] olds s = (None, s)"
| "validateSGroupSyncForChangedHosts (g # gs) olds s =
     (let (added, removed) = getHostChanges g (map_of olds (Key g))
      in if length added = 0 \<and> length removed = 0 then validateSGroupSyncForChangedHosts gs olds s
         else (case (if length added > 0 then validateHostsSGroupSync added (self_id g) s else (None, s)) of
                 (Some e, s1) \<Rightarrow>
                   (Some (Wrap (''SGROUP validation failed for added hosts in AddressGroup '' @ Key g) e), s1)
               | (None, s1) \<Rightarrow>
                   validateSGroupSyncForChangedHosts gs olds
                     (forceSyncRemovedHostsWithSGroup removed (self_id g) s1)))"

text \<open>
  Sends the groups as one batch and then their hosts one by one. All hosts are looked up in the
  namespace of the first group.
\<close>

definition listed_hosts :: "address_group \<Rightarrow> object_reference list" where
  "listed_hosts g =
     map hr_ObjectReference (ag_AggregatedHosts g) @ (if length (ag_AggregatedHosts g) = 0 then ag_Hosts g else [])"

definition syncAddressGroupsWithSGroups :: "address_group list \<Rightarrow> sync_operation \<Rightarrow> host_state \<Rightarrow> host_state" where
  "syncAddressGroupsWithSGroups gs op s =
     (if \<not> hs_synced s \<or> length gs = 0 then s
      else (let s1 = external (SentGroups op gs) s;
                refs = concat (map listed_hosts gs)
            in if length refs = 0 then s1
               else (case Reader (hs_reg s1) of
                       Inl _ \<Rightarrow> s1
                     | Inr rd \<Rightarrow>
                         fold (\<lambda>r s. case GetHostByID (mem_reader rd)
                                             (ResourceIdentifier (ref_Name r) (Namespace (hd gs))) of
                                       Inl _ \<Rightarrow> s
                                     | Inr h \<Rightarrow> snd (SyncEntity_host op h s)) refs s1)))"

section \<open>Membership after a synchronisation\<close>

definition member_names :: "address_group \<Rightarrow> string list" where
  "member_names g =
     (if length (ag_AggregatedHosts g) > 0 then map (\<lambda>r. ref_Name (hr_ObjectReference r)) (ag_AggregatedHosts g)
      else map ref_Name (ag_Hosts g))"

definition bound_to :: "address_group \<Rightarrow> host \<Rightarrow> bool" where
  "bound_to g h \<longleftrightarrow>
     h_IsBound h \<and> (case h_AddressGroupRef h of None \<Rightarrow> False | Some r \<Rightarrow> ref_Name r = Name g) \<and>
     Namespace h = Namespace g"

text \<open>The hosts to bind name only the group; the hosts to release keep the name of their binding.\<close>

definition hosts_to_update :: "reader_ops \<Rightarrow> address_group \<Rightarrow> host list \<Rightarrow> host list" where
  "hosts_to_update rd g hosts =
     (let current = fold (\<lambda>h. AList.update (Key h) h) (filter (bound_to g) hosts) [];
          wanted = fold (\<lambda>n. AList.update (rid_Key (ResourceIdentifier n (Namespace g)))
                               (ResourceIdentifier n (Namespace g))) (member_names g) [];
          toBind = concat (map (\<lambda>(k, i). if map_of current k = None
                                          then (case GetHostByID rd i of
                                                  Inl _ \<Rightarrow> []
                                                | Inr h \<Rightarrow> [h\<lparr>h_IsBound := True, h_AddressGroupRef :=
                                                     Some \<lparr> ref_APIVersion = [], ref_Kind = [], ref_Name = Name g \<rparr>\<rparr>])
                                          else []) wanted);
          toRelease = concat (map (\<lambda>(k, h). if map_of wanted k = None
                                             then [h\<lparr>h_IsBound := False, h_AddressGroupRef := None\<rparr>] else []) current)
      in toBind @ toRelease)"

definition rebind_hosts :: "address_group \<Rightarrow> host_state \<Rightarrow> host_state" where
  "rebind_hosts g s =
     (case Reader (hs_reg s) of
        Inl _ \<Rightarrow> s
      | Inr rd \<Rightarrow>
     (case collect_all (ListHosts (mem_reader rd) (Some EmptyScope)) of
        (Some _, _) \<Rightarrow> s
      | (None, hosts) \<Rightarrow>
          (let changed = hosts_to_update (mem_reader rd) g hosts
           in if length changed = 0 then s
              else (case Writer (hs_reg s) of
                      Inl _ \<Rightarrow> s
                    | Inr w \<Rightarrow>
                        (let (w', e) = SyncHosts (hs_env s) (hs_db s) changed (Some EmptyScope)
                               [SyncOption SyncOpUpsert] w
                         in fold (\<lambda>h. external (ForcedHost SyncOperationUpsert h)) changed
                              (hs_commit w' (hs_set_env e s)))))))"

definition update_membership :: "sync_op \<Rightarrow> address_group \<Rightarrow> host_state \<Rightarrow> host_state" where
  "update_membership syncOp ag s =
     (case Reader (hs_reg s) of
        Inl _ \<Rightarrow> s
      | Inr rd \<Rightarrow>
     (case GetAddressGroupByID (mem_reader rd) (self_id ag) of
        Inl _ \<Rightarrow> s
      | Inr g \<Rightarrow>
          if length (ag_AggregatedHosts g) = 0 \<and> length (ag_Hosts g) = 0 then s
          else if syncOp = SyncOpDelete then UpdateHostBindingStatus (Some g) None s
          else if syncOp = SyncOpUpsert \<or> syncOp = SyncOpFullSync then rebind_hosts g s
          else s))"

definition updateHostBindingStatusForSyncedAddressGroups ::
  "address_group list \<Rightarrow> sync_op \<Rightarrow> host_state \<Rightarrow> host_state"
where
  "updateHostBindingStatusForSyncedAddressGroups gs syncOp s = fold (update_membership syncOp) gs s"

section \<open>Requests on address groups\<close>

definition process_group :: "address_group \<Rightarrow> host_state \<Rightarrow> address_group \<times> host_state" where
  "process_group g s =
     (if ns_managed (hs_net s)
      then (case ProcessAddressGroupConditions g (hs_backend s) of
              ((_, g'), b) \<Rightarrow> (g', s\<lparr>hs_net := (hs_net s)\<lparr>ns_backend := b\<rparr>\<rparr>))
      else (g, s))"

fun process_groups :: "address_group list \<Rightarrow> host_state \<Rightarrow> address_group list \<times> host_state" where
  "process_groups [] s = ([], s)"
| "process_groups (g # gs) s =
     (let (g', s1) = process_group g s; (gs', s2) = process_groups gs s1 in (g' # gs', s2))"

definition validate_synced_group :: "reader_ops \<Rightarrow> address_group \<Rightarrow> error option" where
  "validate_synced_group rd g =
     (case GetAddressGroupByID rd (self_id g) of
        Inr existing \<Rightarrow> AddressGroupValidator_ValidateForUpdate rd existing g
      | Inl e \<Rightarrow>
          if is_not_found e then AddressGroupValidator_ValidateForCreation rd g
          else Some (Wrap ''failed to get address group'' e))"

text \<open>The part of \<^verbatim>\<open>syncAddressGroups\<close> for the operations other than deletion.\<close>

definition write_groups ::
  "writer \<Rightarrow> address_group list \<Rightarrow> sync_op \<Rightarrow> host_state \<Rightarrow> (error + writer) \<times> host_state"
where
  "write_groups w gs syncOp s =
     (case ReaderFromWriter (hs_reg s) w of
        Inl e \<Rightarrow> (Inl (Wrap ''failed to get reader from writer'' e), s)
      | Inr rd \<Rightarrow>
          (case first_error (validate_synced_group (mem_reader rd)) gs of
             Some e \<Rightarrow> (Inl e, s)
           | None \<Rightarrow>
               (let sc = (if syncOp = SyncOpFullSync \<or> length gs = 0 then EmptyScope
                          else NewResourceIdentifierScope (map self_id gs));
                    (w', e) = SyncAddressGroups (hs_env s) (hs_db s) gs (Some sc) [SyncOption syncOp] w
                in (Inr w', hs_set_env e s))))"

fun groups_to_delete :: "reader_ops \<Rightarrow> resource_identifier list \<Rightarrow> error + address_group list" where
  "groups_to_delete rd [] = Inr []"
| "groups_to_delete rd (i # is) =
     (case GetAddressGroupByID rd i of
        Inl e \<Rightarrow> if is_not_found e then groups_to_delete rd is
                 else Inl (Wrap (''failed to fetch AddressGroup '' @ rid_Key i) e)
      | Inr g \<Rightarrow> (case groups_to_delete rd is of Inl e \<Rightarrow> Inl e | Inr gs \<Rightarrow> Inr (g # gs)))"

definition of_group :: "string \<Rightarrow> string \<Rightarrow> address_group list \<Rightarrow> bool" where
  "of_group name ns gs \<longleftrightarrow> list_ex (\<lambda>g. name = Name g \<and> ns = Namespace g) gs"

text \<open>
  The networks of deleted bindings are released in one transaction. Each write names no
  operation, for which the in-memory writer takes a full synchronisation.
\<close>

fun release_networks :: "reader_ops \<Rightarrow> resource_identifier list \<Rightarrow> writer \<Rightarrow> host_state \<Rightarrow> writer \<times> host_state" where
  "release_networks rd [] w s = (w, s)"
| "release_networks rd (i # is) w s =
     (case GetNetworkByID rd i of
        Inl _ \<Rightarrow> release_networks rd is w s
      | Inr n \<Rightarrow>
          (let (now, e) = Now (hs_env s);
               n' = (unbind_network n)\<lparr>Meta := TouchOnWrite (''binding-deleted-'' @ itoa now) (Meta n)\<rparr>;
               (w', e') = SyncNetworks e (hs_db s) [n'] (Some EmptyScope) [] w
           in release_networks rd is w' (hs_set_env e' s)))"

definition delete_network_bindings ::
  "network_binding list \<Rightarrow> host_state \<Rightarrow> error option \<times> host_state"
where
  "delete_network_bindings bs s =
     (if length bs = 0 then (None, s)
      else (case Writer (hs_reg s) of
        Inl e \<Rightarrow> (Some (Wrap ''failed to get writer for NetworkBinding deletion'' e), s)
      | Inr w \<Rightarrow>
          (let s1 = hs_commit (DeleteNetworkBindingsByIDs (hs_db s) (map self_id bs) w) s
           in case Writer (hs_reg s1) of
                Inl e \<Rightarrow> (Some (Wrap ''failed to get writer for Network updates'' e), s1)
              | Inr w1 \<Rightarrow>
                  (case Reader (hs_reg s1) of
                     Inl e \<Rightarrow> (Some (Wrap ''failed to get reader for Network updates'' e), s1)
                   | Inr rd \<Rightarrow>
                       (let (w2, s2) = release_networks (mem_reader rd)
                              (map (\<lambda>b. ResourceIdentifier (ref_Name (nb_NetworkRef b)) (Namespace b)) bs) w1 s1
                        in (None, hs_commit w2 s2))))))"

definition on_backend ::
  "(backend \<Rightarrow> (error option \<times> backend) option) \<Rightarrow> host_state \<Rightarrow> (error option \<times> host_state) option"
where
  "on_backend f s =
     do { (err, b) \<leftarrow> f (hs_backend s); Some (err, s\<lparr>hs_net := (hs_net s)\<lparr>ns_backend := b\<rparr>\<rparr>) }"

definition delete_bindings_of ::
  "address_group_binding list \<Rightarrow> host_state \<Rightarrow> (error option \<times> host_state) option"
where
  "delete_bindings_of bs s =
     (if length bs = 0 then Some (None, s)
      else on_backend (AGService_DeleteAddressGroupBindingsByIDs (map self_id bs)) s)"

definition delete_groups ::
  "resource_identifier list \<Rightarrow> address_group list \<Rightarrow> host_state \<Rightarrow> error option \<times> host_state"
where
  "delete_groups ids gs s =
     (case Writer (hs_reg s) of
        Inl e \<Rightarrow> (Some (Wrap ''failed to get writer'' e), s)
      | Inr w \<Rightarrow>
          (let s1 = hs_commit (DeleteAddressGroupsByIDs (hs_db s) ids w) s;
               s2 = syncAddressGroupsWithSGroups gs SyncOperationDelete s1
           in (None, fold (\<lambda>g s. if length (ag_Hosts g) > 0 then UpdateHostBindingStatus (Some g) None s else s) gs s2)))"

definition AGService_DeleteAddressGroupsByIDs ::
  "resource_identifier list \<Rightarrow> host_state \<Rightarrow> (error option \<times> host_state) option"
where
  "AGService_DeleteAddressGroupsByIDs ids s =
     (if length ids = 0 then Some (None, s)
      else (case Reader (hs_reg s) of
        Inl e \<Rightarrow> Some (Some (Wrap ''failed to get reader for validation'' e), s)
      | Inr r \<Rightarrow>
          (let rd = mem_reader r
           in case first_error (\<lambda>i. wrap_err (''cannot delete AddressGroup '' @ rid_Key i)
                     (AddressGroupValidator_CheckDependencies rd i)) ids of
                Some e \<Rightarrow> Some (Some e, s)
              | None \<Rightarrow>
     (case groups_to_delete rd ids of
        Inl e \<Rightarrow> Some (Some e, s)
      | Inr gs \<Rightarrow>
          if length gs = 0 then Some (None, s)
          else (case consume_listing
                       (\<lambda>b bs. (None, if of_group (ref_Name (agb_AddressGroupRef b)) (ref_Namespace (agb_AddressGroupRef b)) gs
                                      then bs @ [b] else bs))
                       (ListAddressGroupBindings rd (Some EmptyScope)) [] of
        (Some e, _) \<Rightarrow> Some (Some (Wrap ''failed to list AddressGroupBindings for cascading deletion'' e), s)
      | (None, bindings) \<Rightarrow>
               (case consume_listing
                       (\<lambda>b bs. (None, if of_group (ref_Name (nb_AddressGroupRef b)) (Namespace b) gs
                                      then bs @ [b] else bs))
                       (ListNetworkBindings rd (Some EmptyScope)) [] of
        (Some e, _) \<Rightarrow> Some (Some (Wrap ''failed to list NetworkBindings for cascading deletion'' e), s)
      | (None, networkBindings) \<Rightarrow>
          do {
            (err, s1) \<leftarrow> delete_bindings_of bindings s;
            Some (case err of
                    Some e \<Rightarrow> (Some (Wrap ''failed to cascade delete AddressGroupBindings'' e), s1)
                  | None \<Rightarrow>
                      (case delete_network_bindings networkBindings s1 of
                         (Some e, s2) \<Rightarrow> (Some e, s2)
                       | (None, s2) \<Rightarrow> delete_groups ids gs s2)) })))))) "

definition syncAddressGroups ::
  "writer \<Rightarrow> address_group list \<Rightarrow> sync_op \<Rightarrow> host_state \<Rightarrow> ((error + writer) \<times> host_state) option"
where
  "syncAddressGroups w gs syncOp s =
     (if syncOp = SyncOpDelete
      then do { (err, s1) \<leftarrow> AGService_DeleteAddressGroupsByIDs (map self_id gs) s;
                Some (case err of None \<Rightarrow> Inr w | Some e \<Rightarrow> Inl e, s1) }
      else Some (write_groups w (map set_group_name gs) syncOp s))"

definition CreateAddressGroup :: "address_group \<Rightarrow> host_state \<Rightarrow> error option \<times> host_state" where
  "CreateAddressGroup g0 s =
     (case Reader (hs_reg s) of
        Inl e \<Rightarrow> (Some (Wrap ''failed to get reader'' e), s)
      | Inr rd \<Rightarrow>
     (case AddressGroupValidator_ValidateForCreation (mem_reader rd) g0 of
        Some e \<Rightarrow> (Some e, s)
      | None \<Rightarrow>
     (case Writer (hs_reg s) of
        Inl e \<Rightarrow> (Some (Wrap ''failed to get writer'' e), s)
      | Inr w \<Rightarrow>
          (let g = set_group_name g0
           in case write_groups w [g] SyncOpUpsert s of
                (Inl e, s1) \<Rightarrow> (Some (Wrap ''failed to create address group'' e), s1)
              | (Inr w', s1) \<Rightarrow>
     (case (if hs_synced s1 \<and> length (ag_Hosts g) > 0
            then validateHostsSGroupSync (ag_Hosts g) (self_id g) s1 else (None, s1)) of
        (Some e, s2) \<Rightarrow> (Some (Wrap ''SGROUP synchronization validation failed'' e), s2)
      | (None, s2) \<Rightarrow>
          (let (g', s3) = process_group g (hs_commit w' s2);
               s4 = syncAddressGroupsWithSGroups [g'] SyncOperationUpsert s3
           in (None, if length (ag_Hosts g) > 0
                     then syncSpecHostsWithSGroups (ag_Hosts g) (self_id g) (UpdateHostBindingStatus None (Some g') s4)
                     else s4)))))))"

definition UpdateAddressGroup :: "address_group \<Rightarrow> host_state \<Rightarrow> error option \<times> host_state" where
  "UpdateAddressGroup g0 s =
     (case Reader (hs_reg s) of
        Inl e \<Rightarrow> (Some (Wrap ''failed to get reader'' e), s)
      | Inr rd \<Rightarrow>
     (case GetAddressGroupByID (mem_reader rd) (self_id g0) of
        Inl e \<Rightarrow> (Some (Wrap ''failed to get existing address group'' e), s)
      | Inr existing \<Rightarrow>
     (case AddressGroupValidator_ValidateForUpdate (mem_reader rd) existing g0 of
        Some e \<Rightarrow> (Some e, s)
      | None \<Rightarrow>
     (case Writer (hs_reg s) of
        Inl e \<Rightarrow> (Some (Wrap ''failed to get writer'' e), s)
      | Inr w \<Rightarrow>
          (let g = set_group_name g0
           in case write_groups w [g] SyncOpUpsert s of
                (Inl e, s1) \<Rightarrow> (Some (Wrap ''failed to update address group'' e), s1)
              | (Inr w', s1) \<Rightarrow>
                  (let (g', s2) = process_group g (syncHostChangesWithSGroup existing g (hs_commit w' s1))
                   in (None, syncAddressGroupsWithSGroups [g'] SyncOperationUpsert s2)))))))"

text \<open>The groups that exist already, by key.\<close>

fun old_groups :: "reader_ops \<Rightarrow> address_group list \<Rightarrow> address_group table \<Rightarrow> error + address_group table" where
  "old_groups rd [] m = Inr m"
| "old_groups rd (g # gs) m =
     (case GetAddressGroupByID rd (self_id g) of
        Inl e \<Rightarrow> if is_not_found e then old_groups rd gs m
                 else Inl (Wrap (''failed to load old state for AddressGroup '' @ Key g) e)
      | Inr old \<Rightarrow> old_groups rd gs (AList.update (Key g) old m))"

definition load_old_groups :: "address_group list \<Rightarrow> sync_op \<Rightarrow> host_state \<Rightarrow> error + address_group table" where
  "load_old_groups gs syncOp s =
     (if syncOp = SyncOpUpsert \<and> hs_synced s
      then (case Reader (hs_reg s) of
              Inl e \<Rightarrow> Inl (Wrap ''failed to get reader for old state loading'' e)
            | Inr rd \<Rightarrow> old_groups (mem_reader rd) gs [])
      else Inr [])"

definition AGService_SyncAddressGroups ::
  "address_group list \<Rightarrow> sync_op \<Rightarrow> host_state \<Rightarrow> (error option \<times> host_state) option"
where
  "AGService_SyncAddressGroups gs syncOp s =
     (case Writer (hs_reg s) of
        Inl e \<Rightarrow> Some (Some (Wrap ''failed to get writer'' e), s)
      | Inr w \<Rightarrow>
     (case load_old_groups gs syncOp s of
        Inl e \<Rightarrow> Some (Some e, s)
      | Inr olds \<Rightarrow>
          do {
            (r, s1) \<leftarrow> syncAddressGroups w gs syncOp s;
            Some (case r of
                    Inl e \<Rightarrow> (Some (Wrap ''failed to sync address groups'' e), s1)
                  | Inr w' \<Rightarrow>
                      (let named = map set_group_name gs;
                           s2 = hs_commit w' s1;
                           s3 = (if syncOp = SyncOpUpsert \<and> hs_synced s2
                                 then fold (\<lambda>g s. case map_of olds (Key g) of
                                                    None \<Rightarrow> s
                                                  | Some old \<Rightarrow> syncHostChangesWithSGroup old g s) named s2
                                 else s2);
                           (processed, s4) = (if syncOp \<noteq> SyncOpDelete then process_groups named s3 else (named, s3));
                           s5 = (if syncOp \<noteq> SyncOpDelete
                                 then syncAddressGroupsWithSGroups processed SyncOperationUpsert s4 else s4)
                       in (None, updateHostBindingStatusForSyncedAddressGroups processed syncOp s5))) }))"

section \<open>The facade\<close>

definition NetguardFacade_Sync_AddressGroups ::
  "sync_op \<Rightarrow> address_group list \<Rightarrow> host_state \<Rightarrow> (error option \<times> host_state) option"
where
  "NetguardFacade_Sync_AddressGroups syncOp gs = AGService_SyncAddressGroups gs syncOp"

end
