(* ===== verification/GeneratedMappings.thy ===== *)
theory GeneratedMappings
  imports BindingService Integrity
begin

text \<open>
  What the generation of a port mapping computes on the in-memory registry: the reference
  definitions say which services a group gets and what its mapping lists, and the lemmas show
  that the collection of services, their conversion and the check of overlaps compute it.
\<close>

section \<open>The generated mapping\<close>

text \<open>
  The reference: the services that some binding puts into a group, whether two services have
  overlapping ranges of a protocol, and a mapping that lists exactly the given services, each
  with the ranges of its ports.
\<close>

definition exposed ::
  "(string \<rightharpoonup> service) \<Rightarrow> (string \<rightharpoonup> address_group_binding) \<Rightarrow> resource_identifier \<Rightarrow> service set"
where
  "exposed services bindings i =
     {svc \<in> ran services. \<exists>b\<in>ran bindings.
        ref_id (agb_AddressGroupRef b) = i \<and> rid_Key (ref_id (agb_ServiceRef b)) = Key svc}"

definition overlapping :: "service set \<Rightarrow> bool" where
  "overlapping A \<longleftrightarrow>
     (\<exists>s1\<in>A. \<exists>s2\<in>A. ServiceRefKey (service_ref s1) \<noteq> ServiceRefKey (service_ref s2) \<and>
        (\<exists>proto\<in>{TCP, UDP}.
           \<not> overlap_free (port_ranges (svc_IngressPorts s1) proto) (port_ranges (svc_IngressPorts s2) proto)))"

definition publishes :: "service set \<Rightarrow> (nref \<times> service_ports) list \<Rightarrow> bool" where
  "publishes A es \<longleftrightarrow>
     distinct (map fst es) \<and> fst ` set es = service_ref ` A \<and>
     (\<forall>svc\<in>A. \<exists>ports. map_of es (service_ref svc) = Some ports \<and>
        (\<forall>proto. ports_of (sp_Ports ports) proto = port_ranges (svc_IngressPorts svc) proto))"

definition exact_mapping :: "service set \<Rightarrow> resource_identifier \<Rightarrow> address_group_port_mapping \<Rightarrow> bool" where
  "exact_mapping A i m \<longleftrightarrow> Name m = rid_Name i \<and> Namespace m = rid_Namespace i \<and>
     (\<exists>es. agpm_AccessPorts m = Some es \<and> publishes A es)"

text \<open>The same on the tables, with the metadata that the reference leaves out.\<close>

definition exposed_services :: "mem_db \<Rightarrow> resource_identifier \<Rightarrow> service set" where
  "exposed_services db i =
     {svc \<in> snd ` set (GetServices db).
        \<exists>b\<in>snd ` set (GetAddressGroupBindings db).
          targets_group i (agb_AddressGroupRef b) \<and> agb_ServiceRefKey b = Key svc}"

lemma payload_parts [simp]:
  "service_ref (payload svc) = service_ref svc" "svc_IngressPorts (payload svc) = svc_IngressPorts svc"
  "agb_AddressGroupRef (payload b) = agb_AddressGroupRef b" "agb_ServiceRefKey (payload b) = agb_ServiceRefKey b"
  "Key (payload x) = Key x"
  by (simp_all add: payload_def service_ref_def agb_ServiceRefKey_def Key_def)

lemma reference_payload:
  "overlapping (payload ` A) \<longleftrightarrow> overlapping A" "publishes (payload ` A) es \<longleftrightarrow> publishes A es"
  by (simp_all add: overlapping_def publishes_def image_image)

lemma ran_abs_table: "distinct (map fst t) \<Longrightarrow> ran (abs_table t) = payload ` snd ` set t"
  by (auto simp: abs_table_def ran_def image_image dest: map_of_SomeD)
    (metis image_eqI snd_conv)+

lemma targets_group_id: "targets_group i r \<longleftrightarrow> ref_id r = i"
  by (cases i) (auto simp: targets_group_def ref_id_def)

lemma exposed_alt:
  "exposed services bindings i = {svc \<in> ran services. \<exists>b\<in>ran bindings.
     targets_group i (agb_AddressGroupRef b) \<and> agb_ServiceRefKey b = Key svc}"
  by (simp add: exposed_def targets_group_id agb_ServiceRefKey_def method_RefKey_eq)

lemma exposed_abs:
  assumes "table_ok (GetServices db)" and "table_ok (GetAddressGroupBindings db)"
  shows "exposed (abs_table (GetServices db)) (abs_table (GetAddressGroupBindings db)) i = payload ` exposed_services db i"
proof -
  have "exposed (abs_table (GetServices db)) (abs_table (GetAddressGroupBindings db)) i =
      {x \<in> payload ` snd ` set (GetServices db). \<exists>b\<in>snd ` set (GetAddressGroupBindings db).
        targets_group i (agb_AddressGroupRef b) \<and> agb_ServiceRefKey b = Key x}"
    using assms by (simp add: exposed_alt ran_abs_table table_ok_def image_image)
  then show ?thesis unfolding exposed_services_def by (simp add: Compr_image_eq)
qed

lemma ports_of_generate: "ports_of (generate_ports ps m) proto = ports_of m proto @ port_ranges ps proto"
  by (induction ps m rule: generate_ports.induct)
    (auto simp: Let_def ports_of_fold_append ranges_of_def split: sum.splits)

subsection \<open>Parts of a table\<close>

definition part_of :: "'v table \<Rightarrow> 'v table \<Rightarrow> bool" where
  "part_of t m \<longleftrightarrow> distinct (map fst m) \<and> (\<forall>(k, v)\<in>set m. map_of t k = Some v)"

lemma part_of_update:
  assumes "part_of t m" and "map_of t k = Some v"
  shows "part_of t (AList.update k v m)"
  using assms set_update_table [of k v m] by (fastforce simp: part_of_def distinct_update)

lemma part_of_set: "part_of t m \<Longrightarrow> set m = {(k, v). k \<in> fst ` set m \<and> map_of t k = Some v}"
  by (force simp: part_of_def)

lemma part_of_fold:
  fixes f :: "'a \<Rightarrow> 'v option" and k :: "'v \<Rightarrow> string"
  defines "add \<equiv> \<lambda>x m. case f x of None \<Rightarrow> m | Some v \<Rightarrow> AList.update (k v) v m"
  assumes "\<And>x v. x \<in> set xs \<Longrightarrow> f x = Some v \<Longrightarrow> map_of t (k v) = Some v" and "part_of t m"
  shows "part_of t (fold add xs m) \<and>
    fst ` set (fold add xs m) = fst ` set m \<union> k ` {v. \<exists>x\<in>set xs. f x = Some v}"
  using assms(2,3)
proof (induction xs arbitrary: m)
  case (Cons x xs)
  have step: "part_of t (add x m)" using part_of_update [OF Cons.prems(2)] Cons.prems(1) [of x] Cons.prems(2)
    by (auto simp: add_def split: option.split)
  have keys: "fst ` set (add x m) = fst ` set m \<union> k ` {v. f x = Some v}"
    by (cases "f x") (auto simp: add_def dom_update)
  have "part_of t (fold add xs (add x m)) \<and> fst ` set (fold add xs (add x m)) =
      fst ` set (add x m) \<union> k ` {v. \<exists>x\<in>set xs. f x = Some v}"
    by (rule Cons.IH [OF Cons.prems(1) step]) simp_all
  moreover have "{v. \<exists>y\<in>set (x # xs). f y = Some v} = {v. f x = Some v} \<union> {v. \<exists>y\<in>set xs. f y = Some v}" by auto
  ultimately show ?case by (simp only: fold_simps keys image_Un Un_assoc simp_thms)
qed simp

lemma fold_update_fresh:
  assumes "distinct (map fst m @ map g xs)"
  shows "fold (\<lambda>x. AList.update (g x) (h x)) xs m = m @ map (\<lambda>x. (g x, h x)) xs"
  using assms by (induction xs arbitrary: m) (auto simp: update_fresh)

subsection \<open>The services that are collected\<close>

abbreviation stored_services :: "mem_db \<Rightarrow> service table" where
  "stored_services db \<equiv> service_table (committed db)"

lemma stored_service_lookup:
  "map_of (stored_services db) k = map_option (with_bound_groups (GetAddressGroupBindings db)) (map_of (GetServices db) k)"
  by (simp add: service_table_map_of)

lemma get_stored_service:
  assumes "table_ok (GetServices db)"
  shows "mem_GetServiceByID (committed db) i =
    (case map_of (stored_services db) (rid_Key i) of None \<Rightarrow> Inl ErrNotFound | Some svc \<Rightarrow> Inr svc)"
  using table_ok_lookup [OF assms, of "rid_Key i"]
  by (auto simp: mem_GetServiceByID_def stored_service_lookup with_bound_groups_def split: option.split)

lemma list_stored_services:
  "mem_ListServices (committed db) (Some EmptyScope) = (map snd (stored_services db), None)"
  by (simp add: mem_ListServices_def list_table_all service_table_def map_values_parts)

lemma stored_service_keys:
  assumes "table_ok (GetServices db)" and "map_of (stored_services db) k = Some svc"
  shows "Key svc = k"
  using assms table_ok_lookup [OF assms(1), of k] by (auto simp: stored_service_lookup)

lemma fold_filter: "fold (\<lambda>x acc. if P x then acc @ [x] else acc) xs acc = acc @ filter P xs"
  by (induction xs arbitrary: acc) auto

lemma group_bindings:
  "bindings_of_group (mem_reader (committed db)) i =
     (None, filter (\<lambda>b. targets_group i (agb_AddressGroupRef b)) (map snd (GetAddressGroupBindings db)))"
  by (simp add: bindings_of_group_def committed_lists fold_filter)

lemma bound_group_targets:
  "list_ex (targets_group i) (bound_groups bs k) \<longleftrightarrow>
     (\<exists>b\<in>snd ` set bs. targets_group i (agb_AddressGroupRef b) \<and> agb_ServiceRefKey b = k)"
proof -
  have "targets_group i (NewAddressGroupRef (ref_Name r) [WithNamespace (ref_Namespace r)]) = targets_group i r" for r
    by (simp add: targets_group_def NewAddressGroupRef_def)
  then show ?thesis by (force simp: bound_groups_def list_ex_iff)
qed

lemma stored_ok: "table_ok (GetServices db) \<Longrightarrow> table_ok (stored_services db)"
  by (auto simp: table_ok_def service_table_def map_values_parts) (auto simp: map_values_def)

lemma stored_dom: "k \<in> fst ` set (GetServices db) \<longleftrightarrow> (\<exists>v. map_of (stored_services db) k = Some v)"
  by (simp add: stored_service_lookup dom_map_of_conv_image_fst [symmetric] dom_def)

lemma stored_keys:
  assumes "table_ok (GetServices db)"
  shows "Key ` {v. \<exists>b\<in>B. map_of (stored_services db) (f b) = Some v} = {k \<in> fst ` set (GetServices db). \<exists>b\<in>B. f b = k}"
proof -
  note keys = stored_service_keys [OF assms]
  show ?thesis
  proof (intro set_eqI iffI)
    fix k
    assume "k \<in> Key ` {v. \<exists>b\<in>B. map_of (stored_services db) (f b) = Some v}"
    then obtain b v where "b \<in> B" "map_of (stored_services db) (f b) = Some v" "k = Key v" by blast
    with keys [of "f b" v] show "k \<in> {k \<in> fst ` set (GetServices db). \<exists>b\<in>B. f b = k}" by (auto simp: stored_dom)
  next
    fix k
    assume "k \<in> {k \<in> fst ` set (GetServices db). \<exists>b\<in>B. f b = k}"
    then obtain b v where "b \<in> B" "f b = k" "map_of (stored_services db) k = Some v" by (auto simp: stored_dom)
    with keys [of k v] show "k \<in> Key ` {v. \<exists>b\<in>B. map_of (stored_services db) (f b) = Some v}"
      by (intro image_eqI [of _ _ v]) force+
  qed
qed

definition group_keys :: "mem_db \<Rightarrow> resource_identifier \<Rightarrow> string set" where
  "group_keys db i = {k \<in> fst ` set (GetServices db). \<exists>b\<in>snd ` set (GetAddressGroupBindings db).
     targets_group i (agb_AddressGroupRef b) \<and> agb_ServiceRefKey b = k}"

lemma collected_bound:
  fixes i :: resource_identifier
  assumes ok: "table_ok (GetServices db)"
  defines "t \<equiv> add_bound_services (mem_reader (committed db)) (snd (bindings_of_group (mem_reader (committed db)) i)) []"
  shows "part_of (stored_services db) t \<and> fst ` set t = group_keys db i"
proof -
  let ?f = "\<lambda>b. map_of (stored_services db) (agb_ServiceRefKey b)"
  let ?bs = "filter (\<lambda>b. targets_group i (agb_AddressGroupRef b)) (map snd (GetAddressGroupBindings db))"
  have "t = fold (\<lambda>b m. case ?f b of None \<Rightarrow> m | Some v \<Rightarrow> AList.update (Key v) v m) ?bs []"
    unfolding t_def add_bound_services_def group_bindings
    by (simp add: get_stored_service [OF ok] agb_ServiceRefKey_def method_RefKey_eq cong: option.case_cong)
      (rule fold_cong; simp split: option.split)
  moreover have "part_of (stored_services db) []" by (simp add: part_of_def)
  moreover have "Key ` {v. \<exists>b\<in>set ?bs. ?f b = Some v} = group_keys db i"
    unfolding stored_keys [OF ok] by (auto simp: group_keys_def)
  ultimately show ?thesis
    using part_of_fold [of ?bs ?f "stored_services db" Key "[]"] stored_service_keys [OF ok] by simp
qed

lemma collected_services:
  fixes i :: resource_identifier
  assumes ok: "table_ok (GetServices db)" and m: "part_of (stored_services db) m" "fst ` set m = group_keys db i"
  shows "\<exists>t. add_spec_services (mem_reader (committed db)) i m = (None, t) \<and>
    part_of (stored_services db) t \<and> fst ` set t = group_keys db i"
proof -
  let ?f = "\<lambda>v. if list_ex (targets_group i) (svc_AddressGroups v) then Some v else None"
  let ?t = "fold (\<lambda>v m. case ?f v of None \<Rightarrow> m | Some v \<Rightarrow> AList.update (Key v) v m) (map snd (stored_services db)) m"
  have eq: "add_spec_services (mem_reader (committed db)) i m = (None, ?t)"
    by (simp add: add_spec_services_def list_stored_services) (rule fold_cong; simp)
  have sok: "table_ok (stored_services db)" using ok by (rule stored_ok)
  have lookup: "map_of (stored_services db) (Key v) = Some v" if "x \<in> set (map snd (stored_services db))" "?f x = Some v" for x v
    using that sok by (fastforce simp: table_ok_def split: if_splits)
  have folded: "part_of (stored_services db) ?t \<and> fst ` set ?t =
      fst ` set m \<union> Key ` {v. \<exists>x\<in>set (map snd (stored_services db)). ?f x = Some v}"
    by (rule part_of_fold [OF lookup m(1)])
  have "Key v \<in> group_keys db i" if v: "v \<in> snd ` set (stored_services db)" and l: "list_ex (targets_group i) (svc_AddressGroups v)" for v
  proof -
    obtain k svc where svc: "(k, svc) \<in> set (GetServices db)" "v = with_bound_groups (GetAddressGroupBindings db) svc"
      using v by (auto simp: service_table_def map_values_def split_beta)
    then have "k = Key v" using ok by (auto simp: table_ok_def)
    moreover have "svc_AddressGroups v = bound_groups (GetAddressGroupBindings db) (Key v)"
      using svc(2) by (simp add: with_bound_groups_def Key_def)
    with l have "\<exists>b\<in>snd ` set (GetAddressGroupBindings db).
        targets_group i (agb_AddressGroupRef b) \<and> agb_ServiceRefKey b = Key v" by (simp add: bound_group_targets)
    ultimately show ?thesis using svc(1) by (force simp: group_keys_def)
  qed
  then have "Key ` {v. \<exists>x\<in>set (map snd (stored_services db)). ?f x = Some v} \<subseteq> group_keys db i"
    by (auto split: if_splits)
  then show ?thesis using folded eq m(2) by (metis (no_types, lifting) Un_absorb2)
qed

section \<open>The generated mapping is exact\<close>

lemma service_ref_key: "service_ref a = service_ref b \<Longrightarrow> Key a = Key b"
  by (simp add: service_ref_def NewServiceRef_def Key_def)

lemma entries_of_part:
  assumes "table_ok (GetServices db)" and "part_of (stored_services db) t"
  shows "generated_entries t = map (\<lambda>(_, svc). (service_ref svc, \<lparr> sp_Ports = generate_ports (svc_IngressPorts svc) [] \<rparr>)) t"
    and "distinct (map (\<lambda>(_, svc). service_ref svc) t)"
proof -
  have "inj_on (\<lambda>(_, svc). service_ref svc) (set t)"
  proof (rule inj_onI, clarify)
    fix k a k' a'
    assume a: "(k, a) \<in> set t" "(k', a') \<in> set t" "service_ref a = service_ref a'"
    then have "map_of (stored_services db) k = Some a" "map_of (stored_services db) k' = Some a'"
      using assms(2) by (auto simp: part_of_def)
    with stored_service_keys [OF assms(1)] service_ref_key [OF a(3)] show "k = k' \<and> a = a'" by force
  qed
  moreover have "distinct t" using assms(2) by (auto simp: part_of_def distinct_map)
  ultimately show d: "distinct (map (\<lambda>(_, svc). service_ref svc) t)" by (simp add: distinct_map)
  have "generated_entries t = fold (\<lambda>x. AList.update (case x of (_, svc) \<Rightarrow> service_ref svc)
      (case x of (_, svc) \<Rightarrow> \<lparr> sp_Ports = generate_ports (svc_IngressPorts svc) [] \<rparr>)) t []"
    unfolding generated_entries_def by (rule fold_cong) auto
  also have "\<dots> = map (\<lambda>(_, svc). (service_ref svc, \<lparr> sp_Ports = generate_ports (svc_IngressPorts svc) [] \<rparr>)) t"
    using d by (subst fold_update_fresh) (auto simp: split_beta)
  finally show "generated_entries t = map (\<lambda>(_, svc). (service_ref svc, \<lparr> sp_Ports = generate_ports (svc_IngressPorts svc) [] \<rparr>)) t" .
qed

lemma table_ok_member:
  assumes "table_ok t"
  shows "v \<in> snd ` set t \<longleftrightarrow> map_of t (Key v) = Some v"
proof
  assume "v \<in> snd ` set t"
  then obtain k where "(k, v) \<in> set t" by force
  with assms show "map_of t (Key v) = Some v" by (auto simp: table_ok_def)
next
  assume "map_of t (Key v) = Some v"
  then show "v \<in> snd ` set t" using map_of_SomeD by (metis image_eqI snd_conv)
qed

lemma part_services:
  assumes "table_ok (GetServices db)" and "part_of (stored_services db) t" and "fst ` set t = group_keys db i"
  shows "snd ` set t = with_bound_groups (GetAddressGroupBindings db) ` exposed_services db i"
proof -
  have "snd ` set t = {v. \<exists>k\<in>group_keys db i. map_of (stored_services db) k = Some v}"
    using part_of_set [OF assms(2)] assms(3) by force
  also have "\<dots> = with_bound_groups (GetAddressGroupBindings db) ` exposed_services db i"
  proof -
    have "k \<in> group_keys db i \<and> map_of (GetServices db) k = Some svc \<longleftrightarrow> svc \<in> exposed_services db i \<and> k = Key svc" for k svc
      using table_ok_lookup [OF assms(1), of k svc]
      by (auto simp: exposed_services_def table_ok_member [OF assms(1)] group_keys_def
          dom_map_of_conv_image_fst [symmetric])
    then show ?thesis by (auto simp: stored_service_lookup)
  qed
  finally show ?thesis .
qed

lemma exposed_ref: "service_ref (with_bound_groups bs svc) = service_ref svc"
  "svc_IngressPorts (with_bound_groups bs svc) = svc_IngressPorts svc"
  by (simp_all add: with_bound_groups_def service_ref_def)

lemma generated_entries_exact:
  assumes "table_ok (GetServices db)" and "part_of (stored_services db) t" and "fst ` set t = group_keys db i"
  shows "set (generated_entries t) =
      (\<lambda>svc. (service_ref svc, \<lparr> sp_Ports = generate_ports (svc_IngressPorts svc) [] \<rparr>)) ` exposed_services db i"
    and "publishes (exposed_services db i) (generated_entries t)"
proof -
  let ?e = "\<lambda>svc. (service_ref svc, \<lparr> sp_Ports = generate_ports (svc_IngressPorts svc) [] \<rparr>)"
  have es: "generated_entries t = map (\<lambda>(_, svc). ?e svc) t" by (rule entries_of_part(1) [OF assms(1,2)])
  have d: "distinct (map fst (generated_entries t))"
    using entries_of_part(2) [OF assms(1,2)] by (simp add: es comp_def case_prod_unfold)
  have "set (generated_entries t) = ?e ` snd ` set t" by (auto simp: es split_beta)
  also have "\<dots> = ?e ` exposed_services db i"
    by (simp add: part_services [OF assms] image_image exposed_ref)
  finally show set: "set (generated_entries t) = ?e ` exposed_services db i" .
  have "map_of (generated_entries t) (service_ref svc) = Some \<lparr> sp_Ports = generate_ports (svc_IngressPorts svc) [] \<rparr>"
    if "svc \<in> exposed_services db i" for svc
    using that set d by (intro map_of_is_SomeI) auto
  then show "publishes (exposed_services db i) (generated_entries t)"
    using d by (auto simp: publishes_def set ports_of_generate image_image)
qed

lemma generated_conflict:
  assumes "table_ok (GetServices db)" and "part_of (stored_services db) t" and "fst ` set t = group_keys db i"
  shows "CheckInternalPortOverlaps (m\<lparr>agpm_AccessPorts := Some (generated_entries t)\<rparr>) = None \<longleftrightarrow>
    \<not> overlapping (exposed_services db i)"
  by (auto simp: CheckInternalPortOverlaps_iff access_ports_def generated_entries_exact(1) [OF assms] overlapping_def
      entries_free_def ports_of_generate)

lemma generate_cases:
  fixes i :: resource_identifier
  assumes ok: "table_ok (GetServices db)" "table_ok (GetAddressGroupBindings db)"
  defines "A \<equiv> exposed (abs_table (GetServices db)) (abs_table (GetAddressGroupBindings db)) i"
  shows "\<not> overlapping A \<Longrightarrow>
      \<exists>m. generateCompleteAddressGroupPortMapping (mem_reader (committed db)) i = Inr m \<and> exact_mapping A i m"
    and "overlapping A \<Longrightarrow> \<exists>e. generateCompleteAddressGroupPortMapping (mem_reader (committed db)) i =
      Inl (Wrap (''port conflict detected for AddressGroup '' @ rid_Key i) e)"
proof -
  let ?rd = "mem_reader (committed db)"
  note bound = collected_bound [OF ok(1), of i]
  obtain t where t: "add_spec_services ?rd i (add_bound_services ?rd (snd (bindings_of_group ?rd i)) []) = (None, t)"
    and part: "part_of (stored_services db) t" "fst ` set t = group_keys db i"
    using collected_services [OF ok(1) conjunct1 [OF bound] conjunct2 [OF bound]] by blast
  let ?m = "(empty_mapping i)\<lparr>agpm_AccessPorts := Some (generated_entries t)\<rparr>"
  have gen: "generateCompleteAddressGroupPortMapping ?rd i =
      (case CheckInternalPortOverlaps ?m of
         Some e \<Rightarrow> Inl (Wrap (''port conflict detected for AddressGroup '' @ rid_Key i) e) | None \<Rightarrow> Inr ?m)"
    using t by (simp add: generateCompleteAddressGroupPortMapping_def group_bindings Let_def)
  have A: "overlapping A \<longleftrightarrow> overlapping (exposed_services db i)"
    "publishes A = publishes (exposed_services db i)"
    by (simp_all add: A_def exposed_abs [OF ok] reference_payload fun_eq_iff)
  have "exact_mapping A i ?m"
    using generated_entries_exact(2) [OF ok(1) part] by (simp add: exact_mapping_def empty_mapping_def A(2))
  with gen generated_conflict [OF ok(1) part, of "empty_mapping i"]
  show "\<not> overlapping A \<Longrightarrow> \<exists>m. generateCompleteAddressGroupPortMapping ?rd i = Inr m \<and> exact_mapping A i m"
    and "overlapping A \<Longrightarrow> \<exists>e. generateCompleteAddressGroupPortMapping ?rd i =
      Inl (Wrap (''port conflict detected for AddressGroup '' @ rid_Key i) e)"
    by (auto simp: A(1))
qed

end
