(* ===== verification/TableFrames.thy ===== *)
theory TableFrames
  imports BindingService RuleLiveness
begin

text \<open>
  What the rule service leaves alone. A table of the database that the writers of generated rules
  do not touch survives the regeneration of rules, the processing of rule conditions and, when
  no object of its kind waits in the batch, its flush. The locale states what is needed of one
  table; it is interpreted for port mappings, for bindings and for services.
\<close>

locale quiet_table =
  fixes tbl :: "mem_db \<Rightarrow> 'v table"
    and part :: "writer \<Rightarrow> 'v table option"
    and harmless :: "pending_resource \<Rightarrow> bool"
  assumes untouched: "part w = None \<Longrightarrow> tbl (fst (Commit e db w)) = tbl db"
    and new_part: "part empty_writer = None"
    and rule_parts: "part (fst (SyncIEAgAgRules e db rules sc opts w)) = part w"
      "part (DeleteIEAgAgRulesByIDs db ids w) = part w"
      "part (fst (SyncRuleS2S e db rs sc opts w)) = part w"
    and rules_harmless: "harmless (PendingRuleS2S r)" "harmless (PendingIEAgAgRule x)"
    and service_part: "harmless (PendingService svc) \<Longrightarrow> part (fst (SyncServices e db [svc] sc opts w)) = part w"
    and group_part: "harmless (PendingAddressGroup g) \<Longrightarrow> part (fst (SyncAddressGroups e db [g] sc opts w)) = part w"
begin

text \<open>The engine: the table, and whether the registry is closed.\<close>

definition etbl :: "engine \<Rightarrow> 'v table \<times> bool" where
  "etbl g = (tbl (reg_db (eng_reg g)), reg_closed (eng_reg g))"

lemma etbl_commit: "part w = None \<Longrightarrow> etbl (commit_writer w g) = etbl g"
  by (simp add: etbl_def commit_writer_def split_beta untouched)

lemma etbl_simple:
  "etbl (SyncEntity r op g) = etbl g" "etbl (g\<lparr>eng_env := e\<rparr>) = etbl g"
  by (simp_all add: etbl_def SyncEntity_def)

lemma etbl_sync_each: "etbl (sync_each op rules g) = etbl g"
  unfolding sync_each_def by (rule fold_same) (simp add: etbl_simple)

lemma etbl_cleanup: "etbl (snd (cleanupOrphanedIEAgAgRule w n ns g)) = etbl g"
  by (simp add: cleanupOrphanedIEAgAgRule_def Let_def Writer_def etbl_simple etbl_commit rule_parts new_part
      split: sum.split)

lemma etbl_combination: "etbl (agn_engine (aggregate_combination w ex r l t x a)) = etbl (agn_engine a)"
  by (cases x) (simp add: aggregate_combination_def Let_def etbl_cleanup split_beta split: sum.split)

lemma etbl_aggregate: "etbl (agn_engine (aggregate_rule w ex r a)) = etbl (agn_engine a)"
  by (simp add: aggregate_rule_def etbl_combination fold_same [where h = "\<lambda>a. etbl (agn_engine a)"] split: sum.split)

lemma etbl_generate: "etbl (agn_engine (generateAggregatedIEAgAgRules w rules ids g)) = etbl g"
  unfolding generateAggregatedIEAgAgRules_def
  by (subst fold_same [where h = "\<lambda>a. etbl (agn_engine a)"]) (simp_all add: etbl_aggregate)

lemma etbl_execute: "etbl (snd (executeRuleOperations ops g)) = etbl g"
  by (simp add: executeRuleOperations_def Writer_def Let_def split_beta etbl_commit etbl_sync_each etbl_simple
      rule_parts new_part split: sum.split)

lemma etbl_recalculate:
  "etbl (snd (RecalculateIEAgAgRulesForAffectedRuleS2S rules reason g)) = etbl g"
  "etbl (snd (RecalculateAllAffectedIEAgAgRules reason g)) = etbl g"
  by (simp_all add: RecalculateIEAgAgRulesForAffectedRuleS2S_def RecalculateAllAffectedIEAgAgRules_def Let_def split_beta etbl_execute etbl_generate
      split: sum.split option.split)

lemma etbl_regenerate: "etbl (snd (RegenerateIEAgAgRulesForService i g)) = etbl g"
  by (simp add: RegenerateIEAgAgRulesForService_def Let_def split_beta etbl_recalculate split: sum.split option.split)

lemma etbl_cleanup_rule: "etbl (snd (CleanupIEAgAgRulesForRuleS2S r g)) = etbl g"
  by (simp add: CleanupIEAgAgRulesForRuleS2S_def Let_def etbl_sync_each etbl_regenerate split: sum.split)

text \<open>The backend: a step keeps the table and queues harmless objects only, if so does its start.\<close>

definition calm :: "backend \<Rightarrow> bool" where
  "calm s \<longleftrightarrow> (\<forall>p\<in>snd ` set (be_pending s). harmless p)"

definition frame :: "backend \<Rightarrow> backend \<Rightarrow> bool" where
  "frame s s' \<longleftrightarrow> (calm s \<longrightarrow> calm s' \<and> etbl (be_engine s') = etbl (be_engine s))"

lemma frame_refl: "frame s s"
  by (simp add: frame_def)

lemma frame_trans [trans]: "frame s s' \<Longrightarrow> frame s' s'' \<Longrightarrow> frame s s''"
  by (simp add: frame_def)

lemma frameI: "be_pending s' = be_pending s \<Longrightarrow> etbl (be_engine s') = etbl (be_engine s) \<Longrightarrow> frame s s'"
  by (simp add: frame_def calm_def)

lemma frame_fold: "(\<And>x s. frame s (f x s)) \<Longrightarrow> frame s (fold f xs s)"
  by (induction xs arbitrary: s) (auto intro: frame_refl frame_trans)

lemma frame_env: "frame s (set_env e s)"
  by (rule frameI) (simp_all add: set_env_def etbl_simple)

lemma frame_commit: "part w = None \<Longrightarrow> frame s (be_commit w s)"
  by (rule frameI) (simp_all add: be_commit_def etbl_commit)

lemma frame_engine: "etbl g = etbl (be_engine s) \<Longrightarrow> frame s (set_engine g s)"
  by (rule frameI) (simp_all add: set_engine_def)

lemma frame_queue: "harmless res \<Longrightarrow> frame s (batchConditionUpdate ty res s)"
  using update_values by (fastforce simp: frame_def calm_def batchConditionUpdate_def Let_def)

lemma frame_save:
  "part (fst (sync (be_env s) (be_db s) [x] (Some (NewResourceIdentifierScope [self_id x])) [ConditionOnlyOperation]
     empty_writer)) = None \<Longrightarrow> frame s (save_with sync x empty_writer s)"
  unfolding save_with_def
  by (auto simp: split_beta intro: frame_trans [OF frame_env] frame_commit)

lemma frame_attempts:
  "(\<And>e db. part (fst (sync e db [x] (Some (NewResourceIdentifierScope [self_id x])) [ConditionOnlyOperation]
     empty_writer)) = None) \<Longrightarrow> frame s (snd (save_attempts kind sync x n s))"
  by (induction n arbitrary: s) (auto simp: Writer_def intro: frame_save frame_refl)

lemma frame_flush_entry: "harmless (snd e) \<Longrightarrow> frame s (flush_entry e s)"
  by (cases "snd e")
    (auto simp: flush_entry_def Let_def saveServiceConditions_def saveAddressGroupConditions_def saveRuleS2SConditions_def
      saveIEAgAgRuleConditions_def save_conditions_def Writer_def service_part group_part rule_parts new_part
      intro: frame_refl frame_save frame_attempts split: sum.split)

lemma frame_flush_entries: "\<forall>e\<in>set es. harmless (snd e) \<Longrightarrow> frame s (fold flush_entry es s)"
  by (induction es arbitrary: s) (auto intro: frame_refl frame_trans frame_flush_entry)

lemma frame_flush:
  assumes "flushConditionBatch s = Some s'"
  shows "frame s s'"
proof -
  have "frame s (fold flush_entry (be_pending s) (s\<lparr>be_pending := []\<rparr>))"
    using frame_flush_entries [of "be_pending s" "s\<lparr>be_pending := []\<rparr>"] by (auto simp: frame_def calm_def)
  with assms show ?thesis by (auto simp: flushConditionBatch_def frame_refl split: if_splits)
qed

lemma frame_rule_conditions_of: "frame s (snd (ProcessIEAgAgRuleConditions r s))"
  by (auto simp: ProcessIEAgAgRuleConditions_def process_object_def Let_def split_beta rules_harmless
      intro: frame_env frame_trans [OF frame_env frame_queue] split: sum.split)

lemma frame_rule_conditions: "frame s (snd (process_if_managed rules s))"
proof -
  have "frame s (snd (process_rule_conditions rules s))"
    by (induction rules arbitrary: s)
      (auto simp: Let_def split_beta intro: frame_refl frame_trans frame_rule_conditions_of)
  then show ?thesis by (simp add: process_if_managed_def frame_refl)
qed

lemma frame_batch: "frame s (SyncBatch op rules s)"
  by (rule frameI) (simp_all add: SyncBatch_def etbl_sync_each)

lemma frame_sync_rules: "frame s (snd (syncIEAgAgRulesWithReader given w rules op s))"
  by (auto simp: syncIEAgAgRulesWithReader_def Let_def split_beta
      intro: frame_refl frame_trans [OF frame_batch frame_trans [OF frame_env frame_rule_conditions]] split: option.split)

lemma sync_rules_part:
  assumes "fst (syncIEAgAgRulesWithReader given w rules op s) = Inr (rules', w')"
  shows "part w' = part w"
  using assms by (auto simp: syncIEAgAgRulesWithReader_def Let_def split_beta rule_parts split: option.splits)

lemma frame_service_rules: "frame s (snd (RuleS2SService_SyncIEAgAgRules rules s))"
proof -
  obtain r s1 where r: "syncIEAgAgRules empty_writer rules SyncOpUpsert s = (r, s1)" by force
  then have f: "frame s s1" using frame_sync_rules [of s False empty_writer rules SyncOpUpsert] by (simp add: syncIEAgAgRules_def)
  have "frame s (snd (process_if_managed rules' (be_commit w' s1)))" if "r = Inr (rules', w')" for rules' w'
    using that r sync_rules_part [of False empty_writer rules SyncOpUpsert s rules' w'] new_part
    by (auto simp: syncIEAgAgRules_def intro: frame_trans [OF f frame_trans [OF frame_commit frame_rule_conditions]])
  with f r show ?thesis
    by (auto simp: RuleS2SService_SyncIEAgAgRules_def Writer_def frame_refl split: sum.split)
qed

text \<open>Conditions of a rule between services.\<close>

lemma frame_rule:
  assumes "ProcessRuleS2SConditions r s = Some (x, s')"
  shows "frame s s'"
proof -
  have cleanup: "frame s (batchConditionUpdate ty (PendingRuleS2S q) (set_env e'
      (set_engine (snd (CleanupIEAgAgRulesForRuleS2S p (be_engine (set_env e s)))) (set_env e s))))" for ty q e' p e
    by (intro frame_trans [OF frame_trans [OF frame_trans [OF frame_env frame_engine] frame_env] frame_queue])
      (simp_all add: etbl_cleanup_rule rules_harmless)
  have queue: "frame s (batchConditionUpdate ty (PendingRuleS2S q) (set_env e s))" for ty q e
    by (rule frame_trans [OF frame_env frame_queue]) (rule rules_harmless)
  have flushed: "frame s s1"
    if "flushConditionBatch (batchConditionUpdate ty (PendingRuleS2S q) (set_env e s)) = Some s1" for ty q e s1
    using frame_trans [OF queue frame_flush [OF that]] .
  have written: "frame s (snd (RuleS2SService_SyncIEAgAgRules rules s1))" "frame s (set_env e' s1)"
    "frame s (set_env e' (snd (RuleS2SService_SyncIEAgAgRules rules s1)))"
    if "flushConditionBatch (batchConditionUpdate ty (PendingRuleS2S q) (set_env e s)) = Some s1" for ty q e s1 e' rules
    using flushed [OF that] frame_trans frame_service_rules frame_env by blast+
  show ?thesis
    using assms
    by (auto simp: ProcessRuleS2SConditions_def Let_def split_beta
        intro: frame_env cleanup queue flushed written split: sum.splits option.splits bind_splits if_splits)
qed

lemma frame_rules: "process_rules2s rules s = Some s' \<Longrightarrow> frame s s'"
  by (induction rules arbitrary: s)
    (auto simp: Option.bind_eq_Some_conv intro: frame_refl frame_trans dest: frame_rule)

lemma frame_rules_if: "process_rules2s_if_managed rules s = Some s' \<Longrightarrow> frame s s'"
  by (auto simp: process_rules2s_if_managed_def intro: frame_refl frame_rules split: if_splits)

lemma frame_notify:
  assumes "NotifyServiceAddressGroupsChanged i s = Some (x, s')"
  shows "frame s s'"
proof -
  have regenerated: "frame s (set_engine (snd (RegenerateIEAgAgRulesForService i (be_engine s))) s)"
    by (rule frame_engine) (rule etbl_regenerate)
  then have "frame s s'" if "process_rules2s_if_managed rules
      (set_engine (snd (RegenerateIEAgAgRulesForService i (be_engine s))) s) = Some s'" for rules
    using that frame_trans frame_rules_if by blast
  with regenerated show ?thesis
    using assms by (auto simp: NotifyServiceAddressGroupsChanged_def Let_def split_beta
        intro: frame_refl split: sum.splits option.splits bind_splits if_splits)
qed

lemma frame_timing: "frame s (snd (applyTimingFixToIEAgAgRules w rules s))"
  "part (fst (applyTimingFixToIEAgAgRules w rules s)) = part w"
  by (auto simp: applyTimingFixToIEAgAgRules_def Let_def split_beta rule_parts intro: frame_refl frame_env)

lemma frame_finish:
  assumes "process_rules2s_if_managed cs (be_commit (fst (applyTimingFixToIEAgAgRules w new s1))
      (snd (applyTimingFixToIEAgAgRules w new s1))) = Some s2"
    and "frame s s1" and "part w = None"
  shows "frame s s2"
  using assms(3)
  by (intro frame_trans [OF frame_trans [OF assms(2) frame_trans [OF frame_timing(1) frame_commit]]
      frame_rules_if [OF assms(1)]]) (simp add: frame_timing(2))

lemma frame_update_rules:
  assumes "updateIEAgAgRulesForRuleS2SWithReader w rules s = Some (x, s')" and "part w = None"
  shows "frame s s'"
proof (cases "rules = []")
  case True
  with assms show ?thesis by (simp add: updateIEAgAgRulesForRuleS2SWithReader_def frame_refl)
next
  case False
  let ?rd = "eng_reader (Some w) (be_engine s)"
  let ?a = "generateAggregatedIEAgAgRules (Some w) (all_contributing ?rd (affected_groups ?rd rules)) [] (be_engine s)"
  let ?s1 = "set_engine (agn_engine ?a) s"
  obtain r s2 where r: "(if length (agn_new ?a) > 0 then syncIEAgAgRulesWithReader True w (agn_new ?a) SyncOpUpsert ?s1
      else (Inr (agn_new ?a, w), ?s1)) = (r, s2)" by force
  have "frame ?s1 s2" using r frame_sync_rules [of ?s1 True w "agn_new ?a" SyncOpUpsert]
    by (auto simp: frame_refl split: if_splits)
  with frame_engine [OF etbl_generate] have f: "frame s s2" by (rule frame_trans)
  have w1: "part w1 = None" if "r = Inr (new, w1)" for new w1
    using r that assms(2) sync_rules_part [of True w "agn_new ?a" SyncOpUpsert ?s1 new w1] by (auto split: if_splits)
  from assms(1) False r f w1 show ?thesis
    by (auto simp: updateIEAgAgRulesForRuleS2SWithReader_def Let_def split_beta rule_parts
        intro: frame_refl frame_finish split: option.splits sum.splits prod.splits bind_splits if_splits)
qed

lemma frame_regenerate_list:
  assumes "regenerateIEAgAgRulesForRuleS2SList rules s = Some (x, s')"
  shows "frame s s'"
  using assms new_part
  by (auto simp: regenerateIEAgAgRulesForRuleS2SList_def Writer_def intro: frame_refl frame_update_rules
      split: if_splits sum.splits)

lemma frame_regenerate_binding:
  assumes "RegenerateIEAgAgRulesForAddressGroupBinding i s = Some (x, s')"
  shows "frame s s'"
  using assms
  by (auto simp: RegenerateIEAgAgRulesForAddressGroupBinding_def Let_def
      intro: frame_refl frame_regenerate_list split: if_splits sum.splits prod.splits option.splits)

lemma frame_notify_binding:
  assumes "notify_binding b s = Some (x, s')"
  shows "frame s s'"
proof -
  from assms obtain y s1 z where "NotifyServiceAddressGroupsChanged (ref_id (agb_ServiceRef b)) s = Some (y, s1)"
    and "RegenerateIEAgAgRulesForAddressGroupBinding (self_id b) s1 = Some (z, s')"
    by (auto simp: notify_binding_def Option.bind_eq_Some_conv)
  then show ?thesis using frame_notify frame_regenerate_binding frame_trans by blast
qed

lemma frame_notify_all: "notify_all is s = Some s' \<Longrightarrow> frame s s'"
  by (induction "is" s rule: notify_all.induct)
    (auto simp: Option.bind_eq_Some_conv intro: frame_refl frame_trans dest: frame_notify)

end

interpretation mapping_frame: quiet_table GetAddressGroupPortMappings w_addressGroupPortMappings "\<lambda>_. True"
  by unfold_locales (simp_all add: store_simps writer_method_defs working_def empty_writer_def split_beta)

interpretation binding_frame: quiet_table GetAddressGroupBindings w_addressGroupBindings "\<lambda>_. True"
  by unfold_locales (simp_all add: store_simps writer_method_defs working_def empty_writer_def split_beta)

interpretation service_frame: quiet_table GetServices w_services "\<lambda>p. \<nexists>x. p = PendingService x"
  by unfold_locales (simp_all add: store_simps writer_method_defs working_def empty_writer_def split_beta)

section \<open>Requests on bindings return\<close>

lemma timing_mutex: "be_mutexHeld (snd (applyTimingFixToIEAgAgRules w rules s)) = be_mutexHeld s"
  by (simp add: applyTimingFixToIEAgAgRules_def Let_def split_beta set_env_def)

lemma finish_returns:
  assumes "\<not> be_mutexHeld s"
  shows "\<exists>s'. process_rules2s_if_managed cs (be_commit (fst (applyTimingFixToIEAgAgRules w new s))
      (snd (applyTimingFixToIEAgAgRules w new s))) = Some s' \<and> \<not> be_mutexHeld s'"
  using assms by (intro process_if_managed_returns) (simp add: timing_mutex)

lemma update_rules_returns:
  assumes "\<not> be_mutexHeld s"
  shows "\<exists>x s'. updateIEAgAgRulesForRuleS2SWithReader w rules s = Some (x, s') \<and> \<not> be_mutexHeld s'"
proof -
  let ?rd = "eng_reader (Some w) (be_engine s)"
  let ?a = "generateAggregatedIEAgAgRules (Some w) (all_contributing ?rd (affected_groups ?rd rules)) [] (be_engine s)"
  let ?s1 = "set_engine (agn_engine ?a) s"
  obtain r s2 where r: "(if length (agn_new ?a) > 0 then syncIEAgAgRulesWithReader True w (agn_new ?a) SyncOpUpsert ?s1
      else (Inr (agn_new ?a, w), ?s1)) = (r, s2)" by force
  have s2: "\<not> be_mutexHeld s2"
    using r assms mutex_inputs [OF sync_rules_inputs [of True w "agn_new ?a" SyncOpUpsert ?s1]]
    by (auto split: if_splits)
  have "\<exists>x s'. process_rules2s_if_managed cs (be_commit (fst (applyTimingFixToIEAgAgRules w1 new s2))
      (snd (applyTimingFixToIEAgAgRules w1 new s2))) \<bind> (\<lambda>s3. Some (None, s3)) = Some (x, s') \<and> \<not> be_mutexHeld s'"
    for cs w1 new
    using finish_returns [OF s2, of cs w1 new] by auto
  with assms s2 r show ?thesis
    by (auto simp: updateIEAgAgRulesForRuleS2SWithReader_def Let_def split_beta
        split: option.split sum.split prod.split)
qed

lemma regenerate_list_returns:
  assumes "\<not> be_mutexHeld s"
  shows "\<exists>x s'. regenerateIEAgAgRulesForRuleS2SList rules s = Some (x, s') \<and> \<not> be_mutexHeld s'"
  using assms update_rules_returns [OF assms]
  by (auto simp: regenerateIEAgAgRulesForRuleS2SList_def split: sum.split)

lemma notify_binding_returns:
  assumes "\<not> be_mutexHeld s"
  shows "\<exists>s'. notify_binding b s = Some (None, s') \<and> \<not> be_mutexHeld s'"
proof -
  obtain x s1 where s1: "NotifyServiceAddressGroupsChanged (ref_id (agb_ServiceRef b)) s = Some (x, s1)"
    "\<not> be_mutexHeld s1" using notify_returns [OF assms] by blast
  have "\<exists>y s'. RegenerateIEAgAgRulesForAddressGroupBinding (self_id b) s1 = Some (y, s') \<and> \<not> be_mutexHeld s'"
    using s1(2) regenerate_list_returns [OF s1(2)]
    by (auto simp: RegenerateIEAgAgRulesForAddressGroupBinding_def Let_def split: sum.split prod.split option.split)
  with s1(1) show ?thesis by (auto simp: notify_binding_def)
qed

lemma notify_all_returns: "\<not> be_mutexHeld s \<Longrightarrow> \<exists>s'. notify_all is s = Some s' \<and> \<not> be_mutexHeld s'"
proof (induction "is" s rule: notify_all.induct)
  case (2 k i "is" s)
  obtain x s1 where "NotifyServiceAddressGroupsChanged i s = Some (x, s1)" "\<not> be_mutexHeld s1"
    using notify_returns [OF 2(2)] by blast
  with 2(1) show ?case by auto
qed simp

end
