(* ===== verification/ServiceService.thy ===== *)
theory ServiceService
  imports BindingService
begin

text \<open>
  Requests on services and service aliases
  (\<^verbatim>\<open>services/resources/service_resource_service.go\<close>) and the methods of the facade that reach
  them. The service is wired as \<^verbatim>\<open>NewNetguardFacade\<close> wires it: the address group service
  regenerates port mappings for it and the rule service regenerates rules.

  A service does not implement the interface of entities that are sent to the external system,
  so that part of \<^verbatim>\<open>syncServices\<close> never does anything.
\<close>

section \<open>Reading\<close>

definition SvcService_GetServices :: "scope option \<Rightarrow> backend \<Rightarrow> error + service list" where
  "SvcService_GetServices = read_list ''failed to list services'' ListServices"

definition SvcService_GetServiceByID :: "resource_identifier \<Rightarrow> backend \<Rightarrow> error + service" where
  "SvcService_GetServiceByID = read_one GetServiceByID"

definition SvcService_GetServicesByIDs :: "resource_identifier list \<Rightarrow> backend \<Rightarrow> error + service list" where
  "SvcService_GetServicesByIDs = read_many ''failed to get service '' GetServiceByID"

definition SvcService_GetServiceAliases :: "scope option \<Rightarrow> backend \<Rightarrow> error + service_alias list" where
  "SvcService_GetServiceAliases = read_list ''failed to list service aliases'' ListServiceAliases"

definition SvcService_GetServiceAliasByID :: "resource_identifier \<Rightarrow> backend \<Rightarrow> error + service_alias" where
  "SvcService_GetServiceAliasByID = read_one GetServiceAliasByID"

definition SvcService_GetServiceAliasesByIDs ::
  "resource_identifier list \<Rightarrow> backend \<Rightarrow> error + service_alias list"
where
  "SvcService_GetServiceAliasesByIDs = read_many ''failed to get service alias '' GetServiceAliasByID"

section \<open>What has changed\<close>

definition port_table :: "ingress_port list \<Rightarrow> ingress_port table" where
  "port_table ps = fold (\<lambda>p. AList.update (ip_Protocol p @ '':'' @ ip_Port p) p) ps []"

definition servicePortsChanged :: "service \<Rightarrow> service \<Rightarrow> bool" where
  "servicePortsChanged old new \<longleftrightarrow>
     length (svc_IngressPorts old) \<noteq> length (svc_IngressPorts new) \<or>
     list_ex (\<lambda>(k, p). map_of (port_table (svc_IngressPorts new)) k \<noteq> Some p)
       (port_table (svc_IngressPorts old))"

text \<open>
  \<^verbatim>\<open>reflect.DeepEqual\<close> tells a nil slice from an empty one. The reader allocates the slice of
  groups of every service it returns, and the conversion of a request leaves it nil when there
  are none, so that the groups of a service without any always count as changed.
\<close>

definition address_groups_changed :: "service \<Rightarrow> service \<Rightarrow> bool" where
  "address_groups_changed existing new \<longleftrightarrow>
     svc_AddressGroups existing \<noteq> svc_AddressGroups new \<or> svc_AddressGroups new = []"

definition slashed_name :: "nref \<Rightarrow> string" where
  "slashed_name r = ref_Namespace r @ ''/'' @ ref_Name r"

definition removed_groups :: "service \<Rightarrow> service \<Rightarrow> nref list" where
  "removed_groups existing new =
     filter (\<lambda>r. slashed_name r \<notin> set (map slashed_name (svc_AddressGroups new))) (svc_AddressGroups existing)"

section \<open>Requests on services\<close>

definition syncServices :: "writer \<Rightarrow> service list \<Rightarrow> sync_op \<Rightarrow> backend \<Rightarrow> writer \<times> backend" where
  "syncServices w svcs syncOp s =
     (let (w', e) = SyncServices (be_env s) (be_db s) svcs (Some EmptyScope) [SyncOption syncOp] w
      in (w', set_env e s))"

definition process_service :: "service \<Rightarrow> backend \<Rightarrow> backend" where
  "process_service svc s =
     (if eng_conditionManager (be_engine s) then snd (ProcessServiceConditions svc s) else s)"

text \<open>Regenerates group after group up to the first failure.\<close>

fun regenerate_each :: "string \<Rightarrow> nref list \<Rightarrow> backend \<Rightarrow> error option \<times> backend" where
  "regenerate_each what [] s = (None, s)"
| "regenerate_each what (r # rs) s =
     (case RegeneratePortMappingsForAddressGroup (ref_id r) s of
        (Some e, s1) \<Rightarrow> (Some (Wrap (what @ rid_Key (ref_id r)) e), s1)
      | (None, s1) \<Rightarrow> regenerate_each what rs s1)"

definition syncPortMappingsForServiceSpecAGs :: "service \<Rightarrow> backend \<Rightarrow> error option \<times> backend" where
  "syncPortMappingsForServiceSpecAGs svc s =
     (if length (svc_AddressGroups svc) = 0 then (None, s)
      else regenerate_each ''failed to regenerate port mappings for address group '' (svc_AddressGroups svc) s)"

definition regenerate_rules :: "resource_identifier \<Rightarrow> backend \<Rightarrow> backend" where
  "regenerate_rules i s = set_engine (snd (RegenerateIEAgAgRulesForService i (be_engine s))) s"

definition CreateService :: "service \<Rightarrow> backend \<Rightarrow> error option \<times> backend" where
  "CreateService svc s =
     (case Reader (be_reg s) of
        Inl e \<Rightarrow> (Some (Wrap ''failed to get reader'' e), s)
      | Inr rd \<Rightarrow>
     (case ServiceValidator_ValidateForCreation (mem_reader rd) svc of
        Some e \<Rightarrow> (Some e, s)
      | None \<Rightarrow>
     (case Writer (be_reg s) of
        Inl e \<Rightarrow> (Some (Wrap ''failed to get writer'' e), s)
      | Inr w \<Rightarrow>
          (let (w', s1) = syncServices w [svc] SyncOpUpsert s;
               (err, s2) = syncPortMappingsForServiceSpecAGs svc (process_service svc (be_commit w' s1))
           in (wrap_err ''failed to sync port mappings after service creation'' err, s2)))))"

definition UpdateService :: "service \<Rightarrow> backend \<Rightarrow> error option \<times> backend" where
  "UpdateService svc s =
     (case Reader (be_reg s) of
        Inl e \<Rightarrow> (Some (Wrap ''failed to get reader'' e), s)
      | Inr rd \<Rightarrow>
     (case GetServiceByID (mem_reader rd) (self_id svc) of
        Inl e \<Rightarrow> (Some (Wrap ''failed to get existing service'' e), s)
      | Inr existing \<Rightarrow>
     (case ServiceValidator_ValidateForUpdate (mem_reader rd) existing svc of
        Some e \<Rightarrow> (Some e, s)
      | None \<Rightarrow>
     (case Writer (be_reg s) of
        Inl e \<Rightarrow> (Some (Wrap ''failed to get writer'' e), s)
      | Inr w \<Rightarrow>
          (let (w', s1) = syncServices w [svc] SyncOpUpsert s;
               s2 = process_service svc (be_commit w' s1);
               s3 = (if servicePortsChanged existing svc
                     then regenerate_rules (self_id svc) (snd (RegeneratePortMappingsForService (self_id svc) s2))
                     else s2);
               groupsChanged = address_groups_changed existing svc
           in if \<not> (groupsChanged \<or> svc_IngressPorts existing \<noteq> svc_IngressPorts svc) then (None, s3)
              else (case syncPortMappingsForServiceSpecAGs svc s3 of
                      (Some e, s4) \<Rightarrow> (Some (Wrap ''failed to sync port mappings after service update'' e), s4)
                    | (None, s4) \<Rightarrow>
                        if groupsChanged
                        then regenerate_each ''failed to regenerate port mappings for removed address group ''
                               (removed_groups existing svc) s4
                        else (None, s4)))))))"

text \<open>Which of the services to synchronise need regeneration, and the groups they leave.\<close>

definition service_changes :: "reader_ops \<Rightarrow> service \<Rightarrow> resource_identifier list \<times> resource_identifier list" where
  "service_changes rd new =
     (case GetServiceByID rd (self_id new) of
        Inr existing \<Rightarrow>
          (if servicePortsChanged existing new \<or> address_groups_changed existing new
           then ([self_id new],
                 if address_groups_changed existing new then map ref_id (removed_groups existing new) else [])
           else ([], []))
      | Inl _ \<Rightarrow> (if length (svc_AddressGroups new) > 0 then [self_id new] else [], []))"

definition validate_synced_service :: "reader_ops \<Rightarrow> service \<Rightarrow> error option" where
  "validate_synced_service rd svc =
     wrap_err (''pre-commit validation failed for service '' @ Key svc)
       (case GetServiceByID rd (self_id svc) of
          Inr existing \<Rightarrow> ServiceValidator_ValidateForUpdate rd existing svc
        | Inl _ \<Rightarrow> ServiceValidator_ValidateWithoutDuplicateCheck rd svc)"

text \<open>The second round checks all services as if they were new.\<close>

definition validate_synced_services :: "reader_ops \<Rightarrow> service list \<Rightarrow> error option" where
  "validate_synced_services rd svcs =
     and_then (first_error (validate_synced_service rd) svcs)
       (first_error (\<lambda>svc. wrap_err (''pre-commit validation failed for service '' @ Key svc)
          (ServiceValidator_ValidateWithoutDuplicateCheck rd svc)) svcs)"

definition dependents ::
  "('a \<Rightarrow> nref) \<Rightarrow> resource_identifier \<Rightarrow> 'a listing \<Rightarrow> error option \<times> 'a list"
where
  "dependents ref i xs =
     consume_listing
       (\<lambda>x acc. (None, if ref_Name (ref x) = rid_Name i \<and> ref_Namespace (ref x) = rid_Namespace i
                       then acc @ [x] else acc)) xs []"

definition process_alias :: "service_alias \<Rightarrow> backend \<Rightarrow> backend" where
  "process_alias a s =
     (if eng_conditionManager (be_engine s) then snd (ProcessServiceAliasConditions a s) else s)"

definition reprocessDependentResourceConditions ::
  "resource_identifier \<Rightarrow> backend \<Rightarrow> error option \<times> backend"
where
  "reprocessDependentResourceConditions i s =
     (case Reader (be_reg s) of
        Inl e \<Rightarrow> (Some (Wrap ''failed to get reader for dependent resource processing'' e), s)
      | Inr rd \<Rightarrow>
     (case dependents sa_ServiceRef i (ListServiceAliases (mem_reader rd) (Some EmptyScope)) of
        (Some e, _) \<Rightarrow> (Some (Wrap ''failed to find dependent ServiceAliases'' e), s)
      | (None, aliases) \<Rightarrow>
     (case dependents agb_ServiceRef i (ListAddressGroupBindings (mem_reader rd) (Some EmptyScope)) of
        (Some e, _) \<Rightarrow> (Some (Wrap ''failed to find dependent AddressGroupBindings'' e), s)
      | (None, bindings) \<Rightarrow> (None, fold process_group_binding bindings (fold process_alias aliases s)))))"

definition SvcService_SyncServices :: "service list \<Rightarrow> sync_op \<Rightarrow> backend \<Rightarrow> error option \<times> backend" where
  "SvcService_SyncServices svcs syncOp s =
     (let changes = (case Reader (be_reg s) of
                       Inl _ \<Rightarrow> []
                     | Inr rd \<Rightarrow> map (service_changes (mem_reader rd)) svcs);
          changed = concat (map fst changes);
          removed = concat (map snd changes)
      in case Writer (be_reg s) of
           Inl e \<Rightarrow> (Some (Wrap ''failed to get writer'' e), s)
         | Inr w \<Rightarrow>
             (let (w', s1) = syncServices w svcs syncOp s
              in case (if syncOp = SyncOpDelete then None
                       else (case Reader (be_reg s1) of
                               Inl e \<Rightarrow> Some (Wrap ''failed to get reader for pre-commit validation'' e)
                             | Inr rd \<Rightarrow> validate_synced_services (mem_reader rd) svcs)) of
                   Some e \<Rightarrow> (Some e, s1)
                 | None \<Rightarrow>
                     (let s2 = be_commit w' s1;
                          s3 = (if syncOp \<noteq> SyncOpDelete then fold process_service svcs s2 else s2);
                          s4 = fold (\<lambda>i s. snd (RegeneratePortMappingsForService i s)) changed s3;
                          s5 = fold (\<lambda>i s. snd (RegeneratePortMappingsForAddressGroup i s)) removed s4;
                          s6 = fold regenerate_rules changed s5;
                          s7 = (if syncOp = SyncOpDelete
                                then fold (\<lambda>svc s. snd (reprocessDependentResourceConditions (self_id svc) s)) svcs s6
                                else s6)
                      in (None, s7))))"

text \<open>The mappings are generated again before the services are deleted.\<close>

fun regenerate_before_delete ::
  "reader_ops \<Rightarrow> resource_identifier list \<Rightarrow> backend \<Rightarrow> error option \<times> backend"
where
  "regenerate_before_delete rd [] s = (None, s)"
| "regenerate_before_delete rd (i # is) s =
     (case GetServiceByID rd i of
        Inl e \<Rightarrow> if is_not_found e then regenerate_before_delete rd is s
                 else (Some (Wrap (''failed to get service '' @ rid_Key i @ '' before deletion'') e), s)
      | Inr svc \<Rightarrow>
          (case syncPortMappingsForServiceSpecAGs svc s of
             (Some e, s1) \<Rightarrow>
               (Some (Wrap (''failed to sync port mappings before deleting service '' @ rid_Key i) e), s1)
           | (None, s1) \<Rightarrow> regenerate_before_delete rd is s1))"

definition SvcService_DeleteServicesByIDs :: "resource_identifier list \<Rightarrow> backend \<Rightarrow> error option \<times> backend" where
  "SvcService_DeleteServicesByIDs ids s =
     (case Reader (be_reg s) of
        Inl e \<Rightarrow> (Some (Wrap ''failed to get reader for validation'' e), s)
      | Inr rd \<Rightarrow>
     (case first_error (\<lambda>i. wrap_err (''cannot delete Service '' @ rid_Key i)
             (ServiceValidator_CheckDependencies (mem_reader rd) i)) ids of
        Some e \<Rightarrow> (Some e, s)
      | None \<Rightarrow>
     (case regenerate_before_delete (mem_reader rd) ids s of
        (Some e, s1) \<Rightarrow> (Some e, s1)
      | (None, s1) \<Rightarrow>
     (case Writer (be_reg s1) of
        Inl e \<Rightarrow> (Some (Wrap ''failed to get writer'' e), s1)
      | Inr w \<Rightarrow> (None, be_commit (DeleteServicesByIDs (be_db s1) ids w) s1)))))"

section \<open>Requests on aliases\<close>

definition syncServiceAliases :: "writer \<Rightarrow> service_alias list \<Rightarrow> sync_op \<Rightarrow> backend \<Rightarrow> writer \<times> backend" where
  "syncServiceAliases w as syncOp s =
     (let (w', e) = SyncServiceAliases (be_env s) (be_db s) as (Some EmptyScope) [SyncOption syncOp] w
      in (w', set_env e s))"

text \<open>Neither creation nor update of an alias is validated.\<close>

definition CreateServiceAlias :: "service_alias \<Rightarrow> backend \<Rightarrow> error option \<times> backend" where
  "CreateServiceAlias a s =
     (case Writer (be_reg s) of
        Inl e \<Rightarrow> (Some (Wrap ''failed to get writer'' e), s)
      | Inr w \<Rightarrow>
          (let (w', s1) = syncServiceAliases w [a] SyncOpUpsert s
           in (None, process_alias a (be_commit w' s1))))"

definition UpdateServiceAlias :: "service_alias \<Rightarrow> backend \<Rightarrow> (error option \<times> backend) option" where
  "UpdateServiceAlias a s =
     (case Writer (be_reg s) of
        Inl e \<Rightarrow> Some (Some (Wrap ''failed to get writer'' e), s)
      | Inr w \<Rightarrow>
          (let (w', s1) = syncServiceAliases w [a] SyncOpUpsert s
           in do { (_, s2) \<leftarrow> RegenerateIEAgAgRulesForServiceAlias (self_id a) (process_alias a (be_commit w' s1));
                   Some (None, s2) }))"

fun regenerate_aliases :: "service_alias list \<Rightarrow> backend \<Rightarrow> backend option" where
  "regenerate_aliases [] s = Some s"
| "regenerate_aliases (a # as) s =
     do { (_, s1) \<leftarrow> RegenerateIEAgAgRulesForServiceAlias (self_id a) s; regenerate_aliases as s1 }"

definition SvcService_SyncServiceAliases ::
  "service_alias list \<Rightarrow> sync_op \<Rightarrow> backend \<Rightarrow> (error option \<times> backend) option"
where
  "SvcService_SyncServiceAliases as syncOp s =
     (case Writer (be_reg s) of
        Inl e \<Rightarrow> Some (Some (Wrap ''failed to get writer'' e), s)
      | Inr w \<Rightarrow>
          (let (w', s1) = syncServiceAliases w as syncOp s; s2 = be_commit w' s1
           in if syncOp = SyncOpDelete then Some (None, s2)
              else do { s3 \<leftarrow> regenerate_aliases as (fold process_alias as s2); Some (None, s3) }))"

definition SvcService_DeleteServiceAliasesByIDs ::
  "resource_identifier list \<Rightarrow> backend \<Rightarrow> error option \<times> backend"
where
  "SvcService_DeleteServiceAliasesByIDs ids s =
     (case Reader (be_reg s) of
        Inl e \<Rightarrow> (Some (Wrap ''failed to get reader for dependency validation'' e), s)
      | Inr rd \<Rightarrow>
     (case first_error (\<lambda>i. wrap_err (''cannot delete ServiceAlias '' @ rid_Key i)
             (ServiceAliasValidator_CheckDependencies (mem_reader rd) i)) ids of
        Some e \<Rightarrow> (Some e, s)
      | None \<Rightarrow>
     (case Writer (be_reg s) of
        Inl e \<Rightarrow> (Some (Wrap ''failed to get writer'' e), s)
      | Inr w \<Rightarrow> (None, be_commit (DeleteServiceAliasesByIDs (be_db s) ids w) s))))"

section \<open>The facade\<close>

definition NetguardFacade_Sync_Services :: "sync_op \<Rightarrow> service list \<Rightarrow> backend \<Rightarrow> error option \<times> backend" where
  "NetguardFacade_Sync_Services syncOp svcs = SvcService_SyncServices svcs syncOp"

definition NetguardFacade_Sync_ServiceAliases ::
  "sync_op \<Rightarrow> service_alias list \<Rightarrow> backend \<Rightarrow> (error option \<times> backend) option"
where
  "NetguardFacade_Sync_ServiceAliases syncOp as = SvcService_SyncServiceAliases as syncOp"

end
