(* ===== verification/MappingFacts.thy ===== *)
theory MappingFacts
  imports GeneratedMappings TableFrames NetworkFacts ServiceService
begin

text \<open>
  What requests on bindings and services leave in the tables of services, bindings and port
  mappings. A request is a sequence of transactions; each step is a lemma on the three tables,
  and \<^verbatim>\<open>TableFrames\<close> says that the rule service, which is notified last, keeps them.
\<close>

section \<open>The tables that requests on bindings change\<close>

abbreviation svs :: "backend \<Rightarrow> string \<rightharpoonup> service" where "svs s \<equiv> abs_table (GetServices (be_db s))"
abbreviation bnd :: "backend \<Rightarrow> string \<rightharpoonup> address_group_binding" where
  "bnd s \<equiv> abs_table (GetAddressGroupBindings (be_db s))"
abbreviation mps :: "backend \<Rightarrow> string \<rightharpoonup> address_group_port_mapping" where
  "mps s \<equiv> abs_table (GetAddressGroupPortMappings (be_db s))"

definition open_ok :: "backend \<Rightarrow> bool" where
  "open_ok s \<longleftrightarrow> \<not> reg_closed (be_reg s) \<and> table_ok (GetServices (be_db s)) \<and>
     table_ok (GetAddressGroupBindings (be_db s)) \<and> table_ok (GetAddressGroupPortMappings (be_db s))"

text \<open>What a step keeps apart from the tables: the registry stays open, the mutex and the batch as they are.\<close>

definition aside :: "backend \<Rightarrow> bool \<times> (string \<times> pending_resource) list \<times> bool" where
  "aside s = (be_mutexHeld s, be_pending s, eng_conditionManager (be_engine s))"

lemma backend_open:
  assumes "open_ok s"
  shows "Writer (be_reg s) = Inr empty_writer" "Reader (be_reg s) = Inr (committed (be_db s))"
    "\<exists>rd. ReaderFromWriter (be_reg s) empty_writer = Inr rd \<and> mem_reader rd = mem_reader (committed (be_db s))"
  using assms by (simp_all add: open_ok_def Writer_def Reader_def ReaderFromWriter_def fresh_writer_reader)

lemma other_tables:
  "GetServices (fst (Commit e db (fst (SyncAddressGroupBindings e' db' xs sc opts empty_writer)))) = GetServices db"
  "GetAddressGroupPortMappings (fst (Commit e db (fst (SyncAddressGroupBindings e' db' xs sc opts empty_writer)))) =
     GetAddressGroupPortMappings db"
  "GetServices (fst (Commit e db (fst (SyncAddressGroupPortMappings e' db' ms sc opts empty_writer)))) = GetServices db"
  "GetAddressGroupBindings (fst (Commit e db (fst (SyncAddressGroupPortMappings e' db' ms sc opts empty_writer)))) =
     GetAddressGroupBindings db"
  "GetAddressGroupBindings (fst (Commit e db (fst (SyncServices e' db' ss sc opts empty_writer)))) = GetAddressGroupBindings db"
  "GetAddressGroupPortMappings (fst (Commit e db (fst (SyncServices e' db' ss sc opts empty_writer)))) =
     GetAddressGroupPortMappings db"
  "GetServices (fst (Commit e db empty_writer)) = GetServices db"
  "GetAddressGroupBindings (fst (Commit e db empty_writer)) = GetAddressGroupBindings db"
  "GetAddressGroupPortMappings (fst (Commit e db empty_writer)) = GetAddressGroupPortMappings db"
  by (simp_all add: store_simps writer_method_defs working_def)

lemma committed_parts:
  "reg_closed (be_reg (be_commit w s)) = reg_closed (be_reg s)" "aside (be_commit w s) = aside s"
  "reg_closed (be_reg (set_env e s)) = reg_closed (be_reg s)" "aside (set_env e s) = aside s"
  by (simp_all add: be_commit_def aside_def set_env_def Let_def commit_writer_reg commit_writer_flag)

lemma binding_written:
  assumes "open_ok s"
  shows "\<exists>w s1. syncAddressGroupBindings empty_writer [b] SyncOpUpsert s = (Inr w, s1) \<and> open_ok (be_commit w s1) \<and>
    aside (be_commit w s1) = aside s \<and> svs (be_commit w s1) = svs s \<and> mps (be_commit w s1) = mps s \<and>
    bnd (be_commit w s1) = (bnd s)(Key b \<mapsto> payload b)"
  using assms
  by (auto simp: syncAddressGroupBindings_def split_beta open_ok_def be_commit_db other_tables agb.commit_upsert
      agb.commit_keeps_ok committed_parts)

text \<open>Writing one mapping; a full synchronisation drops all others.\<close>

definition stored_as :: "sync_op \<Rightarrow> string \<Rightarrow> 'v \<Rightarrow> (string \<rightharpoonup> 'v) \<Rightarrow> string \<rightharpoonup> 'v" where
  "stored_as syncOp k v t = (if syncOp = SyncOpFullSync then [k \<mapsto> v] else t(k \<mapsto> v))"

lemma upsert_stored: "stored_as SyncOpUpsert k v t = t(k \<mapsto> v)"
  by (simp add: stored_as_def sync_op_defs)

lemma write_mapping_as:
  fixes m :: address_group_port_mapping
  assumes "open_ok s" and "syncOp = SyncOpUpsert \<or> syncOp = SyncOpFullSync"
  defines "W \<equiv> syncAddressGroupPortMappings empty_writer [m] syncOp s"
  defines "s' \<equiv> be_commit (fst W) (snd W)"
  shows "open_ok s'" "aside s' = aside s" "svs s' = svs s" "bnd s' = bnd s"
    "mps s' = stored_as syncOp (Key m) (payload m) (mps s)"
  using assms(1,2) unfolding s'_def W_def
  by (auto simp: syncAddressGroupPortMappings_def split_beta open_ok_def be_commit_db other_tables stored_as_def
      agpm.commit_sync agpm.commit_keeps_ok committed_parts select_sync_op_def spec_sync_def scope_keys_def sync_op_defs)

lemma store_mapping_as:
  "store_mapping m w s = be_commit (fst (syncAddressGroupPortMappings w [m] SyncOpUpsert s))
     (snd (syncAddressGroupPortMappings w [m] SyncOpUpsert s))"
  by (simp add: store_mapping_def split_beta)

text \<open>Saving conditions replaces the one object.\<close>

lemma spec_one:
  "spec_sync SyncOpFullSync [Key x \<mapsto> payload x] (scope_keys (Some (NewResourceIdentifierScope [self_id x]))) m =
     m(Key x \<mapsto> payload x)"
  by (auto simp: spec_sync_def scope_keys_def NewResourceIdentifierScope_def Key_self_id [symmetric])

lemma save_mapping:
  fixes m :: address_group_port_mapping
  assumes "open_ok s"
  defines "s' \<equiv> snd (saveAddressGroupPortMappingConditions m s)"
  shows "open_ok s'" "aside s' = aside s" "svs s' = svs s" "bnd s' = bnd s" "mps s' = (mps s)(Key m \<mapsto> payload m)"
  using assms(1) unfolding s'_def
  by (auto simp: saveAddressGroupPortMappingConditions_def save_conditions_def save_with_def backend_open split_beta
      open_ok_def be_commit_db other_tables agpm.commit_sync agpm.commit_keeps_ok committed_parts spec_one)

lemma save_binding:
  fixes b :: address_group_binding
  assumes "open_ok s"
  defines "s' \<equiv> snd (saveAddressGroupBindingConditions b s)"
  shows "open_ok s'" "aside s' = aside s" "svs s' = svs s" "mps s' = mps s" "bnd s' = (bnd s)(Key b \<mapsto> payload b)"
  using assms(1) unfolding s'_def
  by (auto simp: saveAddressGroupBindingConditions_def save_conditions_def save_with_def backend_open split_beta
      open_ok_def be_commit_db other_tables agb.commit_sync agb.commit_keeps_ok committed_parts spec_one)

lemma env_parts: "open_ok (set_env e s) = open_ok s"
  by (simp add: open_ok_def committed_parts)

lemma payload_meta: "payload (x\<lparr>Meta := m\<rparr>) = payload x" "Key (x\<lparr>Meta := m\<rparr>) = Key x"
  by (simp_all add: payload_def Key_def)

lemma conditions_of_mapping:
  fixes m :: address_group_port_mapping
  assumes "open_ok s"
  defines "s' \<equiv> snd (ProcessAddressGroupPortMappingConditions m s)"
  shows "open_ok s' \<and> aside s' = aside s \<and> svs s' = svs s \<and> bnd s' = bnd s \<and>
    (mps s' = mps s \<or> mps s' = (mps s)(Key m \<mapsto> payload m))"
proof -
  obtain e where e: "s' = (if port_mapping_ready (be_reader s) m
      then snd (saveAddressGroupPortMappingConditions (snd (fst (ProcessAddressGroupPortMappingConditions m s))) (set_env e s))
      else set_env e s)"
    using agpm_check.process_state [of s _ _ "\<lambda>x s. snd (saveAddressGroupPortMappingConditions x s)" m] assms(1)
    unfolding s'_def ProcessAddressGroupPortMappingConditions_def open_ok_def by blast
  obtain mt where "snd (fst (ProcessAddressGroupPortMappingConditions m s)) = m\<lparr>Meta := mt\<rparr>"
    using agpm_check.object_kept unfolding ProcessAddressGroupPortMappingConditions_def by blast
  with e assms(1) save_mapping [of "set_env e s" "m\<lparr>Meta := mt\<rparr>"] show ?thesis
    by (simp add: env_parts committed_parts payload_meta)
qed

lemma conditions_of_binding:
  fixes b :: address_group_binding
  assumes "open_ok s" and "bnd s (Key b) = Some (payload b)"
  defines "s' \<equiv> process_group_binding b s"
  shows "open_ok s' \<and> aside s' = aside s \<and> svs s' = svs s \<and> bnd s' = bnd s \<and> mps s' = mps s"
proof -
  let ?s = "snd (ProcessAddressGroupBindingConditions b s)"
  obtain e where e: "?s = (if binding_ready (be_reader s) b
      then snd (saveAddressGroupBindingConditions (snd (fst (ProcessAddressGroupBindingConditions b s))) (set_env e s))
      else set_env e s)"
    using agb_check.process_state [of s _ _ "\<lambda>x s. snd (saveAddressGroupBindingConditions x s)" b] assms(1)
    unfolding ProcessAddressGroupBindingConditions_def open_ok_def by blast
  obtain mt where "snd (fst (ProcessAddressGroupBindingConditions b s)) = b\<lparr>Meta := mt\<rparr>"
    using agb_check.object_kept unfolding ProcessAddressGroupBindingConditions_def by blast
  with e assms save_binding [of "set_env e s" "b\<lparr>Meta := mt\<rparr>"] show ?thesis
    by (simp add: process_group_binding_def env_parts committed_parts payload_meta fun_upd_idem)
qed

section \<open>Steps of the requests\<close>

lemma exact_payload: "exact_mapping A i (payload m) = exact_mapping A i m"
  by (simp add: exact_mapping_def payload_def)

lemma exact_key: "exact_mapping A i m \<Longrightarrow> Key m = rid_Key i"
  by (simp add: exact_mapping_def Key_def rid_Key_def)

lemma generate_now:
  assumes "open_ok s"
  defines "A \<equiv> \<lambda>i. exposed (svs s) (bnd s) i"
  shows "\<not> overlapping (A i) \<Longrightarrow>
      \<exists>m. generateCompleteAddressGroupPortMapping (mem_reader (committed (be_db s))) i = Inr m \<and> exact_mapping (A i) i m"
    and "overlapping (A i) \<Longrightarrow> \<exists>e. generateCompleteAddressGroupPortMapping (mem_reader (committed (be_db s))) i = Inl e"
  using generate_cases [of "be_db s" i] assms by (auto simp: open_ok_def)

text \<open>Writing the mapping of a group and processing its conditions.\<close>

lemma write_and_process:
  fixes m :: address_group_port_mapping and c :: bool
  assumes op: "syncOp = SyncOpUpsert \<or> syncOp = SyncOpFullSync"
    and "open_ok s" and m: "exact_mapping A i m" and m': "exact_mapping A i m'"
  defines "W \<equiv> syncAddressGroupPortMappings empty_writer [m] syncOp s"
  defines "s' \<equiv> be_commit (fst W) (snd W)"
  defines "s'' \<equiv> (if c then snd (ProcessAddressGroupPortMappingConditions m' s') else s')"
  shows "open_ok s'' \<and> aside s'' = aside s \<and> svs s'' = svs s \<and> bnd s'' = bnd s \<and>
    (\<exists>m. exact_mapping A i m \<and> mps s'' = stored_as syncOp (rid_Key i) m (mps s))"
proof -
  note w = write_mapping_as [OF assms(2) op, of m, folded W_def, folded s'_def]
  note p = conditions_of_mapping [OF w(1), of m']
  have "mps s'' = mps s' \<or> mps s'' = (mps s')(rid_Key i \<mapsto> payload m')"
    using p exact_key [OF m'] by (auto simp: s''_def)
  moreover have "mps s' = stored_as syncOp (rid_Key i) (payload m) (mps s)" using w(5) exact_key [OF m] by simp
  moreover have "(stored_as syncOp k u t)(k \<mapsto> v) = stored_as syncOp k v t" for k t and u v :: address_group_port_mapping
    by (simp add: stored_as_def)
  ultimately have "\<exists>m. exact_mapping A i m \<and> mps s'' = stored_as syncOp (rid_Key i) m (mps s)"
    using m m' exact_payload by metis
  with w p show ?thesis by (auto simp: s''_def)
qed

lemmas sync_mapping_defs =
  service_SyncAddressGroupPortMappings_def SyncAddressGroupPortMappingsWithSyncOp_def
  SyncAddressGroupPortMappingsWithWriter_def SyncAddressGroupPortMappingsWithWriterAndReader_def

lemma sync_group_mapping:
  fixes b :: address_group_binding
  assumes ok: "open_ok s" and op: "syncOp = SyncOpUpsert \<or> syncOp = SyncOpFullSync"
  defines "i \<equiv> ref_id (agb_AddressGroupRef b)"
  defines "A \<equiv> exposed (svs s) (bnd s) i"
  defines "s' \<equiv> snd (SyncAddressGroupPortMappingsWithSyncOp b syncOp s)"
  shows "open_ok s' \<and> aside s' = aside s \<and> svs s' = svs s \<and> bnd s' = bnd s \<and>
    (if overlapping A then mps s' = mps s
     else \<exists>m. exact_mapping A i m \<and> mps s' = stored_as syncOp (rid_Key i) m (mps s))"
proof (cases "overlapping A")
  case True
  let ?s = "be_commit empty_writer s"
  have w: "open_ok ?s" "aside ?s = aside s" "svs ?s = svs s" "bnd ?s = bnd s" "mps ?s = mps s"
    using ok by (auto simp: open_ok_def be_commit_db other_tables committed_parts)
  obtain e e' where "generateCompleteAddressGroupPortMapping (mem_reader (committed (be_db s))) i = Inl e"
    "generateCompleteAddressGroupPortMapping (mem_reader (committed (be_db ?s))) i = Inl e'"
    using generate_now(2) [OF ok, of i] generate_now(2) [OF w(1), of i] w True by (auto simp: A_def)
  then have "s' = ?s"
    using backend_open [OF ok] backend_open [OF w(1)] op
    by (auto simp: s'_def sync_mapping_defs generateAddressGroupPortMapping_def i_def split_beta Let_def sync_op_defs)
  with w True show ?thesis by simp
next
  case False
  then obtain m where m: "generateCompleteAddressGroupPortMapping (mem_reader (committed (be_db s))) i = Inr m"
    "exact_mapping A i m" using generate_now(1) [OF ok, of i] by (auto simp: A_def)
  let ?W = "syncAddressGroupPortMappings empty_writer [m] syncOp s"
  let ?s = "be_commit (fst ?W) (snd ?W)"
  note w = write_mapping_as [OF ok op, of m]
  obtain m' where m': "generateCompleteAddressGroupPortMapping (mem_reader (committed (be_db ?s))) i = Inr m'"
    "exact_mapping A i m'" using generate_now(1) [OF w(1), of i] w False by (auto simp: A_def)
  have "s' = (if eng_conditionManager (be_engine ?s) then snd (ProcessAddressGroupPortMappingConditions m' ?s) else ?s)"
    using backend_open [OF ok] backend_open [OF w(1)] m(1) m'(1) op
    by (auto simp: s'_def sync_mapping_defs generateAddressGroupPortMapping_def i_def split_beta Let_def sync_op_defs)
  with write_and_process [OF op ok m(2) m'(2)] False show ?thesis by auto
qed

lemma synchronize_service:
  fixes i :: resource_identifier
  assumes ok: "open_ok s"
  defines "s' \<equiv> snd (synchronizeServiceAddressGroups i s)"
  shows "open_ok s' \<and> aside s' = aside s \<and> mps s' = mps s \<and> bnd s' = bnd s \<and>
    (if svs s (rid_Key i) = None then svs s' = svs s else \<exists>svc. svs s' = [rid_Key i \<mapsto> svc])"
proof (cases "map_of (stored_services (be_db s)) (rid_Key i)")
  case None
  with ok show ?thesis
    by (simp add: s'_def synchronizeServiceAddressGroups_def backend_open get_stored_service open_ok_def
        stored_service_lookup abs_table_def)
next
  case (Some svc)
  have k: "Key svc = rid_Key i" using stored_service_keys [OF _ Some] ok by (simp add: open_ok_def)
  have "s' = (let W = SyncServices (be_env s) (be_db s) [svc] (Some EmptyScope) [] empty_writer
      in be_commit (fst W) (set_env (snd W) s))"
    using Some ok
    by (simp add: s'_def synchronizeServiceAddressGroups_def backend_open get_stored_service open_ok_def split_beta Let_def)
  with ok k Some show ?thesis
    by (auto simp: Let_def open_ok_def be_commit_db other_tables committed_parts svc.commit_keeps_ok svc.commit_sync
        select_sync_op_def spec_sync_def scope_keys_def stored_service_lookup abs_table_def)
qed

lemma notified:
  assumes "notify_binding b s = Some (x, s')"
  shows "mps s' = mps s" "bnd s' = bnd s"
    "\<forall>p\<in>snd ` set (be_pending s). \<nexists>svc. p = PendingService svc \<Longrightarrow> svs s' = svs s"
  using mapping_frame.frame_notify_binding [OF assms, unfolded mapping_frame.frame_def mapping_frame.calm_def mapping_frame.etbl_def]
    binding_frame.frame_notify_binding [OF assms, unfolded binding_frame.frame_def binding_frame.calm_def binding_frame.etbl_def]
    service_frame.frame_notify_binding [OF assms, unfolded service_frame.frame_def service_frame.calm_def service_frame.etbl_def]
  by simp_all

section \<open>Creating a binding\<close>

lemma create_binding:
  fixes b :: address_group_binding
  assumes ok: "open_ok s" and mutex: "\<not> be_mutexHeld s"
    and valid: "AddressGroupBindingValidator_ValidateForCreation (mem_reader (committed (be_db s))) b = None"
  defines "i \<equiv> ref_id (agb_AddressGroupRef b)" and "bs \<equiv> (bnd s)(Key b \<mapsto> payload b)"
  defines "A \<equiv> exposed (svs s) bs i"
  shows "\<exists>s'. CreateAddressGroupBinding b s = Some (None, s') \<and> bnd s' = bs \<and>
    (if overlapping A then mps s' = mps s else \<exists>m. exact_mapping A i m \<and> mps s' = (mps s)(rid_Key i \<mapsto> m)) \<and>
    ((\<forall>p\<in>snd ` set (be_pending s). \<nexists>svc. p = PendingService svc) \<longrightarrow>
     (if svs s (agb_ServiceRefKey b) = None then svs s' = svs s else \<exists>svc. svs s' = [agb_ServiceRefKey b \<mapsto> svc]))"
proof -
  obtain w s1 where 1: "syncAddressGroupBindings empty_writer [b] SyncOpUpsert s = (Inr w, s1)"
    "open_ok (be_commit w s1)" "aside (be_commit w s1) = aside s" "svs (be_commit w s1) = svs s"
    "mps (be_commit w s1) = mps s" "bnd (be_commit w s1) = bs"
    using binding_written [OF ok, of b] by (auto simp: bs_def)
  define s2 where "s2 = snd (service_SyncAddressGroupPortMappings b (be_commit w s1))"
  have 2: "open_ok s2 \<and> aside s2 = aside s \<and> svs s2 = svs s \<and> bnd s2 = bs \<and>
      (if overlapping A then mps s2 = mps s else \<exists>m. exact_mapping A i m \<and> mps s2 = (mps s)(rid_Key i \<mapsto> m))"
    unfolding s2_def A_def i_def service_SyncAddressGroupPortMappings_def
    by (rule sync_group_mapping [OF 1(2) disjI1 [OF refl], of b, unfolded 1(3-6) upsert_stored])
  define s3 where "s3 = process_group_binding b s2"
  have 3: "open_ok s3 \<and> aside s3 = aside s \<and> svs s3 = svs s \<and> bnd s3 = bs \<and> mps s3 = mps s2"
    using conditions_of_binding [of s2 b] 2 by (simp add: s3_def bs_def)
  define s4 where "s4 = snd (synchronizeServiceAddressGroups (ref_id (agb_ServiceRef b)) s3)"
  have 4: "aside s4 = aside s \<and> bnd s4 = bs \<and> mps s4 = mps s2 \<and>
      (if svs s (agb_ServiceRefKey b) = None then svs s4 = svs s else \<exists>svc. svs s4 = [agb_ServiceRefKey b \<mapsto> svc])"
    using synchronize_service [of s3 "ref_id (agb_ServiceRef b)"] 3
    by (simp add: s4_def agb_ServiceRefKey_def method_RefKey_eq)
  then obtain s' where s': "notify_binding b s4 = Some (None, s')"
    using notify_binding_returns [of s4 b] mutex by (auto simp: aside_def)
  have "CreateAddressGroupBinding b s = Some (None, s')"
    using s' valid 1(1) backend_open [OF ok]
    by (auto simp: CreateAddressGroupBinding_def Let_def s2_def s3_def s4_def)
  moreover have "be_pending s4 = be_pending s" using 4 by (simp add: aside_def)
  ultimately show ?thesis using notified [OF s'] 4 2 by auto
qed

section \<open>Regeneration\<close>

lemma regenerate_group:
  assumes ok: "open_ok s"
  shows "overlapping (exposed (svs s) (bnd s) i) \<Longrightarrow>
      \<exists>e. RegeneratePortMappingsForAddressGroup i s = (Some e, s)"
    and "\<not> overlapping (exposed (svs s) (bnd s) i) \<Longrightarrow>
      \<exists>s'. RegeneratePortMappingsForAddressGroup i s = (None, s') \<and>
        open_ok s' \<and> aside s' = aside s \<and> svs s' = svs s \<and> bnd s' = bnd s \<and>
        (\<exists>m. exact_mapping (exposed (svs s) (bnd s) i) i m \<and> mps s' = (mps s)(rid_Key i \<mapsto> m))"
proof -
  assume "overlapping (exposed (svs s) (bnd s) i)"
  then show "\<exists>e. RegeneratePortMappingsForAddressGroup i s = (Some e, s)"
    using generate_now(2) [OF ok, of i] by (auto simp: RegeneratePortMappingsForAddressGroup_def backend_open [OF ok])
next
  assume "\<not> overlapping (exposed (svs s) (bnd s) i)"
  then obtain m where m: "generateCompleteAddressGroupPortMapping (mem_reader (committed (be_db s))) i = Inr m"
    "exact_mapping (exposed (svs s) (bnd s) i) i m" using generate_now(1) [OF ok, of i] by auto
  let ?W = "syncAddressGroupPortMappings empty_writer [m] SyncOpUpsert s"
  let ?s = "be_commit (fst ?W) (snd ?W)"
  have "RegeneratePortMappingsForAddressGroup i s = (None, process_mapping m ?s)"
    using m(1) by (simp add: RegeneratePortMappingsForAddressGroup_def backend_open [OF ok] store_mapping_as)
  moreover have "open_ok (process_mapping m ?s) \<and> aside (process_mapping m ?s) = aside s \<and>
      svs (process_mapping m ?s) = svs s \<and> bnd (process_mapping m ?s) = bnd s \<and>
      (\<exists>m'. exact_mapping (exposed (svs s) (bnd s) i) i m' \<and> mps (process_mapping m ?s) = (mps s)(rid_Key i \<mapsto> m'))"
    using write_and_process [OF disjI1 [OF refl] ok m(2) m(2)] unfolding process_mapping_def upsert_stored by simp
  ultimately show "\<exists>s'. RegeneratePortMappingsForAddressGroup i s = (None, s') \<and>
        open_ok s' \<and> aside s' = aside s \<and> svs s' = svs s \<and> bnd s' = bnd s \<and>
        (\<exists>m. exact_mapping (exposed (svs s) (bnd s) i) i m \<and> mps s' = (mps s)(rid_Key i \<mapsto> m))" by blast
qed

text \<open>Group after group; of groups with one key the last one counts.\<close>

lemma regenerate_each_groups:
  assumes "open_ok s" and "regenerate_each what rs s = (None, s')"
  shows "open_ok s' \<and> aside s' = aside s \<and> svs s' = svs s \<and> bnd s' = bnd s \<and>
    (\<forall>k. if k \<in> (\<lambda>r. rid_Key (ref_id r)) ` set rs
         then \<exists>r\<in>set rs. rid_Key (ref_id r) = k \<and>
           (\<exists>m. mps s' k = Some m \<and> exact_mapping (exposed (svs s) (bnd s) (ref_id r)) (ref_id r) m)
         else mps s' k = mps s k)"
  using assms
proof (induction rs arbitrary: s)
  case (Cons r rs)
  obtain s1 where s1: "RegeneratePortMappingsForAddressGroup (ref_id r) s = (None, s1)" "regenerate_each what rs s1 = (None, s')"
    using Cons.prems(2) by (auto split: prod.splits option.splits)
  with regenerate_group [OF Cons.prems(1), of "ref_id r"] obtain m where m:
    "open_ok s1" "aside s1 = aside s" "svs s1 = svs s" "bnd s1 = bnd s"
    "exact_mapping (exposed (svs s) (bnd s) (ref_id r)) (ref_id r) m" "mps s1 = (mps s)(rid_Key (ref_id r) \<mapsto> m)"
    by fastforce
  note IH = Cons.IH [OF m(1) s1(2), unfolded m(2-4)]
  show ?case
  proof (intro conjI allI)
    fix k
    show "if k \<in> (\<lambda>r. rid_Key (ref_id r)) ` set (r # rs)
      then \<exists>r\<in>set (r # rs). rid_Key (ref_id r) = k \<and>
        (\<exists>m. mps s' k = Some m \<and> exact_mapping (exposed (svs s) (bnd s) (ref_id r)) (ref_id r) m)
      else mps s' k = mps s k"
    proof (cases "k \<in> (\<lambda>r. rid_Key (ref_id r)) ` set rs")
      case True
      with IH show ?thesis by auto
    next
      case False
      with IH have "mps s' k = mps s1 k" by simp
      with m(5,6) False show ?thesis by auto
    qed
  qed (use IH in simp_all)
qed simp

section \<open>Synchronising all bindings\<close>

lemma bindings_written:
  assumes "open_ok s" and "length bs = 1 \<or> (\<forall>b\<in>set bs. check_batch_binding (mem_reader (committed (be_db s))) b = None)"
  shows "\<exists>w s1. syncAddressGroupBindings empty_writer bs SyncOpFullSync s = (Inr w, s1) \<and> open_ok (be_commit w s1) \<and>
    aside (be_commit w s1) = aside s \<and> svs (be_commit w s1) = svs s \<and> bnd (be_commit w s1) = abs_batch bs"
proof -
  obtain rd where "ReaderFromWriter (be_reg s) empty_writer = Inr rd" "mem_reader rd = mem_reader (committed (be_db s))"
    using backend_open(3) [OF assms(1)] by blast
  moreover have "first_error (check_batch_binding (mem_reader (committed (be_db s)))) bs = None" if "length bs \<noteq> 1"
    using assms(2) that by simp
  ultimately have "syncAddressGroupBindings empty_writer bs SyncOpFullSync s =
      (let W = SyncAddressGroupBindings (be_env s) (be_db s) bs (Some EmptyScope) [SyncOption SyncOpFullSync] empty_writer
       in (Inr (fst W), set_env (snd W) s))"
    by (cases "length bs = 1") (simp_all add: syncAddressGroupBindings_def split_beta Let_def del: first_error_None_iff)
  with assms(1) show ?thesis
    by (auto simp: Let_def open_ok_def be_commit_db other_tables agb.commit_sync
        agb.commit_keeps_ok committed_parts select_sync_op_def spec_sync_def scope_keys_def)
qed

lemma sync_all_mappings:
  assumes "open_ok s"
  defines "f \<equiv> \<lambda>b s. snd (SyncAddressGroupPortMappingsWithSyncOp b SyncOpFullSync s)"
  shows "open_ok (fold f bs s) \<and> aside (fold f bs s) = aside s \<and> svs (fold f bs s) = svs s \<and> bnd (fold f bs s) = bnd s"
  using assms(1)
proof (induction bs arbitrary: s)
  case (Cons b bs)
  note step = sync_group_mapping [OF Cons.prems disjI2 [OF refl], of b, folded f_def]
  with Cons.IH [of "f b s"] show ?case unfolding f_def by simp
qed simp

lemma conditions_of_any_binding:
  assumes "open_ok s"
  shows "open_ok (process_group_binding b s) \<and> aside (process_group_binding b s) = aside s \<and>
    mps (process_group_binding b s) = mps s"
proof -
  obtain e where e: "snd (ProcessAddressGroupBindingConditions b s) = (if binding_ready (be_reader s) b
      then snd (saveAddressGroupBindingConditions (snd (fst (ProcessAddressGroupBindingConditions b s))) (set_env e s))
      else set_env e s)"
    using agb_check.process_state [of s _ _ "\<lambda>x s. snd (saveAddressGroupBindingConditions x s)" b] assms(1)
    unfolding ProcessAddressGroupBindingConditions_def open_ok_def by blast
  then show ?thesis
    using assms save_binding(1,2,4) [of "set_env e s"] by (simp add: process_group_binding_def env_parts committed_parts)
qed

lemma conditions_of_bindings:
  "open_ok s \<Longrightarrow> open_ok (fold process_group_binding bs s) \<and> aside (fold process_group_binding bs s) = aside s \<and>
    mps (fold process_group_binding bs s) = mps s"
  by (induction bs arbitrary: s) (simp_all add: conditions_of_any_binding)

lemma synchronize_services:
  "open_ok s \<Longrightarrow> open_ok (synchronize_all is s) \<and> aside (synchronize_all is s) = aside s \<and> mps (synchronize_all is s) = mps s"
  unfolding synchronize_all_def
  by (induction "is" arbitrary: s) (simp_all add: split_beta synchronize_service)

lemma full_sync:
  fixes b :: address_group_binding
  assumes ok: "open_ok s" and mutex: "\<not> be_mutexHeld s"
    and valid: "bs = [] \<or> (\<forall>x\<in>set (bs @ [b]). check_batch_binding (mem_reader (committed (be_db s))) x = None)"
  defines "i \<equiv> ref_id (agb_AddressGroupRef b)"
  defines "A \<equiv> exposed (svs s) (abs_batch (bs @ [b])) i"
  assumes free: "\<not> overlapping A"
  shows "\<exists>s' m. AGService_SyncAddressGroupBindings (bs @ [b]) SyncOpFullSync s = Some (None, s') \<and>
    exact_mapping A i m \<and> mps s' = [rid_Key i \<mapsto> m]"
proof -
  let ?bs = "bs @ [b]"
  obtain w s1 where 1: "syncAddressGroupBindings empty_writer ?bs SyncOpFullSync s = (Inr w, s1)"
    "open_ok (be_commit w s1)" "aside (be_commit w s1) = aside s" "svs (be_commit w s1) = svs s"
    "bnd (be_commit w s1) = abs_batch ?bs"
    using bindings_written [OF ok, of ?bs] valid by auto
  define f where "f = (\<lambda>b s. snd (SyncAddressGroupPortMappingsWithSyncOp b SyncOpFullSync s))"
  note before = sync_all_mappings [OF 1(2), of bs, folded f_def, unfolded 1(3-5)]
  then have "open_ok (fold f bs (be_commit w s1))" by simp
  note last = sync_group_mapping [OF this disjI2 [OF refl], of b, folded f_def]
  define s2 where "s2 = fold f ?bs (be_commit w s1)"
  have 2: "open_ok s2" "aside s2 = aside s" "\<exists>m. exact_mapping A i m \<and> mps s2 = [rid_Key i \<mapsto> m]"
    using last before free by (auto simp: s2_def A_def i_def f_def stored_as_def)
  define s3 where "s3 = synchronize_all (bound_service_ids ?bs []) (fold process_group_binding ?bs s2)"
  have 3: "aside s3 = aside s" "mps s3 = mps s2"
    using conditions_of_bindings [OF 2(1), of ?bs] synchronize_services 2 by (auto simp: s3_def)
  then obtain s' where s': "notify_all (bound_service_ids ?bs []) s3 = Some s'"
    using notify_all_returns [of s3] mutex by (auto simp: aside_def)
  have "AGService_SyncAddressGroupBindings ?bs SyncOpFullSync s = Some (None, s')"
    using s' 1(1) backend_open [OF ok]
    by (simp add: AGService_SyncAddressGroupBindings_def Let_def s3_def s2_def f_def sync_op_defs)
  moreover have "mps s' = mps s3"
    using mapping_frame.frame_notify_all [OF s', unfolded mapping_frame.frame_def mapping_frame.calm_def mapping_frame.etbl_def] by simp
  ultimately show ?thesis using 2(3) 3(2) by auto
qed

text \<open>A synchronisation that adds one binding, as the gRPC service requests it; the registry stays open.\<close>

lemma upsert_binding:
  fixes b :: address_group_binding
  assumes ok: "open_ok s" and mutex: "\<not> be_mutexHeld s"
  defines "i \<equiv> ref_id (agb_AddressGroupRef b)" and "bs \<equiv> (bnd s)(Key b \<mapsto> payload b)"
  defines "A \<equiv> exposed (svs s) bs i"
  shows "\<exists>s'. AGService_SyncAddressGroupBindings [b] SyncOpUpsert s = Some (None, s') \<and> \<not> reg_closed (be_reg s') \<and>
    bnd s' = bs \<and>
    (if overlapping A then mps s' = mps s else \<exists>m. exact_mapping A i m \<and> mps s' = (mps s)(rid_Key i \<mapsto> m))"
proof -
  obtain w s1 where 1: "syncAddressGroupBindings empty_writer [b] SyncOpUpsert s = (Inr w, s1)"
    "open_ok (be_commit w s1)" "aside (be_commit w s1) = aside s" "svs (be_commit w s1) = svs s"
    "mps (be_commit w s1) = mps s" "bnd (be_commit w s1) = bs"
    using binding_written [OF ok, of b] by (auto simp: bs_def)
  define s2 where "s2 = snd (SyncAddressGroupPortMappingsWithSyncOp b SyncOpUpsert (be_commit w s1))"
  have 2: "open_ok s2" "aside s2 = aside s" "bnd s2 = bs"
    "if overlapping A then mps s2 = mps s else \<exists>m. exact_mapping A i m \<and> mps s2 = (mps s)(rid_Key i \<mapsto> m)"
    using sync_group_mapping [OF 1(2) disjI1 [OF refl], of b, unfolded 1(3-6) upsert_stored]
    by (simp_all add: s2_def A_def i_def)
  define s3 where "s3 = synchronize_all (bound_service_ids [b] []) (process_group_binding b s2)"
  have 3: "open_ok s3" "aside s3 = aside s" "bnd s3 = bs" "mps s3 = mps s2"
    using conditions_of_binding [OF 2(1), of b] 2(2,3) synchronize_service [of "process_group_binding b s2"]
    by (auto simp: s3_def synchronize_all_def bound_service_ids_def bs_def)
  then obtain s' where s': "notify_all (bound_service_ids [b] []) s3 = Some s'"
    using notify_all_returns [of s3] mutex by (auto simp: aside_def)
  have "AGService_SyncAddressGroupBindings [b] SyncOpUpsert s = Some (None, s')"
    using s' 1(1) backend_open [OF ok]
    by (simp add: AGService_SyncAddressGroupBindings_def Let_def s3_def s2_def sync_op_defs)
  moreover have "mps s' = mps s3" "bnd s' = bnd s3" "reg_closed (be_reg s') = reg_closed (be_reg s3)"
    using mapping_frame.frame_notify_all [OF s', unfolded mapping_frame.frame_def mapping_frame.calm_def mapping_frame.etbl_def]
      binding_frame.frame_notify_all [OF s', unfolded binding_frame.frame_def binding_frame.calm_def binding_frame.etbl_def]
    by simp_all
  ultimately show ?thesis using 2(4) 3 by (auto simp: open_ok_def)
qed

section \<open>Deleting a service\<close>

lemma group_of_binding:
  assumes ok: "table_ok (GetAddressGroupBindings db)" and b: "b \<in> ran (abs_table (GetAddressGroupBindings db))"
  shows "\<exists>r\<in>set (bound_groups (GetAddressGroupBindings db) (agb_ServiceRefKey b)). ref_id r = ref_id (agb_AddressGroupRef b)"
proof -
  obtain b' where b': "b' \<in> snd ` set (GetAddressGroupBindings db)" "b = payload b'"
    using b ok by (auto simp: ran_abs_table table_ok_def)
  let ?r = "NewAddressGroupRef (ref_Name (agb_AddressGroupRef b')) [WithNamespace (ref_Namespace (agb_AddressGroupRef b'))]"
  have "?r \<in> set (bound_groups (GetAddressGroupBindings db) (agb_ServiceRefKey b))"
    using b' by (force simp: bound_groups_def)
  moreover have "ref_id ?r = ref_id (agb_AddressGroupRef b)"
    using b'(2) by (simp add: NewAddressGroupRef_def ref_id_def)
  ultimately show ?thesis by blast
qed

text \<open>A service is in each group that its bindings name.\<close>

lemma exposed_member:
  assumes "table_ok (GetAddressGroupBindings db)" and "services k = Some svc" and "Key svc = k"
    and "r \<in> set (bound_groups (GetAddressGroupBindings db) k)"
  shows "svc \<in> exposed services (abs_table (GetAddressGroupBindings db)) (ref_id r)"
proof -
  obtain b where b: "b \<in> snd ` set (GetAddressGroupBindings db)" "agb_ServiceRefKey b = k"
    "r = NewAddressGroupRef (ref_Name (agb_AddressGroupRef b)) [WithNamespace (ref_Namespace (agb_AddressGroupRef b))]"
    using assms(4) by (force simp: bound_groups_def)
  then have "payload b \<in> ran (abs_table (GetAddressGroupBindings db))"
    using assms(1) by (simp add: ran_abs_table table_ok_def)
  moreover have "targets_group (ref_id r) (agb_AddressGroupRef b)"
    using b(3) by (simp add: targets_group_def ref_id_def NewAddressGroupRef_def)
  ultimately have "\<exists>b\<in>ran (abs_table (GetAddressGroupBindings db)).
      targets_group (ref_id r) (agb_AddressGroupRef b) \<and> agb_ServiceRefKey b = Key svc"
    using b(2) assms(3) by (intro bexI [of _ "payload b"]) simp_all
  with assms(2) show ?thesis by (auto simp: exposed_alt intro: ranI)
qed

lemma delete_service:
  assumes ok: "open_ok s" and deleted: "SvcService_DeleteServicesByIDs [i] s = (None, s')"
    and svc: "svs s (rid_Key i) = Some svc" and b: "b \<in> ran (bnd s)" "agb_ServiceRefKey b = rid_Key i"
  shows "svs s' = (svs s)(rid_Key i := None) \<and>
    (\<exists>m es. mps s' (rid_Key (ref_id (agb_AddressGroupRef b))) = Some m \<and> agpm_AccessPorts m = Some es \<and>
      service_ref svc \<in> fst ` set es)"
proof -
  let ?B = "GetAddressGroupBindings (be_db s)"
  have t: "table_ok (GetServices (be_db s))" "table_ok ?B" using ok by (simp_all add: open_ok_def)
  obtain x where x: "map_of (GetServices (be_db s)) (rid_Key i) = Some x" "svc = payload x"
    using svc by (auto simp: abs_table_def)
  then have key: "Key svc = rid_Key i" "Key x = rid_Key i" using table_ok_lookup [OF t(1)] by auto
  have get: "mem_GetServiceByID (committed (be_db s)) i = Inr (with_bound_groups ?B x)"
    by (simp add: get_stored_service [OF t(1)] stored_service_lookup x(1))
  let ?gs = "bound_groups ?B (rid_Key i)"
  obtain r where r: "r \<in> set ?gs" "ref_id r = ref_id (agb_AddressGroupRef b)"
    using group_of_binding [OF t(2) b(1)] b(2) by auto
  obtain s1 where s1: "regenerate_each ''failed to regenerate port mappings for address group '' ?gs s = (None, s1)"
    "s' = be_commit (DeleteServicesByIDs (be_db s1) [i] empty_writer) s1"
    using deleted r(1) key(2)
    by (auto simp: SvcService_DeleteServicesByIDs_def backend_open [OF ok] get syncPortMappingsForServiceSpecAGs_def
        with_bound_groups_def Writer_def split: option.splits prod.splits sum.splits if_splits)
  note reg = regenerate_each_groups [OF ok s1(1)]
  then obtain r' m where r': "r' \<in> set ?gs" "mps s1 (rid_Key (ref_id r)) = Some m"
    "exact_mapping (exposed (svs s) (bnd s) (ref_id r')) (ref_id r') m"
    using r(1) by (metis (no_types, lifting) image_eqI)
  then obtain es where "agpm_AccessPorts m = Some es" "service_ref svc \<in> fst ` set es"
    using exposed_member [OF t(2), of "svs s" "rid_Key i" svc r'] svc key(1) r'(1) by (auto simp: exact_mapping_def publishes_def)
  moreover have "svs s' = (svs s)(rid_Key i := None)" "mps s' = mps s1"
    using reg by (simp_all add: s1(2) be_commit_db svc.commit_delete)
      (simp add: store_simps writer_method_defs working_def)
  ultimately show ?thesis using r(2) r'(2) by auto
qed

end
