(* ===== verification/MappingProperties.thy ===== *)
theory MappingProperties
  imports MappingFacts ConditionProperties "HOL-Library.Multiset"
begin

text \<open>
  The properties of port mappings: what the generated mapping of a group lists, what the requests
  on bindings and services make of the stored mappings, and when the ports of a service count as
  changed.
\<close>

section \<open>A concrete state\<close>

text \<open>
  Two services on different ports and two bindings, each of another service: one is stored, the
  other one is not. Another database holds two services with the same port in one group.
\<close>

definition ex_map_db :: "string \<Rightarrow> mem_db" where
  "ex_map_db port = NewMemDB\<lparr>
     db_services := [(''app/web'', ex_service ''web'' [] [''80'']), (''app/api'', ex_service ''api'' [] [port])],
     db_addressGroups := [(''app/front'', ex_group ''front''), (''app/back'', ex_group ''back'')],
     db_addressGroupBindings := [(''app/b1'', ex_binding ''b1'' ''api'' ''front'')]\<rparr>"

definition ex_map_state :: backend where
  "ex_map_state = ex_backend (ex_map_db ''8080'')"

lemma ex_map_tables:
  "GetServices (ex_map_db port) = [(''app/web'', ex_service ''web'' [] [''80'']), (''app/api'', ex_service ''api'' [] [port])]"
  "GetAddressGroupBindings (ex_map_db port) = [(''app/b1'', ex_binding ''b1'' ''api'' ''front'')]"
  "GetAddressGroupPortMappings (ex_map_db port) = []"
  by (simp_all add: ex_map_db_def NewMemDB_def db_access_defs)

lemma ex_map_ok: "open_ok ex_map_state" "\<not> be_mutexHeld ex_map_state" "be_db ex_map_state = ex_map_db ''8080''"
  "be_pending ex_map_state = []"
  by (simp_all add: ex_map_state_def open_ok_def ex_map_tables table_ok_def)


section \<open>The generated mapping\<close>

text \<open>
  C7: On a well-formed database the mapping generated for an address group lists exactly the
  services that some binding puts into the group, each with the ranges of its ports per
  protocol. There is none exactly when two of these services have overlapping ranges of a
  protocol, which is reported as a port conflict.\<close>
theorem generated_mapping_exact:
  assumes "db_good db"
  shows "case generateCompleteAddressGroupPortMapping (mem_reader (committed db)) i of
      Inr m \<Rightarrow> \<not> overlapping (exposed (abs_table (GetServices db)) (abs_table (GetAddressGroupBindings db)) i) \<and>
        exact_mapping (exposed (abs_table (GetServices db)) (abs_table (GetAddressGroupBindings db)) i) i m
    | Inl e \<Rightarrow> overlapping (exposed (abs_table (GetServices db)) (abs_table (GetAddressGroupBindings db)) i) \<and>
        (\<exists>e'. e = Wrap (''port conflict detected for AddressGroup '' @ rid_Key i) e')"
proof -
  have "table_ok (GetServices db)" "table_ok (GetAddressGroupBindings db)"
    using assms by (simp_all add: db_good_def table_good_def db_access_defs)
  note cases = generate_cases [OF this, of i]
  then show ?thesis
    by (cases "overlapping (exposed (abs_table (GetServices db)) (abs_table (GetAddressGroupBindings db)) i)") auto
qed

lemma ex_mapping_generated:
  "\<not> isl (generateCompleteAddressGroupPortMapping (mem_reader (committed (ex_map_db ''8080''))) (ResourceIdentifier ''front'' ''app''))"
  by code_simp

lemma ex_map_db_good: "db_good (ex_map_db port)"
  by (simp add: db_good_def table_good_def table_ok_def table_filled_def meta_filled_def ex_map_db_def NewMemDB_def)
    (simp add: ex_defs)

theorem generated_mapping_exact_witness:
  "\<exists>m. generateCompleteAddressGroupPortMapping (mem_reader (committed (ex_map_db ''8080'')))
      (ResourceIdentifier ''front'' ''app'') = Inr m \<and>
    exact_mapping (exposed (abs_table (GetServices (ex_map_db ''8080''))) (abs_table (GetAddressGroupBindings (ex_map_db ''8080'')))
      (ResourceIdentifier ''front'' ''app'')) (ResourceIdentifier ''front'' ''app'') m"
  using generated_mapping_exact [OF ex_map_db_good, of "''8080''" "ResourceIdentifier ''front'' ''app''"] ex_mapping_generated
  by (auto split: sum.splits)

section \<open>Requests on bindings\<close>



text \<open>
  A full synchronisation of several bindings writes the mapping of each group as the
  complete set of mappings, so that only the mapping of the last binding's group is left; the
  mappings of all other groups are gone.\<close>
theorem full_sync_keeps_last_mapping:
  fixes b :: address_group_binding
  assumes "open_ok s" and "\<not> be_mutexHeld s"
    and "\<forall>x\<in>set (bs @ [b]). check_batch_binding (mem_reader (committed (be_db s))) x = None"
    and "\<not> overlapping (exposed (svs s) (abs_batch (bs @ [b])) (ref_id (agb_AddressGroupRef b)))"
  shows "\<exists>s' m. AGService_SyncAddressGroupBindings (bs @ [b]) SyncOpFullSync s = Some (None, s') \<and>
    exact_mapping (exposed (svs s) (abs_batch (bs @ [b])) (ref_id (agb_AddressGroupRef b))) (ref_id (agb_AddressGroupRef b)) m \<and>
    mps s' = [rid_Key (ref_id (agb_AddressGroupRef b)) \<mapsto> m]"
  by (rule full_sync [OF assms(1,2) disjI2 [OF assms(3)] assms(4)])

lemma overlapping_one: "A \<subseteq> {svc} \<Longrightarrow> \<not> overlapping A"
  by (auto simp: overlapping_def)

lemma ex_full_sync_free:
  "\<not> overlapping (exposed (svs ex_map_state)
     (abs_batch ([ex_binding ''b1'' ''api'' ''front''] @ [ex_binding ''b2'' ''web'' ''back'']))
     (ref_id (agb_AddressGroupRef (ex_binding ''b2'' ''web'' ''back''))))"
proof (rule overlapping_one)
  show "exposed (svs ex_map_state) (abs_batch ([ex_binding ''b1'' ''api'' ''front''] @ [ex_binding ''b2'' ''web'' ''back'']))
     (ref_id (agb_AddressGroupRef (ex_binding ''b2'' ''web'' ''back''))) \<subseteq> {payload (ex_service ''web'' [] [''80''])}"
    by (auto simp: exposed_def ex_map_ok ex_map_tables abs_table_def abs_batch_def ran_def ref_id_def rid_Key_def
        split: if_splits) (auto simp: ex_defs payload_def)
qed

lemma ex_full_sync_checked:
  "\<forall>x\<in>set ([ex_binding ''b1'' ''api'' ''front''] @ [ex_binding ''b2'' ''web'' ''back'']).
     check_batch_binding (mem_reader (committed (ex_map_db ''8080''))) x = None"
  by code_simp

theorem full_sync_keeps_last_mapping_witness:
  "\<exists>s' m. AGService_SyncAddressGroupBindings
      ([ex_binding ''b1'' ''api'' ''front''] @ [ex_binding ''b2'' ''web'' ''back'']) SyncOpFullSync ex_map_state = Some (None, s') \<and>
    mps s' = [''app/back'' \<mapsto> m]"
  using full_sync_keeps_last_mapping [OF ex_map_ok(1,2) _ ex_full_sync_free] ex_full_sync_checked
  by (auto simp: ex_map_ok ref_id_def rid_Key_def ex_binding_def)

section \<open>Requests on services\<close>

text \<open>
  C29: The deletion of a bound service writes the mappings of its groups before it removes the
  service, so when it succeeds, the mapping of every group that a binding puts the service into
  still lists the deleted service. (The dependency check looks at the aggregated groups of the
  service, which the reader of the in-memory registry does not derive from bindings.)\<close>
theorem deleted_service_stays_published:
  assumes "open_ok s" and "SvcService_DeleteServicesByIDs [i] s = (None, s')"
    and "svs s (rid_Key i) = Some svc" and "b \<in> ran (bnd s)" "agb_ServiceRefKey b = rid_Key i"
  shows "svs s' = (svs s)(rid_Key i := None) \<and>
    (\<exists>m es. mps s' (rid_Key (ref_id (agb_AddressGroupRef b))) = Some m \<and> agpm_AccessPorts m = Some es \<and>
      service_ref svc \<in> fst ` set es)"
  by (rule delete_service [OF assms])

lemma ex_deleted: "fst (SvcService_DeleteServicesByIDs [ResourceIdentifier ''api'' ''app''] ex_map_state) = None"
  by code_simp

theorem deleted_service_stays_published_witness:
  "\<exists>s' m es. SvcService_DeleteServicesByIDs [ResourceIdentifier ''api'' ''app''] ex_map_state = (None, s') \<and>
    svs s' ''app/api'' = None \<and> mps s' ''app/front'' = Some m \<and> agpm_AccessPorts m = Some es \<and>
    service_ref (payload (ex_service ''api'' [] [''8080''])) \<in> fst ` set es"
proof -
  obtain s' where s': "SvcService_DeleteServicesByIDs [ResourceIdentifier ''api'' ''app''] ex_map_state = (None, s')"
    using ex_deleted by (metis prod.collapse)
  have svc: "svs ex_map_state (rid_Key (ResourceIdentifier ''api'' ''app'')) = Some (payload (ex_service ''api'' [] [''8080'']))"
    by (simp add: ex_map_ok ex_map_tables abs_table_def rid_Key_def)
  have "payload (ex_binding ''b1'' ''api'' ''front'') \<in> ran (bnd ex_map_state)"
    by (rule ranI [of _ "''app/b1''"]) (simp add: ex_map_ok ex_map_tables abs_table_def)
  from deleted_service_stays_published [OF ex_map_ok(1) s' svc this] show ?thesis
    using s' by (auto simp: agb_ServiceRefKey_def method_RefKey_eq rid_Key_def ref_id_def ex_binding_def payload_def)
qed

lemma port_table_values:
  assumes "map_of (port_table ps) k = Some p"
  shows "p \<in> set ps"
proof -
  have "map_of (fold (\<lambda>p. AList.update (ip_Protocol p @ '':'' @ ip_Port p) p) ps m) k = Some p \<Longrightarrow>
      p \<in> set ps \<or> map_of m k = Some p" for m :: "ingress_port table"
    by (induction ps arbitrary: m) (fastforce simp: update_conv' split: if_splits)+
  from this [of "[]"] assms show ?thesis by (simp add: port_table_def)
qed

text \<open>
  C28: When the ports of the stored service have different protocol and port texts, the
  comparison of an update reports a change exactly when the old and the new ports are not the
  same up to their order.\<close>
theorem service_port_change_exact:
  fixes old new :: service
  assumes "distinct (map (\<lambda>p. ip_Protocol p @ '':'' @ ip_Port p) (svc_IngressPorts old))"
  shows "servicePortsChanged old new \<longleftrightarrow> mset (svc_IngressPorts old) \<noteq> mset (svc_IngressPorts new)"
proof -
  let ?k = "\<lambda>p. ip_Protocol p @ '':'' @ ip_Port p" and ?o = "svc_IngressPorts old" and ?n = "svc_IngressPorts new"
  have table: "port_table ps = map (\<lambda>p. (?k p, p)) ps" if "distinct (map ?k ps)" for ps
    using fold_update_fresh [of "[]" ?k ps "\<lambda>p. p"] that by (simp add: port_table_def)
  have unchanged: "\<not> servicePortsChanged old new \<longleftrightarrow>
      length ?o = length ?n \<and> (\<forall>p\<in>set ?o. map_of (port_table ?n) (?k p) = Some p)"
    using assms by (auto simp: servicePortsChanged_def table list_ex_iff)
  have "mset ?o = mset ?n" if "\<not> servicePortsChanged old new"
  proof -
    have "set ?o \<subseteq> set ?n"
      using that unchanged port_table_values by blast
    moreover have "distinct ?o" using assms by (simp add: distinct_map)
    then have "card (set ?o) = length ?n" using that unchanged by (simp add: distinct_card)
    ultimately have "set ?o = set ?n" "card (set ?n) = length ?n"
      using card_subset_eq [of "set ?n" "set ?o"] card_mono [of "set ?n" "set ?o"] card_length [of ?n] by auto
    with \<open>distinct ?o\<close> show ?thesis by (metis card_distinct set_eq_iff_mset_eq_distinct)
  qed
  moreover have "\<not> servicePortsChanged old new" if eq: "mset ?o = mset ?n"
  proof -
    have "mset (map ?k ?o) = mset (map ?k ?n)" using eq by (simp only: mset_map)
    then have d: "distinct (map ?k ?n)" using assms mset_eq_imp_distinct_iff by blast
    then have "map_of (map (\<lambda>p. (?k p, p)) ?n) (?k p) = Some p" if "p \<in> set ?n" for p
      using that by (intro map_of_is_SomeI) (auto simp: comp_def)
    then show ?thesis using d mset_eq_setD [OF eq] mset_eq_length [OF eq] by (simp add: unchanged table)
  qed
  ultimately show ?thesis by blast
qed

theorem service_port_change_exact_witness:
  "\<not> servicePortsChanged (ex_service ''web'' [] [''80'', ''443'']) (ex_service ''web'' [] [''443'', ''80'']) \<and>
   servicePortsChanged (ex_service ''web'' [] [''80'', ''443'']) (ex_service ''web'' [] [''80'', ''8443''])"
  using service_port_change_exact [of "ex_service ''web'' [] [''80'', ''443'']"]
  by (simp add: ex_port_def)

end
