(* ===== verification/HostFacts.thy ===== *)
theory HostFacts
  imports HostServices NetworkFacts
begin

text \<open>
  What requests on hosts and host bindings do to the stored objects, as changes of the maps from
  keys to hosts and to bindings.
\<close>

section \<open>Effects\<close>

definition hosts :: "host_state \<Rightarrow> string \<rightharpoonup> host" where
  "hosts s = abs_table (GetHosts (hs_db s))"

definition host_bindings :: "host_state \<Rightarrow> string \<rightharpoonup> host_binding" where
  "host_bindings s = abs_table (GetHostBindings (hs_db s))"

definition host_ok :: "host_state \<Rightarrow> bool" where
  "host_ok s \<longleftrightarrow> \<not> reg_closed (hs_reg s) \<and> table_ok (GetHosts (hs_db s)) \<and> table_ok (GetHostBindings (hs_db s))"

lemma host_open:
  assumes "host_ok s"
  shows "Writer (hs_reg s) = Inr empty_writer" "Reader (hs_reg s) = Inr (committed (hs_db s))"
    "\<exists>rd. ReaderFromWriter (hs_reg s) empty_writer = Inr rd \<and> mem_reader rd = mem_reader (committed (hs_db s))"
  using assms by (simp_all add: host_ok_def Writer_def Reader_def ReaderFromWriter_def fresh_writer_reader)

lemma manager_kept [simp]:
  "eng_syncManager (be_engine (set_env e s)) = eng_syncManager (be_engine s)"
  "eng_syncManager (be_engine (be_commit w s)) = eng_syncManager (be_engine s)"
  by (simp_all add: set_env_def be_commit_def commit_writer_def split_beta)

text \<open>Steps that leave the registry alone.\<close>

lemma hs_simple [simp]:
  "hs_reg (hs_set_env e s) = hs_reg s" "hs_reg (snd (hs_touch x s)) = hs_reg s"
  "hs_reg (snd (hs_mark r h s)) = hs_reg s" "hs_reg (external c s) = hs_reg s"
  "hs_reg (snd (SyncEntity_host op h s)) = hs_reg s"
  "hs_synced (hs_set_env e s) = hs_synced s" "hs_synced (snd (hs_touch x s)) = hs_synced s"
  "hs_synced (snd (hs_mark r h s)) = hs_synced s"
  by (simp_all add: hs_set_env_def hs_touch_def touch_now_def hs_mark_def mark_synced_def mark_failed_def external_def
      SyncEntity_host_def ns_set_env_def split_beta split: option.split)

lemma hs_objects [simp]:
  "payload (fst (hs_touch x s)) = payload x" "Key (fst (hs_touch x s)) = Key x"
  "payload (fst (hs_mark r h s)) = payload h" "Key (fst (hs_mark r h s)) = Key h"
  by (simp_all add: hs_touch_def touch_now_def hs_mark_def mark_synced_def mark_failed_def split_beta payload_def Key_def
      split: option.split)

lemma reg_views:
  assumes "hs_reg s' = hs_reg s"
  shows "hosts s' = hosts s" "host_bindings s' = host_bindings s" "host_ok s' = host_ok s" "hs_db s' = hs_db s"
  using assms by (simp_all add: hosts_def host_bindings_def host_ok_def)

lemmas quiet_steps [simp] =
  hs_simple(1-5) [THEN reg_views(1)] hs_simple(1-5) [THEN reg_views(2)] hs_simple(1-5) [THEN reg_views(3)]

lemma host_tables:
  "GetHosts (fst (Commit e db (fst (SyncHostBindings e' db' bs sc opts empty_writer)))) = GetHosts db"
  "GetAddressGroups (fst (Commit e db (fst (SyncHostBindings e' db' bs sc opts empty_writer)))) = GetAddressGroups db"
  "GetHostBindings (fst (Commit e db (fst (SyncHosts e' db' hs sc opts empty_writer)))) = GetHostBindings db"
  "GetAddressGroups (fst (Commit e db (fst (SyncHosts e' db' hs sc opts empty_writer)))) = GetAddressGroups db"
  by (simp_all add: store_simps writer_method_defs working_def)

lemma write_host_effect:
  fixes h :: host
  assumes "host_ok s"
  defines "s' \<equiv> write_host h empty_writer s"
  shows "host_ok s'" "hosts s' = (hosts s)(Key h \<mapsto> payload h)" "host_bindings s' = host_bindings s"
    "GetAddressGroups (hs_db s') = GetAddressGroups (hs_db s)" "hs_synced s' = hs_synced s"
  using assms(1) unfolding s'_def write_host_def host_ok_def hosts_def host_bindings_def
  by (simp_all add: write_one_parts host_tables ho.commit_upsert ho.commit_keeps_ok)
    (simp add: write_one_def ns_commit_def ns_set_env_def split_beta)

lemma write_host_binding_effect:
  fixes b :: host_binding
  assumes "host_ok s"
  defines "s' \<equiv> write_host_binding b empty_writer s"
  shows "host_ok s'" "host_bindings s' = (host_bindings s)(Key b \<mapsto> payload b)" "hosts s' = hosts s"
    "GetHosts (hs_db s') = GetHosts (hs_db s)" "GetAddressGroups (hs_db s') = GetAddressGroups (hs_db s)"
    "hs_synced s' = hs_synced s"
  using assms(1) unfolding s'_def write_host_binding_def host_ok_def hosts_def host_bindings_def
  by (simp_all add: write_one_parts host_tables hb.commit_upsert hb.commit_keeps_ok)
    (simp add: write_one_def ns_commit_def ns_set_env_def split_beta)

text \<open>Keys survive being taken apart, unless they start with the separator.\<close>

lemma parse_slash_free:
  assumes "slash_free i"
  shows "parse_key (rid_Key i) = i"
  using assms split_rid_Key [OF assms]
  by (cases i) (auto simp: parse_key_def rid_Key_def split: list.splits)

lemma stored_host:
  assumes "host_ok s" and "map_of (GetHosts (hs_db s)) k = Some h"
  shows "Key h = k" "hosts s k = Some (payload h)"
  using assms table_ok_lookup by (auto simp: host_ok_def hosts_def abs_table_def)

lemma host_keys [simp]:
  "Key (bind_host bi gi h) = Key h" "Key (unbind_host h) = Key h" "payload (unbind_host h) = unbind_host (payload h)"
  by (simp_all add: bind_host_def unbind_host_def Key_def payload_def)

section \<open>Creating a host binding\<close>

text \<open>The host of a new binding: it is free, or its binding has the same name.\<close>

definition free_for :: "host_binding \<Rightarrow> host \<Rightarrow> bool" where
  "free_for b h \<longleftrightarrow> \<not> h_IsBound h \<or> (\<exists>r. h_BindingRef h = Some r \<and> ref_Name r = Name b)"

lemma host_check_iff:
  "validateHostBindingWithReader (mem_reader (committed db)) i (self_id b) = None \<longleftrightarrow>
     (\<exists>h. map_of (GetHosts db) (rid_Key i) = Some h \<and> free_for b h)"
  by (auto simp: validateHostBindingWithReader_def mem_GetHostByID_def get_by_id_def free_for_def self_id_def
      split: option.splits if_splits)

lemma group_check_iff:
  "host_validateAddressGroupWithReader (mem_reader (committed db)) i = None \<longleftrightarrow> map_of (GetAddressGroups db) (rid_Key i) \<noteq> None"
  by (auto simp: host_validateAddressGroupWithReader_def mem_GetAddressGroupByID_def get_by_id_def split: option.splits)

lemma bind_host_effect:
  assumes ok: "host_ok s" and h: "map_of (GetHosts (hs_db s)) (rid_Key i) = Some h"
    and names: "rid_Name bi \<noteq> []" "rid_Name gi \<noteq> []"
  defines "s' \<equiv> snd (host_UpdateHostBinding i bi gi s)"
  shows "host_bindings s' = host_bindings s"
    and "hosts s' = (if utils_IsReadyConditionTrue h then (hosts s)(rid_Key i \<mapsto> payload (bind_host bi gi h)) else hosts s)"
proof -
  obtain rd where rd: "ReaderFromWriter (hs_reg s) empty_writer = Inr rd" "mem_reader rd = mem_reader (committed (hs_db s))"
    using host_open(3) [OF ok] by blast
  have get: "mem_GetHostByID (committed (hs_db s)) i = Inr h" using h by (simp add: mem_GetHostByID_def get_by_id_def)
  have key: "Key (bind_host bi gi h) = rid_Key i" using stored_host(1) [OF ok h] by simp
  show "host_bindings s' = host_bindings s"
    "hosts s' = (if utils_IsReadyConditionTrue h then (hosts s)(rid_Key i \<mapsto> payload (bind_host bi gi h)) else hosts s)"
    using host_open [OF ok] rd get names key ok
    by (simp_all add: s'_def host_UpdateHostBinding_def Let_def split_beta write_host_effect)
qed

definition host_creatable :: "host_binding \<Rightarrow> host_state \<Rightarrow> bool" where
  "host_creatable b s \<longleftrightarrow>
     (\<exists>h. map_of (GetHosts (hs_db s)) (rid_Key (ref_id (hb_HostRef b))) = Some h \<and> free_for b h) \<and>
     map_of (GetAddressGroups (hs_db s)) (rid_Key (ref_id (hb_AddressGroupRef b))) \<noteq> None \<and>
     map_of (GetHostBindings (hs_db s)) (Key b) = None"

lemma create_host_binding:
  fixes b :: host_binding
  assumes ok: "host_ok s" and b: "slash_free (self_id b)" "Name b \<noteq> []" "ref_Name (hb_AddressGroupRef b) \<noteq> []"
  defines "i \<equiv> ref_id (hb_HostRef b)"
  shows "host_creatable b s \<Longrightarrow> \<exists>s' h. CreateHostBinding b s = (None, s') \<and>
      map_of (GetHosts (hs_db s)) (rid_Key i) = Some h \<and> host_bindings s' = (host_bindings s)(Key b \<mapsto> payload b) \<and>
      hosts s' = (if utils_IsReadyConditionTrue h
        then (hosts s)(rid_Key i \<mapsto> payload (bind_host (self_id b) (ref_id (hb_AddressGroupRef b)) h)) else hosts s)"
    and "\<not> host_creatable b s \<Longrightarrow> \<exists>e s'. CreateHostBinding b s = (Some e, s') \<and>
      host_bindings s' = host_bindings s \<and> hosts s' = hosts s"
proof -
  obtain m e where m: "TouchOnCreate (hs_env s) (Meta b) = (m, e)" by force
  let ?s1 = "hs_set_env e s" and ?b = "b\<lparr>Meta := m\<rparr>"
  have ok1: "host_ok ?s1" and db1: "hs_db ?s1 = hs_db s" using ok reg_views(3,4) [of ?s1 s] by simp_all
  obtain rd where rd: "ReaderFromWriter (hs_reg ?s1) empty_writer = Inr rd" "mem_reader rd = mem_reader (committed (hs_db s))"
    using host_open(3) [OF ok1] db1 by auto
  have get: "getHostBindingByIDWithReader (mem_reader (committed (hs_db s))) (Key b) =
      get_by_id (self_id b) (GetHostBindings (hs_db s))"
    by (simp add: getHostBindingByIDWithReader_def Key_self_id parse_slash_free [OF b(1)] mem_GetHostBindingByID_def)
  let ?s2 = "write_host_binding ?b empty_writer ?s1"
  have names: "rid_Name (self_id b) \<noteq> []" "rid_Name (ref_id (hb_AddressGroupRef b)) \<noteq> []"
    using b(2,3) by (simp_all add: self_id_def ref_id_def)
  { assume c: "host_creatable b s"
    then obtain h where h: "map_of (GetHosts (hs_db s)) (rid_Key i) = Some h" "free_for b h"
      by (auto simp: host_creatable_def i_def)
    have "validateHostBindingWithReader (mem_reader (committed (hs_db s))) i (self_id b) = None"
      "host_validateAddressGroupWithReader (mem_reader (committed (hs_db s))) (ref_id (hb_AddressGroupRef b)) = None"
      using c by (simp_all add: host_check_iff group_check_iff host_creatable_def i_def)
    then have "CreateHostBinding b s = (None, snd (host_UpdateHostBinding i (self_id b) (ref_id (hb_AddressGroupRef b)) ?s2))"
      using c host_open [OF ok1] rd m get
      by (simp add: CreateHostBinding_def Let_def get_by_id_def Key_self_id [symmetric] host_creatable_def i_def)
    moreover note w = write_host_binding_effect [OF ok1, of ?b]
    moreover have "map_of (GetHosts (hs_db ?s2)) (rid_Key i) = Some h" using w(4) db1 h by simp
    note bind_host_effect [OF w(1) this names]
    moreover have "payload ?b = payload b" "Key ?b = Key b" by (simp_all add: payload_def Key_def)
    ultimately show "\<exists>s' h. CreateHostBinding b s = (None, s') \<and>
      map_of (GetHosts (hs_db s)) (rid_Key i) = Some h \<and> host_bindings s' = (host_bindings s)(Key b \<mapsto> payload b) \<and>
      hosts s' = (if utils_IsReadyConditionTrue h
        then (hosts s)(rid_Key i \<mapsto> payload (bind_host (self_id b) (ref_id (hb_AddressGroupRef b)) h)) else hosts s)"
      using h reg_views [of ?s1 s] by auto }
  { assume c: "\<not> host_creatable b s"
    have "\<exists>e. CreateHostBinding b s = (Some e, ?s1)"
    proof (cases "validateHostBindingWithReader (mem_reader (committed (hs_db s))) (ref_id (hb_HostRef b)) (self_id b) = None \<and>
        host_validateAddressGroupWithReader (mem_reader (committed (hs_db s))) (ref_id (hb_AddressGroupRef b)) = None")
      case True
      with c obtain x where "map_of (GetHostBindings (hs_db s)) (Key b) = Some x"
        by (auto simp: host_check_iff group_check_iff host_creatable_def)
      with True host_open [OF ok1] rd m get show ?thesis
        by (simp add: CreateHostBinding_def Let_def get_by_id_def Key_self_id [symmetric])
    next
      case False
      with host_open [OF ok1] rd m show ?thesis
        by (auto simp: CreateHostBinding_def Let_def split: option.split)
    qed
    with reg_views [of ?s1 s] show "\<exists>e s'. CreateHostBinding b s = (Some e, s') \<and>
      host_bindings s' = host_bindings s \<and> hosts s' = hosts s" by auto }
qed

section \<open>Deleting a host binding\<close>

lemma delete_written:
  fixes b :: host_binding
  assumes ok: "host_ok s"
  defines "W \<equiv> SyncHostBindings (hs_env s) (hs_db s) [b] (Some EmptyScope) [SyncOption SyncOpDelete] empty_writer"
  defines "s' \<equiv> hs_commit (fst W) (hs_set_env (snd W) s)"
  shows "host_ok s'" "host_bindings s' = (host_bindings s)(Key b := None)" "hosts s' = hosts s"
    "GetHosts (hs_db s') = GetHosts (hs_db s)" "GetAddressGroups (hs_db s') = GetAddressGroups (hs_db s)"
    "hs_synced s' = hs_synced s"
proof -
  have "hs_net s' = ns_commit (fst W) (ns_set_env (snd W) (hs_net s))"
    by (simp add: s'_def hs_commit_def hs_set_env_def)
  then show "host_ok s'" "host_bindings s' = (host_bindings s)(Key b := None)" "hosts s' = hosts s"
    "GetHosts (hs_db s') = GetHosts (hs_db s)" "GetAddressGroups (hs_db s') = GetAddressGroups (hs_db s)"
    using ok
    by (auto simp: W_def host_ok_def hosts_def host_bindings_def ns_commit_db host_tables hb.commit_sync hb.commit_keeps_ok
        select_sync_op_def spec_sync_def sync_op_defs restrict_map_def fun_eq_iff)
  show "hs_synced s' = hs_synced s"
    by (simp add: s'_def hs_commit_def hs_set_env_def ns_commit_def ns_set_env_def)
qed

lemma release_host_effect:
  fixes k :: resource_identifier
  assumes ok: "host_ok s"
  shows "map_of (GetHosts (hs_db s)) (rid_Key k) = None \<Longrightarrow> release_host k s = Some s"
    and "map_of (GetHosts (hs_db s)) (rid_Key k) = Some h \<Longrightarrow> \<not> hs_synced s \<Longrightarrow> release_host k s = None"
    and "map_of (GetHosts (hs_db s)) (rid_Key k) = Some h \<Longrightarrow> hs_synced s \<Longrightarrow>
      \<exists>s'. release_host k s = Some s' \<and> host_ok s' \<and> hs_synced s' \<and> host_bindings s' = host_bindings s \<and>
        hosts s' = (hosts s)(rid_Key k \<mapsto> unbind_host (payload h)) \<and>
        GetAddressGroups (hs_db s') = GetAddressGroups (hs_db s)"
  using host_open [OF ok] write_host_effect [OF ok, of "unbind_host h"] stored_host(1) [OF ok, of "rid_Key k" h]
  by (auto simp: release_host_def mem_GetHostByID_def get_by_id_def Let_def SyncEntity_host_def external_def host_ok_def
      hosts_def host_bindings_def)

lemma resend_group_effect:
  assumes ok: "host_ok s"
  shows "map_of (GetAddressGroups (hs_db s)) (rid_Key i) = None \<Longrightarrow> resend_group i s = Some s"
    and "map_of (GetAddressGroups (hs_db s)) (rid_Key i) = Some g \<Longrightarrow> \<not> hs_synced s \<Longrightarrow> resend_group i s = None"
    and "hs_synced s \<Longrightarrow> \<exists>s'. resend_group i s = Some s' \<and> host_bindings s' = host_bindings s \<and> hosts s' = hosts s"
  using host_open [OF ok]
  by (auto simp: resend_group_def mem_GetAddressGroupByID_def get_by_id_def split: option.split)

lemma delete_host_binding:
  fixes i :: resource_identifier
  assumes ok: "host_ok s" and i: "slash_free i"
  shows "map_of (GetHostBindings (hs_db s)) (rid_Key i) = None \<Longrightarrow> \<exists>e. DeleteHostBinding i s = Some (Some e, s)"
    and "map_of (GetHostBindings (hs_db s)) (rid_Key i) = Some b \<Longrightarrow>
      (if \<not> hs_synced s \<and> (map_of (GetHosts (hs_db s)) (rid_Key (ref_id (hb_HostRef b))) \<noteq> None \<or>
            map_of (GetAddressGroups (hs_db s)) (rid_Key (ref_id (hb_AddressGroupRef b))) \<noteq> None)
       then DeleteHostBinding i s = None
       else \<exists>s'. DeleteHostBinding i s = Some (None, s') \<and> host_bindings s' = (host_bindings s)(rid_Key i := None) \<and>
         hosts s' = (case hosts s (rid_Key (ref_id (hb_HostRef b))) of
             None \<Rightarrow> hosts s | Some h \<Rightarrow> (hosts s)(rid_Key (ref_id (hb_HostRef b)) \<mapsto> unbind_host h)))"
proof -
  assume "map_of (GetHostBindings (hs_db s)) (rid_Key i) = None"
  then show "\<exists>e. DeleteHostBinding i s = Some (Some e, s)"
    using host_open [OF ok]
    by (simp add: DeleteHostBinding_def getHostBindingByIDWithReader_def parse_slash_free [OF i] mem_GetHostBindingByID_def
        get_by_id_def)
next
  assume b: "map_of (GetHostBindings (hs_db s)) (rid_Key i) = Some b"
  then have key: "Key b = rid_Key i" using ok table_ok_lookup by (auto simp: host_ok_def)
  define W where "W = SyncHostBindings (hs_env s) (hs_db s) [b] (Some EmptyScope) [SyncOption SyncOpDelete] empty_writer"
  define s1 where "s1 = hs_commit (fst W) (hs_set_env (snd W) s)"
  note d = delete_written [OF ok, of b, folded W_def, folded s1_def]
  let ?h = "ref_id (hb_HostRef b)" and ?g = "ref_id (hb_AddressGroupRef b)"
  have del: "DeleteHostBinding i s = (case release_host ?h s1 of None \<Rightarrow> None
      | Some s2 \<Rightarrow> (case resend_group ?g s2 of None \<Rightarrow> None | Some s3 \<Rightarrow> Some (None, s3)))"
    using host_open [OF ok] b
    by (simp add: DeleteHostBinding_def getHostBindingByIDWithReader_def parse_slash_free [OF i] mem_GetHostBindingByID_def
        get_by_id_def s1_def W_def Let_def split_beta)
  note rel = release_host_effect [OF d(1), of ?h, unfolded d(4-6)]
  show "if \<not> hs_synced s \<and> (map_of (GetHosts (hs_db s)) (rid_Key ?h) \<noteq> None \<or> map_of (GetAddressGroups (hs_db s)) (rid_Key ?g) \<noteq> None)
       then DeleteHostBinding i s = None
       else \<exists>s'. DeleteHostBinding i s = Some (None, s') \<and> host_bindings s' = (host_bindings s)(rid_Key i := None) \<and>
         hosts s' = (case hosts s (rid_Key ?h) of None \<Rightarrow> hosts s | Some h \<Rightarrow> (hosts s)(rid_Key ?h \<mapsto> unbind_host h))"
  proof (cases "map_of (GetHosts (hs_db s)) (rid_Key ?h)")
    case None
    then have "hosts s (rid_Key ?h) = None" by (simp add: hosts_def abs_table_def)
    with None rel(1) del d key resend_group_effect [OF d(1), of ?g, unfolded d(5,6)] show ?thesis by fastforce
  next
    case (Some h)
    show ?thesis
    proof (cases "hs_synced s")
      case False
      with Some rel(2) del show ?thesis by simp
    next
      case True
      then obtain s2 where s2: "release_host ?h s1 = Some s2" "host_ok s2" "hs_synced s2" "host_bindings s2 = host_bindings s1"
        "hosts s2 = (hosts s1)(rid_Key ?h \<mapsto> unbind_host (payload h))" using rel(3) Some by blast
      then obtain s3 where "resend_group ?g s2 = Some s3" "host_bindings s3 = host_bindings s2" "hosts s3 = hosts s2"
        using resend_group_effect(3) [OF s2(2)] by blast
      with s2 True Some del d key stored_host(2) [OF ok Some] show ?thesis by simp
    qed
  qed
qed

section \<open>Changing a host through the facade\<close>

lemma stored_host_rejected:
  assumes ok: "host_ok s" and h: "slash_free (self_id h)" "map_of (GetHosts (hs_db s)) (Key h) \<noteq> None"
  shows "\<exists>e. NetguardFacade_UpdateHost h s = (Some e, s)"
  using host_open [OF ok] h
  by (auto simp: NetguardFacade_UpdateHost_def CreateHost_def getHostByID_def Key_self_id parse_slash_free
      mem_GetHostByID_def get_by_id_def sync_op_defs split: option.split)

end
