(* ===== verification/HostProperties.thy ===== *)
theory HostProperties
  imports HostFacts NetworkProperties
begin

text \<open>
  What requests on host bindings do to the bindings and to the hosts, and that the facade cannot
  change a stored host.
\<close>

section \<open>A concrete state\<close>

text \<open>A host that is Ready and free, a new one that is neither, one address group, and a stored binding.\<close>

definition ex_host :: "string \<Rightarrow> meta \<Rightarrow> host" where
  "ex_host name m = \<lparr> Name = name, Namespace = ''app'', Meta = m, h_UUID = name, h_HostName = name,
     h_AddressGroupName = [], h_IsBound = False, h_BindingRef = None, h_AddressGroupRef = None, h_IpList = [] \<rparr>"

definition ex_bound_host :: "string \<Rightarrow> string \<Rightarrow> host_binding" where
  "ex_bound_host name h = \<lparr> Name = name, Namespace = ''app'', Meta = ex_meta, hb_HostRef = ex_ref h,
     hb_AddressGroupRef = ex_ref ''front'' \<rparr>"

definition ex_host_db :: mem_db where
  "ex_host_db = NewMemDB\<lparr>
     db_hosts := [(''app/h1'', ex_host ''h1'' ex_meta), (''app/h2'', ex_host ''h2'' empty_meta)],
     db_hostBindings := [(''app/hb2'', ex_bound_host ''hb2'' ''h2'')],
     db_addressGroups := [(''app/front'', ex_group ''front'')]\<rparr>"

definition ex_host_state :: host_state where
  "ex_host_state = \<lparr> hs_net = ex_net_state\<lparr>ns_backend := ex_backend ex_host_db\<rparr>,
     hs_hostTracker = NewSyncTracker 1000000000, hs_hostSync = (\<lambda>_ _ _. None), hs_calls = [] \<rparr>"

lemma ex_host_tables:
  "GetHosts (hs_db ex_host_state) = [(''app/h1'', ex_host ''h1'' ex_meta), (''app/h2'', ex_host ''h2'' empty_meta)]"
  "GetHostBindings (hs_db ex_host_state) = [(''app/hb2'', ex_bound_host ''hb2'' ''h2'')]"
  "GetAddressGroups (hs_db ex_host_state) = [(''app/front'', ex_group ''front'')]"
  "\<not> hs_synced ex_host_state"
  by (simp_all add: ex_host_state_def ex_host_db_def ex_engine_def NewMemDB_def db_access_defs)

lemma ex_host_objects:
  "Key (ex_host name m) = ''app/'' @ name" "Key (ex_bound_host name h) = ''app/'' @ name"
  "Name (ex_bound_host name h) = name" "self_id (ex_bound_host name h) = ResourceIdentifier name ''app''"
  "rid_Key (ref_id (hb_HostRef (ex_bound_host name h))) = ''app/'' @ h"
  "rid_Key (ref_id (hb_AddressGroupRef (ex_bound_host name h))) = ''app/front''"
  "ref_Name (hb_AddressGroupRef (ex_bound_host name h)) = ''front''" "\<not> h_IsBound (ex_host name m)"
  by (simp_all add: ex_host_def ex_bound_host_def Key_def self_id_def rid_Key_def ref_id_def)

lemma ex_host_ok: "host_ok ex_host_state"
  by (simp add: host_ok_def ex_host_tables table_ok_def ex_host_objects) (simp add: ex_host_state_def)

section \<open>Requests on host bindings\<close>

text \<open>
  C15: A host binding is created exactly when its key is unused, its host is stored and free or
  bound by a binding of the same name, and its address group is stored; otherwise an error is
  returned and bindings and hosts stay as they are. The binding is stored, and a host that is
  Ready then names the binding and the group. A host that is not Ready stays as it is, unbound,
  although the creation succeeds.\<close>
theorem host_binding_creation_exact:
  fixes b :: host_binding
  assumes "host_ok s" and "slash_free (self_id b)" "Name b \<noteq> []" "ref_Name (hb_AddressGroupRef b) \<noteq> []"
  shows "if host_creatable b s
    then \<exists>s' h. CreateHostBinding b s = (None, s') \<and>
      map_of (GetHosts (hs_db s)) (rid_Key (ref_id (hb_HostRef b))) = Some h \<and>
      host_bindings s' = (host_bindings s)(Key b \<mapsto> payload b) \<and>
      hosts s' = (if utils_IsReadyConditionTrue h
        then (hosts s)(rid_Key (ref_id (hb_HostRef b)) \<mapsto> payload
          (h\<lparr>h_IsBound := True,
             h_BindingRef := Some \<lparr> ref_APIVersion = ''netguard.sgroups.io/v1beta1'', ref_Kind = ''HostBinding'', ref_Name = Name b \<rparr>,
             h_AddressGroupRef := Some \<lparr> ref_APIVersion = ''netguard.sgroups.io/v1beta1'', ref_Kind = ''AddressGroup'',
               ref_Name = ref_Name (hb_AddressGroupRef b) \<rparr>,
             h_AddressGroupName := ref_Name (hb_AddressGroupRef b)\<rparr>))
        else hosts s)
    else \<exists>e s'. CreateHostBinding b s = (Some e, s') \<and> host_bindings s' = host_bindings s \<and> hosts s' = hosts s"
proof -
  have bound: "bind_host (self_id b) (ref_id (hb_AddressGroupRef b)) h =
     h\<lparr>h_IsBound := True,
       h_BindingRef := Some \<lparr> ref_APIVersion = ''netguard.sgroups.io/v1beta1'', ref_Kind = ''HostBinding'', ref_Name = Name b \<rparr>,
       h_AddressGroupRef := Some \<lparr> ref_APIVersion = ''netguard.sgroups.io/v1beta1'', ref_Kind = ''AddressGroup'',
         ref_Name = ref_Name (hb_AddressGroupRef b) \<rparr>,
       h_AddressGroupName := ref_Name (hb_AddressGroupRef b)\<rparr>" for h
    by (simp add: bind_host_def host_reference_to_def self_id_def ref_id_def)
  show ?thesis using create_host_binding [OF assms, unfolded bound] by (cases "host_creatable b s") simp_all
qed

lemma ex_creatable: "host_creatable (ex_bound_host ''hb1'' ''h1'') ex_host_state"
  by (simp add: host_creatable_def ex_host_tables ex_host_objects free_for_def)

theorem host_binding_creation_exact_witness:
  "\<exists>s' h. CreateHostBinding (ex_bound_host ''hb1'' ''h1'') ex_host_state = (None, s') \<and>
     hosts s' ''app/h1'' = Some h \<and> h_IsBound h \<and> h_AddressGroupName h = ''front''"
  using host_binding_creation_exact [OF ex_host_ok, of "ex_bound_host ''hb1'' ''h1''"] ex_creatable
  by (simp add: ex_host_objects ex_host_tables slash_free_def)
    (auto simp: ex_host_objects utils_IsReadyConditionTrue_def ex_host_def ex_meta_def ConditionReady_def payload_def)

text \<open>
  C27: The deletion of a host binding fails without a change when there is none. Without a manager
  for the external system it panics exactly when the binding's host or address group is stored.
  In all other cases it removes the binding, and its host is unbound whatever binding it
  names.\<close>
theorem host_binding_deletion:
  fixes i :: resource_identifier
  assumes "host_ok s" and "slash_free i"
  shows "case map_of (GetHostBindings (hs_db s)) (rid_Key i) of
      None \<Rightarrow> \<exists>e. DeleteHostBinding i s = Some (Some e, s)
    | Some b \<Rightarrow>
        if \<not> hs_synced s \<and> (map_of (GetHosts (hs_db s)) (rid_Key (ref_id (hb_HostRef b))) \<noteq> None \<or>
             map_of (GetAddressGroups (hs_db s)) (rid_Key (ref_id (hb_AddressGroupRef b))) \<noteq> None)
        then DeleteHostBinding i s = None
        else \<exists>s'. DeleteHostBinding i s = Some (None, s') \<and> host_bindings s' = (host_bindings s)(rid_Key i := None) \<and>
          hosts s' = (case hosts s (rid_Key (ref_id (hb_HostRef b))) of
              None \<Rightarrow> hosts s
            | Some h \<Rightarrow> (hosts s)(rid_Key (ref_id (hb_HostRef b)) \<mapsto>
                h\<lparr>h_IsBound := False, h_BindingRef := None, h_AddressGroupRef := None, h_AddressGroupName := []\<rparr>))"
proof -
  have unbound: "unbind_host h =
      h\<lparr>h_IsBound := False, h_BindingRef := None, h_AddressGroupRef := None, h_AddressGroupName := []\<rparr>" for h
    by (simp add: unbind_host_def)
  show ?thesis
    using delete_host_binding [OF assms, unfolded unbound]
    by (cases "map_of (GetHostBindings (hs_db s)) (rid_Key i)") simp_all
qed

theorem host_binding_deletion_witness:
  "DeleteHostBinding (ResourceIdentifier ''hb2'' ''app'') ex_host_state = None"
  using host_binding_deletion [OF ex_host_ok, of "ResourceIdentifier ''hb2'' ''app''"]
  by (simp add: ex_host_tables ex_host_objects slash_free_def rid_Key_def [of "ResourceIdentifier ''hb2'' ''app''"])

text \<open>Updates through the facade create the host, so a stored host is never changed.\<close>
theorem stored_host_not_updated:
  assumes "host_ok s" and "slash_free (self_id h)" and "map_of (GetHosts (hs_db s)) (Key h) \<noteq> None"
  shows "\<exists>e. NetguardFacade_UpdateHost h s = (Some e, s)"
  by (rule stored_host_rejected [OF assms])

end
