(* ===== verification/ValidationService.thy ===== *)
theory ValidationService
  imports Integrity
begin

text \<open>
  The validation service (\<^verbatim>\<open>services/resources/validation_service.go\<close>): every check opens a
  reader on the registry and asks the validator of the kind. Closing the reader changes nothing.
  The external system, when there is a manager for it, answers whether it takes a host; its
  answers are a parameter.
\<close>

section \<open>Existence checks of the remaining validators\<close>

definition PortMappingValidator_ValidateExists :: "reader_ops \<Rightarrow> resource_identifier \<Rightarrow> error option" where
  "PortMappingValidator_ValidateExists rd i = ValidateExists (NewAddressGroupPortMappingValidator rd) i Key"

definition RuleS2SValidator_ValidateExists :: "reader_ops \<Rightarrow> resource_identifier \<Rightarrow> error option" where
  "RuleS2SValidator_ValidateExists rd i = ValidateExists (NewRuleS2SValidator rd) i Key"

definition ServiceAliasValidator_ValidateExists :: "reader_ops \<Rightarrow> resource_identifier \<Rightarrow> error option" where
  "ServiceAliasValidator_ValidateExists rd i = ValidateExists (NewServiceAliasValidator rd) i Key"

definition PolicyValidator_ValidateExists :: "reader_ops \<Rightarrow> resource_identifier \<Rightarrow> error option" where
  "PolicyValidator_ValidateExists rd i = ValidateExists (NewAddressGroupBindingPolicyValidator rd) i Key"

section \<open>Checks of one resource\<close>

definition with_open_reader :: "registry \<Rightarrow> (reader_ops \<Rightarrow> error option) \<Rightarrow> error option" where
  "with_open_reader reg check =
     (case Reader reg of
        Inl e \<Rightarrow> Some (Wrap ''failed to get reader'' e)
      | Inr rd \<Rightarrow> check (mem_reader rd))"

definition ValidateServiceForCreation :: "registry \<Rightarrow> service \<Rightarrow> error option" where
  "ValidateServiceForCreation reg x = with_open_reader reg (\<lambda>rd.
     wrap_err (''service validation failed for creation: '' @ Key x) (ServiceValidator_ValidateForCreation rd x))"

definition ValidateServiceForUpdate :: "registry \<Rightarrow> service \<Rightarrow> service \<Rightarrow> error option" where
  "ValidateServiceForUpdate reg old new = with_open_reader reg (\<lambda>rd.
     wrap_err (''service validation failed for update: '' @ Key new) (ServiceValidator_ValidateForUpdate rd old new))"

definition ValidateServiceForDeletion :: "registry \<Rightarrow> service \<Rightarrow> error option" where
  "ValidateServiceForDeletion reg x = with_open_reader reg (\<lambda>rd.
     wrap_err (''service validation failed for deletion: '' @ Key x) (ServiceValidator_ValidateExists rd (self_id x)))"

definition ValidateAddressGroupBindingForCreation :: "registry \<Rightarrow> address_group_binding \<Rightarrow> error option" where
  "ValidateAddressGroupBindingForCreation reg x = with_open_reader reg (\<lambda>rd.
     wrap_err (''address group binding validation failed for creation: '' @ Key x) (AddressGroupBindingValidator_ValidateForCreation rd x))"

definition ValidateAddressGroupBindingForUpdate :: "registry \<Rightarrow> address_group_binding \<Rightarrow> address_group_binding \<Rightarrow> error option" where
  "ValidateAddressGroupBindingForUpdate reg old new = with_open_reader reg (\<lambda>rd.
     wrap_err (''address group binding validation failed for update: '' @ Key new) (AddressGroupBindingValidator_ValidateForUpdate rd old new))"

definition ValidateAddressGroupBindingForDeletion :: "registry \<Rightarrow> address_group_binding \<Rightarrow> error option" where
  "ValidateAddressGroupBindingForDeletion reg x = with_open_reader reg (\<lambda>rd.
     wrap_err (''address group binding validation failed for deletion: '' @ Key x) (AddressGroupBindingValidator_ValidateExists rd (self_id x)))"

definition ValidateAddressGroupPortMappingForCreation :: "registry \<Rightarrow> address_group_port_mapping \<Rightarrow> error option" where
  "ValidateAddressGroupPortMappingForCreation reg x = with_open_reader reg (\<lambda>rd.
     wrap_err (''address group port mapping validation failed for creation: '' @ Key x) (PortMappingValidator_ValidateForCreation rd x))"

definition ValidateAddressGroupPortMappingForUpdate :: "registry \<Rightarrow> address_group_port_mapping \<Rightarrow> address_group_port_mapping \<Rightarrow> error option" where
  "ValidateAddressGroupPortMappingForUpdate reg old new = with_open_reader reg (\<lambda>rd.
     wrap_err (''address group port mapping validation failed for update: '' @ Key new) (PortMappingValidator_ValidateForUpdate rd old new))"

definition ValidateAddressGroupPortMappingForDeletion :: "registry \<Rightarrow> address_group_port_mapping \<Rightarrow> error option" where
  "ValidateAddressGroupPortMappingForDeletion reg x = with_open_reader reg (\<lambda>rd.
     wrap_err (''address group port mapping validation failed for deletion: '' @ Key x) (PortMappingValidator_ValidateExists rd (self_id x)))"

definition ValidateRuleS2SForCreation :: "registry \<Rightarrow> rule_s2s \<Rightarrow> error option" where
  "ValidateRuleS2SForCreation reg x = with_open_reader reg (\<lambda>rd.
     wrap_err (''RuleS2S validation failed for creation: '' @ Key x) (RuleS2SValidator_ValidateForCreation rd x))"

definition ValidateRuleS2SForUpdate :: "registry \<Rightarrow> rule_s2s \<Rightarrow> rule_s2s \<Rightarrow> error option" where
  "ValidateRuleS2SForUpdate reg old new = with_open_reader reg (\<lambda>rd.
     wrap_err (''RuleS2S validation failed for update: '' @ Key new) (RuleS2SValidator_ValidateForUpdate rd old new))"

definition ValidateRuleS2SForDeletion :: "registry \<Rightarrow> rule_s2s \<Rightarrow> error option" where
  "ValidateRuleS2SForDeletion reg x = with_open_reader reg (\<lambda>rd.
     wrap_err (''RuleS2S validation failed for deletion: '' @ Key x) (RuleS2SValidator_ValidateExists rd (self_id x)))"

definition ValidateServiceAliasForCreation :: "registry \<Rightarrow> service_alias \<Rightarrow> error option" where
  "ValidateServiceAliasForCreation reg x = with_open_reader reg (\<lambda>rd.
     wrap_err (''service alias validation failed for creation: '' @ Key x) (ServiceAliasValidator_ValidateForCreation rd x))"

definition ValidateServiceAliasForUpdate :: "registry \<Rightarrow> service_alias \<Rightarrow> service_alias \<Rightarrow> error option" where
  "ValidateServiceAliasForUpdate reg old new = with_open_reader reg (\<lambda>rd.
     wrap_err (''service alias validation failed for update: '' @ Key new) (ServiceAliasValidator_ValidateForUpdate rd old new))"

definition ValidateServiceAliasForDeletion :: "registry \<Rightarrow> service_alias \<Rightarrow> error option" where
  "ValidateServiceAliasForDeletion reg x = with_open_reader reg (\<lambda>rd.
     wrap_err (''service alias validation failed for deletion: '' @ Key x) (ServiceAliasValidator_ValidateExists rd (self_id x)))"

definition ValidateAddressGroupBindingPolicyForCreation :: "registry \<Rightarrow> address_group_binding_policy \<Rightarrow> error option" where
  "ValidateAddressGroupBindingPolicyForCreation reg x = with_open_reader reg (\<lambda>rd.
     wrap_err (''address group binding policy validation failed for creation: '' @ Key x) (PolicyValidator_ValidateForCreation rd x))"

definition ValidateAddressGroupBindingPolicyForUpdate :: "registry \<Rightarrow> address_group_binding_policy \<Rightarrow> address_group_binding_policy \<Rightarrow> error option" where
  "ValidateAddressGroupBindingPolicyForUpdate reg old new = with_open_reader reg (\<lambda>rd.
     wrap_err (''address group binding policy validation failed for update: '' @ Key new) (PolicyValidator_ValidateForUpdate rd old new))"

definition ValidateAddressGroupBindingPolicyForDeletion :: "registry \<Rightarrow> address_group_binding_policy \<Rightarrow> error option" where
  "ValidateAddressGroupBindingPolicyForDeletion reg x = with_open_reader reg (\<lambda>rd.
     wrap_err (''address group binding policy validation failed for deletion: '' @ Key x) (PolicyValidator_ValidateExists rd (self_id x)))"

definition ValidateNetworkForCreation :: "registry \<Rightarrow> network \<Rightarrow> error option" where
  "ValidateNetworkForCreation reg x = with_open_reader reg (\<lambda>rd.
     wrap_err (''network validation failed for creation: '' @ Key x) (NetworkValidator_ValidateForCreation rd x))"

definition ValidateNetworkForUpdate :: "registry \<Rightarrow> network \<Rightarrow> network \<Rightarrow> error option" where
  "ValidateNetworkForUpdate reg old new = with_open_reader reg (\<lambda>rd.
     wrap_err (''network validation failed for update: '' @ Key new) (NetworkValidator_ValidateForUpdate rd old new))"

definition ValidateNetworkForDeletion :: "registry \<Rightarrow> network \<Rightarrow> error option" where
  "ValidateNetworkForDeletion reg x = with_open_reader reg (\<lambda>rd.
     wrap_err (''network validation failed for deletion: '' @ Key x) (NetworkValidator_ValidateExists rd (self_id x)))"

definition ValidateNetworkBindingForCreation :: "registry \<Rightarrow> network_binding \<Rightarrow> error option" where
  "ValidateNetworkBindingForCreation reg x = with_open_reader reg (\<lambda>rd.
     wrap_err (''network binding validation failed for creation: '' @ Key x) (NetworkBindingValidator_ValidateForCreation rd x))"

definition ValidateNetworkBindingForUpdate :: "registry \<Rightarrow> network_binding \<Rightarrow> network_binding \<Rightarrow> error option" where
  "ValidateNetworkBindingForUpdate reg old new = with_open_reader reg (\<lambda>rd.
     wrap_err (''network binding validation failed for update: '' @ Key new) (NetworkBindingValidator_ValidateForUpdate rd old new))"

definition ValidateNetworkBindingForDeletion :: "registry \<Rightarrow> network_binding \<Rightarrow> error option" where
  "ValidateNetworkBindingForDeletion reg x = with_open_reader reg (\<lambda>rd.
     wrap_err (''network binding validation failed for deletion: '' @ Key x) (NetworkBindingValidator_ValidateExists rd (self_id x)))"

subsection \<open>Address groups\<close>

text \<open>Only hosts that are not listed before are offered to the external system.\<close>

definition getNewOrChangedHosts :: "object_reference list \<Rightarrow> object_reference list \<Rightarrow> object_reference list" where
  "getNewOrChangedHosts oldHosts newHosts =
     (if length oldHosts = 0 then newHosts
      else if length newHosts = 0 then []
      else filter (\<lambda>h. ref_Name h \<notin> set (map ref_Name oldHosts)) newHosts)"

definition ValidateAddressGroupForCreation ::
  "registry \<Rightarrow> (nat \<Rightarrow> host \<Rightarrow> error option) option \<Rightarrow> address_group \<Rightarrow> error option"
where
  "ValidateAddressGroupForCreation reg syncManager g = with_open_reader reg (\<lambda>rd.
     and_then (wrap_err (''address group validation failed for creation: '' @ Key g)
                 (AddressGroupValidator_ValidateForCreation rd g))
              (wrap_err (''SGROUP synchronization validation failed for address group creation: '' @ Key g)
                 (ValidateSgroupSyncForHosts rd (ag_Hosts g) (self_id g) syncManager)))"

definition ValidateAddressGroupForUpdate ::
  "registry \<Rightarrow> (nat \<Rightarrow> host \<Rightarrow> error option) option \<Rightarrow> address_group \<Rightarrow> address_group \<Rightarrow> error option"
where
  "ValidateAddressGroupForUpdate reg syncManager old new = with_open_reader reg (\<lambda>rd.
     and_then (wrap_err (''address group validation failed for update: '' @ Key new)
                 (AddressGroupValidator_ValidateForUpdate rd old new))
              (let hosts = getNewOrChangedHosts (ag_Hosts old) (ag_Hosts new)
               in if length hosts > 0
                  then wrap_err (''SGROUP synchronization validation failed for address group update: '' @ Key new)
                         (ValidateSgroupSyncForHosts rd hosts (self_id new) syncManager)
                  else None))"

definition ValidateAddressGroupForDeletion :: "registry \<Rightarrow> address_group \<Rightarrow> error option" where
  "ValidateAddressGroupForDeletion reg g = with_open_reader reg (\<lambda>rd.
     wrap_err (''address group validation failed for deletion: '' @ Key g) (AddressGroupValidator_ValidateExists rd (self_id g)))"

subsection \<open>With an open reader\<close>

definition ValidateServiceForCreationWithReader :: "service \<Rightarrow> reader_ops \<Rightarrow> error option" where
  "ValidateServiceForCreationWithReader x rd =
     wrap_err (''service validation failed for creation: '' @ Key x) (ServiceValidator_ValidateForCreation rd x)"

definition ValidateAddressGroupForCreationWithReader :: "address_group \<Rightarrow> reader_ops \<Rightarrow> error option" where
  "ValidateAddressGroupForCreationWithReader g rd =
     wrap_err (''address group validation failed for creation: '' @ Key g) (AddressGroupValidator_ValidateForCreation rd g)"

definition ValidateRuleS2SForCreationWithReader :: "rule_s2s \<Rightarrow> reader_ops \<Rightarrow> error option" where
  "ValidateRuleS2SForCreationWithReader x rd =
     wrap_err (''RuleS2S validation failed for creation: '' @ Key x) (RuleS2SValidator_ValidateForCreation rd x)"

section \<open>Checks of any resource\<close>

text \<open>A value of any type: the kinds that the checks tell apart, and all others with the name of their type.\<close>

datatype checked_resource =
    CheckedService service
  | CheckedAddressGroup address_group
  | CheckedRuleS2S rule_s2s
  | CheckedAddressGroupBinding address_group_binding
  | CheckedServiceAlias service_alias
  | CheckedOther string

fun go_type :: "checked_resource \<Rightarrow> string" where
  "go_type (CheckedService _) = ''models.Service''"
| "go_type (CheckedAddressGroup _) = ''models.AddressGroup''"
| "go_type (CheckedRuleS2S _) = ''models.RuleS2S''"
| "go_type (CheckedAddressGroupBinding _) = ''models.AddressGroupBinding''"
| "go_type (CheckedServiceAlias _) = ''models.ServiceAlias''"
| "go_type (CheckedOther t) = t"

definition for_operation :: "string \<Rightarrow> string \<Rightarrow> error option \<Rightarrow> error option \<Rightarrow> error option" where
  "for_operation operation what creation deletion =
     (if operation = ''create'' then creation
      else if operation = ''update'' then Some (Errorf (''bulk update validation requires old version for '' @ what))
      else if operation = ''delete'' then deletion
      else None)"

definition check_resource ::
  "registry \<Rightarrow> (nat \<Rightarrow> host \<Rightarrow> error option) option \<Rightarrow> string \<Rightarrow> checked_resource \<Rightarrow> error option"
where
  "check_resource reg syncManager operation resource =
     (case resource of
        CheckedService x \<Rightarrow> for_operation operation (''service '' @ Key x)
          (ValidateServiceForCreation reg x) (ValidateServiceForDeletion reg x)
      | CheckedAddressGroup x \<Rightarrow> for_operation operation (''address group '' @ Key x)
          (ValidateAddressGroupForCreation reg syncManager x) (ValidateAddressGroupForDeletion reg x)
      | CheckedRuleS2S x \<Rightarrow> for_operation operation (''RuleS2S '' @ Key x)
          (ValidateRuleS2SForCreation reg x) (ValidateRuleS2SForDeletion reg x)
      | _ \<Rightarrow> Some (Errorf (''unsupported resource type for validation: '' @ go_type resource)))"

text \<open>The answers of the external system may differ from one resource to the next.\<close>

definition ValidateMultipleResourcesForOperation ::
  "registry \<Rightarrow> (nat \<Rightarrow> nat \<Rightarrow> host \<Rightarrow> error option) option \<Rightarrow> checked_resource list \<Rightarrow> string \<Rightarrow> error option"
where
  "ValidateMultipleResourcesForOperation reg syncManager resources operation =
     (let validationErrors = List.map_filter (\<lambda>(i, r).
            wrap_err (''validation failed for resource '' @ nat_str i)
              (check_resource reg (map_option (\<lambda>f. f i) syncManager) operation r)) (enumerate 0 resources)
      in if length validationErrors > 0
         then Some (Errorf (''bulk validation failed: '' @ concat (map (\<lambda>e. error_text e @ ''; '') validationErrors)))
         else None)"

definition dependency_found :: "string \<Rightarrow> (error + 'a) \<Rightarrow> error option" where
  "dependency_found what r = (case r of Inl e \<Rightarrow> Some (Wrap what e) | Inr _ \<Rightarrow> None)"

definition ValidateResourceDependencies :: "registry \<Rightarrow> checked_resource \<Rightarrow> error option" where
  "ValidateResourceDependencies reg resource = with_open_reader reg (\<lambda>rd.
     case resource of
       CheckedAddressGroupBinding b \<Rightarrow>
         and_then (dependency_found (''service dependency validation failed for binding '' @ Key b)
                     (GetServiceByID rd (ref_id (agb_ServiceRef b))))
                  (dependency_found (''address group dependency validation failed for binding '' @ Key b)
                     (GetAddressGroupByID rd (ref_id (agb_AddressGroupRef b))))
     | CheckedRuleS2S r \<Rightarrow>
         and_then (dependency_found (''target service alias dependency validation failed for rule '' @ Key r)
                     (GetServiceAliasByID rd (ref_id (rs_ServiceRef r))))
                  (dependency_found (''local service alias dependency validation failed for rule '' @ Key r)
                     (GetServiceAliasByID rd (ref_id (rs_ServiceLocalRef r))))
     | CheckedServiceAlias a \<Rightarrow>
         dependency_found (''service dependency validation failed for alias '' @ Key a) (GetServiceByID rd (ref_id (sa_ServiceRef a)))
     | _ \<Rightarrow> None)"

section \<open>What the checks decide\<close>

lemma with_open_reader_open: "\<not> reg_closed reg \<Longrightarrow> with_open_reader reg check = check (mem_reader (committed (reg_db reg)))"
  by (simp add: with_open_reader_def Reader_def)

text \<open>The deletion checks look whether the object is stored, and not what depends on it.\<close>

lemma deletion_checks_iff:
  fixes x :: service and g :: address_group and r :: rule_s2s
  assumes "\<not> reg_closed reg" and "reader_good (committed (reg_db reg))"
  shows "Name x \<noteq> [] \<Longrightarrow> ValidateServiceForDeletion reg x = None \<longleftrightarrow>
      (\<exists>y. mem_GetServiceByID (committed (reg_db reg)) (self_id x) = Inr y)"
    and "Name g \<noteq> [] \<Longrightarrow> ValidateAddressGroupForDeletion reg g = None \<longleftrightarrow>
      (\<exists>y. mem_GetAddressGroupByID (committed (reg_db reg)) (self_id g) = Inr y)"
    and "Name r \<noteq> [] \<Longrightarrow> ValidateRuleS2SForDeletion reg r = None \<longleftrightarrow>
      (\<exists>y. mem_GetRuleS2SByID (committed (reg_db reg)) (self_id r) = Inr y)"
  by (simp_all add: ValidateServiceForDeletion_def ValidateAddressGroupForDeletion_def ValidateRuleS2SForDeletion_def
      with_open_reader_open [OF assms(1)] ServiceValidator_ValidateExists_def AddressGroupValidator_ValidateExists_def
      RuleS2SValidator_ValidateExists_def rd_svc.validate_exists_iff [OF assms(2)] rd_ag.validate_exists_iff [OF assms(2)]
      rd_rs.validate_exists_iff [OF assms(2)] self_id_def)

lemma getNewOrChangedHosts_eq:
  "getNewOrChangedHosts old new = filter (\<lambda>h. ref_Name h \<notin> ref_Name ` set old) new"
  by (auto simp: getNewOrChangedHosts_def)

text \<open>A batch is accepted exactly when each of its resources is.\<close>

lemma bulk_validation_iff:
  "ValidateMultipleResourcesForOperation reg syncManager rs operation = None \<longleftrightarrow>
     (\<forall>i < length rs. check_resource reg (map_option (\<lambda>f. f i) syncManager) operation (rs ! i) = None)"
proof -
  have "ValidateMultipleResourcesForOperation reg syncManager rs operation = None \<longleftrightarrow>
      (\<forall>p\<in>set (enumerate 0 rs). check_resource reg (map_option (\<lambda>f. f (fst p)) syncManager) operation (snd p) = None)"
    by (simp add: ValidateMultipleResourcesForOperation_def Let_def List.map_filter_def filter_empty_conv split_beta)
  moreover have "set (enumerate 0 rs) = (\<lambda>i. (i, rs ! i)) ` {..<length rs}" by (auto simp: in_set_enumerate_eq)
  ultimately show ?thesis by simp blast
qed

end
