(* ===== verification/ApiHandlers.thy ===== *)
theory ApiHandlers
  imports AddressGroupService ServiceService ClientConversions ApiConversions
begin

text \<open>
  The handlers of the gRPC service (\<^verbatim>\<open>internal/api/netguard/service.go\<close>): a request is converted,
  handed to the facade, and the answer converted back. The messages of a request come from the
  wire, so the elements of a repeated field are never nil. \<open>None\<close> is a panic of a conversion or of
  the facade, or a call that waits for ever; what a panic leaves behind is not modelled.

  The reads of the rule service and of the facade, which only ask a reader, are defined here.
\<close>

section \<open>Reads\<close>

definition RuleS2SService_GetRuleS2S :: "scope option \<Rightarrow> backend \<Rightarrow> error + rule_s2s list" where
  "RuleS2SService_GetRuleS2S = read_list ''failed to list RuleS2S'' ListRuleS2S"

definition RuleS2SService_GetRuleS2SByID :: "resource_identifier \<Rightarrow> backend \<Rightarrow> error + rule_s2s" where
  "RuleS2SService_GetRuleS2SByID = read_one GetRuleS2SByID"

definition RuleS2SService_GetRuleS2SByIDs :: "resource_identifier list \<Rightarrow> backend \<Rightarrow> error + rule_s2s list" where
  "RuleS2SService_GetRuleS2SByIDs = read_many ''failed to get RuleS2S '' GetRuleS2SByID"

definition RuleS2SService_GetIEAgAgRules :: "scope option \<Rightarrow> backend \<Rightarrow> error + ieagag_rule list" where
  "RuleS2SService_GetIEAgAgRules = read_list ''failed to list IEAgAgRules'' ListIEAgAgRules"

definition RuleS2SService_GetIEAgAgRuleByID :: "resource_identifier \<Rightarrow> backend \<Rightarrow> error + ieagag_rule" where
  "RuleS2SService_GetIEAgAgRuleByID = read_one GetIEAgAgRuleByID"

definition RuleS2SService_GetIEAgAgRulesByIDs :: "resource_identifier list \<Rightarrow> backend \<Rightarrow> error + ieagag_rule list" where
  "RuleS2SService_GetIEAgAgRulesByIDs = read_many ''failed to get IEAgAgRule '' GetIEAgAgRuleByID"

definition NetguardFacade_GetServices :: "scope option \<Rightarrow> host_state \<Rightarrow> error + service list" where
  "NetguardFacade_GetServices sc s = SvcService_GetServices sc (hs_backend s)"

definition NetguardFacade_GetServiceByID :: "resource_identifier \<Rightarrow> host_state \<Rightarrow> error + service" where
  "NetguardFacade_GetServiceByID i s = SvcService_GetServiceByID i (hs_backend s)"

definition NetguardFacade_GetAddressGroups :: "scope option \<Rightarrow> host_state \<Rightarrow> error + address_group list" where
  "NetguardFacade_GetAddressGroups sc s = AGService_GetAddressGroups sc (hs_backend s)"

definition NetguardFacade_GetAddressGroupByID :: "resource_identifier \<Rightarrow> host_state \<Rightarrow> error + address_group" where
  "NetguardFacade_GetAddressGroupByID i s = AGService_GetAddressGroupByID i (hs_backend s)"

definition NetguardFacade_GetAddressGroupBindings :: "scope option \<Rightarrow> host_state \<Rightarrow> error + address_group_binding list" where
  "NetguardFacade_GetAddressGroupBindings sc s = AGService_GetAddressGroupBindings sc (hs_backend s)"

definition NetguardFacade_GetAddressGroupBindingByID :: "resource_identifier \<Rightarrow> host_state \<Rightarrow> error + address_group_binding" where
  "NetguardFacade_GetAddressGroupBindingByID i s = AGService_GetAddressGroupBindingByID i (hs_backend s)"

definition NetguardFacade_GetAddressGroupPortMappings :: "scope option \<Rightarrow> host_state \<Rightarrow> error + address_group_port_mapping list" where
  "NetguardFacade_GetAddressGroupPortMappings sc s = AGService_GetAddressGroupPortMappings sc (hs_backend s)"

definition NetguardFacade_GetAddressGroupPortMappingByID :: "resource_identifier \<Rightarrow> host_state \<Rightarrow> error + address_group_port_mapping" where
  "NetguardFacade_GetAddressGroupPortMappingByID i s = AGService_GetAddressGroupPortMappingByID i (hs_backend s)"

definition NetguardFacade_GetRuleS2S :: "scope option \<Rightarrow> host_state \<Rightarrow> error + rule_s2s list" where
  "NetguardFacade_GetRuleS2S sc s = RuleS2SService_GetRuleS2S sc (hs_backend s)"

definition NetguardFacade_GetRuleS2SByID :: "resource_identifier \<Rightarrow> host_state \<Rightarrow> error + rule_s2s" where
  "NetguardFacade_GetRuleS2SByID i s = RuleS2SService_GetRuleS2SByID i (hs_backend s)"

definition NetguardFacade_GetServiceAliases :: "scope option \<Rightarrow> host_state \<Rightarrow> error + service_alias list" where
  "NetguardFacade_GetServiceAliases sc s = SvcService_GetServiceAliases sc (hs_backend s)"

definition NetguardFacade_GetServiceAliasByID :: "resource_identifier \<Rightarrow> host_state \<Rightarrow> error + service_alias" where
  "NetguardFacade_GetServiceAliasByID i s = SvcService_GetServiceAliasByID i (hs_backend s)"

definition NetguardFacade_GetIEAgAgRules :: "scope option \<Rightarrow> host_state \<Rightarrow> error + ieagag_rule list" where
  "NetguardFacade_GetIEAgAgRules sc s = RuleS2SService_GetIEAgAgRules sc (hs_backend s)"

definition NetguardFacade_GetIEAgAgRuleByID :: "resource_identifier \<Rightarrow> host_state \<Rightarrow> error + ieagag_rule" where
  "NetguardFacade_GetIEAgAgRuleByID i s = RuleS2SService_GetIEAgAgRuleByID i (hs_backend s)"

definition NetguardFacade_GetAddressGroupBindingPolicies :: "scope option \<Rightarrow> host_state \<Rightarrow> error + address_group_binding_policy list" where
  "NetguardFacade_GetAddressGroupBindingPolicies sc s = AGService_GetAddressGroupBindingPolicies sc (hs_backend s)"

definition NetguardFacade_GetAddressGroupBindingPolicyByID :: "resource_identifier \<Rightarrow> host_state \<Rightarrow> error + address_group_binding_policy" where
  "NetguardFacade_GetAddressGroupBindingPolicyByID i s = AGService_GetAddressGroupBindingPolicyByID i (hs_backend s)"

definition NetguardFacade_GetNetworks :: "scope option \<Rightarrow> host_state \<Rightarrow> error + network list" where
  "NetguardFacade_GetNetworks sc s = network_ListNetworks sc (hs_net s)"

definition NetguardFacade_GetNetworkByID :: "resource_identifier \<Rightarrow> host_state \<Rightarrow> error + network" where
  "NetguardFacade_GetNetworkByID i s = network_GetNetwork i (hs_net s)"

definition NetguardFacade_GetNetworkBindings :: "scope option \<Rightarrow> host_state \<Rightarrow> error + network_binding list" where
  "NetguardFacade_GetNetworkBindings sc s = service_ListNetworkBindings sc (hs_net s)"

definition NetguardFacade_GetNetworkBindingByID :: "resource_identifier \<Rightarrow> host_state \<Rightarrow> error + network_binding" where
  "NetguardFacade_GetNetworkBindingByID i s = GetNetworkBinding i (hs_net s)"

text \<open>The status of the facade is the current time.\<close>

definition NetguardFacade_GetSyncStatus :: "host_state \<Rightarrow> gotime \<times> host_state" where
  "NetguardFacade_GetSyncStatus s = (let (t, e) = Now (hs_env s) in (At t, hs_set_env e s))"

section \<open>Synchronisation\<close>

datatype sync_subject =
    SyncReq_Services "pb_service list option"
  | SyncReq_AddressGroups "pb_address_group list option"
  | SyncReq_AddressGroupBindings "pb_binding list option"
  | SyncReq_AddressGroupPortMappings "pb_port_mapping list option"
  | SyncReq_RuleS2S "pb_rule_s2s list option"
  | SyncReq_ServiceAliases "pb_service_alias list option"
  | SyncReq_IEAgAgRules "pb_ieagag_rule list option"
  | SyncReq_AddressGroupBindingPolicies "pb_binding list option"
  | SyncReq_Networks "pb_network list option"
  | SyncReq_NetworkBindings "pb_network_binding list option"
  | SyncReq_Hosts "pb_host list option"
  | SyncReq_HostBindings "pb_host_binding list option"

record sync_req =
  sr_SyncOp :: pb_enum
  sr_Subject :: "sync_subject option"

definition on_net ::
  "(net_state \<Rightarrow> (error option \<times> net_state) option) \<Rightarrow> host_state \<Rightarrow> (error option \<times> host_state) option"
where
  "on_net f s = (case f (hs_net s) of None \<Rightarrow> None | Some (err, n) \<Rightarrow> Some (err, s\<lparr>hs_net := n\<rparr>))"

text \<open>One case of the switch: nothing to do, or all messages are converted before the facade is called.\<close>

definition sync_messages ::
  "string \<Rightarrow> ('p \<Rightarrow> 'x option) \<Rightarrow> ('x list \<Rightarrow> host_state \<Rightarrow> (error option \<times> host_state) option) \<Rightarrow> 'p list option \<Rightarrow>
   host_state \<Rightarrow> (error option \<times> host_state) option"
where
  "sync_messages what convert sync msgs s =
     (if msgs = None \<or> msgs = Some [] then Some (None, s)
      else (case those (map convert (the msgs)) of
        None \<Rightarrow> None
      | Some xs \<Rightarrow>
          (case sync xs s of
             None \<Rightarrow> None
           | Some (err, s') \<Rightarrow> Some (wrap_err what err, s'))))"

definition server_Sync :: "sync_req \<Rightarrow> host_state \<Rightarrow> (error option \<times> host_state) option" where
  "server_Sync req s =
     (let op = convertSyncOp (sr_SyncOp req)
      in case sr_Subject req of
           None \<Rightarrow> Some (Some (Errorf ''subject not specified''), s)
         | Some subject \<Rightarrow>
             (case subject of
                  SyncReq_Services msgs \<Rightarrow> sync_messages ''failed to sync services'' convertService
                    (\<lambda>xs. on_backend (\<lambda>b. Some (NetguardFacade_Sync_Services op xs b))) msgs s
                | SyncReq_AddressGroups msgs \<Rightarrow> sync_messages ''failed to sync address groups'' convertAddressGroup
                    (\<lambda>xs. NetguardFacade_Sync_AddressGroups op xs) msgs s
                | SyncReq_AddressGroupBindings msgs \<Rightarrow> sync_messages ''failed to sync address group bindings'' (\<lambda>m. Some (convertAddressGroupBinding m))
                    (\<lambda>xs. on_backend (NetguardFacade_Sync_AddressGroupBindings op xs)) msgs s
                | SyncReq_AddressGroupPortMappings msgs \<Rightarrow> sync_messages ''failed to sync address group port mappings'' convertAddressGroupPortMapping
                    (\<lambda>xs. on_backend (\<lambda>b. Some (NetguardFacade_Sync_AddressGroupPortMappings op xs b))) msgs s
                | SyncReq_RuleS2S msgs \<Rightarrow> sync_messages ''failed to sync rule s2s'' (\<lambda>m. Some (convertRuleS2S m))
                    (\<lambda>xs. on_backend (NetguardFacade_Sync_RuleS2S op xs)) msgs s
                | SyncReq_ServiceAliases msgs \<Rightarrow> sync_messages ''failed to sync service aliases'' (\<lambda>m. Some (convertServiceAlias m))
                    (\<lambda>xs. on_backend (NetguardFacade_Sync_ServiceAliases op xs)) msgs s
                | SyncReq_IEAgAgRules msgs \<Rightarrow> sync_messages ''failed to sync IEAgAgRules'' ConvertIEAgAgRuleFromProto
                    (\<lambda>xs. on_backend (\<lambda>b. Some (NetguardFacade_Sync_IEAgAgRules op xs b))) msgs s
                | SyncReq_AddressGroupBindingPolicies msgs \<Rightarrow> sync_messages ''failed to sync address group binding policies'' (\<lambda>m. Some (convertAddressGroupBindingPolicy m))
                    (\<lambda>xs. on_backend (\<lambda>b. Some (NetguardFacade_Sync_AddressGroupBindingPolicies op xs b))) msgs s
                | SyncReq_Networks msgs \<Rightarrow> sync_messages ''failed to sync networks'' (\<lambda>m. Some (convertNetwork m))
                    (\<lambda>xs. on_net (\<lambda>n. Some (NetguardFacade_Sync_Networks op xs n))) msgs s
                | SyncReq_NetworkBindings msgs \<Rightarrow> sync_messages ''failed to sync network bindings'' (\<lambda>m. Some (convertNetworkBinding m))
                    (\<lambda>xs. on_net (NetguardFacade_Sync_NetworkBindings op xs)) msgs s
                | SyncReq_Hosts msgs \<Rightarrow> sync_messages ''failed to sync hosts'' convertHost
                    (\<lambda>xs. (\<lambda>s. Some (NetguardFacade_Sync_Hosts op xs s))) msgs s
                | SyncReq_HostBindings msgs \<Rightarrow> sync_messages ''failed to sync host bindings'' convertHostBinding
                    (\<lambda>xs. NetguardFacade_Sync_HostBindings op xs) msgs s))"

definition server_SyncStatus :: "host_state \<Rightarrow> gotime \<times> host_state" where
  "server_SyncStatus s = NetguardFacade_GetSyncStatus s"

section \<open>Listings and look-ups\<close>

definition request_scope :: "pb_identifier list \<Rightarrow> scope option" where
  "request_scope ids =
     (if length ids > 0
      then Some (NewResourceIdentifierScope
             (map (\<lambda>i. NewResourceIdentifier (pbi_Name i) [WithNamespace (pbi_Namespace i)]) ids))
      else Some EmptyScope)"

definition idFromReq :: "pb_identifier option \<Rightarrow> resource_identifier" where
  "idFromReq ri = NewResourceIdentifier (GetName ri) [WithNamespace (GetNamespace ri)]"

definition answer :: "string \<Rightarrow> ('x \<Rightarrow> 'p) \<Rightarrow> error + 'x \<Rightarrow> error + 'p" where
  "answer what to_pb r = (case r of Inl e \<Rightarrow> Inl (Wrap what e) | Inr x \<Rightarrow> Inr (to_pb x))"

definition server_ListServices :: "pb_identifier list \<Rightarrow> host_state \<Rightarrow> error + pb_service list" where
  "server_ListServices ids s =
     answer ''failed to get services'' (map convertServiceToPB) (NetguardFacade_GetServices (request_scope ids) s)"

definition server_GetService :: "pb_identifier option \<Rightarrow> host_state \<Rightarrow> error + pb_service" where
  "server_GetService ri s =
     answer ''failed to get service'' convertServiceToPB (NetguardFacade_GetServiceByID (idFromReq ri) s)"

definition server_ListAddressGroups :: "pb_identifier list \<Rightarrow> host_state \<Rightarrow> error + pb_address_group list" where
  "server_ListAddressGroups ids s =
     answer ''failed to get address groups'' (map convertAddressGroupToPB) (NetguardFacade_GetAddressGroups (request_scope ids) s)"

definition server_GetAddressGroup :: "pb_identifier option \<Rightarrow> host_state \<Rightarrow> error + pb_address_group" where
  "server_GetAddressGroup ri s =
     answer ''failed to get address group'' convertAddressGroupToPB (NetguardFacade_GetAddressGroupByID (idFromReq ri) s)"

definition server_ListAddressGroupBindings :: "pb_identifier list \<Rightarrow> host_state \<Rightarrow> error + pb_binding list" where
  "server_ListAddressGroupBindings ids s =
     answer ''failed to get address group bindings'' (map convertAddressGroupBindingToPB) (NetguardFacade_GetAddressGroupBindings (request_scope ids) s)"

definition server_GetAddressGroupBinding :: "pb_identifier option \<Rightarrow> host_state \<Rightarrow> error + pb_binding" where
  "server_GetAddressGroupBinding ri s =
     answer ''failed to get address group binding'' convertAddressGroupBindingToPB (NetguardFacade_GetAddressGroupBindingByID (idFromReq ri) s)"

definition server_ListAddressGroupPortMappings :: "pb_identifier list \<Rightarrow> host_state \<Rightarrow> error + pb_port_mapping list" where
  "server_ListAddressGroupPortMappings ids s =
     answer ''failed to get address group port mappings'' (map convertAddressGroupPortMappingToPB) (NetguardFacade_GetAddressGroupPortMappings (request_scope ids) s)"

definition server_GetAddressGroupPortMapping :: "pb_identifier option \<Rightarrow> host_state \<Rightarrow> error + pb_port_mapping" where
  "server_GetAddressGroupPortMapping ri s =
     answer ''failed to get address group port mapping'' convertAddressGroupPortMappingToPB (NetguardFacade_GetAddressGroupPortMappingByID (idFromReq ri) s)"

definition server_ListRuleS2S :: "pb_identifier list \<Rightarrow> host_state \<Rightarrow> error + pb_rule_s2s list" where
  "server_ListRuleS2S ids s =
     answer ''failed to get rule s2s'' (map convertRuleS2SToPB) (NetguardFacade_GetRuleS2S (request_scope ids) s)"

definition server_GetRuleS2S :: "pb_identifier option \<Rightarrow> host_state \<Rightarrow> error + pb_rule_s2s" where
  "server_GetRuleS2S ri s =
     answer ''failed to get rule s2s'' convertRuleS2SToPB (NetguardFacade_GetRuleS2SByID (idFromReq ri) s)"

definition server_ListServiceAliases :: "pb_identifier list \<Rightarrow> host_state \<Rightarrow> error + pb_service_alias list" where
  "server_ListServiceAliases ids s =
     answer ''failed to get service aliases'' (map convertServiceAliasToPB) (NetguardFacade_GetServiceAliases (request_scope ids) s)"

definition server_GetServiceAlias :: "pb_identifier option \<Rightarrow> host_state \<Rightarrow> error + pb_service_alias" where
  "server_GetServiceAlias ri s =
     answer ''failed to get service alias'' convertServiceAliasToPB (NetguardFacade_GetServiceAliasByID (idFromReq ri) s)"

definition server_ListIEAgAgRules :: "pb_identifier list \<Rightarrow> host_state \<Rightarrow> error + pb_ieagag_rule list" where
  "server_ListIEAgAgRules ids s =
     answer ''failed to get IEAgAgRules'' (map convertIEAgAgRuleToPB) (NetguardFacade_GetIEAgAgRules (request_scope ids) s)"

definition server_GetIEAgAgRule :: "pb_identifier option \<Rightarrow> host_state \<Rightarrow> error + pb_ieagag_rule" where
  "server_GetIEAgAgRule ri s =
     answer ''failed to get IEAgAgRule'' convertIEAgAgRuleToPB (NetguardFacade_GetIEAgAgRuleByID (idFromReq ri) s)"

definition server_ListAddressGroupBindingPolicies :: "pb_identifier list \<Rightarrow> host_state \<Rightarrow> error + pb_binding list" where
  "server_ListAddressGroupBindingPolicies ids s =
     answer ''failed to get address group binding policies'' (map convertAddressGroupBindingPolicyToPB) (NetguardFacade_GetAddressGroupBindingPolicies (request_scope ids) s)"

definition server_GetAddressGroupBindingPolicy :: "pb_identifier option \<Rightarrow> host_state \<Rightarrow> error + pb_binding" where
  "server_GetAddressGroupBindingPolicy ri s =
     answer ''failed to get address group binding policy'' convertAddressGroupBindingPolicyToPB (NetguardFacade_GetAddressGroupBindingPolicyByID (idFromReq ri) s)"

definition server_ListNetworks :: "pb_identifier list \<Rightarrow> host_state \<Rightarrow> error + pb_network list" where
  "server_ListNetworks ids s =
     answer ''failed to get networks'' (map convertNetworkToPB) (NetguardFacade_GetNetworks (request_scope ids) s)"

text \<open>A look-up of networks or network bindings returns an object or an error, never nil without an error.\<close>

definition server_GetNetwork :: "pb_identifier option \<Rightarrow> host_state \<Rightarrow> error + pb_network" where
  "server_GetNetwork ri s =
     answer ''failed to get network'' convertNetworkToPB (NetguardFacade_GetNetworkByID (idFromReq ri) s)"

definition server_ListNetworkBindings :: "pb_identifier list \<Rightarrow> host_state \<Rightarrow> error + pb_network_binding list" where
  "server_ListNetworkBindings ids s =
     answer ''failed to get network bindings'' (map convertNetworkBindingToPB) (NetguardFacade_GetNetworkBindings (request_scope ids) s)"

definition server_GetNetworkBinding :: "pb_identifier option \<Rightarrow> host_state \<Rightarrow> error + pb_network_binding" where
  "server_GetNetworkBinding ri s =
     answer ''failed to get network binding'' convertNetworkBindingToPB (NetguardFacade_GetNetworkBindingByID (idFromReq ri) s)"

definition server_ListHosts :: "pb_identifier list \<Rightarrow> host_state \<Rightarrow> error + pb_host list" where
  "server_ListHosts ids s =
     answer ''failed to get hosts'' (map convertHostToPB) (NetguardFacade_GetHosts (request_scope ids) s)"

text \<open>The identifier of the request is read without a check for nil.\<close>

definition server_GetHost :: "pb_identifier option \<Rightarrow> host_state \<Rightarrow> (error + pb_host) option" where
  "server_GetHost ri s =
     (case ri of
        None \<Rightarrow> None
      | Some _ \<Rightarrow> Some (answer ''failed to get host'' convertHostToPB (NetguardFacade_GetHostByID (idFromReq ri) s)))"

definition server_ListHostBindings :: "pb_identifier list \<Rightarrow> host_state \<Rightarrow> error + pb_host_binding list" where
  "server_ListHostBindings ids s =
     answer ''failed to get host bindings'' (map convertHostBindingToPB) (NetguardFacade_GetHostBindings (request_scope ids) s)"

text \<open>The identifier of the request is read without a check for nil.\<close>

definition server_GetHostBinding :: "pb_identifier option \<Rightarrow> host_state \<Rightarrow> (error + pb_host_binding) option" where
  "server_GetHostBinding ri s =
     (case ri of
        None \<Rightarrow> None
      | Some _ \<Rightarrow> Some (answer ''failed to get host binding'' convertHostBindingToPB (NetguardFacade_GetHostBindingByID (idFromReq ri) s)))"

end
