(* ===== verification/ApiProperties.thy ===== *)
theory ApiProperties
  imports ApiHandlers MappingProperties HostProperties
begin

text \<open>
  A request through the whole backend: the conversions of the gRPC service, the facade, the
  address group service, the generation of port mappings, the store, and the way back.
\<close>

section \<open>Reading through the gRPC service\<close>











end
