(* ===== verification/ExternalSync.thy ===== *)
theory ExternalSync
  imports Resources
begin

text \<open>
  The synchronisation of the stored objects with the external SGROUP service
  (\<^verbatim>\<open>internal/sync\<close>): the messages the domain models turn into, the client that sends
  them, the four syncers, the tracker that spaces out the synchronisations of one object, the
  retry loop, and the manager that puts them together.

  The SGROUP service is a parameter: its answer to a request may depend on all requests it got
  before. So is the cancellation of the caller's context during a pause of the retry loop; the
  length of the pauses is not modelled. Times are nanoseconds.
\<close>

section \<open>Operations, subjects, messages\<close>

definition SGOperationNoOp :: string where "SGOperationNoOp = ''NoOp''"
definition SGOperationFullSync :: string where "SGOperationFullSync = ''FullSync''"
definition SGOperationUpsert :: string where "SGOperationUpsert = ''Upsert''"
definition SGOperationDelete :: string where "SGOperationDelete = ''Delete''"

definition SyncSubjectTypeGroups :: string where "SyncSubjectTypeGroups = ''Groups''"
definition SyncSubjectTypeNetworks :: string where "SyncSubjectTypeNetworks = ''Networks''"
definition SyncSubjectTypeHosts :: string where "SyncSubjectTypeHosts = ''Hosts''"
definition SyncSubjectTypeIEAgAgRules :: string where "SyncSubjectTypeIEAgAgRules = ''IEAgAgRules''"
definition SyncSubjectTypeNetworkBindings :: string where "SyncSubjectTypeNetworkBindings = ''NetworkBindings''"

lemmas sg_operation_defs =
  SGOperationNoOp_def SGOperationFullSync_def SGOperationUpsert_def SGOperationDelete_def

lemmas sg_subject_defs =
  SyncSubjectTypeGroups_def SyncSubjectTypeNetworks_def SyncSubjectTypeHosts_def
  SyncSubjectTypeIEAgAgRules_def SyncSubjectTypeNetworkBindings_def

text \<open>Of the messages of the SGROUP interface, the fields that the code sets or reads.\<close>

datatype sg_default_action = SecGroup_DROP | SecGroup_ACCEPT
datatype sg_transport = SG_TCP | SG_UDP
datatype sg_traffic = SG_Ingress | SG_Egress
datatype sg_rule_action = SG_ACCEPT | SG_DROP

record sec_group =
  sgg_Name :: string
  sgg_Networks :: "string list"
  sgg_DefaultAction :: sg_default_action
  sgg_Trace :: bool
  sgg_Logs :: bool

record sg_network =
  sgn_Name :: string
  sgn_CIDR :: string

record sg_host =
  sgh_Name :: string
  sgh_Uuid :: string
  sgh_SgName :: string
  sgh_IpList :: "string list option"

record acc_ports =
  acc_S :: string
  acc_D :: string

record sg_rule =
  sgr_Transport :: sg_transport
  sgr_SG :: string
  sgr_SgLocal :: string
  sgr_Traffic :: sg_traffic
  sgr_Ports :: "acc_ports list"
  sgr_Logs :: bool
  sgr_Action :: sg_rule_action
  sgr_Trace :: bool

text \<open>The values of the untyped maps that bindings turn into.\<close>

datatype map_value = StringValue string | RefValue object_reference | ItemValue network_item

datatype proto_data =
    ProtoGroup sec_group
  | ProtoNetwork sg_network
  | ProtoHost sg_host
  | ProtoRule sg_rule
  | ProtoMap "(string \<times> map_value) list"

section \<open>Domain models as entities\<close>

text \<open>
  An entity is a non-nil pointer to one of the kinds that implement \<^verbatim>\<open>SyncableEntity\<close>;
  a nil interface is \<open>None\<close> where the code looks for it.
\<close>

datatype sync_entity =
    GroupEntity address_group
  | NetworkEntity network
  | HostEntity host
  | RuleEntity ieagag_rule
  | HostBindingEntity host_binding
  | NetworkBindingEntity network_binding

fun GetSyncSubjectType :: "sync_entity \<Rightarrow> string" where
  "GetSyncSubjectType (GroupEntity _) = SyncSubjectTypeGroups"
| "GetSyncSubjectType (NetworkEntity _) = SyncSubjectTypeNetworks"
| "GetSyncSubjectType (HostEntity _) = SyncSubjectTypeHosts"
| "GetSyncSubjectType (RuleEntity _) = SyncSubjectTypeIEAgAgRules"
| "GetSyncSubjectType (HostBindingEntity _) = ''HostBindings''"
| "GetSyncSubjectType (NetworkBindingEntity _) = SyncSubjectTypeNetworkBindings"

text \<open>\<^verbatim>\<open>fmt.Sprintf("%s/%s", namespace, name)\<close> when there is a namespace.\<close>

definition qualified_name :: "string \<Rightarrow> string \<Rightarrow> string" where
  "qualified_name ns name = (if ns \<noteq> [] then ns @ ''/'' @ name else name)"

definition AddressGroup_GetSyncKey :: "address_group \<Rightarrow> string" where
  "AddressGroup_GetSyncKey ag = ''addressgroup-'' @ qualified_name (Namespace ag) (Name ag)"

definition Network_GetSyncKey :: "network \<Rightarrow> string" where
  "Network_GetSyncKey n = ''network-'' @ qualified_name (Namespace n) (Name n)"

definition Host_GetSyncKey :: "host \<Rightarrow> string" where
  "Host_GetSyncKey h = ''host-'' @ qualified_name (Namespace h) (Name h)"

definition IEAgAgRule_GetSyncKey :: "ieagag_rule \<Rightarrow> string" where
  "IEAgAgRule_GetSyncKey r = ''ieagagrule-'' @ qualified_name (Namespace r) (Name r)"

definition HostBinding_GetSyncKey :: "host_binding \<Rightarrow> string" where
  "HostBinding_GetSyncKey hb = ''hostbinding-'' @ qualified_name (Namespace hb) (Name hb)"

definition NetworkBinding_GetSyncKey :: "network_binding \<Rightarrow> string" where
  "NetworkBinding_GetSyncKey nb = ''networkbinding-'' @ qualified_name (Namespace nb) (Name nb)"

fun GetSyncKey :: "sync_entity \<Rightarrow> string" where
  "GetSyncKey (GroupEntity ag) = AddressGroup_GetSyncKey ag"
| "GetSyncKey (NetworkEntity n) = Network_GetSyncKey n"
| "GetSyncKey (HostEntity h) = Host_GetSyncKey h"
| "GetSyncKey (RuleEntity r) = IEAgAgRule_GetSyncKey r"
| "GetSyncKey (HostBindingEntity hb) = HostBinding_GetSyncKey hb"
| "GetSyncKey (NetworkBindingEntity nb) = NetworkBinding_GetSyncKey nb"

definition AddressGroup_ToSGroupsProto :: "address_group \<Rightarrow> sec_group" where
  "AddressGroup_ToSGroupsProto ag =
     \<lparr> sgg_Name = (if ag_AddressGroupName ag = [] then qualified_name (Namespace ag) (Name ag) else ag_AddressGroupName ag),
       sgg_Networks = map ni_Name (ag_Networks ag),
       sgg_DefaultAction = (if ag_DefaultAction ag = ActionDrop then SecGroup_DROP
                            else if ag_DefaultAction ag = ActionAccept then SecGroup_ACCEPT
                            else SecGroup_ACCEPT),
       sgg_Trace = ag_Trace ag,
       sgg_Logs = ag_Logs ag \<rparr>"

definition Network_ToSGroupsProto :: "network \<Rightarrow> sg_network" where
  "Network_ToSGroupsProto n = \<lparr> sgn_Name = qualified_name (Namespace n) (Name n), sgn_CIDR = nw_CIDR n \<rparr>"

definition host_sg_name :: "host \<Rightarrow> string" where
  "host_sg_name h =
     (if h_IsBound h then
        (case h_AddressGroupRef h of
           None \<Rightarrow> []
         | Some r \<Rightarrow> if Namespace h \<noteq> [] \<and> ref_Name r \<noteq> [] then Namespace h @ ''/'' @ ref_Name r else ref_Name r)
      else [])"

definition Host_ToSGroupsProto :: "host \<Rightarrow> sg_host" where
  "Host_ToSGroupsProto h =
     \<lparr> sgh_Name = qualified_name (Namespace h) (Name h), sgh_Uuid = h_UUID h, sgh_SgName = host_sg_name h,
       sgh_IpList = Some (GetIpList h) \<rparr>"

definition sg_ports :: "port_spec list \<Rightarrow> acc_ports list" where
  "sg_ports ps =
     map (\<lambda>p. \<lparr> acc_S = ps_Source p, acc_D = ps_Destination p \<rparr>) (filter (\<lambda>p. ps_Destination p \<noteq> []) ps)"

definition sg_transport_of :: "transport_protocol \<Rightarrow> sg_transport" where
  "sg_transport_of t = (if t = TCP then SG_TCP else if t = UDP then SG_UDP else SG_TCP)"

definition sg_traffic_of :: "traffic \<Rightarrow> sg_traffic" where
  "sg_traffic_of t = (if t = INGRESS then SG_Ingress else if t = EGRESS then SG_Egress else SG_Ingress)"

definition sg_action_of :: "rule_action \<Rightarrow> sg_rule_action" where
  "sg_action_of a = (if a = ActionAccept then SG_ACCEPT else if a = ActionDrop then SG_DROP else SG_ACCEPT)"

definition IEAgAgRule_ToSGroupsProto :: "ieagag_rule \<Rightarrow> sg_rule" where
  "IEAgAgRule_ToSGroupsProto r =
     \<lparr> sgr_Transport = sg_transport_of (ie_Transport r),
       sgr_SG = qualified_name (ref_Namespace (ie_AddressGroup r)) (ref_Name (ie_AddressGroup r)),
       sgr_SgLocal = qualified_name (ref_Namespace (ie_AddressGroupLocal r)) (ref_Name (ie_AddressGroupLocal r)),
       sgr_Traffic = sg_traffic_of (ie_Traffic r),
       sgr_Ports = sg_ports (ie_Ports r),
       sgr_Logs = ie_Logs r,
       sgr_Action = sg_action_of (ie_Action r),
       sgr_Trace = ie_Trace r \<rparr>"

definition HostBinding_ToSGroupsProto :: "host_binding \<Rightarrow> (string \<times> map_value) list" where
  "HostBinding_ToSGroupsProto hb =
     [(''name'', StringValue (Name hb)),
      (''namespace'', StringValue (Namespace hb)),
      (''hostRef'', StringValue (qualified_name (ref_Namespace (hb_HostRef hb)) (ref_Name (hb_HostRef hb)))),
      (''addressGroupRef'', StringValue (qualified_name (ref_Namespace (hb_AddressGroupRef hb)) (ref_Name (hb_AddressGroupRef hb))))]"

definition NetworkBinding_ToSGroupsProto :: "network_binding \<Rightarrow> (string \<times> map_value) list" where
  "NetworkBinding_ToSGroupsProto nb =
     [(''name'', StringValue (Name nb)),
      (''namespace'', StringValue (Namespace nb)),
      (''networkRef'', RefValue (nb_NetworkRef nb)),
      (''addressGroupRef'', RefValue (nb_AddressGroupRef nb)),
      (''networkItem'', ItemValue (nb_NetworkItem nb))]"

text \<open>The conversions fail on a nil receiver only.\<close>

fun ToSGroupsProto :: "sync_entity \<Rightarrow> error + proto_data" where
  "ToSGroupsProto (GroupEntity ag) = Inr (ProtoGroup (AddressGroup_ToSGroupsProto ag))"
| "ToSGroupsProto (NetworkEntity n) = Inr (ProtoNetwork (Network_ToSGroupsProto n))"
| "ToSGroupsProto (HostEntity h) = Inr (ProtoHost (Host_ToSGroupsProto h))"
| "ToSGroupsProto (RuleEntity r) = Inr (ProtoRule (IEAgAgRule_ToSGroupsProto r))"
| "ToSGroupsProto (HostBindingEntity hb) = Inr (ProtoMap (HostBinding_ToSGroupsProto hb))"
| "ToSGroupsProto (NetworkBindingEntity nb) = Inr (ProtoMap (NetworkBinding_ToSGroupsProto nb))"

section \<open>The client\<close>

text \<open>What a request of a syncer carries, and what is sent over the wire.\<close>

datatype request_data =
    DataGroups "sec_group list"
  | DataNetworks "sg_network list"
  | DataHosts "sg_host list"
  | DataRules "sg_rule list"
  | DataLegacyRule ieagag_rule

record sync_request =
  sr_Operation :: string
  sr_SubjectType :: string
  sr_Data :: request_data

datatype wire_op = Wire_NoOp | Wire_FullSync | Wire_Upsert | Wire_Delete

datatype wire_subject =
    Wire_Groups "sec_group list"
  | Wire_Networks "sg_network list"
  | Wire_Hosts "sg_host list"
  | Wire_IeSgSgRules "sg_rule list"

record wire_req =
  wr_SyncOp :: wire_op
  wr_Subject :: wire_subject

text \<open>
  The service: its answers, and the names that \<^verbatim>\<open>%T\<close> prints for the message types.
\<close>

record sgroups =
  sg_Sync :: "wire_req list \<Rightarrow> wire_req \<Rightarrow> error option"
  sg_protoType :: "proto_data \<Rightarrow> string"
  sg_dataType :: "request_data \<Rightarrow> string"

definition sg_convertOp :: "string \<Rightarrow> error + wire_op" where
  "sg_convertOp op =
     (if op = SGOperationNoOp then Inr Wire_NoOp
      else if op = SGOperationFullSync then Inr Wire_FullSync
      else if op = SGOperationUpsert then Inr Wire_Upsert
      else if op = SGOperationDelete then Inr Wire_Delete
      else Inl (Errorf (''unknown sync operation: '' @ op)))"

definition convertIEAgAgRuleToSGroupsProto :: "ieagag_rule \<Rightarrow> sg_rule" where
  "convertIEAgAgRuleToSGroupsProto r =
     \<lparr> sgr_Transport = sg_transport_of (ie_Transport r),
       sgr_SG = ref_Namespace (ie_AddressGroup r) @ ''/'' @ ref_Name (ie_AddressGroup r),
       sgr_SgLocal = ref_Namespace (ie_AddressGroupLocal r) @ ''/'' @ ref_Name (ie_AddressGroupLocal r),
       sgr_Traffic = sg_traffic_of (ie_Traffic r),
       sgr_Ports = sg_ports (ie_Ports r),
       sgr_Logs = ie_Logs r,
       sgr_Action = sg_action_of (ie_Action r),
       sgr_Trace = ie_Trace r \<rparr>"

definition wrong_data :: "sgroups \<Rightarrow> string \<Rightarrow> string \<Rightarrow> request_data \<Rightarrow> error + wire_subject" where
  "wrong_data sg subject expected d =
     Inl (Errorf (''invalid data type for '' @ subject @ '' subject, expected '' @ expected @ '', got '' @ sg_dataType sg d))"

definition convertSubject :: "sgroups \<Rightarrow> string \<Rightarrow> request_data \<Rightarrow> error + wire_subject" where
  "convertSubject sg ty d =
     (if ty = SyncSubjectTypeGroups then
        (case d of DataGroups gs \<Rightarrow> Inr (Wire_Groups gs) | _ \<Rightarrow> wrong_data sg ''Groups'' ''*pb.SyncSecurityGroups'' d)
      else if ty = SyncSubjectTypeNetworks then
        (case d of DataNetworks ns \<Rightarrow> Inr (Wire_Networks ns) | _ \<Rightarrow> wrong_data sg ''Networks'' ''*pb.SyncNetworks'' d)
      else if ty = SyncSubjectTypeHosts then
        (case d of DataHosts hs \<Rightarrow> Inr (Wire_Hosts hs) | _ \<Rightarrow> wrong_data sg ''Hosts'' ''*pb.SyncHosts'' d)
      else if ty = SyncSubjectTypeIEAgAgRules then
        (case d of
           DataRules rs \<Rightarrow> Inr (Wire_IeSgSgRules rs)
         | DataLegacyRule r \<Rightarrow> Inr (Wire_IeSgSgRules [convertIEAgAgRuleToSGroupsProto r])
         | _ \<Rightarrow> wrong_data sg ''IEAgAgRules'' ''*pb.SyncIESgSgRules or *models.IEAgAgRule'' d)
      else Inl (Errorf (''unknown subject type: '' @ ty)))"

definition convertSyncRequestToProto :: "sgroups \<Rightarrow> sync_request \<Rightarrow> error + wire_req" where
  "convertSyncRequestToProto sg req =
     (case sg_convertOp (sr_Operation req) of
        Inl e \<Rightarrow> Inl e
      | Inr op \<Rightarrow>
          (case convertSubject sg (sr_SubjectType req) (sr_Data req) of
             Inl e \<Rightarrow> Inl e
           | Inr sub \<Rightarrow> Inr \<lparr> wr_SyncOp = op, wr_Subject = sub \<rparr>))"

text \<open>The requests that reached the service so far are the state.\<close>

definition sgroupsClient_Sync :: "sgroups \<Rightarrow> sync_request \<Rightarrow> wire_req list \<Rightarrow> error option \<times> wire_req list" where
  "sgroupsClient_Sync sg req sent =
     (case convertSyncRequestToProto sg req of
        Inl e \<Rightarrow> (Some (Wrap ''failed to convert sync request to proto'' e), sent)
      | Inr r \<Rightarrow> (sg_Sync sg sent r, sent @ [r]))"

section \<open>The syncers\<close>

text \<open>
  The four syncers differ in their name, their subject type, the message they expect, the
  aggregate they send and two error texts.
\<close>

record 'p syncer_kind =
  sk_Name :: string
  sk_Subject :: string
  sk_expected :: string
  sk_cast :: "proto_data \<Rightarrow> 'p option"
  sk_aggregate :: "'p list \<Rightarrow> request_data"
  sk_failed :: string
  sk_batchFailed :: string

definition wrong_proto :: "sgroups \<Rightarrow> 'p syncer_kind \<Rightarrow> sync_entity \<Rightarrow> proto_data \<Rightarrow> error" where
  "wrong_proto sg k x d =
     Errorf (''invalid proto data type for entity '' @ GetSyncKey x @ '', expected '' @ sk_expected k @ '', got '' @ sg_protoType sg d)"

definition wrong_entity :: "'p syncer_kind \<Rightarrow> sync_entity \<Rightarrow> error" where
  "wrong_entity k x = Errorf (''invalid entity type for '' @ sk_Name k @ '': '' @ GetSyncSubjectType x)"

definition send_aggregate ::
  "sgroups \<Rightarrow> 'p syncer_kind \<Rightarrow> string \<Rightarrow> string \<Rightarrow> 'p list \<Rightarrow> wire_req list \<Rightarrow> error option \<times> wire_req list"
where
  "send_aggregate sg k failed op ps sent =
     (case sgroupsClient_Sync sg \<lparr> sr_Operation = op, sr_SubjectType = sk_Subject k, sr_Data = sk_aggregate k ps \<rparr> sent of
        (Some e, sent') \<Rightarrow> (Some (Wrap failed e), sent')
      | (None, sent') \<Rightarrow> (None, sent'))"

definition syncer_Sync ::
  "sgroups \<Rightarrow> 'p syncer_kind \<Rightarrow> sync_entity option \<Rightarrow> string \<Rightarrow> wire_req list \<Rightarrow> error option \<times> wire_req list"
where
  "syncer_Sync sg k entity op sent =
     (case entity of
        None \<Rightarrow> (Some (Errorf ''entity cannot be nil''), sent)
      | Some x \<Rightarrow>
          if GetSyncSubjectType x \<noteq> sk_Subject k then (Some (wrong_entity k x), sent)
          else (case ToSGroupsProto x of
                  Inl e \<Rightarrow> (Some (Wrap ''failed to convert entity to sgroups proto'' e), sent)
                | Inr d \<Rightarrow>
                    (case sk_cast k d of
                       None \<Rightarrow> (Some (wrong_proto sg k x d), sent)
                     | Some p \<Rightarrow> send_aggregate sg k (sk_failed k) op [p] sent)))"

fun batch_protos :: "sgroups \<Rightarrow> 'p syncer_kind \<Rightarrow> sync_entity option list \<Rightarrow> error + 'p list" where
  "batch_protos sg k [] = Inr []"
| "batch_protos sg k (None # xs) = batch_protos sg k xs"
| "batch_protos sg k (Some x # xs) =
     (if GetSyncSubjectType x \<noteq> sk_Subject k then Inl (wrong_entity k x)
      else (case ToSGroupsProto x of
              Inl e \<Rightarrow> Inl (Wrap (''failed to convert entity '' @ GetSyncKey x @ '' to sgroups proto'') e)
            | Inr d \<Rightarrow>
                (case sk_cast k d of
                   None \<Rightarrow> Inl (wrong_proto sg k x d)
                 | Some p \<Rightarrow> (case batch_protos sg k xs of Inl e \<Rightarrow> Inl e | Inr ps \<Rightarrow> Inr (p # ps)))))"

definition syncer_SyncBatch ::
  "sgroups \<Rightarrow> 'p syncer_kind \<Rightarrow> sync_entity option list \<Rightarrow> string \<Rightarrow> wire_req list \<Rightarrow> error option \<times> wire_req list"
where
  "syncer_SyncBatch sg k entities op sent =
     (if entities = [] then (None, sent)
      else (case batch_protos sg k entities of
              Inl e \<Rightarrow> (Some e, sent)
            | Inr ps \<Rightarrow> if ps = [] then (None, sent) else send_aggregate sg k (sk_batchFailed k) op ps sent))"

definition AddressGroupSyncer_kind :: "sec_group syncer_kind" where
  "AddressGroupSyncer_kind =
     \<lparr> sk_Name = ''AddressGroupSyncer'', sk_Subject = SyncSubjectTypeGroups, sk_expected = ''*pb.SecGroup'',
       sk_cast = (\<lambda>d. case d of ProtoGroup g \<Rightarrow> Some g | _ \<Rightarrow> None), sk_aggregate = DataGroups,
       sk_failed = ''failed to sync AddressGroup with sgroups'',
       sk_batchFailed = ''failed to sync AddressGroup batch with sgroups'' \<rparr>"

definition NetworkSyncer_kind :: "sg_network syncer_kind" where
  "NetworkSyncer_kind =
     \<lparr> sk_Name = ''NetworkSyncer'', sk_Subject = SyncSubjectTypeNetworks, sk_expected = ''*pb.Network'',
       sk_cast = (\<lambda>d. case d of ProtoNetwork n \<Rightarrow> Some n | _ \<Rightarrow> None), sk_aggregate = DataNetworks,
       sk_failed = ''failed to sync Network with sgroups'',
       sk_batchFailed = ''failed to sync Network batch with sgroups'' \<rparr>"

definition HostSyncer_kind :: "sg_host syncer_kind" where
  "HostSyncer_kind =
     \<lparr> sk_Name = ''HostSyncer'', sk_Subject = SyncSubjectTypeHosts, sk_expected = ''*pb.Host'',
       sk_cast = (\<lambda>d. case d of ProtoHost h \<Rightarrow> Some h | _ \<Rightarrow> None), sk_aggregate = DataHosts,
       sk_failed = ''failed to sync Host with sgroups'',
       sk_batchFailed = ''failed to sync Host batch with sgroups'' \<rparr>"

definition IEAgAgRuleSyncer_kind :: "sg_rule syncer_kind" where
  "IEAgAgRuleSyncer_kind =
     \<lparr> sk_Name = ''IEAgAgRuleSyncer'', sk_Subject = SyncSubjectTypeIEAgAgRules, sk_expected = ''*pb.IESgSgRule'',
       sk_cast = (\<lambda>d. case d of ProtoRule r \<Rightarrow> Some r | _ \<Rightarrow> None), sk_aggregate = DataRules,
       sk_failed = ''failed to sync entity with sgroups'',
       sk_batchFailed = ''failed to sync IEAgAgRule batch with sgroups'' \<rparr>"

definition AddressGroupSyncer_Sync where "AddressGroupSyncer_Sync sg = syncer_Sync sg AddressGroupSyncer_kind"
definition AddressGroupSyncer_SyncBatch where "AddressGroupSyncer_SyncBatch sg = syncer_SyncBatch sg AddressGroupSyncer_kind"
definition NetworkSyncer_Sync where "NetworkSyncer_Sync sg = syncer_Sync sg NetworkSyncer_kind"
definition NetworkSyncer_SyncBatch where "NetworkSyncer_SyncBatch sg = syncer_SyncBatch sg NetworkSyncer_kind"
definition HostSyncer_Sync where "HostSyncer_Sync sg = syncer_Sync sg HostSyncer_kind"
definition HostSyncer_SyncBatch where "HostSyncer_SyncBatch sg = syncer_SyncBatch sg HostSyncer_kind"
definition IEAgAgRuleSyncer_Sync where "IEAgAgRuleSyncer_Sync sg = syncer_Sync sg IEAgAgRuleSyncer_kind"
definition IEAgAgRuleSyncer_SyncBatch where "IEAgAgRuleSyncer_SyncBatch sg = syncer_SyncBatch sg IEAgAgRuleSyncer_kind"

lemmas syncer_kind_defs =
  AddressGroupSyncer_kind_def NetworkSyncer_kind_def HostSyncer_kind_def IEAgAgRuleSyncer_kind_def

section \<open>What a syncer promises\<close>

text \<open>
  A syncer for one subject type: an entity of that type is sent as one request with one
  message, a batch of such entities as one request with the messages in order, and the answer
  of the service is the outcome, wrapped when it is an error. \<open>subject\<close> builds what is sent from
  the entities.
\<close>

definition wire_of :: "string \<Rightarrow> wire_subject \<Rightarrow> wire_req option" where
  "wire_of op sub = (case sg_convertOp op of Inl _ \<Rightarrow> None | Inr o' \<Rightarrow> Some \<lparr> wr_SyncOp = o', wr_Subject = sub \<rparr>)"

lemma wire_of_known: "wire_of op sub \<noteq> None \<longleftrightarrow> op \<in> {SGOperationNoOp, SGOperationFullSync, SGOperationUpsert, SGOperationDelete}"
  by (simp add: wire_of_def sg_convertOp_def)

locale subject_syncer =
  fixes sg :: sgroups
    and sync :: "sync_entity option \<Rightarrow> string \<Rightarrow> wire_req list \<Rightarrow> error option \<times> wire_req list"
    and batch :: "sync_entity option list \<Rightarrow> string \<Rightarrow> wire_req list \<Rightarrow> error option \<times> wire_req list"
    and ty :: string
    and subject :: "sync_entity list \<Rightarrow> wire_subject"
    and failed batchFailed :: string
  assumes sync_sends:
      "GetSyncSubjectType x = ty \<Longrightarrow> wire_of op (subject [x]) = Some r \<Longrightarrow>
       sync (Some x) op sent = (wrap_err failed (sg_Sync sg sent r), sent @ [r])"
    and batch_sends:
      "xs \<noteq> [] \<Longrightarrow> (\<And>x. x \<in> set xs \<Longrightarrow> GetSyncSubjectType x = ty) \<Longrightarrow> wire_of op (subject xs) = Some r \<Longrightarrow>
       batch (map Some xs) op sent = (wrap_err batchFailed (sg_Sync sg sent r), sent @ [r])"
    and refuses_others:
      "GetSyncSubjectType x \<noteq> ty \<Longrightarrow> fst (sync (Some x) op sent) \<noteq> None \<and> snd (sync (Some x) op sent) = sent"

fun group_protos :: "sync_entity \<Rightarrow> sec_group list" where
  "group_protos (GroupEntity ag) = [AddressGroup_ToSGroupsProto ag]"
| "group_protos _ = []"

fun network_protos :: "sync_entity \<Rightarrow> sg_network list" where
  "network_protos (NetworkEntity n) = [Network_ToSGroupsProto n]"
| "network_protos _ = []"

fun host_protos :: "sync_entity \<Rightarrow> sg_host list" where
  "host_protos (HostEntity h) = [Host_ToSGroupsProto h]"
| "host_protos _ = []"

fun rule_protos :: "sync_entity \<Rightarrow> sg_rule list" where
  "rule_protos (RuleEntity r) = [IEAgAgRule_ToSGroupsProto r]"
| "rule_protos _ = []"

text \<open>
  The generic syncer has these laws whenever its cast takes the messages of its own subject
  type, and the client accepts its aggregate.
\<close>

definition fits :: "'p syncer_kind \<Rightarrow> (sync_entity \<Rightarrow> 'p list) \<Rightarrow> sync_entity \<Rightarrow> bool" where
  "fits k f x \<longleftrightarrow>
     GetSyncSubjectType x = sk_Subject k \<and> (\<exists>d p. ToSGroupsProto x = Inr d \<and> sk_cast k d = Some p \<and> f x = [p])"

lemma generic_sync:
  assumes "fits k f x" "\<And>ps. convertSubject sg (sk_Subject k) (sk_aggregate k ps) = Inr (sub ps)"
    and "wire_of op (sub (f x)) = Some r"
  shows "syncer_Sync sg k (Some x) op sent = (wrap_err (sk_failed k) (sg_Sync sg sent r), sent @ [r])"
  using assms
  by (auto simp: fits_def syncer_Sync_def send_aggregate_def sgroupsClient_Sync_def convertSyncRequestToProto_def
      wire_of_def wrap_err_def split: sum.splits option.split)

lemma generic_protos:
  assumes "\<And>x. x \<in> set xs \<Longrightarrow> fits k f x"
  shows "batch_protos sg k (map Some xs) = Inr (concat (map f xs))"
  using assms
proof (induction xs)
  case (Cons x xs)
  from Cons.prems [of x] obtain d p where "GetSyncSubjectType x = sk_Subject k" "ToSGroupsProto x = Inr d"
    "sk_cast k d = Some p" "f x = [p]" by (auto simp: fits_def)
  with Cons show ?case by simp
qed simp

lemma generic_batch:
  assumes "\<And>x. x \<in> set xs \<Longrightarrow> fits k f x"
    and "xs \<noteq> []" "\<And>ps. convertSubject sg (sk_Subject k) (sk_aggregate k ps) = Inr (sub ps)"
    and "wire_of op (sub (concat (map f xs))) = Some r"
  shows "syncer_SyncBatch sg k (map Some xs) op sent = (wrap_err (sk_batchFailed k) (sg_Sync sg sent r), sent @ [r])"
proof -
  have "concat (map f xs) \<noteq> []" using assms(1,2) by (cases xs) (force simp: fits_def)+
  moreover have "batch_protos sg k (map Some xs) = Inr (concat (map f xs))" using assms(1) by (rule generic_protos)
  ultimately show ?thesis using assms(2-)
    by (auto simp: syncer_SyncBatch_def send_aggregate_def sgroupsClient_Sync_def convertSyncRequestToProto_def
        wire_of_def wrap_err_def simp del: concat_eq_Nil_conv split: sum.splits option.split)
qed

lemma generic_refuses:
  "GetSyncSubjectType x \<noteq> sk_Subject k \<Longrightarrow>
   fst (syncer_Sync sg k (Some x) op sent) \<noteq> None \<and> snd (syncer_Sync sg k (Some x) op sent) = sent"
  by (simp add: syncer_Sync_def)

lemma generic_syncer:
  assumes "\<And>x. GetSyncSubjectType x = sk_Subject k \<Longrightarrow> fits k f x"
    and "\<And>ps. convertSubject sg (sk_Subject k) (sk_aggregate k ps) = Inr (sub ps)"
  shows "subject_syncer sg (syncer_Sync sg k) (syncer_SyncBatch sg k) (sk_Subject k) (\<lambda>xs. sub (concat (map f xs)))
    (sk_failed k) (sk_batchFailed k)"
proof
  fix x op r sent
  assume "GetSyncSubjectType x = sk_Subject k" "wire_of op (sub (concat (map f [x]))) = Some r"
  thus "syncer_Sync sg k (Some x) op sent = (wrap_err (sk_failed k) (sg_Sync sg sent r), sent @ [r])"
    using assms by (intro generic_sync [of k f x sg sub]) simp_all
next
  fix xs op r sent
  assume "xs \<noteq> []" "\<And>x. x \<in> set xs \<Longrightarrow> GetSyncSubjectType x = sk_Subject k"
    and "wire_of op (sub (concat (map f xs))) = Some r"
  thus "syncer_SyncBatch sg k (map Some xs) op sent = (wrap_err (sk_batchFailed k) (sg_Sync sg sent r), sent @ [r])"
    using assms by (intro generic_batch [of xs k f sg sub]) simp_all
qed (rule generic_refuses)

lemma subject_entity:
  "GetSyncSubjectType x = SyncSubjectTypeGroups \<longleftrightarrow> (\<exists>ag. x = GroupEntity ag)"
  "GetSyncSubjectType x = SyncSubjectTypeNetworks \<longleftrightarrow> (\<exists>n. x = NetworkEntity n)"
  "GetSyncSubjectType x = SyncSubjectTypeHosts \<longleftrightarrow> (\<exists>h. x = HostEntity h)"
  "GetSyncSubjectType x = SyncSubjectTypeIEAgAgRules \<longleftrightarrow> (\<exists>r. x = RuleEntity r)"
  by (cases x; simp add: sg_subject_defs)+

lemma group_fits: "GetSyncSubjectType x = sk_Subject AddressGroupSyncer_kind \<Longrightarrow> fits AddressGroupSyncer_kind group_protos x"
  by (auto simp: fits_def AddressGroupSyncer_kind_def subject_entity)

lemma group_converts: "convertSubject sg (sk_Subject AddressGroupSyncer_kind) (sk_aggregate AddressGroupSyncer_kind ps) = Inr (Wire_Groups ps)"
  by (simp add: convertSubject_def AddressGroupSyncer_kind_def sg_subject_defs)

interpretation group_syncer: subject_syncer sg "AddressGroupSyncer_Sync sg" "AddressGroupSyncer_SyncBatch sg"
  SyncSubjectTypeGroups "\<lambda>xs. Wire_Groups (concat (map group_protos xs))"
  "''failed to sync AddressGroup with sgroups''" "''failed to sync AddressGroup batch with sgroups''" for sg
  using generic_syncer [OF group_fits group_converts]
  by (simp add: AddressGroupSyncer_Sync_def AddressGroupSyncer_SyncBatch_def AddressGroupSyncer_kind_def)

lemma network_fits: "GetSyncSubjectType x = sk_Subject NetworkSyncer_kind \<Longrightarrow> fits NetworkSyncer_kind network_protos x"
  by (auto simp: fits_def NetworkSyncer_kind_def subject_entity)

lemma network_converts: "convertSubject sg (sk_Subject NetworkSyncer_kind) (sk_aggregate NetworkSyncer_kind ps) = Inr (Wire_Networks ps)"
  by (simp add: convertSubject_def NetworkSyncer_kind_def sg_subject_defs)

interpretation network_syncer: subject_syncer sg "NetworkSyncer_Sync sg" "NetworkSyncer_SyncBatch sg"
  SyncSubjectTypeNetworks "\<lambda>xs. Wire_Networks (concat (map network_protos xs))"
  "''failed to sync Network with sgroups''" "''failed to sync Network batch with sgroups''" for sg
  using generic_syncer [OF network_fits network_converts]
  by (simp add: NetworkSyncer_Sync_def NetworkSyncer_SyncBatch_def NetworkSyncer_kind_def)

lemma host_fits: "GetSyncSubjectType x = sk_Subject HostSyncer_kind \<Longrightarrow> fits HostSyncer_kind host_protos x"
  by (auto simp: fits_def HostSyncer_kind_def subject_entity)

lemma host_converts: "convertSubject sg (sk_Subject HostSyncer_kind) (sk_aggregate HostSyncer_kind ps) = Inr (Wire_Hosts ps)"
  by (simp add: convertSubject_def HostSyncer_kind_def sg_subject_defs)

interpretation host_syncer: subject_syncer sg "HostSyncer_Sync sg" "HostSyncer_SyncBatch sg"
  SyncSubjectTypeHosts "\<lambda>xs. Wire_Hosts (concat (map host_protos xs))"
  "''failed to sync Host with sgroups''" "''failed to sync Host batch with sgroups''" for sg
  using generic_syncer [OF host_fits host_converts]
  by (simp add: HostSyncer_Sync_def HostSyncer_SyncBatch_def HostSyncer_kind_def)

lemma rule_fits: "GetSyncSubjectType x = sk_Subject IEAgAgRuleSyncer_kind \<Longrightarrow> fits IEAgAgRuleSyncer_kind rule_protos x"
  by (auto simp: fits_def IEAgAgRuleSyncer_kind_def subject_entity)

lemma rule_converts: "convertSubject sg (sk_Subject IEAgAgRuleSyncer_kind) (sk_aggregate IEAgAgRuleSyncer_kind ps) = Inr (Wire_IeSgSgRules ps)"
  by (simp add: convertSubject_def IEAgAgRuleSyncer_kind_def sg_subject_defs)

interpretation rule_syncer: subject_syncer sg "IEAgAgRuleSyncer_Sync sg" "IEAgAgRuleSyncer_SyncBatch sg"
  SyncSubjectTypeIEAgAgRules "\<lambda>xs. Wire_IeSgSgRules (concat (map rule_protos xs))"
  "''failed to sync entity with sgroups''" "''failed to sync IEAgAgRule batch with sgroups''" for sg
  using generic_syncer [OF rule_fits rule_converts]
  by (simp add: IEAgAgRuleSyncer_Sync_def IEAgAgRuleSyncer_SyncBatch_def IEAgAgRuleSyncer_kind_def)

end
