(* ===== verification/SyncManager.thy ===== *)
theory SyncManager
  imports ExternalSync
begin

text \<open>
  The tracker of the synchronisation manager with its debouncing (\<^verbatim>\<open>sync/utils/sync_tracker.go\<close>),
  the retry loop (\<^verbatim>\<open>sync/utils/retry_config.go\<close>) and the manager
  (\<^verbatim>\<open>sync/manager/sync_manager.go\<close>). These are other functions than the helpers of the same names
  in \<^verbatim>\<open>application/utils\<close>, which the resource services use on top of the manager.
\<close>

section \<open>The tracker\<close>

record tracker_stats =
  ts_totalRequests :: int
  ts_successfulSyncs :: int
  ts_failedSyncs :: int
  ts_lastSyncTime :: int
  ts_totalLatency :: int

record debounce_entry =
  de_lastSyncTime :: int
  de_operation :: string

record tracker =
  tr_stats :: "tracker_stats table"
  tr_debounceMap :: "debounce_entry table"
  tr_debounceTime :: int

definition sync_NewSyncTracker :: "int \<Rightarrow> tracker" where
  "sync_NewSyncTracker debounceTime = \<lparr> tr_stats = [], tr_debounceMap = [], tr_debounceTime = debounceTime \<rparr>"

definition zero_stats :: tracker_stats where
  "zero_stats = \<lparr> ts_totalRequests = 0, ts_successfulSyncs = 0, ts_failedSyncs = 0, ts_lastSyncTime = 0, ts_totalLatency = 0 \<rparr>"

definition Track :: "env \<Rightarrow> string \<Rightarrow> string \<Rightarrow> bool \<Rightarrow> tracker \<Rightarrow> tracker \<times> env" where
  "Track e subjectType operation success t =
     (let st = (case map_of (tr_stats t) subjectType of None \<Rightarrow> zero_stats | Some st \<Rightarrow> st);
          st1 = st\<lparr>ts_totalRequests := ts_totalRequests st + 1, ts_lastSyncTime := fst (Now e) div 1000000000\<rparr>;
          st2 = (if success then st1\<lparr>ts_successfulSyncs := ts_successfulSyncs st1 + 1\<rparr>
                 else st1\<lparr>ts_failedSyncs := ts_failedSyncs st1 + 1\<rparr>)
      in (t\<lparr>tr_stats := AList.update subjectType st2 (tr_stats t)\<rparr>, snd (Now e)))"

record reported_stats =
  rp_TotalRequests :: int
  rp_SuccessfulSyncs :: int
  rp_FailedSyncs :: int
  rp_LastSyncTime :: int
  rp_AverageLatency :: int

definition sync_GetStats :: "tracker \<Rightarrow> reported_stats table" where
  "sync_GetStats t =
     map (\<lambda>(ty, st).
       (ty, \<lparr> rp_TotalRequests = ts_totalRequests st, rp_SuccessfulSyncs = ts_successfulSyncs st,
              rp_FailedSyncs = ts_failedSyncs st, rp_LastSyncTime = ts_lastSyncTime st,
              rp_AverageLatency = (if ts_totalRequests st > 0 then ts_totalLatency st div ts_totalRequests st else 0) \<rparr>))
       (tr_stats t)"

definition shouldSyncInternal :: "env \<Rightarrow> string \<Rightarrow> string \<Rightarrow> bool \<Rightarrow> tracker \<Rightarrow> bool \<times> tracker \<times> env" where
  "shouldSyncInternal e key operation forced t =
     (let now = fst (Now e); e' = snd (Now e);
          entered = t\<lparr>tr_debounceMap :=
            AList.update key \<lparr> de_lastSyncTime = now, de_operation = operation \<rparr> (tr_debounceMap t)\<rparr>
      in if forced then (True, entered, e')
         else if (case map_of (tr_debounceMap t) key of
                    None \<Rightarrow> True
                  | Some entry \<Rightarrow> now - de_lastSyncTime entry \<ge> tr_debounceTime t) then (True, entered, e')
         else if operation = SGOperationDelete then (True, entered, e')
         else (False, t, e'))"

definition tracker_ShouldSync :: "env \<Rightarrow> string \<Rightarrow> string \<Rightarrow> tracker \<Rightarrow> bool \<times> tracker \<times> env" where
  "tracker_ShouldSync e key operation t = shouldSyncInternal e key operation False t"

definition ShouldSyncForced :: "env \<Rightarrow> string \<Rightarrow> string \<Rightarrow> tracker \<Rightarrow> bool \<times> tracker \<times> env" where
  "ShouldSyncForced e key operation t = shouldSyncInternal e key operation True t"

definition CleanupOldEntries :: "env \<Rightarrow> int \<Rightarrow> tracker \<Rightarrow> tracker \<times> env" where
  "CleanupOldEntries e maxAge t =
     (let cutoff = fst (Now e) - maxAge
      in (t\<lparr>tr_debounceMap := filter (\<lambda>(key, entry). \<not> de_lastSyncTime entry < cutoff) (tr_debounceMap t)\<rparr>, snd (Now e)))"

section \<open>Retries\<close>

text \<open>
  \<open>cancelled i\<close> is the error of the context when the pause after attempt \<open>i\<close> ends because the
  context is done. \<open>n\<close> is the number of attempts left after this one.
\<close>

fun attempts ::
  "(nat \<Rightarrow> error option) \<Rightarrow> ('s \<Rightarrow> error option \<times> 's) \<Rightarrow> int \<Rightarrow> nat \<Rightarrow> nat \<Rightarrow> 's \<Rightarrow> error option \<times> 's"
where
  "attempts cancelled operation maxRetries attempt n s =
     (case operation s of
        (None, s') \<Rightarrow> (None, s')
      | (Some lastErr, s') \<Rightarrow>
          (case n of
             0 \<Rightarrow> (Some (Wrap (''operation failed after '' @ itoa (maxRetries + 1) @ '' attempts'') lastErr), s')
           | Suc m \<Rightarrow>
               (case cancelled attempt of
                  Some e \<Rightarrow> (Some (Wrap ''retry cancelled by context'' e), s')
                | None \<Rightarrow> attempts cancelled operation maxRetries (Suc attempt) m s')))"

declare attempts.simps [simp del]

definition retry_Execute ::
  "int \<Rightarrow> (nat \<Rightarrow> error option) \<Rightarrow> ('s \<Rightarrow> error option \<times> 's) \<Rightarrow> 's \<Rightarrow> error option \<times> 's"
where
  "retry_Execute maxRetries cancelled operation s =
     (if maxRetries < 0
      then (Some (Errorf (''operation failed after '' @ itoa (maxRetries + 1) @ '' attempts: %!w(<nil>)'')), s)
      else attempts cancelled operation maxRetries 0 (nat maxRetries) s)"

definition DefaultMaxRetries :: int where "DefaultMaxRetries = 3"

section \<open>The manager\<close>

datatype entity_syncer = AddressGroupSyncer | NetworkSyncer | HostSyncer | IEAgAgRuleSyncer

fun entity_Sync ::
  "sgroups \<Rightarrow> entity_syncer \<Rightarrow> sync_entity option \<Rightarrow> string \<Rightarrow> wire_req list \<Rightarrow> error option \<times> wire_req list"
where
  "entity_Sync sg AddressGroupSyncer = AddressGroupSyncer_Sync sg"
| "entity_Sync sg NetworkSyncer = NetworkSyncer_Sync sg"
| "entity_Sync sg HostSyncer = HostSyncer_Sync sg"
| "entity_Sync sg IEAgAgRuleSyncer = IEAgAgRuleSyncer_Sync sg"

fun entity_SyncBatch ::
  "sgroups \<Rightarrow> entity_syncer \<Rightarrow> sync_entity option list \<Rightarrow> string \<Rightarrow> wire_req list \<Rightarrow> error option \<times> wire_req list"
where
  "entity_SyncBatch sg AddressGroupSyncer = AddressGroupSyncer_SyncBatch sg"
| "entity_SyncBatch sg NetworkSyncer = NetworkSyncer_SyncBatch sg"
| "entity_SyncBatch sg HostSyncer = HostSyncer_SyncBatch sg"
| "entity_SyncBatch sg IEAgAgRuleSyncer = IEAgAgRuleSyncer_SyncBatch sg"

record manager =
  sm_syncers :: "entity_syncer table"
  sm_tracker :: tracker
  sm_maxRetries :: int
  sm_env :: env
  sm_sent :: "wire_req list"

definition NewSyncManager :: "env \<Rightarrow> manager" where
  "NewSyncManager e =
     \<lparr> sm_syncers = [], sm_tracker = sync_NewSyncTracker 1000000000, sm_maxRetries = DefaultMaxRetries, sm_env = e, sm_sent = [] \<rparr>"

text \<open>
  The check that a syncer has the methods of its interface looks at the method set of its
  dynamic type; \<open>None\<close> is nil.
\<close>

definition validateSyncer :: "string list option \<Rightarrow> error option" where
  "validateSyncer methods =
     (case methods of
        None \<Rightarrow> Some (Errorf ''syncer cannot be nil'')
      | Some ms \<Rightarrow>
          first_error (\<lambda>m. if m \<in> set ms then None else Some (Errorf (''syncer must implement method: '' @ m)))
            [''Sync'', ''SyncBatch'', ''GetSupportedSubjectType''])"

definition syncer_methods :: "entity_syncer \<Rightarrow> string list" where
  "syncer_methods s = [''GetSupportedSubjectType'', ''Sync'', ''SyncBatch'']"

definition RegisterSyncer :: "string \<Rightarrow> entity_syncer option \<Rightarrow> manager \<Rightarrow> error option \<times> manager" where
  "RegisterSyncer subjectType syncer sm =
     (case validateSyncer (map_option syncer_methods syncer) of
        Some e \<Rightarrow> (Some (Wrap (''invalid syncer for subject type '' @ subjectType) e), sm)
      | None \<Rightarrow>
          (None, case syncer of
                   None \<Rightarrow> sm
                 | Some s \<Rightarrow> sm\<lparr>sm_syncers := AList.update subjectType s (sm_syncers sm)\<rparr>))"

definition track_result :: "string \<Rightarrow> string \<Rightarrow> bool \<Rightarrow> manager \<Rightarrow> manager" where
  "track_result subjectType operation success sm =
     (let (t, e) = Track (sm_env sm) subjectType operation success (sm_tracker sm)
      in sm\<lparr>sm_tracker := t, sm_env := e\<rparr>)"

definition no_syncer :: "string \<Rightarrow> error" where
  "no_syncer subjectType = Errorf (''no syncer registered for subject type: '' @ subjectType)"

definition syncEntityInternal ::
  "sgroups \<Rightarrow> (nat \<Rightarrow> error option) \<Rightarrow> sync_entity option \<Rightarrow> string \<Rightarrow> bool \<Rightarrow> manager \<Rightarrow> error option \<times> manager"
where
  "syncEntityInternal sg cancelled entity operation forced sm =
     (case entity of
        None \<Rightarrow> (Some (Errorf ''entity cannot be nil''), sm)
      | Some x \<Rightarrow>
          (let subjectType = GetSyncSubjectType x;
               (shouldSync, t, e) =
                 (if forced then ShouldSyncForced (sm_env sm) (GetSyncKey x) operation (sm_tracker sm)
                  else tracker_ShouldSync (sm_env sm) (GetSyncKey x) operation (sm_tracker sm));
               sm1 = sm\<lparr>sm_tracker := t, sm_env := e\<rparr>
           in if \<not> shouldSync then (None, sm1)
              else (case map_of (sm_syncers sm) subjectType of
                      None \<Rightarrow> (Some (no_syncer subjectType), track_result subjectType operation False sm1)
                    | Some syncer \<Rightarrow>
                        (case retry_Execute (sm_maxRetries sm) cancelled (entity_Sync sg syncer (Some x) operation) (sm_sent sm1) of
                           (err, sent) \<Rightarrow> (err, track_result subjectType operation (err = None) (sm1\<lparr>sm_sent := sent\<rparr>))))))"

definition Manager_SyncEntity ::
  "sgroups \<Rightarrow> (nat \<Rightarrow> error option) \<Rightarrow> sync_entity option \<Rightarrow> string \<Rightarrow> manager \<Rightarrow> error option \<times> manager"
where
  "Manager_SyncEntity sg cancelled entity operation = syncEntityInternal sg cancelled entity operation False"

definition SyncEntityForced ::
  "sgroups \<Rightarrow> (nat \<Rightarrow> error option) \<Rightarrow> sync_entity option \<Rightarrow> string \<Rightarrow> manager \<Rightarrow> error option \<times> manager"
where
  "SyncEntityForced sg cancelled entity operation = syncEntityInternal sg cancelled entity operation True"

text \<open>
  The groups of a batch are kept in a map; \<open>order\<close> is the order in which the loop visits it, and
  \<open>cancelled\<close> is the context's state during the retries for each subject type.
\<close>

definition entity_groups :: "sync_entity option list \<Rightarrow> sync_entity list table" where
  "entity_groups entities =
     fold (\<lambda>entity m. case entity of
             None \<Rightarrow> m
           | Some x \<Rightarrow>
               AList.update (GetSyncSubjectType x)
                 ((case map_of m (GetSyncSubjectType x) of None \<Rightarrow> [] | Some xs \<Rightarrow> xs) @ [x]) m) entities []"

definition sync_one_group ::
  "sgroups \<Rightarrow> (string \<Rightarrow> nat \<Rightarrow> error option) \<Rightarrow> string \<Rightarrow> string \<times> sync_entity list \<Rightarrow>
   error option \<times> manager \<Rightarrow> error option \<times> manager"
where
  "sync_one_group sg cancelled operation = (\<lambda>(subjectType, xs) (lastErr, sm).
     (case map_of (sm_syncers sm) subjectType of
        None \<Rightarrow> (Some (no_syncer subjectType), track_result subjectType operation False sm)
      | Some syncer \<Rightarrow>
          (case retry_Execute (sm_maxRetries sm) (cancelled subjectType)
                  (entity_SyncBatch sg syncer (map Some xs) operation) (sm_sent sm) of
             (err, sent) \<Rightarrow>
               (if err = None then lastErr else err, track_result subjectType operation (err = None) (sm\<lparr>sm_sent := sent\<rparr>)))))"

definition Manager_SyncBatch ::
  "sgroups \<Rightarrow> (string \<Rightarrow> nat \<Rightarrow> error option) \<Rightarrow> (sync_entity list table \<Rightarrow> sync_entity list table) \<Rightarrow>
   sync_entity option list \<Rightarrow> string \<Rightarrow> manager \<Rightarrow> error option \<times> manager"
where
  "Manager_SyncBatch sg cancelled order entities operation sm =
     (if entities = [] then (None, sm)
      else fold (sync_one_group sg cancelled operation) (order (entity_groups entities)) (None, sm))"

text \<open>The registrations of \<^verbatim>\<open>cmd/server/main.go\<close>.\<close>

definition setup_syncers :: "manager \<Rightarrow> manager" where
  "setup_syncers sm =
     fold (\<lambda>(ty, s). \<lambda>m. snd (RegisterSyncer ty (Some s) m))
       [(SyncSubjectTypeGroups, AddressGroupSyncer), (SyncSubjectTypeNetworks, NetworkSyncer),
        (SyncSubjectTypeHosts, HostSyncer), (SyncSubjectTypeIEAgAgRules, IEAgAgRuleSyncer)] sm"

section \<open>Retried requests\<close>

lemma attempts_cases:
  "operation s = (None, s') \<Longrightarrow> attempts c operation mx i n s = (None, s')"
  "operation s = (Some e, s') \<Longrightarrow> attempts c operation mx i 0 s =
     (Some (Wrap (''operation failed after '' @ itoa (mx + 1) @ '' attempts'') e), s')"
  "operation s = (Some e, s') \<Longrightarrow> c i = Some e' \<Longrightarrow> attempts c operation mx i (Suc n) s =
     (Some (Wrap ''retry cancelled by context'' e'), s')"
  "operation s = (Some e, s') \<Longrightarrow> c i = None \<Longrightarrow> attempts c operation mx i (Suc n) s =
     attempts c operation mx (Suc i) n s'"
  by (subst attempts.simps, simp)+

text \<open>
  A call that always sends the same request is repeated until it is accepted, the attempts are
  used up, or the context is done in a pause.
\<close>

lemma attempts_exact:
  assumes op: "\<And>s. operation s = (wrap_err m (answer s), s @ [r])"
  shows "\<exists>k\<le>n. snd (attempts c operation mx i n s) = s @ replicate (Suc k) r \<and>
    (\<forall>j<k. answer (s @ replicate j r) \<noteq> None \<and> c (i + j) = None) \<and>
    (fst (attempts c operation mx i n s) = None \<longleftrightarrow> answer (s @ replicate k r) = None) \<and>
    (answer (s @ replicate k r) = None \<or> k = n \<or> c (i + k) \<noteq> None)"
proof (induction n arbitrary: i s)
  case 0
  show ?case using op [of s] by (cases "answer s") (simp_all add: attempts_cases wrap_err_def)
next
  case (Suc n)
  show ?case
  proof (cases "answer s = None \<or> c i \<noteq> None")
    case True
    thus ?thesis using op [of s]
      by (cases "answer s"; cases "c i"; intro exI [of _ 0]) (simp_all add: attempts_cases wrap_err_def)
  next
    case False
    hence step: "attempts c operation mx i (Suc n) s = attempts c operation mx (Suc i) n (s @ [r])"
      using op [of s] by (cases "answer s") (simp_all add: attempts_cases wrap_err_def)
    have shift: "(s @ [r]) @ replicate k r = s @ replicate (Suc k) r" for k by simp
    from Suc.IH [of "Suc i" "s @ [r]"] obtain k where
      "k \<le> n \<and> snd (attempts c operation mx (Suc i) n (s @ [r])) = (s @ [r]) @ replicate (Suc k) r \<and>
       (\<forall>j<k. answer ((s @ [r]) @ replicate j r) \<noteq> None \<and> c (Suc i + j) = None) \<and>
       (fst (attempts c operation mx (Suc i) n (s @ [r])) = None \<longleftrightarrow> answer ((s @ [r]) @ replicate k r) = None) \<and>
       (answer ((s @ [r]) @ replicate k r) = None \<or> k = n \<or> c (Suc i + k) \<noteq> None)" by (rule exE)
    note k = this [unfolded shift]
    have "answer (s @ replicate j r) \<noteq> None \<and> c (i + j) = None" if "j < Suc k" for j
      using that False k by (cases j) auto
    with k step show ?thesis by (intro exI [of _ "Suc k"]) (simp del: replicate_Suc)
  qed
qed

text \<open>How often a request was sent, and with which outcome.\<close>

definition retried ::
  "nat \<Rightarrow> (nat \<Rightarrow> error option) \<Rightarrow> (wire_req list \<Rightarrow> wire_req \<Rightarrow> error option) \<Rightarrow> wire_req \<Rightarrow> wire_req list \<Rightarrow>
   error option \<Rightarrow> wire_req list \<Rightarrow> bool"
where
  "retried n c answer r sent err sent' \<longleftrightarrow>
     (\<exists>k\<le>n. sent' = sent @ replicate (Suc k) r \<and>
        (\<forall>j<k. answer (sent @ replicate j r) r \<noteq> None \<and> c j = None) \<and>
        (err = None \<longleftrightarrow> answer (sent @ replicate k r) r = None) \<and>
        (answer (sent @ replicate k r) r = None \<or> k = n \<or> c k \<noteq> None))"

lemma retry_retried:
  assumes "\<And>s. operation s = (wrap_err m (answer s r), s @ [r])" "0 \<le> mx"
  shows "retried (nat mx) c answer r s (fst (retry_Execute mx c operation s)) (snd (retry_Execute mx c operation s))"
  using attempts_exact [of operation m "\<lambda>s. answer s r" r "nat mx" c mx 0 s, OF assms(1)] assms(2)
  unfolding retried_def retry_Execute_def by (simp only: not_less [symmetric] if_False add_0)

lemma retried_accepted:
  assumes "retried n c answer r sent err sent'" and accept: "\<And>s. answer s r = None"
  shows "err = None \<and> sent' = sent @ [r]"
proof -
  from assms(1) obtain k where k: "k \<le> n \<and> sent' = sent @ replicate (Suc k) r \<and>
    (\<forall>j<k. answer (sent @ replicate j r) r \<noteq> None \<and> c j = None) \<and>
    (err = None \<longleftrightarrow> answer (sent @ replicate k r) r = None) \<and>
    (answer (sent @ replicate k r) r = None \<or> k = n \<or> c k \<noteq> None)" unfolding retried_def by (rule exE)
  hence "\<forall>j<k. False" by (simp add: accept)
  hence "k = 0" by auto
  with k show ?thesis by (simp add: accept)
qed

context subject_syncer
begin

lemma sync_retried:
  assumes "GetSyncSubjectType x = ty" "wire_of op (subject [x]) = Some r" "0 \<le> mx"
  shows "retried (nat mx) c (sg_Sync sg) r s (fst (retry_Execute mx c (sync (Some x) op) s))
    (snd (retry_Execute mx c (sync (Some x) op) s))"
  using assms sync_sends by (intro retry_retried [where m = failed]) blast+

lemma batch_retried:
  assumes "xs \<noteq> []" "\<And>x. x \<in> set xs \<Longrightarrow> GetSyncSubjectType x = ty" "wire_of op (subject xs) = Some r" "0 \<le> mx"
  shows "retried (nat mx) c (sg_Sync sg) r s (fst (retry_Execute mx c (batch (map Some xs) op) s))
    (snd (retry_Execute mx c (batch (map Some xs) op) s))"
  using assms batch_sends by (intro retry_retried [where m = batchFailed]) blast+

end

section \<open>Groups of a batch\<close>

lemma entity_groups_fold:
  "map_of (fold (\<lambda>entity m. case entity of
             None \<Rightarrow> m
           | Some x \<Rightarrow>
               AList.update (GetSyncSubjectType x)
                 ((case map_of m (GetSyncSubjectType x) of None \<Rightarrow> [] | Some xs \<Rightarrow> xs) @ [x]) m) entities m0) ty =
   (let new = [x. Some x \<leftarrow> entities, GetSyncSubjectType x = ty]
    in case map_of m0 ty of None \<Rightarrow> if new = [] then None else Some new | Some old \<Rightarrow> Some (old @ new))"
proof (induction entities arbitrary: m0)
  case (Cons entity entities)
  show ?case
  proof (cases entity)
    case (Some x)
    show ?thesis unfolding fold_simps comp_apply Some option.case Cons.IH
      by (auto simp: Let_def AList.update_conv split: option.split)
  qed (simp add: Cons.IH)
qed (simp add: Let_def split: option.split)

lemma entity_groups_of:
  "map_of (entity_groups entities) ty =
     (let xs = [x. Some x \<leftarrow> entities, GetSyncSubjectType x = ty] in if xs = [] then None else Some xs)"
  unfolding entity_groups_def entity_groups_fold by simp

lemma entity_groups_distinct: "distinct (map fst (entity_groups entities))"
proof -
  have "distinct (map fst m0) \<Longrightarrow> distinct (map fst (fold (\<lambda>entity m. case entity of
             None \<Rightarrow> m
           | Some x \<Rightarrow>
               AList.update (GetSyncSubjectType x)
                 ((case map_of m (GetSyncSubjectType x) of None \<Rightarrow> [] | Some xs \<Rightarrow> xs) @ [x]) m) entities m0))" for m0
    by (induction entities arbitrary: m0) (auto simp: AList.distinct_update split: option.split)
  thus ?thesis by (simp add: entity_groups_def)
qed

end
