(* ===== verification/ReverseSync.thy ===== *)
theory ReverseSync
  imports SyncManager MemReader Cidr
begin

text \<open>
  The reverse synchronisation, which copies the IP addresses of hosts from the SGROUP service
  into the registry: the host adapters (\<^verbatim>\<open>sync/adapters/postgres_host_adapter.go\<close>, which work
  on any registry), the result of a run (\<^verbatim>\<open>sync/types/host_sync_types.go\<close>), the synchronizer
  (\<^verbatim>\<open>sync/synchronizer/host_synchronizer.go\<close>), the processor of change events
  (\<^verbatim>\<open>sync/processors/host_processor.go\<close>) and the change detector that produces the events
  (\<^verbatim>\<open>sync/detector/sgroup_change_detector.go\<close>). The registry is the in-memory one. The details
  and the success rate of a result, which are only reported, are left out.
\<close>

section \<open>Results\<close>

record host_sync_result =
  hsr_SyncedHostUUIDs :: "string list"
  hsr_FailedUUIDs :: "string list"
  hsr_Errors :: "string table"
  hsr_TotalRequested :: int
  hsr_TotalSynced :: int
  hsr_TotalFailed :: int

definition NewHostSyncResult :: host_sync_result where
  "NewHostSyncResult = \<lparr> hsr_SyncedHostUUIDs = [], hsr_FailedUUIDs = [], hsr_Errors = [], hsr_TotalRequested = 0,
     hsr_TotalSynced = 0, hsr_TotalFailed = 0 \<rparr>"

definition AddSyncedHost :: "string \<Rightarrow> host_sync_result \<Rightarrow> host_sync_result" where
  "AddSyncedHost uuid r =
     r\<lparr>hsr_SyncedHostUUIDs := hsr_SyncedHostUUIDs r @ [uuid], hsr_TotalSynced := hsr_TotalSynced r + 1\<rparr>"

definition AddFailedHost :: "string \<Rightarrow> string \<Rightarrow> host_sync_result \<Rightarrow> host_sync_result" where
  "AddFailedHost uuid errorMsg r =
     r\<lparr>hsr_FailedUUIDs := hsr_FailedUUIDs r @ [uuid],
       hsr_Errors := (if errorMsg \<noteq> [] then AList.update uuid errorMsg (hsr_Errors r) else hsr_Errors r),
       hsr_TotalFailed := hsr_TotalFailed r + 1\<rparr>"

definition SetTotalRequested :: "int \<Rightarrow> host_sync_result \<Rightarrow> host_sync_result" where
  "SetTotalRequested n r = r\<lparr>hsr_TotalRequested := n\<rparr>"

definition HasErrors :: "host_sync_result \<Rightarrow> bool" where
  "HasErrors r \<longleftrightarrow> hsr_TotalFailed r > 0"

definition GetError :: "string \<Rightarrow> host_sync_result \<Rightarrow> string" where
  "GetError uuid r = (case map_of (hsr_Errors r) uuid of None \<Rightarrow> [] | Some m \<Rightarrow> m)"

definition result_IsEmpty :: "host_sync_result \<Rightarrow> bool" where
  "result_IsEmpty r \<longleftrightarrow> hsr_TotalSynced r = 0 \<and> hsr_TotalFailed r = 0"

record host_ipset_update =
  hiu_HostUUID :: string
  hiu_HostID :: string
  hiu_Namespace :: string
  hiu_Name :: string
  hiu_IPSet :: "string list"
  hiu_SGName :: string

section \<open>The hosts of the SGROUP service\<close>

text \<open>Its answer to a query may depend on all queries before.\<close>

datatype list_hosts_req = ListByUuid "string list" | ListNoFilter | ListBySgName "string list"

type_synonym host_queries = "list_hosts_req list"
type_synonym sgroup_hosts = "host_queries \<Rightarrow> list_hosts_req \<Rightarrow> error + sg_host option list"

definition client_ListHosts ::
  "sgroup_hosts \<Rightarrow> string \<Rightarrow> list_hosts_req \<Rightarrow> host_queries \<Rightarrow> (error + sg_host option list) \<times> host_queries"
where
  "client_ListHosts listHosts failed req qs =
     (case listHosts qs req of Inl e \<Rightarrow> Inl (Wrap failed e) | Inr hs \<Rightarrow> Inr hs, qs @ [req])"

definition GetHostsByUUIDs where
  "GetHostsByUUIDs listHosts uuids = client_ListHosts listHosts ''failed to get hosts by UUIDs'' (ListByUuid uuids)"

definition ListAllHosts where
  "ListAllHosts listHosts = client_ListHosts listHosts ''failed to list all hosts'' ListNoFilter"

definition GetHostsInSecurityGroup where
  "GetHostsInSecurityGroup listHosts sgNames =
     client_ListHosts listHosts ''failed to get hosts in security groups'' (ListBySgName sgNames)"

section \<open>The adapters\<close>

record rev_state =
  rv_reg :: registry
  rv_env :: env
  rv_queries :: host_queries

definition GetHostsWithoutIPSet :: "string \<Rightarrow> rev_state \<Rightarrow> error + host list" where
  "GetHostsWithoutIPSet ns s =
     (case Reader (rv_reg s) of
        Inl e \<Rightarrow> Inl (Wrap ''failed to get reader'' e)
      | Inr rd \<Rightarrow>
          (case consume_listing
                  (\<lambda>h hosts. (None, if ns \<noteq> [] \<and> Namespace h \<noteq> ns then hosts
                                    else if length (h_IpList h) = 0 then hosts @ [h] else hosts))
                  (ListHosts (mem_reader rd) (Some EmptyScope)) [] of
             (Some e, _) \<Rightarrow> Inl (Wrap ''failed to list hosts without IPSet'' e)
           | (None, hosts) \<Rightarrow> Inr hosts))"

definition GetHostByUUID :: "string \<Rightarrow> rev_state \<Rightarrow> error + host" where
  "GetHostByUUID uuid s =
     (case Reader (rv_reg s) of
        Inl e \<Rightarrow> Inl (Wrap ''failed to get reader'' e)
      | Inr rd \<Rightarrow>
          (case consume_listing (\<lambda>h found. (None, if h_UUID h = uuid then Some h else found))
                  (ListHosts (mem_reader rd) (Some EmptyScope)) None of
             (Some e, _) \<Rightarrow> Inl (Wrap (''failed to find host by UUID '' @ uuid) e)
           | (None, None) \<Rightarrow> Inl (Errorf (''host with UUID '' @ uuid @ '' not found''))
           | (None, Some h) \<Rightarrow> Inr h))"

definition adapter_ListHosts :: "resource_identifier list \<Rightarrow> rev_state \<Rightarrow> error + host list" where
  "adapter_ListHosts identifiers s =
     (case Reader (rv_reg s) of
        Inl e \<Rightarrow> Inl (Wrap ''failed to get reader'' e)
      | Inr rd \<Rightarrow>
          (case consume_listing (\<lambda>h hosts. (None, hosts @ [h]))
                  (ListHosts (mem_reader rd) (Some (ResourceIdentifierScope identifiers))) [] of
             (Some e, _) \<Rightarrow> Inl (Wrap ''failed to list hosts by identifiers'' e)
           | (None, hosts) \<Rightarrow> Inr hosts))"

definition parseHostID :: "string \<Rightarrow> error + string \<times> string" where
  "parseHostID hostID =
     (if hostID = [] then Inl (Errorf ''host ID cannot be empty'')
      else let name = rev (takeWhile (\<lambda>c. c \<noteq> CHR ''/'') (rev hostID)); idx = length hostID - length name - 1
           in if CHR ''/'' \<in> set hostID \<and> idx > 0
              then if name = [] then Inl (Errorf (''invalid host ID format, empty name: '' @ hostID))
                   else Inr (take idx hostID, name)
              else Inr (''default'', hostID))"

definition UpdateHostIPSet :: "string \<Rightarrow> string list \<Rightarrow> rev_state \<Rightarrow> error option \<times> rev_state" where
  "UpdateHostIPSet hostID ipSet s =
     (case parseHostID hostID of
        Inl e \<Rightarrow> (Some (Wrap (''invalid host ID '' @ hostID) e), s)
      | Inr (ns, name) \<Rightarrow>
          (case Reader (rv_reg s) of
             Inl e \<Rightarrow> (Some (Wrap ''failed to get reader'' e), s)
           | Inr rd \<Rightarrow>
               (case GetHostByID (mem_reader rd) (ResourceIdentifier name ns) of
                  Inl e \<Rightarrow> (Some (Wrap (''failed to get host '' @ hostID) e), s)
                | Inr existingHost \<Rightarrow>
                    (case Writer (rv_reg s) of
                       Inl e \<Rightarrow> (Some (Wrap ''failed to get writer'' e), s)
                     | Inr w \<Rightarrow>
                         (let (w', e) = SyncHosts (rv_env s) (reg_db (rv_reg s)) [existingHost\<lparr>h_IpList := ipSet\<rparr>]
                                          (Some EmptyScope) [] w;
                              (db, e') = Commit e (reg_db (rv_reg s)) w'
                          in (None, s\<lparr>rv_reg := (rv_reg s)\<lparr>reg_db := db\<rparr>, rv_env := e'\<rparr>))))))"

fun UpdateHostsIPSet :: "host_ipset_update list \<Rightarrow> rev_state \<Rightarrow> error option \<times> rev_state" where
  "UpdateHostsIPSet [] s = (None, s)"
| "UpdateHostsIPSet (u # us) s =
     (case UpdateHostIPSet (hiu_HostID u) (hiu_IPSet u) s of
        (Some e, s') \<Rightarrow> (Some (Wrap (''failed to update host '' @ hiu_HostID u @ '' in batch'') e), s')
      | (None, s') \<Rightarrow> UpdateHostsIPSet us s')"

section \<open>The synchronizer\<close>

text \<open>Of the configurations, the fields that the code reads; the timeout acts through the answers of the service.\<close>

record host_sync_config =
  hsc_BatchSize :: int
  hsc_EnableIPSetValidation :: bool

definition DefaultHostSyncConfig :: host_sync_config where
  "DefaultHostSyncConfig = \<lparr> hsc_BatchSize = 50, hsc_EnableIPSetValidation = True \<rparr>"

fun batches_from :: "nat \<Rightarrow> 'a list \<Rightarrow> 'a list list" where
  "batches_from n xs = (if xs = [] \<or> n = 0 then [] else take n xs # batches_from n (drop n xs))"

declare batches_from.simps [simp del]

definition createBatches :: "string list \<Rightarrow> int \<Rightarrow> string list list" where
  "createBatches uuids batchSize = batches_from (nat (if batchSize \<le> 0 then 50 else batchSize)) uuids"

definition isValidIP :: "string \<Rightarrow> bool" where
  "isValidIP ip \<longleftrightarrow> addr_bits ip \<noteq> None"

definition mergeBatchResult :: "host_sync_result \<Rightarrow> host_sync_result \<Rightarrow> host_sync_result" where
  "mergeBatchResult batchResult mainResult =
     fold (\<lambda>uuid. AddFailedHost uuid (GetError uuid batchResult)) (hsr_FailedUUIDs batchResult)
       (fold AddSyncedHost (hsr_SyncedHostUUIDs batchResult) mainResult)"

definition sgroup_host_map :: "sg_host option list \<Rightarrow> sg_host table" where
  "sgroup_host_map hs =
     fold (\<lambda>h m. case h of None \<Rightarrow> m | Some sh \<Rightarrow> if sgh_Uuid sh \<noteq> [] then AList.update (sgh_Uuid sh) sh m else m) hs []"

definition extract_ips :: "host_sync_config \<Rightarrow> sg_host \<Rightarrow> string list" where
  "extract_ips cfg sh =
     (case sgh_IpList sh of
        None \<Rightarrow> []
      | Some ips \<Rightarrow>
          if length ips > 0 then (if hsc_EnableIPSetValidation cfg then filter isValidIP ips else ips) else [])"

text \<open>The loop of \<^verbatim>\<open>syncHostBatch\<close> that prepares the updates, and records what cannot be updated.\<close>

definition prepare_update ::
  "host_sync_config \<Rightarrow> host table \<Rightarrow> sg_host table \<Rightarrow> string \<Rightarrow>
   host_sync_result \<times> host_ipset_update list \<Rightarrow> host_sync_result \<times> host_ipset_update list"
where
  "prepare_update cfg hostMap sgroupHostMap uuid = (\<lambda>(result, updates).
     (case map_of hostMap uuid of
        None \<Rightarrow> (AddFailedHost uuid ''host not found in NETGUARD'' result, updates)
      | Some h \<Rightarrow>
          (case map_of sgroupHostMap uuid of
             None \<Rightarrow> (AddFailedHost uuid ''host not found in SGROUP'' result, updates)
           | Some sh \<Rightarrow>
               (let ipSet = extract_ips cfg sh
                in if length ipSet > 0
                   then (result, updates @
                     [\<lparr> hiu_HostUUID = uuid, hiu_HostID = Key h, hiu_Namespace = Namespace h, hiu_Name = Name h,
                        hiu_IPSet = ipSet, hiu_SGName = sgh_SgName sh \<rparr>])
                   else (AddFailedHost uuid ''no valid IP addresses found in SGROUP'' result, updates)))))"

definition syncHostBatch ::
  "sgroup_hosts \<Rightarrow> host_sync_config \<Rightarrow> host table \<Rightarrow> string list \<Rightarrow> rev_state \<Rightarrow>
   (host_sync_result \<times> error option) \<times> rev_state"
where
  "syncHostBatch listHosts cfg hostMap uuids s =
     (let result0 = SetTotalRequested (int (length uuids)) NewHostSyncResult;
          (answer, qs) = GetHostsByUUIDs listHosts uuids (rv_queries s);
          s1 = s\<lparr>rv_queries := qs\<rparr>
      in case answer of
           Inl e \<Rightarrow>
             ((fold (\<lambda>uuid. AddFailedHost uuid (''SGROUP query failed: '' @ error_text e)) uuids result0, Some e), s1)
         | Inr sgroupHosts \<Rightarrow>
             (let (result, updates) = fold (prepare_update cfg hostMap (sgroup_host_map sgroupHosts)) uuids (result0, [])
              in if updates = [] then ((result, None), s1)
                 else (case UpdateHostsIPSet updates s1 of
                         (Some e, s2) \<Rightarrow>
                           ((fold (\<lambda>u. AddFailedHost (hiu_HostUUID u) (''update failed: '' @ error_text e)) updates result, Some e), s2)
                       | (None, s2) \<Rightarrow> ((fold (\<lambda>u. AddSyncedHost (hiu_HostUUID u)) updates result, None), s2))))"

definition sync_batches ::
  "sgroup_hosts \<Rightarrow> host_sync_config \<Rightarrow> host table \<Rightarrow> string list \<Rightarrow> host_sync_result \<Rightarrow> rev_state \<Rightarrow>
   host_sync_result \<times> rev_state"
where
  "sync_batches listHosts cfg hostMap uuids result s =
     fold (\<lambda>batch (result, s).
             (let ((batchResult, err), s') = syncHostBatch listHosts cfg hostMap batch s
              in (mergeBatchResult batchResult result, s')))
       (createBatches uuids (hsc_BatchSize cfg)) (result, s)"

definition findHostsWithoutIPSet :: "string \<Rightarrow> rev_state \<Rightarrow> error + host list" where
  "findHostsWithoutIPSet ns s =
     (case GetHostsWithoutIPSet ns s of Inl e \<Rightarrow> Inl (Wrap ''failed to get hosts without IPSet'' e) | Inr hs \<Rightarrow> Inr hs)"

definition host_map_of :: "host list \<Rightarrow> host table" where
  "host_map_of hosts = fold (\<lambda>h. AList.update (h_UUID h) h) hosts []"

definition synchronizer_SyncHosts ::
  "sgroup_hosts \<Rightarrow> host_sync_config \<Rightarrow> string \<Rightarrow> rev_state \<Rightarrow> (host_sync_result \<times> error option) \<times> rev_state"
where
  "synchronizer_SyncHosts listHosts cfg ns s =
     (case findHostsWithoutIPSet ns s of
        Inl e \<Rightarrow> ((NewHostSyncResult, Some (Wrap ''failed to find hosts without IPSet'' e)), s)
      | Inr hosts \<Rightarrow>
          if hosts = [] then ((NewHostSyncResult, None), s)
          else (let (result, s') = sync_batches listHosts cfg (host_map_of hosts) (map h_UUID hosts)
                                     (SetTotalRequested (int (length hosts)) NewHostSyncResult) s
                in ((result, None), s')))"

definition SyncAllHosts ::
  "sgroup_hosts \<Rightarrow> host_sync_config \<Rightarrow> rev_state \<Rightarrow> (host_sync_result \<times> error option) \<times> rev_state"
where
  "SyncAllHosts listHosts cfg s =
     (case findHostsWithoutIPSet [] s of
        Inl e \<Rightarrow> ((NewHostSyncResult, Some (Wrap ''failed to find hosts without IPSet'' e)), s)
      | Inr hosts \<Rightarrow>
          if hosts = [] then ((NewHostSyncResult, None), s)
          else (let (result, s') = sync_batches listHosts cfg (host_map_of hosts) (map h_UUID hosts)
                                     (SetTotalRequested (int (length hosts)) NewHostSyncResult) s
                in ((result, None), s')))"

definition getHostMapByUUIDs :: "string list \<Rightarrow> rev_state \<Rightarrow> host table" where
  "getHostMapByUUIDs uuids s =
     fold (\<lambda>uuid m. case GetHostByUUID uuid s of Inl e \<Rightarrow> m | Inr h \<Rightarrow> AList.update uuid h m) uuids []"

definition SyncHostsByUUIDs ::
  "sgroup_hosts \<Rightarrow> host_sync_config \<Rightarrow> string list \<Rightarrow> rev_state \<Rightarrow> (host_sync_result \<times> error option) \<times> rev_state"
where
  "SyncHostsByUUIDs listHosts cfg uuids s =
     (let result0 = SetTotalRequested (int (length uuids)) NewHostSyncResult
      in if uuids = [] then ((result0, None), s)
         else (let (result, s') = sync_batches listHosts cfg (getHostMapByUUIDs uuids s) uuids result0 s
               in ((result, None), s')))"

section \<open>The processor\<close>

record host_processor_config =
  hpc_EnableNamespaceFiltering :: bool
  hpc_AllowedNamespaces :: "string list"
  hpc_EnableFullSyncOnChange :: bool

definition DefaultHostProcessorConfig :: host_processor_config where
  "DefaultHostProcessorConfig =
     \<lparr> hpc_EnableNamespaceFiltering = False, hpc_AllowedNamespaces = [], hpc_EnableFullSyncOnChange = False \<rparr>"

definition mergeResults :: "host_sync_result \<Rightarrow> host_sync_result \<Rightarrow> host_sync_result" where
  "mergeResults individual aggregate =
     (let r = fold (\<lambda>uuid. AddFailedHost uuid (GetError uuid individual)) (hsr_FailedUUIDs individual)
                (fold AddSyncedHost (hsr_SyncedHostUUIDs individual) aggregate)
      in r\<lparr>hsr_TotalRequested := hsr_TotalRequested r + hsr_TotalRequested individual\<rparr>)"

definition performNamespaceSync ::
  "sgroup_hosts \<Rightarrow> host_sync_config \<Rightarrow> host_processor_config \<Rightarrow> rev_state \<Rightarrow> (host_sync_result \<times> error option) \<times> rev_state"
where
  "performNamespaceSync listHosts cfg pcfg s =
     (if \<not> hpc_EnableNamespaceFiltering pcfg \<or> length (hpc_AllowedNamespaces pcfg) = 0
      then SyncAllHosts listHosts cfg s
      else (let (result, s') =
              fold (\<lambda>ns (aggregate, s).
                (let ((r, err), s') = synchronizer_SyncHosts listHosts cfg ns s
                 in (if err \<noteq> None then aggregate else mergeResults r aggregate, s')))
                (hpc_AllowedNamespaces pcfg) (NewHostSyncResult, s)
            in ((result, None), s')))"

definition handleSyncError :: "error \<Rightarrow> string \<Rightarrow> error" where
  "handleSyncError e source = Wrap (''host sync failed for event from '' @ source) e"

definition ProcessChanges ::
  "sgroup_hosts \<Rightarrow> host_sync_config \<Rightarrow> host_processor_config \<Rightarrow> string \<Rightarrow> rev_state \<Rightarrow> error option \<times> rev_state"
where
  "ProcessChanges listHosts cfg pcfg source s =
     (let ((result, err), s') =
        (if hpc_EnableFullSyncOnChange pcfg then SyncAllHosts listHosts cfg s
         else performNamespaceSync listHosts cfg pcfg s)
      in (case err of Some e \<Rightarrow> Some (handleSyncError e source) | None \<Rightarrow> None, s'))"

section \<open>The change detector\<close>

text \<open>
  The handlers are kept in a map with generated keys; \<open>onChange\<close> is what a handler does with an
  event, and its errors are ignored. A connection fails, or delivers time stamps (\<open>None\<close> is nil)
  until the stream is closed or the context of the detector is done. Pauses between connections
  are not modelled.
\<close>

record 'h detector =
  dt_handlers :: "'h table"
  dt_nextHandlerID :: int
  dt_started :: bool
  dt_cancelled :: bool
  dt_lastUpdate :: "int option"
  dt_maxRetries :: int
  dt_source :: string

datatype connection = ConnectFailed error | StreamClosed "int option list" | StreamCancelled "int option list"

definition NewSGROUPChangeDetector :: "int \<Rightarrow> string \<Rightarrow> 'h detector" where
  "NewSGROUPChangeDetector maxRetries source =
     \<lparr> dt_handlers = [], dt_nextHandlerID = 0, dt_started = False, dt_cancelled = False, dt_lastUpdate = None,
       dt_maxRetries = maxRetries, dt_source = (if source = [] then ''sgroup'' else source) \<rparr>"

definition detector_Start :: "'h detector \<Rightarrow> error option \<times> 'h detector" where
  "detector_Start d =
     (if dt_started d then (Some (Errorf ''SGROUP change detector is already started''), d)
      else (None, d\<lparr>dt_started := True\<rparr>))"

definition detector_Stop :: "'h detector \<Rightarrow> error option \<times> 'h detector" where
  "detector_Stop d = (if \<not> dt_started d then (None, d) else (None, d\<lparr>dt_started := False, dt_cancelled := True\<rparr>))"

definition detector_Subscribe :: "'h option \<Rightarrow> 'h detector \<Rightarrow> error option \<times> 'h detector" where
  "detector_Subscribe handler d =
     (case handler of
        None \<Rightarrow> (Some (Errorf ''handler cannot be nil''), d)
      | Some h \<Rightarrow>
          (let n = dt_nextHandlerID d + 1
           in (None, d\<lparr>dt_nextHandlerID := n, dt_handlers := AList.update (''handler-'' @ itoa n) h (dt_handlers d)\<rparr>)))"

text \<open>The first handler of the map goes, whichever is passed.\<close>

definition detector_Unsubscribe :: "'h option \<Rightarrow> 'h detector \<Rightarrow> error option \<times> 'h detector" where
  "detector_Unsubscribe handler d =
     (case handler of
        None \<Rightarrow> (Some (Errorf ''handler cannot be nil''), d)
      | Some h \<Rightarrow> (None, d\<lparr>dt_handlers := (case dt_handlers d of [] \<Rightarrow> [] | (i, _) # _ \<Rightarrow> AList.delete i (dt_handlers d))\<rparr>))"

definition isNewUpdate :: "int \<Rightarrow> 'h detector \<Rightarrow> bool" where
  "isNewUpdate timestamp d = (case dt_lastUpdate d of None \<Rightarrow> True | Some l \<Rightarrow> timestamp > l)"

definition notifyHandlers :: "('h \<Rightarrow> int \<Rightarrow> string \<Rightarrow> 's \<Rightarrow> error option \<times> 's) \<Rightarrow> int \<Rightarrow> 'h detector \<Rightarrow> 's \<Rightarrow> 's" where
  "notifyHandlers onChange timestamp d s =
     fold (\<lambda>(i, h) s. snd (onChange h timestamp (dt_source d) s)) (dt_handlers d) s"

definition on_timestamp ::
  "('h \<Rightarrow> int \<Rightarrow> string \<Rightarrow> 's \<Rightarrow> error option \<times> 's) \<Rightarrow> int option \<Rightarrow> 'h detector \<times> 's \<Rightarrow> 'h detector \<times> 's"
where
  "on_timestamp onChange timestamp = (\<lambda>(d, s).
     (case timestamp of
        None \<Rightarrow> (d, s)
      | Some t \<Rightarrow>
          if isNewUpdate t d then (let d' = d\<lparr>dt_lastUpdate := Some t\<rparr> in (d', notifyHandlers onChange t d' s)) else (d, s)))"

definition connectToStream ::
  "('h \<Rightarrow> int \<Rightarrow> string \<Rightarrow> 's \<Rightarrow> error option \<times> 's) \<Rightarrow> connection \<Rightarrow> 'h detector \<times> 's \<Rightarrow> error option \<times> 'h detector \<times> 's"
where
  "connectToStream onChange c ds =
     (case c of
        ConnectFailed e \<Rightarrow> (Some (Wrap ''failed to get statuses stream'' e), ds)
      | StreamClosed ts \<Rightarrow> (Some (Errorf ''stream closed''), fold (on_timestamp onChange) ts ds)
      | StreamCancelled ts \<Rightarrow> (None, case fold (on_timestamp onChange) ts ds of (d, s) \<Rightarrow> (d\<lparr>dt_cancelled := True\<rparr>, s)))"

fun monitorChanges ::
  "('h \<Rightarrow> int \<Rightarrow> string \<Rightarrow> 's \<Rightarrow> error option \<times> 's) \<Rightarrow> int \<Rightarrow> connection list \<Rightarrow> 'h detector \<times> 's \<Rightarrow> 'h detector \<times> 's"
where
  "monitorChanges onChange retryCount [] ds = ds"
| "monitorChanges onChange retryCount (c # cs) ds =
     (if dt_cancelled (fst ds) then ds
      else (case connectToStream onChange c ds of
              (Some e, ds') \<Rightarrow>
                (if dt_maxRetries (fst ds) > 0 \<and> retryCount + 1 \<ge> dt_maxRetries (fst ds) then ds'
                 else monitorChanges onChange (retryCount + 1) cs ds')
            | (None, ds') \<Rightarrow> monitorChanges onChange 0 cs ds'))"

end
