(* ===== verification/SyncProperties.thy ===== *)
theory SyncProperties
  imports SyncManager
begin

text \<open>
  Properties of the synchronisation manager: what the debouncing admits, what an admitted
  synchronisation sends, what a batch sends, and what the debouncing loses.
\<close>

section \<open>Debouncing\<close>

text \<open>
  A call to the tracker is a key, an operation and whether it is forced. The abstract
  debouncer keeps all admitted calls with their times and looks through them.
\<close>

type_synonym tracker_call = "string \<times> string \<times> bool"

fun tracker_run :: "env \<Rightarrow> tracker_call list \<Rightarrow> tracker \<Rightarrow> bool list" where
  "tracker_run e [] t = []"
| "tracker_run e ((key, op, forced) # calls) t =
     (let (ok, t', e') = shouldSyncInternal e key op forced t in ok # tracker_run e' calls t')"

fun debounce_spec :: "int \<Rightarrow> (string \<times> int) list \<Rightarrow> (tracker_call \<times> int) list \<Rightarrow> bool list" where
  "debounce_spec d admitted [] = []"
| "debounce_spec d admitted (((key, op, forced), now) # calls) =
     (let ok = (forced \<or> op = SGOperationDelete \<or> (\<forall>(k, t) \<in> set admitted. k = key \<longrightarrow> now - t \<ge> d))
      in ok # debounce_spec d (if ok then (key, now) # admitted else admitted) calls)"

definition timed :: "env \<Rightarrow> tracker_call list \<Rightarrow> (tracker_call \<times> int) list" where
  "timed e calls = map (\<lambda>i. (calls ! i, env_clock e (env_reads e + i))) [0..<length calls]"

lemma timed_Nil [simp]: "timed e [] = []"
  by (simp add: timed_def)

lemma timed_Cons: "timed e (c # calls) = (c, fst (Now e)) # timed (snd (Now e)) calls"
proof -
  have "[0..<length (c # calls)] = 0 # map Suc [0..<length calls]" by (simp only: map_Suc_upt length_Cons upt_conv_Cons zero_less_Suc)
  thus ?thesis by (simp add: timed_def Now_def)
qed

text \<open>The tracker's entry of a key is the time of the latest admitted call, all earlier ones being older.\<close>

definition tracks :: "tracker \<Rightarrow> (string \<times> int) list \<Rightarrow> bool" where
  "tracks t admitted \<longleftrightarrow>
     (\<forall>key. case map_of (tr_debounceMap t) key of
        None \<Rightarrow> \<forall>(k, u) \<in> set admitted. k \<noteq> key
      | Some entry \<Rightarrow> (key, de_lastSyncTime entry) \<in> set admitted \<and>
          (\<forall>(k, u) \<in> set admitted. k = key \<longrightarrow> u \<le> de_lastSyncTime entry))"

lemma tracks_window:
  assumes "tracks t admitted"
  shows "(case map_of (tr_debounceMap t) key of
      None \<Rightarrow> True | Some entry \<Rightarrow> now - de_lastSyncTime entry \<ge> d) \<longleftrightarrow>
    (\<forall>(k, u) \<in> set admitted. k = key \<longrightarrow> now - u \<ge> d)"
  using assms [unfolded tracks_def, THEN spec, of key] by (fastforce split: option.splits)

lemma tracks_enter:
  assumes "tracks t admitted" "\<forall>(k, u) \<in> set admitted. u \<le> now"
  shows "tracks (t\<lparr>tr_debounceMap := AList.update key \<lparr> de_lastSyncTime = now, de_operation = op \<rparr> (tr_debounceMap t)\<rparr>)
    ((key, now) # admitted)"
  using assms unfolding tracks_def by (fastforce simp: AList.update_conv split: option.splits)

lemma tracker_run_spec:
  assumes "mono (env_clock e)" "tracks t admitted" "\<forall>(k, u) \<in> set admitted. u \<le> fst (Now e)"
  shows "tracker_run e calls t = debounce_spec (tr_debounceTime t) admitted (timed e calls)"
  using assms
proof (induction calls arbitrary: e t admitted)
  case (Cons c calls)
  obtain key op forced where c: "c = (key, op, forced)" by (cases c)
  let ?now = "fst (Now e)" and ?e = "snd (Now e)"
  have next_time: "?now \<le> fst (Now ?e)" using Cons.prems(1) by (simp add: Now_def mono_def)
  hence later: "\<forall>(k, u) \<in> set admitted. u \<le> fst (Now ?e)" using Cons.prems(3) by fastforce
  have step: "shouldSyncInternal e key op forced t =
      (if forced \<or> op = SGOperationDelete \<or> (\<forall>(k, u) \<in> set admitted. k = key \<longrightarrow> ?now - u \<ge> tr_debounceTime t)
       then (True, t\<lparr>tr_debounceMap := AList.update key \<lparr> de_lastSyncTime = ?now, de_operation = op \<rparr> (tr_debounceMap t)\<rparr>, ?e)
       else (False, t, ?e))"
    unfolding tracks_window [OF Cons.prems(2), symmetric] by (simp add: shouldSyncInternal_def Let_def)
  have entered: "tracks (t\<lparr>tr_debounceMap := AList.update key \<lparr> de_lastSyncTime = ?now, de_operation = op \<rparr> (tr_debounceMap t)\<rparr>)
      ((key, ?now) # admitted)" using Cons.prems(2,3) by (rule tracks_enter)
  show ?case
    using Cons.IH [of ?e t admitted] Cons.IH [of ?e _ "(key, ?now) # admitted", OF _ entered] Cons.prems(1,2) later next_time
    by (simp add: c step timed_Cons del: fst_conv snd_conv)
qed simp

text \<open>
  C11: On a clock that does not go back, the tracker admits exactly the calls that are forced,
  that delete, or that come at least the debounce time after every admitted call for the same
  key, whatever calls for other keys come in between.
\<close>
theorem debounce_refines:
  assumes "mono (env_clock e)"
  shows "tracker_run e calls (sync_NewSyncTracker d) = debounce_spec d [] (timed e calls)"
  using tracker_run_spec [of e "sync_NewSyncTracker d" "[]" calls] assms
  by (simp add: sync_NewSyncTracker_def tracks_def)

definition ticking :: "int \<Rightarrow> env" where
  "ticking step = \<lparr> env_uuid = (\<lambda>n. ''u''), env_clock = (\<lambda>n. int n * step), env_reads = 0 \<rparr>"

lemma ticking_mono: "0 \<le> step \<Longrightarrow> mono (env_clock (ticking step))"
  by (auto simp: ticking_def mono_def intro: mult_right_mono)

definition debounce_sample :: "tracker_call list" where
  "debounce_sample =
     [(''a'', ''Upsert'', False), (''b'', ''Upsert'', False), (''a'', ''Upsert'', False), (''a'', ''Upsert'', False),
      (''a'', ''Delete'', False), (''a'', ''Upsert'', False), (''a'', ''Upsert'', True)]"

theorem debounce_refines_witness:
  "mono (env_clock (ticking 400000000)) \<and>
   tracker_run (ticking 400000000) debounce_sample (sync_NewSyncTracker 1000000000) =
     [True, True, False, True, True, False, True]"
proof -
  have "mono (env_clock (ticking 400000000))" by (rule ticking_mono) simp
  with debounce_refines [OF this, of debounce_sample 1000000000] show ?thesis
    by (simp add: debounce_sample_def timed_def ticking_def sg_operation_defs upt_rec)
qed

section \<open>Single objects\<close>

text \<open>
  The four kinds that have a syncer and the request that carries an object of them; the other
  two kinds and unknown operations have none.
\<close>

definition sync_message :: "sync_entity \<Rightarrow> string \<Rightarrow> wire_req option" where
  "sync_message x op =
     (case x of
        GroupEntity ag \<Rightarrow> wire_of op (Wire_Groups [AddressGroup_ToSGroupsProto ag])
      | NetworkEntity n \<Rightarrow> wire_of op (Wire_Networks [Network_ToSGroupsProto n])
      | HostEntity h \<Rightarrow> wire_of op (Wire_Hosts [Host_ToSGroupsProto h])
      | RuleEntity r \<Rightarrow> wire_of op (Wire_IeSgSgRules [IEAgAgRule_ToSGroupsProto r])
      | _ \<Rightarrow> None)"

definition configured :: "manager \<Rightarrow> bool" where
  "configured sm \<longleftrightarrow> sm_maxRetries sm = DefaultMaxRetries \<and>
     map_of (sm_syncers sm) = map_of
       [(SyncSubjectTypeGroups, AddressGroupSyncer), (SyncSubjectTypeNetworks, NetworkSyncer),
        (SyncSubjectTypeHosts, HostSyncer), (SyncSubjectTypeIEAgAgRules, IEAgAgRuleSyncer)]"

lemma setup_configured: "configured (setup_syncers (NewSyncManager e))"
  by (simp add: configured_def setup_syncers_def RegisterSyncer_def validateSyncer_def syncer_methods_def NewSyncManager_def
      sg_subject_defs)

lemma configured_syncer:
  assumes "configured sm" "sync_message x op = Some r"
  obtains syncer where "map_of (sm_syncers sm) (GetSyncSubjectType x) = Some syncer"
    "\<And>c s. retried 3 c (sg_Sync sg) r s (fst (retry_Execute (sm_maxRetries sm) c (entity_Sync sg syncer (Some x) op) s))
       (snd (retry_Execute (sm_maxRetries sm) c (entity_Sync sg syncer (Some x) op) s))"
proof -
  note laws = group_syncer.sync_retried network_syncer.sync_retried host_syncer.sync_retried rule_syncer.sync_retried
  have max: "sm_maxRetries sm = 3" using assms(1) by (simp add: configured_def DefaultMaxRetries_def)
  show thesis
    using assms laws [where x = x and op = op and r = r and mx = 3 and sg = sg]
    by (cases x) (auto intro!: that simp: configured_def sync_message_def sg_subject_defs DefaultMaxRetries_def)
qed

lemma track_result_fields [simp]:
  "sm_sent (track_result ty op ok sm) = sm_sent sm"
  "sm_syncers (track_result ty op ok sm) = sm_syncers sm"
  "sm_maxRetries (track_result ty op ok sm) = sm_maxRetries sm"
  "tr_debounceMap (sm_tracker (track_result ty op ok sm)) = tr_debounceMap (sm_tracker sm)"
  "tr_debounceTime (sm_tracker (track_result ty op ok sm)) = tr_debounceTime (sm_tracker sm)"
  by (simp_all add: track_result_def Track_def Let_def)

text \<open>
  C19: A forced synchronisation of a group, network, host or rule sends its message between one
  and four times, as often as the service refuses it and the context is not done in the pause,
  and succeeds exactly when the last answer accepts it.
\<close>
theorem forced_sync_exact:
  assumes "configured sm" "sync_message x op = Some r"
  shows "retried 3 c (sg_Sync sg) r (sm_sent sm) (fst (SyncEntityForced sg c (Some x) op sm))
    (sm_sent (snd (SyncEntityForced sg c (Some x) op sm)))"
proof -
  obtain syncer where "map_of (sm_syncers sm) (GetSyncSubjectType x) = Some syncer"
    and "retried 3 c (sg_Sync sg) r (sm_sent sm) (fst (retry_Execute (sm_maxRetries sm) c (entity_Sync sg syncer (Some x) op) (sm_sent sm)))
       (snd (retry_Execute (sm_maxRetries sm) c (entity_Sync sg syncer (Some x) op) (sm_sent sm)))"
    using configured_syncer [OF assms] by metis
  thus ?thesis
    by (simp add: SyncEntityForced_def syncEntityInternal_def ShouldSyncForced_def shouldSyncInternal_def Let_def split_beta)
qed

definition sample_host :: host where "sample_host = NewHost ''web'' ''ns'' ''uuid-1''"

definition accepting :: sgroups where
  "accepting = \<lparr> sg_Sync = (\<lambda>sent r. None), sg_protoType = (\<lambda>d. []), sg_dataType = (\<lambda>d. []) \<rparr>"

text \<open>A service that is unavailable for the first two requests it gets.\<close>

definition waking :: sgroups where
  "waking = accepting\<lparr>sg_Sync := (\<lambda>sent r. if length sent < 2 then Some (Errorf ''unavailable'') else None)\<rparr>"

definition sample_manager :: manager where
  "sample_manager = setup_syncers (NewSyncManager (ticking 1))"

definition host_message :: "wire_op \<Rightarrow> wire_req" where
  "host_message op = \<lparr> wr_SyncOp = op, wr_Subject = Wire_Hosts
     [\<lparr> sgh_Name = ''ns/web'', sgh_Uuid = ''uuid-1'', sgh_SgName = [], sgh_IpList = Some [] \<rparr>] \<rparr>"

lemma sample_message:
  "sync_message (HostEntity sample_host) SGOperationUpsert = Some (host_message Wire_Upsert)"
  "sync_message (HostEntity sample_host) SGOperationDelete = Some (host_message Wire_Delete)"
  by (simp_all add: sync_message_def wire_of_def sg_convertOp_def sg_operation_defs host_message_def Host_ToSGroupsProto_def
      sample_host_def NewHost_def qualified_name_def host_sg_name_def GetIpList_def)

theorem forced_sync_exact_witness:
  "configured sample_manager \<and>
   sync_message (HostEntity sample_host) SGOperationUpsert = Some (host_message Wire_Upsert) \<and>
   retried 3 (\<lambda>i. None) (sg_Sync waking) (host_message Wire_Upsert) []
     (fst (SyncEntityForced waking (\<lambda>i. None) (Some (HostEntity sample_host)) SGOperationUpsert sample_manager))
     (sm_sent (snd (SyncEntityForced waking (\<lambda>i. None) (Some (HostEntity sample_host)) SGOperationUpsert sample_manager)))"
proof -
  have "configured sample_manager" by (simp add: sample_manager_def setup_configured)
  moreover have "sm_sent sample_manager = []"
    by (simp add: sample_manager_def setup_syncers_def RegisterSyncer_def validateSyncer_def syncer_methods_def NewSyncManager_def)
  ultimately show ?thesis using forced_sync_exact [of sample_manager "HostEntity sample_host" SGOperationUpsert] sample_message
    by metis
qed

lemma admitted_entry:
  assumes "fst (Manager_SyncEntity sg c (Some x) op sm) \<noteq> None \<or> sm_sent (snd (Manager_SyncEntity sg c (Some x) op sm)) \<noteq> sm_sent sm"
  shows "map_of (tr_debounceMap (sm_tracker (snd (Manager_SyncEntity sg c (Some x) op sm)))) (GetSyncKey x) =
      Some \<lparr> de_lastSyncTime = fst (Now (sm_env sm)), de_operation = op \<rparr>"
    and "tr_debounceTime (sm_tracker (snd (Manager_SyncEntity sg c (Some x) op sm))) = tr_debounceTime (sm_tracker sm)"
  using assms
  by (auto simp: Manager_SyncEntity_def syncEntityInternal_def tracker_ShouldSync_def shouldSyncInternal_def Let_def split_beta
      AList.update_conv split: if_splits option.splits)

definition sample_network :: network where "sample_network = NewNetwork ''lan'' ''ns'' ''10.0.0.0/8''"

text \<open>Calls of the manager, one after the other, whatever they return.\<close>

datatype manager_call =
    RegisterCall string "entity_syncer option"
  | SyncCall "nat \<Rightarrow> error option" "sync_entity option" string
  | ForcedCall "nat \<Rightarrow> error option" "sync_entity option" string
  | BatchCall "string \<Rightarrow> nat \<Rightarrow> error option" "sync_entity list table \<Rightarrow> sync_entity list table"
      "sync_entity option list" string

fun call_manager :: "sgroups \<Rightarrow> manager_call \<Rightarrow> manager \<Rightarrow> manager" where
  "call_manager sg (RegisterCall ty syncer) sm = snd (RegisterSyncer ty syncer sm)"
| "call_manager sg (SyncCall c x op) sm = snd (Manager_SyncEntity sg c x op sm)"
| "call_manager sg (ForcedCall c x op) sm = snd (SyncEntityForced sg c x op sm)"
| "call_manager sg (BatchCall c order xs op) sm = snd (Manager_SyncBatch sg c order xs op sm)"

text \<open>The tracker has an entry of the key that is not older than \<open>t0\<close>, and the clock has passed \<open>t0\<close>.\<close>

definition entered_since :: "string \<Rightarrow> int \<Rightarrow> int \<Rightarrow> (nat \<Rightarrow> int) \<Rightarrow> manager \<Rightarrow> bool" where
  "entered_since key t0 d clock sm \<longleftrightarrow>
     tr_debounceTime (sm_tracker sm) = d \<and> env_clock (sm_env sm) = clock \<and> t0 \<le> fst (Now (sm_env sm)) \<and>
     (\<exists>entry. map_of (tr_debounceMap (sm_tracker sm)) key = Some entry \<and> t0 \<le> de_lastSyncTime entry)"

lemma entered_track:
  assumes "mono clock" "entered_since key t0 d clock sm"
  shows "entered_since key t0 d clock (track_result ty op ok (sm\<lparr>sm_sent := sent\<rparr>))"
    "entered_since key t0 d clock (track_result ty op ok sm)"
  using assms monoD [OF assms(1) le_SucI [OF le_refl], of "env_reads (sm_env sm)"]
  by (auto simp: entered_since_def track_result_def Track_def Now_def Let_def)

lemma entered_should_sync:
  assumes "mono clock" "entered_since key t0 d clock sm"
  shows "entered_since key t0 d clock (sm\<lparr>sm_tracker := fst (snd (shouldSyncInternal (sm_env sm) k op forced (sm_tracker sm))),
    sm_env := snd (snd (shouldSyncInternal (sm_env sm) k op forced (sm_tracker sm)))\<rparr>)"
  using assms monoD [OF assms(1) le_SucI [OF le_refl], of "env_reads (sm_env sm)"]
  by (auto simp: entered_since_def shouldSyncInternal_def Now_def Let_def AList.update_conv)

lemma entered_entity:
  assumes "mono clock" "entered_since key t0 d clock sm"
  shows "entered_since key t0 d clock (snd (syncEntityInternal sg c x op forced sm))"
proof (cases x)
  case (Some y)
  let ?S = "shouldSyncInternal (sm_env sm) (GetSyncKey y) op forced (sm_tracker sm)"
  let ?sm = "sm\<lparr>sm_tracker := fst (snd ?S), sm_env := snd (snd ?S)\<rparr>"
  note entered = entered_should_sync [OF assms, of "GetSyncKey y" op forced]
  have "(if forced then ShouldSyncForced (sm_env sm) (GetSyncKey y) op (sm_tracker sm)
      else tracker_ShouldSync (sm_env sm) (GetSyncKey y) op (sm_tracker sm)) = ?S"
    by (simp add: ShouldSyncForced_def tracker_ShouldSync_def)
  with Some entered entered_track [OF assms(1) entered] show ?thesis
    by (simp add: syncEntityInternal_def Let_def split_beta split: option.split)
qed (use assms in \<open>simp add: syncEntityInternal_def\<close>)

lemma entered_groups:
  assumes "mono clock" "entered_since key t0 d clock (snd p)"
  shows "entered_since key t0 d clock (snd (fold (sync_one_group sg c op) groups p))"
  using assms(2)
proof (induction groups arbitrary: p)
  case (Cons g groups)
  have "entered_since key t0 d clock (snd (sync_one_group sg c op g p))"
    using entered_track [OF assms(1) Cons.prems] by (simp add: sync_one_group_def split_beta split: option.split)
  with Cons.IH show ?case by simp
qed simp

lemma entered_call:
  assumes "mono clock" "entered_since key t0 d clock sm"
  shows "entered_since key t0 d clock (call_manager sg call sm)"
proof (cases call)
  case (RegisterCall ty syncer)
  with assms(2) show ?thesis by (simp add: RegisterSyncer_def entered_since_def split: option.split)
next
  case (BatchCall c order xs op)
  with entered_groups [OF assms(1), of key t0 d "(None, sm)"] assms(2) show ?thesis
    by (simp add: Manager_SyncBatch_def)
qed (use entered_entity [OF assms] in \<open>simp_all add: Manager_SyncEntity_def SyncEntityForced_def\<close>)

lemma entered_calls:
  "mono clock \<Longrightarrow> entered_since key t0 d clock sm \<Longrightarrow> entered_since key t0 d clock (fold (call_manager sg) calls sm)"
  by (induction calls arbitrary: sm) (simp_all add: entered_call)

lemma admitted_entered:
  assumes "mono (env_clock (sm_env sm))"
    and "fst (Manager_SyncEntity sg c (Some x) op sm) \<noteq> None \<or> sm_sent (snd (Manager_SyncEntity sg c (Some x) op sm)) \<noteq> sm_sent sm"
  shows "entered_since (GetSyncKey x) (fst (Now (sm_env sm))) (tr_debounceTime (sm_tracker sm)) (env_clock (sm_env sm))
    (snd (Manager_SyncEntity sg c (Some x) op sm))"
proof -
  have "env_reads (sm_env (snd (Manager_SyncEntity sg c (Some x) op sm))) \<ge> env_reads (sm_env sm) \<and>
      env_clock (sm_env (snd (Manager_SyncEntity sg c (Some x) op sm))) = env_clock (sm_env sm)"
    by (auto simp: Manager_SyncEntity_def syncEntityInternal_def tracker_ShouldSync_def shouldSyncInternal_def Let_def split_beta
        track_result_def Track_def Now_def split: if_splits option.splits)
  with admitted_entry [OF assms(2)] monoD [OF assms(1)] show ?thesis by (simp add: entered_since_def Now_def)
qed

text \<open>
  C18: After a synchronisation of an object that was admitted, be it refused by the service, be
  it a deletion, and after any further calls of the manager, on whatever objects: a
  synchronisation of an object with the same key that is neither forced nor a deletion, and that
  comes within the debounce time of the first one, reports success, sends nothing and leaves no
  trace in the statistics, whatever the object has become. The clock does not run backwards.
\<close>
theorem debounced_sync_lost:
  assumes "mono (env_clock (sm_env sm))"
    and "fst (Manager_SyncEntity sg c (Some x) op sm) \<noteq> None \<or> sm_sent (snd (Manager_SyncEntity sg c (Some x) op sm)) \<noteq> sm_sent sm"
    and "sm1 = fold (call_manager sg) calls (snd (Manager_SyncEntity sg c (Some x) op sm))"
    and "GetSyncKey y = GetSyncKey x" "op' \<noteq> SGOperationDelete"
    and "fst (Now (sm_env sm1)) - fst (Now (sm_env sm)) < tr_debounceTime (sm_tracker sm)"
  shows "\<exists>sm2. Manager_SyncEntity sg c' (Some y) op' sm1 = (None, sm2) \<and>
    sm_sent sm2 = sm_sent sm1 \<and> sm_tracker sm2 = sm_tracker sm1"
proof -
  have "entered_since (GetSyncKey x) (fst (Now (sm_env sm))) (tr_debounceTime (sm_tracker sm)) (env_clock (sm_env sm)) sm1"
    unfolding assms(3) by (rule entered_calls [OF assms(1) admitted_entered [OF assms(1,2)]])
  with assms(4-) show ?thesis
    by (auto simp: entered_since_def Manager_SyncEntity_def syncEntityInternal_def tracker_ShouldSync_def
        shouldSyncInternal_def Let_def)
qed

definition deleted_host :: manager where
  "deleted_host = snd (Manager_SyncEntity accepting (\<lambda>i. None) (Some (HostEntity sample_host)) SGOperationDelete sample_manager)"

text \<open>In between, the same host is synchronised by force, and a network is synchronised.\<close>

definition busy_calls :: "manager_call list" where
  "busy_calls = [ForcedCall (\<lambda>i. None) (Some (HostEntity sample_host)) SGOperationDelete,
     SyncCall (\<lambda>i. None) (Some (NetworkEntity sample_network)) SGOperationUpsert]"

definition busy_manager :: manager where
  "busy_manager = fold (call_manager accepting) busy_calls deleted_host"

lemma deleted_host_sent:
  "sm_sent sample_manager = []" "sm_sent deleted_host = [host_message Wire_Delete]"
  "fst (Now (sm_env busy_manager)) - fst (Now (sm_env sample_manager)) < tr_debounceTime (sm_tracker sample_manager)"
  "length (sm_sent busy_manager) = 3"
  by code_simp+

lemma sample_manager_clock: "env_clock (sm_env sample_manager) = env_clock (ticking 1)"
  by (simp add: sample_manager_def setup_syncers_def RegisterSyncer_def validateSyncer_def syncer_methods_def NewSyncManager_def)

theorem debounced_sync_lost_witness:
  "sm_sent deleted_host = [host_message Wire_Delete] \<and>
   (\<exists>sm'. Manager_SyncEntity accepting (\<lambda>i. None) (Some (HostEntity sample_host)) SGOperationUpsert busy_manager = (None, sm') \<and>
      sm_sent sm' = sm_sent busy_manager)"
  using debounced_sync_lost [of sample_manager accepting "\<lambda>i. None" "HostEntity sample_host" SGOperationDelete busy_manager
      busy_calls "HostEntity sample_host" SGOperationUpsert "\<lambda>i. None", folded deleted_host_def] deleted_host_sent
    ticking_mono [of 1]
  by (auto simp: sg_operation_defs busy_manager_def sample_manager_clock)

section \<open>Batches\<close>

text \<open>One request per subject type, with all objects of the type in their order.\<close>

definition batch_message :: "string \<Rightarrow> sync_entity list \<Rightarrow> string \<Rightarrow> wire_req option" where
  "batch_message op xs ty =
     (if ty = SyncSubjectTypeGroups then wire_of op (Wire_Groups (concat (map group_protos xs)))
      else if ty = SyncSubjectTypeNetworks then wire_of op (Wire_Networks (concat (map network_protos xs)))
      else if ty = SyncSubjectTypeHosts then wire_of op (Wire_Hosts (concat (map host_protos xs)))
      else if ty = SyncSubjectTypeIEAgAgRules then wire_of op (Wire_IeSgSgRules (concat (map rule_protos xs)))
      else None)"

lemma concat_map_filter: "(\<And>x. \<not> P x \<Longrightarrow> f x = []) \<Longrightarrow> concat (map f (filter P xs)) = concat (map f xs)"
  by (induction xs) auto

lemma some_filter: "[x. Some x \<leftarrow> entities, P x] = filter P [x. Some x \<leftarrow> entities]"
  by (induction entities) (auto split: option.split)

lemma batch_message_filter: "batch_message op (filter (\<lambda>x. GetSyncSubjectType x = ty) xs) ty = batch_message op xs ty"
proof -
  have "\<not> GetSyncSubjectType x = SyncSubjectTypeGroups \<Longrightarrow> group_protos x = []"
    "\<not> GetSyncSubjectType x = SyncSubjectTypeNetworks \<Longrightarrow> network_protos x = []"
    "\<not> GetSyncSubjectType x = SyncSubjectTypeHosts \<Longrightarrow> host_protos x = []"
    "\<not> GetSyncSubjectType x = SyncSubjectTypeIEAgAgRules \<Longrightarrow> rule_protos x = []" for x
    by (cases x; simp)+
  thus ?thesis by (simp add: batch_message_def concat_map_filter)
qed

lemma configured_batch:
  assumes "configured sm" "ys \<noteq> []" "\<And>y. y \<in> set ys \<Longrightarrow> GetSyncSubjectType y = ty" "batch_message op ys ty = Some r"
  shows "\<exists>syncer. map_of (sm_syncers sm) ty = Some syncer \<and>
    retried 3 c (sg_Sync sg) r s (fst (retry_Execute (sm_maxRetries sm) c (entity_SyncBatch sg syncer (map Some ys) op) s))
       (snd (retry_Execute (sm_maxRetries sm) c (entity_SyncBatch sg syncer (map Some ys) op) s))"
proof -
  have max: "sm_maxRetries sm = 3" using assms(1) by (simp add: configured_def DefaultMaxRetries_def)
  have syncers: "map_of (sm_syncers sm) SyncSubjectTypeGroups = Some AddressGroupSyncer"
    "map_of (sm_syncers sm) SyncSubjectTypeNetworks = Some NetworkSyncer"
    "map_of (sm_syncers sm) SyncSubjectTypeHosts = Some HostSyncer"
    "map_of (sm_syncers sm) SyncSubjectTypeIEAgAgRules = Some IEAgAgRuleSyncer"
    using assms(1) by (simp_all add: configured_def sg_subject_defs)
  note laws = group_syncer.batch_retried network_syncer.batch_retried host_syncer.batch_retried rule_syncer.batch_retried
  from assms(4) consider
      "ty = SyncSubjectTypeGroups" "wire_of op (Wire_Groups (concat (map group_protos ys))) = Some r"
    | "ty = SyncSubjectTypeNetworks" "wire_of op (Wire_Networks (concat (map network_protos ys))) = Some r"
    | "ty = SyncSubjectTypeHosts" "wire_of op (Wire_Hosts (concat (map host_protos ys))) = Some r"
    | "ty = SyncSubjectTypeIEAgAgRules" "wire_of op (Wire_IeSgSgRules (concat (map rule_protos ys))) = Some r"
    by (auto simp: batch_message_def split: if_splits)
  thus ?thesis
    by cases (use assms(2,3) syncers laws [where xs = ys and op = op and r = r and mx = 3 and sg = sg and c = c and s = s] max in simp_all)
qed

lemma sync_group_accepted:
  assumes "configured sm" "ys \<noteq> []" "\<And>y. y \<in> set ys \<Longrightarrow> GetSyncSubjectType y = ty" "batch_message op ys ty = Some r"
    and "\<And>s r. sg_Sync sg s r = None"
  shows "\<exists>sm'. sync_one_group sg c op (ty, ys) (None, sm) = (None, sm') \<and> configured sm' \<and> sm_sent sm' = sm_sent sm @ [r]"
proof -
  obtain syncer where syncer: "map_of (sm_syncers sm) ty = Some syncer"
    and "retried 3 (c ty) (sg_Sync sg) r (sm_sent sm)
       (fst (retry_Execute (sm_maxRetries sm) (c ty) (entity_SyncBatch sg syncer (map Some ys) op) (sm_sent sm)))
       (snd (retry_Execute (sm_maxRetries sm) (c ty) (entity_SyncBatch sg syncer (map Some ys) op) (sm_sent sm)))"
    using configured_batch [OF assms(1-4)] by blast
  hence "retry_Execute (sm_maxRetries sm) (c ty) (entity_SyncBatch sg syncer (map Some ys) op) (sm_sent sm) = (None, sm_sent sm @ [r])"
    using retried_accepted [of 3 "c ty" "sg_Sync sg" r, OF _ assms(5)] by (simp add: prod_eq_iff)
  with syncer assms(1) show ?thesis by (simp add: sync_one_group_def configured_def)
qed

lemma sync_groups_accepted:
  assumes "configured sm" "\<And>ty ys. (ty, ys) \<in> set groups \<Longrightarrow>
      ys \<noteq> [] \<and> (\<forall>y\<in>set ys. GetSyncSubjectType y = ty) \<and> batch_message op ys ty = Some (m ty)"
    and "\<And>s r. sg_Sync sg s r = None"
  shows "\<exists>sm'. fold (sync_one_group sg c op) groups (None, sm) = (None, sm') \<and> sm_sent sm' = sm_sent sm @ map (m \<circ> fst) groups"
  using assms
proof (induction groups arbitrary: sm)
  case (Cons g groups)
  obtain ty ys where g: "g = (ty, ys)" by (cases g)
  obtain sm1 where "sync_one_group sg c op g (None, sm) = (None, sm1)" "configured sm1" "sm_sent sm1 = sm_sent sm @ [m ty]"
    using sync_group_accepted [of sm ys ty op "m ty" sg c] Cons.prems g by auto
  moreover obtain sm2 where "fold (sync_one_group sg c op) groups (None, sm1) = (None, sm2)"
    "sm_sent sm2 = sm_sent sm1 @ map (m \<circ> fst) groups"
    using Cons.IH [OF \<open>configured sm1\<close>] Cons.prems(2,3) by (meson list.set_intros(2))
  ultimately show ?case by (simp add: g)
qed simp

text \<open>
  C23: A batch that the service accepts succeeds and sends exactly one request for each subject
  type among its objects, in any order of the types, with all objects of the type in the order
  of the batch; nil objects are left out.
\<close>
theorem batch_sends_each_kind_once:
  assumes "configured sm" and "\<And>x. Some x \<in> set entities \<Longrightarrow> sync_message x op \<noteq> None"
    and "mset (order (entity_groups entities)) = mset (entity_groups entities)"
    and "\<And>s r. sg_Sync sg s r = None"
  shows "fst (Manager_SyncBatch sg c order entities op sm) = None \<and>
    (\<exists>tys. distinct tys \<and> set tys = GetSyncSubjectType ` {x. Some x \<in> set entities} \<and>
       map Some (sm_sent (snd (Manager_SyncBatch sg c order entities op sm))) =
         map Some (sm_sent sm) @ map (batch_message op [x. Some x \<leftarrow> entities]) tys)"
proof -
  let ?xs = "[x. Some x \<leftarrow> entities]"
  define groups where "groups = order (entity_groups entities)"
  have mem: "g \<in> set groups \<longleftrightarrow> g \<in> set (entity_groups entities)" for g
    using assms(3) by (metis groups_def set_mset_mset)
  have known: "batch_message op ?xs (GetSyncSubjectType x) \<noteq> None" if "Some x \<in> set entities" for x
    using assms(2) [OF that] by (cases x) (auto simp: sync_message_def batch_message_def sg_subject_defs wire_of_def split: sum.splits)
  have group: "ys = filter (\<lambda>x. GetSyncSubjectType x = ty) ?xs \<and> ys \<noteq> []" if "(ty, ys) \<in> set groups" for ty ys
  proof -
    have "map_of (entity_groups entities) ty = Some ys" using that by (simp add: mem entity_groups_distinct)
    thus ?thesis by (auto simp: entity_groups_of some_filter Let_def split: if_splits)
  qed
  have total: "batch_message op ?xs ty \<noteq> None" if "(ty, ys) \<in> set groups" for ty ys
  proof -
    from group [OF that] obtain x where "x \<in> set ?xs" "GetSyncSubjectType x = ty" by (auto simp: filter_empty_conv)
    with known show ?thesis by auto
  qed
  have groups_ok: "ys \<noteq> [] \<and> (\<forall>y\<in>set ys. GetSyncSubjectType y = ty) \<and> batch_message op ys ty = Some (the (batch_message op ?xs ty))"
    if "(ty, ys) \<in> set groups" for ty ys
  proof -
    have "batch_message op ys ty = batch_message op ?xs ty" by (simp only: group [OF that, THEN conjunct1] batch_message_filter)
    moreover have "\<forall>y\<in>set ys. GetSyncSubjectType y = ty" using group [OF that] by simp
    ultimately show ?thesis using total [OF that] group [OF that, THEN conjunct2] by (simp only: option.collapse simp_thms)
  qed
  obtain sm' where run: "fold (sync_one_group sg c op) groups (None, sm) = (None, sm')"
    "sm_sent sm' = sm_sent sm @ map ((\<lambda>ty. the (batch_message op ?xs ty)) \<circ> fst) groups"
    using sync_groups_accepted [OF assms(1) groups_ok assms(4)] by blast
  have "distinct (map fst groups)"
    using assms(3) entity_groups_distinct by (metis groups_def mset_map mset_eq_imp_distinct_iff)
  moreover have "set (map fst groups) = GetSyncSubjectType ` {x. Some x \<in> set entities}"
  proof -
    have "set (map fst groups) = dom (map_of (entity_groups entities))" by (auto simp: mem dom_map_of_conv_image_fst image_iff)
    thus ?thesis by (auto simp: entity_groups_of some_filter Let_def dom_def filter_empty_conv)
  qed
  moreover have "map Some (map ((\<lambda>ty. the (batch_message op ?xs ty)) \<circ> fst) groups) = map (batch_message op ?xs) (map fst groups)"
    using total by fastforce
  ultimately show ?thesis
    using run by (auto simp: Manager_SyncBatch_def groups_def entity_groups_def intro!: exI [of _ "map fst groups"])
qed

definition sample_batch :: "sync_entity option list" where
  "sample_batch = [Some (HostEntity sample_host), None, Some (NetworkEntity sample_network), Some (HostEntity sample_host)]"

lemma sample_batch_groups:
  "entity_groups sample_batch =
     [(SyncSubjectTypeHosts, [HostEntity sample_host, HostEntity sample_host]),
      (SyncSubjectTypeNetworks, [NetworkEntity sample_network])]"
  by (simp add: entity_groups_def sample_batch_def sg_subject_defs)

theorem batch_sends_each_kind_once_witness:
  "fst (Manager_SyncBatch accepting (\<lambda>ty i. None) rev sample_batch SGOperationUpsert sample_manager) = None \<and>
   (\<exists>tys. distinct tys \<and> set tys = GetSyncSubjectType ` {x. Some x \<in> set sample_batch} \<and>
      map Some (sm_sent (snd (Manager_SyncBatch accepting (\<lambda>ty i. None) rev sample_batch SGOperationUpsert sample_manager))) =
        map Some (sm_sent sample_manager) @
        map (batch_message SGOperationUpsert [HostEntity sample_host, NetworkEntity sample_network, HostEntity sample_host]) tys)"
proof -
  have "sync_message x SGOperationUpsert \<noteq> None" if "Some x \<in> set sample_batch" for x
    using that by (auto simp: sample_batch_def sync_message_def wire_of_def sg_convertOp_def sg_operation_defs)
  moreover have "sg_Sync accepting s r = None" for s r by (simp add: accepting_def)
  moreover have "[x. Some x \<leftarrow> sample_batch] = [HostEntity sample_host, NetworkEntity sample_network, HostEntity sample_host]"
    by (simp add: sample_batch_def)
  ultimately show ?thesis
    using batch_sends_each_kind_once [of sample_manager sample_batch SGOperationUpsert rev accepting "\<lambda>ty i. None"] setup_configured
    by (simp add: sample_manager_def)
qed

end
