(* ===== verification/ReverseProperties.thy ===== *)
theory ReverseProperties
  imports ReverseSync SyncProperties
begin

text \<open>
  Properties of the reverse synchronisation: what it leaves in the registry, how hosts are
  split into batches, and how long the change detector keeps connecting.
\<close>

section \<open>Batches\<close>

lemma concat_batches: "0 < n \<Longrightarrow> concat (batches_from n xs) = xs"
proof (induction n xs rule: batches_from.induct)
  case (1 n xs)
  thus ?case by (subst batches_from.simps) auto
qed

lemma batch_sizes: "b \<in> set (batches_from n xs) \<Longrightarrow> b \<noteq> [] \<and> length b \<le> n"
proof (induction n xs rule: batches_from.induct)
  case (1 n xs)
  thus ?case by (subst (asm) (2) batches_from.simps) (auto split: if_splits)
qed

lemma single_batch: "us \<noteq> [] \<Longrightarrow> int (length us) \<le> n \<Longrightarrow> createBatches us n = [us]"
  by (subst createBatches_def, subst batches_from.simps, subst batches_from.simps) (auto simp: nat_le_iff)

section \<open>One host\<close>

lemma parse_namespaced:
  assumes "Namespace h \<noteq> []" "Name h \<noteq> []" "CHR ''/'' \<notin> set (Name h)"
  shows "parseHostID (Key h) = Inr (Namespace h, Name h)"
proof -
  have "takeWhile (\<lambda>c. c \<noteq> CHR ''/'') (rev (Name h) @ CHR ''/'' # rev (Namespace h)) = rev (Name h)"
    using assms(3) by (subst takeWhile_append2) auto
  thus ?thesis using assms by (simp add: parseHostID_def Key_def Let_def)
qed

lemma full_sync_one:
  "\<exists>e'. SyncHosts e db [h] (Some EmptyScope) [] empty_writer =
    (empty_writer\<lparr>w_hosts := Some [(Key h, h\<lparr>Meta := fst (ensureMetaFill e (Meta h))\<rparr>)]\<rparr>, e')"
  by (simp add: SyncHosts_def sync_table_def select_sync_op_def clear_scope_def working_def empty_writer_def Let_def split_beta)

lemma commit_hosts:
  "GetHosts (fst (Commit e db (empty_writer\<lparr>w_hosts := Some t\<rparr>))) = t"
  by (simp add: Commit_def empty_writer_def set_if_def db_access_defs Let_def)

definition after_update :: "host \<Rightarrow> string list \<Rightarrow> rev_state \<Rightarrow> bool" where
  "after_update h ips s \<longleftrightarrow> \<not> reg_closed (rv_reg s) \<and>
     (\<exists>m. GetHosts (reg_db (rv_reg s)) = [(Key h, h\<lparr>h_IpList := ips, Meta := m\<rparr>)])"

definition addressable :: "host \<Rightarrow> bool" where
  "addressable h \<longleftrightarrow> Namespace h \<noteq> [] \<and> Name h \<noteq> [] \<and> CHR ''/'' \<notin> set (Name h)"

lemma read_host:
  assumes "\<not> reg_closed (rv_reg s)" "addressable h"
  shows "UpdateHostIPSet (Key h) ips s =
    (case map_of (GetHosts (reg_db (rv_reg s))) (Key h) of
       None \<Rightarrow> (Some (Wrap (''failed to get host '' @ Key h) ErrNotFound), s)
     | Some existingHost \<Rightarrow>
         (let (w', e) = SyncHosts (rv_env s) (reg_db (rv_reg s)) [existingHost\<lparr>h_IpList := ips\<rparr>] (Some EmptyScope) [] empty_writer;
              (db, e') = Commit e (reg_db (rv_reg s)) w'
          in (None, s\<lparr>rv_reg := (rv_reg s)\<lparr>reg_db := db\<rparr>, rv_env := e'\<rparr>)))"
  using assms
  by (simp add: UpdateHostIPSet_def addressable_def parse_namespaced Reader_def Writer_def mem_GetHostByID_def get_by_id_def
      reader_table_def Key_self_id [unfolded self_id_def, symmetric] split: option.split)

lemma Key_h_IpList [simp]: "Key (h\<lparr>h_IpList := ips\<rparr>) = Key h"
  unfolding Key_def by (rule if_cong) simp_all

lemma update_stored_host:
  assumes "\<not> reg_closed (rv_reg s)" "addressable h" "map_of (GetHosts (reg_db (rv_reg s))) (Key h) = Some h"
  shows "\<exists>s'. UpdateHostIPSet (Key h) ips s = (None, s') \<and> after_update h ips s'"
proof -
  obtain e m where "SyncHosts (rv_env s) (reg_db (rv_reg s)) [h\<lparr>h_IpList := ips\<rparr>] (Some EmptyScope) [] empty_writer =
      (empty_writer\<lparr>w_hosts := Some [(Key h, h\<lparr>h_IpList := ips, Meta := m\<rparr>)]\<rparr>, e)"
    using full_sync_one [of "rv_env s" "reg_db (rv_reg s)" "h\<lparr>h_IpList := ips\<rparr>"] that by auto
  with assms show ?thesis
    by (simp add: read_host after_update_def commit_hosts [of e "reg_db (rv_reg s)"] Let_def split_beta exI [of _ m])
qed

lemma update_missing_host:
  assumes "after_update h0 ips0 s" "addressable h" "Key h \<noteq> Key h0"
  shows "\<exists>e. UpdateHostIPSet (Key h) ips s = (Some e, s)"
  using assms by (auto simp: read_host after_update_def)

lemma update_several:
  assumes "\<not> reg_closed (rv_reg s)" "map_of (GetHosts (reg_db (rv_reg s))) (Key h1) = Some h1"
    and "addressable h1" "addressable h2" "Key h1 \<noteq> Key h2"
    and "hiu_HostID u1 = Key h1" "hiu_HostID u2 = Key h2"
  shows "\<exists>e s'. UpdateHostsIPSet (u1 # u2 # us) s = (Some e, s') \<and> after_update h1 (hiu_IPSet u1) s'"
proof -
  obtain s1 where s1: "UpdateHostIPSet (Key h1) (hiu_IPSet u1) s = (None, s1)" "after_update h1 (hiu_IPSet u1) s1"
    using update_stored_host [OF assms(1,3,2)] by blast
  obtain e where "UpdateHostIPSet (Key h2) (hiu_IPSet u2) s1 = (Some e, s1)"
    using update_missing_host [OF s1(2) assms(4)] assms(5) by metis
  with s1 assms(6,7) show ?thesis by simp
qed

section \<open>A run\<close>

lemma host_map_lookup:
  "distinct (map h_UUID hs) \<Longrightarrow> h \<in> set hs \<Longrightarrow> map_of (host_map_of hs) (h_UUID h) = Some h"
proof -
  have "distinct (map h_UUID hs) \<Longrightarrow> h \<in> set hs \<Longrightarrow> map_of (fold (\<lambda>h. AList.update (h_UUID h) h) hs m) (h_UUID h) = Some h" for m
  proof (induction hs arbitrary: m)
    case (Cons g hs)
    have "h_UUID h \<notin> set (map h_UUID hs) \<Longrightarrow>
        map_of (fold (\<lambda>h. AList.update (h_UUID h) h) hs m) (h_UUID h) = map_of m (h_UUID h)" for m
      by (induction hs arbitrary: m) (auto simp: AList.update_conv)
    with Cons show ?case by (cases "h = g") (auto simp: AList.update_conv)
  qed simp
  thus "distinct (map h_UUID hs) \<Longrightarrow> h \<in> set hs \<Longrightarrow> map_of (host_map_of hs) (h_UUID h) = Some h"
    by (simp add: host_map_of_def)
qed

lemma sgroup_map_lookup:
  assumes "\<And>h. h \<in> set hs \<Longrightarrow> sgh_Uuid (answer h) = h_UUID h \<and> h_UUID h \<noteq> []" "distinct (map h_UUID hs)" "h \<in> set hs"
  shows "map_of (sgroup_host_map (map (Some \<circ> answer) hs)) (h_UUID h) = Some (answer h)"
proof -
  have "map_of (fold (\<lambda>h m. case h of None \<Rightarrow> m | Some sh \<Rightarrow> if sgh_Uuid sh \<noteq> [] then AList.update (sgh_Uuid sh) sh m else m)
      (map (Some \<circ> answer) gs) m) u =
    (case find (\<lambda>h. h_UUID h = u) (rev gs) of Some g \<Rightarrow> Some (answer g) | None \<Rightarrow> map_of m u)" if "set gs \<subseteq> set hs" for gs m u
    using that assms(1)
    by (induction gs arbitrary: m rule: rev_induct) (auto simp: AList.update_conv split: option.split)
  moreover have "find (\<lambda>g. h_UUID g = h_UUID h) (rev hs) = Some h"
  proof (cases "find (\<lambda>g. h_UUID g = h_UUID h) (rev hs)")
    case None
    with assms(3) show ?thesis by (auto simp: find_None_iff)
  next
    case (Some g)
    hence "g \<in> set hs" "h_UUID g = h_UUID h" by (auto simp: find_Some_iff) (metis length_rev nth_mem set_rev)
    with assms(2,3) Some show ?thesis by (metis distinct_map inj_onD)
  qed
  ultimately show ?thesis by (simp add: sgroup_host_map_def)
qed

definition update_for :: "host_sync_config \<Rightarrow> (host \<Rightarrow> sg_host) \<Rightarrow> host \<Rightarrow> host_ipset_update" where
  "update_for cfg answer h =
     \<lparr> hiu_HostUUID = h_UUID h, hiu_HostID = Key h, hiu_Namespace = Namespace h, hiu_Name = Name h,
       hiu_IPSet = extract_ips cfg (answer h), hiu_SGName = sgh_SgName (answer h) \<rparr>"

lemma prepare_all:
  assumes "\<And>h. h \<in> set hs \<Longrightarrow> map_of hostMap (h_UUID h) = Some h \<and> map_of sgMap (h_UUID h) = Some (answer h) \<and>
      extract_ips cfg (answer h) \<noteq> []"
  shows "fold (prepare_update cfg hostMap sgMap) (map h_UUID hs) (r, us) = (r, us @ map (update_for cfg answer) hs)"
  using assms by (induction hs arbitrary: us) (simp_all add: prepare_update_def update_for_def Let_def)

lemma prepare_known:
  assumes "distinct (map h_UUID hs)"
    and "\<And>h. h \<in> set hs \<Longrightarrow> sgh_Uuid (answer h) = h_UUID h \<and> h_UUID h \<noteq> [] \<and> extract_ips cfg (answer h) \<noteq> []"
  shows "fold (prepare_update cfg (host_map_of hs) (sgroup_host_map (map (Some \<circ> answer) hs))) (map h_UUID hs) (r, []) =
    (r, map (update_for cfg answer) hs)"
proof -
  have "map_of (host_map_of hs) (h_UUID h) = Some h \<and>
      map_of (sgroup_host_map (map (Some \<circ> answer) hs)) (h_UUID h) = Some (answer h) \<and> extract_ips cfg (answer h) \<noteq> []"
    if "h \<in> set hs" for h
    using host_map_lookup [OF assms(1) that] sgroup_map_lookup [of hs answer h] assms that by blast
  thus ?thesis using prepare_all [of hs "host_map_of hs" "sgroup_host_map (map (Some \<circ> answer) hs)" answer cfg r "[]"] by simp
qed

lemma fold_failed:
  "hsr_SyncedHostUUIDs (fold (\<lambda>x. AddFailedHost (f x) (g x)) xs r) = hsr_SyncedHostUUIDs r"
  "hsr_FailedUUIDs (fold (\<lambda>x. AddFailedHost (f x) (g x)) xs r) = hsr_FailedUUIDs r @ map f xs"
  by (induction xs arbitrary: r) (simp_all add: AddFailedHost_def)

lemma merge_failed:
  "hsr_SyncedHostUUIDs b = [] \<Longrightarrow> hsr_SyncedHostUUIDs (mergeBatchResult b r) = hsr_SyncedHostUUIDs r"
  "hsr_SyncedHostUUIDs b = [] \<Longrightarrow> hsr_FailedUUIDs (mergeBatchResult b r) = hsr_FailedUUIDs r @ hsr_FailedUUIDs b"
  by (simp_all add: mergeBatchResult_def fold_failed)

lemma listed_without_ips:
  assumes "\<not> reg_closed (rv_reg s)"
  shows "findHostsWithoutIPSet [] s = Inr (filter (\<lambda>h. h_IpList h = []) (map snd (GetHosts (reg_db (rv_reg s)))))"
proof -
  have "fold (\<lambda>h hosts. if h_IpList h = [] then hosts @ [h] else hosts) xs acc = acc @ filter (\<lambda>h. h_IpList h = []) xs" for xs acc :: "host list"
    by (induction xs arbitrary: acc) auto
  with assms show ?thesis
    by (simp add: findHostsWithoutIPSet_def GetHostsWithoutIPSet_def Reader_def mem_ListHosts_def list_table_def reader_table_def)
qed

text \<open>
  C24: On an open in-memory registry: when at least two hosts lack addresses, they fit one batch and
  have distinct identifiers and names without a slash, and the service answers for each of them
  with at least one usable address, then a full reverse synchronisation reports success, counts
  every one of these hosts as failed, and leaves in the registry only the first of them, with its
  addresses.
\<close>
theorem reverse_sync_wipes_hosts:
  assumes "\<not> reg_closed (rv_reg s)" "table_ok (GetHosts (reg_db (rv_reg s)))"
    and hs: "hs = filter (\<lambda>h. h_IpList h = []) (map snd (GetHosts (reg_db (rv_reg s))))"
    and "2 \<le> length hs" "int (length hs) \<le> hsc_BatchSize cfg" "distinct (map h_UUID hs)"
    and "\<And>h. h \<in> set hs \<Longrightarrow> addressable h"
    and "listHosts (rv_queries s) (ListByUuid (map h_UUID hs)) = Inr (map (Some \<circ> answer) hs)"
    and "\<And>h. h \<in> set hs \<Longrightarrow> sgh_Uuid (answer h) = h_UUID h \<and> h_UUID h \<noteq> [] \<and> extract_ips cfg (answer h) \<noteq> []"
  shows "\<exists>result s'. SyncAllHosts listHosts cfg s = ((result, None), s') \<and>
    hsr_SyncedHostUUIDs result = [] \<and> hsr_FailedUUIDs result = map h_UUID hs \<and>
    after_update (hd hs) (extract_ips cfg (answer (hd hs))) s'"
proof -
  let ?t = "GetHosts (reg_db (rv_reg s))"
  obtain h1 h2 rest where list: "hs = h1 # h2 # rest" using assms(4) by (cases hs; cases "tl hs") auto
  have stored: "map_of ?t (Key h) = Some h" if "h \<in> set hs" for h
  proof -
    from that obtain k where "(k, h) \<in> set ?t" unfolding hs by auto
    moreover from this assms(2) have "k = Key h" by (auto simp: table_ok_def)
    ultimately show ?thesis using assms(2) unfolding table_ok_def by (metis map_of_is_SomeI)
  qed
  have "hs \<noteq> []" unfolding list by simp
  have mem: "h1 \<in> set hs" "h2 \<in> set hs" unfolding list by simp_all
  have "h_UUID h1 \<noteq> h_UUID h2" using assms(6) unfolding list by simp
  hence "Key h1 \<noteq> Key h2" using stored [OF mem(1)] stored [OF mem(2)] by (metis option.inject)
  define s1 where "s1 = s\<lparr>rv_queries := rv_queries s @ [ListByUuid (map h_UUID hs)]\<rparr>"
  define r0 where "r0 = SetTotalRequested (int (length hs)) NewHostSyncResult"
  have prepared: "fold (prepare_update cfg (host_map_of hs) (sgroup_host_map (map (Some \<circ> answer) hs))) (map h_UUID hs) (r0, []) =
      (r0, map (update_for cfg answer) hs)" using assms(6,9) by (rule prepare_known)
  obtain e s2 where updated: "UpdateHostsIPSet (map (update_for cfg answer) hs) s1 = (Some e, s2)"
    "after_update h1 (extract_ips cfg (answer h1)) s2"
    using update_several [of s1 h1 h2 "update_for cfg answer h1" "update_for cfg answer h2" "map (update_for cfg answer) rest"]
      assms(1) assms(7) [OF mem(1)] assms(7) [OF mem(2)] stored [OF mem(1)] \<open>Key h1 \<noteq> Key h2\<close>
    by (auto simp: list s1_def update_for_def)
  define r1 where
    "r1 = fold (\<lambda>u. AddFailedHost (hiu_HostUUID u) (''update failed: '' @ error_text e)) (map (update_for cfg answer) hs) r0"
  have "syncHostBatch listHosts cfg (host_map_of hs) (map h_UUID hs) s = ((r1, Some e), s2)"
    using prepared updated(1) assms(8) \<open>hs \<noteq> []\<close>
    by (simp add: syncHostBatch_def GetHostsByUUIDs_def client_ListHosts_def r0_def [symmetric] s1_def [symmetric] r1_def Let_def)
  hence run: "SyncAllHosts listHosts cfg s = ((mergeBatchResult r1 r0, None), s2)"
    using \<open>hs \<noteq> []\<close> single_batch [of "map h_UUID hs" "hsc_BatchSize cfg"] assms(5)
    by (simp add: SyncAllHosts_def listed_without_ips [OF assms(1)] hs [symmetric] sync_batches_def r0_def [symmetric])
  have r0: "hsr_SyncedHostUUIDs r0 = []" "hsr_FailedUUIDs r0 = []" by (simp_all add: r0_def SetTotalRequested_def NewHostSyncResult_def)
  hence r1: "hsr_SyncedHostUUIDs r1 = []" "hsr_FailedUUIDs r1 = map h_UUID hs"
    by (simp_all add: r1_def fold_failed update_for_def comp_def)
  have "hd hs = h1" by (simp add: list)
  with run updated(2) r0 show ?thesis by (simp add: merge_failed r1)
qed

definition host_a :: host where "host_a = NewHost ''a'' ''ns'' ''uuid-a''"
definition host_b :: host where "host_b = NewHost ''b'' ''ns'' ''uuid-b''"

definition sgroup_answer :: "host \<Rightarrow> sg_host" where
  "sgroup_answer h = (Host_ToSGroupsProto h)\<lparr>sgh_IpList := Some [''10.0.0.1'', ''nonsense'']\<rparr>"

definition two_hosts :: rev_state where
  "two_hosts = \<lparr> rv_reg = NewRegistry\<lparr>reg_db := SetHosts [(''ns/a'', host_a), (''ns/b'', host_b)] NewMemDB\<rparr>,
     rv_env = ticking 1, rv_queries = [] \<rparr>"

definition sgroup_with_both :: sgroup_hosts where
  "sgroup_with_both = (\<lambda>qs req. Inr (map (Some \<circ> sgroup_answer) [host_a, host_b]))"

lemma sample_hosts [simp]:
  "Name host_a = ''a''" "Namespace host_a = ''ns''" "h_UUID host_a = ''uuid-a''" "h_IpList host_a = []"
  "Name host_b = ''b''" "Namespace host_b = ''ns''" "h_UUID host_b = ''uuid-b''" "h_IpList host_b = []"
  by (simp_all add: host_a_def host_b_def NewHost_def)

lemma two_hosts_stored:
  "GetHosts (reg_db (rv_reg two_hosts)) = [(Key host_a, host_a), (Key host_b, host_b)]" "\<not> reg_closed (rv_reg two_hosts)"
  by (simp_all add: two_hosts_def db_access_defs NewRegistry_def Key_def)

lemma sample_ips: "extract_ips DefaultHostSyncConfig (sgroup_answer h) = [''10.0.0.1'']"
proof -
  have "isValidIP ''10.0.0.1''" "\<not> isValidIP ''nonsense''" by code_simp+
  thus ?thesis by (simp add: extract_ips_def sgroup_answer_def DefaultHostSyncConfig_def)
qed

theorem reverse_sync_wipes_hosts_witness:
  "\<exists>result s'. SyncAllHosts sgroup_with_both DefaultHostSyncConfig two_hosts = ((result, None), s') \<and>
     hsr_SyncedHostUUIDs result = [] \<and> hsr_FailedUUIDs result = [''uuid-a'', ''uuid-b''] \<and> after_update host_a [''10.0.0.1''] s'"
proof -
  have ok: "table_ok (GetHosts (reg_db (rv_reg two_hosts)))" by (simp add: two_hosts_stored table_ok_def Key_def)
  have lacking: "[host_a, host_b] = filter (\<lambda>h. h_IpList h = []) (map snd (GetHosts (reg_db (rv_reg two_hosts))))"
    by (simp add: two_hosts_stored)
  have names: "addressable h" if "h \<in> set [host_a, host_b]" for h using that by (auto simp: addressable_def)
  have known: "sgh_Uuid (sgroup_answer h) = h_UUID h \<and> h_UUID h \<noteq> [] \<and> extract_ips DefaultHostSyncConfig (sgroup_answer h) \<noteq> []"
    if "h \<in> set [host_a, host_b]" for h using that by (auto simp: sample_ips) (simp_all add: sgroup_answer_def Host_ToSGroupsProto_def)
  have size: "2 \<le> length [host_a, host_b]" "int (length [host_a, host_b]) \<le> hsc_BatchSize DefaultHostSyncConfig"
    "distinct (map h_UUID [host_a, host_b])" by (simp_all add: DefaultHostSyncConfig_def)
  have answered: "sgroup_with_both (rv_queries two_hosts) (ListByUuid (map h_UUID [host_a, host_b])) =
      Inr (map (Some \<circ> sgroup_answer) [host_a, host_b])" by (simp add: sgroup_with_both_def)
  show ?thesis
    using reverse_sync_wipes_hosts [where answer = sgroup_answer and listHosts = sgroup_with_both, OF two_hosts_stored(2) ok lacking size names answered known]
    by (simp add: sample_ips)
qed

section \<open>The detector\<close>

lemma timestamp_keeps: "dt_maxRetries (fst (on_timestamp f t ds)) = dt_maxRetries (fst ds)"
  by (simp add: on_timestamp_def Let_def split: prod.split option.split)

lemma timestamps_keep: "dt_maxRetries (fst (fold (on_timestamp f) ts ds)) = dt_maxRetries (fst ds)"
  by (induction ts arbitrary: ds) (simp_all add: timestamp_keeps)

lemma monitor_stays_stopped: "dt_cancelled (fst ds) \<Longrightarrow> monitorChanges f n cs ds = ds"
  by (cases cs) simp_all

lemma connection_keeps: "dt_maxRetries (fst (snd (connectToStream f c ds))) = dt_maxRetries (fst ds)"
  by (auto simp: connectToStream_def timestamps_keep split: connection.split prod.split) (metis fst_conv timestamps_keep)

lemma connection_ends: "fst (connectToStream f c ds) = None \<Longrightarrow> dt_cancelled (fst (snd (connectToStream f c ds)))"
  by (auto simp: connectToStream_def split: connection.splits prod.splits)

lemma monitor_take:
  assumes "0 \<le> n" "n < dt_maxRetries (fst ds)"
  shows "monitorChanges f n cs ds = monitorChanges f n (take (nat (dt_maxRetries (fst ds) - n)) cs) ds"
  using assms
proof (induction cs arbitrary: n ds)
  case (Cons c cs)
  define k where "k = nat (dt_maxRetries (fst ds) - (n + 1))"
  have k: "nat (dt_maxRetries (fst ds) - n) = Suc k" using Cons.prems by (simp add: k_def)
  obtain r ds' where conn: "connectToStream f c ds = (r, ds')" by (cases "connectToStream f c ds")
  have same: "dt_maxRetries (fst ds') = dt_maxRetries (fst ds)" using connection_keeps [of f c ds] by (simp add: conn)
  show ?case
  proof (cases r)
    case None
    hence "dt_cancelled (fst ds')" using connection_ends [of f c ds] by (simp add: conn)
    with None show ?thesis by (simp add: k conn monitor_stays_stopped)
  next
    case (Some e)
    show ?thesis
    proof (cases "n + 1 \<ge> dt_maxRetries (fst ds)")
      case False
      hence "monitorChanges f (n + 1) cs ds' = monitorChanges f (n + 1) (take k cs) ds'"
        using Cons.IH [of "n + 1" ds'] Cons.prems by (simp add: same k_def)
      with Some show ?thesis by (simp add: k conn)
    qed (use Some Cons.prems in \<open>simp add: k conn\<close>)
  qed
qed simp

text \<open>
  With a limit on reconnections the detector uses at most that many connections, however
  long each of them lasted and whatever it delivered.
\<close>
theorem reconnections_never_reset:
  assumes "0 < dt_maxRetries d"
  shows "monitorChanges onChange 0 connections (d, s) =
    monitorChanges onChange 0 (take (nat (dt_maxRetries d)) connections) (d, s)"
  using monitor_take [of 0 "(d, s)"] assms by simp

text \<open>A handler that records the time stamps it is told.\<close>

definition recorded :: "unit \<Rightarrow> int \<Rightarrow> string \<Rightarrow> int list \<Rightarrow> error option \<times> int list" where
  "recorded h t source seen = (None, seen @ [t])"

definition two_retries :: "unit detector" where
  "two_retries = snd (detector_Start (snd (detector_Subscribe (Some ()) (NewSGROUPChangeDetector 2 []))))"

theorem reconnections_never_reset_witness:
  "0 < dt_maxRetries two_retries \<and>
   snd (monitorChanges recorded 0
     [StreamClosed [Some 1, Some 5, Some 3], StreamClosed [None, Some 5, Some 8], StreamClosed [Some 9]] (two_retries, [])) = [1, 5, 8]"
proof -
  have max: "dt_maxRetries two_retries = 2"
    by (simp add: two_retries_def detector_Start_def detector_Subscribe_def NewSGROUPChangeDetector_def Let_def)
  have "snd (monitorChanges recorded 0 [StreamClosed [Some 1, Some 5, Some 3], StreamClosed [None, Some 5, Some 8]] (two_retries, []))
      = [1, 5, 8]" by code_simp
  with reconnections_never_reset [of two_retries recorded
      "[StreamClosed [Some 1, Some 5, Some 3], StreamClosed [None, Some 5, Some 8], StreamClosed [Some 9]]" "[]"] max
  show ?thesis by simp
qed

end
