(* ===== verification/Spec2Isabelle.thy ===== *)
theory Spec2Isabelle
  imports AggregationProperties StoreProperties ValidationProperties PipelineProperties RuleProperties
    AdmissionProperties NetworkProperties AddressGroupService MappingProperties HostProperties
    ValidationService ApiProperties ReverseProperties
begin

text \<open>
  Verification of the Netguard PG backend, which stores the resources of a network security
  system (services, address groups, bindings between them, rules between services, networks
  and hosts), validates requests against what is stored, and derives from the rules between
  services the rules between address groups that are pushed to the external SGROUP system.

  \<^bold>\<open>Parts and how they interact.\<close> A request handler opens a writer on a repository, asks a
  validator whether the object may be created, changed or deleted, writes it and commits. A
  reader on the repository serves the validators and the rule engine. When rules, services or
  bindings change, the rule engine aggregates all Ready rules into address group rules,
  compares them with the stored ones and writes the difference. The API layers convert between
  wire formats and the domain models.

  \<^bold>\<open>Theories.\<close>
  \<^item> \<^verbatim>\<open>Prelude\<close>: error values and their texts, listings with a callback, and the string and
    number functions of Go's library that the code uses.
  \<^item> \<^verbatim>\<open>Models\<close>, \<^verbatim>\<open>Resources\<close> (\<^verbatim>\<open>internal/domain/models\<close>, \<^verbatim>\<open>ports\<close>): identifiers and keys,
    metadata, conditions, the twelve resource kinds as records extending one resource record,
    scopes and synchronisation operations. The clock and the UUID source are an environment
    that is read step by step.
  \<^item> \<^verbatim>\<open>PortUtils\<close> (\<^verbatim>\<open>validation/port_utils.go\<close> and the printers of port ranges): parser,
    printer, validator, overlap check.
  \<^item> \<^verbatim>\<open>MemStore\<close>, \<^verbatim>\<open>MemSystem\<close>, \<^verbatim>\<open>MemReader\<close> (\<^verbatim>\<open>repositories/mem\<close>): database, writer and
    reader. A Go map is an association list without repeated keys; iteration visits it in
    list order. Locales \<open>table_sync\<close>, \<open>table_sync_meta\<close>, \<open>store_kind\<close> and \<open>reader_kind\<close> state
    what one table, one stored kind and one read kind promise, and are interpreted for each
    of the twelve kinds. \<open>mem_step\<close> interleaves any number of writers.
  \<^item> \<^verbatim>\<open>BaseValidation\<close>, \<^verbatim>\<open>ServiceValidation\<close>, \<^verbatim>\<open>PortConflicts\<close>, \<^verbatim>\<open>BindingValidation\<close>,
    \<^verbatim>\<open>RuleValidation\<close>, \<^verbatim>\<open>Cidr\<close>, \<^verbatim>\<open>NetworkValidation\<close> (\<^verbatim>\<open>internal/application/validation\<close>): the
    validators, over any reader. A check returns an optional error.
  \<^item> \<^verbatim>\<open>Sha256\<close>, \<^verbatim>\<open>RuleAggregation\<close>, \<^verbatim>\<open>RuleEngine\<close>, \<^verbatim>\<open>AggregationFacts\<close>
    (\<^verbatim>\<open>services/resources/rules2s_resource_service.go\<close>): which rules contribute to an address
    group pair, names of generated rules, generation, comparison and execution on the
    in-memory registry.
  \<^item> \<^verbatim>\<open>Integrity\<close>: validation and storage together. \<^verbatim>\<open>Samples\<close>: concrete objects for witnesses.
  \<^item> \<^verbatim>\<open>ProtoMessages\<close> (\<^verbatim>\<open>protos/api/netguard/api.proto\<close>), \<^verbatim>\<open>ApiConversions\<close>
    (\<^verbatim>\<open>internal/api/netguard/service.go\<close>), \<^verbatim>\<open>ClientConversions\<close>
    (\<^verbatim>\<open>internal/k8s/client/converters.go\<close> and the end of \<^verbatim>\<open>grpc.go\<close>), \<^verbatim>\<open>K8sObjects\<close>
    (\<^verbatim>\<open>apis/netguard/v1beta1/types.go\<close>), \<^verbatim>\<open>K8sConversions\<close> (\<^verbatim>\<open>k8s/registry/convert\<close>): the three
    layers of conversions an object passes on its way between the API server and the backend.
    A conversion that panics on a nil message returns \<open>None\<close>. \<^verbatim>\<open>ApiPipeline\<close>, \<^verbatim>\<open>PipelinePorts\<close>:
    locale \<open>api_conversions\<close> states what the four conversions of one kind promise together, with
    an interpretation for each of the twelve kinds.
  \<^item> \<^verbatim>\<open>ConditionManager\<close>, \<^verbatim>\<open>RuleHandlers\<close> (\<^verbatim>\<open>services/condition_manager.go\<close>,
    \<^verbatim>\<open>rules2s_resource_service.go\<close>, \<^verbatim>\<open>netguard_facade.go\<close>): what happens after a commit, the
    handlers of requests on rules and the mutex around them. The state \<open>backend\<close> adds the batch
    of conditions, the calls for address groups and the mutex to the engine. A call that waits
    for ever is \<open>None\<close>. \<^verbatim>\<open>ConditionFacts\<close>: locales \<open>condition_check\<close> and \<open>saving_check\<close> state what
    the checks of one kind report and when they save, with an interpretation for each kind.
    \<^verbatim>\<open>RuleLiveness\<close>: what the handlers leave alone.
  \<^item> \<^verbatim>\<open>FieldValidation\<close>, \<^verbatim>\<open>Admission\<close>, \<^verbatim>\<open>Mutation\<close> (\<^verbatim>\<open>k8s/registry/validation\<close>,
    \<^verbatim>\<open>k8s/admission\<close>): the field checks of the API objects and the admission webhooks. Paths and
    errors of fields are free data, a check is a list of errors. Parameters are the name checks
    of the Kubernetes library, JSON decoding, the joined text of errors and the reader.
    \<^verbatim>\<open>AdmissionFacts\<close>: what the checks accept, as predicates; locale \<open>blind_review\<close>, interpreted
    for the ten handlers, states which fields a handler does not read.
  \<^item> \<^verbatim>\<open>SyncUtils\<close>, \<^verbatim>\<open>NetworkServices\<close> (\<^verbatim>\<open>application/utils\<close>, \<^verbatim>\<open>network_resource_service.go\<close>,
    \<^verbatim>\<open>network_binding_resource_service.go\<close>): retries and debouncing, and the services of
    networks and their bindings; the state \<open>net_state\<close> adds the trackers and the calls for networks
    to the backend. \<^verbatim>\<open>NetworkFacts\<close>: each operation as a change of the maps of networks,
    bindings and address groups, and the links between these maps.
  \<^item> \<^verbatim>\<open>PortMappings\<close>, \<^verbatim>\<open>BindingService\<close>, \<^verbatim>\<open>AddressGroupService\<close>
    (\<^verbatim>\<open>address_group_resource_service.go\<close>), \<^verbatim>\<open>ServiceService\<close> (\<^verbatim>\<open>service_resource_service.go\<close>):
    generation of the port mapping of a group from the stored bindings and services, and the
    requests on bindings, mappings, policies, address groups, services and aliases, on the
    \<open>backend\<close>. Requests that notify the rule service may wait for ever and return an option.
    \<^verbatim>\<open>GeneratedMappings\<close>: the reference for a generated mapping, on the maps of services and
    bindings. \<^verbatim>\<open>TableFrames\<close>: locale \<open>quiet_table\<close> states that the rule service keeps a table, and
    is interpreted for mappings, bindings and services. \<^verbatim>\<open>MappingFacts\<close>: each request as a change
    of these three maps.
  \<^item> \<^verbatim>\<open>HostServices\<close> (\<^verbatim>\<open>host_resource_service.go\<close>, \<^verbatim>\<open>host_binding_resource_service.go\<close>): hosts and
    their bindings; the state \<open>host_state\<close> adds the tracker of hosts and the calls to the external
    system, in order, to \<open>net_state\<close>. \<open>None\<close> is a panic. \<^verbatim>\<open>HostFacts\<close>: each request as a change of
    the maps of hosts and bindings.
  \<^item> \<^verbatim>\<open>ValidationService\<close> (\<^verbatim>\<open>services/resources/validation_service.go\<close>): checks that open a reader
    and ask the validator of a kind, single and in batches.
  \<^item> \<^verbatim>\<open>ApiHandlers\<close> (\<^verbatim>\<open>internal/api/netguard/service.go\<close>): the handlers of the gRPC service, which
    compose the conversions with the facade, and the reads of the facade.
  \<^item> \<^verbatim>\<open>ExternalSync\<close>, \<^verbatim>\<open>SyncManager\<close> (\<^verbatim>\<open>internal/sync\<close>: \<^verbatim>\<open>clients\<close>, \<^verbatim>\<open>syncers\<close>, \<^verbatim>\<open>utils\<close>,
    \<^verbatim>\<open>manager/sync_manager.go\<close>): the messages for the SGROUP service, the client, the four syncers,
    debouncing, retries and the manager. The state is the tracker and the list of requests sent;
    the answers of the service to them are a parameter. Locale \<open>subject_syncer\<close> states what a
    syncer sends and is interpreted for the four of them. The resource services above call this
    manager through its interface, with its outcome as a parameter.
  \<^item> \<^verbatim>\<open>ReverseSync\<close> (\<^verbatim>\<open>internal/sync\<close>: \<^verbatim>\<open>adapters\<close>, \<^verbatim>\<open>synchronizer\<close>, \<^verbatim>\<open>processors\<close>, \<^verbatim>\<open>detector\<close>):
    the copying of host addresses from the service into the in-memory registry, and the detector
    of changes as a function of the connections it makes.

  \<^bold>\<open>What the lemmas show.\<close> \<^verbatim>\<open>StoreProperties\<close>: every method of the writer refines an abstract
  operation on the map from keys to objects; all reachable states are well formed; writers on
  different kinds commute and writers on one kind overwrite each other; listings and look-ups
  agree. \<^verbatim>\<open>ValidationProperties\<close>: each check accepts exactly what it should, or what it misses.
  \<^verbatim>\<open>AggregationProperties\<close>: the generation refines a function of the stored objects, is sound
  and complete for Ready rules, and its operations lead to the fresh rules; where it deviates
  from its intent. This theory: creations keep uniqueness, deletions keep references.
  \<^verbatim>\<open>PipelineProperties\<close>: what an object keeps and loses when it is read and written back
  through the API server, what a creation loses, which requests panic.
  \<^verbatim>\<open>ConditionProperties\<close>: what the conditions report and when they are saved.
  \<^verbatim>\<open>RuleProperties\<close>: which requests on rules return.
  \<^verbatim>\<open>AdmissionProperties\<close>: what the field checks and webhooks accept, what they let through that
  the backend rejects, which deletions they block and which patches apply.
  \<^verbatim>\<open>NetworkProperties\<close>: requests on network bindings keep bindings, networks and address groups
  linked; which requests break the links.
  \<^verbatim>\<open>MappingProperties\<close>: the generated mapping of a group lists exactly the bound services with
  their ports; what creations and full synchronisations of bindings and deletions of services
  leave of the stored mappings and services; when ports count as changed.
  \<^verbatim>\<open>HostProperties\<close>: when a host binding can be created or deleted, and what becomes of the host.
  \<^verbatim>\<open>ApiProperties\<close>: a binding that is sent through the gRPC service is stored, read back and,
  unless ports overlap, published in the mapping of its group.
  \<^verbatim>\<open>SyncProperties\<close>: the debouncing refines one that looks through all admitted calls; what an
  admitted synchronisation and a batch send; which synchronisations are lost.
  \<^verbatim>\<open>ReverseProperties\<close>: what the reverse synchronisation leaves in the registry, and how many
  connections the detector makes.

  \<^bold>\<open>Bounds.\<close> The retry loop of the existence check runs at most \<open>maxRetries = 3\<close> times, which is
  the bound of the code; the retry loop around the external system makes three attempts, as the
  code does. Integers are Go's 64-bit integers; \<open>atoi\<close> rejects what does not fit,
  and no modelled computation leaves the range. No other loop needs fuel: all recurse on their
  input.

  \<^bold>\<open>Not modelled.\<close> Logging, contexts, timeouts and pauses. The PostgreSQL repository (SQL run by
  a server), connections to SGROUP and the dispatch of its change events, start-up and wiring,
  REST storage of the API
  server, the calls of its gRPC client, and generated code. The order in which Go ranges over a
  map is fixed to that of the model; statements do not depend on it, being about sets of keys and objects, except for
  which of several errors is reported first. Aliasing of Go maps between a committed writer
  and the database, which arises only when a writer is used again after its commit, and sharing
  of slices between an object and its stored copy: a stored object changes only by a commit.
  The states between the tables during a commit, which locks one table at a time. The reader of the
  webhook's gRPC client, which is a parameter. White space beyond ASCII. The panic of
  \<^verbatim>\<open>generateRuleName\<close> on a direction of fewer than three characters is told by
  \<open>generateRuleName_panics\<close>, and the statement that requests on rules return excludes such
  directions; the generation itself is modelled by the value the code has on longer ones.
\<close>

section \<open>Validation and storage together\<close>

lemma ex_rule_accepted:
  "RuleS2SValidator_ValidateForCreation (mem_reader (committed ex_db)) ((ex_rule ''r2'' ''web'' ''web'')\<lparr>rs_Traffic := ''EGRESS''\<rparr>) = None"
  by code_simp

lemma ex_network_accepted:
  "NetworkValidator_ValidateForCreation (mem_reader (committed ex_db)) (ex_network ''n2'' ''10.0.1.0/24'') = None"
  by code_simp

lemma ex_binding_ok:
  "AddressGroupBindingValidator_ValidateForCreation (mem_reader (committed ex_db)) (ex_binding ''b1'' ''web'' ''front'') = None"
  by code_simp

lemma ex_group_ok:
  "validateHostExclusivity (mem_reader (committed ex_db)) (ag_Hosts (ex_group ''back'')) (self_id (ex_group ''back'')) = None"
  by code_simp

text \<open>
  C16: Creating an accepted object keeps the database free of duplicates: no two rules of the same
  direction between the same services, no two bindings of a service to an address group, no
  two networks with the same CIDR, no host in two address groups of a namespace.\<close>
theorem creation_keeps_uniqueness:
  assumes "db_good db"
    and "unique_by same_rule_spec (GetRuleS2S db)"
    and "unique_by same_binding_refs (GetAddressGroupBindings db)"
    and "unique_by (\<lambda>a b. nw_CIDR a = nw_CIDR b) (GetNetworks db)"
    and "unique_by share_host (GetAddressGroups db)"
    and "RuleS2SValidator_ValidateForCreation (mem_reader (committed db)) r = None"
    and "AddressGroupBindingValidator_ValidateForCreation (mem_reader (committed db)) b = None"
    and "NetworkValidator_ValidateForCreation (mem_reader (committed db)) n = None"
    and "validateHostExclusivity (mem_reader (committed db)) (ag_Hosts g) (self_id g) = None"
  shows "unique_by same_rule_spec
      (GetRuleS2S (fst (Commit e' db (fst (SyncRuleS2S e db [r] sc upsert_opts empty_writer))))) \<and>
    unique_by same_binding_refs
      (GetAddressGroupBindings (fst (Commit e' db (fst (SyncAddressGroupBindings e db [b] sc upsert_opts empty_writer))))) \<and>
    unique_by (\<lambda>a b. nw_CIDR a = nw_CIDR b)
      (GetNetworks (fst (Commit e' db (fst (SyncNetworks e db [n] sc upsert_opts empty_writer))))) \<and>
    unique_by share_host
      (GetAddressGroups (fst (Commit e' db (fst (SyncAddressGroups e db [g] sc upsert_opts empty_writer)))))"
  using assms
  by (intro conjI rule_creation_unique binding_creation_unique network_creation_unique group_upsert_unique)

theorem creation_keeps_uniqueness_witness:
  "unique_by (\<lambda>a b. nw_CIDR a = nw_CIDR b)
      (GetNetworks (fst (Commit ex_env ex_db (fst (SyncNetworks ex_env ex_db
         [ex_network ''n2'' ''10.0.1.0/24''] None upsert_opts empty_writer)))))"
proof -
  have "unique_by same_rule_spec (GetRuleS2S ex_db)" "unique_by same_binding_refs (GetAddressGroupBindings ex_db)"
    "unique_by (\<lambda>a b. nw_CIDR a = nw_CIDR b) (GetNetworks ex_db)" "unique_by share_host (GetAddressGroups ex_db)"
    by (simp_all add: unique_by_def ex_tables)
  from creation_keeps_uniqueness [OF ex_db_good this ex_rule_accepted ex_binding_ok ex_network_accepted ex_group_ok]
  show ?thesis by blast
qed

text \<open>
  C17: Deleting what the dependency checks allow keeps three kinds of references resolved: after the
  deletion of a service, the service references of aliases; after that of an address group, the
  group references of bindings; after that of a network, the network references of network
  bindings (for names without a slash). Other references can be left dangling by an allowed
  deletion: the check of a service does not look at the bindings that refer to it.\<close>
theorem deletion_keeps_references:
  assumes "aliases_resolved db" and "ServiceValidator_CheckDependencies (mem_reader (committed db)) i = None"
    and "bindings_resolved db" and "AddressGroupValidator_CheckDependencies (mem_reader (committed db)) j = None"
    and "networks_resolved db" and "NetworkValidator_CheckDependencies (mem_reader (committed db)) k = None"
    and "slash_free k"
    and "list_all (\<lambda>(_, b). slash_free (ResourceIdentifier (ref_Name (nb_NetworkRef b)) (Namespace b)))
      (GetNetworkBindings db)"
  shows "aliases_resolved (fst (Commit e db (DeleteServicesByIDs db [i] empty_writer))) \<and>
    bindings_resolved (fst (Commit e db (DeleteAddressGroupsByIDs db [j] empty_writer))) \<and>
    networks_resolved (fst (Commit e db (DeleteNetworksByIDs db [k] empty_writer)))"
  using assms
  by (intro conjI service_delete_resolved group_delete_resolved network_delete_resolved)
    (auto simp: list_all_iff)

text \<open>An alias of one service, a binding of another one to a group; a third service, the other group and a network can go.\<close>

definition ex_linked_db :: mem_db where
  "ex_linked_db = NewMemDB\<lparr>
     db_services := [(''app/web'', ex_service ''web'' [] [''80'']), (''app/old'', ex_service ''old'' [] [])],
     db_serviceAliases := [(''app/a'', \<lparr> Name = ''a'', Namespace = ''app'', Meta = ex_meta, sa_ServiceRef = ex_ref ''web'' \<rparr>)],
     db_addressGroups := [(''app/front'', ex_group ''front''), (''app/back'', ex_group ''back'')],
     db_addressGroupBindings := [(''app/b'', ex_binding ''b'' ''web'' ''front'')],
     db_networks := [(''app/n1'', ex_network ''n1'' ''10.0.0.0/24'')]\<rparr>"

theorem deletion_keeps_references_witness:
  "aliases_resolved (fst (Commit ex_env ex_linked_db (DeleteServicesByIDs ex_linked_db [ResourceIdentifier ''old'' ''app''] empty_writer))) \<and>
   bindings_resolved (fst (Commit ex_env ex_linked_db (DeleteAddressGroupsByIDs ex_linked_db [ResourceIdentifier ''back'' ''app''] empty_writer))) \<and>
   networks_resolved (fst (Commit ex_env ex_linked_db (DeleteNetworksByIDs ex_linked_db [ResourceIdentifier ''n1'' ''app''] empty_writer)))"
proof -
  have "aliases_resolved ex_linked_db" "bindings_resolved ex_linked_db"
    "networks_resolved ex_linked_db"
    by (simp_all add: aliases_resolved_def bindings_resolved_def networks_resolved_def
        ex_linked_db_def NewMemDB_def db_access_defs)
      (simp_all add: ex_defs sa_ServiceRefKey_def agb_AddressGroupRefKey_def method_RefKey_def)
  moreover have "ServiceValidator_CheckDependencies (mem_reader (committed ex_linked_db)) (ResourceIdentifier ''old'' ''app'') = None"
    "AddressGroupValidator_CheckDependencies (mem_reader (committed ex_linked_db)) (ResourceIdentifier ''back'' ''app'') = None"
    "NetworkValidator_CheckDependencies (mem_reader (committed ex_linked_db)) (ResourceIdentifier ''n1'' ''app'') = None"
    by code_simp+
  moreover have "GetNetworkBindings ex_linked_db = []" by (simp add: ex_linked_db_def NewMemDB_def db_access_defs)
  ultimately show ?thesis
    using deletion_keeps_references [of ex_linked_db "ResourceIdentifier ''old'' ''app''" "ResourceIdentifier ''back'' ''app''"
        "ResourceIdentifier ''n1'' ''app''" ex_env]
    by (simp add: slash_free_def)
qed

end
